(* ===== verification/Prelude.thy ===== *)
theory Prelude
  imports Main
begin

text \<open>
  Shared vocabulary of the development: Rust results as sums, checked machine
  integers, UTF-8 text as code points, 128-bit identifiers, first-match
  operations on vectors, and the two machine interfaces (an operation that
  leaves its state alone when it fails; an operation guarded by a revision
  counter) that the stateful components are proved to implement.
\<close>

named_theorems result_simps \<open>when a fallible computation returns \<open>Ok\<close>\<close>
named_theorems text_simps \<open>facts on trimmed and measured text\<close>

subsection \<open>Results\<close>

text \<open>
  \<open>Result<T, E>\<close> is \<open>'e + 'a\<close> with \<open>Inl\<close> for \<open>Err\<close>. The \<open>?\<close> operator is
  \<open>and_then\<close>, \<open>Option::ok_or\<close> is \<open>ok_or\<close>, and an early return under a condition
  is an \<open>if\<close> of the model.
\<close>

definition and_then :: "'e + 'a \<Rightarrow> ('a \<Rightarrow> 'e + 'b) \<Rightarrow> 'e + 'b" where
  "and_then r f = (case r of Inl e \<Rightarrow> Inl e | Inr x \<Rightarrow> f x)"

definition ok_or :: "'e \<Rightarrow> 'a option \<Rightarrow> 'e + 'a" where
  "ok_or e x = (case x of None \<Rightarrow> Inl e | Some v \<Rightarrow> Inr v)"

definition map_err :: "('e \<Rightarrow> 'f) \<Rightarrow> 'e + 'a \<Rightarrow> 'f + 'a" where
  "map_err g r = (case r of Inl e \<Rightarrow> Inl (g e) | Inr x \<Rightarrow> Inr x)"

definition is_ok :: "'e + 'a \<Rightarrow> bool" where
  "is_ok r = (case r of Inl _ \<Rightarrow> False | Inr _ \<Rightarrow> True)"

definition ok_opt :: "'e + 'a \<Rightarrow> 'a option" where
  "ok_opt r = (case r of Inl _ \<Rightarrow> None | Inr x \<Rightarrow> Some x)"

fun map_res :: "('a \<Rightarrow> 'e + 'b) \<Rightarrow> 'a list \<Rightarrow> 'e + 'b list" where
  "map_res f [] = Inr []"
| "map_res f (x # xs) = and_then (f x) (\<lambda>y. and_then (map_res f xs) (\<lambda>ys. Inr (y # ys)))"

fun each_res :: "('a \<Rightarrow> 'e + unit) \<Rightarrow> 'a list \<Rightarrow> 'e + unit" where
  "each_res f [] = Inr ()"
| "each_res f (x # xs) = and_then (f x) (\<lambda>_. each_res f xs)"

definition traverse_opt :: "('a \<Rightarrow> 'e + 'b) \<Rightarrow> 'a option \<Rightarrow> 'e + 'b option" where
  "traverse_opt f x = (case x of None \<Rightarrow> Inr None | Some v \<Rightarrow> and_then (f v) (\<lambda>y. Inr (Some y)))"

definition is_some_and :: "('a \<Rightarrow> bool) \<Rightarrow> 'a option \<Rightarrow> bool" where
  "is_some_and f x = (case x of None \<Rightarrow> False | Some v \<Rightarrow> f v)"

definition is_none_or :: "('a \<Rightarrow> bool) \<Rightarrow> 'a option \<Rightarrow> bool" where
  "is_none_or f x = (case x of None \<Rightarrow> True | Some v \<Rightarrow> f v)"

definition filter_opt :: "('a \<Rightarrow> bool) \<Rightarrow> 'a option \<Rightarrow> 'a option" where
  "filter_opt f x = (case x of None \<Rightarrow> None | Some v \<Rightarrow> if f v then Some v else None)"

lemma is_some_and_simps [simp]:
  "\<not> is_some_and f None" "is_some_and f (Some v) = f v"
  by (simp_all add: is_some_and_def)

lemma is_none_or_simps [simp]:
  "is_none_or f None" "is_none_or f (Some v) = f v"
  by (simp_all add: is_none_or_def)

lemma is_some_and_iff: "is_some_and f x \<longleftrightarrow> (\<exists>v. x = Some v \<and> f v)"
  by (cases x) auto

lemma is_none_or_iff: "is_none_or f x \<longleftrightarrow> (\<forall>v. x = Some v \<longrightarrow> f v)"
  by (cases x) auto

lemma filter_opt_Some [simp]: "filter_opt f x = Some v \<longleftrightarrow> x = Some v \<and> f v"
  by (cases x) (auto simp: filter_opt_def)

lemma filter_opt_None: "filter_opt f x = None \<longleftrightarrow> (\<forall>v. x = Some v \<longrightarrow> \<not> f v)"
  by (cases x) (auto simp: filter_opt_def)

lemma and_then_simps [simp]:
  "and_then (Inl e) f = Inl e"
  "and_then (Inr x) f = f x"
  by (simp_all add: and_then_def)

lemma and_then_ok [result_simps]:
  "and_then r f = Inr y \<longleftrightarrow> (\<exists>x. r = Inr x \<and> f x = Inr y)"
  by (cases r) auto

lemma and_then_cong [cong]:
  assumes "r = r'" and "\<And>x. r' = Inr x \<Longrightarrow> f x = f' x"
  shows "and_then r f = and_then r' f'"
  using assms by (cases r') simp_all

lemma ok_or_simps [simp]:
  "ok_or e None = Inl e"
  "ok_or e (Some x) = Inr x"
  by (simp_all add: ok_or_def)

lemma ok_or_ok [result_simps]: "ok_or e x = Inr y \<longleftrightarrow> x = Some y"
  by (cases x) auto

lemma map_err_simps [simp]:
  "map_err g (Inl e) = Inl (g e)"
  "map_err g (Inr x) = Inr x"
  by (simp_all add: map_err_def)

lemma map_err_ok [result_simps]: "map_err g r = Inr y \<longleftrightarrow> r = Inr y"
  by (cases r) auto

lemma is_ok_simps [simp]: "\<not> is_ok (Inl e)" "is_ok (Inr x)"
  by (simp_all add: is_ok_def)

lemma is_ok_iff: "is_ok r \<longleftrightarrow> (\<exists>x. r = Inr x)"
  by (cases r) auto

lemma ok_opt_simps [simp]: "ok_opt (Inl e) = None" "ok_opt (Inr x) = Some x"
  by (simp_all add: ok_opt_def)

lemma if_err_ok [result_simps]:
  "(if b then Inl e else r) = Inr y \<longleftrightarrow> \<not> b \<and> r = Inr y"
  "(if b then r else Inl e) = Inr y \<longleftrightarrow> b \<and> r = Inr y"
  by auto

lemma case_option_err_ok [result_simps]:
  "(case z of None \<Rightarrow> Inl e | Some v \<Rightarrow> g v) = Inr y \<longleftrightarrow> (\<exists>v. z = Some v \<and> g v = Inr y)"
  by (cases z) auto

lemma traverse_opt_simps [simp]:
  "traverse_opt f None = Inr None"
  "traverse_opt f (Some v) = and_then (f v) (\<lambda>y. Inr (Some y))"
  by (simp_all add: traverse_opt_def)

lemma traverse_opt_ok [result_simps]:
  "traverse_opt f x = Inr y \<longleftrightarrow>
     (x = None \<and> y = None \<or> (\<exists>v w. x = Some v \<and> f v = Inr w \<and> y = Some w))"
  by (cases x) (auto simp: and_then_ok)

lemma map_res_ok: "map_res f xs = Inr ys \<longleftrightarrow> list_all2 (\<lambda>x y. f x = Inr y) xs ys"
proof (induction xs arbitrary: ys)
  case Nil
  then show ?case by auto
next
  case (Cons x xs)
  then show ?case by (cases ys) (auto simp: and_then_ok)
qed

lemma each_res_ok [result_simps]: "each_res f xs = Inr u \<longleftrightarrow> (\<forall>x\<in>set xs. f x = Inr ())"
  by (induction xs) (auto simp: and_then_ok)

subsection \<open>Checked machine integers\<close>

text \<open>
  \<open>i64\<close>, \<open>u32\<close> and \<open>u64\<close> values are integers with the bounds of their width written
  out; \<open>checked_add\<close> is \<open>None\<close> outside them. The unsigned additions are only ever
  applied to non-negative operands, so their lower bound never matters.
\<close>

definition i64_max :: int where "i64_max = 9223372036854775807"
definition i64_min :: int where "i64_min = -9223372036854775808"
definition u32_max :: int where "u32_max = 4294967295"
definition u64_max :: int where "u64_max = 18446744073709551615"

definition checked_add_i64 :: "int \<Rightarrow> int \<Rightarrow> int option" where
  "checked_add_i64 a b = (if i64_min \<le> a + b \<and> a + b \<le> i64_max then Some (a + b) else None)"

definition checked_add_u32 :: "int \<Rightarrow> int \<Rightarrow> int option" where
  "checked_add_u32 a b = (if a + b \<le> u32_max then Some (a + b) else None)"

definition checked_add_u64 :: "int \<Rightarrow> int \<Rightarrow> int option" where
  "checked_add_u64 a b = (if a + b \<le> u64_max then Some (a + b) else None)"

lemma checked_add_i64_Some [result_simps]:
  "checked_add_i64 a b = Some c \<longleftrightarrow> c = a + b \<and> i64_min \<le> a + b \<and> a + b \<le> i64_max"
  by (auto simp: checked_add_i64_def)

lemma checked_add_u32_Some [result_simps]:
  "checked_add_u32 a b = Some c \<longleftrightarrow> c = a + b \<and> a + b \<le> u32_max"
  by (auto simp: checked_add_u32_def)

lemma checked_add_u64_Some [result_simps]:
  "checked_add_u64 a b = Some c \<longleftrightarrow> c = a + b \<and> a + b \<le> u64_max"
  by (auto simp: checked_add_u64_def)

subsection \<open>Text\<close>

text \<open>
  A Rust \<open>String\<close> is a sequence of Unicode scalar values stored as UTF-8. The
  model keeps the scalar values (\<open>chars\<close>); \<open>len\<close> counts the UTF-8 bytes they
  take, \<open>trim\<close> removes the code points with the \<open>White_Space\<close> property at both
  ends, \<open>is_control\<close> is the general category Cc.
\<close>

type_synonym uchar = int
type_synonym ustr = "uchar list"

definition lit :: "string \<Rightarrow> ustr" where
  "lit s = map of_char s"

definition is_whitespace :: "uchar \<Rightarrow> bool" where
  "is_whitespace c \<longleftrightarrow> (9 \<le> c \<and> c \<le> 13) \<or> c = 32 \<or> c = 133 \<or> c = 160 \<or> c = 5760
     \<or> (8192 \<le> c \<and> c \<le> 8202) \<or> c = 8232 \<or> c = 8233 \<or> c = 8239 \<or> c = 8287 \<or> c = 12288"

definition is_control :: "uchar \<Rightarrow> bool" where
  "is_control c \<longleftrightarrow> c \<le> 31 \<or> (127 \<le> c \<and> c \<le> 159)"

definition utf8_width :: "uchar \<Rightarrow> int" where
  "utf8_width c = (if c < 128 then 1 else if c < 2048 then 2 else if c < 65536 then 3 else 4)"

definition utf8_len :: "ustr \<Rightarrow> int" where
  "utf8_len s = sum_list (map utf8_width s)"

definition trim :: "ustr \<Rightarrow> ustr" where
  "trim s = rev (dropWhile is_whitespace (rev (dropWhile is_whitespace s)))"

lemma lit_inject [simp]: "lit s = lit t \<longleftrightarrow> s = t"
  unfolding lit_def by (rule inj_map_eq_map) (auto intro: injI)

lemma length_le_utf8_len [text_simps]: "int (length s) \<le> utf8_len s"
  by (induction s) (auto simp: utf8_len_def utf8_width_def)

lemma trim_eq_Nil [text_simps]: "trim s = [] \<longleftrightarrow> (\<forall>c\<in>set s. is_whitespace c)"
proof
  assume "trim s = []"
  then have "\<forall>c\<in>set (dropWhile is_whitespace s). is_whitespace c"
    by (simp add: trim_def)
  moreover have "set s = set (takeWhile is_whitespace s) \<union> set (dropWhile is_whitespace s)"
    by (metis set_append takeWhile_dropWhile_id)
  ultimately show "\<forall>c\<in>set s. is_whitespace c" by (auto dest: set_takeWhileD)
next
  assume "\<forall>c\<in>set s. is_whitespace c"
  then show "trim s = []" by (auto simp: trim_def dest: set_dropWhileD)
qed

lemma trim_ends [text_simps]:
  assumes "trim s \<noteq> []"
  shows "\<not> is_whitespace (hd (trim s))" and "\<not> is_whitespace (last (trim s))"
proof -
  let ?d = "dropWhile is_whitespace s"
  let ?e = "dropWhile is_whitespace (rev ?d)"
  have ne: "?e \<noteq> []" using assms by (simp add: trim_def)
  have "last (trim s) = hd ?e" by (simp add: trim_def last_rev)
  then show "\<not> is_whitespace (last (trim s))" using hd_dropWhile [OF ne] by simp
  have d: "?d \<noteq> []" using ne by (metis dropWhile.simps(1) rev.simps(1))
  have "?d = rev ?e @ rev (takeWhile is_whitespace (rev ?d))"
    by (metis rev_append rev_rev_ident takeWhile_dropWhile_id)
  then have "hd ?d = hd (rev ?e)" using ne by (metis hd_append2 rev_is_Nil_conv)
  then show "\<not> is_whitespace (hd (trim s))" using hd_dropWhile [OF d] by (simp add: trim_def)
qed

lemma trim_idem [text_simps]: "trim (trim s) = trim s"
proof (cases "trim s = []")
  case True
  then show ?thesis by (simp only: True) (simp add: trim_def)
next
  case False
  from trim_ends [OF False] have "dropWhile is_whitespace (trim s) = trim s"
    "dropWhile is_whitespace (rev (trim s)) = rev (trim s)"
    using False by (cases "trim s", auto) (cases "rev (trim s)", auto simp: hd_rev [symmetric])
  then show ?thesis by (simp add: trim_def [of "trim s"])
qed

lemma set_trim: "set (trim s) \<subseteq> set s"
  by (auto simp: trim_def dest!: set_dropWhileD)

subsection \<open>Identifiers\<close>

text \<open>
  A \<open>Uuid\<close> is its 128-bit value read as an unsigned integer. The code only compares
  identifiers and reads the version number, the high nibble of byte 6.
\<close>

type_synonym uuid = int

text \<open>An \<open>OffsetDateTime\<close> as nanoseconds since the epoch.\<close>

type_synonym instant = int

definition get_version_num :: "uuid \<Rightarrow> int" where
  "get_version_num u = (u div 2 ^ 76) mod 16"

subsection \<open>First match in a vector\<close>

text \<open>
  \<open>iter().find(p)\<close> is the library's \<open>find\<close>; \<open>iter_mut().find(p)\<close> followed by an
  assignment replaces the first matching element; \<open>remove(position(p))\<close> drops it.
\<close>

fun update_first :: "('a \<Rightarrow> bool) \<Rightarrow> ('a \<Rightarrow> 'a) \<Rightarrow> 'a list \<Rightarrow> 'a list" where
  "update_first p f [] = []"
| "update_first p f (x # xs) = (if p x then f x # xs else x # update_first p f xs)"

fun remove_first :: "('a \<Rightarrow> bool) \<Rightarrow> 'a list \<Rightarrow> 'a list" where
  "remove_first p [] = []"
| "remove_first p (x # xs) = (if p x then xs else x # remove_first p xs)"

lemma find_Some_in: "find p xs = Some x \<Longrightarrow> x \<in> set xs \<and> p x"
  by (induction xs) (auto split: if_splits)

lemma find_append: "find p (xs @ ys) = (case find p xs of Some x \<Rightarrow> Some x | None \<Rightarrow> find p ys)"
  by (induction xs) auto

lemma find_is_Some: "find p xs \<noteq> None \<longleftrightarrow> (\<exists>x\<in>set xs. p x)"
  by (induction xs) auto

lemma find_distinct_key:
  "distinct (map k xs) \<Longrightarrow> x \<in> set xs \<Longrightarrow> find (\<lambda>y. k y = k x) xs = Some x"
  by (induction xs) (auto simp: image_iff)

lemma length_update_first [simp]: "length (update_first p f xs) = length xs"
  by (induction xs) auto

lemma map_update_first:
  "(\<And>x. x \<in> set xs \<Longrightarrow> g (f x) = g x) \<Longrightarrow> map g (update_first p f xs) = map g xs"
  by (induction xs) auto

lemma set_update_first:
  "y \<in> set (update_first p f xs) \<Longrightarrow> y \<in> set xs \<or> (\<exists>x. find p xs = Some x \<and> y = f x)"
  by (induction xs) (auto split: if_splits)

lemma nth_update_first:
  "i < length xs \<Longrightarrow> update_first p f xs ! i = xs ! i \<or>
     (p (xs ! i) \<and> update_first p f xs ! i = f (xs ! i))"
proof (induction xs arbitrary: i)
  case Nil
  then show ?case by simp
next
  case (Cons x xs)
  then show ?case by (cases i) auto
qed

lemma find_update_first_other:
  assumes "\<And>x. p x \<Longrightarrow> q (f x) = q x" and "\<And>x. p x \<Longrightarrow> \<not> q x"
  shows "find q (update_first p f xs) = find q xs"
  using assms by (induction xs) auto

lemma find_update_first_same:
  assumes "\<And>x. p x \<Longrightarrow> p (f x)"
  shows "find p (update_first p f xs) = map_option f (find p xs)"
  using assms by (induction xs) auto

lemma update_first_none: "find p xs = None \<Longrightarrow> update_first p f xs = xs"
  by (induction xs) (auto split: if_splits)

lemma set_remove_first: "set (remove_first p xs) \<subseteq> set xs"
  by (induction xs) auto

lemma map_filter_simps_set:
  "y \<in> set (List.map_filter f xs) \<longleftrightarrow> (\<exists>x\<in>set xs. f x = Some y)"
  by (induction xs) (auto simp: List.map_filter_simps split: option.splits)

lemma set_update_first_live:
  assumes "v \<in> set (update_first p f xs)" and "live v" and "\<And>x. \<not> live (f x)"
  shows "v \<in> set xs"
  using set_update_first [OF assms(1)] assms(2,3) by auto

text \<open>\<open>grown R xs ys\<close>: \<open>ys\<close> keeps every entry of \<open>xs\<close> in its place up to \<open>R\<close> and may append more.\<close>

definition grown :: "('a \<Rightarrow> 'a \<Rightarrow> bool) \<Rightarrow> 'a list \<Rightarrow> 'a list \<Rightarrow> bool" where
  "grown R xs ys \<longleftrightarrow> length xs \<le> length ys \<and> (\<forall>i<length xs. R (xs ! i) (ys ! i))"

lemma grown_refl: "(\<And>x. R x x) \<Longrightarrow> grown R xs xs"
  by (simp add: grown_def)

lemma grown_trans:
  assumes "grown R xs ys" and "grown R ys zs" and "\<And>x y z. R x y \<Longrightarrow> R y z \<Longrightarrow> R x z"
  shows "grown R xs zs"
  using assms(1,2) unfolding grown_def by (meson assms(3) le_trans less_le_trans)

lemma grown_append: "(\<And>x. R x x) \<Longrightarrow> grown R xs (xs @ ys)"
  by (simp add: grown_def nth_append)

lemma grown_update_first:
  assumes "\<And>x. R x x" and "\<And>x. x \<in> set xs \<Longrightarrow> p x \<Longrightarrow> R x (f x)"
  shows "grown R xs (update_first p f xs)"
  unfolding grown_def using assms nth_update_first [of _ xs p f] by (metis length_update_first nth_mem order_refl)

lemma grown_update_found:
  assumes "\<And>x. R x x" and "\<And>x. find p xs = Some x \<Longrightarrow> R x (f x)"
  shows "grown R xs (update_first p f xs)"
  using assms(2)
proof (induction xs)
  case Nil
  then show ?case by (simp add: grown_def)
next
  case (Cons x xs)
  then show ?case using assms(1)
    by (auto simp: grown_def nth_Cons split: nat.splits if_splits)
qed

lemma grown_map: "(\<And>x. x \<in> set xs \<Longrightarrow> R x (f x)) \<Longrightarrow> grown R xs (map f xs)"
  by (simp add: grown_def)

lemma update_first_distinct_key:
  assumes "distinct (map k xs)" and "find (\<lambda>x. k x = i) xs = Some y"
  shows "update_first (\<lambda>x. k x = i) f xs = map (\<lambda>x. if k x = i then f x else x) xs"
  using assms
proof (induction xs)
  case (Cons x xs)
  show ?case
  proof (cases "k x = i")
    case True
    then have "map (\<lambda>x. if k x = i then f x else x) xs = map (\<lambda>x. x) xs"
      using Cons.prems True by (intro map_cong) (auto simp: image_iff)
    with True show ?thesis by simp
  next
    case False
    with Cons show ?thesis by simp
  qed
qed simp

lemma update_first_distinct:
  assumes "distinct (map k xs)" and "find (\<lambda>x. k x = i \<and> q x) xs = Some y"
  shows "update_first (\<lambda>x. k x = i \<and> q x) f xs = map (\<lambda>x. if k x = i then f x else x) xs"
  using assms
proof (induction xs)
  case (Cons x xs)
  show ?case
  proof (cases "k x = i \<and> q x")
    case True
    then have "map (\<lambda>x. if k x = i then f x else x) xs = map (\<lambda>x. x) xs"
      using Cons.prems(1) by (intro map_cong) (auto simp: image_iff)
    with True show ?thesis by simp
  next
    case False
    with Cons.prems(2) have "y \<in> set xs" "k y = i" by (auto dest: find_Some_in)
    with Cons.prems(1) False have "k x \<noteq> i" by auto
    with Cons False show ?thesis by auto
  qed
qed simp

lemma grown_in: "grown R xs ys \<Longrightarrow> x \<in> set xs \<Longrightarrow> \<exists>y\<in>set ys. R x y"
  unfolding grown_def by (metis in_set_conv_nth less_le_trans)

lemma grown_eq_append: "grown (=) xs ys \<longleftrightarrow> (\<exists>zs. ys = xs @ zs)"
proof
  assume "grown (=) xs ys"
  then have "ys = xs @ drop (length xs) ys"
    by (intro nth_equalityI) (auto simp: grown_def nth_append)
  then show "\<exists>zs. ys = xs @ zs" ..
qed (auto simp: grown_def nth_append)

subsection \<open>Machine interfaces\<close>

text \<open>
  A stateful component is a step: a call and a state give the state after the call
  and its result. \<open>run_machine\<close> is a history of calls, failed ones included.
\<close>

fun run_machine :: "('c \<Rightarrow> 's \<Rightarrow> 's \<times> ('e + 'r)) \<Rightarrow> 'c list \<Rightarrow> 's \<Rightarrow> 's" where
  "run_machine step [] s = s"
| "run_machine step (c # cs) s = run_machine step cs (fst (step c s))"

lemma run_machine_append:
  "run_machine step (cs @ ds) s = run_machine step ds (run_machine step cs s)"
  by (induction cs arbitrary: s) simp_all

locale guarded_machine =
  fixes step :: "'c \<Rightarrow> 's \<Rightarrow> 's \<times> ('e + 'r)"
    and inv :: "'s \<Rightarrow> bool"
  assumes failed: "snd (step c s) = Inl e \<Longrightarrow> fst (step c s) = s"
    and kept: "snd (step c s) = Inr r \<Longrightarrow> inv s \<Longrightarrow> inv (fst (step c s))"
begin

lemma step_inv: "inv s \<Longrightarrow> inv (fst (step c s))"
  using failed [of c s] kept [of c s] by (cases "snd (step c s)") auto

lemma run_inv: "inv s \<Longrightarrow> inv (run_machine step cs s)"
  by (induction cs arbitrary: s) (auto intro: step_inv)

end

locale growing_machine = guarded_machine +
  fixes le :: "'b \<Rightarrow> 'b \<Rightarrow> bool"
  assumes le_refl: "le s s"
    and le_trans: "le s t \<Longrightarrow> le t u \<Longrightarrow> le s u"
    and grows: "snd (step c s) = Inr r \<Longrightarrow> inv s \<Longrightarrow> le s (fst (step c s))"
begin

lemma step_le: "inv s \<Longrightarrow> le s (fst (step c s))"
  using failed [of c s] grows [of c s] le_refl [of s] by (cases "snd (step c s)") auto

lemma run_le: "inv s \<Longrightarrow> le s (run_machine step cs s)"
  by (induction cs arbitrary: s) (auto intro: le_refl le_trans step_le step_inv)

end

locale versioned_machine = guarded_machine +
  fixes rev_of :: "'b \<Rightarrow> int"
    and targets :: "'a \<Rightarrow> bool"
    and expected :: "'a \<Rightarrow> int"
  assumes checked: "snd (step c s) = Inr r \<Longrightarrow> inv s \<Longrightarrow> targets c \<Longrightarrow> rev_of s = expected c"
    and bumped: "snd (step c s) = Inr r \<Longrightarrow> inv s \<Longrightarrow> targets c \<Longrightarrow> rev_of s < rev_of (fst (step c s))"
    and monotone: "snd (step c s) = Inr r \<Longrightarrow> inv s \<Longrightarrow> rev_of s \<le> rev_of (fst (step c s))"

sublocale versioned_machine \<subseteq> growing_machine step inv "\<lambda>s t. rev_of s \<le> rev_of t"
  by unfold_locales (auto intro: monotone)

context versioned_machine begin

lemma no_lost_update:
  assumes "inv s" and "targets c" and "snd (step c s) = Inr r"
    and "targets d" and "expected d = expected c"
  shows "\<exists>e. snd (step d (run_machine step cs (fst (step c s)))) = Inl e"
proof (rule ccontr)
  let ?t = "run_machine step cs (fst (step c s))"
  assume "\<nexists>e. snd (step d ?t) = Inl e"
  then obtain r' where ok: "snd (step d ?t) = Inr r'" by (cases "snd (step d ?t)") auto
  have inv: "inv (fst (step c s))" using assms(1) by (rule step_inv)
  have "rev_of s = expected c" using assms by (auto intro: checked)
  moreover have "rev_of s < rev_of (fst (step c s))" using assms by (auto intro: bumped)
  moreover have "rev_of (fst (step c s)) \<le> rev_of ?t" using inv by (rule run_le)
  moreover have "rev_of ?t = expected d" using ok run_inv [OF inv] assms(4) by (auto intro: checked)
  ultimately show False using assms(5) by simp
qed

end

subsection \<open>Refinement of step relations\<close>

text \<open>
  An abstraction of the states under which every concrete step is an abstract one; runs and
  abstract invariants then carry over.
\<close>

locale step_refinement =
  fixes cstep :: "'s \<Rightarrow> 's \<Rightarrow> bool"
    and astep :: "'a \<Rightarrow> 'a \<Rightarrow> bool"
    and abs :: "'s \<Rightarrow> 'a"
    and inv :: "'s \<Rightarrow> bool"
  assumes step_kept: "cstep s t \<Longrightarrow> inv s \<Longrightarrow> inv t"
    and step_simulated: "cstep s t \<Longrightarrow> inv s \<Longrightarrow> astep (abs s) (abs t)"
begin

lemma runs_simulated:
  assumes "cstep\<^sup>*\<^sup>* s t" and "inv s"
  shows "inv t \<and> astep\<^sup>*\<^sup>* (abs s) (abs t)"
  using assms(1)
proof induction
  case (step x y)
  then show ?case
    using step_kept step_simulated by (blast intro: rtranclp.rtrancl_into_rtrancl)
qed (simp add: assms(2))

lemma abstract_invariant:
  assumes "cstep\<^sup>*\<^sup>* s t" and "inv s" and "ainv (abs s)"
    and keep: "\<And>a b. astep a b \<Longrightarrow> ainv a \<Longrightarrow> ainv b"
  shows "ainv (abs t)"
proof -
  have "astep\<^sup>*\<^sup>* (abs s) (abs t)" using runs_simulated [OF assms(1,2)] ..
  then show ?thesis using assms(3) by induction (auto intro: keep)
qed

end

end
