(* ===== verification/Work_Base.thy ===== *)
theory Work_Base
  imports Prelude
begin

text \<open>
  The closed vocabularies of \<open>work-domain\<close>: fixed identifiers (\<open>lib.rs\<close>,
  \<open>organization.rs\<close>, \<open>context.rs\<close>), the synthetic principals and their two text
  encodings, the error codes, the policy actions, the command context, and the
  instant and reason checks of \<open>organization.rs\<close>.

  The \<open>time\<close> and \<open>uuid\<close> crates are not part of the repository. The record
  \<open>host\<close> stands for what the code calls of them: RFC 3339 parsing and
  formatting, the clock, and the \<open>n\<close>-th \<open>Uuid::now_v7()\<close> of an operation. An
  \<open>OffsetDateTime\<close> is its instant in nanoseconds since the epoch, which is what
  its comparison operators and its subtraction of a duration see.
\<close>

named_theorems id_defs \<open>values of the fixed identifiers\<close>

subsection \<open>Code outside the repository\<close>

record host =
  parse_rfc3339 :: "ustr \<Rightarrow> instant option"
  format_rfc3339 :: "instant \<Rightarrow> ustr option"
  now_utc :: instant
  now_v7 :: "nat \<Rightarrow> uuid"

text \<open>Documented behaviour of RFC 3339 formatting: what is written parses back to the same instant.\<close>

definition rfc3339_roundtrip :: "host \<Rightarrow> bool" where
  "rfc3339_roundtrip h \<longleftrightarrow> (\<forall>t s. format_rfc3339 h t = Some s \<longrightarrow> parse_rfc3339 h s = Some t)"

subsection \<open>Fixed identifiers\<close>

definition WORKFLOW_ID :: uuid where [id_defs]: "WORKFLOW_ID = 0x01900000000070008000000000000001"
definition CONTEXT_ID :: uuid where [id_defs]: "CONTEXT_ID = 0x01900000000070008000000000000002"
definition SALES_TASK_ID :: uuid where [id_defs]: "SALES_TASK_ID = 0x01900000000070008000000000000003"
definition OFFICE_TASK_ID :: uuid where [id_defs]: "OFFICE_TASK_ID = 0x01900000000070008000000000000004"
definition SALES_ATTEMPT_ID :: uuid where [id_defs]: "SALES_ATTEMPT_ID = 0x01900000000070008000000000000005"
definition OFFICE_ATTEMPT_ID :: uuid where [id_defs]: "OFFICE_ATTEMPT_ID = 0x01900000000070008000000000000006"
definition SALES_ASSIGNMENT_ID :: uuid where [id_defs]: "SALES_ASSIGNMENT_ID = 0x01900000000070008000000000000007"
definition OFFICE_ASSIGNMENT_ID :: uuid where [id_defs]: "OFFICE_ASSIGNMENT_ID = 0x01900000000070008000000000000008"
definition DEFINITION_VERSION_ID :: uuid where [id_defs]: "DEFINITION_VERSION_ID = 0x01900000000070008000000000000009"
definition RETURN_DEFINITION_VERSION_ID :: uuid where [id_defs]: "RETURN_DEFINITION_VERSION_ID = 0x0190000000007000800000000000000f"
definition COMPLETE_DEFINITION_VERSION_ID :: uuid where [id_defs]: "COMPLETE_DEFINITION_VERSION_ID = 0x01900000000070008000000000000011"
definition HOLD_RESUME_DEFINITION_VERSION_ID :: uuid where [id_defs]: "HOLD_RESUME_DEFINITION_VERSION_ID = 0x01900000000070008000000000000013"
definition HOLD_ACTION_ID :: uuid where [id_defs]: "HOLD_ACTION_ID = 0x01900000000070008000000000000014"
definition RESUME_ACTION_ID :: uuid where [id_defs]: "RESUME_ACTION_ID = 0x01900000000070008000000000000015"
definition COMPLETE_ACTION_ID :: uuid where [id_defs]: "COMPLETE_ACTION_ID = 0x01900000000070008000000000000012"
definition RETURN_TRANSITION_ID :: uuid where [id_defs]: "RETURN_TRANSITION_ID = 0x01900000000070008000000000000010"
definition SALES_STEP_ID :: uuid where [id_defs]: "SALES_STEP_ID = 0x0190000000007000800000000000000a"
definition OFFICE_STEP_ID :: uuid where [id_defs]: "OFFICE_STEP_ID = 0x0190000000007000800000000000000b"
definition SALES_WORK_TYPE_ID :: uuid where [id_defs]: "SALES_WORK_TYPE_ID = 0x0190000000007000800000000000000c"
definition OFFICE_WORK_TYPE_ID :: uuid where [id_defs]: "OFFICE_WORK_TYPE_ID = 0x0190000000007000800000000000000d"
definition SALES_WORK_ASSIGNMENT_ID :: uuid where [id_defs]: "SALES_WORK_ASSIGNMENT_ID = 0x0190000000007000800000000000000e"

definition ORGANIZATION_POLICY_ID :: uuid where [id_defs]: "ORGANIZATION_POLICY_ID = 0x0190000000007000800000000000a001"
definition UNIT_SALES_ID :: uuid where [id_defs]: "UNIT_SALES_ID = 0x0190000000007000800000000000a011"
definition UNIT_OFFICE_ID :: uuid where [id_defs]: "UNIT_OFFICE_ID = 0x0190000000007000800000000000a012"
definition UNIT_REVIEW_ID :: uuid where [id_defs]: "UNIT_REVIEW_ID = 0x0190000000007000800000000000a013"
definition UNIT_APPROVAL_ID :: uuid where [id_defs]: "UNIT_APPROVAL_ID = 0x0190000000007000800000000000a014"
definition ROLE_SALES_ID :: uuid where [id_defs]: "ROLE_SALES_ID = 0x0190000000007000800000000000a021"
definition ROLE_PROCESSING_ID :: uuid where [id_defs]: "ROLE_PROCESSING_ID = 0x0190000000007000800000000000a022"
definition ROLE_REVIEWING_ID :: uuid where [id_defs]: "ROLE_REVIEWING_ID = 0x0190000000007000800000000000a023"
definition ROLE_APPROVING_ID :: uuid where [id_defs]: "ROLE_APPROVING_ID = 0x0190000000007000800000000000a024"
definition ROLE_MANAGEMENT_ID :: uuid where [id_defs]: "ROLE_MANAGEMENT_ID = 0x0190000000007000800000000000a025"
definition REVIEW_ASSIGNMENT_ID :: uuid where [id_defs]: "REVIEW_ASSIGNMENT_ID = 0x0190000000007000800000000000a031"
definition APPROVER_ASSIGNMENT_ID :: uuid where [id_defs]: "APPROVER_ASSIGNMENT_ID = 0x0190000000007000800000000000a032"
definition APPROVER_MANAGEMENT_ASSIGNMENT_ID :: uuid where [id_defs]: "APPROVER_MANAGEMENT_ASSIGNMENT_ID = 0x0190000000007000800000000000a033"
definition MULTI_ROLE_PROCESSING_ASSIGNMENT_ID :: uuid where [id_defs]: "MULTI_ROLE_PROCESSING_ASSIGNMENT_ID = 0x0190000000007000800000000000a034"
definition MULTI_ROLE_REVIEW_ASSIGNMENT_ID :: uuid where [id_defs]: "MULTI_ROLE_REVIEW_ASSIGNMENT_ID = 0x0190000000007000800000000000a035"

definition REVIEW_STEP_ID :: uuid where [id_defs]: "REVIEW_STEP_ID = 0x0190000000007000800000000000b011"
definition REVIEW_WORK_TYPE_ID :: uuid where [id_defs]: "REVIEW_WORK_TYPE_ID = 0x0190000000007000800000000000b012"
definition REVIEW_DEFINITION_VERSION_ID :: uuid where [id_defs]: "REVIEW_DEFINITION_VERSION_ID = 0x0190000000007000800000000000b013"
definition CONTEXT_B_WORKFLOW_ID :: uuid where [id_defs]: "CONTEXT_B_WORKFLOW_ID = 0x0190000000007000800000000000b001"
definition CONTEXT_B_ID :: uuid where [id_defs]: "CONTEXT_B_ID = 0x0190000000007000800000000000b002"
definition CONTEXT_B_SALES_TASK_ID :: uuid where [id_defs]: "CONTEXT_B_SALES_TASK_ID = 0x0190000000007000800000000000b003"
definition CONTEXT_B_REVIEW_TASK_ID :: uuid where [id_defs]: "CONTEXT_B_REVIEW_TASK_ID = 0x0190000000007000800000000000b004"
definition CONTEXT_C_WORKFLOW_ID :: uuid where [id_defs]: "CONTEXT_C_WORKFLOW_ID = 0x0190000000007000800000000000b101"
definition CONTEXT_C_ID :: uuid where [id_defs]: "CONTEXT_C_ID = 0x0190000000007000800000000000b102"
definition CONTEXT_C_SALES_TASK_ID :: uuid where [id_defs]: "CONTEXT_C_SALES_TASK_ID = 0x0190000000007000800000000000b103"
definition CONTEXT_C_OFFICE_TASK_ID :: uuid where [id_defs]: "CONTEXT_C_OFFICE_TASK_ID = 0x0190000000007000800000000000b104"
definition PROFILE_SALES_CONTEXT_ID :: uuid where [id_defs]: "PROFILE_SALES_CONTEXT_ID = 0x0190000000007000800000000000c001"
definition PROFILE_OFFICE_QUEUE_ID :: uuid where [id_defs]: "PROFILE_OFFICE_QUEUE_ID = 0x0190000000007000800000000000c002"
definition PROFILE_REVIEW_QUEUE_ID :: uuid where [id_defs]: "PROFILE_REVIEW_QUEUE_ID = 0x0190000000007000800000000000c003"

subsection \<open>Principals\<close>

datatype VerifiedActor = Sales01 | Office01 | Review01 | Approver01 | MultiRole01 | Delegate01

definition ALL_ACTORS :: "VerifiedActor list" where
  "ALL_ACTORS = [Sales01, Office01, Review01, Approver01, MultiRole01, Delegate01]"

fun principal_id :: "VerifiedActor \<Rightarrow> ustr" where
  "principal_id Sales01 = lit ''sales-01''"
| "principal_id Office01 = lit ''office-01''"
| "principal_id Review01 = lit ''review-01''"
| "principal_id Approver01 = lit ''approver-01''"
| "principal_id MultiRole01 = lit ''multi-role-01''"
| "principal_id Delegate01 = lit ''delegate-01''"

fun legacy_encoding :: "VerifiedActor \<Rightarrow> ustr" where
  "legacy_encoding Sales01 = lit ''sales01''"
| "legacy_encoding Office01 = lit ''office01''"
| "legacy_encoding Review01 = lit ''review01''"
| "legacy_encoding Approver01 = lit ''approver01''"
| "legacy_encoding MultiRole01 = lit ''multi-role01''"
| "legacy_encoding Delegate01 = lit ''delegate01''"

fun display_name :: "VerifiedActor \<Rightarrow> ustr" where
  "display_name Sales01 = [21942, 26989, 25285, 24403, 65288, 27169, 25836, 65289]"
| "display_name Office01 = [20107, 21209, 25285, 24403, 65288, 27169, 25836, 65289]"
| "display_name Review01 = [23529, 26619, 25285, 24403, 65288, 27169, 25836, 65289]"
| "display_name Approver01 =
     [25215, 35469, 12539, 26989, 21209, 31649, 29702, 65288, 27169, 25836, 65289]"
| "display_name MultiRole01 = [20860, 21209, 25285, 24403, 65288, 27169, 25836, 65289]"
| "display_name Delegate01 = [20195, 29702, 25285, 24403, 65288, 27169, 25836, 65289]"

fun actor_assignment_id :: "VerifiedActor \<Rightarrow> uuid" where
  "actor_assignment_id Sales01 = SALES_ASSIGNMENT_ID"
| "actor_assignment_id Office01 = OFFICE_ASSIGNMENT_ID"
| "actor_assignment_id Review01 = REVIEW_ASSIGNMENT_ID"
| "actor_assignment_id Approver01 = APPROVER_ASSIGNMENT_ID"
| "actor_assignment_id MultiRole01 = MULTI_ROLE_PROCESSING_ASSIGNMENT_ID"
| "actor_assignment_id Delegate01 = 0"

definition from_principal_id :: "ustr \<Rightarrow> VerifiedActor option" where
  "from_principal_id value = find (\<lambda>actor. principal_id actor = value) ALL_ACTORS"

definition from_legacy_encoding :: "ustr \<Rightarrow> VerifiedActor option" where
  "from_legacy_encoding value = find (\<lambda>actor. legacy_encoding actor = value) ALL_ACTORS"

subsection \<open>Errors and states\<close>

datatype WorkError =
    ValidationFailed | Forbidden | WorkItemNotFound | WorkArtifactNotFound | EvidenceNotFound
  | FindingNotFound | RevisionConflict | OperationConflict | WorkAssignmentConflict
  | HandoffNotReady | DependencyUnavailable | CommitOutcomeUnknown | IntegrityViolation
  | AgentResultNotReady | WorkContextStale | CursorStale | OrganizationRecordNotFound
  | WorkContextNotFound | WorkArtifactUnavailable

datatype TaskState = Ready | Active | Held | Completed

datatype TaskView = ContextView | QueueView

definition from_startup_profile :: "ustr \<Rightarrow> WorkError + VerifiedActor" where
  "from_startup_profile profile = ok_or Forbidden (from_principal_id profile)"

text \<open>\<open>principal_serde\<close>: writes the public spelling, reads it or the legacy one.\<close>

definition principal_serialize :: "VerifiedActor \<Rightarrow> ustr" where
  "principal_serialize actor = principal_id actor"

definition principal_deserialize :: "ustr \<Rightarrow> VerifiedActor option" where
  "principal_deserialize value =
     (case from_principal_id value of
        Some actor \<Rightarrow> Some actor
      | None \<Rightarrow> from_legacy_encoding value)"

subsection \<open>Policy actions and the command context\<close>

datatype PolicyAction =
    ContextRead | ContextProgressRead | ContextHistoryRead | QueueRead | WorkRead | WorkClaim
  | WorkAssign | WorkEdit | WorkSubmit | WorkReturn | WorkComplete | WorkHold | WorkResume
  | EvidenceRegister | FindingRegister | DecisionRecord | AgentRequest | OrganizationManage

definition delegable :: "PolicyAction \<Rightarrow> bool" where
  "delegable a \<longleftrightarrow> \<not> (a = OrganizationManage \<or> a = WorkAssign)"

record CommandContext =
  cc_operation_id :: uuid
  cc_expected_revision :: int
  cc_acting_assignment_id :: uuid

definition authorize_context :: "CommandContext \<Rightarrow> WorkError + unit" where
  "authorize_context c =
     (if get_version_num (cc_operation_id c) \<noteq> 7 \<or> cc_expected_revision c < 0
      then Inl ValidationFailed else Inr ())"

subsection \<open>Instants and reasons\<close>

definition parse_instant :: "host \<Rightarrow> ustr \<Rightarrow> WorkError + instant" where
  "parse_instant h value = ok_or ValidationFailed (parse_rfc3339 h value)"

definition format_instant :: "host \<Rightarrow> instant \<Rightarrow> WorkError + ustr" where
  "format_instant h value = ok_or IntegrityViolation (format_rfc3339 h value)"

definition stored_instant :: "host \<Rightarrow> ustr \<Rightarrow> instant option" where
  "stored_instant h value = parse_rfc3339 h value"

text \<open>Five minutes, in nanoseconds.\<close>

definition VALID_FROM_SKEW :: int where
  "VALID_FROM_SKEW = 5 * 60 * 1000000000"

definition requested_start :: "host \<Rightarrow> ustr option \<Rightarrow> instant \<Rightarrow> WorkError + instant" where
  "requested_start h value at =
     (case value of
        None \<Rightarrow> Inr at
      | Some v \<Rightarrow> and_then (parse_instant h v) (\<lambda>from.
          if from < at - VALID_FROM_SKEW then Inl ValidationFailed
          else Inr (max from at)))"

definition MAX_POLICY_REASON_BYTES :: int where
  "MAX_POLICY_REASON_BYTES = 1024"

definition bounded_reason :: "ustr \<Rightarrow> WorkError + unit" where
  "bounded_reason value =
     (if trim value = [] \<or> utf8_len value > MAX_POLICY_REASON_BYTES
        \<or> list_ex (\<lambda>c. is_control c \<and> \<not> (c = 10 \<or> c = 13 \<or> c = 9)) value
      then Inl ValidationFailed else Inr ())"

definition profile_for :: "uuid \<Rightarrow> uuid \<Rightarrow> uuid" where
  "profile_for role_id unit_id =
     (if role_id = ROLE_REVIEWING_ID then PROFILE_REVIEW_QUEUE_ID
      else if unit_id = UNIT_SALES_ID then PROFILE_SALES_CONTEXT_ID
      else if unit_id = UNIT_REVIEW_ID then PROFILE_REVIEW_QUEUE_ID
      else PROFILE_OFFICE_QUEUE_ID)"

subsection \<open>Facts\<close>

lemma requested_start_ge: "requested_start h v at = Inr from \<Longrightarrow> at \<le> from"
  by (auto simp: requested_start_def result_simps split: option.splits)

lemma parse_format_instant:
  "rfc3339_roundtrip h \<Longrightarrow> format_instant h t = Inr s \<Longrightarrow> stored_instant h s = Some t"
  by (auto simp: rfc3339_roundtrip_def format_instant_def stored_instant_def ok_or_ok)

text \<open>
  Both text encodings of a principal are read back to that principal, and every
  accepted spelling is one of the two: reading is total on what was ever written and never
  confuses two principals.
\<close>

theorem principal_serde_exact:
  "principal_deserialize value = Some actor \<longleftrightarrow>
     value = principal_serialize actor \<or> value = legacy_encoding actor"
  by (cases actor)
    (auto simp: principal_deserialize_def principal_serialize_def from_principal_id_def
      from_legacy_encoding_def ALL_ACTORS_def split: option.splits if_splits)

end
