(* ===== verification/Work_Records.thy ===== *)
theory Work_Records
  imports Work_Base
begin

text \<open>
  The data of \<open>work-domain\<close>: one \<open>record\<close> per struct and one \<open>datatype\<close> per enum of
  \<open>organization.rs\<close>, \<open>evidence.rs\<close>, \<open>agent.rs\<close>, \<open>agent_result.rs\<close>, \<open>files.rs\<close>,
  \<open>context.rs\<close> and \<open>lib.rs\<close>. Field names carry a prefix per struct because the source
  reuses names such as \<open>id\<close> and \<open>revision\<close> in every struct. The serde attributes only
  shape JSON and have no counterpart.
\<close>

subsection \<open>Organization policy (\<open>organization.rs\<close>)\<close>

datatype WorkViewArchetype = ContextArchetype | QueueArchetype

record OrganizationalUnit =
  ou_id :: uuid
  ou_label :: ustr
  ou_default_archetype :: WorkViewArchetype
  ou_role_ids :: "uuid list"

record BusinessRole =
  br_id :: uuid
  br_key :: ustr
  br_label :: ustr
  br_actions :: "PolicyAction list"

record RoleAssignment =
  ra_id :: uuid
  ra_principal :: VerifiedActor
  ra_role_id :: uuid
  ra_unit_id :: uuid
  ra_valid_from :: ustr
  ra_valid_until :: "ustr option"
  ra_reason :: ustr
  ra_created_by :: "VerifiedActor option"
  ra_created_at :: ustr
  ra_revoked_at :: "ustr option"
  ra_revoked_by :: "VerifiedActor option"
  ra_revoke_reason :: "ustr option"

record Delegation =
  dg_id :: uuid
  dg_source_assignment_id :: uuid
  dg_delegator :: VerifiedActor
  dg_recipient :: VerifiedActor
  dg_actions :: "PolicyAction list"
  dg_valid_from :: ustr
  dg_valid_until :: ustr
  dg_reason :: ustr
  dg_created_by :: VerifiedActor
  dg_created_at :: ustr
  dg_revoked_at :: "ustr option"
  dg_revoked_by :: "VerifiedActor option"
  dg_revoke_reason :: "ustr option"

datatype ResponsibilityKind = RoleAssignmentKind | DelegationKind

record Responsibility =
  resp_id :: uuid
  resp_kind :: ResponsibilityKind
  resp_principal :: VerifiedActor
  resp_role_id :: uuid
  resp_role_label :: ustr
  resp_unit_id :: uuid
  resp_unit_label :: ustr
  resp_actions :: "PolicyAction list"
  resp_valid_from :: ustr
  resp_valid_until :: "ustr option"
  resp_source_assignment_id :: "uuid option"
  resp_delegator :: "VerifiedActor option"
  resp_work_view_profile_id :: uuid

record OrganizationPolicy =
  pol_id :: uuid
  pol_revision :: int
  pol_units :: "OrganizationalUnit list"
  pol_roles :: "BusinessRole list"
  pol_role_assignments :: "RoleAssignment list"
  pol_delegations :: "Delegation list"

record OrganizationView =
  ov_principal_id :: ustr
  ov_display_name :: ustr
  ov_policy_revision :: int
  ov_evaluated_at :: ustr
  ov_can_manage :: bool
  ov_responsibilities :: "Responsibility list"
  ov_units :: "OrganizationalUnit list"
  ov_roles :: "BusinessRole list"
  ov_role_assignments :: "RoleAssignment list"
  ov_delegations :: "Delegation list"

text \<open>Fields in the source's order; \<open>valid_from\<close> is optional in both create commands.\<close>

datatype PolicyCommand =
    CreateRoleAssignment CommandContext VerifiedActor uuid uuid "ustr option" "ustr option" ustr
  | RevokeRoleAssignment CommandContext uuid ustr
  | CreateDelegation CommandContext uuid VerifiedActor "PolicyAction list" "ustr option" ustr ustr
  | RevokeDelegation CommandContext uuid ustr

fun policy_context :: "PolicyCommand \<Rightarrow> CommandContext" where
  "policy_context (CreateRoleAssignment c _ _ _ _ _ _) = c"
| "policy_context (RevokeRoleAssignment c _ _) = c"
| "policy_context (CreateDelegation c _ _ _ _ _ _) = c"
| "policy_context (RevokeDelegation c _ _) = c"

subsection \<open>Evidence, findings and decisions (\<open>evidence.rs\<close>)\<close>

record RevisionRef =
  rr_id :: uuid
  rr_revision :: int

record SourceRef =
  sr_provider_id :: ustr
  sr_resource_id :: uuid
  sr_revision_id :: uuid
  sr_version_id :: uuid

record AuthoritativeLocator =
  al_kind :: ustr
  al_content_item_id :: uuid
  al_representation_id :: uuid

record EvidenceSource =
  es_source_ref :: SourceRef
  es_authoritative_locator :: AuthoritativeLocator

record EvidenceRecord =
  ev_id :: uuid
  ev_revision :: int
  ev_context_id :: uuid
  ev_task_id :: uuid
  ev_attempt_id :: uuid
  ev_created_by :: ustr
  ev_acting_assignment_id :: uuid
  ev_origin :: ustr
  ev_source :: EvidenceSource
  ev_uncertainty :: "ustr list"
  ev_conflict_references :: "RevisionRef list"
  ev_relevant_location_verified :: bool
  ev_policy_disposition :: ustr
  ev_relevant_location :: ustr
  ev_fragment_omission_reason :: ustr
  ev_coverage :: ustr
  ev_retrieved_at :: ustr
  ev_recorded_at :: ustr
  ev_provider_checked_at :: ustr
  ev_visibility :: ustr

record Finding =
  fd_origin_execution_id :: "uuid option"
  fd_id :: uuid
  fd_revision :: int
  fd_context_id :: uuid
  fd_task_id :: uuid
  fd_attempt_id :: uuid
  fd_uncertainty :: "ustr list"
  fd_conflicts :: "RevisionRef list"
  fd_author :: ustr
  fd_acting_assignment_id :: uuid
  fd_claim :: ustr
  fd_evidence_revision_refs :: "RevisionRef list"
  fd_supersedes_finding_id :: "uuid option"
  fd_visibility :: ustr
  fd_created_at :: ustr

datatype DecisionKind = Accepted | Modified | Rejected

record HumanDecision =
  hd_id :: uuid
  hd_revision :: int
  hd_context_id :: uuid
  hd_task_id :: uuid
  hd_attempt_id :: uuid
  hd_finding_id :: uuid
  hd_finding_revision :: int
  hd_decision :: DecisionKind
  hd_adopted_claim :: "ustr option"
  hd_reason :: "ustr option"
  hd_evidence_revision_refs :: "RevisionRef list"
  hd_human_principal :: ustr
  hd_acting_assignment_id :: uuid
  hd_created_at :: ustr
  hd_supersedes_decision_id :: "uuid option"
  hd_visibility :: ustr

subsection \<open>Agent executions and their output (\<open>agent.rs\<close>, \<open>agent_result.rs\<close>)\<close>

datatype AgentExecutionStatus = Queued | Running | Succeeded | Failed | Cancelled | OutcomeUnknown

definition is_active :: "AgentExecutionStatus \<Rightarrow> bool" where
  "is_active s \<longleftrightarrow> s = Queued \<or> s = Running"

datatype AgentFailureCode =
    ProviderDenied | ContextStale | InvalidOutput | DependencyUnavailableCode | Interrupted
  | CommitOutcomeUnknownCode

record ProviderPrincipalBinding =
  pb_provider_id :: ustr
  pb_principal_id :: ustr
  pb_invocation_kind :: ustr

datatype AgentSourceUse = Referenced | Analyzed | Unavailable | Unsupported

definition usable :: "AgentSourceUse \<Rightarrow> bool" where
  "usable u \<longleftrightarrow> u = Referenced \<or> u = Analyzed"

record AgentSourceOutcome =
  so_evidence_revision_ref :: RevisionRef
  so_outcome :: AgentSourceUse

record AgentResult =
  ar_summary :: ustr
  ar_finding_revision_refs :: "RevisionRef list"
  ar_evidence_revision_refs :: "RevisionRef list"
  ar_uncertainty :: "ustr list"
  ar_simulated :: bool
  ar_body_analyzed :: bool
  ar_live_llm :: bool
  ar_mcp_wire_executed :: bool
  ar_source_outcomes :: "AgentSourceOutcome list"
  ar_generated_artifact_ids :: "uuid list"
  ar_suggested_action_ids :: "uuid list"

record AgentExecution =
  ax_id :: uuid
  ax_context_id :: uuid
  ax_work_item_id :: uuid
  ax_attempt_id :: uuid
  ax_requested_by :: VerifiedActor
  ax_requester_responsibility :: uuid
  ax_executed_by :: ustr
  ax_executor_invocation_kind :: ustr
  ax_provider_principal_bindings :: "ProviderPrincipalBinding list"
  ax_effective_context_revision :: int
  ax_task_revision :: int
  ax_purpose :: ustr
  ax_evidence_revision_refs :: "RevisionRef list"
  ax_status :: AgentExecutionStatus
  ax_started_at :: ustr
  ax_ended_at :: "ustr option"
  ax_result :: "AgentResult option"
  ax_failure_code :: "AgentFailureCode option"

datatype AgentReadTool = DocumentRevisionTool | DocumentVersionFilesTool

record AgentDispatchContext =
  adc_execution :: AgentExecution
  adc_evidence :: "EvidenceRecord list"
  adc_allowed_tools :: "AgentReadTool list"

record AgentFindingCandidate =
  afc_claim :: ustr
  afc_evidence_revision_refs :: "RevisionRef list"

record GeneratedArtifactCandidate =
  gac_title :: ustr
  gac_text :: ustr
  gac_source_revision_refs :: "RevisionRef list"

datatype ProposedActionCandidate = ReviewFindingCandidate | UseGeneratedArtifactCandidate nat

record SuggestedActionCandidate =
  sac_action :: ProposedActionCandidate
  sac_rationale :: ustr

record AgentOutput =
  ao_summary :: ustr
  ao_uncertainty :: "ustr list"
  ao_source_outcomes :: "AgentSourceOutcome list"
  ao_finding :: "AgentFindingCandidate option"
  ao_generated_artifacts :: "GeneratedArtifactCandidate list"
  ao_suggested_actions :: "SuggestedActionCandidate list"

text \<open>\<open>TextValue\<close> has the single field \<open>text\<close>.\<close>

record TextValue =
  tv_text :: ustr

record GeneratedArtifact =
  ga_id :: uuid
  ga_execution_id :: uuid
  ga_context_id :: uuid
  ga_work_item_id :: uuid
  ga_attempt_id :: uuid
  ga_schema_id :: ustr
  ga_title :: ustr
  ga_value :: TextValue
  ga_source_revision_refs :: "RevisionRef list"
  ga_author :: ustr
  ga_simulated :: bool
  ga_visibility :: ustr
  ga_created_at :: ustr

datatype ProposedAction = ReviewFinding RevisionRef | UseGeneratedArtifact uuid

record SuggestedAction =
  sa_id :: uuid
  sa_execution_id :: uuid
  sa_context_id :: uuid
  sa_work_item_id :: uuid
  sa_attempt_id :: uuid
  sa_action :: ProposedAction
  sa_rationale :: ustr
  sa_supporting_revision_refs :: "RevisionRef list"
  sa_author :: ustr
  sa_visibility :: ustr
  sa_created_at :: ustr

subsection \<open>Work files (\<open>files.rs\<close>)\<close>

record FileGeneration =
  fg_id :: uuid
  fg_size_bytes :: int
  fg_sha256 :: ustr
  fg_stored_at :: ustr
  fg_provider_id :: ustr

record WorkFile =
  wfile_name :: ustr
  wfile_media_type :: ustr
  wfile_generation :: "FileGeneration option"

record GenerationInput =
  gi_id :: uuid
  gi_size_bytes :: int
  gi_sha256 :: ustr

record DerivedFrom =
  df_snapshot_id :: uuid
  df_artifact_id :: uuid

datatype GenerationReceipts = ReceiptsNone | ReceiptsDeferred | ReceiptsVerified "uuid list"

subsection \<open>Context presentation (\<open>context.rs\<close>)\<close>

datatype WorkContextKind = CaseKind | RoutineRunKind | BatchKind | RequestKind

datatype SourceStart = AssignedToSales | ReadyDueInMinutes int

record ContextFixture =
  cf_workflow_id :: uuid
  cf_context_id :: uuid
  cf_kind :: WorkContextKind
  cf_title :: ustr
  cf_owner_unit_id :: uuid
  cf_definition_version_id :: uuid
  cf_accepted_definitions :: "uuid list"
  cf_source_task_id :: uuid
  cf_source_attempt_id :: uuid
  cf_next_task_id :: uuid
  cf_next_attempt_id :: uuid
  cf_next_step_id :: uuid
  cf_next_work_type_id :: uuid
  cf_start :: SourceStart

datatype AttentionKind = NewlyAssigned | ReturnedAttention | DueSoon | Overdue

record Attention =
  at_kind :: AttentionKind
  at_source_id :: "uuid option"
  at_due_at :: "ustr option"

record TaskAttention =
  ta_task_id :: uuid
  ta_attempt_id :: uuid
  ta_evaluated_at :: ustr
  ta_items :: "Attention list"

record AttentionAcknowledgement =
  ack_task_id :: uuid
  ack_attempt_id :: uuid
  ack_work_assignment_id :: uuid
  ack_principal_id :: ustr

record ContextProgressItem =
  cp_task_id :: uuid
  cp_step_label :: ustr
  cp_work_type_id :: uuid
  cp_state :: TaskState
  cp_attempt_number :: int
  cp_due_at :: "ustr option"
  cp_assigned :: bool

record WorkContextView =
  cv_id :: uuid
  cv_kind :: WorkContextKind
  cv_title :: ustr
  cv_owner_unit_id :: uuid
  cv_progress :: "ContextProgressItem list option"
  cv_can_read_history :: bool
  cv_own_task_ids :: "uuid list"
  cv_attention_count :: int

datatype WorkTarget =
    TaskTarget uuid | ArtifactTarget uuid | SnapshotTarget uuid | ReturnInstructionTarget uuid
  | EvidenceTarget uuid | FindingTarget uuid | AgentExecutionTarget uuid
  | GeneratedArtifactTarget uuid | SuggestedActionTarget uuid | ContextTarget uuid

subsection \<open>The workflow aggregate (\<open>lib.rs\<close>)\<close>

record WorkingArtifact =
  art_id :: uuid
  art_task_id :: uuid
  art_attempt_id :: uuid
  art_revision :: int
  art_schema_id :: ustr
  art_value :: "TextValue option"
  art_visibility :: ustr
  art_file :: "WorkFile option"
  art_derived_from :: "DerivedFrom option"

record PinnedArtifact =
  pin_artifact_id :: uuid
  pin_revision :: int
  pin_schema_id :: ustr
  pin_value :: "TextValue option"
  pin_file :: "WorkFile option"

record HandoffSnapshot =
  snap_evidence_revision_refs :: "RevisionRef list"
  snap_finding_revision_refs :: "RevisionRef list"
  snap_decision_revision_refs :: "RevisionRef list"
  snap_previous_submission_id :: "uuid option"
  snap_return_instruction_id :: "uuid option"
  snap_id :: uuid
  snap_workflow_id :: uuid
  snap_context_id :: uuid
  snap_submission_number :: int
  snap_submitted_by :: ustr
  snap_acting_assignment_id :: uuid
  snap_source_task_id :: uuid
  snap_source_attempt_id :: uuid
  snap_target_task_id :: uuid
  snap_created_at :: ustr
  snap_artifacts :: "PinnedArtifact list"

record ReturnTransition =
  rt_transition_id :: uuid
  rt_target_task_id :: uuid
  rt_previous_submission_id :: uuid

record ReturnInstruction =
  ri_id :: uuid
  ri_workflow_id :: uuid
  ri_context_id :: uuid
  ri_source_task_id :: uuid
  ri_source_attempt_id :: uuid
  ri_target_task_id :: uuid
  ri_target_attempt_id :: uuid
  ri_previous_submission_id :: uuid
  ri_transition_id :: uuid
  ri_reason :: ustr
  ri_returned_by :: ustr
  ri_acting_assignment_id :: uuid
  ri_created_at :: ustr

record TaskAssignmentView =
  tav_principal_id :: ustr
  tav_display_name :: ustr
  tav_acting_assignment_id :: uuid
  tav_acting_kind :: "ResponsibilityKind option"
  tav_role_label :: "ustr option"
  tav_delegator_principal_id :: "ustr option"
  tav_responsibility_effective :: bool

record TaskSummary =
  ts_can_hold :: bool
  ts_hold_action_id :: "uuid option"
  ts_can_resume :: bool
  ts_resume_action_id :: "uuid option"
  ts_can_complete :: bool
  ts_completion_action_id :: "uuid option"
  ts_can_request_agent :: bool
  ts_can_register_evidence :: bool
  ts_can_register_finding :: bool
  ts_can_record_decision :: bool
  ts_required_role_id :: "uuid option"
  ts_claim_assignment_id :: "uuid option"
  ts_can_assign :: bool
  ts_assignment :: "TaskAssignmentView option"
  ts_work_type_id :: uuid
  ts_work_type_label :: ustr
  ts_due_at :: "ustr option"
  ts_attention :: "Attention list"
  ts_context_title :: "ustr option"
  ts_attempt_number :: int
  ts_can_return :: bool
  ts_return_instruction_id :: "uuid option"
  ts_return_transition :: "ReturnTransition option"
  ts_id :: uuid
  ts_context_id :: "uuid option"
  ts_attempt_id :: uuid
  ts_revision :: int
  ts_title :: ustr
  ts_step_label :: ustr
  ts_state :: TaskState
  ts_can_claim :: bool
  ts_can_edit :: bool
  ts_can_submit :: bool
  ts_handoff_snapshot_id :: "uuid option"

record WorkAssignmentRecord =
  war_id :: uuid
  war_task_id :: uuid
  war_attempt_id :: uuid
  war_principal :: VerifiedActor
  war_acting_assignment_id :: uuid
  war_assigned_by :: "VerifiedActor option"
  war_manager_assignment_id :: "uuid option"
  war_reason :: "ustr option"
  war_started_at :: ustr
  war_ended_at :: "ustr option"
  war_ended_by :: "VerifiedActor option"

text \<open>The acknowledged set of a \<open>BTreeSet<Uuid>\<close> is only asked for membership: a list.\<close>

record PolicyAuthority =
  pa_policy :: "OrganizationPolicy option"
  pa_evaluated_at :: "instant option"
  pa_acknowledged :: "(VerifiedActor \<times> uuid list) option"
  pa_generations :: GenerationReceipts

record InputResourceRef =
  ir_kind :: ustr
  ir_document_id :: uuid
  ir_label :: ustr

record HistoryEntry =
  he_kind :: ustr
  he_occurred_at :: ustr

record WorkContextHistory =
  ch_context_id :: uuid
  ch_entries :: "HistoryEntry list"

record TaskDetail =
  td_agent_execution_ids :: "uuid list"
  td_task :: TaskSummary
  td_input_resources :: "InputResourceRef list"
  td_history :: "HistoryEntry list"
  td_working_artifacts :: "WorkingArtifact list"

record WorkItem =
  wi_return_instruction_id :: "uuid option"
  wi_due_at :: "ustr option"
  wi_id :: uuid
  wi_workflow_instance_id :: uuid
  wi_step_id :: uuid
  wi_work_type_id :: uuid
  wi_attempt_number :: int
  wi_work_assignment_id :: "uuid option"
  wi_acting_assignment_id :: "uuid option"
  wi_created_at :: ustr
  wi_completed_at :: "ustr option"
  wi_attempt_id :: uuid
  wi_revision :: int
  wi_state :: TaskState
  wi_assignee :: "VerifiedActor option"
  wi_handoff_snapshot_id :: "uuid option"

record Workflow =
  wf_agent_executions :: "AgentExecution list"
  wf_generated_artifacts :: "GeneratedArtifact list"
  wf_suggested_actions :: "SuggestedAction list"
  wf_evidence :: "EvidenceRecord list"
  wf_findings :: "Finding list"
  wf_decisions :: "HumanDecision list"
  wf_completed_attempts :: "WorkItem list"
  wf_return_instructions :: "ReturnInstruction list"
  wf_assignments :: "WorkAssignmentRecord list"
  wf_authority :: PolicyAuthority
  wf_id :: uuid
  wf_definition_version_id :: uuid
  wf_context_id :: uuid
  wf_revision :: int
  wf_source :: WorkItem
  wf_next :: "WorkItem option"
  wf_artifacts :: "WorkingArtifact list"
  wf_snapshots :: "HandoffSnapshot list"
  wf_history :: "HistoryEntry list"
  wf_input_resources :: "InputResourceRef list"

record ArtifactSelection =
  as_artifact_id :: uuid
  as_revision :: int

subsection \<open>Commands and results (\<open>lib.rs\<close>)\<close>

text \<open>Constructor arguments are the source's fields in the source's order.\<close>

datatype Command =
    Hold uuid CommandContext uuid uuid
  | Resume uuid CommandContext uuid uuid
  | Complete uuid CommandContext uuid uuid
  | RequestAgentExecution uuid CommandContext uuid ustr "RevisionRef list"
  | CancelAgentExecution uuid CommandContext uuid uuid
  | RegisterEvidence uuid CommandContext uuid EvidenceSource ustr
  | RegisterFinding uuid CommandContext uuid ustr "RevisionRef list" "uuid option"
  | RecordDecision uuid CommandContext uuid uuid int DecisionKind "ustr option" "ustr option"
      "RevisionRef list" "uuid option"
  | Return uuid CommandContext uuid uuid uuid uuid ustr
  | Assign uuid CommandContext uuid VerifiedActor uuid ustr
  | SaveDraft uuid "uuid option" CommandContext TextValue
  | Claim uuid CommandContext
  | CreateFileArtifact uuid CommandContext ustr ustr
  | WriteArtifactContent uuid uuid CommandContext int GenerationInput
  | DiscardArtifact uuid uuid CommandContext int
  | ImportSubmission uuid CommandContext uuid uuid
  | Submit uuid CommandContext "ArtifactSelection list" "uuid option" "RevisionRef list"
      "RevisionRef list" "RevisionRef list"

fun command_context :: "Command \<Rightarrow> CommandContext" where
  "command_context (Hold _ c _ _) = c"
| "command_context (Resume _ c _ _) = c"
| "command_context (Complete _ c _ _) = c"
| "command_context (RequestAgentExecution _ c _ _ _) = c"
| "command_context (CancelAgentExecution _ c _ _) = c"
| "command_context (RegisterEvidence _ c _ _ _) = c"
| "command_context (RegisterFinding _ c _ _ _ _) = c"
| "command_context (RecordDecision _ c _ _ _ _ _ _ _ _) = c"
| "command_context (SaveDraft _ _ c _) = c"
| "command_context (CreateFileArtifact _ c _ _) = c"
| "command_context (WriteArtifactContent _ _ c _ _) = c"
| "command_context (DiscardArtifact _ _ c _) = c"
| "command_context (ImportSubmission _ c _ _) = c"
| "command_context (Claim _ c) = c"
| "command_context (Submit _ c _ _ _ _ _) = c"
| "command_context (Assign _ c _ _ _ _) = c"
| "command_context (Return _ c _ _ _ _ _) = c"

fun command_task_id :: "Command \<Rightarrow> uuid" where
  "command_task_id (Hold t _ _ _) = t"
| "command_task_id (Resume t _ _ _) = t"
| "command_task_id (Complete t _ _ _) = t"
| "command_task_id (RequestAgentExecution t _ _ _ _) = t"
| "command_task_id (CancelAgentExecution t _ _ _) = t"
| "command_task_id (RegisterEvidence t _ _ _ _) = t"
| "command_task_id (RegisterFinding t _ _ _ _ _) = t"
| "command_task_id (RecordDecision t _ _ _ _ _ _ _ _ _) = t"
| "command_task_id (SaveDraft t _ _ _) = t"
| "command_task_id (CreateFileArtifact t _ _ _) = t"
| "command_task_id (WriteArtifactContent t _ _ _ _) = t"
| "command_task_id (DiscardArtifact t _ _ _) = t"
| "command_task_id (ImportSubmission t _ _ _) = t"
| "command_task_id (Claim t _) = t"
| "command_task_id (Submit t _ _ _ _ _ _) = t"
| "command_task_id (Assign t _ _ _ _ _) = t"
| "command_task_id (Return t _ _ _ _ _ _) = t"

fun required_action :: "Command \<Rightarrow> PolicyAction" where
  "required_action (Hold _ _ _ _) = WorkHold"
| "required_action (Resume _ _ _ _) = WorkResume"
| "required_action (Complete _ _ _ _) = WorkComplete"
| "required_action (RequestAgentExecution _ _ _ _ _) = AgentRequest"
| "required_action (CancelAgentExecution _ _ _ _) = AgentRequest"
| "required_action (RegisterEvidence _ _ _ _ _) = EvidenceRegister"
| "required_action (RegisterFinding _ _ _ _ _ _) = FindingRegister"
| "required_action (RecordDecision _ _ _ _ _ _ _ _ _ _) = DecisionRecord"
| "required_action (Return _ _ _ _ _ _ _) = WorkReturn"
| "required_action (Assign _ _ _ _ _ _) = WorkAssign"
| "required_action (SaveDraft _ _ _ _) = WorkEdit"
| "required_action (CreateFileArtifact _ _ _ _) = WorkEdit"
| "required_action (WriteArtifactContent _ _ _ _ _) = WorkEdit"
| "required_action (DiscardArtifact _ _ _ _) = WorkEdit"
| "required_action (ImportSubmission _ _ _ _) = WorkEdit"
| "required_action (Claim _ _) = WorkClaim"
| "required_action (Submit _ _ _ _ _ _ _) = WorkSubmit"

datatype MutationResult =
    HeldResult TaskSummary
  | ResumedResult TaskSummary
  | CompletedResult TaskSummary
  | AgentExecutionRequested TaskSummary AgentExecution
  | AgentExecutionCancelled TaskSummary AgentExecution
  | EvidenceRegistered TaskSummary EvidenceRecord
  | FindingRegistered TaskSummary Finding
  | DecisionRecorded TaskSummary HumanDecision
  | ReturnedResult TaskSummary ReturnInstruction TaskSummary
  | DraftSaved TaskSummary WorkingArtifact
  | ArtifactCreated TaskSummary WorkingArtifact
  | ArtifactContentWritten TaskSummary WorkingArtifact
  | ArtifactDiscarded TaskSummary uuid
  | SubmissionImported TaskSummary "WorkingArtifact list"
  | Claimed TaskSummary
  | Submitted TaskSummary HandoffSnapshot TaskSummary
  | Assigned TaskSummary WorkAssignmentRecord
  | RoleAssignmentCreated RoleAssignment int
  | RoleAssignmentRevoked RoleAssignment int
  | DelegationCreated Delegation int
  | DelegationRevoked Delegation int

fun is_policy :: "MutationResult \<Rightarrow> bool" where
  "is_policy (RoleAssignmentCreated _ _) = True"
| "is_policy (RoleAssignmentRevoked _ _) = True"
| "is_policy (DelegationCreated _ _) = True"
| "is_policy (DelegationRevoked _ _) = True"
| "is_policy _ = False"

end
