(* ===== verification/Organization.thy ===== *)
theory Organization
  imports Work_Records
begin

text \<open>
  The organization policy of \<open>organization.rs\<close>: lookups, effectiveness at an
  instant, derived responsibilities, the actor's view, integrity, and the four
  policy commands. A command works on a private copy; \<open>policy_apply\<close> returns the
  policy after the call together with the result.
\<close>

subsection \<open>Bounds and constructors\<close>

definition MAX_ROLE_ASSIGNMENTS :: nat where "MAX_ROLE_ASSIGNMENTS = 96"
definition MAX_DELEGATIONS_PER_DELEGATOR :: nat where "MAX_DELEGATIONS_PER_DELEGATOR = 16"

definition MAX_DELEGATIONS :: nat where
  "MAX_DELEGATIONS = MAX_DELEGATIONS_PER_DELEGATOR * length ALL_ACTORS"

definition FIXTURE_VALID_FROM :: ustr where "FIXTURE_VALID_FROM = lit ''2026-10-01T00:00:00Z''"

definition make_role :: "uuid \<Rightarrow> ustr \<Rightarrow> ustr \<Rightarrow> PolicyAction list \<Rightarrow> BusinessRole" where
  "make_role i key label actions =
     \<lparr>br_id = i, br_key = key, br_label = label, br_actions = actions\<rparr>"

definition fixture_assignment ::
  "uuid \<Rightarrow> VerifiedActor \<Rightarrow> uuid \<Rightarrow> uuid \<Rightarrow> RoleAssignment" where
  "fixture_assignment i who role_id unit_id =
     \<lparr>ra_id = i, ra_principal = who, ra_role_id = role_id, ra_unit_id = unit_id,
      ra_valid_from = FIXTURE_VALID_FROM, ra_valid_until = None,
      ra_reason = [21512, 25104, 102, 105, 120, 116, 117, 114, 101, 12398, 27491, 24335, 21106, 24403],
      ra_created_by = None, ra_created_at = FIXTURE_VALID_FROM,
      ra_revoked_at = None, ra_revoked_by = None, ra_revoke_reason = None\<rparr>"

definition empty_policy :: OrganizationPolicy where
  "empty_policy = \<lparr>pol_id = ORGANIZATION_POLICY_ID, pol_revision = 0, pol_units = [],
     pol_roles = [], pol_role_assignments = [], pol_delegations = []\<rparr>"

definition synthetic_policy :: OrganizationPolicy where
  "synthetic_policy =
     (let work = [QueueRead, WorkRead, WorkClaim, WorkEdit, WorkSubmit, WorkHold, WorkResume,
                  EvidenceRegister, FindingRegister, DecisionRecord, AgentRequest];
          sales = [ContextRead, ContextProgressRead, ContextHistoryRead] @ work;
          processing = work @ [WorkReturn, WorkComplete];
          approving = [QueueRead, WorkRead, WorkClaim, WorkReturn, WorkComplete, WorkHold,
                       WorkResume, EvidenceRegister, FindingRegister, DecisionRecord, AgentRequest]
      in \<lparr>pol_id = ORGANIZATION_POLICY_ID, pol_revision = 0,
          pol_units =
            [\<lparr>ou_id = UNIT_SALES_ID, ou_label = [21942, 26989, 24215],
              ou_default_archetype = ContextArchetype, ou_role_ids = [ROLE_SALES_ID]\<rparr>,
             \<lparr>ou_id = UNIT_OFFICE_ID, ou_label = [20107, 21209],
              ou_default_archetype = QueueArchetype, ou_role_ids = [ROLE_PROCESSING_ID]\<rparr>,
             \<lparr>ou_id = UNIT_REVIEW_ID, ou_label = [34701, 36039, 23529, 26619],
              ou_default_archetype = QueueArchetype, ou_role_ids = [ROLE_REVIEWING_ID]\<rparr>,
             \<lparr>ou_id = UNIT_APPROVAL_ID, ou_label = [25215, 35469],
              ou_default_archetype = QueueArchetype,
              ou_role_ids = [ROLE_APPROVING_ID, ROLE_MANAGEMENT_ID]\<rparr>],
          pol_roles =
            [make_role ROLE_SALES_ID (lit ''sales'') [21942, 26989] sales,
             make_role ROLE_PROCESSING_ID (lit ''processing'') [20107, 21209, 20966, 29702] processing,
             make_role ROLE_REVIEWING_ID (lit ''reviewing'') [23529, 26619] processing,
             make_role ROLE_APPROVING_ID (lit ''approving'') [25215, 35469] approving,
             make_role ROLE_MANAGEMENT_ID (lit ''management'') [26989, 21209, 31649, 29702]
               [QueueRead, WorkAssign, OrganizationManage]],
          pol_role_assignments =
            [fixture_assignment SALES_ASSIGNMENT_ID Sales01 ROLE_SALES_ID UNIT_SALES_ID,
             fixture_assignment OFFICE_ASSIGNMENT_ID Office01 ROLE_PROCESSING_ID UNIT_OFFICE_ID,
             fixture_assignment REVIEW_ASSIGNMENT_ID Review01 ROLE_REVIEWING_ID UNIT_REVIEW_ID,
             fixture_assignment APPROVER_ASSIGNMENT_ID Approver01 ROLE_APPROVING_ID UNIT_APPROVAL_ID,
             fixture_assignment APPROVER_MANAGEMENT_ASSIGNMENT_ID Approver01 ROLE_MANAGEMENT_ID
               UNIT_APPROVAL_ID,
             fixture_assignment MULTI_ROLE_PROCESSING_ASSIGNMENT_ID MultiRole01 ROLE_PROCESSING_ID
               UNIT_OFFICE_ID,
             fixture_assignment MULTI_ROLE_REVIEW_ASSIGNMENT_ID MultiRole01 ROLE_REVIEWING_ID
               UNIT_REVIEW_ID],
          pol_delegations = []\<rparr>)"

subsection \<open>Lookups and effectiveness\<close>

definition allows :: "Responsibility \<Rightarrow> PolicyAction \<Rightarrow> bool" where
  "allows r action \<longleftrightarrow> action \<in> set (resp_actions r)"

definition find_role :: "OrganizationPolicy \<Rightarrow> uuid \<Rightarrow> BusinessRole option" where
  "find_role p i = find (\<lambda>role. br_id role = i) (pol_roles p)"

definition find_unit :: "OrganizationPolicy \<Rightarrow> uuid \<Rightarrow> OrganizationalUnit option" where
  "find_unit p i = find (\<lambda>unit. ou_id unit = i) (pol_units p)"

definition find_assignment :: "OrganizationPolicy \<Rightarrow> uuid \<Rightarrow> RoleAssignment option" where
  "find_assignment p i = find (\<lambda>v. ra_id v = i) (pol_role_assignments p)"

definition find_delegation :: "OrganizationPolicy \<Rightarrow> uuid \<Rightarrow> Delegation option" where
  "find_delegation p i = find (\<lambda>v. dg_id v = i) (pol_delegations p)"

definition assignment_effective ::
  "host \<Rightarrow> OrganizationPolicy \<Rightarrow> RoleAssignment \<Rightarrow> instant \<Rightarrow> bool" where
  "assignment_effective h p v at =
     (case stored_instant h (ra_valid_from v) of
        None \<Rightarrow> False
      | Some from \<Rightarrow>
          ra_revoked_at v = None \<and> from \<le> at
          \<and> (case ra_valid_until v of
               None \<Rightarrow> True
             | Some until \<Rightarrow> (case stored_instant h until of None \<Rightarrow> False | Some u \<Rightarrow> at < u))
          \<and> find_role p (ra_role_id v) \<noteq> None
          \<and> find_unit p (ra_unit_id v) \<noteq> None)"

definition delegation_effective ::
  "host \<Rightarrow> OrganizationPolicy \<Rightarrow> Delegation \<Rightarrow> instant \<Rightarrow> bool" where
  "delegation_effective h p v at =
     (case (stored_instant h (dg_valid_from v), stored_instant h (dg_valid_until v)) of
        (Some from, Some until) \<Rightarrow>
          dg_revoked_at v = None \<and> from \<le> at \<and> at < until
          \<and> (case find_assignment p (dg_source_assignment_id v) of
               None \<Rightarrow> False
             | Some source \<Rightarrow>
                 ra_principal source = dg_delegator v \<and> assignment_effective h p source at)
      | _ \<Rightarrow> False)"

definition assignment_responsibility ::
  "OrganizationPolicy \<Rightarrow> RoleAssignment \<Rightarrow> Responsibility option" where
  "assignment_responsibility p v =
     (case find_role p (ra_role_id v) of
        None \<Rightarrow> None
      | Some role \<Rightarrow>
          (case find_unit p (ra_unit_id v) of
             None \<Rightarrow> None
           | Some unit \<Rightarrow>
               Some \<lparr>resp_id = ra_id v, resp_kind = RoleAssignmentKind,
                     resp_principal = ra_principal v,
                     resp_role_id = br_id role, resp_role_label = br_label role,
                     resp_unit_id = ou_id unit, resp_unit_label = ou_label unit,
                     resp_actions = br_actions role,
                     resp_valid_from = ra_valid_from v, resp_valid_until = ra_valid_until v,
                     resp_source_assignment_id = None, resp_delegator = None,
                     resp_work_view_profile_id = profile_for (br_id role) (ou_id unit)\<rparr>))"

definition delegation_responsibility ::
  "OrganizationPolicy \<Rightarrow> Delegation \<Rightarrow> Responsibility option" where
  "delegation_responsibility p v =
     (case find_assignment p (dg_source_assignment_id v) of
        None \<Rightarrow> None
      | Some source \<Rightarrow>
          (case assignment_responsibility p source of
             None \<Rightarrow> None
           | Some derived \<Rightarrow>
               Some (derived
                 \<lparr>resp_actions := filter (\<lambda>a. a \<in> set (dg_actions v)) (resp_actions derived),
                  resp_id := dg_id v,
                  resp_kind := DelegationKind,
                  resp_principal := dg_recipient v,
                  resp_valid_from := dg_valid_from v,
                  resp_valid_until := Some (dg_valid_until v),
                  resp_source_assignment_id := Some (ra_id source),
                  resp_delegator := Some (dg_delegator v)\<rparr>)))"

definition responsibilities ::
  "host \<Rightarrow> OrganizationPolicy \<Rightarrow> VerifiedActor \<Rightarrow> instant \<Rightarrow> Responsibility list" where
  "responsibilities h p actor at =
     List.map_filter (assignment_responsibility p)
       (filter (\<lambda>v. ra_principal v = actor \<and> assignment_effective h p v at) (pol_role_assignments p))
     @ List.map_filter (delegation_responsibility p)
       (filter (\<lambda>v. dg_recipient v = actor \<and> delegation_effective h p v at) (pol_delegations p))"

definition responsibility ::
  "host \<Rightarrow> OrganizationPolicy \<Rightarrow> VerifiedActor \<Rightarrow> uuid \<Rightarrow> instant \<Rightarrow> Responsibility option" where
  "responsibility h p actor i at =
     (case find_assignment p i of
        Some v \<Rightarrow> (if ra_principal v = actor \<and> assignment_effective h p v at
                   then assignment_responsibility p v else None)
      | None \<Rightarrow>
          (case find_delegation p i of
             None \<Rightarrow> None
           | Some v \<Rightarrow> (if dg_recipient v = actor \<and> delegation_effective h p v at
                        then delegation_responsibility p v else None)))"

definition describe :: "OrganizationPolicy \<Rightarrow> uuid \<Rightarrow> Responsibility option" where
  "describe p i =
     (case find_assignment p i of
        Some v \<Rightarrow> assignment_responsibility p v
      | None \<Rightarrow> (case find_delegation p i of
                   None \<Rightarrow> None
                 | Some v \<Rightarrow> delegation_responsibility p v))"

definition can_manage :: "host \<Rightarrow> OrganizationPolicy \<Rightarrow> VerifiedActor \<Rightarrow> instant \<Rightarrow> bool" where
  "can_manage h p actor at =
     list_ex (\<lambda>v. resp_kind v = RoleAssignmentKind \<and> allows v OrganizationManage)
       (responsibilities h p actor at)"

definition management ::
  "host \<Rightarrow> OrganizationPolicy \<Rightarrow> VerifiedActor \<Rightarrow> uuid \<Rightarrow> instant \<Rightarrow> WorkError + Responsibility" where
  "management h p actor acting at =
     (case responsibility h p actor acting at of
        None \<Rightarrow> Inl Forbidden
      | Some v \<Rightarrow> (if resp_kind v = RoleAssignmentKind \<and> allows v OrganizationManage
                   then Inr v else Inl Forbidden))"

definition assignment_visible ::
  "host \<Rightarrow> OrganizationPolicy \<Rightarrow> VerifiedActor \<Rightarrow> RoleAssignment \<Rightarrow> instant \<Rightarrow> bool" where
  "assignment_visible h p actor v at \<longleftrightarrow> ra_principal v = actor \<or> can_manage h p actor at"

definition delegation_visible ::
  "host \<Rightarrow> OrganizationPolicy \<Rightarrow> VerifiedActor \<Rightarrow> Delegation \<Rightarrow> instant \<Rightarrow> bool" where
  "delegation_visible h p actor v at \<longleftrightarrow>
     dg_delegator v = actor \<or> dg_recipient v = actor \<or> can_manage h p actor at"

definition policy_view ::
  "host \<Rightarrow> OrganizationPolicy \<Rightarrow> VerifiedActor \<Rightarrow> instant \<Rightarrow> WorkError + OrganizationView" where
  "policy_view h p actor at =
     and_then (format_instant h at) (\<lambda>evaluated_at.
       Inr \<lparr>ov_principal_id = principal_id actor, ov_display_name = display_name actor,
            ov_policy_revision = pol_revision p, ov_evaluated_at = evaluated_at,
            ov_can_manage = can_manage h p actor at,
            ov_responsibilities = responsibilities h p actor at,
            ov_units = pol_units p, ov_roles = pol_roles p,
            ov_role_assignments =
              filter (\<lambda>v. assignment_visible h p actor v at) (pol_role_assignments p),
            ov_delegations =
              filter (\<lambda>v. delegation_visible h p actor v at) (pol_delegations p)\<rparr>)"

subsection \<open>Integrity\<close>

text \<open>
  Every failed check returns the same error, so the identifier loop over units,
  roles, assignments and delegations with its growing set is \<open>distinct\<close>.
\<close>

definition validate_assignment ::
  "host \<Rightarrow> OrganizationPolicy \<Rightarrow> RoleAssignment \<Rightarrow> WorkError + unit" where
  "validate_assignment h p v =
     and_then (ok_or IntegrityViolation (stored_instant h (ra_valid_from v))) (\<lambda>from.
     and_then (traverse_opt (\<lambda>until. ok_or IntegrityViolation (stored_instant h until))
                 (ra_valid_until v)) (\<lambda>until.
       if find_role p (ra_role_id v) = None \<or> find_unit p (ra_unit_id v) = None
          \<or> (case until of None \<Rightarrow> False | Some u \<Rightarrow> u \<le> from)
          \<or> (ra_revoked_at v \<noteq> None) \<noteq> (ra_revoked_by v \<noteq> None)
       then Inl IntegrityViolation else Inr ()))"

definition validate_delegation ::
  "host \<Rightarrow> OrganizationPolicy \<Rightarrow> Delegation \<Rightarrow> WorkError + unit" where
  "validate_delegation h p v =
     and_then (ok_or IntegrityViolation (stored_instant h (dg_valid_from v))) (\<lambda>from.
     and_then (ok_or IntegrityViolation (stored_instant h (dg_valid_until v))) (\<lambda>until.
     and_then (ok_or IntegrityViolation (find_assignment p (dg_source_assignment_id v))) (\<lambda>source.
     and_then (ok_or IntegrityViolation (find_role p (ra_role_id source))) (\<lambda>role.
       if until \<le> from \<or> ra_principal source \<noteq> dg_delegator v
          \<or> dg_recipient v = dg_delegator v \<or> dg_actions v = []
          \<or> list_ex (\<lambda>a. \<not> delegable a \<or> a \<notin> set (br_actions role)) (dg_actions v)
          \<or> (dg_revoked_at v \<noteq> None) \<noteq> (dg_revoked_by v \<noteq> None)
       then Inl IntegrityViolation else Inr ()))))"

definition policy_ids :: "OrganizationPolicy \<Rightarrow> uuid list" where
  "policy_ids p = map ou_id (pol_units p) @ map br_id (pol_roles p)
     @ map ra_id (pol_role_assignments p) @ map dg_id (pol_delegations p)"

definition policy_validate_integrity :: "host \<Rightarrow> OrganizationPolicy \<Rightarrow> WorkError + unit" where
  "policy_validate_integrity h p =
     (if pol_id p \<noteq> ORGANIZATION_POLICY_ID \<or> pol_revision p < 0
         \<or> length (pol_role_assignments p) > MAX_ROLE_ASSIGNMENTS
         \<or> length (pol_delegations p) > MAX_DELEGATIONS
      then Inl IntegrityViolation
      else if \<not> distinct (policy_ids p) then Inl IntegrityViolation
      else and_then (each_res (\<lambda>unit.
              if list_ex (\<lambda>i. find_role p i = None) (ou_role_ids unit)
              then Inl IntegrityViolation else Inr ()) (pol_units p)) (\<lambda>_.
           and_then (each_res (validate_assignment h p) (pol_role_assignments p)) (\<lambda>_.
             each_res (validate_delegation h p) (pol_delegations p))))"

subsection \<open>Commands\<close>

text \<open>Half-open intervals; a missing end is unbounded, unreadable stored bounds overlap.\<close>

definition intervals_overlap ::
  "instant option \<Rightarrow> instant option option \<Rightarrow> instant \<Rightarrow> instant option \<Rightarrow> bool" where
  "intervals_overlap from until other_from other_until =
     (case (from, until) of
        (Some f, Some u) \<Rightarrow>
          (case u of None \<Rightarrow> True | Some u' \<Rightarrow> other_from < u')
          \<and> (case other_until of None \<Rightarrow> True | Some ou \<Rightarrow> f < ou)
      | _ \<Rightarrow> True)"

definition policy_authorize_command ::
  "host \<Rightarrow> OrganizationPolicy \<Rightarrow> VerifiedActor \<Rightarrow> PolicyCommand \<Rightarrow> instant \<Rightarrow> WorkError + unit" where
  "policy_authorize_command h p actor command at =
     (let acting = cc_acting_assignment_id (policy_context command) in
      case command of
        CreateRoleAssignment _ who _ _ _ _ _ \<Rightarrow>
          and_then (management h p actor acting at) (\<lambda>_.
            if who = actor then Inl Forbidden else Inr ())
      | RevokeRoleAssignment _ _ _ \<Rightarrow>
          and_then (management h p actor acting at) (\<lambda>_. Inr ())
      | CreateDelegation _ source_assignment_id _ _ _ _ _ \<Rightarrow>
          (if \<not> (acting = source_assignment_id
                  \<and> (case responsibility h p actor acting at of
                       None \<Rightarrow> False | Some v \<Rightarrow> resp_kind v = RoleAssignmentKind))
           then Inl Forbidden else Inr ())
      | RevokeDelegation _ delegation_id _ \<Rightarrow>
          (if \<not> ((case find_delegation p delegation_id of
                     None \<Rightarrow> False
                   | Some v \<Rightarrow> dg_delegator v = actor \<and> dg_source_assignment_id v = acting)
                  \<and> (case responsibility h p actor acting at of
                       None \<Rightarrow> False | Some v \<Rightarrow> resp_kind v = RoleAssignmentKind))
           then and_then (management h p actor acting at) (\<lambda>_. Inr ())
           else Inr ()))"

definition create_role_assignment ::
  "host \<Rightarrow> VerifiedActor \<Rightarrow> VerifiedActor \<Rightarrow> uuid \<Rightarrow> uuid \<Rightarrow> ustr option \<Rightarrow> ustr option \<Rightarrow> ustr
     \<Rightarrow> instant \<Rightarrow> ustr \<Rightarrow> OrganizationPolicy
     \<Rightarrow> WorkError + (OrganizationPolicy \<times> MutationResult)" where
  "create_role_assignment h actor who role_id unit_id valid_from valid_until reason at now p =
     and_then (bounded_reason reason) (\<lambda>_.
     and_then (ok_or ValidationFailed (find_unit p unit_id)) (\<lambda>unit.
       if find_role p role_id = None \<or> role_id \<notin> set (ou_role_ids unit) then Inl ValidationFailed
       else
     and_then (requested_start h valid_from at) (\<lambda>from.
     and_then (traverse_opt (parse_instant h) valid_until) (\<lambda>until.
       if (case until of None \<Rightarrow> False | Some u \<Rightarrow> u \<le> from \<or> u \<le> at)
          \<or> length (pol_role_assignments p) \<ge> MAX_ROLE_ASSIGNMENTS
       then Inl ValidationFailed
       else if list_ex (\<lambda>v. ra_principal v = who \<and> ra_role_id v = role_id
              \<and> ra_unit_id v = unit_id \<and> ra_revoked_at v = None
              \<and> intervals_overlap (stored_instant h (ra_valid_from v))
                  (case ra_valid_until v of
                     None \<Rightarrow> Some None
                   | Some u \<Rightarrow> map_option Some (stored_instant h u)) from until)
            (pol_role_assignments p)
       then Inl ValidationFailed
       else
     and_then (format_instant h from) (\<lambda>stored_from.
     and_then (traverse_opt (format_instant h) until) (\<lambda>stored_until.
       let assignment = \<lparr>ra_id = now_v7 h 0, ra_principal = who, ra_role_id = role_id,
             ra_unit_id = unit_id, ra_valid_from = stored_from, ra_valid_until = stored_until,
             ra_reason = reason, ra_created_by = Some actor, ra_created_at = now,
             ra_revoked_at = None, ra_revoked_by = None, ra_revoke_reason = None\<rparr>
       in Inr (p\<lparr>pol_role_assignments := pol_role_assignments p @ [assignment]\<rparr>,
               RoleAssignmentCreated assignment (pol_revision p))))))))"

definition revoke_role_assignment ::
  "VerifiedActor \<Rightarrow> CommandContext \<Rightarrow> uuid \<Rightarrow> ustr \<Rightarrow> ustr \<Rightarrow> OrganizationPolicy
     \<Rightarrow> WorkError + (OrganizationPolicy \<times> MutationResult)" where
  "revoke_role_assignment actor c assignment_id reason now p =
     and_then (bounded_reason reason) (\<lambda>_.
       if assignment_id = cc_acting_assignment_id c then Inl ValidationFailed
       else
     and_then (ok_or OrganizationRecordNotFound (find_assignment p assignment_id)) (\<lambda>v.
       if ra_revoked_at v \<noteq> None then Inl ValidationFailed
       else
         let revoke = (\<lambda>v. v\<lparr>ra_revoked_at := Some now, ra_revoked_by := Some actor,
                             ra_revoke_reason := Some reason\<rparr>)
         in Inr (p\<lparr>pol_role_assignments :=
                   update_first (\<lambda>v. ra_id v = assignment_id) revoke (pol_role_assignments p)\<rparr>,
                 RoleAssignmentRevoked (revoke v) (pol_revision p))))"

definition create_delegation ::
  "host \<Rightarrow> VerifiedActor \<Rightarrow> uuid \<Rightarrow> VerifiedActor \<Rightarrow> PolicyAction list \<Rightarrow> ustr option \<Rightarrow> ustr \<Rightarrow> ustr
     \<Rightarrow> instant \<Rightarrow> ustr \<Rightarrow> OrganizationPolicy
     \<Rightarrow> WorkError + (OrganizationPolicy \<times> MutationResult)" where
  "create_delegation h actor source_assignment_id recipient actions valid_from valid_until reason
       at now p =
     and_then (bounded_reason reason) (\<lambda>_.
     and_then (ok_or OrganizationRecordNotFound (find_assignment p source_assignment_id)) (\<lambda>source.
       if \<not> assignment_effective h p source at \<or> ra_principal source = recipient
       then Inl ValidationFailed
       else
     and_then (ok_or IntegrityViolation (find_role p (ra_role_id source))) (\<lambda>role.
       if actions = [] \<or> \<not> distinct actions
          \<or> list_ex (\<lambda>a. \<not> delegable a \<or> a \<notin> set (br_actions role)) actions
       then Inl ValidationFailed
       else
     and_then (requested_start h valid_from at) (\<lambda>from.
     and_then (parse_instant h valid_until) (\<lambda>until.
       if until \<le> from \<or> until \<le> at
          \<or> (case ra_valid_until source of
               None \<Rightarrow> False
             | Some u \<Rightarrow> (case stored_instant h u of None \<Rightarrow> False | Some su \<Rightarrow> until > su))
          \<or> length (filter (\<lambda>v. dg_delegator v = ra_principal source) (pol_delegations p))
              \<ge> MAX_DELEGATIONS_PER_DELEGATOR
       then Inl ValidationFailed
       else if list_ex (\<lambda>v. dg_source_assignment_id v = source_assignment_id
              \<and> dg_recipient v = recipient \<and> dg_revoked_at v = None
              \<and> intervals_overlap (stored_instant h (dg_valid_from v))
                  (map_option Some (stored_instant h (dg_valid_until v))) from (Some until))
            (pol_delegations p)
       then Inl ValidationFailed
       else
     and_then (format_instant h from) (\<lambda>stored_from.
     and_then (format_instant h until) (\<lambda>stored_until.
       let delegation = \<lparr>dg_id = now_v7 h 0, dg_source_assignment_id = source_assignment_id,
             dg_delegator = ra_principal source, dg_recipient = recipient, dg_actions = actions,
             dg_valid_from = stored_from, dg_valid_until = stored_until, dg_reason = reason,
             dg_created_by = actor, dg_created_at = now,
             dg_revoked_at = None, dg_revoked_by = None, dg_revoke_reason = None\<rparr>
       in Inr (p\<lparr>pol_delegations := pol_delegations p @ [delegation]\<rparr>,
               DelegationCreated delegation (pol_revision p)))))))))"

definition revoke_delegation ::
  "VerifiedActor \<Rightarrow> uuid \<Rightarrow> ustr \<Rightarrow> ustr \<Rightarrow> OrganizationPolicy
     \<Rightarrow> WorkError + (OrganizationPolicy \<times> MutationResult)" where
  "revoke_delegation actor delegation_id reason now p =
     and_then (bounded_reason reason) (\<lambda>_.
     and_then (ok_or OrganizationRecordNotFound (find_delegation p delegation_id)) (\<lambda>v.
       if dg_revoked_at v \<noteq> None then Inl ValidationFailed
       else
         let revoke = (\<lambda>v. v\<lparr>dg_revoked_at := Some now, dg_revoked_by := Some actor,
                             dg_revoke_reason := Some reason\<rparr>)
         in Inr (p\<lparr>pol_delegations :=
                   update_first (\<lambda>v. dg_id v = delegation_id) revoke (pol_delegations p)\<rparr>,
                 DelegationRevoked (revoke v) (pol_revision p))))"

definition policy_apply_validated ::
  "host \<Rightarrow> VerifiedActor \<Rightarrow> PolicyCommand \<Rightarrow> instant \<Rightarrow> ustr \<Rightarrow> OrganizationPolicy
     \<Rightarrow> WorkError + (OrganizationPolicy \<times> MutationResult)" where
  "policy_apply_validated h actor command at now p =
     (case command of
        CreateRoleAssignment _ who role_id unit_id valid_from valid_until reason \<Rightarrow>
          create_role_assignment h actor who role_id unit_id valid_from valid_until reason
            at now p
      | RevokeRoleAssignment c i reason \<Rightarrow> revoke_role_assignment actor c i reason now p
      | CreateDelegation _ source recipient actions valid_from valid_until reason \<Rightarrow>
          create_delegation h actor source recipient actions valid_from valid_until reason at now p
      | RevokeDelegation _ i reason \<Rightarrow> revoke_delegation actor i reason now p)"

text \<open>The computation of \<open>apply\<close> on its private copy, then the write-back.\<close>

definition policy_apply_copy ::
  "host \<Rightarrow> VerifiedActor \<Rightarrow> PolicyCommand \<Rightarrow> ustr \<Rightarrow> OrganizationPolicy
     \<Rightarrow> WorkError + (OrganizationPolicy \<times> MutationResult)" where
  "policy_apply_copy h actor command now p =
     and_then (policy_validate_integrity h p) (\<lambda>_.
       if get_version_num (cc_operation_id (policy_context command)) \<noteq> 7
          \<or> cc_expected_revision (policy_context command) < 0
       then Inl ValidationFailed
       else
     and_then (map_err (\<lambda>_. IntegrityViolation) (parse_instant h now)) (\<lambda>at.
     and_then (policy_authorize_command h p actor command at) (\<lambda>_.
       if pol_revision p \<noteq> cc_expected_revision (policy_context command)
       then Inl RevisionConflict
       else
     and_then (ok_or IntegrityViolation (checked_add_i64 (pol_revision p) 1)) (\<lambda>rev.
     and_then (policy_apply_validated h actor command at now (p\<lparr>pol_revision := rev\<rparr>))
       (\<lambda>(next, result).
     and_then (policy_validate_integrity h next) (\<lambda>_. Inr (next, result)))))))"

definition policy_apply ::
  "host \<Rightarrow> VerifiedActor \<Rightarrow> PolicyCommand \<Rightarrow> ustr \<Rightarrow> OrganizationPolicy
     \<Rightarrow> OrganizationPolicy \<times> (WorkError + MutationResult)" where
  "policy_apply h actor command now p =
     (case policy_apply_copy h actor command now p of
        Inl e \<Rightarrow> (p, Inl e)
      | Inr (next, result) \<Rightarrow> (next, Inr result))"

definition policy_authorize_recovery ::
  "host \<Rightarrow> OrganizationPolicy \<Rightarrow> VerifiedActor \<Rightarrow> MutationResult \<Rightarrow> instant \<Rightarrow> WorkError + unit" where
  "policy_authorize_recovery h p actor result at =
     (let assignment = (\<lambda>a. case find_assignment p (ra_id a) of
             None \<Rightarrow> False | Some v \<Rightarrow> assignment_visible h p actor v at);
          delegation = (\<lambda>d. case find_delegation p (dg_id d) of
             None \<Rightarrow> False | Some v \<Rightarrow> delegation_visible h p actor v at);
          visible = (case result of
             RoleAssignmentCreated a _ \<Rightarrow> assignment a
           | RoleAssignmentRevoked a _ \<Rightarrow> assignment a
           | DelegationCreated d _ \<Rightarrow> delegation d
           | DelegationRevoked d _ \<Rightarrow> delegation d
           | _ \<Rightarrow> False)
      in if visible then Inr () else Inl OrganizationRecordNotFound)"

end
