(* ===== verification/Work_Context.thy ===== *)
theory Work_Context
  imports Work_Records
begin

text \<open>
  The fixed data of \<open>context.rs\<close>: the three synthetic contexts with their two-step
  plans, the generic labels, the due-soon policy per work type and the presentation
  profiles.
\<close>

definition MAX_WORK_CONTEXTS :: nat where "MAX_WORK_CONTEXTS = 32"

text \<open>A \<open>time::Duration\<close> is a number of nanoseconds.\<close>

definition minutes :: "int \<Rightarrow> int" where "minutes n = n * 60 * 1000000000"

definition SYNTHETIC_DUE_LEAD :: int where "SYNTHETIC_DUE_LEAD = minutes (24 * 60)"

definition CONTEXT_FIXTURES :: "ContextFixture list" where
  "CONTEXT_FIXTURES =
     [\<lparr>cf_workflow_id = WORKFLOW_ID, cf_context_id = CONTEXT_ID, cf_kind = CaseKind,
       cf_title = [21512, 25104, 26696, 20214, 65, 12539, 35373, 20633, 26356, 26032, 30456, 35527],
       cf_owner_unit_id = UNIT_SALES_ID,
       cf_definition_version_id = HOLD_RESUME_DEFINITION_VERSION_ID,
       cf_accepted_definitions = [DEFINITION_VERSION_ID, RETURN_DEFINITION_VERSION_ID,
         COMPLETE_DEFINITION_VERSION_ID, HOLD_RESUME_DEFINITION_VERSION_ID],
       cf_source_task_id = SALES_TASK_ID, cf_source_attempt_id = SALES_ATTEMPT_ID,
       cf_next_task_id = OFFICE_TASK_ID, cf_next_attempt_id = OFFICE_ATTEMPT_ID,
       cf_next_step_id = OFFICE_STEP_ID, cf_next_work_type_id = OFFICE_WORK_TYPE_ID,
       cf_start = AssignedToSales\<rparr>,
      \<lparr>cf_workflow_id = CONTEXT_B_WORKFLOW_ID, cf_context_id = CONTEXT_B_ID, cf_kind = CaseKind,
       cf_title = [21512, 25104, 26696, 20214, 66, 12539, 36939, 36578, 36039, 37329, 30456, 35527],
       cf_owner_unit_id = UNIT_SALES_ID,
       cf_definition_version_id = REVIEW_DEFINITION_VERSION_ID,
       cf_accepted_definitions = [REVIEW_DEFINITION_VERSION_ID],
       cf_source_task_id = CONTEXT_B_SALES_TASK_ID,
       cf_source_attempt_id = 0x0190000000007000800000000000b005,
       cf_next_task_id = CONTEXT_B_REVIEW_TASK_ID,
       cf_next_attempt_id = 0x0190000000007000800000000000b006,
       cf_next_step_id = REVIEW_STEP_ID, cf_next_work_type_id = REVIEW_WORK_TYPE_ID,
       cf_start = ReadyDueInMinutes (6 * 60)\<rparr>,
      \<lparr>cf_workflow_id = CONTEXT_C_WORKFLOW_ID, cf_context_id = CONTEXT_C_ID, cf_kind = RequestKind,
       cf_title = [21512, 25104, 20381, 38972, 67, 12539, 20303, 25152, 22793, 26356, 23626],
       cf_owner_unit_id = UNIT_SALES_ID,
       cf_definition_version_id = HOLD_RESUME_DEFINITION_VERSION_ID,
       cf_accepted_definitions = [HOLD_RESUME_DEFINITION_VERSION_ID],
       cf_source_task_id = CONTEXT_C_SALES_TASK_ID,
       cf_source_attempt_id = 0x0190000000007000800000000000b105,
       cf_next_task_id = CONTEXT_C_OFFICE_TASK_ID,
       cf_next_attempt_id = 0x0190000000007000800000000000b106,
       cf_next_step_id = OFFICE_STEP_ID, cf_next_work_type_id = OFFICE_WORK_TYPE_ID,
       cf_start = ReadyDueInMinutes (-60)\<rparr>]"

definition context_fixture :: "uuid \<Rightarrow> ContextFixture option" where
  "context_fixture workflow_id = find (\<lambda>v. cf_workflow_id v = workflow_id) CONTEXT_FIXTURES"

definition context_fixture_for_context :: "uuid \<Rightarrow> ContextFixture option" where
  "context_fixture_for_context context_id = find (\<lambda>v. cf_context_id v = context_id) CONTEXT_FIXTURES"

definition step_label :: "uuid \<Rightarrow> ustr" where
  "step_label step_id =
     (if step_id = SALES_STEP_ID then [21942, 26989, 20869, 23481, 25972, 29702]
      else if step_id = OFFICE_STEP_ID then [20107, 21209, 20869, 23481, 30906, 35469]
      else if step_id = REVIEW_STEP_ID then [23529, 26619, 20869, 23481, 30906, 35469]
      else [24037, 31243])"

definition work_type_label :: "uuid \<Rightarrow> ustr" where
  "work_type_label work_type_id =
     (if work_type_id = SALES_WORK_TYPE_ID then [21942, 26989, 20869, 23481, 25972, 29702]
      else if work_type_id = OFFICE_WORK_TYPE_ID then [20107, 21209, 20869, 23481, 30906, 35469]
      else if work_type_id = REVIEW_WORK_TYPE_ID then [23529, 26619, 20869, 23481, 30906, 35469]
      else [26989, 21209])"

definition work_type_due_lead :: "uuid \<Rightarrow> int option" where
  "work_type_due_lead work_type_id =
     (if work_type_id = SALES_WORK_TYPE_ID \<or> work_type_id = OFFICE_WORK_TYPE_ID
         \<or> work_type_id = REVIEW_WORK_TYPE_ID
      then Some SYNTHETIC_DUE_LEAD else None)"

subsection \<open>Presentation profiles\<close>

datatype ProfileGrouping = ContextGrouping | WorkTypeGrouping

datatype ContextModule =
    DocumentModule | HistoryModule | EvidenceModule | AgentModule | SearchModule
  | ResourcesModule | ReturnModule

datatype ModulePresentation = HiddenModule | AvailableModule | VisibleModule | ProminentModule

record ModulePriority =
  mp_module :: ContextModule
  mp_presentation :: ModulePresentation

record WorkViewProfile =
  wvp_id :: uuid
  wvp_key :: ustr
  wvp_label :: ustr
  wvp_archetype :: WorkViewArchetype
  wvp_primary_grouping :: ProfileGrouping
  wvp_default_sort :: ustr
  wvp_initial_module :: ContextModule
  wvp_modules :: "ModulePriority list"

definition work_view_profiles :: "WorkViewProfile list" where
  "work_view_profiles =
     (let profile = (\<lambda>i key label archetype grouping initial modules.
            \<lparr>wvp_id = i, wvp_key = key, wvp_label = label, wvp_archetype = archetype,
             wvp_primary_grouping = grouping, wvp_default_sort = lit ''due_at'',
             wvp_initial_module = initial,
             wvp_modules = map (\<lambda>(m, p). \<lparr>mp_module = m, mp_presentation = p\<rparr>) modules\<rparr>)
      in [profile PROFILE_SALES_CONTEXT_ID (lit ''sales-context'')
            [21942, 26989, 12539, 25991, 33032]
            ContextArchetype ContextGrouping DocumentModule
            [(DocumentModule, ProminentModule), (HistoryModule, ProminentModule),
             (EvidenceModule, AvailableModule), (AgentModule, AvailableModule),
             (ReturnModule, AvailableModule), (SearchModule, HiddenModule),
             (ResourcesModule, HiddenModule)],
          profile PROFILE_OFFICE_QUEUE_ID (lit ''office-queue'')
            [20107, 21209, 12539, 12461, 12517, 12540]
            QueueArchetype WorkTypeGrouping DocumentModule
            [(DocumentModule, VisibleModule), (EvidenceModule, AvailableModule),
             (HistoryModule, AvailableModule), (AgentModule, AvailableModule),
             (ReturnModule, AvailableModule), (SearchModule, HiddenModule),
             (ResourcesModule, HiddenModule)],
          profile PROFILE_REVIEW_QUEUE_ID (lit ''review-queue'')
            [23529, 26619, 12539, 12461, 12517, 12540]
            QueueArchetype WorkTypeGrouping EvidenceModule
            [(EvidenceModule, ProminentModule), (DocumentModule, ProminentModule),
             (HistoryModule, AvailableModule), (AgentModule, AvailableModule),
             (ReturnModule, AvailableModule), (SearchModule, HiddenModule),
             (ResourcesModule, HiddenModule)]])"

subsection \<open>Facts\<close>

lemma context_fixture_cases:
  "context_fixture i = Some plan \<Longrightarrow> plan \<in> set CONTEXT_FIXTURES \<and> cf_workflow_id plan = i"
  by (auto simp: context_fixture_def dest: find_Some_in)

text \<open>
  The fixed plans are consistent: workflow, context, task and attempt identities of
  the three fixtures are pairwise distinct, every fixture accepts its own definition
  version, its two tasks belong to different steps, and every responsibility is shown
  with an existing presentation profile.
\<close>

theorem fixtures_consistent:
  "distinct (map cf_workflow_id CONTEXT_FIXTURES @ map cf_context_id CONTEXT_FIXTURES
      @ map cf_source_task_id CONTEXT_FIXTURES @ map cf_next_task_id CONTEXT_FIXTURES
      @ map cf_source_attempt_id CONTEXT_FIXTURES @ map cf_next_attempt_id CONTEXT_FIXTURES)
   \<and> list_all (\<lambda>f. cf_definition_version_id f \<in> set (cf_accepted_definitions f)
        \<and> cf_next_step_id f \<noteq> SALES_STEP_ID
        \<and> work_type_due_lead (cf_next_work_type_id f) \<noteq> None) CONTEXT_FIXTURES
   \<and> profile_for role_id unit_id \<in> set (map wvp_id work_view_profiles)"
proof (intro conjI)
  have "map wvp_id work_view_profiles
      = [PROFILE_SALES_CONTEXT_ID, PROFILE_OFFICE_QUEUE_ID, PROFILE_REVIEW_QUEUE_ID]"
    by (simp add: work_view_profiles_def Let_def)
  then show "profile_for role_id unit_id \<in> set (map wvp_id work_view_profiles)"
    by (simp only: profile_for_def) simp
qed code_simp+

end
