(* ===== verification/Workflow_Read.thy ===== *)
theory Workflow_Read
  imports Organization Work_Context
begin

text \<open>
  The read side of the workflow aggregate (\<open>lib.rs\<close>, \<open>context.rs\<close>): the attached
  authority, eligibility, the actor's projections of tasks, attention, contexts and
  history, and the disclosure checks of artifacts, snapshots and return instructions.
  When no instant is attached, \<open>evaluated_at\<close> reads the clock; the model gives one
  operation one clock reading.
\<close>

subsection \<open>Construction and authority\<close>

definition FIXTURE_CREATED_AT :: ustr where "FIXTURE_CREATED_AT = lit ''2026-10-04T00:00:00Z''"
definition TEXT_SCHEMA_ID :: ustr where "TEXT_SCHEMA_ID = lit ''organization.text-draft.v1''"
definition MAX_TEXT_BYTES :: int where "MAX_TEXT_BYTES = 8 * 1024"
definition MAX_ARTIFACTS :: nat where "MAX_ARTIFACTS = 16"
definition MAX_ASSIGNMENTS_PER_ATTEMPT :: nat where "MAX_ASSIGNMENTS_PER_ATTEMPT = 16"
definition MAX_AGENT_EXECUTIONS :: nat where "MAX_AGENT_EXECUTIONS = 16"

definition synthetic :: "uuid option \<Rightarrow> Workflow" where
  "synthetic document_id =
     \<lparr>wf_agent_executions = [], wf_generated_artifacts = [], wf_suggested_actions = [],
      wf_evidence = [], wf_findings = [], wf_decisions = [], wf_completed_attempts = [],
      wf_return_instructions = [], wf_assignments = [],
      wf_authority = \<lparr>pa_policy = Some synthetic_policy, pa_evaluated_at = None,
                       pa_acknowledged = None, pa_generations = ReceiptsNone\<rparr>,
      wf_id = WORKFLOW_ID, wf_definition_version_id = HOLD_RESUME_DEFINITION_VERSION_ID,
      wf_context_id = CONTEXT_ID, wf_revision = 0,
      wf_source =
        \<lparr>wi_return_instruction_id = None, wi_due_at = None, wi_id = SALES_TASK_ID,
         wi_workflow_instance_id = WORKFLOW_ID, wi_step_id = SALES_STEP_ID,
         wi_work_type_id = SALES_WORK_TYPE_ID, wi_attempt_number = 1,
         wi_work_assignment_id = Some SALES_WORK_ASSIGNMENT_ID,
         wi_acting_assignment_id = Some SALES_ASSIGNMENT_ID,
         wi_created_at = FIXTURE_CREATED_AT, wi_completed_at = None,
         wi_attempt_id = SALES_ATTEMPT_ID, wi_revision = 0, wi_state = Active,
         wi_assignee = Some Sales01, wi_handoff_snapshot_id = None\<rparr>,
      wf_next = None, wf_artifacts = [], wf_snapshots = [], wf_history = [],
      wf_input_resources =
        (case document_id of
           None \<Rightarrow> []
         | Some d \<Rightarrow> [\<lparr>ir_kind = lit ''document'', ir_document_id = d,
                       ir_label = [20849, 26377, 20837, 21147, 25991, 26360]\<rparr>])\<rparr>"

definition item_of :: "Workflow \<Rightarrow> uuid \<Rightarrow> WorkError + WorkItem" where
  "item_of w i =
     (if i = wi_id (wf_source w) then Inr (wf_source w)
      else ok_or WorkItemNotFound (filter_opt (\<lambda>item. wi_id item = i) (wf_next w)))"

definition attach_authority :: "OrganizationPolicy \<Rightarrow> instant \<Rightarrow> Workflow \<Rightarrow> Workflow" where
  "attach_authority policy at w =
     w\<lparr>wf_authority := \<lparr>pa_policy = Some policy, pa_evaluated_at = Some at,
                         pa_acknowledged = None, pa_generations = ReceiptsNone\<rparr>\<rparr>"

definition with_authority :: "Workflow \<Rightarrow> OrganizationPolicy \<Rightarrow> instant \<Rightarrow> Workflow" where
  "with_authority w policy at = attach_authority policy at w"

definition workflow_policy :: "Workflow \<Rightarrow> OrganizationPolicy" where
  "workflow_policy w =
     (case pa_policy (wf_authority w) of None \<Rightarrow> empty_policy | Some p \<Rightarrow> p)"

definition evaluated_at :: "host \<Rightarrow> Workflow \<Rightarrow> instant" where
  "evaluated_at h w =
     (case pa_evaluated_at (wf_authority w) of None \<Rightarrow> now_utc h | Some at \<Rightarrow> at)"

definition describe_responsibility :: "Workflow \<Rightarrow> uuid \<Rightarrow> Responsibility option" where
  "describe_responsibility w i = describe (workflow_policy w) i"

subsection \<open>Eligibility\<close>

definition step_role :: "WorkItem \<Rightarrow> uuid option" where
  "step_role item =
     (if wi_step_id item = SALES_STEP_ID then Some ROLE_SALES_ID
      else if wi_step_id item = OFFICE_STEP_ID then Some ROLE_PROCESSING_ID
      else if wi_step_id item = REVIEW_STEP_ID then Some ROLE_REVIEWING_ID
      else None)"

definition step_responsibility ::
  "host \<Rightarrow> Workflow \<Rightarrow> VerifiedActor \<Rightarrow> uuid \<Rightarrow> WorkItem \<Rightarrow> PolicyAction \<Rightarrow> Responsibility option" where
  "step_responsibility h w actor i item action =
     (case step_role item of
        None \<Rightarrow> None
      | Some role \<Rightarrow>
          filter_opt (\<lambda>v. resp_role_id v = role \<and> allows v action)
            (responsibility h (workflow_policy w) actor i (evaluated_at h w)))"

definition eligible_in ::
  "host \<Rightarrow> Workflow \<Rightarrow> VerifiedActor \<Rightarrow> WorkItem \<Rightarrow> PolicyAction \<Rightarrow> uuid option
     \<Rightarrow> Responsibility option" where
  "eligible_in h w actor item action scope =
     (case step_role item of
        None \<Rightarrow> None
      | Some role \<Rightarrow>
          find (\<lambda>v. is_none_or (\<lambda>i. resp_id v = i) scope \<and> resp_role_id v = role \<and> allows v action)
            (responsibilities h (workflow_policy w) actor (evaluated_at h w)))"

definition eligible :: "host \<Rightarrow> Workflow \<Rightarrow> VerifiedActor \<Rightarrow> WorkItem \<Rightarrow> PolicyAction \<Rightarrow> bool" where
  "eligible h w actor item action \<longleftrightarrow> eligible_in h w actor item action None \<noteq> None"

definition can_act :: "host \<Rightarrow> Workflow \<Rightarrow> VerifiedActor \<Rightarrow> WorkItem \<Rightarrow> PolicyAction \<Rightarrow> bool" where
  "can_act h w actor item action \<longleftrightarrow>
     wi_assignee item = Some actor
     \<and> is_some_and (\<lambda>i. step_responsibility h w actor i item action \<noteq> None)
         (wi_acting_assignment_id item)"

definition can_read :: "host \<Rightarrow> Workflow \<Rightarrow> VerifiedActor \<Rightarrow> WorkItem \<Rightarrow> bool" where
  "can_read h w actor item = can_act h w actor item WorkRead"

definition assigning_in ::
  "host \<Rightarrow> Workflow \<Rightarrow> VerifiedActor \<Rightarrow> uuid option \<Rightarrow> Responsibility option" where
  "assigning_in h w actor scope =
     find (\<lambda>v. is_none_or (\<lambda>i. resp_id v = i) scope \<and> allows v WorkAssign)
       (responsibilities h (workflow_policy w) actor (evaluated_at h w))"

definition plan :: "Workflow \<Rightarrow> WorkError + ContextFixture" where
  "plan w = ok_or IntegrityViolation (context_fixture (wf_id w))"

text \<open>\<open>continuity_in\<close> and \<open>context_grant\<close> are two source functions with one shape.\<close>

definition context_grant ::
  "host \<Rightarrow> Workflow \<Rightarrow> VerifiedActor \<Rightarrow> PolicyAction \<Rightarrow> uuid option \<Rightarrow> bool" where
  "context_grant h w actor action scope =
     (case plan w of
        Inl _ \<Rightarrow> False
      | Inr pl \<Rightarrow>
          list_ex (\<lambda>v. is_none_or (\<lambda>i. resp_id v = i) scope
                     \<and> resp_unit_id v = cf_owner_unit_id pl \<and> allows v action)
            (responsibilities h (workflow_policy w) actor (evaluated_at h w)))"

definition continuity_in :: "host \<Rightarrow> Workflow \<Rightarrow> VerifiedActor \<Rightarrow> uuid option \<Rightarrow> bool" where
  "continuity_in h w actor scope =
     (case plan w of
        Inl _ \<Rightarrow> False
      | Inr pl \<Rightarrow>
          list_ex (\<lambda>v. is_none_or (\<lambda>i. resp_id v = i) scope
                     \<and> resp_unit_id v = cf_owner_unit_id pl \<and> allows v ContextProgressRead)
            (responsibilities h (workflow_policy w) actor (evaluated_at h w)))"

definition visible :: "host \<Rightarrow> Workflow \<Rightarrow> VerifiedActor \<Rightarrow> WorkItem \<Rightarrow> bool" where
  "visible h w actor item \<longleftrightarrow>
     can_read h w actor item
     \<or> (wi_state item = Ready \<and> wi_assignee item = None \<and> eligible h w actor item QueueRead)
     \<or> (wi_state item \<noteq> Completed \<and> assigning_in h w actor None \<noteq> None)
     \<or> continuity_in h w actor None"

subsection \<open>The definition version's features\<close>

definition is_next :: "Workflow \<Rightarrow> WorkItem \<Rightarrow> bool" where
  "is_next w item =
     (case plan w of
        Inl _ \<Rightarrow> False
      | Inr pl \<Rightarrow> wi_id item = cf_next_task_id pl \<and> wi_step_id item = cf_next_step_id pl)"

definition returnable :: "Workflow \<Rightarrow> bool" where
  "returnable w \<longleftrightarrow> wf_definition_version_id w \<in>
     {RETURN_DEFINITION_VERSION_ID, COMPLETE_DEFINITION_VERSION_ID,
      HOLD_RESUME_DEFINITION_VERSION_ID, REVIEW_DEFINITION_VERSION_ID}"

definition completable :: "Workflow \<Rightarrow> bool" where
  "completable w \<longleftrightarrow> wf_definition_version_id w \<in>
     {COMPLETE_DEFINITION_VERSION_ID, HOLD_RESUME_DEFINITION_VERSION_ID,
      REVIEW_DEFINITION_VERSION_ID}"

definition pausable :: "Workflow \<Rightarrow> bool" where
  "pausable w \<longleftrightarrow> wf_definition_version_id w \<in>
     {HOLD_RESUME_DEFINITION_VERSION_ID, REVIEW_DEFINITION_VERSION_ID}"

definition assignment_view :: "host \<Rightarrow> Workflow \<Rightarrow> WorkItem \<Rightarrow> TaskAssignmentView option" where
  "assignment_view h w item =
     (case (wi_assignee item, wi_acting_assignment_id item) of
        (Some who, Some i) \<Rightarrow>
          (let described = describe (workflow_policy w) i in
           Some \<lparr>tav_principal_id = principal_id who, tav_display_name = display_name who,
                 tav_acting_assignment_id = i,
                 tav_acting_kind = map_option resp_kind described,
                 tav_role_label = map_option resp_role_label described,
                 tav_delegator_principal_id =
                   map_option principal_id (Option.bind described resp_delegator),
                 tav_responsibility_effective =
                   (step_responsibility h w who i item WorkRead \<noteq> None)\<rparr>)
      | _ \<Rightarrow> None)"

definition return_transition ::
  "host \<Rightarrow> Workflow \<Rightarrow> VerifiedActor \<Rightarrow> WorkItem \<Rightarrow> ReturnTransition option" where
  "return_transition h w actor item =
     (if \<not> returnable w \<or> \<not> is_next w item \<or> \<not> can_act h w actor item WorkReturn
         \<or> wi_state item \<noteq> Active \<or> wi_state (wf_source w) \<noteq> Completed
      then None
      else map_option (\<lambda>s. \<lparr>rt_transition_id = RETURN_TRANSITION_ID,
                            rt_target_task_id = wi_id (wf_source w),
                            rt_previous_submission_id = snap_id s\<rparr>)
        (find (\<lambda>s. Some (snap_id s) = wi_handoff_snapshot_id item
                 \<and> Some (snap_id s) = wi_handoff_snapshot_id (wf_source w)
                 \<and> snap_source_task_id s = wi_id (wf_source w)
                 \<and> snap_source_attempt_id s = wi_attempt_id (wf_source w)
                 \<and> snap_target_task_id s = wi_id item) (wf_snapshots w)))"

definition completion_action :: "host \<Rightarrow> Workflow \<Rightarrow> VerifiedActor \<Rightarrow> WorkItem \<Rightarrow> uuid option" where
  "completion_action h w actor item =
     (if completable w \<and> is_next w item \<and> can_act h w actor item WorkComplete
         \<and> wi_state item = Active
      then Some COMPLETE_ACTION_ID else None)"

definition pause_action ::
  "host \<Rightarrow> Workflow \<Rightarrow> VerifiedActor \<Rightarrow> WorkItem \<Rightarrow> bool \<Rightarrow> uuid option" where
  "pause_action h w actor item resume =
     (let state = (if resume then Held else Active);
          action = (if resume then WorkResume else WorkHold)
      in if pausable w
            \<and> ((wi_id item = wi_id (wf_source w) \<and> wi_step_id item = SALES_STEP_ID) \<or> is_next w item)
            \<and> can_act h w actor item action
            \<and> wi_work_assignment_id item \<noteq> None
            \<and> wi_state item = state
         then Some (if resume then RESUME_ACTION_ID else HOLD_ACTION_ID) else None)"

subsection \<open>Attention and context identity\<close>

definition attach_acknowledgements :: "VerifiedActor \<Rightarrow> uuid list \<Rightarrow> Workflow \<Rightarrow> Workflow" where
  "attach_acknowledgements actor ids w =
     w\<lparr>wf_authority := (wf_authority w)\<lparr>pa_acknowledged := Some (actor, ids)\<rparr>\<rparr>"

definition acknowledged :: "Workflow \<Rightarrow> VerifiedActor \<Rightarrow> uuid \<Rightarrow> bool" where
  "acknowledged w actor i =
     is_some_and (\<lambda>(owner, ids). owner = actor \<and> i \<in> set ids) (pa_acknowledged (wf_authority w))"

definition current_items :: "Workflow \<Rightarrow> WorkItem list" where
  "current_items w = wf_source w # (case wf_next w of None \<Rightarrow> [] | Some n \<Rightarrow> [n])"

definition attention_for :: "host \<Rightarrow> Workflow \<Rightarrow> VerifiedActor \<Rightarrow> WorkItem \<Rightarrow> Attention list" where
  "attention_for h w actor item =
     (if wi_state item = Completed then []
      else
        let readable = can_read h w actor item;
            assigned = (if readable then
                case Option.bind (wi_work_assignment_id item)
                       (\<lambda>i. find (\<lambda>v. war_id v = i) (wf_assignments w)) of
                  None \<Rightarrow> []
                | Some r \<Rightarrow>
                    (if is_some_and (\<lambda>by. by \<noteq> actor) (war_assigned_by r)
                        \<and> war_principal r = actor \<and> \<not> acknowledged w actor (war_id r)
                     then [\<lparr>at_kind = NewlyAssigned, at_source_id = Some (war_id r), at_due_at = None\<rparr>]
                     else [])
              else []);
            returned =
              (case filter_opt (\<lambda>i. list_ex (\<lambda>v. ri_id v = i
                        \<and> ri_target_attempt_id v = wi_attempt_id item) (wf_return_instructions w))
                      (wi_return_instruction_id item) of
                 None \<Rightarrow> []
               | Some i \<Rightarrow> [\<lparr>at_kind = ReturnedAttention,
                             at_source_id = (if readable then Some i else None), at_due_at = None\<rparr>]);
            due =
              (case wi_due_at item of
                 None \<Rightarrow> []
               | Some d \<Rightarrow>
                   (case stored_instant h d of
                      None \<Rightarrow> []
                    | Some due_instant \<Rightarrow>
                        let now = evaluated_at h w;
                            kind = (if now \<ge> due_instant then Some Overdue
                                    else map_option (\<lambda>_. DueSoon)
                                      (filter_opt (\<lambda>lead. now \<ge> due_instant - lead)
                                        (work_type_due_lead (wi_work_type_id item))))
                        in (case kind of
                              None \<Rightarrow> []
                            | Some k \<Rightarrow> [\<lparr>at_kind = k, at_source_id = None, at_due_at = Some d\<rparr>])))
        in assigned @ returned @ due)"

definition assignee_in :: "host \<Rightarrow> Workflow \<Rightarrow> VerifiedActor \<Rightarrow> uuid option \<Rightarrow> bool" where
  "assignee_in h w actor scope =
     list_ex (\<lambda>item. wi_state item \<noteq> Completed \<and> can_read h w actor item
                \<and> is_none_or (\<lambda>i. wi_acting_assignment_id item = Some i) scope) (current_items w)"

definition context_title_for ::
  "host \<Rightarrow> Workflow \<Rightarrow> VerifiedActor \<Rightarrow> uuid option \<Rightarrow> ustr option" where
  "context_title_for h w actor scope =
     (if context_grant h w actor ContextRead scope \<or> assignee_in h w actor scope
      then map_option cf_title (ok_opt (plan w)) else None)"

subsection \<open>Task projections\<close>

definition summary_in ::
  "host \<Rightarrow> Workflow \<Rightarrow> VerifiedActor \<Rightarrow> WorkItem \<Rightarrow> uuid option \<Rightarrow> TaskSummary" where
  "summary_in h w actor item scope =
     (let source = (wi_id item = wi_id (wf_source w));
          active = (wi_state item = Active);
          readable = can_read h w actor item;
          editable = (source \<and> active \<and> can_act h w actor item WorkEdit);
          label = step_label (wi_step_id item);
          transition = return_transition h w actor item;
          completion = completion_action h w actor item;
          hold_action = pause_action h w actor item False;
          resume_action = pause_action h w actor item True;
          claim = (if wi_state item = Ready \<and> wi_assignee item = None
                   then eligible_in h w actor item WorkClaim scope else None);
          can_assign = (wi_state item \<noteq> Completed \<and> assigning_in h w actor scope \<noteq> None);
          context_title = context_title_for h w actor scope
      in \<lparr>ts_can_hold = (hold_action \<noteq> None), ts_hold_action_id = hold_action,
          ts_can_resume = (resume_action \<noteq> None), ts_resume_action_id = resume_action,
          ts_can_complete = (completion \<noteq> None), ts_completion_action_id = completion,
          ts_can_request_agent =
            (active \<and> can_act h w actor item AgentRequest
             \<and> length (filter (\<lambda>e. ax_work_item_id e = wi_id item
                          \<and> ax_attempt_id e = wi_attempt_id item) (wf_agent_executions w))
                 < MAX_AGENT_EXECUTIONS
             \<and> \<not> list_ex (\<lambda>e. ax_work_item_id e = wi_id item \<and> is_active (ax_status e))
                   (wf_agent_executions w)),
          ts_can_register_evidence = (active \<and> can_act h w actor item EvidenceRegister),
          ts_can_register_finding = (active \<and> can_act h w actor item FindingRegister),
          ts_can_record_decision = (active \<and> can_act h w actor item DecisionRecord),
          ts_required_role_id = step_role item,
          ts_claim_assignment_id = map_option resp_id claim,
          ts_can_assign = can_assign,
          ts_assignment = (if wi_assignee item = Some actor \<or> can_assign
                           then assignment_view h w item else None),
          ts_work_type_id = wi_work_type_id item,
          ts_work_type_label = work_type_label (wi_work_type_id item),
          ts_due_at = wi_due_at item,
          ts_attention = attention_for h w actor item,
          ts_context_title = context_title,
          ts_attempt_number = wi_attempt_number item,
          ts_can_return = (transition \<noteq> None),
          ts_return_instruction_id = (if readable then wi_return_instruction_id item else None),
          ts_return_transition = transition,
          ts_id = wi_id item,
          ts_context_id = (if context_title \<noteq> None then Some (wf_context_id w) else None),
          ts_attempt_id = wi_attempt_id item, ts_revision = wi_revision item,
          ts_title = label, ts_step_label = label, ts_state = wi_state item,
          ts_can_claim = (claim \<noteq> None), ts_can_edit = editable,
          ts_can_submit =
            (editable \<and> can_act h w actor item WorkSubmit
             \<and> list_ex (\<lambda>a. art_attempt_id a = wi_attempt_id item) (wf_artifacts w)),
          ts_handoff_snapshot_id = (if readable then wi_handoff_snapshot_id item else None)\<rparr>)"

definition summary :: "host \<Rightarrow> Workflow \<Rightarrow> VerifiedActor \<Rightarrow> WorkItem \<Rightarrow> TaskSummary" where
  "summary h w actor item = summary_in h w actor item None"

definition list_tasks_in ::
  "host \<Rightarrow> Workflow \<Rightarrow> VerifiedActor \<Rightarrow> TaskView \<Rightarrow> uuid option \<Rightarrow> WorkError + TaskSummary list" where
  "list_tasks_in h w actor view scope =
     (let rs = filter (\<lambda>v. is_none_or (\<lambda>i. resp_id v = i) scope)
                 (responsibilities h (workflow_policy w) actor (evaluated_at h w))
      in if scope \<noteq> None \<and> rs = [] then Inl Forbidden
         else
           let manages = list_ex (\<lambda>v. allows v WorkAssign) rs;
               continuity = (view = ContextView \<and> continuity_in h w actor scope);
               shown = (\<lambda>item.
                 (can_read h w actor item
                    \<and> is_none_or (\<lambda>i. wi_acting_assignment_id item = Some i) scope)
                 \<or> (wi_state item = Ready \<and> wi_assignee item = None
                    \<and> list_ex (\<lambda>v. Some (resp_role_id v) = step_role item
                                \<and> allows v QueueRead \<and> allows v WorkClaim) rs)
                 \<or> (manages \<and> wi_state item \<noteq> Completed)
                 \<or> continuity)
           in Inr (map (\<lambda>item. summary_in h w actor item scope) (filter shown (current_items w))))"

definition list_tasks :: "host \<Rightarrow> Workflow \<Rightarrow> VerifiedActor \<Rightarrow> TaskView \<Rightarrow> TaskSummary list" where
  "list_tasks h w actor view =
     (case list_tasks_in h w actor view None of Inl _ \<Rightarrow> [] | Inr items \<Rightarrow> items)"

definition detail :: "host \<Rightarrow> Workflow \<Rightarrow> VerifiedActor \<Rightarrow> uuid \<Rightarrow> WorkError + TaskDetail" where
  "detail h w actor i =
     and_then (item_of w i) (\<lambda>item.
       if \<not> can_read h w actor item then Inl WorkItemNotFound
       else Inr
         \<lparr>td_agent_execution_ids =
            map ax_id (filter (\<lambda>e. ax_work_item_id e = wi_id item
                \<and> ax_attempt_id e = wi_attempt_id item \<and> ax_requested_by e = actor
                \<and> wi_acting_assignment_id item = Some (ax_requester_responsibility e))
              (wf_agent_executions w)),
          td_task = summary h w actor item,
          td_input_resources = wf_input_resources w,
          td_history = wf_history w,
          td_working_artifacts =
            filter (\<lambda>a. art_attempt_id a = wi_attempt_id item) (wf_artifacts w)\<rparr>)"

subsection \<open>Disclosure of artifacts, snapshots and return instructions\<close>

definition artifact :: "host \<Rightarrow> Workflow \<Rightarrow> VerifiedActor \<Rightarrow> uuid \<Rightarrow> WorkError + WorkingArtifact" where
  "artifact h w actor i =
     and_then (ok_or WorkArtifactNotFound (find (\<lambda>a. art_id a = i) (wf_artifacts w))) (\<lambda>a.
     and_then (map_err (\<lambda>_. WorkArtifactNotFound) (item_of w (art_task_id a))) (\<lambda>item.
       if \<not> can_read h w actor item \<or> art_attempt_id a \<noteq> wi_attempt_id item
       then Inl WorkArtifactNotFound else Inr a))"

definition snapshot :: "host \<Rightarrow> Workflow \<Rightarrow> VerifiedActor \<Rightarrow> uuid \<Rightarrow> WorkError + HandoffSnapshot" where
  "snapshot h w actor i =
     and_then (ok_or WorkArtifactNotFound (find (\<lambda>s. snap_id s = i) (wf_snapshots w))) (\<lambda>s.
       let source_readable = (snap_submitted_by s = principal_id actor
             \<and> (case item_of w (snap_source_task_id s) of
                  Inl _ \<Rightarrow> False | Inr item \<Rightarrow> eligible h w actor item WorkRead));
           target_readable = list_ex (\<lambda>item. wi_id item = snap_target_task_id s
               \<and> can_read h w actor item \<and> wi_handoff_snapshot_id item = Some i)
             ((case wf_next w of None \<Rightarrow> [] | Some n \<Rightarrow> [n]) @ wf_completed_attempts w);
           current_readable = list_ex (\<lambda>item. can_read h w actor item
               \<and> is_some_and (\<lambda>current. current = i
                   \<or> list_ex (\<lambda>v. snap_id v = current \<and> snap_previous_submission_id v = Some i)
                       (wf_snapshots w)) (wi_handoff_snapshot_id item)) (current_items w)
       in if \<not> source_readable \<and> \<not> target_readable \<and> \<not> current_readable
          then Inl WorkArtifactNotFound else Inr s)"

definition return_instruction ::
  "host \<Rightarrow> Workflow \<Rightarrow> VerifiedActor \<Rightarrow> uuid \<Rightarrow> WorkError + ReturnInstruction" where
  "return_instruction h w actor i =
     and_then (ok_or WorkArtifactNotFound (find (\<lambda>v. ri_id v = i) (wf_return_instructions w))) (\<lambda>v.
     and_then (snapshot h w actor (ri_previous_submission_id v)) (\<lambda>_.
       let readable = (\<lambda>task_id. case item_of w task_id of
              Inl _ \<Rightarrow> False | Inr item \<Rightarrow> eligible h w actor item WorkRead)
       in if \<not> readable (ri_source_task_id v) \<and> \<not> readable (ri_target_task_id v)
          then Inl WorkArtifactNotFound else Inr v))"

subsection \<open>Context projections\<close>

definition listed_in :: "host \<Rightarrow> Workflow \<Rightarrow> VerifiedActor \<Rightarrow> uuid \<Rightarrow> uuid option \<Rightarrow> bool" where
  "listed_in h w actor task_id scope =
     list_ex (\<lambda>view. case list_tasks_in h w actor view scope of
         Inl _ \<Rightarrow> False
       | Inr items \<Rightarrow> list_ex (\<lambda>t. ts_id t = task_id) items) [ContextView, QueueView]"

definition listed :: "host \<Rightarrow> Workflow \<Rightarrow> VerifiedActor \<Rightarrow> uuid \<Rightarrow> bool" where
  "listed h w actor task_id = listed_in h w actor task_id None"

definition attention :: "host \<Rightarrow> Workflow \<Rightarrow> VerifiedActor \<Rightarrow> uuid \<Rightarrow> WorkError + TaskAttention" where
  "attention h w actor task_id =
     and_then (item_of w task_id) (\<lambda>item.
       if \<not> listed h w actor (wi_id item) then Inl WorkItemNotFound
       else and_then (format_instant h (evaluated_at h w)) (\<lambda>at.
         Inr \<lparr>ta_task_id = wi_id item, ta_attempt_id = wi_attempt_id item, ta_evaluated_at = at,
              ta_items = attention_for h w actor item\<rparr>))"

definition acknowledge ::
  "host \<Rightarrow> Workflow \<Rightarrow> VerifiedActor \<Rightarrow> uuid \<Rightarrow> uuid \<Rightarrow> WorkError + AttentionAcknowledgement" where
  "acknowledge h w actor task_id work_assignment_id =
     and_then (item_of w task_id) (\<lambda>item.
       if \<not> can_read h w actor item then Inl WorkItemNotFound
       else if wi_state item = Completed \<or> wi_work_assignment_id item \<noteq> Some work_assignment_id
       then Inl ValidationFailed
       else Inr \<lparr>ack_task_id = wi_id item, ack_attempt_id = wi_attempt_id item,
                 ack_work_assignment_id = work_assignment_id,
                 ack_principal_id = principal_id actor\<rparr>)"

definition progress_item :: "WorkItem \<Rightarrow> ContextProgressItem" where
  "progress_item item =
     \<lparr>cp_task_id = wi_id item, cp_step_label = step_label (wi_step_id item),
      cp_work_type_id = wi_work_type_id item, cp_state = wi_state item,
      cp_attempt_number = wi_attempt_number item, cp_due_at = wi_due_at item,
      cp_assigned = (wi_assignee item \<noteq> None)\<rparr>"

definition context_view ::
  "host \<Rightarrow> Workflow \<Rightarrow> VerifiedActor \<Rightarrow> uuid option \<Rightarrow> WorkContextView option" where
  "context_view h w actor scope =
     (case plan w of
        Inl _ \<Rightarrow> None
      | Inr pl \<Rightarrow>
          (case context_title_for h w actor scope of
             None \<Rightarrow> None
           | Some title \<Rightarrow>
               let own = filter (\<lambda>item. can_read h w actor item
                     \<and> is_none_or (\<lambda>i. wi_acting_assignment_id item = Some i) scope)
                     (current_items w);
                   attention_count = sum_list (map (\<lambda>item. int (length (attention_for h w actor item)))
                     (filter (\<lambda>item. listed_in h w actor (wi_id item) scope) (current_items w)))
               in Some \<lparr>cv_id = wf_context_id w, cv_kind = cf_kind pl, cv_title = title,
                        cv_owner_unit_id = cf_owner_unit_id pl,
                        cv_progress = (if context_grant h w actor ContextProgressRead scope
                                       then Some (map progress_item (current_items w)) else None),
                        cv_can_read_history = context_grant h w actor ContextHistoryRead scope,
                        cv_own_task_ids = map wi_id own,
                        cv_attention_count =
                          (if attention_count \<le> u32_max then attention_count else u32_max)\<rparr>))"

definition context_history :: "host \<Rightarrow> Workflow \<Rightarrow> VerifiedActor \<Rightarrow> WorkError + WorkContextHistory" where
  "context_history h w actor =
     (if context_view h w actor None = None then Inl WorkContextNotFound
      else if \<not> context_grant h w actor ContextHistoryRead None then Inl Forbidden
      else Inr \<lparr>ch_context_id = wf_context_id w, ch_entries = wf_history w\<rparr>)"

fun owns :: "Workflow \<Rightarrow> WorkTarget \<Rightarrow> bool" where
  "owns w (TaskTarget i) =
     (list_ex (\<lambda>item. wi_id item = i) (current_items w)
      \<or> (case plan w of Inl _ \<Rightarrow> False | Inr pl \<Rightarrow> cf_next_task_id pl = i))"
| "owns w (ArtifactTarget i) = list_ex (\<lambda>v. art_id v = i) (wf_artifacts w)"
| "owns w (SnapshotTarget i) = list_ex (\<lambda>v. snap_id v = i) (wf_snapshots w)"
| "owns w (ReturnInstructionTarget i) = list_ex (\<lambda>v. ri_id v = i) (wf_return_instructions w)"
| "owns w (EvidenceTarget i) = list_ex (\<lambda>v. ev_id v = i) (wf_evidence w)"
| "owns w (FindingTarget i) = list_ex (\<lambda>v. fd_id v = i) (wf_findings w)"
| "owns w (AgentExecutionTarget i) = list_ex (\<lambda>v. ax_id v = i) (wf_agent_executions w)"
| "owns w (GeneratedArtifactTarget i) = list_ex (\<lambda>v. ga_id v = i) (wf_generated_artifacts w)"
| "owns w (SuggestedActionTarget i) = list_ex (\<lambda>v. sa_id v = i) (wf_suggested_actions w)"
| "owns w (ContextTarget i) = (wf_context_id w = i)"

end
