(* ===== verification/Work_Evidence.thy ===== *)
theory Work_Evidence
  imports Workflow_Read
begin

text \<open>
  Evidence, findings and human decisions (\<open>evidence.rs\<close>): text and reference checks,
  the disclosure rules of each record, the selection check of a submission, and the three
  recording commands on the private copy of the aggregate.
\<close>

definition MAX_REFERENCES :: nat where "MAX_REFERENCES = 100"
definition MAX_VISIBLE_RECORDS :: nat where "MAX_VISIBLE_RECORDS = 16"
definition SYNTHETIC_EXECUTOR :: ustr where "SYNTHETIC_EXECUTOR = lit ''organization-synthetic/agent-01''"

definition bounded_text :: "ustr \<Rightarrow> WorkError + unit" where
  "bounded_text value =
     (if trim value = [] \<or> utf8_len value > MAX_TEXT_BYTES then Inl ValidationFailed else Inr ())"

text \<open>The growing set of identifiers is \<open>distinct\<close>: any repetition is the same error.\<close>

definition validate_refs :: "RevisionRef list \<Rightarrow> WorkError + unit" where
  "validate_refs refs =
     (if length refs > MAX_REFERENCES \<or> list_ex (\<lambda>r. rr_revision r \<noteq> 1) refs
         \<or> \<not> distinct (map rr_id refs)
      then Inl ValidationFailed else Inr ())"

record FindingInput =
  fi_claim :: ustr
  fi_evidence_revision_refs :: "RevisionRef list"
  fi_supersedes_finding_id :: "uuid option"

subsection \<open>Disclosure\<close>

definition record_visible ::
  "host \<Rightarrow> Workflow \<Rightarrow> VerifiedActor \<Rightarrow> uuid \<Rightarrow> uuid \<Rightarrow> RevisionRef
     \<Rightarrow> (HandoffSnapshot \<Rightarrow> RevisionRef list) \<Rightarrow> bool" where
  "record_visible h w actor task_id attempt_id reference member_refs \<longleftrightarrow>
     (case item_of w task_id of
        Inl _ \<Rightarrow> False
      | Inr item \<Rightarrow> wi_attempt_id item = attempt_id \<and> can_read h w actor item)
     \<or> list_ex (\<lambda>s. reference \<in> set (member_refs s) \<and> is_ok (snapshot h w actor (snap_id s)))
         (wf_snapshots w)"

definition record_in_task ::
  "Workflow \<Rightarrow> WorkItem \<Rightarrow> uuid \<Rightarrow> uuid \<Rightarrow> RevisionRef
     \<Rightarrow> (HandoffSnapshot \<Rightarrow> RevisionRef list) \<Rightarrow> bool" where
  "record_in_task w item task attempt r member_refs \<longleftrightarrow>
     (wi_id item = task \<and> wi_attempt_id item = attempt)
     \<or> is_some_and (\<lambda>i. list_ex (\<lambda>s. snap_id s = i \<and> r \<in> set (member_refs s)) (wf_snapshots w))
         (wi_handoff_snapshot_id item)"

abbreviation revision_ref :: "uuid \<Rightarrow> int \<Rightarrow> RevisionRef" where
  "revision_ref i n \<equiv> \<lparr>rr_id = i, rr_revision = n\<rparr>"

definition evidence_record ::
  "host \<Rightarrow> Workflow \<Rightarrow> VerifiedActor \<Rightarrow> uuid \<Rightarrow> WorkError + EvidenceRecord" where
  "evidence_record h w actor i =
     and_then (ok_or EvidenceNotFound (find (\<lambda>e. ev_id e = i) (wf_evidence w))) (\<lambda>e.
       if ev_context_id e \<noteq> wf_context_id w
          \<or> \<not> record_visible h w actor (ev_task_id e) (ev_attempt_id e)
               (revision_ref (ev_id e) (ev_revision e)) snap_evidence_revision_refs
       then Inl EvidenceNotFound else Inr e)"

definition resolve_evidence ::
  "host \<Rightarrow> Workflow \<Rightarrow> VerifiedActor \<Rightarrow> RevisionRef list \<Rightarrow> WorkError + EvidenceRecord list" where
  "resolve_evidence h w actor refs =
     and_then (validate_refs refs) (\<lambda>_.
       map_res (\<lambda>r. and_then (evidence_record h w actor (rr_id r)) (\<lambda>e.
           if ev_revision e \<noteq> rr_revision r then Inl EvidenceNotFound else Inr e)) refs)"

definition finding :: "host \<Rightarrow> Workflow \<Rightarrow> VerifiedActor \<Rightarrow> uuid \<Rightarrow> WorkError + Finding" where
  "finding h w actor i =
     and_then (ok_or FindingNotFound (find (\<lambda>f. fd_id f = i) (wf_findings w))) (\<lambda>f.
       if fd_context_id f \<noteq> wf_context_id w
          \<or> \<not> record_visible h w actor (fd_task_id f) (fd_attempt_id f)
               (revision_ref (fd_id f) (fd_revision f)) snap_finding_revision_refs
       then Inl FindingNotFound
       else and_then (resolve_evidence h w actor (fd_evidence_revision_refs f)) (\<lambda>_. Inr f))"

definition decision :: "host \<Rightarrow> Workflow \<Rightarrow> VerifiedActor \<Rightarrow> uuid \<Rightarrow> WorkError + HumanDecision" where
  "decision h w actor i =
     and_then (ok_or FindingNotFound (find (\<lambda>d. hd_id d = i) (wf_decisions w))) (\<lambda>d.
       if hd_context_id d \<noteq> wf_context_id w
          \<or> \<not> record_visible h w actor (hd_task_id d) (hd_attempt_id d)
               (revision_ref (hd_id d) (hd_revision d)) snap_decision_revision_refs
       then Inl FindingNotFound
       else and_then (finding h w actor (hd_finding_id d)) (\<lambda>_.
            and_then (resolve_evidence h w actor (hd_evidence_revision_refs d)) (\<lambda>_. Inr d)))"

definition list_evidence ::
  "host \<Rightarrow> Workflow \<Rightarrow> VerifiedActor \<Rightarrow> uuid \<Rightarrow> WorkError + EvidenceRecord list" where
  "list_evidence h w actor task_id =
     and_then (detail h w actor task_id) (\<lambda>_.
     and_then (item_of w task_id) (\<lambda>item.
       map_res (\<lambda>e. evidence_record h w actor (ev_id e))
         (filter (\<lambda>e. record_in_task w item (ev_task_id e) (ev_attempt_id e)
             (revision_ref (ev_id e) (ev_revision e)) snap_evidence_revision_refs) (wf_evidence w))))"

definition list_findings ::
  "host \<Rightarrow> Workflow \<Rightarrow> VerifiedActor \<Rightarrow> uuid \<Rightarrow> WorkError + Finding list" where
  "list_findings h w actor task_id =
     and_then (detail h w actor task_id) (\<lambda>_.
     and_then (item_of w task_id) (\<lambda>item.
       map_res (\<lambda>f. finding h w actor (fd_id f))
         (filter (\<lambda>f. record_in_task w item (fd_task_id f) (fd_attempt_id f)
             (revision_ref (fd_id f) (fd_revision f)) snap_finding_revision_refs) (wf_findings w))))"

definition list_decisions ::
  "host \<Rightarrow> Workflow \<Rightarrow> VerifiedActor \<Rightarrow> uuid \<Rightarrow> WorkError + HumanDecision list" where
  "list_decisions h w actor finding_id =
     and_then (finding h w actor finding_id) (\<lambda>_.
       Inr (List.map_filter (\<lambda>d. ok_opt (decision h w actor (hd_id d)))
              (filter (\<lambda>d. hd_finding_id d = finding_id) (wf_decisions w))))"

definition snapshot_evidence ::
  "host \<Rightarrow> Workflow \<Rightarrow> VerifiedActor \<Rightarrow> uuid \<Rightarrow> WorkError + EvidenceRecord list" where
  "snapshot_evidence h w actor i =
     and_then (snapshot h w actor i) (\<lambda>s.
       map_res (\<lambda>r. ok_or IntegrityViolation
           (find (\<lambda>e. ev_id e = rr_id r \<and> ev_revision e = rr_revision r
                   \<and> ev_context_id e = snap_context_id s) (wf_evidence w)))
         (snap_evidence_revision_refs s))"

subsection \<open>Selection\<close>

text \<open>The loop shared by findings, decisions and selections: the evidence belongs to the item.\<close>

definition evidence_in_task ::
  "host \<Rightarrow> Workflow \<Rightarrow> VerifiedActor \<Rightarrow> WorkItem \<Rightarrow> RevisionRef list \<Rightarrow> WorkError + unit" where
  "evidence_in_task h w actor item refs =
     each_res (\<lambda>r. and_then (evidence_record h w actor (rr_id r)) (\<lambda>e.
         if \<not> record_in_task w item (ev_task_id e) (ev_attempt_id e) r snap_evidence_revision_refs
         then Inl EvidenceNotFound else Inr ())) refs"

definition validate_selection ::
  "host \<Rightarrow> Workflow \<Rightarrow> VerifiedActor \<Rightarrow> uuid \<Rightarrow> RevisionRef list \<Rightarrow> RevisionRef list
     \<Rightarrow> RevisionRef list \<Rightarrow> WorkError + unit" where
  "validate_selection h w actor task ev findings decisions =
     and_then (validate_refs ev) (\<lambda>_.
     and_then (validate_refs findings) (\<lambda>_.
     and_then (validate_refs decisions) (\<lambda>_.
       if length ev + length findings + length decisions > MAX_REFERENCES
       then Inl ValidationFailed
       else
     and_then (item_of w task) (\<lambda>item.
     and_then (resolve_evidence h w actor ev) (\<lambda>_.
     and_then (evidence_in_task h w actor item ev) (\<lambda>_.
     and_then (each_res (\<lambda>r. and_then (finding h w actor (rr_id r)) (\<lambda>f.
         if fd_revision f \<noteq> rr_revision r
            \<or> \<not> record_in_task w item (fd_task_id f) (fd_attempt_id f) r snap_finding_revision_refs
         then Inl FindingNotFound
         else if list_ex (\<lambda>e. e \<notin> set ev) (fd_evidence_revision_refs f)
         then Inl HandoffNotReady else Inr ())) findings) (\<lambda>_.
       each_res (\<lambda>r. and_then (decision h w actor (rr_id r)) (\<lambda>d.
         if hd_revision d \<noteq> rr_revision r
            \<or> \<not> record_in_task w item (hd_task_id d) (hd_attempt_id d) r snap_decision_revision_refs
         then Inl FindingNotFound
         else if revision_ref (hd_finding_id d) (hd_finding_revision d) \<notin> set findings
            \<or> list_ex (\<lambda>e. e \<notin> set ev) (hd_evidence_revision_refs d)
         then Inl HandoffNotReady else Inr ())) decisions)))))))"

subsection \<open>Recording\<close>

text \<open>Selecting the current item by task id and changing it in place.\<close>

definition update_item ::
  "WorkError \<Rightarrow> uuid \<Rightarrow> (WorkItem \<Rightarrow> WorkError + WorkItem) \<Rightarrow> Workflow \<Rightarrow> WorkError + Workflow" where
  "update_item missing task f w =
     (if task = wi_id (wf_source w)
      then and_then (f (wf_source w)) (\<lambda>item. Inr (w\<lparr>wf_source := item\<rparr>))
      else and_then (ok_or missing (wf_next w)) (\<lambda>n.
           and_then (f n) (\<lambda>item. Inr (w\<lparr>wf_next := Some item\<rparr>))))"

definition bump_item :: "WorkItem \<Rightarrow> WorkError + WorkItem" where
  "bump_item item =
     and_then (ok_or IntegrityViolation (checked_add_i64 (wi_revision item) 1)) (\<lambda>r.
       Inr (item\<lparr>wi_revision := r\<rparr>))"

definition next_record_revision :: "uuid \<Rightarrow> Workflow \<Rightarrow> WorkError + Workflow" where
  "next_record_revision task w = update_item WorkItemNotFound task bump_item w"

definition create_finding ::
  "host \<Rightarrow> Workflow \<Rightarrow> VerifiedActor \<Rightarrow> uuid \<Rightarrow> FindingInput \<Rightarrow> uuid option \<Rightarrow> ustr
     \<Rightarrow> WorkError + Finding" where
  "create_finding h w actor task_id input origin_execution_id now =
     and_then (item_of w task_id) (\<lambda>item.
     and_then (bounded_text (fi_claim input)) (\<lambda>_.
       if fi_evidence_revision_refs input = [] then Inl ValidationFailed
       else
     and_then (resolve_evidence h w actor (fi_evidence_revision_refs input)) (\<lambda>_.
     and_then (evidence_in_task h w actor item (fi_evidence_revision_refs input)) (\<lambda>_.
     and_then (case fi_supersedes_finding_id input of
                 None \<Rightarrow> Inr ()
               | Some i \<Rightarrow> and_then (finding h w actor i) (\<lambda>f.
                   if fd_task_id f \<noteq> task_id \<or> fd_attempt_id f \<noteq> wi_attempt_id item
                   then Inl FindingNotFound else Inr ())) (\<lambda>_.
     and_then (list_findings h w actor task_id) (\<lambda>visible.
       if length visible \<ge> MAX_VISIBLE_RECORDS then Inl ValidationFailed
       else
     and_then (ok_or IntegrityViolation (wi_acting_assignment_id item)) (\<lambda>acting.
       Inr \<lparr>fd_origin_execution_id = origin_execution_id, fd_id = now_v7 h 0, fd_revision = 1,
            fd_context_id = wf_context_id w, fd_task_id = task_id,
            fd_attempt_id = wi_attempt_id item, fd_uncertainty = [], fd_conflicts = [],
            fd_author = (if origin_execution_id \<noteq> None then SYNTHETIC_EXECUTOR
                         else principal_id actor),
            fd_acting_assignment_id = acting, fd_claim = fi_claim input,
            fd_evidence_revision_refs = fi_evidence_revision_refs input,
            fd_supersedes_finding_id = fi_supersedes_finding_id input,
            fd_visibility = lit ''work_item_private'', fd_created_at = now\<rparr>)))))))"

definition register_evidence ::
  "host \<Rightarrow> VerifiedActor \<Rightarrow> uuid \<Rightarrow> uuid \<Rightarrow> WorkItem \<Rightarrow> EvidenceSource \<Rightarrow> ustr \<Rightarrow> ustr \<Rightarrow> Workflow
     \<Rightarrow> WorkError + (Workflow \<times> MutationResult)" where
  "register_evidence h actor acting task_id item source relevant_location now w =
     and_then (bounded_text relevant_location) (\<lambda>_.
       if sr_provider_id (es_source_ref source) \<noteq> lit ''document''
          \<or> al_kind (es_authoritative_locator source) \<noteq> lit ''contentItem''
          \<or> \<not> list_ex (\<lambda>i. ir_kind i = lit ''document''
                \<and> ir_document_id i = sr_resource_id (es_source_ref source)) (wf_input_resources w)
       then Inl EvidenceNotFound
       else
     and_then (list_evidence h w actor task_id) (\<lambda>visible.
       if length visible \<ge> MAX_VISIBLE_RECORDS then Inl ValidationFailed
       else
         let e = \<lparr>ev_id = now_v7 h 0, ev_revision = 1, ev_context_id = wf_context_id w,
               ev_task_id = task_id, ev_attempt_id = wi_attempt_id item,
               ev_created_by = principal_id actor, ev_acting_assignment_id = acting,
               ev_origin = lit ''human'', ev_source = source, ev_uncertainty = [],
               ev_conflict_references = [], ev_relevant_location_verified = False,
               ev_policy_disposition = lit ''reference_only'',
               ev_relevant_location = relevant_location,
               ev_fragment_omission_reason = lit ''not_retained'',
               ev_coverage = lit ''unknown'', ev_retrieved_at = now, ev_recorded_at = now,
               ev_provider_checked_at = now, ev_visibility = lit ''work_item_private''\<rparr>
         in and_then (next_record_revision task_id (w\<lparr>wf_evidence := wf_evidence w @ [e]\<rparr>)) (\<lambda>w'.
            and_then (item_of w' task_id) (\<lambda>item'.
              Inr (w', EvidenceRegistered (summary h w' actor item') e)))))"

definition register_finding ::
  "host \<Rightarrow> VerifiedActor \<Rightarrow> uuid \<Rightarrow> FindingInput \<Rightarrow> ustr \<Rightarrow> Workflow
     \<Rightarrow> WorkError + (Workflow \<times> MutationResult)" where
  "register_finding h actor task_id input now w =
     and_then (create_finding h w actor task_id input None now) (\<lambda>f.
     and_then (next_record_revision task_id (w\<lparr>wf_findings := wf_findings w @ [f]\<rparr>)) (\<lambda>w'.
     and_then (item_of w' task_id) (\<lambda>item'.
       Inr (w', FindingRegistered (summary h w' actor item') f))))"

definition record_decision ::
  "host \<Rightarrow> VerifiedActor \<Rightarrow> uuid \<Rightarrow> uuid \<Rightarrow> WorkItem \<Rightarrow> uuid \<Rightarrow> int \<Rightarrow> DecisionKind
     \<Rightarrow> ustr option \<Rightarrow> ustr option \<Rightarrow> RevisionRef list \<Rightarrow> uuid option \<Rightarrow> ustr \<Rightarrow> Workflow
     \<Rightarrow> WorkError + (Workflow \<times> MutationResult)" where
  "record_decision h actor acting task_id item finding_id finding_revision kind adopted_claim
       reason refs supersedes now w =
     and_then (finding h w actor finding_id) (\<lambda>f.
       if fd_revision f \<noteq> finding_revision
          \<or> \<not> record_in_task w item (fd_task_id f) (fd_attempt_id f)
               (revision_ref (fd_id f) (fd_revision f)) snap_finding_revision_refs
       then Inl FindingNotFound
       else if kind = Modified \<and> adopted_claim = None then Inl ValidationFailed
       else
     and_then (traverse_opt bounded_text adopted_claim) (\<lambda>_.
       if kind \<noteq> Modified \<and> adopted_claim \<noteq> None then Inl ValidationFailed
       else
     and_then (traverse_opt bounded_text reason) (\<lambda>_.
     and_then (resolve_evidence h w actor refs) (\<lambda>_.
     and_then (evidence_in_task h w actor item refs) (\<lambda>_.
     and_then (case supersedes of
                 None \<Rightarrow> Inr ()
               | Some i \<Rightarrow> and_then (decision h w actor i) (\<lambda>d.
                   if hd_task_id d \<noteq> task_id \<or> hd_attempt_id d \<noteq> wi_attempt_id item
                      \<or> hd_finding_id d \<noteq> finding_id \<or> hd_finding_revision d \<noteq> finding_revision
                   then Inl FindingNotFound else Inr ())) (\<lambda>_.
     and_then (if length (filter (\<lambda>d. hd_attempt_id d = wi_attempt_id item) (wf_decisions w))
                    \<ge> MAX_VISIBLE_RECORDS
               then Inl ValidationFailed
               else and_then (list_decisions h w actor finding_id) (\<lambda>ds.
                 if length ds \<ge> MAX_VISIBLE_RECORDS then Inl ValidationFailed else Inr ())) (\<lambda>_.
       let d = \<lparr>hd_id = now_v7 h 0, hd_revision = 1, hd_context_id = wf_context_id w,
             hd_task_id = task_id, hd_attempt_id = wi_attempt_id item,
             hd_finding_id = finding_id, hd_finding_revision = finding_revision,
             hd_decision = kind, hd_adopted_claim = adopted_claim, hd_reason = reason,
             hd_evidence_revision_refs = refs, hd_human_principal = principal_id actor,
             hd_acting_assignment_id = acting, hd_created_at = now,
             hd_supersedes_decision_id = supersedes,
             hd_visibility = lit ''work_item_private''\<rparr>
       in and_then (next_record_revision task_id (w\<lparr>wf_decisions := wf_decisions w @ [d]\<rparr>)) (\<lambda>w'.
          and_then (item_of w' task_id) (\<lambda>item'.
            Inr (w', DecisionRecorded (summary h w' actor item') d))))))))))"

definition apply_evidence ::
  "host \<Rightarrow> VerifiedActor \<Rightarrow> Command \<Rightarrow> ustr \<Rightarrow> Workflow \<Rightarrow> WorkError + (Workflow \<times> MutationResult)" where
  "apply_evidence h actor command now w =
     (let task_id = command_task_id command;
          acting = cc_acting_assignment_id (command_context command) in
      and_then (item_of w task_id) (\<lambda>item.
        if wi_state item \<noteq> Active then Inl HandoffNotReady
        else case command of
          RegisterEvidence _ _ attempt source location \<Rightarrow>
            (if attempt \<noteq> wi_attempt_id item then Inl RevisionConflict
             else register_evidence h actor acting task_id item source location now w)
        | RegisterFinding _ _ attempt claim refs supersedes \<Rightarrow>
            (if attempt \<noteq> wi_attempt_id item then Inl RevisionConflict
             else register_finding h actor task_id
               \<lparr>fi_claim = claim, fi_evidence_revision_refs = refs,
                fi_supersedes_finding_id = supersedes\<rparr> now w)
        | RecordDecision _ _ attempt finding_id finding_revision kind adopted reason refs supersedes \<Rightarrow>
            (if attempt \<noteq> wi_attempt_id item then Inl RevisionConflict
             else record_decision h actor acting task_id item finding_id finding_revision kind
               adopted reason refs supersedes now w)
        | _ \<Rightarrow> Inl IntegrityViolation))"

end
