(* ===== verification/Work_Agent.thy ===== *)
theory Work_Agent
  imports Work_Evidence
begin

text \<open>
  Agent executions (\<open>agent.rs\<close>) and their results (\<open>agent_result.rs\<close>): the scope check
  of a dispatch, the checks on an agent's output, the integrity of executions and
  candidates, and the operations that do not need the aggregate's full integrity check.
  \<open>fail_agent_execution\<close> changes the aggregate in place before it can fail, so it returns
  the state after the call together with its result.
\<close>

definition MAX_GENERATED_ARTIFACTS :: nat where "MAX_GENERATED_ARTIFACTS = 2"
definition MAX_SUGGESTED_ACTIONS :: nat where "MAX_SUGGESTED_ACTIONS = 4"
definition MAX_AGENT_UNCERTAINTY :: nat where "MAX_AGENT_UNCERTAINTY = 4"
definition MAX_CANDIDATE_TITLE_BYTES :: int where "MAX_CANDIDATE_TITLE_BYTES = 200"
definition MAX_RATIONALE_BYTES :: int where "MAX_RATIONALE_BYTES = 1024"
definition AGENT_PRIVATE_VISIBILITY :: ustr where "AGENT_PRIVATE_VISIBILITY = lit ''agent_execution_private''"

abbreviation document_binding :: ProviderPrincipalBinding where
  "document_binding \<equiv> \<lparr>pb_provider_id = lit ''document'', pb_principal_id = lit ''poc/poc-agent'',
                      pb_invocation_kind = lit ''agent''\<rparr>"

subsection \<open>Dispatch scope\<close>

definition validate_scope :: "AgentDispatchContext \<Rightarrow> WorkError + unit" where
  "validate_scope ctx =
     (let e = adc_execution ctx in
      and_then (bounded_text (ax_purpose e)) (\<lambda>_.
      and_then (validate_refs (ax_evidence_revision_refs e)) (\<lambda>_.
        if adc_allowed_tools ctx \<noteq> [DocumentRevisionTool, DocumentVersionFilesTool]
           \<or> ax_attempt_id e = 0
           \<or> ax_task_revision e < 0
           \<or> ax_effective_context_revision e < 0
           \<or> get_version_num (ax_id e) \<noteq> 7
           \<or> context_fixture_for_context (ax_context_id e) = None
           \<or> ax_requester_responsibility e = 0
           \<or> ax_executed_by e \<noteq> SYNTHETIC_EXECUTOR
           \<or> ax_executor_invocation_kind e \<noteq> lit ''agent''
           \<or> ax_provider_principal_bindings e \<noteq> [document_binding]
           \<or> ax_evidence_revision_refs e = []
           \<or> length (ax_evidence_revision_refs e) > MAX_AGENT_EXECUTIONS
           \<or> length (adc_evidence ctx) \<noteq> length (ax_evidence_revision_refs e)
           \<or> list_ex (\<lambda>(v, r). ev_id v \<noteq> rr_id r \<or> ev_revision v \<noteq> rr_revision r
                  \<or> ev_context_id v \<noteq> ax_context_id e)
               (zip (adc_evidence ctx) (ax_evidence_revision_refs e))
        then Inl Forbidden else Inr ())))"

subsection \<open>Agent output\<close>

definition referenced_finding ::
  "AgentDispatchContext \<Rightarrow> ustr \<Rightarrow> ustr \<Rightarrow> ustr list \<Rightarrow> AgentOutput" where
  "referenced_finding ctx summary_text claim uncertainty =
     (let refs = ax_evidence_revision_refs (adc_execution ctx) in
      \<lparr>ao_summary = summary_text, ao_uncertainty = uncertainty,
       ao_source_outcomes = map (\<lambda>r. \<lparr>so_evidence_revision_ref = r, so_outcome = Referenced\<rparr>) refs,
       ao_finding = Some \<lparr>afc_claim = claim, afc_evidence_revision_refs = refs\<rparr>,
       ao_generated_artifacts = [], ao_suggested_actions = []\<rparr>)"

definition valid_candidate_title :: "ustr \<Rightarrow> WorkError + unit" where
  "valid_candidate_title title =
     (if trim title = [] \<or> utf8_len title > MAX_CANDIDATE_TITLE_BYTES \<or> list_ex is_control title
      then Inl ValidationFailed else Inr ())"

definition cites :: "RevisionRef list \<Rightarrow> RevisionRef list \<Rightarrow> bool" where
  "cites usable_refs refs \<longleftrightarrow>
     refs \<noteq> [] \<and> is_ok (validate_refs refs) \<and> list_all (\<lambda>r. r \<in> set usable_refs) refs"

definition usable_outcomes :: "AgentSourceOutcome list \<Rightarrow> RevisionRef list" where
  "usable_outcomes os = map so_evidence_revision_ref (filter (\<lambda>o'. usable (so_outcome o')) os)"

text \<open>The key under which a suggestion may occur once; \<open>None\<close> when it refers to nothing.\<close>

definition proposal_key :: "AgentOutput \<Rightarrow> SuggestedActionCandidate \<Rightarrow> nat option option" where
  "proposal_key out s =
     (case sac_action s of
        ReviewFindingCandidate \<Rightarrow> (if ao_finding out \<noteq> None then Some None else None)
      | UseGeneratedArtifactCandidate index \<Rightarrow>
          (if index < length (ao_generated_artifacts out) then Some (Some index) else None))"

text \<open>Every failed check of \<open>AgentOutput::validate\<close> is \<open>ValidationFailed\<close>.\<close>

definition validate_output :: "AgentDispatchContext \<Rightarrow> AgentOutput \<Rightarrow> WorkError + unit" where
  "validate_output ctx out =
     (let selected = ax_evidence_revision_refs (adc_execution ctx);
          usable_refs = usable_outcomes (ao_source_outcomes out) in
      and_then (bounded_text (ao_summary out)) (\<lambda>_.
        if ao_uncertainty out = [] \<or> length (ao_uncertainty out) > MAX_AGENT_UNCERTAINTY
        then Inl ValidationFailed
        else
      and_then (each_res bounded_text (ao_uncertainty out)) (\<lambda>_.
        if length (ao_source_outcomes out) \<noteq> length selected
           \<or> list_ex (\<lambda>(v, r). so_evidence_revision_ref v \<noteq> r) (zip (ao_source_outcomes out) selected)
        then Inl ValidationFailed
        else if ax_executed_by (adc_execution ctx) = SYNTHETIC_EXECUTOR
           \<and> list_ex (\<lambda>v. so_outcome v = Analyzed) (ao_source_outcomes out)
        then Inl ValidationFailed
        else if usable_refs = [] then Inl ValidationFailed
        else
      and_then (case ao_finding out of
                  None \<Rightarrow> Inr ()
                | Some f \<Rightarrow> and_then (bounded_text (afc_claim f)) (\<lambda>_.
                    if \<not> cites usable_refs (afc_evidence_revision_refs f)
                    then Inl ValidationFailed else Inr ())) (\<lambda>_.
        if length (ao_generated_artifacts out) > MAX_GENERATED_ARTIFACTS
        then Inl ValidationFailed
        else
      and_then (each_res (\<lambda>c. and_then (valid_candidate_title (gac_title c)) (\<lambda>_.
                  and_then (bounded_text (gac_text c)) (\<lambda>_.
                    if \<not> cites usable_refs (gac_source_revision_refs c)
                    then Inl ValidationFailed else Inr ()))) (ao_generated_artifacts out)) (\<lambda>_.
        if length (ao_suggested_actions out) > MAX_SUGGESTED_ACTIONS
           \<or> list_ex (\<lambda>s. trim (sac_rationale s) = []
                  \<or> utf8_len (sac_rationale s) > MAX_RATIONALE_BYTES
                  \<or> proposal_key out s = None) (ao_suggested_actions out)
           \<or> \<not> distinct (map (proposal_key out) (ao_suggested_actions out))
        then Inl ValidationFailed else Inr ())))))"

subsection \<open>Integrity of executions and candidates\<close>

definition usable_sources :: "AgentResult \<Rightarrow> RevisionRef list" where
  "usable_sources r =
     (if ar_source_outcomes r = [] then ar_evidence_revision_refs r
      else usable_outcomes (ar_source_outcomes r))"

definition cites_usable :: "AgentResult \<Rightarrow> RevisionRef list \<Rightarrow> bool" where
  "cites_usable r refs = cites (usable_sources r) refs"

definition in_scope :: "AgentExecution \<Rightarrow> uuid \<Rightarrow> uuid \<Rightarrow> uuid \<Rightarrow> bool" where
  "in_scope e context_id work_item_id attempt_id \<longleftrightarrow>
     ax_context_id e = context_id \<and> ax_work_item_id e = work_item_id \<and> ax_attempt_id e = attempt_id"

definition result_ok :: "Workflow \<Rightarrow> AgentExecution \<Rightarrow> AgentResult \<Rightarrow> bool" where
  "result_ok w e r =
     (let legacy = (ar_source_outcomes r = []);
          usable_refs = usable_sources r
      in \<not> (length (ar_finding_revision_refs r) > 1
            \<or> (legacy \<and> length (ar_finding_revision_refs r) \<noteq> 1)
            \<or> (\<not> legacy
               \<and> (length (ar_source_outcomes r) \<noteq> length (ax_evidence_revision_refs e)
                  \<or> list_ex (\<lambda>(v, x). so_evidence_revision_ref v \<noteq> x)
                      (zip (ar_source_outcomes r) (ax_evidence_revision_refs e))
                  \<or> usable_refs = []))
            \<or> ar_evidence_revision_refs r \<noteq> ax_evidence_revision_refs e
            \<or> \<not> ar_simulated r
            \<or> ar_body_analyzed r
            \<or> list_ex (\<lambda>v. so_outcome v = Analyzed) (ar_source_outcomes r)
            \<or> ar_live_llm r
            \<or> ar_mcp_wire_executed r)
         \<and> list_all (\<lambda>x. list_ex (\<lambda>f.
               fd_id f = rr_id x \<and> fd_revision f = rr_revision x
               \<and> fd_origin_execution_id f = Some (ax_id e)
               \<and> fd_author f = SYNTHETIC_EXECUTOR
               \<and> (if legacy then fd_evidence_revision_refs f = ax_evidence_revision_refs e
                  else fd_evidence_revision_refs f \<noteq> []
                       \<and> list_all (\<lambda>y. y \<in> set usable_refs) (fd_evidence_revision_refs f))
               \<and> fd_task_id f = ax_work_item_id e
               \<and> fd_attempt_id f = ax_attempt_id e) (wf_findings w)) (ar_finding_revision_refs r))"

definition execution_ok :: "Workflow \<Rightarrow> AgentExecution \<Rightarrow> bool" where
  "execution_ok w e \<longleftrightarrow>
     length (filter (\<lambda>x. ax_work_item_id x = ax_work_item_id e \<and> ax_attempt_id x = ax_attempt_id e)
        (wf_agent_executions w)) \<le> MAX_AGENT_EXECUTIONS
     \<and> is_active (ax_status e) = (ax_ended_at e = None)
     \<and> (ax_status e = Succeeded) = (ax_result e \<noteq> None)
     \<and> (case map_res (\<lambda>r. ok_or IntegrityViolation
            (find (\<lambda>v. ev_id v = rr_id r \<and> ev_revision v = rr_revision r) (wf_evidence w)))
            (ax_evidence_revision_refs e) of
          Inl _ \<Rightarrow> False
        | Inr ev \<Rightarrow> is_ok (validate_scope
            \<lparr>adc_execution = e, adc_evidence = ev,
             adc_allowed_tools = [DocumentRevisionTool, DocumentVersionFilesTool]\<rparr>))
     \<and> is_none_or (result_ok w e) (ax_result e)"

text \<open>
  Every failure is \<open>IntegrityViolation\<close>, so the sets and counters the loop keeps are the
  distinctness and count conditions below.
\<close>

definition validate_agent_integrity :: "Workflow \<Rightarrow> WorkError + unit" where
  "validate_agent_integrity w =
     (if distinct (map ax_id (wf_agent_executions w))
         \<and> distinct (map ax_work_item_id
              (filter (\<lambda>e. is_active (ax_status e)) (wf_agent_executions w)))
         \<and> list_all (execution_ok w) (wf_agent_executions w)
         \<and> list_all (\<lambda>f. is_none_or (\<lambda>i. list_ex (\<lambda>e. ax_id e = i \<and> ax_status e = Succeeded
                \<and> is_some_and (\<lambda>r. revision_ref (fd_id f) (fd_revision f)
                      \<in> set (ar_finding_revision_refs r)) (ax_result e)) (wf_agent_executions w))
              (fd_origin_execution_id f)) (wf_findings w)
      then Inr () else Inl IntegrityViolation)"

definition listing_result :: "Workflow \<Rightarrow> uuid \<Rightarrow> WorkError + (AgentExecution \<times> AgentResult)" where
  "listing_result w execution_id =
     and_then (ok_or IntegrityViolation
         (find (\<lambda>e. ax_id e = execution_id \<and> ax_status e = Succeeded) (wf_agent_executions w))) (\<lambda>e.
     and_then (ok_or IntegrityViolation (ax_result e)) (\<lambda>r. Inr (e, r)))"

definition generated_ok :: "Workflow \<Rightarrow> GeneratedArtifact \<Rightarrow> bool" where
  "generated_ok w g =
     (case listing_result w (ga_execution_id g) of
        Inl _ \<Rightarrow> False
      | Inr (e, r) \<Rightarrow>
          ga_id g \<in> set (ar_generated_artifact_ids r)
          \<and> in_scope e (ga_context_id g) (ga_work_item_id g) (ga_attempt_id g)
          \<and> ga_schema_id g = TEXT_SCHEMA_ID
          \<and> ga_author g = ax_executed_by e
          \<and> ga_simulated g = (ax_executed_by e = SYNTHETIC_EXECUTOR)
          \<and> ga_visibility g = AGENT_PRIVATE_VISIBILITY
          \<and> is_ok (valid_candidate_title (ga_title g))
          \<and> is_ok (bounded_text (tv_text (ga_value g)))
          \<and> cites_usable r (ga_source_revision_refs g))"

definition suggested_ok :: "Workflow \<Rightarrow> SuggestedAction \<Rightarrow> bool" where
  "suggested_ok w s =
     (case listing_result w (sa_execution_id s) of
        Inl _ \<Rightarrow> False
      | Inr (e, r) \<Rightarrow>
          (case sa_action s of
             ReviewFinding ref \<Rightarrow> ref \<in> set (ar_finding_revision_refs r)
           | UseGeneratedArtifact i \<Rightarrow> i \<in> set (ar_generated_artifact_ids r))
          \<and> sa_id s \<in> set (ar_suggested_action_ids r)
          \<and> in_scope e (sa_context_id s) (sa_work_item_id s) (sa_attempt_id s)
          \<and> sa_author s = ax_executed_by e
          \<and> sa_visibility s = AGENT_PRIVATE_VISIBILITY
          \<and> trim (sa_rationale s) \<noteq> []
          \<and> utf8_len (sa_rationale s) \<le> MAX_RATIONALE_BYTES
          \<and> cites_usable r (sa_supporting_revision_refs s))"

definition validate_candidate_integrity :: "Workflow \<Rightarrow> WorkError + unit" where
  "validate_candidate_integrity w =
     (if distinct (map ga_id (wf_generated_artifacts w) @ map sa_id (wf_suggested_actions w))
         \<and> list_all (generated_ok w) (wf_generated_artifacts w)
         \<and> list_all (suggested_ok w) (wf_suggested_actions w)
         \<and> list_all (\<lambda>e. is_none_or (\<lambda>r.
              length (ar_generated_artifact_ids r) + length (ar_suggested_action_ids r)
                = length (filter (\<lambda>g. ga_execution_id g = ax_id e) (wf_generated_artifacts w))
                  + length (filter (\<lambda>s. sa_execution_id s = ax_id e) (wf_suggested_actions w))
              \<and> length (ar_generated_artifact_ids r) \<le> MAX_GENERATED_ARTIFACTS
              \<and> length (ar_suggested_action_ids r) \<le> MAX_SUGGESTED_ACTIONS) (ax_result e))
            (wf_agent_executions w)
      then Inr () else Inl IntegrityViolation)"

subsection \<open>Invalidation of stale executions\<close>

definition stale_execution :: "Workflow \<Rightarrow> AgentExecution \<Rightarrow> bool" where
  "stale_execution w e \<longleftrightarrow> is_active (ax_status e)
     \<and> (ax_effective_context_revision e \<noteq> wf_revision w
        \<or> (case item_of w (ax_work_item_id e) of
             Inl _ \<Rightarrow> True
           | Inr item \<Rightarrow> wi_attempt_id item \<noteq> ax_attempt_id e
               \<or> wi_revision item \<noteq> ax_task_revision e \<or> wi_state item \<noteq> Active))"

fun fail_stale :: "ustr \<Rightarrow> uuid list \<Rightarrow> AgentExecution list \<Rightarrow> WorkError + AgentExecution list" where
  "fail_stale now [] es = Inr es"
| "fail_stale now (i # is) es =
     (if find (\<lambda>e. ax_id e = i) es = None then Inl IntegrityViolation
      else fail_stale now is (update_first (\<lambda>e. ax_id e = i)
             (\<lambda>e. e\<lparr>ax_status := Failed, ax_failure_code := Some ContextStale,
                   ax_ended_at := Some now\<rparr>) es))"

definition invalidate_agent_contexts :: "ustr \<Rightarrow> Workflow \<Rightarrow> WorkError + Workflow" where
  "invalidate_agent_contexts now w =
     and_then (fail_stale now (map ax_id (filter (stale_execution w) (wf_agent_executions w)))
         (wf_agent_executions w)) (\<lambda>es. Inr (w\<lparr>wf_agent_executions := es\<rparr>))"

subsection \<open>Reads\<close>

definition agent_execution ::
  "host \<Rightarrow> Workflow \<Rightarrow> VerifiedActor \<Rightarrow> uuid \<Rightarrow> WorkError + AgentExecution" where
  "agent_execution h w actor i =
     and_then (ok_or WorkItemNotFound (find (\<lambda>e. ax_id e = i) (wf_agent_executions w))) (\<lambda>e.
     and_then (item_of w (ax_work_item_id e)) (\<lambda>item.
       if ax_requested_by e \<noteq> actor \<or> ax_context_id e \<noteq> wf_context_id w
          \<or> ax_attempt_id e \<noteq> wi_attempt_id item
          \<or> wi_acting_assignment_id item \<noteq> Some (ax_requester_responsibility e)
          \<or> \<not> can_read h w actor item
       then Inl WorkItemNotFound else Inr e))"

definition agent_result :: "host \<Rightarrow> Workflow \<Rightarrow> VerifiedActor \<Rightarrow> uuid \<Rightarrow> WorkError + AgentResult" where
  "agent_result h w actor i =
     and_then (agent_execution h w actor i) (\<lambda>e.
       if ax_status e \<noteq> Succeeded then Inl AgentResultNotReady
       else ok_or IntegrityViolation (ax_result e))"

definition agent_disclosure_context ::
  "host \<Rightarrow> Workflow \<Rightarrow> uuid \<Rightarrow> WorkError + AgentDispatchContext" where
  "agent_disclosure_context h w i =
     and_then (ok_or IntegrityViolation (find (\<lambda>e. ax_id e = i) (wf_agent_executions w))) (\<lambda>e.
     and_then (resolve_evidence h w (ax_requested_by e) (ax_evidence_revision_refs e)) (\<lambda>ev.
       let ctx = \<lparr>adc_execution = e, adc_evidence = ev,
                  adc_allowed_tools = [DocumentRevisionTool, DocumentVersionFilesTool]\<rparr>
       in and_then (validate_scope ctx) (\<lambda>_. Inr ctx)))"

definition build_agent_context ::
  "host \<Rightarrow> Workflow \<Rightarrow> VerifiedActor \<Rightarrow> uuid \<Rightarrow> WorkError + AgentDispatchContext" where
  "build_agent_context h w actor i =
     and_then (agent_execution h w actor i) (\<lambda>e.
     and_then (item_of w (ax_work_item_id e)) (\<lambda>item.
       if ax_status e \<noteq> Running \<or> wi_state item \<noteq> Active
          \<or> ax_effective_context_revision e \<noteq> wf_revision w
          \<or> ax_task_revision e \<noteq> wi_revision item
       then Inl WorkContextStale
       else
     and_then (validate_selection h w actor (ax_work_item_id e) (ax_evidence_revision_refs e) [] [])
       (\<lambda>_. agent_disclosure_context h w i)))"

definition candidate_execution ::
  "host \<Rightarrow> Workflow \<Rightarrow> VerifiedActor \<Rightarrow> uuid \<Rightarrow> WorkError + AgentExecution" where
  "candidate_execution h w actor execution_id =
     and_then (agent_execution h w actor execution_id) (\<lambda>e.
       if ax_status e \<noteq> Succeeded then Inl WorkItemNotFound else Inr e)"

definition generated_artifact ::
  "host \<Rightarrow> Workflow \<Rightarrow> VerifiedActor \<Rightarrow> uuid \<Rightarrow> WorkError + GeneratedArtifact" where
  "generated_artifact h w actor i =
     and_then (ok_or WorkItemNotFound (find (\<lambda>g. ga_id g = i) (wf_generated_artifacts w))) (\<lambda>g.
     and_then (candidate_execution h w actor (ga_execution_id g)) (\<lambda>_. Inr g))"

definition suggested_action ::
  "host \<Rightarrow> Workflow \<Rightarrow> VerifiedActor \<Rightarrow> uuid \<Rightarrow> WorkError + SuggestedAction" where
  "suggested_action h w actor i =
     and_then (ok_or WorkItemNotFound (find (\<lambda>s. sa_id s = i) (wf_suggested_actions w))) (\<lambda>s.
     and_then (candidate_execution h w actor (sa_execution_id s)) (\<lambda>_. Inr s))"

subsection \<open>Commands on the private copy\<close>

definition request_execution ::
  "host \<Rightarrow> VerifiedActor \<Rightarrow> CommandContext \<Rightarrow> uuid \<Rightarrow> WorkItem \<Rightarrow> uuid \<Rightarrow> ustr \<Rightarrow> RevisionRef list
     \<Rightarrow> ustr \<Rightarrow> Workflow \<Rightarrow> WorkError + (Workflow \<times> MutationResult)" where
  "request_execution h actor c task_id item attempt purpose refs now w =
     and_then (bounded_text purpose) (\<lambda>_.
       if wi_state item \<noteq> Active then Inl HandoffNotReady
       else if wi_attempt_id item \<noteq> attempt then Inl RevisionConflict
       else if refs = [] \<or> length refs > MAX_AGENT_EXECUTIONS
          \<or> length (filter (\<lambda>e. ax_work_item_id e = task_id \<and> ax_attempt_id e = wi_attempt_id item)
              (wf_agent_executions w)) \<ge> MAX_AGENT_EXECUTIONS
       then Inl ValidationFailed
       else if list_ex (\<lambda>e. ax_work_item_id e = task_id \<and> is_active (ax_status e))
              (wf_agent_executions w)
       then Inl WorkAssignmentConflict
       else
     and_then (validate_selection h w actor task_id refs [] []) (\<lambda>_.
     and_then (next_record_revision task_id w) (\<lambda>w1.
     and_then (ok_or IntegrityViolation (checked_add_i64 (wf_revision w1) 1)) (\<lambda>ctx_rev.
     and_then (item_of w1 task_id) (\<lambda>item1.
       let e = \<lparr>ax_id = cc_operation_id c, ax_context_id = wf_context_id w1,
             ax_work_item_id = task_id, ax_attempt_id = wi_attempt_id item,
             ax_requested_by = actor,
             ax_requester_responsibility = cc_acting_assignment_id c,
             ax_executed_by = SYNTHETIC_EXECUTOR, ax_executor_invocation_kind = lit ''agent'',
             ax_provider_principal_bindings = [document_binding],
             ax_effective_context_revision = ctx_rev, ax_task_revision = wi_revision item1,
             ax_purpose = purpose, ax_evidence_revision_refs = refs, ax_status = Queued,
             ax_started_at = now, ax_ended_at = None, ax_result = None, ax_failure_code = None\<rparr>;
           w2 = w1\<lparr>wf_agent_executions := wf_agent_executions w1 @ [e]\<rparr>
       in and_then (item_of w2 task_id) (\<lambda>item2.
            Inr (w2, AgentExecutionRequested (summary h w2 actor item2) e)))))))"

definition cancel_execution ::
  "host \<Rightarrow> VerifiedActor \<Rightarrow> uuid \<Rightarrow> WorkItem \<Rightarrow> uuid \<Rightarrow> uuid \<Rightarrow> ustr \<Rightarrow> Workflow
     \<Rightarrow> WorkError + (Workflow \<times> MutationResult)" where
  "cancel_execution h actor task_id item attempt execution_id now w =
     and_then (agent_execution h w actor execution_id) (\<lambda>e.
       if wi_attempt_id item \<noteq> attempt \<or> ax_work_item_id e \<noteq> task_id then Inl RevisionConflict
       else
     and_then (if is_active (ax_status e)
               then and_then (next_record_revision task_id w) (\<lambda>w1.
                    and_then (item_of w1 task_id) (\<lambda>item1.
                      Inr (w1\<lparr>wf_agent_executions :=
                        update_first (\<lambda>x. ax_id x = execution_id)
                          (\<lambda>x. x\<lparr>ax_status := Cancelled, ax_ended_at := Some now,
                                ax_task_revision := wi_revision item1\<rparr>)
                          (wf_agent_executions w1)\<rparr>)))
               else Inr w) (\<lambda>w2.
     and_then (item_of w2 task_id) (\<lambda>item2.
     and_then (agent_execution h w2 actor execution_id) (\<lambda>e2.
       Inr (w2, AgentExecutionCancelled (summary h w2 actor item2) e2)))))"

definition apply_agent ::
  "host \<Rightarrow> VerifiedActor \<Rightarrow> Command \<Rightarrow> ustr \<Rightarrow> Workflow \<Rightarrow> WorkError + (Workflow \<times> MutationResult)" where
  "apply_agent h actor command now w =
     (let task_id = command_task_id command in
      and_then (item_of w task_id) (\<lambda>item.
        case command of
          RequestAgentExecution _ c attempt purpose refs \<Rightarrow>
            request_execution h actor c task_id item attempt purpose refs now w
        | CancelAgentExecution _ _ attempt execution_id \<Rightarrow>
            cancel_execution h actor task_id item attempt execution_id now w
        | _ \<Rightarrow> Inl IntegrityViolation))"

subsection \<open>Candidates\<close>

text \<open>Identifiers are drawn in order: the \<open>k\<close>-th of the operation first.\<close>

fun generated_from ::
  "host \<Rightarrow> AgentExecution \<Rightarrow> ustr \<Rightarrow> nat \<Rightarrow> GeneratedArtifactCandidate list \<Rightarrow> GeneratedArtifact list" where
  "generated_from h e now k [] = []"
| "generated_from h e now k (c # cs) =
     \<lparr>ga_id = now_v7 h k, ga_execution_id = ax_id e, ga_context_id = ax_context_id e,
      ga_work_item_id = ax_work_item_id e, ga_attempt_id = ax_attempt_id e,
      ga_schema_id = TEXT_SCHEMA_ID, ga_title = gac_title c,
      ga_value = \<lparr>tv_text = gac_text c\<rparr>, ga_source_revision_refs = gac_source_revision_refs c,
      ga_author = ax_executed_by e, ga_simulated = (ax_executed_by e = SYNTHETIC_EXECUTOR),
      ga_visibility = AGENT_PRIVATE_VISIBILITY, ga_created_at = now\<rparr>
     # generated_from h e now (Suc k) cs"

definition proposed_action ::
  "AgentOutput \<Rightarrow> RevisionRef option \<Rightarrow> GeneratedArtifact list \<Rightarrow> ProposedActionCandidate
     \<Rightarrow> WorkError + (ProposedAction \<times> RevisionRef list)" where
  "proposed_action out ref generated a =
     (case a of
        ReviewFindingCandidate \<Rightarrow>
          and_then (ok_or ValidationFailed ref) (\<lambda>r.
            Inr (ReviewFinding r,
                 case ao_finding out of None \<Rightarrow> [] | Some f \<Rightarrow> afc_evidence_revision_refs f))
      | UseGeneratedArtifactCandidate index \<Rightarrow>
          (if index < length generated
           then Inr (UseGeneratedArtifact (ga_id (generated ! index)),
                     ga_source_revision_refs (generated ! index))
           else Inl ValidationFailed))"

fun suggested_from ::
  "host \<Rightarrow> AgentExecution \<Rightarrow> AgentOutput \<Rightarrow> RevisionRef option \<Rightarrow> GeneratedArtifact list \<Rightarrow> ustr
     \<Rightarrow> nat \<Rightarrow> SuggestedActionCandidate list \<Rightarrow> WorkError + SuggestedAction list" where
  "suggested_from h e out ref generated now k [] = Inr []"
| "suggested_from h e out ref generated now k (c # cs) =
     and_then (proposed_action out ref generated (sac_action c)) (\<lambda>(action, supporting).
     and_then (suggested_from h e out ref generated now (Suc k) cs) (\<lambda>rest.
       Inr (\<lparr>sa_id = now_v7 h k, sa_execution_id = ax_id e, sa_context_id = ax_context_id e,
             sa_work_item_id = ax_work_item_id e, sa_attempt_id = ax_attempt_id e,
             sa_action = action, sa_rationale = sac_rationale c,
             sa_supporting_revision_refs =
               (if supporting = [] then usable_outcomes (ao_source_outcomes out) else supporting),
             sa_author = ax_executed_by e, sa_visibility = AGENT_PRIVATE_VISIBILITY,
             sa_created_at = now\<rparr> # rest)))"

definition record_candidates ::
  "host \<Rightarrow> AgentDispatchContext \<Rightarrow> AgentOutput \<Rightarrow> RevisionRef option \<Rightarrow> ustr \<Rightarrow> nat \<Rightarrow> Workflow
     \<Rightarrow> WorkError + (Workflow \<times> uuid list \<times> uuid list)" where
  "record_candidates h ctx out ref now k w =
     (let e = adc_execution ctx;
          generated = generated_from h e now k (ao_generated_artifacts out) in
      and_then (suggested_from h e out ref generated now (k + length generated)
                  (ao_suggested_actions out)) (\<lambda>suggested.
        Inr (w\<lparr>wf_generated_artifacts := wf_generated_artifacts w @ generated,
               wf_suggested_actions := wf_suggested_actions w @ suggested\<rparr>,
             map ga_id generated, map sa_id suggested)))"

subsection \<open>Failure\<close>

definition fail_agent_execution ::
  "VerifiedActor \<Rightarrow> uuid \<Rightarrow> AgentFailureCode \<Rightarrow> ustr \<Rightarrow> Workflow
     \<Rightarrow> Workflow \<times> (WorkError + AgentExecution)" where
  "fail_agent_execution actor i code now w =
     (case find (\<lambda>e. ax_id e = i \<and> ax_requested_by e = actor) (wf_agent_executions w) of
        None \<Rightarrow> (w, Inl WorkItemNotFound)
      | Some e \<Rightarrow>
          (if is_active (ax_status e) then
             let fail = (\<lambda>e. e\<lparr>ax_status := (if code = Interrupted \<or> code = CommitOutcomeUnknownCode
                                            then OutcomeUnknown else Failed),
                               ax_failure_code := Some code, ax_ended_at := Some now\<rparr>);
                 w1 = w\<lparr>wf_agent_executions := update_first
                    (\<lambda>e. ax_id e = i \<and> ax_requested_by e = actor) fail (wf_agent_executions w)\<rparr>
             in (case checked_add_i64 (wf_revision w1) 1 of
                   None \<Rightarrow> (w1, Inl IntegrityViolation)
                 | Some r \<Rightarrow> (w1\<lparr>wf_revision := r\<rparr>, Inr (fail e)))
           else (w, Inr e)))"

fun fail_each ::
  "VerifiedActor \<Rightarrow> AgentFailureCode \<Rightarrow> ustr \<Rightarrow> uuid list \<Rightarrow> Workflow
     \<Rightarrow> Workflow \<times> (WorkError + unit)" where
  "fail_each actor code now [] w = (w, Inr ())"
| "fail_each actor code now (i # is) w =
     (case fail_agent_execution actor i code now w of
        (w1, Inl e) \<Rightarrow> (w1, Inl e)
      | (w1, Inr _) \<Rightarrow> fail_each actor code now is w1)"

definition interrupt_agent_executions ::
  "VerifiedActor \<Rightarrow> ustr \<Rightarrow> Workflow \<Rightarrow> Workflow \<times> (WorkError + nat)" where
  "interrupt_agent_executions actor now w =
     (let ids = map ax_id (filter (\<lambda>e. ax_requested_by e = actor \<and> is_active (ax_status e))
                  (wf_agent_executions w))
      in case fail_each actor Interrupted now ids w of
           (w1, Inl e) \<Rightarrow> (w1, Inl e)
         | (w1, Inr _) \<Rightarrow> (w1, Inr (length ids)))"

end
