(* ===== verification/Work_Files.thy ===== *)
theory Work_Files
  imports Work_Evidence
begin

text \<open>
  Private work files (\<open>files.rs\<close>): the syntax of names, media types and digests, the
  receipts that say which stored generations the server verified, and the four file
  commands on the private copy of the aggregate.
\<close>

definition FILE_SCHEMA_ID :: ustr where "FILE_SCHEMA_ID = lit ''organization.work-file.v1''"
definition MAX_FILE_BYTES :: int where "MAX_FILE_BYTES = 8 * 1024 * 1024"
definition MAX_FILE_NAME_BYTES :: int where "MAX_FILE_NAME_BYTES = 255"
definition MAX_MEDIA_TYPE_BYTES :: int where "MAX_MEDIA_TYPE_BYTES = 127"
definition WORK_ARTIFACT_PROVIDER_ID :: ustr where "WORK_ARTIFACT_PROVIDER_ID = lit ''organization.work-artifacts''"

subsection \<open>Syntax\<close>

definition disguising :: "uchar \<Rightarrow> bool" where
  "disguising c \<longleftrightarrow> c = 0x061C \<or> (0x200B \<le> c \<and> c \<le> 0x200F) \<or> (0x202A \<le> c \<and> c \<le> 0x202E)
     \<or> (0x2066 \<le> c \<and> c \<le> 0x2069) \<or> c = 0xFEFF"

definition valid_file_name :: "ustr \<Rightarrow> bool" where
  "valid_file_name name \<longleftrightarrow>
     name \<noteq> [] \<and> utf8_len name \<le> MAX_FILE_NAME_BYTES \<and> name \<noteq> lit ''.'' \<and> name \<noteq> lit ''..''
     \<and> \<not> list_ex (\<lambda>c. c = 47 \<or> c = 92 \<or> is_control c \<or> disguising c) name"

definition is_ascii_alphanumeric :: "uchar \<Rightarrow> bool" where
  "is_ascii_alphanumeric c \<longleftrightarrow> (48 \<le> c \<and> c \<le> 57) \<or> (65 \<le> c \<and> c \<le> 90) \<or> (97 \<le> c \<and> c \<le> 122)"

definition split_once :: "uchar \<Rightarrow> ustr \<Rightarrow> (ustr \<times> ustr) option" where
  "split_once d s =
     (case dropWhile (\<lambda>c. c \<noteq> d) s of
        [] \<Rightarrow> None
      | _ # rest \<Rightarrow> Some (takeWhile (\<lambda>c. c \<noteq> d) s, rest))"

text \<open>A byte of a non-ASCII character is never in the token alphabet, so bytes are code points here.\<close>

definition media_token :: "ustr \<Rightarrow> bool" where
  "media_token part \<longleftrightarrow>
     part \<noteq> [] \<and> list_all (\<lambda>c. is_ascii_alphanumeric c \<or> c \<in> set (lit ''!#$&-^_.+'')) part"

definition valid_media_type :: "ustr \<Rightarrow> bool" where
  "valid_media_type value \<longleftrightarrow>
     utf8_len value \<le> MAX_MEDIA_TYPE_BYTES
     \<and> is_some_and (\<lambda>(kind, subtype). media_token kind \<and> media_token subtype) (split_once 47 value)"

definition valid_sha256 :: "ustr \<Rightarrow> bool" where
  "valid_sha256 value \<longleftrightarrow>
     utf8_len value = 64 \<and> list_all (\<lambda>c. (48 \<le> c \<and> c \<le> 57) \<or> (97 \<le> c \<and> c \<le> 102)) value"

subsection \<open>Receipts and reads\<close>

definition attach_verified_generations :: "uuid list \<Rightarrow> Workflow \<Rightarrow> Workflow" where
  "attach_verified_generations ids w =
     w\<lparr>wf_authority := (wf_authority w)\<lparr>pa_generations := ReceiptsVerified ids\<rparr>\<rparr>"

definition defer_generation_receipts :: "Workflow \<Rightarrow> Workflow" where
  "defer_generation_receipts w =
     w\<lparr>wf_authority := (wf_authority w)\<lparr>pa_generations := ReceiptsDeferred\<rparr>\<rparr>"

definition generation_verified :: "Workflow \<Rightarrow> uuid \<Rightarrow> bool" where
  "generation_verified w i =
     (case pa_generations (wf_authority w) of
        ReceiptsNone \<Rightarrow> False
      | ReceiptsDeferred \<Rightarrow> True
      | ReceiptsVerified ids \<Rightarrow> i \<in> set ids)"

definition artifact_file :: "host \<Rightarrow> Workflow \<Rightarrow> VerifiedActor \<Rightarrow> uuid \<Rightarrow> WorkError + WorkFile" where
  "artifact_file h w actor i =
     and_then (artifact h w actor i) (\<lambda>a.
     and_then (ok_or WorkArtifactNotFound (art_file a)) (\<lambda>f.
       if wfile_generation f = None then Inl HandoffNotReady else Inr f))"

definition snapshot_file ::
  "host \<Rightarrow> Workflow \<Rightarrow> VerifiedActor \<Rightarrow> uuid \<Rightarrow> uuid \<Rightarrow> WorkError + WorkFile" where
  "snapshot_file h w actor snapshot_id artifact_id =
     and_then (snapshot h w actor snapshot_id) (\<lambda>s.
       ok_or WorkArtifactNotFound
         (filter_opt (\<lambda>f. wfile_generation f \<noteq> None)
           (Option.bind (find (\<lambda>p. pin_artifact_id p = artifact_id) (snap_artifacts s)) pin_file)))"

subsection \<open>Commands on the private copy\<close>

definition editable_source :: "Workflow \<Rightarrow> uuid \<Rightarrow> WorkError + unit" where
  "editable_source w task_id =
     (if task_id \<noteq> wi_id (wf_source w) \<or> wi_state (wf_source w) \<noteq> Active
      then Inl HandoffNotReady else Inr ())"

definition attempt_artifact_count :: "Workflow \<Rightarrow> nat" where
  "attempt_artifact_count w =
     length (filter (\<lambda>a. art_attempt_id a = wi_attempt_id (wf_source w)) (wf_artifacts w))"

definition bump_source :: "Workflow \<Rightarrow> WorkError + Workflow" where
  "bump_source w = and_then (bump_item (wf_source w)) (\<lambda>s. Inr (w\<lparr>wf_source := s\<rparr>))"

definition create_file_artifact ::
  "host \<Rightarrow> VerifiedActor \<Rightarrow> uuid \<Rightarrow> ustr \<Rightarrow> ustr \<Rightarrow> Workflow
     \<Rightarrow> WorkError + (Workflow \<times> MutationResult)" where
  "create_file_artifact h actor task_id file_name media_type w =
     and_then (editable_source w task_id) (\<lambda>_.
       if \<not> valid_file_name file_name \<or> \<not> valid_media_type media_type then Inl ValidationFailed
       else if attempt_artifact_count w \<ge> MAX_ARTIFACTS then Inl ValidationFailed
       else
         let a = \<lparr>art_id = now_v7 h 0, art_task_id = task_id,
               art_attempt_id = wi_attempt_id (wf_source w), art_revision = 0,
               art_schema_id = FILE_SCHEMA_ID, art_value = None,
               art_visibility = lit ''work_item_private'',
               art_file = Some \<lparr>wfile_name = file_name, wfile_media_type = media_type,
                                wfile_generation = None\<rparr>,
               art_derived_from = None\<rparr>
         in and_then (bump_source (w\<lparr>wf_artifacts := wf_artifacts w @ [a]\<rparr>)) (\<lambda>w'.
              Inr (w', ArtifactCreated (summary h w' actor (wf_source w')) a)))"

definition write_artifact_content ::
  "host \<Rightarrow> VerifiedActor \<Rightarrow> uuid \<Rightarrow> uuid \<Rightarrow> CommandContext \<Rightarrow> int \<Rightarrow> GenerationInput \<Rightarrow> ustr \<Rightarrow> Workflow
     \<Rightarrow> WorkError + (Workflow \<times> MutationResult)" where
  "write_artifact_content h actor task_id artifact_id c expected_artifact_revision generation now w =
     and_then (editable_source w task_id) (\<lambda>_.
       if gi_id generation \<noteq> cc_operation_id c \<or> gi_size_bytes generation = 0
          \<or> gi_size_bytes generation > MAX_FILE_BYTES \<or> \<not> valid_sha256 (gi_sha256 generation)
       then Inl ValidationFailed
       else
         let attempt = wi_attempt_id (wf_source w);
             target = (\<lambda>a. art_id a = artifact_id \<and> art_attempt_id a = attempt) in
     and_then (ok_or WorkArtifactNotFound (find target (wf_artifacts w))) (\<lambda>a.
       if art_revision a \<noteq> expected_artifact_revision then Inl RevisionConflict
       else
     and_then (ok_or ValidationFailed (art_file a)) (\<lambda>f.
     and_then (ok_or IntegrityViolation (checked_add_i64 (art_revision a) 1)) (\<lambda>r.
       let a' = a\<lparr>art_file := Some (f\<lparr>wfile_generation :=
                     Some \<lparr>fg_id = gi_id generation, fg_size_bytes = gi_size_bytes generation,
                           fg_sha256 = gi_sha256 generation, fg_stored_at = now,
                           fg_provider_id = WORK_ARTIFACT_PROVIDER_ID\<rparr>\<rparr>),
                 art_revision := r\<rparr>
       in and_then (bump_source (w\<lparr>wf_artifacts := update_first target (\<lambda>_. a') (wf_artifacts w)\<rparr>)) (\<lambda>w'.
            Inr (w', ArtifactContentWritten (summary h w' actor (wf_source w')) a'))))))"

definition discard_artifact ::
  "host \<Rightarrow> VerifiedActor \<Rightarrow> uuid \<Rightarrow> uuid \<Rightarrow> int \<Rightarrow> Workflow
     \<Rightarrow> WorkError + (Workflow \<times> MutationResult)" where
  "discard_artifact h actor task_id artifact_id expected_artifact_revision w =
     and_then (editable_source w task_id) (\<lambda>_.
       let target = (\<lambda>a. art_id a = artifact_id
                       \<and> art_attempt_id a = wi_attempt_id (wf_source w)) in
     and_then (ok_or WorkArtifactNotFound (find target (wf_artifacts w))) (\<lambda>a.
       if art_revision a \<noteq> expected_artifact_revision then Inl RevisionConflict
       else and_then (bump_source (w\<lparr>wf_artifacts := remove_first target (wf_artifacts w)\<rparr>)) (\<lambda>w'.
              Inr (w', ArtifactDiscarded (summary h w' actor (wf_source w')) artifact_id))))"

fun imported_from ::
  "host \<Rightarrow> uuid \<Rightarrow> uuid \<Rightarrow> uuid \<Rightarrow> nat \<Rightarrow> PinnedArtifact list \<Rightarrow> WorkingArtifact list" where
  "imported_from h task_id attempt snapshot_id k [] = []"
| "imported_from h task_id attempt snapshot_id k (p # ps) =
     \<lparr>art_id = now_v7 h k, art_task_id = task_id, art_attempt_id = attempt, art_revision = 0,
      art_schema_id = pin_schema_id p, art_value = pin_value p,
      art_visibility = lit ''work_item_private'', art_file = pin_file p,
      art_derived_from = Some \<lparr>df_snapshot_id = snapshot_id, df_artifact_id = pin_artifact_id p\<rparr>\<rparr>
     # imported_from h task_id attempt snapshot_id (Suc k) ps"

definition import_submission ::
  "host \<Rightarrow> VerifiedActor \<Rightarrow> uuid \<Rightarrow> uuid \<Rightarrow> uuid \<Rightarrow> Workflow
     \<Rightarrow> WorkError + (Workflow \<times> MutationResult)" where
  "import_submission h actor task_id expected_attempt_id snapshot_id w =
     and_then (editable_source w task_id) (\<lambda>_.
       if wi_attempt_id (wf_source w) \<noteq> expected_attempt_id then Inl RevisionConflict
       else if wi_return_instruction_id (wf_source w) = None then Inl HandoffNotReady
       else
     and_then (snapshot h w actor snapshot_id) (\<lambda>s.
       if wi_handoff_snapshot_id (wf_source w) \<noteq> Some (snap_id s)
          \<or> snap_source_task_id s \<noteq> wi_id (wf_source w)
       then Inl WorkArtifactNotFound
       else if list_ex (\<lambda>a. art_attempt_id a = wi_attempt_id (wf_source w)
              \<and> is_some_and (\<lambda>d. df_snapshot_id d = snap_id s) (art_derived_from a)) (wf_artifacts w)
          \<or> attempt_artifact_count w + length (snap_artifacts s) > MAX_ARTIFACTS
       then Inl ValidationFailed
       else
         let imported = imported_from h task_id (wi_attempt_id (wf_source w)) (snap_id s) 0
                          (snap_artifacts s)
         in and_then (bump_source (w\<lparr>wf_artifacts := wf_artifacts w @ imported\<rparr>)) (\<lambda>w'.
              Inr (w', SubmissionImported (summary h w' actor (wf_source w')) imported))))"

definition apply_files ::
  "host \<Rightarrow> VerifiedActor \<Rightarrow> Command \<Rightarrow> ustr \<Rightarrow> Workflow \<Rightarrow> WorkError + (Workflow \<times> MutationResult)" where
  "apply_files h actor command now w =
     (case command of
        CreateFileArtifact task_id _ file_name media_type \<Rightarrow>
          create_file_artifact h actor task_id file_name media_type w
      | WriteArtifactContent task_id artifact_id c expected generation \<Rightarrow>
          write_artifact_content h actor task_id artifact_id c expected generation now w
      | DiscardArtifact task_id artifact_id _ expected \<Rightarrow>
          discard_artifact h actor task_id artifact_id expected w
      | ImportSubmission task_id _ attempt snapshot_id \<Rightarrow>
          import_submission h actor task_id attempt snapshot_id w
      | _ \<Rightarrow> Inl IntegrityViolation)"

end
