(* ===== verification/Workflow_Apply.thy ===== *)
theory Workflow_Apply
  imports Work_Agent Work_Files
begin

text \<open>
  The write side of the workflow aggregate (\<open>lib.rs\<close>): integrity, authorization of
  commands and of recovered receipts, the commands themselves on a private copy, and
  \<open>apply\<close>, which commits the copy or leaves the aggregate untouched. The two agent
  operations that commit a checked copy (\<open>start\<close>, \<open>finish\<close>) and the construction of a
  workflow from its fixture follow.
\<close>

subsection \<open>Integrity\<close>

definition all_items :: "Workflow \<Rightarrow> WorkItem list" where
  "all_items w = current_items w @ wf_completed_attempts w"

definition item_ok :: "Workflow \<Rightarrow> WorkItem \<Rightarrow> bool" where
  "item_ok w item \<longleftrightarrow>
     wi_workflow_instance_id item = wf_id w \<and> wi_attempt_number item \<noteq> 0 \<and> 0 \<le> wi_revision item
     \<and> (wi_assignee item \<noteq> None) = (wi_acting_assignment_id item \<noteq> None)"

definition archived_ok :: "Workflow \<Rightarrow> WorkItem \<Rightarrow> bool" where
  "archived_ok w a =
     (case item_of w (wi_id a) of
        Inl _ \<Rightarrow> False
      | Inr current \<Rightarrow>
          wi_state a = Completed \<and> wi_completed_at a \<noteq> None
          \<and> wi_attempt_number a < wi_attempt_number current \<and> wi_revision a < wi_revision current)"

definition open_record_ok :: "Workflow \<Rightarrow> WorkAssignmentRecord \<Rightarrow> bool" where
  "open_record_ok w r =
     (case find (\<lambda>item. wi_attempt_id item = war_attempt_id r) (current_items w) of
        None \<Rightarrow> False
      | Some current \<Rightarrow>
          wi_id current = war_task_id r
          \<and> wi_work_assignment_id current = Some (war_id r)
          \<and> wi_assignee current = Some (war_principal r)
          \<and> wi_acting_assignment_id current = Some (war_acting_assignment_id r))"

text \<open>Every failure before the agent checks is \<open>IntegrityViolation\<close>.\<close>

definition validate_integrity :: "host \<Rightarrow> Workflow \<Rightarrow> WorkError + unit" where
  "validate_integrity h w =
     and_then (plan w) (\<lambda>pl.
       if wf_context_id w \<noteq> cf_context_id pl
          \<or> wi_id (wf_source w) \<noteq> cf_source_task_id pl
          \<or> wf_definition_version_id w \<notin> set (cf_accepted_definitions pl)
          \<or> is_some_and (\<lambda>item. wi_id item \<noteq> cf_next_task_id pl
                          \<or> wi_step_id item \<noteq> cf_next_step_id pl) (wf_next w)
          \<or> list_ex (\<lambda>item. is_some_and (\<lambda>due. \<not> is_ok (parse_instant h due)) (wi_due_at item))
              (all_items w)
       then Inl IntegrityViolation
       else if \<not> list_all (item_ok w) (all_items w)
          \<or> \<not> distinct (map wi_attempt_id (all_items w))
          \<or> \<not> distinct (map (\<lambda>item. (wi_id item, wi_attempt_number item)) (all_items w))
       then Inl IntegrityViolation
       else if \<not> list_all (archived_ok w) (wf_completed_attempts w) then Inl IntegrityViolation
       else if (let open_records = filter (\<lambda>r. war_ended_at r = None) (wf_assignments w)
                in \<not> list_all (open_record_ok w) open_records
                   \<or> \<not> distinct (map war_attempt_id open_records))
       then Inl IntegrityViolation
       else and_then (validate_agent_integrity w) (\<lambda>_. validate_candidate_integrity w))"

subsection \<open>Authorization\<close>

definition authorize_assigned ::
  "host \<Rightarrow> Workflow \<Rightarrow> VerifiedActor \<Rightarrow> WorkItem \<Rightarrow> uuid \<Rightarrow> PolicyAction \<Rightarrow> WorkError + unit" where
  "authorize_assigned h w actor item acting action =
     (if \<not> can_read h w actor item then Inl WorkItemNotFound
      else if wi_acting_assignment_id item \<noteq> Some acting
         \<or> step_responsibility h w actor acting item action = None
      then Inl Forbidden else Inr ())"

definition hidden_error :: "bool \<Rightarrow> WorkError" where
  "hidden_error shown = (if shown then Forbidden else WorkItemNotFound)"

definition authorize_command ::
  "host \<Rightarrow> Workflow \<Rightarrow> VerifiedActor \<Rightarrow> Command \<Rightarrow> WorkError + unit" where
  "authorize_command h w actor command =
     and_then (authorize_context (command_context command)) (\<lambda>_.
       let acting = cc_acting_assignment_id (command_context command) in
     and_then (ok_or Forbidden (responsibility h (workflow_policy w) actor acting (evaluated_at h w)))
       (\<lambda>resp.
     and_then (item_of w (command_task_id command)) (\<lambda>item.
       let action = required_action command in
       case command of
         Claim _ _ \<Rightarrow>
           (if step_role item \<noteq> Some (resp_role_id resp) \<or> \<not> allows resp action
            then Inl (hidden_error (visible h w actor item)) else Inr ())
       | Assign _ _ _ assignee _ _ \<Rightarrow>
           (if \<not> allows resp action then Inl (hidden_error (visible h w actor item))
            else if assignee = actor then Inl Forbidden else Inr ())
       | SaveDraft _ artifact_id _ _ \<Rightarrow>
           and_then (authorize_assigned h w actor item acting action) (\<lambda>_.
             case artifact_id of
               None \<Rightarrow> Inr ()
             | Some i \<Rightarrow> and_then (artifact h w actor i) (\<lambda>a.
                 if art_task_id a \<noteq> wi_id item then Inl WorkArtifactNotFound else Inr ()))
       | WriteArtifactContent _ artifact_id _ _ _ \<Rightarrow>
           and_then (authorize_assigned h w actor item acting action) (\<lambda>_.
           and_then (artifact h w actor artifact_id) (\<lambda>a.
             if art_task_id a \<noteq> wi_id item then Inl WorkArtifactNotFound else Inr ()))
       | DiscardArtifact _ artifact_id _ _ \<Rightarrow>
           and_then (authorize_assigned h w actor item acting action) (\<lambda>_.
           and_then (artifact h w actor artifact_id) (\<lambda>a.
             if art_task_id a \<noteq> wi_id item then Inl WorkArtifactNotFound else Inr ()))
       | _ \<Rightarrow> authorize_assigned h w actor item acting action)))"

definition ignore_ok :: "'e + 'a \<Rightarrow> 'e + unit" where
  "ignore_ok r = and_then r (\<lambda>_. Inr ())"

fun authorize_recovery ::
  "host \<Rightarrow> Workflow \<Rightarrow> VerifiedActor \<Rightarrow> MutationResult \<Rightarrow> WorkError + unit" where
  "authorize_recovery h w actor (AgentExecutionRequested _ e) = ignore_ok (agent_execution h w actor (ax_id e))"
| "authorize_recovery h w actor (AgentExecutionCancelled _ e) = ignore_ok (agent_execution h w actor (ax_id e))"
| "authorize_recovery h w actor (EvidenceRegistered _ e) = ignore_ok (evidence_record h w actor (ev_id e))"
| "authorize_recovery h w actor (FindingRegistered _ f) = ignore_ok (finding h w actor (fd_id f))"
| "authorize_recovery h w actor (DecisionRecorded _ d) = ignore_ok (decision h w actor (hd_id d))"
| "authorize_recovery h w actor (ReturnedResult _ r _) = ignore_ok (return_instruction h w actor (ri_id r))"
| "authorize_recovery h w actor (DraftSaved _ a) = ignore_ok (artifact h w actor (art_id a))"
| "authorize_recovery h w actor (ArtifactCreated _ a) = ignore_ok (artifact h w actor (art_id a))"
| "authorize_recovery h w actor (ArtifactContentWritten _ a) = ignore_ok (artifact h w actor (art_id a))"
| "authorize_recovery h w actor (ArtifactDiscarded t _) = ignore_ok (detail h w actor (ts_id t))"
| "authorize_recovery h w actor (SubmissionImported _ as) =
     each_res (\<lambda>a. ignore_ok (artifact h w actor (art_id a))) as"
| "authorize_recovery h w actor (HeldResult t) = ignore_ok (detail h w actor (ts_id t))"
| "authorize_recovery h w actor (ResumedResult t) = ignore_ok (detail h w actor (ts_id t))"
| "authorize_recovery h w actor (Claimed t) = ignore_ok (detail h w actor (ts_id t))"
| "authorize_recovery h w actor (CompletedResult t) = ignore_ok (detail h w actor (ts_id t))"
| "authorize_recovery h w actor (Submitted _ s _) = ignore_ok (snapshot h w actor (snap_id s))"
| "authorize_recovery h w actor (Assigned t _) =
     and_then (item_of w (ts_id t)) (\<lambda>item.
       if assigning_in h w actor None = None \<and> \<not> can_read h w actor item
       then Inl WorkItemNotFound else Inr ())"
| "authorize_recovery h w actor (RoleAssignmentCreated _ _) = Inl IntegrityViolation"
| "authorize_recovery h w actor (RoleAssignmentRevoked _ _) = Inl IntegrityViolation"
| "authorize_recovery h w actor (DelegationCreated _ _) = Inl IntegrityViolation"
| "authorize_recovery h w actor (DelegationRevoked _ _) = Inl IntegrityViolation"

fun add_missing_refs :: "RevisionRef list \<Rightarrow> RevisionRef list \<Rightarrow> RevisionRef list" where
  "add_missing_refs refs [] = refs"
| "add_missing_refs refs (r # rs) =
     add_missing_refs (if r \<in> set refs then refs else refs @ [r]) rs"

definition result_evidence ::
  "host \<Rightarrow> Workflow \<Rightarrow> VerifiedActor \<Rightarrow> MutationResult \<Rightarrow> WorkError + EvidenceRecord list" where
  "result_evidence h w actor result =
     and_then (authorize_recovery h w actor result) (\<lambda>_.
       case result of
         AgentExecutionRequested _ e \<Rightarrow> resolve_evidence h w actor (ax_evidence_revision_refs e)
       | AgentExecutionCancelled _ e \<Rightarrow> resolve_evidence h w actor (ax_evidence_revision_refs e)
       | EvidenceRegistered _ e \<Rightarrow> and_then (evidence_record h w actor (ev_id e)) (\<lambda>v. Inr [v])
       | FindingRegistered _ f \<Rightarrow> resolve_evidence h w actor (fd_evidence_revision_refs f)
       | DecisionRecorded _ d \<Rightarrow>
           and_then (finding h w actor (hd_finding_id d)) (\<lambda>f.
             resolve_evidence h w actor
               (add_missing_refs (fd_evidence_revision_refs f) (hd_evidence_revision_refs d)))
       | Submitted _ s _ \<Rightarrow> snapshot_evidence h w actor (snap_id s)
       | _ \<Rightarrow> Inr [])"

subsection \<open>Commands on the private copy\<close>

abbreviation history_entry :: "string \<Rightarrow> ustr \<Rightarrow> HistoryEntry" where
  "history_entry kind now \<equiv> \<lparr>he_kind = lit kind, he_occurred_at = now\<rparr>"

definition apply_pause ::
  "host \<Rightarrow> VerifiedActor \<Rightarrow> bool \<Rightarrow> uuid \<Rightarrow> uuid \<Rightarrow> uuid \<Rightarrow> ustr \<Rightarrow> Workflow
     \<Rightarrow> WorkError + (Workflow \<times> MutationResult)" where
  "apply_pause h actor resume task_id attempt action_id now w =
     and_then (item_of w task_id) (\<lambda>item.
       if wi_attempt_id item \<noteq> attempt then Inl RevisionConflict
       else if pause_action h w actor item resume \<noteq> Some action_id then Inl HandoffNotReady
       else
     and_then (update_item IntegrityViolation task_id
                 (\<lambda>item. bump_item (item\<lparr>wi_state := (if resume then Active else Held)\<rparr>)) w) (\<lambda>w1.
       let w2 = w1\<lparr>wf_history := wf_history w1
                    @ [history_entry (if resume then ''resumed'' else ''held'') now]\<rparr>
       in and_then (item_of w2 task_id) (\<lambda>item2.
            let t = summary h w2 actor item2
            in Inr (w2, if resume then ResumedResult t else HeldResult t))))"

definition close_item :: "ustr \<Rightarrow> WorkItem \<Rightarrow> WorkItem" where
  "close_item now item = item\<lparr>wi_state := Completed, wi_completed_at := Some now\<rparr>"

definition apply_complete ::
  "host \<Rightarrow> VerifiedActor \<Rightarrow> uuid \<Rightarrow> uuid \<Rightarrow> uuid \<Rightarrow> ustr \<Rightarrow> Workflow
     \<Rightarrow> WorkError + (Workflow \<times> MutationResult)" where
  "apply_complete h actor task_id attempt action_id now w =
     and_then (item_of w task_id) (\<lambda>item.
       if wi_attempt_id item \<noteq> attempt then Inl RevisionConflict
       else if completion_action h w actor item \<noteq> Some action_id then Inl HandoffNotReady
       else
     and_then (ok_or IntegrityViolation (wf_next w)) (\<lambda>n.
     and_then (bump_item (close_item now n)) (\<lambda>n'.
       let w1 = w\<lparr>wf_next := Some n', wf_history := wf_history w @ [history_entry ''completed'' now]\<rparr>
       in and_then (item_of w1 task_id) (\<lambda>item1.
            Inr (w1, CompletedResult (summary h w1 actor item1))))))"

definition return_record ::
  "host \<Rightarrow> Workflow \<Rightarrow> VerifiedActor \<Rightarrow> CommandContext \<Rightarrow> uuid \<Rightarrow> WorkItem \<Rightarrow> ReturnTransition \<Rightarrow> ustr
     \<Rightarrow> ustr \<Rightarrow> ReturnInstruction" where
  "return_record h w actor c task_id item permitted reason now =
     \<lparr>ri_id = now_v7 h 1, ri_workflow_id = wf_id w, ri_context_id = wf_context_id w,
      ri_source_task_id = task_id, ri_source_attempt_id = wi_attempt_id item,
      ri_target_task_id = rt_target_task_id permitted, ri_target_attempt_id = now_v7 h 0,
      ri_previous_submission_id = rt_previous_submission_id permitted,
      ri_transition_id = rt_transition_id permitted, ri_reason = reason,
      ri_returned_by = principal_id actor,
      ri_acting_assignment_id = cc_acting_assignment_id c, ri_created_at = now\<rparr>"

text \<open>The fresh source attempt a return opens.\<close>

definition returned_source ::
  "Workflow \<Rightarrow> ReturnInstruction \<Rightarrow> int \<Rightarrow> int \<Rightarrow> ustr \<Rightarrow> WorkItem" where
  "returned_source w instruction number revision now =
     \<lparr>wi_return_instruction_id = Some (ri_id instruction), wi_due_at = None,
      wi_id = wi_id (wf_source w), wi_workflow_instance_id = wf_id w,
      wi_step_id = wi_step_id (wf_source w), wi_work_type_id = wi_work_type_id (wf_source w),
      wi_attempt_number = number, wi_work_assignment_id = None,
      wi_acting_assignment_id = None, wi_created_at = now, wi_completed_at = None,
      wi_attempt_id = ri_target_attempt_id instruction, wi_revision = revision, wi_state = Ready,
      wi_assignee = None,
      wi_handoff_snapshot_id = Some (ri_previous_submission_id instruction)\<rparr>"

definition apply_return ::
  "host \<Rightarrow> VerifiedActor \<Rightarrow> CommandContext \<Rightarrow> uuid \<Rightarrow> uuid \<Rightarrow> uuid \<Rightarrow> uuid \<Rightarrow> uuid \<Rightarrow> ustr \<Rightarrow> ustr
     \<Rightarrow> Workflow \<Rightarrow> WorkError + (Workflow \<times> MutationResult)" where
  "apply_return h actor c task_id attempt previous_submission_id target_task_id transition_id
       reason now w =
     and_then (item_of w task_id) (\<lambda>item.
       if wi_attempt_id item \<noteq> attempt then Inl RevisionConflict
       else if trim reason = [] \<or> utf8_len reason > MAX_TEXT_BYTES then Inl ValidationFailed
       else
     and_then (ok_or HandoffNotReady (return_transition h w actor item)) (\<lambda>permitted.
       if rt_transition_id permitted \<noteq> transition_id
          \<or> rt_target_task_id permitted \<noteq> target_task_id
          \<or> rt_previous_submission_id permitted \<noteq> previous_submission_id
       then Inl HandoffNotReady
       else
         let src = wf_source w;
             instruction = return_record h w actor c task_id item permitted reason now in
     and_then (ok_or IntegrityViolation (checked_add_u32 (wi_attempt_number src) 1)) (\<lambda>number.
     and_then (ok_or IntegrityViolation (checked_add_i64 (wi_revision src) 1)) (\<lambda>revision.
     and_then (ok_or IntegrityViolation (wf_next w)) (\<lambda>office.
     and_then (bump_item (close_item now office)) (\<lambda>office1.
       let w1 = w\<lparr>wf_completed_attempts := wf_completed_attempts w @ [src],
             wf_source := returned_source w instruction number revision now,
             wf_next := Some (office1\<lparr>wi_return_instruction_id := Some (ri_id instruction)\<rparr>),
             wf_return_instructions := wf_return_instructions w @ [instruction],
             wf_history := wf_history w @ [history_entry ''returned'' now]\<rparr>
       in and_then (item_of w1 task_id) (\<lambda>item1.
            Inr (w1, ReturnedResult (summary h w1 actor item1) instruction
                       (summary h w1 actor (wf_source w1))))))))))"

definition apply_save_draft ::
  "host \<Rightarrow> VerifiedActor \<Rightarrow> uuid \<Rightarrow> uuid option \<Rightarrow> TextValue \<Rightarrow> Workflow
     \<Rightarrow> WorkError + (Workflow \<times> MutationResult)" where
  "apply_save_draft h actor task_id artifact_id value w =
     (if task_id \<noteq> wi_id (wf_source w) \<or> wi_state (wf_source w) \<noteq> Active then Inl HandoffNotReady
      else if trim (tv_text value) = [] \<or> utf8_len (tv_text value) > MAX_TEXT_BYTES
      then Inl ValidationFailed
      else
     and_then
       (case artifact_id of
          Some i \<Rightarrow>
            and_then (ok_or WorkArtifactNotFound (find (\<lambda>a. art_id a = i) (wf_artifacts w))) (\<lambda>a.
              if art_schema_id a \<noteq> TEXT_SCHEMA_ID then Inl ValidationFailed
              else
            and_then (ok_or IntegrityViolation (checked_add_i64 (art_revision a) 1)) (\<lambda>r.
              let a' = a\<lparr>art_revision := r, art_value := Some value\<rparr>
              in Inr (w\<lparr>wf_artifacts := update_first (\<lambda>a. art_id a = i) (\<lambda>_. a') (wf_artifacts w)\<rparr>,
                      a')))
        | None \<Rightarrow>
            (if length (filter (\<lambda>a. art_attempt_id a = wi_attempt_id (wf_source w)) (wf_artifacts w))
                  \<ge> MAX_ARTIFACTS
             then Inl ValidationFailed
             else
               let a = \<lparr>art_id = now_v7 h 0, art_task_id = task_id,
                     art_attempt_id = wi_attempt_id (wf_source w), art_revision = 0,
                     art_schema_id = TEXT_SCHEMA_ID, art_value = Some value,
                     art_visibility = lit ''work_item_private'', art_file = None,
                     art_derived_from = None\<rparr>
               in Inr (w\<lparr>wf_artifacts := wf_artifacts w @ [a]\<rparr>, a)))
       (\<lambda>(w1, a). and_then (bump_source w1) (\<lambda>w2.
          Inr (w2, DraftSaved (summary h w2 actor (wf_source w2)) a))))"

definition claim_record ::
  "host \<Rightarrow> VerifiedActor \<Rightarrow> CommandContext \<Rightarrow> ustr \<Rightarrow> WorkItem \<Rightarrow> WorkAssignmentRecord" where
  "claim_record h actor c now item =
     \<lparr>war_id = now_v7 h 0, war_task_id = wi_id item,
      war_attempt_id = wi_attempt_id item, war_principal = actor,
      war_acting_assignment_id = cc_acting_assignment_id c, war_assigned_by = None,
      war_manager_assignment_id = None, war_reason = None, war_started_at = now,
      war_ended_at = None, war_ended_by = None\<rparr>"

text \<open>The pointers a responsibility period sets on its attempt.\<close>

definition take_over :: "WorkAssignmentRecord \<Rightarrow> TaskState \<Rightarrow> WorkItem \<Rightarrow> WorkItem" where
  "take_over r state item =
     item\<lparr>wi_state := state, wi_assignee := Some (war_principal r),
          wi_work_assignment_id := Some (war_id r),
          wi_acting_assignment_id := Some (war_acting_assignment_id r)\<rparr>"

definition apply_claim ::
  "host \<Rightarrow> VerifiedActor \<Rightarrow> CommandContext \<Rightarrow> uuid \<Rightarrow> ustr \<Rightarrow> Workflow
     \<Rightarrow> WorkError + (Workflow \<times> MutationResult)" where
  "apply_claim h actor c task_id now w =
     and_then (if task_id = wi_id (wf_source w) then Inr (wf_source w)
               else ok_or WorkItemNotFound (wf_next w)) (\<lambda>item.
       if wi_state item \<noteq> Ready \<or> wi_assignee item \<noteq> None then Inl WorkAssignmentConflict
       else
         let r = claim_record h actor c now item in
     and_then (update_item WorkItemNotFound task_id
                 (\<lambda>item. bump_item (take_over r Active item)) w) (\<lambda>w1.
       let w2 = w1\<lparr>wf_assignments := wf_assignments w1 @ [r]\<rparr> in
     and_then (item_of w2 task_id) (\<lambda>item2.
       Inr (w2\<lparr>wf_history := wf_history w2 @ [history_entry ''claimed'' now]\<rparr>,
            Claimed (summary h w2 actor item2)))))"

definition assign_record ::
  "host \<Rightarrow> VerifiedActor \<Rightarrow> CommandContext \<Rightarrow> VerifiedActor \<Rightarrow> uuid \<Rightarrow> ustr \<Rightarrow> ustr \<Rightarrow> WorkItem
     \<Rightarrow> WorkAssignmentRecord" where
  "assign_record h actor c assignee assignee_responsibility_id reason now item =
     \<lparr>war_id = now_v7 h 0, war_task_id = wi_id item,
      war_attempt_id = wi_attempt_id item, war_principal = assignee,
      war_acting_assignment_id = assignee_responsibility_id,
      war_assigned_by = Some actor,
      war_manager_assignment_id = Some (cc_acting_assignment_id c),
      war_reason = Some reason, war_started_at = now,
      war_ended_at = None, war_ended_by = None\<rparr>"

text \<open>End the previous responsibility period of an item; a legacy claim has no record.\<close>

definition end_period ::
  "VerifiedActor \<Rightarrow> ustr \<Rightarrow> WorkItem \<Rightarrow> WorkAssignmentRecord list \<Rightarrow> WorkAssignmentRecord list" where
  "end_period actor now item records =
     update_first (\<lambda>v. Some (war_id v) = wi_work_assignment_id item \<and> war_ended_at v = None)
       (\<lambda>v. v\<lparr>war_ended_at := Some now, war_ended_by := Some actor\<rparr>) records"

definition apply_assign ::
  "host \<Rightarrow> VerifiedActor \<Rightarrow> CommandContext \<Rightarrow> uuid \<Rightarrow> uuid \<Rightarrow> VerifiedActor \<Rightarrow> uuid \<Rightarrow> ustr \<Rightarrow> ustr
     \<Rightarrow> Workflow \<Rightarrow> WorkError + (Workflow \<times> MutationResult)" where
  "apply_assign h actor c task_id attempt assignee assignee_responsibility_id reason now w =
     and_then (bounded_reason reason) (\<lambda>_.
     and_then (item_of w task_id) (\<lambda>item.
       if wi_attempt_id item \<noteq> attempt then Inl RevisionConflict
       else if (case (wi_assignee item, wi_acting_assignment_id item) of
                  (Some who, Some i) \<Rightarrow> step_responsibility h w who i item WorkRead \<noteq> None
                | _ \<Rightarrow> False)
          \<and> length (filter (\<lambda>r. war_attempt_id r = wi_attempt_id item) (wf_assignments w))
              \<ge> MAX_ASSIGNMENTS_PER_ATTEMPT
       then Inl ValidationFailed
       else if wi_state item = Completed then Inl HandoffNotReady
       else if step_responsibility h w assignee assignee_responsibility_id item WorkClaim = None
       then Inl ValidationFailed
       else if wi_assignee item = Some assignee
          \<and> wi_acting_assignment_id item = Some assignee_responsibility_id
       then Inl ValidationFailed
       else
         let r = assign_record h actor c assignee assignee_responsibility_id reason now item;
             w1 = w\<lparr>wf_assignments := end_period actor now item (wf_assignments w)\<rparr> in
     and_then (update_item WorkItemNotFound task_id
                 (\<lambda>t. bump_item (take_over r (if wi_state t = Ready then Active else wi_state t) t))
                 w1) (\<lambda>w2.
       let w3 = w2\<lparr>wf_assignments := wf_assignments w2 @ [r],
                   wf_history := wf_history w2 @ [history_entry ''assigned'' now]\<rparr> in
     and_then (item_of w3 task_id) (\<lambda>item3.
       Inr (w3, Assigned (summary h w3 actor item3) r)))))"

text \<open>One selected artifact: readable, at the selected revision, of this attempt, and complete.\<close>

definition pin_artifact ::
  "host \<Rightarrow> Workflow \<Rightarrow> VerifiedActor \<Rightarrow> ArtifactSelection \<Rightarrow> WorkError + PinnedArtifact" where
  "pin_artifact h w actor selected =
     and_then (artifact h w actor (as_artifact_id selected)) (\<lambda>a.
       if art_revision a \<noteq> as_revision selected then Inl RevisionConflict
       else if art_task_id a \<noteq> wi_id (wf_source w)
          \<or> art_attempt_id a \<noteq> wi_attempt_id (wf_source w)
       then Inl HandoffNotReady
       else
     and_then
       (if art_schema_id a = TEXT_SCHEMA_ID \<and> art_value a \<noteq> None \<and> art_file a = None then Inr ()
        else if art_schema_id a = FILE_SCHEMA_ID \<and> art_value a = None
        then and_then (ok_or HandoffNotReady (Option.bind (art_file a) wfile_generation)) (\<lambda>g.
               if \<not> generation_verified w (fg_id g) then Inl WorkArtifactUnavailable else Inr ())
        else Inl HandoffNotReady) (\<lambda>_.
       Inr \<lparr>pin_artifact_id = art_id a, pin_revision = art_revision a,
            pin_schema_id = art_schema_id a, pin_value = art_value a, pin_file = art_file a\<rparr>))"

fun pin_artifacts ::
  "host \<Rightarrow> Workflow \<Rightarrow> VerifiedActor \<Rightarrow> uuid list \<Rightarrow> ArtifactSelection list
     \<Rightarrow> WorkError + PinnedArtifact list" where
  "pin_artifacts h w actor seen [] = Inr []"
| "pin_artifacts h w actor seen (s # ss) =
     (if as_artifact_id s \<in> set seen then Inl ValidationFailed
      else and_then (pin_artifact h w actor s) (\<lambda>p.
           and_then (pin_artifacts h w actor (as_artifact_id s # seen) ss) (\<lambda>ps. Inr (p # ps))))"

definition submission ::
  "host \<Rightarrow> Workflow \<Rightarrow> VerifiedActor \<Rightarrow> CommandContext \<Rightarrow> ContextFixture \<Rightarrow> RevisionRef list
     \<Rightarrow> RevisionRef list \<Rightarrow> RevisionRef list \<Rightarrow> int \<Rightarrow> ustr \<Rightarrow> PinnedArtifact list \<Rightarrow> HandoffSnapshot" where
  "submission h w actor c pl ev findings decisions number now pinned =
     \<lparr>snap_evidence_revision_refs = ev, snap_finding_revision_refs = findings,
      snap_decision_revision_refs = decisions,
      snap_previous_submission_id =
        (if wi_return_instruction_id (wf_source w) \<noteq> None
         then wi_handoff_snapshot_id (wf_source w) else None),
      snap_return_instruction_id = wi_return_instruction_id (wf_source w),
      snap_id = now_v7 h 0, snap_workflow_id = wf_id w, snap_context_id = wf_context_id w,
      snap_submission_number = number, snap_submitted_by = principal_id actor,
      snap_acting_assignment_id = cc_acting_assignment_id c,
      snap_source_task_id = wi_id (wf_source w),
      snap_source_attempt_id = wi_attempt_id (wf_source w),
      snap_target_task_id = cf_next_task_id pl, snap_created_at = now,
      snap_artifacts = pinned\<rparr>"

text \<open>The ready attempt of the receiving step.\<close>

definition next_attempt ::
  "Workflow \<Rightarrow> ContextFixture \<Rightarrow> HandoffSnapshot \<Rightarrow> int \<Rightarrow> int \<Rightarrow> uuid \<Rightarrow> ustr \<Rightarrow> WorkItem" where
  "next_attempt w pl s attempt_number revision attempt_id now =
     \<lparr>wi_return_instruction_id = wi_return_instruction_id (wf_source w), wi_due_at = None,
      wi_id = cf_next_task_id pl, wi_workflow_instance_id = wf_id w,
      wi_step_id = cf_next_step_id pl, wi_work_type_id = cf_next_work_type_id pl,
      wi_attempt_number = attempt_number, wi_work_assignment_id = None,
      wi_acting_assignment_id = None, wi_created_at = now, wi_completed_at = None,
      wi_attempt_id = attempt_id, wi_revision = revision, wi_state = Ready,
      wi_assignee = None, wi_handoff_snapshot_id = Some (snap_id s)\<rparr>"

definition apply_submit ::
  "host \<Rightarrow> VerifiedActor \<Rightarrow> CommandContext \<Rightarrow> uuid \<Rightarrow> ArtifactSelection list \<Rightarrow> uuid option
     \<Rightarrow> RevisionRef list \<Rightarrow> RevisionRef list \<Rightarrow> RevisionRef list \<Rightarrow> ustr \<Rightarrow> Workflow
     \<Rightarrow> WorkError + (Workflow \<times> MutationResult)" where
  "apply_submit h actor c task_id selections attempt ev findings decisions now w =
     (if is_some_and (\<lambda>i. i \<noteq> wi_attempt_id (wf_source w)) attempt then Inl RevisionConflict
      else
     and_then (validate_selection h w actor task_id ev findings decisions) (\<lambda>_.
       if task_id \<noteq> wi_id (wf_source w) \<or> wi_state (wf_source w) \<noteq> Active
          \<or> is_some_and (\<lambda>item. wi_state item \<noteq> Completed) (wf_next w)
          \<or> (wf_next w \<noteq> None \<and> \<not> returnable w)
       then Inl HandoffNotReady
       else if selections = [] \<or> length selections > MAX_ARTIFACTS then Inl HandoffNotReady
       else
     and_then (pin_artifacts h w actor [] selections) (\<lambda>pinned.
     and_then (plan w) (\<lambda>pl.
     and_then (if int (length (wf_snapshots w)) \<le> u32_max
               then ok_or IntegrityViolation (checked_add_u32 (int (length (wf_snapshots w))) 1)
               else Inl IntegrityViolation) (\<lambda>number.
       let src = wf_source w;
           s = submission h w actor c pl ev findings decisions number now pinned in
     and_then (bump_item (close_item now src)) (\<lambda>src1.
     and_then
       (case wf_next w of
          Some previous \<Rightarrow>
            and_then (ok_or IntegrityViolation (checked_add_u32 (wi_attempt_number previous) 1)) (\<lambda>n.
            and_then (ok_or IntegrityViolation (checked_add_i64 (wi_revision previous) 1)) (\<lambda>r.
              Inr (wf_completed_attempts w @ [previous], n, r, now_v7 h 1)))
        | None \<Rightarrow> Inr (wf_completed_attempts w, 1, 0, cf_next_attempt_id pl))
       (\<lambda>(archive, attempt_number, revision, attempt_id).
       let w1 = w\<lparr>wf_source := src1\<lparr>wi_handoff_snapshot_id := Some (snap_id s)\<rparr>,
                  wf_completed_attempts := archive\<rparr>;
           n = next_attempt w pl s attempt_number revision attempt_id now;
           next_task = summary h w1 actor n;
           w2 = w1\<lparr>wf_next := Some n, wf_snapshots := wf_snapshots w1 @ [s],
                   wf_history := wf_history w1 @ [history_entry ''submitted'' now]\<rparr>
       in Inr (w2, Submitted (summary h w2 actor (wf_source w2)) s next_task))))))))"

fun apply_validated ::
  "host \<Rightarrow> VerifiedActor \<Rightarrow> Command \<Rightarrow> ustr \<Rightarrow> Workflow \<Rightarrow> WorkError + (Workflow \<times> MutationResult)" where
  "apply_validated h actor (Hold task_id c attempt action_id) now w =
     apply_pause h actor False task_id attempt action_id now w"
| "apply_validated h actor (Resume task_id c attempt action_id) now w =
     apply_pause h actor True task_id attempt action_id now w"
| "apply_validated h actor (Complete task_id c attempt action_id) now w =
     apply_complete h actor task_id attempt action_id now w"
| "apply_validated h actor (Return task_id c attempt previous target transition reason) now w =
     apply_return h actor c task_id attempt previous target transition reason now w"
| "apply_validated h actor (SaveDraft task_id artifact_id c value) now w =
     apply_save_draft h actor task_id artifact_id value w"
| "apply_validated h actor (Claim task_id c) now w = apply_claim h actor c task_id now w"
| "apply_validated h actor (Assign task_id c attempt assignee responsibility_id reason) now w =
     apply_assign h actor c task_id attempt assignee responsibility_id reason now w"
| "apply_validated h actor (Submit task_id c selections attempt ev findings decisions) now w =
     apply_submit h actor c task_id selections attempt ev findings decisions now w"
| "apply_validated h actor (RequestAgentExecution t c attempt purpose refs) now w =
     apply_agent h actor (RequestAgentExecution t c attempt purpose refs) now w"
| "apply_validated h actor (CancelAgentExecution t c attempt execution_id) now w =
     apply_agent h actor (CancelAgentExecution t c attempt execution_id) now w"
| "apply_validated h actor (RegisterEvidence t c attempt source location) now w =
     apply_evidence h actor (RegisterEvidence t c attempt source location) now w"
| "apply_validated h actor (RegisterFinding t c attempt claim refs supersedes) now w =
     apply_evidence h actor (RegisterFinding t c attempt claim refs supersedes) now w"
| "apply_validated h actor (RecordDecision t c attempt f n kind adopted reason refs supersedes) now w =
     apply_evidence h actor (RecordDecision t c attempt f n kind adopted reason refs supersedes) now w"
| "apply_validated h actor (CreateFileArtifact t c name media) now w =
     apply_files h actor (CreateFileArtifact t c name media) now w"
| "apply_validated h actor (WriteArtifactContent t a c expected generation) now w =
     apply_files h actor (WriteArtifactContent t a c expected generation) now w"
| "apply_validated h actor (DiscardArtifact t a c expected) now w =
     apply_files h actor (DiscardArtifact t a c expected) now w"
| "apply_validated h actor (ImportSubmission t c attempt s) now w =
     apply_files h actor (ImportSubmission t c attempt s) now w"

subsection \<open>Apply\<close>

definition close_finished_assignments :: "ustr \<Rightarrow> Workflow \<Rightarrow> Workflow" where
  "close_finished_assignments now w =
     (let open_attempts = map wi_attempt_id
            (filter (\<lambda>item. wi_state item \<noteq> Completed) (current_items w))
      in w\<lparr>wf_assignments := map (\<lambda>r. if war_ended_at r = None \<and> war_attempt_id r \<notin> set open_attempts
                                     then r\<lparr>war_ended_at := Some now\<rparr> else r) (wf_assignments w)\<rparr>)"

fun resumes_or_assigns :: "Command \<Rightarrow> bool" where
  "resumes_or_assigns (Resume _ _ _ _) = True"
| "resumes_or_assigns (Assign _ _ _ _ _ _) = True"
| "resumes_or_assigns _ = False"

definition apply_copy ::
  "host \<Rightarrow> VerifiedActor \<Rightarrow> Command \<Rightarrow> ustr \<Rightarrow> Workflow \<Rightarrow> WorkError + (Workflow \<times> MutationResult)" where
  "apply_copy h actor command now w =
     and_then (map_err (\<lambda>_. IntegrityViolation) (parse_instant h now)) (\<lambda>at.
       let w0 = w\<lparr>wf_authority := (wf_authority w)\<lparr>pa_evaluated_at := Some at\<rparr>\<rparr> in
     and_then (validate_integrity h w0) (\<lambda>_.
     and_then (authorize_command h w0 actor command) (\<lambda>_.
     and_then (item_of w0 (command_task_id command)) (\<lambda>item.
       if wi_revision item \<noteq> cc_expected_revision (command_context command)
       then Inl RevisionConflict
       else if wi_state item = Held \<and> \<not> resumes_or_assigns command then Inl HandoffNotReady
       else
     and_then (apply_validated h actor command now w0) (\<lambda>(w1, result).
       let w2 = close_finished_assignments now w1 in
     and_then (ok_or IntegrityViolation (checked_add_i64 (wf_revision w2) 1)) (\<lambda>r.
     and_then (invalidate_agent_contexts now (w2\<lparr>wf_revision := r\<rparr>)) (\<lambda>w3.
     and_then (validate_integrity h w3) (\<lambda>_.
       Inr (w3\<lparr>wf_authority := wf_authority w\<rparr>, result)))))))))"

text \<open>A checked private copy replaces the aggregate only when every step succeeded.\<close>

definition commit :: "'s \<Rightarrow> 'e + ('s \<times> 'r) \<Rightarrow> 's \<times> ('e + 'r)" where
  "commit s r = (case r of Inl e \<Rightarrow> (s, Inl e) | Inr (s', x) \<Rightarrow> (s', Inr x))"

definition workflow_apply ::
  "host \<Rightarrow> VerifiedActor \<Rightarrow> Command \<Rightarrow> ustr \<Rightarrow> Workflow \<Rightarrow> Workflow \<times> (WorkError + MutationResult)" where
  "workflow_apply h actor command now w = commit w (apply_copy h actor command now w)"

subsection \<open>Agent operations that commit a copy\<close>

definition start_agent_execution ::
  "host \<Rightarrow> VerifiedActor \<Rightarrow> uuid \<Rightarrow> ustr \<Rightarrow> Workflow
     \<Rightarrow> Workflow \<times> (WorkError + AgentDispatchContext option)" where
  "start_agent_execution h actor i now w =
     commit w
      (and_then (agent_execution h w actor i) (\<lambda>e.
         if ax_status e \<noteq> Queued then Inr (w, None)
         else
       and_then (item_of w (ax_work_item_id e)) (\<lambda>item.
         if wi_state item \<noteq> Active \<or> ax_task_revision e \<noteq> wi_revision item
            \<or> ax_effective_context_revision e \<noteq> wf_revision w
         then Inl WorkContextStale
         else
       and_then (ok_or IntegrityViolation (checked_add_i64 (wf_revision w) 1)) (\<lambda>r.
         let w1 = w\<lparr>wf_revision := r,
               wf_agent_executions := update_first (\<lambda>x. ax_id x = i)
                 (\<lambda>x. x\<lparr>ax_status := Running, ax_started_at := now,
                       ax_effective_context_revision := r\<rparr>) (wf_agent_executions w)\<rparr>
         in and_then (build_agent_context h w1 actor i) (\<lambda>ctx. Inr (w1, Some ctx))))))"

definition output_result ::
  "AgentDispatchContext \<Rightarrow> AgentOutput \<Rightarrow> RevisionRef option \<Rightarrow> uuid list \<Rightarrow> uuid list \<Rightarrow> AgentResult" where
  "output_result ctx out ref generated_ids suggested_ids =
     \<lparr>ar_summary = ao_summary out,
      ar_finding_revision_refs = (case ref of None \<Rightarrow> [] | Some r \<Rightarrow> [r]),
      ar_evidence_revision_refs = ax_evidence_revision_refs (adc_execution ctx),
      ar_uncertainty = ao_uncertainty out, ar_simulated = True,
      ar_body_analyzed = False, ar_live_llm = False, ar_mcp_wire_executed = False,
      ar_source_outcomes = ao_source_outcomes out,
      ar_generated_artifact_ids = generated_ids,
      ar_suggested_action_ids = suggested_ids\<rparr>"

definition finished_as :: "ustr \<Rightarrow> AgentResult \<Rightarrow> int \<Rightarrow> AgentExecution \<Rightarrow> AgentExecution" where
  "finished_as now result n e = e\<lparr>ax_status := Succeeded, ax_result := Some result,
     ax_ended_at := Some now, ax_task_revision := n\<rparr>"

definition record_finding ::
  "host \<Rightarrow> AgentDispatchContext \<Rightarrow> AgentOutput \<Rightarrow> ustr \<Rightarrow> Workflow
     \<Rightarrow> WorkError + (Workflow \<times> RevisionRef option)" where
  "record_finding h ctx out now w =
     (case ao_finding out of
        None \<Rightarrow> Inr (w, None)
      | Some candidate \<Rightarrow>
          and_then (create_finding h w (ax_requested_by (adc_execution ctx))
              (ax_work_item_id (adc_execution ctx))
              \<lparr>fi_claim = afc_claim candidate,
               fi_evidence_revision_refs = afc_evidence_revision_refs candidate,
               fi_supersedes_finding_id = None\<rparr> (Some (ax_id (adc_execution ctx))) now) (\<lambda>f.
            Inr (w\<lparr>wf_findings := wf_findings w @ [f\<lparr>fd_uncertainty := ao_uncertainty out\<rparr>]\<rparr>,
                 Some (revision_ref (fd_id f) (fd_revision f)))))"

definition store_result ::
  "host \<Rightarrow> uuid \<Rightarrow> uuid \<Rightarrow> AgentResult \<Rightarrow> ustr \<Rightarrow> Workflow \<Rightarrow> WorkError + (Workflow \<times> AgentExecution)" where
  "store_result h i task result now w =
     and_then (next_record_revision task w) (\<lambda>w1.
     and_then (ok_or IntegrityViolation (checked_add_i64 (wf_revision w1) 1)) (\<lambda>rev.
     and_then (item_of (w1\<lparr>wf_revision := rev\<rparr>) task) (\<lambda>item.
     and_then (ok_or IntegrityViolation (find (\<lambda>x. ax_id x = i) (wf_agent_executions w1))) (\<lambda>e.
       let finished = finished_as now result (wi_revision item) e;
           w2 = w1\<lparr>wf_revision := rev, wf_agent_executions :=
                   update_first (\<lambda>x. ax_id x = i) (\<lambda>_. finished) (wf_agent_executions w1)\<rparr>
       in and_then (validate_integrity h w2) (\<lambda>_. Inr (w2, finished))))))"

definition finish_agent_copy ::
  "host \<Rightarrow> AgentDispatchContext \<Rightarrow> AgentOutput \<Rightarrow> ustr \<Rightarrow> Workflow
     \<Rightarrow> WorkError + (Workflow \<times> AgentExecution)" where
  "finish_agent_copy h ctx out now w =
     (let e = adc_execution ctx in
      and_then (validate_scope ctx) (\<lambda>_.
      and_then (build_agent_context h w (ax_requested_by e) (ax_id e)) (\<lambda>current.
        if current \<noteq> ctx then Inl WorkContextStale
        else
      and_then (validate_output ctx out) (\<lambda>_.
      and_then (record_finding h ctx out now w) (\<lambda>(w1, ref).
      and_then (record_candidates h ctx out ref now (if ref = None then 0 else 1) w1)
        (\<lambda>(w2, generated_ids, suggested_ids).
        store_result h (ax_id e) (ax_work_item_id e)
          (output_result ctx out ref generated_ids suggested_ids) now w2))))))"

definition finish_agent_execution ::
  "host \<Rightarrow> AgentDispatchContext \<Rightarrow> AgentOutput \<Rightarrow> ustr \<Rightarrow> Workflow
     \<Rightarrow> Workflow \<times> (WorkError + AgentExecution)" where
  "finish_agent_execution h ctx out now w = commit w (finish_agent_copy h ctx out now w)"

subsection \<open>Seeding\<close>

definition from_fixture ::
  "host \<Rightarrow> ContextFixture \<Rightarrow> uuid option \<Rightarrow> instant \<Rightarrow> WorkError + Workflow" where
  "from_fixture h fixture document_id seeded_at =
     (let w = synthetic document_id in
      if cf_workflow_id fixture = WORKFLOW_ID then Inr w
      else
      and_then (format_instant h seeded_at) (\<lambda>created.
        let item = (wf_source w)\<lparr>wi_id := cf_source_task_id fixture,
              wi_workflow_instance_id := cf_workflow_id fixture,
              wi_attempt_id := cf_source_attempt_id fixture, wi_created_at := created\<rparr> in
      and_then
        (case cf_start fixture of
           AssignedToSales \<Rightarrow> Inr item
         | ReadyDueInMinutes m \<Rightarrow>
             and_then (format_instant h (seeded_at + minutes m)) (\<lambda>due.
               Inr (item\<lparr>wi_state := Ready, wi_assignee := None, wi_acting_assignment_id := None,
                         wi_work_assignment_id := None, wi_due_at := Some due\<rparr>))) (\<lambda>item'.
        let w' = w\<lparr>wf_id := cf_workflow_id fixture, wf_context_id := cf_context_id fixture,
                   wf_definition_version_id := cf_definition_version_id fixture,
                   wf_source := item'\<rparr>
        in and_then (validate_integrity h w') (\<lambda>_. Inr w'))))"

end
