(* ===== verification/Workflow_Frame.thy ===== *)
theory Workflow_Frame
  imports Workflow_Apply
begin

text \<open>
  What each command changes: for every mutator of the aggregate, the shape of the state
  it returns. All later properties of the workflow rest on these lemmas.
\<close>

named_theorems command_ok \<open>the state a successful command returns\<close>

subsection \<open>Selecting and replacing the current item\<close>

definition cur_item :: "uuid \<Rightarrow> Workflow \<Rightarrow> WorkItem option" where
  "cur_item t w = (if t = wi_id (wf_source w) then Some (wf_source w) else wf_next w)"

definition set_item :: "uuid \<Rightarrow> WorkItem \<Rightarrow> Workflow \<Rightarrow> Workflow" where
  "set_item t item w =
     (if t = wi_id (wf_source w) then w\<lparr>wf_source := item\<rparr> else w\<lparr>wf_next := Some item\<rparr>)"

abbreviation bumped :: "WorkItem \<Rightarrow> WorkItem" where
  "bumped item \<equiv> item\<lparr>wi_revision := wi_revision item + 1\<rparr>"

lemma update_item_ok:
  "update_item missing t f w = Inr w' \<longleftrightarrow>
     (\<exists>item item'. cur_item t w = Some item \<and> f item = Inr item' \<and> w' = set_item t item' w)"
  by (auto simp: update_item_def cur_item_def set_item_def result_simps)

lemma bump_item_ok:
  "bump_item item = Inr item' \<longleftrightarrow>
     item' = bumped item \<and> i64_min \<le> wi_revision item + 1 \<and> wi_revision item + 1 \<le> i64_max"
  by (auto simp: bump_item_def result_simps)

lemma item_of_cur: "item_of w t = Inr item \<Longrightarrow> cur_item t w = Some item \<and> wi_id item = t"
  by (auto simp: item_of_def cur_item_def result_simps split: if_splits)

lemma next_record_revision_ok:
  "next_record_revision t w = Inr w' \<Longrightarrow>
     \<exists>item. cur_item t w = Some item \<and> w' = set_item t (bumped item) w"
  by (auto simp: next_record_revision_def update_item_ok bump_item_ok)

lemma bump_source_ok:
  "bump_source w = Inr w' \<Longrightarrow> w' = w\<lparr>wf_source := bumped (wf_source w)\<rparr>"
  by (auto simp: bump_source_def result_simps bump_item_ok)

lemma cur_item_update [simp]:
  "cur_item t (w\<lparr>wf_evidence := ev\<rparr>) = cur_item t w"
  "cur_item t (w\<lparr>wf_findings := fs\<rparr>) = cur_item t w"
  "cur_item t (w\<lparr>wf_decisions := ds\<rparr>) = cur_item t w"
  "cur_item t (w\<lparr>wf_assignments := as\<rparr>) = cur_item t w"
  "cur_item t (w\<lparr>wf_agent_executions := es\<rparr>) = cur_item t w"
  "cur_item t (w\<lparr>wf_history := hs\<rparr>) = cur_item t w"
  "cur_item t (w\<lparr>wf_authority := a\<rparr>) = cur_item t w"
  "cur_item t (w\<lparr>wf_revision := r\<rparr>) = cur_item t w"
  by (simp_all add: cur_item_def)

lemma set_item_simps:
  "set_item t item (w\<lparr>wf_agent_executions := es\<rparr>) = (set_item t item w)\<lparr>wf_agent_executions := es\<rparr>"
  "set_item t item (w\<lparr>wf_history := hs\<rparr>) = (set_item t item w)\<lparr>wf_history := hs\<rparr>"
  "set_item t item (w\<lparr>wf_assignments := as\<rparr>) = (set_item t item w)\<lparr>wf_assignments := as\<rparr>"
  "set_item t item (w\<lparr>wf_evidence := ev\<rparr>) = (set_item t item w)\<lparr>wf_evidence := ev\<rparr>"
  "set_item t item (w\<lparr>wf_findings := fs\<rparr>) = (set_item t item w)\<lparr>wf_findings := fs\<rparr>"
  "set_item t item (w\<lparr>wf_decisions := ds\<rparr>) = (set_item t item w)\<lparr>wf_decisions := ds\<rparr>"
  "wf_agent_executions (set_item t item w) = wf_agent_executions w"
  "wf_history (set_item t item w) = wf_history w"
  "wf_assignments (set_item t item w) = wf_assignments w"
  by (simp_all add: set_item_def)

subsection \<open>Evidence, findings, decisions\<close>

lemma apply_evidence_ok [command_ok]:
  assumes "apply_evidence h actor command now w = Inr (w', r)"
  shows "\<exists>item es fs ds. cur_item (command_task_id command) w = Some item
     \<and> item_of w (command_task_id command) = Inr item \<and> wi_state item = Active
     \<and> w' = set_item (command_task_id command) (bumped item)
         (w\<lparr>wf_evidence := wf_evidence w @ es, wf_findings := wf_findings w @ fs,
            wf_decisions := wf_decisions w @ ds\<rparr>)
     \<and> (\<forall>f\<in>set fs. fd_origin_execution_id f = None)"
proof -
  let ?t = "command_task_id command"
  from assms obtain item where item: "item_of w ?t = Inr item" "wi_state item = Active"
    by (auto simp: apply_evidence_def Let_def and_then_ok if_err_ok)
  have cur: "cur_item ?t w = Some item" using item_of_cur [OF item(1)] by simp
  have "\<exists>es fs ds. w' = set_item ?t (bumped item)
         (w\<lparr>wf_evidence := wf_evidence w @ es, wf_findings := wf_findings w @ fs,
            wf_decisions := wf_decisions w @ ds\<rparr>) \<and> (\<forall>f\<in>set fs. fd_origin_execution_id f = None)"
  proof (cases command)
    case (RegisterEvidence t c attempt source location)
    with assms item have "register_evidence h actor (cc_acting_assignment_id c) t item source location now w
        = Inr (w', r)"
      by (auto simp: apply_evidence_def Let_def if_err_ok)
    then obtain e where "next_record_revision t (w\<lparr>wf_evidence := wf_evidence w @ [e]\<rparr>) = Inr w'"
      by (auto simp: register_evidence_def Let_def and_then_ok if_err_ok)
    with cur RegisterEvidence have "w' = set_item t (bumped item) (w\<lparr>wf_evidence := wf_evidence w @ [e]\<rparr>)"
      by (auto dest!: next_record_revision_ok)
    with RegisterEvidence show ?thesis
      by (intro exI [of _ "[e]"] exI [of _ "[]"]) simp
  next
    case (RegisterFinding t c attempt claim refs supersedes)
    with assms item have "register_finding h actor t \<lparr>fi_claim = claim, fi_evidence_revision_refs = refs,
        fi_supersedes_finding_id = supersedes\<rparr> now w = Inr (w', r)"
      by (auto simp: apply_evidence_def Let_def if_err_ok)
    then obtain f where "next_record_revision t (w\<lparr>wf_findings := wf_findings w @ [f]\<rparr>) = Inr w'"
      "fd_origin_execution_id f = None"
      by (auto simp: register_finding_def create_finding_def Let_def and_then_ok if_err_ok)
    moreover from this(1) cur RegisterFinding
    have "w' = set_item t (bumped item) (w\<lparr>wf_findings := wf_findings w @ [f]\<rparr>)"
      by (auto dest!: next_record_revision_ok)
    ultimately show ?thesis using RegisterFinding
      by (intro exI [of _ "[]"] exI [of _ "[f]"]) simp
  next
    case (RecordDecision t c attempt f n kind adopted reason refs supersedes)
    with assms item have "record_decision h actor (cc_acting_assignment_id c) t item f n kind adopted reason
        refs supersedes now w = Inr (w', r)"
      by (auto simp: apply_evidence_def Let_def if_err_ok)
    then obtain d where "next_record_revision t (w\<lparr>wf_decisions := wf_decisions w @ [d]\<rparr>) = Inr w'"
      by (auto simp: record_decision_def Let_def and_then_ok if_err_ok)
    with cur RecordDecision have "w' = set_item t (bumped item) (w\<lparr>wf_decisions := wf_decisions w @ [d]\<rparr>)"
      by (auto dest!: next_record_revision_ok)
    with RecordDecision show ?thesis
      by (intro exI [of _ "[]"] exI [of _ "[d]"]) simp
  qed (use assms item in \<open>simp_all add: apply_evidence_def Let_def\<close>)
  with item cur show ?thesis by blast
qed

subsection \<open>Files and drafts\<close>

definition other_artifacts :: "uuid \<Rightarrow> WorkingArtifact list \<Rightarrow> WorkingArtifact list" where
  "other_artifacts attempt as = filter (\<lambda>a. art_attempt_id a \<noteq> attempt) as"

lemma other_artifacts_update:
  assumes "\<And>a. p a \<Longrightarrow> find p as = Some a \<Longrightarrow> art_attempt_id a = attempt \<and> art_attempt_id (f a) = attempt"
  shows "other_artifacts attempt (update_first p f as) = other_artifacts attempt as"
  using assms by (induction as) (auto simp: other_artifacts_def split: if_splits)

lemma other_artifacts_remove:
  assumes "\<And>a. p a \<Longrightarrow> art_attempt_id a = attempt"
  shows "other_artifacts attempt (remove_first p as) = other_artifacts attempt as"
  using assms by (induction as) (auto simp: other_artifacts_def)

lemma imported_from_attempt: "a \<in> set (imported_from h t attempt s k ps) \<Longrightarrow> art_attempt_id a = attempt"
  by (induction ps arbitrary: k) auto

lemma other_artifacts_append:
  "other_artifacts attempt (as @ bs) = other_artifacts attempt as @ other_artifacts attempt bs"
  by (simp add: other_artifacts_def)

lemma other_artifacts_imported: "other_artifacts attempt (imported_from h t attempt s k ps) = []"
  by (auto simp: other_artifacts_def filter_empty_conv dest: imported_from_attempt)

lemma apply_files_ok [command_ok]:
  assumes "apply_files h actor command now w = Inr (w', r)"
  shows "\<exists>as. command_task_id command = wi_id (wf_source w) \<and> wi_state (wf_source w) = Active
     \<and> w' = w\<lparr>wf_artifacts := as, wf_source := bumped (wf_source w)\<rparr>
     \<and> other_artifacts (wi_attempt_id (wf_source w)) as
         = other_artifacts (wi_attempt_id (wf_source w)) (wf_artifacts w)"
proof (cases command)
  case (CreateFileArtifact t c name media)
  with assms show ?thesis
    by (auto simp: apply_files_def create_file_artifact_def editable_source_def Let_def and_then_ok
        if_err_ok other_artifacts_def dest!: bump_source_ok)
next
  case (WriteArtifactContent t i c expected generation)
  let ?p = "\<lambda>a. art_id a = i \<and> art_attempt_id a = wi_attempt_id (wf_source w)"
  from WriteArtifactContent assms obtain a f where
    *: "t = wi_id (wf_source w)" "wi_state (wf_source w) = Active"
      "bump_source (w\<lparr>wf_artifacts := update_first ?p (\<lambda>_. f a) (wf_artifacts w)\<rparr>) = Inr w'"
      "find ?p (wf_artifacts w) = Some a" "art_attempt_id (f a) = art_attempt_id a"
    by (fastforce simp: apply_files_def write_artifact_content_def editable_source_def Let_def and_then_ok
        if_err_ok ok_or_ok)
  from find_Some_in [OF *(4)] have "art_attempt_id a = wi_attempt_id (wf_source w)" by simp
  with * WriteArtifactContent show ?thesis
    by (auto dest!: bump_source_ok intro!: other_artifacts_update)
next
  case (DiscardArtifact t i c expected)
  with assms show ?thesis
    by (auto simp: apply_files_def discard_artifact_def editable_source_def Let_def and_then_ok
        if_err_ok dest!: bump_source_ok intro!: other_artifacts_remove)
next
  case (ImportSubmission t c attempt s)
  with assms show ?thesis
    by (auto simp: apply_files_def import_submission_def editable_source_def Let_def and_then_ok
        if_err_ok other_artifacts_append other_artifacts_imported dest!: bump_source_ok)
qed (use assms in \<open>simp_all add: apply_files_def\<close>)

lemma apply_save_draft_ok [command_ok]:
  assumes "apply_save_draft h actor t artifact_id value w = Inr (w', r)"
  shows "\<exists>as. t = wi_id (wf_source w) \<and> wi_state (wf_source w) = Active
     \<and> w' = w\<lparr>wf_artifacts := as, wf_source := bumped (wf_source w)\<rparr>
     \<and> (case artifact_id of
          None \<Rightarrow> \<exists>a. as = wf_artifacts w @ [a] \<and> art_attempt_id a = wi_attempt_id (wf_source w)
        | Some i \<Rightarrow> \<exists>a a'. find (\<lambda>a. art_id a = i) (wf_artifacts w) = Some a
            \<and> art_attempt_id a' = art_attempt_id a
            \<and> as = update_first (\<lambda>a. art_id a = i) (\<lambda>_. a') (wf_artifacts w))"
proof (cases artifact_id)
  case None
  with assms show ?thesis
    by (auto simp: apply_save_draft_def Let_def and_then_ok if_err_ok dest!: bump_source_ok)
next
  case (Some i)
  with assms obtain a a' n where *:
    "t = wi_id (wf_source w)" "wi_state (wf_source w) = Active"
    "find (\<lambda>a. art_id a = i) (wf_artifacts w) = Some a"
    "bump_source (w\<lparr>wf_artifacts := update_first (\<lambda>a. art_id a = i) (\<lambda>_. a') (wf_artifacts w)\<rparr>) = Inr w'"
    and a': "a' = a\<lparr>art_revision := n, art_value := Some value\<rparr>"
    by (simp add: apply_save_draft_def Let_def and_then_ok if_err_ok ok_or_ok split_paired_Ex) blast
  have "art_attempt_id a' = art_attempt_id a" by (simp add: a')
  with Some * bump_source_ok [OF *(4)] show ?thesis by auto
qed

subsection \<open>Agent commands\<close>

lemma apply_agent_ok [command_ok]:
  assumes "apply_agent h actor command now w = Inr (w', r)"
  shows "\<exists>item. cur_item (command_task_id command) w = Some item
     \<and> item_of w (command_task_id command) = Inr item
     \<and> (w' = w \<and> (\<forall>t c a p e. command \<noteq> RequestAgentExecution t c a p e)
        \<or> (\<exists>es. w' = set_item (command_task_id command) (bumped item) (w\<lparr>wf_agent_executions := es\<rparr>)
            \<and> ((\<exists>e n. find (\<lambda>x. ax_id x = ax_id e) (wf_agent_executions w) = Some e
                   \<and> is_active (ax_status e) \<and> (\<forall>t c a p e. command \<noteq> RequestAgentExecution t c a p e)
                   \<and> es = update_first (\<lambda>x. ax_id x = ax_id e)
                       (\<lambda>x. x\<lparr>ax_status := Cancelled, ax_ended_at := Some now, ax_task_revision := n\<rparr>)
                       (wf_agent_executions w))
               \<or> (\<exists>e. es = wf_agent_executions w @ [e] \<and> wi_state item = Active
                   \<and> (\<forall>t c a i. command \<noteq> CancelAgentExecution t c a i)))))"
proof (cases command)
  case (RequestAgentExecution t c attempt purpose refs)
  with assms obtain item w1 e where item: "item_of w t = Inr item" "wi_state item = Active"
    and w1: "next_record_revision t w = Inr w1"
    and w': "w' = w1\<lparr>wf_agent_executions := wf_agent_executions w1 @ [e]\<rparr>"
    by (auto simp: apply_agent_def request_execution_def Let_def and_then_ok if_err_ok)
  have cur: "cur_item t w = Some item" using item_of_cur [OF item(1)] by simp
  from w1 cur have "w1 = set_item t (bumped item) w" by (auto dest!: next_record_revision_ok)
  with w' have "w' = set_item t (bumped item) (w\<lparr>wf_agent_executions := wf_agent_executions w @ [e]\<rparr>)"
    by (simp add: set_item_simps)
  with RequestAgentExecution item cur show ?thesis by auto
next
  case (CancelAgentExecution t c attempt i)
  with assms obtain item where item: "item_of w t = Inr item"
    and step: "cancel_execution h actor t item attempt i now w = Inr (w', r)"
    by (auto simp: apply_agent_def Let_def and_then_ok)
  have cur: "cur_item t w = Some item" using item_of_cur [OF item] by simp
  from step obtain e where e: "agent_execution h w actor i = Inr e"
    and eff: "(if is_active (ax_status e)
               then and_then (next_record_revision t w) (\<lambda>w1.
                    and_then (item_of w1 t) (\<lambda>item1.
                      Inr (w1\<lparr>wf_agent_executions :=
                        update_first (\<lambda>x. ax_id x = i)
                          (\<lambda>x. x\<lparr>ax_status := Cancelled, ax_ended_at := Some now,
                                ax_task_revision := wi_revision item1\<rparr>)
                          (wf_agent_executions w1)\<rparr>)))
               else Inr w) = Inr w'"
    by (auto simp: cancel_execution_def and_then_ok if_err_ok)
  from e have f: "find (\<lambda>x. ax_id x = i) (wf_agent_executions w) = Some e" and id: "ax_id e = i"
    by (auto simp: agent_execution_def and_then_ok ok_or_ok if_err_ok dest: find_Some_in)
  show ?thesis
  proof (cases "is_active (ax_status e)")
    case True
    with eff obtain w1 item1 where "next_record_revision t w = Inr w1" "item_of w1 t = Inr item1"
      "w' = w1\<lparr>wf_agent_executions := update_first (\<lambda>x. ax_id x = i)
          (\<lambda>x. x\<lparr>ax_status := Cancelled, ax_ended_at := Some now,
                ax_task_revision := wi_revision item1\<rparr>) (wf_agent_executions w1)\<rparr>"
      by (auto simp: and_then_ok)
    moreover from this(1) cur have "w1 = set_item t (bumped item) w" by (auto dest!: next_record_revision_ok)
    ultimately have "w' = set_item t (bumped item) (w\<lparr>wf_agent_executions := update_first (\<lambda>x. ax_id x = i)
          (\<lambda>x. x\<lparr>ax_status := Cancelled, ax_ended_at := Some now,
                ax_task_revision := wi_revision item1\<rparr>) (wf_agent_executions w)\<rparr>)"
      by (simp add: set_item_simps)
    with CancelAgentExecution item cur f id True show ?thesis by auto
  next
    case False
    with eff CancelAgentExecution item cur show ?thesis by auto
  qed
qed (use assms in \<open>auto simp: apply_agent_def Let_def and_then_ok\<close>)

subsection \<open>Core commands\<close>

lemma apply_pause_ok [command_ok]:
  assumes "apply_pause h actor resume t attempt action_id now w = Inr (w', r)"
  shows "\<exists>item hist. cur_item t w = Some item \<and> item_of w t = Inr item \<and> wi_attempt_id item = attempt
     \<and> wi_state item = (if resume then Held else Active)
     \<and> w' = set_item t (bumped (item\<lparr>wi_state := if resume then Active else Held\<rparr>))
              (w\<lparr>wf_history := wf_history w @ hist\<rparr>)"
proof -
  from assms obtain item w1 where item: "item_of w t = Inr item" "wi_attempt_id item = attempt"
    and act: "pause_action h w actor item resume = Some action_id"
    and w1: "update_item IntegrityViolation t
        (\<lambda>item. bump_item (item\<lparr>wi_state := (if resume then Active else Held)\<rparr>)) w = Inr w1"
    and "\<exists>hist. w' = w1\<lparr>wf_history := wf_history w1 @ hist\<rparr>"
    by (auto simp: apply_pause_def Let_def and_then_ok if_err_ok)
  then obtain hist where w': "w' = w1\<lparr>wf_history := wf_history w1 @ hist\<rparr>" by blast
  have cur: "cur_item t w = Some item" using item_of_cur [OF item(1)] by simp
  from act have "wi_state item = (if resume then Held else Active)"
    by (auto simp: pause_action_def Let_def split: if_splits)
  moreover have "w1 = set_item t (bumped (item\<lparr>wi_state := if resume then Active else Held\<rparr>)) w"
    using w1 cur by (auto simp: update_item_ok bump_item_ok)
  ultimately show ?thesis using item cur w' by (auto simp: set_item_simps)
qed

lemma apply_complete_ok [command_ok]:
  assumes "apply_complete h actor t attempt action_id now w = Inr (w', r)"
  shows "\<exists>item n hist. item_of w t = Inr item \<and> wi_attempt_id item = attempt
     \<and> wi_state item = Active \<and> is_next w item \<and> wf_next w = Some n
     \<and> w' = w\<lparr>wf_next := Some (bumped (close_item now n)), wf_history := wf_history w @ hist\<rparr>"
  using assms
  by (auto simp: apply_complete_def completion_action_def Let_def and_then_ok if_err_ok ok_or_ok
      bump_item_ok split: if_splits)

lemma return_transition_Some:
  assumes "return_transition h w actor item = Some p"
  shows "returnable w \<and> is_next w item \<and> wi_state item = Active \<and> wi_state (wf_source w) = Completed
     \<and> can_act h w actor item WorkReturn \<and> rt_target_task_id p = wi_id (wf_source w)
     \<and> wi_handoff_snapshot_id item = Some (rt_previous_submission_id p)
     \<and> wi_handoff_snapshot_id (wf_source w) = Some (rt_previous_submission_id p)"
  using assms by (auto simp: return_transition_def split: if_splits dest!: find_Some_in)

lemma apply_return_ok [command_ok]:
  assumes "apply_return h actor c t attempt previous target transition reason now w = Inr (w', r)"
  shows "\<exists>item p office instruction hist. item_of w t = Inr item \<and> wi_attempt_id item = attempt
     \<and> wi_state item = Active \<and> is_next w item \<and> wi_state (wf_source w) = Completed
     \<and> wf_next w = Some office \<and> instruction = return_record h w actor c t item p reason now
     \<and> w' = w\<lparr>wf_completed_attempts := wf_completed_attempts w @ [wf_source w],
           wf_source := returned_source w instruction (wi_attempt_number (wf_source w) + 1)
                          (wi_revision (wf_source w) + 1) now,
           wf_next := Some ((bumped (close_item now office))
                              \<lparr>wi_return_instruction_id := Some (ri_id instruction)\<rparr>),
           wf_return_instructions := wf_return_instructions w @ [instruction],
           wf_history := wf_history w @ hist\<rparr>"
proof -
  from assms obtain item p office where item: "item_of w t = Inr item" "wi_attempt_id item = attempt"
    and p: "return_transition h w actor item = Some p" and office: "wf_next w = Some office"
    and w': "\<exists>hist. w' = w\<lparr>wf_completed_attempts := wf_completed_attempts w @ [wf_source w],
           wf_source := returned_source w (return_record h w actor c t item p reason now)
             (wi_attempt_number (wf_source w) + 1) (wi_revision (wf_source w) + 1) now,
           wf_next := Some ((bumped (close_item now office))
              \<lparr>wi_return_instruction_id := Some (ri_id (return_record h w actor c t item p reason now))\<rparr>),
           wf_return_instructions := wf_return_instructions w
             @ [return_record h w actor c t item p reason now],
           wf_history := wf_history w @ hist\<rparr>"
    by (auto simp: apply_return_def Let_def and_then_ok if_err_ok ok_or_ok bump_item_ok
        checked_add_i64_Some checked_add_u32_Some)
  with return_transition_Some [OF p] show ?thesis by blast
qed

lemma apply_claim_ok [command_ok]:
  assumes "apply_claim h actor c t now w = Inr (w', r)"
  shows "\<exists>item hist. cur_item t w = Some item \<and> wi_state item = Ready \<and> wi_assignee item = None
     \<and> w' = set_item t (bumped (take_over (claim_record h actor c now item) Active item))
              (w\<lparr>wf_assignments := wf_assignments w @ [claim_record h actor c now item],
                 wf_history := wf_history w @ hist\<rparr>)"
proof -
  from assms obtain item w1 where item: "cur_item t w = Some item" "wi_state item = Ready"
      "wi_assignee item = None"
    and w1: "update_item WorkItemNotFound t
        (\<lambda>i. bump_item (take_over (claim_record h actor c now item) Active i)) w = Inr w1"
    and w': "\<exists>hist. w' = w1\<lparr>wf_assignments := wf_assignments w1 @ [claim_record h actor c now item],
        wf_history := wf_history w1 @ hist\<rparr>"
    unfolding apply_claim_def Let_def and_then_ok if_err_ok cur_item_def
    by (auto simp: ok_or_ok split: if_splits)
  have "w1 = set_item t (bumped (take_over (claim_record h actor c now item) Active item)) w"
    using w1 item(1) by (auto simp: update_item_ok bump_item_ok)
  with item w' show ?thesis by (auto simp: set_item_simps)
qed

lemma apply_assign_ok [command_ok]:
  assumes "apply_assign h actor c t attempt assignee resp reason now w = Inr (w', r)"
  shows "\<exists>item rec hist. cur_item t w = Some item \<and> item_of w t = Inr item \<and> wi_attempt_id item = attempt
     \<and> wi_state item \<noteq> Completed
     \<and> step_responsibility h w assignee resp item WorkClaim \<noteq> None
     \<and> rec = assign_record h actor c assignee resp reason now item
     \<and> w' = set_item t (bumped (take_over rec
                (if wi_state item = Ready then Active else wi_state item) item))
              (w\<lparr>wf_assignments := end_period actor now item (wf_assignments w) @ [rec],
                 wf_history := wf_history w @ hist\<rparr>)"
proof -
  let ?rec = "\<lambda>item. assign_record h actor c assignee resp reason now item"
  let ?f = "\<lambda>item t. take_over (?rec item) (if wi_state t = Ready then Active else wi_state t) t"
  from assms obtain item w2 where item: "item_of w t = Inr item"
    and ok: "wi_attempt_id item = attempt" "wi_state item \<noteq> Completed"
      "step_responsibility h w assignee resp item WorkClaim \<noteq> None"
    and w2: "update_item WorkItemNotFound t (\<lambda>t. bump_item (?f item t))
        (w\<lparr>wf_assignments := end_period actor now item (wf_assignments w)\<rparr>) = Inr w2"
    and w': "\<exists>hist. w' = w2\<lparr>wf_assignments := wf_assignments w2 @ [?rec item],
        wf_history := wf_history w2 @ hist\<rparr>"
    unfolding apply_assign_def Let_def and_then_ok if_err_ok by auto
  have cur: "cur_item t w = Some item" using item_of_cur [OF item] by simp
  have "w2 = set_item t (bumped (?f item item))
      (w\<lparr>wf_assignments := end_period actor now item (wf_assignments w)\<rparr>)"
    using w2 cur by (auto simp: update_item_ok bump_item_ok)
  with item cur ok w' show ?thesis by (auto simp: set_item_simps)
qed

lemma apply_submit_ok [command_ok]:
  assumes "apply_submit h actor c t selections attempt ev findings decisions now w = Inr (w', r)"
  shows "\<exists>pl s n pinned. t = wi_id (wf_source w) \<and> wi_state (wf_source w) = Active
     \<and> is_none_or (\<lambda>i. i = wi_attempt_id (wf_source w)) attempt
     \<and> is_none_or (\<lambda>item. wi_state item = Completed) (wf_next w)
     \<and> selections \<noteq> [] \<and> plan w = Inr pl
     \<and> pin_artifacts h w actor [] selections = Inr pinned
     \<and> validate_selection h w actor t ev findings decisions = Inr ()
     \<and> s = submission h w actor c pl ev findings decisions (int (length (wf_snapshots w)) + 1) now pinned
     \<and> n = (case wf_next w of
          None \<Rightarrow> next_attempt w pl s 1 0 (cf_next_attempt_id pl) now
        | Some previous \<Rightarrow> next_attempt w pl s (wi_attempt_number previous + 1)
            (wi_revision previous + 1) (now_v7 h 1) now)
     \<and> (\<exists>t1 t2. r = Submitted t1 s t2)
     \<and> w' = w\<lparr>wf_source := (bumped (close_item now (wf_source w)))
                               \<lparr>wi_handoff_snapshot_id := Some (snap_id s)\<rparr>,
              wf_completed_attempts := wf_completed_attempts w
                @ (case wf_next w of None \<Rightarrow> [] | Some previous \<Rightarrow> [previous]),
              wf_next := Some n, wf_snapshots := wf_snapshots w @ [s],
              wf_history := wf_history w @ [history_entry ''submitted'' now]\<rparr>"
proof -
  from assms have guards: "t = wi_id (wf_source w)" "wi_state (wf_source w) = Active"
     "\<not> is_some_and (\<lambda>i. i \<noteq> wi_attempt_id (wf_source w)) attempt"
     "\<not> is_some_and (\<lambda>item. wi_state item \<noteq> Completed) (wf_next w)" "selections \<noteq> []"
     "validate_selection h w actor t ev findings decisions = Inr ()"
    by (auto simp: apply_submit_def and_then_ok if_err_ok)
  from assms obtain pinned pl where pinned: "pin_artifacts h w actor [] selections = Inr pinned"
    and pl: "plan w = Inr pl"
    by (auto simp: apply_submit_def and_then_ok if_err_ok)
  define s where "s = submission h w actor c pl ev findings decisions
      (int (length (wf_snapshots w)) + 1) now pinned"
  define n where "n = (case wf_next w of
          None \<Rightarrow> next_attempt w pl s 1 0 (cf_next_attempt_id pl) now
        | Some previous \<Rightarrow> next_attempt w pl s (wi_attempt_number previous + 1)
            (wi_revision previous + 1) (now_v7 h 1) now)"
  have "(\<exists>t1 t2. r = Submitted t1 s t2)
     \<and> w' = w\<lparr>wf_source := (bumped (close_item now (wf_source w)))
                               \<lparr>wi_handoff_snapshot_id := Some (snap_id s)\<rparr>,
              wf_completed_attempts := wf_completed_attempts w
                @ (case wf_next w of None \<Rightarrow> [] | Some previous \<Rightarrow> [previous]),
              wf_next := Some n, wf_snapshots := wf_snapshots w @ [s],
              wf_history := wf_history w @ [history_entry ''submitted'' now]\<rparr>"
    using assms guards pinned pl
    by (cases "wf_next w")
      (auto simp: apply_submit_def Let_def and_then_ok if_err_ok ok_or_ok bump_item_ok
        checked_add_u32_Some checked_add_i64_Some s_def n_def)
  with guards pinned pl show ?thesis
    unfolding s_def n_def is_none_or_iff is_some_and_iff by blast
qed

end
