(* ===== verification/Workflow_History.thy ===== *)
theory Workflow_History
  imports Workflow_Frame
begin

text \<open>
  Histories of the workflow aggregate: the shape of a successful \<open>apply\<close>, what every
  operation preserves of the records already written, the step relation over all
  operations that change the aggregate, and the facts that hold over every history.
\<close>

subsection \<open>Shape of a successful apply\<close>

abbreviation at_instant :: "instant \<Rightarrow> Workflow \<Rightarrow> Workflow" where
  "at_instant at w \<equiv> w\<lparr>wf_authority := (wf_authority w)\<lparr>pa_evaluated_at := Some at\<rparr>\<rparr>"

lemma commit_ok: "commit s r = (s', Inr x) \<longleftrightarrow> r = Inr (s', x)"
  by (auto simp: commit_def split: sum.splits)

lemma commit_failed: "commit s r = (s', Inl e) \<Longrightarrow> s' = s"
  by (auto simp: commit_def split: sum.splits)

lemma item_of_authority [simp]: "item_of (w\<lparr>wf_authority := a\<rparr>) t = item_of w t"
  by (simp add: item_of_def)

lemma close_finished_assignments_fields [simp]:
  "wf_revision (close_finished_assignments now w) = wf_revision w"
  by (simp add: close_finished_assignments_def)

lemma apply_copy_ok:
  assumes "apply_copy h actor command now w = Inr (w', r)"
  obtains at item w1 w2 w3 where "parse_instant h now = Inr at"
    "validate_integrity h (at_instant at w) = Inr ()"
    "authorize_command h (at_instant at w) actor command = Inr ()"
    "item_of w (command_task_id command) = Inr item"
    "wi_revision item = cc_expected_revision (command_context command)"
    "wi_state item = Held \<longrightarrow> resumes_or_assigns command"
    "apply_validated h actor command now (at_instant at w) = Inr (w1, r)"
    "w2 = (close_finished_assignments now w1)\<lparr>wf_revision := wf_revision w1 + 1\<rparr>"
    "invalidate_agent_contexts now w2 = Inr w3"
    "validate_integrity h w3 = Inr ()"
    "w' = w3\<lparr>wf_authority := wf_authority w\<rparr>"
  using assms
  by (auto simp: apply_copy_def Let_def and_then_ok if_err_ok map_err_ok ok_or_ok
      checked_add_i64_Some)

lemma workflow_apply_ok:
  "workflow_apply h actor command now w = (w', Inr r) \<longleftrightarrow> apply_copy h actor command now w = Inr (w', r)"
  by (simp add: workflow_apply_def commit_ok)

subsection \<open>Closing assignments and invalidating executions\<close>

definition fail_context :: "ustr \<Rightarrow> AgentExecution \<Rightarrow> AgentExecution" where
  "fail_context now e = e\<lparr>ax_status := Failed, ax_failure_code := Some ContextStale, ax_ended_at := Some now\<rparr>"

lemma fail_stale_map:
  assumes "distinct (map ax_id es)" and "fail_stale now is es = Inr es'"
  shows "es' = map (\<lambda>e. if ax_id e \<in> set is then fail_context now e else e) es"
  using assms
proof (induction "is" arbitrary: es)
  case (Cons i "is")
  let ?f = "\<lambda>e. e\<lparr>ax_status := Failed, ax_failure_code := Some ContextStale, ax_ended_at := Some now\<rparr>"
  let ?es = "update_first (\<lambda>e. ax_id e = i) ?f es"
  from Cons.prems obtain e where e: "find (\<lambda>e. ax_id e = i) es = Some e" and
    rest: "fail_stale now is ?es = Inr es'" by (auto split: if_splits)
  have es: "?es = map (\<lambda>e. if ax_id e = i then ?f e else e) es"
    using Cons.prems(1) e by (rule update_first_distinct_key)
  have "map ax_id ?es = map ax_id es" by (rule map_update_first) simp
  with Cons.prems(1) have "distinct (map ax_id ?es)" by simp
  from Cons.IH [OF this rest] show ?case
    by (auto simp: es fail_context_def)
qed simp

lemma invalidate_ok:
  assumes "invalidate_agent_contexts now w = Inr w'" and "distinct (map ax_id (wf_agent_executions w))"
  shows "w' = w\<lparr>wf_agent_executions :=
     map (\<lambda>e. if stale_execution w e then fail_context now e else e) (wf_agent_executions w)\<rparr>"
proof -
  let ?es = "wf_agent_executions w"
  from assms(1) obtain es' where es': "fail_stale now (map ax_id (filter (stale_execution w) ?es)) ?es = Inr es'"
    and w': "w' = w\<lparr>wf_agent_executions := es'\<rparr>"
    by (auto simp: invalidate_agent_contexts_def and_then_ok)
  have "ax_id e \<in> set (map ax_id (filter (stale_execution w) ?es)) \<longleftrightarrow> stale_execution w e"
    if "e \<in> set ?es" for e
    using assms(2) that by (auto dest: inj_onD [OF distinct_map [THEN iffD1, THEN conjunct2]])
  then have "es' = map (\<lambda>e. if stale_execution w e then fail_context now e else e) ?es"
    unfolding fail_stale_map [OF assms(2) es'] by (intro map_cong) auto
  with w' show ?thesis by simp
qed

lemma validate_integrity_distinct_executions:
  "validate_integrity h w = Inr () \<Longrightarrow> distinct (map ax_id (wf_agent_executions w))"
  by (auto simp: validate_integrity_def validate_agent_integrity_def and_then_ok if_err_ok)

lemma invalidate_distinct:
  assumes "invalidate_agent_contexts now w = Inr w'"
  shows "map ax_id (wf_agent_executions w') = map ax_id (wf_agent_executions w)"
proof -
  have "map ax_id es' = map ax_id es" if "fail_stale now is es = Inr es'" for "is" es es'
    using that by (induction now "is" es rule: fail_stale.induct) (auto simp: map_update_first split: if_splits)
  with assms show ?thesis by (auto simp: invalidate_agent_contexts_def and_then_ok)
qed

subsection \<open>What is kept\<close>

text \<open>
  Ended responsibility periods and finished executions are final; an execution keeps its
  identity, requester, purpose and sources; an item keeps its identity, its revision and
  attempt number never decrease, and a new attempt has a larger number.
\<close>

definition period_kept :: "WorkAssignmentRecord \<Rightarrow> WorkAssignmentRecord \<Rightarrow> bool" where
  "period_kept a b \<longleftrightarrow> b = a\<lparr>war_ended_at := war_ended_at b, war_ended_by := war_ended_by b\<rparr>
     \<and> (war_ended_at a \<noteq> None \<longrightarrow> b = a)"

definition execution_kept :: "AgentExecution \<Rightarrow> AgentExecution \<Rightarrow> bool" where
  "execution_kept a b \<longleftrightarrow>
     b = a\<lparr>ax_effective_context_revision := ax_effective_context_revision b,
           ax_task_revision := ax_task_revision b, ax_status := ax_status b,
           ax_started_at := ax_started_at b, ax_ended_at := ax_ended_at b,
           ax_result := ax_result b, ax_failure_code := ax_failure_code b\<rparr>
     \<and> (\<not> is_active (ax_status a) \<longrightarrow> b = a)"

definition item_kept :: "WorkItem \<Rightarrow> WorkItem \<Rightarrow> bool" where
  "item_kept a b \<longleftrightarrow> wi_id b = wi_id a \<and> wi_revision a \<le> wi_revision b
     \<and> wi_attempt_number a \<le> wi_attempt_number b
     \<and> (wi_attempt_id b \<noteq> wi_attempt_id a \<longrightarrow> wi_attempt_number a < wi_attempt_number b)"

definition workflow_extends :: "Workflow \<Rightarrow> Workflow \<Rightarrow> bool" where
  "workflow_extends w w' \<longleftrightarrow>
     wf_id w' = wf_id w \<and> wf_context_id w' = wf_context_id w
     \<and> wf_definition_version_id w' = wf_definition_version_id w
     \<and> wf_input_resources w' = wf_input_resources w
     \<and> wf_revision w \<le> wf_revision w'
     \<and> item_kept (wf_source w) (wf_source w')
     \<and> (\<forall>n. wf_next w = Some n \<longrightarrow> (\<exists>n'. wf_next w' = Some n' \<and> item_kept n n'))
     \<and> grown (=) (wf_evidence w) (wf_evidence w')
     \<and> grown (=) (wf_findings w) (wf_findings w')
     \<and> grown (=) (wf_decisions w) (wf_decisions w')
     \<and> grown (=) (wf_snapshots w) (wf_snapshots w')
     \<and> grown (=) (wf_return_instructions w) (wf_return_instructions w')
     \<and> grown (=) (wf_completed_attempts w) (wf_completed_attempts w')
     \<and> grown (=) (wf_history w) (wf_history w')
     \<and> grown (=) (wf_generated_artifacts w) (wf_generated_artifacts w')
     \<and> grown (=) (wf_suggested_actions w) (wf_suggested_actions w')
     \<and> grown period_kept (wf_assignments w) (wf_assignments w')
     \<and> grown execution_kept (wf_agent_executions w) (wf_agent_executions w')"

lemma workflow_kept_refl [simp]: "period_kept a a" "execution_kept e e" "item_kept i i"
  by (simp_all add: period_kept_def execution_kept_def item_kept_def)

lemma period_kept_trans: "period_kept a b \<Longrightarrow> period_kept b c \<Longrightarrow> period_kept a c"
  unfolding period_kept_def by (cases a; cases b; cases c) auto

lemma execution_kept_trans: "execution_kept a b \<Longrightarrow> execution_kept b c \<Longrightarrow> execution_kept a c"
  unfolding execution_kept_def by (cases a; cases b; cases c) auto

lemma item_kept_trans: "item_kept a b \<Longrightarrow> item_kept b c \<Longrightarrow> item_kept a c"
  unfolding item_kept_def by (metis order_trans le_less_trans less_le_trans)

lemma item_kept_bumped [simp]: "item_kept item (bumped item)"
  by (simp add: item_kept_def)

lemma grown_eq_refl [simp]: "grown (=) xs xs" "grown (=) xs (xs @ ys)"
  by (simp_all add: grown_refl grown_append)

lemma grown_eq_trans: "grown (=) xs ys \<Longrightarrow> grown (=) ys zs \<Longrightarrow> grown (=) xs zs"
  by (erule grown_trans) auto

lemma grown_kept_refl [simp]:
  "grown period_kept rs rs" "grown period_kept rs (rs @ rs')"
  "grown execution_kept es es" "grown execution_kept es (es @ es')"
  by (simp_all add: grown_refl grown_append)

lemma workflow_extends_refl [simp]: "workflow_extends w w"
  by (simp add: workflow_extends_def)

lemma workflow_extends_trans:
  assumes "workflow_extends w x" and "workflow_extends x y"
  shows "workflow_extends w y"
proof -
  have "\<forall>n. wf_next w = Some n \<longrightarrow> (\<exists>n'. wf_next y = Some n' \<and> item_kept n n')"
    using assms unfolding workflow_extends_def by (metis item_kept_trans)
  with assms show ?thesis
    unfolding workflow_extends_def
    by (elim conjE, intro conjI)
      (assumption | (rule trans order_trans item_kept_trans grown_eq_trans
        grown_trans [OF _ _ period_kept_trans] grown_trans [OF _ _ execution_kept_trans],
        assumption, assumption))+
qed

subsection \<open>Facts of the integrity check\<close>

lemma fixture_tasks_differ: "pl \<in> set CONTEXT_FIXTURES \<Longrightarrow> cf_source_task_id pl \<noteq> cf_next_task_id pl"
proof -
  have "list_all (\<lambda>f. cf_source_task_id f \<noteq> cf_next_task_id f) CONTEXT_FIXTURES" by code_simp
  then show "pl \<in> set CONTEXT_FIXTURES \<Longrightarrow> ?thesis" by (auto simp: list_all_iff)
qed

lemma plan_ok: "plan w = Inr pl \<Longrightarrow> pl \<in> set CONTEXT_FIXTURES \<and> cf_workflow_id pl = wf_id w"
  by (auto simp: plan_def ok_or_ok dest: context_fixture_cases)

lemma integrity_plan:
  assumes "validate_integrity h w = Inr ()"
  obtains pl where "plan w = Inr pl" "wf_context_id w = cf_context_id pl"
    "wi_id (wf_source w) = cf_source_task_id pl"
    "wi_id (wf_source w) \<noteq> cf_next_task_id pl"
    "\<And>n. wf_next w = Some n \<Longrightarrow> wi_id n = cf_next_task_id pl \<and> wi_step_id n = cf_next_step_id pl"
proof -
  from assms obtain pl where pl: "plan w = Inr pl" and rest: "wf_context_id w = cf_context_id pl"
    "wi_id (wf_source w) = cf_source_task_id pl"
    "\<not> is_some_and (\<lambda>item. wi_id item \<noteq> cf_next_task_id pl \<or> wi_step_id item \<noteq> cf_next_step_id pl) (wf_next w)"
    by (auto simp: validate_integrity_def and_then_ok if_err_ok)
  have "cf_source_task_id pl \<noteq> cf_next_task_id pl" using plan_ok [OF pl] fixture_tasks_differ by simp
  with that [OF pl] rest show ?thesis by (auto simp: is_some_and_iff)
qed

lemma integrity_items:
  assumes "validate_integrity h w = Inr ()"
  shows "item_ok w (wf_source w)" "wf_next w = Some n \<Longrightarrow> item_ok w n"
    "distinct (map wi_attempt_id (all_items w))"
  using assms
  by (auto simp: validate_integrity_def and_then_ok if_err_ok all_items_def current_items_def
      split: option.splits)

lemma is_next_not_source:
  assumes "validate_integrity h w = Inr ()" and "is_next w item" and "item_of w t = Inr item"
  shows "wf_next w = Some item \<and> t \<noteq> wi_id (wf_source w)"
proof -
  from assms(1) obtain pl where pl: "plan w = Inr pl" "wi_id (wf_source w) \<noteq> cf_next_task_id pl"
    by (rule integrity_plan)
  with assms(2,3) item_of_cur [OF assms(3)] show ?thesis
    by (auto simp: is_next_def cur_item_def split: if_splits)
qed

subsection \<open>Every command extends the aggregate\<close>

lemma extends_set_item:
  "cur_item t w = Some item \<Longrightarrow> item_kept item item' \<Longrightarrow> workflow_extends w (set_item t item' w)"
  by (auto simp: workflow_extends_def set_item_def cur_item_def split: if_splits)

lemma extends_then_set_item:
  assumes "workflow_extends w x" and "cur_item t x = Some item" and "item_kept item item'"
  shows "workflow_extends w (set_item t item' x)"
  using assms extends_set_item workflow_extends_trans by blast

lemma item_kept_simps [simp]:
  "item_kept item (bumped (take_over r st item))"
  "item_kept item (item\<lparr>wi_state := st, wi_revision := wi_revision item + 1\<rparr>)"
  "item_kept item (bumped (close_item now item))"
  by (simp_all add: item_kept_def take_over_def close_item_def)

lemma grown_end_period: "grown period_kept rs (end_period actor now item rs)"
  unfolding end_period_def
  by (rule grown_update_found) (auto simp: period_kept_def dest: find_Some_in)

lemma extends_records:
  "workflow_extends w (w\<lparr>wf_evidence := wf_evidence w @ es, wf_findings := wf_findings w @ fs,
     wf_decisions := wf_decisions w @ ds\<rparr>)"
  "workflow_extends w (w\<lparr>wf_history := wf_history w @ hist\<rparr>)"
  "workflow_extends w (w\<lparr>wf_assignments := wf_assignments w @ rs, wf_history := wf_history w @ hist\<rparr>)"
  "workflow_extends w (w\<lparr>wf_artifacts := as, wf_source := bumped (wf_source w)\<rparr>)"
  by (simp_all add: workflow_extends_def)

lemma extends_assigned:
  "workflow_extends w (w\<lparr>wf_assignments := end_period actor now item (wf_assignments w) @ rs,
     wf_history := wf_history w @ hist\<rparr>)"
  using grown_trans [OF grown_end_period grown_kept_refl(2) period_kept_trans]
  by (simp add: workflow_extends_def)

lemma extends_executions:
  "grown execution_kept (wf_agent_executions w) es \<Longrightarrow> workflow_extends w (w\<lparr>wf_agent_executions := es\<rparr>)"
  by (simp add: workflow_extends_def)

lemma grown_cancel:
  assumes "find (\<lambda>x. ax_id x = i) es = Some e" and "is_active (ax_status e)"
  shows "grown execution_kept es (update_first (\<lambda>x. ax_id x = i)
     (\<lambda>x. x\<lparr>ax_status := Cancelled, ax_ended_at := Some now, ax_task_revision := n\<rparr>) es)"
  using assms by (intro grown_update_found) (auto simp: execution_kept_def)

lemma apply_agent_extends:
  assumes "apply_agent h actor command now w = Inr (w', r)"
  shows "workflow_extends w w'"
proof -
  let ?t = "command_task_id command"
  have step: "workflow_extends w (set_item ?t (bumped item) (w\<lparr>wf_agent_executions := es\<rparr>))"
    if "cur_item ?t w = Some item" "grown execution_kept (wf_agent_executions w) es" for item es
    using that by (intro extends_then_set_item [of w _ ?t item] extends_executions) simp_all
  from apply_agent_ok [OF assms] show ?thesis
    by (elim exE conjE disjE) (simp_all add: step grown_cancel)
qed

lemma apply_return_extends:
  assumes "apply_return h actor c t attempt previous target transition reason now w = Inr (w', r)"
  shows "workflow_extends w w'"
  using apply_return_ok [OF assms]
  by (auto simp: workflow_extends_def returned_source_def item_kept_def close_item_def)

lemma apply_submit_extends:
  assumes "apply_submit h actor c t sel attempt ev fs ds now w = Inr (w', r)"
    and "validate_integrity h w = Inr ()"
  shows "workflow_extends w w'"
proof -
  from assms(2) obtain pl where pl: "plan w = Inr pl"
    "\<And>n. wf_next w = Some n \<Longrightarrow> wi_id n = cf_next_task_id pl" by (auto elim: integrity_plan)
  with apply_submit_ok [OF assms(1)] show ?thesis
    by (cases "wf_next w")
      (auto simp: workflow_extends_def item_kept_def close_item_def next_attempt_def)
qed

lemma apply_validated_extends:
  assumes "apply_validated h actor command now w = Inr (w', r)" and "validate_integrity h w = Inr ()"
  shows "workflow_extends w w'"
proof (cases command)
  case (Complete t c attempt action_id)
  with assms apply_complete_ok [of h actor t attempt action_id now w w' r] show ?thesis
    by (auto simp: workflow_extends_def)
next
  case (Hold t c attempt action_id)
  with assms show ?thesis
    by (auto dest!: apply_pause_ok intro!: extends_then_set_item extends_records)
next
  case (Resume t c attempt action_id)
  with assms show ?thesis
    by (auto dest!: apply_pause_ok intro!: extends_then_set_item extends_records)
next
  case (Claim t c)
  with assms show ?thesis
    by (auto dest!: apply_claim_ok intro!: extends_then_set_item extends_records)
next
  case (Assign t c attempt assignee resp reason)
  with assms show ?thesis
    by (auto dest!: apply_assign_ok intro!: extends_then_set_item extends_assigned)
next
  case (SaveDraft t i c v)
  with assms show ?thesis by (auto dest!: apply_save_draft_ok simp: extends_records)
qed (use assms in \<open>auto dest: apply_agent_extends apply_return_extends apply_submit_extends
      dest!: apply_evidence_ok apply_files_ok intro!: extends_then_set_item simp: extends_records\<close>)

end
