(* ===== verification/Workflow_Steps.thy ===== *)
theory Workflow_Steps
  imports Workflow_History
begin

text \<open>
  The step relation over everything that changes an aggregate: commands, the start,
  finish, failure and interruption of agent executions, and the attachment of a new
  evaluation authority. Integrity and the append-only records hold over every history.
\<close>

subsection \<open>Integrity does not depend on the authority or on fresh identifiers\<close>

lemma plan_frame [simp]: "plan (w\<lparr>wf_authority := a\<rparr>) = plan w"
  "plan (w\<lparr>wf_agent_executions := es\<rparr>) = plan w" "plan (w\<lparr>wf_revision := n\<rparr>) = plan w"
  by (simp_all add: plan_def)

lemma item_of_frame [simp]:
  "item_of (w\<lparr>wf_agent_executions := es\<rparr>) t = item_of w t"
  "item_of (w\<lparr>wf_revision := n\<rparr>) t = item_of w t"
  by (simp_all add: item_of_def)

lemma items_frame [simp]:
  "current_items (w\<lparr>wf_authority := a\<rparr>) = current_items w"
  "current_items (w\<lparr>wf_agent_executions := es\<rparr>) = current_items w"
  "current_items (w\<lparr>wf_revision := n\<rparr>) = current_items w"
  "all_items (w\<lparr>wf_authority := a\<rparr>) = all_items w"
  "all_items (w\<lparr>wf_agent_executions := es\<rparr>) = all_items w"
  "all_items (w\<lparr>wf_revision := n\<rparr>) = all_items w"
  by (simp_all add: current_items_def all_items_def)

lemma item_checks_frame [simp]:
  "item_ok (w\<lparr>wf_authority := a\<rparr>) = item_ok w"
  "item_ok (w\<lparr>wf_agent_executions := es\<rparr>) = item_ok w"
  "item_ok (w\<lparr>wf_revision := n\<rparr>) = item_ok w"
  "archived_ok (w\<lparr>wf_authority := a\<rparr>) = archived_ok w"
  "archived_ok (w\<lparr>wf_agent_executions := es\<rparr>) = archived_ok w"
  "archived_ok (w\<lparr>wf_revision := n\<rparr>) = archived_ok w"
  "open_record_ok (w\<lparr>wf_authority := a\<rparr>) = open_record_ok w"
  "open_record_ok (w\<lparr>wf_agent_executions := es\<rparr>) = open_record_ok w"
  "open_record_ok (w\<lparr>wf_revision := n\<rparr>) = open_record_ok w"
  by (simp_all add: item_ok_def [abs_def] archived_ok_def [abs_def] open_record_ok_def [abs_def])

lemma agent_checks_frame [simp]:
  "execution_ok (w\<lparr>wf_authority := a\<rparr>) = execution_ok w"
  "execution_ok (w\<lparr>wf_revision := n\<rparr>) = execution_ok w"
  "generated_ok (w\<lparr>wf_authority := a\<rparr>) = generated_ok w"
  "generated_ok (w\<lparr>wf_revision := n\<rparr>) = generated_ok w"
  "suggested_ok (w\<lparr>wf_authority := a\<rparr>) = suggested_ok w"
  "suggested_ok (w\<lparr>wf_revision := n\<rparr>) = suggested_ok w"
  by (simp_all add: execution_ok_def [abs_def] result_ok_def [abs_def] generated_ok_def [abs_def]
      suggested_ok_def [abs_def] listing_result_def)

lemma validate_agent_frame [simp]:
  "validate_agent_integrity (w\<lparr>wf_authority := a\<rparr>) = validate_agent_integrity w"
  "validate_agent_integrity (w\<lparr>wf_revision := n\<rparr>) = validate_agent_integrity w"
  "validate_candidate_integrity (w\<lparr>wf_authority := a\<rparr>) = validate_candidate_integrity w"
  "validate_candidate_integrity (w\<lparr>wf_revision := n\<rparr>) = validate_candidate_integrity w"
  by (simp_all add: validate_agent_integrity_def validate_candidate_integrity_def split del: if_split)

lemma validate_integrity_frame [simp]:
  "validate_integrity h (w\<lparr>wf_authority := a\<rparr>) = validate_integrity h w"
  "validate_integrity h (w\<lparr>wf_revision := n\<rparr>) = validate_integrity h w"
  "validate_integrity (h\<lparr>now_v7 := ids\<rparr>) w = validate_integrity h w"
  by (simp_all add: validate_integrity_def parse_instant_def split del: if_split cong: if_cong)

lemma fields_frame:
  fixes w :: Workflow
  shows "wf_context_id (w\<lparr>wf_agent_executions := es\<rparr>) = wf_context_id w"
  "wf_source (w\<lparr>wf_agent_executions := es\<rparr>) = wf_source w"
  "wf_next (w\<lparr>wf_agent_executions := es\<rparr>) = wf_next w"
  "wf_definition_version_id (w\<lparr>wf_agent_executions := es\<rparr>) = wf_definition_version_id w"
  "wf_completed_attempts (w\<lparr>wf_agent_executions := es\<rparr>) = wf_completed_attempts w"
  "wf_assignments (w\<lparr>wf_agent_executions := es\<rparr>) = wf_assignments w"
  by simp_all

lemma validate_integrity_agents:
  assumes "validate_agent_integrity w = Inr ()" "validate_candidate_integrity w = Inr ()"
    and "validate_agent_integrity (w\<lparr>wf_agent_executions := es\<rparr>) = Inr ()"
    and "validate_candidate_integrity (w\<lparr>wf_agent_executions := es\<rparr>) = Inr ()"
  shows "validate_integrity h (w\<lparr>wf_agent_executions := es\<rparr>) = validate_integrity h w"
  unfolding validate_integrity_def
  by (simp only: assms plan_frame items_frame item_checks_frame fields_frame and_then_simps)

subsection \<open>Changing active executions keeps integrity\<close>

definition scope_of :: "AgentExecution \<Rightarrow> EvidenceRecord list \<Rightarrow> AgentDispatchContext" where
  "scope_of e ev = \<lparr>adc_execution = e, adc_evidence = ev,
     adc_allowed_tools = [DocumentRevisionTool, DocumentVersionFilesTool]\<rparr>"

text \<open>The changes an active execution undergoes short of success.\<close>

definition still_unfinished :: "AgentExecution \<Rightarrow> AgentExecution \<Rightarrow> bool" where
  "still_unfinished a b \<longleftrightarrow> execution_kept a b \<and>
     (is_active (ax_status a) \<longrightarrow> ax_status b \<noteq> Succeeded \<and> ax_result b = ax_result a
        \<and> is_active (ax_status b) = (ax_ended_at b = None)
        \<and> 0 \<le> ax_effective_context_revision b \<and> 0 \<le> ax_task_revision b)"

lemma execution_kept_fields:
  assumes "execution_kept a b"
  shows "ax_id b = ax_id a" "ax_work_item_id b = ax_work_item_id a" "ax_attempt_id b = ax_attempt_id a"
    "ax_evidence_revision_refs b = ax_evidence_revision_refs a" "ax_context_id b = ax_context_id a"
    "ax_purpose b = ax_purpose a" "ax_requester_responsibility b = ax_requester_responsibility a"
    "ax_executed_by b = ax_executed_by a" "ax_executor_invocation_kind b = ax_executor_invocation_kind a"
    "ax_provider_principal_bindings b = ax_provider_principal_bindings a"
    "ax_requested_by b = ax_requested_by a"
  using assms by (cases a; cases b; simp add: execution_kept_def)+

lemma validate_scope_kept:
  assumes "is_ok (validate_scope (scope_of a ev))" and "execution_kept a b"
    and "0 \<le> ax_effective_context_revision b" and "0 \<le> ax_task_revision b"
  shows "is_ok (validate_scope (scope_of b ev))"
  using assms(1,3,4)
  unfolding validate_scope_def scope_of_def Let_def AgentDispatchContext.simps is_ok_iff and_then_ok
    if_err_ok execution_kept_fields [OF assms(2)]
  by (simp only: not_less de_Morgan_disj simp_thms) blast

lemma execution_ok_unfinished:
  assumes ok: "execution_ok w a" and ab: "still_unfinished a b"
    and count: "length (filter (\<lambda>x. ax_work_item_id x = ax_work_item_id a \<and> ax_attempt_id x = ax_attempt_id a) es)
      = length (filter (\<lambda>x. ax_work_item_id x = ax_work_item_id a \<and> ax_attempt_id x = ax_attempt_id a)
          (wf_agent_executions w))"
  shows "execution_ok (w\<lparr>wf_agent_executions := es\<rparr>) b"
proof (cases "is_active (ax_status a)")
  case False
  with ab have "b = a" by (simp add: still_unfinished_def execution_kept_def)
  with ok count show ?thesis by (simp add: execution_ok_def result_ok_def [abs_def])
next
  case True
  with ab have kept: "execution_kept a b" and st: "ax_status b \<noteq> Succeeded" "ax_result b = ax_result a"
    "is_active (ax_status b) = (ax_ended_at b = None)" "0 \<le> ax_effective_context_revision b"
    "0 \<le> ax_task_revision b" by (auto simp: still_unfinished_def)
  note f = execution_kept_fields [OF kept]
  from True ok have res: "ax_result a = None" by (auto simp: execution_ok_def is_active_def)
  have "is_ok (validate_scope \<lparr>adc_execution = b, adc_evidence = ev,
      adc_allowed_tools = [DocumentRevisionTool, DocumentVersionFilesTool]\<rparr>)"
    if "is_ok (validate_scope \<lparr>adc_execution = a, adc_evidence = ev,
      adc_allowed_tools = [DocumentRevisionTool, DocumentVersionFilesTool]\<rparr>)" for ev
    using validate_scope_kept [of a ev b] that kept st by (simp add: scope_of_def)
  with ok count st res show ?thesis
    by (auto simp: execution_ok_def f split: sum.splits)
qed

lemma integrity_unfinished:
  assumes int: "validate_integrity h w = Inr ()"
    and g: "\<And>e. e \<in> set (wf_agent_executions w) \<Longrightarrow> still_unfinished e (g e)"
  shows "validate_integrity h (w\<lparr>wf_agent_executions := map g (wf_agent_executions w)\<rparr>) = Inr ()"
proof -
  let ?es = "wf_agent_executions w" and ?w = "w\<lparr>wf_agent_executions := map g (wf_agent_executions w)\<rparr>"
  have agent: "validate_agent_integrity w = Inr ()" and cand: "validate_candidate_integrity w = Inr ()"
    using int by (auto simp: validate_integrity_def and_then_ok if_err_ok)
  have f: "ax_id (g e) = ax_id e" "ax_work_item_id (g e) = ax_work_item_id e"
    "ax_attempt_id (g e) = ax_attempt_id e" if "e \<in> set ?es" for e
    using g [OF that] execution_kept_fields by (auto simp: still_unfinished_def)
  have succ: "ax_status (g e) = Succeeded \<longleftrightarrow> ax_status e = Succeeded"
    "ax_status e = Succeeded \<Longrightarrow> g e = e" if "e \<in> set ?es" for e
    using g [OF that] by (auto simp: still_unfinished_def execution_kept_def is_active_def)
  have act: "is_active (ax_status (g e)) \<Longrightarrow> is_active (ax_status e)" if "e \<in> set ?es" for e
    using g [OF that] by (auto simp: still_unfinished_def execution_kept_def)
  have res: "ax_result (g e) = ax_result e" if "e \<in> set ?es" for e
    using g [OF that] by (cases "is_active (ax_status e)") (auto simp: still_unfinished_def execution_kept_def)
  have ids: "distinct (map ax_id (map g ?es)) = distinct (map ax_id ?es)"
    by (rule arg_cong [where f = distinct]) (simp add: f(1))
  have count: "length (filter (\<lambda>x. ax_work_item_id x = i \<and> ax_attempt_id x = k) (map g ?es))
      = length (filter (\<lambda>x. ax_work_item_id x = i \<and> ax_attempt_id x = k) ?es)" for i k
    using f(2,3) by (simp add: filter_map comp_def cong: filter_cong)
  have active: "distinct (map ax_work_item_id (filter (\<lambda>e. is_active (ax_status e)) (map g ?es)))"
    if "distinct (map ax_work_item_id (filter (\<lambda>e. is_active (ax_status e)) ?es))"
  proof -
    have "filter (\<lambda>e. is_active (ax_status (g e))) ?es
        = filter (\<lambda>e. is_active (ax_status (g e))) (filter (\<lambda>e. is_active (ax_status e)) ?es)"
      using act by (auto intro: filter_cong)
    moreover have "map (\<lambda>e. ax_work_item_id (g e)) (filter P ?es) = map ax_work_item_id (filter P ?es)" for P
      by (rule map_cong) (auto simp: f(2))
    ultimately have "map ax_work_item_id (filter (\<lambda>e. is_active (ax_status e)) (map g ?es))
        = map ax_work_item_id (filter (\<lambda>e. is_active (ax_status (g e))) (filter (\<lambda>e. is_active (ax_status e)) ?es))"
      unfolding filter_map map_map comp_def by metis
    with distinct_map_filter [OF that] show ?thesis by metis
  qed
  have find: "find (\<lambda>e. ax_id e = i \<and> ax_status e = Succeeded) (map g es)
      = find (\<lambda>e. ax_id e = i \<and> ax_status e = Succeeded) es" if "set es \<subseteq> set ?es" for i es
    using that by (induction es) (auto simp: f(1) succ)
  have ex: "list_ex (\<lambda>e. ax_id e = i \<and> ax_status e = Succeeded \<and> P (ax_result e)) (map g ?es)
      = list_ex (\<lambda>e. ax_id e = i \<and> ax_status e = Succeeded \<and> P (ax_result e)) ?es" for i P
    by (auto simp: list_ex_iff f(1) succ(1) res)
  have listing: "listing_result ?w i = listing_result w i" for i
    by (simp add: listing_result_def find)
  have gen: "generated_ok ?w = generated_ok w" "suggested_ok ?w = suggested_ok w"
    by (simp_all add: generated_ok_def [abs_def] suggested_ok_def [abs_def] listing)
  have "validate_agent_integrity ?w = Inr ()"
    using agent ids active execution_ok_unfinished [OF _ g, of w _ "map g ?es"] count
    by (auto simp: validate_agent_integrity_def list_all_iff ex if_err_ok)
  moreover have "validate_candidate_integrity ?w = Inr ()"
    using cand unfolding validate_candidate_integrity_def list_all_iff
    by (simp add: gen f(1) res if_err_ok split del: if_split)
  ultimately show ?thesis
    using validate_integrity_agents [OF agent cand] int by metis
qed

lemma execution_ok_still:
  assumes "execution_ok w e" and "is_active (ax_status e)"
  shows "0 \<le> ax_effective_context_revision e" "0 \<le> ax_task_revision e" "still_unfinished e e"
proof -
  obtain ev where "is_ok (validate_scope (scope_of e ev))"
    using assms(1) by (auto simp: execution_ok_def scope_of_def split: sum.splits)
  then show "0 \<le> ax_effective_context_revision e" "0 \<le> ax_task_revision e"
    by (simp_all add: validate_scope_def scope_of_def is_ok_iff and_then_ok if_err_ok)
  with assms show "still_unfinished e e"
    by (auto simp: still_unfinished_def execution_ok_def is_active_def)
qed

lemma integrity_executions:
  assumes "validate_integrity h w = Inr ()" and "e \<in> set (wf_agent_executions w)"
  shows "execution_ok w e"
  using assms
  by (auto simp: validate_integrity_def validate_agent_integrity_def and_then_ok if_err_ok list_all_iff
      split: if_splits)

text \<open>One execution changed, every other left as it is.\<close>

lemma integrity_update:
  assumes int: "validate_integrity h w = Inr ()"
    and f: "\<And>e. e \<in> set (wf_agent_executions w) \<Longrightarrow> p e \<Longrightarrow> is_active (ax_status e) \<Longrightarrow> still_unfinished e (f e)"
    and p: "\<And>e. e \<in> set (wf_agent_executions w) \<Longrightarrow> p e \<Longrightarrow> is_active (ax_status e)"
  shows "validate_integrity h
     (w\<lparr>wf_agent_executions := map (\<lambda>e. if p e then f e else e) (wf_agent_executions w)\<rparr>) = Inr ()"
proof (rule integrity_unfinished [OF int])
  fix e assume e: "e \<in> set (wf_agent_executions w)"
  show "still_unfinished e (if p e then f e else e)"
    using f [OF e] p [OF e] execution_ok_still [OF integrity_executions [OF int e]]
    by (cases "is_active (ax_status e)") (auto simp: still_unfinished_def)
qed

subsection \<open>Failure and interruption\<close>

definition failed_as :: "AgentFailureCode \<Rightarrow> ustr \<Rightarrow> AgentExecution \<Rightarrow> AgentExecution" where
  "failed_as code now e = e\<lparr>ax_status := (if code = Interrupted \<or> code = CommitOutcomeUnknownCode
      then OutcomeUnknown else Failed), ax_failure_code := Some code, ax_ended_at := Some now\<rparr>"

lemma failed_as_simps [simp]:
  "ax_id (failed_as code now e) = ax_id e" "\<not> is_active (ax_status (failed_as code now e))"
  by (simp_all add: failed_as_def is_active_def)

lemma failed_as_still:
  assumes "execution_ok w e" and "is_active (ax_status e)"
  shows "still_unfinished e (failed_as code now e)"
  using assms execution_ok_still [OF assms]
  by (auto simp: still_unfinished_def execution_kept_def failed_as_def is_active_def)

lemma fail_agent_execution_shape:
  assumes "distinct (map ax_id (wf_agent_executions w))"
  obtains (same) "fst (fail_agent_execution actor i code now w) = w"
  | (failed) e n where "e \<in> set (wf_agent_executions w)" "ax_id e = i" "is_active (ax_status e)"
      "wf_revision w \<le> n"
      "fst (fail_agent_execution actor i code now w) = w\<lparr>wf_agent_executions :=
         map (\<lambda>x. if ax_id x = i then failed_as code now x else x) (wf_agent_executions w), wf_revision := n\<rparr>"
proof (cases "find (\<lambda>e. ax_id e = i \<and> ax_requested_by e = actor) (wf_agent_executions w)")
  case None
  then show ?thesis using same by (simp add: fail_agent_execution_def)
next
  case (Some e)
  note e = find_Some_in [OF Some]
  show ?thesis
  proof (cases "is_active (ax_status e)")
    case False
    with Some show ?thesis using same by (simp add: fail_agent_execution_def)
  next
    case True
    have "fst (fail_agent_execution actor i code now w) = w\<lparr>wf_agent_executions :=
        map (\<lambda>x. if ax_id x = i then failed_as code now x else x) (wf_agent_executions w),
        wf_revision := case checked_add_i64 (wf_revision w) 1 of None \<Rightarrow> wf_revision w | Some r \<Rightarrow> r\<rparr>"
      using Some True update_first_distinct [OF assms Some]
      by (simp add: fail_agent_execution_def Let_def failed_as_def [abs_def] split: option.splits)
    moreover have "wf_revision w \<le> (case checked_add_i64 (wf_revision w) 1 of None \<Rightarrow> wf_revision w | Some r \<Rightarrow> r)"
      by (simp add: checked_add_i64_def)
    ultimately show ?thesis using failed [of e] e True by blast
  qed
qed

lemma fail_agent_execution_integrity:
  assumes "validate_integrity h w = Inr ()"
  shows "validate_integrity h (fst (fail_agent_execution actor i code now w)) = Inr ()"
proof (rule fail_agent_execution_shape [OF validate_integrity_distinct_executions [OF assms], of actor i code now])
  fix e n
  assume e: "e \<in> set (wf_agent_executions w)" "ax_id e = i" "is_active (ax_status e)"
    and w': "fst (fail_agent_execution actor i code now w) = w\<lparr>wf_agent_executions :=
         map (\<lambda>x. if ax_id x = i then failed_as code now x else x) (wf_agent_executions w), wf_revision := n\<rparr>"
  have same: "x = e" if "x \<in> set (wf_agent_executions w)" "ax_id x = i" for x
    using validate_integrity_distinct_executions [OF assms] that e(1,2) by (auto simp: distinct_map inj_on_def)
  have "validate_integrity h (w\<lparr>wf_agent_executions :=
      map (\<lambda>x. if ax_id x = i then failed_as code now x else x) (wf_agent_executions w)\<rparr>) = Inr ()"
    using e(3) by (intro integrity_update assms failed_as_still [of w] integrity_executions [OF assms])
      (auto dest: same)
  then show ?thesis unfolding w' by simp
qed (use assms in simp)

lemma fail_agent_execution_extends:
  assumes "validate_integrity h w = Inr ()"
  shows "workflow_extends w (fst (fail_agent_execution actor i code now w))"
proof (rule fail_agent_execution_shape [OF validate_integrity_distinct_executions [OF assms], of actor i code now])
  fix e n
  assume e: "e \<in> set (wf_agent_executions w)" "ax_id e = i" "is_active (ax_status e)" "wf_revision w \<le> n"
    and w': "fst (fail_agent_execution actor i code now w) = w\<lparr>wf_agent_executions :=
         map (\<lambda>x. if ax_id x = i then failed_as code now x else x) (wf_agent_executions w), wf_revision := n\<rparr>"
  have "x = e" if "x \<in> set (wf_agent_executions w)" "ax_id x = i" for x
    using validate_integrity_distinct_executions [OF assms] that e(1,2) by (auto simp: distinct_map inj_on_def)
  then have "grown execution_kept (wf_agent_executions w)
      (map (\<lambda>x. if ax_id x = i then failed_as code now x else x) (wf_agent_executions w))"
    using e(3) by (intro grown_map) (auto simp: execution_kept_def failed_as_def)
  with e(4) show ?thesis unfolding w' by (simp add: workflow_extends_def)
qed simp

lemma fail_each_kept:
  assumes "validate_integrity h w = Inr ()" and "fail_each actor code now is w = (w', r)"
  shows "validate_integrity h w' = Inr () \<and> workflow_extends w w'"
  using assms
proof (induction actor code now "is" w rule: fail_each.induct)
  case (2 actor code now i "is" w)
  let ?w = "fst (fail_agent_execution actor i code now w)"
  note one = fail_agent_execution_integrity [OF 2(2), of actor i code now]
    fail_agent_execution_extends [OF 2(2), of actor i code now]
  show ?case
  proof (cases "snd (fail_agent_execution actor i code now w)")
    case (Inl e)
    with 2(3) one show ?thesis by (simp add: case_prod_beta split: prod.splits)
  next
    case (Inr e)
    with 2(3) have "fail_each actor code now is ?w = (w', r)" by (simp split: prod.splits)
    with 2(1) [of ?w "Inr e" e] one Inr show ?thesis
      by (auto simp: prod_eq_iff intro: workflow_extends_trans)
  qed
qed simp

lemma interrupt_kept:
  assumes "validate_integrity h w = Inr ()"
  shows "validate_integrity h (fst (interrupt_agent_executions actor now w)) = Inr ()
    \<and> workflow_extends w (fst (interrupt_agent_executions actor now w))"
  using fail_each_kept [OF assms]
  by (auto simp: interrupt_agent_executions_def Let_def split: prod.splits sum.splits)

end
