(* ===== verification/Workflow_Runs.thy ===== *)
theory Workflow_Runs
  imports Workflow_Steps
begin

text \<open>
  Histories of the aggregate. Every operation that changes it is a rule of \<open>work_step\<close>;
  integrity and the append-only records then hold over every sequence of steps.
\<close>

subsection \<open>Starting and finishing an execution\<close>

definition started_as :: "ustr \<Rightarrow> int \<Rightarrow> AgentExecution \<Rightarrow> AgentExecution" where
  "started_as now r e = e\<lparr>ax_status := Running, ax_started_at := now, ax_effective_context_revision := r\<rparr>"

lemma agent_execution_ok:
  assumes "agent_execution h w actor i = Inr e"
  shows "find (\<lambda>x. ax_id x = i) (wf_agent_executions w) = Some e" "e \<in> set (wf_agent_executions w)"
    "ax_id e = i" "ax_requested_by e = actor" "\<exists>item. item_of w (ax_work_item_id e) = Inr item
       \<and> ax_attempt_id e = wi_attempt_id item \<and> can_read h w actor item
       \<and> wi_acting_assignment_id item = Some (ax_requester_responsibility e)"
  using assms
  by (auto simp: agent_execution_def and_then_ok ok_or_ok if_err_ok dest: find_Some_in)

lemma start_shape:
  assumes "start_agent_execution h actor i now w = (w', Inr r)"
    and "distinct (map ax_id (wf_agent_executions w))"
  obtains (idle) "w' = w" "r = None"
  | (started) e ctx where "agent_execution h w actor i = Inr e" "ax_status e = Queued" "r = Some ctx"
      "ax_effective_context_revision e = wf_revision w"
      "w' = w\<lparr>wf_agent_executions :=
         map (\<lambda>x. if ax_id x = i then started_as now (wf_revision w + 1) x else x) (wf_agent_executions w),
         wf_revision := wf_revision w + 1\<rparr>"
proof -
  from assms(1) obtain e where e: "agent_execution h w actor i = Inr e"
    by (auto simp: start_agent_execution_def commit_ok and_then_ok)
  show ?thesis
  proof (cases "ax_status e = Queued")
    case False
    with assms(1) e idle show ?thesis by (simp add: start_agent_execution_def commit_ok)
  next
    case True
    with assms(1) e obtain ctx where "r = Some ctx" "ax_effective_context_revision e = wf_revision w"
      "w' = w\<lparr>wf_revision := wf_revision w + 1, wf_agent_executions := update_first (\<lambda>x. ax_id x = i)
        (started_as now (wf_revision w + 1)) (wf_agent_executions w)\<rparr>"
      by (auto simp: start_agent_execution_def commit_ok and_then_ok ok_or_ok if_err_ok Let_def
          checked_add_i64_Some started_as_def [abs_def])
    with started [OF e True] update_first_distinct_key [OF assms(2) agent_execution_ok(1) [OF e]]
    show ?thesis by simp
  qed
qed

lemma same_execution:
  "distinct (map ax_id es) \<Longrightarrow> x \<in> set es \<Longrightarrow> y \<in> set es \<Longrightarrow> ax_id x = ax_id y \<Longrightarrow> x = y"
  by (auto simp: distinct_map inj_on_def)

lemma started_as_still:
  assumes "execution_ok w e" and "ax_status e = Queued" and "0 \<le> r"
  shows "still_unfinished e (started_as now r e)"
  using assms execution_ok_still [OF assms(1)]
  by (auto simp: still_unfinished_def execution_kept_def started_as_def is_active_def execution_ok_def)

lemma start_kept:
  assumes int: "validate_integrity h w = Inr ()" and st: "start_agent_execution h' actor i now w = (w', Inr r)"
  shows "validate_integrity h w' = Inr () \<and> workflow_extends w w'"
proof (rule start_shape [OF st validate_integrity_distinct_executions [OF int]])
  assume "w' = w" with int show ?thesis by simp
next
  fix e ctx
  let ?f = "started_as now (wf_revision w + 1)"
  let ?es = "map (\<lambda>x. if ax_id x = i then ?f x else x) (wf_agent_executions w)"
  assume a: "agent_execution h' w actor i = Inr e" "ax_status e = Queued"
    "ax_effective_context_revision e = wf_revision w"
    and w': "w' = w\<lparr>wf_agent_executions := ?es, wf_revision := wf_revision w + 1\<rparr>"
  note e = agent_execution_ok [OF a(1)]
  have same: "x = e" if "x \<in> set (wf_agent_executions w)" "ax_id x = i" for x
    using same_execution [OF validate_integrity_distinct_executions [OF int]] that e(2,3) by simp
  note ok = integrity_executions [OF int e(2)]
  have "0 \<le> wf_revision w" using execution_ok_still(1) [OF ok] a(2,3) by (simp add: is_active_def)
  then have still: "still_unfinished e (?f e)" using ok a(2) by (intro started_as_still) auto
  have "validate_integrity h (w\<lparr>wf_agent_executions := ?es\<rparr>) = Inr ()"
    using still a(2) by (intro integrity_update int) (auto dest: same simp: is_active_def)
  moreover have "grown execution_kept (wf_agent_executions w) ?es"
    using still by (intro grown_map) (auto dest: same simp: still_unfinished_def)
  ultimately show "validate_integrity h w' = Inr () \<and> workflow_extends w w'"
    unfolding w' by (simp add: workflow_extends_def)
qed

definition recorded ::
  "uuid \<Rightarrow> WorkItem \<Rightarrow> Finding list \<Rightarrow> GeneratedArtifact list \<Rightarrow> SuggestedAction list \<Rightarrow> AgentExecution
     \<Rightarrow> Workflow \<Rightarrow> Workflow" where
  "recorded task item fs gs ss e w = (set_item task (bumped item) w)\<lparr>wf_findings := wf_findings w @ fs,
     wf_generated_artifacts := wf_generated_artifacts w @ gs,
     wf_suggested_actions := wf_suggested_actions w @ ss, wf_revision := wf_revision w + 1,
     wf_agent_executions := update_first (\<lambda>x. ax_id x = ax_id e) (\<lambda>_. e) (wf_agent_executions w)\<rparr>"

lemma set_item_records [simp]:
  "wf_findings (set_item t item w) = wf_findings w"
  "wf_generated_artifacts (set_item t item w) = wf_generated_artifacts w"
  "wf_suggested_actions (set_item t item w) = wf_suggested_actions w"
  "wf_agent_executions (set_item t item w) = wf_agent_executions w"
  "wf_revision (set_item t item w) = wf_revision w"
  by (simp_all add: set_item_def)

lemma set_item_records_update:
  "set_item t item (w\<lparr>wf_findings := fs\<rparr>) = (set_item t item w)\<lparr>wf_findings := fs\<rparr>"
  "set_item t item (w\<lparr>wf_generated_artifacts := gs, wf_suggested_actions := ss\<rparr>)
     = (set_item t item w)\<lparr>wf_generated_artifacts := gs, wf_suggested_actions := ss\<rparr>"
  "cur_item t (w\<lparr>wf_generated_artifacts := gs, wf_suggested_actions := ss\<rparr>) = cur_item t w"
  by (simp_all add: set_item_def cur_item_def)

text \<open>Everything an execution adds carries its identifier; candidates are private to it.\<close>

definition added_by :: "uuid \<Rightarrow> Finding list \<Rightarrow> GeneratedArtifact list \<Rightarrow> SuggestedAction list \<Rightarrow> bool" where
  "added_by i fs gs ss \<longleftrightarrow> (\<forall>f\<in>set fs. fd_origin_execution_id f = Some i)
     \<and> (\<forall>g\<in>set gs. ga_execution_id g = i \<and> ga_visibility g = AGENT_PRIVATE_VISIBILITY)
     \<and> (\<forall>s\<in>set ss. sa_execution_id s = i \<and> sa_visibility s = AGENT_PRIVATE_VISIBILITY)"

lemma create_finding_origin:
  "create_finding h w actor task input origin now = Inr f \<Longrightarrow> fd_origin_execution_id f = origin"
  by (auto simp: create_finding_def and_then_ok if_err_ok)

lemma record_finding_ok:
  assumes "record_finding h ctx out now w = Inr (w1, ref)"
  shows "\<exists>fs. w1 = w\<lparr>wf_findings := wf_findings w @ fs\<rparr> \<and> added_by (ax_id (adc_execution ctx)) fs [] []"
proof (cases "ao_finding out")
  case None
  with assms show ?thesis by (intro exI [of _ "[]"]) (simp add: record_finding_def added_by_def)
next
  case (Some candidate)
  with assms obtain f where w1: "w1 = w\<lparr>wf_findings := wf_findings w @ [f\<lparr>fd_uncertainty := ao_uncertainty out\<rparr>]\<rparr>"
    and f: "fd_origin_execution_id f = Some (ax_id (adc_execution ctx))"
    by (auto simp: record_finding_def and_then_ok dest: create_finding_origin)
  then show ?thesis
    by (intro exI [of _ "[f\<lparr>fd_uncertainty := ao_uncertainty out\<rparr>]"]) (simp add: added_by_def)
qed

lemma generated_from_private:
  "g \<in> set (generated_from h e now k cs) \<Longrightarrow> ga_execution_id g = ax_id e \<and> ga_visibility g = AGENT_PRIVATE_VISIBILITY"
  by (induction cs arbitrary: k) auto

lemma suggested_from_private:
  "suggested_from h e out ref gs now k cs = Inr ss \<Longrightarrow> s \<in> set ss
     \<Longrightarrow> sa_execution_id s = ax_id e \<and> sa_visibility s = AGENT_PRIVATE_VISIBILITY"
  by (induction cs arbitrary: k ss) (auto simp: and_then_ok)

lemma record_candidates_ok:
  "record_candidates h ctx out ref now k w = Inr (w', gids, sids) \<Longrightarrow>
     \<exists>gs ss. w' = w\<lparr>wf_generated_artifacts := wf_generated_artifacts w @ gs,
       wf_suggested_actions := wf_suggested_actions w @ ss\<rparr> \<and> added_by (ax_id (adc_execution ctx)) [] gs ss"
  by (auto simp: record_candidates_def Let_def and_then_ok added_by_def
      dest: generated_from_private suggested_from_private
      intro!: exI [of _ "generated_from h (adc_execution ctx) now k (ao_generated_artifacts out)"])

lemma store_result_ok:
  assumes "store_result h i task result now w = Inr (w', e')"
  obtains item e n where "cur_item task w = Some item"
    "find (\<lambda>x. ax_id x = i) (wf_agent_executions w) = Some e" "e' = finished_as now result n e" "ax_id e' = i"
    "w' = recorded task item [] [] [] e' w" "validate_integrity h w' = Inr ()"
proof -
  from assms obtain w1 n e where w1: "next_record_revision task w = Inr w1"
    and e: "find (\<lambda>x. ax_id x = i) (wf_agent_executions w1) = Some e"
    and e': "e' = finished_as now result n e"
    and w': "w' = w1\<lparr>wf_revision := wf_revision w1 + 1, wf_agent_executions :=
      update_first (\<lambda>x. ax_id x = i) (\<lambda>_. e') (wf_agent_executions w1)\<rparr>"
    and int: "validate_integrity h w' = Inr ()"
    by (auto simp: store_result_def Let_def and_then_ok ok_or_ok checked_add_i64_Some)
  from next_record_revision_ok [OF w1] obtain item where
    item: "cur_item task w = Some item" "w1 = set_item task (bumped item) w" by blast
  have "ax_id e' = i" using find_Some_in [OF e] by (simp add: e' finished_as_def)
  moreover from this have "w' = recorded task item [] [] [] e' w" by (simp add: w' item recorded_def)
  ultimately show ?thesis using that item e e' int by simp
qed

lemma recorded_after:
  "recorded task item [] [] [] e (w\<lparr>wf_findings := wf_findings w @ fs,
     wf_generated_artifacts := wf_generated_artifacts w @ gs, wf_suggested_actions := wf_suggested_actions w @ ss\<rparr>)
   = recorded task item fs gs ss e w"
  by (simp add: recorded_def set_item_def)

lemma finish_shape:
  assumes "finish_agent_copy h ctx out now w = Inr (w', e')"
  obtains item e fs gs ss result n where
    "build_agent_context h w (ax_requested_by (adc_execution ctx)) (ax_id (adc_execution ctx)) = Inr ctx"
    "validate_output ctx out = Inr ()"
    "cur_item (ax_work_item_id (adc_execution ctx)) w = Some item"
    "find (\<lambda>x. ax_id x = ax_id (adc_execution ctx)) (wf_agent_executions w) = Some e"
    "e' = finished_as now result n e" "ax_id e' = ax_id (adc_execution ctx)"
    "ar_source_outcomes result = ao_source_outcomes out" "added_by (ax_id (adc_execution ctx)) fs gs ss"
    "w' = recorded (ax_work_item_id (adc_execution ctx)) item fs gs ss e' w"
    "validate_integrity h w' = Inr ()"
proof -
  let ?task = "ax_work_item_id (adc_execution ctx)" and ?i = "ax_id (adc_execution ctx)"
  from assms obtain w1 ref w2 gids sids where
    ctx: "build_agent_context h w (ax_requested_by (adc_execution ctx)) ?i = Inr ctx"
      "validate_output ctx out = Inr ()" and
    w1: "record_finding h ctx out now w = Inr (w1, ref)" and
    w2: "record_candidates h ctx out ref now (if ref = None then 0 else 1) w1 = Inr (w2, gids, sids)" and
    w': "store_result h ?i ?task (output_result ctx out ref gids sids) now w2 = Inr (w', e')"
    by (auto simp: finish_agent_copy_def Let_def and_then_ok if_err_ok)
  from record_finding_ok [OF w1] obtain fs where w1: "w1 = w\<lparr>wf_findings := wf_findings w @ fs\<rparr>"
    and fs: "added_by ?i fs [] []" by blast
  from record_candidates_ok [OF w2] obtain gs ss where
    w2: "w2 = w\<lparr>wf_findings := wf_findings w @ fs, wf_generated_artifacts := wf_generated_artifacts w @ gs,
       wf_suggested_actions := wf_suggested_actions w @ ss\<rparr>" and gs: "added_by ?i [] gs ss" by (auto simp: w1)
  have own: "added_by ?i fs gs ss" using fs gs by (simp add: added_by_def)
  from w' show ?thesis
  proof (rule store_result_ok)
    fix item e n
    assume "cur_item ?task w2 = Some item"
      and e: "find (\<lambda>x. ax_id x = ?i) (wf_agent_executions w2) = Some e"
        "e' = finished_as now (output_result ctx out ref gids sids) n e" "ax_id e' = ?i"
      and "w' = recorded ?task item [] [] [] e' w2" and int: "validate_integrity h w' = Inr ()"
    then have "cur_item ?task w = Some item" "w' = recorded ?task item fs gs ss e' w"
      unfolding w2 recorded_after by (simp_all add: cur_item_def split: if_splits)
    with that [OF ctx] e int w2 own show ?thesis by (simp add: output_result_def)
  qed
qed

lemma finish_kept:
  assumes "validate_integrity h w = Inr ()" and "finish_agent_execution h' ctx out now w = (w', Inr e)"
  shows "validate_integrity h' w' = Inr () \<and> workflow_extends w w'"
proof -
  from assms(2) have "finish_agent_copy h' ctx out now w = Inr (w', e)"
    by (simp add: finish_agent_execution_def commit_ok)
  then show ?thesis
  proof (rule finish_shape)
    fix item x fs gs ss result n
    let ?task = "ax_work_item_id (adc_execution ctx)"
    let ?es = "update_first (\<lambda>x. ax_id x = ax_id e) (\<lambda>_. e) (wf_agent_executions w)"
    assume ctx: "build_agent_context h' w (ax_requested_by (adc_execution ctx)) (ax_id (adc_execution ctx)) = Inr ctx"
      and item: "cur_item ?task w = Some item"
      and x: "find (\<lambda>x. ax_id x = ax_id (adc_execution ctx)) (wf_agent_executions w) = Some x"
      and e: "e = finished_as now result n x" and w': "w' = recorded ?task item fs gs ss e w"
      and int: "validate_integrity h' w' = Inr ()"
    from ctx x have "ax_status x = Running"
      by (auto simp: build_agent_context_def and_then_ok if_err_ok dest: agent_execution_ok(1))
    then have kept: "execution_kept x e" by (simp add: e finished_as_def execution_kept_def is_active_def)
    have "ax_id e = ax_id (adc_execution ctx)" using find_Some_in [OF x] by (simp add: e finished_as_def)
    then have "grown execution_kept (wf_agent_executions w) ?es"
      using x kept by (intro grown_update_found) auto
    then have "workflow_extends w (w\<lparr>wf_findings := wf_findings w @ fs,
        wf_generated_artifacts := wf_generated_artifacts w @ gs, wf_suggested_actions := wf_suggested_actions w @ ss,
        wf_revision := wf_revision w + 1, wf_agent_executions := ?es\<rparr>)" (is "workflow_extends w ?w")
      by (simp add: workflow_extends_def)
    moreover have "w' = set_item ?task (bumped item) ?w"
      by (simp add: w' recorded_def set_item_def)
    ultimately have "workflow_extends w w'"
      using item by (auto intro!: extends_then_set_item simp: cur_item_def)
    with int show ?thesis by simp
  qed
qed

subsection \<open>Commands\<close>

lemma close_finished_extends: "workflow_extends w (close_finished_assignments now w)"
  by (auto simp: workflow_extends_def close_finished_assignments_def Let_def period_kept_def intro!: grown_map)

lemma invalidate_extends:
  assumes "invalidate_agent_contexts now w = Inr w'" and "distinct (map ax_id (wf_agent_executions w))"
  shows "workflow_extends w w'"
  unfolding invalidate_ok [OF assms]
  by (rule extends_executions, rule grown_map)
    (auto simp: execution_kept_def fail_context_def stale_execution_def)

lemma extends_revision: "wf_revision w \<le> n \<Longrightarrow> workflow_extends w (w\<lparr>wf_revision := n\<rparr>)"
  by (simp add: workflow_extends_def)

lemma extends_authority:
  "workflow_extends (w\<lparr>wf_authority := a\<rparr>) x = workflow_extends w x"
  "workflow_extends w (x\<lparr>wf_authority := a\<rparr>) = workflow_extends w x"
  by (simp_all add: workflow_extends_def)

lemma apply_kept:
  assumes "workflow_apply h actor command now w = (w', Inr r)"
  shows "validate_integrity h w = Inr () \<and> validate_integrity h w' = Inr () \<and> workflow_extends w w'"
proof -
  from assms have "apply_copy h actor command now w = Inr (w', r)" by (simp add: workflow_apply_ok)
  then show ?thesis
  proof (rule apply_copy_ok)
    fix at item w1 w2 w3
    assume int: "validate_integrity h (at_instant at w) = Inr ()"
      and w1: "apply_validated h actor command now (at_instant at w) = Inr (w1, r)"
      and w2: "w2 = (close_finished_assignments now w1)\<lparr>wf_revision := wf_revision w1 + 1\<rparr>"
      and w3: "invalidate_agent_contexts now w2 = Inr w3" and int3: "validate_integrity h w3 = Inr ()"
      and w': "w' = w3\<lparr>wf_authority := wf_authority w\<rparr>"
    have dist: "distinct (map ax_id (wf_agent_executions w2))"
      using invalidate_distinct [OF w3] validate_integrity_distinct_executions [OF int3] by simp
    have "workflow_extends w w1"
      using apply_validated_extends [OF w1 int] by (simp add: extends_authority)
    moreover have "workflow_extends w1 w2"
      unfolding w2 by (rule workflow_extends_trans [OF close_finished_extends extends_revision]) simp
    ultimately have "workflow_extends w w3"
      using invalidate_extends [OF w3 dist] workflow_extends_trans by blast
    with int int3 show ?thesis by (simp add: w' extends_authority)
  qed
qed

subsection \<open>Every history\<close>

text \<open>
  One rule per operation that changes the aggregate. Fresh identifiers differ from step to
  step, so a step may draw any sequence of them. A failed command leaves the aggregate as it
  was and needs no rule; failing and interrupting an execution may change it and then report an
  error, so their rules do not ask for success.
\<close>

inductive work_step :: "host \<Rightarrow> Workflow \<Rightarrow> Workflow \<Rightarrow> bool" for h where
  applied: "workflow_apply (h\<lparr>now_v7 := ids\<rparr>) actor command now w = (w', Inr r) \<Longrightarrow> work_step h w w'"
| started: "start_agent_execution (h\<lparr>now_v7 := ids\<rparr>) actor i now w = (w', Inr ctx) \<Longrightarrow> work_step h w w'"
| finished: "finish_agent_execution (h\<lparr>now_v7 := ids\<rparr>) ctx out now w = (w', Inr e) \<Longrightarrow> work_step h w w'"
| failed: "fail_agent_execution actor i code now w = (w', e) \<Longrightarrow> work_step h w w'"
| interrupted: "interrupt_agent_executions actor now w = (w', n) \<Longrightarrow> work_step h w w'"
| authorized: "work_step h w (w\<lparr>wf_authority := a\<rparr>)"

lemma work_step_kept:
  assumes "work_step h w w'" and "validate_integrity h w = Inr ()"
  shows "validate_integrity h w' = Inr () \<and> workflow_extends w w'"
  using assms
proof cases
  case (applied ids actor command now r)
  from apply_kept [OF this] show ?thesis by simp
next
  case (finished ids ctx out now e)
  from finish_kept [OF assms(2) this] show ?thesis by simp
next
  case (started ids actor i now ctx)
  from start_kept [OF assms(2) this] show ?thesis .
next
  case (failed actor i code now e)
  with fail_agent_execution_integrity [OF assms(2), of actor i code now]
    fail_agent_execution_extends [OF assms(2), of actor i code now] show ?thesis by simp
next
  case (interrupted actor now n)
  with interrupt_kept [OF assms(2), of actor now] show ?thesis by simp
next
  case (authorized a)
  with assms(2) show ?thesis by (simp add: extends_authority)
qed

lemma work_steps_kept:
  assumes "(work_step h)\<^sup>*\<^sup>* w w'" and "validate_integrity h w = Inr ()"
  shows "validate_integrity h w' = Inr () \<and> workflow_extends w w'"
  using assms(1)
proof induction
  case base
  with assms(2) show ?case by simp
next
  case (step x y)
  with work_step_kept [OF step.hyps(2)] show ?case by (blast intro: workflow_extends_trans)
qed

end
