(* ===== verification/Workflow_Tasks.thy ===== *)
theory Workflow_Tasks
  imports Workflow_Runs
begin

text \<open>
  Task revisions and task states. A command checks and advances the revision of the task it
  names, so two writers never both win; the states of the two steps follow a small abstract
  machine, which the aggregate refines step by step.
\<close>

subsection \<open>Task revisions\<close>

definition task_revision :: "uuid \<Rightarrow> Workflow \<Rightarrow> int" where
  "task_revision t w = (case item_of w t of Inl _ \<Rightarrow> -1 | Inr item \<Rightarrow> wi_revision item)"

fun cancels :: "Command \<Rightarrow> bool" where
  "cancels (CancelAgentExecution _ _ _ _) = True"
| "cancels _ = False"

lemma filter_opt_simps [simp]: "filter_opt f None = None" "filter_opt f (Some x) = (if f x then Some x else None)"
  by (simp_all add: filter_opt_def)

lemma item_of_iff:
  "item_of w t = Inr item \<longleftrightarrow>
     (if t = wi_id (wf_source w) then item = wf_source w else wf_next w = Some item \<and> wi_id item = t)"
  by (auto simp: item_of_def ok_or_ok split: if_splits)

lemma task_revision_set_item:
  "wi_id item' = t \<Longrightarrow> task_revision t (set_item t item' w) = wi_revision item'"
  by (auto simp: task_revision_def set_item_def item_of_def)

lemma task_revision_update [simp]:
  "task_revision t (w\<lparr>wf_authority := a\<rparr>) = task_revision t w"
  "task_revision t (w\<lparr>wf_agent_executions := es\<rparr>) = task_revision t w"
  "task_revision t (w\<lparr>wf_revision := n\<rparr>) = task_revision t w"
  by (simp_all add: task_revision_def)

lemma task_revision_close [simp]: "task_revision t (close_finished_assignments now w) = task_revision t w"
  by (simp add: task_revision_def close_finished_assignments_def item_of_def)

lemma fields_kept [simp]:
  "wi_id (take_over r st item) = wi_id item" "wi_revision (take_over r st item) = wi_revision item"
  "wi_id (close_item now item) = wi_id item" "wi_revision (close_item now item) = wi_revision item"
  by (simp_all add: take_over_def close_item_def)

lemma apply_validated_bumps:
  assumes ok: "apply_validated h actor command now w = Inr (w', r)"
    and int: "validate_integrity h w = Inr ()" and nc: "\<not> cancels command"
    and item: "item_of w (command_task_id command) = Inr item"
  shows "task_revision (command_task_id command) w' = wi_revision item + 1"
proof -
  note id = item_of_cur [OF item]
  have next': "task_revision t (w\<lparr>wf_next := Some n, wf_history := hist\<rparr>) = wi_revision n"
    if "is_next w item" "t = command_task_id command" "wi_id n = t" for t n hist
    using is_next_not_source [OF int that(1) item] that by (simp add: task_revision_def item_of_def)
  have source': ?thesis if "command_task_id command = wi_id (wf_source w)"
    "w' = w\<lparr>wf_artifacts := as, wf_source := bumped (wf_source w)\<rparr>" for as
    using that item by (simp add: task_revision_def item_of_def)
  have files: ?thesis if "apply_files h actor command now w = Inr (w', r)"
    using apply_files_ok [OF that] source' by blast
  have records: ?thesis if "apply_evidence h actor command now w = Inr (w', r)"
    using apply_evidence_ok [OF that] id by (auto simp: task_revision_set_item)
  show ?thesis
  proof (cases command)
    case (Complete t c attempt action_id)
    with ok have "apply_complete h actor t attempt action_id now w = Inr (w', r)" by simp
    from apply_complete_ok [OF this] item Complete obtain n hist where nx: "is_next w item" "wf_next w = Some n"
      and w': "w' = w\<lparr>wf_next := Some (bumped (close_item now n)), wf_history := wf_history w @ hist\<rparr>"
      by auto
    have "n = item" using is_next_not_source [OF int nx(1) item] nx(2) by simp
    with nx(1) id Complete show ?thesis unfolding w' by (simp add: next')
  next
    case (Hold t c attempt action_id)
    with ok item id show ?thesis
      by (auto dest!: apply_pause_ok simp: task_revision_set_item)
  next
    case (Resume t c attempt action_id)
    with ok item id show ?thesis
      by (auto dest!: apply_pause_ok simp: task_revision_set_item)
  next
    case (Return t c attempt previous target transition reason)
    with ok have "apply_return h actor c t attempt previous target transition reason now w = Inr (w', r)" by simp
    from apply_return_ok [OF this] have "is_next w item \<and> (\<exists>office. wf_next w = Some office
        \<and> (\<exists>n. wf_next w' = Some n \<and> wi_id n = wi_id office \<and> wi_revision n = wi_revision office + 1))
        \<and> wi_id (wf_source w') = wi_id (wf_source w)"
      using item Return by (elim exE conjE) (simp add: returned_source_def)
    with is_next_not_source [OF int _ item] Return id show ?thesis
      by (auto simp: task_revision_def item_of_def)
  next
    case (Claim t c)
    with ok item id show ?thesis
      by (auto dest!: apply_claim_ok simp: task_revision_set_item)
  next
    case (Assign t c attempt assignee resp reason)
    with ok item id show ?thesis
      by (auto dest!: apply_assign_ok simp: task_revision_set_item)
  next
    case (Submit t c sel attempt ev fs ds)
    with ok have "apply_submit h actor c t sel attempt ev fs ds now w = Inr (w', r)" by simp
    from apply_submit_ok [OF this] have "t = wi_id (wf_source w) \<and> wi_id (wf_source w') = t
        \<and> wi_revision (wf_source w') = wi_revision (wf_source w) + 1"
      by (elim exE conjE) simp
    with item Submit show ?thesis by (simp add: task_revision_def item_of_iff item_of_def)
  next
    case (SaveDraft t i c v)
    with ok have "apply_save_draft h actor t i v w = Inr (w', r)" by simp
    from apply_save_draft_ok [OF this] SaveDraft source' show ?thesis by auto
  next
    case (RequestAgentExecution t c a p e)
    with ok item id apply_agent_ok [of h actor command now w w' r] show ?thesis
      by (auto simp: task_revision_set_item)
  qed (use ok files records nc in auto)
qed

subsection \<open>Commands as a versioned machine\<close>

type_synonym work_call = "(nat \<Rightarrow> uuid) \<times> VerifiedActor \<times> Command \<times> ustr"

fun apply_call :: "host \<Rightarrow> work_call \<Rightarrow> Workflow \<Rightarrow> Workflow \<times> (WorkError + MutationResult)" where
  "apply_call h (ids, actor, command, now) w = workflow_apply (h\<lparr>now_v7 := ids\<rparr>) actor command now w"

abbreviation sound :: "host \<Rightarrow> Workflow \<Rightarrow> bool" where
  "sound h w \<equiv> validate_integrity h w = Inr ()"

fun writes_task :: "uuid \<Rightarrow> work_call \<Rightarrow> bool" where
  "writes_task t (ids, actor, command, now) \<longleftrightarrow> command_task_id command = t \<and> \<not> cancels command"

fun call_revision :: "work_call \<Rightarrow> int" where
  "call_revision (ids, actor, command, now) = cc_expected_revision (command_context command)"

lemma item_of_extends:
  assumes "workflow_extends w w'" and "item_of w t = Inr item"
  obtains item' where "item_of w' t = Inr item'" "item_kept item item'"
  using assms by (auto simp: item_of_iff workflow_extends_def item_kept_def split: if_splits)

lemma task_revision_mono:
  assumes "sound h w'" and "workflow_extends w w'"
  shows "task_revision t w \<le> task_revision t w'"
proof (cases "item_of w t")
  case (Inl e)
  have "-1 \<le> task_revision t w'"
    using integrity_items(1) [OF assms(1)] integrity_items(2) [OF assms(1)]
    by (auto simp: task_revision_def item_of_iff item_ok_def split: sum.splits if_splits)
  with Inl show ?thesis by (simp add: task_revision_def)
next
  case (Inr item)
  from item_of_extends [OF assms(2) this] Inr show ?thesis
    by (metis item_kept_def sum.simps(6) task_revision_def)
qed

lemma invalidate_task_revision:
  "invalidate_agent_contexts now w = Inr w' \<Longrightarrow> task_revision t w' = task_revision t w"
  by (auto simp: invalidate_agent_contexts_def and_then_ok)

lemma apply_checks_and_bumps:
  assumes "workflow_apply h actor command now w = (w', Inr r)" and "\<not> cancels command"
  shows "task_revision (command_task_id command) w = cc_expected_revision (command_context command)
    \<and> task_revision (command_task_id command) w' = cc_expected_revision (command_context command) + 1"
proof -
  let ?t = "command_task_id command"
  from assms(1) have "apply_copy h actor command now w = Inr (w', r)" by (simp add: workflow_apply_ok)
  then show ?thesis
  proof (rule apply_copy_ok)
    fix at item w1 w2 w3
    assume int: "validate_integrity h (at_instant at w) = Inr ()"
      and item: "item_of w ?t = Inr item" "wi_revision item = cc_expected_revision (command_context command)"
      and w1: "apply_validated h actor command now (at_instant at w) = Inr (w1, r)"
      and w2: "w2 = (close_finished_assignments now w1)\<lparr>wf_revision := wf_revision w1 + 1\<rparr>"
      and w3: "invalidate_agent_contexts now w2 = Inr w3" and w': "w' = w3\<lparr>wf_authority := wf_authority w\<rparr>"
    have "task_revision ?t w1 = wi_revision item + 1"
      using apply_validated_bumps [OF w1 int assms(2)] item(1) by simp
    with item invalidate_task_revision [OF w3] show ?thesis
      by (simp add: w' w2 task_revision_def [of ?t w])
  qed
qed

interpretation task_writes: versioned_machine "apply_call h" "sound h" "task_revision t" "writes_task t" call_revision
  for h t
proof
  fix c :: work_call and s :: Workflow and r and e
  obtain ids actor command now where c: "c = (ids, actor, command, now)" by (cases c)
  let ?h = "h\<lparr>now_v7 := ids\<rparr>"
  show "fst (apply_call h c s) = s" if "snd (apply_call h c s) = Inl e"
    using that by (cases "workflow_apply ?h actor command now s") (auto simp: c workflow_apply_def dest: commit_failed)
  assume ok: "snd (apply_call h c s) = Inr r"
  then have run: "workflow_apply ?h actor command now s = (fst (apply_call h c s), Inr r)"
    by (cases "workflow_apply ?h actor command now s") (simp add: c)
  note kept = apply_kept [OF run]
  show "sound h (fst (apply_call h c s))" using kept by simp
  show "task_revision t s \<le> task_revision t (fst (apply_call h c s))"
    using kept by (auto intro: task_revision_mono)
  assume "writes_task t c"
  with apply_checks_and_bumps [OF run]
  show "task_revision t s = call_revision c" "task_revision t s < task_revision t (fst (apply_call h c s))"
    by (auto simp: c)
qed

end
