(* ===== verification/Workflow_States.thy ===== *)
theory Workflow_States
  imports Workflow_Tasks
begin

text \<open>
  The task-state machine. What the steps of a workflow do to the states of its source and
  receiving task is an abstract machine of six moves; the aggregate refines it, and at most
  one of the two tasks is ever open.
\<close>

subsection \<open>The abstract machine\<close>

type_synonym task_states = "TaskState \<times> TaskState option"

definition states_of :: "Workflow \<Rightarrow> task_states" where
  "states_of w = (wi_state (wf_source w), map_option wi_state (wf_next w))"

inductive item_move :: "TaskState \<Rightarrow> TaskState \<Rightarrow> bool" where
  taken: "item_move Ready Active"
| paused: "item_move Active Held"
| resumed: "item_move Held Active"

inductive task_move :: "task_states \<Rightarrow> task_states \<Rightarrow> bool" where
  recorded: "task_move s s"
| source_moves: "item_move a b \<Longrightarrow> task_move (a, n) (b, n)"
| next_moves: "item_move a b \<Longrightarrow> task_move (s, Some a) (s, Some b)"
| submitted: "n = None \<or> n = Some Completed \<Longrightarrow> task_move (Active, n) (Completed, Some Ready)"
| completed: "task_move (s, Some Active) (s, Some Completed)"
| returned: "task_move (Completed, Some Active) (Ready, Some Completed)"

inductive_cases item_moveE: "item_move a b"
inductive_cases task_moveE: "task_move s t"

definition one_open :: "task_states \<Rightarrow> bool" where
  "one_open s \<longleftrightarrow> (case s of (src, n) \<Rightarrow> src = Completed \<and> n \<noteq> None \<or> src \<noteq> Completed \<and> (n = None \<or> n = Some Completed))"

lemma one_open_kept: "task_move s t \<Longrightarrow> one_open s \<Longrightarrow> one_open t"
  by (auto simp: one_open_def elim!: task_moveE item_moveE)

subsection \<open>The aggregate refines it\<close>

lemma states_of_update [simp]:
  "states_of (w\<lparr>wf_authority := a\<rparr>) = states_of w"
  "states_of (w\<lparr>wf_agent_executions := es\<rparr>) = states_of w"
  "states_of (w\<lparr>wf_revision := n\<rparr>) = states_of w"
  "states_of (w\<lparr>wf_history := hs\<rparr>) = states_of w"
  "states_of (w\<lparr>wf_assignments := as\<rparr>) = states_of w"
  "states_of (w\<lparr>wf_evidence := es', wf_findings := fs, wf_decisions := ds\<rparr>) = states_of w"
  "states_of (close_finished_assignments now w) = states_of w"
  by (simp_all add: states_of_def close_finished_assignments_def)

lemma states_of_set_item:
  assumes "cur_item t w = Some item"
  shows "wi_state item' = wi_state item \<Longrightarrow> states_of (set_item t item' w) = states_of w"
    and "item_move (wi_state item) (wi_state item') \<Longrightarrow> task_move (states_of w) (states_of (set_item t item' w))"
  using assms by (auto simp: states_of_def set_item_def cur_item_def intro: source_moves next_moves split: if_splits)

lemma set_item_moves:
  assumes "cur_item t w = Some item" and "states_of x = states_of w" and "cur_item t x = cur_item t w"
    and "wi_state item' = wi_state item \<or> item_move (wi_state item) (wi_state item')"
  shows "task_move (states_of w) (states_of (set_item t item' x))"
proof -
  have "cur_item t x = Some item" using assms by simp
  from states_of_set_item [OF this, of item'] assms(2,4) show ?thesis
    by (auto simp: recorded)
qed

lemma apply_agent_moves:
  assumes "apply_agent h actor command now w = Inr (w', r)"
  shows "task_move (states_of w) (states_of w')"
  using apply_agent_ok [OF assms] by (elim exE conjE disjE) (simp_all add: recorded set_item_moves)

lemma apply_validated_moves:
  assumes ok: "apply_validated h actor command now w = Inr (w', r)" and int: "sound h w"
  shows "task_move (states_of w) (states_of w')"
proof -
  have source': ?thesis if "w' = w\<lparr>wf_artifacts := as, wf_source := bumped (wf_source w)\<rparr>" for as
    using that by (simp add: states_of_def recorded)
  have files: ?thesis if "apply_files h actor command now w = Inr (w', r)"
    using apply_files_ok [OF that] source' by blast
  have records: ?thesis if "apply_evidence h actor command now w = Inr (w', r)"
    using apply_evidence_ok [OF that] by (elim exE conjE) (simp add: set_item_moves)
  have pause: ?thesis if "apply_pause h actor resume t attempt action_id now w = Inr (w', r)"
    for resume t attempt action_id
    using apply_pause_ok [OF that]
    by (elim exE conjE) (cases resume; simp add: set_item_moves item_move.intros)
  show ?thesis
  proof (cases command)
    case (Complete t c attempt action_id)
    with ok have "apply_complete h actor t attempt action_id now w = Inr (w', r)" by simp
    from apply_complete_ok [OF this] is_next_not_source [OF int] show ?thesis
      by (elim exE conjE) (simp add: states_of_def close_item_def completed)
  next
    case (Return t c attempt previous target transition reason)
    with ok have "apply_return h actor c t attempt previous target transition reason now w = Inr (w', r)" by simp
    from apply_return_ok [OF this] is_next_not_source [OF int] show ?thesis
      by (elim exE conjE) (simp add: states_of_def close_item_def returned_source_def returned)
  next
    case (Submit t c sel attempt ev fs ds)
    with ok have "apply_submit h actor c t sel attempt ev fs ds now w = Inr (w', r)" by simp
    from apply_submit_ok [OF this] show ?thesis
      by (elim exE conjE)
        (auto simp: states_of_def close_item_def next_attempt_def is_none_or_iff intro!: submitted split: option.splits)
  next
    case (SaveDraft t i c v)
    with ok have "apply_save_draft h actor t i v w = Inr (w', r)" by simp
    from apply_save_draft_ok [OF this] source' show ?thesis by blast
  next
    case (Claim t c)
    with ok have "apply_claim h actor c t now w = Inr (w', r)" by simp
    from apply_claim_ok [OF this] show ?thesis
      by (elim exE conjE) (simp add: set_item_moves take_over_def item_move.intros)
  next
    case (Assign t c attempt assignee resp reason)
    with ok have "apply_assign h actor c t attempt assignee resp reason now w = Inr (w', r)" by simp
    from apply_assign_ok [OF this] show ?thesis
      by (elim exE conjE) (simp add: set_item_moves take_over_def item_move.intros)
  qed (use ok files records pause apply_agent_moves in auto)
qed

lemma apply_moves:
  assumes "workflow_apply h actor command now w = (w', Inr r)"
  shows "task_move (states_of w) (states_of w')"
proof -
  from assms have "apply_copy h actor command now w = Inr (w', r)" by (simp add: workflow_apply_ok)
  then show ?thesis
  proof (rule apply_copy_ok)
    fix at item w1 w2 w3
    assume "validate_integrity h (at_instant at w) = Inr ()"
      and "apply_validated h actor command now (at_instant at w) = Inr (w1, r)"
      and w2: "w2 = (close_finished_assignments now w1)\<lparr>wf_revision := wf_revision w1 + 1\<rparr>"
      and w3: "invalidate_agent_contexts now w2 = Inr w3" and w': "w' = w3\<lparr>wf_authority := wf_authority w\<rparr>"
    then have "task_move (states_of (at_instant at w)) (states_of w1)" by (intro apply_validated_moves)
    moreover have "states_of w3 = states_of w2"
      using w3 by (auto simp: invalidate_agent_contexts_def and_then_ok)
    ultimately show ?thesis by (simp add: w' w2)
  qed
qed

lemma fail_agent_execution_states [simp]: "states_of (fst (fail_agent_execution actor i code now w)) = states_of w"
  by (auto simp: fail_agent_execution_def Let_def split: option.splits)

lemma fail_each_states: "fail_each actor code now is w = (w', r) \<Longrightarrow> states_of w' = states_of w"
proof (induction actor code now "is" w arbitrary: r rule: fail_each.induct)
  case (2 actor code now i "is" w)
  then show ?case
    using fail_agent_execution_states [of actor i code now w]
    by (cases "fail_agent_execution actor i code now w") (auto split: sum.splits)
qed simp

lemma work_step_moves:
  assumes "work_step h w w'" and int: "sound h w"
  shows "task_move (states_of w) (states_of w')"
  using assms(1)
proof cases
  case (applied ids actor command now r)
  then show ?thesis by (rule apply_moves)
next
  case (started ids actor i now ctx)
  then show ?thesis
    by (rule start_shape [OF _ validate_integrity_distinct_executions [OF int]]) (simp_all add: recorded)
next
  case (finished ids ctx out now e)
  then have "finish_agent_copy (h\<lparr>now_v7 := ids\<rparr>) ctx out now w = Inr (w', e)"
    by (simp add: finish_agent_execution_def commit_ok)
  then show ?thesis
  proof (rule finish_shape)
    fix item fs gs ss
    let ?t = "ax_work_item_id (adc_execution ctx)"
    assume item: "cur_item ?t w = Some item" and w': "w' = Workflow_Runs.recorded ?t item fs gs ss e w"
    have "states_of w' = states_of (set_item ?t (bumped item) w)"
      by (simp add: w' recorded_def states_of_def)
    with states_of_set_item(1) [OF item, of "bumped item"] show ?thesis by (simp add: task_move.recorded)
  qed
next
  case (failed actor i code now e)
  then show ?thesis using fail_agent_execution_states [of actor i code now w] by (simp add: recorded)
next
  case (interrupted actor now n)
  then have "states_of w' = states_of w"
    by (auto simp: interrupt_agent_executions_def Let_def dest: fail_each_states split: prod.splits sum.splits)
  then show ?thesis by (simp add: recorded)
next
  case (authorized a)
  then show ?thesis by (simp add: recorded)
qed

interpretation tasks: step_refinement "work_step h" task_move states_of "sound h" for h
  by unfold_locales (auto dest: work_step_kept work_step_moves)

end
