(* ===== verification/Workflow_Safety.thy ===== *)
theory Workflow_Safety
  imports Workflow_States
begin

text \<open>
  What the workflow aggregate guarantees: over every history, of every command, of the agent
  operations, and of what it discloses.
\<close>

subsection \<open>Histories\<close>

text \<open>
  (C1) The aggregate never leaves the states its integrity check accepts: whatever sequence of
  commands, agent starts, finishes, failures, interruptions and authority changes is run, with
  whatever identifiers are drawn, a workflow that passes \<open>validate_integrity\<close> still passes it.
\<close>

theorem workflow_integrity_history:
  assumes "(work_step h)\<^sup>*\<^sup>* w w'" and "validate_integrity h w = Inr ()"
  shows "validate_integrity h w' = Inr ()"
  using work_steps_kept [OF assms] ..

text \<open>
  (C7) The record of work is append-only over every history: evidence, findings, decisions,
  snapshots, return instructions, archived attempts, generated artifacts, suggested actions and the
  history itself only grow; a responsibility period can only be ended, once; a finished execution
  never changes; a task's revision and attempt number never decrease, and a new attempt has a larger
  number.
\<close>

theorem workflow_history_append_only:
  assumes "(work_step h)\<^sup>*\<^sup>* w w'" and "validate_integrity h w = Inr ()"
  shows "workflow_extends w w'"
  using work_steps_kept [OF assms] ..

text \<open>
  (C3) Commands are atomic and optimistic: two commands prepared against the same revision of a
  task, neither of which cancels an execution, never both succeed, whatever commands run between
  them, so no update is lost. (Cancelling an execution that has already ended changes no revision.)
\<close>

theorem workflow_no_lost_update:
  assumes "workflow_apply (h\<lparr>now_v7 := ids\<rparr>) actor c now w = (w1, Inr r)"
    and "command_task_id d = command_task_id c" and "\<not> cancels c" and "\<not> cancels d"
    and "cc_expected_revision (command_context d) = cc_expected_revision (command_context c)"
  shows "\<exists>e. snd (apply_call h (ids', actor', d, now') (run_machine (apply_call h) calls w1)) = Inl e"
proof -
  have "validate_integrity h w = Inr ()" using apply_kept [OF assms(1)] by simp
  from task_writes.no_lost_update [OF this, of "command_task_id c" "(ids, actor, c, now)" r
      "(ids', actor', d, now')" calls] assms
  show ?thesis by simp
qed

subsection \<open>The task-state machine\<close>

text \<open>
  (C4) Every history of the aggregate is, on the states of its two tasks, a history of the
  abstract task machine: tasks are taken, held and resumed, the source is submitted only while
  active and only when the receiving task is absent or completed, and a return reopens the source
  and completes the receiver. No other move exists.
\<close>

theorem workflow_refines_task_machine:
  assumes "(work_step h)\<^sup>*\<^sup>* w w'" and "validate_integrity h w = Inr ()"
  shows "task_move\<^sup>*\<^sup>* (states_of w) (states_of w')"
  using tasks.runs_simulated [OF assms] ..

text \<open>
  At most one of the two tasks is open at any time: from a workflow where exactly the source
  or exactly the receiving task is unfinished (or both are done), every history stays there.
\<close>

theorem workflow_one_open_task:
  assumes "(work_step h)\<^sup>*\<^sup>* w w'" and "validate_integrity h w = Inr ()" and "one_open (states_of w)"
  shows "one_open (states_of w')"
  using assms by (rule tasks.abstract_invariant) (rule one_open_kept)

subsection \<open>Authority of commands\<close>

lemma policy_at_instant [simp]:
  "workflow_policy (at_instant at w) = workflow_policy w" "evaluated_at h (at_instant at w) = at"
  by (simp_all add: workflow_policy_def evaluated_at_def)

lemma step_responsibility_Some:
  "step_responsibility h w actor i item action = Some v \<longleftrightarrow>
     responsibility h (workflow_policy w) actor i (evaluated_at h w) = Some v
     \<and> step_role item = Some (resp_role_id v) \<and> allows v action"
  by (auto simp: step_responsibility_def split: option.splits)

lemma can_act_iff:
  "can_act h w actor item action \<longleftrightarrow> wi_assignee item = Some actor
     \<and> (\<exists>i v. wi_acting_assignment_id item = Some i \<and> step_responsibility h w actor i item action = Some v)"
  by (auto simp: can_act_def is_some_and_iff)

lemma authorize_assigned_ok:
  assumes "authorize_assigned h w actor item acting action = Inr ()"
    and "responsibility h (workflow_policy w) actor acting (evaluated_at h w) = Some resp"
  shows "wi_assignee item = Some actor \<and> wi_acting_assignment_id item = Some acting
     \<and> step_role item = Some (resp_role_id resp) \<and> allows resp action"
  using assms by (auto simp: authorize_assigned_def if_err_ok can_read_def can_act_iff step_responsibility_Some)

fun authorized_for :: "Command \<Rightarrow> VerifiedActor \<Rightarrow> Responsibility \<Rightarrow> WorkItem \<Rightarrow> bool" where
  "authorized_for (Claim t c) actor resp item \<longleftrightarrow> step_role item = Some (resp_role_id resp)"
| "authorized_for (Assign t c attempt assignee i reason) actor resp item \<longleftrightarrow> assignee \<noteq> actor"
| "authorized_for command actor resp item \<longleftrightarrow>
     step_role item = Some (resp_role_id resp) \<and> wi_assignee item = Some actor
     \<and> wi_acting_assignment_id item = Some (cc_acting_assignment_id (command_context command))"

lemma authorize_command_ok:
  assumes "authorize_command h w actor command = Inr ()"
  shows "\<exists>resp item. responsibility h (workflow_policy w) actor
        (cc_acting_assignment_id (command_context command)) (evaluated_at h w) = Some resp
     \<and> item_of w (command_task_id command) = Inr item
     \<and> allows resp (required_action command) \<and> authorized_for command actor resp item"
proof -
  from assms obtain resp item where *: "responsibility h (workflow_policy w) actor
        (cc_acting_assignment_id (command_context command)) (evaluated_at h w) = Some resp"
    "item_of w (command_task_id command) = Inr item"
    by (auto simp: authorize_command_def Let_def and_then_ok ok_or_ok)
  note assigned = authorize_assigned_ok [OF _ *(1)]
  have "allows resp (required_action command) \<and> authorized_for command actor resp item"
    using assms * assigned
    by (cases command) (auto simp: authorize_command_def Let_def and_then_ok if_err_ok)
  with * show ?thesis by blast
qed

text \<open>
  (C2) No command succeeds without authority at the command's own instant: the responsibility it
  names is effective then, belongs to the actor and allows the command's action. A command other than
  a claim and an assignment also needs the role of the step, and the responsibility must be the one
  recorded on the task, whose assignee is the actor; a claim, which takes a task, needs the role of
  the step only; an assignment, which gives a task away, needs only that the assignee is somebody
  else. The task is at the revision the command expects, and a held task accepts nothing but a resume
  or a reassignment.
\<close>

theorem workflow_command_authority:
  assumes "workflow_apply h actor command now w = (w', Inr r)"
  shows "\<exists>at resp item. parse_instant h now = Inr at
     \<and> responsibility h (workflow_policy w) actor
         (cc_acting_assignment_id (command_context command)) at = Some resp
     \<and> allows resp (required_action command)
     \<and> item_of w (command_task_id command) = Inr item
     \<and> authorized_for command actor resp item
     \<and> wi_revision item = cc_expected_revision (command_context command)
     \<and> (wi_state item = Held \<longrightarrow> resumes_or_assigns command)"
proof -
  from assms have "apply_copy h actor command now w = Inr (w', r)" by (simp add: workflow_apply_ok)
  then show ?thesis
  proof (rule apply_copy_ok)
    fix at item
    assume "parse_instant h now = Inr at" "authorize_command h (at_instant at w) actor command = Inr ()"
      "item_of w (command_task_id command) = Inr item"
      "wi_revision item = cc_expected_revision (command_context command)"
      "wi_state item = Held \<longrightarrow> resumes_or_assigns command"
    then show ?thesis using authorize_command_ok [of h "at_instant at w" actor command] by auto
  qed
qed

subsection \<open>Submission\<close>

definition pinned_from :: "Workflow \<Rightarrow> ArtifactSelection \<Rightarrow> PinnedArtifact \<Rightarrow> bool" where
  "pinned_from w sel p \<longleftrightarrow> (\<exists>a\<in>set (wf_artifacts w).
     art_id a = as_artifact_id sel \<and> art_revision a = as_revision sel
     \<and> art_attempt_id a = wi_attempt_id (wf_source w) \<and> art_task_id a = wi_id (wf_source w)
     \<and> p = \<lparr>pin_artifact_id = art_id a, pin_revision = art_revision a, pin_schema_id = art_schema_id a,
            pin_value = art_value a, pin_file = art_file a\<rparr>
     \<and> (art_value a \<noteq> None \<or> (\<exists>f g. art_file a = Some f \<and> wfile_generation f = Some g
           \<and> generation_verified w (fg_id g))))"

lemma artifact_ok:
  assumes "artifact h w actor i = Inr a"
  shows "a \<in> set (wf_artifacts w)" "art_id a = i"
    "\<exists>item. item_of w (art_task_id a) = Inr item \<and> can_read h w actor item \<and> art_attempt_id a = wi_attempt_id item"
  using assms by (auto simp: artifact_def and_then_ok ok_or_ok map_err_ok if_err_ok dest: find_Some_in)

lemma pin_artifact_ok:
  assumes "pin_artifact h w actor sel = Inr p"
  shows "pinned_from w sel p"
proof -
  from assms obtain a where a: "artifact h w actor (as_artifact_id sel) = Inr a"
    by (auto simp: pin_artifact_def and_then_ok)
  show ?thesis unfolding pinned_from_def
    by (rule bexI [of _ a], use assms a artifact_ok(1,2) [OF a] in
        \<open>auto simp: pin_artifact_def and_then_ok if_err_ok ok_or_ok bind_eq_Some_conv split: if_splits\<close>)
qed

lemma pin_artifacts_ok:
  "pin_artifacts h w actor seen sels = Inr ps \<Longrightarrow>
     list_all2 (pinned_from w) sels ps \<and> distinct (map as_artifact_id sels)
     \<and> set (map as_artifact_id sels) \<inter> set seen = {}"
proof (induction sels arbitrary: seen ps)
  case (Cons sel sels)
  from Cons.prems obtain p qs where "as_artifact_id sel \<notin> set seen" "pin_artifact h w actor sel = Inr p"
    "pin_artifacts h w actor (as_artifact_id sel # seen) sels = Inr qs" "ps = p # qs"
    by (auto simp: and_then_ok split: if_splits)
  with Cons.IH [OF this(3)] show ?case by (auto dest: pin_artifact_ok)
qed simp

lemma generation_verified_authority:
  "generation_verified (at_instant at w) i = generation_verified w i"
  by (simp add: generation_verified_def)

lemma pinned_from_authority: "pinned_from (at_instant at w) = pinned_from w"
  by (intro ext) (simp add: pinned_from_def generation_verified_authority)

lemma close_finished_fields [simp]:
  "wf_snapshots (close_finished_assignments now w) = wf_snapshots w"
  "wf_source (close_finished_assignments now w) = wf_source w"
  "wf_next (close_finished_assignments now w) = wf_next w"
  "wf_artifacts (close_finished_assignments now w) = wf_artifacts w"
  by (simp_all add: close_finished_assignments_def)

text \<open>After the command itself, \<open>apply\<close> touches only periods, executions and the revision.\<close>

lemma apply_effect:
  assumes "workflow_apply h actor command now w = (w', Inr r)"
  obtains at w1 where "parse_instant h now = Inr at"
    "apply_validated h actor command now (at_instant at w) = Inr (w1, r)"
    "validate_integrity h (at_instant at w) = Inr ()"
    "authorize_command h (at_instant at w) actor command = Inr ()"
    "wf_snapshots w' = wf_snapshots w1" "wf_source w' = wf_source w1" "wf_next w' = wf_next w1"
    "wf_artifacts w' = wf_artifacts w1"
proof -
  from assms have "apply_copy h actor command now w = Inr (w', r)" by (simp add: workflow_apply_ok)
  then show ?thesis
  proof (rule apply_copy_ok)
    fix at item w1 w2 w3
    assume *: "parse_instant h now = Inr at" "validate_integrity h (at_instant at w) = Inr ()"
      "authorize_command h (at_instant at w) actor command = Inr ()"
      "apply_validated h actor command now (at_instant at w) = Inr (w1, r)"
      and w2: "w2 = (close_finished_assignments now w1)\<lparr>wf_revision := wf_revision w1 + 1\<rparr>"
      and w3: "invalidate_agent_contexts now w2 = Inr w3" and w': "w' = w3\<lparr>wf_authority := wf_authority w\<rparr>"
    from w3 obtain es where "w3 = w2\<lparr>wf_agent_executions := es\<rparr>"
      by (auto simp: invalidate_agent_contexts_def and_then_ok)
    with that [of at w1] * w2 w' show ?thesis by simp
  qed
qed

text \<open>
  A submission freezes exactly what was selected: the new snapshot pins, in the order given
  and without repetition, the artifacts of the submitting attempt at the revisions the submitter
  named, each with text or with a file whose bytes were verified; the source task is completed and
  the receiving task is ready, unassigned and bound to that snapshot; no draft changes.
\<close>

theorem submit_pins_selection:
  assumes "workflow_apply h actor (Submit t c sels attempt ev fs ds) now w = (w', Inr r)"
  shows "\<exists>s n. wf_snapshots w' = wf_snapshots w @ [s]
     \<and> list_all2 (pinned_from w) sels (snap_artifacts s) \<and> distinct (map as_artifact_id sels) \<and> sels \<noteq> []
     \<and> snap_source_attempt_id s = wi_attempt_id (wf_source w) \<and> snap_submitted_by s = principal_id actor
     \<and> wi_state (wf_source w) = Active \<and> wi_state (wf_source w') = Completed
     \<and> wi_handoff_snapshot_id (wf_source w') = Some (snap_id s)
     \<and> wf_next w' = Some n \<and> wi_state n = Ready \<and> wi_assignee n = None
     \<and> wi_id n = snap_target_task_id s \<and> wi_handoff_snapshot_id n = Some (snap_id s)
     \<and> wf_artifacts w' = wf_artifacts w"
proof (rule apply_effect [OF assms])
  fix at w1
  assume "apply_validated h actor (Submit t c sels attempt ev fs ds) now (at_instant at w) = Inr (w1, r)"
    and eff: "wf_snapshots w' = wf_snapshots w1" "wf_source w' = wf_source w1" "wf_next w' = wf_next w1"
      "wf_artifacts w' = wf_artifacts w1"
  then have "apply_submit h actor c t sels attempt ev fs ds now (at_instant at w) = Inr (w1, r)" by simp
  from apply_submit_ok [OF this] show ?thesis
  proof (elim exE conjE)
    fix pl s n pinned
    assume pins: "pin_artifacts h (at_instant at w) actor [] sels = Inr pinned"
      and s: "s = submission h (at_instant at w) actor c pl ev fs ds
        (int (length (wf_snapshots (at_instant at w))) + 1) now pinned"
      and n: "n = (case wf_next (at_instant at w) of
          None \<Rightarrow> next_attempt (at_instant at w) pl s 1 0 (cf_next_attempt_id pl) now
        | Some previous \<Rightarrow> next_attempt (at_instant at w) pl s (wi_attempt_number previous + 1)
            (wi_revision previous + 1) (now_v7 h 1) now)"
      and "wi_state (wf_source (at_instant at w)) = Active" "sels \<noteq> []"
      and "w1 = (at_instant at w)\<lparr>wf_source := (bumped (close_item now (wf_source (at_instant at w))))
                               \<lparr>wi_handoff_snapshot_id := Some (snap_id s)\<rparr>,
              wf_completed_attempts := wf_completed_attempts (at_instant at w)
                @ (case wf_next (at_instant at w) of None \<Rightarrow> [] | Some previous \<Rightarrow> [previous]),
              wf_next := Some n, wf_snapshots := wf_snapshots (at_instant at w) @ [s],
              wf_history := wf_history (at_instant at w) @ [history_entry ''submitted'' now]\<rparr>"
    then show ?thesis using eff pin_artifacts_ok [OF pins]
      by (intro exI [of _ s] exI [of _ n])
        (simp add: pinned_from_authority submission_def next_attempt_def close_item_def split: option.splits)
  qed
qed

end
