(* ===== verification/Workflow_Agents.thy ===== *)
theory Workflow_Agents
  imports Workflow_Safety
begin

text \<open>
  Guarantees of the agent operations and of disclosure: executions are tied to the state they
  were requested in, their results are confined to private candidate records, and private work is
  shown only to the task's assignee under an effective responsibility.
\<close>

subsection \<open>Executions follow the state of their task\<close>

lemma fail_context_inactive [simp]: "\<not> is_active (ax_status (fail_context now e))"
  by (simp add: fail_context_def is_active_def)

lemma stale_execution_frame [simp]:
  "stale_execution (w\<lparr>wf_agent_executions := es\<rparr>) = stale_execution w"
  "stale_execution (w\<lparr>wf_authority := a\<rparr>) = stale_execution w"
  by (auto simp: stale_execution_def [abs_def])

lemma integrity_one_active:
  assumes "validate_integrity h w = Inr ()"
  shows "distinct (map ax_work_item_id (filter (\<lambda>e. is_active (ax_status e)) (wf_agent_executions w)))"
  using assms by (auto simp: validate_integrity_def validate_agent_integrity_def and_then_ok if_err_ok split: if_splits)

lemma not_stale:
  assumes "\<not> stale_execution w e" and "is_active (ax_status e)"
  shows "ax_effective_context_revision e = wf_revision w \<and> (\<exists>item. item_of w (ax_work_item_id e) = Inr item
    \<and> wi_state item = Active \<and> wi_attempt_id item = ax_attempt_id e \<and> wi_revision item = ax_task_revision e)"
  using assms by (auto simp: stale_execution_def split: sum.splits)

lemma apply_no_stale:
  assumes "workflow_apply h actor command now w = (w', Inr r)" and "e \<in> set (wf_agent_executions w')"
  shows "\<not> stale_execution w' e"
proof -
  from assms(1) have "apply_copy h actor command now w = Inr (w', r)" by (simp add: workflow_apply_ok)
  then show ?thesis
  proof (rule apply_copy_ok)
    fix w2 w3
    assume w3: "invalidate_agent_contexts now w2 = Inr w3" and int: "validate_integrity h w3 = Inr ()"
      and w': "w' = w3\<lparr>wf_authority := wf_authority w\<rparr>"
    have "distinct (map ax_id (wf_agent_executions w2))"
      using invalidate_distinct [OF w3] validate_integrity_distinct_executions [OF int] by simp
    from invalidate_ok [OF w3 this] assms(2) show ?thesis
      by (auto simp: w') (auto simp: stale_execution_def fail_context_def is_active_def)
  qed
qed

text \<open>
  After every successful command each execution that is still active belongs to an active task,
  to its current attempt and at its current revision, under the workflow's current revision, and no
  task has two of them: whatever else changed, the command ended the execution.
\<close>

theorem agent_executions_current:
  assumes "workflow_apply h actor command now w = (w', Inr r)"
  shows "distinct (map ax_work_item_id (filter (\<lambda>e. is_active (ax_status e)) (wf_agent_executions w')))
    \<and> (\<forall>e\<in>set (wf_agent_executions w'). is_active (ax_status e) \<longrightarrow>
         ax_effective_context_revision e = wf_revision w'
         \<and> (\<exists>item. item_of w' (ax_work_item_id e) = Inr item \<and> wi_state item = Active
             \<and> wi_attempt_id item = ax_attempt_id e \<and> wi_revision item = ax_task_revision e))"
proof -
  have "validate_integrity h w' = Inr ()" using apply_kept [OF assms] by simp
  with apply_no_stale [OF assms] not_stale show ?thesis by (simp add: integrity_one_active)
qed

lemma fail_agent_execution_ok:
  assumes "distinct (map ax_id (wf_agent_executions w))" and "e \<in> set (wf_agent_executions w)"
    and "ax_requested_by e = actor" and "is_active (ax_status e)"
    and "fail_agent_execution actor (ax_id e) code now w = (w', Inr x)"
  shows "w' = w\<lparr>wf_agent_executions := map (\<lambda>y. if ax_id y = ax_id e then failed_as code now y else y)
     (wf_agent_executions w), wf_revision := wf_revision w + 1\<rparr>"
proof -
  have f: "find (\<lambda>y. ax_id y = ax_id e \<and> ax_requested_by y = actor) (wf_agent_executions w) = Some e"
  proof (cases "find (\<lambda>y. ax_id y = ax_id e \<and> ax_requested_by y = actor) (wf_agent_executions w)")
    case None
    with assms(2,3) show ?thesis by (auto simp: find_None_iff)
  next
    case (Some y)
    with find_Some_in [OF Some] same_execution [OF assms(1) _ assms(2), of y] show ?thesis by simp
  qed
  from assms(4,5) f update_first_distinct [OF assms(1) f] show ?thesis
    by (auto simp: fail_agent_execution_def Let_def failed_as_def [abs_def] checked_add_i64_Some split: option.splits)
qed

definition interrupted_in :: "uuid list \<Rightarrow> ustr \<Rightarrow> Workflow \<Rightarrow> Workflow" where
  "interrupted_in is now w = w\<lparr>wf_agent_executions :=
     map (\<lambda>e. if ax_id e \<in> set is then failed_as Interrupted now e else e) (wf_agent_executions w),
     wf_revision := wf_revision w + int (length is)\<rparr>"

lemma fail_each_ok:
  assumes "fail_each actor Interrupted now is w = (w', Inr ())"
    and "distinct (map ax_id (wf_agent_executions w))" and "distinct is"
    and "\<forall>i\<in>set is. \<exists>e\<in>set (wf_agent_executions w). ax_id e = i \<and> ax_requested_by e = actor \<and> is_active (ax_status e)"
  shows "w' = interrupted_in is now w"
  using assms
proof (induction "is" arbitrary: w)
  case (Cons i "is")
  from Cons.prems(4) obtain e where e: "e \<in> set (wf_agent_executions w)" "ax_id e = i"
    "ax_requested_by e = actor" "is_active (ax_status e)" by auto
  from Cons.prems(1) obtain w1 x where w1: "fail_agent_execution actor i Interrupted now w = (w1, Inr x)"
    and rest: "fail_each actor Interrupted now is w1 = (w', Inr ())"
    by (cases "fail_agent_execution actor i Interrupted now w") (auto split: sum.splits)
  note w1' = fail_agent_execution_ok [OF Cons.prems(2) e(1,3,4), of Interrupted now w1 x, unfolded e(2), OF w1]
  have ids: "map ax_id (wf_agent_executions w1) = map ax_id (wf_agent_executions w)" by (simp add: w1')
  have "\<exists>y\<in>set (wf_agent_executions w1). ax_id y = j \<and> ax_requested_by y = actor \<and> is_active (ax_status y)"
    if "j \<in> set is" for j
    using Cons.prems(3,4) that by (force simp: w1')
  with Cons.IH [OF rest] Cons.prems(2,3) ids have "w' = interrupted_in is now w1" by simp
  then show ?case using Cons.prems(3)
    by (auto simp: interrupted_in_def w1')
qed (simp add: interrupted_in_def)

text \<open>
  Interrupting an actor's executions ends all of them and only them: afterwards none requested
  by the actor is active, executions of others are untouched, and the reported number is the number
  that was ended.
\<close>

theorem interrupt_ends_own_executions:
  assumes "validate_integrity h w = Inr ()" and "interrupt_agent_executions actor now w = (w', Inr n)"
  shows "n = length (filter (\<lambda>e. ax_requested_by e = actor \<and> is_active (ax_status e)) (wf_agent_executions w))
    \<and> wf_agent_executions w' = map (\<lambda>e. if ax_requested_by e = actor \<and> is_active (ax_status e)
        then failed_as Interrupted now e else e) (wf_agent_executions w)
    \<and> (\<forall>e\<in>set (wf_agent_executions w'). ax_requested_by e = actor \<longrightarrow> \<not> is_active (ax_status e))"
proof -
  let ?own = "\<lambda>e. ax_requested_by e = actor \<and> is_active (ax_status e)"
  let ?ids = "map ax_id (filter ?own (wf_agent_executions w))"
  note dist = validate_integrity_distinct_executions [OF assms(1)]
  from assms(2) have each: "fail_each actor Interrupted now ?ids w = (w', Inr ())" and n: "n = length ?ids"
    by (auto simp: interrupt_agent_executions_def Let_def split: prod.splits sum.splits)
  have w': "w' = interrupted_in ?ids now w"
    using dist by (intro fail_each_ok [OF each]) (auto intro: distinct_map_filter)
  have own: "ax_id e \<in> set ?ids \<longleftrightarrow> ?own e" if "e \<in> set (wf_agent_executions w)" for e
  proof
    assume "ax_id e \<in> set ?ids"
    then obtain x where "x \<in> set (wf_agent_executions w)" "?own x" "ax_id x = ax_id e" by auto
    with same_execution [OF dist that, of x] show "?own e" by simp
  qed (use that in simp)
  have "wf_agent_executions w' = map (\<lambda>e. if ax_id e \<in> set ?ids then failed_as Interrupted now e else e)
      (wf_agent_executions w)" by (simp add: w' interrupted_in_def)
  also have "\<dots> = map (\<lambda>e. if ?own e then failed_as Interrupted now e else e) (wf_agent_executions w)"
    by (rule map_cong [OF refl]) (simp only: own)
  finally have es: "wf_agent_executions w' = \<dots>" .
  have "\<not> is_active (ax_status e)" if "e \<in> set (wf_agent_executions w')" "ax_requested_by e = actor" for e
  proof -
    from that(1) obtain x where "e = (if ?own x then failed_as Interrupted now x else x)"
      unfolding es by (auto simp only: set_map image_iff)
    with that(2) show ?thesis by (cases "?own x") simp_all
  qed
  then have "\<forall>e\<in>set (wf_agent_executions w'). ax_requested_by e = actor \<longrightarrow> \<not> is_active (ax_status e)" by blast
  then show ?thesis by (intro conjI es) (simp add: n)
qed

subsection \<open>Results are confined\<close>

lemma set_item_frame [simp]:
  "wf_artifacts (set_item t item w) = wf_artifacts w" "wf_evidence (set_item t item w) = wf_evidence w"
  "wf_decisions (set_item t item w) = wf_decisions w" "wf_snapshots (set_item t item w) = wf_snapshots w"
  "wf_assignments (set_item t item w) = wf_assignments w" "wf_history (set_item t item w) = wf_history w"
  "wf_completed_attempts (set_item t item w) = wf_completed_attempts w"
  "wf_return_instructions (set_item t item w) = wf_return_instructions w"
  by (simp_all add: set_item_def)

lemma find_update_first_const:
  "find p xs = Some x \<Longrightarrow> p y \<Longrightarrow> y \<in> set (update_first p (\<lambda>_. y) xs)"
  by (induction xs) (auto split: if_splits)

text \<open>
  (C9) An agent's result stays what it is, a set of candidates: finishing an execution succeeds only
  for the dispatched context that is still the current one and for an output that passed validation,
  marks exactly that execution as succeeded, and appends findings, generated artifacts and suggested
  actions that carry its identifier. Drafts, evidence, decisions, snapshots, responsibility periods,
  archived attempts, return instructions, the history and the states of the tasks are unchanged.
\<close>

theorem agent_finish_confined:
  assumes "finish_agent_execution h ctx out now w = (w', Inr e)"
  shows "build_agent_context h w (ax_requested_by (adc_execution ctx)) (ax_id (adc_execution ctx)) = Inr ctx
    \<and> validate_output ctx out = Inr ()
    \<and> e \<in> set (wf_agent_executions w') \<and> ax_id e = ax_id (adc_execution ctx) \<and> ax_status e = Succeeded
    \<and> (\<exists>fs gs ss. wf_findings w' = wf_findings w @ fs
        \<and> wf_generated_artifacts w' = wf_generated_artifacts w @ gs
        \<and> wf_suggested_actions w' = wf_suggested_actions w @ ss \<and> added_by (ax_id e) fs gs ss)
    \<and> wf_artifacts w' = wf_artifacts w \<and> wf_evidence w' = wf_evidence w
    \<and> wf_decisions w' = wf_decisions w \<and> wf_snapshots w' = wf_snapshots w
    \<and> wf_assignments w' = wf_assignments w \<and> wf_completed_attempts w' = wf_completed_attempts w
    \<and> wf_return_instructions w' = wf_return_instructions w \<and> wf_history w' = wf_history w
    \<and> states_of w' = states_of w"
proof -
  from assms have "finish_agent_copy h ctx out now w = Inr (w', e)"
    by (simp add: finish_agent_execution_def commit_ok)
  then show ?thesis
  proof (rule finish_shape)
    fix item x fs gs ss result n
    let ?t = "ax_work_item_id (adc_execution ctx)"
    assume *: "build_agent_context h w (ax_requested_by (adc_execution ctx)) (ax_id (adc_execution ctx)) = Inr ctx"
        "validate_output ctx out = Inr ()" "added_by (ax_id (adc_execution ctx)) fs gs ss"
      and item: "cur_item ?t w = Some item"
      and x: "find (\<lambda>x. ax_id x = ax_id (adc_execution ctx)) (wf_agent_executions w) = Some x"
      and e: "e = finished_as now result n x" "ax_id e = ax_id (adc_execution ctx)"
      and w': "w' = recorded ?t item fs gs ss e w"
    have "e \<in> set (wf_agent_executions w')"
      using find_update_first_const [OF x, of e] e(2) by (simp add: w' recorded_def)
    moreover have "ax_status e = Succeeded" by (simp add: e(1) finished_as_def)
    moreover have "states_of w' = states_of w"
      using states_of_set_item(1) [OF item, of "bumped item"] by (simp add: w' recorded_def states_of_def)
    ultimately show ?thesis using * e(2) by (simp add: w' recorded_def)
  qed
qed

text \<open>
  Failing an execution is total and monotone except at the end of the revision range: it reports
  \<open>WorkItemNotFound\<close> and changes nothing when the actor has no such execution, returns a finished
  execution unchanged, and otherwise ends it. With the workflow revision at its maximum the execution
  is ended in the aggregate although the call reports \<open>IntegrityViolation\<close>.
\<close>

theorem fail_execution_exact:
  "fail_agent_execution actor i code now w =
     (case find (\<lambda>e. ax_id e = i \<and> ax_requested_by e = actor) (wf_agent_executions w) of
        None \<Rightarrow> (w, Inl WorkItemNotFound)
      | Some e \<Rightarrow>
          if \<not> is_active (ax_status e) then (w, Inr e)
          else let es = update_first (\<lambda>e. ax_id e = i \<and> ax_requested_by e = actor) (failed_as code now)
                 (wf_agent_executions w)
               in if i64_min \<le> wf_revision w + 1 \<and> wf_revision w < i64_max
                  then (w\<lparr>wf_agent_executions := es, wf_revision := wf_revision w + 1\<rparr>, Inr (failed_as code now e))
                  else (w\<lparr>wf_agent_executions := es\<rparr>, Inl IntegrityViolation))"
  by (auto simp: fail_agent_execution_def Let_def failed_as_def [abs_def] checked_add_i64_def split: option.splits)

subsection \<open>Drafts\<close>

lemma other_artifacts_same: "art_attempt_id a = attempt \<Longrightarrow> other_artifacts attempt (as @ [a]) = other_artifacts attempt as"
  by (simp add: other_artifacts_def)

lemma apply_validated_drafts:
  assumes ok: "apply_validated h actor command now w = Inr (w', r)"
    and auth: "authorize_command h w actor command = Inr ()"
  shows "other_artifacts (wi_attempt_id (wf_source w)) (wf_artifacts w')
    = other_artifacts (wi_attempt_id (wf_source w)) (wf_artifacts w)"
proof (cases command)
  case (SaveDraft t i c v)
  with ok have "apply_save_draft h actor t i v w = Inr (w', r)" by simp
  from apply_save_draft_ok [OF this] obtain as where t: "t = wi_id (wf_source w)"
    and eq: "w' = w\<lparr>wf_artifacts := as, wf_source := bumped (wf_source w)\<rparr>"
    and as: "case i of None \<Rightarrow> \<exists>a. as = wf_artifacts w @ [a] \<and> art_attempt_id a = wi_attempt_id (wf_source w)
        | Some j \<Rightarrow> \<exists>a a'. find (\<lambda>a. art_id a = j) (wf_artifacts w) = Some a
            \<and> art_attempt_id a' = art_attempt_id a \<and> as = update_first (\<lambda>a. art_id a = j) (\<lambda>_. a') (wf_artifacts w)"
    by blast
  have w': "wf_artifacts w' = as" by (simp add: eq)
  show ?thesis
  proof (cases i)
    case None
    with as w' show ?thesis by (auto simp: other_artifacts_same)
  next
    case (Some j)
    with as obtain a a' where a: "find (\<lambda>a. art_id a = j) (wf_artifacts w) = Some a"
      "art_attempt_id a' = art_attempt_id a" "as = update_first (\<lambda>a. art_id a = j) (\<lambda>_. a') (wf_artifacts w)"
      by auto
    from auth SaveDraft Some obtain b where b: "artifact h w actor j = Inr b" "art_task_id b = t"
      by (auto simp: authorize_command_def Let_def and_then_ok ok_or_ok if_err_ok t item_of_def)
    have "b = a" using b(1) a(1) by (auto simp: artifact_def and_then_ok ok_or_ok map_err_ok if_err_ok)
    with artifact_ok(3) [OF b(1)] b(2) t have "art_attempt_id a = wi_attempt_id (wf_source w)"
      by (auto simp: item_of_def)
    with a w' show ?thesis by (auto intro!: other_artifacts_update)
  qed
next
  case (Submit t c sel attempt ev fs ds)
  with ok apply_submit_ok [of h actor c t sel attempt ev fs ds now w w' r] show ?thesis by auto
next
  case (Return t c attempt previous target transition reason)
  with ok apply_return_ok [of h actor c t attempt previous target transition reason now w w' r] show ?thesis by auto
next
  case (Complete t c attempt action_id)
  with ok apply_complete_ok [of h actor t attempt action_id now w w' r] show ?thesis by auto
qed (use ok in \<open>auto dest!: apply_evidence_ok apply_files_ok apply_agent_ok apply_pause_ok apply_claim_ok apply_assign_ok\<close>)

text \<open>
  A command can change drafts only in the attempt that is being worked on: the drafts of every
  other attempt, those of returned and superseded work, are the same before and after it.
\<close>

theorem drafts_of_other_attempts_kept:
  assumes "workflow_apply h actor command now w = (w', Inr r)"
  shows "filter (\<lambda>a. art_attempt_id a \<noteq> wi_attempt_id (wf_source w)) (wf_artifacts w')
    = filter (\<lambda>a. art_attempt_id a \<noteq> wi_attempt_id (wf_source w)) (wf_artifacts w)"
proof (rule apply_effect [OF assms])
  fix at w1
  assume "apply_validated h actor command now (at_instant at w) = Inr (w1, r)"
    "authorize_command h (at_instant at w) actor command = Inr ()" "wf_artifacts w' = wf_artifacts w1"
  then show ?thesis using apply_validated_drafts [of h actor command now "at_instant at w" w1 r]
    by (simp add: other_artifacts_def)
qed

end
