(* ===== verification/Workflow_Disclosure.thy ===== *)
theory Workflow_Disclosure
  imports Workflow_Agents
begin

text \<open>
  What the aggregate shows and to whom, what a submission carries with it, and that every
  fixed plan seeds a sound workflow.
\<close>

subsection \<open>Private work\<close>

definition current_reader :: "host \<Rightarrow> Workflow \<Rightarrow> VerifiedActor \<Rightarrow> uuid \<Rightarrow> uuid \<Rightarrow> bool" where
  "current_reader h w actor t attempt \<longleftrightarrow>
     (\<exists>item i v. item_of w t = Inr item \<and> wi_attempt_id item = attempt \<and> wi_assignee item = Some actor
        \<and> wi_acting_assignment_id item = Some i
        \<and> responsibility h (workflow_policy w) actor i (evaluated_at h w) = Some v
        \<and> step_role item = Some (resp_role_id v) \<and> allows v WorkRead)"

lemma current_readerI:
  "item_of w t = Inr item \<Longrightarrow> can_read h w actor item \<Longrightarrow> current_reader h w actor t (wi_attempt_id item)"
  by (auto simp: current_reader_def can_read_def can_act_iff step_responsibility_Some)

lemma agent_execution_reader:
  assumes "agent_execution h w actor i = Inr e"
  shows "ax_requested_by e = actor \<and> current_reader h w actor (ax_work_item_id e) (ax_attempt_id e)"
  using agent_execution_ok [OF assms] current_readerI by metis

lemma candidate_execution_ok:
  "candidate_execution h w actor i = Inr e \<Longrightarrow> agent_execution h w actor i = Inr e \<and> ax_status e = Succeeded"
  by (auto simp: candidate_execution_def and_then_ok if_err_ok)

text \<open>
  (C8) Work in progress is private. A draft, whether fetched by identifier or listed in a task's
  detail, an agent execution, its result and its generated artifacts are disclosed only to the
  principal who is the task's assignee right now, on the current attempt, acting under the recorded
  responsibility, which is effective at the instant of evaluation, has the role of the step and
  allows reading. Executions and their products are shown only to their requester.
\<close>

theorem private_work_disclosure:
  "(artifact h w actor i = Inr a \<longrightarrow> current_reader h w actor (art_task_id a) (art_attempt_id a))
   \<and> (detail h w actor t = Inr d \<longrightarrow> (\<exists>attempt. current_reader h w actor t attempt
        \<and> (\<forall>b\<in>set (td_working_artifacts d). art_attempt_id b = attempt)))
   \<and> (agent_execution h w actor i = Inr e \<longrightarrow> ax_requested_by e = actor
        \<and> current_reader h w actor (ax_work_item_id e) (ax_attempt_id e))
   \<and> (generated_artifact h w actor i = Inr g \<longrightarrow> (\<exists>x\<in>set (wf_agent_executions w).
        ax_id x = ga_execution_id g \<and> ax_requested_by x = actor \<and> ax_status x = Succeeded
        \<and> current_reader h w actor (ax_work_item_id x) (ax_attempt_id x)))"
proof (intro conjI impI)
  assume "artifact h w actor i = Inr a"
  from artifact_ok(3) [OF this] show "current_reader h w actor (art_task_id a) (art_attempt_id a)"
    by (auto dest: current_readerI)
next
  assume "detail h w actor t = Inr d"
  then obtain item where "item_of w t = Inr item" "can_read h w actor item"
    "td_working_artifacts d = filter (\<lambda>a. art_attempt_id a = wi_attempt_id item) (wf_artifacts w)"
    by (auto simp: detail_def and_then_ok if_err_ok)
  then show "\<exists>attempt. current_reader h w actor t attempt
        \<and> (\<forall>b\<in>set (td_working_artifacts d). art_attempt_id b = attempt)"
    by (auto intro: current_readerI)
next
  assume "generated_artifact h w actor i = Inr g"
  then obtain x where "candidate_execution h w actor (ga_execution_id g) = Inr x"
    by (auto simp: generated_artifact_def and_then_ok)
  from candidate_execution_ok [OF this] agent_execution_ok agent_execution_reader
  show "\<exists>x\<in>set (wf_agent_executions w). ax_id x = ga_execution_id g \<and> ax_requested_by x = actor
      \<and> ax_status x = Succeeded \<and> current_reader h w actor (ax_work_item_id x) (ax_attempt_id x)"
    by (metis (no_types, lifting))
qed (auto dest: agent_execution_reader)

subsection \<open>A submission carries its grounds\<close>

lemma finding_found: "finding h w actor i = Inr f \<Longrightarrow> f \<in> set (wf_findings w) \<and> fd_id f = i"
  by (auto simp: finding_def and_then_ok ok_or_ok if_err_ok dest: find_Some_in)

lemma decision_found: "decision h w actor i = Inr d \<Longrightarrow> d \<in> set (wf_decisions w) \<and> hd_id d = i"
  by (auto simp: decision_def and_then_ok ok_or_ok if_err_ok dest: find_Some_in)

lemma evidence_found: "evidence_record h w actor i = Inr e \<Longrightarrow> e \<in> set (wf_evidence w) \<and> ev_id e = i"
  by (auto simp: evidence_record_def and_then_ok ok_or_ok if_err_ok dest: find_Some_in)

definition self_contained ::
  "Workflow \<Rightarrow> RevisionRef list \<Rightarrow> RevisionRef list \<Rightarrow> RevisionRef list \<Rightarrow> bool" where
  "self_contained w ev fs ds \<longleftrightarrow>
     (\<forall>r\<in>set ev. \<exists>e\<in>set (wf_evidence w). revision_ref (ev_id e) (ev_revision e) = r)
     \<and> (\<forall>r\<in>set fs. \<exists>f\<in>set (wf_findings w). revision_ref (fd_id f) (fd_revision f) = r
          \<and> set (fd_evidence_revision_refs f) \<subseteq> set ev)
     \<and> (\<forall>r\<in>set ds. \<exists>d\<in>set (wf_decisions w). revision_ref (hd_id d) (hd_revision d) = r
          \<and> revision_ref (hd_finding_id d) (hd_finding_revision d) \<in> set fs
          \<and> set (hd_evidence_revision_refs d) \<subseteq> set ev)"

lemma validate_selection_closed:
  assumes "validate_selection h w actor t ev fs ds = Inr ()"
  shows "self_contained w ev fs ds"
proof -
  from assms have ev: "\<exists>vs. resolve_evidence h w actor ev = Inr vs"
    and fs: "\<forall>r\<in>set fs. \<exists>f. finding h w actor (rr_id r) = Inr f \<and> fd_revision f = rr_revision r
       \<and> \<not> list_ex (\<lambda>e. e \<notin> set ev) (fd_evidence_revision_refs f)"
    and ds: "\<forall>r\<in>set ds. \<exists>d. decision h w actor (rr_id r) = Inr d \<and> hd_revision d = rr_revision r
       \<and> revision_ref (hd_finding_id d) (hd_finding_revision d) \<in> set fs
       \<and> \<not> list_ex (\<lambda>e. e \<notin> set ev) (hd_evidence_revision_refs d)"
    by (fastforce simp: validate_selection_def and_then_ok if_err_ok each_res_ok)+
  have "\<exists>e\<in>set (wf_evidence w). revision_ref (ev_id e) (ev_revision e) = r" if "r \<in> set ev" for r
  proof -
    from ev that obtain e where "evidence_record h w actor (rr_id r) = Inr e" "ev_revision e = rr_revision r"
      by (auto simp: resolve_evidence_def and_then_ok map_res_ok if_err_ok list_all2_conv_all_nth in_set_conv_nth)
    with evidence_found [OF this(1)] show ?thesis by (intro bexI [of _ e]) simp_all
  qed
  moreover have "\<exists>f\<in>set (wf_findings w). revision_ref (fd_id f) (fd_revision f) = r
      \<and> set (fd_evidence_revision_refs f) \<subseteq> set ev" if "r \<in> set fs" for r
  proof -
    from fs that obtain f where "finding h w actor (rr_id r) = Inr f" "fd_revision f = rr_revision r"
      "\<not> list_ex (\<lambda>e. e \<notin> set ev) (fd_evidence_revision_refs f)" by blast
    with finding_found [OF this(1)] show ?thesis by (intro bexI [of _ f]) (auto simp: list_ex_iff)
  qed
  moreover have "\<exists>d\<in>set (wf_decisions w). revision_ref (hd_id d) (hd_revision d) = r
      \<and> revision_ref (hd_finding_id d) (hd_finding_revision d) \<in> set fs
      \<and> set (hd_evidence_revision_refs d) \<subseteq> set ev" if "r \<in> set ds" for r
  proof -
    from ds that obtain d where "decision h w actor (rr_id r) = Inr d" "hd_revision d = rr_revision r"
      "revision_ref (hd_finding_id d) (hd_finding_revision d) \<in> set fs"
      "\<not> list_ex (\<lambda>e. e \<notin> set ev) (hd_evidence_revision_refs d)" by blast
    with decision_found [OF this(1)] show ?thesis by (intro bexI [of _ d]) (auto simp: list_ex_iff)
  qed
  ultimately show ?thesis by (auto simp: self_contained_def)
qed

text \<open>
  A submission carries its grounds: the evidence, findings and decisions it refers to exist at
  the revisions named, every evidence a finding or decision rests on is itself part of the
  submission, and so is the finding a decision is about.
\<close>

theorem submission_self_contained:
  assumes "workflow_apply h actor (Submit t c sels attempt ev fs ds) now w = (w', Inr r)"
  shows "\<exists>s. wf_snapshots w' = wf_snapshots w @ [s]
     \<and> self_contained w (snap_evidence_revision_refs s) (snap_finding_revision_refs s) (snap_decision_revision_refs s)
     \<and> snap_evidence_revision_refs s = ev \<and> snap_finding_revision_refs s = fs
     \<and> snap_decision_revision_refs s = ds"
proof (rule apply_effect [OF assms])
  fix at w1
  assume "apply_validated h actor (Submit t c sels attempt ev fs ds) now (at_instant at w) = Inr (w1, r)"
    and eff: "wf_snapshots w' = wf_snapshots w1"
  then have ok: "apply_submit h actor c t sels attempt ev fs ds now (at_instant at w) = Inr (w1, r)" by simp
  have "self_contained (at_instant at w) ev fs ds"
    using apply_submit_ok [OF ok] validate_selection_closed by blast
  then have "self_contained w ev fs ds" by (simp add: self_contained_def)
  moreover have "\<exists>s. wf_snapshots w1 = wf_snapshots w @ [s] \<and> snap_evidence_revision_refs s = ev
      \<and> snap_finding_revision_refs s = fs \<and> snap_decision_revision_refs s = ds"
    using apply_submit_ok [OF ok] by (elim exE conjE) (simp add: submission_def)
  ultimately show ?thesis using eff by auto
qed

subsection \<open>Seeding\<close>

lemma seeded_integrity:
  assumes "context_fixture (wf_id w) = Some pl" and "wf_context_id w = cf_context_id pl"
    and "wi_id (wf_source w) = cf_source_task_id pl" and "wf_definition_version_id w \<in> set (cf_accepted_definitions pl)"
    and "wf_next w = None" and "wf_completed_attempts w = []" and "wf_assignments w = []"
    and "wf_agent_executions w = []" and "wf_findings w = []"
    and "wf_generated_artifacts w = []" and "wf_suggested_actions w = []"
    and "item_ok w (wf_source w)" and "is_none_or (\<lambda>due. is_ok (parse_instant h due)) (wi_due_at (wf_source w))"
  shows "validate_integrity h w = Inr ()"
proof -
  have "validate_agent_integrity w = Inr ()" "validate_candidate_integrity w = Inr ()"
    by (simp_all add: assms validate_agent_integrity_def validate_candidate_integrity_def)
  moreover have "all_items w = [wf_source w]" by (simp add: assms all_items_def current_items_def)
  moreover have "\<not> is_some_and (\<lambda>due. \<not> is_ok (parse_instant h due)) (wi_due_at (wf_source w))"
    using assms(13) by (auto simp: is_none_or_iff is_some_and_iff)
  moreover have "plan w = Inr pl" by (simp add: plan_def assms(1))
  moreover have "\<not> is_some_and (\<lambda>item. wi_id item \<noteq> cf_next_task_id pl \<or> wi_step_id item \<noteq> cf_next_step_id pl) (wf_next w)"
    by (simp add: assms(5))
  ultimately show ?thesis
    unfolding validate_integrity_def assms(2-4,6,7) Let_def
    by (simp only: and_then_simps list.pred_inject list_ex_iff bex_simps ball_simps list.set assms distinct.simps filter.simps
        list.map not_True_eq_False not_False_eq_True simp_thms if_False empty_iff set_simps)
qed

lemma fixture_found:
  assumes "f \<in> set CONTEXT_FIXTURES"
  shows "context_fixture (cf_workflow_id f) = Some f"
proof -
  have "list_all (\<lambda>f. context_fixture (cf_workflow_id f) = Some f) CONTEXT_FIXTURES" by code_simp
  with assms show ?thesis by (simp add: list_all_iff)
qed

lemma fixture_accepts:
  assumes "f \<in> set CONTEXT_FIXTURES"
  shows "cf_definition_version_id f \<in> set (cf_accepted_definitions f)"
    "cf_workflow_id f = WORKFLOW_ID \<longrightarrow> f = hd CONTEXT_FIXTURES"
proof -
  have "list_all (\<lambda>f. cf_definition_version_id f \<in> set (cf_accepted_definitions f)
      \<and> (cf_workflow_id f = WORKFLOW_ID \<longrightarrow> f = hd CONTEXT_FIXTURES)) CONTEXT_FIXTURES" by code_simp
  with assms show "cf_definition_version_id f \<in> set (cf_accepted_definitions f)"
    "cf_workflow_id f = WORKFLOW_ID \<longrightarrow> f = hd CONTEXT_FIXTURES"
    by (simp_all add: list_all_iff)
qed

lemma synthetic_sound: "validate_integrity h (synthetic d) = Inr ()"
proof (rule seeded_integrity [of _ "hd CONTEXT_FIXTURES"])
  show "context_fixture (wf_id (synthetic d)) = Some (hd CONTEXT_FIXTURES)"
    by (simp add: synthetic_def context_fixture_def CONTEXT_FIXTURES_def)
qed (simp_all add: synthetic_def CONTEXT_FIXTURES_def item_ok_def)

text \<open>
  Every fixed plan seeds a sound workflow: whenever the instants involved can be written,
  \<open>from_fixture\<close> succeeds, the new workflow passes the integrity check, carries the plan's identity,
  and has exactly one open task.
\<close>

theorem from_fixture_sound:
  assumes "f \<in> set CONTEXT_FIXTURES" and "rfc3339_roundtrip h" and "is_ok (format_instant h seeded_at)"
    and "\<forall>m. cf_start f = ReadyDueInMinutes m \<longrightarrow> is_ok (format_instant h (seeded_at + minutes m))"
  shows "\<exists>w. from_fixture h f d seeded_at = Inr w \<and> validate_integrity h w = Inr ()
     \<and> wf_id w = cf_workflow_id f \<and> wf_context_id w = cf_context_id f \<and> one_open (states_of w)"
proof (cases "cf_workflow_id f = WORKFLOW_ID")
  case True
  with fixture_accepts(2) [OF assms(1)] show ?thesis
    by (simp add: from_fixture_def Let_def synthetic_sound)
      (simp add: synthetic_def CONTEXT_FIXTURES_def one_open_def states_of_def)
next
  case False
  from assms(3) obtain created where created: "format_instant h seeded_at = Inr created" by (auto simp: is_ok_iff)
  have parse: "parse_instant h s = Inr t" if "format_instant h t = Inr s" for s t
    using assms(2) that by (auto simp: rfc3339_roundtrip_def format_instant_def parse_instant_def ok_or_ok)
  show ?thesis
  proof (cases "cf_start f")
    case AssignedToSales
    let ?w = "(synthetic d)\<lparr>wf_id := cf_workflow_id f, wf_context_id := cf_context_id f,
       wf_definition_version_id := cf_definition_version_id f,
       wf_source := (wf_source (synthetic d))\<lparr>wi_id := cf_source_task_id f,
              wi_workflow_instance_id := cf_workflow_id f,
              wi_attempt_id := cf_source_attempt_id f, wi_created_at := created\<rparr>\<rparr>"
    have "validate_integrity h ?w = Inr ()"
      using fixture_found [OF assms(1)] fixture_accepts(1) [OF assms(1)]
      by (intro seeded_integrity [of _ f]) (simp_all add: synthetic_def item_ok_def)
    then show ?thesis using False AssignedToSales created
      by (simp add: from_fixture_def Let_def) (simp add: synthetic_def one_open_def states_of_def)
  next
    case (ReadyDueInMinutes m)
    with assms(4) obtain due where due: "format_instant h (seeded_at + minutes m) = Inr due" by (auto simp: is_ok_iff)
    let ?w = "(synthetic d)\<lparr>wf_id := cf_workflow_id f, wf_context_id := cf_context_id f,
       wf_definition_version_id := cf_definition_version_id f,
       wf_source := (wf_source (synthetic d))\<lparr>wi_id := cf_source_task_id f,
              wi_workflow_instance_id := cf_workflow_id f,
              wi_attempt_id := cf_source_attempt_id f, wi_created_at := created,
              wi_state := Ready, wi_assignee := None, wi_acting_assignment_id := None,
              wi_work_assignment_id := None, wi_due_at := Some due\<rparr>\<rparr>"
    have "validate_integrity h ?w = Inr ()"
      using fixture_found [OF assms(1)] fixture_accepts(1) [OF assms(1)] parse [OF due]
      by (intro seeded_integrity [of _ f]) (simp_all add: synthetic_def item_ok_def)
    then show ?thesis using False ReadyDueInMinutes created due
      by (simp add: from_fixture_def Let_def) (simp add: synthetic_def one_open_def states_of_def)
  qed
qed

end
