(* ===== verification/Organization_Props.thy ===== *)
theory Organization_Props
  imports Organization
begin

text \<open>
  What the organization policy guarantees: lookups agree with the enumeration of
  responsibilities, a delegation only narrows its source, no command widens its own
  caller's authority, revocation is final, records are never deleted, no two live
  grants of the same kind overlap, and concurrent commands cannot overwrite each other.
\<close>

subsection \<open>Integrity, unfolded\<close>

lemma policy_integrity_iff:
  "policy_validate_integrity h p = Inr () \<longleftrightarrow>
     pol_id p = ORGANIZATION_POLICY_ID \<and> 0 \<le> pol_revision p
     \<and> length (pol_role_assignments p) \<le> MAX_ROLE_ASSIGNMENTS
     \<and> length (pol_delegations p) \<le> MAX_DELEGATIONS
     \<and> distinct (policy_ids p)
     \<and> (\<forall>u\<in>set (pol_units p). \<forall>i\<in>set (ou_role_ids u). find_role p i \<noteq> None)
     \<and> (\<forall>v\<in>set (pol_role_assignments p). validate_assignment h p v = Inr ())
     \<and> (\<forall>v\<in>set (pol_delegations p). validate_delegation h p v = Inr ())"
  by (auto simp: policy_validate_integrity_def result_simps list_ex_iff)

lemma integrity_delegation:
  assumes "policy_validate_integrity h p = Inr ()" and "v \<in> set (pol_delegations p)"
  shows "\<exists>from until source role.
      stored_instant h (dg_valid_from v) = Some from \<and> stored_instant h (dg_valid_until v) = Some until
      \<and> find_assignment p (dg_source_assignment_id v) = Some source
      \<and> find_role p (ra_role_id source) = Some role \<and> from < until
      \<and> ra_principal source = dg_delegator v \<and> dg_recipient v \<noteq> dg_delegator v
      \<and> (\<forall>a\<in>set (dg_actions v). delegable a \<and> a \<in> set (br_actions role))"
proof -
  have "validate_delegation h p v = Inr ()" using assms by (simp add: policy_integrity_iff)
  then show ?thesis by (auto simp: validate_delegation_def result_simps list_ex_iff)
qed

lemma integrity_distinct_ids:
  assumes "policy_validate_integrity h p = Inr ()"
  shows "distinct (map ra_id (pol_role_assignments p))" and "distinct (map dg_id (pol_delegations p))"
    and "ra_id ` set (pol_role_assignments p) \<inter> dg_id ` set (pol_delegations p) = {}"
  using assms by (auto simp: policy_integrity_iff policy_ids_def)

lemma find_assignment_in:
  "find_assignment p i = Some v \<Longrightarrow> v \<in> set (pol_role_assignments p) \<and> ra_id v = i"
  by (auto simp: find_assignment_def dest: find_Some_in)

lemma find_delegation_in:
  "find_delegation p i = Some v \<Longrightarrow> v \<in> set (pol_delegations p) \<and> dg_id v = i"
  by (auto simp: find_delegation_def dest: find_Some_in)

lemma find_role_in: "find_role p i = Some v \<Longrightarrow> v \<in> set (pol_roles p) \<and> br_id v = i"
  by (auto simp: find_role_def dest: find_Some_in)

lemma find_assignment_eq:
  "distinct (map ra_id (pol_role_assignments p)) \<Longrightarrow> v \<in> set (pol_role_assignments p)
    \<Longrightarrow> find_assignment p (ra_id v) = Some v"
  unfolding find_assignment_def by (rule find_distinct_key)

lemma find_delegation_eq:
  "distinct (map dg_id (pol_delegations p)) \<Longrightarrow> v \<in> set (pol_delegations p)
    \<Longrightarrow> find_delegation p (dg_id v) = Some v"
  unfolding find_delegation_def by (rule find_distinct_key)

lemma find_assignment_None:
  "find_assignment p i = None \<longleftrightarrow> i \<notin> ra_id ` set (pol_role_assignments p)"
  using find_is_Some [of "\<lambda>v. ra_id v = i" "pol_role_assignments p"]
  by (auto simp: find_assignment_def)

lemma assignment_responsibility_fields:
  assumes "assignment_responsibility p v = Some r"
  shows "resp_id r = ra_id v" "resp_kind r = RoleAssignmentKind" "resp_principal r = ra_principal v"
    "resp_role_id r = ra_role_id v" "resp_unit_id r = ra_unit_id v"
    "resp_source_assignment_id r = None"
    "\<exists>role. find_role p (ra_role_id v) = Some role \<and> resp_actions r = br_actions role"
  using assms
  by (auto simp: assignment_responsibility_def find_role_def find_unit_def
      split: option.splits dest: find_Some_in)

lemma delegation_responsibility_fields:
  assumes "delegation_responsibility p v = Some r"
  shows "resp_id r = dg_id v" "resp_kind r = DelegationKind" "resp_principal r = dg_recipient v"
    "resp_delegator r = Some (dg_delegator v)"
    "\<exists>source role. find_assignment p (dg_source_assignment_id v) = Some source
       \<and> find_role p (ra_role_id source) = Some role \<and> resp_role_id r = ra_role_id source
       \<and> resp_source_assignment_id r = Some (ra_id source)
       \<and> resp_actions r = filter (\<lambda>a. a \<in> set (dg_actions v)) (br_actions role)"
proof -
  from assms obtain source d where
      s: "find_assignment p (dg_source_assignment_id v) = Some source"
      "assignment_responsibility p source = Some d"
    and r: "r = d\<lparr>resp_actions := filter (\<lambda>a. a \<in> set (dg_actions v)) (resp_actions d),
      resp_id := dg_id v, resp_kind := DelegationKind, resp_principal := dg_recipient v,
      resp_valid_from := dg_valid_from v, resp_valid_until := Some (dg_valid_until v),
      resp_source_assignment_id := Some (ra_id source), resp_delegator := Some (dg_delegator v)\<rparr>"
    by (auto simp: delegation_responsibility_def split: option.splits)
  show "resp_id r = dg_id v" "resp_kind r = DelegationKind" "resp_principal r = dg_recipient v"
    "resp_delegator r = Some (dg_delegator v)" by (simp_all add: r)
  show "\<exists>source role. find_assignment p (dg_source_assignment_id v) = Some source
       \<and> find_role p (ra_role_id source) = Some role \<and> resp_role_id r = ra_role_id source
       \<and> resp_source_assignment_id r = Some (ra_id source)
       \<and> resp_actions r = filter (\<lambda>a. a \<in> set (dg_actions v)) (br_actions role)"
    using s(1) assignment_responsibility_fields(4,7) [OF s(2)] by (auto simp: r)
qed

lemma responsibilities_cases:
  assumes "r \<in> set (responsibilities h p actor at)"
  obtains (assigned) v where "v \<in> set (pol_role_assignments p)" "ra_principal v = actor"
      "assignment_effective h p v at" "assignment_responsibility p v = Some r"
    | (delegated) v where "v \<in> set (pol_delegations p)" "dg_recipient v = actor"
      "delegation_effective h p v at" "delegation_responsibility p v = Some r"
  using assms by (auto simp: responsibilities_def map_filter_simps_set)

lemma responsibilities_iff:
  "r \<in> set (responsibilities h p actor at) \<longleftrightarrow>
     (\<exists>v\<in>set (pol_role_assignments p). ra_principal v = actor \<and> assignment_effective h p v at
        \<and> assignment_responsibility p v = Some r)
     \<or> (\<exists>v\<in>set (pol_delegations p). dg_recipient v = actor \<and> delegation_effective h p v at
        \<and> delegation_responsibility p v = Some r)"
  by (auto simp: responsibilities_def map_filter_simps_set)

subsection \<open>Lookup and enumeration agree\<close>

lemma responsibility_lookup:
  assumes "policy_validate_integrity h p = Inr ()"
  shows "responsibility h p actor i at = Some r \<longleftrightarrow>
     r \<in> set (responsibilities h p actor at) \<and> resp_id r = i"
proof
  assume "responsibility h p actor i at = Some r"
  then show "r \<in> set (responsibilities h p actor at) \<and> resp_id r = i"
    by (auto simp: responsibility_def responsibilities_iff split: option.splits if_splits
        dest!: find_assignment_in find_delegation_in
        intro: assignment_responsibility_fields(1) delegation_responsibility_fields(1))
next
  note ids = integrity_distinct_ids [OF assms]
  assume "r \<in> set (responsibilities h p actor at) \<and> resp_id r = i"
  then have "r \<in> set (responsibilities h p actor at)" and i: "i = resp_id r" by auto
  then show "responsibility h p actor i at = Some r"
  proof (cases rule: responsibilities_cases)
    case (assigned v)
    then show ?thesis using i find_assignment_eq [OF ids(1), of v]
      by (simp add: responsibility_def assignment_responsibility_fields(1))
  next
    case (delegated v)
    then have "find_assignment p (dg_id v) = None" using ids(3)
      by (auto simp: find_assignment_None)
    with delegated show ?thesis using i find_delegation_eq [OF ids(2), of v]
      by (simp add: responsibility_def delegation_responsibility_fields(1))
  qed
qed

text \<open>
  In a policy that passes the integrity check, the indexed lookup
  \<open>responsibility\<close>, on which every authorization rests, finds exactly the members of the
  enumeration \<open>responsibilities\<close> that the actor is shown, with the requested identifier.
\<close>

theorem responsibility_lookup_complete:
  assumes "policy_validate_integrity h p = Inr ()"
  shows "responsibility h p actor i at = Some r \<longleftrightarrow>
     r \<in> set (responsibilities h p actor at) \<and> resp_id r = i"
  using assms by (rule responsibility_lookup)

subsection \<open>Delegation narrows\<close>

text \<open>
  A delegated responsibility comes from a formal assignment of another principal
  that is itself effective at the same instant, carries that assignment's role, and
  offers only delegable actions of that role: never \<open>OrganizationManage\<close> or \<open>WorkAssign\<close>.
\<close>

theorem delegated_responsibility_narrows:
  assumes "policy_validate_integrity h p = Inr ()"
    and "responsibility h p actor i at = Some r" and "resp_kind r = DelegationKind"
  shows "\<exists>source role. source \<in> set (pol_role_assignments p)
      \<and> resp_source_assignment_id r = Some (ra_id source)
      \<and> assignment_effective h p source at \<and> ra_principal source \<noteq> actor
      \<and> resp_delegator r = Some (ra_principal source)
      \<and> resp_role_id r = ra_role_id source \<and> find_role p (ra_role_id source) = Some role
      \<and> set (resp_actions r) \<subseteq> set (br_actions role)
      \<and> \<not> allows r OrganizationManage \<and> \<not> allows r WorkAssign"
proof -
  from assms(2,3) obtain v where v: "v \<in> set (pol_delegations p)" "dg_recipient v = actor"
      "delegation_effective h p v at" "delegation_responsibility p v = Some r"
    by (auto simp: responsibility_def split: option.splits if_splits
        dest!: find_delegation_in assignment_responsibility_fields(2))
  from integrity_delegation [OF assms(1) v(1)] obtain source role where
      s: "find_assignment p (dg_source_assignment_id v) = Some source"
      "find_role p (ra_role_id source) = Some role" "ra_principal source = dg_delegator v"
      "dg_recipient v \<noteq> dg_delegator v"
      "\<forall>a\<in>set (dg_actions v). delegable a \<and> a \<in> set (br_actions role)"
    by blast
  from v(3) s(1) have "assignment_effective h p source at"
    by (auto simp: delegation_effective_def split: option.splits)
  with v s delegation_responsibility_fields [OF v(4)] find_assignment_in [OF s(1)]
  show ?thesis by (fastforce simp: allows_def delegable_def)
qed

subsection \<open>Shape of a successful command\<close>

lemma policy_apply_copy_ok:
  "policy_apply_copy h actor command now p = Inr (p', r) \<longleftrightarrow>
     (\<exists>at. policy_validate_integrity h p = Inr ()
       \<and> get_version_num (cc_operation_id (policy_context command)) = 7
       \<and> parse_instant h now = Inr at
       \<and> policy_authorize_command h p actor command at = Inr ()
       \<and> pol_revision p = cc_expected_revision (policy_context command)
       \<and> 0 \<le> pol_revision p \<and> pol_revision p < i64_max
       \<and> policy_apply_validated h actor command at now (p\<lparr>pol_revision := pol_revision p + 1\<rparr>)
           = Inr (p', r)
       \<and> policy_validate_integrity h p' = Inr ())" (is "?L = ?R")
proof -
  have bound: "i64_min \<le> x + 1 \<and> x + 1 \<le> i64_max \<longleftrightarrow> x < i64_max" if "0 \<le> x" for x
    using that by (auto simp: i64_min_def i64_max_def)
  show ?thesis
    unfolding policy_apply_copy_def and_then_ok ok_or_ok if_err_ok map_err_ok
      checked_add_i64_Some split_paired_Ex split_conv
    using bound [of "pol_revision p"] by (auto simp: not_less)
qed

lemma policy_apply_ok:
  "policy_apply h actor command now p = (p', Inr r) \<longleftrightarrow>
     policy_apply_copy h actor command now p = Inr (p', r)"
  by (cases "policy_apply_copy h actor command now p") (auto simp: policy_apply_def)

lemma policy_apply_failed:
  "policy_apply h actor command now p = (p', Inl e) \<Longrightarrow> p' = p"
  by (auto simp: policy_apply_def split: sum.splits)

lemma management_ok:
  "management h p actor acting at = Inr v \<Longrightarrow>
     responsibility h p actor acting at = Some v \<and> resp_kind v = RoleAssignmentKind
     \<and> allows v OrganizationManage"
  by (auto simp: management_def split: option.splits if_splits)

lemma responsibility_formal:
  "responsibility h p actor i at = Some r \<Longrightarrow> resp_kind r = RoleAssignmentKind \<Longrightarrow>
     \<exists>v. find_assignment p i = Some v \<and> ra_principal v = actor \<and> assignment_effective h p v at"
  by (auto simp: responsibility_def split: option.splits if_splits
      dest: delegation_responsibility_fields(2))

lemma create_role_assignment_ok:
  assumes "create_role_assignment h actor who role_id unit_id valid_from valid_until reason at now p
     = Inr (p', r)"
  shows "\<exists>a from until. p' = p\<lparr>pol_role_assignments := pol_role_assignments p @ [a]\<rparr>
     \<and> r = RoleAssignmentCreated a (pol_revision p)
     \<and> ra_id a = now_v7 h 0 \<and> ra_principal a = who \<and> ra_role_id a = role_id \<and> ra_unit_id a = unit_id
     \<and> ra_revoked_at a = None \<and> ra_created_by a = Some actor
     \<and> at \<le> from \<and> format_instant h from = Inr (ra_valid_from a)
     \<and> traverse_opt (format_instant h) until = Inr (ra_valid_until a)
     \<and> (\<forall>v\<in>set (pol_role_assignments p). ra_principal v = who \<and> ra_role_id v = role_id
           \<and> ra_unit_id v = unit_id \<and> ra_revoked_at v = None \<longrightarrow>
         \<not> intervals_overlap (stored_instant h (ra_valid_from v))
             (case ra_valid_until v of None \<Rightarrow> Some None
              | Some u \<Rightarrow> map_option Some (stored_instant h u)) from until)"
  using assms requested_start_ge
  by (fastforce simp: create_role_assignment_def and_then_ok ok_or_ok if_err_ok Let_def list_ex_iff)

lemma revoke_role_assignment_ok:
  assumes "revoke_role_assignment actor c i reason now p = Inr (p', r)"
  shows "\<exists>v. find_assignment p i = Some v \<and> ra_revoked_at v = None \<and> i \<noteq> cc_acting_assignment_id c
     \<and> p' = p\<lparr>pol_role_assignments := update_first (\<lambda>v. ra_id v = i)
         (\<lambda>v. v\<lparr>ra_revoked_at := Some now, ra_revoked_by := Some actor,
               ra_revoke_reason := Some reason\<rparr>) (pol_role_assignments p)\<rparr>"
  using assms by (auto simp: revoke_role_assignment_def and_then_ok ok_or_ok if_err_ok Let_def)

lemma create_delegation_ok:
  assumes "create_delegation h actor source_id recipient actions valid_from valid_until reason at now p
     = Inr (p', r)"
  shows "\<exists>d source from until. p' = p\<lparr>pol_delegations := pol_delegations p @ [d]\<rparr>
     \<and> r = DelegationCreated d (pol_revision p)
     \<and> find_assignment p source_id = Some source \<and> assignment_effective h p source at
     \<and> ra_principal source \<noteq> recipient
     \<and> dg_id d = now_v7 h 0 \<and> dg_source_assignment_id d = source_id
     \<and> dg_delegator d = ra_principal source \<and> dg_recipient d = recipient
     \<and> dg_revoked_at d = None \<and> dg_actions d = actions \<and> at \<le> from
     \<and> format_instant h from = Inr (dg_valid_from d) \<and> format_instant h until = Inr (dg_valid_until d)
     \<and> length (filter (\<lambda>v. dg_delegator v = ra_principal source) (pol_delegations p))
         < MAX_DELEGATIONS_PER_DELEGATOR
     \<and> (\<forall>v\<in>set (pol_delegations p). dg_source_assignment_id v = source_id
           \<and> dg_recipient v = recipient \<and> dg_revoked_at v = None \<longrightarrow>
         \<not> intervals_overlap (stored_instant h (dg_valid_from v))
             (map_option Some (stored_instant h (dg_valid_until v))) from (Some until))"
  using assms requested_start_ge
  by (fastforce simp: create_delegation_def and_then_ok ok_or_ok if_err_ok Let_def list_ex_iff)

lemma revoke_delegation_ok:
  assumes "revoke_delegation actor i reason now p = Inr (p', r)"
  shows "\<exists>v. find_delegation p i = Some v \<and> dg_revoked_at v = None
     \<and> p' = p\<lparr>pol_delegations := update_first (\<lambda>v. dg_id v = i)
         (\<lambda>v. v\<lparr>dg_revoked_at := Some now, dg_revoked_by := Some actor,
               dg_revoke_reason := Some reason\<rparr>) (pol_delegations p)\<rparr>"
  using assms by (auto simp: revoke_delegation_def and_then_ok ok_or_ok if_err_ok Let_def)

lemmas policy_command_ok =
  create_role_assignment_ok revoke_role_assignment_ok create_delegation_ok revoke_delegation_ok

subsection \<open>No command widens its caller's authority\<close>

lemma assignment_effective_frame:
  "pol_roles p' = pol_roles p \<Longrightarrow> pol_units p' = pol_units p \<Longrightarrow>
     assignment_effective h p' v at = assignment_effective h p v at"
  by (simp add: assignment_effective_def find_role_def find_unit_def cong: option.case_cong)

lemma assignment_responsibility_frame:
  "pol_roles p' = pol_roles p \<Longrightarrow> pol_units p' = pol_units p \<Longrightarrow>
     assignment_responsibility p' v = assignment_responsibility p v"
  by (simp add: assignment_responsibility_def find_role_def find_unit_def cong: option.case_cong)

lemma effective_not_revoked: "assignment_effective h p v at \<Longrightarrow> ra_revoked_at v = None"
  by (auto simp: assignment_effective_def split: option.splits)

lemma responsibilities_shrink:
  assumes same: "pol_roles p' = pol_roles p" "pol_units p' = pol_units p"
    and A: "\<And>v. v \<in> set (pol_role_assignments p') \<Longrightarrow> ra_principal v = actor \<Longrightarrow> ra_revoked_at v = None
        \<Longrightarrow> v \<in> set (pol_role_assignments p)"
    and D: "\<And>d. d \<in> set (pol_delegations p') \<Longrightarrow> dg_recipient d = actor \<Longrightarrow> dg_revoked_at d = None
        \<Longrightarrow> d \<in> set (pol_delegations p)"
    and S: "\<And>d s. d \<in> set (pol_delegations p) \<Longrightarrow>
        find_assignment p' (dg_source_assignment_id d) = Some s \<Longrightarrow> ra_revoked_at s = None
        \<Longrightarrow> find_assignment p (dg_source_assignment_id d) = Some s"
  shows "set (responsibilities h p' actor at) \<subseteq> set (responsibilities h p actor at)"
proof
  fix r assume "r \<in> set (responsibilities h p' actor at)"
  then show "r \<in> set (responsibilities h p actor at)"
  proof (cases rule: responsibilities_cases)
    case (assigned v)
    then have "v \<in> set (pol_role_assignments p)" by (auto intro: A effective_not_revoked)
    with assigned show ?thesis
      by (auto simp: responsibilities_iff assignment_effective_frame [OF same]
          assignment_responsibility_frame [OF same])
  next
    case (delegated d)
    then obtain s where s: "find_assignment p' (dg_source_assignment_id d) = Some s"
        "assignment_effective h p' s at" and nr: "dg_revoked_at d = None"
      by (auto simp: delegation_effective_def split: option.splits)
    then have d: "d \<in> set (pol_delegations p)" using delegated D by blast
    have src: "find_assignment p (dg_source_assignment_id d) = Some s"
      using S [OF d s(1)] s(2) by (simp add: effective_not_revoked)
    have "delegation_effective h p d at" "delegation_responsibility p d = Some r"
      using delegated s(1) src
      by (simp_all add: delegation_effective_def delegation_responsibility_def
          assignment_effective_frame [OF same] assignment_responsibility_frame [OF same]
          cong: option.case_cong)
    with delegated d show ?thesis by (auto simp: responsibilities_iff)
  qed
qed

lemma find_assignment_append:
  "find_assignment (p\<lparr>pol_revision := n, pol_role_assignments := pol_role_assignments p @ [a]\<rparr>) i =
     (case find_assignment p i of Some v \<Rightarrow> Some v | None \<Rightarrow> if ra_id a = i then Some a else None)"
  by (auto simp: find_assignment_def find_append split: option.splits)

lemma find_assignment_revoked:
  assumes "find (\<lambda>v. ra_id v = j) (update_first (\<lambda>v. ra_id v = i) f (pol_role_assignments p)) = Some s"
    and "ra_revoked_at s = None" and "\<And>v. ra_id (f v) = ra_id v" and "\<And>v. ra_revoked_at (f v) \<noteq> None"
  shows "find_assignment p j = Some s"
proof (cases "i = j")
  case True
  then have "map_option f (find_assignment p j) = Some s"
    using find_update_first_same [of "\<lambda>v. ra_id v = i" f] assms(1,3) by (simp add: find_assignment_def)
  then obtain v where "s = f v" by (cases "find_assignment p j") auto
  then show ?thesis using assms(2,4) by simp
next
  case False
  then show ?thesis
    using find_update_first_other [of "\<lambda>v. ra_id v = i" "\<lambda>v. ra_id v = j" f] assms
    by (simp add: find_assignment_def)
qed

text \<open>
  (C6) No successful policy command gives the principal who issued it any responsibility
  it did not already have, at any instant: management never grants its own caller a role,
  and a holder delegates to others only.
\<close>

theorem policy_no_self_escalation:
  assumes "policy_apply h actor command now p = (p', Inr res)"
  shows "set (responsibilities h p' actor t) \<subseteq> set (responsibilities h p actor t)"
proof -
  let ?q = "p\<lparr>pol_revision := pol_revision p + 1\<rparr>"
  from assms obtain at where int: "policy_validate_integrity h p = Inr ()"
    and auth: "policy_authorize_command h p actor command at = Inr ()"
    and step: "policy_apply_validated h actor command at now ?q = Inr (p', res)"
    by (auto simp: policy_apply_ok policy_apply_copy_ok)
  have src: "\<exists>v. find_assignment p (dg_source_assignment_id d) = Some v"
    if "d \<in> set (pol_delegations p)" for d
    using integrity_delegation [OF int that] by auto
  show ?thesis
  proof (cases command)
    case (CreateRoleAssignment c who role_id unit_id vf vu reason)
    with auth have "who \<noteq> actor" by (auto simp: policy_authorize_command_def result_simps)
    moreover obtain a where "p' = ?q\<lparr>pol_role_assignments := pol_role_assignments ?q @ [a]\<rparr>"
      "ra_principal a = who"
      using step CreateRoleAssignment
      by (auto simp: policy_apply_validated_def dest!: create_role_assignment_ok)
    ultimately show ?thesis
      by (intro responsibilities_shrink) (auto simp: find_assignment_append dest!: src)
  next
    case (RevokeRoleAssignment c i reason)
    then obtain f where f: "p' = ?q\<lparr>pol_role_assignments :=
        update_first (\<lambda>v. ra_id v = i) f (pol_role_assignments ?q)\<rparr>"
      "\<And>v. ra_id (f v) = ra_id v" "\<And>v. ra_revoked_at (f v) \<noteq> None"
      using step by (force simp: policy_apply_validated_def dest!: revoke_role_assignment_ok)
    have "v \<in> set (pol_role_assignments p)"
      if "v \<in> set (pol_role_assignments p')" "ra_revoked_at v = None" for v
      using set_update_first_live [of v _ f _ "\<lambda>v. ra_revoked_at v = None"] that f by auto
    moreover have "find_assignment p j = Some s"
      if "find_assignment p' j = Some s" "ra_revoked_at s = None" for j s
      using find_assignment_revoked [of j i f p s] that f by (simp add: find_assignment_def)
    ultimately show ?thesis using f(1) by (intro responsibilities_shrink) auto
  next
    case (CreateDelegation c source recipient actions vf vu reason)
    with auth obtain v where "find_assignment p source = Some v" "ra_principal v = actor"
      by (auto simp: policy_authorize_command_def result_simps split: option.splits
          dest!: responsibility_formal)
    moreover obtain d v where "p' = ?q\<lparr>pol_delegations := pol_delegations ?q @ [d]\<rparr>"
      "find_assignment p source = Some v" "ra_principal v \<noteq> dg_recipient d"
      using step CreateDelegation
      by (auto simp: policy_apply_validated_def find_assignment_def dest!: create_delegation_ok)
    ultimately show ?thesis
      by (intro responsibilities_shrink) (auto simp: find_assignment_def)
  next
    case (RevokeDelegation c i reason)
    then obtain f where f: "p' = ?q\<lparr>pol_delegations :=
        update_first (\<lambda>v. dg_id v = i) f (pol_delegations ?q)\<rparr>"
      "\<And>v. dg_revoked_at (f v) \<noteq> None"
      using step by (force simp: policy_apply_validated_def dest!: revoke_delegation_ok)
    have "v \<in> set (pol_delegations p)"
      if "v \<in> set (pol_delegations p')" "dg_revoked_at v = None" for v
      using set_update_first_live [of v _ f _ "\<lambda>v. dg_revoked_at v = None"] that f by auto
    then show ?thesis using f(1) by (intro responsibilities_shrink) (auto simp: find_assignment_def)
  qed
qed

subsection \<open>Histories of the policy\<close>

text \<open>
  What a command may change: revisions never decrease, units and roles are fixed,
  assignments and delegations are kept in order, and an entry changes only by being
  revoked, once.
\<close>

definition assignment_kept :: "RoleAssignment \<Rightarrow> RoleAssignment \<Rightarrow> bool" where
  "assignment_kept a b \<longleftrightarrow>
     b = a\<lparr>ra_revoked_at := ra_revoked_at b, ra_revoked_by := ra_revoked_by b,
           ra_revoke_reason := ra_revoke_reason b\<rparr>
     \<and> (ra_revoked_at a \<noteq> None \<longrightarrow> b = a)"

definition delegation_kept :: "Delegation \<Rightarrow> Delegation \<Rightarrow> bool" where
  "delegation_kept a b \<longleftrightarrow>
     b = a\<lparr>dg_revoked_at := dg_revoked_at b, dg_revoked_by := dg_revoked_by b,
           dg_revoke_reason := dg_revoke_reason b\<rparr>
     \<and> (dg_revoked_at a \<noteq> None \<longrightarrow> b = a)"

definition policy_extends :: "OrganizationPolicy \<Rightarrow> OrganizationPolicy \<Rightarrow> bool" where
  "policy_extends p p' \<longleftrightarrow>
     pol_id p' = pol_id p \<and> pol_units p' = pol_units p \<and> pol_roles p' = pol_roles p
     \<and> pol_revision p \<le> pol_revision p'
     \<and> grown assignment_kept (pol_role_assignments p) (pol_role_assignments p')
     \<and> grown delegation_kept (pol_delegations p) (pol_delegations p')"

type_synonym policy_call = "(nat \<Rightarrow> uuid) \<times> VerifiedActor \<times> PolicyCommand \<times> ustr"

definition policy_step ::
  "host \<Rightarrow> policy_call \<Rightarrow> OrganizationPolicy \<Rightarrow> OrganizationPolicy \<times> (WorkError + MutationResult)" where
  "policy_step h c p =
     (case c of (ids, actor, command, now) \<Rightarrow> policy_apply (h\<lparr>now_v7 := ids\<rparr>) actor command now p)"

fun policy_expected :: "policy_call \<Rightarrow> int" where
  "policy_expected (ids, actor, command, now) = cc_expected_revision (policy_context command)"

lemma kept_refl [simp]: "assignment_kept a a" "delegation_kept d d"
  by (simp_all add: assignment_kept_def delegation_kept_def)

lemma assignment_kept_trans: "assignment_kept a b \<Longrightarrow> assignment_kept b c \<Longrightarrow> assignment_kept a c"
  unfolding assignment_kept_def by (cases a; cases b; cases c) auto

lemma delegation_kept_trans: "delegation_kept a b \<Longrightarrow> delegation_kept b c \<Longrightarrow> delegation_kept a c"
  unfolding delegation_kept_def by (cases a; cases b; cases c) auto

lemma policy_extends_refl: "policy_extends p p"
  by (simp add: policy_extends_def grown_refl)

lemma policy_extends_trans: "policy_extends p q \<Longrightarrow> policy_extends q r \<Longrightarrow> policy_extends p r"
  unfolding policy_extends_def
  by (auto intro: grown_trans [OF _ _ assignment_kept_trans] grown_trans [OF _ _ delegation_kept_trans])

lemma policy_apply_validated_extends:
  assumes "policy_apply_validated h actor command at now p = Inr (p', r)"
    and "distinct (map ra_id (pol_role_assignments p))" and "distinct (map dg_id (pol_delegations p))"
  shows "policy_extends p p' \<and> pol_revision p' = pol_revision p"
proof (cases command)
  case (CreateRoleAssignment c who role_id unit_id vf vu reason)
  with assms show ?thesis
    by (auto simp: policy_apply_validated_def policy_extends_def grown_refl grown_append
        dest!: create_role_assignment_ok)
next
  case (RevokeRoleAssignment c i reason)
  with assms obtain v f where f: "p' = p\<lparr>pol_role_assignments :=
        update_first (\<lambda>v. ra_id v = i) f (pol_role_assignments p)\<rparr>"
      "find_assignment p i = Some v" "ra_revoked_at v = None" "assignment_kept v (f v)"
    by (force simp: policy_apply_validated_def assignment_kept_def dest!: revoke_role_assignment_ok)
  have "x = v" if "x \<in> set (pol_role_assignments p)" "ra_id x = i" for x
    using find_assignment_eq [OF assms(2) that(1)] that f(2) by simp
  then show ?thesis using f
    by (auto simp: policy_extends_def intro!: grown_refl grown_update_first)
next
  case (CreateDelegation c source recipient actions vf vu reason)
  with assms show ?thesis
    by (auto simp: policy_apply_validated_def policy_extends_def grown_refl grown_append
        dest!: create_delegation_ok)
next
  case (RevokeDelegation c i reason)
  with assms obtain v f where f: "p' = p\<lparr>pol_delegations :=
        update_first (\<lambda>v. dg_id v = i) f (pol_delegations p)\<rparr>"
      "find_delegation p i = Some v" "dg_revoked_at v = None" "delegation_kept v (f v)"
    by (force simp: policy_apply_validated_def delegation_kept_def dest!: revoke_delegation_ok)
  have "x = v" if "x \<in> set (pol_delegations p)" "dg_id x = i" for x
    using find_delegation_eq [OF assms(3) that(1)] that f(2) by simp
  then show ?thesis using f
    by (auto simp: policy_extends_def intro!: grown_refl grown_update_first)
qed

lemma policy_step_ok:
  "snd (policy_step h (ids, actor, command, now) p) = Inr r \<longleftrightarrow>
     policy_apply_copy (h\<lparr>now_v7 := ids\<rparr>) actor command now p
       = Inr (fst (policy_step h (ids, actor, command, now) p), r)"
  by (auto simp: policy_step_def policy_apply_def split: sum.splits)

lemma policy_step_ok_facts:
  assumes "snd (policy_step h c p) = Inr r"
  shows "policy_extends p (fst (policy_step h c p))"
    and "pol_revision p = policy_expected c"
    and "pol_revision (fst (policy_step h c p)) = pol_revision p + 1"
proof -
  obtain ids actor command now where c: "c = (ids, actor, command, now)" by (cases c)
  let ?h = "h\<lparr>now_v7 := ids\<rparr>" and ?q = "p\<lparr>pol_revision := pol_revision p + 1\<rparr>"
    and ?p' = "fst (policy_step h c p)"
  from assms obtain at where int: "policy_validate_integrity ?h p = Inr ()"
    and rev: "pol_revision p = cc_expected_revision (policy_context command)"
    and step: "policy_apply_validated ?h actor command at now ?q = Inr (?p', r)"
    unfolding c policy_step_ok policy_apply_copy_ok by blast
  have "policy_extends ?q ?p' \<and> pol_revision ?p' = pol_revision ?q"
    using step by (rule policy_apply_validated_extends) (use integrity_distinct_ids [OF int] in simp_all)
  then show "policy_extends p ?p'" "pol_revision ?p' = pol_revision p + 1"
    by (auto simp: policy_extends_def)
  show "pol_revision p = policy_expected c" using rev by (simp add: c)
qed

lemma policy_step_failed: "snd (policy_step h c p) = Inl e \<Longrightarrow> fst (policy_step h c p) = p"
  by (cases c) (auto simp: policy_step_def policy_apply_def split: sum.splits)

interpretation pol_occ: versioned_machine "policy_step h" "\<lambda>_. True" pol_revision "\<lambda>_. True" policy_expected
  for h
  by unfold_locales (auto simp: policy_step_failed policy_step_ok_facts)

interpretation pol_log: growing_machine "policy_step h" "\<lambda>_. True" policy_extends for h
  by unfold_locales
    (auto simp: policy_step_failed policy_step_ok_facts policy_extends_refl intro: policy_extends_trans)

text \<open>
  Two policy commands prepared against the same revision never both succeed,
  whatever other commands run in between: the second one is refused.
\<close>

theorem policy_no_lost_update:
  assumes "snd (policy_step h c p) = Inr r" and "policy_expected d = policy_expected c"
  shows "\<exists>e. snd (policy_step h d (run_machine (policy_step h) cs (fst (policy_step h c p)))) = Inl e"
  using assms by (auto intro: pol_occ.no_lost_update)

text \<open>
  Over any history of commands the policy only grows: no role assignment or
  delegation is deleted, reordered or rewritten except for a single revocation, units and
  roles stay fixed and the revision never decreases.
\<close>

theorem policy_history_kept: "policy_extends p (run_machine (policy_step h) cs p)"
  by (rule pol_log.run_le) simp

end
