(* ===== verification/Organization_Safety.thy ===== *)
theory Organization_Safety
  imports Organization_Props
begin

text \<open>
  The safety of policy histories: who may issue which command, that live grants of the
  same kind never overlap, that a revocation holds for ever and cascades to delegations,
  and what a principal is shown. The last part evaluates the commands on the synthetic
  policy of the repository.
\<close>

subsection \<open>Authority\<close>

lemma responsibility_formal_role:
  assumes "responsibility h p actor i at = Some r" and "resp_kind r = RoleAssignmentKind"
  shows "\<exists>v role. find_assignment p i = Some v \<and> ra_principal v = actor
     \<and> assignment_effective h p v at \<and> find_role p (ra_role_id v) = Some role
     \<and> resp_actions r = br_actions role"
  using assms
  by (auto simp: responsibility_def split: option.splits if_splits
      dest: delegation_responsibility_fields(2) assignment_responsibility_fields(7))

lemma policy_authorize_facts:
  assumes "policy_authorize_command h p actor command at = Inr ()"
  shows "\<exists>r. responsibility h p actor (cc_acting_assignment_id (policy_context command)) at = Some r
     \<and> resp_kind r = RoleAssignmentKind
     \<and> (case command of
          CreateDelegation c source _ actions _ _ _ \<Rightarrow> source = cc_acting_assignment_id c
        | RevokeDelegation c i _ \<Rightarrow> allows r OrganizationManage
            \<or> (\<exists>d. find_delegation p i = Some d \<and> dg_delegator d = actor
                 \<and> dg_source_assignment_id d = cc_acting_assignment_id c)
        | _ \<Rightarrow> allows r OrganizationManage)"
proof (cases command)
  case (CreateRoleAssignment c who role_id unit_id vf vu reason)
  with assms show ?thesis
    by (auto simp: policy_authorize_command_def and_then_ok if_err_ok dest!: management_ok)
next
  case (RevokeRoleAssignment c i reason)
  with assms show ?thesis
    by (auto simp: policy_authorize_command_def and_then_ok dest!: management_ok)
next
  case (CreateDelegation c source recipient actions vf vu reason)
  with assms show ?thesis
    by (auto simp: policy_authorize_command_def split: option.splits if_splits)
next
  case (RevokeDelegation c i reason)
  then show ?thesis
  proof (cases "management h p actor (cc_acting_assignment_id c) at")
    case (Inl e)
    with RevokeDelegation assms show ?thesis
      by (auto simp: policy_authorize_command_def Let_def split: option.splits if_splits)
  next
    case (Inr r)
    with RevokeDelegation show ?thesis by (auto dest!: management_ok)
  qed
qed

text \<open>
  A successful policy command was issued under an assignment of the caller that is
  effective at the time of the command. Creating or revoking assignments needs a role with
  \<open>OrganizationManage\<close>; delegating gives away only actions of the very assignment the
  caller acts under; revoking a delegation needs its source assignment or management.
\<close>

theorem policy_command_authority:
  assumes "policy_apply h actor command now p = (p', Inr res)"
  shows "\<exists>at v role. parse_instant h now = Inr at
     \<and> find_assignment p (cc_acting_assignment_id (policy_context command)) = Some v
     \<and> ra_principal v = actor \<and> assignment_effective h p v at
     \<and> find_role p (ra_role_id v) = Some role
     \<and> (case command of
          CreateDelegation c source _ actions _ _ _ \<Rightarrow>
            source = ra_id v \<and> set actions \<subseteq> set (br_actions role)
        | RevokeDelegation c i _ \<Rightarrow>
            OrganizationManage \<in> set (br_actions role)
            \<or> (\<exists>d. find_delegation p i = Some d \<and> dg_delegator d = actor
                 \<and> dg_source_assignment_id d = ra_id v)
        | _ \<Rightarrow> OrganizationManage \<in> set (br_actions role))"
proof -
  let ?i = "cc_acting_assignment_id (policy_context command)"
  from assms obtain at where at: "parse_instant h now = Inr at"
    and auth: "policy_authorize_command h p actor command at = Inr ()"
    and step: "policy_apply_validated h actor command at now (p\<lparr>pol_revision := pol_revision p + 1\<rparr>)
      = Inr (p', res)"
    by (auto simp: policy_apply_ok policy_apply_copy_ok)
  from auth obtain r where r: "responsibility h p actor ?i at = Some r" "resp_kind r = RoleAssignmentKind"
    and need: "case command of
        CreateDelegation c source _ actions _ _ _ \<Rightarrow> source = ?i
      | RevokeDelegation c i _ \<Rightarrow> allows r OrganizationManage
          \<or> (\<exists>d. find_delegation p i = Some d \<and> dg_delegator d = actor
               \<and> dg_source_assignment_id d = ?i)
      | _ \<Rightarrow> allows r OrganizationManage"
    using policy_authorize_facts [OF auth] by (cases command) auto
  from responsibility_formal_role [OF r] obtain v role where
    v: "find_assignment p ?i = Some v" "ra_principal v = actor" "assignment_effective h p v at"
      "find_role p (ra_role_id v) = Some role" "resp_actions r = br_actions role" by blast
  have "set actions \<subseteq> set (br_actions role)"
    if "command = CreateDelegation c source recipient actions vf vu reason"
    for c source recipient actions vf vu reason
    using step that need v(1,4)
    by (auto simp: policy_apply_validated_def create_delegation_def result_simps find_assignment_def
        find_role_def list_ex_iff)
  with at v need find_assignment_in [OF v(1)] show ?thesis
    by (cases command) (auto simp: allows_def)
qed

subsection \<open>The safety invariant\<close>

text \<open>Live at an instant: not revoked, and the instant lies in the stored interval.\<close>

definition assignment_live :: "host \<Rightarrow> RoleAssignment \<Rightarrow> instant \<Rightarrow> bool" where
  "assignment_live h v t \<longleftrightarrow> ra_revoked_at v = None
     \<and> (case stored_instant h (ra_valid_from v) of None \<Rightarrow> False | Some f \<Rightarrow> f \<le> t)
     \<and> (case ra_valid_until v of None \<Rightarrow> True
        | Some u \<Rightarrow> (case stored_instant h u of None \<Rightarrow> False | Some u' \<Rightarrow> t < u'))"

definition delegation_live :: "host \<Rightarrow> Delegation \<Rightarrow> instant \<Rightarrow> bool" where
  "delegation_live h d t \<longleftrightarrow> dg_revoked_at d = None
     \<and> (case stored_instant h (dg_valid_from d) of None \<Rightarrow> False | Some f \<Rightarrow> f \<le> t)
     \<and> (case stored_instant h (dg_valid_until d) of None \<Rightarrow> False | Some u \<Rightarrow> t < u)"

definition policy_inv :: "host \<Rightarrow> OrganizationPolicy \<Rightarrow> bool" where
  "policy_inv h p \<longleftrightarrow>
     policy_validate_integrity h p = Inr ()
     \<and> (\<forall>v\<in>set (pol_role_assignments p). \<forall>w\<in>set (pol_role_assignments p). \<forall>t.
          ra_principal v = ra_principal w \<and> ra_role_id v = ra_role_id w
          \<and> ra_unit_id v = ra_unit_id w \<and> assignment_live h v t \<and> assignment_live h w t \<longrightarrow> v = w)
     \<and> (\<forall>v\<in>set (pol_delegations p). \<forall>w\<in>set (pol_delegations p). \<forall>t.
          dg_source_assignment_id v = dg_source_assignment_id w \<and> dg_recipient v = dg_recipient w
          \<and> delegation_live h v t \<and> delegation_live h w t \<longrightarrow> v = w)
     \<and> (\<forall>a. length (filter (\<lambda>d. dg_delegator d = a) (pol_delegations p))
            \<le> MAX_DELEGATIONS_PER_DELEGATOR)"

definition unique_when :: "('a \<Rightarrow> 'a \<Rightarrow> bool) \<Rightarrow> ('a \<Rightarrow> 't \<Rightarrow> bool) \<Rightarrow> 'a list \<Rightarrow> bool" where
  "unique_when same live xs \<longleftrightarrow>
     (\<forall>v\<in>set xs. \<forall>w\<in>set xs. \<forall>t. same v w \<and> live v t \<and> live w t \<longrightarrow> v = w)"

lemma unique_when_append:
  assumes "unique_when same live xs" and "\<And>v w. same v w \<Longrightarrow> same w v"
    and "\<And>v t. v \<in> set xs \<Longrightarrow> same v a \<Longrightarrow> live v t \<Longrightarrow> \<not> live a t"
  shows "unique_when same live (xs @ [a])"
  using assms unfolding unique_when_def by auto

lemma unique_when_update:
  assumes "unique_when same live xs" and "\<And>v t. \<not> live (f v) t"
  shows "unique_when same live (update_first p f xs)"
  using assms set_update_first [of _ p f xs] unfolding unique_when_def by metis

lemma policy_inv_unique:
  "policy_inv h p \<longleftrightarrow> policy_validate_integrity h p = Inr ()
     \<and> unique_when (\<lambda>v w. ra_principal v = ra_principal w \<and> ra_role_id v = ra_role_id w
          \<and> ra_unit_id v = ra_unit_id w) (assignment_live h) (pol_role_assignments p)
     \<and> unique_when (\<lambda>v w. dg_source_assignment_id v = dg_source_assignment_id w
          \<and> dg_recipient v = dg_recipient w) (delegation_live h) (pol_delegations p)
     \<and> (\<forall>a. length (filter (\<lambda>d. dg_delegator d = a) (pol_delegations p))
            \<le> MAX_DELEGATIONS_PER_DELEGATOR)"
  unfolding policy_inv_def unique_when_def conj_assoc ..

lemma effective_live: "assignment_effective h p v t \<Longrightarrow> assignment_live h v t"
  by (auto simp: assignment_effective_def assignment_live_def split: option.splits)

text \<open>The interval test is exact: what it lets through is never live together.\<close>

lemma live_apart_assignment:
  assumes "rfc3339_roundtrip h" and "format_instant h from = Inr (ra_valid_from a)"
    and "traverse_opt (format_instant h) until = Inr (ra_valid_until a)"
    and "ra_revoked_at v = None \<Longrightarrow> \<not> intervals_overlap (stored_instant h (ra_valid_from v))
           (case ra_valid_until v of None \<Rightarrow> Some None
            | Some u \<Rightarrow> map_option Some (stored_instant h u)) from until"
    and "assignment_live h v t"
  shows "\<not> assignment_live h a t"
  using assms(4,5) parse_format_instant [OF assms(1,2)] assms(3)
  by (auto simp: assignment_live_def intervals_overlap_def traverse_opt_ok
      dest: parse_format_instant [OF assms(1)] split: option.splits)

lemma live_apart_delegation:
  assumes "rfc3339_roundtrip h" and "format_instant h from = Inr (dg_valid_from a)"
    and "format_instant h until = Inr (dg_valid_until a)"
    and "dg_revoked_at v = None \<Longrightarrow> \<not> intervals_overlap (stored_instant h (dg_valid_from v))
           (map_option Some (stored_instant h (dg_valid_until v))) from (Some until)"
    and "delegation_live h v t"
  shows "\<not> delegation_live h a t"
  using assms(4,5) parse_format_instant [OF assms(1,2)] parse_format_instant [OF assms(1,3)]
  by (auto simp: delegation_live_def intervals_overlap_def split: option.splits)

lemma policy_apply_validated_inv:
  assumes rt: "rfc3339_roundtrip h"
    and step: "policy_apply_validated h actor command at now p = Inr (p', r)"
    and ua: "unique_when (\<lambda>v w. ra_principal v = ra_principal w \<and> ra_role_id v = ra_role_id w
          \<and> ra_unit_id v = ra_unit_id w) (assignment_live h) (pol_role_assignments p)" (is "?A p")
    and ud: "unique_when (\<lambda>v w. dg_source_assignment_id v = dg_source_assignment_id w
          \<and> dg_recipient v = dg_recipient w) (delegation_live h) (pol_delegations p)" (is "?D p")
    and few: "\<forall>a. length (filter (\<lambda>d. dg_delegator d = a) (pol_delegations p))
            \<le> MAX_DELEGATIONS_PER_DELEGATOR" (is "?F p")
  shows "?A p' \<and> ?D p' \<and> ?F p'"
proof (cases command)
  case (CreateRoleAssignment c who role_id unit_id vf vu reason)
  with step obtain a fr until where
    a: "p' = p\<lparr>pol_role_assignments := pol_role_assignments p @ [a]\<rparr>"
      "format_instant h fr = Inr (ra_valid_from a)"
      "traverse_opt (format_instant h) until = Inr (ra_valid_until a)"
      "\<forall>v\<in>set (pol_role_assignments p). ra_principal v = ra_principal a \<and> ra_role_id v = ra_role_id a
           \<and> ra_unit_id v = ra_unit_id a \<and> ra_revoked_at v = None \<longrightarrow>
         \<not> intervals_overlap (stored_instant h (ra_valid_from v))
             (case ra_valid_until v of None \<Rightarrow> Some None
              | Some u \<Rightarrow> map_option Some (stored_instant h u)) fr until"
    by (auto simp: policy_apply_validated_def dest!: create_role_assignment_ok)
  have "?A p'" unfolding a(1)
    using a(4) live_apart_assignment [OF rt a(2,3)]
    by (auto intro!: unique_when_append ua)
  with ud few show ?thesis by (simp add: a(1))
next
  case (RevokeRoleAssignment c i reason)
  with step obtain f where "p' = p\<lparr>pol_role_assignments :=
      update_first (\<lambda>v. ra_id v = i) f (pol_role_assignments p)\<rparr>" "\<And>v. ra_revoked_at (f v) \<noteq> None"
    by (force simp: policy_apply_validated_def dest!: revoke_role_assignment_ok)
  moreover from this(2) have "\<not> assignment_live h (f v) t" for v t by (simp add: assignment_live_def)
  ultimately show ?thesis using ua ud few by (simp add: unique_when_update)
next
  case (CreateDelegation c source recipient actions vf vu reason)
  with step obtain a fr until where
    a: "p' = p\<lparr>pol_delegations := pol_delegations p @ [a]\<rparr>"
      "format_instant h fr = Inr (dg_valid_from a)" "format_instant h until = Inr (dg_valid_until a)"
      "length (filter (\<lambda>v. dg_delegator v = dg_delegator a) (pol_delegations p))
         < MAX_DELEGATIONS_PER_DELEGATOR"
      "\<forall>v\<in>set (pol_delegations p). dg_source_assignment_id v = dg_source_assignment_id a
           \<and> dg_recipient v = dg_recipient a \<and> dg_revoked_at v = None \<longrightarrow>
         \<not> intervals_overlap (stored_instant h (dg_valid_from v))
             (map_option Some (stored_instant h (dg_valid_until v))) fr (Some until)"
    by (auto simp: policy_apply_validated_def dest!: create_delegation_ok)
  have "?D p'" unfolding a(1)
    using a(5) live_apart_delegation [OF rt a(2,3)]
    by (auto intro!: unique_when_append ud)
  moreover have "?F p'" using few a(1,4) by auto
  ultimately show ?thesis using ua by (simp add: a(1))
next
  case (RevokeDelegation c i reason)
  with step obtain f where f: "p' = p\<lparr>pol_delegations :=
      update_first (\<lambda>v. dg_id v = i) f (pol_delegations p)\<rparr>"
      "\<And>v. dg_revoked_at (f v) \<noteq> None" "\<And>v. dg_delegator (f v) = dg_delegator v"
    by (force simp: policy_apply_validated_def dest!: revoke_delegation_ok)
  have "length (filter (\<lambda>d. dg_delegator d = a) (update_first P f ds))
      = length (filter (\<lambda>d. dg_delegator d = a) ds)" for a P ds
    by (induction ds) (simp_all add: f(3))
  moreover from f(2) have "\<not> delegation_live h (f v) t" for v t by (simp add: delegation_live_def)
  ultimately show ?thesis using ua ud few f(1) by (simp add: unique_when_update)
qed

lemma stored_instant_ids [simp]: "stored_instant (h\<lparr>now_v7 := ids\<rparr>) = stored_instant h"
  by (simp add: stored_instant_def [abs_def])

lemma host_ids_irrelevant:
  "policy_validate_integrity (h\<lparr>now_v7 := ids\<rparr>) p = policy_validate_integrity h p"
  "assignment_live (h\<lparr>now_v7 := ids\<rparr>) = assignment_live h"
  "delegation_live (h\<lparr>now_v7 := ids\<rparr>) = delegation_live h"
  "rfc3339_roundtrip (h\<lparr>now_v7 := ids\<rparr>) = rfc3339_roundtrip h"
  by (simp_all add: policy_validate_integrity_def validate_assignment_def [abs_def]
      validate_delegation_def [abs_def] assignment_live_def [abs_def]
      delegation_live_def [abs_def] rfc3339_roundtrip_def cong: option.case_cong)

lemma policy_step_inv:
  assumes "snd (policy_step h c p) = Inr r" and "rfc3339_roundtrip h" and "policy_inv h p"
  shows "policy_inv h (fst (policy_step h c p))"
proof -
  obtain ids actor command now where c: "c = (ids, actor, command, now)" by (cases c)
  let ?h = "h\<lparr>now_v7 := ids\<rparr>" and ?q = "p\<lparr>pol_revision := pol_revision p + 1\<rparr>"
    and ?p' = "fst (policy_step h c p)"
  from assms(1) obtain at where int: "policy_validate_integrity ?h ?p' = Inr ()"
    and step: "policy_apply_validated ?h actor command at now ?q = Inr (?p', r)"
    unfolding c policy_step_ok policy_apply_copy_ok by blast
  show ?thesis
    using policy_apply_validated_inv [OF _ step] assms(2,3) int
    by (simp add: policy_inv_unique host_ids_irrelevant)
qed

interpretation pol_safe: guarded_machine "policy_step h" "\<lambda>p. rfc3339_roundtrip h \<longrightarrow> policy_inv h p" for h
  by unfold_locales (auto simp: policy_step_failed intro: policy_step_inv)

text \<open>
  Every history of commands keeps the safety invariant: the policy passes its
  integrity check, no principal ever holds the same role in the same unit twice at one
  instant, no delegation to the same recipient from the same source is live twice, and no
  delegator exceeds the bound of sixteen delegations.
\<close>

theorem policy_history_safe:
  assumes "rfc3339_roundtrip h" and "policy_inv h p"
  shows "policy_inv h (run_machine (policy_step h) cs p)"
  using pol_safe.run_inv [of h p cs] assms by simp

subsection \<open>Revocation is final\<close>

lemma policy_step_integrity:
  "snd (policy_step h c p) = Inr r \<Longrightarrow> policy_validate_integrity h (fst (policy_step h c p)) = Inr ()"
  by (cases c) (auto simp: policy_step_ok policy_apply_copy_ok host_ids_irrelevant)

interpretation pol_int: guarded_machine "policy_step h" "\<lambda>p. policy_validate_integrity h p = Inr ()" for h
  by unfold_locales (auto simp: policy_step_failed policy_step_integrity)

lemma revoked_stays:
  assumes "policy_extends p q" and "policy_validate_integrity h q = Inr ()"
    and "find_assignment p i = Some v" and "ra_revoked_at v \<noteq> None"
  shows "find_assignment q i = Some v"
proof -
  from find_assignment_in [OF assms(3)] assms(1) obtain w where
    "w \<in> set (pol_role_assignments q)" "assignment_kept v w" "ra_id v = i"
    by (auto simp: policy_extends_def dest: grown_in)
  then show ?thesis using assms(4) integrity_distinct_ids(1) [OF assms(2)]
    by (auto simp: assignment_kept_def dest: find_assignment_eq)
qed

lemma revoked_powerless:
  assumes "find_assignment p i = Some v" and "ra_revoked_at v \<noteq> None"
  shows "responsibility h p who i t = None"
    and "dg_source_assignment_id d = i \<Longrightarrow> \<not> delegation_effective h p d t"
  using assms effective_not_revoked [of h p v t]
  by (auto simp: responsibility_def delegation_effective_def split: option.splits)

lemma revoke_applied:
  assumes "policy_apply h actor (RevokeRoleAssignment c i reason) now p = (p', Inr res)"
  shows "\<exists>v. find_assignment p' i = Some v \<and> ra_revoked_at v = Some now \<and> ra_revoked_by v = Some actor"
proof -
  from assms obtain at where
    "revoke_role_assignment actor c i reason now (p\<lparr>pol_revision := pol_revision p + 1\<rparr>) = Inr (p', res)"
    by (auto simp: policy_apply_ok policy_apply_copy_ok policy_apply_validated_def)
  then show ?thesis
    by (auto simp: find_assignment_def find_update_first_same dest!: revoke_role_assignment_ok)
qed

lemma revocation_final:
  assumes "policy_apply h actor (RevokeRoleAssignment c i reason) now p = (p', Inr res)"
  shows "responsibility h (run_machine (policy_step h) cs p') who i t = None
     \<and> (\<forall>d. dg_source_assignment_id d = i \<longrightarrow>
           \<not> delegation_effective h (run_machine (policy_step h) cs p') d t)"
proof -
  let ?q = "run_machine (policy_step h) cs p'"
  obtain v where v: "find_assignment p' i = Some v" "ra_revoked_at v \<noteq> None"
    using revoke_applied [OF assms] by auto
  have "policy_validate_integrity h p' = Inr ()"
    using assms by (auto simp: policy_apply_ok policy_apply_copy_ok)
  then have int: "policy_validate_integrity h ?q = Inr ()" by (rule pol_int.run_inv)
  have "policy_extends p' ?q" by (rule pol_log.run_le) simp
  from revoked_stays [OF this int v] have q: "find_assignment ?q i = Some v" .
  show ?thesis by (simp add: revoked_powerless [OF q v(2)])
qed

text \<open>
  Once a role assignment is revoked, it gives no responsibility to anyone at any
  instant, past or future, after any further history of commands, and no delegation based
  on it is effective any more.
\<close>

theorem policy_revocation_final:
  assumes "policy_apply h actor (RevokeRoleAssignment c i reason) now p = (p', Inr res)"
  shows "responsibility h (run_machine (policy_step h) cs p') who i t = None
     \<and> (\<forall>d. dg_source_assignment_id d = i \<longrightarrow>
           \<not> delegation_effective h (run_machine (policy_step h) cs p') d t)"
  using assms by (rule revocation_final)

subsection \<open>Disclosure\<close>

text \<open>
  The organization view shows another principal's assignments and delegations only
  to a caller who holds \<open>OrganizationManage\<close> through a formal assignment at that instant;
  everyone else sees the records they are a party of, and all of those.
\<close>

theorem policy_view_disclosure:
  assumes "policy_view h p actor at = Inr view"
  shows "set (ov_role_assignments view) =
      (if ov_can_manage view then set (pol_role_assignments p)
       else {v \<in> set (pol_role_assignments p). ra_principal v = actor})
    \<and> set (ov_delegations view) =
      (if ov_can_manage view then set (pol_delegations p)
       else {d \<in> set (pol_delegations p). dg_delegator d = actor \<or> dg_recipient d = actor})
    \<and> (ov_can_manage view \<longleftrightarrow>
        (\<exists>v role. v \<in> set (pol_role_assignments p) \<and> ra_principal v = actor
           \<and> assignment_effective h p v at \<and> find_role p (ra_role_id v) = Some role
           \<and> OrganizationManage \<in> set (br_actions role)))"
proof -
  have manage: "can_manage h p actor at \<longleftrightarrow>
        (\<exists>v role. v \<in> set (pol_role_assignments p) \<and> ra_principal v = actor
           \<and> assignment_effective h p v at \<and> find_role p (ra_role_id v) = Some role
           \<and> OrganizationManage \<in> set (br_actions role))" (is "?L = ?R")
  proof
    assume ?L
    then obtain r where r: "r \<in> set (responsibilities h p actor at)" "resp_kind r = RoleAssignmentKind"
      "OrganizationManage \<in> set (resp_actions r)"
      by (auto simp: can_manage_def list_ex_iff allows_def)
    from r(1) show ?R
    proof (cases rule: responsibilities_cases)
      case (assigned v)
      then show ?thesis using r(3) assignment_responsibility_fields(7) [OF assigned(4)] by auto
    next
      case (delegated d)
      then show ?thesis using r(2) by (simp add: delegation_responsibility_fields(2))
    qed
  next
    assume ?R
    then obtain v role where v: "v \<in> set (pol_role_assignments p)" "ra_principal v = actor"
      "assignment_effective h p v at" "find_role p (ra_role_id v) = Some role"
      "OrganizationManage \<in> set (br_actions role)" by blast
    then obtain r where r: "assignment_responsibility p v = Some r"
      by (auto simp: assignment_effective_def assignment_responsibility_def split: option.splits)
    have "r \<in> set (responsibilities h p actor at)" using v r by (auto simp: responsibilities_iff)
    moreover have "resp_kind r = RoleAssignmentKind" "OrganizationManage \<in> set (resp_actions r)"
      using assignment_responsibility_fields(2,7) [OF r] v by auto
    ultimately show ?L by (auto simp: can_manage_def list_ex_iff allows_def)
  qed
  from assms have "ov_can_manage view = can_manage h p actor at"
    "ov_role_assignments view = filter (\<lambda>v. assignment_visible h p actor v at) (pol_role_assignments p)"
    "ov_delegations view = filter (\<lambda>v. delegation_visible h p actor v at) (pol_delegations p)"
    by (auto simp: policy_view_def and_then_ok)
  then show ?thesis unfolding manage [symmetric]
    by (simp add: assignment_visible_def delegation_visible_def set_eq_iff)
qed

end
