(* ===== verification/Organization_Examples.thy ===== *)
theory Organization_Examples
  imports Organization_Safety
begin

text \<open>
  Concrete commands on the synthetic policy, evaluated in the kernel: each property of the
  organization policy that has hypotheses is applied at an input where they hold.
\<close>

definition example_host :: host where
  "example_host =
     \<lparr>parse_rfc3339 = (\<lambda>s. if s = FIXTURE_VALID_FROM then Some 0
                          else case s of [n] \<Rightarrow> Some n | _ \<Rightarrow> None),
      format_rfc3339 = (\<lambda>t. if 0 \<le> t then Some [t] else None),
      now_utc = 5,
      now_v7 = (\<lambda>n. 0x0190000000007000800000000000f000 + int n)\<rparr>"

definition example_context :: "uuid \<Rightarrow> CommandContext" where
  "example_context acting =
     \<lparr>cc_operation_id = 0x01900000000070008000000000000d01, cc_expected_revision = 0,
      cc_acting_assignment_id = acting\<rparr>"

definition example_grant :: PolicyCommand where
  "example_grant = CreateRoleAssignment (example_context APPROVER_MANAGEMENT_ASSIGNMENT_ID) Delegate01
     ROLE_SALES_ID UNIT_SALES_ID None None (lit ''because'')"

definition example_delegate :: PolicyCommand where
  "example_delegate = CreateDelegation (example_context SALES_ASSIGNMENT_ID) SALES_ASSIGNMENT_ID
     Delegate01 [WorkRead, WorkClaim] None [50] (lit ''because'')"

abbreviation example_grant_call :: policy_call where
  "example_grant_call \<equiv> (now_v7 example_host, Approver01, example_grant, [10])"

lemma ok_pair: "is_ok (snd x) \<Longrightarrow> x = (fst x, Inr (projr (snd x)))"
  by (cases x; cases "snd x") auto

lemma example_roundtrip: "rfc3339_roundtrip example_host"
  by (auto simp: rfc3339_roundtrip_def example_host_def FIXTURE_VALID_FROM_def lit_def)

lemma synthetic_integrity: "policy_validate_integrity example_host synthetic_policy = Inr ()"
  by code_simp

lemma synthetic_inv: "policy_inv example_host synthetic_policy"
proof -
  have "\<forall>v\<in>set (pol_role_assignments synthetic_policy). \<forall>w\<in>set (pol_role_assignments synthetic_policy).
      ra_principal v = ra_principal w \<and> ra_role_id v = ra_role_id w \<and> ra_unit_id v = ra_unit_id w \<longrightarrow> v = w"
    by code_simp
  moreover have "pol_delegations synthetic_policy = []"
    by (simp add: synthetic_policy_def Let_def)
  ultimately show ?thesis using synthetic_integrity by (auto simp: policy_inv_def)
qed

lemma example_grant_ok: "is_ok (snd (policy_apply example_host Approver01 example_grant [10] synthetic_policy))"
  by code_simp

lemma example_delegate_ok: "is_ok (snd (policy_apply example_host Sales01 example_delegate [10] synthetic_policy))"
  by code_simp

lemma example_revoke_ok:
  "is_ok (snd (policy_apply example_host Approver01
     (RevokeRoleAssignment (example_context APPROVER_MANAGEMENT_ASSIGNMENT_ID) SALES_ASSIGNMENT_ID
       (lit ''because'')) [10] synthetic_policy))"
  by code_simp

theorem responsibility_lookup_complete_witness:
  "policy_validate_integrity example_host synthetic_policy = Inr ()
   \<and> (\<exists>r. r \<in> set (responsibilities example_host synthetic_policy Sales01 10)
        \<and> resp_id r = SALES_ASSIGNMENT_ID)"
proof -
  have "responsibility example_host synthetic_policy Sales01 SALES_ASSIGNMENT_ID 10 \<noteq> None"
    by code_simp
  then show ?thesis
    using responsibility_lookup_complete [OF synthetic_integrity] synthetic_integrity by fastforce
qed

theorem delegated_responsibility_narrows_witness:
  "\<exists>p r. responsibility example_host p Delegate01 (now_v7 example_host 0) 20 = Some r
     \<and> \<not> allows r WorkAssign"
proof -
  let ?p = "fst (policy_apply example_host Sales01 example_delegate [10] synthetic_policy)"
  have int: "policy_validate_integrity example_host ?p = Inr ()"
    using ok_pair [OF example_delegate_ok] policy_apply_ok policy_apply_copy_ok by metis
  have "case responsibility example_host ?p Delegate01 (now_v7 example_host 0) 20 of
      None \<Rightarrow> False | Some r \<Rightarrow> resp_kind r = DelegationKind" by code_simp
  then obtain r where "responsibility example_host ?p Delegate01 (now_v7 example_host 0) 20 = Some r"
    "resp_kind r = DelegationKind" by (auto split: option.splits)
  with delegated_responsibility_narrows [OF int] show ?thesis by blast
qed

theorem policy_no_self_escalation_witness:
  "set (responsibilities example_host
       (fst (policy_apply example_host Approver01 example_grant [10] synthetic_policy)) Approver01 20)
   \<subseteq> set (responsibilities example_host synthetic_policy Approver01 20)"
  by (rule policy_no_self_escalation [OF ok_pair [OF example_grant_ok]])

theorem policy_no_lost_update_witness:
  "\<exists>e. snd (policy_step example_host example_grant_call
       (fst (policy_step example_host example_grant_call synthetic_policy))) = Inl e"
proof -
  have "is_ok (snd (policy_step example_host example_grant_call synthetic_policy))" by code_simp
  then obtain r where "snd (policy_step example_host example_grant_call synthetic_policy) = Inr r"
    by (auto simp: is_ok_iff)
  from policy_no_lost_update [OF this, of example_grant_call "[]"] show ?thesis by simp
qed

theorem policy_command_authority_witness:
  "\<exists>v. find_assignment synthetic_policy APPROVER_MANAGEMENT_ASSIGNMENT_ID = Some v
     \<and> ra_principal v = Approver01 \<and> assignment_effective example_host synthetic_policy v 10"
  using policy_command_authority [OF ok_pair [OF example_grant_ok]]
  by (auto simp: example_grant_def example_context_def parse_instant_def example_host_def
      FIXTURE_VALID_FROM_def lit_def)

theorem policy_history_safe_witness:
  "policy_inv example_host (run_machine (policy_step example_host) [example_grant_call] synthetic_policy)"
  by (rule policy_history_safe [OF example_roundtrip synthetic_inv])

theorem policy_revocation_final_witness:
  "responsibility example_host (fst (policy_apply example_host Approver01
     (RevokeRoleAssignment (example_context APPROVER_MANAGEMENT_ASSIGNMENT_ID) SALES_ASSIGNMENT_ID
       (lit ''because'')) [10] synthetic_policy)) Sales01 SALES_ASSIGNMENT_ID 20 = None"
  using policy_revocation_final [OF ok_pair [OF example_revoke_ok], of "[]" Sales01 20] by simp

theorem policy_view_disclosure_witness:
  "\<exists>view. policy_view example_host synthetic_policy Sales01 10 = Inr view
     \<and> set (ov_role_assignments view) = {v \<in> set (pol_role_assignments synthetic_policy).
          ra_principal v = Sales01}"
proof -
  have "case policy_view example_host synthetic_policy Sales01 10 of
      Inl _ \<Rightarrow> False | Inr view \<Rightarrow> \<not> ov_can_manage view" by code_simp
  then obtain view where "policy_view example_host synthetic_policy Sales01 10 = Inr view"
    "\<not> ov_can_manage view" by (auto split: sum.splits)
  with policy_view_disclosure [OF this(1)] show ?thesis by auto
qed

end
