(* ===== verification/Workflow_Examples.thy ===== *)
theory Workflow_Examples
  imports Workflow_Disclosure Organization_Examples
begin

text \<open>
  Concrete states of the synthetic workflow and operations on them, evaluated in the kernel: a draft
  that is submitted, a registered evidence on which an agent execution is requested, and a running
  execution that is finished or interrupted. Each property of the workflow that has hypotheses is
  applied at an input where they hold.
\<close>

definition example_start :: Workflow where
  "example_start = with_authority (synthetic (Some 77)) synthetic_policy 10"

definition sales_context :: "uuid \<Rightarrow> CommandContext" where
  "sales_context operation =
     \<lparr>cc_operation_id = operation, cc_expected_revision = 0, cc_acting_assignment_id = SALES_ASSIGNMENT_ID\<rparr>"

subsection \<open>A submission\<close>

definition example_drafted :: Workflow where
  "example_drafted = example_start\<lparr>wf_artifacts :=
     [\<lparr>art_id = 21, art_task_id = SALES_TASK_ID, art_attempt_id = SALES_ATTEMPT_ID, art_revision = 3,
       art_schema_id = TEXT_SCHEMA_ID, art_value = Some \<lparr>tv_text = lit ''draft''\<rparr>,
       art_visibility = lit ''work_item_private'', art_file = None, art_derived_from = None\<rparr>]\<rparr>"

definition example_submit :: Command where
  "example_submit = Submit SALES_TASK_ID (sales_context 0x01900000000070008000000000000d02)
     [\<lparr>as_artifact_id = 21, as_revision = 3\<rparr>] None [] [] []"

definition example_submitted :: Workflow where
  "example_submitted = fst (workflow_apply example_host Sales01 example_submit [12] example_drafted)"

lemma example_submit_succeeds: "is_ok (snd (workflow_apply example_host Sales01 example_submit [12] example_drafted))"
  by code_simp

lemma example_submit_ok:
  obtains r where "workflow_apply example_host Sales01 example_submit [12] example_drafted = (example_submitted, Inr r)"
  using ok_pair [OF example_submit_succeeds] unfolding example_submitted_def by blast

lemma example_drafted_sound: "validate_integrity example_host example_drafted = Inr ()"
  by (rule example_submit_ok) (simp add: apply_kept)

lemma example_history: "(work_step example_host)\<^sup>*\<^sup>* example_drafted example_submitted"
  by (rule example_submit_ok) (auto intro!: r_into_rtranclp work_step.applied [where ids = "now_v7 example_host"])

lemma example_drafted_states: "states_of example_drafted = (Active, None)"
  by (simp add: states_of_def example_drafted_def example_start_def with_authority_def attach_authority_def synthetic_def)

subsection \<open>An agent execution\<close>

definition example_evidence :: EvidenceRecord where
  "example_evidence =
     \<lparr>ev_id = 31, ev_revision = 1, ev_context_id = CONTEXT_ID, ev_task_id = SALES_TASK_ID,
      ev_attempt_id = SALES_ATTEMPT_ID, ev_created_by = principal_id Sales01,
      ev_acting_assignment_id = SALES_ASSIGNMENT_ID, ev_origin = lit ''human'',
      ev_source =
        \<lparr>es_source_ref = \<lparr>sr_provider_id = lit ''document'', sr_resource_id = 77, sr_revision_id = 1, sr_version_id = 2\<rparr>,
         es_authoritative_locator = \<lparr>al_kind = lit ''contentItem'', al_content_item_id = 3, al_representation_id = 4\<rparr>\<rparr>,
      ev_uncertainty = [], ev_conflict_references = [], ev_relevant_location_verified = False,
      ev_policy_disposition = lit ''reference_only'', ev_relevant_location = lit ''page 1'',
      ev_fragment_omission_reason = lit ''not_retained'', ev_coverage = lit ''unknown'',
      ev_retrieved_at = [11], ev_recorded_at = [11], ev_provider_checked_at = [11],
      ev_visibility = lit ''work_item_private''\<rparr>"

definition example_evidenced :: Workflow where
  "example_evidenced = example_start\<lparr>wf_evidence := [example_evidence]\<rparr>"

definition example_request :: Command where
  "example_request = RequestAgentExecution SALES_TASK_ID (sales_context 0x01900000000070008000000000000d04)
     SALES_ATTEMPT_ID (lit ''check'') [revision_ref 31 1]"

definition example_requested :: Workflow where
  "example_requested = fst (workflow_apply example_host Sales01 example_request [13] example_evidenced)"

lemma example_request_succeeds: "is_ok (snd (workflow_apply example_host Sales01 example_request [13] example_evidenced))"
  by code_simp

text \<open>The execution running, as a started request leaves it.\<close>

definition example_running :: Workflow where
  "example_running = example_evidenced\<lparr>wf_revision := 2,
     wf_source := (wf_source example_evidenced)\<lparr>wi_revision := 1\<rparr>,
     wf_agent_executions :=
       [\<lparr>ax_id = 0x01900000000070008000000000000d04, ax_context_id = CONTEXT_ID, ax_work_item_id = SALES_TASK_ID,
         ax_attempt_id = SALES_ATTEMPT_ID, ax_requested_by = Sales01,
         ax_requester_responsibility = SALES_ASSIGNMENT_ID, ax_executed_by = SYNTHETIC_EXECUTOR,
         ax_executor_invocation_kind = lit ''agent'', ax_provider_principal_bindings = [document_binding],
         ax_effective_context_revision = 2, ax_task_revision = 1, ax_purpose = lit ''check'',
         ax_evidence_revision_refs = [revision_ref 31 1], ax_status = Running, ax_started_at = [14],
         ax_ended_at = None, ax_result = None, ax_failure_code = None\<rparr>]\<rparr>"

definition example_dispatch :: AgentDispatchContext where
  "example_dispatch = scope_of (hd (wf_agent_executions example_running)) [example_evidence]"

definition example_output :: AgentOutput where
  "example_output = referenced_finding example_dispatch (lit ''summary'') (lit ''claim'') [lit ''unsure'']"

lemma example_finish_succeeds:
  "is_ok (snd (finish_agent_execution example_host example_dispatch example_output [15] example_running))"
  by code_simp

lemma example_running_sound: "validate_integrity example_host example_running = Inr ()"
  by code_simp

subsection \<open>Witnesses\<close>

theorem workflow_integrity_history_witness: "validate_integrity example_host example_submitted = Inr ()"
  by (rule workflow_integrity_history [OF example_history example_drafted_sound])

theorem workflow_history_append_only_witness: "workflow_extends example_drafted example_submitted"
  by (rule workflow_history_append_only [OF example_history example_drafted_sound])

theorem workflow_no_lost_update_witness:
  "\<exists>e. snd (apply_call example_host (now_v7 example_host, Sales01, example_submit, [20])
     (run_machine (apply_call example_host) [] example_submitted)) = Inl e"
proof (rule example_submit_ok)
  fix r
  assume "workflow_apply example_host Sales01 example_submit [12] example_drafted = (example_submitted, Inr r)"
  then have "workflow_apply (example_host\<lparr>now_v7 := now_v7 example_host\<rparr>) Sales01 example_submit [12] example_drafted
      = (example_submitted, Inr r)" by simp
  moreover have "\<not> cancels example_submit" by (simp add: example_submit_def)
  ultimately show ?thesis using workflow_no_lost_update by blast
qed

theorem workflow_refines_task_machine_witness: "task_move\<^sup>*\<^sup>* (Active, None) (states_of example_submitted)"
  using workflow_refines_task_machine [OF example_history example_drafted_sound] by (simp add: example_drafted_states)

theorem workflow_one_open_task_witness: "one_open (states_of example_submitted)"
  by (rule workflow_one_open_task [OF example_history example_drafted_sound])
    (simp add: example_drafted_states one_open_def)

theorem workflow_command_authority_witness:
  "\<exists>resp. responsibility example_host (workflow_policy example_drafted) Sales01 SALES_ASSIGNMENT_ID 12 = Some resp
     \<and> allows resp WorkSubmit"
proof (rule example_submit_ok)
  fix r
  assume "workflow_apply example_host Sales01 example_submit [12] example_drafted = (example_submitted, Inr r)"
  moreover have "parse_instant example_host [12] = Inr 12" by code_simp
  moreover have "cc_acting_assignment_id (command_context example_submit) = SALES_ASSIGNMENT_ID"
    "required_action example_submit = WorkSubmit" by (simp_all add: example_submit_def sales_context_def)
  ultimately show ?thesis
    using workflow_command_authority [of example_host Sales01 example_submit "[12]" example_drafted example_submitted r]
    by auto
qed

theorem submit_pins_selection_witness:
  "\<exists>s p. wf_snapshots example_submitted = wf_snapshots example_drafted @ [s] \<and> snap_artifacts s = [p]
     \<and> pinned_from example_drafted \<lparr>as_artifact_id = 21, as_revision = 3\<rparr> p"
proof (rule example_submit_ok)
  fix r
  assume "workflow_apply example_host Sales01 example_submit [12] example_drafted = (example_submitted, Inr r)"
  from submit_pins_selection [OF this [unfolded example_submit_def]] show ?thesis
    by (auto simp: list_all2_Cons1)
qed

theorem submission_self_contained_witness:
  "\<exists>s. wf_snapshots example_submitted = wf_snapshots example_drafted @ [s]
     \<and> self_contained example_drafted (snap_evidence_revision_refs s) (snap_finding_revision_refs s)
         (snap_decision_revision_refs s)"
proof (rule example_submit_ok)
  fix r
  assume "workflow_apply example_host Sales01 example_submit [12] example_drafted = (example_submitted, Inr r)"
  from submission_self_contained [OF this [unfolded example_submit_def]] show ?thesis by blast
qed

theorem agent_executions_current_witness:
  "distinct (map ax_work_item_id (filter (\<lambda>e. is_active (ax_status e)) (wf_agent_executions example_requested)))"
  using agent_executions_current [OF ok_pair [OF example_request_succeeds]] by (simp add: example_requested_def)

theorem interrupt_ends_own_executions_witness:
  "\<exists>w'. interrupt_agent_executions Sales01 [16] example_running = (w', Inr 1)
     \<and> (\<forall>e\<in>set (wf_agent_executions w'). ax_requested_by e = Sales01 \<longrightarrow> \<not> is_active (ax_status e))"
proof -
  have "snd (interrupt_agent_executions Sales01 [16] example_running) = Inr 1" by code_simp
  then obtain w' where "interrupt_agent_executions Sales01 [16] example_running = (w', Inr 1)"
    by (cases "interrupt_agent_executions Sales01 [16] example_running") simp
  with interrupt_ends_own_executions [OF example_running_sound this] show ?thesis by blast
qed

theorem agent_finish_confined_witness:
  "\<exists>w' e. finish_agent_execution example_host example_dispatch example_output [15] example_running = (w', Inr e)
     \<and> ax_status e = Succeeded \<and> wf_artifacts w' = wf_artifacts example_running"
  using agent_finish_confined [OF ok_pair [OF example_finish_succeeds]] ok_pair [OF example_finish_succeeds] by blast

theorem drafts_of_other_attempts_kept_witness:
  "filter (\<lambda>a. art_attempt_id a \<noteq> wi_attempt_id (wf_source example_drafted)) (wf_artifacts example_submitted)
   = filter (\<lambda>a. art_attempt_id a \<noteq> wi_attempt_id (wf_source example_drafted)) (wf_artifacts example_drafted)"
  by (rule example_submit_ok) (rule drafts_of_other_attempts_kept)

theorem private_work_disclosure_witness:
  "\<exists>a. artifact example_host example_drafted Sales01 21 = Inr a
     \<and> current_reader example_host example_drafted Sales01 (art_task_id a) (art_attempt_id a)"
proof -
  have "is_ok (artifact example_host example_drafted Sales01 21)" by code_simp
  then obtain a where "artifact example_host example_drafted Sales01 21 = Inr a"
    by (auto simp: is_ok_iff)
  with private_work_disclosure show ?thesis by blast
qed

theorem from_fixture_sound_witness:
  "\<exists>w. from_fixture example_host (CONTEXT_FIXTURES ! 2) None (minutes 90) = Inr w
     \<and> validate_integrity example_host w = Inr ()"
proof -
  have "CONTEXT_FIXTURES ! 2 \<in> set CONTEXT_FIXTURES" by (simp add: CONTEXT_FIXTURES_def)
  moreover have "is_ok (format_instant example_host (minutes 90))" by code_simp
  moreover have "\<forall>m. cf_start (CONTEXT_FIXTURES ! 2) = ReadyDueInMinutes m \<longrightarrow>
      is_ok (format_instant example_host (minutes 90 + minutes m))"
    by (simp add: CONTEXT_FIXTURES_def minutes_def format_instant_def example_host_def)
  ultimately show ?thesis using from_fixture_sound [OF _ example_roundtrip] by blast
qed

end
