(* ===== verification/Doc_Values.thy ===== *)
theory Doc_Values
  imports Prelude
begin

text \<open>
  The value types of \<open>document-domain\<close>: its error type (\<open>error.rs\<close>), version
  numbers and titles (\<open>document.rs\<close>), principals (\<open>principal.rs\<close>), the parts of
  a stored file (\<open>file.rs\<close>), metadata (\<open>metadata.rs\<close>), resource references
  (\<open>resource_ref.rs\<close>), folder names (\<open>folder.rs\<close>) and logical paths
  (\<open>versioning.rs\<close>). A newtype is a datatype with one constructor; its \<open>new\<close> is a
  function that returns it or a \<open>DomainError\<close>.

  The typed identifiers of \<open>ids.rs\<close> are all \<open>uuid\<close>. Unicode normalization is a
  crate outside the repository and is the argument \<open>nfc\<close>. A JSON value is the
  tree \<open>serde_json\<close> documents, an object as the list of its members.
\<close>

subsection \<open>Errors\<close>

datatype DomainError = InvalidVersionNo | InvalidDocumentRevisionNumber
  | InvalidDocumentMetadataSnapshot | InvalidContentHash | InvalidFileSize | BlankTitle
  | InvalidStorageKey | BlankIdentityProvider | BlankPrincipalId | BlankMediaType
  | BlankOriginalFilename | VersionDocumentMismatch | CurrentVersionAlreadySet | VersionNotWorking
  | RevisionOverflow | InvalidLogicalPath | InvalidContentManifest | DuplicateContentItemKey
  | InvalidSemanticFormat | InvalidInspectionProfile | NoCurrentPublishedVersion
  | ExistingWorkingVersion | StaleVersionBase | VersionNotPublished | InvalidRestorationCandidate
  | InvalidPersistedState | InvalidPolicySubject | InvalidPolicyGrant | EmptyExplicitPolicy
  | DuplicatePolicySubject | InvalidFolderName

subsection \<open>Numbers, titles and principals\<close>

datatype VersionNo = VersionNo (version_no_get: int)

definition VersionNo_new :: "int \<Rightarrow> DomainError + VersionNo" where
  "VersionNo_new value = (if 0 < value then Inr (VersionNo value) else Inl InvalidVersionNo)"

datatype Title = Title (title_as_str: ustr)

definition Title_new :: "ustr \<Rightarrow> DomainError + Title" where
  "Title_new value = (let trimmed = trim value in if trimmed = [] then Inl BlankTitle else Inr (Title trimmed))"

record PrincipalRef =
  pr_identity_provider :: ustr
  pr_principal_id :: ustr

definition PrincipalRef_new :: "ustr \<Rightarrow> ustr \<Rightarrow> DomainError + PrincipalRef" where
  "PrincipalRef_new provider subject =
     (if trim provider = [] then Inl BlankIdentityProvider
      else if trim subject = [] then Inl BlankPrincipalId
      else Inr \<lparr>pr_identity_provider = trim provider, pr_principal_id = trim subject\<rparr>)"

subsection \<open>Files\<close>

datatype ContentHash = ContentHash (hash_bytes: "int list")

definition from_slice :: "int list \<Rightarrow> DomainError + ContentHash" where
  "from_slice value = (if length value = 32 then Inr (ContentHash value) else Inl InvalidContentHash)"

datatype FileSize = FileSize (file_size_get: int)

definition FileSize_new :: "int \<Rightarrow> DomainError + FileSize" where
  "FileSize_new value = (if 0 \<le> value then Inr (FileSize value) else Inl InvalidFileSize)"

text \<open>\<open>str::split\<close> with a character predicate: the pieces between the separators, never an empty list.\<close>

fun split_on :: "(uchar \<Rightarrow> bool) \<Rightarrow> ustr \<Rightarrow> ustr list" where
  "split_on p [] = [[]]"
| "split_on p (c # cs) =
     (if p c then [] # split_on p cs
      else (case split_on p cs of [] \<Rightarrow> [[c]] | s # ss \<Rightarrow> (c # s) # ss))"

definition slash :: "uchar \<Rightarrow> bool" where
  "slash c \<longleftrightarrow> c = 47"

definition slash_or_backslash :: "uchar \<Rightarrow> bool" where
  "slash_or_backslash c \<longleftrightarrow> c = 47 \<or> c = 92"

definition starts_with :: "uchar \<Rightarrow> ustr \<Rightarrow> bool" where
  "starts_with c s \<longleftrightarrow> (case s of [] \<Rightarrow> False | d # _ \<Rightarrow> d = c)"

definition ambiguous_segment :: "ustr \<Rightarrow> bool" where
  "ambiguous_segment s \<longleftrightarrow> s = [] \<or> s = lit ''.'' \<or> s = lit ''..''"

datatype StorageKey = StorageKey (storage_key_as_str: ustr)

definition StorageKey_new :: "ustr \<Rightarrow> DomainError + StorageKey" where
  "StorageKey_new value =
     (if value = [] \<or> starts_with 47 value \<or> starts_with 92 value then Inl InvalidStorageKey
      else if list_ex ambiguous_segment (split_on slash_or_backslash value) then Inl InvalidStorageKey
      else Inr (StorageKey value))"

datatype MediaType = MediaType (media_type_as_str: ustr)

definition MediaType_new :: "ustr \<Rightarrow> DomainError + MediaType" where
  "MediaType_new value = (if trim value = [] then Inl BlankMediaType else Inr (MediaType (trim value)))"

record StoredFileDescriptor =
  sfd_storage_key :: StorageKey
  sfd_content_hash :: ContentHash
  sfd_size_bytes :: FileSize
  sfd_media_type :: MediaType

datatype FileRole = Primary | Attachment

record FileObject =
  fo_file_id :: uuid
  fo_content_hash :: ContentHash
  fo_media_type :: MediaType
  fo_size_bytes :: FileSize
  fo_storage_key :: StorageKey
  fo_created_at :: instant

definition FileObject_new :: "uuid \<Rightarrow> StoredFileDescriptor \<Rightarrow> instant \<Rightarrow> FileObject" where
  "FileObject_new file_id stored created_at =
     \<lparr>fo_file_id = file_id, fo_content_hash = sfd_content_hash stored,
      fo_media_type = sfd_media_type stored, fo_size_bytes = sfd_size_bytes stored,
      fo_storage_key = sfd_storage_key stored, fo_created_at = created_at\<rparr>"

record VersionFile =
  vf_document_version_id :: uuid
  vf_file_id :: uuid
  vf_role :: FileRole
  vf_ordinal :: int
  vf_original_filename :: ustr

definition VersionFile_primary :: "uuid \<Rightarrow> uuid \<Rightarrow> ustr \<Rightarrow> VersionFile" where
  "VersionFile_primary version_id file_id name =
     \<lparr>vf_document_version_id = version_id, vf_file_id = file_id, vf_role = Primary,
      vf_ordinal = 0, vf_original_filename = name\<rparr>"

definition restore_primary :: "uuid \<Rightarrow> uuid \<Rightarrow> ustr \<Rightarrow> DomainError + VersionFile" where
  "restore_primary version_id file_id name =
     (if trim name = [] then Inl BlankOriginalFilename
      else Inr (VersionFile_primary version_id file_id name))"

subsection \<open>Metadata and references\<close>

datatype Value = VNull | VBool bool | VNumber ustr | VString ustr | VArray "Value list"
  | VObject "(ustr \<times> Value) list"

datatype Metadata = Metadata (as_map: "(ustr \<times> Value) list")

datatype ResourceRef = RefDocument uuid | RefFolder uuid | RefAccessPolicy uuid

datatype PolicyTarget = TargetDocument uuid | TargetFolder uuid

fun resource_of_target :: "PolicyTarget \<Rightarrow> ResourceRef" where
  "resource_of_target (TargetDocument i) = RefDocument i"
| "resource_of_target (TargetFolder i) = RefFolder i"

subsection \<open>Folder names and logical paths\<close>

definition normalize_folder_name :: "(ustr \<Rightarrow> ustr) \<Rightarrow> ustr \<Rightarrow> DomainError + ustr" where
  "normalize_folder_name nfc value =
     (if list_ex is_control value then Inl InvalidFolderName
      else let name = nfc (trim value) in
        if name = [] \<or> name = lit ''.'' \<or> name = lit ''..'' \<or> 255 < length name
           \<or> list_ex slash_or_backslash name
        then Inl InvalidFolderName else Inr name)"

datatype LogicalPath = LogicalPath (logical_path_as_str: ustr)

definition LogicalPath_new :: "(ustr \<Rightarrow> ustr) \<Rightarrow> ustr \<Rightarrow> DomainError + LogicalPath" where
  "LogicalPath_new nfc value =
     (let normalized = nfc value in
      if normalized = [] \<or> starts_with 47 normalized \<or> 92 \<in> set normalized
         \<or> list_ex is_control normalized \<or> u32_max < utf8_len normalized
         \<or> list_ex ambiguous_segment (split_on slash normalized)
      then Inl InvalidLogicalPath else Inr (LogicalPath normalized))"

subsection \<open>Splitting\<close>

lemma split_on_not_Nil [simp]: "split_on p s \<noteq> []"
  by (induction s) (auto split: list.splits)

lemma split_on_no_sep: "\<forall>c\<in>set s. \<not> p c \<Longrightarrow> split_on p s = [s]"
  by (induction s) auto

text \<open>A piece of a coarser split without any separator of a finer one is a piece of the finer split.\<close>

lemma split_on_finer_parts:
  assumes "\<And>c. q c \<Longrightarrow> p c"
  shows "((\<forall>c\<in>set (hd (split_on q s)). \<not> p c) \<longrightarrow> hd (split_on p s) = hd (split_on q s))
    \<and> (\<forall>t\<in>set (tl (split_on q s)). (\<forall>c\<in>set t. \<not> p c) \<longrightarrow> t \<in> set (tl (split_on p s)))"
proof (induction s)
  case (Cons c cs)
  obtain a as b bs where "split_on q cs = a # as" "split_on p cs = b # bs"
    by (metis list.exhaust split_on_not_Nil)
  with Cons.IH assms show ?case by auto
qed simp

lemma split_on_finer:
  assumes "\<And>c. q c \<Longrightarrow> p c" and "t \<in> set (split_on q s)" and "\<forall>c\<in>set t. \<not> p c"
  shows "t \<in> set (split_on p s)"
proof -
  obtain a as b bs where "split_on q s = a # as" "split_on p s = b # bs"
    by (metis list.exhaust split_on_not_Nil)
  with split_on_finer_parts [of q p s] assms show ?thesis by auto
qed

subsection \<open>Locating a path\<close>

text \<open>
  What a file system does with a relative path: it walks the segments from a
  directory, staying on \<open>.\<close> and on an empty segment and going up on \<open>..\<close>; a path
  that starts with a separator starts at the file system's root instead. Going up
  from there is an escape (\<open>None\<close>).
\<close>

fun walk :: "ustr list \<Rightarrow> ustr list \<Rightarrow> ustr list option" where
  "walk dir [] = Some dir"
| "walk dir (s # ss) =
     (if s = [] \<or> s = lit ''.'' then walk dir ss
      else if s = lit ''..'' then (if dir = [] then None else walk (butlast dir) ss)
      else walk (dir @ [s]) ss)"

definition locate :: "(uchar \<Rightarrow> bool) \<Rightarrow> ustr list \<Rightarrow> ustr \<Rightarrow> ustr list option" where
  "locate sep dir path =
     walk (if path \<noteq> [] \<and> sep (hd path) then [] else dir) (split_on sep path)"

lemma walk_plain: "\<not> list_ex ambiguous_segment ss \<Longrightarrow> walk dir ss = Some (dir @ ss)"
  by (induction ss arbitrary: dir) (auto simp: ambiguous_segment_def)

lemma locate_plain:
  assumes "\<not> list_ex ambiguous_segment (split_on p s)" and "s \<noteq> []" and "\<not> sep (hd s)"
    and "\<And>c. sep c \<Longrightarrow> p c" and "\<not> p 46"
  shows "locate sep dir s = Some (dir @ split_on sep s)"
proof -
  have "\<not> list_ex ambiguous_segment (split_on sep s)"
  proof
    assume "list_ex ambiguous_segment (split_on sep s)"
    then obtain t where t: "t \<in> set (split_on sep s)" "ambiguous_segment t" by (auto simp: list_ex_iff)
    then have "\<forall>c\<in>set t. \<not> p c" using assms(5) by (auto simp: ambiguous_segment_def lit_def)
    with split_on_finer [of sep p t s] assms(1,4) t show False by (auto simp: list_ex_iff)
  qed
  with assms show ?thesis by (simp add: locate_def walk_plain)
qed

lemma not_starts_with: "s \<noteq> [] \<Longrightarrow> \<not> starts_with c s \<longleftrightarrow> hd s \<noteq> c"
  by (cases s) (auto simp: starts_with_def)

text \<open>
  (C16) Accepted names cannot leave the place they are stored under: walked from any directory, by a
  file system that separates with slashes only or with slashes and backslashes, a storage key ends
  strictly below that directory, and so does a logical path; a normalized folder name is one step
  down. A logical path that was accepted is accepted again unchanged once normalization is
  idempotent.
\<close>

theorem accepted_paths_stay_inside:
  "(StorageKey_new raw_key = Inr (StorageKey key) \<longrightarrow>
      locate slash dir key = Some (dir @ split_on slash key)
      \<and> locate slash_or_backslash dir key = Some (dir @ split_on slash_or_backslash key))
   \<and> (LogicalPath_new nfc raw_path = Inr (LogicalPath path) \<longrightarrow>
      locate slash_or_backslash dir path = Some (dir @ split_on slash path)
      \<and> (nfc (nfc raw_path) = nfc raw_path \<longrightarrow> LogicalPath_new nfc path = Inr (LogicalPath path)))
   \<and> (normalize_folder_name nfc raw_name = Inr name \<longrightarrow>
      locate slash_or_backslash dir name = Some (dir @ [name]) \<and> length name \<le> 255)"
proof (intro conjI impI)
  assume "StorageKey_new raw_key = Inr (StorageKey key)"
  then have key: "key \<noteq> []" "hd key \<noteq> 47" "hd key \<noteq> 92"
    "\<not> list_ex ambiguous_segment (split_on slash_or_backslash key)"
    by (auto simp: StorageKey_new_def not_starts_with split: if_splits)
  then show "locate slash dir key = Some (dir @ split_on slash key)"
    "locate slash_or_backslash dir key = Some (dir @ split_on slash_or_backslash key)"
    by (auto intro!: locate_plain [of slash_or_backslash] simp: slash_def slash_or_backslash_def)
next
  assume new: "LogicalPath_new nfc raw_path = Inr (LogicalPath path)"
  then have path: "path \<noteq> []" "hd path \<noteq> 47" "92 \<notin> set path"
    "\<not> list_ex ambiguous_segment (split_on slash path)"
    by (auto simp: LogicalPath_new_def Let_def not_starts_with split: if_splits)
  have same: "split_on slash_or_backslash path = split_on slash path"
    using path(3) by (induction path) (auto simp: slash_def slash_or_backslash_def)
  have "locate slash_or_backslash dir path = Some (dir @ split_on slash_or_backslash path)"
    using path by (intro locate_plain [of slash_or_backslash]) (auto simp: same slash_or_backslash_def dest: hd_in_set)
  with same show "locate slash_or_backslash dir path = Some (dir @ split_on slash path)" by simp
  assume "nfc (nfc raw_path) = nfc raw_path"
  with new show "LogicalPath_new nfc path = Inr (LogicalPath path)"
    by (auto simp: LogicalPath_new_def Let_def split: if_splits)
next
  assume "normalize_folder_name nfc raw_name = Inr name"
  then have name: "name \<noteq> []" "\<not> ambiguous_segment name" "\<forall>c\<in>set name. \<not> slash_or_backslash c"
    "length name \<le> 255"
    by (auto simp: normalize_folder_name_def Let_def ambiguous_segment_def list_ex_iff split: if_splits)
  then show "locate slash_or_backslash dir name = Some (dir @ [name])" "length name \<le> 255"
    using locate_plain [of slash_or_backslash name slash_or_backslash dir] split_on_no_sep [OF name(3)]
    by (auto simp: slash_or_backslash_def)
qed

text \<open>A key with two separators, a two-segment path and a folder name are accepted and located.\<close>

theorem accepted_paths_stay_inside_witness:
  "locate slash [lit ''root''] (lit ''objects/ab'') = Some [lit ''root'', lit ''objects'', lit ''ab'']
   \<and> locate slash_or_backslash [lit ''root''] (lit ''a/b'') = Some [lit ''root'', lit ''a'', lit ''b'']
   \<and> locate slash_or_backslash [lit ''root''] (lit ''Team'') = Some [lit ''root'', lit ''Team'']"
proof -
  have key: "StorageKey_new (lit ''objects/ab'') = Inr (StorageKey (lit ''objects/ab''))"
    and path: "LogicalPath_new id (lit ''a/b'') = Inr (LogicalPath (lit ''a/b''))"
    and name: "normalize_folder_name id (lit '' Team '') = Inr (lit ''Team'')"
    by code_simp+
  have split: "split_on slash (lit ''objects/ab'') = [lit ''objects'', lit ''ab'']"
    "split_on slash (lit ''a/b'') = [lit ''a'', lit ''b'']"
    by code_simp+
  show ?thesis
    using accepted_paths_stay_inside [of "lit ''objects/ab''" "lit ''objects/ab''" "[lit ''root'']" id
        "lit ''a/b''" "lit ''a/b''" "lit '' Team ''" "lit ''Team''"] key path name by (simp add: split)
qed

end
