(* ===== verification/Doc_Lifecycle.thy ===== *)
theory Doc_Lifecycle
  imports Doc_Values
begin

text \<open>
  Documents and their versions, \<open>document.rs\<close> of \<open>document-domain\<close>: creation,
  publication, end of publication, withdrawal, new working versions, rebasing and
  restoring from persistence. An operation that takes \<open>&mut self\<close> and
  \<open>&mut target\<close> returns the pair of both together with its result, so that what a
  failing call leaves behind is part of the model.

  The domain type holds one document and the version at hand; the repository
  keeps the other versions. The step relation \<open>doc_step\<close> runs the operations over
  a document with all its versions, each call on versions of that store, the way
  the services of \<open>document-application\<close> load and save them.
\<close>

subsection \<open>Data\<close>

datatype LifecycleState = Working | Published | Withdrawn

record PublishTransition =
  pt_resulting_document_revision :: int

record WithdrawTransition =
  wt_former_current_version_id :: "uuid option"
  wt_resulting_current_version_id :: "uuid option"
  wt_resulting_document_revision :: int

record EndPublicationTransition =
  ept_former_current_version_id :: "uuid option"
  ept_resulting_document_revision :: int

record Document =
  doc_document_id :: uuid
  doc_folder_id :: uuid
  doc_current_version_id :: "uuid option"
  doc_revision :: int
  doc_metadata :: Metadata
  doc_created_at :: instant

record RestoreDocument =
  rd_document_id :: uuid
  rd_folder_id :: uuid
  rd_current_version_id :: "uuid option"
  rd_revision :: int
  rd_metadata :: Metadata
  rd_created_at :: instant

record CreateWorkingVersion =
  cwv_document_version_id :: uuid
  cwv_document_id :: uuid
  cwv_version_no :: VersionNo
  cwv_base_document_version_id :: uuid
  cwv_title :: Title
  cwv_created_by :: PrincipalRef
  cwv_metadata :: Metadata
  cwv_created_at :: instant

record DocumentVersion =
  dv_document_version_id :: uuid
  dv_document_id :: uuid
  dv_version_no :: VersionNo
  dv_base_document_version_id :: "uuid option"
  dv_lifecycle_state :: LifecycleState
  dv_title :: Title
  dv_revision_reason :: "ustr option"
  dv_approved_at :: "instant option"
  dv_scheduled_publish_at :: "instant option"
  dv_published_at :: "instant option"
  dv_withdrawn_at :: "instant option"
  dv_effective_from :: "instant option"
  dv_effective_to :: "instant option"
  dv_created_by :: PrincipalRef
  dv_metadata :: Metadata
  dv_created_at :: instant

record RestoreDocumentVersion =
  rdv_document_version_id :: uuid
  rdv_document_id :: uuid
  rdv_version_no :: VersionNo
  rdv_base_document_version_id :: "uuid option"
  rdv_lifecycle_state :: LifecycleState
  rdv_title :: Title
  rdv_revision_reason :: "ustr option"
  rdv_approved_at :: "instant option"
  rdv_scheduled_publish_at :: "instant option"
  rdv_published_at :: "instant option"
  rdv_withdrawn_at :: "instant option"
  rdv_effective_from :: "instant option"
  rdv_effective_to :: "instant option"
  rdv_created_by :: PrincipalRef
  rdv_metadata :: Metadata
  rdv_created_at :: instant

record CreateInitialDocument =
  cid_document_id :: uuid
  cid_version_id :: uuid
  cid_file_id :: uuid
  cid_folder_id :: uuid
  cid_title :: Title
  cid_document_metadata :: Metadata
  cid_version_metadata :: Metadata
  cid_principal :: PrincipalRef
  cid_stored_file :: StoredFileDescriptor
  cid_original_filename :: ustr
  cid_created_at :: instant

record InitialDocument =
  init_document :: Document
  init_version :: DocumentVersion
  init_file :: FileObject
  init_version_file :: VersionFile

subsection \<open>Restoring\<close>

definition Document_restore :: "RestoreDocument \<Rightarrow> DomainError + Document" where
  "Document_restore input =
     (if rd_revision input < 0 then Inl InvalidPersistedState
      else Inr \<lparr>doc_document_id = rd_document_id input, doc_folder_id = rd_folder_id input,
        doc_current_version_id = rd_current_version_id input, doc_revision = rd_revision input,
        doc_metadata = rd_metadata input, doc_created_at = rd_created_at input\<rparr>)"

definition DocumentVersion_restore :: "RestoreDocumentVersion \<Rightarrow> DomainError + DocumentVersion" where
  "DocumentVersion_restore input =
     (if (version_no_get (rdv_version_no input) = 1) \<noteq> (rdv_base_document_version_id input = None)
         \<or> rdv_base_document_version_id input = Some (rdv_document_version_id input)
         \<or> (rdv_lifecycle_state input = Published \<and> rdv_published_at input = None)
         \<or> (rdv_lifecycle_state input = Withdrawn \<and> rdv_withdrawn_at input = None)
         \<or> (rdv_lifecycle_state input = Working
             \<and> (rdv_published_at input \<noteq> None \<or> rdv_withdrawn_at input \<noteq> None))
      then Inl InvalidPersistedState
      else Inr \<lparr>dv_document_version_id = rdv_document_version_id input,
        dv_document_id = rdv_document_id input, dv_version_no = rdv_version_no input,
        dv_base_document_version_id = rdv_base_document_version_id input,
        dv_lifecycle_state = rdv_lifecycle_state input, dv_title = rdv_title input,
        dv_revision_reason = rdv_revision_reason input, dv_approved_at = rdv_approved_at input,
        dv_scheduled_publish_at = rdv_scheduled_publish_at input,
        dv_published_at = rdv_published_at input, dv_withdrawn_at = rdv_withdrawn_at input,
        dv_effective_from = rdv_effective_from input, dv_effective_to = rdv_effective_to input,
        dv_created_by = rdv_created_by input, dv_metadata = rdv_metadata input,
        dv_created_at = rdv_created_at input\<rparr>)"

subsection \<open>Creation\<close>

definition new_working :: "CreateWorkingVersion \<Rightarrow> DomainError + DocumentVersion" where
  "new_working input =
     (if version_no_get (cwv_version_no input) \<le> 1
         \<or> cwv_document_version_id input = cwv_base_document_version_id input
      then Inl StaleVersionBase
      else Inr \<lparr>dv_document_version_id = cwv_document_version_id input,
        dv_document_id = cwv_document_id input, dv_version_no = cwv_version_no input,
        dv_base_document_version_id = Some (cwv_base_document_version_id input),
        dv_lifecycle_state = Working, dv_title = cwv_title input, dv_revision_reason = None,
        dv_approved_at = None, dv_scheduled_publish_at = None, dv_published_at = None,
        dv_withdrawn_at = None, dv_effective_from = None, dv_effective_to = None,
        dv_created_by = cwv_created_by input, dv_metadata = cwv_metadata input,
        dv_created_at = cwv_created_at input\<rparr>)"

definition InitialDocument_create :: "CreateInitialDocument \<Rightarrow> DomainError + InitialDocument" where
  "InitialDocument_create input =
     (if trim (cid_original_filename input) = [] then Inl BlankOriginalFilename
      else and_then (VersionNo_new 1) (\<lambda>version_no. Inr
       \<lparr>init_document = \<lparr>doc_document_id = cid_document_id input, doc_folder_id = cid_folder_id input,
          doc_current_version_id = None, doc_revision = 0, doc_metadata = cid_document_metadata input,
          doc_created_at = cid_created_at input\<rparr>,
        init_version = \<lparr>dv_document_version_id = cid_version_id input,
          dv_document_id = cid_document_id input, dv_version_no = version_no,
          dv_base_document_version_id = None, dv_lifecycle_state = Working,
          dv_title = cid_title input, dv_revision_reason = None, dv_approved_at = None,
          dv_scheduled_publish_at = None, dv_published_at = None, dv_withdrawn_at = None,
          dv_effective_from = None, dv_effective_to = None, dv_created_by = cid_principal input,
          dv_metadata = cid_version_metadata input, dv_created_at = cid_created_at input\<rparr>,
        init_file = FileObject_new (cid_file_id input) (cid_stored_file input) (cid_created_at input),
        init_version_file =
          VersionFile_primary (cid_version_id input) (cid_file_id input) (cid_original_filename input)\<rparr>))"

subsection \<open>Transitions\<close>

definition publish_initial_version ::
  "instant \<Rightarrow> Document \<Rightarrow> DocumentVersion
     \<Rightarrow> (Document \<times> DocumentVersion) \<times> (DomainError + PublishTransition)" where
  "publish_initial_version published_at d target =
     (if dv_document_id target \<noteq> doc_document_id d then ((d, target), Inl VersionDocumentMismatch)
      else if doc_current_version_id d \<noteq> None then ((d, target), Inl CurrentVersionAlreadySet)
      else if dv_lifecycle_state target \<noteq> Working then ((d, target), Inl VersionNotWorking)
      else case checked_add_i64 (doc_revision d) 1 of
        None \<Rightarrow> ((d, target), Inl RevisionOverflow)
      | Some next_revision \<Rightarrow>
         ((d\<lparr>doc_current_version_id := Some (dv_document_version_id target), doc_revision := next_revision\<rparr>,
           target\<lparr>dv_lifecycle_state := Published, dv_published_at := Some published_at\<rparr>),
          Inr \<lparr>pt_resulting_document_revision = next_revision\<rparr>))"

definition validate_new_working ::
  "Document \<Rightarrow> DocumentVersion \<Rightarrow> DocumentVersion option \<Rightarrow> DomainError + unit" where
  "validate_new_working d base existing_working =
     (if dv_document_id base \<noteq> doc_document_id d then Inl VersionDocumentMismatch
      else if dv_lifecycle_state base \<noteq> Published then Inl VersionNotPublished
      else and_then (ok_or NoCurrentPublishedVersion (doc_current_version_id d)) (\<lambda>current.
        if dv_document_version_id base \<noteq> current then Inl StaleVersionBase
        else case existing_working of
          None \<Rightarrow> Inr ()
        | Some working \<Rightarrow>
            if dv_document_id working \<noteq> doc_document_id d then Inl VersionDocumentMismatch
            else if dv_lifecycle_state working = Working then Inl ExistingWorkingVersion
            else Inr ()))"

definition publish_next_version ::
  "instant \<Rightarrow> Document \<Rightarrow> DocumentVersion
     \<Rightarrow> (Document \<times> DocumentVersion) \<times> (DomainError + PublishTransition)" where
  "publish_next_version published_at d target =
     (if dv_document_id target \<noteq> doc_document_id d then ((d, target), Inl VersionDocumentMismatch)
      else if dv_lifecycle_state target \<noteq> Working then ((d, target), Inl VersionNotWorking)
      else case doc_current_version_id d of
        None \<Rightarrow> ((d, target), Inl NoCurrentPublishedVersion)
      | Some current \<Rightarrow>
        if dv_base_document_version_id target \<noteq> Some current \<or> dv_document_version_id target = current
        then ((d, target), Inl StaleVersionBase)
        else case checked_add_i64 (doc_revision d) 1 of
          None \<Rightarrow> ((d, target), Inl RevisionOverflow)
        | Some next_revision \<Rightarrow>
           ((d\<lparr>doc_current_version_id := Some (dv_document_version_id target), doc_revision := next_revision\<rparr>,
             target\<lparr>dv_lifecycle_state := Published, dv_published_at := Some published_at\<rparr>),
            Inr \<lparr>pt_resulting_document_revision = next_revision\<rparr>))"

definition end_publication ::
  "Document \<Rightarrow> DocumentVersion \<Rightarrow> Document \<times> (DomainError + EndPublicationTransition)" where
  "end_publication d current =
     (if dv_document_id current \<noteq> doc_document_id d then (d, Inl VersionDocumentMismatch)
      else case doc_current_version_id d of
        None \<Rightarrow> (d, Inl NoCurrentPublishedVersion)
      | Some current_id \<Rightarrow>
        if dv_document_version_id current \<noteq> current_id then (d, Inl StaleVersionBase)
        else if dv_lifecycle_state current \<noteq> Published then (d, Inl VersionNotPublished)
        else case checked_add_i64 (doc_revision d) 1 of
          None \<Rightarrow> (d, Inl RevisionOverflow)
        | Some next_revision \<Rightarrow>
           (d\<lparr>doc_current_version_id := None, doc_revision := next_revision\<rparr>,
            Inr \<lparr>ept_former_current_version_id = Some current_id,
              ept_resulting_document_revision = next_revision\<rparr>))"

text \<open>The version that becomes current when \<open>target\<close> is withdrawn.\<close>

definition resulting_current ::
  "Document \<Rightarrow> DocumentVersion \<Rightarrow> DocumentVersion option \<Rightarrow> DomainError + uuid option" where
  "resulting_current d target eligible_base =
     (if doc_current_version_id d = Some (dv_document_version_id target)
      then (case eligible_base of
          Some base \<Rightarrow>
            if Some (dv_document_version_id base) \<noteq> dv_base_document_version_id target
               \<or> dv_document_id base \<noteq> doc_document_id d
               \<or> dv_lifecycle_state base \<noteq> Published
            then Inl InvalidRestorationCandidate
            else Inr (Some (dv_document_version_id base))
        | None \<Rightarrow> Inr None)
      else if eligible_base \<noteq> None then Inl InvalidRestorationCandidate
      else Inr (doc_current_version_id d))"

definition withdraw_version ::
  "instant \<Rightarrow> DocumentVersion option \<Rightarrow> Document \<Rightarrow> DocumentVersion
     \<Rightarrow> (Document \<times> DocumentVersion) \<times> (DomainError + WithdrawTransition)" where
  "withdraw_version withdrawn_at eligible_base d target =
     (if dv_document_id target \<noteq> doc_document_id d then ((d, target), Inl VersionDocumentMismatch)
      else if dv_lifecycle_state target \<noteq> Published then ((d, target), Inl VersionNotPublished)
      else case resulting_current d target eligible_base of
        Inl e \<Rightarrow> ((d, target), Inl e)
      | Inr current \<Rightarrow>
        case checked_add_i64 (doc_revision d) 1 of
          None \<Rightarrow> ((d, target), Inl RevisionOverflow)
        | Some next_revision \<Rightarrow>
           ((d\<lparr>doc_current_version_id := current, doc_revision := next_revision\<rparr>,
             target\<lparr>dv_lifecycle_state := Withdrawn, dv_withdrawn_at := Some withdrawn_at\<rparr>),
            Inr \<lparr>wt_former_current_version_id = doc_current_version_id d,
              wt_resulting_current_version_id = current, wt_resulting_document_revision = next_revision\<rparr>))"

definition rebase_to_current ::
  "Document \<Rightarrow> DocumentVersion \<Rightarrow> DocumentVersion \<Rightarrow> DocumentVersion \<times> (DomainError + unit)" where
  "rebase_to_current d base v =
     (if dv_document_id v \<noteq> doc_document_id d \<or> dv_document_id base \<noteq> doc_document_id d
      then (v, Inl VersionDocumentMismatch)
      else if dv_lifecycle_state v \<noteq> Working then (v, Inl VersionNotWorking)
      else if dv_lifecycle_state base \<noteq> Published then (v, Inl VersionNotPublished)
      else if doc_current_version_id d \<noteq> Some (dv_document_version_id base)
              \<or> dv_document_version_id v = dv_document_version_id base
      then (v, Inl StaleVersionBase)
      else (v\<lparr>dv_base_document_version_id := Some (dv_document_version_id base)\<rparr>, Inr ()))"

definition restore_published ::
  "CreateInitialDocument \<Rightarrow> instant \<Rightarrow> DomainError + InitialDocument" where
  "restore_published input published_at =
     and_then (InitialDocument_create input) (\<lambda>aggregate.
       case publish_initial_version published_at (init_document aggregate) (init_version aggregate) of
         ((d, v), Inl e) \<Rightarrow> Inl e
       | ((d, v), Inr t) \<Rightarrow> Inr (aggregate\<lparr>init_document := d, init_version := v\<rparr>))"

end
