(* ===== verification/Doc_History.thy ===== *)
theory Doc_History
  imports Doc_Lifecycle
begin

text \<open>
  A document with all its versions as a state machine. \<open>doc_step\<close> is one
  successful domain operation on versions held in the store; \<open>life_move\<close> is the
  abstract life cycle it implements, on the identifiers and states alone. The
  interpretation of \<open>step_refinement\<close> gives the invariant and the simulation for
  whole histories.
\<close>

subsection \<open>The store and its steps\<close>

record doc_store =
  st_document :: Document
  st_versions :: "uuid \<rightharpoonup> DocumentVersion"

definition put_version :: "DocumentVersion \<Rightarrow> doc_store \<Rightarrow> doc_store" where
  "put_version v s = s\<lparr>st_versions := (st_versions s)(dv_document_version_id v \<mapsto> v)\<rparr>"

definition has_working :: "doc_store \<Rightarrow> bool" where
  "has_working s \<longleftrightarrow> (\<exists>i v. st_versions s i = Some v \<and> dv_lifecycle_state v = Working)"

definition initial_store :: "InitialDocument \<Rightarrow> doc_store" where
  "initial_store a = put_version (init_version a) \<lparr>st_document = init_document a, st_versions = Map.empty\<rparr>"

inductive doc_step :: "doc_store \<Rightarrow> doc_store \<Rightarrow> bool" where
  first: "doc_step s (put_version v' (s\<lparr>st_document := d'\<rparr>))"
    if "st_versions s i = Some v" "publish_initial_version at (st_document s) v = ((d', v'), Inr t)"
| succ: "doc_step s (put_version v' (s\<lparr>st_document := d'\<rparr>))"
    if "st_versions s i = Some v" "publish_next_version at (st_document s) v = ((d', v'), Inr t)"
| ended: "doc_step s (s\<lparr>st_document := d'\<rparr>)"
    if "st_versions s i = Some v" "end_publication (st_document s) v = (d', Inr e)"
| withdrawn: "doc_step s (put_version v' (s\<lparr>st_document := d'\<rparr>))"
    if "st_versions s i = Some v" "eligible = None \<or> (\<exists>j. eligible = st_versions s j)"
      "withdraw_version at eligible (st_document s) v = ((d', v'), Inr w)"
| opened: "doc_step s (put_version v s)"
    if "st_versions s j = Some base" "existing \<noteq> None \<longleftrightarrow> has_working s"
      "\<forall>x. existing = Some x \<longrightarrow> dv_lifecycle_state x = Working"
      "validate_new_working (st_document s) base existing = Inr ()"
      "new_working input = Inr v" "st_versions s (cwv_document_version_id input) = None"
      "cwv_document_id input = doc_document_id (st_document s)"
      "cwv_base_document_version_id input = dv_document_version_id base"
| rebased: "doc_step s (put_version v' s)"
    if "st_versions s i = Some v" "st_versions s j = Some base"
      "rebase_to_current (st_document s) base v = (v', Inr ())"

subsection \<open>The invariant\<close>

definition persisted_version :: "DocumentVersion \<Rightarrow> RestoreDocumentVersion" where
  "persisted_version v =
     \<lparr>rdv_document_version_id = dv_document_version_id v, rdv_document_id = dv_document_id v,
      rdv_version_no = dv_version_no v, rdv_base_document_version_id = dv_base_document_version_id v,
      rdv_lifecycle_state = dv_lifecycle_state v, rdv_title = dv_title v,
      rdv_revision_reason = dv_revision_reason v, rdv_approved_at = dv_approved_at v,
      rdv_scheduled_publish_at = dv_scheduled_publish_at v, rdv_published_at = dv_published_at v,
      rdv_withdrawn_at = dv_withdrawn_at v, rdv_effective_from = dv_effective_from v,
      rdv_effective_to = dv_effective_to v, rdv_created_by = dv_created_by v,
      rdv_metadata = dv_metadata v, rdv_created_at = dv_created_at v\<rparr>"

definition persisted_document :: "Document \<Rightarrow> RestoreDocument" where
  "persisted_document d =
     \<lparr>rd_document_id = doc_document_id d, rd_folder_id = doc_folder_id d,
      rd_current_version_id = doc_current_version_id d, rd_revision = doc_revision d,
      rd_metadata = doc_metadata d, rd_created_at = doc_created_at d\<rparr>"

text \<open>What the restoring checks and the life cycle say of one version.\<close>

definition version_ok :: "DocumentVersion \<Rightarrow> bool" where
  "version_ok v \<longleftrightarrow>
     (version_no_get (dv_version_no v) = 1) = (dv_base_document_version_id v = None)
     \<and> dv_base_document_version_id v \<noteq> Some (dv_document_version_id v)
     \<and> (case dv_lifecycle_state v of
          Working \<Rightarrow> dv_published_at v = None \<and> dv_withdrawn_at v = None
        | Published \<Rightarrow> dv_published_at v \<noteq> None \<and> dv_withdrawn_at v = None
        | Withdrawn \<Rightarrow> dv_published_at v \<noteq> None \<and> dv_withdrawn_at v \<noteq> None)"

definition doc_inv :: "doc_store \<Rightarrow> bool" where
  "doc_inv s \<longleftrightarrow>
     0 \<le> doc_revision (st_document s)
     \<and> (\<forall>i v. st_versions s i = Some v \<longrightarrow> dv_document_version_id v = i
          \<and> dv_document_id v = doc_document_id (st_document s) \<and> version_ok v
          \<and> (\<forall>b. dv_base_document_version_id v = Some b \<longrightarrow> st_versions s b \<noteq> None)
          \<and> (version_no_get (dv_version_no v) = 1 \<and> dv_lifecycle_state v = Working
              \<longrightarrow> doc_current_version_id (st_document s) = None))
     \<and> (\<forall>i. doc_current_version_id (st_document s) = Some i
          \<longrightarrow> (\<exists>v. st_versions s i = Some v \<and> dv_lifecycle_state v = Published))
     \<and> (\<forall>i j v x. st_versions s i = Some v \<and> st_versions s j = Some x
          \<and> dv_lifecycle_state v = Working \<and> dv_lifecycle_state x = Working \<longrightarrow> i = j)"

subsection \<open>The abstract life cycle\<close>

type_synonym life = "uuid option \<times> (uuid \<rightharpoonup> LifecycleState)"

inductive life_move :: "life \<Rightarrow> life \<Rightarrow> bool" where
  life_publish: "life_move (c, L) (Some i, L(i \<mapsto> Published))"
    if "L i = Some Working" "c \<noteq> Some i"
| life_end: "life_move (Some i, L) (None, L)"
    if "L i = Some Published"
| life_withdraw_other: "life_move (c, L) (c, L(i \<mapsto> Withdrawn))"
    if "L i = Some Published" "c \<noteq> Some i"
| life_withdraw_current: "life_move (Some i, L) (c', L(i \<mapsto> Withdrawn))"
    if "L i = Some Published" "\<And>b. c' = Some b \<Longrightarrow> b \<noteq> i \<and> L b = Some Published"
| life_open: "life_move (Some b, L) (Some b, L(i \<mapsto> Working))"
    if "L i = None" "L b = Some Published" "\<And>j. L j \<noteq> Some Working"
| life_edit: "life_move (Some b, L) (Some b, L)"
    if "L b = Some Published"

definition life_of :: "doc_store \<Rightarrow> life" where
  "life_of s =
     (doc_current_version_id (st_document s), map_option dv_lifecycle_state \<circ> st_versions s)"

subsection \<open>What each operation does when it succeeds\<close>

lemma publish_initial_ok:
  assumes "publish_initial_version at d v = ((d', v'), Inr t)"
  shows "dv_document_id v = doc_document_id d" "doc_current_version_id d = None"
    "dv_lifecycle_state v = Working" "doc_revision d < i64_max"
    "d' = d\<lparr>doc_current_version_id := Some (dv_document_version_id v), doc_revision := doc_revision d + 1\<rparr>"
    "v' = v\<lparr>dv_lifecycle_state := Published, dv_published_at := Some at\<rparr>"
    "pt_resulting_document_revision t = doc_revision d'"
  using assms by (auto simp: publish_initial_version_def checked_add_i64_Some split: if_splits option.splits)

lemma publish_next_ok:
  assumes "publish_next_version at d v = ((d', v'), Inr t)"
  shows "dv_document_id v = doc_document_id d" "dv_lifecycle_state v = Working"
    "doc_current_version_id d = dv_base_document_version_id v"
    "dv_base_document_version_id v \<noteq> None" "doc_current_version_id d \<noteq> Some (dv_document_version_id v)"
    "doc_revision d < i64_max"
    "d' = d\<lparr>doc_current_version_id := Some (dv_document_version_id v), doc_revision := doc_revision d + 1\<rparr>"
    "v' = v\<lparr>dv_lifecycle_state := Published, dv_published_at := Some at\<rparr>"
    "pt_resulting_document_revision t = doc_revision d'"
  using assms by (auto simp: publish_next_version_def checked_add_i64_Some split: if_splits option.splits)

lemma end_publication_ok:
  assumes "end_publication d v = (d', Inr e)"
  shows "dv_document_id v = doc_document_id d" "dv_lifecycle_state v = Published"
    "doc_current_version_id d = Some (dv_document_version_id v)" "doc_revision d < i64_max"
    "d' = d\<lparr>doc_current_version_id := None, doc_revision := doc_revision d + 1\<rparr>"
  using assms by (auto simp: end_publication_def checked_add_i64_Some split: if_splits option.splits)

lemma withdraw_ok:
  assumes "withdraw_version at base d v = ((d', v'), Inr w)"
  shows "dv_document_id v = doc_document_id d" "dv_lifecycle_state v = Published"
    "resulting_current d v base = Inr (doc_current_version_id d')" "doc_revision d < i64_max"
    "d' = d\<lparr>doc_current_version_id := doc_current_version_id d', doc_revision := doc_revision d + 1\<rparr>"
    "v' = v\<lparr>dv_lifecycle_state := Withdrawn, dv_withdrawn_at := Some at\<rparr>"
  using assms by (auto simp: withdraw_version_def checked_add_i64_Some split: if_splits option.splits sum.splits)

lemma rebase_ok:
  assumes "rebase_to_current d base v = (v', Inr ())"
  shows "dv_document_id v = doc_document_id d" "dv_lifecycle_state v = Working"
    "doc_current_version_id d = Some (dv_document_version_id base)" "dv_lifecycle_state base = Published"
    "dv_document_version_id v \<noteq> dv_document_version_id base"
    "v' = v\<lparr>dv_base_document_version_id := Some (dv_document_version_id base)\<rparr>"
  using assms by (auto simp: rebase_to_current_def split: if_splits)

lemma new_working_ok:
  assumes "new_working input = Inr v"
  shows "dv_document_version_id v = cwv_document_version_id input" "dv_document_id v = cwv_document_id input"
    "dv_lifecycle_state v = Working" "1 < version_no_get (dv_version_no v)"
    "dv_base_document_version_id v = Some (cwv_base_document_version_id input)"
    "cwv_document_version_id input \<noteq> cwv_base_document_version_id input"
    "dv_published_at v = None" "dv_withdrawn_at v = None"
  using assms by (auto simp: new_working_def split: if_splits)

lemma validate_new_working_ok:
  assumes "validate_new_working d base existing = Inr ()"
    and "\<forall>x. existing = Some x \<longrightarrow> dv_lifecycle_state x = Working"
  shows "dv_lifecycle_state base = Published" "existing = None"
    "doc_current_version_id d = Some (dv_document_version_id base)"
  using assms by (auto simp: validate_new_working_def result_simps split: if_splits option.splits)

lemma resulting_current_cases:
  assumes "resulting_current d v base = Inr c"
  shows "doc_current_version_id d \<noteq> Some (dv_document_version_id v) \<and> c = doc_current_version_id d
    \<or> doc_current_version_id d = Some (dv_document_version_id v)
      \<and> (c = None \<or> (\<exists>b. base = Some b \<and> c = Some (dv_document_version_id b)
           \<and> dv_lifecycle_state b = Published \<and> dv_base_document_version_id v = c))"
  using assms by (auto simp: resulting_current_def split: if_splits option.splits)

lemma put_version_simps [simp]:
  "st_document (put_version v s) = st_document s"
  "st_versions (put_version v s) = (st_versions s)(dv_document_version_id v \<mapsto> v)"
  by (simp_all add: put_version_def)

lemma doc_inv_version:
  assumes "doc_inv s" and "st_versions s i = Some v"
  shows "dv_document_version_id v = i" "dv_document_id v = doc_document_id (st_document s)" "version_ok v"
    "dv_base_document_version_id v = Some b \<Longrightarrow> st_versions s b \<noteq> None"
    "version_no_get (dv_version_no v) = 1 \<Longrightarrow> dv_lifecycle_state v = Working
       \<Longrightarrow> doc_current_version_id (st_document s) = None"
  using assms unfolding doc_inv_def by blast+

lemma doc_inv_current:
  assumes "doc_inv s" and "doc_current_version_id (st_document s) = Some i"
  shows "\<exists>v. st_versions s i = Some v \<and> dv_lifecycle_state v = Published"
  using assms unfolding doc_inv_def by blast

lemma doc_inv_one_working:
  assumes "doc_inv s" and "st_versions s i = Some v" and "dv_lifecycle_state v = Working"
    and "st_versions s j = Some x" and "dv_lifecycle_state x = Working"
  shows "i = j"
  using assms unfolding doc_inv_def by blast

subsection \<open>Every step keeps the invariant\<close>

lemma doc_inv_put:
  assumes "doc_inv s" and "doc_document_id d' = doc_document_id (st_document s)" and "0 \<le> doc_revision d'"
    and "dv_document_id v' = doc_document_id d'" and "version_ok v'"
    and "\<And>b. dv_base_document_version_id v' = Some b \<Longrightarrow> st_versions s b \<noteq> None"
    and "\<And>i v. st_versions s i = Some v \<Longrightarrow> i \<noteq> dv_document_version_id v' \<Longrightarrow>
       version_no_get (dv_version_no v) = 1 \<Longrightarrow> dv_lifecycle_state v = Working \<Longrightarrow> doc_current_version_id d' = None"
    and "version_no_get (dv_version_no v') = 1 \<Longrightarrow> dv_lifecycle_state v' = Working \<Longrightarrow>
       doc_current_version_id d' = None"
    and "\<And>i. doc_current_version_id d' = Some i \<Longrightarrow>
       (if i = dv_document_version_id v' then dv_lifecycle_state v' = Published
        else \<exists>v. st_versions s i = Some v \<and> dv_lifecycle_state v = Published)"
    and "\<And>i v. dv_lifecycle_state v' = Working \<Longrightarrow> st_versions s i = Some v \<Longrightarrow>
       dv_lifecycle_state v = Working \<Longrightarrow> i = dv_document_version_id v'"
  shows "doc_inv (put_version v' (s\<lparr>st_document := d'\<rparr>))"
  unfolding doc_inv_def
proof (intro conjI allI impI; (elim conjE)?)
  fix i v
  assume "st_versions (put_version v' (s\<lparr>st_document := d'\<rparr>)) i = Some v"
  then consider "i = dv_document_version_id v'" "v = v'" | "i \<noteq> dv_document_version_id v'" "st_versions s i = Some v"
    by (auto split: if_splits)
  note found = this
  show "dv_document_version_id v = i" using found doc_inv_version(1) [OF assms(1)] by cases simp_all
  show "dv_document_id v = doc_document_id (st_document (put_version v' (s\<lparr>st_document := d'\<rparr>)))"
    using found doc_inv_version(2) [OF assms(1)] assms(2,4) by cases simp_all
  show "version_ok v" using found doc_inv_version(3) [OF assms(1)] assms(5) by cases simp_all
  show "st_versions (put_version v' (s\<lparr>st_document := d'\<rparr>)) b \<noteq> None"
    if "dv_base_document_version_id v = Some b" for b
    using found doc_inv_version(4) [OF assms(1), of i v b] assms(6) that by cases simp_all
  show "doc_current_version_id (st_document (put_version v' (s\<lparr>st_document := d'\<rparr>))) = None"
    if "version_no_get (dv_version_no v) = 1" "dv_lifecycle_state v = Working"
    using found assms(7,8) that by cases simp_all
next
  fix i
  assume "doc_current_version_id (st_document (put_version v' (s\<lparr>st_document := d'\<rparr>))) = Some i"
  with assms(9) [of i]
  show "\<exists>v. st_versions (put_version v' (s\<lparr>st_document := d'\<rparr>)) i = Some v \<and> dv_lifecycle_state v = Published"
    by (auto split: if_splits)
next
  fix i j v x
  assume "st_versions (put_version v' (s\<lparr>st_document := d'\<rparr>)) i = Some v" "dv_lifecycle_state v = Working"
    "st_versions (put_version v' (s\<lparr>st_document := d'\<rparr>)) j = Some x" "dv_lifecycle_state x = Working"
  with assms(10) doc_inv_one_working [OF assms(1), of i v j x] show "i = j" by (simp split: if_splits)
qed (use assms(3) in simp)

lemma doc_inv_revision: "doc_inv s \<Longrightarrow> 0 \<le> doc_revision (st_document s)"
  by (simp add: doc_inv_def)

lemma version_ok_simps:
  "dv_lifecycle_state v = Working \<Longrightarrow> version_ok v \<Longrightarrow>
     version_ok (v\<lparr>dv_lifecycle_state := Published, dv_published_at := Some at\<rparr>)"
  "dv_lifecycle_state v = Published \<Longrightarrow> version_ok v \<Longrightarrow>
     version_ok (v\<lparr>dv_lifecycle_state := Withdrawn, dv_withdrawn_at := Some at\<rparr>)"
  by (auto simp: version_ok_def)

lemma published_kept:
  assumes "doc_inv s" and "st_versions s i = Some v" and "dv_lifecycle_state v = Working"
    and "dv_document_id v = doc_document_id (st_document s)"
  shows "doc_inv (put_version (v\<lparr>dv_lifecycle_state := Published, dv_published_at := Some at\<rparr>)
     (s\<lparr>st_document := (st_document s)\<lparr>doc_current_version_id := Some (dv_document_version_id v),
         doc_revision := doc_revision (st_document s) + 1\<rparr>\<rparr>))"
proof (rule doc_inv_put [OF assms(1)])
  note v = doc_inv_version [OF assms(1,2)]
  fix j x
  assume "st_versions s j = Some x" "dv_lifecycle_state x = Working"
    "j \<noteq> dv_document_version_id (v\<lparr>dv_lifecycle_state := Published, dv_published_at := Some at\<rparr>)"
  with doc_inv_one_working [OF assms(1-3)] v(1)
  show "doc_current_version_id ((st_document s)\<lparr>doc_current_version_id := Some (dv_document_version_id v),
      doc_revision := doc_revision (st_document s) + 1\<rparr>) = None" by auto
qed (use assms doc_inv_version [OF assms(1,2)] doc_inv_revision [OF assms(1)] in
    \<open>auto simp: version_ok_simps\<close>)

lemma withdrawn_kept:
  assumes "doc_inv s" and "st_versions s i = Some v" and "dv_lifecycle_state v = Published"
    and "eligible = None \<or> (\<exists>j. eligible = st_versions s j)"
    and "resulting_current (st_document s) v eligible = Inr c"
  shows "doc_inv (put_version (v\<lparr>dv_lifecycle_state := Withdrawn, dv_withdrawn_at := Some at\<rparr>)
     (s\<lparr>st_document := (st_document s)\<lparr>doc_current_version_id := c,
         doc_revision := doc_revision (st_document s) + 1\<rparr>\<rparr>))"
proof (rule doc_inv_put [OF assms(1)])
  note v = doc_inv_version [OF assms(1,2)]
  note c = resulting_current_cases [OF assms(5)]
  fix j x
  assume "st_versions s j = Some x" "version_no_get (dv_version_no x) = 1" "dv_lifecycle_state x = Working"
  then have "doc_current_version_id (st_document s) = None" by (rule doc_inv_version(5) [OF assms(1)])
  with c show "doc_current_version_id ((st_document s)\<lparr>doc_current_version_id := c,
      doc_revision := doc_revision (st_document s) + 1\<rparr>) = None" by auto
next
  fix j
  assume j: "doc_current_version_id ((st_document s)\<lparr>doc_current_version_id := c,
      doc_revision := doc_revision (st_document s) + 1\<rparr>) = Some j"
  have "version_ok v" by (rule doc_inv_version [OF assms(1,2)])
  then have "dv_base_document_version_id v \<noteq> Some (dv_document_version_id v)" by (simp add: version_ok_def)
  then have "j \<noteq> dv_document_version_id v
      \<and> (\<exists>x. st_versions s j = Some x \<and> dv_lifecycle_state x = Published)"
    using j assms(4) resulting_current_cases [OF assms(5)] doc_inv_current [OF assms(1), of j]
      doc_inv_version(1) [OF assms(1)] by fastforce
  then show "if j = dv_document_version_id (v\<lparr>dv_lifecycle_state := Withdrawn, dv_withdrawn_at := Some at\<rparr>)
      then dv_lifecycle_state (v\<lparr>dv_lifecycle_state := Withdrawn, dv_withdrawn_at := Some at\<rparr>) = Published
      else \<exists>x. st_versions s j = Some x \<and> dv_lifecycle_state x = Published" by simp
qed (use assms doc_inv_version [OF assms(1,2)] doc_inv_revision [OF assms(1)] in
    \<open>auto simp: version_ok_simps\<close>)

lemma rebased_kept:
  assumes "doc_inv s" and "st_versions s i = Some v" and "dv_lifecycle_state v = Working"
    and "st_versions s j = Some base" and "dv_document_version_id v \<noteq> dv_document_version_id base"
    and "doc_current_version_id (st_document s) = Some (dv_document_version_id base)"
  shows "doc_inv (put_version (v\<lparr>dv_base_document_version_id := Some (dv_document_version_id base)\<rparr>)
     (s\<lparr>st_document := st_document s\<rparr>))"
proof (rule doc_inv_put [OF assms(1)])
  note v = doc_inv_version [OF assms(1,2)] and base = doc_inv_version [OF assms(1,4)]
  have no: "version_no_get (dv_version_no v) \<noteq> 1" using v(5) assms(3,6) by auto
  then show "version_ok (v\<lparr>dv_base_document_version_id := Some (dv_document_version_id base)\<rparr>)"
    using v(3) assms(3,5) by (simp add: version_ok_def)
  show "dv_document_id (v\<lparr>dv_base_document_version_id := Some (dv_document_version_id base)\<rparr>)
      = doc_document_id (st_document s)" using v(2) by simp
  show "st_versions s b \<noteq> None"
    if "dv_base_document_version_id (v\<lparr>dv_base_document_version_id := Some (dv_document_version_id base)\<rparr>) = Some b" for b
    using that base(1) assms(4) by simp
  show "doc_current_version_id (st_document s) = None"
    if "version_no_get (dv_version_no (v\<lparr>dv_base_document_version_id := Some (dv_document_version_id base)\<rparr>)) = 1"
    using that no by simp
  show "k = dv_document_version_id (v\<lparr>dv_base_document_version_id := Some (dv_document_version_id base)\<rparr>)"
    if "st_versions s k = Some x" "dv_lifecycle_state x = Working" for k x
    using doc_inv_one_working [OF assms(1-3) that] v(1) by simp
  show "if k = dv_document_version_id (v\<lparr>dv_base_document_version_id := Some (dv_document_version_id base)\<rparr>)
      then dv_lifecycle_state (v\<lparr>dv_base_document_version_id := Some (dv_document_version_id base)\<rparr>) = Published
      else \<exists>v. st_versions s k = Some v \<and> dv_lifecycle_state v = Published"
    if "doc_current_version_id (st_document s) = Some k" for k
    using that doc_inv_current [OF assms(1) that] assms(5,6) by simp
qed (use doc_inv_revision [OF assms(1)] doc_inv_version(5) [OF assms(1)] in simp_all)

lemma same_document [simp]: "s\<lparr>st_document := st_document s\<rparr> = s"
  by simp

lemma doc_step_kept:
  assumes "doc_step s t" and "doc_inv s"
  shows "doc_inv t"
  using assms
proof cases
  case (first i v at d' v' t')
  note ok = publish_initial_ok [OF first(3)]
  show ?thesis using published_kept [OF assms(2) first(2) ok(3,1)] by (simp add: first(1) ok(5,6))
next
  case (succ i v at d' v' t')
  note ok = publish_next_ok [OF succ(3)]
  show ?thesis using published_kept [OF assms(2) succ(2) ok(2,1)] by (simp add: succ(1) ok(7,8))
next
  case (ended i v d' e)
  note ok = end_publication_ok [OF ended(3)]
  show ?thesis using assms(2) unfolding ended(1) ok(5) doc_inv_def by auto
next
  case (withdrawn i v eligible at d' v' w)
  note ok = withdraw_ok [OF withdrawn(4)]
  show ?thesis
    using withdrawn_kept [OF assms(2) withdrawn(2) ok(2) withdrawn(3) ok(3)] ok(5) by (simp add: withdrawn(1) ok(6))
next
  case (opened j base existing input v)
  note ok = new_working_ok [OF opened(6)] and valid = validate_new_working_ok [OF opened(5,4)]
  have "doc_inv (put_version v (s\<lparr>st_document := st_document s\<rparr>))"
  proof (rule doc_inv_put [OF assms(2)])
    fix i assume "doc_current_version_id (st_document s) = Some i"
    with doc_inv_current [OF assms(2) this] opened(7) ok(1)
    show "if i = dv_document_version_id v then dv_lifecycle_state v = Published
      else \<exists>v. st_versions s i = Some v \<and> dv_lifecycle_state v = Published" by auto
  qed (use opened ok valid doc_inv_version [OF assms(2)] doc_inv_revision [OF assms(2)] in
      \<open>auto simp: version_ok_def has_working_def\<close>)
  with opened(1) show ?thesis by simp
next
  case (rebased i v j base v')
  note ok = rebase_ok [OF rebased(4)]
  show ?thesis
    using rebased_kept [OF assms(2) rebased(2) ok(2) rebased(3) ok(5,3)] by (simp add: rebased(1) ok(6))
qed

subsection \<open>Every step is a move of the life cycle\<close>

lemma life_of_put:
  "life_of (put_version v' (s\<lparr>st_document := d'\<rparr>)) =
     (doc_current_version_id d', (snd (life_of s))(dv_document_version_id v' \<mapsto> dv_lifecycle_state v'))"
  by (auto simp: life_of_def)

lemma life_of_state: "st_versions s i = Some v \<Longrightarrow> snd (life_of s) i = Some (dv_lifecycle_state v)"
  by (simp add: life_of_def)

lemma doc_step_moves:
  assumes "doc_step s t" and "doc_inv s"
  shows "life_move (life_of s) (life_of t)"
proof -
  obtain c L where life: "life_of s = (c, L)" and c: "c = doc_current_version_id (st_document s)"
    and L: "\<And>i v. st_versions s i = Some v \<Longrightarrow> L i = Some (dv_lifecycle_state v)"
    and N: "\<And>i. st_versions s i = None \<Longrightarrow> L i = None"
    by (auto simp: life_of_def)
  note id = doc_inv_version(1) [OF assms(2)] and put = life_of_put [of _ _ s, unfolded life]
  from assms(1) show ?thesis
  proof cases
    case (first i v at d' v' t')
    note ok = publish_initial_ok [OF first(3)]
    show ?thesis using L [OF first(2)] id [OF first(2)] c ok life
      by (auto simp: first(1) put intro: life_move.intros)
  next
    case (succ i v at d' v' t')
    note ok = publish_next_ok [OF succ(3)]
    show ?thesis using L [OF succ(2)] id [OF succ(2)] c ok life
      by (auto simp: succ(1) put intro: life_move.intros)
  next
    case (ended i v d' e)
    note ok = end_publication_ok [OF ended(3)]
    show ?thesis using L [OF ended(2)] id [OF ended(2)] c ok life
      by (auto simp: ended(1) life_of_def intro: life_move.intros)
  next
    case (withdrawn i v eligible at d' v' w)
    note ok = withdraw_ok [OF withdrawn(4)]
    have pub: "L i = Some Published" "dv_document_version_id v = i"
      using L [OF withdrawn(2)] ok(2) id [OF withdrawn(2)] by simp_all
    have t: "life_of t = (doc_current_version_id d', L(i \<mapsto> Withdrawn))"
      using pub ok(6) by (simp add: withdrawn(1) put)
    show ?thesis
    proof (cases "c = Some i")
      case False
      then show ?thesis using resulting_current_cases [OF ok(3)] pub c life t
        by (auto intro: life_move.intros)
    next
      case True
      have "b \<noteq> i \<and> L b = Some Published" if "doc_current_version_id d' = Some b" for b
      proof -
        from that True pub(2) resulting_current_cases [OF ok(3)] c obtain x where
          x: "eligible = Some x" "b = dv_document_version_id x" "dv_lifecycle_state x = Published"
            "dv_base_document_version_id v = Some b" by auto
        then obtain j where "st_versions s j = Some x" using withdrawn(3) by auto
        with x id L doc_inv_version(3) [OF assms(2) withdrawn(2)] pub(2) show ?thesis
          by (auto simp: version_ok_def)
      qed
      with True life t pub(1) show ?thesis by (auto intro: life_withdraw_current)
    qed
  next
    case (opened j base existing input v)
    note ok = new_working_ok [OF opened(6)] and valid = validate_new_working_ok [OF opened(5,4)]
    have "L k \<noteq> Some Working" for k
    proof
      assume "L k = Some Working"
      then obtain x where "st_versions s k = Some x" "dv_lifecycle_state x = Working"
        using L [of k] N [of k] by (cases "st_versions s k") auto
      with opened(3) valid(2) show False by (auto simp: has_working_def)
    qed
    moreover have "life_of t = (c, L(dv_document_version_id v \<mapsto> Working))"
      using put [of v "st_document s"] ok(3) c by (simp add: opened(1))
    ultimately show ?thesis using L [OF opened(2)] id [OF opened(2)] N opened(7) ok(1) valid c life
      by (auto intro: life_open)
  next
    case (rebased i v j base v')
    note ok = rebase_ok [OF rebased(4)]
    have "life_of t = (c, L)"
      using put [of v' "st_document s"] L [OF rebased(2)] id [OF rebased(2)] ok c
      by (simp add: rebased(1) fun_upd_idem)
    then show ?thesis using L [OF rebased(3)] id [OF rebased(3)] ok c life by (auto intro: life_edit)
  qed
qed

interpretation document_life: step_refinement doc_step life_move life_of doc_inv
  by unfold_locales (auto intro: doc_step_kept doc_step_moves)

subsection \<open>Published versions do not change\<close>

definition frozen :: "DocumentVersion \<Rightarrow> DocumentVersion \<Rightarrow> bool" where
  "frozen v v' \<longleftrightarrow> v' = v \<or> dv_lifecycle_state v = Published
     \<and> (\<exists>at. v' = v\<lparr>dv_lifecycle_state := Withdrawn, dv_withdrawn_at := Some at\<rparr>)"

lemma frozen_trans: "frozen u v \<Longrightarrow> frozen v w \<Longrightarrow> frozen u w"
  by (auto simp: frozen_def)

lemma frozen_not_working: "frozen v v' \<Longrightarrow> dv_lifecycle_state v \<noteq> Working \<Longrightarrow> dv_lifecycle_state v' \<noteq> Working"
  by (auto simp: frozen_def)

lemma put_frozen:
  assumes "st_versions s i = Some v" and "st_versions s k = Some x" and "dv_document_version_id x' = k"
    and "i = k \<Longrightarrow> frozen v x'"
  shows "\<exists>v'. st_versions (put_version x' (s\<lparr>st_document := d\<rparr>)) i = Some v' \<and> frozen v v'"
  using assms by (cases "i = k") (auto simp: frozen_def)

lemma doc_step_frozen:
  assumes "doc_step s t" and "doc_inv s" and "st_versions s i = Some v" and "dv_lifecycle_state v \<noteq> Working"
  shows "\<exists>v'. st_versions t i = Some v' \<and> frozen v v'"
proof -
  note id = doc_inv_version(1) [OF assms(2)]
  from assms(1) show ?thesis
  proof cases
    case (first k x at d' x' t')
    note ok = publish_initial_ok [OF first(3)]
    show ?thesis unfolding first(1)
      by (rule put_frozen [OF assms(3) first(2)]) (use assms(3,4) first(2) id ok in auto)
  next
    case (succ k x at d' x' t')
    note ok = publish_next_ok [OF succ(3)]
    show ?thesis unfolding succ(1)
      by (rule put_frozen [OF assms(3) succ(2)]) (use assms(3,4) succ(2) id ok in auto)
  next
    case (ended k x d' e)
    then show ?thesis using assms(3) by (simp add: frozen_def)
  next
    case (withdrawn k x eligible at d' x' w)
    note ok = withdraw_ok(2,6) [OF withdrawn(4)]
    show ?thesis unfolding withdrawn(1)
    proof (rule put_frozen [OF assms(3) withdrawn(2)])
      show "dv_document_version_id x' = k" using id [OF withdrawn(2)] ok(2) by simp
      have "frozen x x'" unfolding frozen_def using ok by blast
      then show "i = k \<Longrightarrow> frozen v x'" using assms(3) withdrawn(2) by simp
    qed
  next
    case (opened j base existing input x)
    then show ?thesis using assms(3) new_working_ok(1) [OF opened(6)] by (auto simp: frozen_def)
  next
    case (rebased k x j base x')
    note ok = rebase_ok(2,6) [OF rebased(4)]
    have "\<exists>v'. st_versions (put_version x' (s\<lparr>st_document := st_document s\<rparr>)) i = Some v' \<and> frozen v v'"
      by (rule put_frozen [OF assms(3) rebased(2)]) (use assms(3,4) rebased(2) id ok in auto)
    then show ?thesis by (simp add: rebased(1))
  qed
qed

lemma doc_step_revision:
  assumes "doc_step s t"
  shows "doc_revision (st_document s) \<le> doc_revision (st_document t)"
  using assms
proof cases
  case (withdrawn k x eligible at d' x' w)
  have "doc_revision d' = doc_revision (st_document s) + 1"
    using arg_cong [OF withdraw_ok(5) [OF withdrawn(4)], of doc_revision] by simp
  then show ?thesis by (simp add: withdrawn(1))
qed (auto dest: publish_initial_ok(5) publish_next_ok(7) end_publication_ok(5))

lemma doc_steps_frozen:
  assumes "doc_step\<^sup>*\<^sup>* s t" and "doc_inv s" and "st_versions s i = Some v" and "dv_lifecycle_state v \<noteq> Working"
  shows "(\<exists>v'. st_versions t i = Some v' \<and> frozen v v')
    \<and> doc_revision (st_document s) \<le> doc_revision (st_document t)"
  using assms(1)
proof induction
  case base
  then show ?case using assms(3) by (simp add: frozen_def)
next
  case (step t u)
  then obtain v' where v': "st_versions t i = Some v'" "frozen v v'" by blast
  have "doc_inv t" using document_life.runs_simulated [OF step(1) assms(2)] ..
  from doc_step_frozen [OF step(2) this v'(1) frozen_not_working [OF v'(2) assms(4)]] v'(2)
    doc_step_revision [OF step(2)] step.IH
  show ?case by (auto intro: frozen_trans)
qed

subsection \<open>From creation on\<close>

lemma initial_store_inv:
  assumes "InitialDocument_create input = Inr a"
  shows "doc_inv (initial_store a)" and "life_of (initial_store a) = (None, [cid_version_id input \<mapsto> Working])"
proof -
  have a: "init_document a = \<lparr>doc_document_id = cid_document_id input, doc_folder_id = cid_folder_id input,
      doc_current_version_id = None, doc_revision = 0, doc_metadata = cid_document_metadata input,
      doc_created_at = cid_created_at input\<rparr>"
    "dv_document_version_id (init_version a) = cid_version_id input"
    "dv_document_id (init_version a) = cid_document_id input"
    "dv_lifecycle_state (init_version a) = Working" "version_ok (init_version a)"
    "dv_base_document_version_id (init_version a) = None"
    using assms
    by (auto simp: InitialDocument_create_def VersionNo_new_def version_ok_def split: if_splits)
  then show "doc_inv (initial_store a)" "life_of (initial_store a) = (None, [cid_version_id input \<mapsto> Working])"
    by (auto simp: initial_store_def doc_inv_def life_of_def split: if_splits)
qed

text \<open>
  (C11) Whatever operations follow the creation of a document, its versions stay consistent: the
  current version, if any, is a published version of the document, there is at most one working
  version, every base is a version of the document, a version has exactly the instants its life
  cycle state calls for, and the first version is the only one without a base.
\<close>

theorem document_history_sound:
  assumes "InitialDocument_create input = Inr a" and "doc_step\<^sup>*\<^sup>* (initial_store a) s"
  shows "doc_inv s"
  using document_life.runs_simulated [OF assms(2) initial_store_inv(1) [OF assms(1)]] ..

text \<open>
  Every history of a document is a history of the life cycle: versions go from working to
  published to withdrawn, a publication takes over from the base it was made from, and withdrawing
  the current version falls back to a version that is still published or to none. Nothing else
  happens.
\<close>

theorem document_history_refines_lifecycle:
  assumes "InitialDocument_create input = Inr a" and "doc_step\<^sup>*\<^sup>* (initial_store a) s"
  shows "life_move\<^sup>*\<^sup>* (None, [cid_version_id input \<mapsto> Working]) (life_of s)"
  using document_life.runs_simulated [OF assms(2) initial_store_inv(1) [OF assms(1)]]
  by (simp add: initial_store_inv(2) [OF assms(1)])

text \<open>
  (C13) Published content is immutable: once a version has left the working state no operation changes
  anything of it but its withdrawal, at most once, and no version disappears; the document's revision
  never decreases.
\<close>

theorem published_versions_immutable:
  assumes "doc_step\<^sup>*\<^sup>* s t" and "doc_inv s" and "st_versions s i = Some v" and "dv_lifecycle_state v \<noteq> Working"
  shows "(\<exists>v'. st_versions t i = Some v' \<and> frozen v v')
    \<and> doc_revision (st_document s) \<le> doc_revision (st_document t)"
  using assms by (rule doc_steps_frozen)

text \<open>
  What is saved is accepted when it is loaded: the persisted form of the document and of every
  version in any history restores to the same value.
\<close>

theorem document_restore_roundtrip:
  assumes "InitialDocument_create input = Inr a" and "doc_step\<^sup>*\<^sup>* (initial_store a) s"
  shows "Document_restore (persisted_document (st_document s)) = Inr (st_document s)
    \<and> (st_versions s i = Some v \<longrightarrow> DocumentVersion_restore (persisted_version v) = Inr v)"
proof -
  have inv: "doc_inv s"
    using document_life.runs_simulated [OF assms(2) initial_store_inv(1) [OF assms(1)]] ..
  have "DocumentVersion_restore (persisted_version v) = Inr v" if "version_ok v"
    using that by (auto simp: DocumentVersion_restore_def persisted_version_def version_ok_def
        split: LifecycleState.splits)
  with doc_inv_version(3) [OF inv, of i v] doc_inv_revision [OF inv] show ?thesis
    by (auto simp: Document_restore_def persisted_document_def)
qed

text \<open>
  A refused operation changes nothing: publishing, ending a publication, withdrawing and rebasing
  leave the document and the version exactly as they were when they return an error, the exhausted
  revision counter included.
\<close>

theorem refused_operations_change_nothing:
  "(snd (publish_initial_version at d v) = Inl e \<longrightarrow> fst (publish_initial_version at d v) = (d, v))
   \<and> (snd (publish_next_version at d v) = Inl e \<longrightarrow> fst (publish_next_version at d v) = (d, v))
   \<and> (snd (end_publication d v) = Inl e \<longrightarrow> fst (end_publication d v) = d)
   \<and> (snd (withdraw_version at base d v) = Inl e \<longrightarrow> fst (withdraw_version at base d v) = (d, v))
   \<and> (snd (rebase_to_current d b v) = Inl e \<longrightarrow> fst (rebase_to_current d b v) = v)
   \<and> (doc_revision d = i64_max \<longrightarrow> \<not> is_ok (snd (publish_initial_version at d v))
        \<and> \<not> is_ok (snd (publish_next_version at d v)) \<and> \<not> is_ok (snd (end_publication d v))
        \<and> \<not> is_ok (snd (withdraw_version at base d v)))"
proof -
  have over: "checked_add_i64 i64_max 1 = None"
    by (simp add: checked_add_i64_def i64_max_def i64_min_def)
  have "snd (publish_initial_version at d v) = Inl e \<longrightarrow> fst (publish_initial_version at d v) = (d, v)"
    "snd (publish_next_version at d v) = Inl e \<longrightarrow> fst (publish_next_version at d v) = (d, v)"
    "snd (end_publication d v) = Inl e \<longrightarrow> fst (end_publication d v) = d"
    "snd (withdraw_version at base d v) = Inl e \<longrightarrow> fst (withdraw_version at base d v) = (d, v)"
    "snd (rebase_to_current d b v) = Inl e \<longrightarrow> fst (rebase_to_current d b v) = v"
    by (simp_all add: publish_initial_version_def publish_next_version_def end_publication_def
        withdraw_version_def rebase_to_current_def split: option.split sum.split)
  moreover have "\<not> is_ok (snd (publish_initial_version at d v))" "\<not> is_ok (snd (publish_next_version at d v))"
    "\<not> is_ok (snd (end_publication d v))" "\<not> is_ok (snd (withdraw_version at base d v))"
    if "doc_revision d = i64_max"
    by (simp_all add: that over publish_initial_version_def publish_next_version_def end_publication_def
        withdraw_version_def split: option.split sum.split)
  ultimately show ?thesis by blast
qed

end
