(* ===== verification/Doc_Refinement.thy ===== *)
theory Doc_Refinement
  imports Doc_History
begin

text \<open>
  The operations of a document as requests that are accepted or refused. \<open>run_op\<close>
  loads the versions a request names, calls the operation of \<open>document.rs\<close> and saves
  what it leaves behind; \<open>life_apply\<close> is the life cycle as it is meant, on the revision,
  the current version and, for every version, its state and its base. The
  interpretation of \<open>request_refinement\<close> shows that the two agree on every request, on
  the refused ones too.
\<close>

subsection \<open>Requests\<close>

datatype doc_op =
    PublishFirst instant uuid
  | PublishNext instant uuid
  | EndPublication uuid
  | WithdrawVersion instant uuid "uuid option"
  | OpenVersion uuid CreateWorkingVersion
  | RebaseVersion uuid uuid

text \<open>
  The working version of the document among the rows \<open>ids\<close> of its versions.
\<close>

definition find_working :: "uuid list \<Rightarrow> doc_store \<Rightarrow> DocumentVersion option" where
  "find_working ids s = find (\<lambda>v. dv_lifecycle_state v = Working) (List.map_filter (st_versions s) ids)"

definition save_both :: "doc_store \<Rightarrow> (Document \<times> DocumentVersion) \<times> (DomainError + 'r) \<Rightarrow> doc_store \<times> bool" where
  "save_both s = (\<lambda>((d, v), r). (put_version v (s\<lparr>st_document := d\<rparr>), is_ok r))"

text \<open>
  A version is opened for the document at hand on the base that was loaded; an
  identifier that is in use is refused by the primary key.
\<close>

definition open_version :: "uuid list \<Rightarrow> uuid \<Rightarrow> CreateWorkingVersion \<Rightarrow> doc_store \<Rightarrow> doc_store \<times> bool" where
  "open_version ids j input s =
     (case st_versions s j of None \<Rightarrow> (s, False)
      | Some base \<Rightarrow>
        (case and_then (validate_new_working (st_document s) base (find_working ids s)) (\<lambda>_.
           new_working (input\<lparr>cwv_document_id := doc_document_id (st_document s),
             cwv_base_document_version_id := dv_document_version_id base\<rparr>)) of
           Inl e \<Rightarrow> (s, False)
         | Inr v \<Rightarrow> if st_versions s (dv_document_version_id v) = None then (put_version v s, True) else (s, False)))"

fun run_op :: "uuid list \<Rightarrow> doc_op \<Rightarrow> doc_store \<Rightarrow> doc_store \<times> bool" where
  "run_op ids (PublishFirst at i) s =
     (case st_versions s i of None \<Rightarrow> (s, False)
      | Some v \<Rightarrow> save_both s (publish_initial_version at (st_document s) v))"
| "run_op ids (PublishNext at i) s =
     (case st_versions s i of None \<Rightarrow> (s, False)
      | Some v \<Rightarrow> save_both s (publish_next_version at (st_document s) v))"
| "run_op ids (EndPublication i) s =
     (case st_versions s i of None \<Rightarrow> (s, False)
      | Some v \<Rightarrow> (case end_publication (st_document s) v of (d, r) \<Rightarrow> (s\<lparr>st_document := d\<rparr>, is_ok r)))"
| "run_op ids (WithdrawVersion at i None) s =
     (case st_versions s i of None \<Rightarrow> (s, False)
      | Some v \<Rightarrow> save_both s (withdraw_version at None (st_document s) v))"
| "run_op ids (WithdrawVersion at i (Some k)) s =
     (case (st_versions s i, st_versions s k) of
        (Some v, Some base) \<Rightarrow> save_both s (withdraw_version at (Some base) (st_document s) v)
      | _ \<Rightarrow> (s, False))"
| "run_op ids (OpenVersion j input) s = open_version ids j input s"
| "run_op ids (RebaseVersion i j) s =
     (case (st_versions s i, st_versions s j) of
        (Some v, Some base) \<Rightarrow>
          (case rebase_to_current (st_document s) base v of (v', r) \<Rightarrow> (put_version v' s, is_ok r))
      | _ \<Rightarrow> (s, False))"

text \<open>The identifiers of the versions a request would add.\<close>

fun opened_id :: "doc_op \<Rightarrow> uuid set" where
  "opened_id (OpenVersion j input) = {cwv_document_version_id input}"
| "opened_id _ = {}"

subsection \<open>The life cycle as it is meant\<close>

record lifecycle =
  lc_revision :: int
  lc_current :: "uuid option"
  lc_versions :: "uuid \<rightharpoonup> LifecycleState \<times> uuid option"

text \<open>
  A request that moves the current version counts a revision, and there are only
  \<open>i64\<close> many of them.
\<close>

definition commit_life :: "uuid option \<Rightarrow> (uuid \<rightharpoonup> LifecycleState \<times> uuid option) \<Rightarrow> lifecycle \<Rightarrow> lifecycle option" where
  "commit_life c L a =
     (if lc_revision a < i64_max then Some \<lparr>lc_revision = lc_revision a + 1, lc_current = c, lc_versions = L\<rparr> else None)"

definition publish_life :: "uuid \<Rightarrow> lifecycle \<Rightarrow> lifecycle option" where
  "publish_life i a = commit_life (Some i)
     ((lc_versions a)(i := map_option (\<lambda>(_, b). (Published, b)) (lc_versions a i))) a"

definition withdraw_life :: "uuid \<Rightarrow> uuid option \<Rightarrow> lifecycle \<Rightarrow> lifecycle option" where
  "withdraw_life i c a = commit_life c
     ((lc_versions a)(i := map_option (\<lambda>(_, b). (Withdrawn, b)) (lc_versions a i))) a"

abbreviation life_state :: "lifecycle \<Rightarrow> uuid \<Rightarrow> LifecycleState option" where
  "life_state a i \<equiv> map_option fst (lc_versions a i)"

abbreviation life_base :: "lifecycle \<Rightarrow> uuid \<Rightarrow> uuid option" where
  "life_base a i \<equiv> Option.bind (lc_versions a i) snd"

fun life_apply :: "doc_op \<Rightarrow> lifecycle \<Rightarrow> lifecycle option" where
  "life_apply (PublishFirst at i) a =
     (if life_state a i = Some Working \<and> lc_current a = None then publish_life i a else None)"
| "life_apply (PublishNext at i) a =
     (if life_state a i = Some Working \<and> lc_current a \<noteq> None \<and> life_base a i = lc_current a
      then publish_life i a else None)"
| "life_apply (EndPublication i) a =
     (if lc_current a = Some i then commit_life None (lc_versions a) a else None)"
| "life_apply (WithdrawVersion at i fallback) a =
     (if life_state a i \<noteq> Some Published then None
      else if lc_current a \<noteq> Some i
      then (if fallback = None then withdraw_life i (lc_current a) a else None)
      else case fallback of
        None \<Rightarrow> withdraw_life i None a
      | Some k \<Rightarrow> if life_base a i = Some k \<and> life_state a k = Some Published then withdraw_life i (Some k) a else None)"
| "life_apply (OpenVersion j input) a =
     (if lc_current a = Some j \<and> (\<forall>k. life_state a k \<noteq> Some Working)
         \<and> lc_versions a (cwv_document_version_id input) = None \<and> 1 < version_no_get (cwv_version_no input)
      then Some (a\<lparr>lc_versions := (lc_versions a)(cwv_document_version_id input \<mapsto> (Working, Some j))\<rparr>) else None)"
| "life_apply (RebaseVersion i j) a =
     (if life_state a i = Some Working \<and> lc_current a = Some j
      then Some (a\<lparr>lc_versions := (lc_versions a)(i \<mapsto> (Working, Some j))\<rparr>) else None)"

definition lifecycle_of :: "doc_store \<Rightarrow> lifecycle" where
  "lifecycle_of s = \<lparr>lc_revision = doc_revision (st_document s),
     lc_current = doc_current_version_id (st_document s),
     lc_versions = map_option (\<lambda>v. (dv_lifecycle_state v, dv_base_document_version_id v)) \<circ> st_versions s\<rparr>"

subsection \<open>Requests one after the other\<close>

fun run_all :: "('o \<Rightarrow> 's \<Rightarrow> 's \<times> bool) \<Rightarrow> 'o list \<Rightarrow> 's \<Rightarrow> 's \<times> bool list" where
  "run_all exec [] s = (s, [])"
| "run_all exec (x # xs) s = (let (t, ok) = exec x s; (u, oks) = run_all exec xs t in (u, ok # oks))"

definition spec_exec :: "('o \<Rightarrow> 'a \<Rightarrow> 'a option) \<Rightarrow> 'o \<Rightarrow> 'a \<Rightarrow> 'a \<times> bool" where
  "spec_exec spec x a = (case spec x a of None \<Rightarrow> (a, False) | Some b \<Rightarrow> (b, True))"

locale request_refinement =
  fixes exec :: "'o \<Rightarrow> 's \<Rightarrow> 's \<times> bool"
    and spec :: "'o \<Rightarrow> 'a \<Rightarrow> 'a option"
    and step :: "'s \<Rightarrow> 's \<Rightarrow> bool"
    and abs :: "'s \<Rightarrow> 'a"
    and good :: "'o \<Rightarrow> bool"
    and safe :: "'s \<Rightarrow> bool"
  assumes accepted: "safe s \<Longrightarrow> good x \<Longrightarrow> exec x s = (t, True) \<Longrightarrow> safe t \<and> step s t \<and> spec x (abs s) = Some (abs t)"
    and refused: "safe s \<Longrightarrow> good x \<Longrightarrow> exec x s = (t, False) \<Longrightarrow> t = s \<and> spec x (abs s) = None"
begin

lemma requests_agree:
  assumes "safe s" and "\<forall>x \<in> set xs. good x" and "run_all exec xs s = (t, oks)"
  shows "run_all (spec_exec spec) xs (abs s) = (abs t, oks) \<and> safe t \<and> step\<^sup>*\<^sup>* s t"
  using assms
proof (induction xs arbitrary: s oks)
  case (Cons x xs)
  obtain u ok oks' where run: "exec x s = (u, ok)" "run_all exec xs u = (t, oks')" "oks = ok # oks'"
    using Cons.prems(3) by (auto split: prod.splits)
  have "good x" using Cons.prems(2) by simp
  note yes = accepted [OF Cons.prems(1) this, of u] and no = refused [OF Cons.prems(1) this, of u]
  have one: "spec_exec spec x (abs s) = (abs u, ok)" "safe u" "step\<^sup>*\<^sup>* s u"
    using run(1) yes no Cons.prems(1) by (cases ok; auto simp: spec_exec_def)+
  with Cons.IH [OF one(2) _ run(2)] Cons.prems(2) run(3) show ?case
    by (auto intro: rtranclp_trans)
qed simp

end

subsection \<open>Every request is decided as the life cycle decides it\<close>

definition agrees :: "uuid list \<Rightarrow> doc_op \<Rightarrow> doc_store \<Rightarrow> bool" where
  "agrees ids x s \<longleftrightarrow> (case run_op ids x s of (t, ok) \<Rightarrow>
     if ok then doc_step s t \<and> life_apply x (lifecycle_of s) = Some (lifecycle_of t)
     else t = s \<and> life_apply x (lifecycle_of s) = None)"

lemma lifecycle_of_simps [simp]:
  "lc_revision (lifecycle_of s) = doc_revision (st_document s)"
  "lc_current (lifecycle_of s) = doc_current_version_id (st_document s)"
  "lc_versions (lifecycle_of s) i =
     map_option (\<lambda>v. (dv_lifecycle_state v, dv_base_document_version_id v)) (st_versions s i)"
  by (simp_all add: lifecycle_of_def)

lemma put_same: "doc_inv s \<Longrightarrow> st_versions s i = Some v \<Longrightarrow> put_version v (s\<lparr>st_document := st_document s\<rparr>) = s"
  using doc_inv_version(1) [of s i v] by (simp add: put_version_def fun_upd_idem)

lemma lifecycle_of_put:
  "lifecycle_of (put_version v (s\<lparr>st_document := d\<rparr>)) =
     \<lparr>lc_revision = doc_revision d, lc_current = doc_current_version_id d,
      lc_versions = (lc_versions (lifecycle_of s))(dv_document_version_id v \<mapsto>
        (dv_lifecycle_state v, dv_base_document_version_id v))\<rparr>"
  by (auto simp: lifecycle_of_def)

lemma next_revision:
  "0 \<le> r \<Longrightarrow> checked_add_i64 r 1 = (if r < i64_max then Some (r + 1) else None)"
  by (auto simp: checked_add_i64_def i64_max_def i64_min_def)

lemmas decide_simps = agrees_def save_both_def publish_life_def withdraw_life_def commit_life_def is_ok_def

lemma saved_agrees:
  assumes "doc_inv s" and "st_versions s i = Some v" and "run_op ids x s = save_both s R"
    and "\<And>d' v' t. R = ((d', v'), Inr t) \<Longrightarrow> doc_step s (put_version v' (s\<lparr>st_document := d'\<rparr>))
      \<and> life_apply x (lifecycle_of s) = Some (lifecycle_of (put_version v' (s\<lparr>st_document := d'\<rparr>)))"
    and "\<And>d' v' e. R = ((d', v'), Inl e) \<Longrightarrow>
      d' = st_document s \<and> v' = v \<and> life_apply x (lifecycle_of s) = None"
  shows "agrees ids x s"
proof (cases R)
  case (Pair p r)
  obtain d' v' where p: "p = (d', v')" by (cases p)
  show ?thesis
  proof (cases r)
    case (Inr t)
    with assms(3) assms(4) [of d' v' t] Pair p show ?thesis by (simp add: agrees_def save_both_def)
  next
    case (Inl e)
    with assms(3) assms(5) [of d' v' e] Pair p put_same [OF assms(1,2)] show ?thesis
      by (simp add: agrees_def save_both_def)
  qed
qed

lemmas life_simps = publish_life_def withdraw_life_def commit_life_def lifecycle_of_put

lemma publish_first_agrees:
  assumes "doc_inv s"
  shows "agrees ids (PublishFirst at i) s"
proof (cases "st_versions s i")
  case (Some v)
  note v = doc_inv_version [OF assms Some]
  show ?thesis
  proof (rule saved_agrees [OF assms Some])
    fix d' v' t assume run: "publish_initial_version at (st_document s) v = ((d', v'), Inr t)"
    note ok = publish_initial_ok [OF run]
    show "doc_step s (put_version v' (s\<lparr>st_document := d'\<rparr>)) \<and> life_apply (PublishFirst at i) (lifecycle_of s)
        = Some (lifecycle_of (put_version v' (s\<lparr>st_document := d'\<rparr>)))"
      using doc_step.first [OF Some run] ok v(1) Some by (simp add: life_simps)
  next
    fix d' v' e assume "publish_initial_version at (st_document s) v = ((d', v'), Inl e)"
    then show "d' = st_document s \<and> v' = v \<and> life_apply (PublishFirst at i) (lifecycle_of s) = None"
      using v(2) Some
      by (auto simp: publish_initial_version_def life_simps next_revision [OF doc_inv_revision [OF assms]]
          split: if_splits)
  qed (simp add: Some)
qed (simp add: agrees_def)

lemma publish_next_agrees:
  assumes "doc_inv s"
  shows "agrees ids (PublishNext at i) s"
proof (cases "st_versions s i")
  case (Some v)
  note v = doc_inv_version [OF assms Some]
  show ?thesis
  proof (rule saved_agrees [OF assms Some])
    fix d' v' t assume run: "publish_next_version at (st_document s) v = ((d', v'), Inr t)"
    note ok = publish_next_ok [OF run]
    show "doc_step s (put_version v' (s\<lparr>st_document := d'\<rparr>)) \<and> life_apply (PublishNext at i) (lifecycle_of s)
        = Some (lifecycle_of (put_version v' (s\<lparr>st_document := d'\<rparr>)))"
      using doc_step.succ [OF Some run] ok v(1) Some by (simp add: life_simps)
  next
    fix d' v' e assume "publish_next_version at (st_document s) v = ((d', v'), Inl e)"
    then show "d' = st_document s \<and> v' = v \<and> life_apply (PublishNext at i) (lifecycle_of s) = None"
      using v(1-3) Some
      by (auto simp: publish_next_version_def version_ok_def life_simps
          next_revision [OF doc_inv_revision [OF assms]] split: if_splits option.splits)
  qed (simp add: Some)
qed (simp add: agrees_def)

text \<open>What a withdrawal makes current, by the request's fallback.\<close>

lemma fallback_agrees:
  assumes "doc_inv s" and "st_versions s i = Some v"
    and "base = Option.bind k (st_versions s)" and "k \<noteq> None \<longrightarrow> base \<noteq> None"
  shows "resulting_current (st_document s) v base =
     (if doc_current_version_id (st_document s) \<noteq> Some i
      then if k = None then Inr (doc_current_version_id (st_document s)) else Inl InvalidRestorationCandidate
      else if k = None \<or> (dv_base_document_version_id v = k \<and> life_state (lifecycle_of s) (the k) = Some Published)
      then Inr k else Inl InvalidRestorationCandidate)"
proof (cases k)
  case None
  then show ?thesis using assms doc_inv_version(1) [OF assms(1,2)] by (simp add: resulting_current_def)
next
  case (Some j)
  then obtain b where b: "base = Some b" "st_versions s j = Some b" using assms(3,4) by auto
  have id: "dv_document_version_id v = i" "dv_document_version_id b = j"
    "dv_document_id b = doc_document_id (st_document s)"
    using doc_inv_version [OF assms(1,2)] doc_inv_version [OF assms(1) b(2)] by simp_all
  show ?thesis unfolding resulting_current_def b(1) id using Some b(2) id by auto
qed

lemma withdraw_agrees:
  assumes "doc_inv s" and "st_versions s i = Some v"
    and "run_op ids (WithdrawVersion at i k) s = save_both s (withdraw_version at base (st_document s) v)"
    and "base = Option.bind k (st_versions s)" and "k \<noteq> None \<longrightarrow> base \<noteq> None"
  shows "agrees ids (WithdrawVersion at i k) s"
proof (rule saved_agrees [OF assms(1-3)])
  note v = doc_inv_version [OF assms(1,2)] and fallback = fallback_agrees [OF assms(1,2,4,5)]
  fix d' v' t assume run: "withdraw_version at base (st_document s) v = ((d', v'), Inr t)"
  note ok = withdraw_ok [OF run]
  have st: "base = None \<or> (\<exists>j. base = st_versions s j)" using assms(4) by (cases k) auto
  have rev: "doc_revision d' = doc_revision (st_document s) + 1"
    using arg_cong [OF ok(5), of doc_revision] by simp
  have life: "lifecycle_of (put_version v' (s\<lparr>st_document := d'\<rparr>)) =
      the (withdraw_life i (doc_current_version_id d') (lifecycle_of s))"
    using ok(4,6) rev v(1) assms(2) by (simp add: life_simps)
  have some: "withdraw_life i c (lifecycle_of s) \<noteq> None" for c using ok(4) by (simp add: life_simps)
  have "life_apply (WithdrawVersion at i k) (lifecycle_of s) = withdraw_life i (doc_current_version_id d') (lifecycle_of s)"
    using ok(2,3) assms(2) unfolding fallback by (cases k) (auto split: if_splits)
  with life some doc_step.withdrawn [OF assms(2) st run]
  show "doc_step s (put_version v' (s\<lparr>st_document := d'\<rparr>)) \<and> life_apply (WithdrawVersion at i k) (lifecycle_of s)
      = Some (lifecycle_of (put_version v' (s\<lparr>st_document := d'\<rparr>)))" by simp
next
  note v = doc_inv_version [OF assms(1,2)] and fallback = fallback_agrees [OF assms(1,2,4,5)]
  fix d' v' e assume run: "withdraw_version at base (st_document s) v = ((d', v'), Inl e)"
  then have "d' = st_document s" "v' = v" by (auto simp: withdraw_version_def split: if_splits option.splits sum.splits)
  moreover have "life_apply (WithdrawVersion at i k) (lifecycle_of s) = None"
    using run v(2) assms(2) unfolding withdraw_version_def fallback next_revision [OF doc_inv_revision [OF assms(1)]]
    by (cases k) (auto simp: life_simps split: if_splits)
  ultimately show "d' = st_document s \<and> v' = v \<and> life_apply (WithdrawVersion at i k) (lifecycle_of s) = None" by simp
qed

lemma end_agrees:
  assumes "doc_inv s"
  shows "agrees ids (EndPublication i) s"
proof (cases "st_versions s i")
  case None
  then have "doc_current_version_id (st_document s) \<noteq> Some i" using doc_inv_current [OF assms, of i] by auto
  with None show ?thesis by (simp add: agrees_def)
next
  case (Some v)
  note v = doc_inv_version [OF assms Some]
  have pub: "doc_current_version_id (st_document s) = Some i \<Longrightarrow> dv_lifecycle_state v = Published"
    using doc_inv_current [OF assms, of i] Some by auto
  obtain d' r where run: "end_publication (st_document s) v = (d', r)" by (cases "end_publication (st_document s) v")
  show ?thesis
  proof (cases r)
    case (Inr e)
    with run have run': "end_publication (st_document s) v = (d', Inr e)" by simp
    show ?thesis using doc_step.ended [OF Some run'] end_publication_ok [OF run'] v(1) Some
      by (simp add: agrees_def run' commit_life_def) (simp add: lifecycle_of_def)
  next
    case (Inl e)
    with run v(1,2) pub have "d' = st_document s" "life_apply (EndPublication i) (lifecycle_of s) = None"
      by (auto simp: end_publication_def commit_life_def next_revision [OF doc_inv_revision [OF assms]]
          split: if_splits option.splits)
    with run Inl Some show ?thesis by (simp add: agrees_def)
  qed
qed

lemma rebase_agrees:
  assumes "doc_inv s"
  shows "agrees ids (RebaseVersion i j) s"
proof (cases "st_versions s i = None \<or> st_versions s j = None")
  case True
  then have "life_state (lifecycle_of s) i \<noteq> Some Working \<or> doc_current_version_id (st_document s) \<noteq> Some j"
    using doc_inv_current [OF assms, of j] by auto
  with True show ?thesis by (auto simp: agrees_def split: option.splits)
next
  case False
  then obtain v base where found: "st_versions s i = Some v" "st_versions s j = Some base" by auto
  note v = doc_inv_version [OF assms found(1)] and b = doc_inv_version [OF assms found(2)]
  have pub: "doc_current_version_id (st_document s) = Some j \<Longrightarrow> dv_lifecycle_state base = Published"
    using doc_inv_current [OF assms, of j] found(2) by auto
  obtain v' r where run: "rebase_to_current (st_document s) base v = (v', r)"
    by (cases "rebase_to_current (st_document s) base v")
  show ?thesis
  proof (cases r)
    case (Inr u)
    with run have run': "rebase_to_current (st_document s) base v = (v', Inr ())" by simp
    show ?thesis using doc_step.rebased [OF found run'] rebase_ok [OF run'] v(1) b(1) found
        lifecycle_of_put [where v = v' and s = s and d = "st_document s"]
      by (simp add: agrees_def run')
  next
    case (Inl e)
    have "i = j \<Longrightarrow> v = base" using found by simp
    with Inl run v(1,2) b(1,2) pub have "v' = v" "dv_lifecycle_state v \<noteq> Working \<or> doc_current_version_id (st_document s) \<noteq> Some j"
      by (auto simp: rebase_to_current_def split: if_splits)
    with run Inl found put_same [OF assms found(1)] show ?thesis by (auto simp: agrees_def)
  qed
qed

lemma find_working_exact:
  assumes "dom (st_versions s) \<subseteq> set ids"
  shows "find_working ids s \<noteq> None \<longleftrightarrow> has_working s"
    and "find_working ids s = Some x \<Longrightarrow> dv_lifecycle_state x = Working \<and> (\<exists>i. st_versions s i = Some x)"
proof -
  have rows: "v \<in> set (List.map_filter (st_versions s) ids) \<longleftrightarrow> (\<exists>i. st_versions s i = Some v)" for v
    using assms by (auto simp: List.map_filter_def dom_def intro!: rev_image_eqI)
  show "find_working ids s \<noteq> None \<longleftrightarrow> has_working s"
    using rows unfolding find_working_def find_None_iff has_working_def by blast
  show "find_working ids s = Some x \<Longrightarrow> dv_lifecycle_state x = Working \<and> (\<exists>i. st_versions s i = Some x)"
    using rows [of x] by (auto simp: find_working_def find_Some_iff)
qed

lemma life_working: "(\<forall>k. life_state (lifecycle_of s) k \<noteq> Some Working) \<longleftrightarrow> \<not> has_working s"
  by (auto simp: has_working_def)

lemma open_agrees:
  assumes "doc_inv s" and "dom (st_versions s) \<subseteq> set ids"
  shows "agrees ids (OpenVersion j input) s"
proof (cases "st_versions s j")
  case None
  then have "doc_current_version_id (st_document s) \<noteq> Some j" using doc_inv_current [OF assms(1), of j] by auto
  with None show ?thesis by (simp add: agrees_def open_version_def)
next
  case (Some base)
  let ?input = "input\<lparr>cwv_document_id := doc_document_id (st_document s), cwv_base_document_version_id := j\<rparr>"
  let ?id = "cwv_document_version_id input"
  note b = doc_inv_version [OF assms(1) Some] and found = find_working_exact [OF assms(2)]
  have pub: "doc_current_version_id (st_document s) = Some j \<Longrightarrow> dv_lifecycle_state base = Published"
    using doc_inv_current [OF assms(1), of j] Some by auto
  have valid: "validate_new_working (st_document s) base (find_working ids s) = Inr ()
      \<longleftrightarrow> doc_current_version_id (st_document s) = Some j \<and> \<not> has_working s"
    using found b(1,2) pub unfolding validate_new_working_def
    by (auto simp: result_simps split: if_splits option.splits)
  show ?thesis
  proof (cases "doc_current_version_id (st_document s) = Some j \<and> \<not> has_working s
      \<and> st_versions s ?id = None \<and> 1 < version_no_get (cwv_version_no input)")
    case True
    then have "?id \<noteq> j" using Some by auto
    with True obtain v where new: "new_working ?input = Inr v" by (simp add: new_working_def)
    note ok = new_working_ok [OF new]
    have "doc_step s (put_version v s)"
      by (rule doc_step.opened [OF Some _ _ _ new]) (use True found valid b(1) in auto)
    moreover have "run_op ids (OpenVersion j input) s = (put_version v s, True)"
      using True Some valid new ok(1) b(1) by (simp add: open_version_def)
    moreover have "life_apply (OpenVersion j input) (lifecycle_of s) = Some (lifecycle_of (put_version v s))"
      using True ok lifecycle_of_put [where v = v and s = s and d = "st_document s"] life_working [of s] by simp
    ultimately show ?thesis by (simp add: agrees_def)
  next
    case False
    have "life_apply (OpenVersion j input) (lifecycle_of s) = None"
      using False life_working [of s] by auto
    moreover have "run_op ids (OpenVersion j input) s = (s, False)"
    proof (cases "validate_new_working (st_document s) base (find_working ids s)")
      case (Inr u)
      then have "doc_current_version_id (st_document s) = Some j" "\<not> has_working s" using valid by simp_all
      with False have no: "st_versions s ?id = None \<Longrightarrow> version_no_get (cwv_version_no input) \<le> 1" by auto
      show ?thesis
      proof (cases "new_working ?input")
        case (Inr v)
        from new_working_ok(1) [OF this] Inr have "dv_document_version_id v = ?id" "1 < version_no_get (cwv_version_no input)"
          by (auto simp: new_working_def split: if_splits)
        with Inr \<open>validate_new_working _ _ _ = Inr u\<close> no Some b(1) show ?thesis by (auto simp: open_version_def)
      qed (use Inr Some b(1) in \<open>simp add: open_version_def\<close>)
    qed (use Some in \<open>simp add: open_version_def\<close>)
    ultimately show ?thesis by (simp add: agrees_def)
  qed
qed

lemma request_agrees:
  assumes "doc_inv s" and "dom (st_versions s) \<subseteq> set ids"
  shows "agrees ids x s"
proof (cases x)
  case (WithdrawVersion at i k)
  show ?thesis
  proof (cases "st_versions s i = None \<or> (\<exists>j. k = Some j \<and> st_versions s j = None)")
    case True
    then show ?thesis unfolding WithdrawVersion
      by (cases k) (auto simp: agrees_def split: option.splits)
  next
    case False
    then obtain v where "st_versions s i = Some v" by auto
    with False show ?thesis unfolding WithdrawVersion
      by (cases k) (auto intro!: withdraw_agrees [OF assms(1)])
  qed
qed (use assms publish_first_agrees publish_next_agrees end_agrees rebase_agrees open_agrees in auto)

lemma life_apply_dom:
  "life_apply x a = Some b \<Longrightarrow> dom (lc_versions b) \<subseteq> dom (lc_versions a) \<union> opened_id x"
  by (cases "(x, a)" rule: life_apply.cases)
    (auto simp: publish_life_def withdraw_life_def commit_life_def split: if_splits option.splits)

lemma dom_lifecycle_of: "dom (lc_versions (lifecycle_of s)) = dom (st_versions s)"
  by auto

interpretation requests: request_refinement "run_op ids" life_apply doc_step lifecycle_of
  "\<lambda>x. opened_id x \<subseteq> set ids" "\<lambda>s. doc_inv s \<and> dom (st_versions s) \<subseteq> set ids" for ids
proof
  fix s x t
  assume safe: "doc_inv s \<and> dom (st_versions s) \<subseteq> set ids" and good: "opened_id x \<subseteq> set ids"
    and "run_op ids x s = (t, True)"
  with request_agrees [of s ids x] have t: "doc_step s t" "life_apply x (lifecycle_of s) = Some (lifecycle_of t)"
    by (simp_all add: agrees_def)
  from life_apply_dom [OF t(2)] safe good have "dom (st_versions t) \<subseteq> set ids" unfolding dom_lifecycle_of by blast
  with doc_step_kept [OF t(1)] safe t
  show "(doc_inv t \<and> dom (st_versions t) \<subseteq> set ids) \<and> doc_step s t \<and> life_apply x (lifecycle_of s) = Some (lifecycle_of t)"
    by blast
next
  fix s x t
  assume "doc_inv s \<and> dom (st_versions s) \<subseteq> set ids" and "run_op ids x s = (t, False)"
  with request_agrees [of s ids x] show "t = s \<and> life_apply x (lifecycle_of s) = None" by (simp add: agrees_def)
qed

text \<open>
  (C12) Whatever requests are made of a consistent document, one after the other, each of them is
  accepted exactly if the life cycle accepts it, and afterwards the revision, the current version and
  the state and base of every version are exactly what the life cycle says: a working version is
  published first only while nothing is current and later only on the current version as its base,
  only the current publication can be ended, only a published version is withdrawn, the fallback
  being its base while that is still published, a new version is opened only on the current version
  while there is no other working version, and a refused request, the exhausted revision counter
  included, changes nothing. The rows \<open>ids\<close> the working version is looked up in have to hold all
  versions of the document.
\<close>

theorem document_requests_exact:
  assumes "doc_inv s" and "dom (st_versions s) \<subseteq> set ids" and "\<forall>x \<in> set xs. opened_id x \<subseteq> set ids"
    and "run_all (run_op ids) xs s = (t, oks)"
  shows "run_all (spec_exec life_apply) xs (lifecycle_of s) = (lifecycle_of t, oks)
    \<and> doc_inv t \<and> doc_step\<^sup>*\<^sup>* s t"
  using requests.requests_agree [of s ids xs t oks] assms by blast

end
