(* ===== verification/Doc_Access.thy ===== *)
theory Doc_Access
  imports Doc_Values
begin

text \<open>
  Access policies of documents and folders, \<open>access_policy.rs\<close> of
  \<open>document-domain\<close>: subjects, grants, the validation of an explicit policy, the
  search for the policy that governs a resource along its path to the root, and
  the evaluation of a request. A \<open>BTreeSet\<close> of actions is a set.
\<close>

subsection \<open>Data\<close>

datatype Action = Read | ReadHistory | Write | Publish | Administer

datatype PolicySubjectKind = PrincipalSubject | GroupSubject | RoleSubject

record PolicySubject =
  ps_kind :: PolicySubjectKind
  ps_identity_provider :: ustr
  ps_subject_id :: ustr

definition PolicySubject_new ::
  "PolicySubjectKind \<Rightarrow> ustr \<Rightarrow> ustr \<Rightarrow> DomainError + PolicySubject" where
  "PolicySubject_new kind provider subject =
     (if trim provider = [] \<or> trim subject = [] \<or> list_ex is_control (trim provider)
         \<or> list_ex is_control (trim subject)
      then Inl InvalidPolicySubject
      else Inr \<lparr>ps_kind = kind, ps_identity_provider = trim provider, ps_subject_id = trim subject\<rparr>)"

record PolicyGrant =
  pg_subject :: PolicySubject
  pg_actions :: "Action set"

definition PolicyGrant_new :: "PolicySubject \<Rightarrow> Action list \<Rightarrow> DomainError + PolicyGrant" where
  "PolicyGrant_new subject actions =
     (if \<not> distinct actions then Inl InvalidPolicyGrant
      else if actions = [] then Inl InvalidPolicyGrant
      else Inr \<lparr>pg_subject = subject, pg_actions = set actions\<rparr>)"

datatype PolicyMode = Inherit | Explicit "PolicyGrant list"

subsection \<open>Operations\<close>

fun validate_grants :: "PolicySubject set \<Rightarrow> PolicyGrant list \<Rightarrow> DomainError + unit" where
  "validate_grants subjects [] = Inr ()"
| "validate_grants subjects (g # gs) =
     (if pg_actions g = {} then Inl InvalidPolicyGrant
      else if pg_subject g \<in> subjects then Inl DuplicatePolicySubject
      else validate_grants (insert (pg_subject g) subjects) gs)"

definition validate_explicit :: "PolicyGrant list \<Rightarrow> DomainError + unit" where
  "validate_explicit grants =
     (if grants = [] then Inl EmptyExplicitPolicy else validate_grants {} grants)"

fun PolicyMode_validate :: "PolicyMode \<Rightarrow> DomainError + unit" where
  "PolicyMode_validate Inherit = Inr ()"
| "PolicyMode_validate (Explicit grants) = validate_explicit grants"

fun is_explicit :: "PolicyMode \<Rightarrow> bool" where
  "is_explicit Inherit = False"
| "is_explicit (Explicit _) = True"

definition nearest_explicit_policy :: "PolicyMode list \<Rightarrow> PolicyMode option" where
  "nearest_explicit_policy path_from_resource = find is_explicit path_from_resource"

fun evaluate_policy :: "PolicySubject list \<Rightarrow> PolicyMode \<Rightarrow> Action list \<Rightarrow> bool" where
  "evaluate_policy subjects Inherit required = False"
| "evaluate_policy subjects (Explicit grants) required =
     (if grants = [] \<or> required = [] then False
      else list_all (\<lambda>action.
        list_ex (\<lambda>grant. pg_subject grant \<in> set subjects \<and> action \<in> pg_actions grant) grants) required)"

text \<open>A request on a resource is decided by the nearest explicit policy; without one it is refused.\<close>

definition allowed :: "PolicySubject list \<Rightarrow> PolicyMode list \<Rightarrow> Action list \<Rightarrow> bool" where
  "allowed subjects path required =
     is_some_and (\<lambda>mode. evaluate_policy subjects mode required) (nearest_explicit_policy path)"

subsection \<open>Validated policies\<close>

lemma validate_grants_ok:
  "validate_grants S gs = Inr () \<longleftrightarrow>
     (\<forall>g\<in>set gs. pg_actions g \<noteq> {} \<and> pg_subject g \<notin> S) \<and> distinct (map pg_subject gs)"
  by (induction S gs rule: validate_grants.induct) (auto simp: image_iff)

lemma evaluate_explicit:
  "evaluate_policy subjects (Explicit gs) required \<longleftrightarrow>
     required \<noteq> [] \<and> (\<forall>a\<in>set required. \<exists>g\<in>set gs. pg_subject g \<in> set subjects \<and> a \<in> pg_actions g)"
  by (cases required) (auto simp: list_all_iff list_ex_iff)

lemma nearest_split:
  "nearest_explicit_policy path = Some (Explicit gs) \<longleftrightarrow>
     (\<exists>below above. path = below @ Explicit gs # above \<and> set below \<subseteq> {Inherit})"
proof
  let ?below = "takeWhile (Not \<circ> is_explicit) path" and ?rest = "dropWhile (Not \<circ> is_explicit) path"
  assume "nearest_explicit_policy path = Some (Explicit gs)"
  then obtain above where "?rest = Explicit gs # above"
    by (auto simp: nearest_explicit_policy_def find_dropWhile split: list.splits)
  then have "path = ?below @ Explicit gs # above" using takeWhile_dropWhile_id [of "Not \<circ> is_explicit" path] by simp
  moreover have "set ?below \<subseteq> {Inherit}"
  proof
    fix m assume "m \<in> set ?below"
    then have "\<not> is_explicit m" by (auto dest: set_takeWhileD)
    then show "m \<in> {Inherit}" by (cases m) simp_all
  qed
  ultimately show "\<exists>below above. path = below @ Explicit gs # above \<and> set below \<subseteq> {Inherit}" by blast
next
  assume "\<exists>below above. path = below @ Explicit gs # above \<and> set below \<subseteq> {Inherit}"
  then obtain below above where path: "path = below @ Explicit gs # above" "set below \<subseteq> {Inherit}" by blast
  from path(2) have "find is_explicit below = None" by (auto simp: find_None_iff)
  with path(1) show "nearest_explicit_policy path = Some (Explicit gs)"
    by (simp add: nearest_explicit_policy_def find_append)
qed

text \<open>
  The nearest explicit policy decides, and it alone: the inheriting levels below it and whatever
  stands above it do not matter, and without an explicit policy nothing is allowed. The request is
  granted exactly when it asks for something and every action is granted to one of the caller's
  subjects, so more subjects never lose an action.
\<close>

theorem nearest_policy_decides:
  "allowed subjects path required \<longleftrightarrow>
     required \<noteq> [] \<and> (\<exists>below gs above. path = below @ Explicit gs # above \<and> set below \<subseteq> {Inherit}
        \<and> (\<forall>a\<in>set required. \<exists>g\<in>set gs. pg_subject g \<in> set subjects \<and> a \<in> pg_actions g))"
proof -
  have "allowed subjects path required \<longleftrightarrow>
      (\<exists>gs. nearest_explicit_policy path = Some (Explicit gs) \<and> evaluate_policy subjects (Explicit gs) required)"
    unfolding allowed_def is_some_and_iff by (metis PolicyMode.exhaust evaluate_policy.simps(1))
  also have "\<dots> \<longleftrightarrow> required \<noteq> [] \<and> (\<exists>gs. nearest_explicit_policy path = Some (Explicit gs)
        \<and> (\<forall>a\<in>set required. \<exists>g\<in>set gs. pg_subject g \<in> set subjects \<and> a \<in> pg_actions g))"
    unfolding evaluate_explicit by blast
  finally show ?thesis unfolding nearest_split by blast
qed

text \<open>
  In a validated explicit policy a single subject has one grant, and is allowed exactly the
  actions it lists, never none: the loop over grants and actions is a lookup.
\<close>

theorem validated_policy_is_lookup:
  assumes "PolicyMode_validate (Explicit gs) = Inr ()"
  shows "(evaluate_policy [s] (Explicit gs) required \<longleftrightarrow>
      required \<noteq> [] \<and> (\<exists>g. find (\<lambda>g. pg_subject g = s) gs = Some g \<and> set required \<subseteq> pg_actions g))
    \<and> (g \<in> set gs \<longrightarrow> (\<exists>a. evaluate_policy [pg_subject g] (Explicit gs) [a]))"
proof -
  from assms have ne: "gs \<noteq> []" and ok: "\<forall>g\<in>set gs. pg_actions g \<noteq> {}" and d: "distinct (map pg_subject gs)"
    by (auto simp: validate_explicit_def validate_grants_ok split: if_splits)
  note the = find_distinct_key [OF d]
  have "(\<forall>b\<in>set required. \<exists>g\<in>set gs. pg_subject g = s \<and> b \<in> pg_actions g) \<longleftrightarrow>
      (\<exists>g. find (\<lambda>g. pg_subject g = s) gs = Some g \<and> set required \<subseteq> pg_actions g)" (is "?all \<longleftrightarrow> ?one")
    if "required \<noteq> []"
  proof
    assume ?all
    with that obtain g where g: "g \<in> set gs" "pg_subject g = s" by (cases required) auto
    have "h = g" if "h \<in> set gs" "pg_subject h = s" for h using the [OF that(1)] the [OF g(1)] that g by simp
    with \<open>?all\<close> have "set required \<subseteq> pg_actions g" by blast
    with the [OF g(1)] g(2) show ?one by auto
  next
    assume ?one
    then show ?all by (auto simp: find_Some_iff)
  qed
  then have "evaluate_policy [s] (Explicit gs) required \<longleftrightarrow>
      required \<noteq> [] \<and> (\<exists>g. find (\<lambda>g. pg_subject g = s) gs = Some g \<and> set required \<subseteq> pg_actions g)"
    using ne by (cases required) (simp_all add: list_all_iff list_ex_iff)
  moreover have "\<exists>a. evaluate_policy [pg_subject g] (Explicit gs) [a]" if "g \<in> set gs"
    using that ok ne by (auto simp: list_ex_iff)
  ultimately show ?thesis by blast
qed

end
