(* ===== verification/Doc_Manifest.thy ===== *)
theory Doc_Manifest
  imports Doc_Values "HOL-Library.Product_Lexorder" "HOL-Library.List_Lexorder" "HOL-Library.Multiset"
begin

text \<open>
  Version manifests and document revisions, \<open>versioning.rs\<close> and \<open>revision.rs\<close> of
  \<open>document-domain\<close>. A manifest sorts its items by ordinal and logical path and
  is identified by a SHA-256 digest over a length-prefixed byte string. SHA-256
  and Unicode normalization are crates outside the repository: the arguments
  \<open>sha256\<close> and \<open>nfc\<close>. A byte is an integer below 256. \<open>str\<close> comparison is by UTF-8
  bytes, which is the lexicographic order of the code points.
\<close>

subsection \<open>Bytes\<close>

text \<open>The UTF-8 encoding of one scalar value and of a string, and \<open>u32::to_be_bytes\<close>.\<close>

definition utf8_char :: "uchar \<Rightarrow> int list" where
  "utf8_char c =
     (if c < 128 then [c]
      else if c < 2048 then [192 + c div 64, 128 + c mod 64]
      else if c < 65536 then [224 + c div 4096, 128 + c div 64 mod 64, 128 + c mod 64]
      else [240 + c div 262144, 128 + c div 4096 mod 64, 128 + c div 64 mod 64, 128 + c mod 64])"

definition as_bytes :: "ustr \<Rightarrow> int list" where
  "as_bytes s = concat (map utf8_char s)"

definition to_be_bytes :: "int \<Rightarrow> int list" where
  "to_be_bytes n = [n div 16777216 mod 256, n div 65536 mod 256, n div 256 mod 256, n mod 256]"

definition scalar :: "uchar \<Rightarrow> bool" where
  "scalar c \<longleftrightarrow> 0 \<le> c \<and> c \<le> 1114111 \<and> \<not> (55296 \<le> c \<and> c \<le> 57343)"

definition u32 :: "int \<Rightarrow> bool" where
  "u32 n \<longleftrightarrow> 0 \<le> n \<and> n \<le> u32_max"

lemma length_as_bytes: "int (length (as_bytes s)) = utf8_len s"
  by (induction s) (auto simp: as_bytes_def utf8_len_def utf8_char_def utf8_width_def)

subsection \<open>Manifests\<close>

definition IDENTITY_DOMAIN :: "int list" where
  "IDENTITY_DOMAIN = lit ''document-version-identity-v0'' @ [0]"

record SemanticContentItem =
  sci_logical_path :: LogicalPath
  sci_ordinal :: int
  sci_format_id :: ustr
  sci_inspection_profile_id :: ustr
  sci_semantic_fingerprint :: "int list"

definition identifier_byte :: "uchar \<Rightarrow> bool" where
  "identifier_byte c \<longleftrightarrow>
     (48 \<le> c \<and> c \<le> 57) \<or> (65 \<le> c \<and> c \<le> 90) \<or> (97 \<le> c \<and> c \<le> 122) \<or> c = 46 \<or> c = 45 \<or> c = 95 \<or> c = 43"

text \<open>A byte of a non-ASCII character is never an identifier byte, so bytes are code points here.\<close>

definition valid_identifier :: "ustr \<Rightarrow> bool" where
  "valid_identifier value \<longleftrightarrow> value \<noteq> [] \<and> utf8_len value \<le> u32_max \<and> list_all identifier_byte value"

definition SemanticContentItem_new ::
  "LogicalPath \<Rightarrow> int \<Rightarrow> ustr \<Rightarrow> ustr \<Rightarrow> int list \<Rightarrow> DomainError + SemanticContentItem" where
  "SemanticContentItem_new path ordinal format_id profile_id fingerprint =
     (if \<not> valid_identifier format_id then Inl InvalidSemanticFormat
      else if \<not> valid_identifier profile_id then Inl InvalidInspectionProfile
      else Inr \<lparr>sci_logical_path = path, sci_ordinal = ordinal, sci_format_id = format_id,
        sci_inspection_profile_id = profile_id, sci_semantic_fingerprint = fingerprint\<rparr>)"

record VersionManifest =
  vm_title :: Title
  vm_items :: "SemanticContentItem list"

fun replace_crlf :: "ustr \<Rightarrow> ustr" where
  "replace_crlf [] = []"
| "replace_crlf [c] = [c]"
| "replace_crlf (c # d # cs) = (if c = 13 \<and> d = 10 then 10 # replace_crlf cs else c # replace_crlf (d # cs))"

definition replace_cr :: "ustr \<Rightarrow> ustr" where
  "replace_cr s = map (\<lambda>c. if c = 13 then 10 else c) s"

definition item_key :: "SemanticContentItem \<Rightarrow> int \<times> ustr" where
  "item_key i = (sci_ordinal i, logical_path_as_str (sci_logical_path i))"

definition adjacent_keys_equal :: "SemanticContentItem list \<Rightarrow> bool" where
  "adjacent_keys_equal items \<longleftrightarrow> list_ex (\<lambda>(a, b). item_key a = item_key b) (zip items (tl items))"

definition VersionManifest_new ::
  "(ustr \<Rightarrow> ustr) \<Rightarrow> Title \<Rightarrow> SemanticContentItem list \<Rightarrow> DomainError + VersionManifest" where
  "VersionManifest_new nfc title items =
     (if items = [] \<or> u32_max < int (length items) then Inl InvalidContentManifest
      else let normalized = nfc (replace_cr (replace_crlf (title_as_str title))) in
        and_then (Title_new (trim normalized)) (\<lambda>title.
          if u32_max < utf8_len (title_as_str title) then Inl InvalidContentManifest
          else let items = sort_key item_key items in
            if adjacent_keys_equal items then Inl DuplicateContentItemKey
            else Inr \<lparr>vm_title = title, vm_items = items\<rparr>))"

text \<open>\<open>None\<close> is the panic of \<open>expect\<close> on a length that does not fit into 32 bits.\<close>

definition digest_field :: "int list \<Rightarrow> int list option" where
  "digest_field bytes =
     (if int (length bytes) \<le> u32_max then Some (to_be_bytes (int (length bytes)) @ bytes) else None)"

definition item_input :: "SemanticContentItem \<Rightarrow> int list option" where
  "item_input i =
     Option.bind (digest_field (as_bytes (logical_path_as_str (sci_logical_path i)))) (\<lambda>path.
     Option.bind (digest_field (as_bytes (sci_format_id i))) (\<lambda>format.
     Option.bind (digest_field (as_bytes (sci_inspection_profile_id i))) (\<lambda>profile.
       Some (path @ to_be_bytes (sci_ordinal i) @ format @ profile @ sci_semantic_fingerprint i))))"

fun items_input :: "SemanticContentItem list \<Rightarrow> int list option" where
  "items_input [] = Some []"
| "items_input (i # is) =
     Option.bind (item_input i) (\<lambda>a. Option.bind (items_input is) (\<lambda>b. Some (a @ b)))"

definition identity_input :: "VersionManifest \<Rightarrow> int list option" where
  "identity_input m =
     Option.bind (digest_field (as_bytes (title_as_str (vm_title m)))) (\<lambda>title.
       if u32_max < int (length (vm_items m)) then None
       else Option.bind (items_input (vm_items m)) (\<lambda>items.
         Some (IDENTITY_DOMAIN @ title @ to_be_bytes (int (length (vm_items m))) @ items)))"

definition identity_digest :: "(int list \<Rightarrow> int list) \<Rightarrow> VersionManifest \<Rightarrow> int list option" where
  "identity_digest sha256 m = map_option sha256 (identity_input m)"

subsection \<open>Document revisions\<close>

record DocumentRevisionNumber =
  drn_major_no :: int
  drn_minor_no :: int

definition DocumentRevisionNumber_new :: "int \<Rightarrow> int \<Rightarrow> DomainError + DocumentRevisionNumber" where
  "DocumentRevisionNumber_new major_no minor_no =
     (if major_no < 1 \<or> minor_no < 0 then Inl InvalidDocumentRevisionNumber
      else Inr \<lparr>drn_major_no = major_no, drn_minor_no = minor_no\<rparr>)"

record DocumentMetadataSnapshot =
  dms_document_type :: "ustr option"
  dms_owning_department :: "ustr option"
  dms_category :: "ustr option"
  dms_extensions :: "(ustr \<times> Value) list option"

definition optional_string :: "(ustr \<times> Value) list \<Rightarrow> ustr \<Rightarrow> DomainError + ustr option" where
  "optional_string values key =
     (case map_of values key of
        None \<Rightarrow> Inr None
      | Some (VString value) \<Rightarrow> Inr (Some value)
      | Some _ \<Rightarrow> Inl InvalidDocumentMetadataSnapshot)"

definition from_metadata :: "Metadata \<Rightarrow> DomainError + DocumentMetadataSnapshot" where
  "from_metadata metadata =
     (let values = as_map metadata in
      and_then (case map_of values (lit ''extensions'') of
          None \<Rightarrow> Inr None
        | Some (VObject value) \<Rightarrow> Inr (Some value)
        | Some _ \<Rightarrow> Inl InvalidDocumentMetadataSnapshot) (\<lambda>extensions.
      and_then (optional_string values (lit ''document_type'')) (\<lambda>document_type.
      and_then (optional_string values (lit ''owning_department'')) (\<lambda>owning_department.
      and_then (optional_string values (lit ''category'')) (\<lambda>category.
        Inr \<lparr>dms_document_type = document_type, dms_owning_department = owning_department,
          dms_category = category, dms_extensions = extensions\<rparr>)))))"

definition string_or_null :: "ustr option \<Rightarrow> Value" where
  "string_or_null x = (case x of None \<Rightarrow> VNull | Some s \<Rightarrow> VString s)"

definition snapshot_as_json :: "DocumentMetadataSnapshot \<Rightarrow> Value" where
  "snapshot_as_json s = VObject
     [(lit ''document_type'', string_or_null (dms_document_type s)),
      (lit ''owning_department'', string_or_null (dms_owning_department s)),
      (lit ''category'', string_or_null (dms_category s)),
      (lit ''extensions'', case dms_extensions s of None \<Rightarrow> VNull | Some e \<Rightarrow> VObject e)]"

datatype DocumentRevisionMetadataStatus = Complete_status | UnavailableLegacy

fun metadata_status_as_str :: "DocumentRevisionMetadataStatus \<Rightarrow> ustr" where
  "metadata_status_as_str Complete_status = lit ''complete''"
| "metadata_status_as_str UnavailableLegacy = lit ''unavailable_legacy''"

datatype DocumentRevisionSourceKind = InitialPublication | ContentPublication | MetadataRevision
  | WithdrawFallback | LegacyBackfill

fun source_kind_as_str :: "DocumentRevisionSourceKind \<Rightarrow> ustr" where
  "source_kind_as_str InitialPublication = lit ''initialPublication''"
| "source_kind_as_str ContentPublication = lit ''contentPublication''"
| "source_kind_as_str MetadataRevision = lit ''metadataRevision''"
| "source_kind_as_str WithdrawFallback = lit ''withdrawFallback''"
| "source_kind_as_str LegacyBackfill = lit ''legacyBackfill''"

record DocumentRevision =
  dr_revision_id :: uuid
  dr_document_id :: uuid
  dr_document_version_id :: uuid
  dr_number :: DocumentRevisionNumber
  dr_metadata_snapshot :: "DocumentMetadataSnapshot option"
  dr_metadata_snapshot_status :: DocumentRevisionMetadataStatus
  dr_source_kind :: DocumentRevisionSourceKind
  dr_operation_id :: "uuid option"
  dr_created_at :: instant
  dr_actor :: "PrincipalRef option"
  dr_reason :: "ustr option"

text \<open>\<open>DocumentRevision::new\<close> takes the fields one by one; here they come as the record to be checked.\<close>

definition DocumentRevision_new :: "DocumentRevision \<Rightarrow> DomainError + DocumentRevision" where
  "DocumentRevision_new r =
     (let is_legacy = (dr_source_kind r = LegacyBackfill);
          snapshot_valid = (case (dr_metadata_snapshot_status r, dr_metadata_snapshot r) of
              (Complete_status, Some _) \<Rightarrow> True
            | (UnavailableLegacy, None) \<Rightarrow> True
            | _ \<Rightarrow> False);
          provenance_valid = (if is_legacy
            then dr_operation_id r = None \<and> dr_actor r = None \<and> dr_reason r = None
            else dr_operation_id r \<noteq> None \<and> dr_actor r \<noteq> None)
      in if \<not> snapshot_valid \<or> \<not> provenance_valid
            \<or> (dr_metadata_snapshot_status r = UnavailableLegacy \<and> \<not> is_legacy)
         then Inl InvalidDocumentMetadataSnapshot else Inr r)"

lemma DocumentRevision_new_ok:
  "DocumentRevision_new r = Inr r' \<longleftrightarrow> r' = r \<and>
     (if dr_source_kind r = LegacyBackfill
      then dr_operation_id r = None \<and> dr_actor r = None \<and> dr_reason r = None
        \<and> (dr_metadata_snapshot_status r = Complete_status) = (dr_metadata_snapshot r \<noteq> None)
      else dr_operation_id r \<noteq> None \<and> dr_actor r \<noteq> None
        \<and> dr_metadata_snapshot_status r = Complete_status \<and> dr_metadata_snapshot r \<noteq> None)"
  by (cases "dr_metadata_snapshot_status r"; cases "dr_metadata_snapshot r")
    (auto simp: DocumentRevision_new_def Let_def)

end
