(* ===== verification/Doc_Identity.thy ===== *)
theory Doc_Identity
  imports Doc_Manifest
begin

text \<open>
  The identity of a version manifest: it does not depend on the order in which
  the items were given, and the byte string that is hashed determines the
  manifest. Each layer of the byte string is a prefix code (\<open>prefix_code\<close>): one
  value followed by anything can be read in one way only.
\<close>

subsection \<open>Prefix codes\<close>

locale prefix_code =
  fixes enc :: "'a \<Rightarrow> int list" and ok :: "'a \<Rightarrow> bool"
  assumes prefix: "ok x \<Longrightarrow> ok y \<Longrightarrow> enc x @ r = enc y @ s \<Longrightarrow> x = y \<and> r = s"
begin

lemma same_length:
  "list_all ok xs \<Longrightarrow> list_all ok ys \<Longrightarrow> length xs = length ys \<Longrightarrow>
     concat (map enc xs) @ r = concat (map enc ys) @ s \<Longrightarrow> xs = ys \<and> r = s"
proof (induction xs arbitrary: ys)
  case Nil
  then show ?case by simp
next
  case (Cons x xs)
  then obtain y zs where ys: "ys = y # zs" by (cases ys) auto
  with Cons.prems have "enc x @ (concat (map enc xs) @ r) = enc y @ (concat (map enc zs) @ s)" by simp
  from prefix [OF _ _ this] Cons.prems ys have "x = y \<and> concat (map enc xs) @ r = concat (map enc zs) @ s" by simp
  with Cons.IH [of zs] Cons.prems ys show ?case by simp
qed

end

locale nonempty_prefix_code = prefix_code +
  assumes nonempty: "ok x \<Longrightarrow> enc x \<noteq> []"
begin

lemma any_length:
  "list_all ok xs \<Longrightarrow> list_all ok ys \<Longrightarrow> concat (map enc xs) = concat (map enc ys) \<Longrightarrow> xs = ys"
proof (induction xs arbitrary: ys)
  case Nil
  then show ?case using nonempty by (cases ys) auto
next
  case (Cons x xs)
  then obtain y zs where ys: "ys = y # zs" using nonempty by (cases ys) auto
  with Cons.prems have "enc x @ concat (map enc xs) = enc y @ concat (map enc zs)" by simp
  from prefix [OF _ _ this] Cons.prems ys have "x = y \<and> concat (map enc xs) = concat (map enc zs)" by simp
  with Cons.IH [of zs] Cons.prems ys show ?case by simp
qed

end

subsection \<open>The layers\<close>

lemma div_mod_inj:
  fixes c d :: int
  assumes "c div n = d div n" and "c mod n = d mod n"
  shows "c = d"
  using assms by (metis mult_div_mod_eq)

lemma div_step_inj:
  fixes c d :: int
  assumes "c div m = d div m" and "c div k mod n = d div k mod n" and "m = k * n" and "0 \<le> n"
  shows "c div k = d div k"
  using assms div_mod_inj [of "c div k" n "d div k"] by (simp add: zdiv_zmult2_eq)

lemma utf8_char_simps:
  "c < 128 \<Longrightarrow> utf8_char c = [c]"
  "128 \<le> c \<Longrightarrow> c < 2048 \<Longrightarrow> utf8_char c = [192 + c div 64, 128 + c mod 64]"
  "2048 \<le> c \<Longrightarrow> c < 65536 \<Longrightarrow> utf8_char c = [224 + c div 4096, 128 + c div 64 mod 64, 128 + c mod 64]"
  "65536 \<le> c \<Longrightarrow> utf8_char c =
     [240 + c div 262144, 128 + c div 4096 mod 64, 128 + c div 64 mod 64, 128 + c mod 64]"
  by (simp_all add: utf8_char_def)

lemma utf8_char_nonempty: "utf8_char c \<noteq> []"
  by (simp add: utf8_char_def)

lemma utf8_lead_byte:
  assumes "scalar c"
  shows "c < 128 \<and> hd (utf8_char c) < 128
    \<or> 128 \<le> c \<and> c < 2048 \<and> 128 \<le> hd (utf8_char c) \<and> hd (utf8_char c) < 224
    \<or> 2048 \<le> c \<and> c < 65536 \<and> 224 \<le> hd (utf8_char c) \<and> hd (utf8_char c) < 240
    \<or> 65536 \<le> c \<and> 240 \<le> hd (utf8_char c)"
proof -
  have "0 \<le> c" using assms by (simp add: scalar_def)
  then have b: "0 \<le> c div 64" "0 \<le> c div 4096" "0 \<le> c div 262144"
    "c < 2048 \<Longrightarrow> c div 64 < 32" "c < 65536 \<Longrightarrow> c div 4096 < 16" by simp_all
  consider "c < 128" | "128 \<le> c" "c < 2048" | "2048 \<le> c" "c < 65536" | "65536 \<le> c" by linarith
  then show ?thesis using b by cases (simp_all add: utf8_char_simps)
qed

lemma utf8_char_prefix:
  assumes "scalar c" and "scalar d" and "utf8_char c @ r = utf8_char d @ s"
  shows "c = d \<and> r = s"
proof -
  note eqs = append_Cons append_Nil list.inject add_left_cancel
  have "hd (utf8_char c) = hd (utf8_char d)"
    using arg_cong [OF assms(3), of hd] by (simp add: hd_append utf8_char_nonempty)
  then consider "c < 128" "d < 128" | "128 \<le> c" "c < 2048" "128 \<le> d" "d < 2048"
    | "2048 \<le> c" "c < 65536" "2048 \<le> d" "d < 65536" | "65536 \<le> c" "65536 \<le> d"
    using utf8_lead_byte [OF assms(1)] utf8_lead_byte [OF assms(2)] by linarith
  then show ?thesis
  proof cases
    case 1
    then show ?thesis using assms(3) by (simp add: utf8_char_simps)
  next
    case 2
    have "c div 64 = d div 64 \<and> c mod 64 = d mod 64 \<and> r = s"
      using assms(3) unfolding utf8_char_simps(2) [OF 2(1,2)] utf8_char_simps(2) [OF 2(3,4)] eqs .
    then show ?thesis using div_mod_inj by blast
  next
    case 3
    have *: "c div 4096 = d div 4096 \<and> c div 64 mod 64 = d div 64 mod 64 \<and> c mod 64 = d mod 64 \<and> r = s"
      using assms(3) unfolding utf8_char_simps(3) [OF 3(1,2)] utf8_char_simps(3) [OF 3(3,4)] eqs .
    have "c div 64 = d div 64" by (rule div_step_inj [of _ 4096 _ _ 64]) (use * in blast, use * in blast, simp_all)
    with * show ?thesis using div_mod_inj by blast
  next
    case 4
    have *: "c div 262144 = d div 262144 \<and> c div 4096 mod 64 = d div 4096 mod 64
        \<and> c div 64 mod 64 = d div 64 mod 64 \<and> c mod 64 = d mod 64 \<and> r = s"
      using assms(3) unfolding utf8_char_simps(4) [OF 4(1)] utf8_char_simps(4) [OF 4(2)] eqs .
    have h: "c div 4096 = d div 4096"
      by (rule div_step_inj [of _ 262144 _ _ 64]) (use * in blast, use * in blast, simp_all)
    have "c div 64 = d div 64" by (rule div_step_inj [of _ 4096 _ _ 64]) (fact h, use * in blast, simp_all)
    with * show ?thesis using div_mod_inj by blast
  qed
qed

interpretation utf8: nonempty_prefix_code utf8_char scalar
  by unfold_locales (fact utf8_char_prefix, rule utf8_char_nonempty)

lemma as_bytes_inject: "list_all scalar s \<Longrightarrow> list_all scalar t \<Longrightarrow> as_bytes s = as_bytes t \<Longrightarrow> s = t"
  unfolding as_bytes_def by (rule utf8.any_length)

lemma to_be_bytes_prefix:
  assumes "u32 m" and "u32 n" and "to_be_bytes m @ r = to_be_bytes n @ s"
  shows "m = n \<and> r = s"
proof -
  from assms(3) have *: "m div 16777216 mod 256 = n div 16777216 mod 256 \<and> m div 65536 mod 256 = n div 65536 mod 256
      \<and> m div 256 mod 256 = n div 256 mod 256 \<and> m mod 256 = n mod 256 \<and> r = s"
    unfolding to_be_bytes_def append_Cons append_Nil list.inject .
  have "m div 16777216 < 256" "n div 16777216 < 256" "0 \<le> m div 16777216" "0 \<le> n div 16777216"
    using assms(1,2) by (auto simp: u32_def u32_max_def)
  then have h: "m div 16777216 = n div 16777216" using * by (metis mod_pos_pos_trivial)
  have k: "m div 65536 = n div 65536"
    by (rule div_step_inj [of _ 16777216 _ _ 256]) (fact h, use * in blast, simp_all)
  have "m div 256 = n div 256"
    by (rule div_step_inj [of _ 65536 _ _ 256]) (fact k, use * in blast, simp_all)
  with * div_mod_inj show ?thesis by blast
qed

interpretation be32: prefix_code to_be_bytes u32
  by unfold_locales (rule to_be_bytes_prefix)

lemma field_prefix:
  assumes "digest_field a = Some x" and "digest_field b = Some y" and "x @ r = y @ s"
  shows "a = b \<and> r = s"
proof -
  from assms(1,2) have l: "u32 (int (length a))" "u32 (int (length b))"
    and xy: "x = to_be_bytes (int (length a)) @ a" "y = to_be_bytes (int (length b)) @ b"
    by (auto simp: digest_field_def u32_def split: if_splits)
  with assms(3) be32.prefix [OF l, of "a @ r" "b @ s"] have "length a = length b" "a @ r = b @ s" by simp_all
  then show ?thesis by simp
qed

text \<open>Strings are strings, ordinals fit into 32 bits and fingerprints into 32 bytes, as their Rust types say.\<close>

definition item_typed :: "SemanticContentItem \<Rightarrow> bool" where
  "item_typed i \<longleftrightarrow> list_all scalar (logical_path_as_str (sci_logical_path i)) \<and> u32 (sci_ordinal i)
     \<and> list_all scalar (sci_format_id i) \<and> list_all scalar (sci_inspection_profile_id i)
     \<and> length (sci_semantic_fingerprint i) = 32"

lemma item_prefix:
  assumes "item_typed i" and "item_typed j" and "item_input i = Some x" and "item_input j = Some y"
    and "x @ r = y @ s"
  shows "i = j \<and> r = s"
proof -
  from assms(3,4) obtain p f q p' f' q' where
    i: "digest_field (as_bytes (logical_path_as_str (sci_logical_path i))) = Some p"
      "digest_field (as_bytes (sci_format_id i)) = Some f"
      "digest_field (as_bytes (sci_inspection_profile_id i)) = Some q"
      "x = p @ to_be_bytes (sci_ordinal i) @ f @ q @ sci_semantic_fingerprint i" and
    j: "digest_field (as_bytes (logical_path_as_str (sci_logical_path j))) = Some p'"
      "digest_field (as_bytes (sci_format_id j)) = Some f'"
      "digest_field (as_bytes (sci_inspection_profile_id j)) = Some q'"
      "y = p' @ to_be_bytes (sci_ordinal j) @ f' @ q' @ sci_semantic_fingerprint j"
    by (auto simp: item_input_def bind_eq_Some_conv)
  note t = assms(1,2) [unfolded item_typed_def]
  from assms(5) i(4) j(4)
  have "p @ (to_be_bytes (sci_ordinal i) @ f @ q @ sci_semantic_fingerprint i @ r)
      = p' @ (to_be_bytes (sci_ordinal j) @ f' @ q' @ sci_semantic_fingerprint j @ s)" by simp
  note 1 = field_prefix [OF i(1) j(1) this]
  with t be32.prefix [of "sci_ordinal i" "sci_ordinal j"]
  have 2: "sci_ordinal i = sci_ordinal j"
    "f @ (q @ sci_semantic_fingerprint i @ r) = f' @ (q' @ sci_semantic_fingerprint j @ s)" by blast+
  note 3 = field_prefix [OF i(2) j(2) 2(2)]
  note 4 = field_prefix [OF i(3) j(3) conjunct2 [OF 3]]
  from 4 t have "sci_semantic_fingerprint i = sci_semantic_fingerprint j" "r = s" by simp_all
  moreover have "logical_path_as_str (sci_logical_path i) = logical_path_as_str (sci_logical_path j)"
    "sci_format_id i = sci_format_id j" "sci_inspection_profile_id i = sci_inspection_profile_id j"
    using 1 3 4 t as_bytes_inject by blast+
  ultimately show ?thesis using 2(1)
    by (auto intro!: SemanticContentItem.equality LogicalPath.expand)
qed

lemma items_prefix:
  assumes "list_all item_typed is" and "list_all item_typed js" and "length is = length js"
    and "items_input is = Some x" and "items_input js = Some y" and "x @ r = y @ s"
  shows "is = js \<and> r = s"
  using assms
proof (induction "is" arbitrary: js x y)
  case Nil
  then show ?case by simp
next
  case (Cons i "is")
  from Cons.prems obtain j ks a b c d where js: "js = j # ks" and
    x: "item_input i = Some a" "items_input is = Some b" "x = a @ b" and
    y: "item_input j = Some c" "items_input ks = Some d" "y = c @ d"
    by (cases js) (auto simp: bind_eq_Some_conv)
  have "a @ (b @ r) = c @ (d @ s)" using Cons.prems(6) x(3) y(3) by simp
  with item_prefix [OF _ _ x(1) y(1)] Cons.prems js have "i = j" "b @ r = d @ s" by auto
  with Cons.IH [of ks b d] Cons.prems js x y show ?case by simp
qed

subsection \<open>Every constructed manifest has an identity\<close>

text \<open>Items as the constructors \<open>LogicalPath::new\<close> and \<open>SemanticContentItem::new\<close> deliver them.\<close>

definition item_built :: "(ustr \<Rightarrow> ustr) \<Rightarrow> SemanticContentItem \<Rightarrow> bool" where
  "item_built nfc i \<longleftrightarrow>
     (\<exists>raw path ordinal format profile fingerprint. LogicalPath_new nfc raw = Inr path
        \<and> SemanticContentItem_new path ordinal format profile fingerprint = Inr i)"

lemma digest_field_fits: "utf8_len s \<le> u32_max \<Longrightarrow> \<exists>x. digest_field (as_bytes s) = Some x"
  by (simp add: digest_field_def length_as_bytes)

lemma item_built_input:
  assumes "item_built nfc i"
  shows "\<exists>x. item_input i = Some x"
proof -
  from assms have "utf8_len (logical_path_as_str (sci_logical_path i)) \<le> u32_max"
    "utf8_len (sci_format_id i) \<le> u32_max" "utf8_len (sci_inspection_profile_id i) \<le> u32_max"
    by (auto simp: item_built_def LogicalPath_new_def SemanticContentItem_new_def Let_def valid_identifier_def
        split: if_splits)
  from this [THEN digest_field_fits] show ?thesis by (auto simp: item_input_def)
qed

lemma items_built_input:
  "list_all (item_built nfc) is \<Longrightarrow> \<exists>x. items_input is = Some x"
proof (induction "is")
  case (Cons i "is")
  with item_built_input [of nfc i] show ?case by auto
qed simp

lemma VersionManifest_new_ok:
  assumes "VersionManifest_new nfc title items = Inr m"
  shows "mset (vm_items m) = mset items" "int (length (vm_items m)) \<le> u32_max"
    "utf8_len (title_as_str (vm_title m)) \<le> u32_max" "vm_items m = sort_key item_key items"
  using assms by (auto simp: VersionManifest_new_def Let_def result_simps)

lemma manifest_input:
  assumes "VersionManifest_new nfc title items = Inr m" and "list_all (item_built nfc) items"
  shows "\<exists>x. identity_input m = Some x"
proof -
  note m = VersionManifest_new_ok [OF assms(1)]
  have "set (vm_items m) = set items" using m(4) by simp
  then have "list_all (item_built nfc) (vm_items m)" using assms(2) by (simp add: list_all_iff)
  from items_built_input [OF this] digest_field_fits [OF m(3)] m(2) show ?thesis
    by (auto simp: identity_input_def)
qed

definition manifest_typed :: "VersionManifest \<Rightarrow> bool" where
  "manifest_typed m \<longleftrightarrow> list_all scalar (title_as_str (vm_title m)) \<and> list_all item_typed (vm_items m)"

lemma identity_input_inject:
  assumes "manifest_typed m" and "manifest_typed n" and "identity_input m = Some x" and "identity_input n = Some x"
  shows "m = n"
proof -
  note t = assms(1,2) [unfolded manifest_typed_def]
  from assms(3,4) obtain a b c d where
    m: "digest_field (as_bytes (title_as_str (vm_title m))) = Some a" "int (length (vm_items m)) \<le> u32_max"
      "items_input (vm_items m) = Some b" "x = IDENTITY_DOMAIN @ a @ to_be_bytes (int (length (vm_items m))) @ b" and
    n: "digest_field (as_bytes (title_as_str (vm_title n))) = Some c" "int (length (vm_items n)) \<le> u32_max"
      "items_input (vm_items n) = Some d" "x = IDENTITY_DOMAIN @ c @ to_be_bytes (int (length (vm_items n))) @ d"
    by (auto simp: identity_input_def bind_eq_Some_conv split: if_splits)
  from m(4) n(4) have "a @ (to_be_bytes (int (length (vm_items m))) @ b) = c @ (to_be_bytes (int (length (vm_items n))) @ d)"
    by simp
  note 1 = field_prefix [OF m(1) n(1) this]
  have "u32 (int (length (vm_items m)))" "u32 (int (length (vm_items n)))" using m(2) n(2) by (simp_all add: u32_def)
  from be32.prefix [OF this conjunct2 [OF 1]] have "length (vm_items m) = length (vm_items n)" "b = d" by simp_all
  with items_prefix [OF _ _ _ m(3) n(3), of "[]" "[]"] t have "vm_items m = vm_items n" by simp
  moreover have "vm_title m = vm_title n" using 1 t as_bytes_inject by (blast intro: Title.expand)
  ultimately show ?thesis by simp
qed

text \<open>
  (C14) The identity of a manifest is exact: hashing never panics for a manifest made of constructed
  items, and two manifests have the same digest exactly when they are equal, provided the hash
  function does not collide on these two inputs. No field can be moved into its neighbour.
\<close>

theorem manifest_identity_exact:
  assumes "VersionManifest_new nfc title items = Inr m" and "VersionManifest_new nfc title' items' = Inr n"
    and "list_all (item_built nfc) (items @ items')" and "manifest_typed m" and "manifest_typed n"
  shows "\<exists>x y. identity_input m = Some x \<and> identity_input n = Some y
    \<and> ((sha256 x = sha256 y \<longrightarrow> x = y) \<longrightarrow> (identity_digest sha256 m = identity_digest sha256 n \<longleftrightarrow> m = n))"
proof -
  from assms(3) obtain x y where "identity_input m = Some x" "identity_input n = Some y"
    using manifest_input [OF assms(1)] manifest_input [OF assms(2)] by auto
  then show ?thesis using identity_input_inject [OF assms(4,5)] by (auto simp: identity_digest_def)
qed

subsection \<open>Order of items\<close>

lemma adjacent_sorted:
  "sorted (map item_key is) \<Longrightarrow> adjacent_keys_equal is \<longleftrightarrow> \<not> distinct (map item_key is)"
proof (induction "is" rule: induct_list012)
  case (3 a b "is")
  have "adjacent_keys_equal (a # b # is) \<longleftrightarrow> item_key a = item_key b \<or> adjacent_keys_equal (b # is)"
    by (simp add: adjacent_keys_equal_def)
  moreover have "item_key a \<in> set (map item_key (b # is)) \<longleftrightarrow> item_key a = item_key b"
    using 3(3) by force
  ultimately show ?case using 3 by auto
qed (simp_all add: adjacent_keys_equal_def)

text \<open>
  The order in which the items of a version are listed does not matter: any permutation of them
  gives the same manifest, or the same error, and so the same identity.
\<close>

theorem manifest_order_irrelevant:
  assumes "mset items = mset items'"
  shows "VersionManifest_new nfc title items = VersionManifest_new nfc title items'"
proof -
  have len: "length items = length items'" "items = [] \<longleftrightarrow> items' = []"
    using assms by (metis mset_eq_length, metis mset_zero_iff)
  let ?s = "sort_key item_key items" and ?t = "sort_key item_key items'"
  have "mset (map item_key items) = mset (map item_key items')" using assms by simp
  then have keys: "distinct (map item_key items) \<longleftrightarrow> distinct (map item_key items')" by (rule mset_eq_imp_distinct_iff)
  have adj: "adjacent_keys_equal (sort_key item_key l) \<longleftrightarrow> \<not> distinct (map item_key l)" for l
  proof -
    have "mset (map item_key (sort_key item_key l)) = mset (map item_key l)" by simp
    from mset_eq_imp_distinct_iff [OF this] show ?thesis using adjacent_sorted [of "sort_key item_key l"] by simp
  qed
  show ?thesis
  proof (cases "distinct (map item_key items)")
    case True
    have same: "?s = ?t"
    proof (rule sort_key_inj_key_eq)
      show "mset items = mset ?t" using assms by simp
      show "inj_on item_key (set items)" using True by (simp add: distinct_map)
    qed simp
    show ?thesis unfolding VersionManifest_new_def Let_def len same ..
  next
    case False
    then have clash: "adjacent_keys_equal ?s = True" "adjacent_keys_equal ?t = True" using keys adj by simp_all
    show ?thesis unfolding VersionManifest_new_def Let_def len clash if_True ..
  qed
qed

end
