(* ===== verification/Diff_Alignment.thy ===== *)
theory Diff_Alignment
  imports Prelude "HOL-Library.Product_Lexorder" "HOL-Library.List_Lexorder" "HOL-Library.Multiset"
begin

text \<open>
  Alignment of the content items of two versions, \<open>alignment.rs\<close> of
  \<open>document-diff-core\<close>, with the format and profile identifiers of
  \<open>document-semantic-inspection-core\<close>. Items are matched by path and ordinal, then
  by path, then by format, profile and fingerprint, each time only where the match
  is unique on both sides, under a budget of candidate comparisons.

  A \<open>BTreeMap\<close> from keys to index vectors is the association list of its entries in
  the order of the keys. The vectors of \<open>used\<close> flags, the pairs found so far and the
  budget are the state that the three loops thread.
\<close>

subsection \<open>Formats and profiles\<close>

datatype FormatId = Docx | Xlsx | Xlsm | Pptx | Pdf | Txt | Csv | Html

fun format_rank :: "FormatId \<Rightarrow> nat" where
  "format_rank Docx = 0" | "format_rank Xlsx = 1" | "format_rank Xlsm = 2" | "format_rank Pptx = 3"
| "format_rank Pdf = 4" | "format_rank Txt = 5" | "format_rank Csv = 6" | "format_rank Html = 7"

lemma format_rank_inject [simp]: "format_rank x = format_rank y \<longleftrightarrow> x = y"
  by (cases x; cases y) simp_all

text \<open>The derived order of an enumeration is the order of its constructors.\<close>

instantiation FormatId :: linorder
begin

definition less_eq_FormatId :: "FormatId \<Rightarrow> FormatId \<Rightarrow> bool" where
  "less_eq_FormatId x y \<longleftrightarrow> format_rank x \<le> format_rank y"

definition less_FormatId :: "FormatId \<Rightarrow> FormatId \<Rightarrow> bool" where
  "less_FormatId x y \<longleftrightarrow> format_rank x < format_rank y"

instance
  by standard (auto simp: less_eq_FormatId_def less_FormatId_def)

end

datatype InspectionProfileVersion = DsiV0

instantiation InspectionProfileVersion :: linorder
begin

definition less_eq_InspectionProfileVersion :: "InspectionProfileVersion \<Rightarrow> InspectionProfileVersion \<Rightarrow> bool" where
  "less_eq_InspectionProfileVersion x y \<longleftrightarrow> True"

definition less_InspectionProfileVersion :: "InspectionProfileVersion \<Rightarrow> InspectionProfileVersion \<Rightarrow> bool" where
  "less_InspectionProfileVersion x y \<longleftrightarrow> False"

instance
proof
  fix x y :: InspectionProfileVersion
  show "x = y" by (cases x; cases y) simp
qed (simp_all add: less_eq_InspectionProfileVersion_def less_InspectionProfileVersion_def)

end

subsection \<open>Data\<close>

record ItemAnchor =
  ia_logical_path :: ustr
  ia_ordinal :: int
  ia_format :: "FormatId option"
  ia_inspection_profile :: InspectionProfileVersion
  ia_semantic_fingerprint :: "int list option"

datatype AlignmentKind = Exact | Reordered | Relocated

record AlignedPair =
  ap_base_index :: nat
  ap_target_index :: nat
  ap_kind :: AlignmentKind

record UnresolvedCluster =
  uc_base_indices :: "nat list"
  uc_target_indices :: "nat list"

record AlignmentOutcome =
  ao_pairs :: "AlignedPair list"
  ao_unmatched_base :: "nat list"
  ao_unmatched_target :: "nat list"
  ao_unresolved :: "UnresolvedCluster list"
  ao_exhausted :: bool

record AlignmentBudget =
  ab_limit :: int
  ab_used :: int

definition AlignmentBudget_new :: "int \<Rightarrow> AlignmentBudget" where
  "AlignmentBudget_new max_candidates = \<lparr>ab_limit = max_candidates, ab_used = 0\<rparr>"

definition budget_remaining :: "AlignmentBudget \<Rightarrow> int" where
  "budget_remaining b = max 0 (ab_limit b - ab_used b)"

definition charge :: "int \<Rightarrow> AlignmentBudget \<Rightarrow> AlignmentBudget \<times> bool" where
  "charge n b =
     (case checked_add_u64 (ab_used b) n of
        Some next_used \<Rightarrow> if next_used \<le> ab_limit b then (b\<lparr>ab_used := next_used\<rparr>, True) else (b, False)
      | None \<Rightarrow> (b, False))"

text \<open>The local variables of \<open>align_items\<close>.\<close>

record align_state =
  as_pairs :: "AlignedPair list"
  as_base_used :: "bool list"
  as_target_used :: "bool list"
  as_budget :: AlignmentBudget

subsection \<open>Operations\<close>

definition add_pair :: "AlignmentKind \<Rightarrow> nat \<Rightarrow> nat \<Rightarrow> align_state \<Rightarrow> align_state" where
  "add_pair kind base_index target_index s =
     s\<lparr>as_base_used := (as_base_used s)[base_index := True],
       as_target_used := (as_target_used s)[target_index := True],
       as_pairs := as_pairs s @ [\<lparr>ap_base_index = base_index, ap_target_index = target_index, ap_kind = kind\<rparr>]\<rparr>"

text \<open>The map from keys to the indices that have them; an item without a key is left out.\<close>

definition index_by :: "('a \<Rightarrow> 'k::linorder option) \<Rightarrow> 'a list \<Rightarrow> nat list \<Rightarrow> ('k \<times> nat list) list" where
  "index_by key items indices =
     map (\<lambda>k. (k, filter (\<lambda>i. key (items ! i) = Some k) indices))
       (sort (remdups (List.map_filter (\<lambda>i. key (items ! i)) indices)))"

definition unused :: "bool list \<Rightarrow> nat list" where
  "unused used = filter (\<lambda>i. \<not> used ! i) [0..<length used]"

definition exact_key :: "ItemAnchor \<Rightarrow> (ustr \<times> int) option" where
  "exact_key i = Some (ia_logical_path i, ia_ordinal i)"

definition path_key :: "ItemAnchor \<Rightarrow> ustr option" where
  "path_key i = Some (ia_logical_path i)"

definition fingerprint_key :: "ItemAnchor \<Rightarrow> (FormatId \<times> InspectionProfileVersion \<times> int list) option" where
  "fingerprint_key i =
     (case (ia_format i, ia_semantic_fingerprint i) of
        (Some format, Some fingerprint) \<Rightarrow> Some (format, ia_inspection_profile i, fingerprint)
      | _ \<Rightarrow> None)"

text \<open>What a loop charges for a key that both sides have: nothing is charged, and nothing done, for \<open>None\<close>.\<close>

definition unique_cost :: "nat list \<Rightarrow> nat list \<Rightarrow> int option" where
  "unique_cost old new = (if length old = 1 \<and> length new = 1 then Some 1 else None)"

definition candidate_cost :: "nat list \<Rightarrow> nat list \<Rightarrow> int option" where
  "candidate_cost old new = Some (min (int (length old) * int (length new)) u64_max)"

text \<open>One loop over the entries of the base map. The flag says that the budget ran out.\<close>

fun match_groups ::
  "AlignmentKind \<Rightarrow> (nat list \<Rightarrow> nat list \<Rightarrow> int option) \<Rightarrow> ('k \<times> nat list) list \<Rightarrow> ('k \<times> nat list) list
     \<Rightarrow> align_state \<Rightarrow> align_state \<times> bool" where
  "match_groups kind cost targets [] s = (s, False)"
| "match_groups kind cost targets ((key, old) # rest) s =
     (case map_of targets key of
        None \<Rightarrow> match_groups kind cost targets rest s
      | Some new \<Rightarrow>
        (case cost old new of
           None \<Rightarrow> match_groups kind cost targets rest s
         | Some n \<Rightarrow>
           (case charge n (as_budget s) of
              (b, False) \<Rightarrow> (s\<lparr>as_budget := b\<rparr>, True)
            | (b, True) \<Rightarrow>
              match_groups kind cost targets rest
                (if length old = 1 \<and> length new = 1
                 then add_pair kind (old ! 0) (new ! 0) (s\<lparr>as_budget := b\<rparr>)
                 else s\<lparr>as_budget := b\<rparr>))))"

definition finish :: "align_state \<Rightarrow> bool \<Rightarrow> AlignmentOutcome" where
  "finish s exhausted =
     (let pairs = sort_key (\<lambda>p. (ap_base_index p, ap_target_index p)) (as_pairs s);
          base_remaining = unused (as_base_used s);
          target_remaining = unused (as_target_used s);
          ambiguous = (exhausted \<or> (base_remaining \<noteq> [] \<and> target_remaining \<noteq> []))
      in if ambiguous
         then \<lparr>ao_pairs = pairs, ao_unmatched_base = [], ao_unmatched_target = [],
            ao_unresolved = [\<lparr>uc_base_indices = base_remaining, uc_target_indices = target_remaining\<rparr>],
            ao_exhausted = exhausted\<rparr>
         else \<lparr>ao_pairs = pairs, ao_unmatched_base = base_remaining, ao_unmatched_target = target_remaining,
            ao_unresolved = [], ao_exhausted = exhausted\<rparr>)"

definition exact_phase :: "ItemAnchor list \<Rightarrow> ItemAnchor list \<Rightarrow> align_state \<Rightarrow> align_state \<times> bool" where
  "exact_phase base target s =
     match_groups Exact unique_cost (index_by exact_key target [0..<length target])
       (index_by exact_key base [0..<length base]) s"

definition path_phase :: "ItemAnchor list \<Rightarrow> ItemAnchor list \<Rightarrow> align_state \<Rightarrow> align_state \<times> bool" where
  "path_phase base target s =
     match_groups Reordered unique_cost (index_by path_key target (unused (as_target_used s)))
       (index_by path_key base (unused (as_base_used s))) s"

definition fingerprint_phase :: "ItemAnchor list \<Rightarrow> ItemAnchor list \<Rightarrow> align_state \<Rightarrow> align_state \<times> bool" where
  "fingerprint_phase base target s =
     match_groups Relocated candidate_cost (index_by fingerprint_key target (unused (as_target_used s)))
       (index_by fingerprint_key base (unused (as_base_used s))) s"

definition align_items ::
  "ItemAnchor list \<Rightarrow> ItemAnchor list \<Rightarrow> AlignmentBudget \<Rightarrow> AlignmentOutcome \<times> AlignmentBudget" where
  "align_items base target budget =
     (let s0 = \<lparr>as_pairs = [], as_base_used = replicate (length base) False,
          as_target_used = replicate (length target) False, as_budget = budget\<rparr>;
          (s1, out1) = exact_phase base target s0
      in if out1 then (finish s1 True, as_budget s1)
         else let (s2, out2) = path_phase base target s1
           in if out2 then (finish s2 True, as_budget s2)
              else let (s3, out3) = fingerprint_phase base target s2
                in (finish s3 out3, as_budget s3))"

end
