(* ===== verification/Diff_Props.thy ===== *)
theory Diff_Props
  imports Diff_Alignment
begin

text \<open>
  What the alignment of two versions delivers: every item of either side is
  accounted for exactly once, every pair is justified by its kind, unique exact
  matches are found, and the budget bounds the work.
\<close>

subsection \<open>Grouping by key\<close>

lemma index_by_keys: "distinct (map fst (index_by key items idx))"
  by (simp add: index_by_def comp_def)

lemma index_by_member:
  "(k, old) \<in> set (index_by key items idx) \<Longrightarrow> i \<in> set old \<Longrightarrow> i \<in> set idx \<and> key (items ! i) = Some k"
  by (auto simp: index_by_def)

lemma index_by_entry:
  assumes "filter (\<lambda>i. key (items ! i) = Some k) idx = [i]"
  shows "(k, [i]) \<in> set (index_by key items idx)"
proof -
  have "i \<in> set (filter (\<lambda>i. key (items ! i) = Some k) idx)" using assms by simp
  then have "k \<in> set (List.map_filter (\<lambda>i. key (items ! i)) idx)"
    by (auto simp: List.map_filter_def image_iff)
  with assms show ?thesis by (force simp: index_by_def)
qed

lemma unused_iff: "i \<in> set (unused used) \<longleftrightarrow> i < length used \<and> \<not> used ! i"
  by (auto simp: unused_def)

subsection \<open>The state of the loops\<close>

fun justifies :: "AlignmentKind \<Rightarrow> ItemAnchor \<Rightarrow> ItemAnchor \<Rightarrow> bool" where
  "justifies Exact a b \<longleftrightarrow> ia_logical_path a = ia_logical_path b \<and> ia_ordinal a = ia_ordinal b"
| "justifies Reordered a b \<longleftrightarrow> ia_logical_path a = ia_logical_path b"
| "justifies Relocated a b \<longleftrightarrow> ia_format a = ia_format b \<and> ia_format a \<noteq> None
     \<and> ia_inspection_profile a = ia_inspection_profile b
     \<and> ia_semantic_fingerprint a = ia_semantic_fingerprint b \<and> ia_semantic_fingerprint a \<noteq> None"

text \<open>The flags of one side mark exactly the indices in pairs, each of which occurs once.\<close>

definition marks :: "nat \<Rightarrow> bool list \<Rightarrow> nat list \<Rightarrow> bool" where
  "marks n used is \<longleftrightarrow> length used = n \<and> distinct is \<and> set is = {i. i < n \<and> used ! i}"

definition matching :: "ItemAnchor list \<Rightarrow> ItemAnchor list \<Rightarrow> align_state \<Rightarrow> bool" where
  "matching base target s \<longleftrightarrow>
     marks (length base) (as_base_used s) (map ap_base_index (as_pairs s))
     \<and> marks (length target) (as_target_used s) (map ap_target_index (as_pairs s))
     \<and> (\<forall>p\<in>set (as_pairs s). justifies (ap_kind p) (base ! ap_base_index p) (target ! ap_target_index p))"

lemma marks_add:
  assumes "marks n used is" and "i < n" and "\<not> used ! i"
  shows "marks n (used[i := True]) (is @ [i])"
proof -
  have "{j. j < n \<and> used[i := True] ! j} = insert i {j. j < n \<and> used ! j}"
    using assms by (auto simp: marks_def nth_list_update split: if_splits)
  then show ?thesis using assms by (auto simp: marks_def)
qed

lemma matching_budget [simp]: "matching base target (s\<lparr>as_budget := b\<rparr>) = matching base target s"
  by (simp add: matching_def)

lemma matching_add:
  assumes "matching base target s" and "i < length base" and "\<not> as_base_used s ! i"
    and "j < length target" and "\<not> as_target_used s ! j" and "justifies kind (base ! i) (target ! j)"
  shows "matching base target (add_pair kind i j s)"
  using assms marks_add [of "length base" "as_base_used s" "map ap_base_index (as_pairs s)" i]
    marks_add [of "length target" "as_target_used s" "map ap_target_index (as_pairs s)" j]
  by (auto simp: matching_def add_pair_def)

text \<open>The entries still to be visited have their keys and are unused on both sides.\<close>

definition available ::
  "(ItemAnchor \<Rightarrow> 'k option) \<Rightarrow> ItemAnchor list \<Rightarrow> ItemAnchor list \<Rightarrow> ('k \<times> nat list) list
     \<Rightarrow> ('k \<times> nat list) list \<Rightarrow> align_state \<Rightarrow> bool" where
  "available key base target targets groups s \<longleftrightarrow>
     distinct (map fst groups)
     \<and> (\<forall>(k, old)\<in>set groups. \<forall>i\<in>set old. i < length base \<and> key (base ! i) = Some k \<and> \<not> as_base_used s ! i)
     \<and> (\<forall>k new j. map_of targets k = Some new \<and> j \<in> set new \<longrightarrow> j < length target \<and> key (target ! j) = Some k
          \<and> (k \<in> fst ` set groups \<longrightarrow> \<not> as_target_used s ! j))"

lemma available_target:
  assumes "available key base target targets groups s" and "map_of targets k = Some new" and "j \<in> set new"
  shows "j < length target" "key (target ! j) = Some k" "k \<in> fst ` set groups \<Longrightarrow> \<not> as_target_used s ! j"
  using assms unfolding available_def by blast+

lemma available_rest:
  "available key base target targets ((k, old) # rest) s \<Longrightarrow> available key base target targets rest (s\<lparr>as_budget := b\<rparr>)"
  "available key base target targets ((k, old) # rest) s \<Longrightarrow> available key base target targets rest s"
  by (auto simp: available_def)

lemma available_add:
  assumes "available key base target targets ((k, old) # rest) s" and "i \<in> set old"
    and "map_of targets k = Some new" and "j \<in> set new"
  shows "available key base target targets rest (add_pair kind i j s)"
proof -
  have k: "key (base ! i) = Some k" "key (target ! j) = Some k" "k \<notin> fst ` set rest" "distinct (map fst rest)"
    using assms by (auto simp: available_def)
  have "\<not> as_base_used (add_pair kind i j s) ! i'" if "(k', old') \<in> set rest" "i' \<in> set old'" for k' old' i'
  proof -
    have "key (base ! i') = Some k'" "\<not> as_base_used s ! i'" using assms(1) that by (auto simp: available_def)
    moreover have "k' \<noteq> k" using k(3) that(1) by (force simp: image_iff)
    ultimately have "i' \<noteq> i" "\<not> as_base_used s ! i'" using k(1) by auto
    then show ?thesis by (simp add: add_pair_def)
  qed
  moreover have "\<not> as_target_used (add_pair kind i j s) ! j'"
    if "map_of targets k' = Some new'" "j' \<in> set new'" "k' \<in> fst ` set rest" for k' new' j'
  proof -
    have "key (target ! j') = Some k'" "\<not> as_target_used s ! j'"
      using assms(1) that by (auto simp: available_def)
    moreover have "k' \<noteq> k" using k(3) that(3) by auto
    ultimately have "j' \<noteq> j" "\<not> as_target_used s ! j'" using k(2) by auto
    then show ?thesis by (simp add: add_pair_def)
  qed
  ultimately show ?thesis using available_rest(2) [OF assms(1)] unfolding available_def by blast
qed

lemma available_index:
  assumes "\<And>i. i \<in> set base_idx \<Longrightarrow> i < length base \<and> \<not> as_base_used s ! i"
    and "\<And>j. j \<in> set target_idx \<Longrightarrow> j < length target \<and> \<not> as_target_used s ! j"
  shows "available key base target (index_by key target target_idx) (index_by key base base_idx) s"
  using assms index_by_member [of _ _ key base base_idx] index_by_member [of _ _ key target target_idx]
  by (auto simp: available_def index_by_keys dest!: map_of_SomeD)

subsection \<open>One loop\<close>

definition sane_cost :: "(nat list \<Rightarrow> nat list \<Rightarrow> int option) \<Rightarrow> bool" where
  "sane_cost cost \<longleftrightarrow> (\<forall>old new n. cost old new = Some n \<longrightarrow> 0 \<le> n \<and> (length old = 1 \<and> length new = 1 \<longrightarrow> 1 \<le> n))"

lemma sane_costs: "sane_cost unique_cost" "sane_cost candidate_cost"
  by (auto simp: sane_cost_def unique_cost_def candidate_cost_def u64_max_def split: if_splits)

lemma charge_ok:
  "charge n b = (b', True) \<Longrightarrow> ab_used b' = ab_used b + n \<and> ab_limit b' = ab_limit b \<and> ab_used b + n \<le> ab_limit b"
  "charge n b = (b', False) \<Longrightarrow> b' = b \<and> (ab_limit b < ab_used b + n \<or> u64_max < ab_used b + n)"
  by (auto simp: charge_def checked_add_u64_def split: option.splits if_splits)

definition spent :: "align_state \<Rightarrow> align_state \<Rightarrow> bool" where
  "spent s t \<longleftrightarrow> ab_limit (as_budget t) = ab_limit (as_budget s)
     \<and> ab_used (as_budget s) \<le> ab_used (as_budget t)
     \<and> (ab_used (as_budget t) \<le> ab_limit (as_budget t) \<or> as_budget t = as_budget s)
     \<and> (\<exists>new. as_pairs t = as_pairs s @ new \<and> int (length new) \<le> ab_used (as_budget t) - ab_used (as_budget s))"

lemma spent_refl: "spent s s"
  by (simp add: spent_def)

lemma spent_trans: "spent s t \<Longrightarrow> spent t u \<Longrightarrow> spent s u"
  by (auto simp: spent_def)

lemma match_groups_step:
  obtains (skip) "match_groups kind cost targets ((key, old) # rest) s = match_groups kind cost targets rest s"
      "\<And>new. map_of targets key = Some new \<Longrightarrow> cost old new = None"
  | (stop) n b where "match_groups kind cost targets ((key, old) # rest) s = (s\<lparr>as_budget := b\<rparr>, True)"
      "charge n (as_budget s) = (b, False)"
  | (pay) new n b where "map_of targets key = Some new" "cost old new = Some n" "charge n (as_budget s) = (b, True)"
      "length old \<noteq> 1 \<or> length new \<noteq> 1"
      "match_groups kind cost targets ((key, old) # rest) s = match_groups kind cost targets rest (s\<lparr>as_budget := b\<rparr>)"
  | (pair) i j n b where "old = [i]" "map_of targets key = Some [j]" "cost [i] [j] = Some n"
      "charge n (as_budget s) = (b, True)"
      "match_groups kind cost targets ((key, old) # rest) s =
         match_groups kind cost targets rest (add_pair kind i j (s\<lparr>as_budget := b\<rparr>))"
proof (cases "Option.bind (map_of targets key) (cost old)")
  case None
  then show ?thesis using skip by (cases "map_of targets key") auto
next
  case (Some n)
  then obtain new where new: "map_of targets key = Some new" "cost old new = Some n"
    by (auto simp: bind_eq_Some_conv)
  obtain b ok where b: "charge n (as_budget s) = (b, ok)" by fastforce
  consider "\<not> ok" | "ok" "length old \<noteq> 1 \<or> length new \<noteq> 1" | "ok" "length old = 1" "length new = 1" by blast
  then show ?thesis
  proof cases
    case 1
    then show ?thesis using stop new b by simp
  next
    case 2
    then show ?thesis using pay [of new n b] new b by auto
  next
    case 3
    then obtain i j where "old = [i]" "new = [j]" by (auto simp: length_Suc_conv)
    then show ?thesis using pair [of i j n b] new b 3 by simp
  qed
qed

lemma match_groups_spent:
  assumes "sane_cost cost"
  shows "match_groups kind cost targets groups s = (t, out) \<Longrightarrow> spent s t"
proof (induction groups arbitrary: s)
  case Nil
  then show ?case by (simp add: spent_refl)
next
  case (Cons g rest)
  obtain key old where g: "g = (key, old)" by (cases g)
  show ?case
  proof (cases rule: match_groups_step [of kind cost targets key old rest s])
    case skip
    with Cons g show ?thesis by simp
  next
    case (stop n b)
    with Cons.prems g charge_ok(2) [OF stop(2)] show ?thesis by (auto simp: spent_def)
  next
    case (pay new n b)
    have "0 \<le> n" using assms pay(2) by (auto simp: sane_cost_def)
    then have "spent s (s\<lparr>as_budget := b\<rparr>)" using charge_ok(1) [OF pay(3)] by (auto simp: spent_def)
    moreover have "spent (s\<lparr>as_budget := b\<rparr>) t" using Cons.IH Cons.prems pay(5) g by simp
    ultimately show ?thesis by (rule spent_trans)
  next
    case (pair i j n b)
    have "1 \<le> n" using assms pair(3) by (auto simp: sane_cost_def)
    then have "spent s (add_pair kind i j (s\<lparr>as_budget := b\<rparr>))"
      using charge_ok(1) [OF pair(4)] by (auto simp: spent_def add_pair_def)
    moreover have "spent (add_pair kind i j (s\<lparr>as_budget := b\<rparr>)) t" using Cons.IH Cons.prems pair(5) g by simp
    ultimately show ?thesis by (rule spent_trans)
  qed
qed

lemma match_groups_matching:
  assumes "\<And>a b k. key a = Some k \<Longrightarrow> key b = Some k \<Longrightarrow> justifies kind a b"
  shows "match_groups kind cost targets groups s = (t, out) \<Longrightarrow> available key base target targets groups s \<Longrightarrow>
     matching base target s \<Longrightarrow> matching base target t"
proof (induction groups arbitrary: s)
  case Nil
  then show ?case by simp
next
  case (Cons g rest)
  obtain k old where g: "g = (k, old)" by (cases g)
  note av = Cons.prems(2) [unfolded g]
  show ?case
  proof (cases rule: match_groups_step [of kind cost targets k old rest s])
    case skip
    with Cons g available_rest(2) [OF av] show ?thesis by simp
  next
    case (stop n b)
    with Cons.prems g show ?thesis by auto
  next
    case (pay new n b)
    with Cons.prems g show ?thesis by (intro Cons.IH [OF _ available_rest(1) [OF av]]) auto
  next
    case (pair i j n b)
    have ij: "i < length base" "key (base ! i) = Some k" "\<not> as_base_used s ! i"
      "j < length target" "key (target ! j) = Some k" "\<not> as_target_used s ! j"
      using av pair(1) available_target [OF av pair(2), of j] by (auto simp: available_def)
    let ?s = "add_pair kind i j (s\<lparr>as_budget := b\<rparr>)"
    have "matching base target ?s"
      using ij Cons.prems(3) assms [OF ij(2,5)] by (intro matching_add) auto
    moreover have "available key base target targets rest ?s"
      using available_add [OF _ _ pair(2), of key base target old rest "s\<lparr>as_budget := b\<rparr>" i j kind] av pair(1)
      by (simp add: available_def)
    ultimately show ?thesis using Cons.IH [of ?s] Cons.prems(1) g pair(5) by simp
  qed
qed

lemma match_groups_found:
  assumes "sane_cost cost"
  shows "match_groups kind cost targets groups s = (t, False) \<Longrightarrow> (k, [i]) \<in> set groups \<Longrightarrow>
     map_of targets k = Some [j] \<Longrightarrow> cost [i] [j] \<noteq> None \<Longrightarrow>
     \<lparr>ap_base_index = i, ap_target_index = j, ap_kind = kind\<rparr> \<in> set (as_pairs t)"
proof (induction groups arbitrary: s)
  case (Cons g rest)
  obtain k' old where g: "g = (k', old)" by (cases g)
  show ?case
  proof (cases rule: match_groups_step [of kind cost targets k' old rest s])
    case (pair i' j' n b)
    let ?s = "add_pair kind i' j' (s\<lparr>as_budget := b\<rparr>)"
    have "spent ?s t" using match_groups_spent [OF assms] Cons.prems(1) g pair(5) by metis
    then have "set (as_pairs ?s) \<subseteq> set (as_pairs t)" by (auto simp: spent_def)
    then have "\<lparr>ap_base_index = i', ap_target_index = j', ap_kind = kind\<rparr> \<in> set (as_pairs t)"
      by (auto simp: add_pair_def)
    then show ?thesis using Cons.IH [of ?s] Cons.prems g pair by auto
  qed (use Cons g in \<open>auto\<close>)
qed simp

subsection \<open>The three loops in a row\<close>

lemma exact_key_same: "exact_key a = Some k \<Longrightarrow> exact_key b = Some k \<Longrightarrow> justifies Exact a b"
  by (auto simp: exact_key_def)

lemma path_key_same: "path_key a = Some k \<Longrightarrow> path_key b = Some k \<Longrightarrow> justifies Reordered a b"
  by (simp add: path_key_def)

lemma fingerprint_key_same: "fingerprint_key a = Some k \<Longrightarrow> fingerprint_key b = Some k \<Longrightarrow> justifies Relocated a b"
  by (auto simp: fingerprint_key_def split: option.splits)

lemma matching_unused:
  assumes "matching base target s"
  shows "i \<in> set (unused (as_base_used s)) \<Longrightarrow> i < length base \<and> \<not> as_base_used s ! i"
    and "j \<in> set (unused (as_target_used s)) \<Longrightarrow> j < length target \<and> \<not> as_target_used s ! j"
  using assms by (auto simp: unused_iff matching_def marks_def)

definition start_state :: "ItemAnchor list \<Rightarrow> ItemAnchor list \<Rightarrow> AlignmentBudget \<Rightarrow> align_state" where
  "start_state base target b = \<lparr>as_pairs = [], as_base_used = replicate (length base) False,
     as_target_used = replicate (length target) False, as_budget = b\<rparr>"

lemma start_matching: "matching base target (start_state base target b)"
  by (auto simp: matching_def marks_def start_state_def)

lemma path_phase_kept:
  assumes "matching base target s" and "path_phase base target s = (t, out)"
  shows "matching base target t \<and> spent s t"
  using match_groups_matching [OF path_key_same assms(2) [unfolded path_phase_def]
      available_index [OF matching_unused [OF assms(1)]] assms(1)]
    match_groups_spent [OF sane_costs(1) assms(2) [unfolded path_phase_def]] by simp

lemma fingerprint_phase_kept:
  assumes "matching base target s" and "fingerprint_phase base target s = (t, out)"
  shows "matching base target t \<and> spent s t"
  using match_groups_matching [OF fingerprint_key_same assms(2) [unfolded fingerprint_phase_def]
      available_index [OF matching_unused [OF assms(1)]] assms(1)]
    match_groups_spent [OF sane_costs(2) assms(2) [unfolded fingerprint_phase_def]] by simp

lemma exact_phase_kept:
  assumes "exact_phase base target (start_state base target b) = (t, out)"
  shows "matching base target t \<and> spent (start_state base target b) t"
proof -
  have "available exact_key base target (index_by exact_key target [0..<length target])
      (index_by exact_key base [0..<length base]) (start_state base target b)"
    by (rule available_index) (auto simp: start_state_def)
  from match_groups_matching [OF exact_key_same assms [unfolded exact_phase_def] this start_matching]
    match_groups_spent [OF sane_costs(1) assms [unfolded exact_phase_def]] show ?thesis by simp
qed

text \<open>The result comes from a final state that the first loop reached and the others continued.\<close>

lemma align_items_final:
  assumes "align_items base target b = (out, b')"
  obtains s1 t e where "exact_phase base target (start_state base target b) = (s1, False) \<or> e"
    "matching base target t" "spent (start_state base target b) t" "spent s1 t" "out = finish t e" "b' = as_budget t"
proof -
  obtain s1 o1 where 1: "exact_phase base target (start_state base target b) = (s1, o1)" by fastforce
  obtain s2 o2 where 2: "path_phase base target s1 = (s2, o2)" by fastforce
  obtain s3 o3 where 3: "fingerprint_phase base target s2 = (s3, o3)" by fastforce
  note k1 = exact_phase_kept [OF 1]
  note k2 = path_phase_kept [OF conjunct1 [OF k1] 2]
  note k3 = fingerprint_phase_kept [OF conjunct1 [OF k2] 3]
  have r: "(out, b') = (if o1 then (finish s1 True, as_budget s1)
      else if o2 then (finish s2 True, as_budget s2) else (finish s3 o3, as_budget s3))"
    using assms 1 2 3 by (cases o1; cases o2) (simp_all add: align_items_def start_state_def [symmetric])
  show ?thesis
  proof (cases o1)
    case True
    then show ?thesis using that [of s1 True s1] k1 r spent_refl by simp
  next
    case o1: False
    show ?thesis
    proof (cases o2)
      case True
      then show ?thesis using that [of s1 True s2] k1 k2 r o1 spent_trans by simp blast
    next
      case False
      then show ?thesis using that [of s1 o3 s3] 1 k1 k2 k3 r o1 spent_trans by simp blast
    qed
  qed
qed

lemma unused_mset:
  assumes "marks n used is"
  shows "mset (is @ unused used) = mset [0..<n]"
proof (rule iffD1 [OF set_eq_iff_mset_eq_distinct])
  show "distinct (is @ unused used)" using assms by (auto simp: marks_def unused_def)
  have m: "length used = n" "set is = {i. i < n \<and> used ! i}" using assms by (simp_all add: marks_def)
  show "set (is @ unused used) = set [0..<n]" unfolding set_append m(2) unused_def m(1) by auto
qed (rule distinct_upt)

text \<open>
  (C15) The alignment accounts for every item exactly once: on either side each index is in one pair, or
  unmatched, or in the unresolved cluster. A pair is justified by its kind: the same path and ordinal,
  the same path, or the same format, profile and fingerprint. Additions and removals are reported only
  when one side has nothing left, so a possible match is never reported as a removal and an addition.
\<close>

theorem alignment_partition:
  assumes "align_items base target b = (out, b')"
  shows "mset (map ap_base_index (ao_pairs out) @ ao_unmatched_base out
           @ concat (map uc_base_indices (ao_unresolved out))) = mset [0..<length base]
    \<and> mset (map ap_target_index (ao_pairs out) @ ao_unmatched_target out
           @ concat (map uc_target_indices (ao_unresolved out))) = mset [0..<length target]
    \<and> (\<forall>p\<in>set (ao_pairs out). justifies (ap_kind p) (base ! ap_base_index p) (target ! ap_target_index p))
    \<and> (ao_unmatched_base out = [] \<or> ao_unmatched_target out = [])
    \<and> (ao_exhausted out \<longrightarrow> ao_unmatched_base out = [] \<and> ao_unmatched_target out = [])"
proof (rule align_items_final [OF assms])
  fix s1 t e
  assume t: "matching base target t" and out: "out = finish t e"
  note m = t [unfolded matching_def]
  from out have "mset (ao_pairs out) = mset (as_pairs t)" by (simp add: finish_def Let_def)
  then have "mset (map ap_base_index (ao_pairs out)) = mset (map ap_base_index (as_pairs t))"
    "mset (map ap_target_index (ao_pairs out)) = mset (map ap_target_index (as_pairs t))"
    "set (ao_pairs out) = set (as_pairs t)" by (simp_all, metis set_mset_mset)
  moreover have "ao_unmatched_base out @ concat (map uc_base_indices (ao_unresolved out)) = unused (as_base_used t)"
    "ao_unmatched_target out @ concat (map uc_target_indices (ao_unresolved out)) = unused (as_target_used t)"
    "ao_unmatched_base out = [] \<or> ao_unmatched_target out = []"
    "ao_exhausted out \<longrightarrow> ao_unmatched_base out = [] \<and> ao_unmatched_target out = []"
    by (auto simp: out finish_def Let_def)
  moreover have "mset (map ap_base_index (as_pairs t)) + mset (unused (as_base_used t)) = mset [0..<length base]"
    "mset (map ap_target_index (as_pairs t)) + mset (unused (as_target_used t)) = mset [0..<length target]"
    using m unused_mset by (metis mset_append)+
  ultimately show ?thesis using m by (simp only: mset_append) simp
qed

text \<open>
  The budget bounds the work: it is never exceeded, its limit never changes, every pair has been
  paid for, and a comparison that would exceed it ends the alignment with the rest unresolved.
\<close>

theorem alignment_budget:
  assumes "align_items base target b = (out, b')"
  shows "ab_limit b' = ab_limit b \<and> ab_used b \<le> ab_used b' \<and> (ab_used b' \<le> ab_limit b \<or> b' = b)
    \<and> int (length (ao_pairs out)) \<le> ab_used b' - ab_used b
    \<and> (ao_exhausted out \<longrightarrow> (\<exists>c. ao_unresolved out = [c]))"
proof (rule align_items_final [OF assms])
  fix s1 t e
  assume "spent (start_state base target b) t" "out = finish t e" "b' = as_budget t"
  then show ?thesis by (auto simp: spent_def start_state_def finish_def Let_def)
qed

lemma filter_upt_eq: "i < n \<Longrightarrow> filter (\<lambda>j. j = i) [0..<n] = [i]"
  by (induction n) (auto simp: filter_empty_conv less_Suc_eq)

lemma filter_index_unique:
  assumes "i < length items" and "key (items ! i) = Some k"
    and "\<And>i'. i' < length items \<Longrightarrow> key (items ! i') = Some k \<Longrightarrow> i' = i"
  shows "filter (\<lambda>i. key (items ! i) = Some k) [0..<length items] = [i]"
proof -
  have "filter (\<lambda>i. key (items ! i) = Some k) [0..<length items] = filter (\<lambda>j. j = i) [0..<length items]"
    by (rule filter_cong [OF refl]) (metis assms(2,3) atLeastLessThan_iff set_upt)
  also have "\<dots> = [i]" using assms(1) by (rule filter_upt_eq)
  finally show ?thesis .
qed

text \<open>
  Unique items are found: unless the budget ran out, an item that is the only one with its path and
  ordinal on either side is paired with its counterpart.
\<close>

theorem exact_matches_found:
  assumes "align_items base target b = (out, b')" and "\<not> ao_exhausted out"
    and "i < length base" and "j < length target" and "exact_key (base ! i) = exact_key (target ! j)"
    and "\<And>i'. i' < length base \<Longrightarrow> exact_key (base ! i') = exact_key (base ! i) \<Longrightarrow> i' = i"
    and "\<And>j'. j' < length target \<Longrightarrow> exact_key (target ! j') = exact_key (target ! j) \<Longrightarrow> j' = j"
  shows "\<lparr>ap_base_index = i, ap_target_index = j, ap_kind = Exact\<rparr> \<in> set (ao_pairs out)"
proof (rule align_items_final [OF assms(1)])
  fix s1 t e
  assume s1: "exact_phase base target (start_state base target b) = (s1, False) \<or> e"
    and t: "spent s1 t" and out: "out = finish t e"
  from out assms(2) have "\<not> e" by (auto simp: finish_def Let_def split: if_splits)
  with s1 have s1: "exact_phase base target (start_state base target b) = (s1, False)" by simp
  obtain k where k: "exact_key (base ! i) = Some k" "exact_key (target ! j) = Some k"
    using assms(5) by (simp add: exact_key_def)
  have "(k, [i]) \<in> set (index_by exact_key base [0..<length base])"
    by (rule index_by_entry, rule filter_index_unique [of _ base exact_key, OF assms(3) k(1)]) (metis assms(6) k(1))
  moreover have "(k, [j]) \<in> set (index_by exact_key target [0..<length target])"
    by (rule index_by_entry, rule filter_index_unique [of _ target exact_key, OF assms(4) k(2)]) (metis assms(7) k(2))
  then have "map_of (index_by exact_key target [0..<length target]) k = Some [j]"
    by (intro map_of_is_SomeI index_by_keys)
  ultimately have "\<lparr>ap_base_index = i, ap_target_index = j, ap_kind = Exact\<rparr> \<in> set (as_pairs s1)"
    by (intro match_groups_found [OF sane_costs(1) s1 [unfolded exact_phase_def]]) (auto simp: unique_cost_def)
  then show ?thesis using t by (auto simp: out finish_def Let_def spent_def)
qed

end
