(* ===== verification/Outbox_Policy.thy ===== *)
theory Outbox_Policy
  imports Prelude "HOL-Library.Word"
begin

text \<open>
  The delivery policy of the outbox, \<open>policy.rs\<close> and the value types of \<open>model.rs\<close>
  of \<open>outbox-delivery\<close>: error codes and their spelling, the configuration check,
  and the retry delay, an exponential backoff with a jitter taken from a SHA-256
  digest. The hash function is a crate outside the repository: the argument
  \<open>sha256\<close>. A \<open>Duration\<close> is its number of nanoseconds. The delay is computed on
  64-bit words, as in the code, so that absence of wrap-around is part of what is
  proved.
\<close>

subsection \<open>Error codes\<close>

datatype ErrorCode = UnsupportedEvent | InvalidEnvelope | SourceUnavailable | IndexingFailed
  | HandlerTimeout | DeliveryUnknown | DeliveryUnknownAtLimit

definition ALL_ERROR_CODES :: "ErrorCode list" where
  "ALL_ERROR_CODES = [UnsupportedEvent, InvalidEnvelope, SourceUnavailable, IndexingFailed,
     HandlerTimeout, DeliveryUnknown, DeliveryUnknownAtLimit]"

fun error_code_as_str :: "ErrorCode \<Rightarrow> ustr" where
  "error_code_as_str UnsupportedEvent = lit ''unsupported_event''"
| "error_code_as_str InvalidEnvelope = lit ''invalid_envelope''"
| "error_code_as_str SourceUnavailable = lit ''source_unavailable''"
| "error_code_as_str IndexingFailed = lit ''indexing_failed''"
| "error_code_as_str HandlerTimeout = lit ''handler_timeout''"
| "error_code_as_str DeliveryUnknown = lit ''delivery_unknown''"
| "error_code_as_str DeliveryUnknownAtLimit = lit ''delivery_unknown_at_limit''"

definition error_code_from_str :: "ustr \<Rightarrow> unit + ErrorCode" where
  "error_code_from_str value =
     (if value = lit ''unsupported_event'' then Inr UnsupportedEvent
      else if value = lit ''invalid_envelope'' then Inr InvalidEnvelope
      else if value = lit ''source_unavailable'' then Inr SourceUnavailable
      else if value = lit ''indexing_failed'' then Inr IndexingFailed
      else if value = lit ''handler_timeout'' then Inr HandlerTimeout
      else if value = lit ''delivery_unknown'' then Inr DeliveryUnknown
      else if value = lit ''delivery_unknown_at_limit'' then Inr DeliveryUnknownAtLimit
      else Inl ())"

datatype DeliveryDecision = Applied | KnownNoop | Retryable ErrorCode | Terminal ErrorCode

datatype DeliveryError = PolicyMismatch | LegacyExhausted int "uuid list" | InvalidConfig | StoreUnknown

subsection \<open>Configuration\<close>

type_synonym duration = int

definition from_secs :: "int \<Rightarrow> duration" where
  "from_secs s = s * 1000000000"

definition from_millis :: "int \<Rightarrow> duration" where
  "from_millis ms = ms * 1000000"

record DeliveryPolicy =
  dp_revision :: int
  dp_max_attempts :: int
  dp_lease_min_ms :: int
  dp_lease_max_ms :: int
  dp_backoff_min_ms :: int
  dp_backoff_max_ms :: int

definition default_policy :: DeliveryPolicy where
  "default_policy = \<lparr>dp_revision = 1, dp_max_attempts = 8, dp_lease_min_ms = 1000,
     dp_lease_max_ms = 120000, dp_backoff_min_ms = 1000, dp_backoff_max_ms = 300000\<rparr>"

record DeliveryConfig =
  dc_batch_size :: int
  dc_max_in_flight :: int
  dc_lease_duration :: duration
  dc_renew_interval :: duration
  dc_max_processing :: duration
  dc_drain_timeout :: duration
  dc_poll_interval :: duration
  dc_reap_batch :: int

definition default_config :: DeliveryConfig where
  "default_config = \<lparr>dc_batch_size = 32, dc_max_in_flight = 8, dc_lease_duration = from_secs 120,
     dc_renew_interval = from_secs 30, dc_max_processing = from_secs (15 * 60),
     dc_drain_timeout = from_secs 30, dc_poll_interval = from_secs 1, dc_reap_batch = 32\<rparr>"

definition config_validate :: "DeliveryConfig \<Rightarrow> DeliveryError + unit" where
  "config_validate c =
     (let lease_min = from_secs 1; lease_max = from_secs 120; processing_max = from_secs (24 * 60 * 60);
          valid = (1 \<le> dc_batch_size c \<and> dc_batch_size c \<le> 32
            \<and> 1 \<le> dc_max_in_flight c \<and> dc_max_in_flight c \<le> 8
            \<and> 1 \<le> dc_reap_batch c \<and> dc_reap_batch c \<le> 32
            \<and> lease_min \<le> dc_lease_duration c \<and> dc_lease_duration c \<le> lease_max
            \<and> dc_renew_interval c \<noteq> 0 \<and> dc_renew_interval c < dc_lease_duration c div 3
            \<and> dc_max_processing c \<noteq> 0 \<and> dc_max_processing c \<le> processing_max
            \<and> dc_drain_timeout c \<noteq> 0 \<and> dc_drain_timeout c \<le> dc_max_processing c
            \<and> dc_poll_interval c \<noteq> 0 \<and> dc_poll_interval c \<le> dc_lease_duration c)
      in if valid then Inr () else Inl InvalidConfig)"

subsection \<open>Retry delay\<close>

type_synonym byte = "8 word"

definition be_bytes :: "nat \<Rightarrow> int \<Rightarrow> byte list" where
  "be_bytes n x = map (\<lambda>i. word_of_int (x div 256 ^ (n - 1 - i))) [0..<n]"

definition jitter :: "64 word \<Rightarrow> byte list \<Rightarrow> 64 word" where
  "jitter modulus digest = fold (\<lambda>b j. (j * 256 + ucast b) mod modulus) digest 0"

definition saturating_add :: "64 word \<Rightarrow> 64 word \<Rightarrow> 64 word" where
  "saturating_add a b = (if unat a + unat b < 2 ^ 64 then a + b else - 1)"

definition retry_delay :: "(byte list \<Rightarrow> byte list) \<Rightarrow> uuid \<Rightarrow> int \<Rightarrow> duration" where
  "retry_delay sha256 event_id attempt =
     (let attempt = max attempt 1 in
      if 10 \<le> attempt then from_millis 300000
      else let base_ms = push_bit (nat (attempt - 1)) (1000 :: 64 word);
               digest = sha256 (be_bytes 16 event_id @ be_bytes 4 attempt);
               modulus = base_ms div 4 + 1;
               jitter_ms = jitter modulus digest
           in from_millis (uint (max 1000 (min 300000 (saturating_add base_ms jitter_ms)))))"

definition retry_delay_within ::
  "(byte list \<Rightarrow> byte list) \<Rightarrow> uuid \<Rightarrow> int \<Rightarrow> duration \<times> duration \<Rightarrow> duration" where
  "retry_delay_within sha256 event_id attempt bounds =
     (case bounds of (low, high) \<Rightarrow>
        max low (min (max high low) (retry_delay sha256 event_id attempt)))"

subsection \<open>The jitter is a remainder\<close>

text \<open>The digest read as one big-endian number.\<close>

definition digest_value :: "byte list \<Rightarrow> nat" where
  "digest_value digest = fold (\<lambda>b n. n * 256 + unat b) digest 0"

lemma unat_small: "n < 2 ^ 64 \<Longrightarrow> unat (of_nat n :: 64 word) = n"
  by (simp add: unsigned_of_nat take_bit_nat_eq_self)

lemma jitter_step:
  fixes j m :: "64 word" and b :: byte
  assumes "unat j < unat m" and "unat m \<le> 65536"
  shows "unat ((j * 256 + ucast b) mod m) = (unat j * 256 + unat b) mod unat m"
proof -
  have "unat b < 256" using unsigned_less [of b, where 'a = nat] by simp
  with assms have "unat j * 256 + unat b < 2 ^ 64" by simp
  moreover have "unat (ucast b :: 64 word) = unat b" by (simp add: unsigned_ucast_eq take_bit_nat_eq_self unsigned_less [of b, where 'a = nat, THEN less_le_trans])
  ultimately have "unat (j * 256 + ucast b) = unat j * 256 + unat b"
    by (simp add: unat_word_ariths)
  then show ?thesis by (simp add: unat_mod)
qed

lemma jitter_remainder:
  assumes "0 < unat m" and "unat m \<le> 65536"
  shows "unat (jitter m digest) = digest_value digest mod unat m"
proof -
  have "unat (fold (\<lambda>b j. (j * 256 + ucast b) mod m) digest j) = fold (\<lambda>b n. n * 256 + unat b) digest n mod unat m"
    if "unat j = n mod unat m" for j n
    using that
  proof (induction digest arbitrary: j n)
    case (Cons b digest)
    have "unat j < unat m" using Cons.prems assms(1) by simp
    from jitter_step [OF this assms(2)] Cons.prems
    have "unat ((j * 256 + ucast b) mod m) = (n * 256 + unat b) mod unat m"
      by (metis mod_add_left_eq mod_mult_left_eq)
    then show ?case using Cons.IH by simp
  qed simp
  from this [of 0 0] show ?thesis by (simp add: jitter_def digest_value_def)
qed

subsection \<open>The delay in closed form\<close>

lemma base_delay:
  assumes "k \<le> 8"
  shows "unat (push_bit k (1000 :: 64 word)) = 1000 * 2 ^ k" and "unat (push_bit k (1000 :: 64 word) div 4 + 1) = 250 * 2 ^ k + 1"
proof -
  have k: "(2::nat) ^ k \<le> 2 ^ 8" using assms by (rule power_increasing) simp
  have "push_bit k (1000 :: 64 word) = of_nat (1000 * 2 ^ k)" by (simp add: push_bit_eq_mult)
  then show a: "unat (push_bit k (1000 :: 64 word)) = 1000 * 2 ^ k"
    using k by (simp only:) (rule unat_small, simp)
  have "unat (push_bit k (1000 :: 64 word) div 4) = 250 * 2 ^ k" by (simp add: unat_div a)
  moreover have "push_bit k (1000 :: 64 word) div 4 + 1 = of_nat (unat (push_bit k (1000 :: 64 word) div 4) + 1)" by simp
  ultimately show "unat (push_bit k (1000 :: 64 word) div 4 + 1) = 250 * 2 ^ k + 1"
    using k by (simp only:) (rule unat_small, simp)
qed

lemma uint_clamped_sum:
  fixes a b :: "64 word"
  assumes "unat a + unat b < 2 ^ 64"
  shows "uint (max 1000 (min 300000 (saturating_add a b))) = max 1000 (min 300000 (int (unat a + unat b)))"
proof -
  have "unat (a + b) = unat a + unat b" using assms by (simp add: unat_word_ariths)
  then have "uint (a + b) = int (unat a + unat b)" by (metis uint_nat)
  then show ?thesis using assms by (simp add: saturating_add_def max_def min_def word_le_def)
qed

text \<open>The delay of the \<open>k + 1\<close>-st attempt in milliseconds, for a given digest.\<close>

definition delay_ms :: "nat \<Rightarrow> byte list \<Rightarrow> int" where
  "delay_ms k digest =
     (if 9 \<le> k then 300000 else min 300000 (1000 * 2 ^ k + int (digest_value digest mod (250 * 2 ^ k + 1))))"

lemma retry_delay_closed:
  "retry_delay sha256 event_id attempt = from_millis
     (delay_ms (nat (max attempt 1 - 1)) (sha256 (be_bytes 16 event_id @ be_bytes 4 (max attempt 1))))"
proof (cases "10 \<le> max attempt 1")
  case True
  then show ?thesis by (auto simp: retry_delay_def delay_ms_def Let_def)
next
  case False
  define k d where "k = nat (max attempt 1 - 1)" and "d = sha256 (be_bytes 16 event_id @ be_bytes 4 (max attempt 1))"
  define b where "b = push_bit k (1000 :: 64 word)"
  define j where "j = digest_value d mod (250 * 2 ^ k + 1)"
  have k: "k \<le> 8" using False by (simp add: k_def)
  then have p: "(2::nat) ^ k \<le> 256" using power_increasing [of k 8 "2::nat"] by simp
  have m: "unat (b div 4 + 1) = 250 * 2 ^ k + 1" "unat b = 1000 * 2 ^ k" using base_delay [OF k] by (simp_all add: b_def)
  have jit: "unat (jitter (b div 4 + 1) d) = j"
    unfolding j_def m(1) [symmetric] by (rule jitter_remainder) (use m(1) p in linarith)+
  have "j < 250 * 2 ^ k + 1" by (simp add: j_def)
  then have "unat b + unat (jitter (b div 4 + 1) d) < 2 ^ 64" using m(2) jit p by simp
  from uint_clamped_sum [OF this]
  have "uint (max 1000 (min 300000 (saturating_add b (jitter (b div 4 + 1) d))))
      = max 1000 (min 300000 (int (1000 * 2 ^ k + j)))" by (simp only: m(2) jit)
  also have "\<dots> = delay_ms k d"
  proof -
    have "(1::int) \<le> 2 ^ k" by simp
    then have "(1000::int) \<le> 1000 * 2 ^ k + int j" by linarith
    then show ?thesis using k by (simp add: delay_ms_def j_def)
  qed
  finally have clamped: "uint (max 1000 (min 300000 (saturating_add b (jitter (b div 4 + 1) d)))) = delay_ms k d" .
  have "retry_delay sha256 event_id attempt
      = from_millis (uint (max 1000 (min 300000 (saturating_add b (jitter (b div 4 + 1) d)))))"
    unfolding retry_delay_def Let_def b_def k_def d_def using False by (simp only: if_False)
  also note clamped
  finally show ?thesis unfolding k_def d_def .
qed

lemma delay_ms_range:
  "1000 \<le> delay_ms k d \<and> delay_ms k d \<le> 300000"
  "k \<le> 8 \<Longrightarrow> min 300000 (1000 * 2 ^ k) \<le> delay_ms k d \<and> delay_ms k d \<le> 1250 * 2 ^ k"
proof -
  define x where "x = (2::int) ^ k"
  define j where "j = int (digest_value d mod (250 * 2 ^ k + 1))"
  have x: "1 \<le> x" by (simp add: x_def)
  have "digest_value d mod (250 * 2 ^ k + 1) < 250 * 2 ^ k + 1" by (rule mod_less_divisor) simp
  then have "j < int (250 * 2 ^ k + 1)" unfolding j_def by (simp only: of_nat_less_iff)
  then have j: "0 \<le> j" "j \<le> 250 * x" by (simp_all add: j_def x_def)
  have d: "delay_ms k d = (if 9 \<le> k then 300000 else min 300000 (1000 * x + j))"
    by (simp add: delay_ms_def x_def j_def)
  show "1000 \<le> delay_ms k d \<and> delay_ms k d \<le> 300000" unfolding d using x j by simp
  show "k \<le> 8 \<Longrightarrow> min 300000 (1000 * 2 ^ k) \<le> delay_ms k d \<and> delay_ms k d \<le> 1250 * 2 ^ k"
    unfolding d x_def [symmetric] using x j by auto
qed

lemma delay_ms_mono:
  assumes "k < l"
  shows "delay_ms k d \<le> delay_ms l e"
proof (cases "9 \<le> l")
  case True
  then show ?thesis using delay_ms_range(1) [of k d] by (simp add: delay_ms_def)
next
  case False
  have "(2::int) ^ (k + 1) \<le> 2 ^ l" using assms by (intro power_increasing) simp_all
  moreover have "(0::int) \<le> 2 ^ k" by simp
  ultimately have "1250 * 2 ^ k \<le> (1000 * 2 ^ l :: int)" by (simp only: power_add power_one_right)
  then show ?thesis using delay_ms_range(1) [of k d] delay_ms_range(2) [of k d] delay_ms_range(2) [of l e] False assms
    by (auto simp: min_def split: if_splits)
qed

text \<open>
  The retry delay is bounded, exact and monotone, and none of its 64-bit arithmetic wraps: it is
  between one second and five minutes whatever the attempt number, negative ones included; it is one
  second doubled per attempt plus the remainder of the whole digest, read as one number, by a quarter
  of that; and a later attempt never waits less than an earlier one, whatever the hash function does.
\<close>

theorem retry_delay_bounded_monotone:
  "from_secs 1 \<le> retry_delay sha256 e a \<and> retry_delay sha256 e a \<le> from_secs 300
   \<and> (1 \<le> a \<and> a \<le> 9 \<longrightarrow> retry_delay sha256 e a = from_millis (min 300000 (1000 * 2 ^ nat (a - 1)
        + int (digest_value (sha256 (be_bytes 16 e @ be_bytes 4 a)) mod (250 * 2 ^ nat (a - 1) + 1)))))
   \<and> (a \<le> a' \<longrightarrow> retry_delay sha256 e a \<le> retry_delay sha256 e a')"
proof -
  note r = retry_delay_closed [of sha256 e]
  have "retry_delay sha256 e a \<le> retry_delay sha256 e a'" if "a \<le> a'"
  proof (cases "max a 1 = max a' 1")
    case True
    then show ?thesis by (simp add: r)
  next
    case False
    with that have "nat (max a 1 - 1) < nat (max a' 1 - 1)" by auto
    then show ?thesis unfolding r from_millis_def by (intro mult_right_mono delay_ms_mono) simp_all
  qed
  moreover have "from_secs 1 \<le> retry_delay sha256 e a \<and> retry_delay sha256 e a \<le> from_secs 300"
    unfolding r from_millis_def from_secs_def
    using delay_ms_range(1) [of "nat (max a 1 - 1)" "sha256 (be_bytes 16 e @ be_bytes 4 (max a 1))"] by simp
  moreover have "retry_delay sha256 e a = from_millis (min 300000 (1000 * 2 ^ nat (a - 1)
        + int (digest_value (sha256 (be_bytes 16 e @ be_bytes 4 a)) mod (250 * 2 ^ nat (a - 1) + 1))))"
    if "1 \<le> a" "a \<le> 9"
    using that by (auto simp: r delay_ms_def max_absorb1)
  ultimately show ?thesis by blast
qed

text \<open>
  A validated configuration is safe to run and the schedule fits the policy: a lease survives two
  missed renewals, draining ends within the processing limit, polling never outlasts a lease, the
  default configuration is valid, and a delay clamped to the policy's backoff range lies inside it and
  is the delay itself under the default policy. Error codes are spelled and read back as themselves,
  and nothing else is read.
\<close>

theorem delivery_configuration_safe:
  "(config_validate c = Inr () \<longrightarrow> 3 * dc_renew_interval c < dc_lease_duration c
      \<and> dc_drain_timeout c \<le> dc_max_processing c \<and> dc_poll_interval c \<le> dc_lease_duration c
      \<and> dc_lease_duration c \<le> from_millis (dp_lease_max_ms default_policy)
      \<and> from_millis (dp_lease_min_ms default_policy) \<le> dc_lease_duration c)
   \<and> config_validate default_config = Inr ()
   \<and> (low \<le> high \<longrightarrow> low \<le> retry_delay_within sha256 e a (low, high) \<and> retry_delay_within sha256 e a (low, high) \<le> high)
   \<and> retry_delay_within sha256 e a (from_millis (dp_backoff_min_ms default_policy), from_millis (dp_backoff_max_ms default_policy))
      = retry_delay sha256 e a
   \<and> (error_code_from_str s = Inr code \<longleftrightarrow> s = error_code_as_str code)"
proof -
  have "3 * dc_renew_interval c < dc_lease_duration c"
    if "dc_renew_interval c < dc_lease_duration c div 3" using that by linarith
  then have "config_validate c = Inr () \<longrightarrow> 3 * dc_renew_interval c < dc_lease_duration c
      \<and> dc_drain_timeout c \<le> dc_max_processing c \<and> dc_poll_interval c \<le> dc_lease_duration c
      \<and> dc_lease_duration c \<le> from_millis (dp_lease_max_ms default_policy)
      \<and> from_millis (dp_lease_min_ms default_policy) \<le> dc_lease_duration c"
    by (simp add: config_validate_def Let_def default_policy_def from_secs_def from_millis_def)
  moreover have "config_validate default_config = Inr ()"
    by (simp add: config_validate_def default_config_def from_secs_def)
  moreover have "retry_delay_within sha256 e a (from_millis (dp_backoff_min_ms default_policy),
      from_millis (dp_backoff_max_ms default_policy)) = retry_delay sha256 e a"
    unfolding retry_delay_within_def retry_delay_closed default_policy_def from_millis_def
    using delay_ms_range(1) [of "nat (max a 1 - 1)" "sha256 (be_bytes 16 e @ be_bytes 4 (max a 1))"] by simp
  moreover have "error_code_from_str s = Inr code \<longleftrightarrow> s = error_code_as_str code"
    by (cases code) (auto simp: error_code_from_str_def)
  ultimately show ?thesis by (simp add: retry_delay_within_def)
qed

end
