(* ===== verification/Doc_Examples.thy ===== *)
theory Doc_Examples
  imports Doc_Refinement Doc_Access Doc_Identity Diff_Props Outbox_Policy
begin

text \<open>
  Concrete runs of the document components: a document that is created, published,
  revised, published again and withdrawn; a folder path with policies; a manifest
  of two items; an alignment of two versions. Each property is applied to one of
  them.
\<close>

subsection \<open>A document's history\<close>

definition example_principal :: PrincipalRef where
  "example_principal = \<lparr>pr_identity_provider = lit ''idp'', pr_principal_id = lit ''author''\<rparr>"

definition example_create :: CreateInitialDocument where
  "example_create = \<lparr>cid_document_id = 1, cid_version_id = 2, cid_file_id = 3, cid_folder_id = 4,
     cid_title = Title (lit ''Policy''), cid_document_metadata = Metadata [], cid_version_metadata = Metadata [],
     cid_principal = example_principal,
     cid_stored_file = \<lparr>sfd_storage_key = StorageKey (lit ''objects/ab''), sfd_content_hash = ContentHash (replicate 32 7),
       sfd_size_bytes = FileSize 3, sfd_media_type = MediaType (lit ''application/pdf'')\<rparr>,
     cid_original_filename = lit ''policy.pdf'', cid_created_at = 10\<rparr>"

definition example_document :: Document where
  "example_document = \<lparr>doc_document_id = 1, doc_folder_id = 4, doc_current_version_id = None, doc_revision = 0,
     doc_metadata = Metadata [], doc_created_at = 10\<rparr>"

definition example_version :: DocumentVersion where
  "example_version = \<lparr>dv_document_version_id = 2, dv_document_id = 1, dv_version_no = VersionNo 1,
     dv_base_document_version_id = None, dv_lifecycle_state = Working, dv_title = Title (lit ''Policy''),
     dv_revision_reason = None, dv_approved_at = None, dv_scheduled_publish_at = None, dv_published_at = None,
     dv_withdrawn_at = None, dv_effective_from = None, dv_effective_to = None,
     dv_created_by = example_principal, dv_metadata = Metadata [], dv_created_at = 10\<rparr>"

definition example_initial :: InitialDocument where
  "example_initial = \<lparr>init_document = example_document, init_version = example_version,
     init_file = FileObject_new 3 (cid_stored_file example_create) 10,
     init_version_file = VersionFile_primary 2 3 (lit ''policy.pdf'')\<rparr>"

definition example_published :: doc_store where
  "example_published =
     put_version (example_version\<lparr>dv_lifecycle_state := Published, dv_published_at := Some 20\<rparr>)
       ((initial_store example_initial)\<lparr>st_document :=
          example_document\<lparr>doc_current_version_id := Some 2, doc_revision := 1\<rparr>\<rparr>)"

definition example_withdrawn :: doc_store where
  "example_withdrawn =
     put_version (example_version\<lparr>dv_lifecycle_state := Withdrawn, dv_published_at := Some 20,
         dv_withdrawn_at := Some 30\<rparr>)
       (example_published\<lparr>st_document :=
          example_document\<lparr>doc_current_version_id := None, doc_revision := 2\<rparr>\<rparr>)"

lemmas example_defs = example_document_def example_version_def example_initial_def example_published_def
  example_withdrawn_def

lemma example_created: "InitialDocument_create example_create = Inr example_initial"
  by (simp add: InitialDocument_create_def example_create_def example_initial_def example_document_def
      example_version_def VersionNo_new_def FileObject_new_def)
    (simp add: trim_def lit_def is_whitespace_def)

lemma example_publish: "doc_step (initial_store example_initial) example_published"
  unfolding example_published_def
proof (rule doc_step.first)
  show "st_versions (initial_store example_initial) 2 = Some example_version"
    by (simp add: initial_store_def example_initial_def example_version_def)
  show "publish_initial_version 20 (st_document (initial_store example_initial)) example_version =
      ((example_document\<lparr>doc_current_version_id := Some 2, doc_revision := 1\<rparr>,
        example_version\<lparr>dv_lifecycle_state := Published, dv_published_at := Some 20\<rparr>),
       Inr \<lparr>pt_resulting_document_revision = 1\<rparr>)"
    by (simp add: publish_initial_version_def initial_store_def example_defs checked_add_i64_def
        i64_max_def i64_min_def)
qed

lemma example_withdraw: "doc_step example_published example_withdrawn"
  unfolding example_withdrawn_def
proof (rule doc_step.withdrawn)
  let ?v = "example_version\<lparr>dv_lifecycle_state := Published, dv_published_at := Some 20\<rparr>"
  show "st_versions example_published 2 = Some ?v"
    by (simp add: example_published_def example_version_def)
  show "None = None \<or> (\<exists>j. None = st_versions example_published j)" by simp
  show "withdraw_version 30 None (st_document example_published) ?v =
      ((example_document\<lparr>doc_current_version_id := None, doc_revision := 2\<rparr>,
        example_version\<lparr>dv_lifecycle_state := Withdrawn, dv_published_at := Some 20, dv_withdrawn_at := Some 30\<rparr>),
       Inr \<lparr>wt_former_current_version_id = Some 2, wt_resulting_current_version_id = None,
         wt_resulting_document_revision = 2\<rparr>)"
    by (simp add: withdraw_version_def resulting_current_def example_defs checked_add_i64_def
        i64_max_def i64_min_def)
qed

lemma example_run:
  "doc_step\<^sup>*\<^sup>* (initial_store example_initial) example_published"
  "doc_step\<^sup>*\<^sup>* (initial_store example_initial) example_withdrawn"
  "doc_step\<^sup>*\<^sup>* example_published example_withdrawn"
  using example_publish example_withdraw by auto

lemma example_published_inv: "doc_inv example_published"
  using document_life.runs_simulated [OF example_run(1) initial_store_inv(1) [OF example_created]] ..

theorem document_history_sound_witness: "doc_inv example_withdrawn"
  by (rule document_history_sound [OF example_created example_run(2)])

theorem document_history_refines_lifecycle_witness:
  "life_move\<^sup>*\<^sup>* (None, [cid_version_id example_create \<mapsto> Working]) (life_of example_withdrawn)"
  by (rule document_history_refines_lifecycle [OF example_created example_run(2)])

text \<open>
  Requests on the new document: published, revised, a second revision refused while the first one is
  open, published again, a second publication refused, and withdrawn with the first version as the fallback.
\<close>

definition example_revision :: "uuid \<Rightarrow> CreateWorkingVersion" where
  "example_revision i = \<lparr>cwv_document_version_id = i, cwv_document_id = 1, cwv_version_no = VersionNo 2,
     cwv_base_document_version_id = 2, cwv_title = Title (lit ''Policy''), cwv_created_by = example_principal,
     cwv_metadata = Metadata [], cwv_created_at = 25\<rparr>"

definition example_requests :: "doc_op list" where
  "example_requests = [PublishFirst 20 2, OpenVersion 2 (example_revision 5), OpenVersion 2 (example_revision 6),
     PublishNext 30 5, PublishNext 30 5, WithdrawVersion 40 5 (Some 2)]"

lemma example_requests_run:
  "snd (run_all (run_op [2, 5, 6]) example_requests (initial_store example_initial))
     = [True, True, False, True, False, True]"
  by (simp add: example_requests_def example_revision_def initial_store_def example_defs put_version_def
      save_both_def open_version_def find_working_def List.map_filter_def publish_initial_version_def
      publish_next_version_def withdraw_version_def resulting_current_def validate_new_working_def
      new_working_def result_simps checked_add_i64_def i64_max_def i64_min_def)

theorem document_requests_exact_witness:
  "run_all (spec_exec life_apply) example_requests (lifecycle_of (initial_store example_initial)) =
     (lifecycle_of (fst (run_all (run_op [2, 5, 6]) example_requests (initial_store example_initial))),
      [True, True, False, True, False, True])"
proof -
  have "run_all (run_op [2, 5, 6]) example_requests (initial_store example_initial) =
      (fst (run_all (run_op [2, 5, 6]) example_requests (initial_store example_initial)),
       [True, True, False, True, False, True])"
    by (rule prod_eqI) (simp_all add: example_requests_run)
  moreover have "dom (st_versions (initial_store example_initial)) \<subseteq> set [2, 5, 6]"
    by (simp add: initial_store_def example_initial_def example_version_def)
  moreover have "\<forall>x \<in> set example_requests. opened_id x \<subseteq> set [2, 5, 6]"
    by (simp add: example_requests_def example_revision_def)
  ultimately show ?thesis
    using document_requests_exact [OF initial_store_inv(1) [OF example_created]] by blast
qed

theorem published_versions_immutable_witness:
  "\<exists>v'. st_versions example_withdrawn 2 = Some v' \<and>
     frozen (example_version\<lparr>dv_lifecycle_state := Published, dv_published_at := Some 20\<rparr>) v'"
  using published_versions_immutable [OF example_run(3) example_published_inv, of 2
      "example_version\<lparr>dv_lifecycle_state := Published, dv_published_at := Some 20\<rparr>"]
  by (simp add: example_published_def example_version_def)

theorem document_restore_roundtrip_witness:
  "DocumentVersion_restore (persisted_version
     (example_version\<lparr>dv_lifecycle_state := Published, dv_published_at := Some 20\<rparr>))
   = Inr (example_version\<lparr>dv_lifecycle_state := Published, dv_published_at := Some 20\<rparr>)"
  using document_restore_roundtrip [OF example_created example_run(1), of 2
      "example_version\<lparr>dv_lifecycle_state := Published, dv_published_at := Some 20\<rparr>"]
  by (simp add: example_published_def example_version_def)

theorem refused_operations_change_nothing_witness:
  "snd (publish_next_version 20 example_document example_version) = Inl NoCurrentPublishedVersion
   \<and> fst (publish_next_version 20 example_document example_version) = (example_document, example_version)
   \<and> \<not> is_ok (snd (publish_initial_version 20 (example_document\<lparr>doc_revision := i64_max\<rparr>) example_version))"
proof -
  have "snd (publish_next_version 20 example_document example_version) = Inl NoCurrentPublishedVersion"
    by (simp add: publish_next_version_def example_document_def example_version_def)
  then show ?thesis
    using refused_operations_change_nothing [of 20 example_document example_version NoCurrentPublishedVersion]
      refused_operations_change_nothing [of 20 "example_document\<lparr>doc_revision := i64_max\<rparr>" example_version
        NoCurrentPublishedVersion] by simp
qed

subsection \<open>Policies\<close>

definition example_subject :: PolicySubject where
  "example_subject = \<lparr>ps_kind = GroupSubject, ps_identity_provider = lit ''idp'', ps_subject_id = lit ''legal''\<rparr>"

theorem nearest_policy_decides_witness:
  "allowed [example_subject]
     [Inherit, Explicit [\<lparr>pg_subject = example_subject, pg_actions = {Read, Write}\<rparr>], Explicit []] [Read]
   \<and> \<not> allowed [example_subject]
     [Explicit [\<lparr>pg_subject = example_subject, pg_actions = {Read}\<rparr>],
      Explicit [\<lparr>pg_subject = example_subject, pg_actions = {Write}\<rparr>]] [Write]"
proof
  show "allowed [example_subject]
     [Inherit, Explicit [\<lparr>pg_subject = example_subject, pg_actions = {Read, Write}\<rparr>], Explicit []] [Read]"
    unfolding nearest_policy_decides
    by (rule conjI, simp, rule exI [of _ "[Inherit]"], rule exI, rule exI [of _ "[Explicit []]"]) auto
  show "\<not> allowed [example_subject]
     [Explicit [\<lparr>pg_subject = example_subject, pg_actions = {Read}\<rparr>],
      Explicit [\<lparr>pg_subject = example_subject, pg_actions = {Write}\<rparr>]] [Write]"
    unfolding nearest_policy_decides by (auto simp: Cons_eq_append_conv)
qed

subsection \<open>Manifests\<close>

definition example_item :: "string \<Rightarrow> int \<Rightarrow> SemanticContentItem" where
  "example_item path n = \<lparr>sci_logical_path = LogicalPath (lit path), sci_ordinal = n, sci_format_id = lit ''docx'',
     sci_inspection_profile_id = lit ''dsi-v0'', sci_semantic_fingerprint = replicate 32 n\<rparr>"

definition example_manifest :: VersionManifest where
  "example_manifest = \<lparr>vm_title = Title (lit ''Policy''), vm_items = [example_item ''a'' 0, example_item ''b'' 1]\<rparr>"

definition example_other :: VersionManifest where
  "example_other = \<lparr>vm_title = Title (lit ''Policy''), vm_items = [example_item ''a'' 0]\<rparr>"

lemma example_manifest_new:
  "VersionManifest_new id (Title (lit '' Policy'')) [example_item ''b'' 1, example_item ''a'' 0] = Inr example_manifest"
  "VersionManifest_new id (Title (lit ''Policy'')) [example_item ''a'' 0] = Inr example_other"
  by code_simp+

lemma example_item_built: "item_built id (example_item ''a'' 0)" "item_built id (example_item ''b'' 1)"
proof -
  have "LogicalPath_new id (lit ''a'') = Inr (LogicalPath (lit ''a''))"
    "LogicalPath_new id (lit ''b'') = Inr (LogicalPath (lit ''b''))"
    "SemanticContentItem_new (LogicalPath (lit ''a'')) 0 (lit ''docx'') (lit ''dsi-v0'') (replicate 32 0)
       = Inr (example_item ''a'' 0)"
    "SemanticContentItem_new (LogicalPath (lit ''b'')) 1 (lit ''docx'') (lit ''dsi-v0'') (replicate 32 1)
       = Inr (example_item ''b'' 1)"
    by code_simp+
  then show "item_built id (example_item ''a'' 0)" "item_built id (example_item ''b'' 1)"
    unfolding item_built_def by blast+
qed

lemma example_typed: "manifest_typed example_manifest" "manifest_typed example_other"
  by code_simp+

theorem manifest_identity_exact_witness:
  "\<exists>x y. identity_input example_manifest = Some x \<and> identity_input example_other = Some y
     \<and> identity_digest id example_manifest \<noteq> identity_digest id example_other"
proof -
  have "example_manifest \<noteq> example_other" by (simp add: example_manifest_def example_other_def)
  with manifest_identity_exact [OF example_manifest_new _ example_typed, of id] example_item_built
  show ?thesis by auto
qed

theorem manifest_order_irrelevant_witness:
  "VersionManifest_new id (Title (lit ''Policy'')) [example_item ''a'' 0, example_item ''b'' 1]
   = VersionManifest_new id (Title (lit ''Policy'')) [example_item ''b'' 1, example_item ''a'' 0]"
  by (rule manifest_order_irrelevant) simp

subsection \<open>Alignment\<close>

definition example_anchor :: "string \<Rightarrow> int \<Rightarrow> int \<Rightarrow> ItemAnchor" where
  "example_anchor path n f = \<lparr>ia_logical_path = lit path, ia_ordinal = n, ia_format = Some Docx,
     ia_inspection_profile = DsiV0, ia_semantic_fingerprint = Some [f]\<rparr>"

definition example_base :: "ItemAnchor list" where
  "example_base = [example_anchor ''a'' 0 1, example_anchor ''b'' 1 2, example_anchor ''c'' 2 3]"

definition example_target :: "ItemAnchor list" where
  "example_target = [example_anchor ''a'' 0 1, example_anchor ''d'' 1 3]"

definition example_outcome :: AlignmentOutcome where
  "example_outcome = \<lparr>ao_pairs = [\<lparr>ap_base_index = 0, ap_target_index = 0, ap_kind = Exact\<rparr>,
       \<lparr>ap_base_index = 2, ap_target_index = 1, ap_kind = Relocated\<rparr>],
     ao_unmatched_base = [1], ao_unmatched_target = [], ao_unresolved = [], ao_exhausted = False\<rparr>"

lemma example_alignment:
  "align_items example_base example_target (AlignmentBudget_new 10) = (example_outcome, \<lparr>ab_limit = 10, ab_used = 2\<rparr>)"
  by code_simp

theorem alignment_partition_witness:
  "mset ([0, 2] @ [1 :: nat]) = mset [0..<length example_base]
   \<and> justifies Relocated (example_base ! 2) (example_target ! 1)"
  using alignment_partition [OF example_alignment]
  by (simp only: example_outcome_def AlignmentOutcome.simps AlignedPair.simps list.map list.set concat.simps
      append_Nil append_Nil2 ball_simps simp_thms)

theorem alignment_budget_witness: "int (length (ao_pairs example_outcome)) \<le> 2"
  using alignment_budget [OF example_alignment] by (simp add: AlignmentBudget_new_def)

theorem exact_matches_found_witness:
  "\<lparr>ap_base_index = 0, ap_target_index = 0, ap_kind = Exact\<rparr> \<in> set (ao_pairs example_outcome)"
proof (rule exact_matches_found [OF example_alignment])
  show "\<not> ao_exhausted example_outcome" by (simp add: example_outcome_def)
  show "i = 0" if "i < length example_base" "exact_key (example_base ! i) = exact_key (example_base ! 0)" for i
    using that by (auto simp: example_base_def example_anchor_def exact_key_def less_Suc_eq)
  show "j = 0" if "j < length example_target" "exact_key (example_target ! j) = exact_key (example_target ! 0)" for j
    using that by (auto simp: example_target_def example_anchor_def exact_key_def less_Suc_eq)
qed (simp_all add: example_base_def example_target_def)

subsection \<open>Delivery\<close>

theorem retry_delay_bounded_monotone_witness:
  "retry_delay (\<lambda>_. []) 7 2 = from_millis 2000 \<and> retry_delay (\<lambda>_. []) 7 2 \<le> retry_delay (\<lambda>_. []) 7 20"
  using retry_delay_bounded_monotone [of "\<lambda>_. []" 7 2 20] by (simp add: digest_value_def)

theorem delivery_configuration_safe_witness:
  "3 * dc_renew_interval default_config < dc_lease_duration default_config
   \<and> retry_delay_within (\<lambda>_. []) 7 1 (from_secs 5, from_secs 60) \<le> from_secs 60
   \<and> error_code_from_str (lit ''indexing_failed'') = Inr IndexingFailed"
  using delivery_configuration_safe [of default_config "from_secs 5" "from_secs 60" "\<lambda>_. []" 7 1
      "lit ''indexing_failed''" IndexingFailed] by (simp add: from_secs_def)

end
