(* ===== verification/Audit_Json.thy ===== *)
theory Audit_Json
  imports Doc_Identity
begin

text \<open>
  JSON values of the audit crate, \<open>codes.rs\<close> and \<open>json.rs\<close> of \<open>audit-core\<close>: the closed
  rejection codes, admission of JSON with unique member names and bounded nesting,
  the length of the PostgreSQL rendering, and the canonical member order. A
  \<open>serde_json\<close> map is an association list whose keys are distinct; no order of its
  entries is assumed, since the crate supports both orders of the library. A
  floating-point number is the text it renders to, the only thing the crate reads
  of it. The tokenizer is \<open>serde_json\<close>: what it hands to the visitor is \<open>RawJson\<close>.
\<close>

subsection \<open>Rejections\<close>

datatype RejectionCode =
    EnvelopeTooLarge | InvalidJson | DuplicateKey | InvalidEnvelope | UnknownEventType
  | ControlTypeForbidden | InvalidSource | InvalidSubject | InvalidResource | NilClientId
  | InvalidResult | InvalidActor | InvalidServiceExecutor | UnknownField | MissingField
  | InvalidField | InvalidCorrelation | InvalidSourceCorrelation | InvalidReason
  | ReasonNotString | ActorMismatch | SourceRowTooLarge | SourceDigestMismatch
  | InvalidProvenance | InvalidExtensions

definition RejectionCode_ALL :: "RejectionCode list" where
  "RejectionCode_ALL =
    [EnvelopeTooLarge, InvalidJson, DuplicateKey, InvalidEnvelope, UnknownEventType,
     ControlTypeForbidden, InvalidSource, InvalidSubject, InvalidResource, NilClientId,
     InvalidResult, InvalidActor, InvalidServiceExecutor, UnknownField, MissingField,
     InvalidField, InvalidCorrelation, InvalidSourceCorrelation, InvalidReason,
     ReasonNotString, ActorMismatch, SourceRowTooLarge, SourceDigestMismatch,
     InvalidProvenance, InvalidExtensions]"

primrec rejection_as_str :: "RejectionCode \<Rightarrow> string" where
  "rejection_as_str EnvelopeTooLarge = ''envelope_too_large''"
| "rejection_as_str InvalidJson = ''invalid_json''"
| "rejection_as_str DuplicateKey = ''duplicate_key''"
| "rejection_as_str InvalidEnvelope = ''invalid_envelope''"
| "rejection_as_str UnknownEventType = ''unknown_event_type''"
| "rejection_as_str ControlTypeForbidden = ''control_type_forbidden''"
| "rejection_as_str InvalidSource = ''invalid_source''"
| "rejection_as_str InvalidSubject = ''invalid_subject''"
| "rejection_as_str InvalidResource = ''invalid_resource''"
| "rejection_as_str NilClientId = ''nil_client_id''"
| "rejection_as_str InvalidResult = ''invalid_result''"
| "rejection_as_str InvalidActor = ''invalid_actor''"
| "rejection_as_str InvalidServiceExecutor = ''invalid_service_executor''"
| "rejection_as_str UnknownField = ''unknown_field''"
| "rejection_as_str MissingField = ''missing_field''"
| "rejection_as_str InvalidField = ''invalid_field''"
| "rejection_as_str InvalidCorrelation = ''invalid_correlation''"
| "rejection_as_str InvalidSourceCorrelation = ''invalid_source_correlation''"
| "rejection_as_str InvalidReason = ''invalid_reason''"
| "rejection_as_str ReasonNotString = ''reason_not_string''"
| "rejection_as_str ActorMismatch = ''actor_mismatch''"
| "rejection_as_str SourceRowTooLarge = ''source_row_too_large''"
| "rejection_as_str SourceDigestMismatch = ''source_digest_mismatch''"
| "rejection_as_str InvalidProvenance = ''invalid_provenance''"
| "rejection_as_str InvalidExtensions = ''invalid_extensions''"

definition rejection_parse :: "ustr \<Rightarrow> RejectionCode option" where
  "rejection_parse value = find (\<lambda>code. lit (rejection_as_str code) = value) RejectionCode_ALL"

record Rejection =
  rej_code :: RejectionCode
  rej_field :: "ustr option"

definition rejection_new :: "RejectionCode \<Rightarrow> Rejection" where
  "rejection_new code = \<lparr>rej_code = code, rej_field = None\<rparr>"

definition rejection_at :: "RejectionCode \<Rightarrow> ustr \<Rightarrow> Rejection" where
  "rejection_at code field = \<lparr>rej_code = code, rej_field = Some field\<rparr>"

lemma rejection_roundtrip: "rejection_parse (lit (rejection_as_str code)) = Some code"
  by (cases code) (simp_all add: rejection_parse_def RejectionCode_ALL_def)

subsection \<open>Values\<close>

datatype Number = IntNumber int | FloatNumber ustr

datatype Value =
    Null
  | Bool bool
  | Number Number
  | String ustr
  | Array "Value list"
  | Object "(ustr \<times> Value) list"

fun digits :: "nat \<Rightarrow> ustr" where
  "digits n = (if n < 10 then [48 + int n] else digits (n div 10) @ [48 + int (n mod 10)])"

declare digits.simps [simp del]

definition decimal :: "int \<Rightarrow> ustr" where
  "decimal n = (if n < 0 then 45 # digits (nat (- n)) else digits (nat n))"

fun number_string :: "Number \<Rightarrow> ustr" where
  "number_string (IntNumber n) = decimal n"
| "number_string (FloatNumber t) = t"

definition as_str :: "Value \<Rightarrow> ustr option" where
  "as_str v = (case v of String s \<Rightarrow> Some s | _ \<Rightarrow> None)"

definition as_bool :: "Value \<Rightarrow> bool option" where
  "as_bool v = (case v of Bool b \<Rightarrow> Some b | _ \<Rightarrow> None)"

definition as_array :: "Value \<Rightarrow> Value list option" where
  "as_array v = (case v of Array xs \<Rightarrow> Some xs | _ \<Rightarrow> None)"

definition as_object :: "Value \<Rightarrow> (ustr \<times> Value) list option" where
  "as_object v = (case v of Object m \<Rightarrow> Some m | _ \<Rightarrow> None)"

definition as_i64 :: "Value \<Rightarrow> int option" where
  "as_i64 v = (case v of Number (IntNumber n) \<Rightarrow> if i64_min \<le> n \<and> n \<le> i64_max then Some n else None
     | _ \<Rightarrow> None)"

definition as_u64 :: "Value \<Rightarrow> int option" where
  "as_u64 v = (case v of Number (IntNumber n) \<Rightarrow> if 0 \<le> n \<and> n \<le> u64_max then Some n else None
     | _ \<Rightarrow> None)"

definition is_null :: "Value \<Rightarrow> bool" where
  "is_null v = (case v of Null \<Rightarrow> True | _ \<Rightarrow> False)"

definition contains_key :: "(ustr \<times> 'v) list \<Rightarrow> ustr \<Rightarrow> bool" where
  "contains_key m k \<longleftrightarrow> map_of m k \<noteq> None"

text \<open>\<open>value.get(k)\<close> and \<open>value[k]\<close>: a member of an object, and null for everything else when indexing.\<close>

definition get_member :: "Value \<Rightarrow> ustr \<Rightarrow> Value option" where
  "get_member v k = Option.bind (as_object v) (\<lambda>m. map_of m k)"

definition index_member :: "Value \<Rightarrow> ustr \<Rightarrow> Value" where
  "index_member v k = (case get_member v k of Some x \<Rightarrow> x | None \<Rightarrow> Null)"

subsection \<open>Canonical order\<close>

lemma size_sort_member [termination_simp]:
  "(k, v) \<in> set (sort_key f m) \<Longrightarrow> size v < Suc (size_list (size_prod size size) m)"
proof -
  assume "(k, v) \<in> set (sort_key f m)"
  then have "(k, v) \<in> set m" by simp
  then show ?thesis by (induction m) auto
qed

fun canonicalize :: "Value \<Rightarrow> Value" where
  "canonicalize (Object m) =
     Object (map (\<lambda>(k, v). (k, canonicalize v)) (sort_key (\<lambda>e. as_bytes (fst e)) m))"
| "canonicalize (Array xs) = Array (map canonicalize xs)"
| "canonicalize v = v"

text \<open>
  \<open>==\<close> on values. Two maps are equal when they have the same entries, in whatever
  order; on maps with distinct keys that is equality of the canonical forms.
\<close>

definition value_eq :: "Value \<Rightarrow> Value \<Rightarrow> bool" where
  "value_eq a b \<longleftrightarrow> canonicalize a = canonicalize b"

definition option_value_eq :: "Value option \<Rightarrow> Value option \<Rightarrow> bool" where
  "option_value_eq a b = (case (a, b) of (None, None) \<Rightarrow> True | (Some x, Some y) \<Rightarrow> value_eq x y | _ \<Rightarrow> False)"

subsection \<open>Rendered length\<close>

definition escape_width :: "uchar \<Rightarrow> int" where
  "escape_width c =
     (if c = 34 \<or> c = 92 \<or> c = 8 \<or> c = 12 \<or> c = 10 \<or> c = 13 \<or> c = 9 then 2
      else if c < 32 then 6 else utf8_width c)"

definition quoted_len :: "ustr \<Rightarrow> int" where
  "quoted_len text = 2 + sum_list (map escape_width text)"

definition saturating_add_usize :: "int \<Rightarrow> int \<Rightarrow> int" where
  "saturating_add_usize a b = min u64_max (a + b)"

text \<open>The length a value adds by itself; its elements or members are pushed on the stack.\<close>

fun object_len :: "int \<Rightarrow> (ustr \<times> Value) list \<Rightarrow> int" where
  "object_len len [] = len"
| "object_len len ((key, _) # m) = object_len (saturating_add_usize len (quoted_len key + 2)) m"

definition separators :: "'x list \<Rightarrow> int" where
  "separators xs = 2 + 2 * int (length xs - 1)"

fun own_len :: "Value \<Rightarrow> int" where
  "own_len Null = 4"
| "own_len (Bool b) = (if b then 4 else 5)"
| "own_len (Number n) = utf8_len (number_string n)"
| "own_len (String s) = quoted_len s"
| "own_len (Array xs) = separators xs"
| "own_len (Object m) = object_len (separators m) m"

fun parts_of :: "Value \<Rightarrow> Value list" where
  "parts_of (Array xs) = xs"
| "parts_of (Object m) = map snd m"
| "parts_of _ = []"

text \<open>The stack of \<open>jsonb_text_len\<close> with its top first; \<open>extend\<close> leaves the last part on top.\<close>

lemma size_list_rev: "size_list f (rev xs) = size_list f xs"
  by (induction xs) (auto simp: size_list_append)

lemma size_parts: "size_list size (parts_of v) < Suc (size v)"
proof (cases v)
  case (Object m)
  have "size_list size (map snd m) \<le> size_list (size_prod (\<lambda>x. 0) size) m" by (induction m) auto
  with Object show ?thesis by simp
qed simp_all

function (sequential) len_loop :: "Value list \<Rightarrow> int \<Rightarrow> int" where
  "len_loop [] n = n"
| "len_loop (v # stack) n =
     len_loop (rev (parts_of v) @ stack) (saturating_add_usize n (own_len v))"
  by pat_completeness auto
termination
proof (relation "measure (\<lambda>(stack, _). size_list size stack)")
  fix v stack n
  show "((rev (parts_of v) @ stack, saturating_add_usize n (own_len v)), v # stack, n)
    \<in> measure (\<lambda>(stack, _). size_list size stack)"
    using size_parts [of v] by (simp add: size_list_append size_list_rev)
qed simp

definition jsonb_text_len :: "Value \<Rightarrow> int" where
  "jsonb_text_len v = len_loop [v] 0"

subsection \<open>Admission\<close>

text \<open>
  What the tokenizer hands to the visitor: a value, or the point at which it reports
  an error. A sequence or map carries whether it was closed; otherwise the next
  element or key was an error. Keys are unescaped and may repeat. The number of an
  unrepresentable float is \<open>None\<close>.
\<close>

datatype RawJson =
    RawNull
  | RawBool bool
  | RawInt int
  | RawFloat "ustr option"
  | RawStr ustr
  | RawSeq "RawJson list" bool
  | RawMap "(ustr \<times> RawJson) list" bool
  | RawError

datatype ParseStop = DuplicateMember | SyntaxError

definition MAX_JSON_BYTES :: int where "MAX_JSON_BYTES = 65536"
definition MAX_JSON_DEPTH :: nat where "MAX_JSON_DEPTH = 8"

definition enter :: "nat \<Rightarrow> nat \<Rightarrow> ParseStop + nat" where
  "enter max_depth depth =
     (let depth = depth + 1 in if max_depth < depth then Inl SyntaxError else Inr depth)"

fun visit :: "nat \<Rightarrow> nat \<Rightarrow> RawJson \<Rightarrow> ParseStop + Value"
  and visit_seq :: "nat \<Rightarrow> nat \<Rightarrow> RawJson list \<Rightarrow> bool \<Rightarrow> ParseStop + Value list"
  and visit_map :: "nat \<Rightarrow> nat \<Rightarrow> (ustr \<times> RawJson) list \<Rightarrow> bool \<Rightarrow> (ustr \<times> Value) list
        \<Rightarrow> ParseStop + (ustr \<times> Value) list" where
  "visit max_depth depth RawNull = Inr Null"
| "visit max_depth depth (RawBool b) = Inr (Bool b)"
| "visit max_depth depth (RawInt n) = Inr (Number (IntNumber n))"
| "visit max_depth depth (RawFloat f) = (case f of None \<Rightarrow> Inl SyntaxError | Some t \<Rightarrow> Inr (Number (FloatNumber t)))"
| "visit max_depth depth (RawStr s) = Inr (String s)"
| "visit max_depth depth (RawSeq xs closed) =
     and_then (enter max_depth depth) (\<lambda>inner.
     and_then (visit_seq max_depth inner xs closed) (\<lambda>items. Inr (Array items)))"
| "visit max_depth depth (RawMap m closed) =
     and_then (enter max_depth depth) (\<lambda>inner.
     and_then (visit_map max_depth inner m closed []) (\<lambda>entries. Inr (Object entries)))"
| "visit max_depth depth RawError = Inl SyntaxError"
| "visit_seq max_depth inner [] closed = (if closed then Inr [] else Inl SyntaxError)"
| "visit_seq max_depth inner (x # xs) closed =
     and_then (visit max_depth inner x) (\<lambda>item.
     and_then (visit_seq max_depth inner xs closed) (\<lambda>items. Inr (item # items)))"
| "visit_map max_depth inner [] closed entries = (if closed then Inr entries else Inl SyntaxError)"
| "visit_map max_depth inner ((key, x) # m) closed entries =
     (if contains_key entries key then Inl DuplicateMember
      else and_then (visit max_depth inner x) (\<lambda>value.
        visit_map max_depth inner m closed (entries @ [(key, value)])))"

text \<open>\<open>tokens\<close> is the tokenizer: the value it reads and whether only white space follows it.\<close>

definition parse_bounded ::
  "(ustr \<Rightarrow> RawJson \<times> bool) \<Rightarrow> int \<Rightarrow> nat \<Rightarrow> ustr \<Rightarrow> Rejection + Value" where
  "parse_bounded tokens max_bytes max_depth text =
     (if max_bytes < utf8_len text then Inl (rejection_new EnvelopeTooLarge)
      else case visit max_depth 0 (fst (tokens text)) of
        Inl DuplicateMember \<Rightarrow> Inl (rejection_new DuplicateKey)
      | Inl SyntaxError \<Rightarrow> Inl (rejection_new InvalidJson)
      | Inr value \<Rightarrow> if snd (tokens text) then Inr value else Inl (rejection_new InvalidJson))"

definition parse_unique :: "(ustr \<Rightarrow> RawJson \<times> bool) \<Rightarrow> ustr \<Rightarrow> Rejection + Value" where
  "parse_unique tokens text = parse_bounded tokens MAX_JSON_BYTES MAX_JSON_DEPTH text"

end
