(* ===== verification/Audit_Kinds.thy ===== *)
theory Audit_Kinds
  imports Audit_Json
begin

text \<open>
  Field kinds of the audit catalog, \<open>kinds.rs\<close> of \<open>audit-core\<close>: the closed grammars of
  strings and the typed value shapes. Checks over bytes are checks over the UTF-8
  encoding. The crates the audit code relies on are the members of \<open>audit_lib\<close>:
  calendar validity from \<open>time\<close>, the text form of identifiers from \<open>uuid\<close>, SHA-256
  from \<open>sha2\<close> and the tokenizer of \<open>serde_json\<close>.
\<close>

record audit_lib =
  from_ordinal_date :: "int \<Rightarrow> int \<Rightarrow> bool"
  from_calendar_date :: "int \<Rightarrow> int \<Rightarrow> int \<Rightarrow> bool"
  parse_uuid :: "ustr \<Rightarrow> uuid option"
  uuid_string :: "uuid \<Rightarrow> ustr"
  sha256 :: "int list \<Rightarrow> int list"
  tokens :: "ustr \<Rightarrow> RawJson \<times> bool"

subsection \<open>Bounds and byte classes\<close>

definition MAX_STRING_BYTES :: int where "MAX_STRING_BYTES = 512"
definition MAX_PRINCIPAL_PART_BYTES :: int where "MAX_PRINCIPAL_PART_BYTES = 256"
definition MAX_UUID_LIST :: nat where "MAX_UUID_LIST = 100"
definition MAX_CONTROL_LIST :: nat where "MAX_CONTROL_LIST = 16"
definition MAX_DB_ROLE_BYTES :: int where "MAX_DB_ROLE_BYTES = 63"
definition MAX_EVENT_TYPE_BYTES :: int where "MAX_EVENT_TYPE_BYTES = 128"
definition MAX_CODE_BYTES :: int where "MAX_CODE_BYTES = 64"
definition NIL_UUID :: ustr where "NIL_UUID = lit ''00000000-0000-0000-0000-000000000000''"
definition MAX_SAFE_INTEGER :: int where "MAX_SAFE_INTEGER = 9007199254740991"
definition AUDIT_STORE_RESOURCE_ID :: ustr where "AUDIT_STORE_RESOURCE_ID = lit ''audit-store''"

definition ascii_digit :: "int \<Rightarrow> bool" where
  "ascii_digit b \<longleftrightarrow> 48 \<le> b \<and> b \<le> 57"

definition ascii_lower :: "int \<Rightarrow> bool" where
  "ascii_lower b \<longleftrightarrow> 97 \<le> b \<and> b \<le> 122"

definition ascii_upper :: "int \<Rightarrow> bool" where
  "ascii_upper b \<longleftrightarrow> 65 \<le> b \<and> b \<le> 90"

definition is_lower_hex :: "int \<Rightarrow> bool" where
  "is_lower_hex b \<longleftrightarrow> ascii_digit b \<or> (97 \<le> b \<and> b \<le> 102)"

subsection \<open>Closed grammars\<close>

definition is_canonical_uuid :: "ustr \<Rightarrow> bool" where
  "is_canonical_uuid text \<longleftrightarrow> (let bytes = as_bytes text in
     length bytes = 36
     \<and> list_all (\<lambda>(i, b). if i \<in> {8, 13, 18, 23} then b = 45 else is_lower_hex b) (enumerate 0 bytes))"

definition is_uuid :: "ustr \<Rightarrow> bool" where
  "is_uuid text \<longleftrightarrow> is_canonical_uuid text \<and> text \<noteq> NIL_UUID"

definition is_resource_ref :: "ustr \<Rightarrow> bool" where
  "is_resource_ref text \<longleftrightarrow> is_canonical_uuid text \<or> text = AUDIT_STORE_RESOURCE_ID"

definition is_db_role :: "ustr \<Rightarrow> bool" where
  "is_db_role text \<longleftrightarrow> utf8_len text \<le> MAX_DB_ROLE_BYTES \<and>
     (case as_bytes text of [] \<Rightarrow> False
      | b # bytes \<Rightarrow> (ascii_lower b \<or> b = 95)
          \<and> list_all (\<lambda>b. ascii_lower b \<or> ascii_digit b \<or> b = 95 \<or> b = 36) bytes)"

text \<open>\<open>str::parse::<i64>\<close>: an optional sign, at least one digit, a value that fits.\<close>

definition digits_value :: "ustr \<Rightarrow> int" where
  "digits_value s = foldl (\<lambda>acc c. acc * 10 + (c - 48)) 0 s"

definition parse_i64 :: "ustr \<Rightarrow> int option" where
  "parse_i64 text =
     (let (neg, body) = (case text of
          [] \<Rightarrow> (False, [])
        | c # cs \<Rightarrow> if c = 45 then (True, cs) else if c = 43 then (False, cs) else (False, c # cs))
      in if body = [] \<or> \<not> list_all ascii_digit body then None
         else let n = (if neg then - digits_value body else digits_value body)
           in if i64_min \<le> n \<and> n \<le> i64_max then Some n else None)"

definition is_int8_text :: "ustr \<Rightarrow> bool" where
  "is_int8_text text \<longleftrightarrow> is_some_and (\<lambda>n. decimal n = text) (parse_i64 text)"

definition type_segment :: "ustr \<Rightarrow> bool" where
  "type_segment part = (case as_bytes part of [] \<Rightarrow> False
     | b # bytes \<Rightarrow> ascii_lower b \<and> list_all (\<lambda>b. ascii_lower b \<or> ascii_digit b \<or> b = 95) bytes)"

definition is_event_type :: "ustr \<Rightarrow> bool" where
  "is_event_type text \<longleftrightarrow> utf8_len text \<le> MAX_EVENT_TYPE_BYTES
     \<and> 2 \<le> length (split_on (\<lambda>c. c = 46) text) \<and> list_all type_segment (split_on (\<lambda>c. c = 46) text)"

definition is_code :: "ustr \<Rightarrow> bool" where
  "is_code text \<longleftrightarrow> text \<noteq> [] \<and> utf8_len text \<le> MAX_CODE_BYTES
     \<and> list_all (\<lambda>b. ascii_lower b \<or> ascii_digit b \<or> b = 95) (as_bytes text)"

definition is_hex_digest :: "ustr \<Rightarrow> bool" where
  "is_hex_digest text \<longleftrightarrow> utf8_len text = 64 \<and> list_all is_lower_hex (as_bytes text)"

definition is_w3c_trace_id :: "ustr \<Rightarrow> bool" where
  "is_w3c_trace_id text \<longleftrightarrow> utf8_len text = 32 \<and> list_all is_lower_hex (as_bytes text)
     \<and> list_ex (\<lambda>b. b \<noteq> 48) (as_bytes text)"

definition is_bounded_text :: "ustr \<Rightarrow> int \<Rightarrow> bool" where
  "is_bounded_text text limit \<longleftrightarrow> utf8_len text \<le> limit \<and> \<not> list_ex is_control text"

text \<open>The last disjunct is \<open>code & 0xFFFE == 0xFFFE\<close>: bits 1 to 15 are set.\<close>

definition is_forbidden_in_principal :: "uchar \<Rightarrow> bool" where
  "is_forbidden_in_principal c \<longleftrightarrow> is_control c
     \<or> c = 0x061C \<or> c = 0x200E \<or> c = 0x200F \<or> (0x202A \<le> c \<and> c \<le> 0x202E)
     \<or> (0x2066 \<le> c \<and> c \<le> 0x2069) \<or> c = 0x2028 \<or> c = 0x2029 \<or> c = 0xFEFF
     \<or> (0xE0000 \<le> c \<and> c \<le> 0xE007F) \<or> (0xFDD0 \<le> c \<and> c \<le> 0xFDEF)
     \<or> c div 2 mod 32768 = 32767"

definition is_principal_part :: "ustr \<Rightarrow> bool" where
  "is_principal_part text \<longleftrightarrow> utf8_len text \<le> MAX_PRINCIPAL_PART_BYTES
     \<and> \<not> (text \<noteq> [] \<and> is_whitespace (hd text)) \<and> \<not> (text \<noteq> [] \<and> is_whitespace (last text))
     \<and> text \<noteq> [] \<and> \<not> list_ex is_forbidden_in_principal text"

subsection \<open>Typed shapes\<close>

definition is_counter :: "Value \<Rightarrow> bool" where
  "is_counter v = is_some_and (\<lambda>n. 0 \<le> n) (as_i64 v)"

definition is_safe_counter :: "Value \<Rightarrow> int \<Rightarrow> bool" where
  "is_safe_counter v low = is_some_and (\<lambda>n. low \<le> n \<and> n \<le> MAX_SAFE_INTEGER) (as_i64 v)"

definition is_digest :: "Value \<Rightarrow> bool" where
  "is_digest v = is_some_and (\<lambda>bytes. length bytes = 32
     \<and> list_all (\<lambda>byte. is_some_and (\<lambda>b. b \<le> 255) (as_u64 byte)) bytes) (as_array v)"

text \<open>No element equals an earlier one.\<close>

definition all_distinct :: "Value list \<Rightarrow> bool" where
  "all_distinct items =
     list_all (\<lambda>(i, item). \<not> list_ex (value_eq item) (take i items)) (enumerate 0 items)"

definition is_control_list :: "(Value \<Rightarrow> bool) \<Rightarrow> Value \<Rightarrow> bool" where
  "is_control_list item v = is_some_and (\<lambda>items. items \<noteq> [] \<and> length items \<le> MAX_CONTROL_LIST
     \<and> list_all item items \<and> all_distinct items) (as_array v)"

definition is_legacy_principal :: "Value \<Rightarrow> bool" where
  "is_legacy_principal v = is_some_and (\<lambda>m. length m = 2
     \<and> list_all (\<lambda>key. is_some_and is_principal_part (Option.bind (map_of m key) as_str))
         [lit ''identityProvider'', lit ''principalId'']) (as_object v)"

definition is_legacy_time :: "audit_lib \<Rightarrow> Value \<Rightarrow> bool" where
  "is_legacy_time L v = (case as_array v of
     None \<Rightarrow> False
   | Some items \<Rightarrow>
       (case map as_i64 items of
          [Some year, Some ordinal, Some hour, Some minute, Some second, Some nanos,
           Some off_h, Some off_m, Some off_s] \<Rightarrow>
            -2147483648 \<le> year \<and> year \<le> 2147483647 \<and> 0 \<le> ordinal \<and> ordinal \<le> 65535
            \<and> (-9999 \<le> year \<and> year \<le> 9999 \<and> from_ordinal_date L year ordinal)
            \<and> (0 \<le> hour \<and> hour \<le> 23 \<and> 0 \<le> minute \<and> minute \<le> 59
               \<and> 0 \<le> second \<and> second \<le> 59 \<and> 0 \<le> nanos \<and> nanos \<le> 999999999)
            \<and> (-25 \<le> off_h \<and> off_h \<le> 25 \<and> -59 \<le> off_m \<and> off_m \<le> 59 \<and> -59 \<le> off_s \<and> off_s \<le> 59
               \<and> \<not> ((off_h < 0 \<or> off_m < 0 \<or> off_s < 0) \<and> (0 < off_h \<or> 0 < off_m \<or> 0 < off_s)))
        | _ \<Rightarrow> False))"

definition byte_number :: "int list \<Rightarrow> nat \<Rightarrow> nat \<Rightarrow> int" where
  "byte_number bytes i j = foldl (\<lambda>acc b. acc * 10 + (b - 48)) 0 (drop i (take j bytes))"

definition is_utc_timestamp :: "audit_lib \<Rightarrow> ustr \<Rightarrow> bool" where
  "is_utc_timestamp L text = (let bytes = as_bytes text; number = byte_number bytes in
     length bytes = 27
     \<and> list_all (\<lambda>(i, b). if i = 4 \<or> i = 7 then b = 45 else if i = 10 then b = 84
          else if i = 13 \<or> i = 16 then b = 58 else if i = 19 then b = 46
          else if i = 26 then b = 90 else ascii_digit b) (enumerate 0 bytes)
     \<and> (1 \<le> number 5 7 \<and> number 5 7 \<le> 12) \<and> number 8 10 \<le> 255
     \<and> 1 \<le> number 0 4 \<and> from_calendar_date L (number 0 4) (number 5 7) (number 8 10)
     \<and> number 11 13 \<le> 23 \<and> number 14 16 \<le> 59 \<and> number 17 19 \<le> 59 \<and> number 20 26 \<le> 999999)"

subsection \<open>Kinds\<close>

datatype Kind =
    UuidKind | NullableUuid | Counter | NullableCounter | PositiveCounter | Boolean
  | EnumKind | NullableEnum | EnumList | DigestKind | NullableDigest | PrincipalKind
  | LegacyTime | UtcTimestamp | UuidList | HexDigest | NullableHexDigest
  | NullableUtcTimestamp | NullablePositiveCounter | ResourceRefKind | EventTypeKind
  | EventTypeList | SourceUrn | SourceList | DbRole | NullableDbRole | PrincipalRefKind
  | Int8Text | CodeKind | SafeCounter | PositiveSafeCounter

primrec kind_as_str :: "Kind \<Rightarrow> string" where
  "kind_as_str UuidKind = ''uuid''"
| "kind_as_str NullableUuid = ''nullable_uuid''"
| "kind_as_str Counter = ''counter''"
| "kind_as_str NullableCounter = ''nullable_counter''"
| "kind_as_str PositiveCounter = ''positive_counter''"
| "kind_as_str Boolean = ''boolean''"
| "kind_as_str EnumKind = ''enum''"
| "kind_as_str NullableEnum = ''nullable_enum''"
| "kind_as_str EnumList = ''enum_list''"
| "kind_as_str DigestKind = ''digest''"
| "kind_as_str NullableDigest = ''nullable_digest''"
| "kind_as_str PrincipalKind = ''principal''"
| "kind_as_str LegacyTime = ''legacy_time''"
| "kind_as_str UtcTimestamp = ''utc_timestamp''"
| "kind_as_str UuidList = ''uuid_list''"
| "kind_as_str HexDigest = ''hex_digest''"
| "kind_as_str NullableHexDigest = ''nullable_hex_digest''"
| "kind_as_str NullableUtcTimestamp = ''nullable_utc_timestamp''"
| "kind_as_str NullablePositiveCounter = ''nullable_positive_counter''"
| "kind_as_str ResourceRefKind = ''resource_ref''"
| "kind_as_str EventTypeKind = ''event_type''"
| "kind_as_str EventTypeList = ''event_type_list''"
| "kind_as_str SourceUrn = ''source_urn''"
| "kind_as_str SourceList = ''source_list''"
| "kind_as_str DbRole = ''db_role''"
| "kind_as_str NullableDbRole = ''nullable_db_role''"
| "kind_as_str PrincipalRefKind = ''principal_ref''"
| "kind_as_str Int8Text = ''int8_text''"
| "kind_as_str CodeKind = ''code''"
| "kind_as_str SafeCounter = ''safe_counter''"
| "kind_as_str PositiveSafeCounter = ''positive_safe_counter''"

definition takes_values :: "Kind \<Rightarrow> bool" where
  "takes_values k \<longleftrightarrow> k = EnumKind \<or> k = NullableEnum \<or> k = EnumList"

definition derives_values :: "Kind \<Rightarrow> bool" where
  "derives_values k \<longleftrightarrow> k = SourceUrn \<or> k = SourceList"

definition is_control_only :: "Kind \<Rightarrow> bool" where
  "is_control_only k \<longleftrightarrow> k \<in> {ResourceRefKind, EventTypeKind, EventTypeList, SourceUrn, SourceList,
     DbRole, NullableDbRole, PrincipalRefKind, Int8Text, CodeKind}"

definition text_is :: "(ustr \<Rightarrow> bool) \<Rightarrow> Value \<Rightarrow> bool" where
  "text_is check v = is_some_and check (as_str v)"

definition in_set :: "ustr list \<Rightarrow> Value \<Rightarrow> bool" where
  "in_set values v = is_some_and (\<lambda>s. list_ex (\<lambda>x. x = s) values) (as_str v)"

fun kind_accepts :: "audit_lib \<Rightarrow> Kind \<Rightarrow> ustr list \<Rightarrow> Value \<Rightarrow> bool" where
  "kind_accepts L UuidKind values v = text_is is_uuid v"
| "kind_accepts L NullableUuid values v = (is_null v \<or> text_is is_uuid v)"
| "kind_accepts L Counter values v = is_counter v"
| "kind_accepts L NullableCounter values v = (is_null v \<or> is_counter v)"
| "kind_accepts L PositiveCounter values v = is_some_and (\<lambda>n. 1 \<le> n) (as_i64 v)"
| "kind_accepts L Boolean values v = (as_bool v \<noteq> None)"
| "kind_accepts L EnumKind values v = in_set values v"
| "kind_accepts L NullableEnum values v = (is_null v \<or> in_set values v)"
| "kind_accepts L EnumList values v = is_some_and (\<lambda>items. items \<noteq> [] \<and> length items \<le> length values
     \<and> list_all (in_set values) items \<and> all_distinct items) (as_array v)"
| "kind_accepts L DigestKind values v = is_digest v"
| "kind_accepts L NullableDigest values v = (is_null v \<or> is_digest v)"
| "kind_accepts L PrincipalKind values v = is_legacy_principal v"
| "kind_accepts L LegacyTime values v = is_legacy_time L v"
| "kind_accepts L UtcTimestamp values v = text_is (is_utc_timestamp L) v"
| "kind_accepts L UuidList values v = is_some_and (\<lambda>items. length items \<le> MAX_UUID_LIST
     \<and> list_all (text_is is_uuid) items \<and> all_distinct items) (as_array v)"
| "kind_accepts L HexDigest values v = text_is is_hex_digest v"
| "kind_accepts L NullableHexDigest values v = (is_null v \<or> text_is is_hex_digest v)"
| "kind_accepts L NullableUtcTimestamp values v = (is_null v \<or> text_is (is_utc_timestamp L) v)"
| "kind_accepts L NullablePositiveCounter values v = (is_null v \<or> is_some_and (\<lambda>n. 1 \<le> n) (as_i64 v))"
| "kind_accepts L ResourceRefKind values v = text_is is_resource_ref v"
| "kind_accepts L EventTypeKind values v = text_is is_event_type v"
| "kind_accepts L EventTypeList values v = is_control_list (text_is is_event_type) v"
| "kind_accepts L SourceUrn values v = in_set values v"
| "kind_accepts L SourceList values v = is_control_list (in_set values) v"
| "kind_accepts L DbRole values v = text_is is_db_role v"
| "kind_accepts L NullableDbRole values v = (is_null v \<or> text_is is_db_role v)"
| "kind_accepts L PrincipalRefKind values v = text_is is_principal_part v"
| "kind_accepts L Int8Text values v = text_is is_int8_text v"
| "kind_accepts L CodeKind values v = text_is is_code v"
| "kind_accepts L SafeCounter values v = is_safe_counter v 0"
| "kind_accepts L PositiveSafeCounter values v = is_safe_counter v 1"

end
