(* ===== verification/Audit_Catalog.thy ===== *)
theory Audit_Catalog
  imports Audit_Kinds
begin

text \<open>
  The audit event catalog, \<open>catalog.rs\<close> of \<open>audit-core\<close>: adapters of the sources, one
  entry per event type, and the checks a catalog document passes before it is used.
  \<open>BTreeMap\<close> fields are key-sorted association lists. Decoding the document into raw
  entries is generated by \<open>serde\<close> and is an argument.
\<close>

subsection \<open>Vocabulary\<close>

definition MAX_CATALOG_BYTES :: int where "MAX_CATALOG_BYTES = 524288"
definition MAX_CATALOG_DEPTH :: nat where "MAX_CATALOG_DEPTH = 8"
definition CATALOG_VERSION :: int where "CATALOG_VERSION = 1"
definition DOCUMENT_SOURCE :: ustr where "DOCUMENT_SOURCE = lit ''urn:knowledge-platform:document-platform''"
definition AUDIT_STORE_SOURCE :: ustr where "AUDIT_STORE_SOURCE = lit ''urn:knowledge-platform:audit-store''"
definition AUDIT_RELAY_SOURCE :: ustr where "AUDIT_RELAY_SOURCE = lit ''urn:knowledge-platform:audit-relay''"
definition CONTROL_TYPE_PREFIX :: ustr where "CONTROL_TYPE_PREFIX = lit ''audit.''"

definition has_prefix :: "ustr \<Rightarrow> ustr \<Rightarrow> bool" where
  "has_prefix p s \<longleftrightarrow> take (length p) s = p"

datatype Origin = Relay | Store | RelayControl

primrec origin_as_str :: "Origin \<Rightarrow> string" where
  "origin_as_str Relay = ''relay''"
| "origin_as_str Store = ''store''"
| "origin_as_str RelayControl = ''relay_control''"

definition origin_parse :: "ustr \<Rightarrow> Origin option" where
  "origin_parse value = find (\<lambda>origin. lit (origin_as_str origin) = value) [Relay, Store, RelayControl]"

datatype EventClass =
  Security | PrivilegedOperation | ContentLifecycle | AccessPolicyClass | DataAccess
  | SearchAccess | Configuration | SystemAudit

primrec class_as_str :: "EventClass \<Rightarrow> string" where
  "class_as_str Security = ''SECURITY''"
| "class_as_str PrivilegedOperation = ''PRIVILEGED_OPERATION''"
| "class_as_str ContentLifecycle = ''CONTENT_LIFECYCLE''"
| "class_as_str AccessPolicyClass = ''ACCESS_POLICY''"
| "class_as_str DataAccess = ''DATA_ACCESS''"
| "class_as_str SearchAccess = ''SEARCH_ACCESS''"
| "class_as_str Configuration = ''CONFIGURATION''"
| "class_as_str SystemAudit = ''SYSTEM_AUDIT''"

datatype ResourceType = DocumentResource | FolderResource | AccessPolicyResource | AuditStoreResource

primrec resource_as_str :: "ResourceType \<Rightarrow> string" where
  "resource_as_str DocumentResource = ''Document''"
| "resource_as_str FolderResource = ''Folder''"
| "resource_as_str AccessPolicyResource = ''AccessPolicy''"
| "resource_as_str AuditStoreResource = ''AuditStore''"

definition resource_parse :: "ustr \<Rightarrow> ResourceType option" where
  "resource_parse value = find (\<lambda>kind. lit (resource_as_str kind) = value)
     [DocumentResource, FolderResource, AccessPolicyResource, AuditStoreResource]"

datatype Requirement = Required | Optional | Forbid

record AdapterSpec =
  ad_source :: ustr
  ad_origin :: Origin
  ad_source_format :: ustr
  ad_adapter_version :: int
  ad_commitment :: Requirement
  ad_registration :: Requirement
  ad_trace_id :: bool

datatype VersionRequirement = VersionRequired | VersionForbidden | VersionOptional

text \<open>The raw form of \<open>version_required\<close> is a flag or a word.\<close>

datatype VersionRepr = Flag bool | Word ustr

definition version_requirement :: "VersionRepr \<Rightarrow> ustr + VersionRequirement" where
  "version_requirement r = (case r of
     Flag b \<Rightarrow> Inr (if b then VersionRequired else VersionForbidden)
   | Word word \<Rightarrow> if word = lit ''optional'' then Inr VersionOptional
       else Inl (lit ''version_required must be true, false or \"optional\"''))"

datatype ReasonPolicy = Absent | CallerText

record FieldSpec =
  fs_kind :: Kind
  fs_values :: "ustr list"
  fs_client_chosen :: bool

definition field_accepts :: "audit_lib \<Rightarrow> FieldSpec \<Rightarrow> Value \<Rightarrow> bool" where
  "field_accepts L f v = kind_accepts L (fs_kind f) (fs_values f) v"

datatype BindingTarget = BindResourceId | BindResourceVersionId | BindResourceType

primrec binding_as_str :: "BindingTarget \<Rightarrow> string" where
  "binding_as_str BindResourceId = ''resource.id''"
| "binding_as_str BindResourceVersionId = ''resource.version_id''"
| "binding_as_str BindResourceType = ''resource.type''"

record Binding =
  bi_field :: ustr
  bi_equals :: BindingTarget

datatype Segment = Literal ustr | ResourceId | ResourceVersionId | Detail ustr

record SubjectSpec =
  su_template :: ustr
  su_resource :: "ResourceType option"
  su_segments :: "Segment list"

primrec segment_text ::
  "ustr \<Rightarrow> ustr option \<Rightarrow> (ustr \<times> Value) list \<Rightarrow> Segment \<Rightarrow> ustr option" where
  "segment_text resource_id version_id details (Literal text) = Some text"
| "segment_text resource_id version_id details ResourceId = Some resource_id"
| "segment_text resource_id version_id details ResourceVersionId = version_id"
| "segment_text resource_id version_id details (Detail name) = Option.bind (map_of details name) as_str"

fun push_segments ::
  "ustr \<Rightarrow> ustr option \<Rightarrow> (ustr \<times> Value) list \<Rightarrow> Segment list \<Rightarrow> ustr \<Rightarrow> ustr option" where
  "push_segments resource_id version_id details [] out = Some out"
| "push_segments resource_id version_id details (s # ss) out =
     Option.bind (segment_text resource_id version_id details s) (\<lambda>text.
       push_segments resource_id version_id details ss (out @ text))"

definition subject_render ::
  "SubjectSpec \<Rightarrow> ResourceType \<Rightarrow> ustr \<Rightarrow> ustr option \<Rightarrow> (ustr \<times> Value) list \<Rightarrow> ustr option" where
  "subject_render s resource_type resource_id version_id details =
     (if is_some_and (\<lambda>only. only \<noteq> resource_type) (su_resource s) then None
      else push_segments resource_id version_id details (su_segments s) [])"

record EventSpec =
  es_event_type :: ustr
  es_source :: ustr
  es_origin :: Origin
  es_event_class :: EventClass
  es_resources :: "ResourceType list"
  es_version_required :: VersionRequirement
  es_results :: "ustr list"
  es_subjects :: "SubjectSpec list"
  es_fields :: "(ustr \<times> FieldSpec) list"
  es_required :: "ustr list"
  es_reason :: ReasonPolicy
  es_reason_code_field :: "ustr option"
  es_service_executor_field :: "ustr option"
  es_duplicated_actor_field :: "ustr option"
  es_operation_id_field :: "ustr option"
  es_publish_operation_id_field :: "ustr option"
  es_nil_resource_allowed :: bool
  es_bindings :: "Binding list"
  es_client_chosen_resource_ids :: "ResourceType list"
  es_client_chosen_version_id :: bool

definition is_detail_field :: "EventSpec \<Rightarrow> ustr \<Rightarrow> bool" where
  "is_detail_field e name \<longleftrightarrow> contains_key (es_fields e) name
     \<and> es_service_executor_field e \<noteq> Some name \<and> es_duplicated_actor_field e \<noteq> Some name"

definition detail_fields :: "EventSpec \<Rightarrow> (ustr \<times> FieldSpec) list" where
  "detail_fields e = filter (\<lambda>(name, _). is_detail_field e name) (es_fields e)"

definition detail_required :: "EventSpec \<Rightarrow> ustr list" where
  "detail_required e = filter (is_detail_field e) (es_required e)"

definition allows_resource :: "EventSpec \<Rightarrow> ResourceType \<Rightarrow> bool" where
  "allows_resource e r \<longleftrightarrow> r \<in> set (es_resources e)"

definition allows_result :: "EventSpec \<Rightarrow> ustr \<Rightarrow> bool" where
  "allows_result e result = list_ex (\<lambda>allowed. allowed = result) (es_results e)"

record Catalog =
  cat_version :: int
  cat_adapters :: "AdapterSpec list"
  cat_events :: "EventSpec list"
  cat_index :: "(ustr \<times> nat) list"

datatype CatalogError = JsonError string | ShapeError ustr | VersionError | EntryError ustr ustr

definition catalog_get :: "Catalog \<Rightarrow> ustr \<Rightarrow> EventSpec option" where
  "catalog_get c event_type = map_option (\<lambda>i. cat_events c ! i) (map_of (cat_index c) event_type)"

definition catalog_adapter :: "Catalog \<Rightarrow> ustr \<Rightarrow> AdapterSpec option" where
  "catalog_adapter c source = find (\<lambda>a. ad_source a = source) (cat_adapters c)"

definition registered_types :: "Catalog \<Rightarrow> (ustr \<times> ustr \<times> int) list" where
  "registered_types c = List.map_filter (\<lambda>e.
     map_option (\<lambda>a. (es_source e, es_event_type e, ad_adapter_version a)) (catalog_adapter c (es_source e)))
     (filter (\<lambda>e. es_origin e = Relay) (cat_events c))"

subsection \<open>Raw documents\<close>

datatype RawSubject = Template ustr | Scoped ustr ResourceType

record RawEvent =
  re_event_type :: ustr
  re_source :: ustr
  re_origin :: Origin
  re_event_class :: EventClass
  re_resources :: "ResourceType list"
  re_version_required :: VersionRequirement
  re_results :: "ustr list"
  re_subjects :: "RawSubject list"
  re_fields :: "(ustr \<times> FieldSpec) list"
  re_required :: "ustr list"
  re_reason :: ReasonPolicy
  re_reason_code_field :: "ustr option"
  re_service_executor_field :: "ustr option"
  re_duplicated_actor_field :: "ustr option"
  re_operation_id_field :: "ustr option"
  re_publish_operation_id_field :: "ustr option"
  re_nil_resource_allowed :: bool
  re_bindings :: "Binding list"
  re_client_chosen_resource_ids :: "ResourceType list"
  re_client_chosen_version_id :: bool

record RawCatalog =
  rc_version :: int
  rc_adapters :: "AdapterSpec list"
  rc_events :: "RawEvent list"

definition catalog_sources :: "AdapterSpec list \<Rightarrow> ustr list" where
  "catalog_sources adapters =
     remdups (sort_key as_bytes (map ad_source adapters @ [AUDIT_STORE_SOURCE, AUDIT_RELAY_SOURCE]))"

definition is_source_format :: "ustr \<Rightarrow> bool" where
  "is_source_format text \<longleftrightarrow> text \<noteq> [] \<and> utf8_len text \<le> 64
     \<and> list_all (\<lambda>b. ascii_lower b \<or> ascii_digit b \<or> b = 45) (as_bytes text)"

definition adapter_source_ok :: "AdapterSpec \<Rightarrow> bool" where
  "adapter_source_ok a = (case ad_origin a of
     Store \<Rightarrow> ad_source a = AUDIT_STORE_SOURCE
   | RelayControl \<Rightarrow> ad_source a = AUDIT_RELAY_SOURCE
   | Relay \<Rightarrow> ad_source a \<noteq> AUDIT_STORE_SOURCE \<and> ad_source a \<noteq> AUDIT_RELAY_SOURCE
       \<and> has_prefix (lit ''urn:'') (ad_source a) \<and> utf8_len (ad_source a) \<le> MAX_STRING_BYTES)"

definition check_adapter :: "AdapterSpec \<Rightarrow> CatalogError + unit" where
  "check_adapter a =
     (let shape = (\<lambda>m. Inl (ShapeError (lit ''adapter '' @ ad_source a @ lit m))) in
      if \<not> adapter_source_ok a then shape '': source does not fit its origin''
      else if \<not> is_source_format (ad_source_format a) then shape '': source_format must be [a-z0-9-]{1,64}''
      else if ad_adapter_version a < 1 then shape '': adapter_version must be at least 1''
      else if ad_origin a \<noteq> Relay
         \<and> (ad_commitment a \<noteq> Forbid \<or> ad_registration a \<noteq> Forbid \<or> ad_trace_id a)
      then shape '': control adapters carry no commitment, registration or trace id''
      else Inr ())"

definition check_adapters :: "AdapterSpec list \<Rightarrow> CatalogError + unit" where
  "check_adapters adapters =
     (if adapters = [] then Inl (ShapeError (lit ''adapters must be non-empty''))
      else if \<not> distinct (map ad_source adapters) \<or> \<not> distinct (map ad_source_format adapters)
      then Inl (ShapeError (lit ''adapter sources and source formats must be unique''))
      else each_res check_adapter adapters)"

definition ascii_alphabetic :: "uchar \<Rightarrow> bool" where
  "ascii_alphabetic c \<longleftrightarrow> ascii_lower c \<or> ascii_upper c"

definition ascii_alphanumeric :: "uchar \<Rightarrow> bool" where
  "ascii_alphanumeric c \<longleftrightarrow> ascii_alphabetic c \<or> ascii_digit c"

definition is_token :: "ustr \<Rightarrow> bool" where
  "is_token text = (case text of [] \<Rightarrow> False
     | c # chars \<Rightarrow> ascii_alphabetic c \<and> list_all (\<lambda>c. ascii_alphanumeric c \<or> c = 95) chars)"

definition is_enum_value :: "ustr \<Rightarrow> bool" where
  "is_enum_value text \<longleftrightarrow> text \<noteq> [] \<and> utf8_len text \<le> 64
     \<and> list_all (\<lambda>c. ascii_alphanumeric c \<or> c = 95 \<or> c = 45) text"

subsection \<open>Subject templates\<close>

definition literal_char :: "uchar \<Rightarrow> bool" where
  "literal_char c \<longleftrightarrow> ascii_lower c \<or> ascii_digit c \<or> c = 47 \<or> c = 45 \<or> c = 95 \<or> c = 46"

definition detail_resolvable :: "RawEvent \<Rightarrow> ustr \<Rightarrow> bool" where
  "detail_resolvable raw field \<longleftrightarrow>
     is_some_and (\<lambda>f. fs_kind f = UuidKind) (map_of (re_fields raw) field)
     \<and> field \<in> set (re_required raw)
     \<and> re_service_executor_field raw \<noteq> Some field \<and> re_duplicated_actor_field raw \<noteq> Some field"

definition placeholder :: "ustr \<Rightarrow> RawEvent \<Rightarrow> bool \<Rightarrow> ustr \<Rightarrow> ustr + Segment" where
  "placeholder template raw applies_to_store name =
     (if name = lit ''resource.id'' then
        (if applies_to_store then Inl (template @ lit '': {resource.id} cannot render the AuditStore resource'')
         else Inr ResourceId)
      else if name = lit ''resource.version_id'' then
        (if re_version_required raw = VersionForbidden
         then Inl (template @ lit '': version placeholder without versions'')
         else Inr ResourceVersionId)
      else if \<not> has_prefix (lit ''details.'') name
      then Inl (template @ lit '': unknown placeholder '' @ name)
      else let field = drop 8 name in
        if \<not> detail_resolvable raw field then Inl (template @ lit '': '' @ field @ lit '' must be a required uuid field'')
        else Inr (Detail field))"

function (sequential) parse_segments :: "ustr \<Rightarrow> RawEvent \<Rightarrow> bool \<Rightarrow> ustr \<Rightarrow> ustr + Segment list" where
  "parse_segments template raw applies_to_store [] = Inr []"
| "parse_segments template raw applies_to_store (c # cs) =
     (if c = 123 then
        (if 125 \<notin> set cs then Inl (lit ''unterminated placeholder in '' @ template)
         else and_then (placeholder template raw applies_to_store (takeWhile (\<lambda>x. x \<noteq> 125) cs)) (\<lambda>segment.
              and_then (parse_segments template raw applies_to_store (tl (dropWhile (\<lambda>x. x \<noteq> 125) cs)))
                (\<lambda>segments. Inr (segment # segments))))
      else if \<not> list_all literal_char (takeWhile (\<lambda>x. x \<noteq> 123) (c # cs))
      then Inl (template @ lit '': literal text must be lowercase path characters'')
      else and_then (parse_segments template raw applies_to_store (dropWhile (\<lambda>x. x \<noteq> 123) (c # cs)))
             (\<lambda>segments. Inr (Literal (takeWhile (\<lambda>x. x \<noteq> 123) (c # cs)) # segments)))"
  by pat_completeness auto
termination
proof (relation "measure (\<lambda>(_, _, _, rest). length rest)", goal_cases)
  case (2 template raw applies_to_store c cs x)
  have "length (dropWhile (\<lambda>x. x \<noteq> 125) cs) \<le> length cs" by (rule length_dropWhile_le)
  then show ?case by simp
next
  case (3 template raw applies_to_store c cs)
  have "length (dropWhile (\<lambda>x. x \<noteq> 123) cs) \<le> length cs" by (rule length_dropWhile_le)
  with 3 show ?case by simp
qed simp

definition parse_template :: "ustr \<Rightarrow> RawEvent \<Rightarrow> bool \<Rightarrow> ustr + Segment list" where
  "parse_template template raw applies_to_store =
     (if template = [] \<or> 256 < utf8_len template then Inl (lit ''subject template must be 1..=256 bytes'')
      else parse_segments template raw applies_to_store template)"

subsection \<open>Entries\<close>

text \<open>The checks of \<open>check_event\<close> in their order, each block under a name of its own.\<close>

definition is_control_type :: "ustr \<Rightarrow> bool" where
  "is_control_type t = has_prefix CONTROL_TYPE_PREFIX t"

definition expected_source :: "Origin \<Rightarrow> ustr option" where
  "expected_source origin = (case origin of
     Store \<Rightarrow> Some AUDIT_STORE_SOURCE | RelayControl \<Rightarrow> Some AUDIT_RELAY_SOURCE | Relay \<Rightarrow> None)"

definition check_origin :: "RawEvent \<Rightarrow> CatalogError + unit" where
  "check_origin raw =
     (let t = re_event_type raw; control = is_control_type t in
      case expected_source (re_origin raw) of
        Some source \<Rightarrow>
          if re_source raw \<noteq> source \<or> \<not> control
          then Inl (EntryError t (lit ''control origins need an audit.* type and their own source''))
          else Inr ()
      | None \<Rightarrow>
          if control \<or> re_source raw = AUDIT_STORE_SOURCE \<or> re_source raw = AUDIT_RELAY_SOURCE
             \<or> \<not> has_prefix (lit ''urn:'') (re_source raw) \<or> MAX_STRING_BYTES < utf8_len (re_source raw)
          then Inl (EntryError t (lit ''relay origin needs a non-control type and source''))
          else Inr ())"

definition is_uuid_kind :: "Kind \<Rightarrow> bool" where
  "is_uuid_kind k \<longleftrightarrow> k = UuidKind \<or> k = NullableUuid \<or> k = UuidList"

definition check_field :: "RawEvent \<Rightarrow> ustr \<times> FieldSpec \<Rightarrow> CatalogError + unit" where
  "check_field raw = (\<lambda>(name, field).
     (let t = re_event_type raw in
      if \<not> is_token name \<or> name = lit ''reason''
      then Inl (EntryError t (lit ''field names must be tokens and must not be reason''))
      else if re_origin raw = Relay \<and> is_control_only (fs_kind field)
      then Inl (EntryError t (name @ lit '': '' @ lit (kind_as_str (fs_kind field)) @ lit '' is reserved for control events''))
      else if takes_values (fs_kind field)
         \<and> (fs_values field = [] \<or> \<not> distinct (fs_values field) \<or> \<not> list_all is_enum_value (fs_values field))
      then Inl (EntryError t (name @ lit '': enum values must be a non-empty set of [A-Za-z0-9_-]{1,64}''))
      else if \<not> takes_values (fs_kind field) \<and> fs_values field \<noteq> []
      then Inl (EntryError t (name @ lit '': values only apply to enum kinds''))
      else if fs_client_chosen field \<and> (re_origin raw \<noteq> Relay \<or> \<not> is_uuid_kind (fs_kind field))
      then Inl (EntryError t (name @ lit '': client_chosen applies to uuid kinds of relay entries''))
      else Inr ()))"

definition derive_values :: "ustr list \<Rightarrow> RawEvent \<Rightarrow> RawEvent" where
  "derive_values sources raw = raw\<lparr>re_fields := map (\<lambda>(name, field).
     (name, if derives_values (fs_kind field) then field\<lparr>fs_values := sources\<rparr> else field)) (re_fields raw)\<rparr>"

definition field_kind :: "RawEvent \<Rightarrow> ustr option \<Rightarrow> Kind option option" where
  "field_kind raw name = map_option (\<lambda>name. map_option fs_kind (map_of (re_fields raw) name)) name"

definition names_kind :: "RawEvent \<Rightarrow> ustr option \<Rightarrow> Kind \<Rightarrow> bool" where
  "names_kind raw name k \<longleftrightarrow> \<not> is_some_and (\<lambda>kind. kind \<noteq> Some k) (field_kind raw name)"

definition check_named_fields :: "RawEvent \<Rightarrow> CatalogError + unit" where
  "check_named_fields raw =
     (let t = re_event_type raw; fail = (\<lambda>m. Inl (EntryError t (lit m)));
          is_required = (\<lambda>name. name \<in> set (re_required raw)) in
      if re_origin raw \<noteq> Relay \<and> (re_client_chosen_resource_ids raw \<noteq> [] \<or> re_client_chosen_version_id raw)
      then fail ''control entries have no client-chosen ids''
      else if \<not> distinct (re_client_chosen_resource_ids raw)
         \<or> list_ex (\<lambda>r. r = AuditStoreResource \<or> r \<notin> set (re_resources raw)) (re_client_chosen_resource_ids raw)
      then fail ''client_chosen_resource_ids must be unique resources of the entry''
      else if re_client_chosen_version_id raw \<and> re_version_required raw = VersionForbidden
      then fail ''client_chosen_version_id needs versions''
      else if \<not> distinct (re_required raw) \<or> list_ex (\<lambda>r. \<not> contains_key (re_fields raw) r) (re_required raw)
      then fail ''required must be unique and a subset of fields''
      else if is_some_and (\<lambda>kind. kind \<noteq> Some EnumKind \<or> \<not> is_some_and is_required (re_reason_code_field raw))
           (field_kind raw (re_reason_code_field raw))
      then fail ''reason_code_field must be a required enum field''
      else if \<not> names_kind raw (re_service_executor_field raw) PrincipalKind
      then fail ''service_executor_field must name a principal field''
      else if \<not> names_kind raw (re_duplicated_actor_field raw) PrincipalKind
      then fail ''duplicated_actor_field must name a principal field''
      else if is_some_and (\<lambda>name. \<not> is_required name) (re_duplicated_actor_field raw)
      then fail ''duplicated_actor_field must be required''
      else if re_service_executor_field raw \<noteq> None \<and> re_service_executor_field raw = re_duplicated_actor_field raw
      then fail ''service executor and duplicated actor must differ''
      else if \<not> names_kind raw (re_operation_id_field raw) UuidKind
      then fail ''operation_id_field must name a uuid field''
      else if \<not> names_kind raw (re_publish_operation_id_field raw) UuidKind
      then fail ''publish_operation_id_field must name a uuid field''
      else if re_nil_resource_allowed raw \<and> AuditStoreResource \<in> set (re_resources raw)
      then fail ''nil resources cannot apply to AuditStore''
      else if re_reason raw = CallerText \<and> re_origin raw \<noteq> Relay
      then fail ''caller_text reasons exist only on relay events''
      else Inr ())"

definition binding_ok :: "RawEvent \<Rightarrow> Binding \<Rightarrow> FieldSpec \<Rightarrow> bool" where
  "binding_ok raw b spec \<longleftrightarrow> bi_field b \<in> set (re_required raw)
     \<and> (case bi_equals b of
          BindResourceId \<Rightarrow> fs_kind spec = UuidKind \<and> \<not> re_nil_resource_allowed raw
            \<and> AuditStoreResource \<notin> set (re_resources raw)
        | BindResourceVersionId \<Rightarrow> fs_kind spec = UuidKind \<and> re_version_required raw = VersionRequired
        | BindResourceType \<Rightarrow> fs_kind spec = EnumKind
            \<and> list_all (\<lambda>v. is_some_and (\<lambda>r. r \<in> set (re_resources raw)) (resource_parse v)) (fs_values spec))"

definition check_binding :: "RawEvent \<Rightarrow> Binding \<Rightarrow> CatalogError + unit" where
  "check_binding raw b =
     (case map_of (re_fields raw) (bi_field b) of
        None \<Rightarrow> Inl (EntryError (re_event_type raw) (lit ''binding names an unknown field''))
      | Some spec \<Rightarrow>
          if \<not> binding_ok raw b spec
          then Inl (EntryError (re_event_type raw) (lit ''binding '' @ bi_field b @ lit '' -> ''
            @ lit (binding_as_str (bi_equals b)) @ lit '' is not resolvable''))
          else Inr ())"

definition check_subject :: "RawEvent \<Rightarrow> RawSubject \<Rightarrow> CatalogError + SubjectSpec" where
  "check_subject raw subject =
     (let (template, resource) = (case subject of Template t \<Rightarrow> (t, None) | Scoped t r \<Rightarrow> (t, Some r)) in
      if is_some_and (\<lambda>r. r \<notin> set (re_resources raw)) resource
      then Inl (EntryError (re_event_type raw) (lit ''subject resource must be one of resources''))
      else let applies_to_store = (case resource of Some only \<Rightarrow> only = AuditStoreResource
               | None \<Rightarrow> AuditStoreResource \<in> set (re_resources raw)) in
        and_then (map_err (EntryError (re_event_type raw)) (parse_template template raw applies_to_store)) (\<lambda>segments.
          Inr \<lparr>su_template = template, su_resource = resource, su_segments = segments\<rparr>))"

definition event_of :: "RawEvent \<Rightarrow> SubjectSpec list \<Rightarrow> EventSpec" where
  "event_of raw subjects =
     \<lparr>es_event_type = re_event_type raw, es_source = re_source raw, es_origin = re_origin raw,
      es_event_class = re_event_class raw, es_resources = re_resources raw,
      es_version_required = re_version_required raw, es_results = re_results raw, es_subjects = subjects,
      es_fields = re_fields raw, es_required = re_required raw, es_reason = re_reason raw,
      es_reason_code_field = re_reason_code_field raw,
      es_service_executor_field = re_service_executor_field raw,
      es_duplicated_actor_field = re_duplicated_actor_field raw,
      es_operation_id_field = re_operation_id_field raw,
      es_publish_operation_id_field = re_publish_operation_id_field raw,
      es_nil_resource_allowed = re_nil_resource_allowed raw, es_bindings = re_bindings raw,
      es_client_chosen_resource_ids = re_client_chosen_resource_ids raw,
      es_client_chosen_version_id = re_client_chosen_version_id raw\<rparr>"

definition check_event :: "ustr list \<Rightarrow> RawEvent \<Rightarrow> CatalogError + EventSpec" where
  "check_event sources raw =
     (let t = re_event_type raw; fail = (\<lambda>m. Inl (EntryError t (lit m))) in
      if \<not> is_event_type t then fail ''type must be lowercase dotted segments''
      else
     and_then (check_origin raw) (\<lambda>_.
      if re_resources raw = [] \<or> \<not> distinct (re_resources raw)
      then fail ''resources must be non-empty and unique''
      else if re_origin raw = Relay \<and> AuditStoreResource \<in> set (re_resources raw)
      then fail ''AuditStore resources are reserved for control events''
      else if re_results raw = [] \<or> \<not> distinct (re_results raw) \<or> \<not> list_all is_token (re_results raw)
      then fail ''results must be non-empty unique tokens''
      else
     and_then (each_res (check_field raw) (re_fields raw)) (\<lambda>_.
      let raw = derive_values sources raw in
     and_then (check_named_fields raw) (\<lambda>_.
     and_then (each_res (check_binding raw) (re_bindings raw)) (\<lambda>_.
      if re_subjects raw = [] then fail ''subjects must be non-empty''
      else
     and_then (map_res (check_subject raw) (re_subjects raw)) (\<lambda>subjects.
      if \<not> distinct (map (\<lambda>s. (su_template s, su_resource s)) subjects) then fail ''subjects must be unique''
      else if \<not> list_all (\<lambda>r. list_ex (\<lambda>s. is_none_or (\<lambda>only. only = r) (su_resource s)) subjects) (re_resources raw)
      then fail ''every resource needs a subject shape''
      else Inr (event_of raw subjects)))))))"

subsection \<open>The catalog\<close>

fun collect_events ::
  "AdapterSpec list \<Rightarrow> ustr list \<Rightarrow> RawEvent list \<Rightarrow> EventSpec list \<Rightarrow> (ustr \<times> nat) list
     \<Rightarrow> CatalogError + (EventSpec list \<times> (ustr \<times> nat) list)" where
  "collect_events adapters sources [] events index = Inr (events, index)"
| "collect_events adapters sources (raw # raws) events index =
     and_then (check_event sources raw) (\<lambda>event.
       if \<not> list_ex (\<lambda>a. ad_source a = es_source event \<and> ad_origin a = es_origin event) adapters
       then Inl (EntryError (es_event_type event) (lit ''no adapter with this source and origin''))
       else if contains_key index (es_event_type event)
       then Inl (EntryError (es_event_type event) (lit ''duplicate type''))
       else collect_events adapters sources raws (events @ [event])
              ((es_event_type event, length events) # index))"

definition catalog_from_raw :: "RawCatalog \<Rightarrow> CatalogError + Catalog" where
  "catalog_from_raw raw =
     (if rc_version raw \<noteq> CATALOG_VERSION then Inl VersionError
      else
     and_then (check_adapters (rc_adapters raw)) (\<lambda>_.
     and_then (collect_events (rc_adapters raw) (catalog_sources (rc_adapters raw)) (rc_events raw) [] [])
       (\<lambda>(events, index).
      case find (\<lambda>a. \<not> list_ex (\<lambda>e. es_source e = ad_source a) events) (rc_adapters raw) of
        Some unused \<Rightarrow> Inl (ShapeError (lit ''adapter '' @ ad_source unused @ lit '' has no event types''))
      | None \<Rightarrow> Inr \<lparr>cat_version = rc_version raw, cat_adapters = rc_adapters raw,
                    cat_events = events, cat_index = index\<rparr>)))"

definition catalog_from_json ::
  "audit_lib \<Rightarrow> (Value \<Rightarrow> ustr + RawCatalog) \<Rightarrow> ustr \<Rightarrow> CatalogError + Catalog" where
  "catalog_from_json L decode text =
     and_then (map_err (\<lambda>rejection. JsonError (rejection_as_str (rej_code rejection)))
       (parse_bounded (tokens L) MAX_CATALOG_BYTES MAX_CATALOG_DEPTH text)) (\<lambda>value.
     and_then (map_err ShapeError (decode value)) catalog_from_raw)"

end
