(* ===== verification/Audit_Envelope.thy ===== *)
theory Audit_Envelope
  imports Audit_Catalog
begin

text \<open>
  The closed audit envelope, \<open>envelope.rs\<close> of \<open>audit-core\<close>: validation of a JSON value
  against the catalog for one submission path, in the order of the code. Members
  read by index are present there, because the key sets were checked before; the
  model reads an absent member as null.
\<close>

subsection \<open>Constants\<close>

definition SPECVERSION :: ustr where "SPECVERSION = lit ''1.0''"
definition DATACONTENTTYPE :: ustr where "DATACONTENTTYPE = lit ''application/json''"
definition DATASCHEMA :: ustr where "DATASCHEMA = lit ''urn:knowledge-platform:audit:payload:v1''"
definition SCHEMA_VERSION :: int where "SCHEMA_VERSION = 1"
definition JSONB_TEXT_LIMIT :: int where "JSONB_TEXT_LIMIT = 32768"
definition REASON_TEXT_RETAINED :: ustr where "REASON_TEXT_RETAINED = lit ''source_systems''"
definition MAX_REASON_UTF8_BYTES :: int where "MAX_REASON_UTF8_BYTES = 1048576"
definition DB_ROLE_ISSUER :: ustr where "DB_ROLE_ISSUER = lit ''db_role''"

definition REGISTRATION_KINDS :: "ustr list" where
  "REGISTRATION_KINDS = map lit [''trigger'', ''backfill'', ''repair'']"

definition ATTRIBUTES :: "ustr list" where
  "ATTRIBUTES = map lit [''data'', ''datacontenttype'', ''dataschema'', ''id'', ''source'',
     ''specversion'', ''subject'', ''time'', ''type'']"

definition DATA_REQUIRED :: "ustr list" where
  "DATA_REQUIRED = map lit [''action'', ''actor'', ''correlation'', ''details'', ''event_class'',
     ''extensions'', ''provenance'', ''resource'', ''result'', ''schema_version'']"

definition DATA_OPTIONAL :: "ustr list" where
  "DATA_OPTIONAL = map lit [''reason'', ''reason_code'', ''service_executor'']"

definition PRINCIPAL_KEYS :: "ustr list" where
  "PRINCIPAL_KEYS = map lit [''issuer'', ''principal_id'']"

definition REASON_KEYS :: "ustr list" where
  "REASON_KEYS = map lit [''provided'', ''text_retained'', ''utf8_bytes'']"

definition CORRELATION_KEYS :: "ustr list" where
  "CORRELATION_KEYS = map lit [''operation_id'', ''publish_operation_id'', ''source_correlation_id'', ''trace_id'']"

subsection \<open>Key sets\<close>

datatype Keys = Exact | Unknown | Missing ustr

definition check_keys :: "(ustr \<times> Value) list \<Rightarrow> ustr list \<Rightarrow> ustr list \<Rightarrow> Keys" where
  "check_keys m required optional =
     (if list_ex (\<lambda>key. key \<notin> set required \<and> key \<notin> set optional) (map fst m) then Unknown
      else case find (\<lambda>key. \<not> contains_key m key) required of
        Some missing \<Rightarrow> Missing missing
      | None \<Rightarrow> Exact)"

definition at_key :: "(ustr \<times> Value) list \<Rightarrow> string \<Rightarrow> Value" where
  "at_key m k = (case map_of m (lit k) of Some v \<Rightarrow> v | None \<Rightarrow> Null)"

definition reject :: "RejectionCode \<Rightarrow> string \<Rightarrow> Rejection + 'a" where
  "reject code field = Inl (rejection_at code (lit field))"

subsection \<open>Members of the payload\<close>

definition is_principal :: "Value \<Rightarrow> bool" where
  "is_principal v = is_some_and (\<lambda>m. check_keys m PRINCIPAL_KEYS [] = Exact
     \<and> list_all (\<lambda>key. is_some_and is_principal_part (as_str (at_key m key))) [''issuer'', ''principal_id''])
     (as_object v)"

definition is_reason_summary :: "Value \<Rightarrow> bool" where
  "is_reason_summary v = is_some_and (\<lambda>m. check_keys m REASON_KEYS [] = Exact
     \<and> value_eq (at_key m ''provided'') (Bool True)
     \<and> value_eq (at_key m ''text_retained'') (String REASON_TEXT_RETAINED)
     \<and> is_some_and (\<lambda>n. 0 \<le> n \<and> n \<le> MAX_REASON_UTF8_BYTES) (as_i64 (at_key m ''utf8_bytes'')))
     (as_object v)"

definition member_ok :: "(ustr \<times> Value) list \<Rightarrow> string \<Rightarrow> Requirement \<Rightarrow> (Value \<Rightarrow> bool) \<Rightarrow> bool" where
  "member_ok m name requirement valid =
     (case (requirement, map_of m (lit name)) of
        (Required, Some member) \<Rightarrow> valid member
      | (Optional, Some member) \<Rightarrow> valid member
      | (Optional, None) \<Rightarrow> True
      | (Forbid, None) \<Rightarrow> True
      | (Required, None) \<Rightarrow> False
      | (Forbid, Some _) \<Rightarrow> False)"

definition is_provenance :: "AdapterSpec \<Rightarrow> Value \<Rightarrow> bool" where
  "is_provenance adapter v = is_some_and (\<lambda>m.
     list_all (\<lambda>key. key \<in> lit ` {''adapter_version'', ''registration'', ''source_commitment'', ''source_format''})
       (map fst m)
     \<and> Option.bind (map_of m (lit ''source_format'')) as_str = Some (ad_source_format adapter)
     \<and> Option.bind (map_of m (lit ''adapter_version'')) as_i64 = Some (ad_adapter_version adapter)
     \<and> member_ok m ''source_commitment'' (ad_commitment adapter) (\<lambda>c. is_some_and is_hex_digest (as_str c))
     \<and> member_ok m ''registration'' (ad_registration adapter)
          (\<lambda>r. is_some_and (\<lambda>r. r \<in> set REGISTRATION_KINDS) (as_str r)))
     (as_object v)"

fun strings_are_bounded :: "Value \<Rightarrow> bool" where
  "strings_are_bounded (String text) = is_bounded_text text MAX_STRING_BYTES"
| "strings_are_bounded (Array items) = list_all strings_are_bounded items"
| "strings_are_bounded (Object m) =
     list_all (\<lambda>(key, member). is_bounded_text key MAX_STRING_BYTES \<and> strings_are_bounded member) m"
| "strings_are_bounded _ = True"

definition is_nil_client_id :: "Kind \<Rightarrow> Value \<Rightarrow> bool" where
  "is_nil_client_id kind v =
     (if kind = UuidKind \<or> kind = NullableUuid then value_eq v (String NIL_UUID)
      else if kind = UuidList then
        is_some_and (list_ex (\<lambda>item. value_eq item (String NIL_UUID))) (as_array v)
      else False)"

definition is_db_role_actor_consistent :: "Value \<Rightarrow> (ustr \<times> Value) list \<Rightarrow> bool" where
  "is_db_role_actor_consistent actor details =
     (if \<not> value_eq (index_member actor (lit ''issuer'')) (String DB_ROLE_ISSUER) then True
      else is_some_and (\<lambda>role. is_db_role role
         \<and> option_value_eq (map_of details (lit ''session_role''))
             (Some (index_member actor (lit ''principal_id''))))
         (as_str (index_member actor (lit ''principal_id''))))"

subsection \<open>Resource, details and correlation\<close>

record ResourceView =
  rv_kind :: ResourceType
  rv_id :: ustr
  rv_version_id :: "ustr option"

definition check_version_id :: "EventSpec \<Rightarrow> bool \<Rightarrow> (ustr \<times> Value) list \<Rightarrow> Rejection + ustr option" where
  "check_version_id spec relay m =
     (case map_of m (lit ''version_id'') of
        None \<Rightarrow> Inr None
      | Some version \<Rightarrow>
          if value_eq version (String NIL_UUID) \<and> relay \<and> es_client_chosen_version_id spec
          then reject NilClientId ''data.resource.version_id''
          else and_then (ok_or (rejection_at InvalidResource (lit ''data.resource''))
                 (filter_opt is_uuid (as_str version))) (\<lambda>v. Inr (Some v)))"

definition version_ok_for :: "VersionRequirement \<Rightarrow> ustr option \<Rightarrow> bool" where
  "version_ok_for requirement version_id = (case requirement of
     VersionRequired \<Rightarrow> version_id \<noteq> None | VersionForbidden \<Rightarrow> version_id = None | VersionOptional \<Rightarrow> True)"

definition check_resource :: "EventSpec \<Rightarrow> Origin \<Rightarrow> Value \<Rightarrow> Rejection + ResourceView" where
  "check_resource spec path v =
     (let invalid = rejection_at InvalidResource (lit ''data.resource'') in
      and_then (ok_or invalid (as_object v)) (\<lambda>m.
        if check_keys m (map lit [''id'', ''type'']) (map lit [''version_id'']) \<noteq> Exact then Inl invalid
        else
      and_then (ok_or invalid (filter_opt (allows_resource spec)
          (Option.bind (as_str (at_key m ''type'')) resource_parse))) (\<lambda>kind.
      and_then (ok_or invalid (as_str (at_key m ''id''))) (\<lambda>id.
        let relay = (path = Relay) in
        if id = NIL_UUID \<and> \<not> es_nil_resource_allowed spec \<and> relay
           \<and> kind \<in> set (es_client_chosen_resource_ids spec)
        then reject NilClientId ''data.resource.id''
        else if \<not> (if kind = AuditStoreResource then id = AUDIT_STORE_RESOURCE_ID
                   else is_uuid id \<or> (es_nil_resource_allowed spec \<and> id = NIL_UUID))
        then Inl invalid
        else
      and_then (check_version_id spec relay m) (\<lambda>version_id.
        if \<not> version_ok_for (es_version_required spec) version_id then Inl invalid
        else Inr \<lparr>rv_kind = kind, rv_id = id, rv_version_id = version_id\<rparr>)))))"

definition check_detail :: "audit_lib \<Rightarrow> Origin \<Rightarrow> (ustr \<times> Value) list \<Rightarrow> ustr \<times> FieldSpec \<Rightarrow> Rejection + unit" where
  "check_detail L path details = (\<lambda>(name, field).
     (case map_of details name of
        None \<Rightarrow> Inr ()
      | Some value \<Rightarrow>
          if path = Relay \<and> fs_client_chosen field \<and> is_nil_client_id (fs_kind field) value
          then Inl (rejection_at NilClientId name)
          else if \<not> field_accepts L field value then Inl (rejection_at InvalidField name)
          else Inr ()))"

definition check_details :: "audit_lib \<Rightarrow> EventSpec \<Rightarrow> Origin \<Rightarrow> Value \<Rightarrow> Rejection + (ustr \<times> Value) list" where
  "check_details L spec path v =
     (case as_object v of
        None \<Rightarrow> reject InvalidField ''data.details''
      | Some details \<Rightarrow>
          if list_ex (\<lambda>key. \<not> is_detail_field spec key) (map fst details)
          then reject UnknownField ''data.details''
          else case find (\<lambda>name. \<not> contains_key details name) (detail_required spec) of
            Some missing \<Rightarrow> Inl (rejection_at MissingField missing)
          | None \<Rightarrow>
              and_then (each_res (check_detail L path details) (detail_fields spec)) (\<lambda>_. Inr details))"

definition check_correlation ::
  "EventSpec \<Rightarrow> AdapterSpec \<Rightarrow> (ustr \<times> Value) list \<Rightarrow> Value \<Rightarrow> Rejection + unit" where
  "check_correlation spec adapter details v =
     (case as_object v of
        None \<Rightarrow> reject InvalidCorrelation ''data.correlation''
      | Some correlation \<Rightarrow>
          if check_keys correlation [] CORRELATION_KEYS \<noteq> Exact
          then reject InvalidCorrelation ''data.correlation''
          else if \<not> option_value_eq (map_of correlation (lit ''operation_id''))
               (Option.bind (es_operation_id_field spec) (map_of details))
          then reject InvalidCorrelation ''data.correlation''
          else if \<not> option_value_eq (map_of correlation (lit ''publish_operation_id''))
               (Option.bind (es_publish_operation_id_field spec) (map_of details))
          then reject InvalidCorrelation ''data.correlation''
          else if is_some_and (\<lambda>id. \<not> is_some_and is_uuid (as_str id))
               (map_of correlation (lit ''source_correlation_id''))
          then reject InvalidSourceCorrelation ''data.correlation.source_correlation_id''
          else if is_some_and (\<lambda>trace. \<not> ad_trace_id adapter \<or> \<not> is_some_and is_w3c_trace_id (as_str trace))
               (map_of correlation (lit ''trace_id''))
          then reject InvalidCorrelation ''data.correlation.trace_id''
          else Inr ())"

definition binding_expected :: "ResourceView \<Rightarrow> BindingTarget \<Rightarrow> ustr option" where
  "binding_expected resource target = (case target of
     BindResourceId \<Rightarrow> Some (rv_id resource)
   | BindResourceVersionId \<Rightarrow> rv_version_id resource
   | BindResourceType \<Rightarrow> Some (lit (resource_as_str (rv_kind resource))))"

definition check_bound :: "ResourceView \<Rightarrow> (ustr \<times> Value) list \<Rightarrow> Binding \<Rightarrow> Rejection + unit" where
  "check_bound resource details b =
     (if Option.bind (map_of details (bi_field b)) as_str \<noteq> binding_expected resource (bi_equals b)
      then Inl (rejection_at InvalidField (bi_field b)) else Inr ())"

definition subject_matches :: "EventSpec \<Rightarrow> ResourceView \<Rightarrow> (ustr \<times> Value) list \<Rightarrow> ustr \<Rightarrow> bool" where
  "subject_matches spec resource details subject \<longleftrightarrow>
     is_bounded_text subject MAX_STRING_BYTES
     \<and> list_ex (\<lambda>shape. is_some_and (\<lambda>rendered. rendered = subject)
          (subject_render shape (rv_kind resource) (rv_id resource) (rv_version_id resource) details))
        (es_subjects spec)"

definition reason_matches :: "EventSpec \<Rightarrow> Value option \<Rightarrow> bool" where
  "reason_matches spec reason = (case (es_reason spec, reason) of
     (CallerText, Some summary) \<Rightarrow> is_reason_summary summary
   | (Absent, None) \<Rightarrow> True
   | _ \<Rightarrow> False)"

subsection \<open>Validation\<close>

text \<open>
  \<open>validate_with\<close> in its stages: size and attributes, the submission path, the catalog
  entry, and the payload.
\<close>

definition bounded_attribute :: "(ustr \<times> Value) list \<Rightarrow> string \<Rightarrow> Rejection + ustr" where
  "bounded_attribute envelope name =
     ok_or (rejection_at InvalidEnvelope (lit name))
       (filter_opt (\<lambda>text. text \<noteq> [] \<and> is_bounded_text text MAX_STRING_BYTES) (as_str (at_key envelope name)))"

definition check_attributes ::
  "audit_lib \<Rightarrow> Value \<Rightarrow> Rejection + ((ustr \<times> Value) list \<times> ustr \<times> ustr \<times> (ustr \<times> Value) list)" where
  "check_attributes L value =
     (if JSONB_TEXT_LIMIT < jsonb_text_len value then Inl (rejection_new EnvelopeTooLarge)
      else case as_object value of
        None \<Rightarrow> Inl (rejection_new InvalidEnvelope)
      | Some envelope \<Rightarrow>
          if check_keys envelope ATTRIBUTES [] \<noteq> Exact then Inl (rejection_new InvalidEnvelope)
          else if \<not> value_eq (at_key envelope ''specversion'') (String SPECVERSION)
          then reject InvalidEnvelope ''specversion''
          else if \<not> value_eq (at_key envelope ''datacontenttype'') (String DATACONTENTTYPE)
          then reject InvalidEnvelope ''datacontenttype''
          else if \<not> value_eq (at_key envelope ''dataschema'') (String DATASCHEMA)
          then reject InvalidEnvelope ''dataschema''
          else if \<not> is_some_and is_uuid (as_str (at_key envelope ''id'')) then reject InvalidEnvelope ''id''
          else if \<not> is_some_and (is_utc_timestamp L) (as_str (at_key envelope ''time''))
          then reject InvalidEnvelope ''time''
          else
        and_then (bounded_attribute envelope ''type'') (\<lambda>event_type.
        and_then (bounded_attribute envelope ''source'') (\<lambda>source.
          case as_object (at_key envelope ''data'') of
            None \<Rightarrow> reject InvalidEnvelope ''data''
          | Some data \<Rightarrow> Inr (envelope, event_type, source, data))))"

definition check_path :: "Origin \<Rightarrow> ustr \<Rightarrow> ustr \<Rightarrow> (ustr \<times> Value) list \<Rightarrow> Rejection + unit" where
  "check_path path event_type source data =
     (if path \<noteq> Relay then Inr ()
      else if is_control_type event_type then reject ControlTypeForbidden ''type''
      else if source = AUDIT_STORE_SOURCE \<or> source = AUDIT_RELAY_SOURCE
      then reject ControlTypeForbidden ''source''
      else if Option.bind (Option.bind (map_of data (lit ''resource'')) (\<lambda>r. get_member r (lit ''type''))) as_str
            = Some (lit (resource_as_str AuditStoreResource))
      then reject ControlTypeForbidden ''data.resource.type''
      else Inr ())"

definition find_spec :: "Catalog \<Rightarrow> Origin \<Rightarrow> ustr \<Rightarrow> ustr \<Rightarrow> Rejection + (EventSpec \<times> AdapterSpec)" where
  "find_spec catalog path event_type source =
     (case catalog_get catalog event_type of
        None \<Rightarrow> reject UnknownEventType ''type''
      | Some spec \<Rightarrow>
          if es_origin spec \<noteq> path then reject ControlTypeForbidden ''type''
          else if source \<noteq> es_source spec then reject InvalidSource ''source''
          else case catalog_adapter catalog (es_source spec) of
            None \<Rightarrow> reject InvalidSource ''source''
          | Some adapter \<Rightarrow> Inr (spec, adapter))"

definition check_header :: "EventSpec \<Rightarrow> ustr \<Rightarrow> (ustr \<times> Value) list \<Rightarrow> Rejection + unit" where
  "check_header spec event_type data =
     (case check_keys data DATA_REQUIRED DATA_OPTIONAL of
        Unknown \<Rightarrow> reject UnknownField ''data''
      | Missing name \<Rightarrow> Inl (rejection_at MissingField name)
      | Exact \<Rightarrow>
          if as_i64 (at_key data ''schema_version'') \<noteq> Some SCHEMA_VERSION
          then reject InvalidEnvelope ''data.schema_version''
          else if \<not> value_eq (at_key data ''action'') (String event_type) then reject InvalidEnvelope ''data.action''
          else if \<not> value_eq (at_key data ''event_class'') (String (lit (class_as_str (es_event_class spec))))
          then reject InvalidEnvelope ''data.event_class''
          else if \<not> is_principal (at_key data ''actor'') then reject InvalidActor ''data.actor''
          else if is_some_and (\<lambda>executor. es_service_executor_field spec = None \<or> \<not> is_principal executor)
               (map_of data (lit ''service_executor''))
          then reject InvalidServiceExecutor ''data.service_executor''
          else Inr ())"

definition check_payload ::
  "audit_lib \<Rightarrow> EventSpec \<Rightarrow> AdapterSpec \<Rightarrow> Origin \<Rightarrow> (ustr \<times> Value) list \<Rightarrow> (ustr \<times> Value) list \<Rightarrow> Rejection + unit" where
  "check_payload L spec adapter path envelope data =
     and_then (check_resource spec path (at_key data ''resource'')) (\<lambda>resource.
       if \<not> is_some_and (allows_result spec) (as_str (at_key data ''result''))
       then reject InvalidResult ''data.result''
       else
     and_then (check_details L spec path (at_key data ''details'')) (\<lambda>details.
       if path \<noteq> Relay \<and> \<not> is_db_role_actor_consistent (at_key data ''actor'') details
       then reject InvalidActor ''data.actor''
       else
     and_then (each_res (check_bound resource details) (es_bindings spec)) (\<lambda>_.
       if \<not> subject_matches spec resource details
            (case as_str (at_key envelope ''subject'') of Some s \<Rightarrow> s | None \<Rightarrow> [])
       then reject InvalidSubject ''subject''
       else if \<not> option_value_eq (map_of data (lit ''reason_code''))
            (Option.bind (es_reason_code_field spec) (map_of details))
       then reject InvalidField ''data.reason_code''
       else if \<not> reason_matches spec (map_of data (lit ''reason'')) then reject InvalidReason ''data.reason''
       else
     and_then (check_correlation spec adapter details (at_key data ''correlation'')) (\<lambda>_.
       if \<not> is_some_and (\<lambda>m. m = []) (as_object (at_key data ''extensions''))
       then reject InvalidExtensions ''data.extensions''
       else if \<not> is_provenance adapter (at_key data ''provenance'')
       then reject InvalidProvenance ''data.provenance''
       else Inr ()))))"

definition validate_with :: "audit_lib \<Rightarrow> Catalog \<Rightarrow> Value \<Rightarrow> Origin \<Rightarrow> Rejection + EventSpec" where
  "validate_with L catalog value path =
     and_then (check_attributes L value) (\<lambda>(envelope, event_type, source, data).
     and_then (check_path path event_type source data) (\<lambda>_.
     and_then (find_spec catalog path event_type source) (\<lambda>(spec, adapter).
     and_then (check_header spec event_type data) (\<lambda>_.
     and_then (check_payload L spec adapter path envelope data) (\<lambda>_.
       if \<not> strings_are_bounded value then Inl (rejection_new InvalidEnvelope) else Inr spec)))))"

subsection \<open>Envelopes\<close>

record AuditEnvelope =
  ae_value :: Value
  ae_id :: uuid
  ae_spec :: EventSpec
  ae_origin :: Origin

definition from_value :: "audit_lib \<Rightarrow> Catalog \<Rightarrow> Value \<Rightarrow> Origin \<Rightarrow> Rejection + AuditEnvelope" where
  "from_value L catalog value path =
     and_then (validate_with L catalog value path) (\<lambda>spec.
     and_then (ok_or (rejection_at InvalidEnvelope (lit ''id''))
         (Option.bind (as_str (index_member value (lit ''id''))) (parse_uuid L))) (\<lambda>id.
       Inr \<lparr>ae_value = canonicalize value, ae_id = id, ae_spec = spec, ae_origin = path\<rparr>))"

definition from_json :: "audit_lib \<Rightarrow> Catalog \<Rightarrow> ustr \<Rightarrow> Origin \<Rightarrow> Rejection + AuditEnvelope" where
  "from_json L catalog text path =
     and_then (parse_unique (tokens L) text) (\<lambda>value. from_value L catalog value path)"

definition envelope_attribute :: "AuditEnvelope \<Rightarrow> string \<Rightarrow> ustr" where
  "envelope_attribute e name =
     (case as_str (index_member (ae_value e) (lit name)) of Some s \<Rightarrow> s | None \<Rightarrow> [])"

definition envelope_data :: "AuditEnvelope \<Rightarrow> Value" where
  "envelope_data e = index_member (ae_value e) (lit ''data'')"

definition validate_envelope :: "audit_lib \<Rightarrow> Catalog \<Rightarrow> Value \<Rightarrow> Origin \<Rightarrow> Rejection + unit" where
  "validate_envelope L catalog value path = and_then (validate_with L catalog value path) (\<lambda>_. Inr ())"

end
