(* ===== verification/Audit_Export.thy ===== *)
theory Audit_Export
  imports Audit_Envelope
begin

text \<open>
  The hash chain and the offline verification of exports, \<open>chain.rs\<close> and \<open>export.rs\<close> of
  \<open>audit-core\<close>. Bytes are integers below 256 and a digest is a list of them. The
  typed reading of one export line is generated by \<open>serde\<close>: the argument \<open>read_line\<close>
  gives the members of the line and the text of its envelope as it stands.
\<close>

subsection \<open>The chain\<close>

definition GENESIS_PREIMAGE :: "int list" where "GENESIS_PREIMAGE = lit ''kp-audit-chain-genesis-v1''"
definition CHAIN_DOMAIN :: "int list" where "CHAIN_DOMAIN = lit ''kp-audit-chain-v1''"
definition EXPIRED_SET_DOMAIN :: "int list" where "EXPIRED_SET_DOMAIN = lit ''kp-audit-expired-set-v1''"

definition GENESIS :: "int list" where
  "GENESIS =
    [0x9a, 0xe4, 0xe1, 0xd7, 0x94, 0x2c, 0xe3, 0x18, 0x77, 0x0d, 0xe8, 0x97, 0xb2, 0xa3, 0x36, 0xed,
     0xc2, 0xa9, 0xe7, 0x00, 0xf8, 0x73, 0x3f, 0x65, 0x8d, 0xcd, 0xc2, 0xe5, 0x63, 0xaf, 0xf3, 0x44]"

text \<open>The low \<open>n\<close> bytes of an integer in two's complement, most significant first.\<close>

primrec be :: "nat \<Rightarrow> int \<Rightarrow> int list" where
  "be 0 x = []"
| "be (Suc n) x = be n (x div 256) @ [x mod 256]"

definition envelope_digest :: "audit_lib \<Rightarrow> ustr \<Rightarrow> int list" where
  "envelope_digest L text = sha256 L (as_bytes text)"

definition chain_next :: "audit_lib \<Rightarrow> int list \<Rightarrow> int \<Rightarrow> uuid \<Rightarrow> int list \<Rightarrow> int list" where
  "chain_next L prev seq event_id digest =
     sha256 L (CHAIN_DOMAIN @ prev @ be 8 seq @ be 16 event_id @ digest)"

definition expired_set_digest :: "audit_lib \<Rightarrow> int list \<Rightarrow> int list" where
  "expired_set_digest L seqs = sha256 L (EXPIRED_SET_DOMAIN @ concat (map (be 8) (sort seqs)))"

definition hex_digit :: "int \<Rightarrow> uchar" where
  "hex_digit n = (if n < 10 then 48 + n else 87 + n)"

definition to_hex :: "int list \<Rightarrow> ustr" where
  "to_hex bytes = concat (map (\<lambda>b. [hex_digit (b div 16), hex_digit (b mod 16)]) bytes)"

definition nibble :: "int \<Rightarrow> int" where
  "nibble b = (if ascii_digit b then b - 48 else b - 97 + 10)"

definition parse_hex32 :: "ustr \<Rightarrow> int list option" where
  "parse_hex32 text =
     (if \<not> is_hex_digest text then None
      else let bytes = as_bytes text in
        Some (map (\<lambda>i. nibble (bytes ! (2 * i)) * 16 + nibble (bytes ! (2 * i + 1))) [0..<32]))"

subsection \<open>Reports\<close>

definition RETENTION_EXPIRED :: ustr where "RETENTION_EXPIRED = lit ''audit.retention.expired''"
definition BODY_PURGED :: ustr where "BODY_PURGED = lit ''audit.body.purged''"
definition EPOCH_STARTED :: ustr where "EPOCH_STARTED = lit ''audit.recovery.epoch_started''"

record Checkpoint =
  cp_epoch :: int
  cp_seq :: int
  cp_chain :: "int list"

definition Checkpoint_GENESIS :: Checkpoint where
  "Checkpoint_GENESIS = \<lparr>cp_epoch = 1, cp_seq = 0, cp_chain = GENESIS\<rparr>"

datatype Anchor = AnchorGenesis | AnchorCheckpoint Checkpoint

primrec anchor_checkpoint :: "Anchor \<Rightarrow> Checkpoint" where
  "anchor_checkpoint AnchorGenesis = Checkpoint_GENESIS"
| "anchor_checkpoint (AnchorCheckpoint c) = c"

datatype RecoveryClassification = Restore | PlannedMove | Regression

primrec classification_as_str :: "RecoveryClassification \<Rightarrow> string" where
  "classification_as_str Restore = ''restore''"
| "classification_as_str PlannedMove = ''planned_move''"
| "classification_as_str Regression = ''regression''"

definition classification_parse :: "ustr \<Rightarrow> RecoveryClassification option" where
  "classification_parse value =
     find (\<lambda>c. lit (classification_as_str c) = value) [Restore, PlannedMove, Regression]"

record EpochAttestation =
  ea_restored_head_seq :: int
  ea_restored_head_chain :: "int list"
  ea_lost_from_seq :: int
  ea_lost_upper_seq :: int
  ea_lost_upper_known :: bool
  ea_classification :: RecoveryClassification

record EpochTransition =
  et_seq :: int
  et_old_epoch :: int
  et_new_epoch :: int
  et_attestation :: "EpochAttestation option"

record ExpiredRowEvidence =
  xr_seq :: int
  xr_evidence_seq :: int
  xr_verified :: bool

record ExportReport =
  er_anchored :: bool
  er_anchor :: "Checkpoint option"
  er_head :: Checkpoint
  er_rows :: int
  er_bodies :: int
  er_expired :: int
  er_unverified_expiry_evidence :: int
  er_unverified_restored_heads :: int
  er_epochs_authenticated :: bool
  er_chains :: "int list list"
  er_transitions :: "EpochTransition list"
  er_expiries :: "ExpiredRowEvidence list"

definition checked_sub_i64 :: "int \<Rightarrow> int \<Rightarrow> int option" where
  "checked_sub_i64 a b = (if i64_min \<le> a - b \<and> a - b \<le> i64_max then Some (a - b) else None)"

definition trusted_anchor :: "ExportReport \<Rightarrow> Checkpoint option" where
  "trusted_anchor r = filter_opt (\<lambda>_. er_anchored r) (er_anchor r)"

definition epoch_at :: "ExportReport \<Rightarrow> int \<Rightarrow> int option" where
  "epoch_at r seq = Option.bind (trusted_anchor r) (\<lambda>anchor.
     if seq < cp_seq anchor \<or> cp_seq (er_head r) < seq then None
     else Some (case find (\<lambda>t. et_seq t \<le> seq) (rev (er_transitions r)) of
        None \<Rightarrow> cp_epoch anchor | Some t \<Rightarrow> et_new_epoch t))"

definition chain_at :: "ExportReport \<Rightarrow> int \<Rightarrow> int list option" where
  "chain_at r seq = Option.bind (trusted_anchor r) (\<lambda>anchor.
     if seq = cp_seq anchor then Some (cp_chain anchor)
     else Option.bind (checked_sub_i64 seq (cp_seq anchor)) (\<lambda>d.
       Option.bind (checked_sub_i64 d 1) (\<lambda>index.
         if 0 \<le> index \<and> nat index < length (er_chains r) then Some (er_chains r ! nat index) else None)))"

datatype ExportError =
    Malformed int
  | SeqGap int int int
  | BrokenLink int
  | ChainMismatch int
  | DigestMismatch int
  | EventIdMismatch int
  | BodyState int
  | OriginMismatch int
  | ExpiryOnControlEvent int
  | ExpiryEvidenceMissing int
  | ExpiryEvidenceMismatch int
  | EpochRegressed int
  | EpochSkipped int
  | UnattestedEpochChange int
  | EpochStartedWithoutTransition int
  | WatermarkMismatch int int

subsection \<open>Lines\<close>

datatype Mode = Bodies | IdentityChain

definition LINE_KEYS :: "ustr list" where
  "LINE_KEYS = map lit [''chain'', ''envelope'', ''envelope_digest'', ''event_id'', ''expired'',
     ''expired_by_seq'', ''origin'', ''prev_chain'', ''recovery_epoch'', ''seq'']"

record RawLine =
  rl_seq :: int
  rl_event_id :: ustr
  rl_origin :: ustr
  rl_envelope_digest :: ustr
  rl_prev_chain :: ustr
  rl_chain :: ustr
  rl_recovery_epoch :: int
  rl_expired :: bool
  rl_expired_by_seq :: "int option"
  rl_envelope :: "ustr option"

datatype Evidence =
    Retention "int option" "int option option" "int option option" "int list option"
  | Purge "int option" "uuid option"
  | EpochStarted "int option" "int option" "int option" "int list option" "int option" "int option"
      "bool option" "RecoveryClassification option"

record Body =
  bo_text :: ustr
  bo_id :: "ustr option"
  bo_event_type :: "ustr option"
  bo_source :: "ustr option"
  bo_evidence :: "Evidence option"

record Line =
  ln_seq :: int
  ln_event_id :: uuid
  ln_origin :: Origin
  ln_digest :: "int list"
  ln_prev_chain :: "int list"
  ln_chain :: "int list"
  ln_epoch :: int
  ln_expired_by_seq :: "int option"
  ln_body :: "Body option"

definition nullable_int :: "Value option \<Rightarrow> int option option" where
  "nullable_int v = (case v of None \<Rightarrow> None | Some Null \<Rightarrow> Some None | Some other \<Rightarrow> map_option Some (as_i64 other))"

definition hex :: "Value option \<Rightarrow> int list option" where
  "hex v = Option.bind (Option.bind v as_str) parse_hex32"

definition evidence :: "audit_lib \<Rightarrow> ustr \<Rightarrow> Value \<Rightarrow> Evidence option" where
  "evidence L event_type details =
     (let get = (\<lambda>name. get_member details (lit name)); int_of = (\<lambda>name. Option.bind (get name) as_i64) in
      if event_type = RETENTION_EXPIRED then
        Some (Retention (int_of ''count'') (nullable_int (get ''first_seq''))
          (nullable_int (get ''last_seq'')) (hex (get ''expired_set_digest'')))
      else if event_type = BODY_PURGED then
        Some (Purge (int_of ''target_seq'')
          (Option.bind (filter_opt is_uuid (Option.bind (get ''target_event_id'') as_str)) (parse_uuid L)))
      else if event_type = EPOCH_STARTED then
        Some (EpochStarted (int_of ''old_epoch'') (int_of ''new_epoch'') (int_of ''restored_head_seq'')
          (hex (get ''restored_head_chain'')) (int_of ''lost_from_seq'') (int_of ''lost_upper_seq'')
          (Option.bind (get ''lost_upper_known'') as_bool)
          (Option.bind (Option.bind (get ''classification'') as_str) classification_parse))
      else None)"

text \<open>The body of a line: absent when null, refused when it is neither null nor an object.\<close>

definition parse_body :: "audit_lib \<Rightarrow> Value \<Rightarrow> ustr option \<Rightarrow> Body option option" where
  "parse_body L envelope raw_envelope =
     (case (envelope, raw_envelope) of
        (Null, _) \<Rightarrow> Some None
      | (Object m, Some raw_body) \<Rightarrow>
          let text_of = (\<lambda>name. Option.bind (map_of m (lit name)) as_str); event_type = text_of ''type'' in
          Some (Some \<lparr>bo_text = raw_body, bo_id = text_of ''id'', bo_event_type = event_type,
            bo_source = text_of ''source'',
            bo_evidence = Option.bind event_type (\<lambda>t.
              Option.bind (Option.bind (map_of m (lit ''data'')) (\<lambda>d. get_member d (lit ''details''))) (evidence L t))\<rparr>)
      | _ \<Rightarrow> None)"

definition parse_line :: "audit_lib \<Rightarrow> (ustr \<Rightarrow> RawLine option) \<Rightarrow> ustr \<Rightarrow> Line option" where
  "parse_line L read_line text =
     Option.bind (ok_opt (parse_unique (tokens L) text)) (\<lambda>value.
     Option.bind (as_object value) (\<lambda>m.
       if length m \<noteq> length LINE_KEYS \<or> \<not> list_all (contains_key m) LINE_KEYS then None
       else
     Option.bind (read_line text) (\<lambda>raw.
     Option.bind (origin_parse (rl_origin raw)) (\<lambda>origin.
       if rl_seq raw < 1 \<or> rl_recovery_epoch raw < 1 \<or> \<not> is_uuid (rl_event_id raw)
          \<or> rl_expired raw \<noteq> (rl_expired_by_seq raw \<noteq> None)
       then None
       else
     Option.bind (parse_body L (at_key m ''envelope'') (rl_envelope raw)) (\<lambda>body.
     Option.bind (parse_uuid L (rl_event_id raw)) (\<lambda>event_id.
     Option.bind (parse_hex32 (rl_envelope_digest raw)) (\<lambda>digest.
     Option.bind (parse_hex32 (rl_prev_chain raw)) (\<lambda>prev_chain.
     Option.bind (parse_hex32 (rl_chain raw)) (\<lambda>chain.
       Some \<lparr>ln_seq = rl_seq raw, ln_event_id = event_id, ln_origin = origin, ln_digest = digest,
         ln_prev_chain = prev_chain, ln_chain = chain, ln_epoch = rl_recovery_epoch raw,
         ln_expired_by_seq = rl_expired_by_seq raw, ln_body = body\<rparr>)))))))))"

definition origin_matches :: "Catalog \<Rightarrow> Origin \<Rightarrow> Body \<Rightarrow> bool" where
  "origin_matches catalog origin body =
     (case (bo_event_type body, bo_source body) of
        (Some event_type, Some source) \<Rightarrow>
          (case catalog_get catalog event_type of
             Some spec \<Rightarrow> es_origin spec = origin \<and> es_source spec = source
           | None \<Rightarrow>
               let control = is_control_type event_type in
               (case origin of
                  Store \<Rightarrow> control \<and> source = AUDIT_STORE_SOURCE
                | RelayControl \<Rightarrow> control \<and> source = AUDIT_RELAY_SOURCE
                | Relay \<Rightarrow> \<not> control \<and> source \<noteq> AUDIT_STORE_SOURCE \<and> source \<noteq> AUDIT_RELAY_SOURCE))
      | _ \<Rightarrow> False)"

text \<open>A final line feed ends the last line; the empty text has no line.\<close>

definition split_lines :: "ustr \<Rightarrow> ustr list" where
  "split_lines text =
     (if text = [] then []
      else split_on (\<lambda>c. c = 10) (if last text = 10 then butlast text else text))"

subsection \<open>Expiry bookkeeping\<close>

record PendingExpiry =
  pe_seq :: int
  pe_event_id :: uuid
  pe_line :: int

record ExpiryLedger =
  xl_by_evidence :: "(int \<times> PendingExpiry list) list"
  xl_evidence :: "(int \<times> (int \<times> Evidence)) list"

text \<open>\<open>BTreeMap::insert\<close> and \<open>entry(k).or_default().push(v)\<close> on key-sorted lists.\<close>

fun btree_insert :: "int \<Rightarrow> 'v \<Rightarrow> (int \<times> 'v) list \<Rightarrow> (int \<times> 'v) list" where
  "btree_insert k v [] = [(k, v)]"
| "btree_insert k v ((j, w) # m) =
     (if k < j then (k, v) # (j, w) # m else if k = j then (k, v) # m else (j, w) # btree_insert k v m)"

definition btree_push :: "int \<Rightarrow> 'v \<Rightarrow> (int \<times> 'v list) list \<Rightarrow> (int \<times> 'v list) list" where
  "btree_push k v m = btree_insert k ((case map_of m k of Some vs \<Rightarrow> vs | None \<Rightarrow> []) @ [v]) m"

definition expired_rows_of :: "int \<Rightarrow> bool \<Rightarrow> PendingExpiry list \<Rightarrow> ExpiredRowEvidence list" where
  "expired_rows_of evidence_seq verified rows =
     map (\<lambda>row. \<lparr>xr_seq = pe_seq row, xr_evidence_seq = evidence_seq, xr_verified = verified\<rparr>) rows"

definition ledger_unverified :: "ExpiryLedger \<Rightarrow> ExpiredRowEvidence list" where
  "ledger_unverified ledger =
     sort_key xr_seq (concat (map (\<lambda>(seq, rows). expired_rows_of seq False rows) (xl_by_evidence ledger)))"

text \<open>The first loop of \<open>settle\<close>: evidence past the head is not verified, any other must be there.\<close>

definition settle_missing :: "ExpiryLedger \<Rightarrow> int \<Rightarrow> int \<times> PendingExpiry list \<Rightarrow> ExportError + ExpiredRowEvidence list" where
  "settle_missing ledger head_seq = (\<lambda>(evidence_seq, rows).
     if head_seq < evidence_seq then Inr (expired_rows_of evidence_seq False rows)
     else if map_of (xl_evidence ledger) evidence_seq = None
     then Inl (ExpiryEvidenceMissing (case rows of [] \<Rightarrow> 0 | row # _ \<Rightarrow> pe_line row))
     else Inr [])"

definition within :: "int option \<Rightarrow> int option \<Rightarrow> int \<Rightarrow> bool" where
  "within first_seq last_seq seq \<longleftrightarrow> is_some_and (\<lambda>f. f \<le> seq) first_seq \<and> is_some_and (\<lambda>l. seq \<le> l) last_seq"

definition settle_retention ::
  "audit_lib \<Rightarrow> int \<Rightarrow> int \<Rightarrow> int \<Rightarrow> int \<Rightarrow> int option \<Rightarrow> int option \<Rightarrow> int list \<Rightarrow> PendingExpiry list
     \<Rightarrow> ExportError + ExpiredRowEvidence list" where
  "settle_retention L anchor_seq line evidence_seq n first_seq last_seq digest rows =
     (let seqs = map pe_seq rows in
      if is_some_and (\<lambda>f. f \<le> anchor_seq) first_seq then
        (if 0 \<le> n \<and> int (length seqs) \<le> n \<and> list_all (within first_seq last_seq) seqs
         then Inr (expired_rows_of evidence_seq False rows)
         else Inl (ExpiryEvidenceMismatch line))
      else if 0 \<le> n \<and> int (length seqs) = n
         \<and> first_seq = (case seqs of [] \<Rightarrow> None | s # _ \<Rightarrow> Some s)
         \<and> last_seq = (if seqs = [] then None else Some (last seqs))
         \<and> expired_set_digest L seqs = digest
      then Inr (expired_rows_of evidence_seq True rows)
      else Inl (ExpiryEvidenceMismatch line))"

definition settle_evidence ::
  "audit_lib \<Rightarrow> ExpiryLedger \<Rightarrow> int \<Rightarrow> int \<times> (int \<times> Evidence) \<Rightarrow> ExportError + ExpiredRowEvidence list" where
  "settle_evidence L ledger anchor_seq = (\<lambda>(evidence_seq, line, ev).
     (let rows = (case map_of (xl_by_evidence ledger) evidence_seq of Some rows \<Rightarrow> rows | None \<Rightarrow> []) in
      case ev of
        Retention (Some n) (Some first_seq) (Some last_seq) (Some digest) \<Rightarrow>
          settle_retention L anchor_seq line evidence_seq n first_seq last_seq digest rows
      | Retention _ _ _ _ \<Rightarrow> Inl (ExpiryEvidenceMismatch line)
      | Purge None _ \<Rightarrow> Inl (ExpiryEvidenceMismatch line)
      | Purge (Some target_seq) target_event_id \<Rightarrow>
          if (if target_seq \<le> anchor_seq then rows = []
              else case rows of [row] \<Rightarrow> pe_seq row = target_seq \<and> Some (pe_event_id row) = target_event_id
                 | _ \<Rightarrow> False)
          then Inr (expired_rows_of evidence_seq True rows)
          else Inl (ExpiryEvidenceMismatch line)
      | EpochStarted _ _ _ _ _ _ _ _ \<Rightarrow> Inr []))"

definition ledger_settle ::
  "audit_lib \<Rightarrow> int \<Rightarrow> int \<Rightarrow> ExpiryLedger \<Rightarrow> ExportError + ExpiredRowEvidence list" where
  "ledger_settle L anchor_seq head_seq ledger =
     and_then (map_res (settle_missing ledger head_seq) (xl_by_evidence ledger)) (\<lambda>pending.
     and_then (map_res (settle_evidence L ledger anchor_seq) (xl_evidence ledger)) (\<lambda>settled.
       Inr (sort_key xr_seq (concat pending @ concat settled))))"

subsection \<open>Verification\<close>

definition attest_transition :: "Line \<Rightarrow> int \<Rightarrow> ExportReport \<Rightarrow> EpochAttestation option" where
  "attest_transition line old_epoch report =
     Option.bind (ln_body line) (\<lambda>body.
       case bo_evidence body of
         Some (EpochStarted (Some recorded_old) (Some recorded_new) (Some restored_seq) (Some restored_chain)
             (Some lost_from) (Some lost_upper) (Some lost_upper_known) (Some classification)) \<Rightarrow>
           if ln_origin line = Store \<and> bo_event_type body = Some EPOCH_STARTED
              \<and> recorded_old = old_epoch \<and> recorded_new = ln_epoch line
              \<and> 0 \<le> restored_seq \<and> restored_seq < ln_seq line
              \<and> checked_add_i64 restored_seq 1 = Some lost_from \<and> restored_seq \<le> lost_upper
              \<and> is_none_or (\<lambda>chain. chain = restored_chain) (chain_at report restored_seq)
           then Some \<lparr>ea_restored_head_seq = restored_seq, ea_restored_head_chain = restored_chain,
                  ea_lost_from_seq = lost_from, ea_lost_upper_seq = lost_upper,
                  ea_lost_upper_known = lost_upper_known, ea_classification = classification\<rparr>
           else None
       | _ \<Rightarrow> None)"

definition is_epoch_started :: "Line \<Rightarrow> bool" where
  "is_epoch_started line \<longleftrightarrow> ln_origin line = Store
     \<and> is_some_and (\<lambda>body. bo_event_type body = Some EPOCH_STARTED) (ln_body line)"

record verify_state =
  vs_report :: ExportReport
  vs_head :: Checkpoint
  vs_ledger :: ExpiryLedger

text \<open>The position of a line after the head: \<open>Inr\<close> says whether the recovery epoch changes.\<close>

definition check_position :: "bool \<Rightarrow> int \<Rightarrow> Line \<Rightarrow> verify_state \<Rightarrow> ExportError + bool" where
  "check_position anchored number line s =
     (let head = vs_head s in
      and_then (ok_or (Malformed number) (checked_add_i64 (cp_seq head) 1)) (\<lambda>next_seq.
        if anchored then
          (if ln_seq line \<noteq> next_seq then Inl (SeqGap number next_seq (ln_seq line))
           else if ln_prev_chain line \<noteq> cp_chain head then Inl (BrokenLink number)
           else if ln_epoch line < cp_epoch head then Inl (EpochRegressed number)
           else if cp_epoch head < ln_epoch line then
             (if checked_add_i64 (cp_epoch head) 1 \<noteq> Some (ln_epoch line) then Inl (EpochSkipped number)
              else Inr True)
           else Inr False)
        else if 0 < er_rows (vs_report s) \<and> ln_seq line < next_seq
        then Inl (SeqGap number next_seq (ln_seq line))
        else Inr False))"

definition check_expiry :: "int option \<Rightarrow> int \<Rightarrow> Line \<Rightarrow> ExportError + unit" where
  "check_expiry watermark number line =
     (case ln_expired_by_seq line of
        None \<Rightarrow> Inr ()
      | Some evidence_seq \<Rightarrow>
          if ln_origin line \<noteq> Relay then Inl (ExpiryOnControlEvent number)
          else if evidence_seq \<le> ln_seq line \<or> is_some_and (\<lambda>w. w < evidence_seq) watermark
          then Inl (ExpiryEvidenceMissing number)
          else Inr ())"

text \<open>Whether the line carries a verified body.\<close>

definition check_body :: "audit_lib \<Rightarrow> Catalog \<Rightarrow> Mode \<Rightarrow> int \<Rightarrow> Line \<Rightarrow> ExportError + bool" where
  "check_body L catalog mode number line =
     (case (mode, ln_expired_by_seq line, ln_body line) of
        (Bodies, None, Some body) \<Rightarrow>
          if envelope_digest L (bo_text body) \<noteq> ln_digest line then Inl (DigestMismatch number)
          else if bo_id body \<noteq> Some (uuid_string L (ln_event_id line)) then Inl (EventIdMismatch number)
          else if \<not> origin_matches catalog (ln_origin line) body then Inl (OriginMismatch number)
          else Inr True
      | (Bodies, Some _, None) \<Rightarrow> Inr False
      | (IdentityChain, _, None) \<Rightarrow> Inr False
      | _ \<Rightarrow> Inl (BodyState number))"

definition record_transition ::
  "Checkpoint option \<Rightarrow> Mode \<Rightarrow> int \<Rightarrow> Line \<Rightarrow> bool \<Rightarrow> Checkpoint \<Rightarrow> ExportReport \<Rightarrow> ExportError + ExportReport" where
  "record_transition anchor mode number line transition head report =
     (let attests = (anchor \<noteq> None \<and> mode = Bodies);
          changed = (\<lambda>attestation. \<lparr>et_seq = ln_seq line, et_old_epoch = cp_epoch head,
              et_new_epoch = ln_epoch line, et_attestation = attestation\<rparr>) in
      if transition then
        (if attests then
           and_then (ok_or (UnattestedEpochChange number) (attest_transition line (cp_epoch head) report)) (\<lambda>a.
             Inr (report\<lparr>er_unverified_restored_heads := er_unverified_restored_heads report
                    + (if is_some_and (\<lambda>c. ea_restored_head_seq a < cp_seq c) anchor then 1 else 0),
                  er_transitions := er_transitions report @ [changed (Some a)]\<rparr>))
         else Inr (report\<lparr>er_transitions := er_transitions report @ [changed None]\<rparr>))
      else if attests \<and> is_epoch_started line then Inl (EpochStartedWithoutTransition number)
      else Inr report)"

definition is_removal :: "Evidence \<Rightarrow> bool" where
  "is_removal ev = (case ev of EpochStarted _ _ _ _ _ _ _ _ \<Rightarrow> False | _ \<Rightarrow> True)"

definition record_expiry :: "int \<Rightarrow> Line \<Rightarrow> ExpiryLedger \<Rightarrow> ExpiryLedger" where
  "record_expiry number line ledger =
     (let ledger = (case ln_expired_by_seq line of
           None \<Rightarrow> ledger
         | Some evidence_seq \<Rightarrow> ledger\<lparr>xl_by_evidence := btree_push evidence_seq
             \<lparr>pe_seq = ln_seq line, pe_event_id = ln_event_id line, pe_line = number\<rparr> (xl_by_evidence ledger)\<rparr>) in
      case Option.bind (ln_body line) bo_evidence of
        Some ev \<Rightarrow> if ln_origin line = Store \<and> is_removal ev
          then ledger\<lparr>xl_evidence := btree_insert (ln_seq line) (number, ev) (xl_evidence ledger)\<rparr> else ledger
      | None \<Rightarrow> ledger)"

definition verify_line ::
  "audit_lib \<Rightarrow> Catalog \<Rightarrow> Checkpoint option \<Rightarrow> Mode \<Rightarrow> int option \<Rightarrow> int \<Rightarrow> Line \<Rightarrow> verify_state
     \<Rightarrow> ExportError + verify_state" where
  "verify_line L catalog anchor mode watermark number line s =
     and_then (check_position (anchor \<noteq> None) number line s) (\<lambda>transition.
       if chain_next L (ln_prev_chain line) (ln_seq line) (ln_event_id line) (ln_digest line) \<noteq> ln_chain line
       then Inl (ChainMismatch number)
       else
     and_then (check_expiry watermark number line) (\<lambda>_.
     and_then (check_body L catalog mode number line) (\<lambda>has_body.
       let report = (vs_report s)\<lparr>er_bodies := er_bodies (vs_report s) + (if has_body then 1 else 0)\<rparr> in
     and_then (record_transition anchor mode number line transition (vs_head s) report) (\<lambda>report.
       Inr \<lparr>vs_report = report\<lparr>er_expired := er_expired report + (if ln_expired_by_seq line \<noteq> None then 1 else 0),
              er_rows := er_rows report + 1,
              er_chains := (if anchor \<noteq> None then er_chains report @ [ln_chain line] else er_chains report)\<rparr>,
            vs_head = \<lparr>cp_epoch = ln_epoch line, cp_seq = ln_seq line, cp_chain = ln_chain line\<rparr>,
            vs_ledger = record_expiry number line (vs_ledger s)\<rparr>))))"

fun verify_lines ::
  "audit_lib \<Rightarrow> Catalog \<Rightarrow> (ustr \<Rightarrow> RawLine option) \<Rightarrow> Checkpoint option \<Rightarrow> Mode \<Rightarrow> int option \<Rightarrow> int
     \<Rightarrow> ustr list \<Rightarrow> verify_state \<Rightarrow> ExportError + verify_state" where
  "verify_lines L catalog read_line anchor mode watermark number [] s = Inr s"
| "verify_lines L catalog read_line anchor mode watermark number (t # ts) s =
     and_then (ok_or (Malformed number) (parse_line L read_line t)) (\<lambda>line.
     and_then (verify_line L catalog anchor mode watermark number line s) (\<lambda>s'.
       verify_lines L catalog read_line anchor mode watermark (number + 1) ts s'))"

definition initial_report :: "Checkpoint option \<Rightarrow> Mode \<Rightarrow> ExportReport" where
  "initial_report anchor mode =
     \<lparr>er_anchored = (anchor \<noteq> None), er_anchor = anchor,
      er_head = (case anchor of Some c \<Rightarrow> c | None \<Rightarrow> Checkpoint_GENESIS),
      er_rows = 0, er_bodies = 0, er_expired = 0, er_unverified_expiry_evidence = 0,
      er_unverified_restored_heads = 0, er_epochs_authenticated = (anchor \<noteq> None \<and> mode = Bodies),
      er_chains = [], er_transitions = [], er_expiries = []\<rparr>"

definition initial_state :: "Checkpoint option \<Rightarrow> Mode \<Rightarrow> verify_state" where
  "initial_state anchor mode =
     \<lparr>vs_report = initial_report anchor mode, vs_head = er_head (initial_report anchor mode),
      vs_ledger = \<lparr>xl_by_evidence = [], xl_evidence = []\<rparr>\<rparr>"

definition finish_report ::
  "audit_lib \<Rightarrow> Checkpoint option \<Rightarrow> Mode \<Rightarrow> int option \<Rightarrow> verify_state \<Rightarrow> ExportError + ExportReport" where
  "finish_report L anchor mode watermark s =
     (let head = vs_head s; report = (vs_report s)\<lparr>er_head := head\<rparr> in
      if is_some_and (\<lambda>w. cp_seq head \<noteq> w) watermark
      then Inl (WatermarkMismatch (the watermark) (cp_seq head))
      else and_then (case (anchor, mode) of
            (Some a, Bodies) \<Rightarrow> ledger_settle L (cp_seq a) (cp_seq head) (vs_ledger s)
          | _ \<Rightarrow> Inr (ledger_unverified (vs_ledger s))) (\<lambda>expiries.
        Inr (report\<lparr>er_expiries := expiries,
          er_unverified_expiry_evidence := int (length (filter (\<lambda>row. \<not> xr_verified row) expiries))\<rparr>)))"

definition verify ::
  "audit_lib \<Rightarrow> Catalog \<Rightarrow> (ustr \<Rightarrow> RawLine option) \<Rightarrow> Anchor option \<Rightarrow> Mode \<Rightarrow> int option \<Rightarrow> ustr
     \<Rightarrow> ExportError + ExportReport" where
  "verify L catalog read_line start mode watermark text =
     (let anchor = map_option anchor_checkpoint start in
      and_then (verify_lines L catalog read_line anchor mode watermark 1 (split_lines text)
          (initial_state anchor mode))
        (finish_report L anchor mode watermark))"

definition verify_export where
  "verify_export L catalog read_line text start = verify L catalog read_line (Some start) Bodies None text"

definition verify_export_complete where
  "verify_export_complete L catalog read_line text start watermark =
     verify L catalog read_line (Some start) Bodies (Some watermark) text"

definition verify_identity_chain where
  "verify_identity_chain L catalog read_line text start =
     verify L catalog read_line (Some start) IdentityChain None text"

definition verify_identity_chain_complete where
  "verify_identity_chain_complete L catalog read_line text start watermark =
     verify L catalog read_line (Some start) IdentityChain (Some watermark) text"

definition verify_export_subset where
  "verify_export_subset L catalog read_line text = verify L catalog read_line None Bodies None text"

end
