(* ===== verification/Audit_Recovery.thy ===== *)
theory Audit_Recovery
  imports Audit_Export
begin

text \<open>
  The offline verdict of \<open>export.rs\<close>: comparison of a verified export with checkpoints
  kept out of band, and with the operator's records of recoveries.
\<close>

record RecoveryRecord =
  rr_old_epoch :: int
  rr_new_epoch :: int
  rr_restored_head_seq :: int
  rr_restored_head_chain :: "int list"
  rr_lost_upper :: int
  rr_lost_upper_known :: bool

definition loses :: "RecoveryRecord \<Rightarrow> bool" where
  "loses r \<longleftrightarrow> \<not> rr_lost_upper_known r \<or> rr_restored_head_seq r < rr_lost_upper r"

definition covers :: "RecoveryRecord \<Rightarrow> int \<Rightarrow> bool" where
  "covers r seq \<longleftrightarrow> rr_restored_head_seq r < seq \<and> (\<not> rr_lost_upper_known r \<or> seq \<le> rr_lost_upper r)"

definition record_matches :: "RecoveryRecord \<Rightarrow> EpochTransition \<Rightarrow> ExportReport \<Rightarrow> bool" where
  "record_matches r transition report =
     (case checked_sub_i64 (et_seq transition) 1 of
        None \<Rightarrow> False
      | Some last_before \<Rightarrow>
          (rr_old_epoch r = et_old_epoch transition \<and> rr_new_epoch r = et_new_epoch transition
           \<and> 0 \<le> rr_restored_head_seq r \<and> rr_restored_head_seq r < et_seq transition
           \<and> last_before \<le> rr_lost_upper r)
          \<and> is_none_or (\<lambda>body. ea_restored_head_seq body = rr_restored_head_seq r
               \<and> ea_restored_head_chain body = rr_restored_head_chain r
               \<and> ea_lost_upper_seq body = rr_lost_upper r
               \<and> ea_lost_upper_known body = rr_lost_upper_known r
               \<and> (ea_classification body \<noteq> PlannedMove \<or> \<not> loses r)) (et_attestation transition)
          \<and> is_none_or (\<lambda>chain. chain = rr_restored_head_chain r) (chain_at report (rr_restored_head_seq r)))"

datatype ChainIntegrity = Intact | Broken ExportError | UnanchoredChain

definition integrity_of_report :: "ExportReport \<Rightarrow> ChainIntegrity" where
  "integrity_of_report r = (if er_anchored r then Intact else UnanchoredChain)"

definition integrity_of :: "ExportError + ExportReport \<Rightarrow> ChainIntegrity" where
  "integrity_of result = (case result of Inr report \<Rightarrow> integrity_of_report report | Inl e \<Rightarrow> Broken e)"

datatype ChainVerdict =
    Authentic
  | AuthenticThrough int
  | UnverifiedExpiry
  | NoCheckpoint
  | Lost
  | UnverifiedRecovery
  | Tampered
  | Unanchored

text \<open>The derived order: by variant in declaration order, then by the seq.\<close>

fun verdict_key :: "ChainVerdict \<Rightarrow> nat \<times> int" where
  "verdict_key Authentic = (0, 0)"
| "verdict_key (AuthenticThrough seq) = (1, seq)"
| "verdict_key UnverifiedExpiry = (2, 0)"
| "verdict_key NoCheckpoint = (3, 0)"
| "verdict_key Lost = (4, 0)"
| "verdict_key UnverifiedRecovery = (5, 0)"
| "verdict_key Tampered = (6, 0)"
| "verdict_key Unanchored = (7, 0)"

definition verdict_max :: "ChainVerdict \<Rightarrow> ChainVerdict \<Rightarrow> ChainVerdict" where
  "verdict_max a b = (if verdict_key a \<le> verdict_key b then b else a)"

datatype CheckpointComparison =
  Match | Mismatch | EpochMismatch | StoreBehind | Ahead | BeforeAnchor | UnanchoredReport

definition compare_checkpoint :: "ExportReport \<Rightarrow> Checkpoint \<Rightarrow> CheckpointComparison" where
  "compare_checkpoint report checkpoint =
     (case trusted_anchor report of
        None \<Rightarrow> UnanchoredReport
      | Some anchor \<Rightarrow>
          if cp_seq (er_head report) < cp_seq checkpoint then StoreBehind
          else if cp_seq checkpoint < cp_seq anchor then BeforeAnchor
          else if chain_at report (cp_seq checkpoint) = Some (cp_chain checkpoint) then
            (if epoch_at report (cp_seq checkpoint) \<noteq> Some (cp_epoch checkpoint) then EpochMismatch
             else if cp_seq checkpoint = cp_seq (er_head report) then Match
             else Ahead)
          else Mismatch)"

record EpochReview =
  ev_transition :: EpochTransition
  ev_record :: "RecoveryRecord option"
  ev_restored_head_verified :: bool

record CheckpointFinding =
  cf_checkpoint :: Checkpoint
  cf_comparison :: CheckpointComparison
  cf_verdict :: ChainVerdict
  cf_explained_by :: "RecoveryRecord option"

record RecoveryAssessment =
  as_verdict :: ChainVerdict
  as_authenticated_through :: "int option"
  as_epochs :: "EpochReview list"
  as_findings :: "CheckpointFinding list"
  as_unmatched_records :: "RecoveryRecord list"
  as_records_before_anchor :: "RecoveryRecord list"
  as_records_after_head :: "RecoveryRecord list"
  as_unconfirmed_expiries :: int

definition review_epoch :: "ExportReport \<Rightarrow> RecoveryRecord list \<Rightarrow> EpochTransition \<Rightarrow> EpochReview" where
  "review_epoch report records transition =
     (let found = find (\<lambda>r. record_matches r transition report) records;
          restored_head = (case found of
              Some r \<Rightarrow> Some (rr_restored_head_seq r, rr_restored_head_chain r)
            | None \<Rightarrow> map_option (\<lambda>a. (ea_restored_head_seq a, ea_restored_head_chain a)) (et_attestation transition))
      in \<lparr>ev_transition = transition, ev_record = found,
          ev_restored_head_verified =
            is_some_and (\<lambda>(seq, chain). chain_at report seq = Some chain) restored_head\<rparr>)"

definition epoch_verdict :: "EpochReview \<Rightarrow> ChainVerdict" where
  "epoch_verdict e = (case ev_record e of
     None \<Rightarrow> UnverifiedRecovery
   | Some r \<Rightarrow> if \<not> ev_restored_head_verified e then UnverifiedRecovery
       else if loses r then Lost else Authentic)"

text \<open>The loop of \<open>classify_difference\<close> over the recoveries after the checkpoint was taken.\<close>

fun classify_later :: "Checkpoint \<Rightarrow> EpochReview list \<Rightarrow> bool \<Rightarrow> ChainVerdict \<times> RecoveryRecord option" where
  "classify_later checkpoint [] disagrees = (if disagrees then UnverifiedRecovery else Tampered, None)"
| "classify_later checkpoint (e # es) disagrees =
     (case ev_record e of
        Some r \<Rightarrow>
          if cp_seq checkpoint \<le> rr_restored_head_seq r then (Tampered, None)
          else if covers r (cp_seq checkpoint) then (Lost, Some r)
          else classify_later checkpoint es True
      | None \<Rightarrow>
          classify_later checkpoint es (disagrees \<or> et_seq (ev_transition e) \<le> cp_seq checkpoint))"

definition classify_difference :: "Checkpoint \<Rightarrow> EpochReview list \<Rightarrow> ChainVerdict \<times> RecoveryRecord option" where
  "classify_difference checkpoint epochs =
     classify_later checkpoint (filter (\<lambda>e. cp_epoch checkpoint \<le> et_old_epoch (ev_transition e)) epochs) False"

definition checkpoint_finding :: "ExportReport \<Rightarrow> Checkpoint \<Rightarrow> EpochReview list \<Rightarrow> Checkpoint \<Rightarrow> CheckpointFinding" where
  "checkpoint_finding report anchor epochs checkpoint =
     (let comparison = compare_checkpoint report checkpoint;
          (verdict, explained_by) =
            (if cp_seq checkpoint = cp_seq anchor then (NoCheckpoint, None)
             else case comparison of
               Match \<Rightarrow> (Authentic, None)
             | Ahead \<Rightarrow> (AuthenticThrough (cp_seq checkpoint), None)
             | BeforeAnchor \<Rightarrow> (NoCheckpoint, None)
             | UnanchoredReport \<Rightarrow> (Unanchored, None)
             | EpochMismatch \<Rightarrow> (UnverifiedRecovery, None)
             | Mismatch \<Rightarrow> classify_difference checkpoint epochs
             | StoreBehind \<Rightarrow> classify_difference checkpoint epochs)
      in \<lparr>cf_checkpoint = checkpoint, cf_comparison = comparison, cf_verdict = verdict,
          cf_explained_by = explained_by\<rparr>)"

definition option_max :: "int option \<Rightarrow> int \<Rightarrow> int option" where
  "option_max a b = (case a of None \<Rightarrow> Some b | Some x \<Rightarrow> Some (max x b))"

definition apply_finding :: "Checkpoint \<Rightarrow> ChainVerdict \<times> int option \<Rightarrow> CheckpointFinding \<Rightarrow> ChainVerdict \<times> int option" where
  "apply_finding anchor = (\<lambda>(worst, through) f.
     if cp_seq (cf_checkpoint f) = cp_seq anchor then (worst, through)
     else case cf_comparison f of
       Match \<Rightarrow> (worst, option_max through (cp_seq (cf_checkpoint f)))
     | Ahead \<Rightarrow> (worst, option_max through (cp_seq (cf_checkpoint f)))
     | BeforeAnchor \<Rightarrow> (worst, through)
     | _ \<Rightarrow> (verdict_max worst (cf_verdict f), through))"

definition confirmed_verdict :: "ExportReport \<Rightarrow> int option \<Rightarrow> ChainVerdict" where
  "confirmed_verdict report through = (case through of
     None \<Rightarrow> NoCheckpoint
   | Some seq \<Rightarrow> if seq = cp_seq (er_head report) then Authentic else AuthenticThrough seq)"

definition unconfirmed :: "ExportReport \<Rightarrow> int option \<Rightarrow> int" where
  "unconfirmed report through = (case through of
     None \<Rightarrow> 0
   | Some t \<Rightarrow> int (length (filter (\<lambda>row. xr_seq row \<le> t \<and> (\<not> xr_verified row \<or> t < xr_evidence_seq row))
       (er_expiries report))))"

text \<open>The verdict of the recoveries alone, before the checkpoints are compared.\<close>

definition recoveries_verdict :: "EpochReview list \<Rightarrow> RecoveryRecord list \<Rightarrow> ChainVerdict" where
  "recoveries_verdict epochs unmatched =
     (let worst = foldl (\<lambda>w e. verdict_max w (epoch_verdict e)) Authentic epochs in
      if unmatched \<noteq> [] then verdict_max worst UnverifiedRecovery else worst)"

definition assess_recovery ::
  "ExportReport \<Rightarrow> Checkpoint list \<Rightarrow> RecoveryRecord list \<Rightarrow> RecoveryAssessment" where
  "assess_recovery report checkpoints records =
     (case trusted_anchor report of
        None \<Rightarrow> \<lparr>as_verdict = Unanchored, as_authenticated_through = None, as_epochs = [], as_findings = [],
          as_unmatched_records = records, as_records_before_anchor = [], as_records_after_head = [],
          as_unconfirmed_expiries = 0\<rparr>
      | Some anchor \<Rightarrow>
          let epochs = map (review_epoch report records) (er_transitions report);
              free = filter (\<lambda>r. \<not> list_ex (\<lambda>e. ev_record e = Some r) epochs) records;
              before = filter (\<lambda>r. rr_new_epoch r \<le> cp_epoch anchor) free;
              rest = filter (\<lambda>r. \<not> rr_new_epoch r \<le> cp_epoch anchor) free;
              after = filter (\<lambda>r. cp_epoch (er_head report) \<le> rr_old_epoch r) rest;
              unmatched = filter (\<lambda>r. \<not> cp_epoch (er_head report) \<le> rr_old_epoch r) rest;
              worst = recoveries_verdict epochs unmatched;
              findings = map (checkpoint_finding report anchor epochs) checkpoints;
              (worst, through) = foldl (apply_finding anchor) (worst, None) findings;
              worst = verdict_max worst (confirmed_verdict report through);
              unconfirmed_expiries = unconfirmed report through;
              worst = (if 0 < unconfirmed_expiries
                  \<or> (worst = Authentic \<and> 0 < er_unverified_expiry_evidence report)
                then verdict_max worst UnverifiedExpiry else worst)
          in \<lparr>as_verdict = worst, as_authenticated_through = through, as_epochs = epochs,
              as_findings = findings, as_unmatched_records = unmatched, as_records_before_anchor = before,
              as_records_after_head = after, as_unconfirmed_expiries = unconfirmed_expiries\<rparr>)"

end
