(* ===== verification/Audit_Tamper.thy ===== *)
theory Audit_Tamper
  imports Audit_Recovery
begin

text \<open>
  What a verified export establishes. A verified export is a list of rows linked from
  its anchor (\<open>linked\<close>); rows linked to the same chain value are the same rows unless
  SHA-256 maps two of the hashed byte strings to one digest; an expired row has its
  evidence in a complete export; and a verdict of authenticity needs a checkpoint at
  the head and documented recoveries without loss.
\<close>

subsection \<open>Byte strings\<close>

lemma length_be [simp]: "length (be n x) = n"
  by (induction n arbitrary: x) simp_all

lemma be_inject: "be n x = be n y \<Longrightarrow> 0 \<le> x \<Longrightarrow> x < 256 ^ n \<Longrightarrow> 0 \<le> y \<Longrightarrow> y < 256 ^ n \<Longrightarrow> x = y"
proof (induction n arbitrary: x y)
  case (Suc n)
  have range: "0 \<le> z div 256 \<and> z div 256 < 256 ^ n" if "0 \<le> z" "z < 256 ^ Suc n" for z :: int
  proof -
    have "z div 256 * 256 \<le> z" using div_mult_mod_eq [of z 256] pos_mod_sign [of 256 z] by linarith
    with that show ?thesis by simp
  qed
  from Suc.prems(1) have "be n (x div 256) = be n (y div 256)" "x mod 256 = y mod 256" by simp_all
  moreover from this(1) have "x div 256 = y div 256" using Suc.IH range Suc.prems by blast
  ultimately show ?case using div_mod_inj by blast
qed simp

subsection \<open>Linked rows\<close>

definition checkpoint_of :: "Line \<Rightarrow> Checkpoint" where
  "checkpoint_of l = \<lparr>cp_epoch = ln_epoch l, cp_seq = ln_seq l, cp_chain = ln_chain l\<rparr>"

definition follows :: "audit_lib \<Rightarrow> Checkpoint \<Rightarrow> Line \<Rightarrow> bool" where
  "follows L h l \<longleftrightarrow> ln_seq l = cp_seq h + 1 \<and> ln_prev_chain l = cp_chain h
     \<and> cp_epoch h \<le> ln_epoch l \<and> ln_epoch l \<le> cp_epoch h + 1
     \<and> ln_chain l = chain_next L (ln_prev_chain l) (ln_seq l) (ln_event_id l) (ln_digest l)
     \<and> is_none_or (\<lambda>b. envelope_digest L (bo_text b) = ln_digest l) (ln_body l)"

fun linked :: "audit_lib \<Rightarrow> Checkpoint \<Rightarrow> Line list \<Rightarrow> bool" where
  "linked L h [] \<longleftrightarrow> True"
| "linked L h (l # ls) \<longleftrightarrow> follows L h l \<and> linked L (checkpoint_of l) ls"

definition end_of :: "Checkpoint \<Rightarrow> Line list \<Rightarrow> Checkpoint" where
  "end_of h ls = (if ls = [] then h else checkpoint_of (last ls))"

lemma end_of_simps [simp]:
  "end_of h [] = h" "end_of h (l # ls) = end_of (checkpoint_of l) ls" "end_of h (ls @ [l]) = checkpoint_of l"
  by (simp_all add: end_of_def)

lemma linked_append: "linked L h (ls @ ms) \<longleftrightarrow> linked L h ls \<and> linked L (end_of h ls) ms"
  by (induction ls arbitrary: h) auto

lemma linked_seq: "linked L h ls \<Longrightarrow> cp_seq (end_of h ls) = cp_seq h + int (length ls)"
  by (induction ls arbitrary: h) (auto simp: follows_def checkpoint_of_def)

text \<open>The values a row is made of, and the byte strings its verification hashes.\<close>

definition row_ok :: "Line \<Rightarrow> bool" where
  "row_ok l \<longleftrightarrow> length (ln_prev_chain l) = 32 \<and> length (ln_digest l) = 32
     \<and> 0 \<le> ln_event_id l \<and> ln_event_id l < 2 ^ 128"

definition row_identity :: "Line \<Rightarrow> int \<times> uuid \<times> int list \<times> int list" where
  "row_identity l = (ln_seq l, ln_event_id l, ln_digest l, ln_chain l)"

definition same_body :: "Line \<Rightarrow> Line \<Rightarrow> bool" where
  "same_body l m \<longleftrightarrow> (\<forall>b c. ln_body l = Some b \<longrightarrow> ln_body m = Some c \<longrightarrow>
     as_bytes (bo_text b) = as_bytes (bo_text c))"

definition chain_input :: "Line \<Rightarrow> int list" where
  "chain_input l = CHAIN_DOMAIN @ ln_prev_chain l @ be 8 (ln_seq l) @ be 16 (ln_event_id l) @ ln_digest l"

definition hashed :: "Line list \<Rightarrow> int list set" where
  "hashed ls = chain_input ` set ls \<union> (\<lambda>b. as_bytes (bo_text b)) ` {b. \<exists>l\<in>set ls. ln_body l = Some b}"

lemma follows_hash: "follows L h l \<Longrightarrow> ln_chain l = sha256 L (chain_input l)"
  by (simp add: follows_def chain_next_def chain_input_def)

lemma chain_input_inject:
  assumes "chain_input l = chain_input m" and "row_ok l" and "row_ok m"
  shows "ln_prev_chain l = ln_prev_chain m \<and> ln_event_id l = ln_event_id m \<and> ln_digest l = ln_digest m"
proof -
  have "be 16 (ln_event_id l) = be 16 (ln_event_id m)"
    and "ln_prev_chain l = ln_prev_chain m" "ln_digest l = ln_digest m"
    using assms by (simp_all add: chain_input_def row_ok_def)
  then show ?thesis using be_inject [of 16 "ln_event_id l" "ln_event_id m"] assms(2,3)
    by (simp add: row_ok_def)
qed

lemma same_row:
  assumes "follows L h l" and "follows L g m" and "row_ok l" and "row_ok m"
    and "ln_chain l = ln_chain m" and "ln_seq l = ln_seq m"
    and "inj_on (sha256 L) (hashed [l] \<union> hashed [m])"
  shows "row_identity l = row_identity m \<and> same_body l m \<and> cp_chain h = cp_chain g"
proof -
  have "sha256 L (chain_input l) = sha256 L (chain_input m)"
    using follows_hash [OF assms(1)] follows_hash [OF assms(2)] assms(5) by simp
  moreover have "chain_input l \<in> hashed [l] \<union> hashed [m]" "chain_input m \<in> hashed [l] \<union> hashed [m]"
    by (simp_all add: hashed_def)
  ultimately have "chain_input l = chain_input m" by (rule inj_onD [OF assms(7)])
  note eqs = chain_input_inject [OF this assms(3,4)]
  have "as_bytes (bo_text b) = as_bytes (bo_text c)" if "ln_body l = Some b" "ln_body m = Some c" for b c
  proof (rule inj_onD [OF assms(7)])
    show "sha256 L (as_bytes (bo_text b)) = sha256 L (as_bytes (bo_text c))"
      using assms(1,2) that eqs by (simp add: follows_def envelope_digest_def)
  qed (use that in \<open>auto simp: hashed_def\<close>)
  with eqs assms(1,2,5,6) show ?thesis by (simp add: row_identity_def same_body_def follows_def)
qed

lemma hashed_append: "hashed (ls @ ms) = hashed ls \<union> hashed ms"
  by (auto simp: hashed_def)

lemma linked_unique:
  assumes "linked L h ls" and "linked L h ms" and "list_all row_ok ls" and "list_all row_ok ms"
    and "cp_chain (end_of h ls) = cp_chain (end_of h ms)" and "length ls = length ms"
    and "inj_on (sha256 L) (hashed ls \<union> hashed ms)"
  shows "map row_identity ls = map row_identity ms \<and> list_all2 same_body ls ms"
  using assms
proof (induction ls arbitrary: ms rule: rev_induct)
  case Nil
  then show ?case by simp
next
  case (snoc l ls)
  then obtain ns m where ms: "ms = ns @ [m]" and len: "length ns = length ls"
    by (cases ms rule: rev_cases) auto
  note link = snoc.prems(1,2) [unfolded ms linked_append linked.simps]
  have seq: "ln_seq l = ln_seq m"
    using linked_seq [of L h ls] linked_seq [of L h ns] link len by (simp add: follows_def)
  have inj: "inj_on (sha256 L) (hashed [l] \<union> hashed [m])" "inj_on (sha256 L) (hashed ls \<union> hashed ns)"
    using snoc.prems(7) unfolding ms hashed_append by (auto intro: inj_on_subset)
  have ok: "row_ok l" "row_ok m" using snoc.prems(3,4) ms by auto
  have "ln_chain l = ln_chain m" using snoc.prems(5) ms by (simp add: checkpoint_of_def)
  from same_row [OF _ _ ok this seq inj(1)] link
  have row: "row_identity l = row_identity m" "same_body l m"
    "cp_chain (end_of h ls) = cp_chain (end_of h ns)" by auto
  with snoc.IH [of ns] snoc.prems(3,4) link ms len inj(2) show ?case
    by (simp add: list_all2_append)
qed

subsection \<open>Verified exports are linked\<close>

lemma check_position_ok:
  assumes "check_position True number l s = Inr transition"
  shows "ln_seq l = cp_seq (vs_head s) + 1 \<and> ln_prev_chain l = cp_chain (vs_head s)
    \<and> ln_epoch l = cp_epoch (vs_head s) + (if transition then 1 else 0)"
  using assms unfolding check_position_def Let_def and_then_ok
  by (auto simp: ok_or_ok checked_add_i64_Some split: if_splits)

lemma check_body_ok:
  assumes "check_body L catalog mode number l = Inr has_body"
  shows "is_none_or (\<lambda>b. envelope_digest L (bo_text b) = ln_digest l) (ln_body l)"
    and "ln_body l = None \<longrightarrow> mode = IdentityChain \<or> ln_expired_by_seq l \<noteq> None"
  using assms unfolding check_body_def
  by (auto split: Mode.splits option.splits if_splits)

definition report_kept :: "ExportReport \<Rightarrow> ExportReport \<Rightarrow> bool" where
  "report_kept r r' \<longleftrightarrow> er_anchored r' = er_anchored r \<and> er_anchor r' = er_anchor r"

lemma record_transition_ok:
  assumes "record_transition anchor mode number l transition head r = Inr r'"
  shows "report_kept r r' \<and> er_chains r' = er_chains r \<and> er_rows r' = er_rows r"
  using assms unfolding record_transition_def Let_def report_kept_def
  by (auto simp: and_then_ok ok_or_ok split: if_splits)

lemma verify_line_ok:
  assumes "verify_line L catalog (Some a) mode watermark number l s = Inr s'"
  shows "follows L (vs_head s) l \<and> vs_head s' = checkpoint_of l
    \<and> vs_ledger s' = record_expiry number l (vs_ledger s)
    \<and> er_chains (vs_report s') = er_chains (vs_report s) @ [ln_chain l] \<and> report_kept (vs_report s) (vs_report s')"
proof -
  from assms obtain transition has_body r where
    pos: "check_position True number l s = Inr transition"
    and chain: "chain_next L (ln_prev_chain l) (ln_seq l) (ln_event_id l) (ln_digest l) = ln_chain l"
    and body: "check_body L catalog mode number l = Inr has_body"
    and trans: "record_transition (Some a) mode number l transition (vs_head s)
       ((vs_report s)\<lparr>er_bodies := er_bodies (vs_report s) + (if has_body then 1 else 0)\<rparr>) = Inr r"
    and s': "s' = \<lparr>vs_report = r\<lparr>er_expired := er_expired r + (if ln_expired_by_seq l \<noteq> None then 1 else 0),
              er_rows := er_rows r + 1, er_chains := er_chains r @ [ln_chain l]\<rparr>,
            vs_head = \<lparr>cp_epoch = ln_epoch l, cp_seq = ln_seq l, cp_chain = ln_chain l\<rparr>,
            vs_ledger = record_expiry number l (vs_ledger s)\<rparr>"
    unfolding verify_line_def Let_def and_then_ok if_err_ok by auto
  show ?thesis
    using check_position_ok [OF pos] check_body_ok [OF body] record_transition_ok [OF trans] chain
    by (auto simp: s' follows_def checkpoint_of_def report_kept_def)
qed

definition export_rows :: "audit_lib \<Rightarrow> (ustr \<Rightarrow> RawLine option) \<Rightarrow> ustr \<Rightarrow> Line list" where
  "export_rows L read_line text = List.map_filter (parse_line L read_line) (split_lines text)"

lemma verify_lines_linked:
  assumes "verify_lines L catalog read_line (Some a) mode watermark number ts s = Inr s'"
  shows "linked L (vs_head s) (List.map_filter (parse_line L read_line) ts)
    \<and> length (List.map_filter (parse_line L read_line) ts) = length ts
    \<and> vs_head s' = end_of (vs_head s) (List.map_filter (parse_line L read_line) ts)
    \<and> er_chains (vs_report s') = er_chains (vs_report s) @ map ln_chain (List.map_filter (parse_line L read_line) ts)
    \<and> report_kept (vs_report s) (vs_report s')"
  using assms
proof (induction ts arbitrary: number s)
  case Nil
  then show ?case by (simp add: List.map_filter_simps report_kept_def)
next
  case (Cons t ts)
  then obtain l s1 where l: "parse_line L read_line t = Some l"
    and line: "verify_line L catalog (Some a) mode watermark number l s = Inr s1"
    and rest: "verify_lines L catalog read_line (Some a) mode watermark (number + 1) ts s1 = Inr s'"
    by (auto simp: and_then_ok ok_or_ok)
  from verify_line_ok [OF line] Cons.IH [OF rest] show ?case
    by (auto simp: l List.map_filter_simps report_kept_def)
qed

lemma verify_anchored:
  assumes "verify L catalog read_line (Some start) mode watermark text = Inr r"
  shows "linked L (anchor_checkpoint start) (export_rows L read_line text)"
    and "er_head r = end_of (anchor_checkpoint start) (export_rows L read_line text)"
    and "er_chains r = map ln_chain (export_rows L read_line text)"
    and "trusted_anchor r = Some (anchor_checkpoint start)"
proof -
  from assms obtain s where
    run: "verify_lines L catalog read_line (Some (anchor_checkpoint start)) mode watermark 1 (split_lines text)
       (initial_state (Some (anchor_checkpoint start)) mode) = Inr s"
    and fin: "finish_report L (Some (anchor_checkpoint start)) mode watermark s = Inr r"
    by (auto simp: verify_def Let_def and_then_ok)
  from fin have "er_head r = vs_head s" "er_chains r = er_chains (vs_report s)"
    "er_anchored r = er_anchored (vs_report s)" "er_anchor r = er_anchor (vs_report s)"
    by (auto simp: finish_report_def Let_def and_then_ok split: if_splits)
  with verify_lines_linked [OF run, folded export_rows_def]
  show "linked L (anchor_checkpoint start) (export_rows L read_line text)"
    "er_head r = end_of (anchor_checkpoint start) (export_rows L read_line text)"
    "er_chains r = map ln_chain (export_rows L read_line text)"
    "trusted_anchor r = Some (anchor_checkpoint start)"
    by (simp_all add: initial_state_def initial_report_def report_kept_def trusted_anchor_def)
qed

lemma parse_hex32_length: "parse_hex32 s = Some d \<Longrightarrow> length d = 32"
  by (auto simp: parse_hex32_def Let_def split: if_splits)

lemma parse_line_ok:
  assumes "parse_line L read_line t = Some l"
  shows "length (ln_prev_chain l) = 32 \<and> length (ln_digest l) = 32 \<and> length (ln_chain l) = 32
    \<and> 1 \<le> ln_seq l \<and> 1 \<le> ln_epoch l \<and> (\<exists>s. parse_uuid L s = Some (ln_event_id l))"
  using assms unfolding parse_line_def
  by (auto simp: bind_eq_Some_conv dest: parse_hex32_length split: if_splits)

definition uuid_lib :: "audit_lib \<Rightarrow> bool" where
  "uuid_lib L \<longleftrightarrow> (\<forall>s u. parse_uuid L s = Some u \<longrightarrow> 0 \<le> u \<and> u < 2 ^ 128)"

lemma export_rows_ok: "uuid_lib L \<Longrightarrow> list_all row_ok (export_rows L read_line text)"
  unfolding list_all_iff export_rows_def uuid_lib_def
  by (auto simp: map_filter_simps_set row_ok_def dest!: parse_line_ok)

lemma chain_at_Some:
  assumes "chain_at r seq = Some c" and "trusted_anchor r = Some a"
  shows "seq = cp_seq a \<and> c = cp_chain a
    \<or> (\<exists>k<length (er_chains r). seq = cp_seq a + 1 + int k \<and> c = er_chains r ! k)"
proof (cases "seq = cp_seq a")
  case True
  with assms show ?thesis by (simp add: chain_at_def)
next
  case False
  with assms have "0 \<le> seq - cp_seq a - 1" "nat (seq - cp_seq a - 1) < length (er_chains r)"
    "c = er_chains r ! nat (seq - cp_seq a - 1)"
    by (auto simp: chain_at_def checked_sub_i64_def bind_eq_Some_conv split: if_splits)
  then show ?thesis by (intro disjI2 exI [of _ "nat (seq - cp_seq a - 1)"]) simp
qed

lemma compare_confirmed:
  assumes "compare_checkpoint r c = Match \<or> compare_checkpoint r c = Ahead" and "trusted_anchor r = Some a"
  shows "chain_at r (cp_seq c) = Some (cp_chain c) \<and> cp_seq a \<le> cp_seq c"
  using assms unfolding compare_checkpoint_def by (auto split: if_splits)

text \<open>
  (C17) A checkpoint authenticates the history before it. Take an export that verifies from a trusted
  anchor and a checkpoint, kept out of band, that it confirms; and take any rows linked from the same
  anchor to that checkpoint, for example the rows the store held when the checkpoint was taken. If
  SHA-256 gives different digests to the different byte strings hashed for either, the export begins
  with exactly those rows: the same positions, identifiers, digests and chain values, and the same
  body bytes wherever both carry one. No row before the checkpoint was removed, added, reordered or
  rewritten.
\<close>

theorem checkpoint_authenticates_history:
  assumes "verify L catalog read_line (Some start) mode watermark text = Inr r"
    and "compare_checkpoint r c = Match \<or> compare_checkpoint r c = Ahead"
    and "linked L (anchor_checkpoint start) hs" and "list_all row_ok hs"
    and "cp_seq (end_of (anchor_checkpoint start) hs) = cp_seq c"
    and "cp_chain (end_of (anchor_checkpoint start) hs) = cp_chain c"
    and "uuid_lib L" and "inj_on (sha256 L) (hashed (export_rows L read_line text) \<union> hashed hs)"
  shows "length hs \<le> length (export_rows L read_line text)
    \<and> map row_identity (take (length hs) (export_rows L read_line text)) = map row_identity hs
    \<and> list_all2 same_body (take (length hs) (export_rows L read_line text)) hs"
proof -
  let ?a = "anchor_checkpoint start" and ?rows = "export_rows L read_line text"
  note v = verify_anchored [OF assms(1)]
  note at = compare_confirmed [OF assms(2) v(4)]
  have n: "cp_seq c = cp_seq ?a + int (length hs)" using linked_seq [OF assms(3)] assms(5) by simp
  have len: "length hs \<le> length ?rows"
    and chain: "cp_chain (end_of ?a (take (length hs) ?rows)) = cp_chain c"
  proof -
    have "hs = [] \<or> (\<exists>k<length ?rows. length hs = Suc k \<and> cp_chain c = ln_chain (?rows ! k))"
      using chain_at_Some [OF conjunct1 [OF at] v(4)] n unfolding v(3) by force
    then consider "hs = []" | k where "length hs = Suc k" "k < length ?rows" "cp_chain c = ln_chain (?rows ! k)"
      by blast
    then have "length hs \<le> length ?rows \<and> cp_chain (end_of ?a (take (length hs) ?rows)) = cp_chain c"
      using assms(6) by cases (auto simp: take_Suc_conv_app_nth checkpoint_of_def)
    then show "length hs \<le> length ?rows" "cp_chain (end_of ?a (take (length hs) ?rows)) = cp_chain c" by simp_all
  qed
  have "linked L ?a (take (length hs) ?rows)"
    using v(1) linked_append [of L ?a "take (length hs) ?rows" "drop (length hs) ?rows"] by simp
  moreover have "list_all row_ok (take (length hs) ?rows)"
    using export_rows_ok [OF assms(7)] by (auto simp: list_all_iff dest: in_set_takeD)
  moreover have "hashed (take (length hs) ?rows) \<subseteq> hashed ?rows"
    using hashed_append [of "take (length hs) ?rows" "drop (length hs) ?rows"] by auto
  ultimately show ?thesis
    using linked_unique [of L ?a "take (length hs) ?rows" hs] assms(3,4,6,8) chain len
    by (auto intro: inj_on_subset)
qed

subsection \<open>The verdict\<close>

lemma verdict_max_authentic [simp]: "verdict_max a b = Authentic \<longleftrightarrow> a = Authentic \<and> b = Authentic"
  by (cases a; cases b) (auto simp: verdict_max_def)

lemma fold_verdict:
  "foldl (\<lambda>w e. verdict_max w (f e)) w es = Authentic \<longleftrightarrow> w = Authentic \<and> (\<forall>e\<in>set es. f e = Authentic)"
  by (induction es arbitrary: w) auto

lemma classify_not_authentic: "fst (classify_later c es d) \<noteq> Authentic"
  by (induction es arbitrary: d) (auto split: option.splits)

lemma epoch_verdict_authentic:
  assumes "epoch_verdict (review_epoch r records t) = Authentic"
  shows "\<exists>x\<in>set records. record_matches x t r \<and> \<not> loses x
    \<and> chain_at r (rr_restored_head_seq x) = Some (rr_restored_head_chain x)"
  using assms unfolding epoch_verdict_def review_epoch_def Let_def
  by (auto split: option.splits if_splits dest: find_Some_in)

definition confirms :: "Checkpoint \<Rightarrow> CheckpointFinding \<Rightarrow> bool" where
  "confirms a f \<longleftrightarrow> cp_seq (cf_checkpoint f) \<noteq> cp_seq a \<and> cf_comparison f \<in> {Match, Ahead}"

lemma fold_findings:
  assumes "foldl (apply_finding a) (w, through) fs = (Authentic, Some n)"
  shows "w = Authentic \<and> (through = Some n \<or> (\<exists>f\<in>set fs. confirms a f \<and> cp_seq (cf_checkpoint f) = n))
    \<and> (\<forall>f\<in>set fs. cp_seq (cf_checkpoint f) = cp_seq a \<or> cf_comparison f \<in> {Match, Ahead, BeforeAnchor}
         \<or> cf_verdict f = Authentic)"
  using assms
proof (induction fs arbitrary: w through)
  case (Cons f fs)
  obtain w1 t1 where step: "apply_finding a (w, through) f = (w1, t1)" by (cases "apply_finding a (w, through) f")
  with Cons have IH: "w1 = Authentic \<and> (t1 = Some n \<or> (\<exists>f\<in>set fs. confirms a f \<and> cp_seq (cf_checkpoint f) = n))
    \<and> (\<forall>f\<in>set fs. cp_seq (cf_checkpoint f) = cp_seq a \<or> cf_comparison f \<in> {Match, Ahead, BeforeAnchor}
         \<or> cf_verdict f = Authentic)" by simp
  have "w = Authentic \<and> (t1 = Some n \<longrightarrow> through = Some n \<or> confirms a f \<and> cp_seq (cf_checkpoint f) = n)
    \<and> (cp_seq (cf_checkpoint f) = cp_seq a \<or> cf_comparison f \<in> {Match, Ahead, BeforeAnchor} \<or> cf_verdict f = Authentic)"
    using step IH unfolding apply_finding_def confirms_def option_max_def
    by (auto split: if_splits CheckpointComparison.splits option.splits simp: max_def)
  with IH show ?case by auto
qed simp

text \<open>
  (C18) The verdict \<open>Authentic\<close> is earned. It is returned only when a checkpoint other than the anchor
  equals the head in position, chain value and epoch; no checkpoint behind the anchor's position
  disagrees with the export; every change of the recovery epoch is described by an operator's record
  that lost nothing and whose restored head lies on the verified path; and no expiry is unverified.
\<close>

theorem authentic_verdict_earned:
  assumes "as_verdict (assess_recovery r checkpoints records) = Authentic"
  shows "\<exists>a. trusted_anchor r = Some a
    \<and> (\<exists>c\<in>set checkpoints. compare_checkpoint r c = Match \<and> cp_seq c \<noteq> cp_seq a)
    \<and> (\<forall>c\<in>set checkpoints. cp_seq c = cp_seq a \<or> compare_checkpoint r c \<in> {Match, Ahead, BeforeAnchor})
    \<and> (\<forall>t\<in>set (er_transitions r). \<exists>x\<in>set records. record_matches x t r \<and> \<not> loses x
         \<and> chain_at r (rr_restored_head_seq x) = Some (rr_restored_head_chain x))
    \<and> er_unverified_expiry_evidence r \<le> 0
    \<and> (\<forall>row\<in>set (er_expiries r). xr_seq row \<le> cp_seq (er_head r) \<longrightarrow>
         xr_verified row \<and> xr_evidence_seq row \<le> cp_seq (er_head r))"
proof -
  from assms obtain a where a: "trusted_anchor r = Some a"
    by (cases "trusted_anchor r") (auto simp: assess_recovery_def)
  define epochs findings where "epochs = map (review_epoch r records) (er_transitions r)"
    and "findings = map (checkpoint_finding r a epochs) checkpoints"
  from assms obtain unmatched w through where
    f: "foldl (apply_finding a) (recoveries_verdict epochs unmatched, None) findings = (w, through)"
    and v: "(if 0 < unconfirmed r through
          \<or> (verdict_max w (confirmed_verdict r through) = Authentic \<and> 0 < er_unverified_expiry_evidence r)
        then verdict_max (verdict_max w (confirmed_verdict r through)) UnverifiedExpiry
        else verdict_max w (confirmed_verdict r through)) = Authentic"
    unfolding assess_recovery_def a option.case Let_def epochs_def [symmetric] findings_def [symmetric]
    by (auto split: prod.splits)
  from v have "w = Authentic" "confirmed_verdict r through = Authentic" "\<not> 0 < unconfirmed r through"
    "\<not> 0 < er_unverified_expiry_evidence r" by (auto split: if_splits)
  with f obtain n where fold: "foldl (apply_finding a) (recoveries_verdict epochs unmatched, None) findings = (Authentic, Some n)"
    and n: "n = cp_seq (er_head r)" and conf: "\<not> 0 < unconfirmed r (Some n)"
    and exp: "er_unverified_expiry_evidence r \<le> 0"
    by (auto simp: confirmed_verdict_def split: option.splits if_splits)
  note facts = fold_findings [OF fold]
  have find: "cf_checkpoint (checkpoint_finding r a epochs c) = c"
    "cf_comparison (checkpoint_finding r a epochs c) = compare_checkpoint r c" for c
    by (auto simp: checkpoint_finding_def Let_def split: prod.splits)
  have differ: "cf_verdict (checkpoint_finding r a epochs c) \<noteq> Authentic"
    if "cp_seq c \<noteq> cp_seq a" "compare_checkpoint r c \<notin> {Match, Ahead, BeforeAnchor}" for c
    using that classify_not_authentic
    by (auto simp: checkpoint_finding_def classify_difference_def Let_def
        split: prod.splits CheckpointComparison.splits) (metis fst_conv)+
  from facts obtain c where c: "c \<in> set checkpoints" "cp_seq c \<noteq> cp_seq a" "cp_seq c = n"
    "compare_checkpoint r c \<in> {Match, Ahead}"
    by (auto simp: findings_def confirms_def find)
  then have "compare_checkpoint r c = Match" by (auto simp: n compare_checkpoint_def a split: if_splits)
  moreover have "\<forall>c\<in>set checkpoints. cp_seq c = cp_seq a \<or> compare_checkpoint r c \<in> {Match, Ahead, BeforeAnchor}"
    using facts differ by (auto simp: findings_def find)
  moreover have "\<forall>t\<in>set (er_transitions r). \<exists>x\<in>set records. record_matches x t r \<and> \<not> loses x
         \<and> chain_at r (rr_restored_head_seq x) = Some (rr_restored_head_chain x)"
  proof -
    have "\<forall>e\<in>set epochs. epoch_verdict e = Authentic"
      using facts by (simp add: recoveries_verdict_def fold_verdict Let_def split: if_splits)
    then show ?thesis using epoch_verdict_authentic by (simp add: epochs_def)
  qed
  moreover have "\<forall>row\<in>set (er_expiries r). xr_seq row \<le> cp_seq (er_head r) \<longrightarrow>
         xr_verified row \<and> xr_evidence_seq row \<le> cp_seq (er_head r)"
    using conf by (auto simp: unconfirmed_def n filter_empty_conv)
  ultimately show ?thesis using a c exp by blast
qed

end
