(* ===== verification/Audit_Expiry.thy ===== *)
theory Audit_Expiry
  imports Audit_Tamper
begin

text \<open>
  Expired rows of a verified export: the ledger kept during verification groups them
  by the evidence they name, and a complete export that verifies accounts for every
  missing body.
\<close>

definition gone :: "Line list \<Rightarrow> int \<Rightarrow> Line list" where
  "gone ls e = filter (\<lambda>l. ln_expired_by_seq l = Some e) ls"

definition pending_of :: "ExpiryLedger \<Rightarrow> int \<Rightarrow> PendingExpiry list" where
  "pending_of ledger e = (case map_of (xl_by_evidence ledger) e of Some rows \<Rightarrow> rows | None \<Rightarrow> [])"

definition pending_key :: "PendingExpiry \<Rightarrow> int \<times> uuid" where
  "pending_key p = (pe_seq p, pe_event_id p)"

definition line_key :: "Line \<Rightarrow> int \<times> uuid" where
  "line_key l = (ln_seq l, ln_event_id l)"

definition removal_at :: "Line \<Rightarrow> Evidence \<Rightarrow> bool" where
  "removal_at m ev \<longleftrightarrow> ln_origin m = Store \<and> Option.bind (ln_body m) bo_evidence = Some ev \<and> is_removal ev"

definition ledger_ok :: "ExpiryLedger \<Rightarrow> Line list \<Rightarrow> bool" where
  "ledger_ok ledger ls \<longleftrightarrow>
     (\<forall>e. map pending_key (pending_of ledger e) = map line_key (gone ls e))
     \<and> (\<forall>e n ev. (e, n, ev) \<in> set (xl_evidence ledger) \<longrightarrow> (\<exists>m\<in>set ls. ln_seq m = e \<and> removal_at m ev))"

lemma map_of_btree_insert: "map_of (btree_insert k v m) j = (if j = k then Some v else map_of m j)"
  by (induction k v m rule: btree_insert.induct) auto

lemma set_btree_insert: "x \<in> set (btree_insert k v m) \<Longrightarrow> x = (k, v) \<or> x \<in> set m"
  by (induction k v m rule: btree_insert.induct) (auto split: if_splits)

lemma pending_push:
  "pending_of (ledger\<lparr>xl_by_evidence := btree_push k p (xl_by_evidence ledger)\<rparr>) e
     = pending_of ledger e @ (if e = k then [p] else [])"
  by (auto simp: pending_of_def btree_push_def map_of_btree_insert)

lemma pending_evidence [simp]: "pending_of (ledger\<lparr>xl_evidence := x\<rparr>) e = pending_of ledger e"
  by (simp add: pending_of_def)

lemma record_expiry_pending:
  "map pending_key (pending_of (record_expiry number l ledger) e)
     = map pending_key (pending_of ledger e) @ (if ln_expired_by_seq l = Some e then [line_key l] else [])"
  unfolding record_expiry_def Let_def
  by (auto simp: pending_push pending_key_def line_key_def split: option.splits)

lemma record_expiry_evidence:
  assumes "(e, n, ev) \<in> set (xl_evidence (record_expiry number l ledger))"
  shows "(e, n, ev) \<in> set (xl_evidence ledger) \<or> (e = ln_seq l \<and> removal_at l ev)"
  using assms unfolding record_expiry_def Let_def removal_at_def
  by (auto split: option.splits if_splits dest!: set_btree_insert)

lemma ledger_ok_step: "ledger_ok ledger ls \<Longrightarrow> ledger_ok (record_expiry number l ledger) (ls @ [l])"
  unfolding ledger_ok_def
  by (auto simp: record_expiry_pending gone_def dest!: record_expiry_evidence)

definition body_matches :: "audit_lib \<Rightarrow> Catalog \<Rightarrow> Line \<Rightarrow> bool" where
  "body_matches L catalog l = (case ln_body l of None \<Rightarrow> False
     | Some body \<Rightarrow> envelope_digest L (bo_text body) = ln_digest l
         \<and> bo_id body = Some (uuid_string L (ln_event_id l)) \<and> origin_matches catalog (ln_origin l) body)"

definition expiry_checked :: "audit_lib \<Rightarrow> Catalog \<Rightarrow> Mode \<Rightarrow> int option \<Rightarrow> Line \<Rightarrow> bool" where
  "expiry_checked L catalog mode watermark l \<longleftrightarrow>
     (mode = Bodies \<and> ln_expired_by_seq l = None \<longrightarrow> body_matches L catalog l)
     \<and> is_none_or (\<lambda>e. ln_origin l = Relay \<and> ln_body l = None \<and> ln_seq l < e
     \<and> is_none_or (\<lambda>w. e \<le> w) watermark) (ln_expired_by_seq l)"

lemma verify_line_expiry:
  assumes "verify_line L catalog (Some a) mode watermark number l s = Inr s'"
  shows "expiry_checked L catalog mode watermark l"
proof -
  from assms obtain has_body where "check_expiry watermark number l = Inr ()"
    and "check_body L catalog mode number l = Inr has_body"
    unfolding verify_line_def Let_def and_then_ok if_err_ok by auto
  then show ?thesis unfolding expiry_checked_def body_matches_def check_expiry_def check_body_def
    by (auto simp: is_none_or_iff is_some_and_iff split: option.splits if_splits Mode.splits)
qed

lemma verify_lines_ledger:
  assumes "verify_lines L catalog read_line (Some a) mode watermark number ts s = Inr s'"
    and "ledger_ok (vs_ledger s) ls"
  shows "ledger_ok (vs_ledger s') (ls @ List.map_filter (parse_line L read_line) ts)
    \<and> list_all (expiry_checked L catalog mode watermark) (List.map_filter (parse_line L read_line) ts)"
  using assms
proof (induction ts arbitrary: number s ls)
  case Nil
  then show ?case by (simp add: List.map_filter_simps)
next
  case (Cons t ts)
  then obtain l s1 where l: "parse_line L read_line t = Some l"
    and line: "verify_line L catalog (Some a) mode watermark number l s = Inr s1"
    and rest: "verify_lines L catalog read_line (Some a) mode watermark (number + 1) ts s1 = Inr s'"
    by (auto simp: and_then_ok ok_or_ok)
  have "ledger_ok (vs_ledger s1) (ls @ [l])"
    using ledger_ok_step [OF Cons.prems(2)] verify_line_ok [OF line] by simp
  from Cons.IH [OF rest this] verify_line_expiry [OF line] show ?case
    by (simp add: l List.map_filter_simps)
qed

text \<open>What the evidence of an expired row says about the rows it removed.\<close>

definition accounts_for :: "audit_lib \<Rightarrow> int \<Rightarrow> Line list \<Rightarrow> Line \<Rightarrow> Evidence \<Rightarrow> bool" where
  "accounts_for L anchor_seq removed l ev = (case ev of
     Retention (Some n) (Some f) (Some g) (Some d) \<Rightarrow>
       is_some_and (\<lambda>f. f \<le> anchor_seq) f \<and> int (length removed) \<le> n \<and> (\<forall>m\<in>set removed. within f g (ln_seq m))
       \<or> int (length removed) = n \<and> expired_set_digest L (map ln_seq removed) = d
   | Purge (Some t) (Some u) \<Rightarrow> t = ln_seq l \<and> u = ln_event_id l
   | _ \<Rightarrow> False)"

lemma settle_evidence_ok:
  assumes "settle_evidence L ledger anchor_seq (e, n, ev) = Inr xs"
    and "map pending_key (pending_of ledger e) = map line_key removed" and "l \<in> set removed" and "is_removal ev"
  shows "accounts_for L anchor_seq removed l ev"
proof -
  let ?rows = "pending_of ledger e"
  have seqs: "map pe_seq ?rows = map ln_seq removed" and len: "length ?rows = length removed"
    using arg_cong [OF assms(2), of "map fst"] arg_cong [OF assms(2), of length]
    by (simp_all add: pending_key_def line_key_def o_def)
  have ids: "removed = [l] \<and> pe_seq p = ln_seq l \<and> pe_event_id p = ln_event_id l" if "?rows = [p]" for p
    using that assms(2,3) len by (cases removed) (auto simp: pending_key_def line_key_def)
  show ?thesis
  proof (cases ev)
    case (Retention a b c d)
    then obtain n' f g d' where ev: "ev = Retention (Some n') (Some f) (Some g) (Some d')"
      and s: "settle_retention L anchor_seq n e n' f g d' ?rows = Inr xs"
      using assms(1) by (cases a; cases b; cases c; cases d) (auto simp: settle_evidence_def pending_of_def)
    have "set (map pe_seq ?rows) = ln_seq ` set removed" unfolding seqs by simp
    then have mem: "\<forall>m\<in>set removed. ln_seq m \<in> pe_seq ` set ?rows" by auto
    show ?thesis using s mem len unfolding settle_retention_def Let_def seqs
      by (auto simp: ev accounts_for_def list_all_iff split: if_splits)
  next
    case (Purge t u)
    with assms(1) obtain t' where t: "t = Some t'" by (cases t) (auto simp: settle_evidence_def)
    have "?rows \<noteq> []" using assms(2,3) by auto
    with assms(1) obtain p where p: "?rows = [p]" "pe_seq p = t'" "Some (pe_event_id p) = u"
      unfolding Purge t settle_evidence_def pending_of_def [symmetric] Let_def
      by (auto split: if_splits list.splits)
    with ids [OF p(1)] show ?thesis by (auto simp: Purge t accounts_for_def)
  next
    case EpochStarted
    with assms(4) show ?thesis by (simp add: is_removal_def)
  qed
qed

lemma expired_row_accounted:
  assumes "verify_export_complete L catalog read_line text start w = Inr r"
    and "l \<in> set (export_rows L read_line text)" and "ln_expired_by_seq l = Some e"
  shows "ln_origin l = Relay \<and> ln_body l = None \<and> ln_seq l < e
    \<and> (\<exists>m\<in>set (export_rows L read_line text). ln_seq m = e \<and> (\<exists>ev. removal_at m ev
        \<and> accounts_for L (cp_seq (anchor_checkpoint start)) (gone (export_rows L read_line text) e) l ev))"
proof -
  let ?rows = "export_rows L read_line text" and ?a = "anchor_checkpoint start"
  from assms(1) obtain s where
    run: "verify_lines L catalog read_line (Some ?a) Bodies (Some w) 1 (split_lines text) (initial_state (Some ?a) Bodies) = Inr s"
    and fin: "finish_report L (Some ?a) Bodies (Some w) s = Inr r"
    by (auto simp: verify_export_complete_def verify_def Let_def and_then_ok)
  have "ledger_ok (vs_ledger (initial_state (Some ?a) Bodies)) []"
    by (simp add: initial_state_def ledger_ok_def pending_of_def gone_def)
  from verify_lines_ledger [OF run this, folded export_rows_def]
  have ledger: "ledger_ok (vs_ledger s) ?rows" and checked: "expiry_checked L catalog Bodies (Some w) l"
    using assms(2) by (auto simp: list_all_iff)
  from fin obtain xs where settled: "ledger_settle L (cp_seq ?a) (cp_seq (vs_head s)) (vs_ledger s) = Inr xs"
    and head: "cp_seq (vs_head s) = w"
    by (auto simp: finish_report_def Let_def and_then_ok split: if_splits)
  have keys: "map pending_key (pending_of (vs_ledger s) e) = map line_key (gone ?rows e)"
    using ledger by (simp add: ledger_ok_def)
  have l: "l \<in> set (gone ?rows e)" using assms(2,3) by (simp add: gone_def)
  then have "pending_of (vs_ledger s) e \<noteq> []" using keys by auto
  then obtain rows where rows: "(e, rows) \<in> set (xl_by_evidence (vs_ledger s))"
    by (auto simp: pending_of_def split: option.splits dest: map_of_SomeD)
  from checked assms(3) have e: "ln_origin l = Relay" "ln_body l = None" "ln_seq l < e" "e \<le> w"
    by (auto simp: expiry_checked_def)
  from settled obtain ps qs where p: "list_all2 (\<lambda>x y. settle_missing (vs_ledger s) w x = Inr y)
        (xl_by_evidence (vs_ledger s)) ps"
    and q: "list_all2 (\<lambda>x y. settle_evidence L (vs_ledger s) (cp_seq ?a) x = Inr y) (xl_evidence (vs_ledger s)) qs"
    by (auto simp: ledger_settle_def and_then_ok map_res_ok head)
  from p rows obtain y where "settle_missing (vs_ledger s) w (e, rows) = Inr y"
    by (auto simp: list_all2_conv_all_nth in_set_conv_nth)
  with e(4) obtain n ev where "map_of (xl_evidence (vs_ledger s)) e = Some (n, ev)"
    by (auto simp: settle_missing_def split: if_splits)
  then have ev: "(e, n, ev) \<in> set (xl_evidence (vs_ledger s))" by (rule map_of_SomeD)
  with q obtain z where z: "settle_evidence L (vs_ledger s) (cp_seq ?a) (e, n, ev) = Inr z"
    by (auto simp: list_all2_conv_all_nth in_set_conv_nth)
  from ledger ev obtain m where m: "m \<in> set ?rows" "ln_seq m = e" "removal_at m ev"
    unfolding ledger_ok_def by blast
  with settle_evidence_ok [OF z keys l] e show ?thesis by (auto simp: removal_at_def)
qed

lemma kept_row_matches:
  assumes "verify_export_complete L catalog read_line text start w = Inr r"
    and "l \<in> set (export_rows L read_line text)" and "ln_expired_by_seq l = None"
  shows "body_matches L catalog l"
proof -
  let ?a = "anchor_checkpoint start"
  from assms(1) obtain s where
    run: "verify_lines L catalog read_line (Some ?a) Bodies (Some w) 1 (split_lines text) (initial_state (Some ?a) Bodies) = Inr s"
    by (auto simp: verify_export_complete_def verify_def Let_def and_then_ok)
  have "ledger_ok (vs_ledger (initial_state (Some ?a) Bodies)) []"
    by (simp add: initial_state_def ledger_ok_def pending_of_def gone_def)
  from verify_lines_ledger [OF run this, folded export_rows_def] assms(2,3) show ?thesis
    by (auto simp: list_all_iff expiry_checked_def)
qed

text \<open>
  (C19) A complete export accounts for every body. If the export of the store up to its watermark
  verifies, then each of its rows either has a body, whose digest, identifier and origin are those of
  the row, or it names the row that removed it: it is then a relay event, the row it names lies later
  in the same export, was written by the store itself, and records the removal: a purge of exactly
  this row, or a retention run whose count and set digest are those of the rows that name it (or whose
  set begins before the anchor and covers them).
\<close>

theorem complete_export_accounts_for_expiry:
  assumes "verify_export_complete L catalog read_line text start w = Inr r"
    and "l \<in> set (export_rows L read_line text)"
  shows "(ln_expired_by_seq l = None
      \<and> (\<exists>body. ln_body l = Some body \<and> envelope_digest L (bo_text body) = ln_digest l
          \<and> bo_id body = Some (uuid_string L (ln_event_id l)) \<and> origin_matches catalog (ln_origin l) body))
    \<or> (\<exists>e. ln_expired_by_seq l = Some e \<and> ln_body l = None \<and> ln_origin l = Relay \<and> ln_seq l < e
      \<and> (\<exists>m\<in>set (export_rows L read_line text). ln_seq m = e \<and> (\<exists>ev. removal_at m ev
          \<and> accounts_for L (cp_seq (anchor_checkpoint start)) (gone (export_rows L read_line text) e) l ev)))"
proof (cases "ln_expired_by_seq l")
  case None
  then show ?thesis using kept_row_matches [OF assms None] by (auto simp: body_matches_def split: option.splits)
next
  case (Some e)
  then show ?thesis using expired_row_accounted [OF assms Some] by blast
qed

end
