(* ===== verification/Audit_Legacy.thy ===== *)
theory Audit_Legacy
  imports Audit_Envelope
begin

text \<open>
  Projection of a Document staging row into an envelope, \<open>legacy.rs\<close> of \<open>audit-core\<close>.
  The claim function of the database has removed the reason text from \<open>data\<close>; the row
  carries its JSON type and its length only.
\<close>

definition LEGACY_ADAPTER_VERSION :: int where "LEGACY_ADAPTER_VERSION = 1"
definition LEGACY_SOURCE_FORMAT :: ustr where "LEGACY_SOURCE_FORMAT = lit ''document-audit-outbox-v0''"

record DocumentStagingProjection =
  sp_event_id :: ustr
  sp_event_type :: ustr
  sp_source :: ustr
  sp_subject :: ustr
  sp_actor_identity_provider :: ustr
  sp_actor_principal_id :: ustr
  sp_resource_type :: ustr
  sp_resource_id :: ustr
  sp_resource_version_id :: "ustr option"
  sp_result :: ustr
  sp_trace_id :: "ustr option"
  sp_occurred_at :: ustr
  sp_oversize :: bool
  sp_data :: "Value option"
  sp_data_kind :: ustr
  sp_reason_kind :: "ustr option"
  sp_reason_bytes :: "int option"
  sp_source_intact :: bool
  sp_source_commitment :: ustr
  sp_registration_kind :: ustr

text \<open>\<open>json!\<close> and \<open>Map::insert\<close> of a member that is not there yet.\<close>

definition text_value :: "ustr \<Rightarrow> Value" where "text_value s = String s"
definition int_value :: "int \<Rightarrow> Value" where "int_value n = Number (IntNumber n)"

definition put_member :: "string \<Rightarrow> Value \<Rightarrow> (ustr \<times> Value) list" where
  "put_member name v = [(lit name, v)]"

definition put_member_opt :: "string \<Rightarrow> Value option \<Rightarrow> (ustr \<times> Value) list" where
  "put_member_opt name v = (case v of None \<Rightarrow> [] | Some v \<Rightarrow> [(lit name, v)])"

definition admit_row :: "Catalog \<Rightarrow> DocumentStagingProjection \<Rightarrow> Rejection + ((ustr \<times> Value) list \<times> EventSpec)" where
  "admit_row catalog row =
     (if \<not> sp_source_intact row then Inl (rejection_new SourceDigestMismatch)
      else if sp_oversize row then Inl (rejection_new SourceRowTooLarge)
      else case Option.bind (sp_data row) as_object of
        None \<Rightarrow> reject InvalidField ''data''
      | Some data \<Rightarrow>
          if is_control_type (sp_event_type row) then reject ControlTypeForbidden ''event_type''
          else if sp_source row = AUDIT_STORE_SOURCE \<or> sp_source row = AUDIT_RELAY_SOURCE
          then reject ControlTypeForbidden ''source''
          else if sp_resource_type row = lit (resource_as_str AuditStoreResource)
          then reject ControlTypeForbidden ''resource_type''
          else case catalog_get catalog (sp_event_type row) of
            None \<Rightarrow> reject UnknownEventType ''event_type''
          | Some spec \<Rightarrow>
              if es_origin spec \<noteq> Relay then reject ControlTypeForbidden ''event_type''
              else Inr (data, spec))"

definition reason_summary :: "EventSpec \<Rightarrow> DocumentStagingProjection \<Rightarrow> Rejection + Value option" where
  "reason_summary spec row =
     (case es_reason spec of
        CallerText \<Rightarrow>
          (case (sp_reason_kind row, sp_reason_bytes row) of
             (None, _) \<Rightarrow> reject InvalidReason ''reason''
           | (Some kind, bytes) \<Rightarrow>
               if kind \<noteq> lit ''string'' then reject ReasonNotString ''reason''
               else (case bytes of
                   None \<Rightarrow> reject InvalidReason ''reason''
                 | Some n \<Rightarrow> if 0 \<le> n \<and> n \<le> MAX_REASON_UTF8_BYTES
                     then Inr (Some (Object (put_member ''provided'' (Bool True) @ put_member ''utf8_bytes'' (int_value n)
                            @ put_member ''text_retained'' (text_value REASON_TEXT_RETAINED))))
                     else reject InvalidReason ''reason''))
      | Absent \<Rightarrow>
          if sp_reason_kind row \<noteq> None \<or> sp_reason_bytes row \<noteq> None then reject UnknownField ''reason''
          else Inr None)"

definition check_duplicated_actor ::
  "audit_lib \<Rightarrow> EventSpec \<Rightarrow> DocumentStagingProjection \<Rightarrow> (ustr \<times> Value) list \<Rightarrow> Rejection + unit" where
  "check_duplicated_actor L spec row data =
     (case es_duplicated_actor_field spec of
        None \<Rightarrow> Inr ()
      | Some field \<Rightarrow>
          let actor = (case map_of data field of Some v \<Rightarrow> v | None \<Rightarrow> Null) in
          if \<not> kind_accepts L PrincipalKind [] actor then Inl (rejection_at InvalidActor field)
          else if \<not> value_eq (index_member actor (lit ''identityProvider'')) (String (sp_actor_identity_provider row))
             \<or> \<not> value_eq (index_member actor (lit ''principalId'')) (String (sp_actor_principal_id row))
          then Inl (rejection_at ActorMismatch field)
          else Inr ())"

definition service_executor ::
  "audit_lib \<Rightarrow> EventSpec \<Rightarrow> (ustr \<times> Value) list \<Rightarrow> Rejection + Value option" where
  "service_executor L spec data =
     (case Option.bind (es_service_executor_field spec) (\<lambda>field. map_option (Pair field) (map_of data field)) of
        None \<Rightarrow> Inr None
      | Some (field, executor) \<Rightarrow>
          if \<not> kind_accepts L PrincipalKind [] executor then Inl (rejection_at InvalidServiceExecutor field)
          else Inr (Some (Object (put_member ''issuer'' (index_member executor (lit ''identityProvider''))
                 @ put_member ''principal_id'' (index_member executor (lit ''principalId''))))))"

definition lifted :: "ustr option \<Rightarrow> (ustr \<times> Value) list \<Rightarrow> Value option" where
  "lifted field details = Option.bind field (map_of details)"

definition correlation_of ::
  "EventSpec \<Rightarrow> DocumentStagingProjection \<Rightarrow> (ustr \<times> Value) list \<Rightarrow> Rejection + (ustr \<times> Value) list" where
  "correlation_of spec row details =
     (let correlation = put_member_opt ''operation_id'' (lifted (es_operation_id_field spec) details)
        @ put_member_opt ''publish_operation_id'' (lifted (es_publish_operation_id_field spec) details) in
      case sp_trace_id row of
        None \<Rightarrow> Inr correlation
      | Some trace \<Rightarrow>
          if \<not> is_uuid trace then reject InvalidSourceCorrelation ''trace_id''
          else Inr (correlation @ put_member ''source_correlation_id'' (text_value trace)))"

definition payload_of ::
  "EventSpec \<Rightarrow> DocumentStagingProjection \<Rightarrow> Value option \<Rightarrow> Value option \<Rightarrow> (ustr \<times> Value) list
     \<Rightarrow> (ustr \<times> Value) list \<Rightarrow> (ustr \<times> Value) list" where
  "payload_of spec row executor reason correlation details =
     put_member ''schema_version'' (int_value SCHEMA_VERSION)
     @ put_member ''event_class'' (text_value (lit (class_as_str (es_event_class spec))))
     @ put_member ''action'' (text_value (sp_event_type row))
     @ put_member ''actor'' (Object (put_member ''issuer'' (text_value (sp_actor_identity_provider row))
          @ put_member ''principal_id'' (text_value (sp_actor_principal_id row))))
     @ put_member_opt ''service_executor'' executor
     @ put_member ''resource'' (Object (put_member ''type'' (text_value (sp_resource_type row))
          @ put_member ''id'' (text_value (sp_resource_id row))
          @ put_member_opt ''version_id'' (map_option text_value (sp_resource_version_id row))))
     @ put_member ''result'' (text_value (sp_result row))
     @ put_member_opt ''reason_code'' (lifted (es_reason_code_field spec) details)
     @ put_member_opt ''reason'' reason
     @ put_member ''correlation'' (Object correlation)
     @ put_member ''details'' (Object details)
     @ put_member ''extensions'' (Object [])
     @ put_member ''provenance'' (Object (put_member ''source_format'' (text_value LEGACY_SOURCE_FORMAT)
          @ put_member ''adapter_version'' (int_value LEGACY_ADAPTER_VERSION)
          @ put_member ''source_commitment'' (text_value (sp_source_commitment row))
          @ put_member ''registration'' (text_value (sp_registration_kind row))))"

definition envelope_of :: "DocumentStagingProjection \<Rightarrow> (ustr \<times> Value) list \<Rightarrow> Value" where
  "envelope_of row payload = Object
     (put_member ''specversion'' (text_value SPECVERSION) @ put_member ''id'' (text_value (sp_event_id row))
      @ put_member ''source'' (text_value (sp_source row)) @ put_member ''type'' (text_value (sp_event_type row))
      @ put_member ''subject'' (text_value (sp_subject row)) @ put_member ''time'' (text_value (sp_occurred_at row))
      @ put_member ''datacontenttype'' (text_value DATACONTENTTYPE) @ put_member ''dataschema'' (text_value DATASCHEMA)
      @ put_member ''data'' (Object payload))"

definition project :: "audit_lib \<Rightarrow> Catalog \<Rightarrow> DocumentStagingProjection \<Rightarrow> Rejection + AuditEnvelope" where
  "project L catalog row =
     and_then (admit_row catalog row) (\<lambda>(data, spec).
       if contains_key data (lit ''reason'') then reject UnknownField ''reason''
       else
     and_then (reason_summary spec row) (\<lambda>reason.
       if list_ex (\<lambda>key. \<not> contains_key (es_fields spec) key) (map fst data) then reject UnknownField ''data''
       else case find (\<lambda>name. \<not> contains_key data name) (es_required spec) of
         Some missing \<Rightarrow> Inl (rejection_at MissingField missing)
       | None \<Rightarrow>
     and_then (check_duplicated_actor L spec row data) (\<lambda>_.
     and_then (service_executor L spec data) (\<lambda>executor.
       let details = filter (\<lambda>(key, _). is_detail_field spec key) data in
     and_then (correlation_of spec row details) (\<lambda>correlation.
       from_value L catalog
         (envelope_of row (payload_of spec row executor reason correlation details)) Relay)))))"

end
