(* ===== verification/Audit_Port.thy ===== *)
theory Audit_Port
  imports Audit_Export Audit_Legacy
begin

text \<open>
  The port of the audit store, \<open>port.rs\<close> of \<open>audit-core\<close>: decoding of the rows the store
  returns, the two-way failure model (a terminal verdict or an outage), the
  classification of SQL errors, and the control events of the relay. \<open>catalog\<close> is the
  embedded catalog.
\<close>

subsection \<open>Failures\<close>

datatype OutageCode =
    Transport | Timeout | Connection | Resources | ReadOnly | Shutdown
  | Serialization | Deadlock | LockUnavailable | DeployMismatch | Internal | Other
  | OutcomeUnknown | RecoveryRequired | Regressed | PostureInvalid | UnregisteredType | Denied

definition OutageCode_ALL :: "OutageCode list" where
  "OutageCode_ALL = [Transport, Timeout, Connection, Resources, ReadOnly, Shutdown,
     Serialization, Deadlock, LockUnavailable, DeployMismatch, Internal, Other,
     OutcomeUnknown, RecoveryRequired, Regressed, PostureInvalid, UnregisteredType, Denied]"

primrec outage_as_str :: "OutageCode \<Rightarrow> string" where
  "outage_as_str Transport = ''store_transport''"
| "outage_as_str Timeout = ''store_timeout''"
| "outage_as_str Connection = ''store_connection''"
| "outage_as_str Resources = ''store_resources''"
| "outage_as_str ReadOnly = ''store_read_only''"
| "outage_as_str Shutdown = ''store_shutdown''"
| "outage_as_str Serialization = ''store_serialization''"
| "outage_as_str Deadlock = ''store_deadlock''"
| "outage_as_str LockUnavailable = ''store_lock_unavailable''"
| "outage_as_str DeployMismatch = ''store_deploy_mismatch''"
| "outage_as_str Internal = ''store_internal''"
| "outage_as_str Other = ''store_other''"
| "outage_as_str OutcomeUnknown = ''store_outcome_unknown''"
| "outage_as_str RecoveryRequired = ''store_recovery_required''"
| "outage_as_str Regressed = ''store_regressed''"
| "outage_as_str PostureInvalid = ''store_posture_invalid''"
| "outage_as_str UnregisteredType = ''store_unregistered_type''"
| "outage_as_str Denied = ''store_denied''"

definition outage_parse :: "ustr \<Rightarrow> OutageCode option" where
  "outage_parse value = find (\<lambda>code. lit (outage_as_str code) = value) OutageCode_ALL"

definition strip_prefix :: "ustr \<Rightarrow> ustr \<Rightarrow> ustr option" where
  "strip_prefix p s = (if has_prefix p s then Some (drop (length p) s) else None)"

definition parse_lenient :: "ustr \<Rightarrow> OutageCode option" where
  "parse_lenient value = find (\<lambda>code. let name = lit (outage_as_str code) in
     name = value \<or> strip_prefix (lit ''store_'') name = Some value) OutageCode_ALL"

definition counts_toward_outage_streak :: "OutageCode \<Rightarrow> bool" where
  "counts_toward_outage_streak code \<longleftrightarrow> code = Internal \<or> code = Other"


definition sqlstate_byte :: "int \<Rightarrow> bool" where
  "sqlstate_byte b \<longleftrightarrow> ascii_digit b \<or> ascii_upper b"

text \<open>After the first check the text is five ASCII characters, so characters are bytes.\<close>

definition classify_sqlstate :: "ustr \<Rightarrow> OutageCode" where
  "classify_sqlstate sqlstate =
     (let bytes = as_bytes sqlstate in
      if length bytes \<noteq> 5 \<or> \<not> list_all sqlstate_byte bytes then Other
      else if sqlstate = lit ''25006'' then ReadOnly
      else if sqlstate = lit ''57014'' then Timeout
      else if sqlstate = lit ''40001'' then Serialization
      else if sqlstate = lit ''40P01'' then Deadlock
      else if sqlstate = lit ''55P03'' then LockUnavailable
      else let kind = take 2 sqlstate in
        if kind = lit ''57'' \<and> bytes ! 2 = 80 then Shutdown
        else if kind = lit ''08'' then Connection
        else if kind = lit ''53'' then Resources
        else if kind = lit ''42'' then DeployMismatch
        else if kind = lit ''58'' \<or> kind = lit ''XX'' \<or> kind = lit ''54'' then Internal
        else Other)"

datatype StoreError = Outage OutageCode | Conflict | Rejected ustr

definition BoundedCode_new :: "ustr \<Rightarrow> ustr option" where
  "BoundedCode_new code = (if is_code code then Some code else None)"

definition is_terminal :: "StoreError \<Rightarrow> bool" where
  "is_terminal e = (case e of Outage _ \<Rightarrow> False | _ \<Rightarrow> True)"

definition outage_code :: "StoreError \<Rightarrow> OutageCode option" where
  "outage_code e = (case e of Outage code \<Rightarrow> Some code | _ \<Rightarrow> None)"

definition error_counts_toward_streak :: "StoreError \<Rightarrow> bool" where
  "error_counts_toward_streak e = (case e of Outage code \<Rightarrow> counts_toward_outage_streak code | _ \<Rightarrow> False)"

definition precheck_ingest :: "AuditEnvelope \<Rightarrow> StoreError + unit" where
  "precheck_ingest envelope =
     (if ae_origin envelope = Relay then Inr ()
      else Inl (Rejected (lit (rejection_as_str ControlTypeForbidden))))"

subsection \<open>Ingest rows\<close>

datatype IngestOutcome = Stored | Duplicate | DuplicateExpired | DuplicateReprojected

primrec outcome_as_str :: "IngestOutcome \<Rightarrow> string" where
  "outcome_as_str Stored = ''stored''"
| "outcome_as_str Duplicate = ''duplicate''"
| "outcome_as_str DuplicateExpired = ''duplicate_expired''"
| "outcome_as_str DuplicateReprojected = ''duplicate_reprojected''"

definition outcome_parse :: "ustr \<Rightarrow> IngestOutcome option" where
  "outcome_parse value = find (\<lambda>outcome. lit (outcome_as_str outcome) = value)
     [Stored, Duplicate, DuplicateExpired, DuplicateReprojected]"

record IngestReceipt =
  ir_seq :: int
  ir_envelope_digest :: "int list"
  ir_outcome :: IngestOutcome
  ir_adapter_version :: int

record IngestRow =
  iw_status :: ustr
  iw_seq :: "int option"
  iw_envelope_digest :: "int list option"
  iw_adapter_version :: "int option"
  iw_code :: "ustr option"

definition digest32 :: "int list \<Rightarrow> int list option" where
  "digest32 bytes = (if length bytes = 32 then Some bytes else None)"

definition receipt_columns :: "IngestRow \<Rightarrow> bool list" where
  "receipt_columns row = [iw_seq row \<noteq> None, iw_envelope_digest row \<noteq> None, iw_adapter_version row \<noteq> None]"

definition decode_receipt :: "IngestRow \<Rightarrow> IngestOutcome \<Rightarrow> IngestReceipt option" where
  "decode_receipt row outcome =
     (case (iw_seq row, iw_envelope_digest row, iw_adapter_version row) of
        (Some seq, Some digest, Some adapter_version) \<Rightarrow>
          if 1 \<le> seq \<and> 1 \<le> adapter_version
          then map_option (\<lambda>d. \<lparr>ir_seq = seq, ir_envelope_digest = d, ir_outcome = outcome,
                 ir_adapter_version = adapter_version\<rparr>) (digest32 digest)
          else None
      | _ \<Rightarrow> None)"

definition into_result :: "IngestRow \<Rightarrow> StoreError + IngestReceipt" where
  "into_result row =
     (case outcome_parse (iw_status row) of
        Some outcome \<Rightarrow>
          if iw_code row \<noteq> None then Inl (Outage Other)
          else ok_or (Outage Other) (decode_receipt row outcome)
      | None \<Rightarrow>
          let columns = receipt_columns row; none = (True \<notin> set columns);
              all_or_none = (list_all (\<lambda>c. c) columns \<or> none); status = iw_status row in
          if status = lit ''conflict'' \<and> all_or_none then Inl Conflict
          else if status \<in> lit ` {''rejected'', ''recovery_required'', ''outage'', ''denied'', ''conflict''} \<and> \<not> none
          then Inl (Outage Other)
          else if status = lit ''rejected'' then
            Inl (case Option.bind (iw_code row) BoundedCode_new of None \<Rightarrow> Outage Other | Some c \<Rightarrow> Rejected c)
          else if status = lit ''recovery_required'' then Inl (Outage RecoveryRequired)
          else if status = lit ''outage'' then
            Inl (Outage (case Option.bind (iw_code row) parse_lenient of None \<Rightarrow> Other | Some c \<Rightarrow> c))
          else if status = lit ''denied'' then Inl (Outage Denied)
          else Inl (Outage Other))"

subsection \<open>Receipts\<close>

definition EventTypeName_new :: "ustr \<Rightarrow> ustr option" where
  "EventTypeName_new name = (if is_event_type name then Some name else None)"

record ReceiptIdentity =
  ri_seq :: int
  ri_event_id :: uuid
  ri_envelope_digest :: "int list"

record ReceiptRow =
  rp_seq :: int
  rp_event_id :: uuid
  rp_origin :: Origin
  rp_event_type :: ustr
  rp_envelope_digest :: "int list"
  rp_source_commitment :: "int list option"
  rp_expired :: bool
  rp_recovery_epoch :: int

record RawReceiptRow =
  rw_seq :: int
  rw_event_id :: uuid
  rw_origin :: ustr
  rw_event_type :: ustr
  rw_envelope_digest :: "int list"
  rw_source_commitment :: "int list option"
  rw_expired :: bool
  rw_recovery_epoch :: int

definition receipt_identity :: "ReceiptRow \<Rightarrow> ReceiptIdentity" where
  "receipt_identity row = \<lparr>ri_seq = rp_seq row, ri_event_id = rp_event_id row,
     ri_envelope_digest = rp_envelope_digest row\<rparr>"

definition is_confirmed_by :: "ReceiptIdentity \<Rightarrow> ReceiptRow list \<Rightarrow> bool" where
  "is_confirmed_by identity rows = list_ex (\<lambda>row. receipt_identity row = identity) rows"

definition origin_matches_type :: "Catalog \<Rightarrow> Origin \<Rightarrow> ustr \<Rightarrow> bool" where
  "origin_matches_type catalog origin event_type \<longleftrightarrow>
     is_control_type event_type = (origin \<noteq> Relay)
     \<and> is_none_or (\<lambda>spec. es_origin spec = origin) (catalog_get catalog event_type)"

definition decode_receipt_row :: "Catalog \<Rightarrow> RawReceiptRow \<Rightarrow> StoreError + ReceiptRow" where
  "decode_receipt_row catalog raw =
     (let malformed = Outage Other in
      if rw_seq raw < 1 \<or> rw_recovery_epoch raw < 1 then Inl malformed
      else
      and_then (traverse_opt (\<lambda>bytes. ok_or malformed (digest32 bytes)) (rw_source_commitment raw)) (\<lambda>commitment.
      and_then (ok_or malformed (origin_parse (rw_origin raw))) (\<lambda>origin.
      and_then (ok_or malformed (EventTypeName_new (rw_event_type raw))) (\<lambda>event_type.
        if \<not> origin_matches_type catalog origin event_type
           \<or> (origin \<noteq> Relay \<and> (commitment \<noteq> None \<or> rw_expired raw))
        then Inl malformed
        else
      and_then (ok_or malformed (digest32 (rw_envelope_digest raw))) (\<lambda>digest.
        Inr \<lparr>rp_seq = rw_seq raw, rp_event_id = rw_event_id raw, rp_origin = origin,
          rp_event_type = event_type, rp_envelope_digest = digest, rp_source_commitment = commitment,
          rp_expired = rw_expired raw, rp_recovery_epoch = rw_recovery_epoch raw\<rparr>)))))"

subsection \<open>Control receipts\<close>

definition REPLAY_REQUESTED :: ustr where "REPLAY_REQUESTED = lit ''audit.delivery.replay_requested''"
definition RECONCILIATION_COMPLETED :: ustr where "RECONCILIATION_COMPLETED = lit ''audit.reconciliation.completed''"
definition SOURCE_MISMATCH_DETECTED :: ustr where
  "SOURCE_MISMATCH_DETECTED = lit ''audit.integrity.source_mismatch_detected''"

datatype ReconcileMode = ReadOnlyMode | Repair

primrec mode_as_str :: "ReconcileMode \<Rightarrow> string" where
  "mode_as_str ReadOnlyMode = ''read_only''"
| "mode_as_str Repair = ''repair''"

record ControlReceiptRow =
  ct_seq :: int
  ct_recovery_epoch :: int
  ct_origin :: Origin
  ct_event_type :: ustr
  ct_target_event_id :: "uuid option"
  ct_code :: "ustr option"

record RawControlReceiptRow =
  cw_seq :: int
  cw_recovery_epoch :: int
  cw_origin :: ustr
  cw_event_type :: ustr
  cw_target_event_id :: "uuid option"
  cw_code :: "ustr option"

definition control_consistent :: "ustr \<Rightarrow> uuid option \<Rightarrow> ustr option \<Rightarrow> bool" where
  "control_consistent event_type target code \<longleftrightarrow>
     (if event_type = REPLAY_REQUESTED \<or> event_type = SOURCE_MISMATCH_DETECTED
      then target \<noteq> None \<and> code \<noteq> None
      else if event_type = RECONCILIATION_COMPLETED
      then target = None \<and> is_some_and (\<lambda>code.
        list_ex (\<lambda>mode. lit (mode_as_str mode) = code) [ReadOnlyMode, Repair]) code
      else code = None)"

definition decode_control_receipt :: "Catalog \<Rightarrow> RawControlReceiptRow \<Rightarrow> StoreError + ControlReceiptRow" where
  "decode_control_receipt catalog raw =
     (let malformed = Outage Other in
      if cw_seq raw < 1 \<or> cw_recovery_epoch raw < 1 then Inl malformed
      else
      and_then (ok_or malformed (filter_opt (\<lambda>origin. origin \<noteq> Relay) (origin_parse (cw_origin raw)))) (\<lambda>origin.
      and_then (ok_or malformed (filter_opt (origin_matches_type catalog origin)
          (filter_opt is_control_type (EventTypeName_new (cw_event_type raw))))) (\<lambda>event_type.
      and_then (traverse_opt (\<lambda>code. ok_or malformed (BoundedCode_new code)) (cw_code raw)) (\<lambda>code.
        if \<not> control_consistent event_type (cw_target_event_id raw) code then Inl malformed
        else Inr \<lparr>ct_seq = cw_seq raw, ct_recovery_epoch = cw_recovery_epoch raw, ct_origin = origin,
          ct_event_type = event_type, ct_target_event_id = cw_target_event_id raw, ct_code = code\<rparr>))))"

subsection \<open>Probe and admission\<close>

record ProbeExpectation =
  px_source :: ustr
  px_adapter_version :: int
  px_types :: "ustr list"
  px_last_ack :: "ReceiptIdentity option"

definition expectation_from_catalog ::
  "Catalog \<Rightarrow> ustr \<Rightarrow> ReceiptIdentity option \<Rightarrow> ProbeExpectation option" where
  "expectation_from_catalog catalog source last_ack =
     (let registered = filter (\<lambda>(s, _, _). s = source) (registered_types catalog) in
      case registered of
        [] \<Rightarrow> None
      | (_, _, version) # _ \<Rightarrow>
          Some \<lparr>px_source = source, px_adapter_version = version,
            px_types = map (\<lambda>(_, t, _). t) registered, px_last_ack = last_ack\<rparr>)"

datatype StoreState = Operational | RecoveryMode | PostureInvalidState | ReadOnlyState

primrec state_outage_code :: "StoreState \<Rightarrow> OutageCode option" where
  "state_outage_code Operational = None"
| "state_outage_code RecoveryMode = Some RecoveryRequired"
| "state_outage_code PostureInvalidState = Some PostureInvalid"
| "state_outage_code ReadOnlyState = Some ReadOnly"

record StoreStatus =
  ss_head_seq :: int
  ss_recovery_epoch :: int
  ss_state :: StoreState
  ss_missing_types :: "ustr list"
  ss_regression_detected :: bool
  ss_last_verified_seq :: "int option"

definition admission :: "StoreStatus \<Rightarrow> OutageCode + unit" where
  "admission status = (case state_outage_code (ss_state status) of
     Some code \<Rightarrow> Inl code
   | None \<Rightarrow> if ss_regression_detected status then Inl Regressed
       else if ss_missing_types status \<noteq> [] then Inl UnregisteredType
       else Inr ())"

subsection \<open>Control events of the relay\<close>

datatype SourceMismatchCode = SourceDigestMismatchCode | ActorMismatchCode

primrec mismatch_rejection_code :: "SourceMismatchCode \<Rightarrow> RejectionCode" where
  "mismatch_rejection_code SourceDigestMismatchCode = SourceDigestMismatch"
| "mismatch_rejection_code ActorMismatchCode = ActorMismatch"

record ReconcileCounts =
  rk_ok :: int
  rk_delivered_missing :: int
  rk_digest_mismatch :: int
  rk_quarantined_stored :: int
  rk_quarantined_conflict :: int
  rk_pending :: int
  rk_quarantined :: int
  rk_unregistered :: int
  rk_source_tampered :: int
  rk_store_only :: int
  rk_unaudited_replay :: int
  rk_replay_record_lost :: int
  rk_relay_catalog_skew :: int
  rk_repaired_delivered_missing :: int
  rk_repaired_quarantined_stored :: int
  rk_repaired_unregistered :: int

definition counts_details :: "ReconcileCounts \<Rightarrow> (ustr \<times> Value) list" where
  "counts_details c = map (\<lambda>(name, n). (lit name, int_value n))
     [(''count_ok'', rk_ok c), (''count_delivered_missing'', rk_delivered_missing c),
      (''count_digest_mismatch'', rk_digest_mismatch c), (''count_quarantined_stored'', rk_quarantined_stored c),
      (''count_quarantined_conflict'', rk_quarantined_conflict c), (''count_pending'', rk_pending c),
      (''count_quarantined'', rk_quarantined c), (''count_unregistered'', rk_unregistered c),
      (''count_source_tampered'', rk_source_tampered c), (''count_store_only'', rk_store_only c),
      (''count_unaudited_replay'', rk_unaudited_replay c),
      (''count_replay_record_lost'', rk_replay_record_lost c),
      (''count_relay_catalog_skew'', rk_relay_catalog_skew c),
      (''repaired_delivered_missing'', rk_repaired_delivered_missing c),
      (''repaired_quarantined_stored'', rk_repaired_quarantined_stored c),
      (''repaired_unregistered'', rk_repaired_unregistered c)]"

datatype RelayControlKind =
    ReplayRequested uuid ustr
  | ReconciliationCompleted uuid ReconcileMode int "int list" ReconcileCounts
  | SourceMismatchDetected uuid SourceMismatchCode

primrec control_event_type :: "RelayControlKind \<Rightarrow> ustr" where
  "control_event_type (ReplayRequested _ _) = REPLAY_REQUESTED"
| "control_event_type (ReconciliationCompleted _ _ _ _ _) = RECONCILIATION_COMPLETED"
| "control_event_type (SourceMismatchDetected _ _) = SOURCE_MISMATCH_DETECTED"

primrec control_details :: "audit_lib \<Rightarrow> RelayControlKind \<Rightarrow> (ustr \<times> Value) list" where
  "control_details L (ReplayRequested event_id previous_code) =
     put_member ''event_id'' (text_value (uuid_string L event_id)) @ put_member ''quarantine_code'' (text_value previous_code)"
| "control_details L (ReconciliationCompleted run_id mode watermark id_set_digest counts) =
     counts_details counts @ put_member ''run_id'' (text_value (uuid_string L run_id))
     @ put_member ''mode'' (text_value (lit (mode_as_str mode))) @ put_member ''watermark'' (int_value watermark)
     @ put_member ''id_set_digest'' (text_value (to_hex id_set_digest))"
| "control_details L (SourceMismatchDetected event_id code) =
     put_member ''event_id'' (text_value (uuid_string L event_id))
     @ put_member ''mismatch_code'' (text_value (lit (rejection_as_str (mismatch_rejection_code code))))"

end
