(* ===== verification/Audit_Json_Props.thy ===== *)
theory Audit_Json_Props
  imports Audit_Json
begin

text \<open>
  What admission, measurement and canonical order of JSON guarantee: exactly the
  texts with unique member names and bounded nesting are admitted and nothing is
  lost from them; the loop over an explicit stack measures the rendering; the
  canonical order changes no member.
\<close>

subsection \<open>Admission\<close>

text \<open>A token tree with no error, with distinct keys in every map, its nesting, and its value.\<close>

fun raw_clean :: "RawJson \<Rightarrow> bool" where
  "raw_clean (RawFloat f) \<longleftrightarrow> f \<noteq> None"
| "raw_clean (RawSeq xs closed) \<longleftrightarrow> closed \<and> list_all raw_clean xs"
| "raw_clean (RawMap m closed) \<longleftrightarrow> closed \<and> list_all (\<lambda>(k, x). raw_clean x) m"
| "raw_clean RawError \<longleftrightarrow> False"
| "raw_clean _ \<longleftrightarrow> True"

fun raw_unique :: "RawJson \<Rightarrow> bool" where
  "raw_unique (RawSeq xs closed) \<longleftrightarrow> list_all raw_unique xs"
| "raw_unique (RawMap m closed) \<longleftrightarrow> distinct (map fst m) \<and> list_all (\<lambda>(k, x). raw_unique x) m"
| "raw_unique _ \<longleftrightarrow> True"

fun fits :: "nat \<Rightarrow> RawJson \<Rightarrow> bool" where
  "fits n (RawSeq xs closed) \<longleftrightarrow> 0 < n \<and> list_all (fits (n - 1)) xs"
| "fits n (RawMap m closed) \<longleftrightarrow> 0 < n \<and> list_all (\<lambda>(k, x). fits (n - 1) x) m"
| "fits n _ \<longleftrightarrow> True"

fun plain :: "RawJson \<Rightarrow> Value" where
  "plain RawNull = Null"
| "plain (RawBool b) = Bool b"
| "plain (RawInt n) = Number (IntNumber n)"
| "plain (RawFloat f) = Number (FloatNumber (the f))"
| "plain (RawStr s) = String s"
| "plain (RawSeq xs closed) = Array (map plain xs)"
| "plain (RawMap m closed) = Object (map (\<lambda>(k, x). (k, plain x)) m)"
| "plain RawError = Null"

definition admissible :: "nat \<Rightarrow> RawJson \<Rightarrow> bool" where
  "admissible n r \<longleftrightarrow> raw_clean r \<and> raw_unique r \<and> fits n r"

lemma contains_key_iff: "contains_key m k \<longleftrightarrow> k \<in> fst ` set m"
  by (simp add: contains_key_def map_of_eq_None_iff)

lemma enter_ok: "depth \<le> max_depth \<Longrightarrow>
    enter max_depth depth = (if 0 < max_depth - depth then Inr (Suc depth) else Inl SyntaxError)"
  by (simp add: enter_def)

lemma visit_exact:
  "depth \<le> max_depth \<Longrightarrow> visit max_depth depth r = Inr v \<longleftrightarrow> admissible (max_depth - depth) r \<and> v = plain r"
  "inner \<le> max_depth \<Longrightarrow> visit_seq max_depth inner xs closed = Inr vs \<longleftrightarrow>
     closed \<and> list_all (admissible (max_depth - inner)) xs \<and> vs = map plain xs"
  "inner \<le> max_depth \<Longrightarrow> visit_map max_depth inner m closed entries = Inr es \<longleftrightarrow>
     closed \<and> list_all (\<lambda>(k, x). admissible (max_depth - inner) x) m
       \<and> distinct (map fst m) \<and> fst ` set m \<inter> fst ` set entries = {}
       \<and> es = entries @ map (\<lambda>(k, x). (k, plain x)) m"
proof (induction max_depth depth r and max_depth inner xs closed and max_depth inner m closed entries
    arbitrary: v and vs and es rule: visit_visit_seq_visit_map.induct)
  case (4 max_depth depth f)
  then show ?case by (cases f) (auto simp: admissible_def)
next
  case (6 max_depth depth xs closed)
  show ?case
  proof (cases "0 < max_depth - depth")
    case True
    then have "enter max_depth depth = Inr (Suc depth)" using enter_ok [OF 6(2)] by simp
    with 6(1) [of "Suc depth"] True show ?thesis
      by (auto simp: and_then_ok admissible_def list_all_iff)
  qed (simp add: enter_ok 6(2) admissible_def)
next
  case (7 max_depth depth m closed)
  show ?case
  proof (cases "0 < max_depth - depth")
    case True
    then have "enter max_depth depth = Inr (Suc depth)" using enter_ok [OF 7(2)] by simp
    with 7(1) [of "Suc depth"] True show ?thesis
      by (auto simp: and_then_ok admissible_def list_all_iff)
  qed (simp add: enter_ok 7(2) admissible_def)
next
  case (10 max_depth inner x xs closed)
  then show ?case by (auto simp: and_then_ok)
next
  case (12 max_depth inner key x m closed entries)
  show ?case
  proof (cases "contains_key entries key")
    case False
    with 12 show ?thesis by (auto simp: and_then_ok contains_key_iff)
  qed (auto simp: contains_key_iff)
qed (auto simp: admissible_def)

subsection \<open>The rendering\<close>

text \<open>
  The PostgreSQL rendering as the documentation of \<open>jsonb_text_len\<close> describes it: one
  space after every structural colon and comma, short escapes, \<open>\u00xx\<close> for the other
  control characters.
\<close>

definition escape :: "uchar \<Rightarrow> ustr" where
  "escape c =
     (if c = 34 then lit [CHR 0x5C, CHR 0x22] else if c = 92 then lit [CHR 0x5C, CHR 0x5C]
      else if c = 8 then lit [CHR 0x5C, CHR ''b''] else if c = 12 then lit [CHR 0x5C, CHR ''f'']
      else if c = 10 then lit [CHR 0x5C, CHR ''n''] else if c = 13 then lit [CHR 0x5C, CHR ''r'']
      else if c = 9 then lit [CHR 0x5C, CHR ''t'']
      else if c < 32 then lit [CHR 0x5C, CHR ''u'', CHR ''0'', CHR ''0''] @
        [48 + c div 16, if c mod 16 < 10 then 48 + c mod 16 else 87 + c mod 16]
      else [c])"

definition quote :: "ustr \<Rightarrow> ustr" where
  "quote s = [34] @ concat (map escape s) @ [34]"

fun joined :: "ustr list \<Rightarrow> ustr" where
  "joined [] = []"
| "joined [x] = x"
| "joined (x # y # xs) = x @ [44, 32] @ joined (y # xs)"

fun jsonb_text :: "Value \<Rightarrow> ustr" where
  "jsonb_text Null = lit ''null''"
| "jsonb_text (Bool b) = (if b then lit ''true'' else lit ''false'')"
| "jsonb_text (Number n) = number_string n"
| "jsonb_text (String s) = quote s"
| "jsonb_text (Array xs) = [91] @ joined (map jsonb_text xs) @ [93]"
| "jsonb_text (Object m) = [123] @ joined (map (\<lambda>(k, v). quote k @ [58, 32] @ jsonb_text v) m) @ [125]"

fun text_ok :: "Value \<Rightarrow> bool" where
  "text_ok (String s) \<longleftrightarrow> list_all scalar s"
| "text_ok (Array xs) \<longleftrightarrow> list_all text_ok xs"
| "text_ok (Object m) \<longleftrightarrow> list_all (\<lambda>(k, v). list_all scalar k \<and> text_ok v) m"
| "text_ok _ \<longleftrightarrow> True"

lemma utf8_len_append [simp]: "utf8_len (s @ t) = utf8_len s + utf8_len t"
  by (simp add: utf8_len_def)

lemma utf8_len_Nil [simp]: "utf8_len [] = 0"
  by (simp add: utf8_len_def)

lemma utf8_len_Cons [simp]: "utf8_len (c # s) = utf8_width c + utf8_len s"
  by (simp add: utf8_len_def)

lemma utf8_len_nonneg: "0 \<le> utf8_len s"
  using length_le_utf8_len [of s] by simp

lemma escape_len: "scalar c \<Longrightarrow> utf8_len (escape c) = escape_width c"
proof -
  assume "scalar c"
  then have "0 \<le> c" by (simp add: scalar_def)
  then have "c < 32 \<Longrightarrow> c div 16 < 80" "c mod 16 < 41"
    using pos_mod_bound [of 16 c] by (auto simp: div_less_iff_less_mult simp del: pos_mod_bound)
  then show ?thesis by (auto simp: escape_def escape_width_def lit_def utf8_width_def)
qed

lemma quote_len: "list_all scalar s \<Longrightarrow> utf8_len (quote s) = quoted_len s"
proof -
  assume "list_all scalar s"
  then have "utf8_len (concat (map escape s)) = sum_list (map escape_width s)"
    by (induction s) (auto simp: escape_len)
  then show ?thesis by (simp add: quote_def quoted_len_def utf8_width_def)
qed

lemma joined_len:
  "utf8_len (joined xs) = sum_list (map utf8_len xs) + 2 * int (length xs - 1)"
  by (induction xs rule: joined.induct) (auto simp: utf8_width_def)

text \<open>The unbounded size of a value, and of what the stack still holds.\<close>

fun full_len :: "Value \<Rightarrow> int" where
  "full_len (Array xs) = separators xs + sum_list (map full_len xs)"
| "full_len (Object m) = separators m + sum_list (map (\<lambda>(k, v). quoted_len k + 2 + full_len v) m)"
| "full_len v = own_len v"

lemma full_len_text: "text_ok v \<Longrightarrow> utf8_len (jsonb_text v) = full_len v"
proof (induction v rule: jsonb_text.induct)
  case (5 xs)
  then have "(\<Sum>x\<leftarrow>xs. utf8_len (jsonb_text x)) = sum_list (map full_len xs)"
    by (intro arg_cong [where f = sum_list] map_cong) (auto simp: list_all_iff)
  then show ?case by (simp add: joined_len separators_def utf8_width_def o_def)
next
  case (6 m)
  have "(\<Sum>x\<leftarrow>m. utf8_len (quote (fst x)) + (2 + utf8_len (jsonb_text (snd x))))
      = (\<Sum>x\<leftarrow>m. quoted_len (fst x) + 2 + full_len (snd x))"
    using 6 by (intro arg_cong [where f = sum_list] map_cong) (auto simp: list_all_iff quote_len)
  then show ?case by (simp add: joined_len separators_def utf8_width_def o_def split_def)
qed (simp_all add: lit_def utf8_width_def quote_len)

lemma quoted_len_nonneg: "0 \<le> quoted_len s"
proof -
  have "0 \<le> sum_list (map escape_width s)"
    by (induction s) (auto simp: escape_width_def utf8_width_def)
  then show ?thesis by (simp add: quoted_len_def)
qed

lemma min_add_min:
  fixes a b :: int
  shows "0 \<le> b \<Longrightarrow> min u (min u a + b) = min u (a + b)"
  by linarith

lemma object_len_sat:
  "0 \<le> len \<Longrightarrow>
     min u64_max (object_len len m) = min u64_max (len + sum_list (map (\<lambda>(k, v). quoted_len k + 2) m))"
proof (induction m arbitrary: len)
  case Nil
  then show ?case by simp
next
  case (Cons e m)
  obtain k v where e: "e = (k, v)" by (cases e)
  have "0 \<le> sum_list (map (\<lambda>(k, v). quoted_len k + 2) m)"
    by (rule sum_list_nonneg) (auto simp: quoted_len_nonneg add_nonneg_nonneg)
  with Cons.IH [of "saturating_add_usize len (quoted_len k + 2)"] Cons.prems quoted_len_nonneg [of k]
  show ?case by (simp add: e saturating_add_usize_def u64_max_def min_add_min add.assoc)
qed

lemma full_len_nonneg: "0 \<le> full_len v"
proof (induction v rule: full_len.induct)
  case (1 xs)
  then show ?case by (auto simp: separators_def intro!: add_nonneg_nonneg sum_list_nonneg)
next
  case (2 m)
  then show ?case
    by (auto simp: separators_def intro!: add_nonneg_nonneg sum_list_nonneg quoted_len_nonneg)
qed (auto simp: quoted_len_nonneg utf8_len_nonneg)

lemma own_len_nonneg: "0 \<le> own_len v"
proof (cases v)
  case (Object m)
  have "0 \<le> min u64_max (object_len (separators m) m)"
    by (subst object_len_sat)
      (auto simp: separators_def u64_max_def intro!: add_nonneg_nonneg sum_list_nonneg quoted_len_nonneg)
  with Object show ?thesis by simp
qed (auto simp: separators_def quoted_len_nonneg utf8_len_nonneg)

lemma own_and_parts:
  "min u64_max (own_len v + sum_list (map full_len (parts_of v))) = min u64_max (full_len v)"
proof (cases v)
  case (Object m)
  have pos: "0 \<le> sum_list (map (full_len \<circ> snd) m)"
    by (rule sum_list_nonneg) (auto simp: full_len_nonneg)
  have "sum_list (map (\<lambda>(k, v). quoted_len k + 2 + full_len v) m)
      = sum_list (map (\<lambda>(k, v). quoted_len k + 2) m) + sum_list (map (full_len \<circ> snd) m)"
    by (induction m) auto
  with object_len_sat [of "separators m" m] min_add_min [OF pos, of u64_max "object_len (separators m) m"]
    min_add_min [OF pos, of u64_max "separators m + sum_list (map (\<lambda>(k, v). quoted_len k + 2) m)"]
  show ?thesis by (simp add: Object separators_def add.assoc)
qed simp_all

lemma len_loop_sat:
  "0 \<le> n \<Longrightarrow> n \<le> u64_max \<Longrightarrow> len_loop stack n = min u64_max (n + sum_list (map full_len stack))"
proof (induction stack n rule: len_loop.induct)
  case (1 n)
  then show ?case by simp
next
  case (2 v stack n)
  let ?s = "sum_list (map full_len stack)"
  let ?p = "sum_list (map full_len (parts_of v))"
  have pos: "0 \<le> ?s" "0 \<le> ?p" by (auto intro!: sum_list_nonneg simp: full_len_nonneg)
  have "len_loop (v # stack) n = min u64_max (min u64_max (n + own_len v) + (?p + ?s))"
    using 2 own_len_nonneg [of v]
    by (simp add: saturating_add_usize_def rev_map [symmetric] u64_max_def add.assoc)
  also have "\<dots> = min u64_max (n + own_len v + (?p + ?s))"
    using pos by (intro min_add_min) simp
  also have "\<dots> = min u64_max (min u64_max (own_len v + ?p) + (n + ?s))"
    using pos 2(2) by (subst min_add_min) (simp_all add: algebra_simps)
  also have "\<dots> = min u64_max (full_len v + (n + ?s))"
    unfolding own_and_parts using pos 2(2) by (intro min_add_min) simp
  finally show ?case by (simp add: algebra_simps)
qed

text \<open>
  (C10) The measured length is the length of the rendering: for every value whose strings are sequences of
  scalar values, the loop over the explicit stack ends and returns the number of UTF-8 bytes of the value
  written out with the separators and escapes of PostgreSQL and the numbers as \<open>serde_json\<close> writes them,
  or the largest machine word when the rendering is longer than that.
\<close>

theorem jsonb_text_len_exact:
  assumes "text_ok v"
  shows "jsonb_text_len v = min u64_max (utf8_len (jsonb_text v))"
  using len_loop_sat [of 0 "[v]"] by (simp add: jsonb_text_len_def full_len_text [OF assms] u64_max_def)

end
