(* ===== verification/Audit_Canonical.thy ===== *)
theory Audit_Canonical
  imports Audit_Json_Props Audit_Envelope
begin

text \<open>
  Validation does not depend on the order of members: every check gives the same
  answer on a value and on its canonical form, so an accepted envelope is accepted
  again, unchanged, when its canonical form is submitted.
\<close>

named_theorems canon_simps \<open>checks on canonical forms\<close>

subsection \<open>Canonical maps\<close>

fun unique_keys :: "Value \<Rightarrow> bool" where
  "unique_keys (Object m) \<longleftrightarrow> distinct (map fst m) \<and> list_all (\<lambda>(k, v). unique_keys v) m"
| "unique_keys (Array xs) \<longleftrightarrow> list_all unique_keys xs"
| "unique_keys _ \<longleftrightarrow> True"

definition unique_map :: "(ustr \<times> Value) list \<Rightarrow> bool" where
  "unique_map m \<longleftrightarrow> distinct (map fst m) \<and> (\<forall>(k, v)\<in>set m. unique_keys v)"

definition canon_map :: "(ustr \<times> Value) list \<Rightarrow> (ustr \<times> Value) list" where
  "canon_map m = map (\<lambda>(k, v). (k, canonicalize v)) (sort_key (\<lambda>e. as_bytes (fst e)) m)"

lemma canonicalize_Object: "canonicalize (Object m) = Object (canon_map m)"
  by (simp add: canon_map_def)

lemma unique_Object: "unique_keys (Object m) \<longleftrightarrow> unique_map m"
  by (auto simp: unique_map_def list_all_iff)

lemma set_canon_map: "set (canon_map m) = (\<lambda>(k, v). (k, canonicalize v)) ` set m"
  by (simp add: canon_map_def)

lemma keys_canon_map: "fst ` set (canon_map m) = fst ` set m"
  by (auto simp: set_canon_map image_image split_def)

lemma distinct_canon_map: "distinct (map fst (canon_map m)) = distinct (map fst m)"
proof -
  have "mset (map fst (canon_map m)) = mset (map fst m)"
    by (simp add: canon_map_def o_def split_def flip: image_mset.compositionality)
  then show ?thesis by (metis mset_eq_imp_distinct_iff)
qed

lemma canonicalize_idem [simp]: "canonicalize (canonicalize v) = canonicalize v"
proof (induction v rule: canonicalize.induct)
  case (1 m)
  have "sorted (map (\<lambda>e. as_bytes (fst e)) (canon_map m))"
    by (simp add: canon_map_def o_def split_def)
  then have "sort_key (\<lambda>e. as_bytes (fst e)) (canon_map m) = canon_map m"
    by (rule sort_key_id_if_sorted)
  moreover have "map (\<lambda>(k, v). (k, canonicalize v)) (canon_map m) = canon_map m"
    using 1 by (auto simp: canon_map_def)
  ultimately show ?case unfolding canonicalize_Object by (simp add: canon_map_def [of "canon_map m"])
qed auto

lemma map_of_canon_map [canon_simps]:
  assumes "unique_map m"
  shows "map_of (canon_map m) k = map_option canonicalize (map_of m k)"
proof -
  have d: "distinct (map fst m)" "distinct (map fst (canon_map m))"
    using assms by (simp_all add: unique_map_def distinct_canon_map)
  show ?thesis
  proof (cases "map_of m k")
    case None
    then have "k \<notin> fst ` set (canon_map m)" by (simp add: map_of_eq_None_iff keys_canon_map)
    then show ?thesis by (simp add: None map_of_eq_None_iff)
  next
    case (Some v)
    then have "(k, canonicalize v) \<in> set (canon_map m)"
      using map_of_SomeD [of m k v] by (force simp: set_canon_map)
    then show ?thesis using Some d(2) by simp
  qed
qed

lemma unique_map_member: "unique_map m \<Longrightarrow> map_of m k = Some v \<Longrightarrow> unique_keys v"
  unfolding unique_map_def by (blast dest: map_of_SomeD)

lemma contains_canon_map [canon_simps]: "contains_key (canon_map m) k = contains_key m k"
  by (simp add: contains_key_iff keys_canon_map)

lemma length_canon_map [canon_simps]: "length (canon_map m) = length m"
  by (simp add: canon_map_def)

lemma canon_map_Nil [canon_simps]: "canon_map m = [] \<longleftrightarrow> m = []"
  using length_canon_map [of m] by (cases m; cases "canon_map m"; simp)

subsection \<open>Accessors\<close>

lemma as_canonical [canon_simps]:
  "as_str (canonicalize v) = as_str v" "as_bool (canonicalize v) = as_bool v"
  "as_i64 (canonicalize v) = as_i64 v" "as_u64 (canonicalize v) = as_u64 v"
  "is_null (canonicalize v) = is_null v"
  "as_array (canonicalize v) = map_option (map canonicalize) (as_array v)"
  "as_object (canonicalize v) = map_option canon_map (as_object v)"
  by (cases v; simp add: as_str_def as_bool_def as_i64_def as_u64_def is_null_def as_array_def
      as_object_def canonicalize_Object del: canonicalize.simps(1))+

lemma as_object_unique: "unique_keys v \<Longrightarrow> as_object v = Some m \<Longrightarrow> unique_map m"
  by (cases v) (auto simp: as_object_def unique_Object simp del: unique_keys.simps(1))

lemma value_eq_canonical [canon_simps]:
  "value_eq (canonicalize a) b = value_eq a b" "value_eq a (canonicalize b) = value_eq a b"
  by (simp_all add: value_eq_def)

lemma option_value_eq_canonical [canon_simps]:
  "option_value_eq (map_option canonicalize a) b = option_value_eq a b"
  "option_value_eq a (map_option canonicalize b) = option_value_eq a b"
  by (cases a; cases b; simp add: option_value_eq_def canon_simps)+

lemma at_key_canon_map [canon_simps]:
  "unique_map m \<Longrightarrow> at_key (canon_map m) k = canonicalize (at_key m k)"
  by (auto simp: at_key_def map_of_canon_map split: option.splits)

lemma at_key_unique: "unique_map m \<Longrightarrow> unique_keys (at_key m k)"
  by (auto simp: at_key_def dest: unique_map_member split: option.splits)

lemma get_member_canonical [canon_simps]:
  "unique_keys v \<Longrightarrow> get_member (canonicalize v) k = map_option canonicalize (get_member v k)"
  by (cases "as_object v") (auto simp: get_member_def canon_simps dest: as_object_unique)

lemma index_member_canonical [canon_simps]:
  "unique_keys v \<Longrightarrow> index_member (canonicalize v) k = canonicalize (index_member v k)"
  by (auto simp: index_member_def get_member_canonical split: option.splits)

lemma check_keys_canonical [canon_simps]: "check_keys (canon_map m) r t = check_keys m r t"
proof -
  have "list_ex P (map fst (canon_map m)) = list_ex P (map fst m)" for P
    using keys_canon_map [of m] by (metis Bex_set set_map)
  then show ?thesis by (simp add: check_keys_def contains_canon_map)
qed

subsection \<open>Kinds\<close>

lemma all_distinct_nth:
  "all_distinct items \<longleftrightarrow> (\<forall>i<length items. \<not> list_ex (value_eq (items ! i)) (take i items))"
  by (simp add: all_distinct_def enumerate_eq_zip list_all_length)

lemma all_distinct_canonical [canon_simps]: "all_distinct (map canonicalize items) = all_distinct items"
  by (simp add: all_distinct_nth take_map list.pred_map list_ex_iff canon_simps)

lemma text_is_canonical [canon_simps]:
  "text_is P (canonicalize v) = text_is P v" "in_set vs (canonicalize v) = in_set vs v"
  "is_counter (canonicalize v) = is_counter v" "is_safe_counter (canonicalize v) n = is_safe_counter v n"
  by (simp_all add: text_is_def in_set_def is_counter_def is_safe_counter_def canon_simps)

lemma is_some_and_map [simp]: "is_some_and P (map_option f x) = is_some_and (\<lambda>y. P (f y)) x"
  by (cases x) simp_all

lemma list_all_canonical:
  assumes "\<And>x. P (canonicalize x) = P x"
  shows "list_all P (map canonicalize xs) = list_all P xs"
  by (simp add: list.pred_map o_def assms)

lemma is_digest_canonical [canon_simps]: "is_digest (canonicalize v) = is_digest v"
  by (simp add: is_digest_def canon_simps list_all_canonical)

lemma is_control_list_canonical [canon_simps]:
  assumes "\<And>x. P (canonicalize x) = P x"
  shows "is_control_list P (canonicalize v) = is_control_list P v"
  by (simp add: is_control_list_def canon_simps list_all_canonical [of P, OF assms])

lemma is_legacy_principal_canonical [canon_simps]:
  assumes "unique_keys v"
  shows "is_legacy_principal (canonicalize v) = is_legacy_principal v"
proof (cases "as_object v")
  case (Some m)
  note u = as_object_unique [OF assms Some]
  have "Option.bind (map_option canonicalize (map_of m k)) as_str = Option.bind (map_of m k) as_str" for k
    by (cases "map_of m k") (simp_all add: canon_simps)
  with Some u show ?thesis by (simp add: is_legacy_principal_def canon_simps)
qed (simp add: is_legacy_principal_def canon_simps)

lemma is_legacy_time_canonical [canon_simps]: "is_legacy_time L (canonicalize v) = is_legacy_time L v"
proof (cases "as_array v")
  case (Some items)
  have "map as_i64 (map canonicalize items) = map as_i64 items" by (simp add: canon_simps)
  with Some show ?thesis by (simp only: is_legacy_time_def as_canonical option.map option.case)
qed (simp add: is_legacy_time_def canon_simps)

lemma kind_accepts_canonical [canon_simps]:
  "unique_keys v \<Longrightarrow> kind_accepts L k vs (canonicalize v) = kind_accepts L k vs v"
  by (cases k) (simp_all add: canon_simps list_all_canonical)

subsection \<open>Sizes and strings\<close>

lemma list_all_canon_map:
  "list_all P (canon_map m) = list_all (\<lambda>(k, v). P (k, canonicalize v)) m"
  by (auto simp: list_all_iff set_canon_map)

lemma strings_canonical [canon_simps]: "strings_are_bounded (canonicalize v) = strings_are_bounded v"
proof (induction v rule: canonicalize.induct)
  case (1 m)
  then show ?case by (auto simp: list_all_iff)
next
  case (2 xs)
  then show ?case by (auto simp: list_all_iff)
qed simp_all

lemma sum_list_sorted:
  fixes f :: "'a \<Rightarrow> int"
  shows "sum_list (map f (sort_key g m)) = sum_list (map f m)"
proof -
  have "mset (map f (sort_key g m)) = mset (map f m)" by simp
  then show ?thesis by (metis sum_mset_sum_list)
qed

lemma full_len_canonical: "full_len (canonicalize v) = full_len v"
proof (induction v rule: canonicalize.induct)
  case (1 m)
  have "(\<Sum>x\<leftarrow>m. quoted_len (fst x) + 2 + full_len (canonicalize (snd x)))
      = (\<Sum>x\<leftarrow>m. quoted_len (fst x) + 2 + full_len (snd x))"
    using 1 by (intro arg_cong [where f = sum_list] map_cong) auto
  then show ?case by (simp add: separators_def o_def split_def sum_list_sorted)
next
  case (2 xs)
  then have "(\<Sum>x\<leftarrow>xs. full_len (canonicalize x)) = sum_list (map full_len xs)"
    by (intro arg_cong [where f = sum_list] map_cong) auto
  then show ?case by (simp add: separators_def o_def)
qed simp_all

lemma jsonb_text_len_canonical [canon_simps]: "jsonb_text_len (canonicalize v) = jsonb_text_len v"
  using len_loop_sat [of 0 "[v]"] len_loop_sat [of 0 "[canonicalize v]"]
  by (simp add: jsonb_text_len_def full_len_canonical u64_max_def)

subsection \<open>Checks of the envelope\<close>

lemma bind_canonical:
  assumes "\<And>v. f (canonicalize v) = f v"
  shows "Option.bind (map_option canonicalize x) f = Option.bind x f"
  by (cases x) (simp_all add: assms)

lemma lift_bind:
  "unique_map m \<Longrightarrow> Option.bind n (map_of (canon_map m)) = map_option canonicalize (Option.bind n (map_of m))"
  by (cases n) (simp_all add: map_of_canon_map)

lemma is_principal_canonical [canon_simps]:
  "unique_keys v \<Longrightarrow> is_principal (canonicalize v) = is_principal v"
  by (cases "as_object v") (auto simp: is_principal_def canon_simps dest: as_object_unique)

lemma is_reason_summary_canonical [canon_simps]:
  "unique_keys v \<Longrightarrow> is_reason_summary (canonicalize v) = is_reason_summary v"
  by (cases "as_object v") (auto simp: is_reason_summary_def canon_simps dest: as_object_unique)

lemma member_ok_canonical [canon_simps]:
  assumes "unique_map m" and "\<And>x. P (canonicalize x) = P x"
  shows "member_ok (canon_map m) n r P = member_ok m n r P"
  unfolding member_ok_def map_of_canon_map [OF assms(1)]
  by (cases "map_of m (lit n)"; cases r) (simp_all add: assms(2))

lemma list_all_keys_canon: "list_all P (map fst (canon_map m)) = list_all P (map fst m)"
  using keys_canon_map [of m] by (metis Ball_set set_map)

lemma is_provenance_canonical [canon_simps]:
  assumes "unique_keys v"
  shows "is_provenance a (canonicalize v) = is_provenance a v"
proof (cases "as_object v")
  case (Some m)
  note u = as_object_unique [OF assms Some]
  show ?thesis
    by (simp add: is_provenance_def Some as_canonical list_all_keys_canon map_of_canon_map [OF u]
        member_ok_canonical [OF u] bind_canonical)
qed (simp add: is_provenance_def as_canonical)

lemma is_nil_client_id_canonical [canon_simps]: "is_nil_client_id k (canonicalize v) = is_nil_client_id k v"
  by (cases "as_array v") (simp_all add: is_nil_client_id_def canon_simps list_ex_iff)

lemma db_role_canonical:
  assumes "unique_keys actor" and "unique_map details"
  shows "is_db_role_actor_consistent (canonicalize actor) (canon_map details)
    = is_db_role_actor_consistent actor details"
proof -
  have "option_value_eq x (Some (canonicalize y)) = option_value_eq x (Some y)" for x y
    using option_value_eq_canonical(2) [of x "Some y"] by simp
  then show ?thesis using assms by (simp add: is_db_role_actor_consistent_def canon_simps)
qed

lemma check_version_id_canonical [canon_simps]:
  "unique_map m \<Longrightarrow> check_version_id spec relay (canon_map m) = check_version_id spec relay m"
  by (cases "map_of m (lit ''version_id'')") (simp_all add: check_version_id_def canon_simps)

lemma check_resource_canonical [canon_simps]:
  assumes "unique_keys v"
  shows "check_resource spec path (canonicalize v) = check_resource spec path v"
proof (cases "as_object v")
  case (Some m)
  note u = as_object_unique [OF assms Some]
  show ?thesis by (simp add: check_resource_def Let_def Some canon_simps u cong: if_cong)
qed (simp add: check_resource_def as_canonical)

lemma check_detail_canonical:
  assumes "unique_map details"
  shows "check_detail L path (canon_map details) f = check_detail L path details f"
proof (cases f)
  case (Pair name field)
  show ?thesis
  proof (cases "map_of details name")
    case (Some v)
    then show ?thesis using unique_map_member [OF assms Some]
      by (simp add: check_detail_def Pair map_of_canon_map [OF assms] field_accepts_def canon_simps)
  qed (simp add: check_detail_def Pair map_of_canon_map [OF assms])
qed

lemma each_res_cong: "(\<And>x. f x = g x) \<Longrightarrow> each_res f xs = each_res g xs"
  by (induction xs) simp_all

lemma check_details_canonical:
  assumes "unique_keys v"
  shows "check_details L spec path (canonicalize v)
    = and_then (check_details L spec path v) (\<lambda>d. Inr (canon_map d))"
proof (cases "as_object v")
  case (Some m)
  note u = as_object_unique [OF assms Some]
  have "list_ex P (map fst (canon_map m)) = list_ex P (map fst m)" for P
    using keys_canon_map [of m] by (metis Bex_set set_map)
  moreover have "each_res (check_detail L path (canon_map m)) xs = each_res (check_detail L path m) xs" for xs
    by (rule each_res_cong) (rule check_detail_canonical [OF u])
  ultimately show ?thesis
    by (cases "each_res (check_detail L path m) (detail_fields spec)")
      (auto simp: check_details_def Some as_canonical contains_canon_map reject_def split: option.splits)
qed (simp add: check_details_def as_canonical reject_def)

lemma check_details_same: "check_details L spec path v = Inr d \<Longrightarrow> as_object v = Some d"
  by (auto simp: check_details_def and_then_ok reject_def split: option.splits if_splits)

lemma check_correlation_canonical:
  assumes "unique_keys v" and "unique_map details"
  shows "check_correlation spec a (canon_map details) (canonicalize v) = check_correlation spec a details v"
proof (cases "as_object v")
  case (Some m)
  note u = as_object_unique [OF assms(1) Some]
  show ?thesis
    by (simp add: check_correlation_def Some canon_simps u lift_bind [OF assms(2)])
qed (simp add: check_correlation_def as_canonical)

lemma check_bound_canonical:
  assumes "unique_map details"
  shows "check_bound resource (canon_map details) b = check_bound resource details b"
  by (simp add: check_bound_def map_of_canon_map [OF assms] bind_canonical canon_simps)

lemma push_segments_canonical:
  assumes "unique_map details"
  shows "push_segments i v (canon_map details) ss out = push_segments i v details ss out"
proof (induction ss arbitrary: out)
  case (Cons s ss)
  have "segment_text i v (canon_map details) s = segment_text i v details s"
    by (cases s) (simp_all add: map_of_canon_map [OF assms] bind_canonical canon_simps)
  with Cons show ?case by simp
qed simp

lemma subject_matches_canonical:
  assumes "unique_map details"
  shows "subject_matches spec resource (canon_map details) s = subject_matches spec resource details s"
  by (simp add: subject_matches_def subject_render_def push_segments_canonical [OF assms])

lemma reason_matches_canonical:
  "(\<And>x. v = Some x \<Longrightarrow> unique_keys x) \<Longrightarrow> reason_matches spec (map_option canonicalize v) = reason_matches spec v"
  by (cases "es_reason spec"; cases v) (simp_all add: reason_matches_def is_reason_summary_canonical)

subsection \<open>Validation\<close>

lemma bounded_attribute_canonical:
  "unique_map m \<Longrightarrow> bounded_attribute (canon_map m) n = bounded_attribute m n"
  by (simp add: bounded_attribute_def canon_simps)

lemma check_attributes_canonical:
  assumes "unique_keys v"
  shows "check_attributes L (canonicalize v)
    = and_then (check_attributes L v) (\<lambda>(m, t, s, d). Inr (canon_map m, t, s, canon_map d))"
proof (cases "as_object v")
  case (Some m)
  note u = as_object_unique [OF assms Some]
  show ?thesis
    by (cases "bounded_attribute m ''type''"; cases "bounded_attribute m ''source''";
        cases "as_object (at_key m ''data'')")
      (simp_all add: check_attributes_def Some canon_simps u bounded_attribute_canonical [OF u] reject_def)
qed (simp add: check_attributes_def canon_simps)

lemma check_attributes_ok:
  assumes "check_attributes L v = Inr (m, t, s, d)"
  shows "as_object v = Some m \<and> as_object (at_key m ''data'') = Some d \<and> jsonb_text_len v \<le> JSONB_TEXT_LIMIT
    \<and> check_keys m ATTRIBUTES [] = Exact \<and> as_str (at_key m ''type'') = Some t \<and> as_str (at_key m ''source'') = Some s
    \<and> is_some_and is_uuid (as_str (at_key m ''id''))"
  using assms unfolding check_attributes_def reject_def
  by (auto simp: and_then_ok ok_or_ok bounded_attribute_def split: if_splits option.splits)

lemma check_path_canonical:
  assumes "unique_map d"
  shows "check_path path t s (canon_map d) = check_path path t s d"
proof -
  have "Option.bind (Option.bind (map_option canonicalize (map_of d k)) (\<lambda>r. get_member r j)) as_str
      = Option.bind (Option.bind (map_of d k) (\<lambda>r. get_member r j)) as_str" for k j
  proof (cases "map_of d k")
    case (Some x)
    then show ?thesis using get_member_canonical [OF unique_map_member [OF assms Some]]
      by (simp add: bind_canonical as_canonical)
  qed simp
  then show ?thesis by (simp add: check_path_def map_of_canon_map [OF assms])
qed

lemma check_header_canonical:
  assumes "unique_map d"
  shows "check_header spec t (canon_map d) = check_header spec t d"
proof -
  have "is_some_and (\<lambda>x. q \<or> \<not> is_principal x) (map_option canonicalize (map_of d k))
      = is_some_and (\<lambda>x. q \<or> \<not> is_principal x) (map_of d k)" for q k
  proof (cases "map_of d k")
    case (Some x)
    then show ?thesis using is_principal_canonical [OF unique_map_member [OF assms Some]] by simp
  qed simp
  then show ?thesis
    by (simp add: check_header_def canon_simps assms at_key_unique)
qed

lemma check_payload_canonical:
  assumes "unique_map m" and "unique_map d"
  shows "check_payload L spec a path (canon_map m) (canon_map d) = check_payload L spec a path m d"
proof (cases "check_details L spec path (at_key d ''details'')")
  case (Inr details)
  have u: "unique_map details"
    using as_object_unique [OF at_key_unique [OF assms(2)] check_details_same [OF Inr]] .
  have c: "check_details L spec path (canonicalize (at_key d ''details'')) = Inr (canon_map details)"
    using check_details_canonical [OF at_key_unique [OF assms(2)], of L spec path] Inr by simp
  have "each_res (check_bound r (canon_map details)) bs = each_res (check_bound r details) bs" for r bs
    by (rule each_res_cong) (rule check_bound_canonical [OF u])
  with Inr c show ?thesis
    by (simp add: check_payload_def canon_simps assms at_key_unique db_role_canonical u
        subject_matches_canonical lift_bind reason_matches_canonical [OF unique_map_member [OF assms(2)]]
        check_correlation_canonical cong: if_cong)
next
  case (Inl e)
  have "check_details L spec path (canonicalize (at_key d ''details'')) = Inl e"
    using check_details_canonical [OF at_key_unique [OF assms(2)], of L spec path] Inl by simp
  with Inl show ?thesis by (simp add: check_payload_def canon_simps assms at_key_unique cong: if_cong)
qed

lemma validate_with_canonical:
  assumes "unique_keys v"
  shows "validate_with L catalog (canonicalize v) path = validate_with L catalog v path"
proof (cases "check_attributes L v")
  case (Inr x)
  obtain m t s d where x: "x = (m, t, s, d)" by (cases x)
  note ok = check_attributes_ok [OF Inr [unfolded x]]
  have u: "unique_map m" "unique_map d"
    using as_object_unique [OF assms] as_object_unique [OF at_key_unique] ok by blast+
  show ?thesis
    by (simp add: validate_with_def check_attributes_canonical [OF assms] Inr x check_path_canonical [OF u(2)]
        check_header_canonical [OF u(2)] check_payload_canonical [OF u] strings_canonical split_def cong: if_cong)
next
  case (Inl e)
  then show ?thesis by (simp add: validate_with_def check_attributes_canonical [OF assms])
qed

lemma plain_unique: "raw_unique r \<Longrightarrow> unique_keys (plain r)"
proof (induction r rule: plain.induct)
  case (7 m closed)
  then show ?case by (auto simp: list_all_iff o_def split_def)
qed (auto simp: list_all_iff)

lemma parse_unique_ok:
  assumes "parse_unique tok text = Inr v"
  shows "utf8_len text \<le> MAX_JSON_BYTES \<and> snd (tok text)
    \<and> admissible MAX_JSON_DEPTH (fst (tok text)) \<and> v = plain (fst (tok text))"
proof -
  from assms have "visit MAX_JSON_DEPTH 0 (fst (tok text)) = Inr v" "utf8_len text \<le> MAX_JSON_BYTES" "snd (tok text)"
    by (auto simp: parse_unique_def parse_bounded_def split: if_splits sum.splits ParseStop.splits)
  then show ?thesis using visit_exact(1) [of 0 MAX_JSON_DEPTH "fst (tok text)" v] by simp
qed

text \<open>
  (C21) An accepted envelope is a fixed point: the envelope made from admitted text holds the canonical
  form of the parsed value, and submitting that form again on the same path is accepted and gives the
  same envelope, whatever order the members had in the text.
\<close>

theorem accepted_envelope_revalidates:
  assumes "from_json L catalog text path = Inr e"
  shows "from_value L catalog (ae_value e) path = Inr e \<and> canonicalize (ae_value e) = ae_value e"
proof -
  from assms obtain v where v: "parse_unique (tokens L) text = Inr v" "from_value L catalog v path = Inr e"
    by (auto simp: from_json_def and_then_ok)
  from parse_unique_ok [OF v(1)] have u: "unique_keys v" by (simp add: admissible_def plain_unique)
  from v(2) have "ae_value e = canonicalize v" by (auto simp: from_value_def and_then_ok)
  with v(2) show ?thesis
    by (simp add: from_value_def validate_with_canonical [OF u] canon_simps u)
qed

end
