(* ===== verification/Audit_Admission.thy ===== *)
theory Audit_Admission
  imports Audit_Canonical Audit_Legacy
begin

text \<open>
  What reaches the audit store through the relay: texts are admitted exactly when
  their member names are unique and their nesting is bounded, the relay path is
  confined to relay events of the catalog, an entry of a checked catalog has a subject
  for every admitted resource, and a projected staging row keeps the columns of the
  row and no reason text.
\<close>

subsection \<open>Text\<close>

text \<open>
  Admission of JSON text is exact. The text is accepted as a value precisely when it is at most 64
  KiB, the tokenizer reads it to the end without an error, no object has two members of the same name
  at any depth, and containers nest at most eight deep; the value is then the one the tokens describe.
\<close>

theorem parse_unique_exact:
  "parse_unique tok text = Inr v \<longleftrightarrow>
     utf8_len text \<le> 65536 \<and> snd (tok text) \<and> raw_clean (fst (tok text)) \<and> raw_unique (fst (tok text))
     \<and> fits 8 (fst (tok text)) \<and> v = plain (fst (tok text))"
proof -
  have "visit 8 0 (fst (tok text)) = Inr v \<longleftrightarrow> admissible 8 (fst (tok text)) \<and> v = plain (fst (tok text))"
    using visit_exact(1) [of 0 8] by simp
  then show ?thesis
    by (auto simp: parse_unique_def parse_bounded_def MAX_JSON_BYTES_def MAX_JSON_DEPTH_def admissible_def
        split: if_splits sum.splits ParseStop.splits)
qed

subsection \<open>The relay path\<close>

lemma validate_with_ok:
  assumes "validate_with L catalog v path = Inr spec"
  obtains m t s d a where "check_attributes L v = Inr (m, t, s, d)" and "check_path path t s d = Inr ()"
    and "find_spec catalog path t s = Inr (spec, a)" and "check_header spec t d = Inr ()"
    and "check_payload L spec a path m d = Inr ()" and "strings_are_bounded v"
  using assms unfolding validate_with_def and_then_ok
  by (auto split: prod.splits if_splits simp: and_then_ok)

lemma check_payload_ok:
  assumes "check_payload L spec a path m d = Inr ()"
  obtains resource details where "check_resource spec path (at_key d ''resource'') = Inr resource"
    and "check_details L spec path (at_key d ''details'') = Inr details"
    and "is_provenance a (at_key d ''provenance'')"
    and "reason_matches spec (map_of d (lit ''reason''))"
    and "subject_matches spec resource details
      (case as_str (at_key m ''subject'') of Some s \<Rightarrow> s | None \<Rightarrow> [])"
  using assms unfolding check_payload_def and_then_ok reject_def
  by (auto simp: and_then_ok split: if_splits)

lemma find_spec_ok:
  assumes "find_spec catalog path t s = Inr (spec, a)"
  shows "catalog_get catalog t = Some spec \<and> es_origin spec = path \<and> es_source spec = s
    \<and> catalog_adapter catalog s = Some a"
  using assms unfolding find_spec_def reject_def by (auto split: option.splits if_splits)

lemma check_resource_ok:
  assumes "check_resource spec path v = Inr resource"
  obtains m where "as_object v = Some m" and "as_str (at_key m ''type'') = Some (lit (resource_as_str (rv_kind resource)))"
    and "rv_kind resource \<in> set (es_resources spec)" and "as_str (at_key m ''id'') = Some (rv_id resource)"
    and "version_ok_for (es_version_required spec) (rv_version_id resource)"
proof -
  have parse: "resource_parse x = Some k \<Longrightarrow> x = lit (resource_as_str k)" for x k
    by (auto simp: resource_parse_def split: if_splits)
  from assms obtain m where "as_object v = Some m" "as_str (at_key m ''type'') = Some (lit (resource_as_str (rv_kind resource)))"
    "rv_kind resource \<in> set (es_resources spec)" "as_str (at_key m ''id'') = Some (rv_id resource)"
    "version_ok_for (es_version_required spec) (rv_version_id resource)"
    unfolding check_resource_def Let_def and_then_ok ok_or_ok reject_def
    by (auto simp: and_then_ok ok_or_ok allows_resource_def bind_eq_Some_conv dest!: parse split: if_splits)
  then show thesis by (rule that)
qed

lemma check_details_keys:
  assumes "check_details L spec path v = Inr details"
  shows "\<forall>k\<in>fst ` set details. is_detail_field spec k"
  using assms unfolding check_details_def reject_def
  by (auto simp: and_then_ok list_ex_iff split: option.splits if_splits)

text \<open>
  (C20) The relay path carries relay events only. A value accepted on it has a type of the catalog whose
  entry belongs to the relay, names that entry's source, and is not a control event: its type has no
  \<open>audit.\<close> prefix, its source is neither control source, and its resource is not the audit store. Every
  member of its details is a detail field of the entry, every string in it is bounded and free of
  control characters, and its rendering fits into 32 KiB.
\<close>

theorem relay_path_confined:
  assumes "validate_with L catalog v Relay = Inr spec"
  shows "\<exists>m d t s r k details. as_object v = Some m \<and> as_object (at_key m ''data'') = Some d
    \<and> as_str (at_key m ''type'') = Some t \<and> as_str (at_key m ''source'') = Some s
    \<and> catalog_get catalog t = Some spec \<and> es_origin spec = Relay \<and> es_source spec = s
    \<and> \<not> is_control_type t \<and> s \<noteq> AUDIT_STORE_SOURCE \<and> s \<noteq> AUDIT_RELAY_SOURCE
    \<and> as_object (at_key d ''resource'') = Some r \<and> as_str (at_key r ''type'') = Some (lit (resource_as_str k))
    \<and> k \<in> set (es_resources spec) \<and> k \<noteq> AuditStoreResource
    \<and> as_object (at_key d ''details'') = Some details \<and> (\<forall>x\<in>fst ` set details. is_detail_field spec x)
    \<and> strings_are_bounded v \<and> jsonb_text_len v \<le> 32768"
proof (rule validate_with_ok [OF assms])
  fix m t s d a
  assume att: "check_attributes L v = Inr (m, t, s, d)" and path: "check_path Relay t s d = Inr ()"
    and spec: "find_spec catalog Relay t s = Inr (spec, a)" and pay: "check_payload L spec a Relay m d = Inr ()"
    and str: "strings_are_bounded v"
  note A = check_attributes_ok [OF att]
  from pay obtain resource details where res: "check_resource spec Relay (at_key d ''resource'') = Inr resource"
    and det: "check_details L spec Relay (at_key d ''details'') = Inr details"
    by (rule check_payload_ok)
  from res obtain r where r: "as_object (at_key d ''resource'') = Some r"
    "as_str (at_key r ''type'') = Some (lit (resource_as_str (rv_kind resource)))"
    "rv_kind resource \<in> set (es_resources spec)" by (rule check_resource_ok)
  from r(1) obtain rv where rv: "map_of d (lit ''resource'') = Some rv" "as_object rv = Some r"
    by (auto simp: at_key_def as_object_def split: option.splits)
  have "get_member rv (lit ''type'') = Some (at_key r ''type'')"
    using r(2) by (auto simp: get_member_def rv(2) at_key_def as_str_def split: option.splits)
  then have "rv_kind resource \<noteq> AuditStoreResource" and "\<not> is_control_type t"
    and "s \<noteq> AUDIT_STORE_SOURCE" "s \<noteq> AUDIT_RELAY_SOURCE"
    using path r(2) by (auto simp: check_path_def rv(1) reject_def split: if_splits)
  with A r find_spec_ok [OF spec] str check_details_same [OF det] check_details_keys [OF det]
  show ?thesis by (auto simp: JSONB_TEXT_LIMIT_def)
qed

subsection \<open>Checked catalogs\<close>

definition segment_ok :: "RawEvent \<Rightarrow> Segment \<Rightarrow> bool" where
  "segment_ok raw s = (case s of
     Detail f \<Rightarrow> detail_resolvable raw f
   | ResourceVersionId \<Rightarrow> re_version_required raw \<noteq> VersionForbidden
   | _ \<Rightarrow> True)"

lemma placeholder_ok: "placeholder template raw b name = Inr s \<Longrightarrow> segment_ok raw s"
  by (auto simp: placeholder_def segment_ok_def Let_def split: if_splits)

lemma parse_segments_ok: "parse_segments template raw b rest = Inr ss \<Longrightarrow> s \<in> set ss \<Longrightarrow> segment_ok raw s"
proof (induction template raw b rest arbitrary: ss rule: parse_segments.induct)
  case (2 template raw b c cs)
  show ?case
  proof (cases "c = 123")
    case True
    with 2 show ?thesis by (auto simp: and_then_ok dest: placeholder_ok split: if_splits)
  next
    case False
    with 2 show ?thesis by (auto simp: and_then_ok segment_ok_def split: if_splits)
  qed
qed simp

lemma check_subject_ok:
  assumes "check_subject raw subject = Inr shape" and "s \<in> set (su_segments shape)"
  shows "segment_ok raw s"
  using assms unfolding check_subject_def Let_def parse_template_def
  by (auto simp: and_then_ok map_err_ok dest: parse_segments_ok split: if_splits RawSubject.splits)

lemma check_event_ok:
  assumes "check_event sources raw = Inr spec"
  obtains raw' where "spec = event_of raw' (es_subjects spec)"
    and "\<forall>shape\<in>set (es_subjects spec). \<forall>s\<in>set (su_segments shape). segment_ok raw' s"
    and "\<forall>k\<in>set (es_resources spec). \<exists>shape\<in>set (es_subjects spec). is_none_or (\<lambda>only. only = k) (su_resource shape)"
proof -
  let ?raw = "derive_values sources raw"
  from assms obtain subjects where
    sub: "map_res (check_subject ?raw) (re_subjects ?raw) = Inr subjects"
    and each: "list_all (\<lambda>r. list_ex (\<lambda>s. is_none_or (\<lambda>only. only = r) (su_resource s)) subjects) (re_resources ?raw)"
    and spec: "spec = event_of ?raw subjects"
    unfolding check_event_def Let_def and_then_ok if_err_ok by auto
  show thesis
  proof (rule that [of ?raw])
    show "spec = event_of ?raw (es_subjects spec)" by (simp add: spec event_of_def)
    show "\<forall>shape\<in>set (es_subjects spec). \<forall>s\<in>set (su_segments shape). segment_ok ?raw s"
    proof (intro ballI)
      fix shape s
      assume "shape \<in> set (es_subjects spec)" and s: "s \<in> set (su_segments shape)"
      then have "shape \<in> set subjects" by (simp add: spec event_of_def)
      then obtain x where "check_subject ?raw x = Inr shape"
        using sub by (auto simp: map_res_ok list_all2_conv_all_nth in_set_conv_nth)
      then show "segment_ok ?raw s" using s by (rule check_subject_ok)
    qed
    show "\<forall>k\<in>set (es_resources spec). \<exists>shape\<in>set (es_subjects spec). is_none_or (\<lambda>only. only = k) (su_resource shape)"
      using each by (auto simp: spec event_of_def list_all_iff list_ex_iff)
  qed
qed

lemma collect_events_ok:
  assumes "collect_events adapters sources raws events index = Inr (events', index')"
    and "\<forall>e\<in>set events. \<exists>raw. check_event sources raw = Inr e"
  shows "\<forall>e\<in>set events'. \<exists>raw. check_event sources raw = Inr e"
  using assms
proof (induction raws arbitrary: events index)
  case (Cons raw raws)
  from Cons.prems(1) obtain e where "check_event sources raw = Inr e"
    and "collect_events adapters sources raws (events @ [e]) ((es_event_type e, length events) # index) = Inr (events', index')"
    by (auto simp: and_then_ok split: if_splits)
  with Cons.IH [of "events @ [e]"] Cons.prems(2) show ?case by auto
qed simp

lemma required_detail:
  assumes "segment_ok raw (Detail f)" and "spec = event_of raw subjects"
    and "check_details L spec path v = Inr details"
  shows "\<exists>text. Option.bind (map_of details f) as_str = Some text"
proof -
  from assms(1) obtain fs where f: "map_of (re_fields raw) f = Some fs" "fs_kind fs = UuidKind" "f \<in> set (re_required raw)"
    "re_service_executor_field raw \<noteq> Some f" "re_duplicated_actor_field raw \<noteq> Some f"
    by (auto simp: segment_ok_def detail_resolvable_def is_some_and_iff)
  then have field: "is_detail_field spec f" by (simp add: is_detail_field_def assms(2) event_of_def contains_key_def)
  with f have "f \<in> set (detail_required spec)" "(f, fs) \<in> set (detail_fields spec)"
    by (auto simp: detail_required_def detail_fields_def assms(2) event_of_def dest: map_of_SomeD)
  moreover from assms(3) have "\<forall>name\<in>set (detail_required spec). contains_key details name"
    and "\<forall>x\<in>set (detail_fields spec). check_detail L path details x = Inr ()"
    by (auto simp: check_details_def reject_def and_then_ok each_res_ok find_None_iff split: option.splits if_splits)
  ultimately obtain x where x: "map_of details f = Some x" and "check_detail L path details (f, fs) = Inr ()"
    by (auto simp: contains_key_def)
  then have "kind_accepts L UuidKind (fs_values fs) x"
    using f(2) by (auto simp: check_detail_def field_accepts_def split: if_splits)
  then show ?thesis using x by (auto simp: text_is_def is_some_and_iff)
qed

lemma push_segments_Some:
  assumes "\<forall>s\<in>set ss. segment_text i v details s \<noteq> None"
  shows "\<exists>text. push_segments i v details ss out = Some text"
  using assms by (induction ss arbitrary: out) auto

text \<open>
  Subjects of a checked catalog can always be written. For every entry of a catalog that passed
  its checks, and every resource and details admitted for that entry, some subject shape applies to the
  resource, and each shape that applies renders to a text, unless it asks for a version the entry does
  not require and the resource does not have. No placeholder names a missing or non-text detail.
\<close>

theorem checked_subjects_render:
  assumes "catalog_from_raw raw = Inr catalog" and "spec \<in> set (cat_events catalog)"
    and "check_resource spec path rv = Inr resource" and "check_details L spec path dv = Inr details"
  shows "(\<exists>shape\<in>set (es_subjects spec). is_none_or (\<lambda>only. only = rv_kind resource) (su_resource shape))
    \<and> (\<forall>shape\<in>set (es_subjects spec). is_none_or (\<lambda>only. only = rv_kind resource) (su_resource shape) \<longrightarrow>
        (\<exists>text. subject_render shape (rv_kind resource) (rv_id resource) (rv_version_id resource) details = Some text)
        \<or> ResourceVersionId \<in> set (su_segments shape) \<and> rv_version_id resource = None
          \<and> es_version_required spec = VersionOptional)"
proof -
  from assms(1) obtain index where "collect_events (rc_adapters raw) (catalog_sources (rc_adapters raw)) (rc_events raw) [] []
      = Inr (cat_events catalog, index)"
    by (auto simp: catalog_from_raw_def and_then_ok split: if_splits option.splits)
  from collect_events_ok [OF this] assms(2) obtain r where "check_event (catalog_sources (rc_adapters raw)) r = Inr spec"
    by auto
  then obtain raw' where spec: "spec = event_of raw' (es_subjects spec)"
    and segs: "\<forall>shape\<in>set (es_subjects spec). \<forall>s\<in>set (su_segments shape). segment_ok raw' s"
    and each: "\<forall>k\<in>set (es_resources spec). \<exists>shape\<in>set (es_subjects spec). is_none_or (\<lambda>only. only = k) (su_resource shape)"
    by (rule check_event_ok)
  from assms(3) have kind: "rv_kind resource \<in> set (es_resources spec)"
    and version: "version_ok_for (es_version_required spec) (rv_version_id resource)"
    by (auto elim: check_resource_ok)
  have req: "es_version_required spec = re_version_required raw'" by (subst spec) (simp add: event_of_def)
  have "(\<exists>text. subject_render shape (rv_kind resource) (rv_id resource) (rv_version_id resource) details = Some text)
      \<or> ResourceVersionId \<in> set (su_segments shape) \<and> rv_version_id resource = None \<and> es_version_required spec = VersionOptional"
    if shape: "shape \<in> set (es_subjects spec)" and app: "is_none_or (\<lambda>only. only = rv_kind resource) (su_resource shape)" for shape
  proof (cases "\<forall>s\<in>set (su_segments shape). segment_text (rv_id resource) (rv_version_id resource) details s \<noteq> None")
    case True
    have "\<not> is_some_and (\<lambda>only. only \<noteq> rv_kind resource) (su_resource shape)"
      using app by (cases "su_resource shape") auto
    then show ?thesis using push_segments_Some [OF True, of "[]"] by (simp add: subject_render_def)
  next
    case False
    then obtain s where s: "s \<in> set (su_segments shape)" "segment_text (rv_id resource) (rv_version_id resource) details s = None"
      by auto
    have ok: "segment_ok raw' s" using segs shape s(1) by auto
    show ?thesis
    proof (cases s)
      case (Detail f)
      from required_detail [OF ok [unfolded Detail] spec assms(4)] s(2) have False by (simp add: Detail)
      then show ?thesis ..
    next
      case ResourceVersionId
      then show ?thesis using s ok version req
        by (auto simp: version_ok_for_def segment_ok_def split: VersionRequirement.splits)
    qed (use s in auto)
  qed
  then show ?thesis using each kind by blast
qed

subsection \<open>Projection of staging rows\<close>

definition member_at :: "Value \<Rightarrow> string list \<Rightarrow> Value" where
  "member_at v path = foldl (\<lambda>v k. index_member v (lit k)) v path"

lemma member_at_canonical:
  "unique_keys v \<Longrightarrow> member_at (canonicalize v) path = canonicalize (member_at v path)"
proof (induction path arbitrary: v)
  case (Cons k path)
  have "unique_keys (index_member v (lit k))"
    using as_object_unique [OF Cons.prems]
    by (auto simp: index_member_def get_member_def bind_eq_Some_conv dest: unique_map_member split: option.splits)
  with Cons show ?case by (simp add: member_at_def index_member_canonical)
qed (simp add: member_at_def)

lemma project_ok:
  assumes "project L catalog row = Inr e"
  obtains data spec reason executor correlation details payload where
    "sp_source_intact row" and "\<not> sp_oversize row" and "sp_data row = Some (Object data)"
    and "catalog_get catalog (sp_event_type row) = Some spec" and "es_origin spec = Relay"
    and "\<not> contains_key data (lit ''reason'')"
    and "reason_summary spec row = Inr reason" and "check_duplicated_actor L spec row data = Inr ()"
    and "service_executor L spec data = Inr executor"
    and "details = filter (\<lambda>(key, _). is_detail_field spec key) data"
    and "correlation_of spec row details = Inr correlation"
    and "payload = payload_of spec row executor reason correlation details"
    and "from_value L catalog (envelope_of row payload) Relay = Inr e"
proof -
  have obj: "Option.bind x as_object = Some m \<Longrightarrow> x = Some (Object m)" for x m
    by (cases x) (auto simp: as_object_def split: Value.splits)
  from assms show thesis
    unfolding project_def admit_row_def reject_def and_then_ok Let_def
    by (auto simp: and_then_ok split: if_splits option.splits dest!: obj intro!: that)
qed

lemma put_member_simps [simp]:
  "map_of (put_member n v) k = (if k = lit n then Some v else None)"
  "map_of (put_member_opt n x) k = (if k = lit n then x else None)"
  "fst ` set (put_member n v) = {lit n}" "set (put_member n v) = {(lit n, v)}"
  "set (put_member_opt n x) = (case x of None \<Rightarrow> {} | Some v \<Rightarrow> {(lit n, v)})"
  by (auto simp: put_member_def put_member_opt_def split: option.splits)

lemma unique_map_append:
  "unique_map (m @ n) \<longleftrightarrow> unique_map m \<and> unique_map n \<and> fst ` set m \<inter> fst ` set n = {}"
  by (auto simp: unique_map_def)

lemma unique_map_put [simp]:
  "unique_map (put_member n v) = unique_keys v"
  "unique_map (put_member_opt n x) = is_none_or unique_keys x"
  by (cases x; simp add: unique_map_def put_member_def put_member_opt_def)+

lemma unique_values [simp]: "unique_keys (text_value s)" "unique_keys (int_value n)"
  by (simp_all add: text_value_def int_value_def)

lemma opt_keys: "fst ` set (put_member_opt n x) \<subseteq> {lit n}"
  by (cases x) auto

lemma fst_opt [simp]: "fst ` (case x of None \<Rightarrow> {} | Some v \<Rightarrow> {(k, v)}) = (if x = None then {} else {k})"
  by (cases x) auto

lemma index_unique: "unique_keys v \<Longrightarrow> unique_keys (index_member v k)"
  using as_object_unique [of v]
  by (auto simp: index_member_def get_member_def bind_eq_Some_conv dest: unique_map_member split: option.splits)

lemma lifted_unique: "unique_map details \<Longrightarrow> is_none_or unique_keys (lifted f details)"
  by (auto simp: lifted_def is_none_or_iff bind_eq_Some_conv dest: unique_map_member)

lemma unique_filter: "unique_map m \<Longrightarrow> unique_map (filter P m)"
  unfolding unique_map_def by (auto simp: distinct_map_filter)

lemma correlation_unique:
  assumes "correlation_of spec row details = Inr c" and "unique_map details"
  shows "unique_map c"
  using assms(1) lifted_unique [OF assms(2)] unfolding correlation_of_def Let_def reject_def
  by (auto simp: unique_map_append split: option.splits if_splits)

lemma executor_unique:
  assumes "service_executor L spec data = Inr x" and "unique_map data"
  shows "is_none_or unique_keys x"
proof (cases "Option.bind (es_service_executor_field spec) (\<lambda>field. map_option (Pair field) (map_of data field))")
  case (Some y)
  then obtain f v where y: "y = (f, v)" "map_of data f = Some v" by (auto simp: bind_eq_Some_conv)
  from unique_map_member [OF assms(2) y(2)] have "unique_keys v" .
  with assms(1) Some y(1) show ?thesis
    by (auto simp: service_executor_def unique_Object unique_map_append index_unique
        simp del: unique_keys.simps(1) split: if_splits)
qed (use assms in \<open>simp add: service_executor_def\<close>)

lemma reason_unique: "reason_summary spec row = Inr x \<Longrightarrow> is_none_or unique_keys x"
  unfolding reason_summary_def reject_def
  by (auto simp: unique_Object unique_map_append simp del: unique_keys.simps(1)
      split: ReasonPolicy.splits option.splits if_splits)

lemma payload_unique:
  assumes "is_none_or unique_keys executor" and "is_none_or unique_keys reason"
    and "unique_map correlation" and "unique_map details"
  shows "unique_map (payload_of spec row executor reason correlation details)"
  using assms lifted_unique [OF assms(4), of "es_reason_code_field spec"] unfolding payload_of_def unique_map_append
  by (cases executor; cases reason; cases "lifted (es_reason_code_field spec) details";
      cases "sp_resource_version_id row")
    (simp_all add: unique_Object unique_map_append unique_map_def [of "[]"] del: unique_keys.simps(1))

lemma payload_members:
  assumes "payload = payload_of spec row executor reason correlation details"
  shows "map_of payload (lit ''details'') = Some (Object details)" "map_of payload (lit ''reason'') = reason"
    "map_of payload (lit ''actor'') = Some (Object (put_member ''issuer'' (text_value (sp_actor_identity_provider row))
          @ put_member ''principal_id'' (text_value (sp_actor_principal_id row))))"
    "map_of payload (lit ''provenance'') = Some (Object (put_member ''source_format'' (text_value LEGACY_SOURCE_FORMAT)
          @ put_member ''adapter_version'' (int_value LEGACY_ADAPTER_VERSION)
          @ put_member ''source_commitment'' (text_value (sp_source_commitment row))
          @ put_member ''registration'' (text_value (sp_registration_kind row))))"
  unfolding assms payload_of_def by (simp_all add: map_of_append map_add_def split: option.splits)

text \<open>The summary of a reason the store keeps: that there was one and how many bytes it had.\<close>

definition kept_reason :: "EventSpec \<Rightarrow> DocumentStagingProjection \<Rightarrow> Value" where
  "kept_reason spec row = (case es_reason spec of
     Absent \<Rightarrow> Null
   | CallerText \<Rightarrow> Object (put_member ''provided'' (Bool True)
       @ put_member ''utf8_bytes'' (int_value (the (sp_reason_bytes row)))
       @ put_member ''text_retained'' (text_value REASON_TEXT_RETAINED)))"

lemma reason_summary_kept:
  "reason_summary spec row = Inr x \<Longrightarrow> (case x of None \<Rightarrow> Null | Some v \<Rightarrow> v) = kept_reason spec row"
  unfolding reason_summary_def kept_reason_def reject_def
  by (auto split: ReasonPolicy.splits option.splits if_splits)

text \<open>
  Projection keeps the staging row and nothing else. A projected row was intact and not oversize;
  the envelope carries its identifier, type, source, subject, time, actor and commitment unchanged; its
  details are exactly those members of the row's data that the catalog lists as details; and of the
  reason it carries the length only, never the text, which the data must not contain.
\<close>

theorem projection_keeps_the_row:
  assumes "project L catalog row = Inr e" and "\<And>v. sp_data row = Some v \<Longrightarrow> unique_keys v"
  shows "sp_source_intact row \<and> \<not> sp_oversize row \<and> ae_origin e = Relay
    \<and> member_at (ae_value e) [''id''] = String (sp_event_id row)
    \<and> member_at (ae_value e) [''type''] = String (sp_event_type row)
    \<and> member_at (ae_value e) [''source''] = String (sp_source row)
    \<and> member_at (ae_value e) [''subject''] = String (sp_subject row)
    \<and> member_at (ae_value e) [''time''] = String (sp_occurred_at row)
    \<and> member_at (ae_value e) [''data'', ''actor'', ''issuer''] = String (sp_actor_identity_provider row)
    \<and> member_at (ae_value e) [''data'', ''actor'', ''principal_id''] = String (sp_actor_principal_id row)
    \<and> member_at (ae_value e) [''data'', ''provenance'', ''source_commitment''] = String (sp_source_commitment row)
    \<and> (\<exists>data spec. sp_data row = Some (Object data) \<and> catalog_get catalog (sp_event_type row) = Some spec
        \<and> lit ''reason'' \<notin> fst ` set data
        \<and> member_at (ae_value e) [''data'', ''details''] =
            canonicalize (Object (filter (\<lambda>(key, _). is_detail_field spec key) data))
        \<and> member_at (ae_value e) [''data'', ''reason''] = canonicalize (kept_reason spec row))"
proof (rule project_ok [OF assms(1)])
  fix data spec reason executor correlation details payload
  assume row: "sp_source_intact row" "\<not> sp_oversize row" and data: "sp_data row = Some (Object data)"
    and spec: "catalog_get catalog (sp_event_type row) = Some spec"
    and no_reason: "\<not> contains_key data (lit ''reason'')"
    and reason: "reason_summary spec row = Inr reason" and executor: "service_executor L spec data = Inr executor"
    and details: "details = filter (\<lambda>(key, _). is_detail_field spec key) data"
    and correlation: "correlation_of spec row details = Inr correlation"
    and payload: "payload = payload_of spec row executor reason correlation details"
    and made: "from_value L catalog (envelope_of row payload) Relay = Inr e"
  have u: "unique_map data" using assms(2) [OF data] unfolding unique_Object .
  have ud: "unique_map details" unfolding details using u by (rule unique_filter)
  have up: "unique_map payload" unfolding payload
    by (rule payload_unique [OF executor_unique [OF executor u] reason_unique [OF reason]
          correlation_unique [OF correlation ud] ud])
  then have uv: "unique_keys (envelope_of row payload)"
    unfolding envelope_of_def unique_Object unique_map_append
    by (simp add: unique_Object del: unique_keys.simps(1))
  have e: "ae_value e = canonicalize (envelope_of row payload)" "ae_origin e = Relay"
    using made by (auto simp: from_value_def and_then_ok)
  note look = member_at_def envelope_of_def index_member_def get_member_def as_object_def map_of_append
    map_add_def text_value_def
  note members = payload_members [OF payload]
  have at: "member_at (ae_value e) path = canonicalize (member_at (envelope_of row payload) path)" for path
    unfolding e(1) by (rule member_at_canonical [OF uv])
  have d: "member_at (envelope_of row payload) (''data'' # path) = member_at (Object payload) path" for path
    by (simp add: look)
  have top: "member_at (envelope_of row payload) [''id''] = String (sp_event_id row)"
    "member_at (envelope_of row payload) [''type''] = String (sp_event_type row)"
    "member_at (envelope_of row payload) [''source''] = String (sp_source row)"
    "member_at (envelope_of row payload) [''subject''] = String (sp_subject row)"
    "member_at (envelope_of row payload) [''time''] = String (sp_occurred_at row)"
    by (simp_all add: look)
  have inner: "member_at (Object payload) [''details''] = Object details"
    "member_at (Object payload) [''reason''] = kept_reason spec row"
    "member_at (Object payload) [''actor'', ''issuer''] = String (sp_actor_identity_provider row)"
    "member_at (Object payload) [''actor'', ''principal_id''] = String (sp_actor_principal_id row)"
    "member_at (Object payload) [''provenance'', ''source_commitment''] = String (sp_source_commitment row)"
    using reason_summary_kept [OF reason]
    by (simp_all add: member_at_def index_member_def get_member_def as_object_def members map_of_append
        map_add_def text_value_def)
  show ?thesis
    unfolding at d top inner details using row e(2) data spec no_reason by (simp add: contains_key_iff)
qed

end
