(* ===== verification/Audit_Port_Props.thy ===== *)
theory Audit_Port_Props
  imports Audit_Port Audit_Admission Audit_Tamper
begin

text \<open>
  The port of the audit store: a terminal error is always a verdict of the store, a
  receipt is complete, and digests survive their text form.
\<close>

subsection \<open>Digests as text\<close>

lemma as_bytes_ascii: "list_all (\<lambda>c. c < 128) s \<Longrightarrow> as_bytes s = s"
  by (induction s) (auto simp: as_bytes_def utf8_char_def)

lemma nth_to_hex:
  "i < length d \<Longrightarrow> to_hex d ! (2 * i) = hex_digit (d ! i div 16) \<and> to_hex d ! (2 * i + 1) = hex_digit (d ! i mod 16)"
proof (induction d arbitrary: i)
  case (Cons b d)
  then show ?case by (cases i) (simp_all add: to_hex_def)
qed simp

lemma length_to_hex: "length (to_hex d) = 2 * length d"
  by (induction d) (simp_all add: to_hex_def)

lemma hex_digit_ok:
  assumes "0 \<le> n" and "n < 16"
  shows "is_lower_hex (hex_digit n) \<and> nibble (hex_digit n) = n \<and> hex_digit n < 128"
  using assms by (auto simp: hex_digit_def is_lower_hex_def nibble_def ascii_digit_def)

definition byte_ok :: "int \<Rightarrow> bool" where
  "byte_ok b \<longleftrightarrow> 0 \<le> b \<and> b < 256"

lemma byte_nibbles: "byte_ok b \<Longrightarrow> 0 \<le> b div 16 \<and> b div 16 < 16 \<and> 0 \<le> b mod 16 \<and> b mod 16 < 16"
  unfolding byte_ok_def by (auto simp: div_less_iff_less_mult)

lemma set_to_hex:
  assumes "list_all byte_ok d" and "c \<in> set (to_hex d)"
  shows "is_lower_hex c \<and> c < 128"
  using assms by (auto simp: to_hex_def list_all_iff hex_digit_ok dest!: byte_nibbles)

text \<open>
  Digests survive their text form: the lowercase hexadecimal rendering of a 32-byte digest parses
  back to the digest, so two digests with the same text are the same.
\<close>

theorem digest_text_roundtrip:
  assumes "length d = 32" and "list_all byte_ok d"
  shows "parse_hex32 (to_hex d) = Some d"
proof -
  have chars: "list_all (\<lambda>c. c < 128) (to_hex d)" "list_all is_lower_hex (to_hex d)"
    using set_to_hex [OF assms(2)] by (auto simp: list_all_iff)
  then have bytes: "as_bytes (to_hex d) = to_hex d" by (simp add: as_bytes_ascii)
  have "is_hex_digest (to_hex d)"
    using length_as_bytes [of "to_hex d"] chars(2) by (simp add: is_hex_digest_def bytes length_to_hex assms(1))
  moreover have "map (\<lambda>i. nibble (to_hex d ! (2 * i)) * 16 + nibble (to_hex d ! (2 * i + 1))) [0..<32] = d"
  proof (rule nth_equalityI)
    fix i
    assume "i < length (map (\<lambda>i. nibble (to_hex d ! (2 * i)) * 16 + nibble (to_hex d ! (2 * i + 1))) [0..<32])"
    then have i: "i < length d" using assms(1) by simp
    with assms(2) have "byte_ok (d ! i)" by (simp add: list_all_length)
    from byte_nibbles [OF this] nth_to_hex [OF i] hex_digit_ok [of "d ! i div 16"] hex_digit_ok [of "d ! i mod 16"]
    have "nibble (to_hex d ! (2 * i)) * 16 + nibble (to_hex d ! (2 * i + 1)) = d ! i div 16 * 16 + d ! i mod 16"
      by simp
    with i assms(1) show "map (\<lambda>i. nibble (to_hex d ! (2 * i)) * 16 + nibble (to_hex d ! (2 * i + 1))) [0..<32] ! i = d ! i"
      by simp
  qed (simp add: assms(1))
  ultimately show ?thesis by (simp add: parse_hex32_def bytes Let_def)
qed

subsection \<open>Rows of the store\<close>

lemma outcome_parse_Some: "outcome_parse s = Some o' \<Longrightarrow> s = lit (outcome_as_str o')"
  by (auto simp: outcome_parse_def split: if_splits)

lemma decode_receipt_Some:
  "decode_receipt row o' = Some r \<longleftrightarrow>
     iw_seq row = Some (ir_seq r) \<and> 1 \<le> ir_seq r \<and> iw_envelope_digest row = Some (ir_envelope_digest r)
     \<and> length (ir_envelope_digest r) = 32 \<and> iw_adapter_version row = Some (ir_adapter_version r)
     \<and> 1 \<le> ir_adapter_version r \<and> ir_outcome r = o'"
  unfolding decode_receipt_def digest32_def by (cases r) (auto split: option.splits if_splits)

text \<open>
  A terminal error is a verdict of the store. Decoding a result row gives a receipt only when the
  row names a settled outcome, carries no code and its position, 32-byte digest and adapter version are
  all present and valid; it gives a conflict only for the status \<open>conflict\<close> with a whole receipt or none,
  and a rejection only for the status \<open>rejected\<close> with a bounded code and no receipt column. Every other
  row, malformed ones included, is an outage, so no defect of the store can quarantine an event.
\<close>

theorem terminal_errors_are_verdicts:
  "(into_result row = Inr r \<longrightarrow>
      iw_status row = lit (outcome_as_str (ir_outcome r)) \<and> iw_code row = None
      \<and> iw_seq row = Some (ir_seq r) \<and> 1 \<le> ir_seq r \<and> iw_envelope_digest row = Some (ir_envelope_digest r)
      \<and> length (ir_envelope_digest r) = 32 \<and> iw_adapter_version row = Some (ir_adapter_version r)
      \<and> 1 \<le> ir_adapter_version r)
    \<and> (into_result row = Inl e \<longrightarrow> is_terminal e \<longrightarrow>
        e = Conflict \<and> iw_status row = lit ''conflict''
          \<and> (iw_seq row = None) = (iw_envelope_digest row = None)
          \<and> (iw_seq row = None) = (iw_adapter_version row = None)
        \<or> (\<exists>c. e = Rejected c \<and> iw_status row = lit ''rejected'' \<and> iw_code row = Some c \<and> is_code c
          \<and> iw_seq row = None \<and> iw_envelope_digest row = None \<and> iw_adapter_version row = None))"
proof (cases "outcome_parse (iw_status row)")
  case (Some o')
  then show ?thesis
    by (auto simp: into_result_def ok_or_ok decode_receipt_Some is_terminal_def ok_or_def
        dest!: outcome_parse_Some split: if_splits option.splits)
next
  case None
  then show ?thesis
    by (auto simp: into_result_def Let_def receipt_columns_def is_terminal_def BoundedCode_new_def
        bind_eq_Some_conv split: if_splits option.splits)
qed

text \<open>Whatever the projection accepts passes the check in front of the store.\<close>

theorem projected_rows_pass_precheck: "project L catalog row = Inr e \<Longrightarrow> precheck_ingest e = Inr ()"
  by (erule project_ok) (auto simp: precheck_ingest_def from_value_def and_then_ok)

lemma decoded_receipt_consistent:
  assumes "decode_receipt_row catalog raw = Inr row"
  shows "1 \<le> rp_seq row \<and> 1 \<le> rp_recovery_epoch row \<and> length (rp_envelope_digest row) = 32
    \<and> is_event_type (rp_event_type row) \<and> is_control_type (rp_event_type row) = (rp_origin row \<noteq> Relay)
    \<and> (rp_origin row \<noteq> Relay \<longrightarrow> rp_source_commitment row = None \<and> \<not> rp_expired row)"
  using assms unfolding decode_receipt_row_def Let_def
  by (auto simp: and_then_ok ok_or_ok traverse_opt_ok digest32_def EventTypeName_new_def origin_matches_type_def
      split: if_splits)

end
