(* ===== verification/Audit_Examples.thy ===== *)
theory Audit_Examples
  imports Audit_Expiry Audit_Port_Props
begin

text \<open>
  Concrete instances of the audit theorems: a catalog with one event type, a staging
  row and its envelope, and an export of two rows in which the store purged the body of
  the first. The libraries are small concrete functions; the hash keeps the
  length and the last bytes, which separates the byte strings hashed here.
\<close>

subsection \<open>Libraries\<close>

fun raw_of :: "Value \<Rightarrow> RawJson" where
  "raw_of Null = RawNull"
| "raw_of (Bool b) = RawBool b"
| "raw_of (Number (IntNumber n)) = RawInt n"
| "raw_of (Number (FloatNumber t)) = RawFloat (Some t)"
| "raw_of (String s) = RawStr s"
| "raw_of (Array xs) = RawSeq (map raw_of xs) True"
| "raw_of (Object m) = RawMap (map (\<lambda>(k, v). (k, raw_of v)) m) True"

definition first_uuid :: ustr where "first_uuid = lit ''00000000-0000-7000-8000-000000000001''"
definition second_uuid :: ustr where "second_uuid = lit ''00000000-0000-7000-8000-000000000002''"

definition example_hash :: "int list \<Rightarrow> int list" where
  "example_hash bytes = int (length bytes mod 256) # drop (length bytes) (replicate 31 0 @ bytes)"

definition purged_body :: Value where
  "purged_body = Object
     [(lit ''id'', String second_uuid), (lit ''type'', String BODY_PURGED), (lit ''source'', String AUDIT_STORE_SOURCE),
      (lit ''data'', Object [(lit ''details'', Object
        [(lit ''target_seq'', Number (IntNumber 1)), (lit ''target_event_id'', String first_uuid)])])]"

definition line_value :: "Value \<Rightarrow> Value" where
  "line_value envelope = Object (map (\<lambda>k. (k, if k = lit ''envelope'' then envelope else Null)) LINE_KEYS)"

definition example_parse_uuid :: "ustr \<Rightarrow> uuid option" where
  "example_parse_uuid s = (if s = first_uuid then Some 1 else if s = second_uuid then Some 2 else None)"

definition first_chain :: "int list" where
  "first_chain = example_hash (CHAIN_DOMAIN @ GENESIS @ be 8 1 @ be 16 1 @ example_hash (as_bytes (lit ''first'')))"

definition second_chain :: "int list" where
  "second_chain = example_hash (CHAIN_DOMAIN @ first_chain @ be 8 2 @ be 16 2 @ example_hash (as_bytes (lit ''second'')))"

definition example_read_line :: "ustr \<Rightarrow> RawLine option" where
  "example_read_line t =
     (if t = lit ''1'' then Some
        \<lparr>rl_seq = 1, rl_event_id = first_uuid, rl_origin = lit ''relay'',
         rl_envelope_digest = to_hex (example_hash (as_bytes (lit ''first''))), rl_prev_chain = to_hex GENESIS,
         rl_chain = to_hex first_chain, rl_recovery_epoch = 1, rl_expired = True,
         rl_expired_by_seq = Some 2, rl_envelope = None\<rparr>
      else if t = lit ''2'' then Some
        \<lparr>rl_seq = 2, rl_event_id = second_uuid, rl_origin = lit ''store'',
         rl_envelope_digest = to_hex (example_hash (as_bytes (lit ''second''))), rl_prev_chain = to_hex first_chain,
         rl_chain = to_hex second_chain, rl_recovery_epoch = 1, rl_expired = False,
         rl_expired_by_seq = None, rl_envelope = Some (lit ''second'')\<rparr>
      else None)"

definition example_export :: ustr where
  "example_export = lit ''1'' @ [10] @ lit ''2'' @ [10]"

subsection \<open>A catalog and a staging row\<close>

definition example_raw_catalog :: RawCatalog where
  "example_raw_catalog =
     \<lparr>rc_version = 1,
      rc_adapters = [\<lparr>ad_source = DOCUMENT_SOURCE, ad_origin = Relay, ad_source_format = LEGACY_SOURCE_FORMAT,
        ad_adapter_version = 1, ad_commitment = Required, ad_registration = Required, ad_trace_id = False\<rparr>],
      rc_events = [\<lparr>re_event_type = lit ''document.created'', re_source = DOCUMENT_SOURCE, re_origin = Relay,
        re_event_class = ContentLifecycle, re_resources = [DocumentResource], re_version_required = VersionForbidden,
        re_results = [lit ''success''], re_subjects = [Template (lit ''documents/{resource.id}/{details.folderId}'')],
        re_fields = [(lit ''folderId'', \<lparr>fs_kind = UuidKind, fs_values = [], fs_client_chosen = False\<rparr>)],
        re_required = [lit ''folderId''], re_reason = CallerText, re_reason_code_field = None,
        re_service_executor_field = None, re_duplicated_actor_field = None, re_operation_id_field = None,
        re_publish_operation_id_field = None, re_nil_resource_allowed = False, re_bindings = [],
        re_client_chosen_resource_ids = [], re_client_chosen_version_id = False\<rparr>]\<rparr>"

definition example_catalog :: Catalog where
  "example_catalog = (case catalog_from_raw example_raw_catalog of Inr c \<Rightarrow> c)"

definition example_row :: DocumentStagingProjection where
  "example_row =
     \<lparr>sp_event_id = first_uuid, sp_event_type = lit ''document.created'', sp_source = DOCUMENT_SOURCE,
      sp_subject = lit ''documents/'' @ first_uuid @ lit ''/'' @ second_uuid,
      sp_actor_identity_provider = lit ''poc'', sp_actor_principal_id = lit ''alice'',
      sp_resource_type = lit ''Document'', sp_resource_id = first_uuid, sp_resource_version_id = None,
      sp_result = lit ''success'', sp_trace_id = None, sp_occurred_at = lit ''2026-10-04T00:00:00.000000Z'',
      sp_oversize = False, sp_data = Some (Object [(lit ''folderId'', String second_uuid)]),
      sp_data_kind = lit ''object'', sp_reason_kind = Some (lit ''string''), sp_reason_bytes = Some 12,
      sp_source_intact = True, sp_source_commitment = to_hex GENESIS, sp_registration_kind = lit ''trigger''\<rparr>"

definition example_payload :: "(ustr \<times> Value) list" where
  "example_payload = payload_of (hd (cat_events example_catalog)) example_row None
     (Some (kept_reason (hd (cat_events example_catalog)) example_row)) [] [(lit ''folderId'', String second_uuid)]"

definition example_lib :: audit_lib where
  "example_lib =
     \<lparr>from_ordinal_date = (\<lambda>y d. 1 \<le> d \<and> d \<le> 366), from_calendar_date = (\<lambda>y m d. 1 \<le> d \<and> d \<le> 31),
      parse_uuid = example_parse_uuid, uuid_string = (\<lambda>u. if u = 1 then first_uuid else second_uuid),
      sha256 = example_hash,
      tokens = (\<lambda>t. (raw_of (if t = lit ''1'' then line_value Null else if t = lit ''2'' then line_value purged_body
         else envelope_of example_row example_payload), True))\<rparr>"

subsection \<open>Evaluation\<close>

lemma example_catalog_ok: "is_ok (catalog_from_raw example_raw_catalog)"
  by code_simp

lemma example_project_ok: "is_ok (project example_lib example_catalog example_row)"
  by code_simp

lemma example_verify_ok:
  "is_ok (verify_export_complete example_lib example_catalog example_read_line example_export AnchorGenesis 2)"
  by code_simp

definition example_report :: ExportReport where
  "example_report = (case verify_export_complete example_lib example_catalog example_read_line example_export AnchorGenesis 2
     of Inr r \<Rightarrow> r)"

lemma example_report_eq:
  "verify_export_complete example_lib example_catalog example_read_line example_export AnchorGenesis 2 = Inr example_report"
  using example_verify_ok by (auto simp: example_report_def is_ok_iff)

definition example_rows :: "Line list" where
  "example_rows = export_rows example_lib example_read_line example_export"

text \<open>The rows the store held before the purge: the first still has its body.\<close>

definition example_stored :: "Line list" where
  "example_stored = (case example_rows of l # ls \<Rightarrow>
     l\<lparr>ln_expired_by_seq := None, ln_body := Some \<lparr>bo_text = lit ''first'', bo_id = Some first_uuid,
       bo_event_type = None, bo_source = None, bo_evidence = None\<rparr>\<rparr> # ls)"

definition example_checkpoint :: Checkpoint where
  "example_checkpoint = \<lparr>cp_epoch = 1, cp_seq = 2, cp_chain = second_chain\<rparr>"

lemma hashed_list:
  "hashed ls = set (map chain_input ls @ List.map_filter (\<lambda>l. map_option (\<lambda>b. as_bytes (bo_text b)) (ln_body l)) ls)"
proof -
  have "set (List.map_filter (\<lambda>l. map_option (\<lambda>b. as_bytes (bo_text b)) (ln_body l)) ls)
      = (\<lambda>b. as_bytes (bo_text b)) ` {b. \<exists>l\<in>set ls. ln_body l = Some b}"
    by (force simp: map_filter_simps_set)
  then show ?thesis by (simp add: hashed_def)
qed

lemma inj_on_list: "distinct (map f (remdups xs)) \<Longrightarrow> inj_on f (set xs)"
  by (simp add: distinct_map)

lemma example_stored_ok:
  "linked example_lib Checkpoint_GENESIS example_stored \<and> list_all row_ok example_stored
    \<and> end_of Checkpoint_GENESIS example_stored = example_checkpoint
    \<and> compare_checkpoint example_report example_checkpoint = Match"
  by code_simp

lemma example_hash_separates:
  "inj_on (sha256 example_lib) (hashed example_rows \<union> hashed example_stored)"
proof -
  have "distinct (map (sha256 example_lib) (remdups
     ((map chain_input example_rows @ List.map_filter (\<lambda>l. map_option (\<lambda>b. as_bytes (bo_text b)) (ln_body l)) example_rows)
      @ (map chain_input example_stored @ List.map_filter (\<lambda>l. map_option (\<lambda>b. as_bytes (bo_text b)) (ln_body l)) example_stored))))"
    by code_simp
  from inj_on_list [OF this] show ?thesis by (simp only: hashed_list set_append)
qed

lemma example_uuid_lib: "uuid_lib example_lib"
  by (simp add: uuid_lib_def example_lib_def example_parse_uuid_def)

subsection \<open>Witnesses\<close>

theorem checkpoint_authenticates_history_witness:
  "length example_rows = 2 \<and> map row_identity (take 2 example_rows) = map row_identity example_stored"
proof -
  have "verify example_lib example_catalog example_read_line (Some AnchorGenesis) Bodies (Some 2) example_export
      = Inr example_report"
    using example_report_eq by (simp add: verify_export_complete_def)
  from checkpoint_authenticates_history [OF this, of example_checkpoint example_stored]
    example_stored_ok example_hash_separates example_uuid_lib
  have "map row_identity (take (length example_stored) example_rows) = map row_identity example_stored"
    by (simp add: example_rows_def [symmetric])
  moreover have "length example_stored = 2 \<and> length example_rows = 2" by code_simp
  ultimately show ?thesis by simp
qed

theorem authentic_verdict_earned_witness:
  "\<exists>c\<in>set [example_checkpoint]. compare_checkpoint example_report c = Match"
proof -
  have "as_verdict (assess_recovery example_report [example_checkpoint] []) = Authentic" by code_simp
  from authentic_verdict_earned [OF this] show ?thesis by auto
qed

theorem complete_export_accounts_for_expiry_witness:
  "\<exists>l\<in>set example_rows. ln_body l = None \<and> ln_expired_by_seq l = Some 2 \<and> ln_origin l = Relay
    \<and> (\<exists>m\<in>set example_rows. ln_seq m = 2 \<and> (\<exists>ev. removal_at m ev))"
proof -
  have "list_ex (\<lambda>l. ln_expired_by_seq l = Some 2) example_rows" by code_simp
  then obtain l where l: "l \<in> set (export_rows example_lib example_read_line example_export)" "ln_expired_by_seq l = Some 2"
    by (auto simp: list_ex_iff example_rows_def)
  with complete_export_accounts_for_expiry [OF example_report_eq l(1)]
  have "ln_body l = None \<and> ln_origin l = Relay
      \<and> (\<exists>m\<in>set example_rows. ln_seq m = 2 \<and> (\<exists>ev. removal_at m ev))"
    unfolding example_rows_def by auto
  with l show ?thesis unfolding example_rows_def by blast
qed

definition example_object :: Value where
  "example_object = Object [(lit ''id'', String (lit ''a'')), (lit ''n'', Array [Number (IntNumber (-12)), Null, Bool True])]"

theorem jsonb_text_len_exact_witness:
  "text_ok example_object \<and> jsonb_text_len example_object = min u64_max (utf8_len (jsonb_text example_object))"
proof -
  have "text_ok example_object" by code_simp
  with jsonb_text_len_exact [OF this] show ?thesis by simp
qed

definition example_envelope :: AuditEnvelope where
  "example_envelope = (case project example_lib example_catalog example_row of Inr e \<Rightarrow> e)"

lemma example_project_eq: "project example_lib example_catalog example_row = Inr example_envelope"
  using example_project_ok by (auto simp: example_envelope_def is_ok_iff)

theorem accepted_envelope_revalidates_witness:
  "\<exists>e. from_json example_lib example_catalog (lit ''3'') Relay = Inr e
    \<and> from_value example_lib example_catalog (ae_value e) Relay = Inr e \<and> canonicalize (ae_value e) = ae_value e"
proof -
  have "is_ok (from_json example_lib example_catalog (lit ''3'') Relay)" by code_simp
  then obtain e where "from_json example_lib example_catalog (lit ''3'') Relay = Inr e" by (auto simp: is_ok_iff)
  with accepted_envelope_revalidates [OF this] show ?thesis by blast
qed

theorem relay_path_confined_witness:
  "\<exists>spec. validate_with example_lib example_catalog (ae_value example_envelope) Relay = Inr spec
    \<and> es_origin spec = Relay \<and> jsonb_text_len (ae_value example_envelope) \<le> 32768"
proof -
  have "is_ok (validate_with example_lib example_catalog (ae_value example_envelope) Relay)" by code_simp
  then obtain spec where spec: "validate_with example_lib example_catalog (ae_value example_envelope) Relay = Inr spec"
    by (auto simp: is_ok_iff)
  from relay_path_confined [OF this] spec show ?thesis by blast
qed

theorem projection_keeps_the_row_witness:
  "member_at (ae_value example_envelope) [''id''] = String first_uuid
    \<and> member_at (ae_value example_envelope) [''subject''] = String (sp_subject example_row)"
proof -
  have "unique_keys v" if "sp_data example_row = Some v" for v
    using that by (auto simp: example_row_def)
  from projection_keeps_the_row [OF example_project_eq this] show ?thesis by (simp add: example_row_def)
qed

definition example_spec :: EventSpec where "example_spec = hd (cat_events example_catalog)"

definition example_resource_value :: Value where
  "example_resource_value = Object [(lit ''type'', String (lit ''Document'')), (lit ''id'', String first_uuid)]"

definition example_details_value :: Value where
  "example_details_value = Object [(lit ''folderId'', String second_uuid)]"

theorem checked_subjects_render_witness:
  "\<exists>resource details. check_resource example_spec Relay example_resource_value = Inr resource
    \<and> check_details example_lib example_spec Relay example_details_value = Inr details
    \<and> (\<exists>shape\<in>set (es_subjects example_spec). is_none_or (\<lambda>only. only = rv_kind resource) (su_resource shape))"
proof -
  have raw: "catalog_from_raw example_raw_catalog = Inr example_catalog"
    using example_catalog_ok by (auto simp: example_catalog_def is_ok_iff)
  have "cat_events example_catalog \<noteq> [] \<and> is_ok (check_resource example_spec Relay example_resource_value)
      \<and> is_ok (check_details example_lib example_spec Relay example_details_value)"
    by code_simp
  then obtain resource details where r: "check_resource example_spec Relay example_resource_value = Inr resource"
    and d: "check_details example_lib example_spec Relay example_details_value = Inr details"
    and "example_spec \<in> set (cat_events example_catalog)"
    by (auto simp: is_ok_iff example_spec_def)
  from checked_subjects_render [OF raw this(3) r d] r d show ?thesis by blast
qed

theorem digest_text_roundtrip_witness: "parse_hex32 (to_hex GENESIS) = Some GENESIS"
proof -
  have "length GENESIS = 32" "list_all byte_ok GENESIS" by code_simp+
  from digest_text_roundtrip [OF this] show ?thesis .
qed

definition example_ingest :: IngestRow where
  "example_ingest = \<lparr>iw_status = lit ''rejected'', iw_seq = None, iw_envelope_digest = None,
     iw_adapter_version = None, iw_code = Some (lit ''bad_envelope'')\<rparr>"

theorem terminal_errors_are_verdicts_witness:
  "into_result example_ingest = Inl (Rejected (lit ''bad_envelope'')) \<and> is_code (lit ''bad_envelope'')"
proof -
  have "into_result example_ingest = Inl (Rejected (lit ''bad_envelope''))" by code_simp
  with terminal_errors_are_verdicts [of example_ingest undefined "Rejected (lit ''bad_envelope'')"] show ?thesis
    by (simp add: is_terminal_def)
qed

end
