(* ===== verification/Relay_Breaker.thy ===== *)
theory Relay_Breaker
  imports Audit_Legacy Audit_Port Outbox_Policy
begin

text \<open>
  Admission of the audit relay (\<open>breaker.rs\<close>): a circuit breaker with a probe of the store
  and a regression gate. The breaker is shared; every method locks it for the time of one
  update, so it is a machine whose steps are those methods, and concurrent callers appear as
  sequences of steps. The asynchronous gate is a program over these steps and over the calls
  to the store and to the source database, whose answers are arbitrary: any interleaving of
  several gates with the handlers is a list of events in which each caller follows its own
  program. Instants and durations are numbers of nanoseconds. Counters are 64-bit and wrap.
\<close>

subsection \<open>Data\<close>

record BreakerConfig =
  bc_initial_cooldown :: duration
  bc_max_cooldown :: duration
  bc_probe_timeout :: duration
  bc_closed_claims :: int

definition default_breaker_config :: BreakerConfig where
  "default_breaker_config = \<lparr>bc_initial_cooldown = from_secs 1, bc_max_cooldown = from_secs 60,
     bc_probe_timeout = from_secs 5, bc_closed_claims = 32\<rparr>"

datatype CircuitMode = ClosedMode | OpenMode | HalfOpenMode

primrec circuit_as_str :: "CircuitMode \<Rightarrow> ustr" where
  "circuit_as_str ClosedMode = lit ''closed''"
| "circuit_as_str OpenMode = lit ''open''"
| "circuit_as_str HalfOpenMode = lit ''half_open''"

datatype Gate = GateUnknown | GateOk | GateOutage OutageCode | GateSourceUnavailable | GateRegressed

primrec gate_as_str :: "Gate \<Rightarrow> ustr" where
  "gate_as_str GateUnknown = lit ''unknown''"
| "gate_as_str GateOk = lit ''ok''"
| "gate_as_str (GateOutage code) = lit (outage_as_str code)"
| "gate_as_str GateSourceUnavailable = lit ''source_unavailable''"
| "gate_as_str GateRegressed = lit (outage_as_str Regressed)"

datatype CircuitState = Closed | Open int | HalfOpen "int option"

record Breaker =
  br_config :: BreakerConfig
  br_state :: CircuitState
  br_cooldown :: duration
  br_epoch_hint :: "int option"
  br_regressed_epoch :: "int option"
  br_gate :: Gate
  br_outages :: int
  br_outage_streak :: int
  br_permits :: int

record BreakerSnapshot =
  bs_mode :: CircuitMode
  bs_gate :: Gate
  bs_outage_streak :: int
  bs_outages :: int

record BreakerPermit =
  bp_id :: int
  bp_epoch :: int
  bp_half_open :: bool

subsection \<open>Methods\<close>

definition u64_succ :: "int \<Rightarrow> int" where "u64_succ n = (n + 1) mod 2 ^ 64"

definition Breaker_new :: "BreakerConfig \<Rightarrow> Breaker" where
  "Breaker_new config = \<lparr>br_config = config, br_state = HalfOpen None, br_cooldown = bc_initial_cooldown config,
     br_epoch_hint = None, br_regressed_epoch = None, br_gate = GateUnknown, br_outages = 0, br_outage_streak = 0,
     br_permits = 1\<rparr>"

primrec circuit_mode :: "CircuitState \<Rightarrow> CircuitMode" where
  "circuit_mode Closed = ClosedMode"
| "circuit_mode (Open u) = OpenMode"
| "circuit_mode (HalfOpen a) = HalfOpenMode"

definition breaker_snapshot :: "Breaker \<Rightarrow> BreakerSnapshot" where
  "breaker_snapshot b = \<lparr>bs_mode = circuit_mode (br_state b), bs_gate = br_gate b,
     bs_outage_streak = br_outage_streak b, bs_outages = br_outages b\<rparr>"

definition record_outage :: "int \<Rightarrow> Breaker \<Rightarrow> Breaker" where
  "record_outage now b = b\<lparr>br_outages := u64_succ (br_outages b), br_outage_streak := u64_succ (br_outage_streak b),
     br_state := Open (now + br_cooldown b),
     br_cooldown := min (br_cooldown b * 2) (bc_max_cooldown (br_config b))\<rparr>"

definition record_verdict :: "Breaker \<Rightarrow> Breaker" where
  "record_verdict b = b\<lparr>br_state := Closed, br_cooldown := bc_initial_cooldown (br_config b), br_outage_streak := 0\<rparr>"

definition breaker_release :: "int \<Rightarrow> Breaker \<Rightarrow> Breaker" where
  "breaker_release permit_id b =
     (case br_state b of
        HalfOpen (Some i) \<Rightarrow> if i = permit_id then b\<lparr>br_state := HalfOpen None\<rparr> else b
      | _ \<Rightarrow> b)"

definition breaker_admit :: "int \<Rightarrow> int \<Rightarrow> Breaker \<Rightarrow> Breaker \<times> BreakerPermit option" where
  "breaker_admit now epoch b =
     (let admitted = (\<lambda>half_open. let i = br_permits b; b' = b\<lparr>br_permits := u64_succ i\<rparr> in
            (if half_open then b'\<lparr>br_state := HalfOpen (Some i)\<rparr> else b',
             Some \<lparr>bp_id = i, bp_epoch = epoch, bp_half_open = half_open\<rparr>))
      in case br_state b of
           Closed \<Rightarrow> admitted False
         | Open until \<Rightarrow> if now < until then (b, None) else admitted True
         | HalfOpen None \<Rightarrow> admitted True
         | HalfOpen (Some _) \<Rightarrow> (b, None))"

definition cooling_down :: "int \<Rightarrow> Breaker \<Rightarrow> bool" where
  "cooling_down now b = (case br_state b of Open until \<Rightarrow> now < until | _ \<Rightarrow> False)"

definition max_claims_per_permit :: "Breaker \<Rightarrow> int" where
  "max_claims_per_permit b = (case circuit_mode (br_state b) of
     ClosedMode \<Rightarrow> max (bc_closed_claims (br_config b)) 1 | _ \<Rightarrow> 1)"

text \<open>The block of the gate that looks at a recorded regression: whether the epoch is refused.\<close>

definition settle_regressed :: "int \<Rightarrow> Breaker \<Rightarrow> Breaker \<times> bool" where
  "settle_regressed epoch b =
     (case br_regressed_epoch b of
        Some regressed \<Rightarrow> if regressed = epoch then (b\<lparr>br_gate := GateRegressed\<rparr>, True)
          else (b\<lparr>br_regressed_epoch := None\<rparr>, False)
      | None \<Rightarrow> (b, False))"

subsection \<open>Steps under the lock\<close>

datatype breaker_op =
    RecordOutage int | RecordVerdict | Release int | SetGate Gate | Admit int int | CoolingDown int
  | ReadHint | SetHint int | SettleRegressed int | MarkRegressed int

datatype reply = Unit | Flag bool | Hint "int option" | Permit "BreakerPermit option"

fun breaker_step :: "breaker_op \<Rightarrow> Breaker \<Rightarrow> Breaker \<times> reply" where
  "breaker_step (RecordOutage now) b = (record_outage now b, Unit)"
| "breaker_step RecordVerdict b = (record_verdict b, Unit)"
| "breaker_step (Release i) b = (breaker_release i b, Unit)"
| "breaker_step (SetGate g) b = (b\<lparr>br_gate := g\<rparr>, Unit)"
| "breaker_step (Admit now epoch) b = map_prod (\<lambda>b. b) Permit (breaker_admit now epoch b)"
| "breaker_step (CoolingDown now) b = (b, Flag (cooling_down now b))"
| "breaker_step ReadHint b = (b, Hint (br_epoch_hint b))"
| "breaker_step (SetHint epoch) b = (b\<lparr>br_epoch_hint := Some epoch\<rparr>, Unit)"
| "breaker_step (SettleRegressed epoch) b = map_prod (\<lambda>b. b) Flag (settle_regressed epoch b)"
| "breaker_step (MarkRegressed epoch) b = (b\<lparr>br_regressed_epoch := Some epoch, br_gate := GateRegressed\<rparr>, Unit)"

subsection \<open>The gate as a program\<close>

text \<open>
  The calls that leave the process, and their answers. A missing answer is a time-out; the
  clock is read before each step that needs it.
\<close>

datatype query = AskAcked int | AskProbe ProbeExpectation | AskReport ReceiptIdentity | AskClock

datatype answer =
    Acked "ReceiptIdentity option option" | Probed "(StoreError + StoreStatus) option" | Reported | Clock int

datatype 'a prog = Ret 'a | Do breaker_op "reply \<Rightarrow> 'a prog" | Ask query "answer \<Rightarrow> 'a prog"

primrec prog_bind :: "'a prog \<Rightarrow> ('a \<Rightarrow> 'b prog) \<Rightarrow> 'b prog" where
  "prog_bind (Ret x) f = f x"
| "prog_bind (Do p k) f = Do p (\<lambda>r. prog_bind (k r) f)"
| "prog_bind (Ask q k) f = Ask q (\<lambda>a. prog_bind (k a) f)"

definition now_then :: "(int \<Rightarrow> 'a prog) \<Rightarrow> 'a prog" where
  "now_then f = Ask AskClock (\<lambda>a. case a of Clock t \<Rightarrow> f t | _ \<Rightarrow> f 0)"

definition outage_of :: "StoreError \<Rightarrow> OutageCode" where
  "outage_of e = (case outage_code e of Some c \<Rightarrow> c | None \<Rightarrow> Other)"

definition expectation :: "Catalog \<Rightarrow> ReceiptIdentity option \<Rightarrow> ProbeExpectation" where
  "expectation catalog last_ack =
     (case expectation_from_catalog catalog DOCUMENT_SOURCE last_ack of
        Some e \<Rightarrow> e
      | None \<Rightarrow> \<lparr>px_source = DOCUMENT_SOURCE, px_adapter_version = LEGACY_ADAPTER_VERSION, px_types = [],
          px_last_ack = last_ack\<rparr>)"

definition refuse :: "Gate \<Rightarrow> int option prog" where
  "refuse g = Do (SetGate g) (\<lambda>_.
     if g \<noteq> GateSourceUnavailable then now_then (\<lambda>t. Do (RecordOutage t) (\<lambda>_. Ret None)) else Ret None)"

definition probe_with :: "Catalog \<Rightarrow> ReceiptIdentity option \<Rightarrow> (Gate + StoreStatus \<times> ReceiptIdentity option) prog" where
  "probe_with catalog last_ack = Ask (AskProbe (expectation catalog last_ack)) (\<lambda>a.
     case a of Probed (Some (Inr status)) \<Rightarrow> Ret (Inr (status, last_ack))
       | Probed (Some (Inl e)) \<Rightarrow> Ret (Inl (GateOutage (outage_of e)))
       | _ \<Rightarrow> Ret (Inl (GateOutage Timeout)))"

definition probe_at :: "Catalog \<Rightarrow> int option \<Rightarrow> (Gate + StoreStatus \<times> ReceiptIdentity option) prog" where
  "probe_at catalog epoch =
     (case epoch of
        None \<Rightarrow> probe_with catalog None
      | Some e \<Rightarrow> Ask (AskAcked e) (\<lambda>a.
          case a of Acked (Some acked) \<Rightarrow> probe_with catalog acked | _ \<Rightarrow> Ret (Inl GateSourceUnavailable)))"

definition gate_decide :: "StoreStatus \<Rightarrow> ReceiptIdentity option \<Rightarrow> int option prog" where
  "gate_decide status last_ack =
     (let epoch = ss_recovery_epoch status in
      Do (SettleRegressed epoch) (\<lambda>r.
        if r = Flag True then Ret None
        else case state_outage_code (ss_state status) of
          Some code \<Rightarrow> refuse (GateOutage code)
        | None \<Rightarrow>
            if ss_regression_detected status then
              Do (MarkRegressed epoch) (\<lambda>_. now_then (\<lambda>t. Do (RecordOutage t) (\<lambda>_.
                case last_ack of
                  Some i \<Rightarrow> Ask (AskReport i) (\<lambda>_. Ret None)
                | None \<Rightarrow> Ret None)))
            else case admission status of
              Inl code \<Rightarrow> refuse (GateOutage code)
            | Inr _ \<Rightarrow> Do (SetGate GateOk) (\<lambda>_. Ret (Some epoch))))"

definition gate :: "Catalog \<Rightarrow> int option prog" where
  "gate catalog = Do ReadHint (\<lambda>r. let hint = (case r of Hint h \<Rightarrow> h | _ \<Rightarrow> None) in
     prog_bind (probe_at catalog hint) (\<lambda>probed. case probed of
       Inl g \<Rightarrow> refuse g
     | Inr (status, last_ack) \<Rightarrow>
         if hint \<noteq> Some (ss_recovery_epoch status) then
           let epoch = ss_recovery_epoch status in
           Do (SetHint epoch) (\<lambda>_. prog_bind (probe_at catalog (Some epoch)) (\<lambda>again. case again of
             Inl g \<Rightarrow> refuse g
           | Inr (status', last_ack') \<Rightarrow>
               if ss_recovery_epoch status' \<noteq> epoch then
                 Do (SetHint (ss_recovery_epoch status')) (\<lambda>_. Do (SetGate GateUnknown) (\<lambda>_. Ret None))
               else gate_decide status' last_ack'))
         else gate_decide status last_ack))"

definition acquire :: "Catalog \<Rightarrow> BreakerPermit option prog" where
  "acquire catalog = now_then (\<lambda>t. Do (CoolingDown t) (\<lambda>r.
     if r = Flag True then Ret None
     else prog_bind (gate catalog) (\<lambda>admitted. case admitted of
       None \<Rightarrow> Ret None
     | Some epoch \<Rightarrow> now_then (\<lambda>t'. Do (Admit t' epoch) (\<lambda>r'.
         case r' of Permit p \<Rightarrow> Ret p | _ \<Rightarrow> Ret None)))))"

subsection \<open>Executions\<close>

datatype event = Op breaker_op reply | Answered query answer

fun follow :: "'a prog \<Rightarrow> event list \<Rightarrow> 'a prog option" where
  "follow p [] = Some p"
| "follow (Do p k) (Op p' r # evs) = (if p = p' then follow (k r) evs else None)"
| "follow (Ask q k) (Answered q' a # evs) = (if q = q' then follow (k a) evs else None)"
| "follow p evs = None"

fun breaker_run :: "(breaker_op \<times> reply) list \<Rightarrow> Breaker \<Rightarrow> Breaker option" where
  "breaker_run [] b = Some b"
| "breaker_run ((p, r) # steps) b = (case breaker_step p b of (b', r') \<Rightarrow> if r = r' then breaker_run steps b' else None)"

definition ops_of :: "event list \<Rightarrow> (breaker_op \<times> reply) list" where
  "ops_of evs = List.map_filter (\<lambda>e. case e of Op p r \<Rightarrow> Some (p, r) | _ \<Rightarrow> None) evs"

end
