(* ===== verification/Relay_Admission.thy ===== *)
theory Relay_Admission
  imports Relay_Breaker
begin

text \<open>
  What the circuit breaker and the gate guarantee in every interleaving. The counters, the
  cooldown and the circuit state are functions of the outages and verdicts recorded; a
  half-open circuit has one permit at a time; a permit is granted only after a probe of an
  operational store with the acknowledged receipt of the store's own epoch; and a regression
  stays in force until a gate meets another epoch.
\<close>

subsection \<open>Runs\<close>

lemma breaker_run_append:
  "breaker_run (xs @ ys) b = Option.bind (breaker_run xs b) (breaker_run ys)"
  by (induction xs b rule: breaker_run.induct) (auto split: prod.splits)

lemma breaker_run_Cons:
  "breaker_run ((p, r) # steps) b = Some b' \<longleftrightarrow>
     breaker_run steps (fst (breaker_step p b)) = Some b' \<and> r = snd (breaker_step p b)"
  by (auto split: prod.splits)

lemma breaker_run_snoc:
  "breaker_run (steps @ [(p, r)]) b = Some b' \<longleftrightarrow>
     (\<exists>c. breaker_run steps b = Some c \<and> breaker_step p c = (b', r))"
proof (cases "breaker_run steps b")
  case (Some c)
  then show ?thesis by (cases "breaker_step p c") (auto simp: breaker_run_append)
qed (simp add: breaker_run_append)

text \<open>The outages recorded, and the outages since the last verdict, as the steps tell them.\<close>

definition outages_in :: "(breaker_op \<times> reply) list \<Rightarrow> nat" where
  "outages_in steps = length (filter (\<lambda>(p, _). case p of RecordOutage _ \<Rightarrow> True | _ \<Rightarrow> False) steps)"

definition streak_of :: "(breaker_op \<times> reply) list \<Rightarrow> nat" where
  "streak_of steps = outages_in (takeWhile (\<lambda>(p, _). p \<noteq> RecordVerdict) (rev steps))"

definition permits_in :: "(breaker_op \<times> reply) list \<Rightarrow> nat" where
  "permits_in steps = length (filter (\<lambda>(_, r). case r of Permit (Some _) \<Rightarrow> True | _ \<Rightarrow> False) steps)"

lemma count_snoc:
  "outages_in (steps @ [(p, r)]) = outages_in steps + (case p of RecordOutage _ \<Rightarrow> 1 | _ \<Rightarrow> 0)"
  "streak_of (steps @ [(p, r)]) = (if p = RecordVerdict then 0 else streak_of steps + (case p of RecordOutage _ \<Rightarrow> 1 | _ \<Rightarrow> 0))"
  "permits_in (steps @ [(p, r)]) = permits_in steps + (case r of Permit (Some _) \<Rightarrow> 1 | _ \<Rightarrow> 0)"
  by (simp_all add: outages_in_def streak_of_def permits_in_def split: breaker_op.split reply.split option.split)

lemma u64_succ_mod: "u64_succ (int n mod 2 ^ 64) = int (n + 1) mod 2 ^ 64"
  by (simp add: u64_succ_def mod_simps add.commute)

text \<open>The cooldown after a number of outages in a row.\<close>

definition backoff :: "BreakerConfig \<Rightarrow> nat \<Rightarrow> duration" where
  "backoff c n = min (bc_initial_cooldown c * 2 ^ n) (bc_max_cooldown c)"

lemma backoff_double:
  assumes "0 \<le> bc_initial_cooldown c" and "bc_initial_cooldown c \<le> bc_max_cooldown c"
  shows "min (backoff c n * 2) (bc_max_cooldown c) = backoff c (Suc n)"
proof -
  have "bc_max_cooldown c \<le> bc_max_cooldown c * 2" using assms by simp
  then show ?thesis unfolding backoff_def min_def by (auto simp: mult.assoc mult.commute)
qed

definition admissible_at :: "int \<Rightarrow> CircuitState \<Rightarrow> bool" where
  "admissible_at now st = (case st of Closed \<Rightarrow> True | Open u \<Rightarrow> u \<le> now | HalfOpen a \<Rightarrow> a = None)"

lemma breaker_admit_eq:
  "breaker_admit now epoch b =
     (if admissible_at now (br_state b)
      then (b\<lparr>br_permits := u64_succ (br_permits b),
              br_state := (if br_state b = Closed then Closed else HalfOpen (Some (br_permits b)))\<rparr>,
            Some \<lparr>bp_id = br_permits b, bp_epoch = epoch, bp_half_open = (br_state b \<noteq> Closed)\<rparr>)
      else (b, None))"
  by (cases b; cases "br_state b") (auto simp: breaker_admit_def admissible_at_def Let_def split: option.split)

lemmas step_defs = record_outage_def record_verdict_def breaker_release_def settle_regressed_def breaker_admit_eq

lemma step_config: "breaker_step p b = (b', r) \<Longrightarrow> br_config b' = br_config b"
  by (cases p) (auto simp: step_defs split: CircuitState.splits option.splits if_splits)

lemma step_outages:
  "breaker_step p b = (b', r) \<Longrightarrow>
     br_outages b' = (case p of RecordOutage _ \<Rightarrow> u64_succ (br_outages b) | _ \<Rightarrow> br_outages b)"
  by (cases p) (auto simp: step_defs split: CircuitState.splits option.splits if_splits)

lemma step_streak:
  "breaker_step p b = (b', r) \<Longrightarrow>
     br_outage_streak b' = (case p of RecordOutage _ \<Rightarrow> u64_succ (br_outage_streak b) | RecordVerdict \<Rightarrow> 0
       | _ \<Rightarrow> br_outage_streak b)"
  by (cases p) (auto simp: step_defs split: CircuitState.splits option.splits if_splits)

lemma step_permits:
  "breaker_step p b = (b', r) \<Longrightarrow>
     br_permits b' = (case r of Permit (Some _) \<Rightarrow> u64_succ (br_permits b) | _ \<Rightarrow> br_permits b)"
  by (cases p) (auto simp: step_defs split: CircuitState.splits option.splits if_splits)

lemma step_cooldown:
  "breaker_step p b = (b', r) \<Longrightarrow>
     br_cooldown b' = (case p of RecordOutage _ \<Rightarrow> min (br_cooldown b * 2) (bc_max_cooldown (br_config b))
       | RecordVerdict \<Rightarrow> bc_initial_cooldown (br_config b) | _ \<Rightarrow> br_cooldown b)"
  by (cases p) (auto simp: step_defs split: CircuitState.splits option.splits if_splits)

subsection \<open>Counters and cooldown\<close>

text \<open>
  Counters and cooldown are exactly what happened. After any sequence of steps on a new breaker,
  whoever made them, the outage count and the streak are the numbers of outages recorded in all and
  since the last verdict, the next permit number is one more than the permits granted, each modulo the
  64-bit range, and the cooldown is the initial one doubled once per outage of the streak, up to the
  maximum.
\<close>

theorem breaker_counts_exact:
  assumes "0 \<le> bc_initial_cooldown c" and "bc_initial_cooldown c \<le> bc_max_cooldown c"
    and "breaker_run steps (Breaker_new c) = Some b"
  shows "br_config b = c \<and> br_outages b = int (outages_in steps) mod 2 ^ 64
    \<and> br_outage_streak b = int (streak_of steps) mod 2 ^ 64
    \<and> br_permits b = int (permits_in steps + 1) mod 2 ^ 64 \<and> br_cooldown b = backoff c (streak_of steps)"
  using assms(3)
proof (induction steps arbitrary: b rule: rev_induct)
  case Nil
  then show ?case
    using assms(1,2)
    by (auto simp: Breaker_new_def outages_in_def streak_of_def permits_in_def backoff_def min_def)
next
  case (snoc s steps)
  obtain p r where s: "s = (p, r)" by (cases s)
  from snoc.prems obtain a where a: "breaker_run steps (Breaker_new c) = Some a" and step: "breaker_step p a = (b, r)"
    by (auto simp: s breaker_run_snoc)
  note IH = snoc.IH [OF a]
  have "br_cooldown b = backoff c (streak_of (steps @ [s]))"
    using IH step_cooldown [OF step] backoff_double [OF assms(1,2)] assms(1,2)
    by (cases p) (auto simp: s count_snoc backoff_def min_def)
  moreover have "br_permits b = int (permits_in (steps @ [s]) + 1) mod 2 ^ 64"
    using IH step_permits [OF step] u64_succ_mod [of "permits_in steps + 1"]
    by (auto simp: s count_snoc split: reply.split option.split)
  moreover have "br_outage_streak b = int (streak_of (steps @ [s])) mod 2 ^ 64"
    using IH step_streak [OF step] u64_succ_mod [of "streak_of steps"] by (cases p) (auto simp: s count_snoc)
  moreover have "br_outages b = int (outages_in (steps @ [s])) mod 2 ^ 64"
    using IH step_outages [OF step] u64_succ_mod [of "outages_in steps"] by (cases p) (auto simp: s count_snoc)
  ultimately show ?case using IH step_config [OF step] by simp
qed

subsection \<open>The circuit\<close>

lemma step_half_open:
  assumes "breaker_step p b = (b', r)" and "br_state b = HalfOpen (Some i)"
    and "p \<noteq> RecordVerdict" and "\<forall>t. p \<noteq> RecordOutage t" and "p \<noteq> Release i"
  shows "br_state b' = HalfOpen (Some i) \<and> (\<forall>q. r \<noteq> Permit (Some q))"
  using assms by (cases p) (auto simp: step_defs admissible_at_def split: option.splits if_splits)

lemma run_half_open:
  assumes "breaker_run steps b = Some b'" and "br_state b = HalfOpen (Some i)"
    and "\<forall>(p, r)\<in>set steps. p \<noteq> RecordVerdict \<and> (\<forall>t. p \<noteq> RecordOutage t) \<and> p \<noteq> Release i"
  shows "br_state b' = HalfOpen (Some i) \<and> (\<forall>p q. (p, Permit (Some q)) \<notin> set steps)"
  using assms
proof (induction steps arbitrary: b)
  case (Cons s steps)
  obtain p r where s: "s = (p, r)" by (cases s)
  from Cons.prems(1) obtain c where step: "breaker_step p b = (c, r)" and run: "breaker_run steps c = Some b'"
    by (auto simp: s split: prod.splits if_splits)
  from step_half_open [OF step Cons.prems(2)] Cons.prems(3)
  have "br_state c = HalfOpen (Some i)" "\<forall>q. r \<noteq> Permit (Some q)" by (auto simp: s)
  with Cons.IH [OF run] Cons.prems(3) show ?case by (auto simp: s)
qed simp

lemma step_open:
  assumes "breaker_step p b = (b', r)" and "br_state b = Open u"
    and "p \<noteq> RecordVerdict" and "\<forall>t. p \<noteq> RecordOutage t"
  shows "(\<forall>q. r \<noteq> Permit (Some q)) \<and> br_state b' = Open u \<or> (\<exists>t e q. p = Admit t e \<and> r = Permit (Some q) \<and> u \<le> t)"
  using assms by (cases p) (auto simp: step_defs admissible_at_def split: option.splits if_splits)

lemma run_open:
  assumes "breaker_run steps b = Some b'" and "br_state b = Open u"
    and "\<forall>(p, r)\<in>set steps. p \<noteq> RecordVerdict \<and> (\<forall>t. p \<noteq> RecordOutage t) \<and> (\<forall>q. r \<noteq> Permit (Some q))"
  shows "br_state b' = Open u"
  using assms
proof (induction steps arbitrary: b)
  case (Cons s steps)
  obtain p r where s: "s = (p, r)" by (cases s)
  from Cons.prems(1) obtain c where step: "breaker_step p b = (c, r)" and run: "breaker_run steps c = Some b'"
    by (auto simp: s split: prod.splits if_splits)
  from step_open [OF step Cons.prems(2)] Cons.prems(3) have "br_state c = Open u" by (auto simp: s)
  with Cons.IH [OF run] Cons.prems(3) show ?case by (auto simp: s)
qed simp

lemma run_split:
  assumes "breaker_run (pre @ (p, r) # post) b = Some b'"
  obtains a c where "breaker_run pre b = Some a" and "breaker_step p a = (c, r)" and "breaker_run post c = Some b'"
proof (cases "breaker_run pre b")
  case (Some a)
  with assms show ?thesis by (cases "breaker_step p a") (auto simp: breaker_run_append that split: if_splits)
qed (use assms in \<open>simp add: breaker_run_append\<close>)

text \<open>
  The circuit admits one claim at a time until the store has answered. In any sequence of steps on
  a breaker, consider a half-open permit and a later permit with neither an outage nor a verdict recorded
  between them: the first permit was released in between. And after an outage, the next permit before any
  verdict is granted only when the cooldown that was in force at the outage has passed, and is half-open.
\<close>

theorem half_open_discipline:
  assumes "breaker_run (pre @ (p, r) # mid @ [(Admit t' e', Permit (Some q'))]) b = Some b'"
    and "\<forall>(o', _)\<in>set mid. o' \<noteq> RecordVerdict \<and> (\<forall>t. o' \<noteq> RecordOutage t)"
  shows "(\<forall>q. r = Permit (Some q) \<longrightarrow> bp_half_open q \<longrightarrow> Release (bp_id q) \<in> fst ` set mid)
    \<and> (\<forall>t a. p = RecordOutage t \<longrightarrow> (\<forall>(_, r')\<in>set mid. \<forall>q. r' \<noteq> Permit (Some q)) \<longrightarrow>
        breaker_run pre b = Some a \<longrightarrow> t + br_cooldown a \<le> t' \<and> bp_half_open q')"
proof -
  from assms(1) obtain a c where a: "breaker_run pre b = Some a" and step: "breaker_step p a = (c, r)"
    and run: "breaker_run (mid @ [(Admit t' e', Permit (Some q'))]) c = Some b'" by (rule run_split)
  from run obtain d where mid: "breaker_run mid c = Some d" and admit: "breaker_step (Admit t' e') d = (b', Permit (Some q'))"
    by (auto simp: breaker_run_snoc)
  have "Release (bp_id q) \<in> fst ` set mid" if "r = Permit (Some q)" "bp_half_open q" for q
  proof (rule ccontr)
    assume no: "Release (bp_id q) \<notin> fst ` set mid"
    from step that have "br_state c = HalfOpen (Some (bp_id q))"
      by (cases p) (auto simp: breaker_admit_eq settle_regressed_def split: if_splits option.splits)
    from run_half_open [OF mid this] no assms(2) have "br_state d = HalfOpen (Some (bp_id q))" by force
    with admit show False by (simp add: breaker_admit_eq admissible_at_def)
  qed
  moreover have "t + br_cooldown a \<le> t' \<and> bp_half_open q'"
    if "p = RecordOutage t" "\<forall>(_, r')\<in>set mid. \<forall>q. r' \<noteq> Permit (Some q)" for t
  proof -
    from step that(1) have "br_state c = Open (t + br_cooldown a)" by (auto simp: record_outage_def)
    from run_open [OF mid this] that(2) assms(2) have "br_state d = Open (t + br_cooldown a)" by force
    with admit show ?thesis by (auto simp: breaker_admit_eq admissible_at_def split: if_splits)
  qed
  ultimately show ?thesis using a by auto
qed

subsection \<open>The gate\<close>

lemma follow_Do:
  "follow (Do p k) evs = Some (Ret x) \<longleftrightarrow> (\<exists>r rest. evs = Op p r # rest \<and> follow (k r) rest = Some (Ret x))"
  by (cases evs rule: list.exhaust; cases "hd evs") auto

lemma follow_Ask:
  "follow (Ask q k) evs = Some (Ret x) \<longleftrightarrow> (\<exists>a rest. evs = Answered q a # rest \<and> follow (k a) rest = Some (Ret x))"
  by (cases evs rule: list.exhaust; cases "hd evs") auto

lemma follow_Ret: "follow (Ret y) evs = Some (Ret x) \<longleftrightarrow> evs = [] \<and> y = x"
  by (cases evs) auto

lemmas follow_steps = follow_Do follow_Ask follow_Ret

lemma follow_bind:
  "follow (prog_bind p f) evs = Some (Ret x) \<longleftrightarrow>
     (\<exists>xs ys y. evs = xs @ ys \<and> follow p xs = Some (Ret y) \<and> follow (f y) ys = Some (Ret x))"
proof (induction p arbitrary: evs)
  case (Ret y)
  then show ?case by (auto simp: follow_Ret)
next
  case (Do p k)
  then show ?case by (simp add: follow_Do) (metis append_Cons)
next
  case (Ask q k)
  then show ?case by (simp add: follow_Ask) (metis append_Cons)
qed

lemma follow_now: "follow (now_then f) evs = Some (Ret x) \<longleftrightarrow>
    (\<exists>a t rest. evs = Answered AskClock a # rest \<and> t = (case a of Clock t \<Rightarrow> t | _ \<Rightarrow> 0) \<and> follow (f t) rest = Some (Ret x))"
  unfolding now_then_def follow_Ask by (auto split: answer.splits)

lemma refuse_none: "follow (refuse g) evs = Some (Ret x) \<Longrightarrow> x = None"
  by (auto simp: refuse_def follow_steps follow_now split: if_splits)

lemma probe_with_ok:
  assumes "follow (probe_with catalog acked) evs = Some (Ret (Inr (status, last_ack)))"
  shows "evs = [Answered (AskProbe (expectation catalog acked)) (Probed (Some (Inr status)))] \<and> last_ack = acked"
proof -
  from assms obtain a rest where a: "evs = Answered (AskProbe (expectation catalog acked)) a # rest"
    and rest: "follow (case a of Probed (Some (Inr status)) \<Rightarrow> Ret (Inr (status, acked))
       | Probed (Some (Inl e)) \<Rightarrow> Ret (Inl (GateOutage (outage_of e)))
       | _ \<Rightarrow> Ret (Inl (GateOutage Timeout))) rest = Some (Ret (Inr (status, last_ack)))"
    by (auto simp: probe_with_def follow_Ask)
  from rest show ?thesis unfolding a
    by (cases a) (auto simp: follow_Ret split: option.splits sum.splits)
qed

lemma probe_ok:
  assumes "follow (probe_at catalog epoch) evs = Some (Ret (Inr (status, last_ack)))"
  shows "Answered (AskProbe (expectation catalog last_ack)) (Probed (Some (Inr status))) \<in> set evs
    \<and> (\<forall>e. epoch = Some e \<longrightarrow> Answered (AskAcked e) (Acked (Some last_ack)) \<in> set evs)"
proof (cases epoch)
  case None
  with assms show ?thesis by (auto simp: probe_at_def dest: probe_with_ok)
next
  case (Some e)
  with assms obtain a rest where a: "evs = Answered (AskAcked e) a # rest"
    and rest: "follow (case a of Acked (Some acked) \<Rightarrow> probe_with catalog acked | _ \<Rightarrow> Ret (Inl GateSourceUnavailable)) rest
      = Some (Ret (Inr (status, last_ack)))" by (auto simp: probe_at_def follow_Ask)
  from rest obtain acked where "a = Acked (Some acked)" "follow (probe_with catalog acked) rest = Some (Ret (Inr (status, last_ack)))"
    by (cases a) (auto simp: follow_Ret split: option.splits)
  with a Some show ?thesis by (auto dest: probe_with_ok)
qed

lemma decide_ok:
  assumes "follow (gate_decide status last_ack) evs = Some (Ret (Some epoch))"
  shows "epoch = ss_recovery_epoch status \<and> admission status = Inr ()
    \<and> (\<exists>r. Op (SettleRegressed epoch) r \<in> set evs \<and> r \<noteq> Flag True)"
  using assms unfolding gate_decide_def Let_def
  by (auto simp: follow_steps follow_now split: option.splits if_splits sum.splits dest: refuse_none)

text \<open>What a gate that lets an epoch pass has seen.\<close>

definition gate_proof :: "Catalog \<Rightarrow> int \<Rightarrow> event list \<Rightarrow> bool" where
  "gate_proof catalog epoch evs \<longleftrightarrow>
     (\<exists>status last_ack r. Answered (AskProbe (expectation catalog last_ack)) (Probed (Some (Inr status))) \<in> set evs
       \<and> Answered (AskAcked epoch) (Acked (Some last_ack)) \<in> set evs
       \<and> ss_recovery_epoch status = epoch \<and> admission status = Inr ()
       \<and> Op (SettleRegressed epoch) r \<in> set evs \<and> r \<noteq> Flag True)"

lemma gate_proofI:
  assumes "follow (probe_at catalog (Some epoch)) xs = Some (Ret (Inr (status, last_ack)))"
    and "follow (gate_decide status last_ack) ys = Some (Ret (Some e))" and "ss_recovery_epoch status = epoch"
    and "set xs \<union> set ys \<subseteq> set evs"
  shows "gate_proof catalog e evs"
  using probe_ok [OF assms(1)] decide_ok [OF assms(2)] assms(3,4) unfolding gate_proof_def by blast

lemma gate_ok:
  assumes "follow (gate catalog) evs = Some (Ret (Some epoch))"
  shows "gate_proof catalog epoch evs"
proof -
  from assms obtain r rest where evs: "evs = Op ReadHint r # rest"
    and rest: "follow (let hint = (case r of Hint h \<Rightarrow> h | _ \<Rightarrow> None) in
     prog_bind (probe_at catalog hint) (\<lambda>probed. case probed of
       Inl g \<Rightarrow> refuse g
     | Inr (status, last_ack) \<Rightarrow>
         if hint \<noteq> Some (ss_recovery_epoch status) then
           let epoch = ss_recovery_epoch status in
           Do (SetHint epoch) (\<lambda>_. prog_bind (probe_at catalog (Some epoch)) (\<lambda>again. case again of
             Inl g \<Rightarrow> refuse g
           | Inr (status', last_ack') \<Rightarrow>
               if ss_recovery_epoch status' \<noteq> epoch then
                 Do (SetHint (ss_recovery_epoch status')) (\<lambda>_. Do (SetGate GateUnknown) (\<lambda>_. Ret None))
               else gate_decide status' last_ack'))
         else gate_decide status last_ack)) rest = Some (Ret (Some epoch))"
    unfolding gate_def follow_Do by blast
  define hint where "hint = (case r of Hint h \<Rightarrow> h | _ \<Rightarrow> None)"
  from rest [folded hint_def, unfolded Let_def follow_bind] obtain xs ys y where xs: "rest = xs @ ys"
    "follow (probe_at catalog hint) xs = Some (Ret y)" and ys: "follow (case y of
       Inl g \<Rightarrow> refuse g
     | Inr (status, last_ack) \<Rightarrow>
         if hint \<noteq> Some (ss_recovery_epoch status) then
           Do (SetHint (ss_recovery_epoch status)) (\<lambda>_. prog_bind (probe_at catalog (Some (ss_recovery_epoch status))) (\<lambda>again. case again of
             Inl g \<Rightarrow> refuse g
           | Inr (status', last_ack') \<Rightarrow>
               if ss_recovery_epoch status' \<noteq> ss_recovery_epoch status then
                 Do (SetHint (ss_recovery_epoch status')) (\<lambda>_. Do (SetGate GateUnknown) (\<lambda>_. Ret None))
               else gate_decide status' last_ack'))
         else gate_decide status last_ack) ys = Some (Ret (Some epoch))" by blast
  show ?thesis
  proof (cases y)
    case (Inl g)
    with ys refuse_none [of g ys] show ?thesis by simp
  next
    case (Inr z)
    obtain status last_ack where z: "z = (status, last_ack)" by (cases z)
    show ?thesis
    proof (cases "hint = Some (ss_recovery_epoch status)")
      case True
      with ys Inr z xs show ?thesis by (intro gate_proofI [of catalog "ss_recovery_epoch status" xs status last_ack ys]) (auto simp: evs)
    next
      case False
      from ys [unfolded Inr z, simplified, unfolded if_P [OF False] follow_Do follow_bind]
      obtain us vs w s where split: "ys = Op (SetHint (ss_recovery_epoch status)) s # us @ vs"
        and us: "follow (probe_at catalog (Some (ss_recovery_epoch status))) us = Some (Ret w)"
        and vs: "follow (case w of
             Inl g \<Rightarrow> refuse g
           | Inr (status', last_ack') \<Rightarrow>
               if ss_recovery_epoch status' \<noteq> ss_recovery_epoch status then
                 Do (SetHint (ss_recovery_epoch status')) (\<lambda>_. Do (SetGate GateUnknown) (\<lambda>_. Ret None))
               else gate_decide status' last_ack') vs = Some (Ret (Some epoch))" by blast
      from vs obtain status' last_ack' where w: "w = Inr (status', last_ack')"
        by (cases w) (auto dest: refuse_none)
      with vs have "ss_recovery_epoch status' = ss_recovery_epoch status"
        "follow (gate_decide status' last_ack') vs = Some (Ret (Some epoch))"
        by (auto simp: follow_steps split: if_splits)
      with us w show ?thesis
        by (intro gate_proofI [of catalog "ss_recovery_epoch status" us status' last_ack' vs]) (auto simp: evs xs split)
    qed
  qed
qed

lemma acquire_proves:
  assumes "follow (acquire catalog) evs = Some (Ret (Some permit))"
  shows "\<exists>epoch t. gate_proof catalog epoch evs \<and> Op (Admit t epoch) (Permit (Some permit)) \<in> set evs
    \<and> (\<exists>t' r. Op (CoolingDown t') r \<in> set evs \<and> r \<noteq> Flag True)"
proof -
  from assms obtain t r xs ys admitted rest where evs: "evs = rest @ Op (CoolingDown t) r # xs @ ys" and r: "r \<noteq> Flag True"
    and xs: "follow (gate catalog) xs = Some (Ret admitted)"
    and ys: "follow (case admitted of None \<Rightarrow> Ret None
     | Some epoch \<Rightarrow> now_then (\<lambda>t'. Do (Admit t' epoch) (\<lambda>r'.
         case r' of Permit p \<Rightarrow> Ret p | _ \<Rightarrow> Ret None))) ys = Some (Ret (Some permit))"
    unfolding acquire_def follow_now follow_Do
    by (auto simp: follow_bind follow_Ret split: if_splits) (metis append_Cons append_Nil)
  from ys obtain epoch where e: "admitted = Some epoch" by (cases admitted) (auto simp: follow_Ret)
  with ys obtain a t' r' ys' where "ys = Answered AskClock a # Op (Admit t' epoch) r' # ys'"
    "follow (case r' of Permit p \<Rightarrow> Ret p | _ \<Rightarrow> Ret None) ys' = Some (Ret (Some permit))"
    by (simp add: follow_now follow_Do) blast
  then have "Op (Admit t' epoch) (Permit (Some permit)) \<in> set ys" by (cases r') (auto simp: follow_Ret)
  moreover have "gate_proof catalog epoch evs"
    using gate_ok [OF xs [unfolded e]] unfolding gate_proof_def evs by auto
  ultimately show ?thesis using r unfolding evs by auto
qed

text \<open>
  (C24) A permit is granted only to a store that proved itself. When a caller of \<open>acquire\<close>, interleaved
  with any others, ends with a permit, then it was not cooling down when it started; the source database
  gave it the acknowledged receipt of the epoch; a probe that expected this receipt answered with that
  very epoch, an operational store, no regression and no missing event type; no regression of the epoch
  was in force at its gate; and the breaker issued the permit for this epoch.
\<close>

theorem permit_is_earned:
  assumes "follow (acquire catalog) evs = Some (Ret (Some permit))"
  shows "\<exists>epoch t. gate_proof catalog epoch evs \<and> Op (Admit t epoch) (Permit (Some permit)) \<in> set evs
    \<and> (\<exists>t' r. Op (CoolingDown t') r \<in> set evs \<and> r \<noteq> Flag True)"
  using assms by (rule acquire_proves)

subsection \<open>Regressions\<close>

lemma step_regressed:
  assumes "breaker_step p b = (b', r)" and "br_regressed_epoch b = Some e"
    and "\<forall>e'. e' \<noteq> e \<longrightarrow> p \<noteq> SettleRegressed e' \<and> p \<noteq> MarkRegressed e'"
  shows "br_regressed_epoch b' = Some e \<and> (p = SettleRegressed e \<longrightarrow> r = Flag True)"
  using assms by (cases p) (auto simp: step_defs split: CircuitState.splits option.splits if_splits)

lemma run_regressed:
  assumes "breaker_run steps b = Some b'" and "br_regressed_epoch b = Some e"
    and "\<forall>(p, r)\<in>set steps. \<forall>e'. e' \<noteq> e \<longrightarrow> p \<noteq> SettleRegressed e' \<and> p \<noteq> MarkRegressed e'"
  shows "\<forall>r. (SettleRegressed e, r) \<in> set steps \<longrightarrow> r = Flag True"
  using assms
proof (induction steps arbitrary: b)
  case (Cons s steps)
  obtain p r where s: "s = (p, r)" by (cases s)
  from Cons.prems(1) obtain c where step: "breaker_step p b = (c, r)" and run: "breaker_run steps c = Some b'"
    by (auto simp: s split: prod.splits if_splits)
  from step_regressed [OF step Cons.prems(2)] Cons.prems(3)
  have "br_regressed_epoch c = Some e" "p = SettleRegressed e \<longrightarrow> r = Flag True" by (auto simp: s)
  with Cons.IH [OF run] Cons.prems(3) show ?case by (auto simp: s)
qed simp

lemma ops_of_append: "ops_of (xs @ ys) = ops_of xs @ ops_of ys"
  by (simp add: ops_of_def map_filter_def)

lemma ops_of_Cons: "ops_of (Op p r # evs) = (p, r) # ops_of evs" "ops_of (Answered q a # evs) = ops_of evs"
  by (simp_all add: ops_of_def map_filter_simps)

lemma set_ops_of: "(p, r) \<in> set (ops_of evs) \<longleftrightarrow> Op p r \<in> set evs"
proof (induction evs)
  case (Cons e evs)
  then show ?case by (cases e) (auto simp: ops_of_Cons)
qed (simp add: ops_of_def map_filter_simps)

lemma admit_epoch:
  assumes "breaker_run steps b = Some b'" and "(Admit t e, Permit (Some p)) \<in> set steps"
  shows "bp_epoch p = e"
  using assms
proof (induction steps arbitrary: b)
  case (Cons s steps)
  then show ?case by (cases s) (auto simp: breaker_admit_eq split: prod.splits if_splits)
qed simp

text \<open>
  (C25) A regression stays in force until another epoch is met. Take any interleaving of callers, as a list
  of their events that is consistent with the breaker, in which some gate recorded a regression of an
  epoch. If a caller all of whose events come after that obtains a permit for that epoch, then in between
  some gate settled or recorded a different epoch: as long as every probe reports the regressed epoch, no
  caller that starts later is admitted, whatever the store answers. (A caller that passed its gate before
  the regression was recorded may still be admitted.)
\<close>

theorem regression_is_sticky:
  assumes "breaker_run (ops_of (map snd (pre @ (i, Op (MarkRegressed epoch) r) # post))) b = Some b'"
    and "follow (acquire catalog) (map snd (filter (\<lambda>(k, _). k = j) post)) = Some (Ret (Some permit))"
    and "bp_epoch permit = epoch"
  shows "\<exists>e' s. e' \<noteq> epoch \<and> (Op (SettleRegressed e') s \<in> snd ` set post \<or> Op (MarkRegressed e') s \<in> snd ` set post)"
proof (rule ccontr)
  assume none: "\<not> ?thesis"
  let ?steps = "ops_of (map snd post)"
  from assms(1) have "breaker_run (ops_of (map snd pre) @ (MarkRegressed epoch, r) # ?steps) b = Some b'"
    by (simp add: ops_of_append ops_of_Cons)
  then obtain a c where step: "breaker_step (MarkRegressed epoch) a = (c, r)" and run: "breaker_run ?steps c = Some b'"
    by (rule run_split)
  have mine: "set (map snd (filter (\<lambda>(k, _). k = j) post)) \<subseteq> snd ` set post" by auto
  from acquire_proves [OF assms(2)] obtain e t where e: "gate_proof catalog e (map snd (filter (\<lambda>(k, _). k = j) post))"
    "Op (Admit t e) (Permit (Some permit)) \<in> snd ` set post" using mine by blast
  from admit_epoch [OF run, of t e permit] e(2) assms(3) have "e = epoch" by (auto simp: set_ops_of)
  with e(1) mine obtain s where s: "Op (SettleRegressed epoch) s \<in> snd ` set post" "s \<noteq> Flag True"
    unfolding gate_proof_def by blast
  from step have "br_regressed_epoch c = Some epoch" by auto
  from run_regressed [OF run this] none have "\<forall>s. (SettleRegressed epoch, s) \<in> set ?steps \<longrightarrow> s = Flag True"
    by (force simp: set_ops_of)
  with s show False by (auto simp: set_ops_of)
qed

end
