(* ===== verification/Relay_Ledger.thy ===== *)
theory Relay_Ledger
  imports Audit_Port "HOL-Library.AList"
begin

text \<open>
  The in-process delivery ledger of the audit relay (\<open>ledger.rs\<close>): a hash map from claims to
  the notes of the handler, bounded by a queue of the claims in the order they were first
  recorded. The map is an association list with distinct keys. The ledger implements a bounded
  queue of notes, and it satisfies the interface the outbox store relies on: a claim reads the
  note recorded last under its own key, or nothing.
\<close>

subsection \<open>Notes\<close>

record FailureNote =
  fn_code :: ustr
  fn_outage :: bool
  fn_streak_countable :: bool
  fn_relay_hold :: bool

definition FailureNote_outage :: "ustr \<Rightarrow> bool \<Rightarrow> FailureNote" where
  "FailureNote_outage code streak_countable =
     \<lparr>fn_code = code, fn_outage = True, fn_streak_countable = streak_countable, fn_relay_hold = False\<rparr>"

definition FailureNote_relay_hold :: "ustr \<Rightarrow> FailureNote" where
  "FailureNote_relay_hold code =
     \<lparr>fn_code = code, fn_outage = True, fn_streak_countable = False, fn_relay_hold = True\<rparr>"

definition FailureNote_verdict :: "ustr \<Rightarrow> FailureNote" where
  "FailureNote_verdict code =
     \<lparr>fn_code = code, fn_outage = False, fn_streak_countable = False, fn_relay_hold = False\<rparr>"

datatype Note = ReceiptNote IngestReceipt int | Failure FailureNote

subsection \<open>The ledger\<close>

type_synonym claim_key = "uuid \<times> uuid"

definition DEFAULT_CAPACITY :: nat where "DEFAULT_CAPACITY = 1024"

record DeliveryLedger =
  lg_capacity :: nat
  lg_entries :: "(claim_key \<times> Note) list"
  lg_order :: "claim_key list"

definition DeliveryLedger_new :: "nat \<Rightarrow> DeliveryLedger" where
  "DeliveryLedger_new capacity = \<lparr>lg_capacity = max capacity 1, lg_entries = [], lg_order = []\<rparr>"

fun evict :: "nat \<Rightarrow> (claim_key \<times> Note) list \<Rightarrow> claim_key list \<Rightarrow> (claim_key \<times> Note) list \<times> claim_key list" where
  "evict capacity entries [] = (entries, [])"
| "evict capacity entries (old # order) =
     (if capacity < length entries then evict capacity (AList.delete old entries) order
      else (entries, old # order))"

definition ledger_record :: "DeliveryLedger \<Rightarrow> uuid \<Rightarrow> uuid \<Rightarrow> Note \<Rightarrow> DeliveryLedger" where
  "ledger_record g event_id lease_token note =
     (let key = (event_id, lease_token);
          order = (if map_of (lg_entries g) key = None then lg_order g @ [key] else lg_order g);
          (entries, order') = evict (lg_capacity g) (AList.update key note (lg_entries g)) order
      in g\<lparr>lg_entries := entries, lg_order := order'\<rparr>)"

definition ledger_take :: "DeliveryLedger \<Rightarrow> uuid \<Rightarrow> uuid \<Rightarrow> DeliveryLedger \<times> Note option" where
  "ledger_take g event_id lease_token =
     (let key = (event_id, lease_token); note = map_of (lg_entries g) key in
      (g\<lparr>lg_entries := AList.delete key (lg_entries g),
         lg_order := (if note \<noteq> None then filter (\<lambda>entry. entry \<noteq> key) (lg_order g) else lg_order g)\<rparr>, note))"

definition ledger_len :: "DeliveryLedger \<Rightarrow> nat" where "ledger_len g = length (lg_entries g)"

definition ledger_is_empty :: "DeliveryLedger \<Rightarrow> bool" where "ledger_is_empty g \<longleftrightarrow> ledger_len g = 0"

subsection \<open>Well-formed ledgers\<close>

definition note_ledger_ok :: "DeliveryLedger \<Rightarrow> bool" where
  "note_ledger_ok g \<longleftrightarrow> distinct (map fst (lg_entries g)) \<and> distinct (lg_order g)
     \<and> set (lg_order g) = fst ` set (lg_entries g) \<and> length (lg_entries g) \<le> lg_capacity g \<and> 1 \<le> lg_capacity g"

lemma length_order:
  assumes "distinct (map fst es)" and "distinct ks" and "set ks = fst ` set es"
  shows "length es = length ks"
  using assms by (metis distinct_card length_map set_map)

lemma length_delete_key:
  assumes "distinct (map fst es)" and "k \<in> fst ` set es"
  shows "length (AList.delete k es) = length es - 1"
  using assms by (metis delete_keys length_map length_remove1 list.set_map distinct_remove1_removeAll)

text \<open>At most one entry is over the bound, and then the claim at the front of the queue leaves.\<close>

lemma evict_one:
  assumes "distinct (map fst es)" and "distinct ks" and "set ks = fst ` set es" and "length es \<le> Suc capacity"
  shows "evict capacity es ks =
    (if capacity < length es then (AList.delete (hd ks) es, tl ks) else (es, ks))"
proof (cases ks)
  case (Cons k ks')
  then have "length (AList.delete k es) \<le> capacity"
    using assms length_delete_key [OF assms(1), of k] by (metis One_nat_def diff_le_mono diff_Suc_1 list.set_intros(1))
  then have "evict capacity (AList.delete k es) ks' = (AList.delete k es, ks')" by (cases ks') auto
  with Cons show ?thesis by simp
qed (use assms in auto)

lemma ledger_new_ok: "note_ledger_ok (DeliveryLedger_new capacity)"
  by (simp add: note_ledger_ok_def DeliveryLedger_new_def)

lemma fst_delete: "fst ` set (AList.delete k es) = fst ` set es - {k}"
  by (auto simp: AList.delete_eq)

lemma updated_ok:
  assumes "note_ledger_ok g" and "order = (if map_of (lg_entries g) key = None then lg_order g @ [key] else lg_order g)"
  shows "distinct (map fst (AList.update key n (lg_entries g)))" "distinct order"
    "set order = fst ` set (AList.update key n (lg_entries g))"
    "length (AList.update key n (lg_entries g)) \<le> Suc (lg_capacity g)"
proof -
  from assms(1) have g: "distinct (map fst (lg_entries g))" "distinct (lg_order g)"
    "set (lg_order g) = fst ` set (lg_entries g)" "length (lg_entries g) \<le> lg_capacity g"
    by (simp_all add: note_ledger_ok_def)
  show "distinct (map fst (AList.update key n (lg_entries g)))" by (rule distinct_update [OF g(1)])
  show "distinct order" using g assms(2) by (auto simp: map_of_eq_None_iff)
  show "set order = fst ` set (AList.update key n (lg_entries g))"
    using g assms(2) by (auto simp: dom_update map_of_eq_None_iff insert_absorb)
  have "length (AList.update key n (lg_entries g)) = length (map fst (AList.update key n (lg_entries g)))"
    by simp
  also have "\<dots> \<le> Suc (length (lg_entries g))" unfolding update_keys by simp
  also have "\<dots> \<le> Suc (lg_capacity g)" using g(4) by simp
  finally show "length (AList.update key n (lg_entries g)) \<le> Suc (lg_capacity g)" .
qed

lemma ledger_record_eq:
  assumes "note_ledger_ok g"
    and "es = AList.update (i, t) n (lg_entries g)"
    and "ks = (if map_of (lg_entries g) (i, t) = None then lg_order g @ [(i, t)] else lg_order g)"
  shows "ledger_record g i t n = (if lg_capacity g < length es
    then g\<lparr>lg_entries := AList.delete (hd ks) es, lg_order := tl ks\<rparr> else g\<lparr>lg_entries := es, lg_order := ks\<rparr>)"
  using evict_one [OF updated_ok(1) [OF assms(1,3), of n] updated_ok(2) [OF assms(1,3)]
      updated_ok(3,4) [OF assms(1,3), of n]] assms(2,3)
  by (simp add: ledger_record_def Let_def)

lemma ledger_record_ok:
  assumes "note_ledger_ok g"
  shows "note_ledger_ok (ledger_record g i t n)"
proof -
  define es where "es = AList.update (i, t) n (lg_entries g)"
  define ks where "ks = (if map_of (lg_entries g) (i, t) = None then lg_order g @ [(i, t)] else lg_order g)"
  note u = updated_ok(1) [OF assms ks_def, of n, folded es_def] updated_ok(2) [OF assms ks_def]
    updated_ok(3,4) [OF assms ks_def, of n, folded es_def]
  have "1 \<le> lg_capacity g" using assms by (simp add: note_ledger_ok_def)
  show ?thesis
  proof (cases "lg_capacity g < length es")
    case True
    then obtain k ks' where ks: "ks = k # ks'" using length_order [OF u(1,2,3)] by (cases ks) auto
    then have k: "k \<in> fst ` set es" "set ks' = fst ` set es - {k}" "distinct ks'" using u(2) u(3) [symmetric] by auto
    have "length (AList.delete k es) \<le> lg_capacity g" using length_delete_key [OF u(1) k(1)] u(4) by simp
    with True k u(1) \<open>1 \<le> _\<close> show ?thesis
      by (simp add: ledger_record_eq [OF assms es_def ks_def] note_ledger_ok_def fst_delete distinct_delete ks)
  next
    case False
    with u \<open>1 \<le> _\<close> show ?thesis
      by (simp add: ledger_record_eq [OF assms es_def ks_def] note_ledger_ok_def)
  qed
qed

lemma ledger_take_ok:
  assumes "note_ledger_ok g"
  shows "note_ledger_ok (fst (ledger_take g i t))"
proof (cases "map_of (lg_entries g) (i, t)")
  case None
  then have "(i, t) \<notin> fst ` set (lg_entries g)" by (simp add: map_of_eq_None_iff)
  with None assms show ?thesis by (auto simp: ledger_take_def note_ledger_ok_def Let_def)
next
  case (Some m)
  have "length (AList.delete (i, t) (lg_entries g)) \<le> length (lg_entries g)" by (rule length_delete_le)
  with Some assms show ?thesis
    by (auto simp: ledger_take_def note_ledger_ok_def Let_def fst_delete distinct_delete)
qed

subsection \<open>The ledger as a bounded queue\<close>

definition notes_of :: "DeliveryLedger \<Rightarrow> (claim_key \<times> Note) list" where
  "notes_of g = map (\<lambda>k. (k, the (map_of (lg_entries g) k))) (lg_order g)"

definition queue_put :: "nat \<Rightarrow> claim_key \<Rightarrow> Note \<Rightarrow> (claim_key \<times> Note) list \<Rightarrow> (claim_key \<times> Note) list" where
  "queue_put capacity k n q =
     (let q' = (if k \<in> fst ` set q then map (\<lambda>(j, m). (j, if j = k then n else m)) q else q @ [(k, n)])
      in drop (length q' - capacity) q')"

lemma order_keys: "note_ledger_ok g \<Longrightarrow> k \<in> set (lg_order g) \<longleftrightarrow> map_of (lg_entries g) k \<noteq> None"
  by (simp add: note_ledger_ok_def map_of_eq_None_iff)

lemma lg_capacity_record: "lg_capacity (ledger_record g i t n) = lg_capacity g"
  by (simp add: ledger_record_def Let_def split: prod.split)

lemma fst_notes_of: "map fst (notes_of g) = lg_order g"
  by (simp add: notes_of_def comp_def)

lemma map_of_notes_of:
  assumes "note_ledger_ok g"
  shows "map_of (notes_of g) = map_of (lg_entries g)"
proof (rule ext)
  fix k
  have "map_of (notes_of g) k = (if k \<in> set (lg_order g) then Some (the (map_of (lg_entries g) k)) else None)"
    unfolding notes_of_def by (induction "lg_order g") (auto simp: map_of_map_restrict restrict_map_def)
  also have "\<dots> = map_of (lg_entries g) k"
    using order_keys [OF assms, of k] by (cases "map_of (lg_entries g) k") auto
  finally show "map_of (notes_of g) k = map_of (lg_entries g) k" .
qed

lemma notes_of_record:
  assumes "note_ledger_ok g"
  shows "notes_of (ledger_record g i t n) = queue_put (lg_capacity g) (i, t) n (notes_of g)"
proof -
  define es where "es = AList.update (i, t) n (lg_entries g)"
  define ks where "ks = (if map_of (lg_entries g) (i, t) = None then lg_order g @ [(i, t)] else lg_order g)"
  define q where "q = map (\<lambda>k. (k, the (map_of es k))) ks"
  note u = updated_ok(1) [OF assms ks_def, of n, folded es_def] updated_ok(2) [OF assms ks_def]
    updated_ok(3,4) [OF assms ks_def, of n, folded es_def]
  have keys: "fst ` set (notes_of g) = set (lg_order g)" by (metis fst_notes_of set_map)
  have es: "map_of es = (map_of (lg_entries g))((i, t) \<mapsto> n)" by (simp add: es_def update_conv')
  have q: "q = (if (i, t) \<in> fst ` set (notes_of g) then map (\<lambda>(j, m). (j, if j = (i, t) then n else m)) (notes_of g)
      else notes_of g @ [((i, t), n)])"
  proof (cases "(i, t) \<in> set (lg_order g)")
    case True
    then have "ks = lg_order g" using assms by (auto simp: ks_def note_ledger_ok_def map_of_eq_None_iff)
    then show ?thesis unfolding keys using True by (auto simp: q_def notes_of_def es)
  next
    case False
    then have "ks = lg_order g @ [(i, t)]" using assms by (auto simp: ks_def note_ledger_ok_def map_of_eq_None_iff)
    then show ?thesis unfolding keys using False by (auto simp: q_def notes_of_def es)
  qed
  have len: "length q = length es" using length_order [OF u(1,2,3)] by (simp add: q_def)
  show ?thesis
  proof (cases "lg_capacity g < length es")
    case True
    then obtain k ks' where ks: "ks = k # ks'" using length_order [OF u(1,2,3)] by (cases ks) auto
    then have "map_of (AList.delete k es) j = map_of es j" if "j \<in> set ks'" for j
    proof -
      from that u(2) ks have "j \<noteq> k" by auto
      then show ?thesis by simp
    qed
    then have "notes_of (ledger_record g i t n) = tl q"
      using True by (simp add: ledger_record_eq [OF assms es_def ks_def] notes_of_def ks q_def)
    moreover have "length q - lg_capacity g = 1" using True u(4) by (simp add: len)
    ultimately show ?thesis unfolding queue_put_def q [symmetric] by (simp add: drop_Suc)
  next
    case False
    then have "notes_of (ledger_record g i t n) = q"
      by (simp add: ledger_record_eq [OF assms es_def ks_def] notes_of_def q_def)
    with False show ?thesis unfolding queue_put_def q [symmetric] by (simp add: len)
  qed
qed

lemma notes_of_take:
  assumes "note_ledger_ok g"
  shows "notes_of (fst (ledger_take g i t)) = filter (\<lambda>(k, _). k \<noteq> (i, t)) (notes_of g)"
    and "snd (ledger_take g i t) = map_of (notes_of g) (i, t)"
proof -
  show "snd (ledger_take g i t) = map_of (notes_of g) (i, t)"
    by (simp add: map_of_notes_of [OF assms] ledger_take_def Let_def)
  have "filter (\<lambda>entry. entry \<noteq> (i, t)) (lg_order g) = lg_order g" if "map_of (lg_entries g) (i, t) = None"
    using that order_keys [OF assms, of "(i, t)"] by (auto simp: filter_id_conv)
  then have "lg_order (fst (ledger_take g i t)) = filter (\<lambda>entry. entry \<noteq> (i, t)) (lg_order g)"
    by (auto simp: ledger_take_def Let_def)
  moreover have "lg_entries (fst (ledger_take g i t)) = AList.delete (i, t) (lg_entries g)"
    by (simp add: ledger_take_def Let_def)
  ultimately show "notes_of (fst (ledger_take g i t)) = filter (\<lambda>(k, _). k \<noteq> (i, t)) (notes_of g)"
    by (simp add: notes_of_def filter_map comp_def)
qed

text \<open>
  The ledger implements a bounded queue of notes. From any well-formed ledger, recording a note
  replaces the note of the claim in place or appends it and drops the oldest claim beyond the capacity,
  taking removes the claim and returns its note, and the result is well formed: as many queue entries as
  map entries, at most the capacity, and no claim twice.
\<close>

theorem ledger_refines_bounded_queue:
  assumes "note_ledger_ok g"
  shows "notes_of (ledger_record g i t n) = queue_put (lg_capacity g) (i, t) n (notes_of g)
    \<and> notes_of (fst (ledger_take g i t)) = filter (\<lambda>(k, _). k \<noteq> (i, t)) (notes_of g)
    \<and> snd (ledger_take g i t) = map_of (notes_of g) (i, t)
    \<and> note_ledger_ok (ledger_record g i t n) \<and> note_ledger_ok (fst (ledger_take g i t))
    \<and> ledger_len (ledger_record g i t n) \<le> lg_capacity g"
  using notes_of_record [OF assms] notes_of_take [OF assms] ledger_take_ok [OF assms]
    ledger_record_ok [OF assms, of i t n] lg_capacity_record [of g i t n]
  by (simp add: ledger_len_def note_ledger_ok_def)

subsection \<open>What a claim can read\<close>

text \<open>
  The contract the outbox store relies on: a box of notes in which a key reads what was put under
  that key, possibly nothing because the box forgot it, and never anything else.
\<close>

locale note_box =
  fixes ok :: "'s \<Rightarrow> bool" and put :: "'s \<Rightarrow> 'k \<Rightarrow> 'n \<Rightarrow> 's" and get :: "'s \<Rightarrow> 'k \<Rightarrow> 's \<times> 'n option"
  assumes put_ok: "ok s \<Longrightarrow> ok (put s k n)"
    and get_ok: "ok s \<Longrightarrow> ok (fst (get s k))"
    and get_put: "ok s \<Longrightarrow> snd (get (put s k n) k) = Some n"
    and get_put_other: "ok s \<Longrightarrow> j \<noteq> k \<Longrightarrow> snd (get (put s k n) j) \<in> {None, snd (get s j)}"
    and get_get: "ok s \<Longrightarrow> snd (get (fst (get s k)) k) = None"
    and get_get_other: "ok s \<Longrightarrow> j \<noteq> k \<Longrightarrow> snd (get (fst (get s k)) j) = snd (get s j)"
begin

lemma fold_ok: "ok s \<Longrightarrow> ok (fold (\<lambda>(k, x) s. case x of Some n \<Rightarrow> put s k n | None \<Rightarrow> fst (get s k)) calls s)"
  by (induction calls arbitrary: s) (auto simp: put_ok get_ok split: option.splits)

lemma reads_last_put:
  assumes "ok s" and "\<And>k. snd (get s k) = None"
  shows "snd (get (fold (\<lambda>(k, x) s. case x of Some n \<Rightarrow> put s k n | None \<Rightarrow> fst (get s k)) calls s) k)
    \<in> {None, Option.bind (map_of (rev calls) k) (\<lambda>x. x)}"
proof (induction calls rule: rev_induct)
  case (snoc c calls)
  obtain j x where c: "c = (j, x)" by (cases c)
  note inner = fold_ok [OF assms(1), of calls]
  show ?case
  proof (cases "j = k")
    case True
    then show ?thesis using inner by (cases x) (simp_all add: c get_get get_put)
  next
    case False
    show ?thesis
    proof (cases x)
      case None
      with False snoc get_get_other [OF inner, of k j] show ?thesis by (simp add: c)
    next
      case (Some n)
      with False snoc get_put_other [OF inner, of k j n] show ?thesis by (auto simp: c)
    qed
  qed
qed (simp add: assms(2))

end

lemma record_lookup:
  assumes "note_ledger_ok g"
  shows "map_of (lg_entries (ledger_record g i t n)) (i, t) = Some n"
    and "j \<noteq> (i, t) \<Longrightarrow> map_of (lg_entries (ledger_record g i t n)) j \<in> {None, map_of (lg_entries g) j}"
proof -
  define es where "es = AList.update (i, t) n (lg_entries g)"
  define ks where "ks = (if map_of (lg_entries g) (i, t) = None then lg_order g @ [(i, t)] else lg_order g)"
  have es: "map_of es = (map_of (lg_entries g))((i, t) \<mapsto> n)" by (simp add: es_def update_conv')
  note u = updated_ok(1) [OF assms ks_def, of n, folded es_def] updated_ok(2) [OF assms ks_def]
    updated_ok(3,4) [OF assms ks_def, of n, folded es_def]
  have "hd ks \<noteq> (i, t)" if "lg_capacity g < length es"
  proof -
    from that have "lg_capacity g < length ks" "1 \<le> lg_capacity g" "length (lg_order g) \<le> lg_capacity g"
      using length_order [OF u(1,2,3)] assms length_order [of "lg_entries g" "lg_order g"] by (auto simp: note_ledger_ok_def)
    then have "ks = lg_order g @ [(i, t)]" "lg_order g \<noteq> []" by (auto simp: ks_def split: if_splits)
    with u(2) show ?thesis by (cases "lg_order g") auto
  qed
  then show "map_of (lg_entries (ledger_record g i t n)) (i, t) = Some n"
    by (auto simp: ledger_record_eq [OF assms es_def ks_def] es)
  show "map_of (lg_entries (ledger_record g i t n)) j \<in> {None, map_of (lg_entries g) j}" if "j \<noteq> (i, t)"
    using that by (auto simp: ledger_record_eq [OF assms es_def ks_def] es delete_conv')
qed

lemma take_lookup:
  "snd (ledger_take g i t) = map_of (lg_entries g) (i, t)"
  "map_of (lg_entries (fst (ledger_take g i t))) = (map_of (lg_entries g))((i, t) := None)"
  by (simp_all add: ledger_take_def Let_def delete_conv')

interpretation ledger_box: note_box note_ledger_ok "\<lambda>g k. ledger_record g (fst k) (snd k)" "\<lambda>g k. ledger_take g (fst k) (snd k)"
  using record_lookup(2) by unfold_locales
    (auto simp: ledger_record_ok ledger_take_ok take_lookup record_lookup(1) simp del: insert_iff)

text \<open>One call on the ledger: a note recorded for a claim, or a claim that takes its note.\<close>

definition ledger_call :: "claim_key \<times> Note option \<Rightarrow> DeliveryLedger \<Rightarrow> DeliveryLedger" where
  "ledger_call = (\<lambda>(k, x) g. case x of Some n \<Rightarrow> ledger_record g (fst k) (snd k) n | None \<Rightarrow> fst (ledger_take g (fst k) (snd k)))"

text \<open>
  A claim never reads a foreign or stale note. Whatever calls the ledger has seen since it was
  created, taking the note of a claim gives nothing or the note recorded by the last call for exactly
  this event and lease token, and nothing when that last call already took it.
\<close>

theorem ledger_reads_own_note:
  "snd (ledger_take (fold ledger_call calls (DeliveryLedger_new capacity)) event_id lease_token)
    \<in> {None, Option.bind (map_of (rev calls) (event_id, lease_token)) (\<lambda>x. x)}"
proof -
  have "snd (ledger_take (DeliveryLedger_new capacity) (fst k) (snd k)) = None" for k
    by (simp add: take_lookup DeliveryLedger_new_def)
  from ledger_box.reads_last_put [OF ledger_new_ok this, of calls "(event_id, lease_token)"]
  show ?thesis by (simp add: ledger_call_def)
qed

end
