(* ===== verification/Outbox_Runner.thy ===== *)
theory Outbox_Runner
  imports Outbox_Policy
begin

text \<open>
  The runner of the outbox (\<open>runner.rs\<close> of \<open>outbox-delivery\<close>). The processing of one claim is
  an automaton: each await and each read of the cancellation flag or of the clock is an event
  with the answer the runner got, and a step follows the code from one such point to the next.
  The heartbeat loop makes the automaton cyclic. A cycle of the runner is a function from the
  answers it gets to the calls it makes. The runner is modelled without an observer, the
  optional receiver of metrics and spans.
\<close>

subsection \<open>Processing a claim\<close>

datatype FenceResult = Updated | Lost
datatype ClaimOutcome = SettledClaim | LostClaim

type_synonym 'a delivery = "DeliveryError + 'a"

datatype phase = First | Final DeliveryDecision

datatype claim_pc =
    AtStart | AtCancel | AtPublish
  | CheckEntry phase | CheckRenew phase | CheckRenewed phase | CheckPermit phase | CheckPermitted phase
  | CheckPreflight phase | CheckPreflighted phase
  | AtClock phase | AtGo phase
  | Handling | Decided DeliveryDecision | Publish DeliveryDecision
  | BeatEntry | BeatRenew | BeatRenewed | BeatPermit | BeatPermitted | BeatDone
  | Settling DeliveryDecision
  | Finished "ClaimOutcome delivery"

datatype claim_event =
    ClockRead int | CancelRead bool
  | Renew "FenceResult delivery" | PermitRenew "FenceResult delivery" | Preflight "FenceResult delivery"
  | DeadlineReached | HandlerDone DeliveryDecision | Tick
  | Settle DeliveryDecision "FenceResult delivery" | Expired

text \<open>The answer of a fence: go on, or the claim is lost, or the error is returned.\<close>

definition fenced :: "FenceResult delivery \<Rightarrow> claim_pc \<Rightarrow> claim_pc" where
  "fenced answer next_pc = (case answer of
     Inl e \<Rightarrow> Finished (Inl e) | Inr Lost \<Rightarrow> Finished (Inr LostClaim) | Inr Updated \<Rightarrow> next_pc)"

definition unless_cancelled :: "bool \<Rightarrow> claim_pc \<Rightarrow> claim_pc" where
  "unless_cancelled cancelled next_pc = (if cancelled then Finished (Inr LostClaim) else next_pc)"

definition before_deadline :: "int \<Rightarrow> int \<Rightarrow> claim_pc \<Rightarrow> claim_pc" where
  "before_deadline deadline now next_pc = (if deadline \<le> now then Finished (Inl StoreUnknown) else next_pc)"

definition on_clock :: "claim_event \<Rightarrow> (int \<Rightarrow> claim_pc) \<Rightarrow> claim_pc option" where
  "on_clock ev f = (case ev of ClockRead now \<Rightarrow> Some (f now) | _ \<Rightarrow> None)"

definition on_cancel :: "claim_event \<Rightarrow> claim_pc \<Rightarrow> claim_pc option" where
  "on_cancel ev pc = (case ev of CancelRead c \<Rightarrow> Some (unless_cancelled c pc) | _ \<Rightarrow> None)"

definition on_renew :: "claim_event \<Rightarrow> claim_pc \<Rightarrow> claim_pc option" where
  "on_renew ev pc = (case ev of Renew r \<Rightarrow> Some (fenced r pc) | _ \<Rightarrow> None)"

definition on_permit :: "claim_event \<Rightarrow> claim_pc \<Rightarrow> claim_pc option" where
  "on_permit ev pc = (case ev of PermitRenew r \<Rightarrow> Some (fenced r pc) | _ \<Rightarrow> None)"

definition on_preflight :: "claim_event \<Rightarrow> claim_pc \<Rightarrow> claim_pc option" where
  "on_preflight ev pc = (case ev of Preflight r \<Rightarrow> Some (fenced r pc) | _ \<Rightarrow> None)"

definition handling :: "claim_event \<Rightarrow> claim_pc option" where
  "handling ev = (case ev of
     DeadlineReached \<Rightarrow> Some (Finished (Inr LostClaim))
   | HandlerDone d \<Rightarrow> Some (Decided d)
   | Tick \<Rightarrow> Some BeatEntry
   | _ \<Rightarrow> None)"

definition on_settle :: "claim_event \<Rightarrow> DeliveryDecision \<Rightarrow> claim_pc option" where
  "on_settle ev d = (case ev of
     Settle d' r \<Rightarrow> if d' = d
       then Some (Finished (map_sum (\<lambda>e. e) (\<lambda>f. case f of Updated \<Rightarrow> SettledClaim | Lost \<Rightarrow> LostClaim) r)) else None
   | _ \<Rightarrow> None)"

definition after_check :: "phase \<Rightarrow> claim_pc" where
  "after_check ph = (case ph of First \<Rightarrow> Handling | Final d \<Rightarrow> Settling d)"

text \<open>
  The processing deadline bounds the whole claim, and each round of calls has its own bound: an
  await that outlives either ends the claim with an unknown result.
\<close>

definition claim_step :: "int \<Rightarrow> claim_pc \<Rightarrow> claim_event \<Rightarrow> claim_pc option" where
  "claim_step deadline pc ev =
     (case pc of
        Finished _ \<Rightarrow> None
      | _ \<Rightarrow> if ev = Expired then Some (Finished (Inl StoreUnknown)) else (case pc of
          AtStart \<Rightarrow> on_clock ev (\<lambda>now. before_deadline deadline now AtCancel)
        | AtCancel \<Rightarrow> on_cancel ev AtPublish
        | AtPublish \<Rightarrow> on_cancel ev (CheckEntry First)
        | CheckEntry ph \<Rightarrow> on_cancel ev (CheckRenew ph)
        | CheckRenew ph \<Rightarrow> on_renew ev (CheckRenewed ph)
        | CheckRenewed ph \<Rightarrow> on_cancel ev (CheckPermit ph)
        | CheckPermit ph \<Rightarrow> on_permit ev (CheckPermitted ph)
        | CheckPermitted ph \<Rightarrow> on_cancel ev (CheckPreflight ph)
        | CheckPreflight ph \<Rightarrow> on_preflight ev (CheckPreflighted ph)
        | CheckPreflighted ph \<Rightarrow> on_cancel ev (AtClock ph)
        | AtClock ph \<Rightarrow> on_clock ev (\<lambda>now. before_deadline deadline now (AtGo ph))
        | AtGo ph \<Rightarrow> on_cancel ev (after_check ph)
        | Handling \<Rightarrow> handling ev
        | BeatEntry \<Rightarrow> on_cancel ev BeatRenew
        | BeatRenew \<Rightarrow> on_renew ev BeatRenewed
        | BeatRenewed \<Rightarrow> on_cancel ev BeatPermit
        | BeatPermit \<Rightarrow> on_permit ev BeatPermitted
        | BeatPermitted \<Rightarrow> on_cancel ev BeatDone
        | BeatDone \<Rightarrow> on_cancel ev Handling
        | Decided d \<Rightarrow> on_clock ev (\<lambda>now. before_deadline deadline now (Publish d))
        | Publish d \<Rightarrow> on_cancel ev (CheckEntry (Final d))
        | Settling d \<Rightarrow> on_settle ev d
        | Finished _ \<Rightarrow> None))"

fun claim_run :: "int \<Rightarrow> claim_pc \<Rightarrow> claim_event list \<Rightarrow> claim_pc option" where
  "claim_run deadline pc [] = Some pc"
| "claim_run deadline pc (ev # evs) = Option.bind (claim_step deadline pc ev) (\<lambda>pc'. claim_run deadline pc' evs)"

subsection \<open>A cycle\<close>

record CycleSummary =
  cy_claimed :: int
  cy_settled :: int
  cy_lost :: int
  cy_reaped :: int

definition empty_summary :: CycleSummary where
  "empty_summary = \<lparr>cy_claimed = 0, cy_settled = 0, cy_lost = 0, cy_reaped = 0\<rparr>"

text \<open>
  The answers of one cycle. Shutdown is looked at in a fixed order of places; the results of
  the claims that were joined come in the order of joining, the others were still running when
  the drain deadline passed, and the flag of each says whether its last database call may have
  been committed.
\<close>

record 'p cycle_env =
  cv_shutdown :: "nat \<Rightarrow> bool"
  cv_verify_policy :: "unit delivery"
  cv_reap :: "int delivery"
  cv_max_claims :: nat
  cv_free_slots :: nat
  cv_acquire :: "'p option delivery"
  cv_claim :: "nat \<Rightarrow> uuid list delivery"
  cv_joined :: "ClaimOutcome delivery option list"
  cv_stragglers :: "bool list"
  cv_release :: "FenceResult delivery"

datatype 'p action = Acquired 'p | ClaimedRows nat | Dispatched nat | Released 'p

definition prepare_operation :: "bool \<Rightarrow> 'a delivery \<Rightarrow> 'a delivery" where
  "prepare_operation requested answer = (if requested then Inl StoreUnknown else answer)"

definition get_or_insert :: "DeliveryError option \<Rightarrow> DeliveryError \<Rightarrow> DeliveryError option" where
  "get_or_insert e e' = (case e of None \<Rightarrow> Some e' | Some _ \<Rightarrow> e)"

fun fold_join :: "CycleSummary \<times> DeliveryError option \<Rightarrow> ClaimOutcome delivery option \<Rightarrow> CycleSummary \<times> DeliveryError option" where
  "fold_join (s, e) (Some (Inr SettledClaim)) = (s\<lparr>cy_settled := cy_settled s + 1\<rparr>, e)"
| "fold_join (s, e) (Some (Inr LostClaim)) = (s\<lparr>cy_lost := cy_lost s + 1\<rparr>, e)"
| "fold_join (s, e) (Some (Inl e')) = (s, get_or_insert e e')"
| "fold_join (s, e) None = (s, get_or_insert e StoreUnknown)"

definition abandon :: "bool list \<Rightarrow> CycleSummary \<times> DeliveryError option \<Rightarrow> CycleSummary \<times> DeliveryError option" where
  "abandon stragglers = (\<lambda>(s, e).
     (s\<lparr>cy_lost := cy_lost s + int (length stragglers)\<rparr>, if True \<in> set stragglers then get_or_insert e StoreUnknown else e))"

definition finish_cycle ::
  "'p cycle_env \<Rightarrow> 'p \<Rightarrow> CycleSummary \<times> DeliveryError option \<Rightarrow> CycleSummary delivery" where
  "finish_cycle env permit = (\<lambda>(s, e).
     let e' = (case cv_release env of Inl err \<Rightarrow> get_or_insert e err | Inr _ \<Rightarrow> e)
     in case e' of Some err \<Rightarrow> Inl err | None \<Rightarrow> Inr s)"

definition run_admitted ::
  "nat \<Rightarrow> 'p cycle_env \<Rightarrow> CycleSummary \<Rightarrow> 'p \<Rightarrow> 'p action list \<times> CycleSummary delivery" where
  "run_admitted slots env summary permit =
     (if cv_shutdown env 6
      then ([Released permit], map_sum (\<lambda>e. e) (\<lambda>_. summary) (cv_release env))
      else (case prepare_operation (cv_shutdown env 7) (cv_claim env slots) of
        Inl err \<Rightarrow> ([Released permit], Inl err)
      | Inr claimed \<Rightarrow>
          if slots < length claimed then ([ClaimedRows (length claimed), Released permit], Inl StoreUnknown)
          else let summary = summary\<lparr>cy_claimed := int (length claimed)\<rparr> in
            if cv_shutdown env 8
            then ([ClaimedRows (length claimed), Released permit],
                  case cv_release env of Inl err \<Rightarrow> Inl err
                  | Inr _ \<Rightarrow> if claimed = [] then Inr summary else Inl StoreUnknown)
            else ([ClaimedRows (length claimed), Dispatched (length claimed), Released permit],
                  finish_cycle env permit (abandon (cv_stragglers env) (fold (\<lambda>j a. fold_join a j) (cv_joined env) (summary, None))))))"

definition run_cycle_work ::
  "DeliveryConfig \<Rightarrow> 'p cycle_env \<Rightarrow> 'p action list \<times> CycleSummary delivery" where
  "run_cycle_work config env =
     (if cv_shutdown env 0 then ([], Inr empty_summary)
      else case prepare_operation (cv_shutdown env 1) (cv_verify_policy env) of
        Inl err \<Rightarrow> ([], Inl err)
      | Inr _ \<Rightarrow>
          if cv_shutdown env 2 then ([], Inr empty_summary)
          else (case prepare_operation (cv_shutdown env 3) (cv_reap env) of
            Inl err \<Rightarrow> ([], Inl err)
          | Inr reaped \<Rightarrow>
              let summary = empty_summary\<lparr>cy_reaped := reaped\<rparr> in
              if cv_shutdown env 4 then ([], Inr summary)
              else let maximum = min (nat (dc_batch_size config)) (cv_max_claims env) in
                if maximum = 0 then ([], Inl InvalidConfig)
                else let slots = min maximum (cv_free_slots env) in
                  if slots = 0 then ([], Inr summary)
                  else (case prepare_operation (cv_shutdown env 5) (cv_acquire env) of
                    Inl err \<Rightarrow> ([], Inl err)
                  | Inr None \<Rightarrow> ([], Inr summary)
                  | Inr (Some permit) \<Rightarrow> map_prod (\<lambda>acts. Acquired permit # acts) (\<lambda>r. r) (run_admitted slots env summary permit))))"

subsection \<open>The loop of cycles\<close>

record RunSummary =
  ru_cycles :: int
  ru_claimed :: int
  ru_settled :: int
  ru_lost :: int
  ru_reaped :: int
  ru_outages :: int

definition cycle_backoff :: "DeliveryConfig \<Rightarrow> duration \<Rightarrow> CycleSummary delivery \<Rightarrow> duration option" where
  "cycle_backoff config delay result = (case result of
     Inr _ \<Rightarrow> Some (max (dc_poll_interval config) (from_millis 50))
   | Inl StoreUnknown \<Rightarrow> Some (min (delay * 2) (from_secs 5))
   | Inl _ \<Rightarrow> None)"

definition add_cycle :: "RunSummary \<Rightarrow> CycleSummary delivery \<Rightarrow> RunSummary" where
  "add_cycle s result = (case result of
     Inr c \<Rightarrow> s\<lparr>ru_cycles := ru_cycles s + 1, ru_claimed := ru_claimed s + cy_claimed c,
       ru_settled := ru_settled s + cy_settled c, ru_lost := ru_lost s + cy_lost c, ru_reaped := ru_reaped s + cy_reaped c\<rparr>
   | Inl _ \<Rightarrow> s\<lparr>ru_outages := ru_outages s + 1\<rparr>)"

text \<open>
  When a shutdown is seen after a cycle: by the look that follows an outage at once, by the look
  before the wait, during the wait, or not. Once seen it stays requested.
\<close>

datatype shutdown_seen = SeenAtOnce | SeenBefore | SeenDuring | NotSeen

text \<open>
  The cycles of one run, up to a shutdown or to the first error other than an unknown store: the
  waits, where there is none after a cycle that claimed rows, the counters, and the error to
  report once the last reaping is done. When the list ends, the loop sees a shutdown.
\<close>

fun run_cycles ::
  "DeliveryConfig \<Rightarrow> duration \<Rightarrow> RunSummary \<Rightarrow> (CycleSummary delivery \<times> shutdown_seen) list
    \<Rightarrow> duration list \<times> (RunSummary \<times> DeliveryError option) delivery" where
  "run_cycles config delay s [] = ([], Inr (s, None))"
| "run_cycles config delay s ((r, seen) # rs) =
     (case cycle_backoff config delay r of
        None \<Rightarrow> ([], Inl (projl r))
      | Some delay' \<Rightarrow>
          let s' = add_cycle s r;
              busy = (case r of Inr c \<Rightarrow> 0 < cy_claimed c | Inl _ \<Rightarrow> False)
          in if seen = SeenAtOnce then ([], Inr (s', case r of Inl _ \<Rightarrow> Some StoreUnknown | Inr _ \<Rightarrow> None))
             else if seen = SeenBefore then ([], Inr (s', None))
             else if busy then run_cycles config delay' s' rs
             else if seen = SeenDuring then ([delay'], Inr (s', None))
             else map_prod (\<lambda>waits. delay' # waits) (\<lambda>result. result) (run_cycles config delay' s' rs))"

definition empty_run :: RunSummary where
  "empty_run = \<lparr>ru_cycles = 0, ru_claimed = 0, ru_settled = 0, ru_lost = 0, ru_reaped = 0, ru_outages = 0\<rparr>"

definition run_until_shutdown ::
  "DeliveryConfig \<Rightarrow> (CycleSummary delivery \<times> shutdown_seen) list \<Rightarrow> int delivery \<Rightarrow> duration list \<times> RunSummary delivery" where
  "run_until_shutdown config cycles reap =
     map_prod (\<lambda>waits. waits)
       (\<lambda>result. case result of
          Inl err \<Rightarrow> Inl err
        | Inr (s, shutdown_error) \<Rightarrow> (case reap of
            Inl err \<Rightarrow> Inl err
          | Inr reaped \<Rightarrow> (case shutdown_error of
              Some err \<Rightarrow> Inl err
            | None \<Rightarrow> Inr (s\<lparr>ru_reaped := ru_reaped s + reaped\<rparr>))))
       (run_cycles config (max (dc_poll_interval config) (from_millis 100)) empty_run cycles)"

end
