(* ===== verification/Relay_Handler.thy ===== *)
theory Relay_Handler
  imports Relay_Ledger Relay_Breaker Outbox_Runner
begin

text \<open>
  Delivery of one claimed staging row (\<open>handler.rs\<close>) and its settlement (\<open>source.rs\<close>). The
  handler runs concurrently with others and touches shared state only through atomic calls: a
  step of the breaker, a note in the ledger, an outcome counter. It is a function from the
  answers of its environment, the store, the source database and the decoder of the payload,
  to the calls it makes, in order, and its decision. A missing answer is a time-out.
\<close>

subsection \<open>Codes\<close>

definition CATALOG_SKEW :: ustr where "CATALOG_SKEW = lit ''relay_catalog_skew''"
definition PROJECTION_INVALID :: ustr where "PROJECTION_INVALID = lit ''relay_projection_invalid''"
definition SOURCE_UNAVAILABLE :: ustr where "SOURCE_UNAVAILABLE = lit ''relay_source_unavailable''"
definition OUTCOME_UNKNOWN :: ustr where "OUTCOME_UNKNOWN = lit ''store_outcome_unknown''"
definition STORE_CONFLICT :: ustr where "STORE_CONFLICT = lit ''conflict''"
definition STORE_REJECTED_PREFIX :: ustr where "STORE_REJECTED_PREFIX = lit ''rejected_''"

definition streak_countable :: "ustr \<Rightarrow> bool" where
  "streak_countable code = is_some_and counts_toward_outage_streak (outage_parse code)"

text \<open>Codes are ASCII, so that cutting at 64 bytes cuts at 64 characters.\<close>

definition verdict_code :: "StoreError \<Rightarrow> ustr" where
  "verdict_code e = (case e of
     Conflict \<Rightarrow> STORE_CONFLICT
   | Rejected code \<Rightarrow> take 64 (STORE_REJECTED_PREFIX @ code)
   | Outage _ \<Rightarrow> STORE_REJECTED_PREFIX @ lit ''unclassified'')"

definition held_code :: "StoreError \<Rightarrow> ustr" where
  "held_code e = (case outage_code e of Some code \<Rightarrow> lit (outage_as_str code) | None \<Rightarrow> OUTCOME_UNKNOWN)"

record HandlerConfig =
  hc_ingest_timeout :: duration
  hc_control_timeout :: duration
  hc_control_attempts :: nat

definition default_handler_config :: HandlerConfig where
  "default_handler_config = \<lparr>hc_ingest_timeout = from_secs 8, hc_control_timeout = from_secs 3, hc_control_attempts = 3\<rparr>"

subsection \<open>Outcomes and calls\<close>

datatype Outcome = DeliveredOutcome | DuplicateOutcome | HeldOutcome | OutageOutcome | QuarantinedOutcome

datatype effect = OnBreaker breaker_op | Noted Note | Counted Outcome

record claim_env =
  ce_row :: "DocumentStagingProjection option"
  ce_ingest :: "AuditEnvelope \<Rightarrow> (StoreError + IngestReceipt) option"
  ce_mismatch_seq :: "ustr \<Rightarrow> int option option"
  ce_control :: "RelayControlKind \<Rightarrow> nat \<Rightarrow> (StoreError + int \<times> int) option"
  ce_note_mismatch :: bool
  ce_now :: int

definition hold :: "ustr \<Rightarrow> bool \<Rightarrow> effect list \<times> DeliveryDecision" where
  "hold code countable =
     ([Counted OutageOutcome, Noted (Failure (FailureNote_outage code countable))], Retryable DeliveryUnknown)"

definition relay_hold :: "ustr \<Rightarrow> effect list \<times> DeliveryDecision" where
  "relay_hold code =
     ([Counted HeldOutcome, Noted (Failure (FailureNote_relay_hold code))], Retryable DeliveryUnknown)"

definition quarantine :: "ustr \<Rightarrow> ErrorCode \<Rightarrow> effect list \<times> DeliveryDecision" where
  "quarantine code runner_code =
     ([Counted QuarantinedOutcome, Noted (Failure (FailureNote_verdict code))], Terminal runner_code)"

definition after :: "effect list \<Rightarrow> effect list \<times> DeliveryDecision \<Rightarrow> effect list \<times> DeliveryDecision" where
  "after effs r = (effs @ fst r, snd r)"

subsection \<open>Source mismatches\<close>

fun control_loop :: "(nat \<Rightarrow> (StoreError + int \<times> int) option) \<Rightarrow> nat \<Rightarrow> nat \<Rightarrow> OutageCode \<Rightarrow> OutageCode + int \<times> int" where
  "control_loop ask attempt 0 last_error = Inl last_error"
| "control_loop ask attempt (Suc n) last_error =
     (case ask attempt of
        Some (Inr position) \<Rightarrow> Inr position
      | Some (Inl e) \<Rightarrow> control_loop ask (Suc attempt) n (outage_of e)
      | None \<Rightarrow> control_loop ask (Suc attempt) n Timeout)"

definition source_mismatch ::
  "HandlerConfig \<Rightarrow> claim_env \<Rightarrow> uuid \<Rightarrow> SourceMismatchCode \<Rightarrow> effect list \<times> DeliveryDecision" where
  "source_mismatch config env i mismatch =
     (let code = lit (rejection_as_str (mismatch_rejection_code mismatch)) in
      case ce_mismatch_seq env code of
        None \<Rightarrow> relay_hold SOURCE_UNAVAILABLE
      | Some (Some _) \<Rightarrow> quarantine code ErrorCode.InvalidEnvelope
      | Some None \<Rightarrow>
          (case control_loop (ce_control env (SourceMismatchDetected i mismatch)) 0
                  (max (hc_control_attempts config) 1) Other of
             Inl last_error \<Rightarrow> after [OnBreaker (RecordOutage (ce_now env))] (hold (lit (outage_as_str last_error)) False)
           | Inr _ \<Rightarrow>
               if ce_note_mismatch env then quarantine code ErrorCode.InvalidEnvelope
               else relay_hold SOURCE_UNAVAILABLE))"

subsection \<open>Delivery\<close>

definition deliver_rejected ::
  "HandlerConfig \<Rightarrow> claim_env \<Rightarrow> uuid \<Rightarrow> RejectionCode \<Rightarrow> effect list \<times> DeliveryDecision" where
  "deliver_rejected config env i code =
     (if code = SourceDigestMismatch then source_mismatch config env i SourceDigestMismatchCode
      else if code = ActorMismatch then source_mismatch config env i ActorMismatchCode
      else if code = UnknownEventType \<or> code = UnknownField then relay_hold CATALOG_SKEW
      else quarantine (lit (rejection_as_str code)) ErrorCode.InvalidEnvelope)"

definition deliver_answered ::
  "claim_env \<Rightarrow> BreakerPermit \<Rightarrow> (StoreError + IngestReceipt) option \<Rightarrow> effect list \<times> DeliveryDecision" where
  "deliver_answered env permit answer =
     (case answer of
        Some (Inr receipt) \<Rightarrow>
          (let noted = [OnBreaker RecordVerdict, Noted (ReceiptNote receipt (bp_epoch permit))] in
           if ir_outcome receipt = Stored then (noted @ [Counted DeliveredOutcome], Applied)
           else (noted @ [Counted DuplicateOutcome], KnownNoop))
      | Some (Inl e) \<Rightarrow>
          if is_terminal e then after [OnBreaker RecordVerdict] (quarantine (verdict_code e) ErrorCode.InvalidEnvelope)
          else after [OnBreaker (RecordOutage (ce_now env))] (hold (held_code e) (error_counts_toward_streak e))
      | None \<Rightarrow> after [OnBreaker (RecordOutage (ce_now env))] (hold (lit (outage_as_str Timeout)) False))"

definition deliver_claim ::
  "HandlerConfig \<Rightarrow> (DocumentStagingProjection \<Rightarrow> Rejection + AuditEnvelope) \<Rightarrow> claim_env \<Rightarrow> uuid \<Rightarrow> BreakerPermit
    \<Rightarrow> effect list \<times> DeliveryDecision" where
  "deliver_claim config projector env i permit =
     (case ce_row env of
        None \<Rightarrow> relay_hold PROJECTION_INVALID
      | Some row \<Rightarrow>
          if \<not> sp_source_intact row then source_mismatch config env i SourceDigestMismatchCode
          else (case projector row of
              Inl rejection \<Rightarrow> deliver_rejected config env i (rej_code rejection)
            | Inr audit \<Rightarrow>
                if ae_id audit \<noteq> i
                then quarantine (lit (rejection_as_str RejectionCode.InvalidEnvelope)) ErrorCode.InvalidEnvelope
                else deliver_answered env permit (ce_ingest env audit)))"

text \<open>The forecast of \<open>health.rs\<close>: what the handler would do with a row.\<close>

definition forecast_code :: "(DocumentStagingProjection \<Rightarrow> Rejection + AuditEnvelope) \<Rightarrow> DocumentStagingProjection \<Rightarrow> ustr" where
  "forecast_code projector row =
     (if \<not> sp_source_intact row then lit (rejection_as_str SourceDigestMismatch)
      else (case projector row of
          Inr _ \<Rightarrow> lit ''deliverable''
        | Inl rejection \<Rightarrow>
            if rej_code rejection = UnknownEventType \<or> rej_code rejection = UnknownField then CATALOG_SKEW
            else lit (rejection_as_str (rej_code rejection))))"

subsection \<open>Settlement\<close>

record RelayPolicy =
  ry_revision :: int
  ry_max_attempts :: int
  ry_lease_min_ms :: int
  ry_lease_max_ms :: int
  ry_backoff_min_ms :: int
  ry_backoff_max_ms :: int
  ry_outage_streak_limit :: int

definition default_relay_policy :: RelayPolicy where
  "default_relay_policy = \<lparr>ry_revision = 1, ry_max_attempts = 16, ry_lease_min_ms = 1000, ry_lease_max_ms = 120000,
     ry_backoff_min_ms = 1000, ry_backoff_max_ms = 300000, ry_outage_streak_limit = 64\<rparr>"

definition relay_policy_validate :: "RelayPolicy \<Rightarrow> DeliveryError + unit" where
  "relay_policy_validate p =
     (if 0 < ry_revision p \<and> 1 \<le> ry_max_attempts p \<and> ry_max_attempts p \<le> 32
         \<and> 1000 \<le> ry_lease_min_ms p \<and> ry_lease_min_ms p \<le> 120000
         \<and> ry_lease_min_ms p \<le> ry_lease_max_ms p \<and> ry_lease_max_ms p \<le> 120000
         \<and> 1000 \<le> ry_backoff_min_ms p \<and> ry_backoff_min_ms p \<le> 300000
         \<and> ry_backoff_min_ms p \<le> ry_backoff_max_ms p \<and> ry_backoff_max_ms p \<le> 300000
         \<and> 1 \<le> ry_outage_streak_limit p \<and> ry_outage_streak_limit p \<le> 1024
      then Inr () else Inl InvalidConfig)"

definition as_millis :: "duration \<Rightarrow> int" where "as_millis d = d div 1000000"

definition relay_lease_ms :: "RelayPolicy \<Rightarrow> duration \<Rightarrow> DeliveryError + int" where
  "relay_lease_ms p lease =
     (let lease_ms = as_millis lease in
      if i64_max < lease_ms then Inl InvalidConfig
      else if \<not> (ry_lease_min_ms p \<le> lease_ms \<and> lease_ms \<le> ry_lease_max_ms p) \<or> lease \<noteq> from_millis lease_ms
      then Inl InvalidConfig
      else Inr lease_ms)"

definition relay_verify_policy :: "RelayPolicy \<Rightarrow> RelayPolicy option \<Rightarrow> DeliveryError + unit" where
  "relay_verify_policy expected loaded =
     and_then (relay_policy_validate expected) (\<lambda>_.
       and_then (ok_or StoreUnknown loaded) (\<lambda>db. if db \<noteq> expected then Inl PolicyMismatch else Inr ()))"

definition relay_backoff_bounds :: "RelayPolicy \<Rightarrow> duration \<times> duration" where
  "relay_backoff_bounds p =
     (from_millis (if ry_backoff_min_ms p < 0 then 1000 else ry_backoff_min_ms p),
      from_millis (if ry_backoff_max_ms p < 0 then 300000 else ry_backoff_max_ms p))"

text \<open>The calls of the functions of the source database that settle a claim.\<close>

datatype settle_call =
    CallSuccess uuid uuid int "int list" ustr int
  | CallFailure uuid uuid ustr bool int bool bool bool

definition fence :: "bool \<Rightarrow> FenceResult" where "fence updated = (if updated then Updated else Lost)"

definition settle_success :: "DeliveryLedger \<Rightarrow> uuid \<Rightarrow> uuid \<Rightarrow> DeliveryLedger \<times> (DeliveryError + settle_call)" where
  "settle_success g event_id lease_token =
     (case ledger_take g event_id lease_token of
        (g', Some (ReceiptNote receipt store_epoch)) \<Rightarrow>
          (g', Inr (CallSuccess event_id lease_token (ir_seq receipt) (ir_envelope_digest receipt)
             (lit (outcome_as_str (ir_outcome receipt))) store_epoch))
      | (g', _) \<Rightarrow> (g', Inl StoreUnknown))"

definition settle_failure ::
  "RelayPolicy \<Rightarrow> DeliveryLedger \<Rightarrow> uuid \<Rightarrow> uuid \<Rightarrow> ErrorCode \<Rightarrow> bool \<Rightarrow> duration
    \<Rightarrow> DeliveryLedger \<times> (DeliveryError + settle_call)" where
  "settle_failure p g event_id lease_token code terminal delay =
     (let backoff_ms = as_millis delay in
      if i64_max < backoff_ms \<or> \<not> (ry_backoff_min_ms p \<le> backoff_ms \<and> backoff_ms \<le> ry_backoff_max_ms p)
      then (g, Inl InvalidConfig)
      else (case ledger_take g event_id lease_token of (g', taken) \<Rightarrow>
        let n = (case taken of Some (Failure n) \<Rightarrow> n | _ \<Rightarrow> FailureNote_verdict (error_code_as_str code)) in
        (g', Inr (CallFailure event_id lease_token (fn_code n) (terminal \<and> \<not> fn_outage n) backoff_ms
           (fn_outage n) (fn_streak_countable n) (fn_relay_hold n)))))"

text \<open>The last step of the runner for a claim: the settlement that the decision asks for.\<close>

definition settle_decision ::
  "(byte list \<Rightarrow> byte list) \<Rightarrow> RelayPolicy \<Rightarrow> DeliveryLedger \<Rightarrow> uuid \<Rightarrow> uuid \<Rightarrow> int \<Rightarrow> DeliveryDecision
    \<Rightarrow> DeliveryLedger \<times> (DeliveryError + settle_call)" where
  "settle_decision sha p g i token attempt decision =
     (let delay = retry_delay_within sha i attempt (relay_backoff_bounds p) in
      case decision of
        Applied \<Rightarrow> settle_success g i token
      | KnownNoop \<Rightarrow> settle_success g i token
      | Retryable code \<Rightarrow> settle_failure p g i token code False delay
      | Terminal code \<Rightarrow> settle_failure p g i token code True delay)"

end
