(* ===== verification/Relay_Delivery.thy ===== *)
theory Relay_Delivery
  imports Relay_Handler
begin

text \<open>
  What a settled claim means. An acknowledgement carries the receipt the store returned for the
  envelope of this very row; a row leaves the queue for quarantine only on a verdict, of the store
  or of the relay; everything else is held, returns the attempt, and is forecast as such.
\<close>

subsection \<open>What the handler leaves behind\<close>

definition noted_in :: "effect list \<Rightarrow> Note list" where
  "noted_in effs = List.map_filter (\<lambda>e. case e of Noted n \<Rightarrow> Some n | _ \<Rightarrow> None) effs"

lemma noted_in_simps [simp]:
  "noted_in [] = []" "noted_in (Noted n # effs) = n # noted_in effs"
  "noted_in (OnBreaker b # effs) = noted_in effs" "noted_in (Counted x # effs) = noted_in effs"
  by (simp_all add: noted_in_def map_filter_simps)

text \<open>A mismatch of the source row, found on this row and recorded in the store for this event.\<close>

definition mismatch_grounds ::
  "HandlerConfig \<Rightarrow> (DocumentStagingProjection \<Rightarrow> Rejection + AuditEnvelope) \<Rightarrow> claim_env \<Rightarrow> uuid
    \<Rightarrow> DocumentStagingProjection \<Rightarrow> ustr \<Rightarrow> bool" where
  "mismatch_grounds config projector env i row code \<longleftrightarrow>
     (\<exists>m. code = lit (rejection_as_str (mismatch_rejection_code m))
       \<and> (\<not> sp_source_intact row \<and> m = SourceDigestMismatchCode
          \<or> (\<exists>rejection. projector row = Inl rejection \<and> rej_code rejection = mismatch_rejection_code m))
       \<and> ((\<exists>s. ce_mismatch_seq env code = Some (Some s))
          \<or> (\<exists>k < max (hc_control_attempts config) 1. \<exists>position.
               ce_control env (SourceMismatchDetected i m) k = Some (Inr position)) \<and> ce_note_mismatch env))"

definition quarantine_grounds ::
  "HandlerConfig \<Rightarrow> (DocumentStagingProjection \<Rightarrow> Rejection + AuditEnvelope) \<Rightarrow> claim_env \<Rightarrow> uuid \<Rightarrow> ustr \<Rightarrow> bool" where
  "quarantine_grounds config projector env i code \<longleftrightarrow>
     (\<exists>row. ce_row env = Some row \<and>
       (mismatch_grounds config projector env i row code
        \<or> (\<exists>rejection. projector row = Inl rejection \<and> code = lit (rejection_as_str (rej_code rejection))
             \<and> rej_code rejection \<notin> {SourceDigestMismatch, ActorMismatch, UnknownEventType, UnknownField})
        \<or> (\<exists>audit. projector row = Inr audit \<and> ae_id audit \<noteq> i
             \<and> code = lit (rejection_as_str RejectionCode.InvalidEnvelope))
        \<or> (\<exists>audit e. projector row = Inr audit \<and> ae_id audit = i \<and> ce_ingest env audit = Some (Inl e)
             \<and> is_terminal e \<and> code = verdict_code e)))"

lemma control_loop_ok:
  "control_loop ask attempt n e = Inr position \<Longrightarrow> \<exists>k<attempt + n. ask k = Some (Inr position)"
proof (induction n arbitrary: attempt e)
  case (Suc n)
  show ?case
  proof (cases "ask attempt = Some (Inr position)")
    case True
    then show ?thesis by (intro exI [of _ attempt]) simp
  next
    case False
    with Suc.prems obtain e' where "control_loop ask (Suc attempt) n e' = Inr position"
      by (auto split: option.splits sum.splits)
    from Suc.IH [OF this] show ?thesis by auto
  qed
qed simp

text \<open>The three ways a delivery ends.\<close>

definition delivered_with ::
  "(DocumentStagingProjection \<Rightarrow> Rejection + AuditEnvelope) \<Rightarrow> claim_env \<Rightarrow> uuid \<Rightarrow> IngestReceipt \<Rightarrow> bool" where
  "delivered_with projector env i receipt \<longleftrightarrow>
     (\<exists>row audit. ce_row env = Some row \<and> sp_source_intact row \<and> projector row = Inr audit \<and> ae_id audit = i
       \<and> ce_ingest env audit = Some (Inr receipt))"

definition delivery_ends ::
  "HandlerConfig \<Rightarrow> (DocumentStagingProjection \<Rightarrow> Rejection + AuditEnvelope) \<Rightarrow> claim_env \<Rightarrow> uuid \<Rightarrow> BreakerPermit
    \<Rightarrow> effect list \<times> DeliveryDecision \<Rightarrow> bool" where
  "delivery_ends config projector env i permit r \<longleftrightarrow>
     (\<exists>receipt. (snd r = Applied \<or> snd r = KnownNoop) \<and> noted_in (fst r) = [ReceiptNote receipt (bp_epoch permit)]
        \<and> delivered_with projector env i receipt)
     \<or> (\<exists>n. snd r = Retryable DeliveryUnknown \<and> noted_in (fst r) = [Failure n] \<and> fn_outage n)
     \<or> (\<exists>code. snd r = Terminal ErrorCode.InvalidEnvelope \<and> noted_in (fst r) = [Failure (FailureNote_verdict code)]
        \<and> quarantine_grounds config projector env i code)"

lemmas outcome_defs = hold_def relay_hold_def quarantine_def after_def FailureNote_outage_def FailureNote_relay_hold_def

lemma hold_ends: "delivery_ends config projector env i permit (relay_hold code)"
  "delivery_ends config projector env i permit (after [OnBreaker p] (hold code countable))"
  by (auto simp: delivery_ends_def outcome_defs)

lemma quarantine_ends:
  "quarantine_grounds config projector env i code \<Longrightarrow>
     delivery_ends config projector env i permit (quarantine code ErrorCode.InvalidEnvelope)"
  "quarantine_grounds config projector env i code \<Longrightarrow>
     delivery_ends config projector env i permit (after [OnBreaker p] (quarantine code ErrorCode.InvalidEnvelope))"
  by (auto simp: delivery_ends_def outcome_defs)

lemma mismatch_ends:
  assumes "ce_row env = Some row"
    and "\<not> sp_source_intact row \<and> m = SourceDigestMismatchCode
      \<or> (\<exists>rejection. projector row = Inl rejection \<and> rej_code rejection = mismatch_rejection_code m)"
  shows "delivery_ends config projector env i permit (source_mismatch config env i m)"
proof -
  let ?code = "lit (rejection_as_str (mismatch_rejection_code m))"
  have grounds: "quarantine_grounds config projector env i ?code"
    if "(\<exists>s. ce_mismatch_seq env ?code = Some (Some s)) \<or>
      (\<exists>k < max (hc_control_attempts config) 1. \<exists>position.
         ce_control env (SourceMismatchDetected i m) k = Some (Inr position)) \<and> ce_note_mismatch env"
    unfolding quarantine_grounds_def mismatch_grounds_def using assms that by blast
  show ?thesis
  proof (cases "ce_mismatch_seq env ?code")
    case None
    then show ?thesis by (simp add: source_mismatch_def Let_def hold_ends)
  next
    case (Some recorded)
    show ?thesis
    proof (cases recorded)
      case (Some s)
      with \<open>ce_mismatch_seq env ?code = Some recorded\<close> quarantine_ends(1) [OF grounds] show ?thesis
        by (simp add: source_mismatch_def Let_def)
    next
      case None
      show ?thesis
      proof (cases "control_loop (ce_control env (SourceMismatchDetected i m)) 0 (max (hc_control_attempts config) 1) Other")
        case (Inl e)
        with None \<open>ce_mismatch_seq env ?code = Some recorded\<close> show ?thesis
          by (simp add: source_mismatch_def Let_def hold_ends)
      next
        case (Inr position)
        from control_loop_ok [OF this] have "\<exists>k < max (hc_control_attempts config) 1. \<exists>position.
          ce_control env (SourceMismatchDetected i m) k = Some (Inr position)" by auto
        then have "delivery_ends config projector env i permit (quarantine ?code ErrorCode.InvalidEnvelope)"
          if "ce_note_mismatch env" using that by (intro quarantine_ends(1) grounds) blast
        with None Inr \<open>ce_mismatch_seq env ?code = Some recorded\<close> hold_ends(1)
        show ?thesis by (simp add: source_mismatch_def Let_def)
      qed
    qed
  qed
qed

lemma deliver_claim_ends:
  "delivery_ends config projector env i permit (deliver_claim config projector env i permit)"
proof (cases "ce_row env")
  case None
  then show ?thesis by (simp add: deliver_claim_def hold_ends)
next
  case row: (Some row)
  show ?thesis
  proof (cases "sp_source_intact row")
    case False
    with row mismatch_ends [OF row, of SourceDigestMismatchCode] show ?thesis by (simp add: deliver_claim_def)
  next
    case intact: True
    show ?thesis
    proof (cases "projector row")
      case (Inl rejection)
      have "quarantine_grounds config projector env i (lit (rejection_as_str (rej_code rejection)))"
        if "rej_code rejection \<notin> {SourceDigestMismatch, ActorMismatch, UnknownEventType, UnknownField}"
        unfolding quarantine_grounds_def using row Inl that by blast
      with row intact Inl mismatch_ends [OF row, of SourceDigestMismatchCode projector]
        mismatch_ends [OF row, of ActorMismatchCode projector] quarantine_ends(1) hold_ends(1)
      show ?thesis by (simp add: deliver_claim_def deliver_rejected_def)
    next
      case (Inr audit)
      show ?thesis
      proof (cases "ae_id audit = i")
        case False
        then have "quarantine_grounds config projector env i (lit (rejection_as_str RejectionCode.InvalidEnvelope))"
          unfolding quarantine_grounds_def using row Inr by blast
        with row intact Inr False quarantine_ends(1) show ?thesis by (simp add: deliver_claim_def)
      next
        case True
        have "delivery_ends config projector env i permit (deliver_answered env permit (ce_ingest env audit))"
        proof (cases "ce_ingest env audit")
          case None
          then show ?thesis by (simp add: deliver_answered_def hold_ends)
        next
          case (Some answer)
          show ?thesis
          proof (cases answer)
            case (Inr receipt)
            then have "delivered_with projector env i receipt"
              unfolding delivered_with_def using row intact \<open>projector row = Inr audit\<close> True Some by blast
            with Some Inr show ?thesis by (auto simp: deliver_answered_def delivery_ends_def Let_def)
          next
            case (Inl e)
            then have "quarantine_grounds config projector env i (verdict_code e)" if "is_terminal e"
              unfolding quarantine_grounds_def using row \<open>projector row = Inr audit\<close> True Some that by blast
            with Some Inl quarantine_ends(2) hold_ends(2) show ?thesis by (auto simp: deliver_answered_def)
          qed
        qed
        with row intact Inr True show ?thesis by (simp add: deliver_claim_def)
      qed
    qed
  qed
qed

subsection \<open>Settled claims\<close>

text \<open>The ledger after the notes of a delivery, and after calls of other claims.\<close>

definition note_effects :: "uuid \<Rightarrow> uuid \<Rightarrow> effect list \<Rightarrow> DeliveryLedger \<Rightarrow> DeliveryLedger" where
  "note_effects i token effs g = fold (\<lambda>n g. ledger_record g i token n) (noted_in effs) g"

lemma other_calls_read:
  assumes "note_ledger_ok g" and "\<forall>(k, _)\<in>set calls. k \<noteq> (i, token)"
  shows "note_ledger_ok (fold ledger_call calls g)
    \<and> snd (ledger_take (fold ledger_call calls g) i token) \<in> {None, snd (ledger_take g i token)}"
  using assms
proof (induction calls arbitrary: g)
  case (Cons c calls)
  obtain k x where c: "c = (k, x)" by (cases c)
  have ok: "note_ledger_ok (ledger_call c g)" using Cons.prems(1)
    by (auto simp: c ledger_call_def ledger_record_ok ledger_take_ok split: option.split)
  have read: "snd (ledger_take (ledger_call c g) i token) \<in> {None, snd (ledger_take g i token)}"
  proof (cases x)
    case None
    with Cons.prems show ?thesis by (auto simp: c ledger_call_def take_lookup)
  next
    case (Some n)
    with Cons.prems record_lookup(2) [OF Cons.prems(1), of "(i, token)" "fst k" "snd k" n] show ?thesis
      by (auto simp: c ledger_call_def take_lookup)
  qed
  from Cons.IH [OF ok] Cons.prems(2) read show ?case by auto
qed simp

lemma settled_note:
  assumes "note_ledger_ok g" and "noted_in effs = [n]" and "\<forall>(k, _)\<in>set calls. k \<noteq> (i, token)"
  shows "snd (ledger_take (fold ledger_call calls (note_effects i token effs g)) i token) \<in> {None, Some n}"
  using other_calls_read [OF ledger_record_ok [OF assms(1)] assms(3), of i token n] record_lookup(1) [OF assms(1), of i token n]
  by (simp add: note_effects_def assms(2) take_lookup)

lemma settle_success_call:
  assumes "settle_success g i token = (g', Inr call)"
  obtains receipt epoch where "snd (ledger_take g i token) = Some (ReceiptNote receipt epoch)"
    and "call = CallSuccess i token (ir_seq receipt) (ir_envelope_digest receipt) (lit (outcome_as_str (ir_outcome receipt))) epoch"
  using assms unfolding settle_success_def
  by (cases "ledger_take g i token") (auto split: option.splits Note.splits)

lemma settle_failure_call:
  assumes "settle_failure p g i token code terminal delay = (g', Inr call)"
  obtains n where "n = (case snd (ledger_take g i token) of Some (Failure n) \<Rightarrow> n | _ \<Rightarrow> FailureNote_verdict (error_code_as_str code))"
    and "call = CallFailure i token (fn_code n) (terminal \<and> \<not> fn_outage n) (as_millis delay) (fn_outage n)
      (fn_streak_countable n) (fn_relay_hold n)"
    and "ry_backoff_min_ms p \<le> as_millis delay" and "as_millis delay \<le> ry_backoff_max_ms p"
  using assms unfolding settle_failure_def Let_def
  by (cases "ledger_take g i token") (auto split: if_splits)

definition settled_soundly ::
  "HandlerConfig \<Rightarrow> (DocumentStagingProjection \<Rightarrow> Rejection + AuditEnvelope) \<Rightarrow> claim_env \<Rightarrow> RelayPolicy \<Rightarrow> uuid \<Rightarrow> uuid
    \<Rightarrow> BreakerPermit \<Rightarrow> settle_call \<Rightarrow> bool" where
  "settled_soundly config projector env p i token permit call = (case call of
     CallSuccess i' token' seq digest outcome epoch \<Rightarrow> i' = i \<and> token' = token \<and> epoch = bp_epoch permit
       \<and> (\<exists>receipt. delivered_with projector env i receipt \<and> seq = ir_seq receipt
            \<and> digest = ir_envelope_digest receipt \<and> outcome = lit (outcome_as_str (ir_outcome receipt)))
   | CallFailure i' token' code terminal backoff_ms outage countable hold' \<Rightarrow> i' = i \<and> token' = token
       \<and> ry_backoff_min_ms p \<le> backoff_ms \<and> backoff_ms \<le> ry_backoff_max_ms p
       \<and> (terminal \<longrightarrow> \<not> outage \<and> (\<exists>code'. quarantine_grounds config projector env i code'
            \<and> code \<in> {code', error_code_as_str ErrorCode.InvalidEnvelope})))"

text \<open>
  (C22) Claims are settled on evidence only. Deliver a claimed row, in whatever environment, let any other
  claims use the ledger meanwhile, and settle the decision: an acknowledgement names this claim and the
  sequence number, digest and outcome of the receipt the store returned for the envelope projected from
  this unchanged row, with the epoch of the permit; and the relay calls a failure terminal only on a
  verdict: a rejection by the store, a rejected projection that is not catalog skew, a wrong
  identifier, or a source mismatch that the store has recorded. It never calls an outage terminal; that the
  SQL function quarantines a row also at its attempt and outage limits is not a decision of the relay.
\<close>

theorem relay_settles_on_evidence:
  assumes "note_ledger_ok g" and "deliver_claim config projector env i permit = (effs, decision)"
    and "\<forall>(k, _)\<in>set calls. k \<noteq> (i, token)"
    and "settle_decision sha p (fold ledger_call calls (note_effects i token effs g)) i token attempt decision = (g', Inr call)"
  shows "settled_soundly config projector env p i token permit call"
proof -
  let ?g = "fold ledger_call calls (note_effects i token effs g)"
  from deliver_claim_ends [of config projector env i permit]
  consider (done') receipt where "decision = Applied \<or> decision = KnownNoop" "noted_in effs = [ReceiptNote receipt (bp_epoch permit)]"
      "delivered_with projector env i receipt"
    | (held) n where "decision = Retryable DeliveryUnknown" "noted_in effs = [Failure n]" "fn_outage n"
    | (terminal) code where "decision = Terminal ErrorCode.InvalidEnvelope" "noted_in effs = [Failure (FailureNote_verdict code)]"
      "quarantine_grounds config projector env i code"
    by (auto simp: delivery_ends_def assms(2))
  then show ?thesis
  proof cases
    case done'
    with assms(4) have "settle_success ?g i token = (g', Inr call)" by (auto simp: settle_decision_def Let_def)
    then show ?thesis
    proof (rule settle_success_call)
      fix receipt' epoch
      assume read: "snd (ledger_take ?g i token) = Some (ReceiptNote receipt' epoch)"
        and "call = CallSuccess i token (ir_seq receipt') (ir_envelope_digest receipt') (lit (outcome_as_str (ir_outcome receipt'))) epoch"
      with settled_note [OF assms(1) done'(2) assms(3)] done'(3) show ?thesis by (auto simp: settled_soundly_def)
    qed
  next
    case held
    with assms(4) have "settle_failure p ?g i token DeliveryUnknown False
      (retry_delay_within sha i attempt (relay_backoff_bounds p)) = (g', Inr call)"
      by (simp add: settle_decision_def Let_def)
    then show ?thesis by (rule settle_failure_call) (simp add: settled_soundly_def)
  next
    case terminal
    with assms(4) have "settle_failure p ?g i token ErrorCode.InvalidEnvelope True
      (retry_delay_within sha i attempt (relay_backoff_bounds p)) = (g', Inr call)"
      by (simp add: settle_decision_def Let_def)
    then show ?thesis
    proof (rule settle_failure_call)
      fix n
      assume n: "n = (case snd (ledger_take ?g i token) of Some (Failure n) \<Rightarrow> n
        | _ \<Rightarrow> FailureNote_verdict (error_code_as_str ErrorCode.InvalidEnvelope))"
        and call: "call = CallFailure i token (fn_code n) (True \<and> \<not> fn_outage n)
          (as_millis (retry_delay_within sha i attempt (relay_backoff_bounds p))) (fn_outage n) (fn_streak_countable n) (fn_relay_hold n)"
        and bounds: "ry_backoff_min_ms p \<le> as_millis (retry_delay_within sha i attempt (relay_backoff_bounds p))"
          "as_millis (retry_delay_within sha i attempt (relay_backoff_bounds p)) \<le> ry_backoff_max_ms p"
      from settled_note [OF assms(1) terminal(2) assms(3)]
      have "n \<in> {FailureNote_verdict code, FailureNote_verdict (error_code_as_str ErrorCode.InvalidEnvelope)}"
        unfolding n by auto
      with call bounds terminal(3) show ?thesis by (auto simp: settled_soundly_def FailureNote_verdict_def)
    qed
  qed
qed

text \<open>
  A failed delivery can always be settled. Under a policy that passed its check, the delay the runner
  computes, for any event, attempt number and hash function, lies within the bounds the settlement checks,
  so that the settlement of a held or quarantined claim is never refused before it reaches the database.
\<close>

theorem failed_claims_always_settle:
  assumes "relay_policy_validate p = Inr ()" and "decision = Retryable code \<or> decision = Terminal code"
  shows "\<exists>g' call. settle_decision sha p g i token attempt decision = (g', Inr call)"
proof -
  let ?delay = "retry_delay_within sha i attempt (relay_backoff_bounds p)"
  from assms(1) have p: "1000 \<le> ry_backoff_min_ms p" "ry_backoff_min_ms p \<le> ry_backoff_max_ms p" "ry_backoff_max_ms p \<le> 300000"
    by (auto simp: relay_policy_validate_def split: if_splits)
  then have "from_millis (ry_backoff_min_ms p) \<le> ?delay" "?delay \<le> from_millis (ry_backoff_max_ms p)"
    by (auto simp: retry_delay_within_def relay_backoff_bounds_def from_millis_def)
  then have "ry_backoff_min_ms p \<le> as_millis ?delay" "as_millis ?delay \<le> ry_backoff_max_ms p"
    using zdiv_mono1 [of "from_millis (ry_backoff_min_ms p)" ?delay 1000000]
      zdiv_mono1 [of ?delay "from_millis (ry_backoff_max_ms p)" 1000000]
    by (simp_all add: as_millis_def from_millis_def)
  with p have "\<exists>g' call. settle_failure p g i token code terminal ?delay = (g', Inr call)" for terminal
    by (auto simp: settle_failure_def Let_def i64_max_def split: prod.split)
  with assms(2) show ?thesis by (auto simp: settle_decision_def Let_def)
qed

text \<open>
  The health forecast is what the handler does. For a row whose projection carries the identifier of
  the claim, a row forecast as deliverable is exactly one that the handler sends to the store; a row
  forecast as catalog skew is held with that code; and a row the handler quarantines without asking the
  store is quarantined with the forecast code.
\<close>

theorem forecast_matches_delivery:
  assumes "ce_row env = Some row" and "\<And>audit. projector row = Inr audit \<Longrightarrow> ae_id audit = i"
  shows "(forecast_code projector row = lit ''deliverable'' \<longleftrightarrow>
      (\<exists>audit. sp_source_intact row \<and> projector row = Inr audit
        \<and> deliver_claim config projector env i permit = deliver_answered env permit (ce_ingest env audit)))
    \<and> (forecast_code projector row = CATALOG_SKEW \<longrightarrow>
        deliver_claim config projector env i permit = relay_hold CATALOG_SKEW)
    \<and> (forecast_code projector row \<noteq> lit ''deliverable'' \<longrightarrow>
        snd (deliver_claim config projector env i permit) = Terminal ErrorCode.InvalidEnvelope \<longrightarrow>
        noted_in (fst (deliver_claim config projector env i permit)) = [Failure (FailureNote_verdict (forecast_code projector row))])"
proof -
  have codes: "lit (rejection_as_str c) \<noteq> lit ''deliverable''" "lit (rejection_as_str c) \<noteq> CATALOG_SKEW" for c
    by (cases c; simp add: CATALOG_SKEW_def)+
  have skew: "CATALOG_SKEW \<noteq> lit ''deliverable''" by (simp add: CATALOG_SKEW_def)
  have mismatch: "snd (source_mismatch config env i m) = Terminal ErrorCode.InvalidEnvelope \<longrightarrow>
      noted_in (fst (source_mismatch config env i m))
        = [Failure (FailureNote_verdict (lit (rejection_as_str (mismatch_rejection_code m))))]" for m
    by (simp add: source_mismatch_def Let_def outcome_defs split: option.split sum.split)
  show ?thesis
  proof (cases "sp_source_intact row")
    case False
    with assms(1) codes mismatch [of SourceDigestMismatchCode] show ?thesis
      by (simp add: forecast_code_def deliver_claim_def CATALOG_SKEW_def)
  next
    case intact: True
    show ?thesis
    proof (cases "projector row")
      case (Inr audit)
      with intact assms(1) assms(2) [OF Inr] skew show ?thesis by (simp add: forecast_code_def deliver_claim_def)
    next
      case (Inl rejection)
      with intact assms(1) codes skew mismatch [of SourceDigestMismatchCode] mismatch [of ActorMismatchCode]
      show ?thesis by (auto simp: forecast_code_def deliver_claim_def deliver_rejected_def outcome_defs)
    qed
  qed
qed

end
