(* ===== verification/Outbox_Fencing.thy ===== *)
theory Outbox_Fencing
  imports Outbox_Runner
begin

text \<open>
  Fencing of the outbox runner. Every run of the claim automaton that settles has the shape of the
  protocol: the outbox lease, the permit's lease and the permit's fence are confirmed before the
  handler starts, both leases are renewed at every heartbeat, and all three are confirmed again
  after the decision; nothing is settled after a lost fence, a failed call or a cancellation. A
  cycle releases every permit it obtained and dispatches no more than its slots.
\<close>

subsection \<open>The protocol of a claim\<close>

datatype io = IoRenew | IoPermit | IoPreflight | IoTick | IoDecide DeliveryDecision

fun io_of :: "claim_event \<Rightarrow> io option" where
  "io_of (Renew r) = Some IoRenew"
| "io_of (PermitRenew r) = Some IoPermit"
| "io_of (Preflight r) = Some IoPreflight"
| "io_of Tick = Some IoTick"
| "io_of (HandlerDone d) = Some (IoDecide d)"
| "io_of _ = None"

definition ios :: "claim_event list \<Rightarrow> io list" where "ios evs = List.map_filter io_of evs"

text \<open>An event that lets the claim go on.\<close>

fun clean :: "int \<Rightarrow> claim_event \<Rightarrow> bool" where
  "clean deadline (ClockRead now) = (now < deadline)"
| "clean deadline (CancelRead c) = (\<not> c)"
| "clean deadline (Renew r) = (r = Inr Updated)"
| "clean deadline (PermitRenew r) = (r = Inr Updated)"
| "clean deadline (Preflight r) = (r = Inr Updated)"
| "clean deadline (HandlerDone d) = True"
| "clean deadline Tick = True"
| "clean deadline _ = False"

definition check :: "io list" where "check = [IoRenew, IoPermit, IoPreflight]"

definition beats :: "nat \<Rightarrow> io list" where "beats n = concat (replicate n [IoTick, IoRenew, IoPermit])"

definition before :: "phase \<Rightarrow> nat \<Rightarrow> io list" where
  "before ph n = (case ph of First \<Rightarrow> [] | Final d \<Rightarrow> check @ beats n @ [IoDecide d])"

primrec shape :: "claim_pc \<Rightarrow> nat \<Rightarrow> io list" where
  "shape AtStart n = []" | "shape AtCancel n = []" | "shape AtPublish n = []"
| "shape (CheckEntry ph) n = before ph n" | "shape (CheckRenew ph) n = before ph n"
| "shape (CheckRenewed ph) n = before ph n @ [IoRenew]" | "shape (CheckPermit ph) n = before ph n @ [IoRenew]"
| "shape (CheckPermitted ph) n = before ph n @ [IoRenew, IoPermit]"
| "shape (CheckPreflight ph) n = before ph n @ [IoRenew, IoPermit]"
| "shape (CheckPreflighted ph) n = before ph n @ check" | "shape (AtClock ph) n = before ph n @ check"
| "shape (AtGo ph) n = before ph n @ check"
| "shape Handling n = check @ beats n"
| "shape (Decided d) n = before (Final d) n" | "shape (Publish d) n = before (Final d) n"
| "shape BeatEntry n = check @ beats n @ [IoTick]" | "shape BeatRenew n = check @ beats n @ [IoTick]"
| "shape BeatRenewed n = check @ beats n @ [IoTick, IoRenew]" | "shape BeatPermit n = check @ beats n @ [IoTick, IoRenew]"
| "shape BeatPermitted n = check @ beats n @ [IoTick, IoRenew, IoPermit]"
| "shape BeatDone n = check @ beats n @ [IoTick, IoRenew, IoPermit]"
| "shape (Settling d) n = before (Final d) n @ check"
| "shape (Finished r) n = []"

lemma beats_Suc: "beats (Suc n) = beats n @ [IoTick, IoRenew, IoPermit]"
proof -
  have "replicate (Suc n) x = replicate n x @ [x]" for x :: "io list" by (simp add: replicate_append_same)
  then show ?thesis by (simp add: beats_def)
qed

lemma beats_0: "beats 0 = []"
  by (simp add: beats_def)

lemma ios_snoc: "ios (evs @ [ev]) = ios evs @ (case io_of ev of None \<Rightarrow> [] | Some i \<Rightarrow> [i])"
  by (simp add: ios_def map_filter_def split: option.split)

lemma claim_run_snoc:
  "claim_run deadline pc (evs @ [ev]) = Option.bind (claim_run deadline pc evs) (\<lambda>pc'. claim_step deadline pc' ev)"
  by (induction evs arbitrary: pc) (auto split: Option.bind_split)

lemma claim_run_append:
  "claim_run deadline pc (xs @ ys) = Option.bind (claim_run deadline pc xs) (\<lambda>pc'. claim_run deadline pc' ys)"
  by (induction xs arbitrary: pc) (auto split: Option.bind_split)

lemmas step_simps = claim_step_def on_clock_def on_cancel_def on_renew_def on_permit_def on_preflight_def handling_def
  on_settle_def fenced_def unless_cancelled_def before_deadline_def after_check_def

lemma going_step:
  assumes "claim_step deadline pc ev = Some pc'" and "\<forall>r. pc' \<noteq> Finished r"
  shows "clean deadline ev \<and> (\<exists>m. shape pc' m = shape pc n @ (case io_of ev of None \<Rightarrow> [] | Some i \<Rightarrow> [i]))"
  using assms
  by (cases pc; cases ev)
    (auto simp: step_simps before_def check_def beats_0 beats_Suc [symmetric] intro: exI [of _ 0] exI [of _ n] exI [of _ "Suc n"]
      split: if_splits sum.splits FenceResult.splits phase.splits)

lemma going_run:
  assumes "claim_run deadline AtStart evs = Some pc" and "\<forall>r. pc \<noteq> Finished r"
  shows "list_all (clean deadline) evs \<and> (\<exists>n. ios evs = shape pc n)"
  using assms
proof (induction evs arbitrary: pc rule: rev_induct)
  case Nil
  then show ?case by (auto simp: ios_def map_filter_simps)
next
  case (snoc ev evs)
  from snoc.prems(1) obtain p where p: "claim_run deadline AtStart evs = Some p" and step: "claim_step deadline p ev = Some pc"
    by (auto simp: claim_run_snoc bind_eq_Some_conv)
  have "\<forall>r. p \<noteq> Finished r" using step by (auto simp: claim_step_def)
  from snoc.IH [OF p this] obtain n where IH: "list_all (clean deadline) evs" "ios evs = shape p n" by blast
  from going_step [OF step snoc.prems(2), of n] obtain m where "clean deadline ev"
    "shape pc m = shape p n @ (case io_of ev of None \<Rightarrow> [] | Some i \<Rightarrow> [i])" by blast
  with IH have "list_all (clean deadline) (evs @ [ev])" "ios (evs @ [ev]) = shape pc m" by (simp_all add: ios_snoc)
  then show ?case by blast
qed

lemma settle_step:
  assumes "claim_step deadline pc (Settle d r) = Some pc'"
  shows "pc = Settling d \<and> pc' = Finished (map_sum (\<lambda>e. e) (\<lambda>f. case f of Updated \<Rightarrow> SettledClaim | Lost \<Rightarrow> LostClaim) r)"
  using assms by (cases pc) (auto simp: step_simps split: if_splits)

lemma settled_only:
  assumes "claim_step deadline pc ev = Some (Finished (Inr SettledClaim))"
  shows "\<exists>d. ev = Settle d (Inr Updated)"
proof (cases "\<exists>d r. ev = Settle d r")
  case True
  then obtain d r where ev: "ev = Settle d r" by blast
  with assms have "map_sum (\<lambda>e. e) (\<lambda>f. case f of Updated \<Rightarrow> SettledClaim | Lost \<Rightarrow> LostClaim) r = Inr SettledClaim"
    by (auto dest: settle_step)
  with ev show ?thesis by (cases r) (auto split: FenceResult.splits)
next
  case False
  with assms show ?thesis
    by (cases pc; cases ev) (auto simp: step_simps split: if_splits sum.splits FenceResult.splits phase.splits)
qed

text \<open>
  (C23) Nothing is settled outside the fences. In every run of a claim in which a settlement is attempted,
  it is the last event; before it come exactly the confirmation of the outbox lease, the permit lease and
  the permit, then any number of heartbeats that each renew both leases, the decision of the handler, and
  the same three confirmations again; every one of these calls answered that the claim is still held, no
  cancellation was seen and no clock reading had reached the deadline. The claim counts as settled exactly
  when the settlement confirmed its row.
\<close>

theorem settlement_is_fenced:
  assumes "claim_run deadline AtStart evs = Some pc" and "Settle d r \<in> set evs"
  shows "\<exists>evs' n. evs = evs' @ [Settle d r] \<and> list_all (clean deadline) evs'
    \<and> ios evs' = check @ beats n @ [IoDecide d] @ check
    \<and> (pc = Finished (Inr SettledClaim) \<longleftrightarrow> r = Inr Updated)"
proof -
  from assms(2) obtain xs ys where evs: "evs = xs @ Settle d r # ys" by (meson split_list)
  with assms(1) obtain p q where p: "claim_run deadline AtStart xs = Some p" and step: "claim_step deadline p (Settle d r) = Some q"
    and rest: "claim_run deadline q ys = Some pc"
    by (auto simp: claim_run_append bind_eq_Some_conv)
  from settle_step [OF step] have pq: "p = Settling d"
    "q = Finished (map_sum (\<lambda>e. e) (\<lambda>f. case f of Updated \<Rightarrow> SettledClaim | Lost \<Rightarrow> LostClaim) r)" by auto
  from rest pq(2) have "ys = []" "pc = q" by (cases ys; simp add: claim_step_def)+
  moreover from going_run [OF p] pq(1) obtain n where "list_all (clean deadline) xs" "ios xs = shape (Settling d) n" by auto
  moreover have "q = Finished (Inr SettledClaim) \<longleftrightarrow> r = Inr Updated"
    unfolding pq(2) by (cases r) (auto split: FenceResult.splits)
  ultimately show ?thesis unfolding evs by (auto simp: before_def)
qed

text \<open>The claim counts as settled only through a settlement.\<close>

lemma settled_means_settlement:
  assumes "claim_run deadline AtStart evs = Some (Finished (Inr SettledClaim))"
  shows "\<exists>d. Settle d (Inr Updated) \<in> set evs"
proof (cases evs rule: rev_cases)
  case (snoc evs' ev)
  with assms obtain p where "claim_step deadline p ev = Some (Finished (Inr SettledClaim))"
    by (auto simp: claim_run_snoc bind_eq_Some_conv)
  from settled_only [OF this] snoc show ?thesis by auto
qed (use assms in simp)

subsection \<open>Cycles\<close>

lemma get_or_insert_some [simp]: "(get_or_insert e e' = None) = False"
  by (simp add: get_or_insert_def split: option.split)

lemma fold_join_keeps:
  "cy_claimed (fst (fold_join acc j)) = cy_claimed (fst acc)" "snd acc \<noteq> None \<Longrightarrow> snd (fold_join acc j) \<noteq> None"
  by (cases "(acc, j)" rule: fold_join.cases; simp del: not_None_eq)+

lemma fold_join_claimed: "cy_claimed (fst (fold (\<lambda>j a. fold_join a j) js acc)) = cy_claimed (fst acc)"
  by (induction js arbitrary: acc) (simp_all add: fold_join_keeps(1))

lemma fold_join_error: "snd acc \<noteq> None \<Longrightarrow> snd (fold (\<lambda>j a. fold_join a j) js acc) \<noteq> None"
  by (induction js arbitrary: acc) (simp_all add: fold_join_keeps(2) del: not_None_eq)

lemma fold_join_counts:
  assumes "snd (fold (\<lambda>j a. fold_join a j) js acc) = None"
  shows "cy_settled (fst (fold (\<lambda>j a. fold_join a j) js acc)) + cy_lost (fst (fold (\<lambda>j a. fold_join a j) js acc))
    = cy_settled (fst acc) + cy_lost (fst acc) + int (length js)"
  using assms
proof (induction js arbitrary: acc)
  case (Cons j js)
  have "snd (fold_join acc j) = None" using Cons.prems fold_join_error [of "fold_join acc j" js] by fastforce
  then have "cy_settled (fst (fold_join acc j)) + cy_lost (fst (fold_join acc j)) = cy_settled (fst acc) + cy_lost (fst acc) + 1"
    by (cases "(acc, j)" rule: fold_join.cases) auto
  moreover have "snd (fold (\<lambda>j a. fold_join a j) js (fold_join acc j)) = None" using Cons.prems by simp
  ultimately show ?case using Cons.IH [of "fold_join acc j"] by simp
qed simp

text \<open>A cycle that succeeds has counted each of its claims once.\<close>

lemma finish_counts:
  assumes "finish_cycle env permit (abandon stragglers (fold (\<lambda>j a. fold_join a j) joined (summary, None))) = Inr s"
    and "cy_settled summary = 0" "cy_lost summary = 0"
  shows "cy_claimed s = cy_claimed summary \<and> cy_settled s + cy_lost s = int (length joined + length stragglers)"
proof -
  obtain s' e where f: "fold (\<lambda>j a. fold_join a j) joined (summary, None) = (s', e)" by fastforce
  from assms(1) have none: "e = None" and s: "s = s'\<lparr>cy_lost := cy_lost s' + int (length stragglers)\<rparr>"
    unfolding f by (auto simp: finish_cycle_def abandon_def Let_def split: sum.splits if_splits option.splits)
  have "cy_settled s' + cy_lost s' = int (length joined)"
    using fold_join_counts [of joined "(summary, None)"] assms(2,3) by (simp add: f none)
  moreover have "cy_claimed s' = cy_claimed summary" using fold_join_claimed [of joined "(summary, None)"] by (simp add: f)
  ultimately show ?thesis by (simp add: s)
qed

lemma admitted_actions:
  assumes "run_admitted slots env summary permit = (acts, result)"
  shows "(\<exists>mid. acts = mid @ [Released permit] \<and> (\<forall>a\<in>set mid. \<exists>n. a = ClaimedRows n \<or> a = Dispatched n))
    \<and> (\<forall>n. Dispatched n \<in> set acts \<longrightarrow>
        \<not> cv_shutdown env 6 \<and> \<not> cv_shutdown env 7 \<and> \<not> cv_shutdown env 8 \<and> ClaimedRows n \<in> set acts \<and> n \<le> slots)"
  using assms by (auto simp: run_admitted_def prepare_operation_def Let_def split: if_splits sum.splits)

lemma admitted_counts:
  assumes "run_admitted slots env summary permit = (acts, Inr s)" and "Dispatched n \<in> set acts"
    and "cy_settled summary = 0" "cy_lost summary = 0"
  shows "cy_claimed s = int n \<and> cy_settled s + cy_lost s = int (length (cv_joined env) + length (cv_stragglers env))"
  using assms finish_counts [where env = env and permit = permit and summary = "summary\<lparr>cy_claimed := int n\<rparr>" and s = s]
  by (auto simp: run_admitted_def prepare_operation_def Let_def split: if_splits sum.splits)

text \<open>A cycle acquires a permit only when no earlier look found a shutdown.\<close>

lemma upto_5: "(\<forall>i\<le>5. \<not> P i) \<longleftrightarrow> \<not> P 0 \<and> \<not> P 1 \<and> \<not> P 2 \<and> \<not> P 3 \<and> \<not> P 4 \<and> \<not> P (5 :: nat)"
  by (simp add: numeral_eq_Suc All_less_Suc2 flip: less_Suc_eq_le)

lemma upto_8: "(\<forall>i\<le>8. \<not> P i) \<longleftrightarrow> (\<forall>i\<le>5. \<not> P i) \<and> \<not> P 6 \<and> \<not> P 7 \<and> \<not> P (8 :: nat)"
  by (simp add: numeral_eq_Suc All_less_Suc2 flip: less_Suc_eq_le)

lemma cycle_cases:
  assumes "run_cycle_work config env = (acts, result)"
  shows "acts = [] \<or> (\<exists>permit acts'. acts = Acquired permit # acts' \<and> (\<forall>i\<le>5. \<not> cv_shutdown env i)
    \<and> run_admitted (min (min (nat (dc_batch_size config)) (cv_max_claims env)) (cv_free_slots env)) env
        (empty_summary\<lparr>cy_reaped := projr (cv_reap env)\<rparr>) permit = (acts', result))"
  using assms unfolding upto_5
  by (simp add: run_cycle_work_def prepare_operation_def Let_def map_prod_def
      split: if_split_asm sum.split_asm option.split_asm prod.split_asm; blast)

text \<open>
  A cycle gives back what it takes and dispatches only what it may. The calls of a cycle on permits
  and rows are none at all, or the acquisition of one permit, possibly a claim of rows and their dispatch,
  and as the last call the release of that same permit, whether the cycle fails, is shut down or succeeds.
  Rows are dispatched only when no look at the shutdown signal found it set, all the rows that were claimed
  and at most as many as there were free slots, and as the batch size and the admission allow. When the
  cycle succeeds after dispatching, its counters of settled and lost claims add up to the tasks it started.
\<close>

theorem cycle_releases_permit:
  assumes "run_cycle_work config env = (acts, result)"
  shows "(acts = [] \<or> (\<exists>permit mid. acts = Acquired permit # mid @ [Released permit]
        \<and> (\<forall>a\<in>set mid. \<exists>n. a = ClaimedRows n \<or> a = Dispatched n)))
    \<and> (\<forall>n. Dispatched n \<in> set acts \<longrightarrow> (\<forall>i\<le>8. \<not> cv_shutdown env i) \<and> ClaimedRows n \<in> set acts
        \<and> n \<le> cv_free_slots env \<and> n \<le> nat (dc_batch_size config) \<and> n \<le> cv_max_claims env
        \<and> (\<forall>s. result = Inr s \<longrightarrow> cy_claimed s = int n
            \<and> cy_settled s + cy_lost s = int (length (cv_joined env) + length (cv_stragglers env))))"
proof (cases "acts = []")
  case False
  let ?slots = "min (min (nat (dc_batch_size config)) (cv_max_claims env)) (cv_free_slots env)"
  let ?summary = "empty_summary\<lparr>cy_reaped := projr (cv_reap env)\<rparr>"
  from cycle_cases [OF assms] False obtain permit acts' where acts: "acts = Acquired permit # acts'"
    and early: "\<forall>i\<le>5. \<not> cv_shutdown env i" and run: "run_admitted ?slots env ?summary permit = (acts', result)" by blast
  have dispatched: "Dispatched n \<in> set acts \<longleftrightarrow> Dispatched n \<in> set acts'"
    and claimed: "ClaimedRows n \<in> set acts' \<Longrightarrow> ClaimedRows n \<in> set acts" for n by (simp_all add: acts)
  note admitted = admitted_actions [OF run]
  have counts: "cy_claimed s = int n \<and> cy_settled s + cy_lost s = int (length (cv_joined env) + length (cv_stragglers env))"
    if "Dispatched n \<in> set acts'" "result = Inr s" for n s
    using admitted_counts [of ?slots env ?summary permit acts' s n] that run by (simp add: empty_summary_def)
  from admitted acts have "\<exists>permit mid. acts = Acquired permit # mid @ [Released permit]
      \<and> (\<forall>a\<in>set mid. \<exists>n. a = ClaimedRows n \<or> a = Dispatched n)" by auto
  moreover have "(\<forall>i\<le>8. \<not> cv_shutdown env i) \<and> ClaimedRows n \<in> set acts \<and> n \<le> ?slots" if "Dispatched n \<in> set acts" for n
    using admitted that early claimed unfolding upto_8 dispatched by blast
  ultimately show ?thesis using counts dispatched by simp
qed (use assms in simp)

subsection \<open>Runs\<close>

lemmas backoff_defs = cycle_backoff_def from_millis_def from_secs_def

lemma backoff_bounds:
  assumes "cycle_backoff config delay r = Some delay'" and "from_millis 50 \<le> delay"
  shows "from_millis 50 \<le> delay' \<and> delay' \<le> max (dc_poll_interval config) (from_secs 5)"
  using assms by (auto simp: backoff_defs split: sum.splits DeliveryError.splits)

lemma run_cycles_waits:
  assumes "from_millis 50 \<le> delay"
  shows "\<forall>w\<in>set (fst (run_cycles config delay s cycles)).
    from_millis 50 \<le> w \<and> w \<le> max (dc_poll_interval config) (from_secs 5)"
  using assms
proof (induction config delay s cycles rule: run_cycles.induct)
  case (2 config delay s r seen rs)
  show ?case
  proof (cases "cycle_backoff config delay r")
    case (Some delay')
    note bounds = backoff_bounds [OF Some 2(3)]
    from bounds 2(1) [OF Some refl refl] 2(2) [OF Some refl refl] Some show ?thesis by (auto simp: Let_def)
  qed simp
qed simp

lemma min_scaled:
  assumes "1 \<le> c" and "0 \<le> m"
  shows "min (c * min x m) m = min (c * x) (m :: int)"
proof (cases "x \<le> m")
  case False
  with assms have "m \<le> c * m" "c * m \<le> c * x" by (simp_all add: mult_le_cancel_right1 mult_left_mono)
  with False show ?thesis by simp
qed simp

lemma run_cycles_outages:
  assumes "0 \<le> delay"
  shows "fst (run_cycles config delay s (replicate k (Inl StoreUnknown, NotSeen)))
    = map (\<lambda>i. min (2 ^ Suc i * delay) (from_secs 5)) [0..<k]"
  using assms
proof (induction k arbitrary: delay s)
  case (Suc k)
  have step: "min (2 ^ Suc i * min (delay * 2) (from_secs 5)) (from_secs 5) = min (2 ^ Suc (Suc i) * delay) (from_secs 5)" for i
    using min_scaled [of "2 ^ Suc i" "from_secs 5" "delay * 2"] one_le_power [of "2 :: int" "Suc i"]
    by (simp add: from_secs_def mult_ac)
  have "[0..<Suc k] = 0 # map Suc [0..<k]" by (simp add: map_Suc_upt upt_conv_Cons)
  moreover have "0 \<le> min (delay * 2) (from_secs 5)" using Suc.prems by (simp add: from_secs_def)
  ultimately show ?case
    using Suc.IH [of "min (delay * 2) (from_secs 5)"] step by (simp add: cycle_backoff_def comp_def mult.commute del: upt_Suc)
qed simp

lemma run_cycles_counts:
  assumes "snd (run_cycles config delay s cycles) = Inr (s', e)"
  shows "\<exists>n\<le>length cycles. ru_cycles s' + ru_outages s' = ru_cycles s + ru_outages s + int n"
  using assms
proof (induction config delay s cycles rule: run_cycles.induct)
  case (2 config delay s r seen rs)
  show ?case
  proof (cases "cycle_backoff config delay r")
    case (Some delay')
    have one: "ru_cycles (add_cycle s r) + ru_outages (add_cycle s r) = ru_cycles s + ru_outages s + 1"
      by (simp add: add_cycle_def split: sum.split)
    from 2(1) [OF Some refl refl] 2(2) [OF Some refl refl] 2(3) Some
    consider "s' = add_cycle s r"
      | n where "n \<le> length rs" "ru_cycles s' + ru_outages s' = ru_cycles (add_cycle s r) + ru_outages (add_cycle s r) + int n"
      by (auto simp: Let_def split: if_splits)
    then show ?thesis
    proof cases
      case 1
      then show ?thesis using one by (intro exI [of _ 1]) simp
    next
      case (2 n)
      then show ?thesis using one by (intro exI [of _ "Suc n"]) simp
    qed
  qed (use 2 in simp)
qed auto

text \<open>
  The runner never spins and never backs off for long. Whatever the cycles answer, every wait between
  two of them lasts at least 50 milliseconds and at most the larger of the polling interval and five
  seconds; in a run of outages the waits double from twice the starting delay and stop growing at five
  seconds; and a run that ends well counts each cycle it went through once, as a cycle or as an outage.
\<close>

theorem run_waits_bounded:
  "(\<forall>w\<in>set (fst (run_until_shutdown config cycles reap)).
      from_millis 50 \<le> w \<and> w \<le> max (dc_poll_interval config) (from_secs 5))
   \<and> fst (run_until_shutdown config (replicate k (Inl StoreUnknown, NotSeen)) reap)
      = map (\<lambda>i. min (2 ^ Suc i * max (dc_poll_interval config) (from_millis 100)) (from_secs 5)) [0..<k]
   \<and> (\<forall>s. snd (run_until_shutdown config cycles reap) = Inr s \<longrightarrow>
      (\<exists>n\<le>length cycles. ru_cycles s + ru_outages s = int n))"
proof -
  let ?delay = "max (dc_poll_interval config) (from_millis 100)"
  have delay: "from_millis 50 \<le> ?delay" "0 \<le> ?delay" by (simp_all add: from_millis_def)
  have waits: "fst (run_until_shutdown config cs reap) = fst (run_cycles config ?delay empty_run cs)" for cs
    by (simp add: run_until_shutdown_def)
  have "\<exists>n\<le>length cycles. ru_cycles s + ru_outages s = int n"
    if "snd (run_until_shutdown config cycles reap) = Inr s" for s
  proof -
    from that obtain s' e where "snd (run_cycles config ?delay empty_run cycles) = Inr (s', e)"
      "ru_cycles s = ru_cycles s'" "ru_outages s = ru_outages s'"
      by (auto simp: run_until_shutdown_def split: sum.splits option.splits)
    with run_cycles_counts show ?thesis by (fastforce simp: empty_run_def)
  qed
  with run_cycles_waits [OF delay(1)] run_cycles_outages [OF delay(2)] show ?thesis unfolding waits by simp
qed

end
