(* ===== verification/Relay_Examples.thy ===== *)
theory Relay_Examples
  imports Audit_Examples Relay_Admission Relay_Delivery Outbox_Fencing
begin

text \<open>
  Concrete instances of the theorems on the audit relay and the outbox runner: an operational
  store of one epoch, one staging row with its envelope, and the runs of a claim and of a cycle.
\<close>

subsection \<open>Ledger\<close>

definition example_receipt :: IngestReceipt where
  "example_receipt = \<lparr>ir_seq = 7, ir_envelope_digest = GENESIS, ir_outcome = Stored, ir_adapter_version = 1\<rparr>"

definition example_ledger :: DeliveryLedger where
  "example_ledger = ledger_record (DeliveryLedger_new 1) 1 2 (ReceiptNote example_receipt 3)"

lemma example_ledger_ok: "note_ledger_ok example_ledger"
  by (simp add: example_ledger_def ledger_record_ok ledger_new_ok)

text \<open>The ledger of one note drops the older claim.\<close>

theorem ledger_refines_bounded_queue_witness:
  "notes_of (ledger_record example_ledger 4 5 (Failure (FailureNote_relay_hold CATALOG_SKEW)))
     = [((4, 5), Failure (FailureNote_relay_hold CATALOG_SKEW))]
   \<and> snd (ledger_take example_ledger 1 2) = Some (ReceiptNote example_receipt 3)"
proof -
  have "queue_put (lg_capacity example_ledger) (4, 5) n (notes_of example_ledger) = [((4, 5), n)]" for n by code_simp
  moreover have "map_of (notes_of example_ledger) (1, 2) = Some (ReceiptNote example_receipt 3)" by code_simp
  ultimately show ?thesis
    using ledger_refines_bounded_queue [OF example_ledger_ok, of 4 5 "Failure (FailureNote_relay_hold CATALOG_SKEW)"]
      ledger_refines_bounded_queue [OF example_ledger_ok, of 1 2] by metis
qed

subsection \<open>Breaker\<close>

definition first_permit :: BreakerPermit where "first_permit = \<lparr>bp_id = 1, bp_epoch = 7, bp_half_open = True\<rparr>"
definition second_permit :: BreakerPermit where "second_permit = \<lparr>bp_id = 2, bp_epoch = 7, bp_half_open = True\<rparr>"

definition example_breaker :: Breaker where "example_breaker = Breaker_new default_breaker_config"

definition outage_steps :: "(breaker_op \<times> reply) list" where
  "outage_steps = [(Admit 0 7, Permit (Some first_permit)), (RecordOutage 5, Unit), (CoolingDown 6, Flag True), (RecordOutage 9, Unit)]"

theorem breaker_counts_exact_witness:
  "\<exists>b. breaker_run outage_steps example_breaker = Some b \<and> br_outages b = 2 \<and> br_permits b = 2 \<and> br_cooldown b = from_secs 4"
proof -
  have "breaker_run outage_steps example_breaker \<noteq> None" by code_simp
  then obtain b where run: "breaker_run outage_steps example_breaker = Some b" by auto
  have "outages_in outage_steps = 2" "permits_in outage_steps = 1" "backoff default_breaker_config (streak_of outage_steps) = from_secs 4"
    "0 \<le> bc_initial_cooldown default_breaker_config" "bc_initial_cooldown default_breaker_config \<le> bc_max_cooldown default_breaker_config"
    by code_simp+
  with breaker_counts_exact [OF _ _ run [unfolded example_breaker_def]] run show ?thesis by simp
qed

theorem half_open_discipline_witness:
  "breaker_run ([(Admit 0 7, Permit (Some first_permit)), (CoolingDown 3, Flag False), (Release 1, Unit)] @ [(Admit 5 7, Permit (Some second_permit))])
     example_breaker \<noteq> None
   \<and> Release (bp_id first_permit) \<in> fst ` set [(CoolingDown 3, Flag False), (Release 1, Unit)]"
proof -
  let ?mid = "[(CoolingDown 3, Flag False), (Release 1, Unit)]"
  have "breaker_run ([] @ (Admit 0 7, Permit (Some first_permit)) # ?mid @ [(Admit 5 7, Permit (Some second_permit))]) example_breaker \<noteq> None"
    by code_simp
  then obtain b where run: "breaker_run ([] @ (Admit 0 7, Permit (Some first_permit)) # ?mid @ [(Admit 5 7, Permit (Some second_permit))])
      example_breaker = Some b" by blast
  from half_open_discipline [OF run] have "Release (bp_id first_permit) \<in> fst ` set ?mid" by (simp add: first_permit_def)
  with run show ?thesis by simp
qed

definition example_status :: "int \<Rightarrow> StoreStatus" where
  "example_status epoch = \<lparr>ss_head_seq = 9, ss_recovery_epoch = epoch, ss_state = Operational, ss_missing_types = [],
     ss_regression_detected = False, ss_last_verified_seq = None\<rparr>"

text \<open>A caller that learns the epoch of the store, probes it again and is admitted.\<close>

definition gate_events :: "int \<Rightarrow> BreakerPermit \<Rightarrow> event list" where
  "gate_events epoch permit =
     [Answered AskClock (Clock 0), Op (CoolingDown 0) (Flag False), Op ReadHint (Hint None),
      Answered (AskProbe (expectation example_catalog None)) (Probed (Some (Inr (example_status epoch)))),
      Op (SetHint epoch) Unit, Answered (AskAcked epoch) (Acked (Some None)),
      Answered (AskProbe (expectation example_catalog None)) (Probed (Some (Inr (example_status epoch)))),
      Op (SettleRegressed epoch) (Flag False), Op (SetGate GateOk) Unit, Answered AskClock (Clock 4),
      Op (Admit 4 epoch) (Permit (Some permit))]"

lemma gate_events_follow: "follow (acquire example_catalog) (gate_events epoch permit) = Some (Ret (Some permit))"
  by (simp add: gate_events_def acquire_def gate_def probe_at_def probe_with_def gate_decide_def now_then_def example_status_def admission_def Let_def)

theorem permit_is_earned_witness:
  "\<exists>epoch. gate_proof example_catalog epoch (gate_events 7 first_permit)"
  using permit_is_earned [OF gate_events_follow [of 7 first_permit]] by blast

definition other_epoch_events :: "(nat \<times> event) list" where
  "other_epoch_events = (2, Op (SettleRegressed 8) (Flag False)) # map (Pair 1) (gate_events 7 first_permit)"

theorem regression_is_sticky_witness:
  "\<exists>e' s. e' \<noteq> 7 \<and> (Op (SettleRegressed e') s \<in> snd ` set other_epoch_events \<or> Op (MarkRegressed e') s \<in> snd ` set other_epoch_events)"
proof -
  have "breaker_run (ops_of (map snd ([] @ (0, Op (MarkRegressed 7) Unit) # other_epoch_events))) example_breaker \<noteq> None"
    by (simp add: other_epoch_events_def gate_events_def ops_of_def map_filter_simps example_breaker_def Breaker_new_def
        settle_regressed_def cooling_down_def breaker_admit_def first_permit_def Let_def u64_succ_def)
  then obtain b where "breaker_run (ops_of (map snd ([] @ (0, Op (MarkRegressed 7) Unit) # other_epoch_events))) example_breaker = Some b"
    by blast
  moreover have "map snd (filter (\<lambda>(k, _). k = 1) other_epoch_events) = gate_events 7 first_permit"
    by (simp add: other_epoch_events_def gate_events_def)
  ultimately show ?thesis
    using regression_is_sticky [of "[]" 0 7 Unit other_epoch_events example_breaker b example_catalog 1 first_permit]
      gate_events_follow by (simp add: first_permit_def)
qed

subsection \<open>Delivery and settlement\<close>

definition example_projector :: "DocumentStagingProjection \<Rightarrow> Rejection + AuditEnvelope" where
  "example_projector = project example_lib example_catalog"

lemma example_projected: "example_projector example_row = Inr example_envelope"
  by (simp add: example_projector_def example_project_eq)

definition example_claim :: claim_env where
  "example_claim = \<lparr>ce_row = Some example_row, ce_ingest = (\<lambda>_. Some (Inr example_receipt)), ce_mismatch_seq = (\<lambda>_. None),
     ce_control = (\<lambda>_ _. None), ce_note_mismatch = True, ce_now = 0\<rparr>"

lemma example_intact: "sp_source_intact example_row"
  by (simp add: example_row_def)

lemma example_delivered:
  "deliver_claim default_handler_config example_projector example_claim (ae_id example_envelope) first_permit
    = ([OnBreaker RecordVerdict, Noted (ReceiptNote example_receipt 7), Counted DeliveredOutcome], Applied)"
  by (simp add: deliver_claim_def example_claim_def example_projected example_intact deliver_answered_def first_permit_def
      example_receipt_def)

definition delivered_ledger :: "uuid \<Rightarrow> DeliveryLedger" where
  "delivered_ledger i = ledger_record (DeliveryLedger_new 4) i 2 (ReceiptNote example_receipt 7)"

lemma delivered_settles:
  "\<exists>g'. settle_decision sha p (delivered_ledger i) i 2 attempt Applied
     = (g', Inr (CallSuccess i 2 7 GENESIS (lit ''stored'') 7))"
  by (simp add: settle_decision_def settle_success_def delivered_ledger_def ledger_record_def DeliveryLedger_new_def
      ledger_take_def example_receipt_def Let_def)

theorem relay_settles_on_evidence_witness:
  "settled_soundly default_handler_config example_projector example_claim default_relay_policy (ae_id example_envelope) 2
     first_permit (CallSuccess (ae_id example_envelope) 2 7 GENESIS (lit ''stored'') 7)"
proof -
  let ?i = "ae_id example_envelope"
  obtain g' where settle: "settle_decision undefined default_relay_policy (delivered_ledger ?i) ?i 2 0 Applied
     = (g', Inr (CallSuccess ?i 2 7 GENESIS (lit ''stored'') 7))" using delivered_settles by blast
  show ?thesis
    by (rule relay_settles_on_evidence [where calls = "[]" and g = "DeliveryLedger_new 4" and attempt = 0 and sha = undefined,
          OF ledger_new_ok example_delivered])
      (use settle in \<open>simp_all add: note_effects_def delivered_ledger_def\<close>)
qed

theorem failed_claims_always_settle_witness:
  "\<exists>g' call. settle_decision (\<lambda>_. replicate 32 0) default_relay_policy example_ledger 1 2 3 (Retryable DeliveryUnknown) = (g', Inr call)"
proof -
  have "relay_policy_validate default_relay_policy = Inr ()" by code_simp
  from failed_claims_always_settle [OF this, of "Retryable DeliveryUnknown" DeliveryUnknown] show ?thesis by blast
qed

theorem forecast_matches_delivery_witness:
  "forecast_code example_projector example_row = lit ''deliverable''
   \<and> deliver_claim default_handler_config example_projector example_claim (ae_id example_envelope) first_permit
      = deliver_answered example_claim first_permit (ce_ingest example_claim example_envelope)"
proof -
  have row: "ce_row example_claim = Some example_row" by (simp add: example_claim_def)
  have same: "ae_id audit = ae_id example_envelope" if "example_projector example_row = Inr audit" for audit
    using that by (simp add: example_projected)
  have code: "forecast_code example_projector example_row = lit ''deliverable''"
    by (simp add: forecast_code_def example_projected example_intact)
  with forecast_matches_delivery [where projector = example_projector and i = "ae_id example_envelope", OF row same]
  show ?thesis by (fastforce simp: example_projected)
qed

subsection \<open>Runner\<close>

definition check_events :: "claim_event list" where
  "check_events = [CancelRead False, Renew (Inr Updated), CancelRead False, PermitRenew (Inr Updated), CancelRead False,
     Preflight (Inr Updated), CancelRead False, ClockRead 2, CancelRead False]"

definition settled_run :: "claim_event list" where
  "settled_run = [ClockRead 1, CancelRead False, CancelRead False] @ check_events
     @ [Tick, CancelRead False, Renew (Inr Updated), CancelRead False, PermitRenew (Inr Updated), CancelRead False, CancelRead False]
     @ [HandlerDone Applied, ClockRead 3, CancelRead False] @ check_events @ [Settle Applied (Inr Updated)]"

theorem settlement_is_fenced_witness:
  "claim_run 9 AtStart settled_run = Some (Finished (Inr SettledClaim))
   \<and> (\<exists>evs' n. settled_run = evs' @ [Settle Applied (Inr Updated)] \<and> ios evs' = check @ beats n @ [IoDecide Applied] @ check)"
proof -
  have run: "claim_run 9 AtStart settled_run = Some (Finished (Inr SettledClaim))" by code_simp
  have "Settle Applied (Inr Updated) \<in> set settled_run" by (simp add: settled_run_def)
  from settlement_is_fenced [OF run this] run show ?thesis by auto
qed

definition example_cycle :: "BreakerPermit cycle_env" where
  "example_cycle = \<lparr>cv_shutdown = (\<lambda>_. False), cv_verify_policy = Inr (), cv_reap = Inr 0, cv_max_claims = 4, cv_free_slots = 3,
     cv_acquire = Inr (Some first_permit), cv_claim = (\<lambda>_. Inr [1, 2]), cv_joined = [Some (Inr SettledClaim)],
     cv_stragglers = [False], cv_release = Inr Updated\<rparr>"

theorem cycle_releases_permit_witness:
  "\<exists>acts s. run_cycle_work default_config example_cycle = (acts, Inr s) \<and> Dispatched 2 \<in> set acts
    \<and> cy_settled s + cy_lost s = 2 \<and> (\<exists>permit mid. acts = Acquired permit # mid @ [Released permit])"
proof -
  obtain acts r where run: "run_cycle_work default_config example_cycle = (acts, r)" by fastforce
  have "fst (run_cycle_work default_config example_cycle) =
      [Acquired first_permit, ClaimedRows 2, Dispatched 2, Released first_permit]"
    "\<not> isl (snd (run_cycle_work default_config example_cycle))"
    by code_simp+
  then have acts: "Dispatched 2 \<in> set acts" "acts \<noteq> []" and "\<not> isl r" unfolding run by simp_all
  then obtain s where r: "r = Inr s" by (cases r) auto
  have len: "length (cv_joined example_cycle) + length (cv_stragglers example_cycle) = 2" by (simp add: example_cycle_def)
  from cycle_releases_permit [OF run] acts r run show ?thesis unfolding len by fastforce
qed

theorem run_waits_bounded_witness:
  "fst (run_until_shutdown default_config (replicate 4 (Inl StoreUnknown, NotSeen)) (Inr 0))
     = [from_secs 2, from_secs 4, from_secs 5, from_secs 5]
   \<and> (\<exists>s. snd (run_until_shutdown default_config [(Inr empty_summary, SeenDuring)] (Inr 0)) = Inr s
      \<and> (\<exists>n\<le>1. ru_cycles s + ru_outages s = int n))"
proof -
  have "map (\<lambda>i. min (2 ^ Suc i * max (dc_poll_interval default_config) (from_millis 100)) (from_secs 5)) [0..<4]
      = [from_secs 2, from_secs 4, from_secs 5, from_secs 5]" by code_simp
  moreover have "\<not> isl (snd (run_until_shutdown default_config [(Inr empty_summary, SeenDuring)] (Inr 0)))" by code_simp
  then obtain s where "snd (run_until_shutdown default_config [(Inr empty_summary, SeenDuring)] (Inr 0)) = Inr s"
    by (metis isl_def sum.exhaust_sel)
  ultimately show ?thesis
    using run_waits_bounded [of default_config "[(Inr empty_summary, SeenDuring)]" "Inr 0" 4] by fastforce
qed

end
