(* ===== verification/Relay_Source.thy ===== *)
theory Relay_Source
  imports Relay_Handler "HOL-Library.Product_Lexorder"
begin

text \<open>
  The delivery table of the audit relay in the source database (the migration of \<open>audit-relay\<close>):
  the tables, the check constraints, the guard trigger of the deliveries and the functions the
  relay calls. A function runs in one transaction, so it is one step from database to database;
  the clock, the random tokens and the rows that other transactions hold locked are parameters.
  Every update goes through the constraints and the guard. Instants are numbers of microseconds
  and counters are unbounded. The columns of a staged event appear only through their digest.
\<close>

subsection \<open>Tables\<close>

record 'c staged_event =
  oe_event_id :: uuid
  oe_columns :: 'c
  oe_attempt_count :: int
  oe_delivered_at :: "int option"

record Delivery =
  de_event_id :: uuid
  de_registered_at :: int
  de_registration_kind :: ustr
  de_source_digest :: "int list"
  de_commitment_salt :: "int list"
  de_legacy_attempt_count :: "int option"
  de_legacy_delivered_at :: "int option"
  de_available_at :: int
  de_attempt_count :: int
  de_attempt_limit :: "int option"
  de_lease_token :: "uuid option"
  de_lease_owner :: "uuid option"
  de_lease_expires_at :: "int option"
  de_last_attempt_at :: "int option"
  de_last_error_code :: "ustr option"
  de_last_outage_code :: "ustr option"
  de_outage_streak :: int
  de_last_outage_generation :: "int option"
  de_last_outage_at :: "int option"
  de_relay_hold_count :: int
  de_delivered_at :: "int option"
  de_store_seq :: "int option"
  de_store_envelope_digest :: "int list option"
  de_store_outcome :: "ustr option"
  de_store_recovery_epoch :: "int option"
  de_source_mismatch_code :: "ustr option"
  de_source_mismatch_seq :: "int option"
  de_source_mismatch_epoch :: "int option"
  de_quarantined_at :: "int option"
  de_quarantine_code :: "ustr option"
  de_replay_count :: int

record DeliveryHistory =
  he_history_id :: int
  he_event_id :: uuid
  he_transition :: ustr
  he_recorded_at :: int
  he_control_seq :: "int option"
  he_control_epoch :: int
  he_reconcile_seq :: "int option"
  he_attempt_count :: int
  he_attempt_limit :: "int option"
  he_last_attempt_at :: "int option"
  he_last_error_code :: "ustr option"
  he_outage_streak :: int
  he_quarantine_code :: "ustr option"
  he_quarantined_at :: "int option"
  he_delivered_at :: "int option"
  he_store_seq :: "int option"
  he_store_envelope_digest :: "int list option"
  he_store_outcome :: "ustr option"
  he_store_recovery_epoch :: "int option"

record 'c source_db =
  db_events :: "'c staged_event list"
  db_deliveries :: "Delivery list"
  db_history :: "DeliveryHistory list"
  db_generation :: int
  db_policy :: RelayPolicy

text \<open>SHA-256 over the rendered columns and over salt and digest.\<close>

record 'c source_lib =
  sl_digest :: "'c staged_event \<Rightarrow> int list"
  sl_commitment :: "int list \<Rightarrow> int list \<Rightarrow> int list"

datatype sql_error = InvalidArguments | GuardRefused | CheckViolation | UniqueViolation

subsection \<open>Constraints\<close>

definition STORE_OUTCOMES :: "ustr list" where
  "STORE_OUTCOMES = map lit [''stored'', ''duplicate'', ''duplicate_expired'', ''duplicate_reprojected'']"

definition MISMATCH_CODES :: "ustr list" where
  "MISMATCH_CODES = map lit [''source_digest_mismatch'', ''actor_mismatch'']"

definition sql_is_code :: "ustr \<Rightarrow> bool" where
  "sql_is_code s \<longleftrightarrow> 1 \<le> length s \<and> length s \<le> 64 \<and> list_all (\<lambda>c. ascii_lower c \<or> ascii_digit c \<or> c = 95) s"

definition receipt_columns_ok :: "Delivery \<Rightarrow> bool" where
  "receipt_columns_ok d \<longleftrightarrow>
     (de_delivered_at d = None) = (de_store_seq d = None)
     \<and> (de_delivered_at d = None) = (de_store_envelope_digest d = None)
     \<and> (de_delivered_at d = None) = (de_store_outcome d = None)
     \<and> (de_delivered_at d = None) = (de_store_recovery_epoch d = None)
     \<and> is_none_or (\<lambda>s. 0 < s) (de_store_seq d)
     \<and> is_none_or (\<lambda>b. length b = 32) (de_store_envelope_digest d)
     \<and> is_none_or (\<lambda>s. s \<in> set STORE_OUTCOMES) (de_store_outcome d)"

definition lease_columns_ok :: "Delivery \<Rightarrow> bool" where
  "lease_columns_ok d \<longleftrightarrow> (de_lease_token d = None) = (de_lease_owner d = None)
     \<and> (de_lease_token d = None) = (de_lease_expires_at d = None)"

definition mismatch_columns_ok :: "Delivery \<Rightarrow> bool" where
  "mismatch_columns_ok d \<longleftrightarrow> (de_source_mismatch_code d = None) = (de_source_mismatch_seq d = None)
     \<and> (de_source_mismatch_code d = None) = (de_source_mismatch_epoch d = None)
     \<and> is_none_or (\<lambda>e. 1 \<le> e) (de_source_mismatch_epoch d)
     \<and> is_none_or (\<lambda>c. c \<in> set MISMATCH_CODES) (de_source_mismatch_code d)"

definition terminal_columns_ok :: "Delivery \<Rightarrow> bool" where
  "terminal_columns_ok d \<longleftrightarrow> (de_quarantined_at d = None) = (de_quarantine_code d = None)
     \<and> \<not> (de_delivered_at d \<noteq> None \<and> de_quarantined_at d \<noteq> None)
     \<and> (de_lease_token d = None \<or> (de_delivered_at d = None \<and> de_quarantined_at d = None))"

definition counters_ok :: "Delivery \<Rightarrow> bool" where
  "counters_ok d \<longleftrightarrow> 0 \<le> de_attempt_count d \<and> is_none_or (\<lambda>n. 1 \<le> n \<and> n \<le> 32) (de_attempt_limit d)
     \<and> 0 \<le> de_outage_streak d \<and> 0 \<le> de_replay_count d \<and> 0 \<le> de_relay_hold_count d"

definition codes_ok :: "Delivery \<Rightarrow> bool" where
  "codes_ok d \<longleftrightarrow> is_none_or sql_is_code (de_last_error_code d) \<and> is_none_or sql_is_code (de_last_outage_code d)
     \<and> is_none_or sql_is_code (de_quarantine_code d)"

definition registration_ok :: "Delivery \<Rightarrow> bool" where
  "registration_ok d \<longleftrightarrow> de_registration_kind d \<in> set (map lit [''trigger'', ''backfill'', ''repair''])
     \<and> length (de_source_digest d) = 32 \<and> length (de_commitment_salt d) = 32"

definition delivery_checks :: "Delivery \<Rightarrow> bool" where
  "delivery_checks d \<longleftrightarrow> registration_ok d \<and> counters_ok d \<and> lease_columns_ok d \<and> codes_ok d
     \<and> receipt_columns_ok d \<and> mismatch_columns_ok d \<and> terminal_columns_ok d"

subsection \<open>The guard trigger\<close>

definition receipt_of :: "Delivery \<Rightarrow> int option \<times> int option \<times> int list option \<times> ustr option \<times> int option" where
  "receipt_of d = (de_delivered_at d, de_store_seq d, de_store_envelope_digest d, de_store_outcome d, de_store_recovery_epoch d)"

definition quarantine_of :: "Delivery \<Rightarrow> int option \<times> ustr option" where
  "quarantine_of d = (de_quarantined_at d, de_quarantine_code d)"

definition mismatch_of :: "Delivery \<Rightarrow> ustr option \<times> int option \<times> int option" where
  "mismatch_of d = (de_source_mismatch_code d, de_source_mismatch_seq d, de_source_mismatch_epoch d)"

definition registration_of :: "Delivery \<Rightarrow> uuid \<times> int \<times> ustr \<times> int list \<times> int list \<times> int option \<times> int option" where
  "registration_of d = (de_event_id d, de_registered_at d, de_registration_kind d, de_source_digest d, de_commitment_salt d,
     de_legacy_attempt_count d, de_legacy_delivered_at d)"

datatype transition = NoTransition | Replay | RepairAckStored | RepairResetMissing

definition guard_update :: "transition \<Rightarrow> Delivery \<Rightarrow> Delivery \<Rightarrow> bool" where
  "guard_update tr old new \<longleftrightarrow>
     registration_of new = registration_of old
     \<and> \<not> (de_delivered_at old \<noteq> None \<and> receipt_of new \<noteq> receipt_of old \<and> tr \<noteq> RepairResetMissing)
     \<and> \<not> (de_quarantined_at old \<noteq> None \<and> quarantine_of new \<noteq> quarantine_of old \<and> tr \<notin> {Replay, RepairAckStored})
     \<and> \<not> (de_source_mismatch_seq old \<noteq> None \<and> mismatch_of new \<noteq> mismatch_of old \<and> tr \<noteq> Replay)
     \<and> \<not> (de_replay_count new < de_replay_count old \<or> (de_replay_count old < de_replay_count new \<and> tr \<noteq> Replay))
     \<and> \<not> (de_attempt_limit old \<noteq> None \<and> de_attempt_limit new \<noteq> de_attempt_limit old
          \<and> tr \<notin> {Replay, RepairResetMissing})"

definition guard_insert :: "Delivery \<Rightarrow> bool" where
  "guard_insert d \<longleftrightarrow> \<not> (de_delivered_at d \<noteq> None \<or> de_quarantined_at d \<noteq> None \<or> de_lease_token d \<noteq> None
     \<or> de_attempt_count d \<noteq> 0 \<or> de_attempt_limit d \<noteq> None \<or> de_replay_count d \<noteq> 0
     \<or> de_outage_streak d \<noteq> 0 \<or> de_relay_hold_count d \<noteq> 0 \<or> de_source_mismatch_seq d \<noteq> None)"

text \<open>An update of the rows that satisfy a condition, under the guard and the constraints.\<close>

definition update_rows ::
  "transition \<Rightarrow> (Delivery \<Rightarrow> bool) \<Rightarrow> (Delivery \<Rightarrow> Delivery) \<Rightarrow> 'c source_db \<Rightarrow> sql_error + 'c source_db" where
  "update_rows tr P f db =
     (let hit = filter P (db_deliveries db) in
      if list_ex (\<lambda>d. \<not> guard_update tr d (f d)) hit then Inl GuardRefused
      else if list_ex (\<lambda>d. \<not> delivery_checks (f d)) hit then Inl CheckViolation
      else Inr (db\<lparr>db_deliveries := map (\<lambda>d. if P d then f d else d) (db_deliveries db)\<rparr>))"

definition insert_row :: "Delivery \<Rightarrow> 'c source_db \<Rightarrow> sql_error + 'c source_db" where
  "insert_row d db =
     (if \<not> guard_insert d then Inl GuardRefused
      else if \<not> delivery_checks d then Inl CheckViolation
      else if de_event_id d \<in> de_event_id ` set (db_deliveries db) then Inl UniqueViolation
      else Inr (db\<lparr>db_deliveries := db_deliveries db @ [d]\<rparr>))"

definition find_delivery :: "uuid \<Rightarrow> 'c source_db \<Rightarrow> Delivery option" where
  "find_delivery i db = find (\<lambda>d. de_event_id d = i) (db_deliveries db)"

definition released :: "Delivery \<Rightarrow> Delivery" where
  "released d = d\<lparr>de_lease_token := None, de_lease_owner := None, de_lease_expires_at := None\<rparr>"

definition interval_ms :: "int \<Rightarrow> int" where "interval_ms n = n * 1000"

subsection \<open>Registration\<close>

definition new_delivery :: "'c source_lib \<Rightarrow> 'c staged_event \<Rightarrow> ustr \<Rightarrow> int \<Rightarrow> int list \<Rightarrow> Delivery" where
  "new_delivery L ev kind t salt =
     \<lparr>de_event_id = oe_event_id ev, de_registered_at = t, de_registration_kind = kind, de_source_digest = sl_digest L ev,
      de_commitment_salt = salt, de_legacy_attempt_count = Some (oe_attempt_count ev), de_legacy_delivered_at = oe_delivered_at ev,
      de_available_at = t, de_attempt_count = 0, de_attempt_limit = None, de_lease_token = None, de_lease_owner = None,
      de_lease_expires_at = None, de_last_attempt_at = None, de_last_error_code = None, de_last_outage_code = None,
      de_outage_streak = 0, de_last_outage_generation = None, de_last_outage_at = None, de_relay_hold_count = 0,
      de_delivered_at = None, de_store_seq = None, de_store_envelope_digest = None, de_store_outcome = None,
      de_store_recovery_epoch = None, de_source_mismatch_code = None, de_source_mismatch_seq = None,
      de_source_mismatch_epoch = None, de_quarantined_at = None, de_quarantine_code = None, de_replay_count = 0\<rparr>"

text \<open>Staging an event fires the trigger that registers it.\<close>

definition sql_stage :: "'c source_lib \<Rightarrow> 'c staged_event \<Rightarrow> int \<Rightarrow> int list \<Rightarrow> 'c source_db \<Rightarrow> sql_error + 'c source_db" where
  "sql_stage L ev t salt db =
     (if oe_event_id ev \<in> oe_event_id ` set (db_events db) then Inl UniqueViolation
      else insert_row (new_delivery L ev (lit ''trigger'') t salt) (db\<lparr>db_events := db_events db @ [ev]\<rparr>))"

definition missing_events :: "'c source_db \<Rightarrow> 'c staged_event list" where
  "missing_events db = sort_key oe_event_id (filter (\<lambda>ev. find_delivery (oe_event_id ev) db = None) (db_events db))"

fun register_each ::
  "'c source_lib \<Rightarrow> int \<Rightarrow> (uuid \<Rightarrow> int list) \<Rightarrow> 'c staged_event list \<Rightarrow> 'c source_db \<Rightarrow> sql_error + 'c source_db" where
  "register_each L t salts [] db = Inr db"
| "register_each L t salts (ev # evs) db =
     and_then (insert_row (new_delivery L ev (lit ''repair'') t (salts (oe_event_id ev))) db) (register_each L t salts evs)"

definition sql_register_missing ::
  "'c source_lib \<Rightarrow> int \<Rightarrow> int \<Rightarrow> (uuid \<Rightarrow> int list) \<Rightarrow> 'c source_db \<Rightarrow> sql_error + 'c source_db \<times> int" where
  "sql_register_missing L limit t salts db =
     (if \<not> (1 \<le> limit \<and> limit \<le> 1000) then Inl InvalidArguments
      else let missing = take (nat limit) (missing_events db) in
        and_then (register_each L t salts missing db) (\<lambda>db'. Inr (db', int (length missing))))"

subsection \<open>Claims and leases\<close>

definition claimable :: "RelayPolicy \<Rightarrow> int \<Rightarrow> Delivery \<Rightarrow> bool" where
  "claimable p t d \<longleftrightarrow> de_delivered_at d = None \<and> de_quarantined_at d = None \<and> de_available_at d \<le> t
     \<and> is_none_or (\<lambda>e. e \<le> t) (de_lease_expires_at d)
     \<and> de_attempt_count d < (case de_attempt_limit d of Some n \<Rightarrow> n | None \<Rightarrow> ry_max_attempts p)"

definition claim_order :: "Delivery \<Rightarrow> bool \<times> int \<times> int \<times> uuid" where
  "claim_order d = (0 < de_relay_hold_count d, de_available_at d, de_registered_at d, de_event_id d)"

definition picked :: "int \<Rightarrow> int \<Rightarrow> (uuid \<Rightarrow> bool) \<Rightarrow> 'c source_db \<Rightarrow> Delivery list" where
  "picked limit t locked db =
     take (nat limit) (sort_key claim_order
       (filter (\<lambda>d. claimable (db_policy db) t d \<and> \<not> locked (de_event_id d)) (db_deliveries db)))"

definition claimed_row :: "RelayPolicy \<Rightarrow> uuid \<Rightarrow> int \<Rightarrow> int \<Rightarrow> (uuid \<Rightarrow> uuid) \<Rightarrow> Delivery \<Rightarrow> Delivery" where
  "claimed_row p owner lease_ms t fresh d = d\<lparr>de_attempt_count := de_attempt_count d + 1,
     de_attempt_limit := Some (case de_attempt_limit d of Some n \<Rightarrow> n | None \<Rightarrow> ry_max_attempts p),
     de_lease_token := Some (fresh (de_event_id d)), de_lease_owner := Some owner,
     de_lease_expires_at := Some (t + interval_ms lease_ms), de_last_attempt_at := Some t\<rparr>"

definition sql_claim ::
  "uuid \<Rightarrow> int \<Rightarrow> int \<Rightarrow> int \<Rightarrow> (uuid \<Rightarrow> uuid) \<Rightarrow> (uuid \<Rightarrow> bool) \<Rightarrow> 'c source_db \<Rightarrow> sql_error + 'c source_db \<times> Delivery list" where
  "sql_claim owner limit lease_ms t fresh locked db =
     (let p = db_policy db in
      if owner = 0 \<or> \<not> (1 \<le> limit \<and> limit \<le> 32) \<or> \<not> (ry_lease_min_ms p \<le> lease_ms \<and> lease_ms \<le> ry_lease_max_ms p)
      then Inl InvalidArguments
      else let rows = picked limit t locked db; ids = map de_event_id rows in
        and_then (update_rows NoTransition (\<lambda>d. de_event_id d \<in> set ids) (claimed_row p owner lease_ms t fresh) db)
          (\<lambda>db'. Inr (db', map (claimed_row p owner lease_ms t fresh) rows)))"

text \<open>The fence of a claim: its token, on a row that is not terminal, before the lease ends.\<close>

definition held_by :: "uuid \<Rightarrow> uuid \<Rightarrow> int \<Rightarrow> Delivery \<Rightarrow> bool" where
  "held_by i token t d \<longleftrightarrow> de_event_id d = i \<and> de_lease_token d = Some token
     \<and> de_delivered_at d = None \<and> de_quarantined_at d = None \<and> is_some_and (\<lambda>e. t < e) (de_lease_expires_at d)"

definition sql_renew :: "uuid \<Rightarrow> uuid \<Rightarrow> int \<Rightarrow> int \<Rightarrow> 'c source_db \<Rightarrow> sql_error + 'c source_db \<times> bool" where
  "sql_renew i token lease_ms t db =
     (let p = db_policy db in
      if \<not> (ry_lease_min_ms p \<le> lease_ms \<and> lease_ms \<le> ry_lease_max_ms p) then Inl InvalidArguments
      else and_then (update_rows NoTransition (held_by i token t) (\<lambda>d. d\<lparr>de_lease_expires_at := Some (t + interval_ms lease_ms)\<rparr>) db)
        (\<lambda>db'. Inr (db', list_ex (held_by i token t) (db_deliveries db))))"

subsection \<open>Settlement\<close>

definition sql_settle_success ::
  "uuid \<Rightarrow> uuid \<Rightarrow> int \<Rightarrow> int list \<Rightarrow> ustr \<Rightarrow> int \<Rightarrow> int \<Rightarrow> 'c source_db \<Rightarrow> sql_error + 'c source_db \<times> bool" where
  "sql_settle_success i token seq digest outcome epoch t db =
     (if seq < 1 \<or> length digest \<noteq> 32 \<or> outcome \<notin> set STORE_OUTCOMES \<or> epoch < 1 then Inl InvalidArguments
      else and_then (update_rows NoTransition (held_by i token t)
             (\<lambda>d. (released d)\<lparr>de_delivered_at := Some t, de_store_seq := Some seq, de_store_envelope_digest := Some digest,
                de_store_outcome := Some outcome, de_store_recovery_epoch := Some epoch, de_outage_streak := 0,
                de_relay_hold_count := 0, de_last_error_code := None\<rparr>) db)
        (\<lambda>db'. if list_ex (held_by i token t) (db_deliveries db)
           then Inr (db'\<lparr>db_generation := db_generation db + 1\<rparr>, True) else Inr (db', False)))"

definition row_backoff :: "RelayPolicy \<Rightarrow> int \<Rightarrow> int" where
  "row_backoff p n = min (ry_backoff_max_ms p) (ry_backoff_min_ms p * 2 ^ nat (min n 16))"

definition hold_row :: "RelayPolicy \<Rightarrow> ustr \<Rightarrow> int \<Rightarrow> Delivery \<Rightarrow> Delivery" where
  "hold_row p code t d = (released d)\<lparr>de_attempt_count := max (de_attempt_count d - 1) 0,
     de_relay_hold_count := de_relay_hold_count d + 1, de_last_error_code := Some code,
     de_available_at := t + interval_ms (row_backoff p (de_relay_hold_count d))\<rparr>"

definition outage_row :: "RelayPolicy \<Rightarrow> int \<Rightarrow> ustr \<Rightarrow> bool \<Rightarrow> int \<Rightarrow> Delivery \<Rightarrow> Delivery" where
  "outage_row p generation code countable t d =
     (let streak = (if countable \<and> is_none_or (\<lambda>g. g < generation) (de_last_outage_generation d)
            then de_outage_streak d + 1 else de_outage_streak d)
      in (released d)\<lparr>de_attempt_count := max (de_attempt_count d - 1) 0, de_relay_hold_count := 0,
           de_outage_streak := streak, de_last_outage_generation := Some generation, de_last_outage_at := Some t,
           de_last_outage_code := Some code, de_last_error_code := Some code,
           de_available_at := t + interval_ms (row_backoff p streak),
           de_quarantined_at := (if ry_outage_streak_limit p \<le> streak then Some t else None),
           de_quarantine_code := (if ry_outage_streak_limit p \<le> streak
             then Some (lit ''outage_suspected_event_specific'') else None)\<rparr>)"

definition verdict_row :: "ustr \<Rightarrow> int \<Rightarrow> Delivery \<Rightarrow> Delivery" where
  "verdict_row code t d = (released d)\<lparr>de_last_error_code := Some code, de_quarantined_at := Some t,
     de_quarantine_code := Some code, de_relay_hold_count := 0\<rparr>"

definition retry_row :: "ustr \<Rightarrow> int \<Rightarrow> int \<Rightarrow> Delivery \<Rightarrow> Delivery" where
  "retry_row code backoff_ms t d = (released d)\<lparr>de_last_error_code := Some code, de_relay_hold_count := 0,
     de_available_at := t + interval_ms backoff_ms\<rparr>"

definition failed_row :: "RelayPolicy \<Rightarrow> int \<Rightarrow> ustr \<Rightarrow> bool \<Rightarrow> int \<Rightarrow> bool \<Rightarrow> bool \<Rightarrow> bool \<Rightarrow> int \<Rightarrow> Delivery \<Rightarrow> Delivery" where
  "failed_row p generation code terminal backoff_ms outage countable held t d =
     (if held then hold_row p code t d
      else if outage then outage_row p generation code countable t d
      else if terminal \<or> is_some_and (\<lambda>n. n \<le> de_attempt_count d) (de_attempt_limit d) then verdict_row code t d
      else retry_row code backoff_ms t d)"

definition sql_settle_failure ::
  "uuid \<Rightarrow> uuid \<Rightarrow> ustr \<Rightarrow> bool \<Rightarrow> int \<Rightarrow> bool \<Rightarrow> bool \<Rightarrow> bool \<Rightarrow> int \<Rightarrow> 'c source_db \<Rightarrow> sql_error + 'c source_db \<times> bool" where
  "sql_settle_failure i token code terminal backoff_ms outage countable held t db =
     (let p = db_policy db in
      if \<not> sql_is_code code \<or> \<not> (ry_backoff_min_ms p \<le> backoff_ms \<and> backoff_ms \<le> ry_backoff_max_ms p)
         \<or> (terminal \<and> outage) \<or> (held \<and> (\<not> outage \<or> countable))
      then Inl InvalidArguments
      else (case find (\<lambda>d. held_by i token t d \<and> de_attempt_limit d \<noteq> None) (db_deliveries db) of
          None \<Rightarrow> Inr (db, False)
        | Some d \<Rightarrow> and_then (update_rows NoTransition (\<lambda>x. de_event_id x = de_event_id d)
            (failed_row p (db_generation db) code terminal backoff_ms outage countable held t) db) (\<lambda>db'. Inr (db', True))))"

definition UNKNOWN_AT_LIMIT :: ustr where "UNKNOWN_AT_LIMIT = lit ''delivery_unknown_at_limit''"

definition exhausted :: "int \<Rightarrow> Delivery \<Rightarrow> bool" where
  "exhausted t d \<longleftrightarrow> de_delivered_at d = None \<and> de_quarantined_at d = None
     \<and> is_some_and (\<lambda>n. n \<le> de_attempt_count d) (de_attempt_limit d)
     \<and> (de_lease_token d = None \<or> is_some_and (\<lambda>e. e \<le> t) (de_lease_expires_at d))"

definition reap_order :: "Delivery \<Rightarrow> bool \<times> int \<times> uuid" where
  "reap_order d = (case de_last_attempt_at d of None \<Rightarrow> (False, 0, de_event_id d) | Some t \<Rightarrow> (True, t, de_event_id d))"

definition reaped_row :: "int \<Rightarrow> Delivery \<Rightarrow> Delivery" where
  "reaped_row t d = (released d)\<lparr>de_quarantined_at := Some t, de_quarantine_code := Some UNKNOWN_AT_LIMIT,
     de_last_error_code := Some UNKNOWN_AT_LIMIT\<rparr>"

definition sql_reap_exhausted :: "int \<Rightarrow> int \<Rightarrow> (uuid \<Rightarrow> bool) \<Rightarrow> 'c source_db \<Rightarrow> sql_error + 'c source_db \<times> int" where
  "sql_reap_exhausted limit t locked db =
     (if \<not> (1 \<le> limit \<and> limit \<le> 32) then Inl InvalidArguments
      else let ids = map de_event_id (take (nat limit) (sort_key reap_order
               (filter (\<lambda>d. exhausted t d \<and> \<not> locked (de_event_id d)) (db_deliveries db)))) in
        and_then (update_rows NoTransition (\<lambda>d. de_event_id d \<in> set ids) (reaped_row t) db)
          (\<lambda>db'. Inr (db', int (length ids))))"

subsection \<open>Source mismatches and the acknowledged head\<close>

definition sql_mismatch_seq :: "uuid \<Rightarrow> uuid \<Rightarrow> ustr \<Rightarrow> 'c source_db \<Rightarrow> int option" where
  "sql_mismatch_seq i token code db =
     Option.bind (find (\<lambda>d. de_event_id d = i \<and> de_lease_token d = Some token \<and> de_source_mismatch_code d = Some code)
       (db_deliveries db)) de_source_mismatch_seq"

definition sql_note_mismatch ::
  "uuid \<Rightarrow> uuid \<Rightarrow> ustr \<Rightarrow> int \<Rightarrow> int \<Rightarrow> int \<Rightarrow> 'c source_db \<Rightarrow> sql_error + 'c source_db \<times> bool" where
  "sql_note_mismatch i token code seq epoch t db =
     (if code \<notin> set MISMATCH_CODES \<or> seq < 1 \<or> epoch < 1 then Inl InvalidArguments
      else let P = (\<lambda>d. de_event_id d = i \<and> de_lease_token d = Some token \<and> is_some_and (\<lambda>e. t < e) (de_lease_expires_at d)
             \<and> de_source_mismatch_seq d = None) in
        and_then (update_rows NoTransition P (\<lambda>d. d\<lparr>de_source_mismatch_code := Some code, de_source_mismatch_seq := Some seq,
            de_source_mismatch_epoch := Some epoch\<rparr>) db)
          (\<lambda>db'. Inr (db', list_ex P (db_deliveries db))))"

definition sql_acked_head :: "int \<Rightarrow> 'c source_db \<Rightarrow> Delivery option" where
  "sql_acked_head epoch db =
     (case sort_key (\<lambda>d. (- the (de_store_seq d), de_event_id d))
        (filter (\<lambda>d. de_delivered_at d \<noteq> None \<and> de_store_recovery_epoch d = Some epoch) (db_deliveries db)) of
      [] \<Rightarrow> None | d # _ \<Rightarrow> Some d)"

subsection \<open>Operator transitions\<close>

primrec transition_name :: "transition \<Rightarrow> ustr" where
  "transition_name NoTransition = []"
| "transition_name Replay = lit ''replay''"
| "transition_name RepairAckStored = lit ''repair_ack_stored''"
| "transition_name RepairResetMissing = lit ''repair_reset_missing''"

definition history_snapshot :: "int \<Rightarrow> transition \<Rightarrow> int option \<Rightarrow> int \<Rightarrow> int option \<Rightarrow> int \<Rightarrow> Delivery \<Rightarrow> DeliveryHistory" where
  "history_snapshot i tr control_seq control_epoch reconcile_seq t d =
     \<lparr>he_history_id = i, he_event_id = de_event_id d, he_transition = transition_name tr, he_recorded_at = t,
      he_control_seq = control_seq, he_control_epoch = control_epoch, he_reconcile_seq = reconcile_seq,
      he_attempt_count = de_attempt_count d, he_attempt_limit = de_attempt_limit d, he_last_attempt_at = de_last_attempt_at d,
      he_last_error_code = de_last_error_code d, he_outage_streak = de_outage_streak d,
      he_quarantine_code = de_quarantine_code d, he_quarantined_at = de_quarantined_at d,
      he_delivered_at = de_delivered_at d, he_store_seq = de_store_seq d,
      he_store_envelope_digest = de_store_envelope_digest d, he_store_outcome = de_store_outcome d,
      he_store_recovery_epoch = de_store_recovery_epoch d\<rparr>"

definition write_history ::
  "transition \<Rightarrow> int option \<Rightarrow> int \<Rightarrow> int option \<Rightarrow> int \<Rightarrow> Delivery \<Rightarrow> 'c source_db \<Rightarrow> sql_error + 'c source_db" where
  "write_history tr control_seq control_epoch reconcile_seq t d db =
     (let e = history_snapshot (int (length (db_history db)) + 1) tr control_seq control_epoch reconcile_seq t d in
      if \<not> (1 \<le> control_epoch \<and> (if tr = Replay then is_some_and (\<lambda>s. 0 < s) control_seq \<and> reconcile_seq = None
               else control_seq = None \<and> is_some_and (\<lambda>s. 0 < s) reconcile_seq))
      then Inl CheckViolation
      else if control_seq \<noteq> None \<and> list_ex (\<lambda>h. he_control_epoch h = control_epoch \<and> he_control_seq h = control_seq) (db_history db)
      then Inl UniqueViolation
      else Inr (db\<lparr>db_history := db_history db @ [e]\<rparr>))"

definition live_lease :: "int \<Rightarrow> Delivery \<Rightarrow> bool" where
  "live_lease t d \<longleftrightarrow> de_lease_token d \<noteq> None \<and> is_some_and (\<lambda>e. t < e) (de_lease_expires_at d)"

definition replayed_row :: "int \<Rightarrow> Delivery \<Rightarrow> Delivery" where
  "replayed_row t d = (released d)\<lparr>de_attempt_count := 0, de_attempt_limit := None, de_outage_streak := 0,
     de_last_outage_generation := None, de_quarantined_at := None, de_quarantine_code := None,
     de_source_mismatch_code := None, de_source_mismatch_seq := None, de_source_mismatch_epoch := None,
     de_relay_hold_count := 0, de_available_at := t, de_replay_count := de_replay_count d + 1\<rparr>"

definition sql_replay :: "uuid \<Rightarrow> int \<Rightarrow> int \<Rightarrow> int \<Rightarrow> 'c source_db \<Rightarrow> sql_error + 'c source_db \<times> bool" where
  "sql_replay i control_seq control_epoch t db =
     (if control_seq < 1 \<or> control_epoch < 1 then Inl InvalidArguments
      else case find_delivery i db of
        None \<Rightarrow> Inr (db, False)
      | Some d \<Rightarrow>
          if de_quarantined_at d = None \<or> live_lease t d then Inr (db, False)
          else and_then (write_history Replay (Some control_seq) control_epoch None t d db) (\<lambda>db'.
            and_then (update_rows Replay (\<lambda>x. de_event_id x = i) (replayed_row t) db') (\<lambda>db''. Inr (db'', True))))"

definition acked_row :: "int \<Rightarrow> int list \<Rightarrow> ustr \<Rightarrow> int \<Rightarrow> int \<Rightarrow> Delivery \<Rightarrow> Delivery" where
  "acked_row seq digest outcome epoch t d = (released d)\<lparr>de_delivered_at := Some t, de_store_seq := Some seq,
     de_store_envelope_digest := Some digest, de_store_outcome := Some outcome, de_store_recovery_epoch := Some epoch,
     de_quarantined_at := None, de_quarantine_code := None, de_outage_streak := 0, de_relay_hold_count := 0\<rparr>"

definition sql_repair_ack_stored ::
  "'c source_lib \<Rightarrow> uuid \<Rightarrow> int \<Rightarrow> int list \<Rightarrow> int list \<Rightarrow> ustr \<Rightarrow> int \<Rightarrow> int \<Rightarrow> int \<Rightarrow> 'c source_db \<Rightarrow> sql_error + 'c source_db \<times> bool" where
  "sql_repair_ack_stored L i seq digest commitment outcome control_seq epoch t db =
     (if seq < 1 \<or> length digest \<noteq> 32 \<or> length commitment \<noteq> 32
         \<or> outcome \<notin> set (map lit [''duplicate'', ''duplicate_expired'']) \<or> control_seq < 1 \<or> epoch < 1
      then Inl InvalidArguments
      else case find_delivery i db of
        None \<Rightarrow> Inr (db, False)
      | Some d \<Rightarrow>
          if de_quarantine_code d \<noteq> Some UNKNOWN_AT_LIMIT \<or> de_delivered_at d \<noteq> None \<or> live_lease t d
             \<or> sl_commitment L (de_commitment_salt d) (de_source_digest d) \<noteq> commitment
          then Inr (db, False)
          else and_then (write_history RepairAckStored None epoch (Some control_seq) t d db) (\<lambda>db'.
            and_then (update_rows RepairAckStored (\<lambda>x. de_event_id x = i) (acked_row seq digest outcome epoch t) db')
              (\<lambda>db''. Inr (db'', True))))"

definition reset_row :: "int \<Rightarrow> Delivery \<Rightarrow> Delivery" where
  "reset_row t d = d\<lparr>de_delivered_at := None, de_store_seq := None, de_store_envelope_digest := None,
     de_store_outcome := None, de_store_recovery_epoch := None, de_attempt_count := 0, de_attempt_limit := None,
     de_outage_streak := 0, de_last_outage_generation := None, de_relay_hold_count := 0, de_available_at := t\<rparr>"

definition sql_repair_reset_missing ::
  "uuid \<Rightarrow> int \<Rightarrow> int \<Rightarrow> int \<Rightarrow> int \<Rightarrow> 'c source_db \<Rightarrow> sql_error + 'c source_db \<times> bool" where
  "sql_repair_reset_missing i expected_seq control_seq control_epoch t db =
     (if control_seq < 1 \<or> control_epoch < 1 then Inl InvalidArguments
      else case find_delivery i db of
        None \<Rightarrow> Inr (db, False)
      | Some d \<Rightarrow>
          if de_delivered_at d = None \<or> de_store_seq d \<noteq> Some expected_seq
             \<or> is_some_and (\<lambda>e. control_epoch \<le> e) (de_store_recovery_epoch d)
          then Inr (db, False)
          else and_then (write_history RepairResetMissing None control_epoch (Some control_seq) t d db) (\<lambda>db'.
            and_then (update_rows RepairResetMissing (\<lambda>x. de_event_id x = i) (reset_row t) db') (\<lambda>db''. Inr (db'', True))))"

end
