(* ===== verification/Relay_Rows.thy ===== *)
theory Relay_Rows
  imports Relay_Source
begin

text \<open>
  The life of a delivery row. Every call of the source database moves each row along one of the
  moves below or leaves it, appends rows that start pending, and appends to the history. The
  moves preserve the constraints and pass the guard, so the guard and the constraints never
  refuse a call.
\<close>

subsection \<open>Calls\<close>

datatype 'c source_op =
    Stage "'c staged_event" int "int list"
  | StageUnregistered "'c staged_event"
  | RegisterMissing int int "uuid \<Rightarrow> int list"
  | ClaimRows uuid int int int "uuid \<Rightarrow> uuid" "uuid \<Rightarrow> bool"
  | RenewLease uuid uuid int int
  | SettleSuccess uuid uuid int "int list" ustr int int
  | SettleFailure uuid uuid ustr bool int bool bool bool int
  | ReapExhausted int int "uuid \<Rightarrow> bool"
  | NoteMismatch uuid uuid ustr int int int
  | ReplayRow uuid int int int
  | AckStoredRow uuid int "int list" "int list" ustr int int int
  | ResetMissingRow uuid int int int int
  | ChangePolicy RelayPolicy

definition dropped :: "sql_error + 'a \<times> 'b \<Rightarrow> sql_error + 'a" where
  "dropped r = map_sum (\<lambda>e. e) fst r"

text \<open>
  Staging without registration happens when the trigger is lost. The owner changes the policy
  under its own constraints and a higher revision.
\<close>

fun source_call :: "'c source_lib \<Rightarrow> 'c source_op \<Rightarrow> 'c source_db \<Rightarrow> sql_error + 'c source_db" where
  "source_call L (Stage ev t salt) db = sql_stage L ev t salt db"
| "source_call L (StageUnregistered ev) db =
     (if oe_event_id ev \<in> oe_event_id ` set (db_events db) then Inl UniqueViolation
      else Inr (db\<lparr>db_events := db_events db @ [ev]\<rparr>))"
| "source_call L (RegisterMissing limit t salts) db = dropped (sql_register_missing L limit t salts db)"
| "source_call L (ClaimRows owner limit lease_ms t fresh locked) db = dropped (sql_claim owner limit lease_ms t fresh locked db)"
| "source_call L (RenewLease i token lease_ms t) db = dropped (sql_renew i token lease_ms t db)"
| "source_call L (SettleSuccess i token seq digest outcome epoch t) db =
     dropped (sql_settle_success i token seq digest outcome epoch t db)"
| "source_call L (SettleFailure i token code terminal backoff_ms outage countable held t) db =
     dropped (sql_settle_failure i token code terminal backoff_ms outage countable held t db)"
| "source_call L (ReapExhausted limit t locked) db = dropped (sql_reap_exhausted limit t locked db)"
| "source_call L (NoteMismatch i token code seq epoch t) db = dropped (sql_note_mismatch i token code seq epoch t db)"
| "source_call L (ReplayRow i control_seq control_epoch t) db = dropped (sql_replay i control_seq control_epoch t db)"
| "source_call L (AckStoredRow i seq digest commitment outcome control_seq epoch t) db =
     dropped (sql_repair_ack_stored L i seq digest commitment outcome control_seq epoch t db)"
| "source_call L (ResetMissingRow i seq control_seq control_epoch t) db =
     dropped (sql_repair_reset_missing i seq control_seq control_epoch t db)"
| "source_call L (ChangePolicy p) db =
     (if ry_revision p \<le> ry_revision (db_policy db) then Inl GuardRefused
      else if relay_policy_validate p \<noteq> Inr () then Inl CheckViolation
      else Inr (db\<lparr>db_policy := p\<rparr>))"

definition migrated :: "'c source_lib \<Rightarrow> 'c staged_event list \<Rightarrow> int \<Rightarrow> (uuid \<Rightarrow> int list) \<Rightarrow> 'c source_db" where
  "migrated L evs t salts = \<lparr>db_events = evs,
     db_deliveries = map (\<lambda>ev. new_delivery L ev (lit ''backfill'') t (salts (oe_event_id ev))) evs,
     db_history = [], db_generation = 0, db_policy = default_relay_policy\<rparr>"

subsection \<open>Moves of a row\<close>

inductive row_move ::
  "'c source_lib \<Rightarrow> RelayPolicy \<Rightarrow> int \<Rightarrow> DeliveryHistory list \<Rightarrow> 'c source_op \<Rightarrow> Delivery \<Rightarrow> Delivery \<Rightarrow> bool"
  for L p g hs where
  rest: "row_move L p g hs op' d d"
| claim: "claimable p t d \<Longrightarrow> row_move L p g hs (ClaimRows owner limit lease_ms t fresh locked) d (claimed_row p owner lease_ms t fresh d)"
| renew: "held_by i token t d \<Longrightarrow>
    row_move L p g hs (RenewLease i token lease_ms t) d (d\<lparr>de_lease_expires_at := Some (t + interval_ms lease_ms)\<rparr>)"
| deliver: "held_by i token t d \<Longrightarrow> 1 \<le> seq \<Longrightarrow> length digest = 32 \<Longrightarrow> outcome \<in> set STORE_OUTCOMES \<Longrightarrow> 1 \<le> epoch \<Longrightarrow>
    row_move L p g hs (SettleSuccess i token seq digest outcome epoch t) d
      ((released d)\<lparr>de_delivered_at := Some t, de_store_seq := Some seq, de_store_envelope_digest := Some digest,
        de_store_outcome := Some outcome, de_store_recovery_epoch := Some epoch, de_outage_streak := 0,
        de_relay_hold_count := 0, de_last_error_code := None\<rparr>)"
| fail: "held_by i token t d \<Longrightarrow> de_attempt_limit d \<noteq> None \<Longrightarrow> sql_is_code code \<Longrightarrow>
    ry_backoff_min_ms p \<le> backoff_ms \<Longrightarrow> backoff_ms \<le> ry_backoff_max_ms p \<Longrightarrow> \<not> (terminal \<and> outage) \<Longrightarrow>
    \<not> (held \<and> (\<not> outage \<or> countable)) \<Longrightarrow>
    row_move L p g hs (SettleFailure i token code terminal backoff_ms outage countable held t) d
      (failed_row p g code terminal backoff_ms outage countable held t d)"
| reap: "exhausted t d \<Longrightarrow> row_move L p g hs (ReapExhausted limit t locked) d (reaped_row t d)"
| mismatch: "de_lease_token d = Some token \<Longrightarrow> de_event_id d = i \<Longrightarrow> is_some_and (\<lambda>e. t < e) (de_lease_expires_at d) \<Longrightarrow>
    de_source_mismatch_seq d = None \<Longrightarrow> code \<in> set MISMATCH_CODES \<Longrightarrow> 1 \<le> seq \<Longrightarrow> 1 \<le> epoch \<Longrightarrow>
    row_move L p g hs (NoteMismatch i token code seq epoch t) d
      (d\<lparr>de_source_mismatch_code := Some code, de_source_mismatch_seq := Some seq, de_source_mismatch_epoch := Some epoch\<rparr>)"
| replay: "de_event_id d = i \<Longrightarrow> de_quarantined_at d \<noteq> None \<Longrightarrow> hs = [history_snapshot n Replay (Some control_seq) control_epoch None t d] \<Longrightarrow>
    row_move L p g hs (ReplayRow i control_seq control_epoch t) d (replayed_row t d)"
| ack: "de_event_id d = i \<Longrightarrow> de_quarantine_code d = Some UNKNOWN_AT_LIMIT \<Longrightarrow> de_delivered_at d = None \<Longrightarrow>
    sl_commitment L (de_commitment_salt d) (de_source_digest d) = commitment \<Longrightarrow>
    1 \<le> seq \<Longrightarrow> length digest = 32 \<Longrightarrow> outcome \<in> set (map lit [''duplicate'', ''duplicate_expired'']) \<Longrightarrow> 1 \<le> epoch \<Longrightarrow>
    hs = [history_snapshot n RepairAckStored None epoch (Some control_seq) t d] \<Longrightarrow>
    row_move L p g hs (AckStoredRow i seq digest commitment outcome control_seq epoch t) d (acked_row seq digest outcome epoch t d)"
| reset: "de_event_id d = i \<Longrightarrow> de_delivered_at d \<noteq> None \<Longrightarrow> de_store_seq d = Some seq \<Longrightarrow>
    \<not> is_some_and (\<lambda>e. control_epoch \<le> e) (de_store_recovery_epoch d) \<Longrightarrow>
    hs = [history_snapshot n RepairResetMissing None control_epoch (Some control_seq) t d] \<Longrightarrow>
    row_move L p g hs (ResetMissingRow i seq control_seq control_epoch t) d (reset_row t d)"

subsection \<open>Well-formed rows\<close>

text \<open>Beyond the constraints: attempts stay within the limit, which the first claim fixes.\<close>

definition delivery_ok :: "Delivery \<Rightarrow> bool" where
  "delivery_ok d \<longleftrightarrow> delivery_checks d
     \<and> (case de_attempt_limit d of None \<Rightarrow> de_attempt_count d = 0 \<and> de_lease_token d = None | Some n \<Rightarrow> de_attempt_count d \<le> n)
     \<and> (de_lease_token d \<noteq> None \<longrightarrow> 1 \<le> de_attempt_count d)"

definition policy_ok :: "RelayPolicy \<Rightarrow> bool" where
  "policy_ok p \<longleftrightarrow> relay_policy_validate p = Inr ()"

lemmas row_fields = released_def claimed_row_def hold_row_def outage_row_def verdict_row_def retry_row_def reaped_row_def
  replayed_row_def acked_row_def reset_row_def

lemmas check_defs = delivery_checks_def registration_ok_def counters_ok_def lease_columns_ok_def codes_ok_def
  receipt_columns_ok_def mismatch_columns_ok_def terminal_columns_ok_def

lemma codes_of_relay: "sql_is_code UNKNOWN_AT_LIMIT" "sql_is_code (lit ''outage_suspected_event_specific'')"
  by (simp_all add: sql_is_code_def UNKNOWN_AT_LIMIT_def lit_def ascii_lower_def ascii_digit_def)

lemma held_by_open: "held_by i token t d \<Longrightarrow> de_event_id d = i \<and> de_lease_token d = Some token \<and> de_delivered_at d = None \<and> de_quarantined_at d = None"
  by (simp add: held_by_def)

lemma limit_ok:
  assumes "policy_ok p"
  shows "1 \<le> ry_max_attempts p \<and> ry_max_attempts p \<le> 32"
  using assms by (auto simp: policy_ok_def relay_policy_validate_def split: if_splits)

lemmas ok_defs = delivery_ok_def check_defs

lemma claimed_ok:
  assumes "delivery_ok d" and "policy_ok p" and "claimable p t d"
  shows "delivery_ok (claimed_row p owner lease_ms t fresh d)"
  using assms limit_ok [OF assms(2)]
  by (cases "de_attempt_limit d"; simp add: ok_defs claimable_def claimed_row_def; auto?)

lemma failed_ok:
  assumes "delivery_ok d" and "held_by i token t d" and "de_attempt_limit d \<noteq> None" and "sql_is_code code"
  shows "delivery_ok (hold_row p code t d)" "delivery_ok (outage_row p g code countable t d)"
    "delivery_ok (verdict_row code t d)" "delivery_ok (retry_row code backoff_ms t d)"
proof -
  from held_by_open [OF assms(2)] have "de_lease_token d = Some token" "de_delivered_at d = None" "de_quarantined_at d = None" by simp_all
  note open_row = assms(1,4) this codes_of_relay
  obtain n where n: "de_attempt_limit d = Some n" using assms(3) by blast
  show "delivery_ok (hold_row p code t d)" using open_row n by (simp add: ok_defs hold_row_def released_def; auto?)
  show "delivery_ok (outage_row p g code countable t d)" using open_row n by (simp add: ok_defs outage_row_def released_def Let_def; auto?)
  show "delivery_ok (verdict_row code t d)" using open_row n by (simp add: ok_defs verdict_row_def released_def; auto?)
  show "delivery_ok (retry_row code backoff_ms t d)" using open_row n by (simp add: ok_defs retry_row_def released_def; auto?)
qed

lemma duplicates_are_outcomes: "set (map lit [''duplicate'', ''duplicate_expired'']) \<subseteq> set STORE_OUTCOMES"
  unfolding STORE_OUTCOMES_def by simp

lemma row_move_ok:
  assumes "row_move L p g hs op' d d'" and "delivery_ok d" and "policy_ok p"
  shows "delivery_ok d'"
  using assms(1)
proof cases
  case (claim t owner limit lease_ms fresh locked)
  then show ?thesis using claimed_ok assms by simp
next
  case (renew i token t lease_ms)
  then show ?thesis using assms(2) by (cases "de_attempt_limit d"; simp add: ok_defs held_by_def; auto?)
next
  case (deliver i token t seq digest outcome epoch)
  then show ?thesis using assms(2) by (cases "de_attempt_limit d"; simp add: ok_defs held_by_def released_def; auto?)
next
  case (fail i token t code backoff_ms terminal outage held countable)
  then show ?thesis using failed_ok [OF assms(2) fail(3-5)] by (simp add: failed_row_def)
next
  case (reap t limit locked)
  then show ?thesis using assms(2) codes_of_relay
    by (cases "de_attempt_limit d"; simp add: ok_defs exhausted_def reaped_row_def released_def; auto?)
next
  case (mismatch token i t code seq epoch)
  then show ?thesis using assms(2) by (cases "de_attempt_limit d"; simp add: ok_defs; auto?)
next
  case (replay i n control_seq control_epoch t)
  then show ?thesis using assms(2) by (simp add: ok_defs replayed_row_def released_def; auto?)
next
  case (ack i commitment seq digest outcome epoch n control_seq t)
  from ack(9) duplicates_are_outcomes have "outcome \<in> set STORE_OUTCOMES" by blast
  with ack(2,4,5,7,8,10) show ?thesis using assms(2) by (cases "de_attempt_limit d"; simp add: ok_defs acked_row_def released_def; auto?)
next
  case (reset i seq control_epoch n control_seq t)
  then show ?thesis using assms(2) by (simp add: ok_defs reset_row_def; auto?)
qed (use assms in simp)

primrec transition_of :: "'c source_op \<Rightarrow> transition" where
  "transition_of (Stage _ _ _) = NoTransition" | "transition_of (StageUnregistered _) = NoTransition"
| "transition_of (RegisterMissing _ _ _) = NoTransition" | "transition_of (ClaimRows _ _ _ _ _ _) = NoTransition"
| "transition_of (RenewLease _ _ _ _) = NoTransition" | "transition_of (SettleSuccess _ _ _ _ _ _ _) = NoTransition"
| "transition_of (SettleFailure _ _ _ _ _ _ _ _ _) = NoTransition" | "transition_of (ReapExhausted _ _ _) = NoTransition"
| "transition_of (NoteMismatch _ _ _ _ _ _) = NoTransition" | "transition_of (ReplayRow _ _ _ _) = Replay"
| "transition_of (AckStoredRow _ _ _ _ _ _ _ _) = RepairAckStored" | "transition_of (ResetMissingRow _ _ _ _ _) = RepairResetMissing"
| "transition_of (ChangePolicy _) = NoTransition"

lemmas guard_defs = guard_update_def registration_of_def receipt_of_def quarantine_of_def mismatch_of_def

lemma terminal_once: "delivery_ok d \<Longrightarrow> de_delivered_at d = None \<or> de_quarantined_at d = None"
  by (auto simp: delivery_ok_def delivery_checks_def terminal_columns_ok_def)

lemma row_move_guarded:
  assumes "row_move L p g hs op' d d'" and "delivery_ok d"
  shows "guard_update (transition_of op') d d'"
  using assms(1) terminal_once [OF assms(2)]
  by (cases rule: row_move.cases)
    (simp_all add: guard_defs row_fields failed_row_def held_by_def claimable_def exhausted_def Let_def split: option.splits)

end
