(* ===== verification/Relay_Table.thy ===== *)
theory Relay_Table
  imports Relay_Rows
begin

text \<open>
  The delivery table as a state machine. Every call moves the rows, registers rows that start
  pending and extends the history; from this follow the invariant of the database, that the
  guard and the constraints never refuse a call, that terminal evidence is never lost, that a
  lease excludes everybody but its holder, and that no row is left behind.
\<close>

subsection \<open>What a call does\<close>

definition reference_ok :: "DeliveryHistory \<Rightarrow> bool" where
  "reference_ok h \<longleftrightarrow> 1 \<le> he_control_epoch h
     \<and> (if he_transition h = transition_name Replay then is_some_and (\<lambda>s. 0 < s) (he_control_seq h) \<and> he_reconcile_seq h = None
        else he_control_seq h = None \<and> is_some_and (\<lambda>s. 0 < s) (he_reconcile_seq h))"

definition history_ok :: "DeliveryHistory list \<Rightarrow> bool" where
  "history_ok hist \<longleftrightarrow> map he_history_id hist = map int [1..<Suc (length hist)]
     \<and> distinct (map (\<lambda>h. (he_control_epoch h, he_control_seq h)) (filter (\<lambda>h. he_control_seq h \<noteq> None) hist))
     \<and> (\<forall>h\<in>set hist. reference_ok h)"

definition db_ok :: "'c source_db \<Rightarrow> bool" where
  "db_ok db \<longleftrightarrow> distinct (map oe_event_id (db_events db)) \<and> distinct (map de_event_id (db_deliveries db))
     \<and> set (map de_event_id (db_deliveries db)) \<subseteq> set (map oe_event_id (db_events db))
     \<and> (\<forall>d\<in>set (db_deliveries db). delivery_ok d) \<and> policy_ok (db_policy db) \<and> history_ok (db_history db)"

text \<open>Rows of a registration: digests and salts have 32 bytes.\<close>

definition lib_ok :: "'c source_lib \<Rightarrow> bool" where
  "lib_ok L \<longleftrightarrow> (\<forall>ev. length (sl_digest L ev) = 32)"

fun op_ok :: "'c source_op \<Rightarrow> bool" where
  "op_ok (Stage ev t salt) \<longleftrightarrow> length salt = 32"
| "op_ok (RegisterMissing limit t salts) \<longleftrightarrow> (\<forall>i. length (salts i) = 32)"
| "op_ok _ \<longleftrightarrow> True"

definition starts_pending :: "Delivery \<Rightarrow> bool" where
  "starts_pending d \<longleftrightarrow> guard_insert d \<and> delivery_ok d"

definition moved :: "'c source_lib \<Rightarrow> 'c source_op \<Rightarrow> 'c source_db \<Rightarrow> 'c source_db \<Rightarrow> bool" where
  "moved L op' db db' \<longleftrightarrow> (\<exists>f new hs. db_deliveries db' = map f (db_deliveries db) @ new
     \<and> (\<forall>d\<in>set (db_deliveries db). row_move L (db_policy db) (db_generation db) hs op' d (f d))
     \<and> (\<forall>d\<in>set new. starts_pending d)
     \<and> db_history db' = db_history db @ hs \<and> history_ok (db_history db')
     \<and> distinct (map de_event_id (db_deliveries db')) \<and> distinct (map oe_event_id (db_events db'))
     \<and> set (map oe_event_id (db_events db)) \<subseteq> set (map oe_event_id (db_events db'))
     \<and> set (map de_event_id (db_deliveries db')) \<subseteq> set (map oe_event_id (db_events db'))
     \<and> db_generation db \<le> db_generation db' \<and> policy_ok (db_policy db')
     \<and> (db_policy db' = db_policy db \<or> op' = ChangePolicy (db_policy db')))"

definition outcome_ok :: "'c source_lib \<Rightarrow> 'c source_op \<Rightarrow> 'c source_db \<Rightarrow> sql_error + 'c source_db \<Rightarrow> bool" where
  "outcome_ok L op' db r \<longleftrightarrow> (case r of
     Inr db' \<Rightarrow> moved L op' db db'
   | Inl e \<Rightarrow> e = InvalidArguments \<or> e = UniqueViolation \<or> (\<exists>p. op' = ChangePolicy p))"

lemma row_move_keeps_id:
  assumes "row_move L p g hs op' d d'"
  shows "de_event_id d' = de_event_id d"
  using assms by cases (simp_all add: row_fields failed_row_def Let_def)

lemma moves_ids:
  assumes "\<forall>d\<in>set ds. row_move L p g hs op' d (f d)"
  shows "map de_event_id (map f ds) = map de_event_id ds"
  using assms by (auto intro: row_move_keeps_id)

lemma movedI:
  assumes "db_ok db" and "db_deliveries db' = map f (db_deliveries db)"
    and moves: "\<forall>d\<in>set (db_deliveries db). row_move L (db_policy db) (db_generation db) hs op' d (f d)"
    and "db_history db' = db_history db @ hs" "history_ok (db_history db')"
    and "db_events db' = db_events db" "db_policy db' = db_policy db" "db_generation db \<le> db_generation db'"
  shows "moved L op' db db'"
proof -
  have "map de_event_id (db_deliveries db') = map de_event_id (db_deliveries db)" unfolding assms(2) by (rule moves_ids [OF moves])
  moreover have "distinct (map de_event_id (db_deliveries db))" "distinct (map oe_event_id (db_events db))"
    "set (map de_event_id (db_deliveries db)) \<subseteq> set (map oe_event_id (db_events db))" "policy_ok (db_policy db)"
    using assms(1) by (auto simp: db_ok_def)
  ultimately show ?thesis
    unfolding moved_def using assms(2-8)
    by - (rule exI [of _ f], rule exI [of _ "[]"], rule exI [of _ hs], simp del: map_map map_eq_conv)
qed

lemma update_moves:
  assumes "\<forall>d\<in>set (db_deliveries db). delivery_ok d" and "policy_ok p" and "transition_of op' = tr"
    and hit: "\<And>d. d \<in> set (db_deliveries db) \<Longrightarrow> P d \<Longrightarrow> row_move L p g hs op' d (f d)"
  shows "update_rows tr P f db = Inr (db\<lparr>db_deliveries := map (\<lambda>d. if P d then f d else d) (db_deliveries db)\<rparr>)"
    and "\<forall>d\<in>set (db_deliveries db). row_move L p g hs op' d (if P d then f d else d)"
proof -
  have "guard_update tr d (f d) \<and> delivery_checks (f d)" if "d \<in> set (db_deliveries db)" "P d" for d
    using row_move_guarded [OF hit [OF that]] row_move_ok [OF hit [OF that]] assms(1-3) that by (simp add: delivery_ok_def)
  then show "update_rows tr P f db = Inr (db\<lparr>db_deliveries := map (\<lambda>d. if P d then f d else d) (db_deliveries db)\<rparr>)"
    by (auto simp: update_rows_def Let_def list_ex_iff)
  show "\<forall>d\<in>set (db_deliveries db). row_move L p g hs op' d (if P d then f d else d)"
    using hit by (auto intro: row_move.rest)
qed

text \<open>The calls of the worker, which update rows and nothing else.\<close>

lemma updated_outcome:
  assumes "db_ok db" and "transition_of op' = NoTransition"
    and hit: "\<And>d. d \<in> set (db_deliveries db) \<Longrightarrow> P d \<Longrightarrow> row_move L (db_policy db) (db_generation db) [] op' d (f d)"
  shows "\<exists>db'. update_rows NoTransition P f db = Inr db' \<and> moved L op' db db' \<and> moved L op' db (db'\<lparr>db_generation := db_generation db + 1\<rparr>)"
proof -
  have ok: "\<forall>d\<in>set (db_deliveries db). delivery_ok d" "policy_ok (db_policy db)" "history_ok (db_history db)"
    using assms(1) by (auto simp: db_ok_def)
  note update = update_moves [of db "db_policy db" op' NoTransition P L "db_generation db" "[]" f, OF ok(1,2) assms(2) hit]
  let ?db' = "db\<lparr>db_deliveries := map (\<lambda>d. if P d then f d else d) (db_deliveries db)\<rparr>"
  have "moved L op' db ?db'" "moved L op' db (?db'\<lparr>db_generation := db_generation db + 1\<rparr>)"
    using ok(3) by (auto intro: movedI [OF assms(1) _ update(2)])
  with update(1) show ?thesis by blast
qed

lemma unique_row:
  assumes "db_ok db" and "d \<in> set (db_deliveries db)" "e \<in> set (db_deliveries db)" and "de_event_id d = de_event_id e"
  shows "d = e"
  using assms by (auto simp: db_ok_def distinct_map dest: inj_onD)

lemma claim_outcome:
  assumes "db_ok db"
  shows "outcome_ok L (ClaimRows owner limit lease_ms t fresh locked) db (source_call L (ClaimRows owner limit lease_ms t fresh locked) db)"
proof -
  let ?op = "ClaimRows owner limit lease_ms t fresh locked" and ?f = "claimed_row (db_policy db) owner lease_ms t fresh"
  let ?P = "\<lambda>d. de_event_id d \<in> set (map de_event_id (picked limit t locked db))"
  have "row_move L (db_policy db) (db_generation db) [] ?op d (?f d)" if d: "d \<in> set (db_deliveries db)" "?P d" for d
  proof -
    from d(2) obtain e where "e \<in> set (picked limit t locked db)" "de_event_id d = de_event_id e" by auto
    then have "claimable (db_policy db) t e" "e \<in> set (db_deliveries db)" by (auto simp: picked_def dest: in_set_takeD)
    with unique_row [OF assms d(1)] \<open>de_event_id d = de_event_id e\<close> show ?thesis by (auto intro: row_move.claim)
  qed
  from updated_outcome [where P = ?P, OF assms _ this] show ?thesis
    by (auto simp: outcome_ok_def sql_claim_def dropped_def Let_def)
qed

lemma fenced_outcomes:
  assumes "db_ok db"
  shows "outcome_ok L (RenewLease i token lease_ms t) db (source_call L (RenewLease i token lease_ms t) db)"
    and "outcome_ok L (SettleSuccess i token seq digest outcome epoch t) db
      (source_call L (SettleSuccess i token seq digest outcome epoch t) db)"
    and "outcome_ok L (NoteMismatch i token code seq epoch t) db (source_call L (NoteMismatch i token code seq epoch t) db)"
proof -
  have "row_move L (db_policy db) (db_generation db) [] (RenewLease i token lease_ms t) d (d\<lparr>de_lease_expires_at := Some (t + interval_ms lease_ms)\<rparr>)"
    if "held_by i token t d" for d using that by (rule row_move.renew)
  from updated_outcome [where P = "held_by i token t", OF assms _ this]
  show "outcome_ok L (RenewLease i token lease_ms t) db (source_call L (RenewLease i token lease_ms t) db)"
    by (auto simp: outcome_ok_def sql_renew_def dropped_def Let_def)
  show "outcome_ok L (SettleSuccess i token seq digest outcome epoch t) db
      (source_call L (SettleSuccess i token seq digest outcome epoch t) db)"
  proof (cases "seq < 1 \<or> length digest \<noteq> 32 \<or> outcome \<notin> set STORE_OUTCOMES \<or> epoch < 1")
    case False
    let ?f = "\<lambda>d. (released d)\<lparr>de_delivered_at := Some t, de_store_seq := Some seq, de_store_envelope_digest := Some digest,
        de_store_outcome := Some outcome, de_store_recovery_epoch := Some epoch, de_outage_streak := 0,
        de_relay_hold_count := 0, de_last_error_code := None\<rparr>"
    have "row_move L (db_policy db) (db_generation db) [] (SettleSuccess i token seq digest outcome epoch t) d (?f d)"
      if "held_by i token t d" for d using that False by (intro row_move.deliver) auto
    from updated_outcome [where P = "held_by i token t", OF assms _ this] False show ?thesis
      by (auto simp: outcome_ok_def sql_settle_success_def dropped_def Let_def)
  qed (auto simp: outcome_ok_def sql_settle_success_def dropped_def)
  show "outcome_ok L (NoteMismatch i token code seq epoch t) db (source_call L (NoteMismatch i token code seq epoch t) db)"
  proof (cases "code \<notin> set MISMATCH_CODES \<or> seq < 1 \<or> epoch < 1")
    case False
    let ?P = "\<lambda>d. de_event_id d = i \<and> de_lease_token d = Some token \<and> is_some_and (\<lambda>e. t < e) (de_lease_expires_at d)
      \<and> de_source_mismatch_seq d = None"
    have "row_move L (db_policy db) (db_generation db) [] (NoteMismatch i token code seq epoch t) d
        (d\<lparr>de_source_mismatch_code := Some code, de_source_mismatch_seq := Some seq, de_source_mismatch_epoch := Some epoch\<rparr>)"
      if "?P d" for d using that False by (intro row_move.mismatch) auto
    from updated_outcome [where P = ?P, OF assms _ this] False show ?thesis
      by (auto simp: outcome_ok_def sql_note_mismatch_def dropped_def Let_def)
  qed (auto simp: outcome_ok_def sql_note_mismatch_def dropped_def)
qed

lemma failure_outcome:
  assumes "db_ok db"
  shows "outcome_ok L (SettleFailure i token code terminal backoff_ms outage countable held t) db
    (source_call L (SettleFailure i token code terminal backoff_ms outage countable held t) db)" (is "outcome_ok L ?op db _")
proof (cases "\<not> sql_is_code code \<or> \<not> (ry_backoff_min_ms (db_policy db) \<le> backoff_ms \<and> backoff_ms \<le> ry_backoff_max_ms (db_policy db))
    \<or> (terminal \<and> outage) \<or> (held \<and> (\<not> outage \<or> countable))")
  case False
  have quiet: "moved L ?op db db"
    using assms by (auto simp: db_ok_def intro: movedI [OF assms, of _ "\<lambda>d. d" _ "[]"] row_move.rest)
  show ?thesis
  proof (cases "find (\<lambda>d. held_by i token t d \<and> de_attempt_limit d \<noteq> None) (db_deliveries db)")
    case None
    with False quiet show ?thesis by (simp add: outcome_ok_def sql_settle_failure_def dropped_def Let_def)
  next
    case (Some d)
    then have d: "d \<in> set (db_deliveries db)" "held_by i token t d" "de_attempt_limit d \<noteq> None"
      by (auto simp: find_Some_iff)
    let ?P = "\<lambda>x. de_event_id x = de_event_id d"
    let ?f = "failed_row (db_policy db) (db_generation db) code terminal backoff_ms outage countable held t"
    have hit: "row_move L (db_policy db) (db_generation db) [] ?op x (?f x)" if "x \<in> set (db_deliveries db)" "?P x" for x
      using unique_row [OF assms that(1) d(1) that(2)] d(2,3) False by (auto intro: row_move.fail)
    have "transition_of ?op = NoTransition" by simp
    from updated_outcome [where P = ?P and f = ?f, OF assms this hit]
    obtain db' where "update_rows NoTransition ?P ?f db = Inr db'" "moved L ?op db db'" by blast
    moreover have "source_call L ?op db = dropped (and_then (update_rows NoTransition ?P ?f db) (\<lambda>db'. Inr (db', True)))"
      unfolding source_call.simps sql_settle_failure_def Let_def if_not_P [OF False] Some option.case ..
    ultimately show ?thesis by (simp add: outcome_ok_def dropped_def)
  qed
qed (auto simp: outcome_ok_def sql_settle_failure_def dropped_def Let_def)

lemma reap_outcome:
  assumes "db_ok db"
  shows "outcome_ok L (ReapExhausted limit t locked) db (source_call L (ReapExhausted limit t locked) db)"
proof -
  let ?rows = "take (nat limit) (sort_key reap_order (filter (\<lambda>d. exhausted t d \<and> \<not> locked (de_event_id d)) (db_deliveries db)))"
  let ?P = "\<lambda>d. de_event_id d \<in> set (map de_event_id ?rows)"
  have "row_move L (db_policy db) (db_generation db) [] (ReapExhausted limit t locked) d (reaped_row t d)"
    if d: "d \<in> set (db_deliveries db)" "?P d" for d
  proof -
    from d(2) obtain e where "e \<in> set ?rows" "de_event_id d = de_event_id e" by auto
    then have "exhausted t e" "e \<in> set (db_deliveries db)" by (auto dest: in_set_takeD)
    with unique_row [OF assms d(1)] \<open>de_event_id d = de_event_id e\<close> show ?thesis by (auto intro: row_move.reap)
  qed
  from updated_outcome [where P = ?P, OF assms _ this] show ?thesis
    by (auto simp: outcome_ok_def sql_reap_exhausted_def dropped_def Let_def)
qed

text \<open>Registrations.\<close>

lemma new_pending:
  assumes "lib_ok L" and "length salt = 32" and "kind \<in> set (map lit [''trigger'', ''backfill'', ''repair''])"
  shows "starts_pending (new_delivery L ev kind t salt)"
  using assms by (simp add: starts_pending_def guard_insert_def ok_defs new_delivery_def lib_ok_def)

lemma new_delivery_id [simp]: "de_event_id (new_delivery L ev kind t salt) = oe_event_id ev"
  by (simp add: new_delivery_def)

lemma insert_pending:
  assumes "starts_pending d" and "de_event_id d \<notin> de_event_id ` set (db_deliveries db)"
  shows "insert_row d db = Inr (db\<lparr>db_deliveries := db_deliveries db @ [d]\<rparr>)"
  using assms by (simp add: insert_row_def starts_pending_def delivery_ok_def)

lemma register_each_rows:
  assumes "lib_ok L" and "\<forall>i. length (salts i) = 32" and "distinct (map oe_event_id evs)"
    and "\<forall>ev\<in>set evs. oe_event_id ev \<notin> de_event_id ` set (db_deliveries db)"
  shows "register_each L t salts evs db = Inr (db\<lparr>db_deliveries := db_deliveries db
    @ map (\<lambda>ev. new_delivery L ev (lit ''repair'') t (salts (oe_event_id ev))) evs\<rparr>)"
  using assms(3,4)
proof (induction evs arbitrary: db)
  case (Cons ev evs)
  let ?d = "new_delivery L ev (lit ''repair'') t (salts (oe_event_id ev))"
  have "insert_row ?d db = Inr (db\<lparr>db_deliveries := db_deliveries db @ [?d]\<rparr>)"
    using Cons.prems assms(1,2) by (intro insert_pending new_pending) auto
  moreover have "\<forall>e\<in>set evs. oe_event_id e \<notin> de_event_id ` set (db_deliveries (db\<lparr>db_deliveries := db_deliveries db @ [?d]\<rparr>))"
    using Cons.prems by (auto simp: image_iff)
  ultimately show ?case using Cons.IH [of "db\<lparr>db_deliveries := db_deliveries db @ [?d]\<rparr>"] Cons.prems(1) by simp
qed simp

lemma registered_moved:
  assumes "db_ok db" and "db_deliveries db' = db_deliveries db @ new" and "\<forall>d\<in>set new. starts_pending d"
    and "distinct (map de_event_id new)" "set (map de_event_id new) \<inter> set (map de_event_id (db_deliveries db)) = {}"
    and "set (map de_event_id new) \<subseteq> set (map oe_event_id (db_events db'))"
    and "distinct (map oe_event_id (db_events db'))" "set (map oe_event_id (db_events db)) \<subseteq> set (map oe_event_id (db_events db'))"
    and "db_history db' = db_history db" "db_policy db' = db_policy db" "db_generation db' = db_generation db"
  shows "moved L op' db db'"
proof -
  have "set (map de_event_id (db_deliveries db)) \<subseteq> set (map oe_event_id (db_events db'))"
    using assms(1,8) unfolding db_ok_def by blast
  with assms show ?thesis unfolding moved_def
    by - (rule exI [of _ "\<lambda>d. d"], rule exI [of _ new], rule exI [of _ "[]"], auto simp: db_ok_def intro: row_move.rest)
qed

lemma registration_outcomes:
  assumes "db_ok db" and "lib_ok L"
  shows "length salt = 32 \<Longrightarrow> outcome_ok L (Stage ev t salt) db (source_call L (Stage ev t salt) db)"
    and "outcome_ok L (StageUnregistered ev) db (source_call L (StageUnregistered ev) db)"
    and "\<forall>i. length (salts i) = 32 \<Longrightarrow> outcome_ok L (RegisterMissing limit t salts) db (source_call L (RegisterMissing limit t salts) db)"
proof -
  note ok = assms(1) [unfolded db_ok_def]
  show "outcome_ok L (Stage ev t salt) db (source_call L (Stage ev t salt) db)" if salt: "length salt = 32"
  proof (cases "oe_event_id ev \<in> oe_event_id ` set (db_events db)")
    case False
    let ?d = "new_delivery L ev (lit ''trigger'') t salt"
    have pending: "starts_pending ?d" using assms(2) salt by (intro new_pending) simp_all
    have "oe_event_id ev \<notin> de_event_id ` set (db_deliveries db)" using ok False by auto
    then have "insert_row ?d (db\<lparr>db_events := db_events db @ [ev]\<rparr>)
        = Inr (db\<lparr>db_events := db_events db @ [ev], db_deliveries := db_deliveries db @ [?d]\<rparr>)"
      using insert_pending [OF pending, of "db\<lparr>db_events := db_events db @ [ev]\<rparr>"] by simp
    moreover have "moved L (Stage ev t salt) db (db\<lparr>db_events := db_events db @ [ev], db_deliveries := db_deliveries db @ [?d]\<rparr>)"
      using ok False pending by (intro registered_moved [where new = "[?d]", OF assms(1)]) auto
    ultimately show ?thesis using False by (simp add: outcome_ok_def sql_stage_def)
  qed (simp add: outcome_ok_def sql_stage_def)
  show "outcome_ok L (StageUnregistered ev) db (source_call L (StageUnregistered ev) db)"
    using ok by (auto simp: outcome_ok_def intro!: registered_moved [where new = "[]", OF assms(1)])
  show "outcome_ok L (RegisterMissing limit t salts) db (source_call L (RegisterMissing limit t salts) db)"
    if salts: "\<forall>i. length (salts i) = 32"
  proof -
    let ?evs = "take (nat limit) (missing_events db)"
    let ?new = "map (\<lambda>ev. new_delivery L ev (lit ''repair'') t (salts (oe_event_id ev))) ?evs"
    have evs: "ev \<in> set (db_events db)" "oe_event_id ev \<notin> de_event_id ` set (db_deliveries db)" if "ev \<in> set ?evs" for ev
      using that by (auto simp: missing_events_def find_delivery_def find_None_iff dest!: in_set_takeD)
    have "distinct (map oe_event_id (missing_events db))"
      using ok by (auto simp: missing_events_def distinct_map inj_on_def)
    then have dist: "distinct (map oe_event_id ?evs)" by (simp add: distinct_take flip: take_map)
    have "register_each L t salts ?evs db = Inr (db\<lparr>db_deliveries := db_deliveries db @ ?new\<rparr>)"
      using assms(2) salts dist evs(2) by (intro register_each_rows) auto
    moreover have "moved L (RegisterMissing limit t salts) db (db\<lparr>db_deliveries := db_deliveries db @ ?new\<rparr>)"
    proof (rule registered_moved [where new = ?new, OF assms(1)])
      show "\<forall>d\<in>set ?new. starts_pending d" using assms(2) salts by (auto intro: new_pending)
      show "distinct (map de_event_id ?new)" using dist by (simp add: comp_def)
    qed (use ok evs in auto)
    ultimately show ?thesis by (simp add: outcome_ok_def sql_register_missing_def dropped_def Let_def)
  qed
qed

text \<open>Transitions of the operator write the history first.\<close>

lemma history_snapshot_ids [simp]:
  "he_history_id (history_snapshot n tr cs ce rs t d) = n" "he_control_seq (history_snapshot n tr cs ce rs t d) = cs"
  "he_control_epoch (history_snapshot n tr cs ce rs t d) = ce" "he_event_id (history_snapshot n tr cs ce rs t d) = de_event_id d"
  "he_transition (history_snapshot n tr cs ce rs t d) = transition_name tr" "he_reconcile_seq (history_snapshot n tr cs ce rs t d) = rs"
  by (simp_all add: history_snapshot_def)

lemma transition_name_replay: "transition_name tr = transition_name Replay \<longleftrightarrow> tr = Replay"
  by (cases tr) (simp_all add: lit_def)

lemma write_history_ok:
  assumes "history_ok (db_history db)" and "write_history tr cs ce rs t d db = Inr db'"
  shows "db' = db\<lparr>db_history := db_history db @ [history_snapshot (int (length (db_history db)) + 1) tr cs ce rs t d]\<rparr>
    \<and> history_ok (db_history db')"
proof -
  have db': "db' = db\<lparr>db_history := db_history db @ [history_snapshot (int (length (db_history db)) + 1) tr cs ce rs t d]\<rparr>"
    and new: "cs \<noteq> None \<Longrightarrow> \<not> list_ex (\<lambda>h. he_control_epoch h = ce \<and> he_control_seq h = cs) (db_history db)"
    using assms(2) by (auto simp: write_history_def Let_def split: if_splits)
  have "reference_ok (history_snapshot n tr cs ce rs t d)" for n
    using assms(2) by (auto simp: reference_ok_def transition_name_replay write_history_def Let_def simp del: transition_name.simps split: if_splits)
  then have "history_ok (db_history db')" using assms(1) new unfolding db' by (auto simp: history_ok_def list_ex_iff)
  with db' show ?thesis by blast
qed

lemma write_history_errors:
  assumes "write_history tr cs ce rs t d db = Inl e" and "1 \<le> ce"
    and "if tr = Replay then is_some_and (\<lambda>s. 0 < s) cs \<and> rs = None else cs = None \<and> is_some_and (\<lambda>s. 0 < s) rs"
  shows "e = UniqueViolation"
  using assms by (auto simp: write_history_def Let_def split: if_splits)

lemma operator_outcome:
  assumes "db_ok db" and "transition_of op' = tr" and "d \<in> set (db_deliveries db)" and "1 \<le> ce"
    and "if tr = Replay then is_some_and (\<lambda>s. 0 < s) cs \<and> rs = None else cs = None \<and> is_some_and (\<lambda>s. 0 < s) rs"
    and move: "\<And>n. row_move L (db_policy db) (db_generation db) [history_snapshot n tr cs ce rs t d] op' d (f d)"
  shows "outcome_ok L op' db (and_then (write_history tr cs ce rs t d db) (update_rows tr (\<lambda>x. de_event_id x = de_event_id d) f))"
proof (cases "write_history tr cs ce rs t d db")
  case (Inl e)
  with write_history_errors [OF Inl assms(4,5)] show ?thesis by (simp add: outcome_ok_def)
next
  case (Inr db')
  have ok: "\<forall>x\<in>set (db_deliveries db). delivery_ok x" "policy_ok (db_policy db)" "history_ok (db_history db)"
    using assms(1) by (auto simp: db_ok_def)
  let ?h = "history_snapshot (int (length (db_history db)) + 1) tr cs ce rs t d"
  from write_history_ok [OF ok(3) Inr] have db': "db' = db\<lparr>db_history := db_history db @ [?h]\<rparr>" and hist: "history_ok (db_history db')" by auto
  have ok': "\<forall>x\<in>set (db_deliveries db'). delivery_ok x" using ok(1) by (simp add: db')
  have hit: "row_move L (db_policy db) (db_generation db) [?h] op' x (f x)"
    if "x \<in> set (db_deliveries db')" "de_event_id x = de_event_id d" for x
    using unique_row [OF assms(1) _ assms(3) that(2)] that(1) move by (simp add: db')
  note update = update_moves [where P = "\<lambda>x. de_event_id x = de_event_id d" and f = f, OF ok' ok(2) assms(2) hit]
  let ?new = "db'\<lparr>db_deliveries := map (\<lambda>x. if de_event_id x = de_event_id d then f x else x) (db_deliveries db')\<rparr>"
  have same: "db_deliveries db' = db_deliveries db" by (simp add: db')
  have "moved L op' db ?new"
    by (rule movedI [OF assms(1) _ update(2) [unfolded same]]) (use hist in \<open>simp_all add: db'\<close>)
  moreover have "and_then (write_history tr cs ce rs t d db) (update_rows tr (\<lambda>x. de_event_id x = de_event_id d) f) = Inr ?new"
    unfolding Inr and_then_simps by (rule update(1))
  ultimately show ?thesis unfolding outcome_ok_def by simp
qed

lemma dropped_done: "dropped (and_then r (\<lambda>db'. and_then (g db') (\<lambda>db''. Inr (db'', x)))) = and_then r g"
  by (cases r) (auto simp: dropped_def and_then_def map_sum_def split: sum.splits)

lemma find_delivery_row: "find_delivery i db = Some d \<Longrightarrow> d \<in> set (db_deliveries db) \<and> de_event_id d = i"
  by (auto simp: find_delivery_def find_Some_iff)

lemma quiet_outcome: "db_ok db \<Longrightarrow> outcome_ok L op' db (Inr db)"
  by (auto simp: outcome_ok_def db_ok_def intro: movedI [of _ _ "\<lambda>d. d" _ "[]"] row_move.rest)

lemma replay_outcome:
  assumes "db_ok db"
  shows "outcome_ok L (ReplayRow i cs ce t) db (source_call L (ReplayRow i cs ce t) db)"
proof (cases "cs < 1 \<or> ce < 1")
  case args: False
  show ?thesis
  proof (cases "find_delivery i db")
    case None
    with args show ?thesis using quiet_outcome [OF assms] by (simp add: sql_replay_def dropped_def)
  next
    case (Some d)
    from find_delivery_row [OF this] have d: "d \<in> set (db_deliveries db)" "de_event_id d = i" by auto
    show ?thesis
    proof (cases "de_quarantined_at d = None \<or> live_lease t d")
      case True
      with args Some show ?thesis using quiet_outcome [OF assms] by (simp add: sql_replay_def dropped_def)
    next
      case False
      have "outcome_ok L (ReplayRow i cs ce t) db
          (and_then (write_history Replay (Some cs) ce None t d db) (update_rows Replay (\<lambda>x. de_event_id x = de_event_id d) (replayed_row t)))"
        using args False d by (intro operator_outcome [OF assms] row_move.replay) auto
      with args Some False d show ?thesis by (auto simp: sql_replay_def dropped_done)
    qed
  qed
qed (simp add: outcome_ok_def sql_replay_def dropped_def)

lemma ack_outcome:
  assumes "db_ok db"
  shows "outcome_ok L (AckStoredRow i seq digest commitment outcome cs epoch t) db
    (source_call L (AckStoredRow i seq digest commitment outcome cs epoch t) db)" (is "outcome_ok L ?op db _")
proof (cases "seq < 1 \<or> length digest \<noteq> 32 \<or> length commitment \<noteq> 32
    \<or> outcome \<notin> set (map lit [''duplicate'', ''duplicate_expired'']) \<or> cs < 1 \<or> epoch < 1")
  case args: False
  note call = source_call.simps sql_repair_ack_stored_def if_not_P [OF args]
  show ?thesis
  proof (cases "find_delivery i db")
    case None
    show ?thesis unfolding call None using quiet_outcome [OF assms] by (simp add: dropped_def)
  next
    case (Some d)
    from find_delivery_row [OF this] have d: "d \<in> set (db_deliveries db)" "de_event_id d = i" by auto
    let ?refused = "de_quarantine_code d \<noteq> Some UNKNOWN_AT_LIMIT \<or> de_delivered_at d \<noteq> None \<or> live_lease t d
      \<or> sl_commitment L (de_commitment_salt d) (de_source_digest d) \<noteq> commitment"
    show ?thesis
    proof (cases ?refused)
      case True
      show ?thesis unfolding call Some option.case if_P [OF True] using quiet_outcome [OF assms] by (simp add: dropped_def)
    next
      case False
      have "outcome_ok L ?op db (and_then (write_history RepairAckStored None epoch (Some cs) t d db)
          (update_rows RepairAckStored (\<lambda>x. de_event_id x = de_event_id d) (acked_row seq digest outcome epoch t)))"
      proof (rule operator_outcome [OF assms _ d(1)])
        show "row_move L (db_policy db) (db_generation db) [history_snapshot n RepairAckStored None epoch (Some cs) t d] ?op d
            (acked_row seq digest outcome epoch t d)" for n
          using args False d(2) by (intro row_move.ack) (linarith | rule refl)+
      qed (use args in simp_all)
      then show ?thesis unfolding call Some option.case if_not_P [OF False] dropped_done d(2) .
    qed
  qed
qed (simp add: outcome_ok_def sql_repair_ack_stored_def dropped_def)

lemma reset_outcome:
  assumes "db_ok db"
  shows "outcome_ok L (ResetMissingRow i seq cs ce t) db (source_call L (ResetMissingRow i seq cs ce t) db)"
proof (cases "cs < 1 \<or> ce < 1")
  case args: False
  show ?thesis
  proof (cases "find_delivery i db")
    case None
    with args show ?thesis using quiet_outcome [OF assms] by (simp add: sql_repair_reset_missing_def dropped_def)
  next
    case (Some d)
    from find_delivery_row [OF this] have d: "d \<in> set (db_deliveries db)" "de_event_id d = i" by auto
    show ?thesis
    proof (cases "de_delivered_at d = None \<or> de_store_seq d \<noteq> Some seq \<or> is_some_and (\<lambda>e. ce \<le> e) (de_store_recovery_epoch d)")
      case True
      with args Some show ?thesis using quiet_outcome [OF assms] by (simp add: sql_repair_reset_missing_def dropped_def)
    next
      case False
      have "outcome_ok L (ResetMissingRow i seq cs ce t) db (and_then (write_history RepairResetMissing None ce (Some cs) t d db)
          (update_rows RepairResetMissing (\<lambda>x. de_event_id x = de_event_id d) (reset_row t)))"
        using args False d by (intro operator_outcome [OF assms] row_move.reset) auto
      with args Some False d show ?thesis by (auto simp: sql_repair_reset_missing_def dropped_done)
    qed
  qed
qed (simp add: outcome_ok_def sql_repair_reset_missing_def dropped_def)

lemma policy_outcome:
  assumes "db_ok db"
  shows "outcome_ok L (ChangePolicy p) db (source_call L (ChangePolicy p) db)"
proof -
  have "moved L (ChangePolicy p) db (db\<lparr>db_policy := p\<rparr>)" if "relay_policy_validate p = Inr ()"
    unfolding moved_def
    by (rule exI [of _ "\<lambda>d. d"], rule exI [of _ "[]"], rule exI [of _ "[]"])
      (use assms that in \<open>auto simp: db_ok_def policy_ok_def intro: row_move.rest\<close>)
  then show ?thesis by (simp add: outcome_ok_def)
qed

text \<open>Every call, on a well-formed database.\<close>

lemma call_outcome:
  assumes "db_ok db" and "lib_ok L" and "op_ok op'"
  shows "outcome_ok L op' db (source_call L op' db)"
  using assms(3) registration_outcomes [OF assms(1,2)] claim_outcome [OF assms(1)] fenced_outcomes [OF assms(1)]
    failure_outcome [OF assms(1)] reap_outcome [OF assms(1)] replay_outcome [OF assms(1)] ack_outcome [OF assms(1)]
    reset_outcome [OF assms(1)] policy_outcome [OF assms(1)]
  by (cases op') (simp_all del: source_call.simps)

lemma moved_ok:
  assumes "db_ok db" and "moved L op' db db'"
  shows "db_ok db'"
proof -
  from assms(2) obtain f new hs where rows: "db_deliveries db' = map f (db_deliveries db) @ new"
    and moves: "\<forall>d\<in>set (db_deliveries db). row_move L (db_policy db) (db_generation db) hs op' d (f d)"
    and new: "\<forall>d\<in>set new. starts_pending d"
    and rest: "history_ok (db_history db')" "distinct (map de_event_id (db_deliveries db'))" "distinct (map oe_event_id (db_events db'))"
      "set (map de_event_id (db_deliveries db')) \<subseteq> set (map oe_event_id (db_events db'))" "policy_ok (db_policy db')"
    unfolding moved_def by blast
  have "delivery_ok (f d)" if "d \<in> set (db_deliveries db)" for d
    using row_move_ok moves that assms(1) unfolding db_ok_def by blast
  with new have "\<forall>d\<in>set (db_deliveries db'). delivery_ok d" by (auto simp: rows starts_pending_def)
  with rest show ?thesis by (simp add: db_ok_def)
qed

end
