(* ===== verification/Relay_Evidence.thy ===== *)
theory Relay_Evidence
  imports Relay_Table
begin

text \<open>
  What the delivery table promises over every sequence of calls: its invariant, that the updates
  of the functions pass the guard and the checks, that receipts and quarantines are kept in the row or in
  the history, that a lease excludes everybody but its holder and that failed claims come back
  within the backoff of the policy.
\<close>

subsection \<open>Sequences of calls\<close>

inductive source_steps :: "'c source_lib \<Rightarrow> 'c source_db \<Rightarrow> 'c source_op list \<Rightarrow> 'c source_db \<Rightarrow> bool" for L db where
  start: "source_steps L db [] db"
| call: "source_steps L db ops db' \<Longrightarrow> op_ok op' \<Longrightarrow> source_call L op' db' = Inr db'' \<Longrightarrow> source_steps L db (ops @ [op']) db''"
| refused: "source_steps L db ops db' \<Longrightarrow> op_ok op' \<Longrightarrow> source_call L op' db' = Inl e \<Longrightarrow> source_steps L db (ops @ [op']) db'"

lemma call_moved:
  assumes "db_ok db" and "lib_ok L" and "op_ok op'" and "source_call L op' db = Inr db'"
  shows "moved L op' db db'"
  using call_outcome [OF assms(1-3)] assms(4) by (simp add: outcome_ok_def)

lemma steps_ok:
  assumes "source_steps L db ops db'" and "lib_ok L" and "db_ok db"
  shows "db_ok db'"
  using assms by (induction rule: source_steps.induct) (blast intro: moved_ok call_moved)+

lemma migrated_ok:
  assumes "lib_ok L" and "distinct (map oe_event_id evs)" and "\<forall>i. length (salts i) = 32"
  shows "db_ok (migrated L evs t salts)"
proof -
  have "delivery_ok (new_delivery L ev (lit ''backfill'') t (salts (oe_event_id ev)))" for ev
    using new_pending [OF assms(1), of "salts (oe_event_id ev)" "lit ''backfill''"] assms(3) by (simp add: starts_pending_def)
  moreover have "policy_ok default_relay_policy" by (simp add: policy_ok_def relay_policy_validate_def default_relay_policy_def)
  ultimately show ?thesis using assms(2) by (auto simp: db_ok_def migrated_def history_ok_def comp_def)
qed

text \<open>
  (C26) The delivery table is sound. Whatever calls follow the migration, every row satisfies the constraints,
  its attempts stay within the limit its first claim fixed, a lease stands only on a row that is not terminal,
  every row belongs to one staged event, the history is numbered without gaps and no control event is used
  twice. And the updates the functions make always pass the guard trigger and the checks: a call other
  than a change of the policy fails only for its arguments or for an identifier that is already there, a
  staged event or a control event. (A change of the policy may be refused for its revision or its values.)
\<close>

theorem delivery_table_sound:
  assumes "lib_ok L" and "distinct (map oe_event_id evs)" and "\<forall>i. length (salts i) = 32"
    and "source_steps L (migrated L evs t salts) ops db"
  shows "db_ok db \<and> (\<forall>op' e. op_ok op' \<longrightarrow> source_call L op' db = Inl e \<longrightarrow>
    e = InvalidArguments \<or> e = UniqueViolation \<or> (\<exists>p. op' = ChangePolicy p))"
proof -
  have ok: "db_ok db" using steps_ok [OF assms(4,1) migrated_ok [OF assms(1-3)]] .
  then show ?thesis using call_outcome [OF ok assms(1)] by (force simp: outcome_ok_def)
qed

subsection \<open>Terminal evidence\<close>

definition receipt_kept_in :: "DeliveryHistory list \<Rightarrow> Delivery \<Rightarrow> bool" where
  "receipt_kept_in hs d \<longleftrightarrow> (\<exists>h\<in>set hs. he_event_id h = de_event_id d \<and> he_transition h = transition_name RepairResetMissing
     \<and> (he_delivered_at h, he_store_seq h, he_store_envelope_digest h, he_store_outcome h, he_store_recovery_epoch h) = receipt_of d
     \<and> is_some_and (\<lambda>e. e < he_control_epoch h) (he_store_recovery_epoch h))"

definition quarantine_kept_in :: "DeliveryHistory list \<Rightarrow> Delivery \<Rightarrow> bool" where
  "quarantine_kept_in hs d \<longleftrightarrow> (\<exists>h\<in>set hs. he_event_id h = de_event_id d
     \<and> (he_quarantined_at h, he_quarantine_code h) = quarantine_of d
     \<and> (he_transition h = transition_name Replay
        \<or> he_transition h = transition_name RepairAckStored \<and> he_quarantine_code h = Some UNKNOWN_AT_LIMIT))"

lemma kept_in_mono:
  "receipt_kept_in hs d \<Longrightarrow> set hs \<subseteq> set hs' \<Longrightarrow> receipt_kept_in hs' d"
  "quarantine_kept_in hs d \<Longrightarrow> set hs \<subseteq> set hs' \<Longrightarrow> quarantine_kept_in hs' d"
  unfolding receipt_kept_in_def quarantine_kept_in_def by blast+

lemma kept_in_same:
  "receipt_of d' = receipt_of d \<Longrightarrow> de_event_id d' = de_event_id d \<Longrightarrow> receipt_kept_in hs d' = receipt_kept_in hs d"
  "quarantine_of d' = quarantine_of d \<Longrightarrow> de_event_id d' = de_event_id d \<Longrightarrow> quarantine_kept_in hs d' = quarantine_kept_in hs d"
  by (simp_all add: receipt_kept_in_def quarantine_kept_in_def)

lemma move_keeps_receipt:
  assumes "row_move L p g hs op' d d'" and "delivery_ok d" and "de_delivered_at d \<noteq> None"
  shows "receipt_of d' = receipt_of d \<or> receipt_kept_in hs d"
  using assms(1)
proof cases
  case (reset i seq control_epoch n control_seq t)
  have "de_store_recovery_epoch d \<noteq> None"
    using assms(2,3) by (simp add: delivery_ok_def delivery_checks_def receipt_columns_ok_def)
  with reset show ?thesis by (auto simp: receipt_kept_in_def history_snapshot_def receipt_of_def)
qed (use assms(3) terminal_once [OF assms(2)] in
    \<open>simp_all add: held_by_def claimable_def exhausted_def receipt_of_def replayed_row_def released_def\<close>)

lemma move_keeps_quarantine:
  assumes "row_move L p g hs op' d d'" and "delivery_ok d" and "de_quarantined_at d \<noteq> None"
  shows "quarantine_of d' = quarantine_of d \<or> quarantine_kept_in hs d"
  using assms(1)
  by cases (use assms(3) terminal_once [OF assms(2)] in
    \<open>auto simp: held_by_def claimable_def exhausted_def quarantine_of_def quarantine_kept_in_def history_snapshot_def reset_row_def\<close>)

lemma move_keeps_registration:
  assumes "row_move L p g hs op' d d'" and "delivery_ok d"
  shows "registration_of d' = registration_of d"
  using row_move_guarded [OF assms] by (simp add: guard_update_def)

lemma moved_row:
  assumes "moved L op' db db'" and "d \<in> set (db_deliveries db)"
  obtains d' hs where "d' \<in> set (db_deliveries db')" "row_move L (db_policy db) (db_generation db) hs op' d d'"
    "db_history db' = db_history db @ hs"
proof -
  from assms(1) obtain f new hs where "db_deliveries db' = map f (db_deliveries db) @ new"
    "\<forall>d\<in>set (db_deliveries db). row_move L (db_policy db) (db_generation db) hs op' d (f d)" "db_history db' = db_history db @ hs"
    unfolding moved_def by blast
  with assms(2) that [of "f d" hs] show ?thesis by simp
qed

definition evidence_kept :: "DeliveryHistory list \<Rightarrow> Delivery \<Rightarrow> Delivery \<Rightarrow> bool" where
  "evidence_kept hs d d' \<longleftrightarrow> registration_of d' = registration_of d
     \<and> (de_delivered_at d \<noteq> None \<longrightarrow> receipt_of d' = receipt_of d \<or> receipt_kept_in hs d)
     \<and> (de_quarantined_at d \<noteq> None \<longrightarrow> quarantine_of d' = quarantine_of d \<or> quarantine_kept_in hs d)"

lemma evidence_kept_trans:
  assumes "evidence_kept hs d d'" and "row_move L p g hs' op' d' d''" and "delivery_ok d'"
  shows "evidence_kept (hs @ hs') d d''"
proof -
  have "de_event_id d' = de_event_id d" using assms(1) by (simp add: evidence_kept_def registration_of_def)
  note same = kept_in_same [OF _ this]
  have "receipt_of d'' = receipt_of d \<or> receipt_kept_in (hs @ hs') d" if "de_delivered_at d \<noteq> None"
  proof (cases "receipt_kept_in hs d")
    case False
    with assms(1) that have "receipt_of d' = receipt_of d" by (simp add: evidence_kept_def)
    moreover from this have "de_delivered_at d' \<noteq> None" using that by (simp add: receipt_of_def)
    ultimately show ?thesis using move_keeps_receipt [OF assms(2,3)] same(1) kept_in_mono(1) [of hs' d "hs @ hs'"] by auto
  qed (use kept_in_mono(1) [of hs d "hs @ hs'"] in auto)
  moreover have "quarantine_of d'' = quarantine_of d \<or> quarantine_kept_in (hs @ hs') d" if "de_quarantined_at d \<noteq> None"
  proof (cases "quarantine_kept_in hs d")
    case False
    with assms(1) that have "quarantine_of d' = quarantine_of d" by (simp add: evidence_kept_def)
    moreover from this have "de_quarantined_at d' \<noteq> None" using that by (simp add: quarantine_of_def)
    ultimately show ?thesis using move_keeps_quarantine [OF assms(2,3)] same(2) kept_in_mono(2) [of hs' d "hs @ hs'"] by auto
  qed (use kept_in_mono(2) [of hs d "hs @ hs'"] in auto)
  ultimately show ?thesis
    using move_keeps_registration [OF assms(2,3)] assms(1) by (simp add: evidence_kept_def)
qed

text \<open>
  (C27) Terminal evidence is never lost. After whatever calls, every delivery row is still there with its
  registration unchanged. If it was delivered, it still carries the same receipt, or the history that was
  written since keeps exactly this receipt, for a reset that named a later recovery epoch of the store; if
  it was quarantined, it still carries the same quarantine, or the history keeps it, for a replay, or for an
  acknowledgement of an outcome unknown at the attempt limit. The history itself only grows.
\<close>

theorem terminal_evidence_kept:
  assumes "source_steps L db ops db'" and "lib_ok L" and "db_ok db" and "d \<in> set (db_deliveries db)"
  shows "\<exists>hs d'. db_history db' = db_history db @ hs \<and> d' \<in> set (db_deliveries db') \<and> evidence_kept hs d d'"
  using assms
proof (induction rule: source_steps.induct)
  case start
  then show ?case by (intro exI [of _ "[]"] exI [of _ d]) (simp add: evidence_kept_def)
next
  case (call ops db' op' db'')
  then obtain hs d' where IH: "db_history db' = db_history db @ hs" "d' \<in> set (db_deliveries db')" "evidence_kept hs d d'" by blast
  have ok: "db_ok db'" using steps_ok [OF call.hyps(1)] call.prems by simp
  from moved_row [OF call_moved [OF ok call.prems(1) call.hyps(2,3)] IH(2)] obtain d'' hs'
    where "d'' \<in> set (db_deliveries db'')" "row_move L (db_policy db') (db_generation db') hs' op' d' d''" "db_history db'' = db_history db' @ hs'" .
  moreover have "delivery_ok d'" using ok IH(2) by (simp add: db_ok_def)
  ultimately show ?case using IH evidence_kept_trans by (metis append_assoc)
qed

subsection \<open>Leases\<close>

text \<open>A call that does not come from the holder of a lease, made before the lease ends.\<close>

fun foreign :: "uuid \<Rightarrow> uuid \<Rightarrow> int \<Rightarrow> 'c source_op \<Rightarrow> bool" where
  "foreign i token e (ClaimRows owner limit lease_ms t fresh locked) \<longleftrightarrow> t < e"
| "foreign i token e (ReapExhausted limit t locked) \<longleftrightarrow> t < e"
| "foreign i token e (RenewLease j token' lease_ms t) \<longleftrightarrow> (j, token') \<noteq> (i, token)"
| "foreign i token e (SettleSuccess j token' seq digest outcome epoch t) \<longleftrightarrow> (j, token') \<noteq> (i, token)"
| "foreign i token e (SettleFailure j token' code terminal backoff_ms outage countable held t) \<longleftrightarrow> (j, token') \<noteq> (i, token)"
| "foreign i token e (NoteMismatch j token' code seq epoch t) \<longleftrightarrow> (j, token') \<noteq> (i, token)"
| "foreign i token e _ \<longleftrightarrow> True"

lemma foreign_move:
  assumes "row_move L p g hs op' d d'" and "delivery_ok d" and "foreign i token e op'"
    and "de_event_id d = i" "de_lease_token d = Some token" "de_lease_expires_at d = Some e"
  shows "d' = d"
proof -
  have "de_delivered_at d = None" "de_quarantined_at d = None" "de_quarantine_code d = None"
    using assms(2,5) by (auto simp: delivery_ok_def delivery_checks_def terminal_columns_ok_def)
  with assms(1) show ?thesis
    by cases (use assms(3-6) in \<open>auto simp: claimable_def held_by_def exhausted_def\<close>)
qed

lemma stale_settlement:
  assumes "d \<in> set (db_deliveries db)" "db_ok db" and "de_event_id d = i" and "de_lease_token d \<noteq> Some token"
  shows "source_call L (SettleSuccess i token seq digest outcome epoch t) db \<in> {Inr db, Inl InvalidArguments}"
    and "source_call L (SettleFailure i token code terminal backoff_ms outage countable held t) db \<in> {Inr db, Inl InvalidArguments}"
proof -
  have none: "\<not> held_by i token t x" if "x \<in> set (db_deliveries db)" for x
    using unique_row [OF assms(2) that assms(1)] assms(3,4) by (auto simp: held_by_def)
  then have "filter (held_by i token t) (db_deliveries db) = []" "\<not> list_ex (held_by i token t) (db_deliveries db)"
    "map (\<lambda>x. if held_by i token t x then f x else x) (db_deliveries db) = db_deliveries db" for f
    by (auto simp: filter_empty_conv list_ex_iff intro: map_idI)
  then have "update_rows NoTransition (held_by i token t) f db = Inr db" for f by (simp add: update_rows_def)
  with \<open>\<not> list_ex (held_by i token t) (db_deliveries db)\<close>
  show "source_call L (SettleSuccess i token seq digest outcome epoch t) db \<in> {Inr db, Inl InvalidArguments}"
    by (simp add: sql_settle_success_def dropped_def)
  have "find (\<lambda>x. held_by i token t x \<and> de_attempt_limit x \<noteq> None) (db_deliveries db) = None"
    using none by (auto simp: find_None_iff)
  then show "source_call L (SettleFailure i token code terminal backoff_ms outage countable held t) db \<in> {Inr db, Inl InvalidArguments}"
    by (simp add: sql_settle_failure_def dropped_def Let_def)
qed

text \<open>
  (C28) A lease excludes everybody but its holder. While a row is leased, and whatever calls others make before
  the lease ends - claims, reaps, renewals and settlements under other tokens, replays, repairs, registrations
  and policy changes - the row stays exactly as it is. And a settlement under a token that is not the token
  of the row changes nothing in the database, at any time.
\<close>

theorem lease_is_exclusive:
  assumes "lib_ok L" and "db_ok db" and "d \<in> set (db_deliveries db)"
    and "de_event_id d = i" "de_lease_token d = Some token" "de_lease_expires_at d = Some e"
    and "source_steps L db ops db'" and "\<forall>op'\<in>set ops. foreign i token e op'"
  shows "d \<in> set (db_deliveries db')
    \<and> (\<forall>token' seq digest outcome epoch t. token' \<noteq> token \<longrightarrow>
        source_call L (SettleSuccess i token' seq digest outcome epoch t) db' \<in> {Inr db', Inl InvalidArguments})
    \<and> (\<forall>token' code terminal backoff_ms outage countable held t. token' \<noteq> token \<longrightarrow>
        source_call L (SettleFailure i token' code terminal backoff_ms outage countable held t) db' \<in> {Inr db', Inl InvalidArguments})"
proof -
  have "d \<in> set (db_deliveries db')" using assms(7,8)
  proof (induction rule: source_steps.induct)
    case (call ops db' op' db'')
    then have d: "d \<in> set (db_deliveries db')" and op': "foreign i token e op'" by auto
    have ok: "db_ok db'" using steps_ok [OF call.hyps(1) assms(1,2)] .
    from moved_row [OF call_moved [OF ok assms(1) call.hyps(2,3)] d] obtain d' hs
      where "d' \<in> set (db_deliveries db'')" "row_move L (db_policy db') (db_generation db') hs op' d d'" .
    with foreign_move [OF _ _ op' assms(4-6)] ok d show ?case unfolding db_ok_def by blast
  qed (use assms(3) in auto)
  moreover have "db_ok db'" using steps_ok [OF assms(7,1,2)] .
  ultimately show ?thesis using stale_settlement [of d db' i] assms(4,5) by simp
qed

subsection \<open>The order of claims\<close>

text \<open>Rows the relay holds yield to the others.\<close>

lemma sorted_take_before:
  assumes "sorted (map f xs)" and "x \<in> set (take n xs)" and "y \<in> set (drop n xs)"
  shows "f x \<le> f y"
proof -
  have "sorted (map f (take n xs) @ map f (drop n xs))" using assms(1) by (simp flip: map_append)
  with assms(2,3) show ?thesis by (auto simp: sorted_append)
qed

theorem held_rows_yield:
  assumes "h \<in> set (picked limit t locked db)" and "0 < de_relay_hold_count h"
    and "d \<in> set (db_deliveries db)" "claimable (db_policy db) t d" "\<not> locked (de_event_id d)" and "de_relay_hold_count d = 0"
  shows "d \<in> set (picked limit t locked db)"
proof (rule ccontr)
  let ?xs = "sort_key claim_order (filter (\<lambda>d. claimable (db_policy db) t d \<and> \<not> locked (de_event_id d)) (db_deliveries db))"
  assume "d \<notin> set (picked limit t locked db)"
  moreover have "d \<in> set (take (nat limit) ?xs @ drop (nat limit) ?xs)" using assms(3-5) by simp
  ultimately have "d \<in> set (drop (nat limit) ?xs)" unfolding picked_def set_append by blast
  with assms(1) have "claim_order h \<le> claim_order d"
    unfolding picked_def by (intro sorted_take_before [of claim_order ?xs]) simp_all
  with assms(2,6) show False by (simp add: claim_order_def less_eq_prod_def)
qed

subsection \<open>Failures\<close>

lemma row_backoff_bounds:
  assumes "policy_ok p" and "0 \<le> n"
  shows "ry_backoff_min_ms p \<le> row_backoff p n \<and> row_backoff p n \<le> ry_backoff_max_ms p"
proof -
  have "1000 \<le> ry_backoff_min_ms p" "ry_backoff_min_ms p \<le> ry_backoff_max_ms p"
    using assms(1) by (auto simp: policy_ok_def relay_policy_validate_def split: if_splits)
  moreover have "ry_backoff_min_ms p * 1 \<le> ry_backoff_min_ms p * 2 ^ nat (min n 16)"
    using \<open>1000 \<le> ry_backoff_min_ms p\<close> by (intro mult_left_mono) simp_all
  ultimately show ?thesis by (simp add: row_backoff_def)
qed

text \<open>
  (C30) A failed claim comes back in time. When a failure is settled under the row's token, the lease is released and
  the row is quarantined, or it becomes available again after at least the minimal and at most the maximal
  backoff of the policy; an outage or a hold returns the attempt it took, any other failure keeps it; and
  only a terminal verdict, a used up attempt limit or the outage streak limit quarantines.
\<close>

theorem failure_returns_in_time:
  assumes "db_ok db" and "d \<in> set (db_deliveries db)" and "held_by i token t d"
    and "source_call L (SettleFailure i token code terminal backoff_ms outage countable held t) db = Inr db'"
  shows "\<exists>d'\<in>set (db_deliveries db'). de_event_id d' = i \<and> de_lease_token d' = None
    \<and> de_attempt_count d' = (if outage then de_attempt_count d - 1 else de_attempt_count d)
    \<and> (if de_quarantined_at d' = None
        then t + interval_ms (ry_backoff_min_ms (db_policy db)) \<le> de_available_at d'
          \<and> de_available_at d' \<le> t + interval_ms (ry_backoff_max_ms (db_policy db))
        else terminal \<or> \<not> outage \<and> is_some_and (\<lambda>n. n \<le> de_attempt_count d) (de_attempt_limit d)
          \<or> outage \<and> \<not> held \<and> ry_outage_streak_limit (db_policy db) \<le> de_outage_streak d')"
proof -
  have ok: "delivery_ok d" "policy_ok (db_policy db)" using assms(1,2) by (auto simp: db_ok_def)
  from held_by_open [OF assms(3)] have lease: "de_lease_token d = Some token" "de_event_id d = i" "de_quarantined_at d = None" by auto
  have limit: "de_attempt_limit d \<noteq> None" and count: "1 \<le> de_attempt_count d"
    using ok(1) lease(1) by (auto simp: delivery_ok_def split: option.splits)
  have nonneg: "0 \<le> de_relay_hold_count d" "0 \<le> de_outage_streak d"
    using ok(1) by (auto simp: delivery_ok_def delivery_checks_def counters_ok_def)
  let ?f = "failed_row (db_policy db) (db_generation db) code terminal backoff_ms outage countable held t"
  have args: "ry_backoff_min_ms (db_policy db) \<le> backoff_ms" "backoff_ms \<le> ry_backoff_max_ms (db_policy db)"
    "\<not> (terminal \<and> outage)" "\<not> (held \<and> (\<not> outage \<or> countable))"
    using assms(4) by (auto simp: sql_settle_failure_def dropped_def Let_def split: if_splits)
  obtain x where x: "find (\<lambda>x. held_by i token t x \<and> de_attempt_limit x \<noteq> None) (db_deliveries db) = Some x"
    using assms(2,3) limit by (cases "find (\<lambda>x. held_by i token t x \<and> de_attempt_limit x \<noteq> None) (db_deliveries db)")
      (auto simp: find_None_iff)
  then have "de_event_id x = i" by (auto simp: find_Some_iff held_by_def)
  with assms(4) x have "db_deliveries db' = map (\<lambda>x. if de_event_id x = i then ?f x else x) (db_deliveries db)"
    by (auto simp: sql_settle_failure_def dropped_def Let_def update_rows_def split: if_splits)
  with assms(2) lease(2) have "?f d \<in> set (db_deliveries db')" by force
  moreover have "de_event_id (?f d) = i \<and> de_lease_token (?f d) = None
      \<and> de_attempt_count (?f d) = (if outage then de_attempt_count d - 1 else de_attempt_count d)"
    using lease count args(4) by (auto simp: failed_row_def row_fields Let_def)
  moreover note row_backoff_bounds [OF ok(2) nonneg(1)] row_backoff_bounds [OF ok(2) nonneg(2)]
    row_backoff_bounds [OF ok(2), of "de_outage_streak d + 1"]
  ultimately show ?thesis using args lease(3) nonneg
    by (intro bexI [of _ "?f d"]) (auto simp: failed_row_def row_fields Let_def interval_ms_def)
qed

end
