(* ===== verification/Relay_Settlement.thy ===== *)
theory Relay_Settlement
  imports Relay_Delivery Relay_Evidence
begin

text \<open>
  The relay meets its database. The settlement calls the Rust side makes satisfy the argument
  checks of the SQL functions, so that every settlement is carried out or finds its lease lost.
\<close>

definition exec_call :: "settle_call \<Rightarrow> int \<Rightarrow> 'c source_db \<Rightarrow> sql_error + 'c source_db \<times> bool" where
  "exec_call c t db = (case c of
     CallSuccess i token seq digest outcome epoch \<Rightarrow> sql_settle_success i token seq digest outcome epoch t db
   | CallFailure i token code terminal backoff_ms outage countable held \<Rightarrow>
       sql_settle_failure i token code terminal backoff_ms outage countable held t db)"

subsection \<open>Codes\<close>

definition code_char :: "uchar \<Rightarrow> bool" where
  "code_char c \<longleftrightarrow> ascii_lower c \<or> ascii_digit c \<or> c = 95"

lemma sql_is_code_alt: "sql_is_code s \<longleftrightarrow> s \<noteq> [] \<and> length s \<le> 64 \<and> list_all code_char s"
  by (cases s) (auto simp: sql_is_code_def code_char_def list_all_iff)

lemmas code_defs = sql_is_code_alt code_char_def lit_def ascii_lower_def ascii_digit_def

lemma code_tables:
  "sql_is_code (lit (outage_as_str c))" "sql_is_code (lit (rejection_as_str r))" "sql_is_code (error_code_as_str e)"
  subgoal by (cases c; simp add: code_defs)
  subgoal by (cases r; simp add: code_defs)
  subgoal by (cases e; simp add: code_defs)
  done

lemma fixed_codes:
  "sql_is_code CATALOG_SKEW" "sql_is_code PROJECTION_INVALID" "sql_is_code SOURCE_UNAVAILABLE" "sql_is_code OUTCOME_UNKNOWN"
  "sql_is_code STORE_CONFLICT" "sql_is_code (STORE_REJECTED_PREFIX @ lit ''unclassified'')"
  by (simp_all add: code_defs CATALOG_SKEW_def PROJECTION_INVALID_def SOURCE_UNAVAILABLE_def OUTCOME_UNKNOWN_def
      STORE_CONFLICT_def STORE_REJECTED_PREFIX_def)

lemma literal_codes: "sql_is_code (lit ''store_timeout'')" "sql_is_code (lit ''invalid_envelope'')"
  using code_tables(1) [of Timeout] code_tables(2) [of RejectionCode.InvalidEnvelope] by simp_all

lemma utf8_code_char:
  assumes "list_all code_char (utf8_char c)"
  shows "code_char c"
proof (cases "c < 128")
  case True
  with assms show ?thesis by (simp add: utf8_char_def)
next
  case False
  then have "0 \<le> c div 64" "0 \<le> c div 4096" "0 \<le> c div 262144" by simp_all
  moreover have "code_char (hd (utf8_char c))" using assms by (simp add: utf8_char_def split: if_splits)
  then have "hd (utf8_char c) \<le> 122" by (auto simp: code_char_def ascii_lower_def ascii_digit_def)
  ultimately show ?thesis using False by (simp add: utf8_char_def split: if_splits)
qed

lemma is_code_chars: "is_code s \<Longrightarrow> list_all code_char s"
proof -
  assume "is_code s"
  then have "list_all code_char (concat (map utf8_char s))" by (simp add: is_code_def as_bytes_def list_all_iff code_char_def)
  then show ?thesis by (auto simp: list_all_iff intro: utf8_code_char)
qed

lemma verdict_codes:
  assumes "e = Conflict \<or> (\<exists>c. e = Rejected c \<and> is_code c)"
  shows "sql_is_code (verdict_code e)"
proof -
  have prefix: "list_all code_char STORE_REJECTED_PREFIX" "STORE_REJECTED_PREFIX \<noteq> []"
    by (simp_all add: STORE_REJECTED_PREFIX_def code_defs)
  have "sql_is_code (take 64 (STORE_REJECTED_PREFIX @ c))" if "is_code c" for c
  proof -
    have "list_all code_char (STORE_REJECTED_PREFIX @ c)" using is_code_chars [OF that] prefix(1) by simp
    then have "list_all code_char (take 64 (STORE_REJECTED_PREFIX @ c))" unfolding list_all_iff by (meson in_set_takeD)
    with prefix(2) show ?thesis by (simp add: sql_is_code_alt)
  qed
  with assms fixed_codes show ?thesis by (auto simp: verdict_code_def)
qed

subsection \<open>Notes\<close>

definition note_good :: "Note \<Rightarrow> bool" where
  "note_good n \<longleftrightarrow> (case n of
     ReceiptNote r epoch \<Rightarrow> 1 \<le> ir_seq r \<and> length (ir_envelope_digest r) = 32 \<and> 1 \<le> epoch
   | Failure n \<Rightarrow> sql_is_code (fn_code n) \<and> \<not> (fn_relay_hold n \<and> (\<not> fn_outage n \<or> fn_streak_countable n)))"

text \<open>The store answers with decoded rows or with outages.\<close>

definition store_decodes :: "claim_env \<Rightarrow> bool" where
  "store_decodes env \<longleftrightarrow> (\<forall>audit r. ce_ingest env audit = Some r \<longrightarrow> (\<exists>row. r = into_result row) \<or> (\<exists>c. r = Inl (Outage c)))"

lemma decoded_receipt:
  assumes "into_result row = Inr r"
  shows "1 \<le> ir_seq r \<and> length (ir_envelope_digest r) = 32"
  using assms
  by (auto simp: into_result_def decode_receipt_def digest32_def ok_or_def Let_def split: option.splits if_splits)

lemma decoded_terminal:
  assumes "into_result row = Inl e" and "is_terminal e"
  shows "e = Conflict \<or> (\<exists>c. e = Rejected c \<and> is_code c)"
  using assms
  by (auto simp: into_result_def is_terminal_def BoundedCode_new_def ok_or_def Let_def bind_eq_Some_conv
      split: option.splits if_splits StoreError.splits)

lemma hold_good:
  assumes "sql_is_code code"
  shows "list_all note_good (noted_in (fst (relay_hold code)))" "list_all note_good (noted_in (fst (hold code countable)))"
    "list_all note_good (noted_in (fst (quarantine code ec)))"
  using assms by (simp_all add: relay_hold_def hold_def quarantine_def note_good_def FailureNote_relay_hold_def FailureNote_outage_def
      FailureNote_verdict_def)

lemma after_notes: "noted_in (fst (after [OnBreaker b] r)) = noted_in (fst r)"
  by (simp add: after_def)

lemma answered_good:
  assumes "1 \<le> bp_epoch permit" and "\<And>r. answer = Some r \<Longrightarrow> (\<exists>row. r = into_result row) \<or> (\<exists>c. r = Inl (Outage c))"
  shows "list_all note_good (noted_in (fst (deliver_answered env permit answer)))"
proof (cases answer)
  case None
  then show ?thesis by (simp add: deliver_answered_def after_notes hold_good literal_codes)
next
  case (Some r)
  show ?thesis
  proof (cases r)
    case (Inr receipt)
    with Some assms(2) [of r] have "\<exists>row. into_result row = Inr receipt" by auto
    then show ?thesis using Some Inr assms(1) decoded_receipt by (auto simp: deliver_answered_def note_good_def Let_def)
  next
    case (Inl e)
    have held: "sql_is_code (held_code e)" by (simp add: held_code_def fixed_codes code_tables split: option.split)
    have "sql_is_code (verdict_code e)" if "is_terminal e"
    proof (rule verdict_codes)
      from Some assms(2) [of r] Inl consider row where "into_result row = Inl e" | c where "e = Outage c" by (metis sum.inject(1))
      then show "e = Conflict \<or> (\<exists>c. e = Rejected c \<and> is_code c)"
        using decoded_terminal that by cases (auto simp: is_terminal_def)
    qed
    with held show ?thesis using Some Inl by (auto simp: deliver_answered_def after_notes intro: hold_good)
  qed
qed

lemma mismatch_good: "list_all note_good (noted_in (fst (source_mismatch config env i m)))"
  by (auto simp: source_mismatch_def Let_def after_notes intro!: hold_good fixed_codes code_tables split: option.splits sum.splits)

lemma delivered_notes_good:
  assumes "1 \<le> bp_epoch permit" and "store_decodes env"
  shows "list_all note_good (noted_in (fst (deliver_claim config projector env i permit)))"
proof -
  have "list_all note_good (noted_in (fst (deliver_answered env permit (ce_ingest env audit))))" for audit
    using answered_good [OF assms(1), of "ce_ingest env audit"] assms(2) by (auto simp: store_decodes_def)
  then show ?thesis
    by (auto simp: deliver_claim_def deliver_rejected_def intro!: hold_good fixed_codes code_tables literal_codes mismatch_good split: option.splits sum.splits)
qed

subsection \<open>Calls\<close>

lemma exec_success:
  assumes "db_ok db" and "1 \<le> seq" "length digest = 32" "outcome \<in> set STORE_OUTCOMES" "1 \<le> epoch"
  shows "\<exists>db' b. sql_settle_success i token seq digest outcome epoch t db = Inr (db', b)"
proof -
  have "outcome_ok undefined (SettleSuccess i token seq digest outcome epoch t) db
      (source_call undefined (SettleSuccess i token seq digest outcome epoch t) db)" by (rule fenced_outcomes(2) [OF assms(1)])
  then show ?thesis using assms(2-5)
    by (auto simp: outcome_ok_def sql_settle_success_def dropped_def update_rows_def and_then_def Let_def split: sum.splits if_splits)
qed

lemma exec_failure:
  assumes "db_ok db" and "sql_is_code code" "ry_backoff_min_ms (db_policy db) \<le> backoff_ms" "backoff_ms \<le> ry_backoff_max_ms (db_policy db)"
    and "\<not> (terminal \<and> outage)" "\<not> (held \<and> (\<not> outage \<or> countable))"
  shows "\<exists>db' b. sql_settle_failure i token code terminal backoff_ms outage countable held t db = Inr (db', b)"
proof -
  have "outcome_ok undefined (SettleFailure i token code terminal backoff_ms outage countable held t) db
      (source_call undefined (SettleFailure i token code terminal backoff_ms outage countable held t) db)"
    by (rule failure_outcome [OF assms(1)])
  then show ?thesis using assms(2-6)
    by (auto simp: outcome_ok_def sql_settle_failure_def dropped_def update_rows_def and_then_def Let_def
        split: sum.splits if_splits option.splits)
qed

lemma outcomes_listed: "lit (outcome_as_str x) \<in> set STORE_OUTCOMES"
  by (cases x) (simp_all add: STORE_OUTCOMES_def)

text \<open>
  (C31) The database accepts what the relay settles. Deliver a claim under a permit with a store whose answers
  are decoded rows, let other claims use the ledger meanwhile, and settle the decision under the policy the
  relay verified against its database: the call that results passes every argument check of the SQL function,
  the guard and the constraints, and is carried out or finds the lease lost. No delivery ends in a
  settlement that the database rejects.
\<close>

theorem relay_calls_accepted:
  assumes "note_ledger_ok g" and "deliver_claim config projector env i permit = (effs, decision)"
    and "\<forall>(k, _)\<in>set calls. k \<noteq> (i, token)"
    and "settle_decision sha (db_policy db) (fold ledger_call calls (note_effects i token effs g)) i token attempt decision = (g', Inr call)"
    and "1 \<le> bp_epoch permit" and "store_decodes env" and "db_ok db"
  shows "\<exists>db' updated. exec_call call t db = Inr (db', updated)"
proof -
  let ?g = "fold ledger_call calls (note_effects i token effs g)"
  let ?delay = "retry_delay_within sha i attempt (relay_backoff_bounds (db_policy db))"
  from deliver_claim_ends [of config projector env i permit] assms(2) obtain n where n: "noted_in effs = [n]"
    by (auto simp: delivery_ends_def)
  have good: "note_good n" using delivered_notes_good [OF assms(5,6), of config projector i] by (simp add: assms(2) n)
  have read: "snd (ledger_take ?g i token) \<in> {None, Some n}" by (rule settled_note [OF assms(1) n assms(3)])
  show ?thesis
  proof (cases "decision = Applied \<or> decision = KnownNoop")
    case True
    with assms(4) have "settle_success ?g i token = (g', Inr call)" by (auto simp: settle_decision_def Let_def)
    then obtain receipt epoch where "snd (ledger_take ?g i token) = Some (ReceiptNote receipt epoch)"
      and call: "call = CallSuccess i token (ir_seq receipt) (ir_envelope_digest receipt) (lit (outcome_as_str (ir_outcome receipt))) epoch"
      by (rule settle_success_call)
    with read good have "1 \<le> ir_seq receipt" "length (ir_envelope_digest receipt) = 32" "1 \<le> epoch" by (auto simp: note_good_def)
    with exec_success [OF assms(7)] outcomes_listed show ?thesis by (simp add: call exec_call_def)
  next
    case False
    with assms(4) obtain code terminal where "settle_failure (db_policy db) ?g i token code terminal ?delay = (g', Inr call)"
      by (cases decision) (auto simp: settle_decision_def Let_def)
    then obtain m where m: "m = (case snd (ledger_take ?g i token) of Some (Failure m) \<Rightarrow> m | _ \<Rightarrow> FailureNote_verdict (error_code_as_str code))"
      and call: "call = CallFailure i token (fn_code m) (terminal \<and> \<not> fn_outage m) (as_millis ?delay) (fn_outage m)
        (fn_streak_countable m) (fn_relay_hold m)"
      and backoff: "ry_backoff_min_ms (db_policy db) \<le> as_millis ?delay" "as_millis ?delay \<le> ry_backoff_max_ms (db_policy db)"
      by (rule settle_failure_call)
    have "sql_is_code (fn_code m) \<and> \<not> (fn_relay_hold m \<and> (\<not> fn_outage m \<or> fn_streak_countable m))"
      using read good code_tables(3) [of code]
      by (auto simp: m note_good_def FailureNote_verdict_def split: option.splits Note.splits)
    with exec_failure [OF assms(7) _ backoff] show ?thesis by (simp add: call exec_call_def)
  qed
qed

end
