(* ===== verification/Relay_Reconcile.thy ===== *)
theory Relay_Reconcile
  imports Relay_Settlement
begin

text \<open>
  Reconciliation of the deliveries with the receipts of the store (\<open>reconcile.rs\<close>) and the
  replay of a quarantined delivery (\<open>replay.rs\<close>). The answers of both databases are functions
  of the arguments of the calls, so the loops over pages may not end; they are defined in the
  option monad, where not returning is None. A repair run acts on the delivery table through
  its SQL functions.
\<close>

subsection \<open>Rows and their views\<close>

record DeliveryRow =
  dr_event_id :: uuid
  dr_state :: ustr
  dr_registration_kind :: "ustr option"
  dr_delivered_at :: "int option"
  dr_store_seq :: "int option"
  dr_store_envelope_digest :: "int list option"
  dr_store_outcome :: "ustr option"
  dr_store_recovery_epoch :: "int option"
  dr_quarantine_code :: "ustr option"
  dr_source_commitment :: "int list option"
  dr_source_intact :: "bool option"
  dr_last_error_code :: "ustr option"

record HistoryRow =
  hr_history_id :: int
  hr_event_id :: uuid
  hr_transition :: ustr
  hr_control_seq :: "int option"
  hr_control_epoch :: int
  hr_reconcile_seq :: "int option"
  hr_quarantine_code :: "ustr option"

definition delivery_state :: "int \<Rightarrow> Delivery \<Rightarrow> ustr" where
  "delivery_state t d =
     (if de_delivered_at d \<noteq> None then lit ''delivered''
      else if de_quarantined_at d \<noteq> None then lit ''quarantined''
      else if is_some_and (\<lambda>e. t < e) (de_lease_expires_at d) then lit ''leased''
      else lit ''pending'')"

definition sql_delivery_view :: "'c source_lib \<Rightarrow> int \<Rightarrow> 'c staged_event \<Rightarrow> Delivery option \<Rightarrow> DeliveryRow" where
  "sql_delivery_view L t ev delivery = (case delivery of
     None \<Rightarrow> \<lparr>dr_event_id = oe_event_id ev, dr_state = lit ''unregistered'', dr_registration_kind = None, dr_delivered_at = None,
       dr_store_seq = None, dr_store_envelope_digest = None, dr_store_outcome = None, dr_store_recovery_epoch = None,
       dr_quarantine_code = None, dr_source_commitment = None, dr_source_intact = None, dr_last_error_code = None\<rparr>
   | Some d \<Rightarrow> \<lparr>dr_event_id = oe_event_id ev, dr_state = delivery_state t d, dr_registration_kind = Some (de_registration_kind d),
       dr_delivered_at = de_delivered_at d, dr_store_seq = de_store_seq d,
       dr_store_envelope_digest = de_store_envelope_digest d, dr_store_outcome = de_store_outcome d,
       dr_store_recovery_epoch = de_store_recovery_epoch d, dr_quarantine_code = de_quarantine_code d,
       dr_source_commitment = Some (sl_commitment L (de_commitment_salt d) (de_source_digest d)),
       dr_source_intact = Some (sl_digest L ev = de_source_digest d), dr_last_error_code = de_last_error_code d\<rparr>)"

definition view_of :: "'c source_lib \<Rightarrow> int \<Rightarrow> 'c source_db \<Rightarrow> 'c staged_event \<Rightarrow> DeliveryRow" where
  "view_of L t db ev = sql_delivery_view L t ev (find_delivery (oe_event_id ev) db)"

definition cursor_uuid :: "uuid option \<Rightarrow> uuid" where "cursor_uuid cur = (case cur of None \<Rightarrow> 0 | Some i \<Rightarrow> i)"

definition sql_reconcile_page ::
  "'c source_lib \<Rightarrow> uuid option \<Rightarrow> int \<Rightarrow> int \<Rightarrow> 'c source_db \<Rightarrow> sql_error + DeliveryRow list" where
  "sql_reconcile_page L cur limit t db =
     (if \<not> (1 \<le> limit \<and> limit \<le> 1000) then Inl InvalidArguments
      else Inr (take (nat limit) (map (view_of L t db)
        (sort_key oe_event_id (filter (\<lambda>ev. cursor_uuid cur < oe_event_id ev) (db_events db))))))"

definition sql_lookup_deliveries :: "'c source_lib \<Rightarrow> uuid list \<Rightarrow> int \<Rightarrow> 'c source_db \<Rightarrow> sql_error + DeliveryRow list" where
  "sql_lookup_deliveries L ids t db =
     (if 1000 < length ids then Inl InvalidArguments
      else Inr (map (view_of L t db) (sort_key oe_event_id (filter (\<lambda>ev. oe_event_id ev \<in> set ids) (db_events db)))))"

definition history_view :: "DeliveryHistory \<Rightarrow> HistoryRow" where
  "history_view h = \<lparr>hr_history_id = he_history_id h, hr_event_id = he_event_id h, hr_transition = he_transition h,
     hr_control_seq = he_control_seq h, hr_control_epoch = he_control_epoch h, hr_reconcile_seq = he_reconcile_seq h,
     hr_quarantine_code = he_quarantine_code h\<rparr>"

definition sql_history_page :: "int \<Rightarrow> int \<Rightarrow> 'c source_db \<Rightarrow> sql_error + HistoryRow list" where
  "sql_history_page cur limit db =
     (if \<not> (1 \<le> limit \<and> limit \<le> 1000) then Inl InvalidArguments
      else Inr (take (nat limit) (map history_view
        (sort_key he_history_id (filter (\<lambda>h. cur < he_history_id h) (db_history db))))))"

subsection \<open>Classification of one row\<close>

datatype Class =
    ClassOk | ClassDeliveredMissing | ClassDigestMismatch | ClassQuarantinedStored | ClassQuarantinedConflict
  | ClassPending | ClassQuarantined | ClassUnregistered | ClassSourceTampered | ClassRelayCatalogSkew

definition commitment_matches :: "DeliveryRow \<Rightarrow> ReceiptRow \<Rightarrow> bool" where
  "commitment_matches row r \<longleftrightarrow> rp_source_commitment r = dr_source_commitment row \<and> rp_source_commitment r \<noteq> None"

definition classify :: "DeliveryRow \<Rightarrow> ReceiptRow option \<Rightarrow> Class" where
  "classify row receipt =
     (if dr_state row = lit ''unregistered'' then ClassUnregistered
      else if dr_source_intact row = Some False then ClassSourceTampered
      else if dr_state row = lit ''delivered'' then (case receipt of
          None \<Rightarrow> ClassDeliveredMissing
        | Some r \<Rightarrow>
            if Some (rp_seq r) = dr_store_seq row \<and> dr_store_envelope_digest row = Some (rp_envelope_digest r)
               \<and> commitment_matches row r
            then ClassOk else ClassDigestMismatch)
      else if dr_state row = lit ''quarantined'' then (case receipt of
          Some r \<Rightarrow>
            if \<not> commitment_matches row r then ClassQuarantinedConflict
            else if dr_quarantine_code row = Some UNKNOWN_AT_LIMIT then ClassQuarantinedStored
            else ClassQuarantined
        | None \<Rightarrow> ClassQuarantined)
      else if dr_last_error_code row = Some CATALOG_SKEW then ClassRelayCatalogSkew
      else ClassPending)"

definition zero_counts :: ReconcileCounts where
  "zero_counts = \<lparr>rk_ok = 0, rk_delivered_missing = 0, rk_digest_mismatch = 0, rk_quarantined_stored = 0,
     rk_quarantined_conflict = 0, rk_pending = 0, rk_quarantined = 0, rk_unregistered = 0, rk_source_tampered = 0,
     rk_store_only = 0, rk_unaudited_replay = 0, rk_replay_record_lost = 0, rk_relay_catalog_skew = 0,
     rk_repaired_delivered_missing = 0, rk_repaired_quarantined_stored = 0, rk_repaired_unregistered = 0\<rparr>"

primrec add_class :: "Class \<Rightarrow> ReconcileCounts \<Rightarrow> ReconcileCounts" where
  "add_class ClassOk c = c\<lparr>rk_ok := rk_ok c + 1\<rparr>"
| "add_class ClassDeliveredMissing c = c\<lparr>rk_delivered_missing := rk_delivered_missing c + 1\<rparr>"
| "add_class ClassDigestMismatch c = c\<lparr>rk_digest_mismatch := rk_digest_mismatch c + 1\<rparr>"
| "add_class ClassQuarantinedStored c = c\<lparr>rk_quarantined_stored := rk_quarantined_stored c + 1\<rparr>"
| "add_class ClassQuarantinedConflict c = c\<lparr>rk_quarantined_conflict := rk_quarantined_conflict c + 1\<rparr>"
| "add_class ClassPending c = c\<lparr>rk_pending := rk_pending c + 1\<rparr>"
| "add_class ClassQuarantined c = c\<lparr>rk_quarantined := rk_quarantined c + 1\<rparr>"
| "add_class ClassUnregistered c = c\<lparr>rk_unregistered := rk_unregistered c + 1\<rparr>"
| "add_class ClassSourceTampered c = c\<lparr>rk_source_tampered := rk_source_tampered c + 1\<rparr>"
| "add_class ClassRelayCatalogSkew c = c\<lparr>rk_relay_catalog_skew := rk_relay_catalog_skew c + 1\<rparr>"

definition alarms :: "ReconcileCounts \<Rightarrow> ustr list" where
  "alarms counts = map (\<lambda>(_, code). lit code) (filter (\<lambda>(n, _). 0 < n)
     [(rk_unaudited_replay counts, ''unaudited_replay''), (rk_delivered_missing counts, ''delivered_missing''),
      (rk_digest_mismatch counts, ''digest_mismatch''), (rk_store_only counts, ''store_only''),
      (rk_source_tampered counts, ''source_tampered''), (rk_quarantined_conflict counts, ''quarantined_conflict''),
      (rk_replay_record_lost counts, ''replay_record_lost''), (rk_unregistered counts, ''unregistered''),
      (rk_relay_catalog_skew counts, ''relay_catalog_skew'')])"

subsection \<open>History rows\<close>

record LostRange =
  lr_epoch_seq :: int
  lr_old_epoch :: int
  lr_new_epoch :: int
  lr_classification :: ustr
  lr_restored_head_seq :: int
  lr_lost_from_seq :: int
  lr_lost_upper_seq :: int
  lr_lost_upper_known :: bool

definition range_contains :: "LostRange \<Rightarrow> int \<Rightarrow> int \<Rightarrow> bool" where
  "range_contains r epoch seq \<longleftrightarrow> epoch = lr_old_epoch r \<and> lr_lost_from_seq r \<le> seq
     \<and> (\<not> lr_lost_upper_known r \<or> seq \<le> lr_lost_upper_seq r)"

datatype HistoryVerdict = Resolved | RecordLost | Unaudited

definition control_resolves :: "HistoryRow \<Rightarrow> ustr \<Rightarrow> ControlReceiptRow \<Rightarrow> bool" where
  "control_resolves row expected control \<longleftrightarrow> ct_origin control = RelayControl \<and> ct_event_type control = expected
     \<and> ct_recovery_epoch control = hr_control_epoch row
     \<and> (if expected = REPLAY_REQUESTED
        then ct_target_event_id control = Some (hr_event_id row) \<and> ct_code control \<noteq> None \<and> ct_code control = hr_quarantine_code row
        else ct_code control = Some (lit (mode_as_str Repair)))"

definition resolve_history ::
  "HistoryRow \<Rightarrow> (int \<rightharpoonup> ControlReceiptRow) \<Rightarrow> LostRange list \<Rightarrow> (int \<times> int) set \<Rightarrow> (int \<times> int) set \<times> HistoryVerdict" where
  "resolve_history row controls lost claimed =
     (let (found, expected) = (if hr_transition row = lit ''replay'' then (hr_control_seq row, REPLAY_REQUESTED)
            else (hr_reconcile_seq row, RECONCILIATION_COMPLETED))
      in case found of
        None \<Rightarrow> (claimed, Unaudited)
      | Some seq \<Rightarrow>
          let resolved = is_some_and (control_resolves row expected) (controls seq);
              position = (hr_control_epoch row, seq);
              taken = (resolved \<and> expected = REPLAY_REQUESTED);
              claimed' = (if taken then insert position claimed else claimed)
          in if resolved \<and> (expected \<noteq> REPLAY_REQUESTED \<or> position \<notin> claimed) then (claimed', Resolved)
             else if list_ex (\<lambda>range. range_contains range (hr_control_epoch row) seq) lost then (claimed', RecordLost)
             else (claimed', Unaudited))"

subsection \<open>Loops over pages\<close>

partial_function (option) page_loop ::
  "('k \<Rightarrow> 'e + 'row list) \<Rightarrow> ('row \<Rightarrow> 'k) \<Rightarrow> ('k \<Rightarrow> bool) \<Rightarrow> ('row list \<Rightarrow> 's \<Rightarrow> 'e + 's) \<Rightarrow> 'k \<Rightarrow> 's \<Rightarrow> ('e + 's) option" where
  "page_loop page key stop body cur s =
     (case page cur of
        Inl e \<Rightarrow> Some (Inl e)
      | Inr rows \<Rightarrow>
          if rows = [] then Some (Inr s)
          else (case body rows s of
            Inl e \<Rightarrow> Some (Inl e)
          | Inr s' \<Rightarrow> if stop (key (last rows)) then Some (Inr s')
              else page_loop page key stop body (key (last rows)) s'))"

definition then_run :: "('e + 'a) option \<Rightarrow> ('a \<Rightarrow> ('e + 'b) option) \<Rightarrow> ('e + 'b) option" where
  "then_run r f = (case r of None \<Rightarrow> None | Some (Inl e) \<Rightarrow> Some (Inl e) | Some (Inr x) \<Rightarrow> f x)"

definition PAGE :: int where "PAGE = 500"
definition STORE_PAGE :: int where "STORE_PAGE = 1000"

datatype ReconcileError = SourceError ustr | StoreFailed StoreError

record reconcile_env =
  rq_status :: "StoreError + int \<times> int"
  rq_page :: "uuid option \<Rightarrow> ustr + DeliveryRow list"
  rq_lookup_receipts :: "uuid list \<Rightarrow> StoreError + ReceiptRow list"
  rq_source_receipts :: "int \<Rightarrow> StoreError + ReceiptRow list"
  rq_lookup_deliveries :: "uuid list \<Rightarrow> ustr + DeliveryRow list"
  rq_lost_ranges :: "StoreError + LostRange list"
  rq_history :: "int \<Rightarrow> ustr + HistoryRow list"
  rq_controls :: "int list \<Rightarrow> StoreError + ControlReceiptRow list"

datatype PlannedRepair = ResetMissing uuid int | AckStored uuid ReceiptRow "int list"

definition repair_of :: "int \<Rightarrow> DeliveryRow \<Rightarrow> ReceiptRow option \<Rightarrow> PlannedRepair list" where
  "repair_of store_epoch row receipt =
     (case (classify row receipt, receipt) of
        (ClassDeliveredMissing, _) \<Rightarrow>
          if is_some_and (\<lambda>epoch. epoch < store_epoch) (dr_store_recovery_epoch row)
          then (case dr_store_seq row of Some seq \<Rightarrow> [ResetMissing (dr_event_id row) seq] | None \<Rightarrow> []) else []
      | (ClassQuarantinedStored, Some r) \<Rightarrow>
          (case dr_source_commitment row of Some commitment \<Rightarrow> [AckStored (dr_event_id row) r commitment] | None \<Rightarrow> [])
      | _ \<Rightarrow> [])"

type_synonym pass = "ReconcileCounts \<times> int list \<times> PlannedRepair list"

definition classify_step :: "int \<Rightarrow> (uuid \<rightharpoonup> ReceiptRow) \<Rightarrow> DeliveryRow \<Rightarrow> pass \<Rightarrow> pass" where
  "classify_step store_epoch receipts row = (\<lambda>(counts, hashed_ids, repairs).
     let receipt = receipts (dr_event_id row) in
     (add_class (classify row receipt) counts, hashed_ids @ be 16 (dr_event_id row), repairs @ repair_of store_epoch row receipt))"

definition looked_up :: "DeliveryRow \<Rightarrow> bool" where
  "looked_up row \<longleftrightarrow> dr_state row = lit ''delivered'' \<or> dr_state row = lit ''quarantined''"

definition relay_receipts :: "ReceiptRow list \<Rightarrow> uuid \<rightharpoonup> ReceiptRow" where
  "relay_receipts found = map_of (rev (map (\<lambda>r. (rp_event_id r, r)) (filter (\<lambda>r. rp_origin r = Relay) found)))"

definition classify_page :: "reconcile_env \<Rightarrow> int \<Rightarrow> DeliveryRow list \<Rightarrow> pass \<Rightarrow> ReconcileError + pass" where
  "classify_page env store_epoch rows acc =
     (let ids = map dr_event_id (filter looked_up rows) in
      and_then (if ids = [] then Inr [] else map_err StoreFailed (rq_lookup_receipts env ids)) (\<lambda>found.
        Inr (fold (classify_step store_epoch (relay_receipts found)) rows acc)))"

definition store_page :: "reconcile_env \<Rightarrow> int \<Rightarrow> ReceiptRow list \<Rightarrow> int \<Rightarrow> ReconcileError + int" where
  "store_page env watermark page n =
     (let ids = map rp_event_id (filter (\<lambda>r. rp_seq r \<le> watermark) page) in
      if ids = [] then Inr n
      else and_then (map_err SourceError (rq_lookup_deliveries env ids)) (\<lambda>known.
        Inr (n + int (length (filter (\<lambda>i. i \<notin> dr_event_id ` set known) ids)))))"

definition history_step ::
  "(int \<rightharpoonup> ControlReceiptRow) \<Rightarrow> LostRange list \<Rightarrow> HistoryRow \<Rightarrow> int \<times> int \<times> (int \<times> int) set \<Rightarrow> int \<times> int \<times> (int \<times> int) set" where
  "history_step controls lost row = (\<lambda>(record_lost, unaudited, claimed).
     case resolve_history row controls lost claimed of
       (claimed', Resolved) \<Rightarrow> (record_lost, unaudited, claimed')
     | (claimed', RecordLost) \<Rightarrow> (record_lost + 1, unaudited, claimed')
     | (claimed', Unaudited) \<Rightarrow> (record_lost, unaudited + 1, claimed'))"

definition control_map :: "ControlReceiptRow list \<Rightarrow> int \<rightharpoonup> ControlReceiptRow" where
  "control_map found = map_of (rev (map (\<lambda>c. (ct_seq c, c)) found))"

definition history_page ::
  "reconcile_env \<Rightarrow> LostRange list \<Rightarrow> HistoryRow list \<Rightarrow> int \<times> int \<times> (int \<times> int) set \<Rightarrow> ReconcileError + int \<times> int \<times> (int \<times> int) set" where
  "history_page env lost history acc =
     (let seqs = remdups (List.map_filter (\<lambda>h. case hr_control_seq h of Some s \<Rightarrow> Some s | None \<Rightarrow> hr_reconcile_seq h) history) in
      and_then (if seqs = [] then Inr [] else map_err StoreFailed (rq_controls env seqs)) (\<lambda>found.
        Inr (fold (history_step (control_map found) lost) history acc)))"

record Classification =
  cl_watermark :: int
  cl_store_epoch :: int
  cl_counts :: ReconcileCounts
  cl_id_set_digest :: "int list"
  cl_repairs :: "PlannedRepair list"

definition reconcile_classify :: "(int list \<Rightarrow> int list) \<Rightarrow> reconcile_env \<Rightarrow> (ReconcileError + Classification) option" where
  "reconcile_classify sha env =
     (case rq_status env of
        Inl e \<Rightarrow> Some (Inl (StoreFailed e))
      | Inr (watermark, store_epoch) \<Rightarrow>
          then_run (page_loop (\<lambda>cur. map_err SourceError (rq_page env cur)) (\<lambda>row. Some (dr_event_id row)) (\<lambda>_. False)
              (classify_page env store_epoch) None (zero_counts, [], [])) (\<lambda>(counts, hashed_ids, repairs).
          then_run (page_loop (\<lambda>cur. map_err StoreFailed (rq_source_receipts env cur)) rp_seq (\<lambda>cur. watermark \<le> cur)
              (store_page env watermark) 0 0) (\<lambda>store_only.
          (case rq_lost_ranges env of
             Inl e \<Rightarrow> Some (Inl (StoreFailed e))
           | Inr lost \<Rightarrow>
               then_run (page_loop (\<lambda>cur. map_err SourceError (rq_history env cur)) hr_history_id (\<lambda>_. False)
                   (history_page env lost) 0 (0, 0, {})) (\<lambda>(record_lost, unaudited, _).
                 Some (Inr \<lparr>cl_watermark = watermark, cl_store_epoch = store_epoch,
                   cl_counts = counts\<lparr>rk_store_only := store_only, rk_replay_record_lost := record_lost, rk_unaudited_replay := unaudited\<rparr>,
                   cl_id_set_digest = sha hashed_ids, cl_repairs = repairs\<rparr>))))))"

subsection \<open>A reconciliation run\<close>

record Repairs =
  rn_delivered_missing :: int
  rn_quarantined_stored :: int
  rn_unregistered :: int

definition no_repairs :: Repairs where
  "no_repairs = \<lparr>rn_delivered_missing = 0, rn_quarantined_stored = 0, rn_unregistered = 0\<rparr>"

definition is_reset :: "PlannedRepair \<Rightarrow> bool" where
  "is_reset r = (case r of ResetMissing _ _ \<Rightarrow> True | AckStored _ _ _ \<Rightarrow> False)"

definition planned_repairs :: "Classification \<Rightarrow> Repairs" where
  "planned_repairs c = \<lparr>rn_delivered_missing = int (length (filter is_reset (cl_repairs c))),
     rn_quarantined_stored = int (length (filter (\<lambda>r. \<not> is_reset r) (cl_repairs c))),
     rn_unregistered = rk_unregistered (cl_counts c)\<rparr>"

text \<open>
  The statements of a run are numbered. Each may fail to reach the database, or take effect and
  lose its answer, and each reads the clock of the database. An error ends the run with the
  statements before it done.
\<close>

record repair_env =
  rv_down :: "nat \<Rightarrow> bool"
  rv_lost :: "nat \<Rightarrow> bool"
  rv_clock :: "nat \<Rightarrow> int"
  rv_salts :: "nat \<Rightarrow> uuid \<Rightarrow> int list"

primrec sqlstate_of :: "sql_error \<Rightarrow> ustr" where
  "sqlstate_of InvalidArguments = lit ''22023''"
| "sqlstate_of GuardRefused = lit ''55000''"
| "sqlstate_of CheckViolation = lit ''23514''"
| "sqlstate_of UniqueViolation = lit ''23505''"

definition statement ::
  "repair_env \<Rightarrow> nat \<Rightarrow> ('c source_db \<Rightarrow> sql_error + 'c source_db \<times> 'a) \<Rightarrow> 'c source_db \<Rightarrow> 'c source_db \<times> (ustr + 'a)" where
  "statement env k f db =
     (if rv_down env k then (db, Inl (lit ''unavailable''))
      else (case f db of
          Inl e \<Rightarrow> (db, Inl (sqlstate_of e))
        | Inr (db', x) \<Rightarrow> (db', if rv_lost env k then Inl (lit ''unavailable'') else Inr x)))"

definition repair_call :: "'c source_lib \<Rightarrow> repair_env \<Rightarrow> nat \<Rightarrow> int \<Rightarrow> int \<Rightarrow> PlannedRepair \<Rightarrow> 'c source_db
    \<Rightarrow> sql_error + 'c source_db \<times> bool" where
  "repair_call L env k seq epoch repair db = (case repair of
     ResetMissing i store_seq \<Rightarrow> sql_repair_reset_missing i store_seq seq epoch (rv_clock env k) db
   | AckStored i r commitment \<Rightarrow> sql_repair_ack_stored L i (rp_seq r) (rp_envelope_digest r) commitment
       (lit (if rp_expired r then ''duplicate_expired'' else ''duplicate'')) seq epoch (rv_clock env k) db)"

definition count_repair :: "PlannedRepair \<Rightarrow> bool \<Rightarrow> Repairs \<Rightarrow> Repairs" where
  "count_repair repair updated s = (if \<not> updated then s
     else if is_reset repair then s\<lparr>rn_delivered_missing := rn_delivered_missing s + 1\<rparr>
     else s\<lparr>rn_quarantined_stored := rn_quarantined_stored s + 1\<rparr>)"

fun apply_repairs ::
  "'c source_lib \<Rightarrow> repair_env \<Rightarrow> nat \<Rightarrow> int \<Rightarrow> int \<Rightarrow> PlannedRepair list \<Rightarrow> Repairs \<Rightarrow> 'c source_db
    \<Rightarrow> 'c source_db \<times> (ReconcileError + nat \<times> Repairs)" where
  "apply_repairs L env k seq epoch [] s db = (db, Inr (k, s))"
| "apply_repairs L env k seq epoch (repair # repairs) s db =
     (case statement env k (repair_call L env k seq epoch repair) db of
        (db', Inl e) \<Rightarrow> (db', Inl (SourceError e))
      | (db', Inr updated) \<Rightarrow> apply_repairs L env (Suc k) seq epoch repairs (count_repair repair updated s) db')"

function register_loop ::
  "'c source_lib \<Rightarrow> repair_env \<Rightarrow> nat \<Rightarrow> int \<Rightarrow> Repairs \<Rightarrow> 'c source_db \<Rightarrow> 'c source_db \<times> (ReconcileError + Repairs)" where
  "register_loop L env k remaining s db =
     (if remaining \<le> 0 then (db, Inr s)
      else (case statement env k (sql_register_missing L (min remaining 1000) (rv_clock env k) (rv_salts env k)) db of
          (db', Inl e) \<Rightarrow> (db', Inl (SourceError e))
        | (db', Inr registered) \<Rightarrow>
            if registered \<le> 0 then (db', Inr s)
            else register_loop L env (Suc k) (max 0 (remaining - registered)) (s\<lparr>rn_unregistered := rn_unregistered s + registered\<rparr>) db'))"
  by pat_completeness auto
termination
  by (relation "measure (\<lambda>(L, env, k, remaining, s, db). nat remaining)") auto

declare register_loop.simps [simp del]

record ReconcileReport =
  rr_run_id :: uuid
  rr_mode :: ustr
  rr_watermark :: int
  rr_store_epoch :: int
  rr_counts :: ReconcileCounts
  rr_id_set_digest :: ustr
  rr_planned :: Repairs
  rr_applied :: Repairs
  rr_control_seq :: "int option"
  rr_control_epoch :: "int option"

definition recorded_counts :: "ReconcileCounts \<Rightarrow> Repairs \<Rightarrow> ReconcileCounts" where
  "recorded_counts counts planned = counts\<lparr>rk_repaired_delivered_missing := rn_delivered_missing planned,
     rk_repaired_quarantined_stored := rn_quarantined_stored planned, rk_repaired_unregistered := rn_unregistered planned\<rparr>"

text \<open>
  One run from its classification on: the control event is recorded first, with the repairs
  that are planned, and only then the repairs are applied.
\<close>

definition reconcile_run ::
  "'c source_lib \<Rightarrow> repair_env \<Rightarrow> bool \<Rightarrow> uuid \<Rightarrow> Classification \<Rightarrow> (RelayControlKind \<Rightarrow> StoreError + int \<times> int) \<Rightarrow> 'c source_db
    \<Rightarrow> 'c source_db \<times> (ReconcileError + ReconcileReport)" where
  "reconcile_run L env repair run_id c record_control db =
     (let planned = (if repair then planned_repairs c else no_repairs);
          counts = recorded_counts (cl_counts c) planned;
          mode = (if repair then Repair else ReadOnlyMode)
      in case record_control (ReconciliationCompleted run_id mode (cl_watermark c) (cl_id_set_digest c) counts) of
        Inl e \<Rightarrow> (db, Inl (StoreFailed e))
      | Inr (seq, epoch) \<Rightarrow>
          (case (if repair
                 then (case apply_repairs L env 0 seq epoch (cl_repairs c) no_repairs db of
                     (db', Inl e) \<Rightarrow> (db', Inl e)
                   | (db', Inr (k, s)) \<Rightarrow> register_loop L env k (rn_unregistered planned) s db')
                 else (db, Inr no_repairs)) of
             (db', Inl e) \<Rightarrow> (db', Inl e)
           | (db', Inr applied) \<Rightarrow> (db', Inr
               \<lparr>rr_run_id = run_id, rr_mode = lit (mode_as_str mode), rr_watermark = cl_watermark c, rr_store_epoch = cl_store_epoch c,
                rr_counts = counts, rr_id_set_digest = to_hex (cl_id_set_digest c), rr_planned = planned, rr_applied = applied,
                rr_control_seq = Some seq, rr_control_epoch = Some epoch\<rparr>)))"

subsection \<open>Replaying a delivery\<close>

datatype ReplayError =
    ReplayNotFound | NotQuarantined ustr | InvalidCode | ReplayStore StoreError | ReplayRefused int | ReplaySource ustr

record ReplayOutcome =
  ro_event_id :: uuid
  ro_previous_quarantine_code :: ustr
  ro_control_seq :: int
  ro_control_epoch :: int

text \<open>
  The row is looked up and replayed by two statements with the call of the store between them;
  \<open>others\<close> is what other callers do to the database in the meantime.
\<close>

definition replay_delivery ::
  "'c source_lib \<Rightarrow> repair_env \<Rightarrow> uuid \<Rightarrow> (RelayControlKind \<Rightarrow> StoreError + int \<times> int) \<Rightarrow> ('c source_db \<Rightarrow> 'c source_db) \<Rightarrow> 'c source_db
    \<Rightarrow> 'c source_db \<times> (ReplayError + ReplayOutcome)" where
  "replay_delivery L env i record_control others db =
     (case statement env 0 (\<lambda>db. map_sum (\<lambda>e. e) (Pair db) (sql_lookup_deliveries L [i] (rv_clock env 0) db)) db of
        (db, Inl e) \<Rightarrow> (db, Inl (ReplaySource e))
      | (db, Inr rows) \<Rightarrow> (case find (\<lambda>row. dr_event_id row = i) rows of
          None \<Rightarrow> (db, Inl ReplayNotFound)
        | Some row \<Rightarrow>
            if dr_state row \<noteq> lit ''quarantined'' then (db, Inl (NotQuarantined (dr_state row)))
            else (case dr_quarantine_code row of
              None \<Rightarrow> (db, Inl (NotQuarantined (lit ''quarantined'')))
            | Some code \<Rightarrow> (case BoundedCode_new code of
                None \<Rightarrow> (db, Inl InvalidCode)
              | Some previous_code \<Rightarrow> (case record_control (ReplayRequested i previous_code) of
                  Inl e \<Rightarrow> (db, Inl (ReplayStore e))
                | Inr (seq, epoch) \<Rightarrow> (case statement env 1 (sql_replay i seq epoch (rv_clock env 1)) (others db) of
                    (db', Inl e) \<Rightarrow> (db', Inl (ReplaySource e))
                  | (db', Inr replayed) \<Rightarrow>
                      if \<not> replayed then (db', Inl (ReplayRefused seq))
                      else (db', Inr \<lparr>ro_event_id = i, ro_previous_quarantine_code = code, ro_control_seq = seq,
                              ro_control_epoch = epoch\<rparr>)))))))"

end
