(* ===== verification/Relay_Reconcile_Props.thy ===== *)
theory Relay_Reconcile_Props
  imports Relay_Reconcile
begin

text \<open>
  What a reconciliation computes. On databases that do not change meanwhile the loops over pages
  return, and what they count is what a single look at the whole tables would count. A repair run
  records its control event first and changes only the rows it planned to change.
\<close>

subsection \<open>Cursors\<close>

text \<open>
  A cursor over a table sorted by a rank: the page after a cursor holds the first rows beyond it.
\<close>

locale cursor =
  fixes rank :: "'row \<Rightarrow> int" and key :: "'row \<Rightarrow> 'k" and beyond :: "'k \<Rightarrow> 'row \<Rightarrow> bool"
  assumes beyond_key: "beyond (key x) y \<longleftrightarrow> rank x < rank y"
    and beyond_mono: "beyond k x \<Longrightarrow> rank x < rank y \<Longrightarrow> beyond k y"
begin

lemma beyond_last:
  assumes "sorted_wrt (\<lambda>x y. rank x < rank y) table" and "filter (beyond k) table = xs @ x # ys"
  shows "filter (beyond (key x)) table = ys"
proof -
  have sorted: "sorted_wrt (\<lambda>x y. rank x < rank y) (xs @ x # ys)" using sorted_wrt_filter [OF assms(1)] assms(2) by metis
  have "x \<in> set (filter (beyond k) table)" unfolding assms(2) by simp
  then have x: "beyond k x" by simp
  have "filter (beyond (key x)) table = filter (beyond (key x)) (filter (beyond k) table)"
    using x by (auto simp: beyond_key intro: beyond_mono intro!: filter_cong)
  also have "\<dots> = ys" unfolding assms(2) using sorted by (auto simp: sorted_wrt_append beyond_key filter_empty_conv intro: filter_True)
  finally show ?thesis .
qed

lemma page_loop_exact:
  assumes sorted: "sorted_wrt (\<lambda>x y. rank x < rank y) table" and n: "0 < n"
    and page: "\<And>k. page k = Inr (take n (filter (beyond k) table))"
    and body: "\<And>rows s. set rows \<subseteq> set table \<Longrightarrow> sorted_wrt (\<lambda>x y. rank x < rank y) rows \<Longrightarrow> length rows \<le> n \<Longrightarrow>
      body rows s = Inr (fold step rows s)"
    and stop: "\<And>k r s. stop k \<Longrightarrow> r \<in> set table \<Longrightarrow> beyond k r \<Longrightarrow> step r s = s"
  shows "page_loop page key stop body k s = Some (Inr (fold step (filter (beyond k) table) s))"
proof (induction "length (filter (beyond k) table)" arbitrary: k s rule: less_induct)
  case less
  let ?rest = "filter (beyond k) table"
  show ?case
  proof (cases "?rest = []")
    case True
    then show ?thesis by (subst page_loop.simps) (simp add: page)
  next
    case False
    let ?rows = "take n ?rest" and ?last = "last (take n ?rest)"
    have rows: "?rows \<noteq> []" using False n by simp
    have split: "?rest = butlast ?rows @ ?last # drop n ?rest" using append_butlast_last_id [OF rows] by (metis append_Cons append_take_drop_id append_assoc append_Nil)
    have after_last: "filter (beyond (key ?last)) table = drop n ?rest" by (rule beyond_last [OF sorted split])
    have "set ?rows \<subseteq> set table" by (meson filter_is_subset set_take_subset subset_trans)
    moreover have "sorted_wrt (\<lambda>x y. rank x < rank y) ?rows" using sorted by (simp add: sorted_wrt_filter sorted_wrt_take)
    ultimately have done_page: "body ?rows s = Inr (fold step ?rows s)" by (intro body) simp_all
    have whole: "fold step ?rest s = fold step (drop n ?rest) (fold step ?rows s)" by (metis append_take_drop_id fold_append comp_apply)
    show ?thesis
    proof (cases "stop (key ?last)")
      case True
      have "step r = id" if "r \<in> set (drop n ?rest)" for r
        using stop [OF True, of r] that unfolding after_last [symmetric] by auto
      then have "fold step (drop n ?rest) x = x" for x by (simp add: fold_id)
      then show ?thesis using True rows done_page whole by (subst page_loop.simps) (simp add: page)
    next
      case False
      have "length (filter (beyond (key ?last)) table) < length ?rest" using after_last rows n \<open>?rest \<noteq> []\<close> by simp
      from less [OF this] False rows done_page whole show ?thesis by (subst page_loop.simps) (simp add: page after_last)
    qed
  qed
qed

end

interpretation by_event: cursor dr_event_id "\<lambda>row. Some (dr_event_id row)" "\<lambda>k row. cursor_uuid k < dr_event_id row"
  by unfold_locales (auto simp: cursor_uuid_def)

interpretation by_seq: cursor rp_seq rp_seq "\<lambda>k row. k < rp_seq row"
  by unfold_locales auto

interpretation by_history: cursor hr_history_id hr_history_id "\<lambda>k row. k < hr_history_id row"
  by unfold_locales auto

subsection \<open>One look at both databases\<close>

record store_snapshot =
  sn_head :: int
  sn_epoch :: int
  sn_receipts :: "(ustr \<times> ReceiptRow) list"
  sn_controls :: "ControlReceiptRow list"
  sn_lost :: "LostRange list"
  sn_refusal :: StoreError

definition sn_source_receipts :: "store_snapshot \<Rightarrow> ReceiptRow list" where
  "sn_source_receipts S = map snd (filter (\<lambda>(source, r). source = DOCUMENT_SOURCE \<and> rp_origin r = Relay) (sn_receipts S))"

definition at_most_1000 :: "'e \<Rightarrow> 'k list \<Rightarrow> 'a \<Rightarrow> 'e + 'a" where
  "at_most_1000 e ks x = (if 1000 < length ks then Inl e else Inr x)"

text \<open>The answers of the two databases when neither changes during the pass.\<close>

definition snapshot_env :: "'c source_lib \<Rightarrow> int \<Rightarrow> 'c source_db \<Rightarrow> store_snapshot \<Rightarrow> reconcile_env" where
  "snapshot_env L t db S =
     \<lparr>rq_status = Inr (sn_head S, sn_epoch S),
      rq_page = (\<lambda>cur. map_err sqlstate_of (sql_reconcile_page L cur PAGE t db)),
      rq_lookup_receipts = (\<lambda>ids. at_most_1000 (sn_refusal S) ids (filter (\<lambda>r. rp_event_id r \<in> set ids) (map snd (sn_receipts S)))),
      rq_source_receipts = (\<lambda>cur. Inr (take (nat STORE_PAGE) (filter (\<lambda>r. cur < rp_seq r) (sn_source_receipts S)))),
      rq_lookup_deliveries = (\<lambda>ids. map_err sqlstate_of (sql_lookup_deliveries L ids t db)),
      rq_lost_ranges = Inr (sn_lost S),
      rq_history = (\<lambda>cur. map_err sqlstate_of (sql_history_page cur PAGE db)),
      rq_controls = (\<lambda>seqs. at_most_1000 (sn_refusal S) seqs (filter (\<lambda>c. ct_seq c \<in> set seqs) (sn_controls S)))\<rparr>"

definition snapshot_ok :: "store_snapshot \<Rightarrow> bool" where
  "snapshot_ok S \<longleftrightarrow> sorted_wrt (<) (map (rp_seq \<circ> snd) (sn_receipts S)) \<and> list_all (\<lambda>(_, r). 0 < rp_seq r) (sn_receipts S)"

definition source_rows :: "'c source_lib \<Rightarrow> int \<Rightarrow> 'c source_db \<Rightarrow> DeliveryRow list" where
  "source_rows L t db = map (view_of L t db) (sort_key oe_event_id (db_events db))"

definition receipt_for :: "store_snapshot \<Rightarrow> DeliveryRow \<Rightarrow> ReceiptRow option" where
  "receipt_for S row = relay_receipts (map snd (sn_receipts S)) (dr_event_id row)"

primrec class_count :: "Class \<Rightarrow> ReconcileCounts \<Rightarrow> int" where
  "class_count ClassOk c = rk_ok c"
| "class_count ClassDeliveredMissing c = rk_delivered_missing c"
| "class_count ClassDigestMismatch c = rk_digest_mismatch c"
| "class_count ClassQuarantinedStored c = rk_quarantined_stored c"
| "class_count ClassQuarantinedConflict c = rk_quarantined_conflict c"
| "class_count ClassPending c = rk_pending c"
| "class_count ClassQuarantined c = rk_quarantined c"
| "class_count ClassUnregistered c = rk_unregistered c"
| "class_count ClassSourceTampered c = rk_source_tampered c"
| "class_count ClassRelayCatalogSkew c = rk_relay_catalog_skew c"

lemma class_count_add: "class_count k (add_class k' c) = class_count k c + (if k = k' then 1 else 0)"
  by (cases k'; cases k) simp_all

lemma class_count_zero: "class_count k zero_counts = 0"
  by (cases k) (simp_all add: zero_counts_def)

lemma map_of_filter_key: "k \<in> S \<Longrightarrow> map_of (filter (\<lambda>(k, _). k \<in> S) xs) k = map_of xs k"
  by (induction xs) auto

lemma relay_receipts_filter:
  assumes "i \<in> S" shows "relay_receipts (filter (\<lambda>r. rp_event_id r \<in> S) rs) i = relay_receipts rs i"
proof -
  have "rev (map (\<lambda>r. (rp_event_id r, r)) (filter (\<lambda>r. rp_origin r = Relay) (filter (\<lambda>r. rp_event_id r \<in> S) rs)))
     = filter (\<lambda>(k, _). k \<in> S) (rev (map (\<lambda>r. (rp_event_id r, r)) (filter (\<lambda>r. rp_origin r = Relay) rs)))"
    by (induction rs) auto
  then show ?thesis unfolding relay_receipts_def using map_of_filter_key [OF assms] by simp
qed

lemma control_map_filter:
  assumes "i \<in> S" shows "control_map (filter (\<lambda>c. ct_seq c \<in> S) cs) i = control_map cs i"
proof -
  have "rev (map (\<lambda>c. (ct_seq c, c)) (filter (\<lambda>c. ct_seq c \<in> S) cs)) = filter (\<lambda>(k, _). k \<in> S) (rev (map (\<lambda>c. (ct_seq c, c)) cs))"
    by (induction cs) auto
  then show ?thesis unfolding control_map_def using map_of_filter_key [OF assms] by simp
qed

text \<open>The receipt of a row that is neither delivered nor quarantined does not matter.\<close>

lemma classify_not_looked_up: "\<not> looked_up row \<Longrightarrow> classify row r = classify row None"
  by (auto simp: classify_def looked_up_def)

lemma classify_none: "classify row None \<noteq> ClassQuarantinedStored" "\<not> looked_up row \<Longrightarrow> classify row None \<noteq> ClassDeliveredMissing"
  by (auto simp: classify_def looked_up_def)

lemma repair_not_looked_up: "\<not> looked_up row \<Longrightarrow> repair_of e row r = []"
  unfolding repair_of_def using classify_not_looked_up [of row r] classify_none [of row]
  by (auto split: Class.splits)

lemma classify_step_cong:
  assumes "looked_up row \<Longrightarrow> receipts (dr_event_id row) = receipts' (dr_event_id row)"
  shows "classify_step e receipts row = classify_step e receipts' row"
proof (cases "looked_up row")
  case True
  then show ?thesis using assms by (simp add: classify_step_def)
next
  case False
  then show ?thesis using classify_not_looked_up [OF False] repair_not_looked_up [OF False]
    by (simp add: classify_step_def Let_def) metis
qed

lemma dr_view [simp]: "dr_event_id (view_of L t db ev) = oe_event_id ev"
  by (simp add: view_of_def sql_delivery_view_def split: option.split)

lemma page_of_rows:
  assumes "\<And>x. rank (view x) = key x"
  shows "map view (sort_key key (filter (\<lambda>x. k < key x) xs)) = filter (\<lambda>r. k < rank r) (map view (sort_key key xs))"
  by (simp add: filter_map filter_sort comp_def assms)

lemma rows_sorted:
  assumes "\<And>x. rank (view x) = key x" and "distinct (map key xs)"
  shows "sorted_wrt (\<lambda>x y. rank x < (rank y :: int)) (map view (sort_key key xs))"
proof -
  have "sorted_wrt (<) (map key (sort_key key xs))"
    using assms(2) by (simp add: strict_sorted_iff distinct_map)
  then show ?thesis by (simp add: sorted_wrt_map assms(1))
qed

lemma source_rows_sorted: "db_ok db \<Longrightarrow> sorted_wrt (\<lambda>x y. dr_event_id x < dr_event_id y) (source_rows L t db)"
  unfolding source_rows_def by (rule rows_sorted) (auto simp: db_ok_def)

lemma history_ids: "history_ok hist \<Longrightarrow> sorted_wrt (<) (map he_history_id hist) \<and> (\<forall>h\<in>set hist. 0 < he_history_id h)"
proof -
  assume "history_ok hist"
  then have ids: "map he_history_id hist = map int [1..<Suc (length hist)]" by (simp add: history_ok_def)
  have "sorted_wrt (<) (map he_history_id hist)" unfolding ids sorted_wrt_map by (simp del: upt_Suc)
  moreover have "he_history_id h \<in> set (map int [1..<Suc (length hist)])" if "h \<in> set hist" for h
    using that unfolding ids [symmetric] by simp
  ultimately show ?thesis by fastforce
qed

lemma history_sorted:
  assumes "history_ok hist"
  shows "sort_key he_history_id hist = hist" and "sorted_wrt (\<lambda>x y. hr_history_id x < hr_history_id y) (map history_view hist)"
proof -
  note ids = history_ids [OF assms]
  show "sort_key he_history_id hist = hist" using ids by (intro sort_key_id_if_sorted strict_sorted_imp_sorted) simp
  show "sorted_wrt (\<lambda>x y. hr_history_id x < hr_history_id y) (map history_view hist)"
    using ids by (simp add: history_view_def sorted_wrt_map)
qed

subsection \<open>The three loops\<close>

lemma classify_loop_exact:
  assumes "db_ok db" and "\<forall>ev\<in>set (db_events db). 0 < oe_event_id ev"
  shows "page_loop (\<lambda>cur. map_err SourceError (rq_page (snapshot_env L t db S) cur)) (\<lambda>row. Some (dr_event_id row)) (\<lambda>_. False)
      (classify_page (snapshot_env L t db S) e) None s
    = Some (Inr (fold (classify_step e (relay_receipts (map snd (sn_receipts S)))) (source_rows L t db) s))"
proof -
  let ?step = "classify_step e (relay_receipts (map snd (sn_receipts S)))"
  have body: "classify_page (snapshot_env L t db S) e rows s = Inr (fold ?step rows s)" if "length rows \<le> 500" for rows s
  proof -
    let ?ids = "map dr_event_id (filter looked_up rows)"
    let ?found = "filter (\<lambda>r. rp_event_id r \<in> set ?ids) (map snd (sn_receipts S))"
    have "length (filter looked_up rows) \<le> length rows" by simp
    then have small: "length ?ids \<le> 1000" using that by (simp only: length_map)
    have same: "fold (classify_step e (relay_receipts ?found)) rows s = fold ?step rows s"
      by (intro fold_cong refl classify_step_cong relay_receipts_filter) auto
    have none: "fold (classify_step e (relay_receipts [])) rows s = fold ?step rows s" if "?ids = []"
      using that by (intro fold_cong refl classify_step_cong) (auto simp: filter_empty_conv)
    show ?thesis using small same none by (auto simp: classify_page_def snapshot_env_def at_most_1000_def Let_def)
  qed
  have page: "map_err SourceError (rq_page (snapshot_env L t db S) k)
      = Inr (take 500 (filter (\<lambda>row. cursor_uuid k < dr_event_id row) (source_rows L t db)))" for k
    using page_of_rows [of dr_event_id "view_of L t db" oe_event_id "cursor_uuid k" "db_events db"]
    by (simp add: source_rows_def snapshot_env_def sql_reconcile_page_def PAGE_def)
  have "page_loop (\<lambda>cur. map_err SourceError (rq_page (snapshot_env L t db S) cur)) (\<lambda>row. Some (dr_event_id row)) (\<lambda>_. False)
      (classify_page (snapshot_env L t db S) e) None s
    = Some (Inr (fold ?step (filter (\<lambda>row. cursor_uuid None < dr_event_id row) (source_rows L t db)) s))"
    by (rule by_event.page_loop_exact [where n = 500, OF source_rows_sorted [OF assms(1)]]) (simp_all add: page body)
  moreover have "filter (\<lambda>row. cursor_uuid None < dr_event_id row) (source_rows L t db) = source_rows L t db"
    using assms(2) by (intro filter_True) (auto simp: source_rows_def cursor_uuid_def)
  ultimately show ?thesis by simp
qed

definition unknown_receipt :: "'c source_db \<Rightarrow> int \<Rightarrow> ReceiptRow \<Rightarrow> bool" where
  "unknown_receipt db head r \<longleftrightarrow> rp_seq r \<le> head \<and> rp_event_id r \<notin> oe_event_id ` set (db_events db)"

lemma unknown_receipt_late: "head \<le> k \<Longrightarrow> k < rp_seq r \<Longrightarrow> \<not> unknown_receipt db head r"
  by (simp add: unknown_receipt_def)

lemma fold_count: "fold (\<lambda>x n. if P x then n + 1 else n) xs (n :: int) = n + int (length (filter P xs))"
  by (induction xs arbitrary: n) auto

lemma store_loop_exact:
  assumes "snapshot_ok S"
  shows "page_loop (\<lambda>cur. map_err StoreFailed (rq_source_receipts (snapshot_env L t db S) cur)) rp_seq (\<lambda>cur. sn_head S \<le> cur)
      (store_page (snapshot_env L t db S) (sn_head S)) 0 0
    = Some (Inr (int (length (filter (unknown_receipt db (sn_head S)) (sn_source_receipts S)))))"
proof -
  let ?step = "\<lambda>r n. if unknown_receipt db (sn_head S) r then n + 1 else n"
  have "sorted_wrt (\<lambda>x y. rp_seq (snd x) < rp_seq (snd y)) (sn_receipts S)"
    using assms by (simp add: snapshot_ok_def sorted_wrt_map)
  then have sorted: "sorted_wrt (\<lambda>x y. rp_seq x < rp_seq y) (sn_source_receipts S)"
    unfolding sn_source_receipts_def sorted_wrt_map by (rule sorted_wrt_filter)
  have body: "store_page (snapshot_env L t db S) (sn_head S) rows n = Inr (fold ?step rows n)" if "length rows \<le> 1000" for rows n
  proof -
    let ?near = "filter (\<lambda>r. rp_seq r \<le> sn_head S) rows" and ?evs = "filter (\<lambda>ev. oe_event_id ev \<in> set (map rp_event_id (filter (\<lambda>r. rp_seq r \<le> sn_head S) rows))) (db_events db)"
    have "length ?near \<le> length rows" by simp
    then have small: "length ?near \<le> 1000" using that by linarith
    have known: "i \<notin> dr_event_id ` set (map (view_of L t db) (sort_key oe_event_id ?evs)) \<longleftrightarrow> i \<notin> oe_event_id ` set (db_events db)"
      if "i \<in> set (map rp_event_id ?near)" for i
    proof -
      have "oe_event_id ` set ?evs = oe_event_id ` set (db_events db) \<inter> rp_event_id ` set ?near" by auto
      then show ?thesis using that by (simp add: image_image)
    qed
    have "length (filter (\<lambda>i. i \<notin> oe_event_id ` set (db_events db)) (map rp_event_id ?near))
        = length (filter (unknown_receipt db (sn_head S)) rows)"
      by (simp add: filter_map comp_def unknown_receipt_def [abs_def] conj_commute)
    moreover have "length (filter (\<lambda>i. i \<notin> dr_event_id ` set (map (view_of L t db) (sort_key oe_event_id ?evs))) (map rp_event_id ?near))
        = length (filter (\<lambda>i. i \<notin> oe_event_id ` set (db_events db)) (map rp_event_id ?near))"
      by (rule arg_cong [where f = length], rule filter_cong [OF refl known])
    ultimately have count: "length (filter (\<lambda>i. i \<notin> dr_event_id ` set (map (view_of L t db) (sort_key oe_event_id ?evs))) (map rp_event_id ?near))
        = length (filter (unknown_receipt db (sn_head S)) rows)"
      by (simp only:)
    show ?thesis
    proof (cases "?near = []")
      case True
      then have "filter (unknown_receipt db (sn_head S)) rows = []" by (auto simp: filter_empty_conv unknown_receipt_def)
      then show ?thesis using True by (simp add: store_page_def fold_count)
    next
      case False
      then show ?thesis using small count
        by (simp add: store_page_def snapshot_env_def sql_lookup_deliveries_def fold_count del: set_map set_filter)
    qed
  qed
  have page: "map_err StoreFailed (rq_source_receipts (snapshot_env L t db S) k) = Inr (take 1000 (filter (\<lambda>r. k < rp_seq r) (sn_source_receipts S)))" for k
    by (simp add: snapshot_env_def STORE_PAGE_def)
  have "page_loop (\<lambda>cur. map_err StoreFailed (rq_source_receipts (snapshot_env L t db S) cur)) rp_seq (\<lambda>cur. sn_head S \<le> cur)
      (store_page (snapshot_env L t db S) (sn_head S)) 0 0
    = Some (Inr (fold ?step (filter (\<lambda>r. 0 < rp_seq r) (sn_source_receipts S)) 0))"
    by (rule by_seq.page_loop_exact [where n = 1000, OF sorted]) (simp_all add: body page unknown_receipt_late)
  moreover have "filter (\<lambda>r. 0 < rp_seq r) (sn_source_receipts S) = sn_source_receipts S"
    using assms by (intro filter_True) (auto simp: sn_source_receipts_def snapshot_ok_def list_all_iff)
  ultimately show ?thesis by (simp add: fold_count)
qed

lemma history_step_cong:
  assumes "reference_ok h"
    and "\<And>seq. he_control_seq h = Some seq \<or> he_control_seq h = None \<and> he_reconcile_seq h = Some seq \<Longrightarrow> controls seq = controls' seq"
  shows "history_step controls lost (history_view h) = history_step controls' lost (history_view h)"
proof -
  have "resolve_history (history_view h) controls lost claimed = resolve_history (history_view h) controls' lost claimed" for claimed
    using assms by (auto simp: resolve_history_def history_view_def reference_ok_def Let_def split: option.splits if_splits)
  then show ?thesis by (simp add: history_step_def)
qed

lemma length_map_filter: "length (List.map_filter f xs) \<le> length xs"
  by (induction xs) (auto simp: map_filter_simps split: option.splits)

lemma history_loop_exact:
  assumes "db_ok db"
  shows "page_loop (\<lambda>cur. map_err SourceError (rq_history (snapshot_env L t db S) cur)) hr_history_id (\<lambda>_. False)
      (history_page (snapshot_env L t db S) (sn_lost S)) 0 s
    = Some (Inr (fold (history_step (control_map (sn_controls S)) (sn_lost S)) (map history_view (db_history db)) s))"
proof -
  let ?table = "map history_view (db_history db)" and ?step = "history_step (control_map (sn_controls S)) (sn_lost S)"
  have ok: "history_ok (db_history db)" using assms by (simp add: db_ok_def)
  have body: "history_page (snapshot_env L t db S) (sn_lost S) rows s = Inr (fold ?step rows s)"
    if sub: "set rows \<subseteq> set ?table" and "length rows \<le> 500" for rows s
  proof -
    let ?seq = "\<lambda>h. case hr_control_seq h of Some s \<Rightarrow> Some s | None \<Rightarrow> hr_reconcile_seq h"
    let ?seqs = "remdups (List.map_filter ?seq rows)"
    let ?found = "filter (\<lambda>c. ct_seq c \<in> set ?seqs) (sn_controls S)"
    have "length ?seqs \<le> length rows"
      using length_remdups_leq length_map_filter by (rule le_trans)
    then have small: "length ?seqs \<le> 1000" using that(2) by linarith
    have step: "history_step controls (sn_lost S) row = ?step row"
      if row: "row \<in> set rows" and "\<And>seq. seq \<in> set ?seqs \<Longrightarrow> controls seq = control_map (sn_controls S) seq" for row controls
    proof -
      obtain h where h: "h \<in> set (db_history db)" "row = history_view h" using subsetD [OF sub row] by auto
      have "reference_ok h" using h ok by (simp add: history_ok_def)
      moreover have "controls seq = control_map (sn_controls S) seq"
        if "he_control_seq h = Some seq \<or> he_control_seq h = None \<and> he_reconcile_seq h = Some seq" for seq
      proof -
        have "?seq row = Some seq" using that h(2) by (auto simp: history_view_def)
        then have "seq \<in> set ?seqs" using \<open>row \<in> set rows\<close> by (force simp: List.map_filter_def)
        then show ?thesis by fact
      qed
      ultimately show ?thesis unfolding h(2) by (rule history_step_cong)
    qed
    have found: "fold (history_step (control_map ?found) (sn_lost S)) rows s = fold ?step rows s"
      by (intro fold_cong refl step control_map_filter) auto
    have none: "fold (history_step (control_map []) (sn_lost S)) rows s = fold ?step rows s" if "?seqs = []"
      using that by (intro fold_cong refl step) auto
    show ?thesis using small found none by (auto simp: history_page_def snapshot_env_def at_most_1000_def Let_def)
  qed
  have page: "map_err SourceError (rq_history (snapshot_env L t db S) k) = Inr (take 500 (filter (\<lambda>row. k < hr_history_id row) ?table))" for k
    using page_of_rows [of hr_history_id history_view he_history_id k "db_history db"]
    by (simp add: snapshot_env_def sql_history_page_def PAGE_def history_sorted(1) [OF ok] history_view_def)
  have "page_loop (\<lambda>cur. map_err SourceError (rq_history (snapshot_env L t db S) cur)) hr_history_id (\<lambda>_. False)
      (history_page (snapshot_env L t db S) (sn_lost S)) 0 s
    = Some (Inr (fold ?step (filter (\<lambda>row. 0 < hr_history_id row) ?table) s))"
    by (rule by_history.page_loop_exact [where n = 500, OF history_sorted(2) [OF ok]]) (simp_all add: page body)
  moreover have "filter (\<lambda>row. 0 < hr_history_id row) ?table = ?table"
    using history_ids [OF ok] by (intro filter_True) (auto simp: history_view_def)
  ultimately show ?thesis by simp
qed

subsection \<open>What a pass counts\<close>

lemma class_counts_of_fold:
  "class_count k (fst (fold (classify_step e receipts) rows (c, ids, reps)))
     = class_count k c + int (length (filter (\<lambda>row. classify row (receipts (dr_event_id row)) = k) rows))"
  "fst (snd (fold (classify_step e receipts) rows (c, ids, reps))) = ids @ concat (map (\<lambda>row. be 16 (dr_event_id row)) rows)"
  "snd (snd (fold (classify_step e receipts) rows (c, ids, reps)))
     = reps @ concat (map (\<lambda>row. repair_of e row (receipts (dr_event_id row))) rows)"
  by (induction rows arbitrary: c ids reps) (auto simp: classify_step_def Let_def class_count_add)

lemma class_count_update [simp]:
  "class_count k (c\<lparr>rk_store_only := a, rk_replay_record_lost := b, rk_unaudited_replay := d\<rparr>) = class_count k c"
  by (cases k) simp_all

text \<open>
  (C32) On two databases that do not change during the pass, the classification returns, whatever
  the number of pages: its loops over 500 and 1000 rows end, its lookups stay below the limit of
  1000 keys, and it computes what one look at the whole tables computes. Each class counter is the
  number of staged events of that class against the relay receipt the store holds for them,
  store_only is the number of receipts of this source up to the watermark that no staged event
  has, the two history counters are those of resolving the whole history in order, the digest
  covers every event id in ascending order and the repairs are those of the rows in that order.
\<close>

theorem reconcile_exact:
  assumes "db_ok db" and "\<forall>ev\<in>set (db_events db). 0 < oe_event_id ev" and "snapshot_ok S"
  shows "\<exists>c. reconcile_classify sha (snapshot_env L t db S) = Some (Inr c)
    \<and> cl_watermark c = sn_head S \<and> cl_store_epoch c = sn_epoch S
    \<and> (\<forall>k. class_count k (cl_counts c) = int (length (filter (\<lambda>row. classify row (receipt_for S row) = k) (source_rows L t db))))
    \<and> rk_store_only (cl_counts c) = int (length (filter (unknown_receipt db (sn_head S)) (sn_source_receipts S)))
    \<and> (rk_replay_record_lost (cl_counts c), rk_unaudited_replay (cl_counts c))
        = (case fold (history_step (control_map (sn_controls S)) (sn_lost S)) (map history_view (db_history db)) (0, 0, {})
           of (record_lost, unaudited, _) \<Rightarrow> (record_lost, unaudited))
    \<and> cl_id_set_digest c = sha (concat (map (be 16) (sort (map oe_event_id (db_events db)))))
    \<and> cl_repairs c = concat (map (\<lambda>row. repair_of (sn_epoch S) row (receipt_for S row)) (source_rows L t db))"
proof -
  let ?receipts = "relay_receipts (map snd (sn_receipts S))"
  obtain counts hashed repairs where rows:
      "fold (classify_step (sn_epoch S) ?receipts) (source_rows L t db) (zero_counts, [], []) = (counts, hashed, repairs)"
    by (metis surj_pair)
  obtain record_lost unaudited claimed where hist:
      "fold (history_step (control_map (sn_controls S)) (sn_lost S)) (map history_view (db_history db)) (0, 0, {}) = (record_lost, unaudited, claimed)"
    by (metis surj_pair)
  have run: "reconcile_classify sha (snapshot_env L t db S) = Some (Inr \<lparr>cl_watermark = sn_head S, cl_store_epoch = sn_epoch S,
      cl_counts = counts\<lparr>rk_store_only := int (length (filter (unknown_receipt db (sn_head S)) (sn_source_receipts S))),
        rk_replay_record_lost := record_lost, rk_unaudited_replay := unaudited\<rparr>,
      cl_id_set_digest = sha hashed, cl_repairs = repairs\<rparr>)"
    using classify_loop_exact [OF assms(1,2), of L t S "sn_epoch S" "(zero_counts, [], [])"]
      store_loop_exact [OF assms(3), of L t db] history_loop_exact [OF assms(1), of L t S "(0, 0, {})"] rows hist
    by (simp add: reconcile_classify_def then_run_def snapshot_env_def)
  have "map dr_event_id (source_rows L t db) = sort (map oe_event_id (db_events db))"
    by (simp add: source_rows_def comp_def) (rule properties_for_sort [symmetric], simp_all)
  then have "map (\<lambda>row. be 16 (dr_event_id row)) (source_rows L t db) = map (be 16) (sort (map oe_event_id (db_events db)))"
    using map_map [of "be 16" dr_event_id "source_rows L t db"] by (simp add: comp_def)
  then have hashed: "hashed = concat (map (be 16) (sort (map oe_event_id (db_events db))))"
    using class_counts_of_fold(2) [of "sn_epoch S" ?receipts "source_rows L t db" zero_counts "[]" "[]"] rows by simp
  have "class_count k counts = int (length (filter (\<lambda>row. classify row (receipt_for S row) = k) (source_rows L t db)))" for k
    using class_counts_of_fold(1) [of k "sn_epoch S" ?receipts "source_rows L t db" zero_counts "[]" "[]"] rows
    by (simp add: class_count_zero receipt_for_def)
  moreover have "repairs = concat (map (\<lambda>row. repair_of (sn_epoch S) row (receipt_for S row)) (source_rows L t db))"
    using class_counts_of_fold(3) [of "sn_epoch S" ?receipts "source_rows L t db" zero_counts "[]" "[]"] rows
    by (simp add: receipt_for_def)
  ultimately show ?thesis using run hashed hist by simp
qed

end
