(* ===== verification/Relay_Repair.thy ===== *)
theory Relay_Repair
  imports Relay_Reconcile
begin

text \<open>
  What repair runs and replays leave behind. Both record a control event in the store before they
  change a row, and every change writes a history entry that names the control event, so that
  the next reconciliation resolves it. This holds also for a run that stops in the middle.
\<close>

subsection \<open>Effects of a repair run\<close>

primrec repaired_id :: "PlannedRepair \<Rightarrow> uuid" where
  "repaired_id (ResetMissing i seq) = i"
| "repaired_id (AckStored i r commitment) = i"

definition audited_entry :: "int \<Rightarrow> int \<Rightarrow> uuid set \<Rightarrow> DeliveryHistory \<Rightarrow> bool" where
  "audited_entry seq epoch ids h \<longleftrightarrow> he_event_id h \<in> ids \<and> he_transition h \<noteq> lit ''replay''
     \<and> he_reconcile_seq h = Some seq \<and> he_control_epoch h = epoch"

definition newly_registered :: "'c source_db \<Rightarrow> Delivery \<Rightarrow> bool" where
  "newly_registered db d \<longleftrightarrow> de_registration_kind d = lit ''repair'' \<and> de_event_id d \<notin> de_event_id ` set (db_deliveries db)"

definition entry_for :: "DeliveryHistory list \<Rightarrow> Delivery \<Rightarrow> bool" where
  "entry_for hs d \<longleftrightarrow> (\<exists>h\<in>set hs. he_event_id h = de_event_id d)"

text \<open>
  Every entry written is audited and names a planned row, and every row that is not exactly as it was
  before has such an entry or was registered anew.
\<close>

definition repaired_by :: "int \<Rightarrow> int \<Rightarrow> uuid set \<Rightarrow> 'c source_db \<Rightarrow> 'c source_db \<Rightarrow> bool" where
  "repaired_by seq epoch ids db db' \<longleftrightarrow> db_events db' = db_events db \<and> db_policy db' = db_policy db
     \<and> (\<exists>hs. db_history db' = db_history db @ hs \<and> (\<forall>h\<in>set hs. audited_entry seq epoch ids h)
        \<and> (\<forall>d\<in>set (db_deliveries db). d \<in> set (db_deliveries db') \<or> entry_for hs d)
        \<and> (\<forall>d\<in>set (db_deliveries db'). d \<in> set (db_deliveries db) \<or> newly_registered db d \<or> entry_for hs d))"

lemma repaired_by_refl: "repaired_by seq epoch ids db db"
  by (simp add: repaired_by_def)

lemma entry_for_append [simp]: "entry_for (hs @ hs') d \<longleftrightarrow> entry_for hs d \<or> entry_for hs' d"
  by (auto simp: entry_for_def)

lemma entry_for_id: "entry_for hs d \<Longrightarrow> de_event_id d' = de_event_id d \<Longrightarrow> entry_for hs d'"
  by (simp add: entry_for_def)

lemma repaired_by_trans:
  assumes "repaired_by seq epoch ids db db'" and "repaired_by seq epoch ids db' db''"
  shows "repaired_by seq epoch ids db db''"
proof -
  from assms obtain hs hs' where hs: "db_history db' = db_history db @ hs" "\<forall>h\<in>set hs. audited_entry seq epoch ids h"
    "\<forall>d\<in>set (db_deliveries db). d \<in> set (db_deliveries db') \<or> entry_for hs d"
    "\<forall>d\<in>set (db_deliveries db'). d \<in> set (db_deliveries db) \<or> newly_registered db d \<or> entry_for hs d"
    and hs': "db_history db'' = db_history db' @ hs'" "\<forall>h\<in>set hs'. audited_entry seq epoch ids h"
    "\<forall>d\<in>set (db_deliveries db'). d \<in> set (db_deliveries db'') \<or> entry_for hs' d"
    "\<forall>d\<in>set (db_deliveries db''). d \<in> set (db_deliveries db') \<or> newly_registered db' d \<or> entry_for hs' d"
    unfolding repaired_by_def by blast
  have "newly_registered db d \<or> entry_for hs d" if new: "newly_registered db' d" for d
  proof (cases "de_event_id d \<in> de_event_id ` set (db_deliveries db)")
    case True
    then obtain x where x: "x \<in> set (db_deliveries db)" "de_event_id x = de_event_id d" by auto
    with new have "x \<notin> set (db_deliveries db')" by (metis imageI newly_registered_def)
    with hs(3) x show ?thesis using entry_for_id [of hs x d] by auto
  qed (use new in \<open>simp add: newly_registered_def\<close>)
  then have "\<forall>d\<in>set (db_deliveries db''). d \<in> set (db_deliveries db) \<or> newly_registered db d \<or> entry_for (hs @ hs') d"
    using hs(4) hs'(4) by (metis entry_for_append)
  moreover have "\<forall>d\<in>set (db_deliveries db). d \<in> set (db_deliveries db'') \<or> entry_for (hs @ hs') d"
    using hs(3) hs'(3) by (metis entry_for_append)
  moreover have "\<forall>h\<in>set (hs @ hs'). audited_entry seq epoch ids h" using hs(2) hs'(2) by auto
  moreover have "db_history db'' = db_history db @ hs @ hs'" using hs(1) hs'(1) by simp
  ultimately show ?thesis using assms unfolding repaired_by_def by (metis (no_types, lifting))
qed

lemma audited_entry_mono: "audited_entry seq epoch ids h \<Longrightarrow> ids \<subseteq> ids' \<Longrightarrow> audited_entry seq epoch ids' h"
  by (auto simp: audited_entry_def)

lemma repaired_by_mono:
  assumes "repaired_by seq epoch ids db db'" and "ids \<subseteq> ids'"
  shows "repaired_by seq epoch ids' db db'"
proof -
  from assms(1) obtain hs where "db_history db' = db_history db @ hs" "\<forall>h\<in>set hs. audited_entry seq epoch ids h"
    "\<forall>d\<in>set (db_deliveries db). d \<in> set (db_deliveries db') \<or> entry_for hs d"
    "\<forall>d\<in>set (db_deliveries db'). d \<in> set (db_deliveries db) \<or> newly_registered db d \<or> entry_for hs d"
    unfolding repaired_by_def by blast
  with assms audited_entry_mono [OF _ assms(2)] show ?thesis unfolding repaired_by_def by blast
qed

text \<open>A statement leaves the database, or it takes effect, with or without its answer.\<close>

lemma statement_cases:
  assumes "statement env k f db = (db', r)"
  obtains (silent) e where "db' = db" "r = Inl e"
    | (lost) x e where "f db = Inr (db', x)" "r = Inl e"
    | (answered) x where "f db = Inr (db', x)" "r = Inr x"
  using assms by (auto simp: statement_def split: if_splits sum.splits)

text \<open>An update of one row with its history entry.\<close>

lemma operator_repaired:
  assumes "and_then (write_history tr None epoch (Some seq) t d db) (\<lambda>db'. and_then (update_rows tr (\<lambda>x. de_event_id x = i) f db') (\<lambda>db''. Inr (db'', True)))
      = Inr (db', x)" and "tr = RepairAckStored \<or> tr = RepairResetMissing" and "de_event_id d = i" and "\<And>d. de_event_id (f d) = de_event_id d"
  shows "repaired_by seq epoch {i} db db' \<and> length (db_history db') = Suc (length (db_history db))
    \<and> length (db_deliveries db') = length (db_deliveries db) \<and> x"
proof -
  let ?h = "history_snapshot (int (length (db_history db)) + 1) tr None epoch (Some seq) t d"
  have "db' = db\<lparr>db_history := db_history db @ [?h], db_deliveries := map (\<lambda>x. if de_event_id x = i then f x else x) (db_deliveries db)\<rparr>" and "x"
    using assms(1) by (auto simp: and_then_def write_history_def update_rows_def Let_def split: sum.splits if_splits)
  moreover have "audited_entry seq epoch {i} ?h" using assms(2,3) by (auto simp: audited_entry_def history_snapshot_def lit_def)
  ultimately show ?thesis using assms(3,4) by (auto simp: repaired_by_def entry_for_def history_snapshot_def split: if_splits)
qed

lemma repair_call_effect:
  assumes "repair_call L env k seq epoch repair db = Inr (db', updated)"
  shows "repaired_by seq epoch {repaired_id repair} db db' \<and> length (db_deliveries db') = length (db_deliveries db)
    \<and> length (db_history db') = length (db_history db) + (if updated then 1 else 0)"
proof (cases repair)
  case (ResetMissing i store_seq)
  have "db' = db \<and> \<not> updated \<or> (\<exists>d. de_event_id d = i \<and>
     and_then (write_history RepairResetMissing None epoch (Some seq) (rv_clock env k) d db) (\<lambda>db'.
     and_then (update_rows RepairResetMissing (\<lambda>x. de_event_id x = i) (reset_row (rv_clock env k)) db') (\<lambda>db''. Inr (db'', True))) = Inr (db', updated))"
    using assms ResetMissing
    by (auto simp: repair_call_def sql_repair_reset_missing_def dest: find_delivery_row split: if_splits option.splits)
  then show ?thesis using operator_repaired [of RepairResetMissing epoch seq _ _ db i "reset_row (rv_clock env k)" db' updated] ResetMissing
    by (auto simp: repaired_by_refl reset_row_def)
next
  case (AckStored i r commitment)
  let ?f = "acked_row (rp_seq r) (rp_envelope_digest r) (lit (if rp_expired r then ''duplicate_expired'' else ''duplicate'')) epoch (rv_clock env k)"
  have "db' = db \<and> \<not> updated \<or> (\<exists>d. de_event_id d = i \<and>
     and_then (write_history RepairAckStored None epoch (Some seq) (rv_clock env k) d db) (\<lambda>db'.
     and_then (update_rows RepairAckStored (\<lambda>x. de_event_id x = i) ?f db') (\<lambda>db''. Inr (db'', True))) = Inr (db', updated))"
    using assms AckStored
    by (auto simp: repair_call_def sql_repair_ack_stored_def dest: find_delivery_row split: if_splits option.splits)
  then show ?thesis using operator_repaired [of RepairAckStored epoch seq _ _ db i ?f db' updated] AckStored
    by (auto simp: repaired_by_refl acked_row_def released_def)
qed

lemma call_ok:
  assumes "db_ok db" and "lib_ok L" and "op_ok op'" and "source_call L op' db = dropped r" and "r = Inr (db', x)"
  shows "db_ok db'"
  using moved_ok [OF assms(1) call_moved [OF assms(1-3)]] assms(4,5) by (simp add: dropped_def)

lemma repair_call_ok:
  assumes "db_ok db" and "lib_ok L" and "repair_call L env k seq epoch repair db = Inr (db', updated)"
  shows "db_ok db'"
proof (cases repair)
  case (ResetMissing i store_seq)
  then show ?thesis using assms(3)
    by (intro call_ok [OF assms(1,2), of "ResetMissingRow i store_seq seq epoch (rv_clock env k)"]) (simp_all add: repair_call_def)
next
  case (AckStored i r commitment)
  then show ?thesis using assms(3)
    by (intro call_ok [OF assms(1,2), of "AckStoredRow i (rp_seq r) (rp_envelope_digest r) commitment
      (lit (if rp_expired r then ''duplicate_expired'' else ''duplicate'')) seq epoch (rv_clock env k)"]) (simp_all add: repair_call_def)
qed

lemma insert_row_effect:
  assumes "insert_row d db = Inr db'" shows "db' = db\<lparr>db_deliveries := db_deliveries db @ [d]\<rparr> \<and> de_event_id d \<notin> de_event_id ` set (db_deliveries db)"
  using assms by (auto simp: insert_row_def split: if_splits)

lemma register_each_effect:
  assumes "register_each L t salts evs db = Inr db'"
  shows "repaired_by seq epoch ids db db' \<and> db_history db' = db_history db \<and> length (db_deliveries db') = length (db_deliveries db) + length evs"
  using assms
proof (induction evs arbitrary: db)
  case (Cons ev evs)
  let ?d = "new_delivery L ev (lit ''repair'') t (salts (oe_event_id ev))"
  from Cons.prems obtain db1 where ins: "insert_row ?d db = Inr db1" and rest: "register_each L t salts evs db1 = Inr db'"
    by (auto simp: and_then_ok)
  have db1: "db1 = db\<lparr>db_deliveries := db_deliveries db @ [?d]\<rparr>" and new: "newly_registered db ?d"
    using insert_row_effect [OF ins] by (auto simp: newly_registered_def new_delivery_def)
  have "repaired_by seq epoch ids db db1" using new by (auto simp: repaired_by_def db1)
  then have "repaired_by seq epoch ids db db'" using Cons.IH [OF rest] by (blast intro: repaired_by_trans)
  then show ?case using Cons.IH [OF rest] by (simp add: db1)
qed (simp add: repaired_by_refl)

lemma register_missing_effect:
  assumes "sql_register_missing L limit t salts db = Inr (db', n)"
  shows "repaired_by seq epoch ids db db' \<and> db_history db' = db_history db
    \<and> int (length (db_deliveries db')) = int (length (db_deliveries db)) + n \<and> 0 \<le> n \<and> n \<le> limit"
proof -
  have "register_each L t salts (take (nat limit) (missing_events db)) db = Inr db'" and "n = int (length (take (nat limit) (missing_events db)))"
    and "1 \<le> limit" using assms by (auto simp: sql_register_missing_def and_then_ok Let_def split: if_splits)
  then show ?thesis using register_each_effect [of L t salts _ db db' seq epoch ids] by auto
qed

text \<open>What the repairs that a run reports stand for.\<close>

definition run_effect :: "int \<Rightarrow> int \<Rightarrow> uuid set \<Rightarrow> 'c source_db \<Rightarrow> 'c source_db \<Rightarrow> bool" where
  "run_effect seq epoch ids db db' \<longleftrightarrow> db_ok db' \<and> repaired_by seq epoch ids db db'"

lemma run_effect_trans: "run_effect seq epoch ids db db' \<Longrightarrow> run_effect seq epoch ids db' db'' \<Longrightarrow> run_effect seq epoch ids db db''"
  unfolding run_effect_def using repaired_by_trans by blast

definition reported_growth :: "Repairs \<Rightarrow> 'c source_db \<Rightarrow> Repairs \<Rightarrow> 'c source_db \<Rightarrow> bool" where
  "reported_growth s db s' db' \<longleftrightarrow>
     int (length (db_history db')) - (rn_delivered_missing s' + rn_quarantined_stored s')
       = int (length (db_history db)) - (rn_delivered_missing s + rn_quarantined_stored s)
     \<and> int (length (db_deliveries db')) - rn_unregistered s' = int (length (db_deliveries db)) - rn_unregistered s"

definition at_most :: "Repairs \<Rightarrow> Repairs \<Rightarrow> bool" where
  "at_most a b \<longleftrightarrow> rn_delivered_missing a \<le> rn_delivered_missing b \<and> rn_quarantined_stored a \<le> rn_quarantined_stored b
     \<and> rn_unregistered a \<le> rn_unregistered b"

definition with_planned :: "PlannedRepair list \<Rightarrow> Repairs \<Rightarrow> Repairs" where
  "with_planned repairs s = s\<lparr>rn_delivered_missing := rn_delivered_missing s + int (length (filter is_reset repairs)),
     rn_quarantined_stored := rn_quarantined_stored s + int (length (filter (\<lambda>r. \<not> is_reset r) repairs))\<rparr>"

lemma apply_repairs_effect:
  assumes "apply_repairs L env k seq epoch repairs s db = (db', r)" and "lib_ok L" and "db_ok db"
  shows "run_effect seq epoch (repaired_id ` set repairs) db db'
    \<and> (\<forall>k' s'. r = Inr (k', s') \<longrightarrow> reported_growth s db s' db' \<and> at_most s' (with_planned repairs s) \<and> rn_unregistered s' = rn_unregistered s)"
  using assms(1,3)
proof (induction repairs arbitrary: k s db)
  case Nil
  then show ?case by (auto simp: run_effect_def repaired_by_refl reported_growth_def at_most_def with_planned_def)
next
  case (Cons repair repairs)
  obtain db1 a where st: "statement env k (repair_call L env k seq epoch repair) db = (db1, a)" by fastforce
  have effect: "db_ok db1 \<and> repaired_by seq epoch (repaired_id ` set (repair # repairs)) db db1"
    if "repair_call L env k seq epoch repair db = Inr (db1, x)" for x
    using repair_call_effect [OF that] repair_call_ok [OF Cons.prems(2) assms(2) that] by (auto intro: repaired_by_mono)
  from st show ?case
  proof (cases rule: statement_cases)
    case (silent e)
    then show ?thesis using Cons.prems st by (auto simp: run_effect_def repaired_by_refl)
  next
    case (lost x e)
    then show ?thesis using Cons.prems st effect by (auto simp: run_effect_def)
  next
    case (answered updated)
    have rest: "apply_repairs L env (Suc k) seq epoch repairs (count_repair repair updated s) db1 = (db', r)"
      using Cons.prems(1) st answered(2) by simp
    note IH = Cons.IH [OF rest] effect [OF answered(1)] repair_call_effect [OF answered(1)]
    have "repaired_by seq epoch (repaired_id ` set (repair # repairs)) db1 db'"
      using IH(1,2) by (auto simp: run_effect_def intro: repaired_by_mono)
    then have "run_effect seq epoch (repaired_id ` set (repair # repairs)) db db'"
      using IH by (auto simp: run_effect_def intro: repaired_by_trans)
    moreover have "reported_growth s db s' db' \<and> at_most s' (with_planned (repair # repairs) s) \<and> rn_unregistered s' = rn_unregistered s"
      if "r = Inr (k', s')" for k' s'
      using IH that by (auto simp: reported_growth_def at_most_def with_planned_def count_repair_def split: if_splits)
    ultimately show ?thesis by blast
  qed
qed

lemma register_loop_effect:
  assumes "register_loop L env k remaining s db = (db', r)" and "lib_ok L" and "\<forall>k i. length (rv_salts env k i) = 32" and "db_ok db"
  shows "run_effect seq epoch ids db db'
    \<and> (\<forall>s'. r = Inr s' \<longrightarrow> reported_growth s db s' db' \<and> rn_unregistered s' \<le> rn_unregistered s + max 0 remaining
        \<and> rn_delivered_missing s' = rn_delivered_missing s \<and> rn_quarantined_stored s' = rn_quarantined_stored s)"
  using assms(1,4)
proof (induction "nat remaining" arbitrary: k remaining s db rule: less_induct)
  case less
  show ?case
  proof (cases "remaining \<le> 0")
    case True
    with less.prems show ?thesis by (auto simp: register_loop.simps [of L env k] run_effect_def repaired_by_refl reported_growth_def)
  next
    case False
    let ?call = "sql_register_missing L (min remaining 1000) (rv_clock env k) (rv_salts env k)"
    obtain db1 a where st: "statement env k ?call db = (db1, a)" by fastforce
    note loop = less.prems(1) [unfolded register_loop.simps [of L env k remaining] st]
    have effect: "run_effect seq epoch ids db db1 \<and> db_history db1 = db_history db
        \<and> int (length (db_deliveries db1)) = int (length (db_deliveries db)) + n \<and> 0 \<le> n \<and> n \<le> remaining"
      if call: "?call db = Inr (db1, n)" for n
    proof -
      have "db_ok db1"
        by (rule call_ok [OF less.prems(2) assms(2) _ _ call, of "RegisterMissing (min remaining 1000) (rv_clock env k) (rv_salts env k)"])
          (use assms(3) in simp_all)
      with register_missing_effect [OF call, of seq epoch ids] show ?thesis by (auto simp: run_effect_def)
    qed
    from st show ?thesis
    proof (cases rule: statement_cases)
      case (silent e)
      then show ?thesis using loop False less.prems(2) by (auto simp: run_effect_def repaired_by_refl)
    next
      case (lost x e)
      then show ?thesis using loop False effect [OF lost(1)] by auto
    next
      case (answered n)
      note step = effect [OF answered(1)]
      show ?thesis
      proof (cases "n \<le> 0")
        case True
        then show ?thesis using loop False step answered(2) by (auto simp: reported_growth_def)
      next
        case more: False
        let ?s = "s\<lparr>rn_unregistered := rn_unregistered s + n\<rparr>" and ?remaining = "max 0 (remaining - n)"
        have rest: "register_loop L env (Suc k) ?remaining ?s db1 = (db', r)" using loop False more answered(2) by simp
        have smaller: "nat ?remaining < nat remaining" using False more by auto
        have ok: "db_ok db1" using conjunct1 [OF step] by (simp add: run_effect_def)
        note IH = less.hyps [OF smaller rest ok]
        have "run_effect seq epoch ids db db'" by (rule run_effect_trans [OF conjunct1 [OF step] conjunct1 [OF IH]])
        moreover have "reported_growth s db s' db' \<and> rn_unregistered s' \<le> rn_unregistered s + max 0 remaining
            \<and> rn_delivered_missing s' = rn_delivered_missing s \<and> rn_quarantined_stored s' = rn_quarantined_stored s" if "r = Inr s'" for s'
          using conjunct2 [OF step] conjunct2 [OF IH, rule_format, OF that] False by (simp add: reported_growth_def)
        ultimately show ?thesis by blast
      qed
    qed
  qed
qed

text \<open>The receipt the store holds for the control event of a repair run.\<close>

definition run_control :: "int \<Rightarrow> int \<Rightarrow> ControlReceiptRow \<Rightarrow> bool" where
  "run_control seq epoch ctl \<longleftrightarrow> ct_seq ctl = seq \<and> ct_origin ctl = RelayControl \<and> ct_recovery_epoch ctl = epoch
     \<and> ct_event_type ctl = RECONCILIATION_COMPLETED \<and> ct_code ctl = Some (lit (mode_as_str Repair))"

lemma audited_entry_resolves:
  assumes "audited_entry seq epoch ids h" and "controls seq = Some ctl" and "run_control seq epoch ctl"
  shows "resolve_history (history_view h) controls lost claimed = (claimed, Resolved)"
  using assms by (simp add: resolve_history_def history_view_def audited_entry_def control_resolves_def run_control_def
    RECONCILIATION_COMPLETED_def REPLAY_REQUESTED_def lit_def)

text \<open>
  (C33) A reconciliation run changes nothing that its control event does not record. A read-only run, and a
  run whose control event the store does not accept, leave the delivery table as it is. Wherever a repair
  run stops, at a failed statement or a lost answer too, every row that is not exactly as it was before the
  run is a planned one whose event has a history entry of this run, or was added for an unregistered
  event; every entry carries the sequence number and epoch of the control event, so that once the
  store shows this event the next pass resolves it. A run that succeeds reports as applied exactly as many
  entries as it wrote and rows as it added, at most the number it announced in the control event. The
  statements of a run follow one another here without calls of others in between.
\<close>

theorem repair_run_audited:
  assumes "lib_ok L" and "db_ok db" and "\<forall>k i. length (rv_salts env k i) = 32"
    and "0 \<le> rk_unregistered (cl_counts c)"
    and "reconcile_run L env repair run_id c record_control db = (db', r)"
    and "planned = (if repair then planned_repairs c else no_repairs)"
    and "answer = record_control (ReconciliationCompleted run_id (if repair then Repair else ReadOnlyMode) (cl_watermark c)
           (cl_id_set_digest c) (recorded_counts (cl_counts c) planned))"
  shows "db_ok db' \<and> (case answer of
      Inl e \<Rightarrow> db' = db \<and> r = Inl (StoreFailed e)
    | Inr (seq, epoch) \<Rightarrow>
        (if repair then repaired_by seq epoch (repaired_id ` set (cl_repairs c)) db db' else db' = db)
        \<and> (\<exists>hs. db_history db' = db_history db @ hs \<and> (\<forall>h\<in>set hs. \<forall>controls ctl lost claimed.
              controls seq = Some ctl \<and> run_control seq epoch ctl \<longrightarrow>
              resolve_history (history_view h) controls lost claimed = (claimed, Resolved)))
        \<and> (\<forall>report. r = Inr report \<longrightarrow> rr_planned report = planned \<and> at_most (rr_applied report) planned
            \<and> reported_growth no_repairs db (rr_applied report) db'))"
proof (cases answer)
  case (Inl e)
  then show ?thesis using assms(2,5) unfolding assms(6,7) reconcile_run_def Let_def by auto
next
  case (Inr receipt)
  obtain seq epoch where receipt: "receipt = (seq, epoch)" by fastforce
  note answer = Inr [unfolded receipt assms(7)]
  show ?thesis
  proof (cases repair)
    case False
    then show ?thesis using assms(2,5,6) answer Inr receipt
      by (auto simp: reconcile_run_def Let_def reported_growth_def at_most_def no_repairs_def)
  next
    case True
    obtain db1 r1 where applied: "apply_repairs L env 0 seq epoch (cl_repairs c) no_repairs db = (db1, r1)" by fastforce
    note first = apply_repairs_effect [OF applied assms(1,2)]
    have effect: "run_effect seq epoch (repaired_id ` set (cl_repairs c)) db db'
      \<and> (\<forall>report. r = Inr report \<longrightarrow> rr_planned report = planned \<and> at_most (rr_applied report) planned
            \<and> reported_growth no_repairs db (rr_applied report) db')"
    proof (cases r1)
      case (Inl e)
      then show ?thesis using assms(5,6) answer True applied first by (auto simp: reconcile_run_def Let_def)
    next
      case (Inr ks)
      obtain k s where ks: "ks = (k, s)" by fastforce
      obtain r2 where loop: "register_loop L env k (rn_unregistered planned) s db1 = (db', r2)"
        and rep: "\<And>report. r = Inr report \<Longrightarrow> rr_planned report = planned \<and> r2 = Inr (rr_applied report)"
        using assms(5,6) answer True applied Inr ks
        by (auto simp: reconcile_run_def Let_def split: prod.splits sum.splits)
      have "db_ok db1" using first by (simp add: run_effect_def)
      note second = register_loop_effect [OF loop assms(1,3) this, of seq epoch "repaired_id ` set (cl_repairs c)"]
      have "run_effect seq epoch (repaired_id ` set (cl_repairs c)) db db'"
        by (rule run_effect_trans [OF conjunct1 [OF first] conjunct1 [OF second]])
      moreover have "at_most s' planned \<and> reported_growth no_repairs db s' db'" if "r2 = Inr s'" for s'
        using conjunct2 [OF first, rule_format, OF Inr [unfolded ks]] conjunct2 [OF second, rule_format, OF that] assms(4,6) True
        by (simp add: at_most_def reported_growth_def planned_repairs_def with_planned_def no_repairs_def)
      ultimately show ?thesis using rep by blast
    qed
    then have "\<exists>hs. db_history db' = db_history db @ hs \<and> (\<forall>h\<in>set hs. audited_entry seq epoch (repaired_id ` set (cl_repairs c)) h)"
      by (auto simp: run_effect_def repaired_by_def)
    then show ?thesis using effect True Inr receipt audited_entry_resolves by (simp add: run_effect_def) blast
  qed
qed

subsection \<open>Replays\<close>

definition replay_control :: "uuid \<Rightarrow> ustr \<Rightarrow> int \<Rightarrow> int \<Rightarrow> ControlReceiptRow \<Rightarrow> bool" where
  "replay_control i code seq epoch ctl \<longleftrightarrow> ct_seq ctl = seq \<and> ct_origin ctl = RelayControl \<and> ct_recovery_epoch ctl = epoch
     \<and> ct_event_type ctl = REPLAY_REQUESTED \<and> ct_target_event_id ctl = Some i \<and> ct_code ctl = Some code"

text \<open>
  A replay of the row \<open>d\<close> of the table \<open>db\<close> under a control event that names the code \<open>code\<close>.
\<close>

definition replayed_by :: "int \<Rightarrow> ustr \<Rightarrow> int \<Rightarrow> int \<Rightarrow> Delivery \<Rightarrow> 'c source_db \<Rightarrow> 'c source_db \<Rightarrow> bool" where
  "replayed_by t code seq epoch d db db' \<longleftrightarrow> d \<in> set (db_deliveries db) \<and> de_quarantined_at d \<noteq> None \<and> \<not> live_lease t d
     \<and> db_deliveries db' = map (\<lambda>x. if de_event_id x = de_event_id d then replayed_row t x else x) (db_deliveries db)
     \<and> (\<exists>h. db_history db' = db_history db @ [h] \<and> (\<forall>controls ctl lost claimed.
          controls seq = Some ctl \<and> replay_control (de_event_id d) code seq epoch ctl \<and> (epoch, seq) \<notin> claimed \<longrightarrow>
          (resolve_history (history_view h) controls lost claimed = (insert (epoch, seq) claimed, Resolved)
             \<longleftrightarrow> de_quarantine_code d = Some code)))"

lemma replay_resolves:
  assumes "controls seq = Some ctl" and "replay_control (de_event_id d) code seq epoch ctl" and "(epoch, seq) \<notin> claimed"
  shows "resolve_history (history_view (history_snapshot n Replay (Some seq) epoch None t d)) controls lost claimed
      = (insert (epoch, seq) claimed, Resolved) \<longleftrightarrow> de_quarantine_code d = Some code"
  using assms by (auto simp: resolve_history_def history_view_def history_snapshot_def control_resolves_def replay_control_def)

lemma sql_replay_effect:
  assumes "sql_replay i seq epoch t db = Inr (db', replayed)"
  shows "if replayed then \<exists>d. de_event_id d = i \<and> replayed_by t code seq epoch d db db' else db' = db"
proof (cases "find_delivery i db")
  case None
  then show ?thesis using assms by (auto simp: sql_replay_def split: if_splits)
next
  case (Some d)
  have d: "d \<in> set (db_deliveries db)" "de_event_id d = i" using find_delivery_row [OF Some] by auto
  let ?h = "history_snapshot (int (length (db_history db)) + 1) Replay (Some seq) epoch None t d"
  let ?db = "db\<lparr>db_history := db_history db @ [?h], db_deliveries := map (\<lambda>x. if de_event_id x = i then replayed_row t x else x) (db_deliveries db)\<rparr>"
  have "replayed \<and> de_quarantined_at d \<noteq> None \<and> \<not> live_lease t d \<and> db' = ?db \<or> \<not> replayed \<and> db' = db"
    using assms Some by (auto simp: sql_replay_def and_then_def write_history_def update_rows_def Let_def split: sum.splits if_splits)
  moreover have "replayed_by t code seq epoch d db ?db" if "de_quarantined_at d \<noteq> None" "\<not> live_lease t d"
    using that d replay_resolves [of _ seq _ d code epoch] by (auto simp: replayed_by_def)
  ultimately show ?thesis using d(2) by auto
qed

lemma lookup_quarantined:
  assumes "sql_lookup_deliveries L [i] t db = Inr rows" and "find (\<lambda>row. dr_event_id row = i) rows = Some row"
    and "dr_quarantine_code row = Some code"
  shows "\<exists>d\<in>set (db_deliveries db). de_event_id d = i \<and> de_quarantine_code d = Some code"
proof -
  have rows: "rows = map (view_of L t db) (sort_key oe_event_id (filter (\<lambda>ev. oe_event_id ev = i) (db_events db)))"
    using assms(1) by (simp add: sql_lookup_deliveries_def split: if_splits)
  have "row \<in> set rows" using assms(2) by (auto simp: find_Some_iff)
  then obtain ev where ev: "oe_event_id ev = i" "row = view_of L t db ev" unfolding rows by auto
  then obtain d where "find_delivery i db = Some d" "de_quarantine_code d = Some code"
    using assms(3) by (cases "find_delivery i db") (auto simp: view_of_def sql_delivery_view_def)
  then show ?thesis using find_delivery_row by blast
qed

lemma replay_delivery_cases:
  assumes "replay_delivery L env i record_control others db = (db', r)"
  obtains (early) e where "db' = db" "r = Inl e"
    | (recorded) d0 code seq epoch a where "d0 \<in> set (db_deliveries db)" "de_event_id d0 = i" "de_quarantine_code d0 = Some code" "is_code code"
        "record_control (ReplayRequested i code) = Inr (seq, epoch)"
        "statement env 1 (sql_replay i seq epoch (rv_clock env 1)) (others db) = (db', a)"
        "r = (case a of Inl e \<Rightarrow> Inl (ReplaySource e) | Inr replayed \<Rightarrow> if \<not> replayed then Inl (ReplayRefused seq)
          else Inr \<lparr>ro_event_id = i, ro_previous_quarantine_code = code, ro_control_seq = seq, ro_control_epoch = epoch\<rparr>)"
proof -
  obtain db1 a where st: "statement env 0 (\<lambda>db. map_sum (\<lambda>e. e) (Pair db) (sql_lookup_deliveries L [i] (rv_clock env 0) db)) db = (db1, a)"
    by fastforce
  then have db1: "db1 = db" by (auto simp: statement_def map_sum_def split: if_splits sum.splits)
  note run = assms [unfolded replay_delivery_def st db1 prod.case]
  show ?thesis
  proof (cases "\<exists>rows row code previous_code seq epoch. a = Inr rows \<and> find (\<lambda>row. dr_event_id row = i) rows = Some row
      \<and> dr_state row = lit ''quarantined'' \<and> dr_quarantine_code row = Some code \<and> BoundedCode_new code = Some previous_code
      \<and> record_control (ReplayRequested i previous_code) = Inr (seq, epoch)")
    case False
    have "db' = db \<and> (\<exists>e. r = Inl e)"
      using run False by (auto split: sum.splits option.splits if_splits prod.splits)
    then show ?thesis using early by blast
  next
    case True
    then obtain rows row code previous seq epoch where found: "a = Inr rows" "find (\<lambda>row. dr_event_id row = i) rows = Some row"
      "dr_state row = lit ''quarantined''" "dr_quarantine_code row = Some code" "BoundedCode_new code = Some previous"
      "record_control (ReplayRequested i previous) = Inr (seq, epoch)" by blast
    have code: "is_code code" "previous = code" using found(5) by (auto simp: BoundedCode_new_def split: if_splits)
    have "sql_lookup_deliveries L [i] (rv_clock env 0) db = Inr rows"
      using st found(1) by (auto simp: statement_def map_sum_def split: if_splits sum.splits)
    then obtain d0 where "d0 \<in> set (db_deliveries db)" "de_event_id d0 = i" "de_quarantine_code d0 = Some code"
      using lookup_quarantined found(2,4) by blast
    moreover obtain db2 b where "statement env 1 (sql_replay i seq epoch (rv_clock env 1)) (others db) = (db2, b)" by fastforce
    moreover from this have "db' = db2 \<and> r = (case b of Inl e \<Rightarrow> Inl (ReplaySource e) | Inr replayed \<Rightarrow> if \<not> replayed then Inl (ReplayRefused seq)
        else Inr \<lparr>ro_event_id = i, ro_previous_quarantine_code = code, ro_control_seq = seq, ro_control_epoch = epoch\<rparr>)"
      using run found code by (auto split: sum.splits if_splits)
    ultimately show ?thesis using recorded [of d0 code seq epoch b] found(6) code by simp
  qed
qed

text \<open>
  (C34) A replay is audited before it happens. Whatever a replay answers, either it left the table as it was
  at the lookup or at the replaying statement, or the store had accepted a control event naming the event
  and the bounded quarantine code seen at the lookup, and the row, quarantined and without a live lease, went
  back to pending with a history entry of that control event. Success is answered only in the second case,
  with the recorded position; an error may be answered in both, for the answer to a replay that took
  effect can be lost. The next pass resolves the entry exactly if the row still carried the recorded code:
  a row that was released and quarantined again under another code between the two statements is replayed
  under a control event that does not match, and the pass reports it.
\<close>

theorem replay_audited:
  assumes "lib_ok L" and "db_ok db" and "db_ok (others db)"
    and "replay_delivery L env i record_control others db = (db', r)"
  shows "db_ok db' \<and> (db' = db \<or> db' = others db \<or> (\<exists>code seq epoch d d0. d0 \<in> set (db_deliveries db) \<and> de_event_id d0 = i
        \<and> de_quarantine_code d0 = Some code \<and> is_code code \<and> record_control (ReplayRequested i code) = Inr (seq, epoch)
        \<and> de_event_id d = i \<and> replayed_by (rv_clock env 1) code seq epoch d (others db) db'))
    \<and> (\<forall>out. r = Inr out \<longrightarrow> ro_event_id out = i
        \<and> record_control (ReplayRequested i (ro_previous_quarantine_code out)) = Inr (ro_control_seq out, ro_control_epoch out)
        \<and> (\<exists>d. de_event_id d = i \<and> replayed_by (rv_clock env 1) (ro_previous_quarantine_code out) (ro_control_seq out)
              (ro_control_epoch out) d (others db) db'))"
  using assms(4)
proof (cases rule: replay_delivery_cases)
  case (recorded d0 code seq epoch a)
  have ok: "db_ok db'" if "sql_replay i seq epoch (rv_clock env 1) (others db) = Inr (db', x)" for x
    by (rule call_ok [OF assms(3,1) _ _ that, of "ReplayRow i seq epoch (rv_clock env 1)"]) simp_all
  from recorded(6) show ?thesis
  proof (cases rule: statement_cases)
    case (silent e)
    then show ?thesis using assms(3) recorded(7) by simp
  next
    case (lost x e)
    then show ?thesis using ok recorded sql_replay_effect [OF lost(1), of code] by (cases x) auto
  next
    case (answered x)
    then show ?thesis using ok recorded sql_replay_effect [OF answered(1), of code] by (cases x) auto
  qed
qed (use assms(2) in simp)

end
