(* ===== verification/Relay_Progress.thy ===== *)
theory Relay_Progress
  imports Relay_Evidence
begin

text \<open>
  No row of the delivery table starves. Every claim that passes a row over takes an attempt from another
  one, and every reap that passes it over closes another one, so that the attempts left in the table
  and the number of its open rows bound how often a row can be passed over.
\<close>

subsection \<open>What is left to do\<close>

abbreviation open_row :: "Delivery \<Rightarrow> bool" where
  "open_row d \<equiv> de_delivered_at d = None \<and> de_quarantined_at d = None"

definition limit_of :: "RelayPolicy \<Rightarrow> Delivery \<Rightarrow> int" where
  "limit_of p d = (case de_attempt_limit d of Some n \<Rightarrow> n | None \<Rightarrow> ry_max_attempts p)"

definition attempts_left :: "RelayPolicy \<Rightarrow> Delivery \<Rightarrow> nat" where
  "attempts_left p d = (if open_row d then nat (limit_of p d - de_attempt_count d) else 0)"

definition open_count :: "Delivery \<Rightarrow> nat" where
  "open_count d = (if open_row d then 1 else 0)"

definition table_sum :: "(Delivery \<Rightarrow> nat) \<Rightarrow> 'c source_db \<Rightarrow> nat" where
  "table_sum f db = sum_list (map f (db_deliveries db))"

text \<open>The instant from which on the row's delay and its lease are over.\<close>

definition ready_at :: "Delivery \<Rightarrow> int" where
  "ready_at d = (case de_lease_expires_at d of None \<Rightarrow> de_available_at d | Some e \<Rightarrow> max e (de_available_at d))"

text \<open>
  Calls while row \<open>i\<close> waits: claims and reaps with arguments the functions accept, at or after
  the instant and not skipping the row for a lock; and what relays do with the other rows, short of giving an
  attempt back.
\<close>

fun waiting_call :: "uuid \<Rightarrow> int \<Rightarrow> RelayPolicy \<Rightarrow> 'c source_op \<Rightarrow> bool" where
  "waiting_call i instant p (ClaimRows owner limit lease_ms t fresh locked) \<longleftrightarrow> instant \<le> t \<and> \<not> locked i
     \<and> owner \<noteq> 0 \<and> 1 \<le> limit \<and> limit \<le> 32 \<and> ry_lease_min_ms p \<le> lease_ms \<and> lease_ms \<le> ry_lease_max_ms p"
| "waiting_call i instant p (ReapExhausted limit t locked) \<longleftrightarrow> instant \<le> t \<and> \<not> locked i \<and> 1 \<le> limit \<and> limit \<le> 32"
| "waiting_call i instant p (RenewLease j token lease_ms t) \<longleftrightarrow> j \<noteq> i"
| "waiting_call i instant p (SettleSuccess j token seq digest outcome epoch t) \<longleftrightarrow> j \<noteq> i"
| "waiting_call i instant p (SettleFailure j token code terminal backoff_ms outage countable held t) \<longleftrightarrow> j \<noteq> i \<and> \<not> outage"
| "waiting_call i instant p (NoteMismatch j token code seq epoch t) \<longleftrightarrow> j \<noteq> i"
| "waiting_call i instant p (AckStoredRow j seq digest commitment outcome control_seq epoch t) \<longleftrightarrow> j \<noteq> i"
| "waiting_call i instant p _ \<longleftrightarrow> False"

fun is_claim :: "'c source_op \<Rightarrow> bool" where
  "is_claim (ClaimRows owner limit lease_ms t fresh locked) \<longleftrightarrow> True"
| "is_claim _ \<longleftrightarrow> False"

fun is_reap :: "'c source_op \<Rightarrow> bool" where
  "is_reap (ReapExhausted limit t locked) \<longleftrightarrow> True"
| "is_reap _ \<longleftrightarrow> False"

subsection \<open>Rows only lose attempts\<close>

lemma sum_list_step:
  fixes f :: "'a \<Rightarrow> nat"
  assumes "\<forall>x\<in>set xs. f (g x) \<le> f x"
  shows "sum_list (map f (map g xs)) \<le> sum_list (map f xs)"
    and "\<exists>x\<in>set xs. f (g x) < f x \<Longrightarrow> sum_list (map f (map g xs)) < sum_list (map f xs)"
proof -
  show "sum_list (map f (map g xs)) \<le> sum_list (map f xs)"
    using assms by (induction xs) (simp_all add: add_mono)
  show "sum_list (map f (map g xs)) < sum_list (map f xs)" if "\<exists>x\<in>set xs. f (g x) < f x"
    using assms that
  proof (induction xs)
    case (Cons y ys)
    have le: "sum_list (map f (map g ys)) \<le> sum_list (map f ys)"
      using Cons.prems(1) by (induction ys) (simp_all add: add_mono)
    show ?case using Cons le by (cases "f (g y) < f y") (auto intro: add_less_le_mono add_le_less_mono)
  qed simp
qed

lemma waiting_move:
  assumes "row_move L p g hs op' d d'" and "waiting_call i instant q op'"
  shows "de_event_id d' = de_event_id d \<and> attempts_left p d' \<le> attempts_left p d \<and> open_count d' \<le> open_count d
    \<and> de_attempt_count d \<le> de_attempt_count d'
    \<and> (de_quarantined_at d \<noteq> None \<and> de_event_id d = i \<longrightarrow> de_quarantined_at d' \<noteq> None)"
  using assms
  by cases (auto simp: attempts_left_def open_count_def limit_of_def claimable_def exhausted_def failed_row_def row_fields
      split: option.splits)

text \<open>A waiting row is left alone unless it is claimed or reaped itself.\<close>

lemma waiting_row_moves:
  assumes "row_move L p g hs op' d d'" and "waiting_call (de_event_id d) instant q op'" and "open_row d"
  shows "d' = d \<or> is_claim op' \<and> de_attempt_count d < limit_of p d \<and> de_attempt_count d < de_attempt_count d'
    \<or> is_reap op' \<and> limit_of p d \<le> de_attempt_count d \<and> de_quarantined_at d' \<noteq> None"
  using assms(1)
proof cases
  case (ack i commitment seq digest outcome epoch n control_seq t)
  then show ?thesis using assms(2) by simp
next
  case (claim t owner limit lease_ms fresh locked)
  then show ?thesis by (simp add: claimable_def claimed_row_def limit_of_def)
next
  case (reap t limit locked)
  then show ?thesis by (auto simp: exhausted_def reaped_row_def limit_of_def is_some_and_iff)
qed (use assms(2,3) in \<open>simp_all add: held_by_def\<close>)

lemma dropped_ok: "dropped r = Inr db' \<longleftrightarrow> (\<exists>x. r = Inr (db', x))"
  by (cases r) (auto simp: dropped_def)

lemma waiting_call_updates:
  assumes "waiting_call i instant q op'" and "source_call L op' db = Inr db'"
  shows "length (db_deliveries db') = length (db_deliveries db) \<and> db_policy db' = db_policy db"
proof -
  have upd: "length (db_deliveries y) = length (db_deliveries x) \<and> db_policy y = db_policy x"
    if "update_rows tr P f x = Inr y" for tr P f and x y :: "'a source_db"
    using that by (auto simp: update_rows_def Let_def split: if_splits)
  have hist: "db_deliveries y = db_deliveries x \<and> db_policy y = db_policy x"
    if "write_history tr a b c t d x = Inr y" for tr a b c t d and x y :: "'a source_db"
    using that by (auto simp: write_history_def Let_def split: if_splits)
  show ?thesis using assms
    by (cases op')
      (auto simp: dropped_ok sql_claim_def sql_renew_def sql_settle_success_def sql_settle_failure_def
        sql_reap_exhausted_def sql_note_mismatch_def sql_repair_ack_stored_def Let_def and_then_ok
        split: if_splits option.splits dest!: upd hist)
qed

lemma waiting_step:
  assumes "db_ok db" and "lib_ok L" and "waiting_call i instant q op'" and "source_call L op' db = Inr db'"
  obtains f hs where "db_deliveries db' = map f (db_deliveries db)"
    and "\<forall>d\<in>set (db_deliveries db). row_move L (db_policy db) (db_generation db) hs op' d (f d)"
    and "db_policy db' = db_policy db"
proof -
  have "op_ok op'" using assms(3) by (cases op') simp_all
  from call_moved [OF assms(1,2) this assms(4)] obtain f new hs where rows: "db_deliveries db' = map f (db_deliveries db) @ new"
    and "\<forall>d\<in>set (db_deliveries db). row_move L (db_policy db) (db_generation db) hs op' d (f d)"
    unfolding moved_def by blast
  with waiting_call_updates [OF assms(3,4)] that [of f hs] show ?thesis by simp
qed

lemma sums_fall:
  assumes "db_ok db" and "lib_ok L" and "waiting_call i instant q op'" and "source_call L op' db = Inr db'"
  shows "table_sum (attempts_left (db_policy db)) db' \<le> table_sum (attempts_left (db_policy db)) db"
    and "table_sum open_count db' \<le> table_sum open_count db"
proof -
  from waiting_step [OF assms] obtain f hs where rows: "db_deliveries db' = map f (db_deliveries db)"
    and "\<forall>d\<in>set (db_deliveries db). row_move L (db_policy db) (db_generation db) hs op' d (f d)" .
  then have "\<forall>d\<in>set (db_deliveries db). attempts_left (db_policy db) (f d) \<le> attempts_left (db_policy db) d
      \<and> open_count (f d) \<le> open_count d" using waiting_move assms(3) by blast
  then show "table_sum (attempts_left (db_policy db)) db' \<le> table_sum (attempts_left (db_policy db)) db"
    "table_sum open_count db' \<le> table_sum open_count db"
    unfolding table_sum_def rows by (intro sum_list_step(1); blast)+
qed

subsection \<open>A row that is passed over lets another one go\<close>

text \<open>An update of the rows picked by their identifiers, at most \<open>limit\<close> of those that qualify.\<close>

lemma picked_step:
  fixes m :: "Delivery \<Rightarrow> nat" and key :: "Delivery \<Rightarrow> 'k::linorder"
  assumes "db_ok db" and "d \<in> set (db_deliveries db)" and "P d" and "1 \<le> limit"
    and rows: "rows = take (nat limit) (sort_key key (filter P (db_deliveries db)))"
    and upd: "update_rows tr (\<lambda>x. de_event_id x \<in> set (map de_event_id rows)) f db = Inr db'"
    and "\<And>x. P x \<Longrightarrow> m (f x) < m x"
  shows "f d \<in> set (db_deliveries db') \<or> table_sum m db' < table_sum m db"
proof (cases "d \<in> set rows")
  let ?g = "\<lambda>x. if de_event_id x \<in> set (map de_event_id rows) then f x else x"
  have db': "db_deliveries db' = map ?g (db_deliveries db)"
    using upd by (auto simp: update_rows_def Let_def split: if_splits)
  {
    case True
    then have "?g d \<in> set (db_deliveries db')" using assms(2) unfolding db' by (auto intro!: imageI)
    then show ?thesis using True by simp
  next
    case False
    have sub: "P x \<and> x \<in> set (db_deliveries db)" if "x \<in> set rows" for x
      using that unfolding rows by (auto dest: in_set_takeD)
    have "d \<in> set (sort_key key (filter P (db_deliveries db)))" using assms(2,3) by simp
    then have "rows \<noteq> []" using assms(4) unfolding rows by (cases "sort_key key (filter P (db_deliveries db))") auto
    then obtain x where x: "x \<in> set rows" by (cases rows) auto
    have "P y" if "y \<in> set (db_deliveries db)" "de_event_id y \<in> set (map de_event_id rows)" for y
      using that sub unique_row [OF assms(1) that(1)] by auto
    then have "\<forall>y\<in>set (db_deliveries db). m (?g y) \<le> m y" using assms(7) by (simp add: less_imp_le)
    moreover have "\<exists>y\<in>set (db_deliveries db). m (?g y) < m y" using x sub [OF x] assms(7) by (intro bexI [of _ x]) auto
    ultimately show ?thesis unfolding table_sum_def db' by (intro disjI2 sum_list_step(2))
  }
qed

lemma claim_takes:
  assumes "db_ok db" and "d \<in> set (db_deliveries db)" and "claimable (db_policy db) t d" and "\<not> locked (de_event_id d)"
    and "1 \<le> limit" and "source_call L (ClaimRows owner limit lease_ms t fresh locked) db = Inr db'"
  shows "claimed_row (db_policy db) owner lease_ms t fresh d \<in> set (db_deliveries db')
    \<or> table_sum (attempts_left (db_policy db)) db' < table_sum (attempts_left (db_policy db)) db"
proof (rule picked_step [where P = "\<lambda>d. claimable (db_policy db) t d \<and> \<not> locked (de_event_id d)" and key = claim_order,
      OF assms(1,2) _ assms(5)])
  show "update_rows NoTransition (\<lambda>x. de_event_id x \<in> set (map de_event_id (picked limit t locked db)))
      (claimed_row (db_policy db) owner lease_ms t fresh) db = Inr db'"
    using assms(6) by (auto simp: dropped_ok sql_claim_def Let_def and_then_ok split: if_splits)
qed (use assms(3,4) in \<open>auto simp: picked_def attempts_left_def limit_of_def claimed_row_def claimable_def split: option.splits\<close>)

lemma reap_takes:
  assumes "db_ok db" and "d \<in> set (db_deliveries db)" and "exhausted t d" and "\<not> locked (de_event_id d)"
    and "1 \<le> limit" and "source_call L (ReapExhausted limit t locked) db = Inr db'"
  shows "reaped_row t d \<in> set (db_deliveries db') \<or> table_sum open_count db' < table_sum open_count db"
proof (rule picked_step [where P = "\<lambda>d. exhausted t d \<and> \<not> locked (de_event_id d)" and key = reap_order,
      OF assms(1,2) _ assms(5)])
  show "update_rows NoTransition (\<lambda>x. de_event_id x \<in> set (map de_event_id (take (nat limit) (sort_key reap_order
      (filter (\<lambda>d. exhausted t d \<and> \<not> locked (de_event_id d)) (db_deliveries db)))))) (reaped_row t) db = Inr db'"
    using assms(6) by (auto simp: dropped_ok sql_reap_exhausted_def Let_def and_then_ok split: if_splits)
qed (use assms(3,4) in \<open>auto simp: open_count_def exhausted_def row_fields\<close>)

text \<open>With arguments the functions accept, a claim or a reap is not refused.\<close>

lemma worker_accepted:
  assumes "db_ok db" and "lib_ok L" and "waiting_call i instant (db_policy db) op'" and "is_claim op' \<or> is_reap op'"
  shows "\<exists>db'. source_call L op' db = Inr db'"
proof -
  have upd: "update_rows tr P f db \<noteq> Inl InvalidArguments" "update_rows tr P f db \<noteq> Inl UniqueViolation" for tr P f
    by (auto simp: update_rows_def Let_def)
  have "False" if refused: "source_call L op' db = Inl e" for e
  proof -
    have "op_ok op'" using assms(3) by (cases op') simp_all
    from call_outcome [OF assms(1,2) this] refused assms(4) have "e = InvalidArguments \<or> e = UniqueViolation"
      by (auto simp: outcome_ok_def)
    moreover have "\<exists>P f. update_rows NoTransition P f db = Inl e"
      using assms(3,4) refused
      by (cases op') (auto simp: sql_claim_def sql_reap_exhausted_def Let_def dropped_def and_then_def split: sum.splits)
    ultimately show False using upd by blast
  qed
  then show ?thesis by (cases "source_call L op' db") auto
qed

lemma ready_row:
  assumes "db_ok db" and "d \<in> set (db_deliveries db)" and "open_row d" and "ready_at d \<le> t"
  shows "de_attempt_count d < limit_of (db_policy db) d \<Longrightarrow> claimable (db_policy db) t d"
    and "limit_of (db_policy db) d \<le> de_attempt_count d \<Longrightarrow> exhausted t d"
proof -
  have ok: "delivery_ok d" "policy_ok (db_policy db)" using assms(1,2) by (auto simp: db_ok_def)
  have "de_lease_token d = None \<longleftrightarrow> de_lease_expires_at d = None"
    using ok(1) unfolding delivery_ok_def delivery_checks_def lease_columns_ok_def by blast
  then show "limit_of (db_policy db) d \<le> de_attempt_count d \<Longrightarrow> exhausted t d"
    using assms(3,4) limit_ok [OF ok(2)] ok(1)
    by (cases "de_lease_expires_at d"; cases "de_attempt_limit d")
      (auto simp: exhausted_def ready_at_def limit_of_def delivery_ok_def)
  show "de_attempt_count d < limit_of (db_policy db) d \<Longrightarrow> claimable (db_policy db) t d"
    using assms(3,4) by (cases "de_lease_expires_at d") (auto simp: claimable_def ready_at_def limit_of_def)
qed

subsection \<open>Every row has its turn\<close>

definition turn_taken :: "RelayPolicy \<Rightarrow> Delivery \<Rightarrow> Delivery \<Rightarrow> bool" where
  "turn_taken p d d' \<longleftrightarrow> de_event_id d' = de_event_id d
     \<and> (if de_attempt_count d < limit_of p d then de_attempt_count d < de_attempt_count d' else de_quarantined_at d' \<noteq> None)"

definition budget :: "RelayPolicy \<Rightarrow> Delivery \<Rightarrow> 'c source_db \<Rightarrow> nat" where
  "budget p d db = (if de_attempt_count d < limit_of p d then table_sum (attempts_left p) db else table_sum open_count db)"

definition turns :: "RelayPolicy \<Rightarrow> Delivery \<Rightarrow> 'c source_op list \<Rightarrow> nat" where
  "turns p d ops = length (filter (if de_attempt_count d < limit_of p d then is_claim else is_reap) ops)"

lemma waiting_progress:
  assumes "db_ok db" and "lib_ok L" and "d \<in> set (db_deliveries db)" and "open_row d"
    and "waiting_call (de_event_id d) (ready_at d) (db_policy db) op'" and "source_call L op' db = Inr db'"
  shows "(\<exists>d'\<in>set (db_deliveries db'). turn_taken (db_policy db) d d')
    \<or> d \<in> set (db_deliveries db') \<and> budget (db_policy db) d db' + turns (db_policy db) d [op'] \<le> budget (db_policy db) d db"
proof -
  from waiting_step [OF assms(1,2,5,6)] obtain f hs where rows: "db_deliveries db' = map f (db_deliveries db)"
    and move: "row_move L (db_policy db) (db_generation db) hs op' d (f d)" using assms(3) by blast
  have f: "f d \<in> set (db_deliveries db')" using assms(3) by (simp add: rows)
  have id: "de_event_id (f d) = de_event_id d" using waiting_move [OF move assms(5)] by blast
  note fall = sums_fall [OF assms(1,2,5,6)] and ready = ready_row [OF assms(1,3,4)]
  consider "turn_taken (db_policy db) d (f d)" | "f d = d"
    using waiting_row_moves [OF move assms(5,4)] id by (auto simp: turn_taken_def)
  then show ?thesis
  proof cases
    case 2
    have d: "d \<in> set (db_deliveries db')" using f 2 by simp
    show ?thesis
    proof (cases "de_attempt_count d < limit_of (db_policy db) d")
      case True
      show ?thesis
      proof (cases "is_claim op'")
        case claim: True
        then obtain owner limit lease_ms t fresh locked where op': "op' = ClaimRows owner limit lease_ms t fresh locked" by (cases op') simp_all
        have "claimed_row (db_policy db) owner lease_ms t fresh d \<in> set (db_deliveries db')
            \<or> table_sum (attempts_left (db_policy db)) db' < table_sum (attempts_left (db_policy db)) db"
          by (rule claim_takes [OF assms(1,3) ready(1) _ _ assms(6) [unfolded op']]) (use assms(5) True in \<open>simp_all add: op'\<close>)
        moreover have "turn_taken (db_policy db) d (claimed_row (db_policy db) owner lease_ms t fresh d)"
          using True by (simp add: turn_taken_def claimed_row_def)
        ultimately show ?thesis using d True claim by (auto simp: budget_def turns_def)
      qed (use d fall True in \<open>simp add: budget_def turns_def\<close>)
    next
      case False
      show ?thesis
      proof (cases "is_reap op'")
        case reap: True
        then obtain limit t locked where op': "op' = ReapExhausted limit t locked" by (cases op') simp_all
        have "reaped_row t d \<in> set (db_deliveries db') \<or> table_sum open_count db' < table_sum open_count db"
          by (rule reap_takes [OF assms(1,3) ready(2) _ _ assms(6) [unfolded op']]) (use assms(5) False in \<open>simp_all add: op'\<close>)
        moreover have "turn_taken (db_policy db) d (reaped_row t d)"
          using False by (simp add: turn_taken_def row_fields)
        ultimately show ?thesis using d False reap by (auto simp: budget_def turns_def)
      qed (use d fall False in \<open>simp add: budget_def turns_def\<close>)
    qed
  qed (use f in blast)
qed

lemma turn_kept:
  assumes "turn_taken p d d'" and "row_move L p g hs op' d' d''" and "waiting_call (de_event_id d) instant q op'"
  shows "turn_taken p d d''"
  using waiting_move [OF assms(2,3)] assms(1) by (auto simp: turn_taken_def)

lemma waiting_steps:
  assumes "source_steps L db ops db'" and "lib_ok L" and "db_ok db" and "d \<in> set (db_deliveries db)" and "open_row d"
    and "\<forall>op'\<in>set ops. waiting_call (de_event_id d) (ready_at d) (db_policy db) op'"
  shows "db_policy db' = db_policy db \<and> ((\<exists>d'\<in>set (db_deliveries db'). turn_taken (db_policy db) d d')
    \<or> d \<in> set (db_deliveries db') \<and> budget (db_policy db) d db' + turns (db_policy db) d ops \<le> budget (db_policy db) d db)"
  using assms(1,6)
proof (induction rule: source_steps.induct)
  case start
  then show ?case using assms(4) by (simp add: turns_def)
next
  case (call ops db' op' db'')
  have ok: "db_ok db'" using steps_ok [OF call.hyps(1) assms(2,3)] .
  have op': "waiting_call (de_event_id d) (ready_at d) (db_policy db') op'" and p: "db_policy db' = db_policy db"
    using call.IH call.prems by auto
  from waiting_step [OF ok assms(2) op' call.hyps(3)] obtain f hs where rows: "db_deliveries db'' = map f (db_deliveries db')"
    and move: "\<forall>x\<in>set (db_deliveries db'). row_move L (db_policy db') (db_generation db') hs op' x (f x)"
    and p': "db_policy db'' = db_policy db'" .
  have kept: "\<exists>d'\<in>set (db_deliveries db''). turn_taken (db_policy db) d d'"
    if d': "d' \<in> set (db_deliveries db')" "turn_taken (db_policy db) d d'" for d'
  proof (rule bexI [of _ "f d'"])
    show "turn_taken (db_policy db) d (f d')" using turn_kept [OF d'(2) _ op'] move d'(1) p by metis
  qed (use d'(1) in \<open>simp add: rows\<close>)
  have more: "turns (db_policy db) d (ops @ [op']) = turns (db_policy db) d ops + turns (db_policy db) d [op']"
    by (simp add: turns_def)
  from call.IH call.prems consider d' where "d' \<in> set (db_deliveries db')" "turn_taken (db_policy db) d d'"
    | "d \<in> set (db_deliveries db')" "budget (db_policy db) d db' + turns (db_policy db) d ops \<le> budget (db_policy db) d db"
    by auto
  then show ?case
  proof cases
    case 2
    from waiting_progress [OF ok assms(2) 2(1) assms(5) op' call.hyps(3)] 2(2) more show ?thesis
      unfolding p p' by auto
  qed (use kept p p' in auto)
next
  case (refused ops db' op' e)
  have ok: "db_ok db'" using steps_ok [OF refused.hyps(1) assms(2,3)] .
  have op': "waiting_call (de_event_id d) (ready_at d) (db_policy db') op'" using refused.IH refused.prems by auto
  have "\<not> is_claim op' \<and> \<not> is_reap op'" using worker_accepted [OF ok assms(2) op'] refused.hyps(3) by auto
  then have "turns (db_policy db) d (ops @ [op']) = turns (db_policy db) d ops" by (simp add: turns_def)
  with refused show ?case by simp
qed

text \<open>
  (C29) No event starves. Take any row that is neither delivered nor quarantined, and any calls from the instant
  on at which its delay and its lease are over: claims and reaps with arguments the functions accept, of any
  size from 1 to 32 and by any owners, and settlements, renewals, notes and acknowledgements of other
  rows, except that no attempt is given back by an outage. If the row has attempts left, it is claimed by
  the time as many claims were made as there are attempts left in the whole table; if it has none left, it is
  quarantined by the time as many reaps were made as there are open rows.
\<close>

theorem no_row_is_stuck:
  assumes "lib_ok L" and "db_ok db" and "d \<in> set (db_deliveries db)" and "de_delivered_at d = None" "de_quarantined_at d = None"
    and "source_steps L db ops db'"
    and "\<forall>op'\<in>set ops. waiting_call (de_event_id d) (ready_at d) (db_policy db) op'"
    and "table_sum (attempts_left (db_policy db)) db \<le> length (filter is_claim ops)"
    and "table_sum open_count db \<le> length (filter is_reap ops)"
  shows "\<exists>d'\<in>set (db_deliveries db'). de_event_id d' = de_event_id d
    \<and> (if de_attempt_count d < limit_of (db_policy db) d then de_attempt_count d < de_attempt_count d'
       else de_quarantined_at d' \<noteq> None)"
proof -
  let ?p = "db_policy db"
  have part: "f d \<le> table_sum f db'" if "d \<in> set (db_deliveries db')" for f
    using that member_le_sum_list [of "f d" "map f (db_deliveries db')"] by (simp add: table_sum_def)
  have "budget ?p d db \<le> turns ?p d ops" using assms(8,9) by (simp add: budget_def turns_def)
  moreover have "1 \<le> budget ?p d db'" if "d \<in> set (db_deliveries db')"
    using part [OF that, of "attempts_left ?p"] part [OF that, of open_count] assms(4,5)
    by (auto simp: budget_def attempts_left_def open_count_def)
  ultimately have "\<exists>d'\<in>set (db_deliveries db'). turn_taken ?p d d'"
    using waiting_steps [OF assms(6,1,2,3) _ assms(7)] assms(4,5) by fastforce
  then show ?thesis by (simp add: turn_taken_def)
qed

end
