(* ===== verification/Relay_Table_Examples.thy ===== *)
theory Relay_Table_Examples
  imports Relay_Examples Relay_Reconcile_Props Relay_Repair Relay_Progress
begin

text \<open>
  Concrete instances of the theorems on the delivery table, the reconciliation and the replay: one
  staged event that is claimed, quarantined, repaired and replayed.
\<close>

subsection \<open>A small table\<close>

definition small_lib :: "unit source_lib" where
  "small_lib = \<lparr>sl_digest = (\<lambda>_. replicate 32 0), sl_commitment = (\<lambda>_ _. replicate 32 1)\<rparr>"

definition small_event :: "unit staged_event" where
  "small_event = \<lparr>oe_event_id = 5, oe_columns = (), oe_attempt_count = 0, oe_delivered_at = None\<rparr>"

definition small_salts :: "uuid \<Rightarrow> int list" where "small_salts i = replicate 32 2"

definition first_db :: "unit source_db" where "first_db = migrated small_lib [small_event] 0 small_salts"

definition apply_ops :: "unit source_op list \<Rightarrow> unit source_db \<Rightarrow> unit source_db" where
  "apply_ops ops db = fold (\<lambda>op' db. case source_call small_lib op' db of Inr db' \<Rightarrow> db' | Inl _ \<Rightarrow> db) ops db"

definition claim_5 :: "unit source_op" where "claim_5 = ClaimRows 9 10 30000 1000 (\<lambda>i. i + 100) (\<lambda>_. False)"
definition unknown_5 :: "unit source_op" where "unknown_5 = SettleFailure 5 105 UNKNOWN_AT_LIMIT True 1000 False False False 2000"
definition deliver_5 :: "unit source_op" where "deliver_5 = SettleSuccess 5 105 7 (replicate 32 3) (lit ''stored'') 1 2000"

definition claimed_db :: "unit source_db" where "claimed_db = apply_ops [claim_5] first_db"
definition quarantined_db :: "unit source_db" where "quarantined_db = apply_ops [claim_5, unknown_5] first_db"
definition delivered_db :: "unit source_db" where "delivered_db = apply_ops [claim_5, deliver_5] first_db"

lemma small_lib_ok: "lib_ok small_lib"
  by (simp add: lib_ok_def small_lib_def)

lemma small_salts_ok: "\<forall>i. length (small_salts i) = 32"
  by (simp add: small_salts_def)

lemma apply_ops_steps: "list_all op_ok ops \<Longrightarrow> source_steps small_lib db ops (apply_ops ops db)"
proof (induction ops rule: rev_induct)
  case (snoc op' ops)
  then have "source_steps small_lib db ops (apply_ops ops db)" "op_ok op'" by simp_all
  then show ?case using source_steps.call source_steps.refused
    by (cases "source_call small_lib op' (apply_ops ops db)") (fastforce simp: apply_ops_def)+
qed (simp add: apply_ops_def source_steps.start)

lemma small_ops_ok: "op_ok claim_5" "op_ok unknown_5" "op_ok deliver_5"
  by (simp_all add: claim_5_def unknown_5_def deliver_5_def)

lemma first_db_ok: "db_ok first_db"
  unfolding first_db_def by (rule migrated_ok) (simp_all add: small_lib_ok small_salts_def)

lemma small_dbs_ok: "db_ok claimed_db" "db_ok quarantined_db" "db_ok delivered_db"
  unfolding claimed_db_def quarantined_db_def delivered_db_def
  by (rule steps_ok [OF apply_ops_steps small_lib_ok first_db_ok], simp add: small_ops_ok)+

lemma small_rows: "db_deliveries first_db \<noteq> []" "db_deliveries claimed_db \<noteq> []" "db_deliveries quarantined_db \<noteq> []"
  by code_simp+

lemma small_row_in: "hd (db_deliveries first_db) \<in> set (db_deliveries first_db)"
    "hd (db_deliveries claimed_db) \<in> set (db_deliveries claimed_db)"
    "hd (db_deliveries quarantined_db) \<in> set (db_deliveries quarantined_db)"
  using small_rows by simp_all

lemma claimed_row_facts: "de_event_id (hd (db_deliveries claimed_db)) = 5" "de_lease_token (hd (db_deliveries claimed_db)) = Some 105"
    "de_lease_expires_at (hd (db_deliveries claimed_db)) = Some 30001000" "de_attempt_count (hd (db_deliveries claimed_db)) = 1"
    "held_by 5 105 2000 (hd (db_deliveries claimed_db))"
  by code_simp+

subsection \<open>The table\<close>

theorem delivery_table_sound_witness:
  "db_ok (apply_ops [claim_5, unknown_5, ReplayRow 5 8 2 3000, ReplayRow 5 8 2 4000] first_db)
   \<and> length (db_history (apply_ops [claim_5, unknown_5, ReplayRow 5 8 2 3000, ReplayRow 5 8 2 4000] first_db)) = 1"
proof -
  let ?ops = "[claim_5, unknown_5, ReplayRow 5 8 2 3000, ReplayRow 5 8 2 4000]"
  have "length (db_history (apply_ops ?ops first_db)) = 1" by code_simp
  moreover have "source_steps small_lib first_db ?ops (apply_ops ?ops first_db)"
    by (rule apply_ops_steps) (simp add: small_ops_ok)
  then have "db_ok (apply_ops ?ops first_db)"
    using delivery_table_sound [OF small_lib_ok _ small_salts_ok, of "[small_event]" 0] by (simp add: first_db_def)
  ultimately show ?thesis by simp
qed

theorem terminal_evidence_kept_witness:
  "de_quarantined_at (hd (db_deliveries quarantined_db)) = Some 2000
   \<and> (\<exists>hs d'. db_history (apply_ops [ReplayRow 5 8 2 3000] quarantined_db) = db_history quarantined_db @ hs
      \<and> d' \<in> set (db_deliveries (apply_ops [ReplayRow 5 8 2 3000] quarantined_db))
      \<and> evidence_kept hs (hd (db_deliveries quarantined_db)) d')"
proof -
  have "de_quarantined_at (hd (db_deliveries quarantined_db)) = Some 2000" by code_simp
  moreover have "source_steps small_lib quarantined_db [ReplayRow 5 8 2 3000] (apply_ops [ReplayRow 5 8 2 3000] quarantined_db)"
    by (rule apply_ops_steps) simp
  ultimately show ?thesis using terminal_evidence_kept [OF _ small_lib_ok small_dbs_ok(2) small_row_in(3)] by blast
qed

theorem lease_is_exclusive_witness:
  "hd (db_deliveries claimed_db) \<in> set (db_deliveries (apply_ops
     [ReapExhausted 10 5000 (\<lambda>_. False), SettleSuccess 5 106 7 (replicate 32 3) (lit ''stored'') 1 6000, claim_5] claimed_db))"
proof -
  let ?ops = "[ReapExhausted 10 5000 (\<lambda>_. False), SettleSuccess 5 106 7 (replicate 32 3) (lit ''stored'') 1 6000, claim_5]"
  have "source_steps small_lib claimed_db ?ops (apply_ops ?ops claimed_db)" by (rule apply_ops_steps) (simp add: small_ops_ok)
  moreover have "\<forall>op'\<in>set ?ops. foreign 5 105 30001000 op'" by (simp add: claim_5_def)
  ultimately show ?thesis
    using lease_is_exclusive [OF small_lib_ok small_dbs_ok(1) small_row_in(2) claimed_row_facts(1-3)] by blast
qed

text \<open>
  Two events and claims of one row each: event 6 is passed over while event 5 goes first, and has its turn.
\<close>

definition second_event :: "unit staged_event" where "second_event = small_event\<lparr>oe_event_id := 6\<rparr>"

definition two_rows :: "unit source_db" where "two_rows = migrated small_lib [small_event, second_event] 0 small_salts"

definition worker_calls :: "unit source_op list" where
  "worker_calls = replicate (table_sum (attempts_left (db_policy two_rows)) two_rows)
       (ClaimRows 9 1 30000 1000 (\<lambda>i. i + 100) (\<lambda>_. False))
     @ replicate 2 (ReapExhausted 32 1000 (\<lambda>_. False))"

lemma two_rows_ok: "db_ok two_rows"
  unfolding two_rows_def by (rule migrated_ok) (simp_all add: small_lib_ok small_salts_def small_event_def second_event_def)

lemma first_claim_passes_over:
  "map de_attempt_count (db_deliveries (apply_ops (take 1 worker_calls) two_rows)) = [1, 0]"
  by code_simp

theorem no_row_is_stuck_witness:
  "\<exists>d'\<in>set (db_deliveries (apply_ops worker_calls two_rows)). de_event_id d' = 6 \<and> 0 < de_attempt_count d'"
proof -
  let ?d = "db_deliveries two_rows ! 1"
  have row: "?d \<in> set (db_deliveries two_rows)" by (rule nth_mem) code_simp
  have facts: "de_delivered_at ?d = None" "de_quarantined_at ?d = None" "de_event_id ?d = 6" "de_attempt_count ?d = 0"
    "ready_at ?d = 0" "0 < limit_of (db_policy two_rows) ?d" "table_sum open_count two_rows = 2"
    "ry_lease_min_ms (db_policy two_rows) \<le> 30000" "30000 \<le> ry_lease_max_ms (db_policy two_rows)"
    by code_simp+
  have "source_steps small_lib two_rows worker_calls (apply_ops worker_calls two_rows)"
    by (rule apply_ops_steps) (simp add: worker_calls_def list_all_iff)
  moreover have "\<forall>op'\<in>set worker_calls. waiting_call (de_event_id ?d) (ready_at ?d) (db_policy two_rows) op'"
    using facts by (auto simp: worker_calls_def)
  moreover have "table_sum (attempts_left (db_policy two_rows)) two_rows \<le> length (filter is_claim worker_calls)"
    "table_sum open_count two_rows \<le> length (filter is_reap worker_calls)"
    using facts by (simp_all add: worker_calls_def)
  ultimately show ?thesis
    using no_row_is_stuck [OF small_lib_ok two_rows_ok row facts(1,2)] facts(3,4,6) by fastforce
qed

theorem failure_returns_in_time_witness:
  "\<exists>d'\<in>set (db_deliveries (apply_ops [SettleFailure 5 105 OUTCOME_UNKNOWN False 1000 True True False 2000] claimed_db)).
     de_event_id d' = 5 \<and> de_lease_token d' = None \<and> de_attempt_count d' = 0"
proof -
  let ?op = "SettleFailure 5 105 OUTCOME_UNKNOWN False 1000 True True False 2000 :: unit source_op"
  have "\<not> isl (source_call small_lib ?op claimed_db)" by code_simp
  then obtain db' where call: "source_call small_lib ?op claimed_db = Inr db'" by (cases "source_call small_lib ?op claimed_db") auto
  then have "apply_ops [?op] claimed_db = db'" by (simp add: apply_ops_def)
  with failure_returns_in_time [OF small_dbs_ok(1) small_row_in(2) claimed_row_facts(5) call] claimed_row_facts(4) show ?thesis by auto
qed

definition stored_row :: IngestRow where
  "stored_row = \<lparr>iw_status = lit ''stored'', iw_seq = Some 7, iw_envelope_digest = Some GENESIS, iw_adapter_version = Some 1, iw_code = None\<rparr>"

lemma example_claim_decodes: "store_decodes example_claim"
proof -
  have "into_result stored_row = Inr example_receipt" by code_simp
  then show ?thesis by (metis example_claim_def claim_env.select_convs(2) option.inject store_decodes_def)
qed

theorem relay_calls_accepted_witness:
  "\<exists>db' updated. exec_call (CallSuccess (ae_id example_envelope) 2 7 GENESIS (lit ''stored'') 7) 2000 first_db = Inr (db', updated)"
proof -
  let ?i = "ae_id example_envelope"
  obtain g' where settle: "settle_decision undefined (db_policy first_db) (delivered_ledger ?i) ?i 2 0 Applied
     = (g', Inr (CallSuccess ?i 2 7 GENESIS (lit ''stored'') 7))" using delivered_settles by blast
  show ?thesis
    by (rule relay_calls_accepted [where calls = "[]" and g = "DeliveryLedger_new 4" and attempt = 0 and sha = undefined
          and token = 2 and g' = g', OF ledger_new_ok example_delivered _ _ _ example_claim_decodes first_db_ok])
      (use settle in \<open>simp_all add: note_effects_def delivered_ledger_def first_permit_def\<close>)
qed

subsection \<open>Reconciliation\<close>

definition small_receipt :: ReceiptRow where
  "small_receipt = \<lparr>rp_seq = 7, rp_event_id = 5, rp_origin = Relay, rp_event_type = lit ''document.created'',
     rp_envelope_digest = replicate 32 3, rp_source_commitment = Some (replicate 32 1), rp_expired = False, rp_recovery_epoch = 1\<rparr>"

definition foreign_receipt :: ReceiptRow where "foreign_receipt = small_receipt\<lparr>rp_seq := 8, rp_event_id := 6\<rparr>"

definition small_store :: store_snapshot where
  "small_store = \<lparr>sn_head = 9, sn_epoch = 1, sn_receipts = [(DOCUMENT_SOURCE, small_receipt), (DOCUMENT_SOURCE, foreign_receipt)],
     sn_controls = [], sn_lost = [], sn_refusal = Outage Other\<rparr>"

theorem reconcile_exact_witness:
  "\<exists>c. reconcile_classify (\<lambda>bytes. bytes) (snapshot_env small_lib 3000 delivered_db small_store) = Some (Inr c)
     \<and> class_count ClassOk (cl_counts c) = 1 \<and> rk_store_only (cl_counts c) = 1 \<and> cl_repairs c = []"
proof -
  have events: "\<forall>ev\<in>set (db_events delivered_db). 0 < oe_event_id ev" by code_simp
  have store: "snapshot_ok small_store" by code_simp
  have "length (filter (\<lambda>row. classify row (receipt_for small_store row) = ClassOk) (source_rows small_lib 3000 delivered_db)) = 1"
    "length (filter (unknown_receipt delivered_db (sn_head small_store)) (sn_source_receipts small_store)) = 1"
    "concat (map (\<lambda>row. repair_of (sn_epoch small_store) row (receipt_for small_store row)) (source_rows small_lib 3000 delivered_db)) = []"
    by code_simp+
  with reconcile_exact [OF small_dbs_ok(3) events store, of "\<lambda>bytes. bytes" small_lib 3000] show ?thesis by fastforce
qed

definition small_env :: repair_env where
  "small_env = \<lparr>rv_down = (\<lambda>_. False), rv_lost = (\<lambda>_. False), rv_clock = (\<lambda>k. 40000000 + int k), rv_salts = (\<lambda>_. small_salts)\<rparr>"

definition small_plan :: Classification where
  "small_plan = \<lparr>cl_watermark = 9, cl_store_epoch = 1, cl_counts = add_class ClassQuarantinedStored zero_counts,
     cl_id_set_digest = replicate 32 0, cl_repairs = [AckStored 5 small_receipt (replicate 32 1)]\<rparr>"

definition small_run :: "unit source_db \<times> (ReconcileError + ReconcileReport)" where
  "small_run = reconcile_run small_lib small_env True 77 small_plan (\<lambda>_. Inr (10, 1)) quarantined_db"

theorem repair_run_audited_witness:
  "de_delivered_at (hd (db_deliveries (fst small_run))) = Some 40000000 \<and> db_ok (fst small_run)
   \<and> repaired_by 10 1 {5} quarantined_db (fst small_run)
   \<and> (\<exists>report. snd small_run = Inr report \<and> at_most (rr_applied report) (planned_repairs small_plan)
        \<and> reported_growth no_repairs quarantined_db (rr_applied report) (fst small_run))"
proof -
  have acked: "de_delivered_at (hd (db_deliveries (fst small_run))) = Some 40000000" "\<not> isl (snd small_run)" by code_simp+
  then obtain report where report: "snd small_run = Inr report" by (cases "snd small_run") auto
  have "\<forall>k i. length (rv_salts small_env k i) = 32" by (simp add: small_env_def small_salts_def)
  moreover have "0 \<le> rk_unregistered (cl_counts small_plan)" by code_simp
  moreover have "reconcile_run small_lib small_env True 77 small_plan (\<lambda>_. Inr (10, 1)) quarantined_db = (fst small_run, snd small_run)"
    by (simp add: small_run_def)
  ultimately have "db_ok (fst small_run) \<and> (case Inr (10, 1) :: StoreError + int \<times> int of Inl e \<Rightarrow> False | Inr (seq, epoch) \<Rightarrow>
      repaired_by seq epoch (repaired_id ` set (cl_repairs small_plan)) quarantined_db (fst small_run)
      \<and> at_most (rr_applied report) (planned_repairs small_plan) \<and> reported_growth no_repairs quarantined_db (rr_applied report) (fst small_run))"
    using repair_run_audited [OF small_lib_ok small_dbs_ok(2), of small_env small_plan True 77 "\<lambda>_. Inr (10, 1)" "fst small_run" "snd small_run"
        "planned_repairs small_plan" "Inr (10, 1)"] report by simp
  then show ?thesis using acked report by (simp add: small_plan_def)
qed

definition small_replay :: "unit source_db \<times> (ReplayError + ReplayOutcome)" where
  "small_replay = replay_delivery small_lib small_env 5 (\<lambda>_. Inr (10, 1)) (\<lambda>db. db) quarantined_db"

theorem replay_audited_witness:
  "\<exists>out d. snd small_replay = Inr out \<and> ro_previous_quarantine_code out = UNKNOWN_AT_LIMIT
     \<and> ro_control_seq out = 10 \<and> replayed_by 40000001 UNKNOWN_AT_LIMIT 10 1 d quarantined_db (fst small_replay)"
proof -
  have "(case snd small_replay of Inr out \<Rightarrow> (ro_previous_quarantine_code out, ro_control_seq out, ro_control_epoch out) = (UNKNOWN_AT_LIMIT, 10, 1) | Inl _ \<Rightarrow> False)"
    by code_simp
  then obtain out where out: "snd small_replay = Inr out"
    "ro_previous_quarantine_code out = UNKNOWN_AT_LIMIT" "ro_control_seq out = 10" "ro_control_epoch out = 1"
    by (auto split: sum.splits)
  have clock: "rv_clock small_env 1 = 40000001" by (simp add: small_env_def)
  have "replay_delivery small_lib small_env 5 (\<lambda>_. Inr (10, 1)) (\<lambda>db. db) quarantined_db = (fst small_replay, snd small_replay)"
    by (simp add: small_replay_def)
  from replay_audited [OF small_lib_ok small_dbs_ok(2,2) this] out show ?thesis unfolding clock by auto
qed

end
