(* ===== verification/Search_Predicate.thy ===== *)
theory Search_Predicate
  imports Audit_Json
begin

text \<open>
  Typed values, facts and the predicate evaluator of \<open>search-core\<close> (\<open>fact.rs\<close>, \<open>predicate.rs\<close>).
  Truth has four values: a missing fact gives unknown, a comparison of values of different
  types or units is an error, and errors dominate. Strings compare by their code points, which
  is the order of their UTF-8 bytes. Dates, instants and durations are integers, and a set of
  facts is a map. The resolver of concepts is a parameter.
\<close>

subsection \<open>Values\<close>

record DecimalValue =
  dec_coefficient :: int
  dec_scale :: nat

record MoneyValue =
  mon_amount_minor :: int
  mon_currency :: ustr

record QuantityValue =
  qty_amount :: DecimalValue
  qty_unit :: ustr

datatype TypedValue =
    TBool bool
  | TString ustr
  | TInteger int
  | TDecimal DecimalValue
  | TDate int
  | TDateTime int
  | TDuration int
  | TConceptRef ustr
  | TResourceRef uuid
  | TList "TypedValue list"
  | TSet "TypedValue list"
  | TMoney MoneyValue
  | TQuantity QuantityValue

datatype Operand = OperandFact ustr | OperandValue TypedValue

datatype PredicateExpr =
    PAnd "PredicateExpr list"
  | POr "PredicateExpr list"
  | PNot PredicateExpr
  | PEq Operand Operand
  | PNe Operand Operand
  | PLt Operand Operand
  | PLte Operand Operand
  | PGt Operand Operand
  | PGte Operand Operand
  | PIn Operand Operand
  | PContains Operand Operand
  | PIntersects Operand Operand
  | PSubset Operand Operand
  | PExists ustr
  | PMissing ustr
  | PSameConcept Operand Operand
  | PIsA Operand Operand
  | PDescendantOf Operand Operand

datatype TruthValue = TTrue | TFalse | TUnknown | TError

definition truth_from_bool :: "bool \<Rightarrow> TruthValue" where
  "truth_from_bool value = (if value then TTrue else TFalse)"

primrec truth_not :: "TruthValue \<Rightarrow> TruthValue" where
  "truth_not TTrue = TFalse"
| "truth_not TFalse = TTrue"
| "truth_not TUnknown = TUnknown"
| "truth_not TError = TError"

record concept_resolver =
  cr_same_concept :: "ustr \<Rightarrow> ustr \<Rightarrow> TruthValue"
  cr_is_a :: "ustr \<Rightarrow> ustr \<Rightarrow> TruthValue"
  cr_descendant_of :: "ustr \<Rightarrow> ustr \<Rightarrow> TruthValue"

subsection \<open>Facts\<close>

datatype FactOrigin = ExplicitFact | AuthoritativeFact | ObservedFact | DerivedFact | InferredFact

record Fact =
  fa_fact_id :: "uuid option"
  fa_value :: TypedValue
  fa_origin :: FactOrigin
  fa_evidence_ref :: "ustr option"
  fa_observed_at :: "int option"
  fa_valid_from :: "int option"
  fa_valid_to :: "int option"
  fa_confidence_basis_points :: "int option"

definition Fact_new :: "TypedValue \<Rightarrow> FactOrigin \<Rightarrow> Fact" where
  "Fact_new value origin = \<lparr>fa_fact_id = None, fa_value = value, fa_origin = origin, fa_evidence_ref = None,
     fa_observed_at = None, fa_valid_from = None, fa_valid_to = None, fa_confidence_basis_points = None\<rparr>"

type_synonym FactSet = "ustr \<rightharpoonup> Fact"

definition FactSet_insert :: "ustr \<Rightarrow> Fact \<Rightarrow> FactSet \<Rightarrow> FactSet \<times> Fact option" where
  "FactSet_insert key f facts = (facts(key \<mapsto> f), facts key)"

subsection \<open>Comparison\<close>

datatype Ordering = Less | Equal | Greater

definition cmp :: "'a::linorder \<Rightarrow> 'a \<Rightarrow> Ordering" where
  "cmp a b = (if a < b then Less else if a = b then Equal else Greater)"

definition then_with :: "Ordering \<Rightarrow> Ordering \<Rightarrow> Ordering" where
  "then_with a b = (if a = Equal then b else a)"

primrec reverse :: "Ordering \<Rightarrow> Ordering" where
  "reverse Less = Greater"
| "reverse Equal = Equal"
| "reverse Greater = Less"

definition decimal_parts :: "DecimalValue \<Rightarrow> ustr \<times> ustr" where
  "decimal_parts value =
     (let ds = digits (nat \<bar>dec_coefficient value\<bar>);
          padded = replicate (dec_scale value + 1 - length ds) 48 @ ds;
          split = length padded - dec_scale value
      in (take split padded, drop split padded))"

definition pad_zeros :: "nat \<Rightarrow> ustr \<Rightarrow> ustr" where
  "pad_zeros width s = s @ replicate (width - length s) 48"

definition compare_decimal :: "DecimalValue \<Rightarrow> DecimalValue \<Rightarrow> Ordering" where
  "compare_decimal left right =
     (if dec_coefficient left = 0 \<and> dec_coefficient right = 0 then Equal
      else let left_negative = (dec_coefficient left < 0); right_negative = (dec_coefficient right < 0) in
        if left_negative \<noteq> right_negative then (if left_negative then Less else Greater)
        else
          let (left_integer, left_fraction) = decimal_parts left;
              (right_integer, right_fraction) = decimal_parts right;
              width = max (length left_fraction) (length right_fraction);
              order = then_with (cmp (length left_integer) (length right_integer))
                (then_with (cmp left_integer right_integer) (cmp (pad_zeros width left_fraction) (pad_zeros width right_fraction)))
          in if left_negative then reverse order else order)"

definition compare_values :: "TypedValue \<Rightarrow> TypedValue \<Rightarrow> Ordering option" where
  "compare_values left right = (case left of
     TBool a \<Rightarrow> (case right of TBool b \<Rightarrow> Some (cmp a b) | _ \<Rightarrow> None)
   | TString a \<Rightarrow> (case right of TString b \<Rightarrow> Some (cmp a b) | _ \<Rightarrow> None)
   | TInteger a \<Rightarrow> (case right of TInteger b \<Rightarrow> Some (cmp a b) | _ \<Rightarrow> None)
   | TDecimal a \<Rightarrow> (case right of TDecimal b \<Rightarrow> Some (compare_decimal a b) | _ \<Rightarrow> None)
   | TDate a \<Rightarrow> (case right of TDate b \<Rightarrow> Some (cmp a b) | _ \<Rightarrow> None)
   | TDateTime a \<Rightarrow> (case right of TDateTime b \<Rightarrow> Some (cmp a b) | _ \<Rightarrow> None)
   | TDuration a \<Rightarrow> (case right of TDuration b \<Rightarrow> Some (cmp a b) | _ \<Rightarrow> None)
   | TConceptRef a \<Rightarrow> (case right of TConceptRef b \<Rightarrow> Some (cmp a b) | _ \<Rightarrow> None)
   | TResourceRef a \<Rightarrow> (case right of TResourceRef b \<Rightarrow> Some (cmp a b) | _ \<Rightarrow> None)
   | TMoney a \<Rightarrow> (case right of TMoney b \<Rightarrow>
       if mon_currency a = mon_currency b then Some (cmp (mon_amount_minor a) (mon_amount_minor b)) else None | _ \<Rightarrow> None)
   | TQuantity a \<Rightarrow> (case right of TQuantity b \<Rightarrow>
       if qty_unit a = qty_unit b then Some (compare_decimal (qty_amount a) (qty_amount b)) else None | _ \<Rightarrow> None)
   | TList _ \<Rightarrow> None
   | TSet _ \<Rightarrow> None)"

definition and_step :: "TruthValue \<Rightarrow> TruthValue \<Rightarrow> TruthValue" where
  "and_step value result =
     (if result = TError \<or> value = TError then TError
      else if result = TFalse \<or> value = TFalse then TFalse
      else if result = TUnknown \<or> value = TUnknown then TUnknown
      else TTrue)"

definition combine_and :: "TruthValue list \<Rightarrow> TruthValue" where
  "combine_and values = fold and_step values TTrue"

definition or_step :: "TruthValue \<Rightarrow> TruthValue \<Rightarrow> TruthValue" where
  "or_step value result =
     (if result = TError \<or> value = TError then TError
      else if result = TTrue \<or> value = TTrue then TTrue
      else if result = TUnknown \<or> value = TUnknown then TUnknown
      else TFalse)"

definition combine_or :: "TruthValue list \<Rightarrow> TruthValue" where
  "combine_or values = fold or_step values TFalse"

definition MAX_PREDICATE_DEPTH :: nat where "MAX_PREDICATE_DEPTH = 64"

function values_equal_at_depth :: "TypedValue \<Rightarrow> TypedValue \<Rightarrow> nat \<Rightarrow> TruthValue"
  and membership_in_slice_at_depth :: "TypedValue \<Rightarrow> TypedValue list \<Rightarrow> nat \<Rightarrow> TruthValue" where
  "values_equal_at_depth left right depth =
     (if MAX_PREDICATE_DEPTH < depth then TError
      else let scalar = (case compare_values left right of Some order \<Rightarrow> truth_from_bool (order = Equal) | None \<Rightarrow> TError) in
        (case left of
          TList a \<Rightarrow> (case right of
              TList b \<Rightarrow>
                if length a \<noteq> length b then TFalse
                else combine_and (map (\<lambda>(x, y). values_equal_at_depth x y (depth + 1)) (zip a b))
            | _ \<Rightarrow> scalar)
        | TSet a \<Rightarrow> (case right of
              TSet b \<Rightarrow>
                combine_and (map (\<lambda>item. membership_in_slice_at_depth item b (depth + 1)) a
                  @ map (\<lambda>item. membership_in_slice_at_depth item a (depth + 1)) b)
            | _ \<Rightarrow> scalar)
        | _ \<Rightarrow> scalar))"
| "membership_in_slice_at_depth needle haystack depth =
     (if MAX_PREDICATE_DEPTH < depth then TError
      else let values = map (\<lambda>item. values_equal_at_depth needle item (depth + 1)) haystack in
        if TError \<in> set values then TError else truth_from_bool (TTrue \<in> set values))"
  by pat_completeness auto
termination
  by (relation "measure (\<lambda>x. case x of Inl (_, _, d) \<Rightarrow> MAX_PREDICATE_DEPTH + 1 - d | Inr (_, _, d) \<Rightarrow> MAX_PREDICATE_DEPTH + 1 - d)") auto

declare values_equal_at_depth.simps [simp del] membership_in_slice_at_depth.simps [simp del]

definition values_equal :: "TypedValue \<Rightarrow> TypedValue \<Rightarrow> TruthValue" where
  "values_equal left right = values_equal_at_depth left right 0"

definition semantically_equal :: "TypedValue \<Rightarrow> TypedValue \<Rightarrow> bool" where
  "semantically_equal left right \<longleftrightarrow> values_equal left right = TTrue"

definition collection :: "TypedValue \<Rightarrow> TypedValue list option" where
  "collection value = (case value of TList values \<Rightarrow> Some values | TSet values \<Rightarrow> Some values | _ \<Rightarrow> None)"

definition membership_in_slice :: "TypedValue \<Rightarrow> TypedValue list \<Rightarrow> TruthValue" where
  "membership_in_slice needle haystack = membership_in_slice_at_depth needle haystack 0"

definition membership :: "TypedValue \<Rightarrow> TypedValue \<Rightarrow> TruthValue" where
  "membership needle haystack = (case collection haystack of Some values \<Rightarrow> membership_in_slice needle values | None \<Rightarrow> TError)"

definition collection_relation :: "TypedValue \<Rightarrow> TypedValue \<Rightarrow> bool \<Rightarrow> TruthValue" where
  "collection_relation left right intersects =
     (case (collection left, collection right) of
        (Some a, Some b) \<Rightarrow>
          let values = map (\<lambda>item. membership_in_slice item b) a in
          if intersects then combine_or values else combine_and values
      | _ \<Rightarrow> TError)"

subsection \<open>Evaluation\<close>

definition resolve_operand :: "Operand \<Rightarrow> FactSet \<Rightarrow> TypedValue option" where
  "resolve_operand operand facts = (case operand of
     OperandFact key \<Rightarrow> map_option fa_value (facts key) | OperandValue value \<Rightarrow> Some value)"

definition binary :: "Operand \<Rightarrow> Operand \<Rightarrow> FactSet \<Rightarrow> (TypedValue \<Rightarrow> TypedValue \<Rightarrow> TruthValue) \<Rightarrow> TruthValue" where
  "binary left right facts compare = (case (resolve_operand left facts, resolve_operand right facts) of
     (Some a, Some b) \<Rightarrow> compare a b | _ \<Rightarrow> TUnknown)"

definition ordered :: "Operand \<Rightarrow> Operand \<Rightarrow> FactSet \<Rightarrow> (Ordering \<Rightarrow> bool) \<Rightarrow> TruthValue" where
  "ordered left right facts accepts = binary left right facts (\<lambda>a b.
     case compare_values a b of Some order \<Rightarrow> truth_from_bool (accepts order) | None \<Rightarrow> TError)"

definition concept_binary :: "Operand \<Rightarrow> Operand \<Rightarrow> FactSet \<Rightarrow> (ustr \<Rightarrow> ustr \<Rightarrow> TruthValue) \<Rightarrow> TruthValue" where
  "concept_binary left right facts evaluate = binary left right facts (\<lambda>a b.
     case a of TConceptRef a \<Rightarrow> (case b of TConceptRef b \<Rightarrow> evaluate a b | _ \<Rightarrow> TError) | _ \<Rightarrow> TError)"

function at_depth :: "concept_resolver \<Rightarrow> FactSet \<Rightarrow> PredicateExpr \<Rightarrow> nat \<Rightarrow> TruthValue" where
  "at_depth concepts facts expression depth =
     (if MAX_PREDICATE_DEPTH < depth then TError
      else (case expression of
          PAnd children \<Rightarrow> if children = [] then TError
            else combine_and (map (\<lambda>child. at_depth concepts facts child (depth + 1)) children)
        | POr children \<Rightarrow> if children = [] then TError
            else combine_or (map (\<lambda>child. at_depth concepts facts child (depth + 1)) children)
        | PNot child \<Rightarrow> truth_not (at_depth concepts facts child (depth + 1))
        | PExists key \<Rightarrow> truth_from_bool (facts key \<noteq> None)
        | PMissing key \<Rightarrow> truth_from_bool (facts key = None)
        | PEq left right \<Rightarrow> binary left right facts values_equal
        | PNe left right \<Rightarrow> binary left right facts (\<lambda>a b. truth_not (values_equal a b))
        | PLt left right \<Rightarrow> ordered left right facts (\<lambda>order. order = Less)
        | PLte left right \<Rightarrow> ordered left right facts (\<lambda>order. order \<noteq> Greater)
        | PGt left right \<Rightarrow> ordered left right facts (\<lambda>order. order = Greater)
        | PGte left right \<Rightarrow> ordered left right facts (\<lambda>order. order \<noteq> Less)
        | PIn needle haystack \<Rightarrow> binary needle haystack facts membership
        | PContains haystack needle \<Rightarrow> binary haystack needle facts (\<lambda>a b. membership b a)
        | PIntersects left right \<Rightarrow> binary left right facts (\<lambda>a b. collection_relation a b True)
        | PSubset left right \<Rightarrow> binary left right facts (\<lambda>a b. collection_relation a b False)
        | PSameConcept left right \<Rightarrow> concept_binary left right facts (cr_same_concept concepts)
        | PIsA left right \<Rightarrow> concept_binary left right facts (cr_is_a concepts)
        | PDescendantOf left right \<Rightarrow> concept_binary left right facts (cr_descendant_of concepts)))"
  by pat_completeness auto
termination
  by (relation "measure (\<lambda>(_, _, _, d). MAX_PREDICATE_DEPTH + 1 - d)") auto

declare at_depth.simps [simp del]

definition evaluate :: "PredicateExpr \<Rightarrow> FactSet \<Rightarrow> concept_resolver \<Rightarrow> TruthValue" where
  "evaluate expression facts concepts = at_depth concepts facts expression 0"

end
