(* ===== verification/Search_Discovery.thy ===== *)
theory Search_Discovery
  imports Search_Predicate
begin

text \<open>
  The decisions of \<open>search-core\<close>: applicability of a candidate (\<open>applicability.rs\<close>, \<open>contrast.rs\<close>,
  \<open>discovery.rs\<close>), authority between assertions (\<open>assertion.rs\<close>, \<open>authority.rs\<close>), sufficiency of
  evidence (\<open>evidence.rs\<close>), identity (\<open>identity.rs\<close>), effective state of a remote resource
  (\<open>observation.rs\<close>), freshness (\<open>temporal.rs\<close>), session bindings (\<open>binding.rs\<close>), content permissions
  (\<open>materialization.rs\<close>) and typed relations with the plans that traverse them (\<open>relation.rs\<close>,
  \<open>graph.rs\<close>). A loop with flags is a fold over the flags, a stack is a list with its top first, a \<open>BTreeSet\<close> is
  a sorted list without duplicates.
\<close>

subsection \<open>Candidates and gaps\<close>

datatype CandidateIdentityClass = DurableResource | RemoteStableReference | EphemeralCandidate

record FederatedCandidate =
  fc_candidate_id :: ustr
  fc_identity_class :: CandidateIdentityClass
  fc_resource_ref :: "uuid option"
  fc_logical_resource_ref :: "uuid option"
  fc_source_ref :: uuid
  fc_retrieval_method :: ustr
  fc_locator :: "ustr option"
  fc_matched_signals :: "ustr list"
  fc_materialization_state :: "ustr option"
  fc_provenance :: "ustr option"
  fc_retrieval_trace_ref :: "ustr option"

definition FederatedCandidate_new :: "ustr \<Rightarrow> CandidateIdentityClass \<Rightarrow> uuid \<Rightarrow> ustr \<Rightarrow> FederatedCandidate" where
  "FederatedCandidate_new candidate_id identity_class source_ref retrieval_method =
     \<lparr>fc_candidate_id = candidate_id, fc_identity_class = identity_class, fc_resource_ref = None,
      fc_logical_resource_ref = None, fc_source_ref = source_ref, fc_retrieval_method = retrieval_method,
      fc_locator = None, fc_matched_signals = [], fc_materialization_state = None, fc_provenance = None,
      fc_retrieval_trace_ref = None\<rparr>"

datatype GapReason =
    GapMissingFact
  | GapInsufficientEvidenceClass
  | GapAuthority
  | GapFreshness
  | GapCorroboration
  | GapConflict
  | GapAvailability
  | GapUnsupportedCoverage

record InformationGap =
  ig_gap_id :: "uuid option"
  ig_required_fact :: ustr
  ig_reason :: GapReason
  ig_blocking :: bool
  ig_acceptable_evidence :: "ustr list"

definition InformationGap_new :: "ustr \<Rightarrow> GapReason \<Rightarrow> bool \<Rightarrow> InformationGap" where
  "InformationGap_new required_fact reason blocking =
     \<lparr>ig_gap_id = None, ig_required_fact = required_fact, ig_reason = reason, ig_blocking = blocking,
      ig_acceptable_evidence = []\<rparr>"

subsection \<open>Applicability\<close>

datatype ApplicabilityState = AppApplicable | AppExcluded | AppUnresolved | AppInvalid

datatype DiscriminatorImportance = HardRule | SoftRule

datatype MinimumFactEvidence = AnyFact | NotInferred | AuthoritativeOrExplicit

primrec evidence_accepts :: "MinimumFactEvidence \<Rightarrow> FactOrigin \<Rightarrow> bool" where
  "evidence_accepts AnyFact origin = True"
| "evidence_accepts NotInferred origin = (origin \<noteq> InferredFact)"
| "evidence_accepts AuthoritativeOrExplicit origin = (origin \<in> {AuthoritativeFact, ExplicitFact})"

record Discriminator =
  di_facet :: ustr
  di_importance :: DiscriminatorImportance
  di_predicate :: PredicateExpr
  di_minimum_fact_evidence :: MinimumFactEvidence

definition Discriminator_new :: "ustr \<Rightarrow> DiscriminatorImportance \<Rightarrow> PredicateExpr \<Rightarrow> Discriminator" where
  "Discriminator_new facet importance predicate =
     \<lparr>di_facet = facet, di_importance = importance, di_predicate = predicate, di_minimum_fact_evidence = AnyFact\<rparr>"

record ApplicabilityEvaluation =
  ae_state :: ApplicabilityState
  ae_matched_conditions :: "ustr list"
  ae_resolved_discriminators :: "ustr list"
  ae_remaining_nonblocking_unknowns :: "ustr list"
  ae_gaps :: "InformationGap list"
  ae_reasons :: "ustr list"

record QualifiedResource =
  qr_resource_ref :: uuid
  qr_source_ref :: "uuid option"
  qr_usage_profile_ref :: "uuid option"
  qr_applicability :: ApplicabilityState
  qr_matched_conditions :: "ustr list"
  qr_resolved_discriminators :: "ustr list"
  qr_remaining_nonblocking_unknowns :: "ustr list"
  qr_contrast_resolution :: "ustr option"
  qr_evidence_refs :: "ustr list"
  qr_qualification_trace :: "ustr list"

definition qualify :: "ApplicabilityEvaluation \<Rightarrow> FederatedCandidate \<Rightarrow> QualifiedResource option" where
  "qualify evaluation candidate =
     (if ae_state evaluation \<noteq> AppApplicable then None
      else map_option (\<lambda>resource_ref. \<lparr>qr_resource_ref = resource_ref, qr_source_ref = Some (fc_source_ref candidate),
        qr_usage_profile_ref = None, qr_applicability = ae_state evaluation,
        qr_matched_conditions = ae_matched_conditions evaluation,
        qr_resolved_discriminators = ae_resolved_discriminators evaluation,
        qr_remaining_nonblocking_unknowns = ae_remaining_nonblocking_unknowns evaluation,
        qr_contrast_resolution = None, qr_evidence_refs = [], qr_qualification_trace = ae_reasons evaluation\<rparr>)
        (fc_resource_ref candidate))"

record RejectedCandidate =
  rc_candidate_id :: ustr
  rc_state :: ApplicabilityState
  rc_reason_trace :: "ustr list"

definition from_evaluation :: "FederatedCandidate \<Rightarrow> ApplicabilityEvaluation \<Rightarrow> RejectedCandidate option" where
  "from_evaluation candidate evaluation =
     (if ae_state evaluation = AppApplicable then None
      else Some \<lparr>rc_candidate_id = fc_candidate_id candidate, rc_state = ae_state evaluation,
        rc_reason_trace = ae_reasons evaluation\<rparr>)"

definition weak_fact :: "FactSet \<Rightarrow> MinimumFactEvidence \<Rightarrow> ustr \<Rightarrow> bool" where
  "weak_fact facts minimum key \<longleftrightarrow> is_some_and (\<lambda>f. \<not> evidence_accepts minimum (fa_origin f)) (facts key)"

definition operand_keys :: "Operand list \<Rightarrow> ustr list" where
  "operand_keys operands = concat (map (\<lambda>operand. case operand of OperandFact key \<Rightarrow> [key] | OperandValue _ \<Rightarrow> []) operands)"

definition leaf_keys :: "PredicateExpr \<Rightarrow> ustr list" where
  "leaf_keys expression = (case expression of
     PAnd _ \<Rightarrow> [] | POr _ \<Rightarrow> [] | PNot _ \<Rightarrow> []
   | PExists key \<Rightarrow> [key] | PMissing key \<Rightarrow> [key]
   | PEq left right \<Rightarrow> operand_keys [left, right] | PNe left right \<Rightarrow> operand_keys [left, right]
   | PLt left right \<Rightarrow> operand_keys [left, right] | PLte left right \<Rightarrow> operand_keys [left, right]
   | PGt left right \<Rightarrow> operand_keys [left, right] | PGte left right \<Rightarrow> operand_keys [left, right]
   | PIn left right \<Rightarrow> operand_keys [left, right] | PContains left right \<Rightarrow> operand_keys [left, right]
   | PIntersects left right \<Rightarrow> operand_keys [left, right] | PSubset left right \<Rightarrow> operand_keys [left, right]
   | PSameConcept left right \<Rightarrow> operand_keys [left, right] | PIsA left right \<Rightarrow> operand_keys [left, right]
   | PDescendantOf left right \<Rightarrow> operand_keys [left, right])"

definition pushed_children :: "PredicateExpr \<Rightarrow> PredicateExpr list" where
  "pushed_children expression = (case expression of
     PAnd children \<Rightarrow> children | POr children \<Rightarrow> children | PNot child \<Rightarrow> [child] | _ \<Rightarrow> [])"

lemma pushed_children_size: "size_list size (pushed_children expression) \<le> size expression"
  by (cases expression) (simp_all add: pushed_children_def)

function pending_loop :: "FactSet \<Rightarrow> MinimumFactEvidence \<Rightarrow> PredicateExpr list \<Rightarrow> ustr option" where
  "pending_loop facts minimum [] = None"
| "pending_loop facts minimum (current # pending) =
     (case find (weak_fact facts minimum) (leaf_keys current) of
        Some key \<Rightarrow> Some key
      | None \<Rightarrow> pending_loop facts minimum (pushed_children current @ pending))"
  by pat_completeness auto
termination
proof (relation "measure (\<lambda>(_, _, pending). size_list size pending)")
  fix facts minimum and current :: PredicateExpr and pending
  show "((facts, minimum, pushed_children current @ pending), facts, minimum, current # pending)
      \<in> measure (\<lambda>(_, _, pending). size_list size pending)"
    using pushed_children_size [of current] by simp
qed simp

definition insufficient_predicate_fact :: "PredicateExpr \<Rightarrow> FactSet \<Rightarrow> MinimumFactEvidence \<Rightarrow> ustr option" where
  "insufficient_predicate_fact expression facts minimum =
     (if minimum = AnyFact then None else pending_loop facts minimum [expression])"

definition insufficient_fact :: "FactSet \<Rightarrow> Discriminator \<Rightarrow> ustr option" where
  "insufficient_fact facts rule =
     (if weak_fact facts (di_minimum_fact_evidence rule) (di_facet rule) then Some (di_facet rule)
      else insufficient_predicate_fact (di_predicate rule) facts (di_minimum_fact_evidence rule))"

definition rule_value :: "concept_resolver \<Rightarrow> FactSet \<Rightarrow> Discriminator \<Rightarrow> TruthValue" where
  "rule_value concepts facts rule =
     (let evaluated = evaluate (di_predicate rule) facts concepts in
      if insufficient_fact facts rule \<noteq> None \<and> evaluated \<noteq> TError then TUnknown else evaluated)"

record applicability_flags =
  af_hard_false :: bool
  af_hard_unknown :: bool
  af_invalid :: bool
  af_result :: ApplicabilityEvaluation

definition push_reason :: "ustr \<Rightarrow> string \<Rightarrow> ApplicabilityEvaluation \<Rightarrow> ApplicabilityEvaluation" where
  "push_reason facet reason result = result\<lparr>ae_reasons := ae_reasons result @ [facet @ lit reason]\<rparr>"

definition rule_gap :: "FactSet \<Rightarrow> Discriminator \<Rightarrow> InformationGap" where
  "rule_gap facts rule = InformationGap_new
     (case insufficient_fact facts rule of Some key \<Rightarrow> key | None \<Rightarrow> di_facet rule)
     (if insufficient_fact facts rule \<noteq> None then GapInsufficientEvidenceClass else GapMissingFact) True"

definition apply_rule :: "concept_resolver \<Rightarrow> FactSet \<Rightarrow> Discriminator \<Rightarrow> applicability_flags \<Rightarrow> applicability_flags" where
  "apply_rule concepts facts rule s =
     (let facet = di_facet rule; result = af_result s in
      case rule_value concepts facts rule of
        TError \<Rightarrow> s\<lparr>af_invalid := True, af_result := push_reason facet '': predicate error'' result\<rparr>
      | TFalse \<Rightarrow> (case di_importance rule of
            HardRule \<Rightarrow> s\<lparr>af_hard_false := True, af_result := push_reason facet '': hard mismatch'' result\<rparr>
          | SoftRule \<Rightarrow> s\<lparr>af_result := push_reason facet '': soft mismatch''
              (result\<lparr>ae_resolved_discriminators := ae_resolved_discriminators result @ [facet]\<rparr>)\<rparr>)
      | TUnknown \<Rightarrow> (case di_importance rule of
            HardRule \<Rightarrow> s\<lparr>af_hard_unknown := True, af_result := push_reason facet '': hard unresolved''
              (result\<lparr>ae_gaps := ae_gaps result @ [rule_gap facts rule]\<rparr>)\<rparr>
          | SoftRule \<Rightarrow> s\<lparr>af_result := push_reason facet '': soft unresolved''
              (result\<lparr>ae_remaining_nonblocking_unknowns := ae_remaining_nonblocking_unknowns result @ [facet]\<rparr>)\<rparr>)
      | TTrue \<Rightarrow> s\<lparr>af_result := result\<lparr>ae_matched_conditions := ae_matched_conditions result @ [facet],
              ae_resolved_discriminators := ae_resolved_discriminators result @ [facet]\<rparr>\<rparr>)"

definition empty_evaluation :: ApplicabilityEvaluation where
  "empty_evaluation = \<lparr>ae_state = AppApplicable, ae_matched_conditions = [], ae_resolved_discriminators = [],
     ae_remaining_nonblocking_unknowns = [], ae_gaps = [], ae_reasons = []\<rparr>"

definition evaluate_applicability ::
  "FederatedCandidate \<Rightarrow> FactSet \<Rightarrow> Discriminator list \<Rightarrow> concept_resolver \<Rightarrow> ApplicabilityEvaluation" where
  "evaluate_applicability candidate facts discriminators concepts =
     (let s = fold (apply_rule concepts facts) discriminators
            \<lparr>af_hard_false = False, af_hard_unknown = False, af_invalid = False, af_result = empty_evaluation\<rparr>
      in (af_result s)\<lparr>ae_state := (if af_invalid s then AppInvalid else if af_hard_false s then AppExcluded
            else if af_hard_unknown s then AppUnresolved else AppApplicable)\<rparr>)"

record ContrastSet =
  co_contrast_set_id :: ustr
  co_members :: "uuid list"
  co_discriminators :: "Discriminator list"

definition ContrastSet_new :: "ustr \<Rightarrow> uuid list \<Rightarrow> Discriminator list \<Rightarrow> ContrastSet" where
  "ContrastSet_new contrast_set_id members discriminators =
     \<lparr>co_contrast_set_id = contrast_set_id, co_members = members, co_discriminators = discriminators\<rparr>"

definition resolve_contrast ::
  "ContrastSet \<Rightarrow> FederatedCandidate \<Rightarrow> FactSet \<Rightarrow> concept_resolver \<Rightarrow> ApplicabilityEvaluation" where
  "resolve_contrast contrast_set candidate facts concepts =
     (let result = evaluate_applicability candidate facts (co_discriminators contrast_set) concepts in
      if \<not> is_some_and (\<lambda>resource. resource \<in> set (co_members contrast_set)) (fc_resource_ref candidate)
      then result\<lparr>ae_state := AppInvalid, ae_reasons := ae_reasons result @ [lit ''candidate outside contrast set'']\<rparr>
      else result)"

subsection \<open>Authority\<close>

datatype AssertionOrigin =
    AssertedAuthoritative
  | AssertedDeclared
  | AssertedCurated
  | AssertedDerived
  | AssertedExtracted
  | AssertedObserved
  | AssertedInferred

record Assertion =
  as_assertion_id :: "uuid option"
  as_subject_ref :: ustr
  as_predicate :: ustr
  as_value :: TypedValue
  as_source_ref :: ustr
  as_origin :: AssertionOrigin
  as_authority_scope :: ustr
  as_evidence_refs :: "ustr list"
  as_observed_at :: int
  as_effective_from :: "int option"
  as_effective_to :: "int option"
  as_derived_by :: "ustr option"

definition Assertion_new ::
  "ustr \<Rightarrow> ustr \<Rightarrow> TypedValue \<Rightarrow> ustr \<Rightarrow> AssertionOrigin \<Rightarrow> ustr \<Rightarrow> int \<Rightarrow> Assertion" where
  "Assertion_new subject_ref predicate value source_ref origin authority_scope observed_at =
     \<lparr>as_assertion_id = None, as_subject_ref = subject_ref, as_predicate = predicate, as_value = value,
      as_source_ref = source_ref, as_origin = origin, as_authority_scope = authority_scope, as_evidence_refs = [],
      as_observed_at = observed_at, as_effective_from = None, as_effective_to = None, as_derived_by = None\<rparr>"

record AuthorityPolicy =
  ap_ranks :: "ustr \<times> ustr \<times> AssertionOrigin \<rightharpoonup> nat"

definition grant_rank :: "ustr \<Rightarrow> ustr \<Rightarrow> AssertionOrigin \<Rightarrow> nat \<Rightarrow> AuthorityPolicy \<Rightarrow> AuthorityPolicy" where
  "grant_rank authority_scope predicate origin rank policy =
     policy\<lparr>ap_ranks := (ap_ranks policy)((authority_scope, predicate, origin) \<mapsto> rank)\<rparr>"

definition rank_of :: "AuthorityPolicy \<Rightarrow> ustr \<Rightarrow> ustr \<Rightarrow> AssertionOrigin \<Rightarrow> nat option" where
  "rank_of policy authority_scope predicate origin = ap_ranks policy (authority_scope, predicate, origin)"

record AuthorityConflict =
  ac_subject_ref :: ustr
  ac_predicate :: ustr
  ac_authority_scope :: ustr
  ac_rank :: nat
  ac_values :: "TypedValue list"

datatype AuthorityResolution =
    AuthorityUnresolved
  | AuthorityResolved TypedValue
  | AuthorityConflicting AuthorityConflict

definition scoped_assertions ::
  "Assertion list \<Rightarrow> AuthorityPolicy \<Rightarrow> ustr \<Rightarrow> ustr \<Rightarrow> ustr \<Rightarrow> (Assertion \<times> nat) list" where
  "scoped_assertions assertions policy subject_ref predicate authority_scope =
     List.map_filter (\<lambda>a. map_option (\<lambda>rank. (a, rank)) (rank_of policy authority_scope predicate (as_origin a)))
       (filter (\<lambda>a. as_subject_ref a = subject_ref \<and> as_predicate a = predicate \<and> as_authority_scope a = authority_scope)
          assertions)"

definition is_protected :: "Assertion \<Rightarrow> bool" where
  "is_protected a \<longleftrightarrow> as_origin a \<in> {AssertedAuthoritative, AssertedCurated}"

definition eligible_assertions :: "(Assertion \<times> nat) list \<Rightarrow> (Assertion \<times> nat) list" where
  "eligible_assertions scoped =
     (let has_protected = (\<exists>(a, _)\<in>set scoped. is_protected a) in
      filter (\<lambda>(a, _). \<not> has_protected \<or> as_origin a \<noteq> AssertedInferred) scoped)"

definition push_value :: "nat \<Rightarrow> Assertion \<times> nat \<Rightarrow> TypedValue list \<Rightarrow> TypedValue list" where
  "push_value best_rank ranked values = (case ranked of (a, rank) \<Rightarrow>
     if rank = best_rank \<and> \<not> (\<exists>existing\<in>set values. semantically_equal existing (as_value a))
     then values @ [as_value a] else values)"

definition resolve_assertions ::
  "Assertion list \<Rightarrow> AuthorityPolicy \<Rightarrow> ustr \<Rightarrow> ustr \<Rightarrow> ustr \<Rightarrow> AuthorityResolution" where
  "resolve_assertions assertions policy subject_ref predicate authority_scope =
     (let eligible = eligible_assertions (scoped_assertions assertions policy subject_ref predicate authority_scope) in
      if eligible = [] then AuthorityUnresolved
      else let best_rank = Max (set (map snd eligible));
               values = fold (push_value best_rank) eligible []
        in if length values = 1 then AuthorityResolved (hd values)
           else AuthorityConflicting \<lparr>ac_subject_ref = subject_ref, ac_predicate = predicate,
             ac_authority_scope = authority_scope, ac_rank = best_rank, ac_values = values\<rparr>)"

subsection \<open>Identity\<close>

datatype IdentityState = IdentityResolved | IdentityProvisional | IdentityUnresolved | IdentityConflict

datatype IdentityEvidenceKind =
    StableProviderId
  | SourceNativeId
  | CanonicalUri
  | IntegrityDigest
  | ExplicitDeclaration
  | SchemaAndContentIdentity
  | NameSimilarity
  | SchemaSimilarity
  | LlmInference

definition is_strong :: "IdentityEvidenceKind \<Rightarrow> bool" where
  "is_strong kind \<longleftrightarrow> kind \<in> {StableProviderId, SourceNativeId, CanonicalUri, IntegrityDigest, ExplicitDeclaration,
     SchemaAndContentIdentity}"

record IdentityEvidence =
  ie_kind :: IdentityEvidenceKind
  ie_supports_same_resource :: bool
  ie_evidence_ref :: "ustr option"

definition IdentityEvidence_new :: "IdentityEvidenceKind \<Rightarrow> bool \<Rightarrow> IdentityEvidence" where
  "IdentityEvidence_new kind supports =
     \<lparr>ie_kind = kind, ie_supports_same_resource = supports, ie_evidence_ref = None\<rparr>"

definition resolve_identity :: "IdentityEvidence list \<Rightarrow> IdentityState" where
  "resolve_identity evidence =
     (let supports_strong = (\<exists>item\<in>set evidence. is_strong (ie_kind item) \<and> ie_supports_same_resource item);
          rejects_strong = (\<exists>item\<in>set evidence. is_strong (ie_kind item) \<and> \<not> ie_supports_same_resource item)
      in if supports_strong \<and> rejects_strong then IdentityConflict
         else if supports_strong then IdentityResolved
         else if rejects_strong then IdentityUnresolved
         else if \<exists>item\<in>set evidence. ie_supports_same_resource item then IdentityProvisional
         else IdentityUnresolved)"

subsection \<open>Observations and time\<close>

datatype Presence = Present | PresenceAbsent | PresenceUnknown

datatype Reachability = Reachable | Unreachable | ReachabilityUnknown

datatype Coverage = CompleteEnumeration | PartialEnumeration | QueryResult | DirectLookup

datatype Freshness = Fresh | Stale | FreshnessUnknown

record ResourceObservation =
  ob_resource_ref :: ustr
  ob_observed_at :: int
  ob_observation_method :: ustr
  ob_presence :: Presence
  ob_reachability :: Reachability
  ob_source_coverage :: Coverage
  ob_remote_version :: "ustr option"
  ob_etag :: "ustr option"
  ob_digest :: "ustr option"

definition ResourceObservation_new :: "ustr \<Rightarrow> int \<Rightarrow> ustr \<Rightarrow> Coverage \<Rightarrow> Presence \<Rightarrow> ResourceObservation" where
  "ResourceObservation_new resource_ref observed_at observation_method source_coverage presence =
     \<lparr>ob_resource_ref = resource_ref, ob_observed_at = observed_at, ob_observation_method = observation_method,
      ob_presence = presence, ob_reachability = ReachabilityUnknown, ob_source_coverage = source_coverage,
      ob_remote_version = None, ob_etag = None, ob_digest = None\<rparr>"

record IntegrityConflict =
  ic_remote_version :: ustr
  ic_digests :: "ustr list"

record EffectiveResourceState =
  er_presence :: Presence
  er_reachability :: Reachability
  er_observed_at :: "int option"
  er_integrity_conflict :: "IntegrityConflict option"

definition versioned_digests :: "ResourceObservation list \<Rightarrow> (ustr \<times> ustr) list" where
  "versioned_digests observations = List.map_filter (\<lambda>obs.
     case (ob_remote_version obs, ob_digest obs) of (Some version, Some digest) \<Rightarrow> Some (version, digest) | _ \<Rightarrow> None)
     observations"

definition btree_set :: "'a::linorder list \<Rightarrow> 'a list" where
  "btree_set xs = sort (remdups xs)"

definition digests_of :: "ResourceObservation list \<Rightarrow> ustr \<Rightarrow> ustr list" where
  "digests_of observations version =
     btree_set (map snd (filter (\<lambda>(v, _). v = version) (versioned_digests observations)))"

definition integrity_conflict :: "ResourceObservation list \<Rightarrow> IntegrityConflict option" where
  "integrity_conflict observations =
     map_option (\<lambda>version. \<lparr>ic_remote_version = version, ic_digests = digests_of observations version\<rparr>)
       (find (\<lambda>version. 1 < length (digests_of observations version))
          (btree_set (map fst (versioned_digests observations))))"

fun max_by_observed :: "ResourceObservation list \<Rightarrow> ResourceObservation option" where
  "max_by_observed [] = None"
| "max_by_observed (obs # rest) = Some (fold (\<lambda>x best. if ob_observed_at best \<le> ob_observed_at x then x else best) rest obs)"

definition derive_effective_resource_state :: "ustr \<Rightarrow> ResourceObservation list \<Rightarrow> EffectiveResourceState" where
  "derive_effective_resource_state resource_ref all_observations =
     (let observations = filter (\<lambda>obs. ob_resource_ref obs = resource_ref) all_observations;
          conflict = integrity_conflict observations in
      case max_by_observed observations of
        None \<Rightarrow> \<lparr>er_presence = PresenceUnknown, er_reachability = ReachabilityUnknown, er_observed_at = None,
          er_integrity_conflict = conflict\<rparr>
      | Some obs \<Rightarrow> \<lparr>er_presence =
            (if ob_presence obs = PresenceAbsent \<and> ob_source_coverage obs \<in> {PartialEnumeration, QueryResult}
             then PresenceUnknown else ob_presence obs),
          er_reachability = ob_reachability obs, er_observed_at = Some (ob_observed_at obs),
          er_integrity_conflict = conflict\<rparr>)"

record TemporalDiscoveryProfile =
  tp_freshness_anchor_at :: "int option"
  tp_freshness_basis :: "ustr option"
  tp_effective_from :: "int option"
  tp_effective_to :: "int option"

record TemporalEvaluationContext =
  tc_evaluation_id :: uuid
  tc_evaluated_at :: int
  tc_temporal_target :: int
  tc_business_timezone :: ustr

definition TemporalEvaluationContext_new :: "uuid \<Rightarrow> int \<Rightarrow> int \<Rightarrow> ustr \<Rightarrow> TemporalEvaluationContext" where
  "TemporalEvaluationContext_new evaluation_id evaluated_at temporal_target business_timezone =
     \<lparr>tc_evaluation_id = evaluation_id, tc_evaluated_at = evaluated_at, tc_temporal_target = temporal_target,
      tc_business_timezone = business_timezone\<rparr>"

record TemporalEvaluation =
  te_freshness :: Freshness
  te_effective_at_target :: TruthValue

definition evaluate_temporal_profile ::
  "TemporalDiscoveryProfile \<Rightarrow> TemporalEvaluationContext \<Rightarrow> int option \<Rightarrow> TemporalEvaluation" where
  "evaluate_temporal_profile profile context max_current_age =
     \<lparr>te_freshness = (case (tp_freshness_anchor_at profile, max_current_age) of
         (Some anchor, Some limit) \<Rightarrow>
           if 0 \<le> limit \<and> anchor \<le> tc_evaluated_at context
           then (if limit < tc_evaluated_at context - anchor then Stale else Fresh) else FreshnessUnknown
       | _ \<Rightarrow> FreshnessUnknown),
      te_effective_at_target =
        (if tp_effective_from profile = None \<and> tp_effective_to profile = None then TUnknown
         else truth_from_bool
           (is_none_or (\<lambda>from. from \<le> tc_temporal_target context) (tp_effective_from profile)
            \<and> is_none_or (\<lambda>to. tc_temporal_target context < to) (tp_effective_to profile)))\<rparr>"

subsection \<open>Bindings\<close>

datatype BindingMode = SnapshotPinned | RemoteVersionPinned | SessionSnapshot | LiveReference

datatype RevalidationMarker = RevalidationRequired | RevalidationNotRequired

record LogicalResourceBinding =
  lb_binding_id :: uuid
  lb_logical_resource_ref :: uuid
  lb_usage_profile_ref :: "uuid option"
  lb_qualification_evidence_ref :: ustr
  lb_bound_at :: int

record RepresentationBinding =
  rb_binding_id :: uuid
  rb_logical_resource_ref :: uuid
  rb_representation_ref :: uuid
  rb_resource_version_ref :: "uuid option"
  rb_source_ref :: uuid
  rb_provider_ref :: "ustr option"
  rb_schema_digest :: "ustr option"
  rb_content_digest :: "ustr option"
  rb_binding_mode :: BindingMode
  rb_revalidation_marker :: RevalidationMarker
  rb_bound_at :: int

definition RepresentationBinding_new ::
  "uuid \<Rightarrow> uuid \<Rightarrow> uuid \<Rightarrow> uuid \<Rightarrow> BindingMode \<Rightarrow> int \<Rightarrow> RepresentationBinding" where
  "RepresentationBinding_new binding_id logical_resource_ref representation_ref source_ref binding_mode bound_at =
     \<lparr>rb_binding_id = binding_id, rb_logical_resource_ref = logical_resource_ref,
      rb_representation_ref = representation_ref, rb_resource_version_ref = None, rb_source_ref = source_ref,
      rb_provider_ref = None, rb_schema_digest = None, rb_content_digest = None, rb_binding_mode = binding_mode,
      rb_revalidation_marker = (if binding_mode = LiveReference then RevalidationRequired else RevalidationNotRequired),
      rb_bound_at = bound_at\<rparr>"

definition binding_validate :: "RepresentationBinding \<Rightarrow> string + unit" where
  "binding_validate b =
     (if rb_binding_mode b = LiveReference \<and> rb_revalidation_marker b \<noteq> RevalidationRequired
      then Inl ''live reference requires current revalidation''
      else if rb_binding_mode b = RemoteVersionPinned \<and> rb_resource_version_ref b = None
      then Inl ''remote version binding requires version identity''
      else if rb_binding_mode b = SnapshotPinned \<and> rb_resource_version_ref b = None \<and> rb_content_digest b = None
      then Inl ''snapshot binding requires version or content digest''
      else Inr ())"

type_synonym SessionBindingSet = "uuid \<rightharpoonup> RepresentationBinding"

definition bind_if_absent :: "RepresentationBinding \<Rightarrow> SessionBindingSet \<Rightarrow> SessionBindingSet \<times> (string + RepresentationBinding)" where
  "bind_if_absent b bindings = (case binding_validate b of
     Inl e \<Rightarrow> (bindings, Inl e)
   | Inr _ \<Rightarrow>
       if is_some_and (\<lambda>existing. existing \<noteq> b) (bindings (rb_binding_id b))
       then (bindings, Inl ''BindingId collision with different representation binding'')
       else (case bindings (rb_binding_id b) of
           Some existing \<Rightarrow> (bindings, Inr existing)
         | None \<Rightarrow> (bindings(rb_binding_id b \<mapsto> b), Inr b)))"

subsection \<open>Materialization\<close>

datatype MaterializationState = MatReferenceOnly | MatMetadata | MatProbed | MatFragment | MatFullContent

primrec materialization_rank :: "MaterializationState \<Rightarrow> nat" where
  "materialization_rank MatReferenceOnly = 0"
| "materialization_rank MatMetadata = 1"
| "materialization_rank MatProbed = 2"
| "materialization_rank MatFragment = 3"
| "materialization_rank MatFullContent = 4"

definition can_advance_to :: "MaterializationState \<Rightarrow> MaterializationState \<Rightarrow> bool" where
  "can_advance_to this next \<longleftrightarrow> materialization_rank this \<le> materialization_rank next"

datatype ProviderContentPermission = PermitReferenceOnly | PermitMetadata | PermitFragment | PermitFullContent

definition permits :: "ProviderContentPermission \<Rightarrow> MaterializationState \<Rightarrow> bool" where
  "permits permission state = (case state of
     MatReferenceOnly \<Rightarrow> True
   | MatMetadata \<Rightarrow> permission \<in> {PermitMetadata, PermitFragment, PermitFullContent}
   | MatFragment \<Rightarrow> permission \<in> {PermitFragment, PermitFullContent}
   | MatFullContent \<Rightarrow> permission = PermitFullContent
   | MatProbed \<Rightarrow> False)"

subsection \<open>Evidence\<close>

record RelationTemporalScope =
  rs_valid_from :: "int option"
  rs_valid_to :: "int option"

definition scope_contains :: "RelationTemporalScope \<Rightarrow> int \<Rightarrow> bool" where
  "scope_contains scope target \<longleftrightarrow>
     is_none_or (\<lambda>from. from \<le> target) (rs_valid_from scope) \<and> is_none_or (\<lambda>to. target < to) (rs_valid_to scope)"

datatype EvidenceRole = RolePrimary | RoleCorroborating | RoleContradicting | RoleContextual | RoleDerived

record EvidenceReference =
  ev_source_ref :: uuid
  ev_evidence_ref :: "ustr option"
  ev_upstream_origin :: ustr
  ev_role :: EvidenceRole
  ev_citation_chain :: "ustr list"
  ev_content_digest :: "ustr option"
  ev_is_summary :: bool

definition EvidenceReference_new :: "uuid \<Rightarrow> ustr \<Rightarrow> EvidenceRole \<Rightarrow> EvidenceReference" where
  "EvidenceReference_new source_ref upstream_origin role =
     \<lparr>ev_source_ref = source_ref, ev_evidence_ref = None, ev_upstream_origin = upstream_origin, ev_role = role,
      ev_citation_chain = [], ev_content_digest = None, ev_is_summary = False\<rparr>"

definition is_verified_direct_claim_evidence :: "EvidenceRole \<Rightarrow> bool \<Rightarrow> ustr \<Rightarrow> bool" where
  "is_verified_direct_claim_evidence role is_summary upstream_origin \<longleftrightarrow>
     \<not> is_summary \<and> trim upstream_origin \<noteq> [] \<and> role \<in> {RolePrimary, RoleCorroborating, RoleContradicting}"

definition verified_direct :: "EvidenceReference \<Rightarrow> bool" where
  "verified_direct e \<longleftrightarrow> is_verified_direct_claim_evidence (ev_role e) (ev_is_summary e) (ev_upstream_origin e)"

datatype ClaimState = ClaimSupported | ClaimAbsent | ClaimUnknown | ClaimConflicted | ClaimInvalid

record EvidenceClaim =
  cl_claim_id :: uuid
  cl_subject :: "ustr option"
  cl_predicate :: "ustr option"
  cl_value :: "TypedValue option"
  cl_temporal_scope :: RelationTemporalScope
  cl_evidence_refs :: "EvidenceReference list"
  cl_state :: ClaimState

definition EvidenceClaim_new :: "uuid \<Rightarrow> ClaimState \<Rightarrow> EvidenceClaim" where
  "EvidenceClaim_new claim_id state =
     \<lparr>cl_claim_id = claim_id, cl_subject = None, cl_predicate = None, cl_value = None,
      cl_temporal_scope = \<lparr>rs_valid_from = None, rs_valid_to = None\<rparr>, cl_evidence_refs = [], cl_state = state\<rparr>"

record EvidenceRequirement =
  rq_required_claims :: "uuid list"
  rq_authority_requirements :: "ustr list"
  rq_freshness_requirements :: "ustr list"
  rq_minimum_independent_sources :: nat
  rq_contradiction_policy :: ustr
  rq_completion_policy :: ustr

definition EvidenceRequirement_new :: "uuid list \<Rightarrow> EvidenceRequirement" where
  "EvidenceRequirement_new required_claims =
     \<lparr>rq_required_claims = required_claims, rq_authority_requirements = [], rq_freshness_requirements = [],
      rq_minimum_independent_sources = 1, rq_contradiction_policy = lit ''block'', rq_completion_policy = lit ''all-required''\<rparr>"

datatype EvidenceSufficiency =
    EvidenceSufficient
  | EvidenceInsufficient
  | EvidenceUnresolved
  | EvidenceConflicted
  | EvidenceInvalid

fun observed_conflict :: "TypedValue option \<Rightarrow> EvidenceClaim list \<Rightarrow> bool" where
  "observed_conflict observed [] = False"
| "observed_conflict observed (claim # claims) = (case cl_value claim of
     None \<Rightarrow> observed_conflict observed claims
   | Some v \<Rightarrow> is_some_and (\<lambda>existing. \<not> semantically_equal existing v) observed \<or> observed_conflict (Some v) claims)"

definition independent_origins :: "EvidenceReference list \<Rightarrow> ustr list" where
  "independent_origins evidence = btree_set (map (\<lambda>e. trim (ev_upstream_origin e))
     (filter (\<lambda>e. ev_role e \<in> {RolePrimary, RoleCorroborating} \<and> verified_direct e) evidence))"

text \<open>
  One required claim either ends the evaluation with a verdict (\<open>Inl\<close>) or marks the requirement as
  insufficient or unresolved (\<open>Inr\<close>).
\<close>

definition judge_claim :: "nat \<Rightarrow> EvidenceClaim list \<Rightarrow> uuid \<Rightarrow> EvidenceSufficiency + bool \<times> bool" where
  "judge_claim minimum claims claim_id =
     (let matching = filter (\<lambda>claim. cl_claim_id claim = claim_id) claims;
          has = (\<lambda>state. \<exists>claim\<in>set matching. cl_state claim = state);
          evidence = concat (map cl_evidence_refs matching);
          contradicting = (\<exists>e\<in>set evidence. ev_role e = RoleContradicting) in
      if matching = [] then Inr (False, True)
      else if has ClaimInvalid then Inl EvidenceInvalid
      else if has ClaimConflicted then Inl EvidenceConflicted
      else if has ClaimSupported \<and> has ClaimAbsent then Inl EvidenceConflicted
      else if observed_conflict None (filter (\<lambda>claim. cl_state claim = ClaimSupported) matching) then Inl EvidenceConflicted
      else if \<exists>e\<in>set evidence. ev_role e = RoleContradicting \<and> verified_direct e then Inl EvidenceConflicted
      else if has ClaimAbsent then Inr (True, contradicting)
      else if \<not> has ClaimSupported \<or> has ClaimUnknown then Inr (False, True)
      else Inr (\<not> (\<exists>e\<in>set evidence. ev_role e = RolePrimary \<and> verified_direct e)
                  \<or> length (independent_origins evidence) < minimum, contradicting))"

fun judge_claims :: "nat \<Rightarrow> EvidenceClaim list \<Rightarrow> uuid list \<Rightarrow> bool \<times> bool \<Rightarrow> EvidenceSufficiency + bool \<times> bool" where
  "judge_claims minimum claims [] flags = Inr flags"
| "judge_claims minimum claims (claim_id # ids) flags =
     and_then (judge_claim minimum claims claim_id) (\<lambda>(insufficient, unresolved).
       judge_claims minimum claims ids (fst flags \<or> insufficient, snd flags \<or> unresolved))"

definition evaluate_evidence_sufficiency :: "EvidenceRequirement \<Rightarrow> EvidenceClaim list \<Rightarrow> EvidenceSufficiency" where
  "evaluate_evidence_sufficiency requirement claims =
     (case judge_claims (rq_minimum_independent_sources requirement) claims (rq_required_claims requirement) (False, False) of
        Inl verdict \<Rightarrow> verdict
      | Inr (insufficient, unresolved) \<Rightarrow>
          if insufficient then EvidenceInsufficient
          else if unresolved \<or> rq_authority_requirements requirement \<noteq> [] \<or> rq_freshness_requirements requirement \<noteq> []
          then EvidenceUnresolved else EvidenceSufficient)"

subsection \<open>Relations and traversal plans\<close>

datatype RelationNamespace = NsDiscovery | NsSemantic | NsEvidence

record RelationParticipant =
  rp_role :: ustr
  rp_resource_ref :: uuid

record TypedRelationInstance =
  tr_relation_id :: uuid
  tr_namespace :: RelationNamespace
  tr_relation_type :: ustr
  tr_participants :: "RelationParticipant list"
  tr_qualifiers :: "(ustr \<times> TypedValue) list"
  tr_temporal_scope :: RelationTemporalScope
  tr_authority :: "ustr option"
  tr_provenance :: "ustr option"
  tr_evidence_refs :: "ustr list"

definition TypedRelationInstance_new ::
  "uuid \<Rightarrow> RelationNamespace \<Rightarrow> ustr \<Rightarrow> RelationParticipant list \<Rightarrow> TypedRelationInstance" where
  "TypedRelationInstance_new relation_id namespace relation_type participants =
     \<lparr>tr_relation_id = relation_id, tr_namespace = namespace, tr_relation_type = relation_type,
      tr_participants = participants, tr_qualifiers = [], tr_temporal_scope = \<lparr>rs_valid_from = None, rs_valid_to = None\<rparr>,
      tr_authority = None, tr_provenance = None, tr_evidence_refs = []\<rparr>"

definition participant_key :: "RelationParticipant \<Rightarrow> ustr \<times> uuid" where
  "participant_key p = (rp_role p, rp_resource_ref p)"

definition sort_participants :: "RelationParticipant list \<Rightarrow> RelationParticipant list" where
  "sort_participants ps = sort_key participant_key ps"

definition same_participants_as :: "TypedRelationInstance \<Rightarrow> TypedRelationInstance \<Rightarrow> bool" where
  "same_participants_as relation other \<longleftrightarrow>
     sort_participants (tr_participants relation) = sort_participants (tr_participants other)"

definition has_participant :: "TypedRelationInstance \<Rightarrow> ustr \<Rightarrow> uuid option \<Rightarrow> bool" where
  "has_participant relation role resource_ref \<longleftrightarrow>
     (\<exists>p\<in>set (tr_participants relation). rp_role p = role \<and> is_none_or (\<lambda>resource. rp_resource_ref p = resource) resource_ref)"

definition relation_validate :: "TypedRelationInstance \<Rightarrow> string + unit" where
  "relation_validate relation =
     (if tr_relation_type relation = [] \<or> length (tr_participants relation) < 2
      then Inl ''relation requires a type and at least two participants''
      else if \<exists>p\<in>set (tr_participants relation). rp_role p = [] then Inl ''participant role must be nonempty''
      else (case (rs_valid_from (tr_temporal_scope relation), rs_valid_to (tr_temporal_scope relation)) of
          (Some from, Some to) \<Rightarrow> if to \<le> from then Inl ''relation temporal interval must be ordered'' else Inr ()
        | _ \<Rightarrow> Inr ()))"

record RelationPathPattern =
  pp_namespace :: RelationNamespace
  pp_relation_type :: ustr
  pp_from_role :: ustr
  pp_to_role :: ustr
  pp_from_resource :: "uuid option"
  pp_to_resource :: "uuid option"
  pp_required_participants :: "RelationParticipant list"

definition RelationPathPattern_new :: "RelationNamespace \<Rightarrow> ustr \<Rightarrow> ustr \<Rightarrow> ustr \<Rightarrow> RelationPathPattern" where
  "RelationPathPattern_new namespace relation_type from_role to_role =
     \<lparr>pp_namespace = namespace, pp_relation_type = relation_type, pp_from_role = from_role, pp_to_role = to_role,
      pp_from_resource = None, pp_to_resource = None, pp_required_participants = []\<rparr>"

definition with_endpoints :: "uuid \<Rightarrow> uuid \<Rightarrow> RelationPathPattern \<Rightarrow> RelationPathPattern" where
  "with_endpoints from_resource to_resource pattern =
     pattern\<lparr>pp_from_resource := Some from_resource, pp_to_resource := Some to_resource\<rparr>"

definition with_participant :: "ustr \<Rightarrow> uuid \<Rightarrow> RelationPathPattern \<Rightarrow> RelationPathPattern" where
  "with_participant role resource_ref pattern =
     pattern\<lparr>pp_required_participants := pp_required_participants pattern @ [\<lparr>rp_role = role, rp_resource_ref = resource_ref\<rparr>]\<rparr>"

definition matches_relation :: "RelationPathPattern \<Rightarrow> TypedRelationInstance \<Rightarrow> bool" where
  "matches_relation pattern relation \<longleftrightarrow>
     tr_namespace relation = pp_namespace pattern \<and> tr_relation_type relation = pp_relation_type pattern
     \<and> has_participant relation (pp_from_role pattern) (pp_from_resource pattern)
     \<and> has_participant relation (pp_to_role pattern) (pp_to_resource pattern)
     \<and> (\<forall>p\<in>set (pp_required_participants pattern). has_participant relation (rp_role p) (Some (rp_resource_ref p)))"

definition matching_relation_ids :: "TypedRelationInstance list \<Rightarrow> RelationPathPattern \<Rightarrow> uuid list" where
  "matching_relation_ids relations pattern = map tr_relation_id (filter (matches_relation pattern) relations)"

record TraversalBudget =
  tb_max_hops :: nat
  tb_max_relations :: nat
  tb_max_branching_per_node :: nat
  tb_max_seed_nodes :: nat
  tb_max_paths :: nat

record GraphTraversalPlan =
  gp_seed_nodes :: "uuid list"
  gp_path_patterns :: "RelationPathPattern list"
  gp_allowed_relation_types :: "ustr list"
  gp_allowed_namespaces :: "RelationNamespace list"
  gp_authority_requirement :: "ustr option"
  gp_temporal_context :: "TemporalEvaluationContext option"
  gp_access_context :: ustr
  gp_expansion_budget :: TraversalBudget
  gp_stop_conditions :: "ustr list"

definition plan_validate :: "GraphTraversalPlan \<Rightarrow> string + unit" where
  "plan_validate plan =
     (let budget = gp_expansion_budget plan in
      if gp_seed_nodes plan = [] \<or> gp_path_patterns plan = [] \<or> gp_allowed_relation_types plan = []
         \<or> gp_allowed_namespaces plan = []
      then Inl ''traversal requires seed and relation constraints''
      else if gp_access_context plan = [] \<or> gp_temporal_context plan = None
      then Inl ''traversal requires access and temporal context''
      else if tb_max_hops budget = 0 \<or> tb_max_relations budget = 0 \<or> tb_max_branching_per_node budget = 0
         \<or> tb_max_seed_nodes budget = 0 \<or> tb_max_paths budget = 0
      then Inl ''traversal requires finite positive budgets''
      else if tb_max_seed_nodes budget < length (gp_seed_nodes plan) then Inl ''graph seed budget exceeded''
      else if gp_stop_conditions plan \<noteq> [] then Inl ''graph stop conditions are not supported''
      else Inr ())"

definition plan_allows :: "GraphTraversalPlan \<Rightarrow> TypedRelationInstance \<Rightarrow> bool" where
  "plan_allows plan relation \<longleftrightarrow>
     is_ok (plan_validate plan) \<and> is_ok (relation_validate relation)
     \<and> tr_namespace relation \<in> set (gp_allowed_namespaces plan)
     \<and> tr_relation_type relation \<in> set (gp_allowed_relation_types plan)
     \<and> (\<exists>pattern\<in>set (gp_path_patterns plan). matches_relation pattern relation)
     \<and> is_none_or (\<lambda>required. tr_authority relation = Some required) (gp_authority_requirement plan)
     \<and> is_some_and (\<lambda>context. scope_contains (tr_temporal_scope relation) (tc_temporal_target context)) (gp_temporal_context plan)"

record GraphPathStepEvidence =
  ge_relation_id :: uuid
  ge_namespace :: RelationNamespace
  ge_relation_type :: ustr
  ge_from_role :: ustr
  ge_from_resource :: uuid
  ge_to_role :: ustr
  ge_to_resource :: uuid
  ge_participants :: "RelationParticipant list"
  ge_evidence_refs :: "ustr list"
  ge_provenance :: "ustr option"

record GraphPathEvidence =
  gv_resource_path :: "uuid list"
  gv_steps :: "GraphPathStepEvidence list"

end
