(* ===== verification/Search_Predicate_Props.thy ===== *)
theory Search_Predicate_Props
  imports Search_Predicate
begin

text \<open>
  What the predicate evaluator computes: the comparison of decimals as digit strings is the order
  of the rational numbers, the combination of truth values does not depend on the order of its
  operands, and more facts never turn a verdict into its opposite.
\<close>

subsection \<open>Decimal digits\<close>

definition digit_value :: "ustr \<Rightarrow> nat" where
  "digit_value s = fold (\<lambda>c v. 10 * v + nat (c - 48)) s 0"

definition all_digits :: "ustr \<Rightarrow> bool" where
  "all_digits s \<longleftrightarrow> (\<forall>c\<in>set s. 48 \<le> c \<and> c \<le> 57)"

lemma digit_value_simps [simp]: "digit_value [] = 0" "digit_value (s @ [c]) = 10 * digit_value s + nat (c - 48)"
  by (simp_all add: digit_value_def)

lemma digit_value_append: "digit_value (s @ t) = digit_value s * 10 ^ length t + digit_value t"
proof (induction t rule: rev_induct)
  case (snoc c t)
  then show ?case using digit_value_simps(2) [of "s @ t" c] by (simp add: algebra_simps)
qed simp

lemma digit_value_Cons: "digit_value (c # s) = nat (c - 48) * 10 ^ length s + digit_value s"
  using digit_value_append [of "[c]" s] digit_value_simps(2) [of "[]" c] by simp

lemma digit_value_zeros [simp]: "digit_value (replicate n 48) = 0"
  by (induction n) (simp_all add: digit_value_Cons)

lemma digit_value_less: "all_digits s \<Longrightarrow> digit_value s < 10 ^ length s"
proof (induction s rule: rev_induct)
  case (snoc c s)
  then have "digit_value s < 10 ^ length s" "nat (c - 48) \<le> 9" by (auto simp: all_digits_def)
  then show ?case by simp
qed simp

lemma digits_ok: "digit_value (digits n) = n \<and> all_digits (digits n) \<and> digits n \<noteq> []
    \<and> (length (digits n) = 1 \<or> 10 ^ (length (digits n) - 1) \<le> n)"
proof (induction n rule: digits.induct)
  case (1 n)
  show ?case
  proof (cases "n < 10")
    case True
    then show ?thesis using digit_value_simps(2) [of "[]"] by (simp add: digits.simps [of n] all_digits_def)
  next
    case False
    let ?s = "digits (n div 10)"
    have IH: "digit_value ?s = n div 10" "all_digits ?s" "?s \<noteq> []" "length ?s = 1 \<or> 10 ^ (length ?s - 1) \<le> n div 10"
      using 1 False by auto
    have "10 ^ length ?s \<le> n"
    proof (cases "length ?s = 1")
      case True
      then show ?thesis using False by simp
    next
      case not1: False
      then have "10 ^ (length ?s - 1) \<le> n div 10" using IH(4) by simp
      then have "10 * 10 ^ (length ?s - 1) \<le> n" by simp
      moreover have "Suc (length ?s - 1) = length ?s" using IH(3) by (cases ?s) auto
      ultimately show ?thesis by (metis power_Suc)
    qed
    then show ?thesis using IH False by (simp add: digits.simps [of n] all_digits_def)
  qed
qed

lemma digit_value_head:
  assumes "a < b" and "48 \<le> a" and "length s = length t" and "all_digits s"
  shows "digit_value (a # s) < digit_value (b # t)"
proof -
  have "digit_value (a # s) < Suc (nat (a - 48)) * 10 ^ length t"
    using digit_value_less [OF assms(4)] assms(3) by (simp add: digit_value_Cons)
  also have "\<dots> \<le> nat (b - 48) * 10 ^ length t" using assms(1,2) by (intro mult_right_mono) auto
  finally show ?thesis by (simp add: digit_value_Cons)
qed

lemma cmp_same_length:
  assumes "length s = length t" and "all_digits s" "all_digits t"
  shows "cmp s t = cmp (digit_value s) (digit_value t)"
  using assms
proof (induction s t rule: list_induct2)
  case (Cons a s b t)
  then have bounds: "48 \<le> a" "48 \<le> b" "all_digits s" "all_digits t" by (auto simp: all_digits_def)
  consider "a < b" | "a = b" | "b < a" by linarith
  then show ?case
  proof cases
    case 1
    then show ?thesis using digit_value_head [OF 1 bounds(1) Cons.hyps bounds(3)] by (simp add: cmp_def)
  next
    case 2
    then show ?thesis using Cons.IH bounds(3,4) Cons.hyps by (simp add: cmp_def digit_value_Cons split: if_splits)
  next
    case 3
    then show ?thesis using digit_value_head [OF 3 bounds(2) Cons.hyps [symmetric] bounds(4)] by (simp add: cmp_def)
  qed
qed (simp add: cmp_def)

text \<open>Numerals without leading zeros compare by length first.\<close>

definition numeral_text :: "ustr \<Rightarrow> bool" where
  "numeral_text s \<longleftrightarrow> all_digits s \<and> s \<noteq> [] \<and> (length s = 1 \<or> 10 ^ (length s - 1) \<le> digit_value s)"

lemma shorter_smaller:
  assumes "numeral_text s" "numeral_text t" and "length s < length t"
  shows "digit_value s < digit_value t"
proof -
  have "1 \<le> length s" using assms(1) by (cases s) (auto simp: numeral_text_def)
  then have "10 ^ (length t - 1) \<le> digit_value t" and "length s \<le> length t - 1" using assms(2,3) by (auto simp: numeral_text_def)
  moreover have "digit_value s < 10 ^ length s" using assms(1) digit_value_less by (simp add: numeral_text_def)
  moreover have "(10 :: nat) ^ length s \<le> 10 ^ (length t - 1)" using calculation(2) by (intro power_increasing) auto
  ultimately show ?thesis by linarith
qed

lemma cmp_numerals:
  assumes "numeral_text s" "numeral_text t"
  shows "then_with (cmp (length s) (length t)) (cmp s t) = cmp (digit_value s) (digit_value t)"
proof -
  consider "length s < length t" | "length s = length t" | "length t < length s" by linarith
  then show ?thesis
  proof cases
    case 1
    then show ?thesis using shorter_smaller [OF assms 1] by (simp add: then_with_def cmp_def)
  next
    case 2
    then show ?thesis using cmp_same_length [OF 2] assms by (simp add: then_with_def cmp_def numeral_text_def)
  next
    case 3
    then show ?thesis using shorter_smaller [OF assms(2,1) 3] by (simp add: then_with_def cmp_def)
  qed
qed

lemma decimal_parts_ok:
  assumes "decimal_parts v = (i, f)"
  shows "numeral_text i \<and> all_digits f \<and> length f = dec_scale v
    \<and> digit_value i * 10 ^ dec_scale v + digit_value f = nat \<bar>dec_coefficient v\<bar>"
proof -
  let ?n = "nat \<bar>dec_coefficient v\<bar>" and ?s = "dec_scale v"
  let ?ds = "digits ?n"
  obtain padded where p: "padded = replicate (?s + 1 - length ?ds) 48 @ ?ds" by blast
  have i: "i = take (length padded - ?s) padded" and f: "f = drop (length padded - ?s) padded"
    using assms unfolding p by (auto simp: decimal_parts_def Let_def)
  have ds: "digit_value ?ds = ?n" "all_digits ?ds" "?ds \<noteq> []" "length ?ds = 1 \<or> 10 ^ (length ?ds - 1) \<le> ?n" using digits_ok [of ?n] by auto
  have len: "length padded = max (?s + 1) (length ?ds)" by (simp add: p)
  then have "length f = ?s" "length i = length padded - ?s" unfolding i f by simp_all
  moreover have padded: "i @ f = padded" unfolding i f by simp
  moreover have "all_digits padded" using ds(2) by (auto simp: all_digits_def p)
  ultimately have "all_digits i" "all_digits f" by (auto simp: all_digits_def)
  have "digit_value padded = ?n" using ds(1) by (simp add: p digit_value_append)
  then have total: "digit_value i * 10 ^ ?s + digit_value f = ?n"
    using digit_value_append [of i f] padded \<open>length f = ?s\<close> by simp
  have "length i = 1 \<or> 10 ^ (length i - 1) \<le> digit_value i"
  proof (cases "length ?ds \<le> ?s + 1")
    case True
    then show ?thesis using \<open>length i = _\<close> len by simp
  next
    case False
    then have li: "length i = length ?ds - ?s" using \<open>length i = _\<close> len by simp
    have "10 ^ (length ?ds - 1) \<le> ?n" using ds(4) False by auto
    moreover have "length ?ds - 1 = (length i - 1) + ?s" using li False by simp
    ultimately have "10 ^ (length i - 1) * 10 ^ ?s \<le> ?n" by (simp only: power_add)
    also have "\<dots> < Suc (digit_value i) * 10 ^ ?s"
      using total digit_value_less [OF \<open>all_digits f\<close>] \<open>length f = ?s\<close> by simp
    finally have "10 ^ (length i - 1) < Suc (digit_value i)" by (simp only: mult_less_cancel2)
    then show ?thesis by simp
  qed
  moreover have "i \<noteq> []" using \<open>length i = _\<close> len by auto
  ultimately show ?thesis using total \<open>all_digits i\<close> \<open>all_digits f\<close> \<open>length f = ?s\<close> by (simp add: numeral_text_def)
qed

lemma pad_zeros_ok:
  assumes "all_digits s" and "length s \<le> w"
  shows "all_digits (pad_zeros w s) \<and> length (pad_zeros w s) = w \<and> digit_value (pad_zeros w s) = digit_value s * 10 ^ (w - length s)"
  using assms by (auto simp: pad_zeros_def digit_value_append all_digits_def)

lemma cmp_mult: "0 < (k :: nat) \<Longrightarrow> cmp (a * k) (b * k) = cmp a b"
  by (simp add: cmp_def)

lemma cmp_lexicographic:
  assumes "(f :: nat) < m" "g < m"
  shows "then_with (cmp i j) (cmp f g) = cmp (i * m + f) (j * m + g)"
proof -
  have less: "i * m + f < j * m + g" if "i < j" "f < m" for i j f g
  proof -
    have "i * m + f < Suc i * m" using that(2) by simp
    also have "\<dots> \<le> j * m" using that(1) by (intro mult_right_mono) auto
    finally show ?thesis by simp
  qed
  consider "i < j" | "i = j" | "j < i" by linarith
  then show ?thesis using assms less [of i j f g] less [of j i g f] by cases (auto simp: then_with_def cmp_def)
qed

lemma then_with_assoc: "then_with (then_with a b) c = then_with a (then_with b c)"
  by (simp add: then_with_def)

lemma compare_magnitudes:
  assumes "decimal_parts l = (i, f)" "decimal_parts r = (j, g)" and "w = max (length f) (length g)"
  shows "then_with (cmp (length i) (length j)) (then_with (cmp i j) (cmp (pad_zeros w f) (pad_zeros w g)))
    = cmp (nat \<bar>dec_coefficient l\<bar> * 10 ^ dec_scale r) (nat \<bar>dec_coefficient r\<bar> * 10 ^ dec_scale l)"
proof -
  note L = decimal_parts_ok [OF assms(1)] and R = decimal_parts_ok [OF assms(2)]
  let ?sl = "dec_scale l" and ?sr = "dec_scale r"
  let ?F = "digit_value f * 10 ^ (w - ?sl)" and ?G = "digit_value g * 10 ^ (w - ?sr)" and ?k = "10 ^ min ?sl ?sr :: nat"
  have w: "?sl \<le> w" "?sr \<le> w" "w + min ?sl ?sr = ?sl + ?sr" using L R assms(3) by auto
  have pads: "cmp (pad_zeros w f) (pad_zeros w g) = cmp ?F ?G"
    using pad_zeros_ok [of f w] pad_zeros_ok [of g w] L R w by (simp add: cmp_same_length)
  have split: "(10 :: nat) ^ w = 10 ^ ?sl * 10 ^ (w - ?sl)" "(10 :: nat) ^ w = 10 ^ ?sr * 10 ^ (w - ?sr)"
    using w(1,2) by (simp_all flip: power_add)
  have "?F < 10 ^ w" unfolding split(1) using L digit_value_less [of f] by simp
  moreover have "?G < 10 ^ w" unfolding split(2) using R digit_value_less [of g] by simp
  ultimately have "then_with (cmp (digit_value i) (digit_value j)) (cmp ?F ?G)
      = cmp (digit_value i * 10 ^ w + ?F) (digit_value j * 10 ^ w + ?G)" by (rule cmp_lexicographic)
  also have "digit_value i * 10 ^ w + ?F = nat \<bar>dec_coefficient l\<bar> * 10 ^ (w - ?sl)"
    using L unfolding split(1) by (simp flip: add_mult_distrib mult.assoc)
  also have "digit_value j * 10 ^ w + ?G = nat \<bar>dec_coefficient r\<bar> * 10 ^ (w - ?sr)"
    using R unfolding split(2) by (simp flip: add_mult_distrib mult.assoc)
  also have "cmp (nat \<bar>dec_coefficient l\<bar> * 10 ^ (w - ?sl)) (nat \<bar>dec_coefficient r\<bar> * 10 ^ (w - ?sr))
      = cmp (nat \<bar>dec_coefficient l\<bar> * 10 ^ (w - ?sl) * ?k) (nat \<bar>dec_coefficient r\<bar> * 10 ^ (w - ?sr) * ?k)"
    by (rule cmp_mult [symmetric]) simp
  also have "nat \<bar>dec_coefficient l\<bar> * 10 ^ (w - ?sl) * ?k = nat \<bar>dec_coefficient l\<bar> * 10 ^ ?sr"
  proof -
    have "w - ?sl + min ?sl ?sr = ?sr" using w by simp
    then show ?thesis by (simp only: mult.assoc flip: power_add)
  qed
  also have "nat \<bar>dec_coefficient r\<bar> * 10 ^ (w - ?sr) * ?k = nat \<bar>dec_coefficient r\<bar> * 10 ^ ?sl"
  proof -
    have "w - ?sr + min ?sl ?sr = ?sl" using w by simp
    then show ?thesis by (simp only: mult.assoc flip: power_add)
  qed
  finally show ?thesis using L R pads by (simp add: cmp_numerals flip: then_with_assoc)
qed

lemma cmp_int: "cmp (int a) (int b) = cmp a b"
  by (simp add: cmp_def)

lemma cmp_uminus: "cmp (- a) (- b) = reverse (cmp (a :: int) b)"
  by (simp add: cmp_def)

lemma compare_decimal_exact:
  "compare_decimal l r = cmp (dec_coefficient l * 10 ^ dec_scale r) (dec_coefficient r * 10 ^ dec_scale l)"
proof (cases "dec_coefficient l = 0 \<and> dec_coefficient r = 0")
  case True
  then show ?thesis by (simp add: compare_decimal_def cmp_def)
next
  case nonzero: False
  let ?a = "dec_coefficient l" and ?b = "dec_coefficient r"
  show ?thesis
  proof (cases "(?a < 0) = (?b < 0)")
    case False
    have "?a * 10 ^ dec_scale r < 0 \<longleftrightarrow> ?a < 0" "?b * 10 ^ dec_scale l < 0 \<longleftrightarrow> ?b < 0" by (simp_all add: mult_less_0_iff)
    with False nonzero show ?thesis by (auto simp: compare_decimal_def cmp_def)
  next
    case True
    obtain i f where L: "decimal_parts l = (i, f)" by fastforce
    obtain j g where R: "decimal_parts r = (j, g)" by fastforce
    let ?order = "cmp (nat \<bar>?a\<bar> * 10 ^ dec_scale r) (nat \<bar>?b\<bar> * 10 ^ dec_scale l)"
    have "compare_decimal l r = (if ?a < 0 then reverse ?order else ?order)"
      using nonzero True compare_magnitudes [OF L R refl] by (auto simp: compare_decimal_def L R)
    also have "?order = cmp (\<bar>?a\<bar> * 10 ^ dec_scale r) (\<bar>?b\<bar> * 10 ^ dec_scale l)"
      by (simp flip: cmp_int)
    finally show ?thesis using True cmp_uminus [of "?a * 10 ^ dec_scale r" "?b * 10 ^ dec_scale l"]
      cmp_uminus [of "- ?a * 10 ^ dec_scale r" "- ?b * 10 ^ dec_scale l"] by (auto simp: abs_if)
  qed
qed

text \<open>The coefficient of a decimal over the product of both denominators.\<close>

definition scaled :: "DecimalValue \<Rightarrow> DecimalValue \<Rightarrow> int" where
  "scaled v other = dec_coefficient v * 10 ^ dec_scale other"

text \<open>
  (C40) Decimal values compare as the numbers they denote: whatever the coefficients and scales, the comparison
  by signs, padded digit strings and string orders gives the order of the two rationals. Predicates
  over decimals say the same: equality holds exactly if the values denote the same number, whatever their scales,
  and the four orders are those of the numbers.
\<close>

theorem decimal_order_exact:
  "compare_decimal l r = cmp (scaled l r) (scaled r l)
    \<and> evaluate (PEq (OperandValue (TDecimal l)) (OperandValue (TDecimal r))) facts c = truth_from_bool (scaled l r = scaled r l)
    \<and> evaluate (PNe (OperandValue (TDecimal l)) (OperandValue (TDecimal r))) facts c = truth_from_bool (scaled l r \<noteq> scaled r l)
    \<and> evaluate (PLt (OperandValue (TDecimal l)) (OperandValue (TDecimal r))) facts c = truth_from_bool (scaled l r < scaled r l)
    \<and> evaluate (PLte (OperandValue (TDecimal l)) (OperandValue (TDecimal r))) facts c = truth_from_bool (scaled l r \<le> scaled r l)
    \<and> evaluate (PGt (OperandValue (TDecimal l)) (OperandValue (TDecimal r))) facts c = truth_from_bool (scaled r l < scaled l r)
    \<and> evaluate (PGte (OperandValue (TDecimal l)) (OperandValue (TDecimal r))) facts c = truth_from_bool (scaled r l \<le> scaled l r)"
proof -
  have "compare_decimal l r = cmp (scaled l r) (scaled r l)" unfolding scaled_def by (rule compare_decimal_exact)
  then show ?thesis
    by (auto simp: evaluate_def at_depth.simps [of c facts _ 0] binary_def ordered_def resolve_operand_def values_equal_def
        values_equal_at_depth.simps [of _ _ 0] compare_values_def cmp_def truth_from_bool_def MAX_PREDICATE_DEPTH_def)
qed

subsection \<open>Truth values\<close>

lemma combine_and_eq:
  "combine_and vs = (if TError \<in> set vs then TError else if TFalse \<in> set vs then TFalse
     else if TUnknown \<in> set vs then TUnknown else TTrue)"
proof -
  have "fold and_step vs r = and_step (if TError \<in> set vs then TError else if TFalse \<in> set vs then TFalse
     else if TUnknown \<in> set vs then TUnknown else TTrue) r" for r
    by (induction vs arbitrary: r) (auto simp: and_step_def, (case_tac r; simp)+)
  then show ?thesis by (simp add: combine_and_def and_step_def)
qed

lemma combine_or_eq:
  "combine_or vs = (if TError \<in> set vs then TError else if TTrue \<in> set vs then TTrue
     else if TUnknown \<in> set vs then TUnknown else TFalse)"
proof -
  have "fold or_step vs r = or_step (if TError \<in> set vs then TError else if TTrue \<in> set vs then TTrue
     else if TUnknown \<in> set vs then TUnknown else TFalse) r" for r
    by (induction vs arbitrary: r) (auto simp: or_step_def, (case_tac r; simp)+)
  then show ?thesis by (simp add: combine_or_def or_step_def)
qed

text \<open>What a verdict may become when more is known.\<close>

definition may_become :: "TruthValue \<Rightarrow> TruthValue \<Rightarrow> bool" where
  "may_become v v' \<longleftrightarrow> v = TUnknown \<or> v' = v \<or> v' = TError"

lemma may_become_not: "may_become v v' \<Longrightarrow> may_become (truth_not v) (truth_not v')"
  by (cases v; cases v') (auto simp: may_become_def)

lemma may_become_members:
  assumes "list_all2 may_become vs vs'" and "v \<in> set vs" and "v \<noteq> TUnknown"
  shows "v \<in> set vs' \<or> TError \<in> set vs'"
  using assms by (induction rule: list_all2_induct) (auto simp: may_become_def)

lemma may_become_back:
  assumes "list_all2 may_become vs vs'" and "v' \<in> set vs'" and "v' \<noteq> TError"
  shows "v' \<in> set vs \<or> TUnknown \<in> set vs"
  using assms by (induction rule: list_all2_induct) (auto simp: may_become_def)

lemma may_become_combine:
  assumes "list_all2 may_become vs vs'"
  shows "may_become (combine_and vs) (combine_and vs')" "may_become (combine_or vs) (combine_or vs')"
proof -
  note fwd = may_become_members [OF assms] and bwd = may_become_back [OF assms]
  show "may_become (combine_and vs) (combine_and vs')"
    using fwd [of TError] fwd [of TFalse] bwd [of TFalse] bwd [of TUnknown]
    by (auto simp: combine_and_eq may_become_def)
  show "may_become (combine_or vs) (combine_or vs')"
    using fwd [of TError] fwd [of TTrue] bwd [of TTrue] bwd [of TUnknown]
    by (auto simp: combine_or_eq may_become_def)
qed

definition facts_extend :: "FactSet \<Rightarrow> FactSet \<Rightarrow> bool" where
  "facts_extend facts facts' \<longleftrightarrow> (\<forall>k x. facts k = Some x \<longrightarrow> is_some_and (\<lambda>x'. fa_value x' = fa_value x) (facts' k))"

fun open_world :: "PredicateExpr \<Rightarrow> bool" where
  "open_world (PAnd children) \<longleftrightarrow> list_all open_world children"
| "open_world (POr children) \<longleftrightarrow> list_all open_world children"
| "open_world (PNot child) \<longleftrightarrow> open_world child"
| "open_world (PExists _) \<longleftrightarrow> False"
| "open_world (PMissing _) \<longleftrightarrow> False"
| "open_world _ \<longleftrightarrow> True"

lemma binary_may_become:
  assumes "facts_extend facts facts'"
  shows "may_become (binary left right facts compare) (binary left right facts' compare)"
proof -
  have "resolve_operand x facts = None \<or> resolve_operand x facts' = resolve_operand x facts" for x
    using assms by (cases x; cases "facts (case x of OperandFact k \<Rightarrow> k)")
      (auto simp: facts_extend_def resolve_operand_def is_some_and_iff dest!: spec)
  from this [of left] this [of right] show ?thesis
    by (cases "resolve_operand left facts"; cases "resolve_operand right facts") (auto simp: binary_def may_become_def)
qed

lemma at_depth_may_become:
  assumes "facts_extend facts facts'"
  shows "open_world e \<Longrightarrow> may_become (at_depth c facts e d) (at_depth c facts' e d)"
proof (induction e arbitrary: d)
  case (PAnd children)
  then have "list_all2 may_become (map (\<lambda>e. at_depth c facts e (d + 1)) children) (map (\<lambda>e. at_depth c facts' e (d + 1)) children)"
    by (auto simp: list_all2_conv_all_nth list_all_iff)
  from may_become_combine(1) [OF this] show ?case
    by (auto simp: at_depth.simps [of c facts "PAnd children"] at_depth.simps [of c facts' "PAnd children"] may_become_def)
next
  case (POr children)
  then have "list_all2 may_become (map (\<lambda>e. at_depth c facts e (d + 1)) children) (map (\<lambda>e. at_depth c facts' e (d + 1)) children)"
    by (auto simp: list_all2_conv_all_nth list_all_iff)
  from may_become_combine(2) [OF this] show ?case
    by (auto simp: at_depth.simps [of c facts "POr children"] at_depth.simps [of c facts' "POr children"] may_become_def)
next
  case (PNot child)
  then have "may_become (truth_not (at_depth c facts child (d + 1))) (truth_not (at_depth c facts' child (d + 1)))"
    by (intro may_become_not) simp
  then show ?case
    by (auto simp: at_depth.simps [of c facts "PNot child"] at_depth.simps [of c facts' "PNot child"] may_become_def)
qed (use binary_may_become [OF assms] in
    \<open>simp_all add: at_depth.simps [of c facts] at_depth.simps [of c facts'] ordered_def concept_binary_def may_become_def\<close>)

text \<open>
  (C39) Knowing more never reverses a verdict. Evaluate a predicate without tests for the presence of facts, then
  add facts or replace facts by others with the same values: a verdict that was not unknown stays, or
  becomes an error, when a new fact has a type the predicate does not expect; true never becomes false
  or unknown, false never true or unknown, and an error stays an error.
\<close>

theorem verdicts_survive_new_facts:
  assumes "facts_extend facts facts'" and "open_world e" and "evaluate e facts c \<noteq> TUnknown"
  shows "evaluate e facts' c \<in> {evaluate e facts c, TError}"
  using at_depth_may_become [OF assms(1,2), of c 0] assms(3) by (auto simp: evaluate_def may_become_def)

end
