(* ===== verification/Search_Equality.thy ===== *)
theory Search_Equality
  imports Search_Predicate_Props
begin

text \<open>
  The equality of typed values that predicates, authority and evidence share: whatever the nesting of lists
  and sets, it is symmetric, and equal values behave alike against every other value.
\<close>

subsection \<open>Scalars\<close>

lemma cmp_Equal [simp]: "cmp a b = Equal \<longleftrightarrow> a = b"
  by (simp add: cmp_def)

lemma compare_decimal_Equal: "compare_decimal l r = Equal \<longleftrightarrow> scaled l r = scaled r l"
  using compare_decimal_exact [of l r] by (simp add: scaled_def)

lemma scaled_trans:
  assumes "scaled a b = scaled b a" and "scaled b c = scaled c b"
  shows "scaled a c = scaled c a"
proof -
  let ?p = "\<lambda>x. 10 ^ dec_scale x :: int"
  have ab: "dec_coefficient a * ?p b = dec_coefficient b * ?p a" and bc: "dec_coefficient b * ?p c = dec_coefficient c * ?p b"
    using assms by (simp_all add: scaled_def)
  have "(dec_coefficient a * ?p c) * ?p b = (dec_coefficient b * ?p a) * ?p c" using ab by (simp add: ac_simps)
  also have "\<dots> = (dec_coefficient b * ?p c) * ?p a" by (simp add: ac_simps)
  also have "\<dots> = (dec_coefficient c * ?p a) * ?p b" using bc by (simp add: ac_simps)
  finally show ?thesis by (simp add: scaled_def)
qed

definition scalar_equal :: "TypedValue \<Rightarrow> TypedValue \<Rightarrow> TruthValue" where
  "scalar_equal left right = (case compare_values left right of Some order \<Rightarrow> truth_from_bool (order = Equal) | None \<Rightarrow> TError)"

lemma truth_from_bool_simps [simp]: "truth_from_bool b = TTrue \<longleftrightarrow> b" "truth_from_bool b \<noteq> TError"
  by (simp_all add: truth_from_bool_def)

lemma scalar_equal_sym: "scalar_equal x y = scalar_equal y x"
  by (cases x; cases y) (auto simp: scalar_equal_def compare_values_def truth_from_bool_def compare_decimal_Equal)

lemma scalar_equal_trans: "scalar_equal x y = TTrue \<Longrightarrow> scalar_equal y z = TTrue \<Longrightarrow> scalar_equal x z = TTrue"
  by (cases x; cases y; simp add: scalar_equal_def compare_values_def split: if_splits; cases z)
    (auto simp: compare_decimal_Equal intro: scaled_trans split: if_splits)

lemma scalar_equal_comparable: "scalar_equal x y \<noteq> TError \<Longrightarrow> scalar_equal y z = TTrue \<Longrightarrow> scalar_equal x z \<noteq> TError"
  by (cases x; cases y; simp add: scalar_equal_def compare_values_def split: if_splits; cases z) (auto split: if_splits)

subsection \<open>Nested values\<close>

lemma combine_and_TTrue: "combine_and vs = TTrue \<longleftrightarrow> (\<forall>v\<in>set vs. v = TTrue)"
  by (auto simp: combine_and_eq) (metis TruthValue.exhaust)+

lemma combine_and_TError: "combine_and vs = TError \<longleftrightarrow> TError \<in> set vs"
  by (simp add: combine_and_eq)

abbreviation eqd :: "nat \<Rightarrow> TypedValue \<Rightarrow> TypedValue \<Rightarrow> TruthValue" where
  "eqd d x y \<equiv> values_equal_at_depth x y d"

abbreviation memd :: "nat \<Rightarrow> TypedValue \<Rightarrow> TypedValue list \<Rightarrow> TruthValue" where
  "memd d x ys \<equiv> membership_in_slice_at_depth x ys d"

lemma in_image_eq: "v \<in> f ` S \<longleftrightarrow> (\<exists>x\<in>S. f x = v)"
  by auto

lemma memd_TTrue: "memd d x ys = TTrue \<longleftrightarrow>
    d \<le> MAX_PREDICATE_DEPTH \<and> (\<forall>y\<in>set ys. eqd (d + 1) x y \<noteq> TError) \<and> (\<exists>y\<in>set ys. eqd (d + 1) x y = TTrue)"
  by (auto simp: membership_in_slice_at_depth.simps [of x ys d] Let_def in_image_eq)

lemma memd_TError: "memd d x ys = TError \<longleftrightarrow> \<not> (d \<le> MAX_PREDICATE_DEPTH \<and> (\<forall>y\<in>set ys. eqd (d + 1) x y \<noteq> TError))"
  by (auto simp: membership_in_slice_at_depth.simps [of x ys d] Let_def in_image_eq)

lemma eqd_deep: "MAX_PREDICATE_DEPTH < d \<Longrightarrow> eqd d x y = TError"
  by (simp add: values_equal_at_depth.simps [of x y d])

lemma eqd_lists: "d \<le> MAX_PREDICATE_DEPTH \<Longrightarrow> eqd d (TList a) (TList b) =
    (if length a \<noteq> length b then TFalse else combine_and (map (\<lambda>(x, y). eqd (d + 1) x y) (zip a b)))"
  by (simp add: values_equal_at_depth.simps [of _ _ d])

lemma eqd_lists_TTrue: "d \<le> MAX_PREDICATE_DEPTH \<Longrightarrow> eqd d (TList a) (TList b) = TTrue \<longleftrightarrow>
    length a = length b \<and> (\<forall>i<length b. eqd (d + 1) (a ! i) (b ! i) = TTrue)"
  by (auto simp: eqd_lists combine_and_TTrue set_zip)

lemma eqd_lists_TError: "d \<le> MAX_PREDICATE_DEPTH \<Longrightarrow> eqd d (TList a) (TList b) = TError \<longleftrightarrow>
    length a = length b \<and> (\<exists>i<length b. eqd (d + 1) (a ! i) (b ! i) = TError)"
  by (auto simp: eqd_lists combine_and_TError set_zip in_image_eq)

lemma eqd_sets: "d \<le> MAX_PREDICATE_DEPTH \<Longrightarrow> eqd d (TSet a) (TSet b) =
    combine_and (map (\<lambda>x. memd (d + 1) x b) a @ map (\<lambda>x. memd (d + 1) x a) b)"
  by (simp add: values_equal_at_depth.simps [of _ _ d])

definition both_nested :: "TypedValue \<Rightarrow> TypedValue \<Rightarrow> bool" where
  "both_nested x y \<longleftrightarrow> (case x of TList _ \<Rightarrow> (case y of TList _ \<Rightarrow> True | _ \<Rightarrow> False)
     | TSet _ \<Rightarrow> (case y of TSet _ \<Rightarrow> True | _ \<Rightarrow> False) | _ \<Rightarrow> False)"

lemma eqd_scalar: "d \<le> MAX_PREDICATE_DEPTH \<Longrightarrow> \<not> both_nested x y \<Longrightarrow> eqd d x y = scalar_equal x y"
  by (cases x; cases y) (simp_all add: values_equal_at_depth.simps [of _ _ d] both_nested_def scalar_equal_def)

lemma scalar_equal_nested: "(\<exists>a. x = TList a \<or> x = TSet a) \<Longrightarrow> scalar_equal x y = TError"
  by (auto simp: scalar_equal_def compare_values_def)

lemma both_nested_cases:
  assumes "both_nested x y"
  obtains a b where "x = TList a" and "y = TList b" | a b where "x = TSet a" and "y = TSet b"
  using assms by (cases x; cases y) (auto simp: both_nested_def)

lemma eqd_sym: "eqd d x y = eqd d y x"
proof (induction "MAX_PREDICATE_DEPTH + 1 - d" arbitrary: d x y rule: less_induct)
  case less
  show ?case
  proof (cases "d \<le> MAX_PREDICATE_DEPTH")
    case True
    then have step: "eqd (d + 1) u v = eqd (d + 1) v u" for u v by (intro less) simp
    show ?thesis
    proof (cases "both_nested x y")
      case nested: True
      then show ?thesis
      proof (cases rule: both_nested_cases)
        case (1 a b)
        have "map (\<lambda>(x, y). eqd (d + 1) x y) (zip a b) = map (\<lambda>(x, y). eqd (d + 1) x y) (zip b a)" if "length a = length b"
          using that step by (intro nth_equalityI) auto
        then show ?thesis using True 1 by (auto simp: eqd_lists)
      next
        case (2 a b)
        then show ?thesis using True by (auto simp: eqd_sets combine_and_eq)
      qed
    next
      case False
      then have "\<not> both_nested y x" by (cases x; cases y) (auto simp: both_nested_def)
      then show ?thesis using True False by (simp add: eqd_scalar scalar_equal_sym)
    qed
  qed (simp add: eqd_deep)
qed

text \<open>A value equal to another compares with every third value as the other does.\<close>

definition congruent_at :: "nat \<Rightarrow> bool" where
  "congruent_at d \<longleftrightarrow> (\<forall>x y z. eqd d y z = TTrue \<longrightarrow>
     (eqd d x y = TTrue \<longrightarrow> eqd d x z = TTrue) \<and> (eqd d x y \<noteq> TError \<longrightarrow> eqd d x z \<noteq> TError))"

lemma congruentD:
  assumes "congruent_at d" and "eqd d y z = TTrue"
  shows "eqd d x y = TTrue \<Longrightarrow> eqd d x z = TTrue" and "eqd d x y \<noteq> TError \<Longrightarrow> eqd d x z \<noteq> TError"
  using assms by (auto simp: congruent_at_def)

lemma memd_slice_congruent:
  assumes "congruent_at (d + 1)" and b: "\<forall>v\<in>set b. memd d v c = TTrue" and c: "\<forall>w\<in>set c. memd d w b = TTrue"
  shows "memd d u b \<noteq> TError \<Longrightarrow> memd d u c \<noteq> TError" and "memd d u b = TTrue \<Longrightarrow> memd d u c = TTrue"
proof -
  have all: "eqd (d + 1) u w \<noteq> TError" if nb: "\<forall>v\<in>set b. eqd (d + 1) u v \<noteq> TError" and w: "w \<in> set c" for w
  proof -
    obtain v where "v \<in> set b" "eqd (d + 1) v w = TTrue" using c w eqd_sym by (fastforce simp: memd_TTrue)
    then show ?thesis using nb congruentD(2) [OF assms(1)] by blast
  qed
  have some: "\<exists>w\<in>set c. eqd (d + 1) u w = TTrue" if "v \<in> set b" and "eqd (d + 1) u v = TTrue" for v
    using b that congruentD(1) [OF assms(1)] unfolding memd_TTrue by blast
  show "memd d u c \<noteq> TError" if "memd d u b \<noteq> TError" using that all by (auto simp: memd_TError)
  show "memd d u c = TTrue" if "memd d u b = TTrue" using that all some unfolding memd_TTrue by blast
qed

lemma memd_needle_congruent:
  assumes "congruent_at (d + 1)" and "\<forall>w\<in>set c. memd d w b = TTrue" and "w \<in> set c"
  shows "\<forall>v\<in>set b. memd d v a \<noteq> TError \<Longrightarrow> memd d w a \<noteq> TError"
    and "\<forall>v\<in>set b. memd d v a = TTrue \<Longrightarrow> memd d w a = TTrue"
proof -
  obtain v where v: "v \<in> set b" "eqd (d + 1) v w = TTrue" "d \<le> MAX_PREDICATE_DEPTH"
    using assms(2,3) eqd_sym by (fastforce simp: memd_TTrue)
  have all: "eqd (d + 1) w u \<noteq> TError" if "eqd (d + 1) v u \<noteq> TError" for u
    using congruentD(2) [OF assms(1) v(2), of u] that by (simp add: eqd_sym [of u])
  have some: "eqd (d + 1) w u = TTrue" if "eqd (d + 1) v u = TTrue" for u
    using congruentD(1) [OF assms(1) v(2), of u] that by (simp add: eqd_sym [of u])
  show "memd d w a \<noteq> TError" if "\<forall>v\<in>set b. memd d v a \<noteq> TError" using that v all by (auto simp: memd_TError)
  show "memd d w a = TTrue" if "\<forall>v\<in>set b. memd d v a = TTrue" using that v all some unfolding memd_TTrue by blast
qed

lemma eqd_nested_only:
  assumes "d \<le> MAX_PREDICATE_DEPTH" and "y = TList b \<or> y = TSet b" and "\<not> both_nested x y"
  shows "eqd d x y = TError"
  using assms scalar_equal_nested [of y x] by (auto simp: eqd_scalar scalar_equal_sym [of x])

lemma lists_congruent:
  assumes "d \<le> MAX_PREDICATE_DEPTH" and "congruent_at (d + 1)" and "eqd d (TList b) (TList c) = TTrue"
  shows "(eqd d x (TList b) = TTrue \<longrightarrow> eqd d x (TList c) = TTrue) \<and> (eqd d x (TList b) \<noteq> TError \<longrightarrow> eqd d x (TList c) \<noteq> TError)"
proof (cases "both_nested x (TList b)")
  case True
  then obtain a where x: "x = TList a" by (auto elim: both_nested_cases)
  have bc: "length b = length c" "\<And>i. i < length c \<Longrightarrow> eqd (d + 1) (b ! i) (c ! i) = TTrue"
    using assms by (simp_all add: eqd_lists_TTrue)
  note at = congruentD [OF assms(2) bc(2)]
  have "eqd d x (TList b) = TTrue \<longrightarrow> eqd d x (TList c) = TTrue"
    using bc(1) x assms(1) at(1) by (simp add: eqd_lists_TTrue)
  moreover have "eqd d x (TList b) \<noteq> TError \<longrightarrow> eqd d x (TList c) \<noteq> TError"
    using bc(1) x assms(1) at(2) by (simp add: eqd_lists_TError)
  ultimately show ?thesis by blast
qed (use eqd_nested_only [OF assms(1), of "TList b" b x] in auto)

lemma sets_congruent:
  assumes "d \<le> MAX_PREDICATE_DEPTH" and "congruent_at (d + 2)" and "eqd d (TSet b) (TSet c) = TTrue"
  shows "(eqd d x (TSet b) = TTrue \<longrightarrow> eqd d x (TSet c) = TTrue) \<and> (eqd d x (TSet b) \<noteq> TError \<longrightarrow> eqd d x (TSet c) \<noteq> TError)"
proof (cases "both_nested x (TSet b)")
  case True
  then obtain a where x: "x = TSet a" by (auto elim: both_nested_cases)
  have bc: "\<forall>v\<in>set b. memd (d + 1) v c = TTrue" "\<forall>w\<in>set c. memd (d + 1) w b = TTrue"
    using assms by (auto simp: eqd_sets combine_and_TTrue)
  have cong: "congruent_at (d + 1 + 1)" using assms(2) by simp
  note slice = memd_slice_congruent [OF cong bc] and needle = memd_needle_congruent [OF cong bc(2)]
  have "eqd d x (TSet b) = TTrue \<longrightarrow> eqd d x (TSet c) = TTrue"
    using assms(1) x slice(2) needle(2) by (auto simp: eqd_sets combine_and_TTrue)
  moreover have "eqd d x (TSet b) \<noteq> TError \<longrightarrow> eqd d x (TSet c) \<noteq> TError"
    using assms(1) x slice(1) needle(1) by (auto simp: eqd_sets combine_and_TError in_image_eq)
  ultimately show ?thesis by blast
qed (use eqd_nested_only [OF assms(1), of "TSet b" b x] in auto)

lemma eqd_congruent: "congruent_at d"
proof (induction "MAX_PREDICATE_DEPTH + 1 - d" arbitrary: d rule: less_induct)
  case less
  show ?case unfolding congruent_at_def
  proof (intro allI impI)
    fix x y z assume yz: "eqd d y z = TTrue"
    have d: "d \<le> MAX_PREDICATE_DEPTH" using yz eqd_deep [of d y z] by fastforce
    show "(eqd d x y = TTrue \<longrightarrow> eqd d x z = TTrue) \<and> (eqd d x y \<noteq> TError \<longrightarrow> eqd d x z \<noteq> TError)"
    proof (cases "both_nested y z")
      case True
      then show ?thesis
      proof (cases rule: both_nested_cases)
        case (1 b c)
        have "congruent_at (d + 1)" using d by (intro less) simp
        then show ?thesis using lists_congruent [OF d] yz unfolding 1 by blast
      next
        case (2 b c)
        have "congruent_at (d + 2)" using d by (intro less) simp
        then show ?thesis using sets_congruent [OF d] yz unfolding 2 by blast
      qed
    next
      case False
      then have s: "scalar_equal y z = TTrue" using yz d by (simp add: eqd_scalar)
      then have "\<not> (\<exists>a. y = TList a \<or> y = TSet a)" "\<not> (\<exists>a. z = TList a \<or> z = TSet a)"
        using scalar_equal_nested [of y z] scalar_equal_nested [of z y] scalar_equal_sym [of y z] by auto
      then have "\<not> both_nested x y" "\<not> both_nested x z" by (auto elim: both_nested_cases)
      then show ?thesis using d s scalar_equal_trans [of x y z] scalar_equal_comparable [of x y z] by (auto simp: eqd_scalar)
    qed
  qed
qed

subsection \<open>Partial equality\<close>

text \<open>
  A symmetric and transitive relation need not be reflexive: a set with elements of different types is not equal to
  itself. Comparing each element of a list with its predecessor only still compares all of them.
\<close>

locale partial_equality =
  fixes same :: "'a \<Rightarrow> 'a \<Rightarrow> bool"
  assumes same_sym: "same x y \<Longrightarrow> same y x"
    and same_trans: "same x y \<Longrightarrow> same y z \<Longrightarrow> same x z"
begin

lemma neighbours_suffice: "sorted_wrt same (x # y # xs) \<longleftrightarrow> same x y \<and> sorted_wrt same (y # xs)"
  using same_trans by auto

lemma different_both_ways: "sorted_wrt (\<lambda>x y. \<not> same x y) xs \<longleftrightarrow> sorted_wrt (\<lambda>x y. \<not> same x y \<and> \<not> same y x) xs"
  using same_sym by (metis (no_types, lifting) sorted_wrt_mono_rel)

end

interpretation agreement: partial_equality semantically_equal
proof
  show "semantically_equal y x" if "semantically_equal x y" for x y
    using that by (simp add: semantically_equal_def values_equal_def eqd_sym [of x])
  show "semantically_equal x z" if "semantically_equal x y" and "semantically_equal y z" for x y z
    using that congruentD(1) [OF eqd_congruent, of y z 0 x] by (simp add: semantically_equal_def values_equal_def)
qed

end
