(* ===== verification/Search_Discovery_Props.thy ===== *)
theory Search_Discovery_Props
  imports Search_Discovery Search_Equality
begin

text \<open>
  What the decisions of discovery promise: hard rules decide applicability whatever the soft rules say, inference
  never displaces a curated or authoritative assertion and values of equal rank that differ are reported as a conflict, and
  evidence is sufficient only with direct, uncontradicted and independent support of every required claim.
\<close>

subsection \<open>Applicability\<close>

lemma size_member: "x \<in> set xs \<Longrightarrow> f x < size_list f xs"
  by (induction xs) auto

function mentioned :: "PredicateExpr \<Rightarrow> ustr list" where
  "mentioned e = leaf_keys e @ concat (map mentioned (pushed_children e))"
  by pat_completeness auto
termination
proof (relation "measure size")
  fix e x :: PredicateExpr
  assume "x \<in> set (pushed_children e)"
  then have "size x < size_list size (pushed_children e)" by (rule size_member)
  then show "(x, e) \<in> measure size" using pushed_children_size [of e] by simp
qed simp

declare mentioned.simps [simp del]

definition trusted :: "FactSet \<Rightarrow> Discriminator \<Rightarrow> bool" where
  "trusted facts rule \<longleftrightarrow> (\<forall>key\<in>set (di_facet rule # mentioned (di_predicate rule)). \<forall>f.
     facts key = Some f \<longrightarrow> evidence_accepts (di_minimum_fact_evidence rule) (fa_origin f))"

lemma find_append_case: "find P (xs @ ys) = (case find P xs of Some x \<Rightarrow> Some x | None \<Rightarrow> find P ys)"
  by (induction xs) auto

lemma pending_loop_finds: "pending_loop facts m pending = find (weak_fact facts m) (concat (map mentioned pending))"
proof (induction facts m pending rule: pending_loop.induct)
  case (2 facts m current pending)
  then show ?case by (simp add: mentioned.simps [of current] find_append_case split: option.splits)
qed simp

lemma weak_fact_AnyFact [simp]: "\<not> weak_fact facts AnyFact key"
  by (cases "facts key") (simp_all add: weak_fact_def)

lemma insufficient_fact_None: "insufficient_fact facts rule = None \<longleftrightarrow> trusted facts rule"
proof -
  have "weak_fact facts m key \<longleftrightarrow> (\<exists>f. facts key = Some f \<and> \<not> evidence_accepts m (fa_origin f))" for m key
    by (cases "facts key") (simp_all add: weak_fact_def)
  then show ?thesis
    by (auto simp: insufficient_fact_def insufficient_predicate_fact_def pending_loop_finds trusted_def find_None_iff)
qed

lemma rule_value_eq:
  "rule_value concepts facts rule = TError \<longleftrightarrow> evaluate (di_predicate rule) facts concepts = TError"
  "rule_value concepts facts rule = TFalse \<longleftrightarrow> trusted facts rule \<and> evaluate (di_predicate rule) facts concepts = TFalse"
  "rule_value concepts facts rule = TTrue \<longleftrightarrow> trusted facts rule \<and> evaluate (di_predicate rule) facts concepts = TTrue"
  "rule_value concepts facts rule = TUnknown \<longleftrightarrow> evaluate (di_predicate rule) facts concepts \<noteq> TError
     \<and> (\<not> trusted facts rule \<or> evaluate (di_predicate rule) facts concepts = TUnknown)"
  by (auto simp: rule_value_def Let_def insufficient_fact_None [symmetric])

lemma apply_rules:
  fixes concepts facts rules s
  defines "s' \<equiv> fold (apply_rule concepts facts) rules s" and "v \<equiv> rule_value concepts facts"
  shows "af_invalid s' \<longleftrightarrow> af_invalid s \<or> (\<exists>rule\<in>set rules. v rule = TError)"
    and "af_hard_false s' \<longleftrightarrow> af_hard_false s \<or> (\<exists>rule\<in>set rules. v rule = TFalse \<and> di_importance rule = HardRule)"
    and "af_hard_unknown s' \<longleftrightarrow> af_hard_unknown s \<or> (\<exists>rule\<in>set rules. v rule = TUnknown \<and> di_importance rule = HardRule)"
    and "ae_gaps (af_result s') = ae_gaps (af_result s)
      @ map (rule_gap facts) (filter (\<lambda>rule. v rule = TUnknown \<and> di_importance rule = HardRule) rules)"
    and "ae_matched_conditions (af_result s') = ae_matched_conditions (af_result s)
      @ map di_facet (filter (\<lambda>rule. v rule = TTrue) rules)"
    and "ae_remaining_nonblocking_unknowns (af_result s') = ae_remaining_nonblocking_unknowns (af_result s)
      @ map di_facet (filter (\<lambda>rule. v rule = TUnknown \<and> di_importance rule = SoftRule) rules)"
  unfolding s'_def v_def
  by (induction rules arbitrary: s)
    (auto simp: apply_rule_def Let_def push_reason_def split: TruthValue.splits DiscriminatorImportance.splits)

text \<open>
  (C36) Errors first, then hard rules decide. A candidate is invalid exactly if the predicate of some rule is an error, else excluded exactly if
  a hard rule is false on facts whose origins satisfy its minimum evidence, else unresolved exactly if a hard rule is
  unknown or rests on a fact of insufficient origin, anywhere in its predicate. It qualifies exactly if it is a
  known resource, no predicate is an error and every hard rule is true on facts of sufficient origin; a soft rule
  blocks by an error only.
  Every unresolved hard rule leaves one blocking gap, in the order of the rules, and a
  candidate that does not pass is rejected with its reasons.
\<close>

theorem hard_gates_decide:
  fixes candidate facts rules concepts
  defines "r \<equiv> evaluate_applicability candidate facts rules concepts"
    and "val \<equiv> \<lambda>rule. evaluate (di_predicate rule) facts concepts"
    and "hard \<equiv> \<lambda>rule. di_importance rule = HardRule"
  shows "ae_state r =
      (if \<exists>rule\<in>set rules. val rule = TError then AppInvalid
       else if \<exists>rule\<in>set rules. hard rule \<and> trusted facts rule \<and> val rule = TFalse then AppExcluded
       else if \<exists>rule\<in>set rules. hard rule \<and> (\<not> trusted facts rule \<or> val rule = TUnknown) then AppUnresolved
       else AppApplicable)
    \<and> (qualify r candidate \<noteq> None \<longleftrightarrow> fc_resource_ref candidate \<noteq> None
        \<and> (\<forall>rule\<in>set rules. val rule \<noteq> TError \<and> (hard rule \<longrightarrow> trusted facts rule \<and> val rule = TTrue)))
    \<and> (from_evaluation candidate r = None \<longleftrightarrow> ae_state r = AppApplicable)
    \<and> ae_gaps r = map (rule_gap facts)
        (filter (\<lambda>rule. hard rule \<and> val rule \<noteq> TError \<and> (\<not> trusted facts rule \<or> val rule = TUnknown)) rules)
    \<and> (\<forall>gap\<in>set (ae_gaps r). ig_blocking gap)
    \<and> ae_matched_conditions r = map di_facet (filter (\<lambda>rule. trusted facts rule \<and> val rule = TTrue) rules)"
proof -
  have state: "ae_state r =
      (if \<exists>rule\<in>set rules. val rule = TError then AppInvalid
       else if \<exists>rule\<in>set rules. hard rule \<and> trusted facts rule \<and> val rule = TFalse then AppExcluded
       else if \<exists>rule\<in>set rules. hard rule \<and> (\<not> trusted facts rule \<or> val rule = TUnknown) then AppUnresolved
       else AppApplicable)"
    unfolding r_def evaluate_applicability_def Let_def
    by (simp add: apply_rules rule_value_eq val_def hard_def) blast
  have gaps: "ae_gaps r = map (rule_gap facts)
      (filter (\<lambda>rule. hard rule \<and> val rule \<noteq> TError \<and> (\<not> trusted facts rule \<or> val rule = TUnknown)) rules)"
    unfolding r_def evaluate_applicability_def Let_def
    by (simp add: apply_rules empty_evaluation_def rule_value_eq val_def hard_def conj_ac)
  have matched: "ae_matched_conditions r = map di_facet (filter (\<lambda>rule. trusted facts rule \<and> val rule = TTrue) rules)"
    unfolding r_def evaluate_applicability_def Let_def
    by (simp add: apply_rules empty_evaluation_def rule_value_eq val_def)
  have "ae_state r = AppApplicable \<longleftrightarrow> (\<forall>rule\<in>set rules. val rule \<noteq> TError \<and> (hard rule \<longrightarrow> trusted facts rule \<and> val rule = TTrue))"
    unfolding state by (auto split: if_splits) (metis TruthValue.exhaust)+
  then show ?thesis
    using state gaps matched by (auto simp: qualify_def from_evaluation_def rule_gap_def InformationGap_new_def)
qed

subsection \<open>Authority\<close>

definition in_scope_ranked :: "AuthorityPolicy \<Rightarrow> ustr \<Rightarrow> ustr \<Rightarrow> ustr \<Rightarrow> Assertion \<Rightarrow> nat \<Rightarrow> bool" where
  "in_scope_ranked policy subject predicate scope a r \<longleftrightarrow>
     as_subject_ref a = subject \<and> as_predicate a = predicate \<and> as_authority_scope a = scope
     \<and> rank_of policy scope predicate (as_origin a) = Some r"

definition counts :: "Assertion list \<Rightarrow> AuthorityPolicy \<Rightarrow> ustr \<Rightarrow> ustr \<Rightarrow> ustr \<Rightarrow> Assertion \<Rightarrow> nat \<Rightarrow> bool" where
  "counts assertions policy subject predicate scope a r \<longleftrightarrow>
     a \<in> set assertions \<and> in_scope_ranked policy subject predicate scope a r
     \<and> (as_origin a = AssertedInferred \<longrightarrow>
          \<not> (\<exists>b\<in>set assertions. \<exists>q. in_scope_ranked policy subject predicate scope b q \<and> is_protected b))"

lemma set_scoped: "(a, r) \<in> set (scoped_assertions as policy subject predicate scope)
    \<longleftrightarrow> a \<in> set as \<and> in_scope_ranked policy subject predicate scope a r"
  by (auto simp: scoped_assertions_def map_filter_def in_scope_ranked_def image_iff)

lemma set_eligible: "(a, r) \<in> set (eligible_assertions (scoped_assertions as policy subject predicate scope))
    \<longleftrightarrow> counts as policy subject predicate scope a r"
  unfolding eligible_assertions_def Let_def counts_def by (simp add: set_scoped) (blast dest: set_scoped [THEN iffD1] intro: set_scoped [THEN iffD2])

lemma scoped_filter: "scoped_assertions (filter P as) policy subject predicate scope
    = filter (\<lambda>(a, _). P a) (scoped_assertions as policy subject predicate scope)"
  by (induction as) (auto simp: scoped_assertions_def map_filter_def split: option.splits)

lemma eligible_without_inferred:
  assumes "(a, r) \<in> set scoped" and "is_protected a"
  shows "eligible_assertions (filter (\<lambda>(b, _). as_origin b \<noteq> AssertedInferred) scoped) = eligible_assertions scoped"
proof -
  have "(a, r) \<in> set (filter (\<lambda>(b, _). as_origin b \<noteq> AssertedInferred) scoped)" using assms by (auto simp: is_protected_def)
  then have "\<exists>(b, _)\<in>set (filter (\<lambda>(b, _). as_origin b \<noteq> AssertedInferred) scoped). is_protected b"
    "\<exists>(b, _)\<in>set scoped. is_protected b"
    using assms by blast+
  then show ?thesis unfolding eligible_assertions_def Let_def by (simp only:) (auto intro!: filter_cong)
qed

lemma push_values:
  fixes xs acc r
  defines "vs \<equiv> fold (push_value r) xs acc"
  shows "set acc \<subseteq> set vs" and "set vs \<subseteq> set acc \<union> {as_value a |a. (a, r) \<in> set xs}"
    and "(a, r) \<in> set xs \<Longrightarrow> \<exists>v\<in>set vs. v = as_value a \<or> semantically_equal v (as_value a)"
    and "sorted_wrt (\<lambda>x y. \<not> semantically_equal x y) acc \<Longrightarrow> sorted_wrt (\<lambda>x y. \<not> semantically_equal x y) vs"
proof -
  have mono: "set acc \<subseteq> set (fold (push_value r) xs acc)" for xs acc
    by (induction xs arbitrary: acc) (fastforce simp: push_value_def split: if_splits prod.splits)+
  show "set acc \<subseteq> set vs" unfolding vs_def by (rule mono)
  show "set vs \<subseteq> set acc \<union> {as_value a |a. (a, r) \<in> set xs}"
    unfolding vs_def by (induction xs arbitrary: acc) (fastforce simp: push_value_def split: if_splits)+
  show "\<exists>v\<in>set vs. v = as_value a \<or> semantically_equal v (as_value a)" if "(a, r) \<in> set xs"
    using that unfolding vs_def
  proof (induction xs arbitrary: acc)
    case (Cons x xs)
    have "\<exists>v\<in>set (push_value r (a, r) acc). v = as_value a \<or> semantically_equal v (as_value a)"
      by (auto simp: push_value_def)
    then show ?case using Cons mono [of "push_value r x acc" xs] by auto
  qed simp
  show "sorted_wrt (\<lambda>x y. \<not> semantically_equal x y) vs" if "sorted_wrt (\<lambda>x y. \<not> semantically_equal x y) acc"
    using that unfolding vs_def by (induction xs arbitrary: acc) (auto simp: push_value_def sorted_wrt_append split: prod.splits)
qed

definition top_rank :: "(Assertion \<times> nat) list \<Rightarrow> nat" where
  "top_rank ranked = Max (set (map snd ranked))"

definition top_values :: "(Assertion \<times> nat) list \<Rightarrow> TypedValue list" where
  "top_values ranked = fold (push_value (top_rank ranked)) ranked []"

lemma top_rank_le: "(a, q) \<in> set ranked \<Longrightarrow> q \<le> top_rank ranked"
  by (force simp: top_rank_def intro: Max_ge)

lemma top_values_source: "v \<in> set (top_values ranked) \<Longrightarrow> \<exists>a. (a, top_rank ranked) \<in> set ranked \<and> as_value a = v"
  using push_values(2) [of "top_rank ranked" ranked "[]"] unfolding top_values_def by auto

lemma top_values_cover: "(a, top_rank ranked) \<in> set ranked \<Longrightarrow> \<exists>v\<in>set (top_values ranked). v = as_value a \<or> semantically_equal v (as_value a)"
  unfolding top_values_def by (rule push_values(3))

lemma top_values_differ:
  "sorted_wrt (\<lambda>v w. \<not> semantically_equal v w \<and> \<not> semantically_equal w v) (top_values ranked)"
proof -
  have "sorted_wrt (\<lambda>v w. \<not> semantically_equal v w) (top_values ranked)" unfolding top_values_def by (rule push_values(4)) simp
  then show ?thesis by (simp only: agreement.different_both_ways)
qed

lemma top_values_nonempty: "ranked \<noteq> [] \<Longrightarrow> top_values ranked \<noteq> []"
proof -
  assume "ranked \<noteq> []"
  then have "top_rank ranked \<in> set (map snd ranked)" unfolding top_rank_def by (intro Max_in) auto
  then obtain a where "(a, top_rank ranked) \<in> set ranked" by auto
  then show ?thesis using top_values_cover by fastforce
qed

lemma resolve_assertions_eq:
  fixes as policy subject predicate scope
  defines "el \<equiv> eligible_assertions (scoped_assertions as policy subject predicate scope)"
  shows "resolve_assertions as policy subject predicate scope =
    (if el = [] then AuthorityUnresolved else if length (top_values el) = 1 then AuthorityResolved (hd (top_values el))
     else AuthorityConflicting \<lparr>ac_subject_ref = subject, ac_predicate = predicate, ac_authority_scope = scope,
       ac_rank = top_rank el, ac_values = top_values el\<rparr>)"
  by (simp add: resolve_assertions_def el_def top_rank_def top_values_def Let_def)

text \<open>
  (C37) Authority is respected. A resolution is absent exactly if no ranked assertion of the subject, predicate
  and scope counts; a resolved value is the value of an assertion of the highest rank, and every assertion of that
  rank agrees with it; else the conflict lists at least two values of the highest rank that pairwise differ, and
  every assertion of that rank agrees with one of them. Once an authoritative or curated assertion is ranked, the
  result is the one without the inferred assertions, whatever ranks the policy grants them.
\<close>

theorem authority_respected:
  fixes as policy subject predicate scope
  defines "res \<equiv> \<lambda>xs. resolve_assertions xs policy subject predicate scope"
    and "cnt \<equiv> counts as policy subject predicate scope"
    and "agrees \<equiv> \<lambda>v a. v = as_value a \<or> semantically_equal v (as_value a)"
  shows "(res as = AuthorityUnresolved \<longleftrightarrow> \<not> (\<exists>a r. cnt a r))
    \<and> (\<forall>v. res as = AuthorityResolved v \<longrightarrow>
        (\<exists>a r. cnt a r \<and> as_value a = v \<and> (\<forall>b q. cnt b q \<longrightarrow> q \<le> r \<and> (q = r \<longrightarrow> agrees v b))))
    \<and> (\<forall>c. res as = AuthorityConflicting c \<longrightarrow>
        2 \<le> length (ac_values c)
        \<and> sorted_wrt (\<lambda>v w. \<not> semantically_equal v w \<and> \<not> semantically_equal w v) (ac_values c)
        \<and> (\<forall>v\<in>set (ac_values c). \<exists>a. cnt a (ac_rank c) \<and> as_value a = v)
        \<and> (\<forall>b q. cnt b q \<longrightarrow> q \<le> ac_rank c \<and> (q = ac_rank c \<longrightarrow> (\<exists>v\<in>set (ac_values c). agrees v b))))
    \<and> ((\<exists>a\<in>set as. \<exists>r. in_scope_ranked policy subject predicate scope a r \<and> is_protected a) \<longrightarrow>
        res as = res (filter (\<lambda>a. as_origin a \<noteq> AssertedInferred) as))"
proof -
  define el where "el = eligible_assertions (scoped_assertions as policy subject predicate scope)"
  have el: "(a, r) \<in> set el \<longleftrightarrow> cnt a r" for a r by (simp add: el_def cnt_def set_eligible)
  have res: "res as = (if el = [] then AuthorityUnresolved else if length (top_values el) = 1 then AuthorityResolved (hd (top_values el))
      else AuthorityConflicting \<lparr>ac_subject_ref = subject, ac_predicate = predicate, ac_authority_scope = scope,
        ac_rank = top_rank el, ac_values = top_values el\<rparr>)"
    unfolding res_def el_def by (rule resolve_assertions_eq)
  note le = top_rank_le [of _ _ el, unfolded el] and source = top_values_source [of _ el, unfolded el]
  have cover: "\<exists>v\<in>set (top_values el). agrees v b" if "cnt b (top_rank el)" for b
    using top_values_cover [of b el, unfolded el, OF that] by (simp add: agrees_def)
  have "el = [] \<longleftrightarrow> \<not> (\<exists>a r. cnt a r)" unfolding el [symmetric] by (cases el) auto
  then have "res as = AuthorityUnresolved \<longleftrightarrow> \<not> (\<exists>a r. cnt a r)" using res by simp
  moreover have "\<exists>a r. cnt a r \<and> as_value a = v \<and> (\<forall>b q. cnt b q \<longrightarrow> q \<le> r \<and> (q = r \<longrightarrow> agrees v b))"
    if "res as = AuthorityResolved v" for v
  proof -
    have vs: "top_values el = [v]" using that res by (cases "top_values el") (auto split: if_splits)
    then obtain a where "cnt a (top_rank el)" "as_value a = v" using source by auto
    then show ?thesis using cover vs le by (intro exI [of _ a] exI [of _ "top_rank el"]) auto
  qed
  moreover have "2 \<le> length (ac_values c)
        \<and> sorted_wrt (\<lambda>v w. \<not> semantically_equal v w \<and> \<not> semantically_equal w v) (ac_values c)
        \<and> (\<forall>v\<in>set (ac_values c). \<exists>a. cnt a (ac_rank c) \<and> as_value a = v)
        \<and> (\<forall>b q. cnt b q \<longrightarrow> q \<le> ac_rank c \<and> (q = ac_rank c \<longrightarrow> (\<exists>v\<in>set (ac_values c). agrees v b)))"
    if "res as = AuthorityConflicting c" for c
  proof -
    have "ac_values c = top_values el" "ac_rank c = top_rank el" "el \<noteq> []" "length (top_values el) \<noteq> 1"
      using that res by (auto split: if_splits)
    moreover from this have "2 \<le> length (top_values el)"
      using top_values_nonempty [of el] by (cases "top_values el") (auto simp: Suc_le_eq)
    ultimately show ?thesis using top_values_differ [of el] source cover le by (simp only:) blast
  qed
  moreover have "res as = res (filter (\<lambda>a. as_origin a \<noteq> AssertedInferred) as)"
    if "a \<in> set as" "in_scope_ranked policy subject predicate scope a r" "is_protected a" for a r
    unfolding res_def resolve_assertions_def scoped_filter
    using eligible_without_inferred [of a r "scoped_assertions as policy subject predicate scope"] that by (simp add: set_scoped)
  ultimately show ?thesis by blast
qed

subsection \<open>Evidence\<close>

lemma observed_conflict_iff:
  "observed_conflict observed claims \<longleftrightarrow>
     \<not> sorted_wrt semantically_equal ((case observed of Some v \<Rightarrow> [v] | None \<Rightarrow> []) @ List.map_filter cl_value claims)"
proof (induction observed claims rule: observed_conflict.induct)
  case (2 observed claim claims)
  then show ?case
    by (cases "cl_value claim"; cases observed) (simp_all add: map_filter_simps agreement.neighbours_suffice del: sorted_wrt.simps(2))
qed (simp_all split: option.splits)

definition evidence_of :: "EvidenceClaim list \<Rightarrow> EvidenceReference list" where
  "evidence_of claims = concat (map cl_evidence_refs claims)"

definition claim_settled :: "nat \<Rightarrow> EvidenceClaim list \<Rightarrow> bool" where
  "claim_settled minimum claims \<longleftrightarrow>
     claims \<noteq> [] \<and> (\<forall>claim\<in>set claims. cl_state claim = ClaimSupported)
     \<and> sorted_wrt semantically_equal (List.map_filter cl_value claims)
     \<and> (\<forall>e\<in>set (evidence_of claims). ev_role e \<noteq> RoleContradicting)
     \<and> (\<exists>e\<in>set (evidence_of claims). ev_role e = RolePrimary \<and> verified_direct e)
     \<and> minimum \<le> card ((\<lambda>e. trim (ev_upstream_origin e)) `
          {e \<in> set (evidence_of claims). ev_role e \<in> {RolePrimary, RoleCorroborating} \<and> verified_direct e})"

lemma length_independent_origins: "length (independent_origins evidence) =
    card ((\<lambda>e. trim (ev_upstream_origin e)) ` {e \<in> set evidence. ev_role e \<in> {RolePrimary, RoleCorroborating} \<and> verified_direct e})"
  by (simp add: independent_origins_def btree_set_def length_remdups_card_conv)

lemma judge_claim_settled:
  "judge_claim minimum claims claim_id = Inr (False, False)
     \<longleftrightarrow> claim_settled minimum (filter (\<lambda>claim. cl_claim_id claim = claim_id) claims)"
proof -
  define m where "m = filter (\<lambda>claim. cl_claim_id claim = claim_id) claims"
  have supported: "(\<forall>c\<in>set m. cl_state c = ClaimSupported) \<longleftrightarrow>
      \<not> (\<exists>c\<in>set m. cl_state c = ClaimInvalid) \<and> \<not> (\<exists>c\<in>set m. cl_state c = ClaimConflicted)
      \<and> \<not> (\<exists>c\<in>set m. cl_state c = ClaimAbsent) \<and> \<not> (\<exists>c\<in>set m. cl_state c = ClaimUnknown)"
  proof -
    have "cl_state c = ClaimSupported \<longleftrightarrow> cl_state c \<noteq> ClaimInvalid \<and> cl_state c \<noteq> ClaimConflicted
        \<and> cl_state c \<noteq> ClaimAbsent \<and> cl_state c \<noteq> ClaimUnknown" for c
      by (cases "cl_state c") simp_all
    then show ?thesis by blast
  qed
  have some: "\<exists>c\<in>set m. cl_state c = ClaimSupported" if "m \<noteq> []" "\<forall>c\<in>set m. cl_state c = ClaimSupported"
    using that by (cases m) auto
  show ?thesis
  proof (cases "m \<noteq> [] \<and> (\<forall>c\<in>set m. cl_state c = ClaimSupported)")
    case True
    then have "filter (\<lambda>c. cl_state c = ClaimSupported) m = m" by (simp add: filter_id_conv)
    then show ?thesis
      using True some supported
      by (auto simp: judge_claim_def claim_settled_def Let_def observed_conflict_iff length_independent_origins evidence_of_def m_def [symmetric])
  next
    case False
    then show ?thesis using supported
      by (auto simp: judge_claim_def claim_settled_def Let_def m_def [symmetric] split: if_splits)
  qed
qed

lemma judge_claims_settled: "judge_claims minimum claims ids flags = Inr (False, False)
    \<longleftrightarrow> flags = (False, False) \<and> (\<forall>claim_id\<in>set ids. judge_claim minimum claims claim_id = Inr (False, False))"
proof (induction ids arbitrary: flags)
  case (Cons claim_id ids)
  show ?case
  proof (cases "judge_claim minimum claims claim_id")
    case (Inr p)
    then show ?thesis by (cases p; cases flags) (simp add: and_then_def Cons, blast)
  qed (simp add: and_then_def)
qed simp

lemma judge_claim_never_sufficient: "judge_claim minimum claims claim_id \<noteq> Inl EvidenceSufficient"
  by (simp add: judge_claim_def Let_def)

lemma judge_claims_never_sufficient: "judge_claims minimum claims ids flags \<noteq> Inl EvidenceSufficient"
proof (induction ids arbitrary: flags)
  case (Cons claim_id ids)
  show ?case
  proof (cases "judge_claim minimum claims claim_id")
    case (Inr p)
    then show ?thesis by (cases p) (simp add: and_then_def Cons)
  next
    case (Inl e)
    then show ?thesis using judge_claim_never_sufficient [of minimum claims claim_id] by (simp add: and_then_def)
  qed
qed simp

text \<open>
  (C38) Evidence is sufficient exactly if there are no authority or freshness requirements, which claims
  cannot settle, and every required claim is settled: it is
  present and supported in all its records, the recorded values agree pairwise although the code compares
  neighbours only, no evidence contradicts it, there is direct primary evidence, and the direct
  evidence comes from at least the required number of distinct origins, counted after trimming.
\<close>

theorem sufficient_evidence_earned:
  "evaluate_evidence_sufficiency requirement claims = EvidenceSufficient \<longleftrightarrow>
     rq_authority_requirements requirement = [] \<and> rq_freshness_requirements requirement = []
     \<and> (\<forall>claim_id\<in>set (rq_required_claims requirement).
          claim_settled (rq_minimum_independent_sources requirement) (filter (\<lambda>claim. cl_claim_id claim = claim_id) claims))"
proof -
  let ?judged = "judge_claims (rq_minimum_independent_sources requirement) claims (rq_required_claims requirement) (False, False)"
  have "evaluate_evidence_sufficiency requirement claims = EvidenceSufficient \<longleftrightarrow>
      ?judged = Inr (False, False) \<and> rq_authority_requirements requirement = [] \<and> rq_freshness_requirements requirement = []"
    using judge_claims_never_sufficient by (auto simp: evaluate_evidence_sufficiency_def split: sum.splits)
  then show ?thesis by (auto simp: judge_claims_settled judge_claim_settled)
qed

end
