(* ===== verification/Search_Graph.thy ===== *)
theory Search_Graph
  imports Search_Discovery
begin

text \<open>
  The in-memory graph of \<open>search-graph-memory\<close> over the projections of \<open>search-core\<close>: building the index of a
  generation (\<open>index.rs\<close>) and the bounded traversal (\<open>traversal.rs\<close>). A \<open>BTreeMap\<close> is an association list sorted by
  its keys. The evaluator of access is a parameter whose answers may change from call to call; the
  number of calls made so far and the cache of one traversal are its state. Lengths of vectors are natural
  numbers: they stay far below the range of \<open>usize\<close>. A poisoned lock, which only a panic leaves behind, is not
  modelled, and the result is the list of its hits.
\<close>

subsection \<open>Ordered maps\<close>

fun btree_put :: "'k::linorder \<Rightarrow> 'v \<Rightarrow> ('k \<times> 'v) list \<Rightarrow> ('k \<times> 'v) list" where
  "btree_put k v [] = [(k, v)]"
| "btree_put k v ((j, w) # m) =
     (if k < j then (k, v) # (j, w) # m else if k = j then (k, v) # m else (j, w) # btree_put k v m)"

definition btree_append :: "'k::linorder \<Rightarrow> 'v \<Rightarrow> ('k \<times> 'v list) list \<Rightarrow> ('k \<times> 'v list) list" where
  "btree_append k v m = btree_put k ((case map_of m k of Some vs \<Rightarrow> vs | None \<Rightarrow> []) @ [v]) m"

subsection \<open>Projections\<close>

datatype ResourceKind =
    KindKnowledge
  | KindDocument
  | KindFolderPlacement
  | KindSemantic
  | KindCapability
  | KindAgentSkill
  | KindWorkflow
  | KindPolicy

datatype RetentionMode =
    PersistentResource
  | PersistentDiscoveryMetadata
  | CacheWithExpiry
  | SessionOnly
  | NoRetention

datatype 'a FacetState = FacetKnown 'a | FacetUnknown | FacetNotApplicable | FacetConflict

record ProjectionGenerationKey =
  pk_source_id :: uuid
  pk_generation_id :: uuid

record ProjectionGenerationManifest =
  pm_source_id :: uuid
  pm_generation_id :: uuid
  pm_projection_schema_version :: ustr
  pm_lens_version :: int
  pm_semantic_registry_version :: ustr
  pm_analyzer_version :: "ustr option"
  pm_embedding_model_version :: "ustr option"
  pm_graph_schema_version :: "ustr option"
  pm_source_snapshot :: ustr
  pm_resource_count :: nat
  pm_relation_count :: "nat option"
  pm_coverage :: Coverage
  pm_digest :: ustr
  pm_built_at :: int

definition manifest_key :: "ProjectionGenerationManifest \<Rightarrow> ProjectionGenerationKey" where
  "manifest_key manifest = \<lparr>pk_source_id = pm_source_id manifest, pk_generation_id = pm_generation_id manifest\<rparr>"

record DirectoryProjection =
  dp_resource_ref :: uuid
  dp_resource_version :: "uuid option"
  dp_kind :: ResourceKind
  dp_canonical_name :: ustr
  dp_title :: "ustr option"
  dp_aliases :: "ustr list"

record StructuredProjection =
  sp_resource_ref :: uuid
  sp_concept_refs :: "ustr list"
  sp_high_signal_facets :: "(ustr \<times> ustr FacetState) list"
  sp_typed_facets :: "(ustr \<times> TypedValue FacetState) list"
  sp_assertions :: "Assertion list"
  sp_authority_resolutions :: "(ustr \<times> AuthorityResolution) list"

record TemporalProjection =
  tj_resource_ref :: uuid
  tj_valid_from :: "int option"
  tj_valid_to :: "int option"
  tj_profile :: TemporalDiscoveryProfile

record AccessProjection =
  aj_resource_ref :: uuid
  aj_access_scope :: "ustr option"
  aj_source_access_model :: "ustr option"

record CompiledResourceProjection =
  cp_manifest :: ProjectionGenerationManifest
  cp_retention_mode :: RetentionMode
  cp_directory :: DirectoryProjection
  cp_structured :: StructuredProjection
  cp_temporal :: TemporalProjection
  cp_access :: AccessProjection
  cp_relations :: "TypedRelationInstance list"

subsection \<open>The index of a generation\<close>

datatype GraphIndexError =
    GraphSourceMismatch
  | GraphUnsupportedSchemaVersion
  | GraphPersistenceDenied
  | GraphProjectionMismatch
  | GraphResourceCountMismatch
  | GraphRelationCountMismatch
  | GraphInvalidRelation
  | GraphDuplicateGeneration

record GenerationIndex =
  gi_resources :: "(uuid \<times> TemporalProjection) list"
  gi_relations :: "(uuid \<times> TypedRelationInstance) list"
  gi_incidence :: "((uuid \<times> ustr) \<times> uuid list) list"

type_synonym graph_generations = "ProjectionGenerationKey \<rightharpoonup> GenerationIndex"

definition retains :: "RetentionMode \<Rightarrow> bool" where
  "retains mode \<longleftrightarrow> mode \<in> {PersistentResource, PersistentDiscoveryMetadata}"

definition projection_matches :: "ProjectionGenerationManifest \<Rightarrow> CompiledResourceProjection \<Rightarrow> bool" where
  "projection_matches manifest projection \<longleftrightarrow>
     (let i = dp_resource_ref (cp_directory projection) in
      cp_manifest projection = manifest \<and> sp_resource_ref (cp_structured projection) = i
      \<and> tj_resource_ref (cp_temporal projection) = i \<and> aj_resource_ref (cp_access projection) = i
      \<and> retains (cp_retention_mode projection))"

definition canonical_edges :: "TypedRelationInstance \<Rightarrow> TypedRelationInstance" where
  "canonical_edges relation = relation\<lparr>tr_participants := sort_participants (tr_participants relation),
     tr_evidence_refs := remdups_adj (sort (tr_evidence_refs relation))\<rparr>"

definition add_relation ::
  "uuid \<Rightarrow> TypedRelationInstance \<Rightarrow> uuid set \<times> (uuid \<times> TypedRelationInstance) list
    \<Rightarrow> GraphIndexError + uuid set \<times> (uuid \<times> TypedRelationInstance) list" where
  "add_relation i relation s = (case s of (local_ids, relations) \<Rightarrow>
     let rid = tr_relation_id relation; relation' = canonical_edges relation in
     if \<not> is_ok (relation_validate relation) \<or> \<not> (\<exists>p\<in>set (tr_participants relation). rp_resource_ref p = i)
        \<or> rid \<in> local_ids
     then Inl GraphInvalidRelation
     else if \<not> distinct_adj (tr_participants relation') then Inl GraphInvalidRelation
     else if is_some_and (\<lambda>existing. existing \<noteq> relation') (map_of relations rid) then Inl GraphInvalidRelation
     else Inr (insert rid local_ids, btree_put rid relation' relations))"

fun add_relations ::
  "uuid \<Rightarrow> TypedRelationInstance list \<Rightarrow> uuid set \<times> (uuid \<times> TypedRelationInstance) list
    \<Rightarrow> GraphIndexError + uuid set \<times> (uuid \<times> TypedRelationInstance) list" where
  "add_relations i [] s = Inr s"
| "add_relations i (relation # rest) s = and_then (add_relation i relation s) (add_relations i rest)"

fun add_projections ::
  "ProjectionGenerationManifest \<Rightarrow> CompiledResourceProjection list
    \<Rightarrow> (uuid \<times> TemporalProjection) list \<times> (uuid \<times> TypedRelationInstance) list
    \<Rightarrow> GraphIndexError + (uuid \<times> TemporalProjection) list \<times> (uuid \<times> TypedRelationInstance) list" where
  "add_projections manifest [] s = Inr s"
| "add_projections manifest (projection # rest) (resources, relations) =
     (let i = dp_resource_ref (cp_directory projection) in
      if \<not> projection_matches manifest projection \<or> map_of resources i \<noteq> None then Inl GraphProjectionMismatch
      else and_then (add_relations i (cp_relations projection) ({}, relations)) (\<lambda>(_, relations').
        add_projections manifest rest (btree_put i (cp_temporal projection) resources, relations')))"

definition add_incidence ::
  "uuid \<times> TypedRelationInstance \<Rightarrow> ((uuid \<times> ustr) \<times> uuid list) list \<Rightarrow> ((uuid \<times> ustr) \<times> uuid list) list" where
  "add_incidence entry incidence = (case entry of (rid, relation) \<Rightarrow>
     fold (\<lambda>p. btree_append (rp_resource_ref p, rp_role p) rid) (tr_participants relation) incidence)"

definition build_generation ::
  "ProjectionGenerationManifest \<Rightarrow> uuid \<Rightarrow> RetentionMode \<Rightarrow> CompiledResourceProjection list \<Rightarrow> graph_generations
    \<Rightarrow> graph_generations \<times> (GraphIndexError + unit)" where
  "build_generation manifest source_id retention_mode projections generations =
     (let key = manifest_key manifest; fail = (\<lambda>e. (generations, Inl e)) in
      if source_id \<noteq> pk_source_id key then fail GraphSourceMismatch
      else if \<not> retains retention_mode then fail GraphPersistenceDenied
      else if pm_graph_schema_version manifest \<noteq> Some (lit ''typed-nary-v1'') then fail GraphUnsupportedSchemaVersion
      else if length projections \<noteq> pm_resource_count manifest then fail GraphResourceCountMismatch
      else if generations key \<noteq> None then fail GraphDuplicateGeneration
      else (case add_projections manifest projections ([], []) of
          Inl e \<Rightarrow> fail e
        | Inr (resources, relations) \<Rightarrow>
            if is_some_and (\<lambda>count. count \<noteq> length relations) (pm_relation_count manifest)
            then fail GraphRelationCountMismatch
            else (generations(key \<mapsto> \<lparr>gi_resources = resources, gi_relations = relations,
                   gi_incidence = fold add_incidence relations []\<rparr>), Inr ())))"

definition discard_generation :: "ProjectionGenerationKey \<Rightarrow> graph_generations \<Rightarrow> graph_generations \<times> bool" where
  "discard_generation key generations = (generations(key := None), generations key \<noteq> None)"

subsection \<open>Visibility\<close>

datatype AccessDecision = AccessAllowed | AccessDenied | AccessUnknown

type_synonym access_evaluator = "nat \<Rightarrow> uuid \<Rightarrow> ustr \<Rightarrow> AccessDecision option"

record lookups =
  lk_cache :: "uuid \<rightharpoonup> bool"
  lk_calls :: nat

definition temporally_valid :: "TemporalProjection \<Rightarrow> int \<Rightarrow> bool" where
  "temporally_valid temporal target \<longleftrightarrow>
     is_none_or (\<lambda>from. from \<le> target) (tj_valid_from temporal) \<and> is_none_or (\<lambda>to. target < to) (tj_valid_to temporal)
     \<and> is_none_or (\<lambda>from. from \<le> target) (tp_effective_from (tj_profile temporal))
     \<and> is_none_or (\<lambda>to. target < to) (tp_effective_to (tj_profile temporal))"

definition remember :: "uuid \<Rightarrow> bool \<Rightarrow> lookups \<Rightarrow> bool \<times> lookups" where
  "remember i answer st = (answer, st\<lparr>lk_cache := (lk_cache st)(i \<mapsto> answer)\<rparr>)"

definition plan_target :: "GraphTraversalPlan \<Rightarrow> int" where
  "plan_target plan = tc_temporal_target (the (gp_temporal_context plan))"

definition resource_visible :: "access_evaluator \<Rightarrow> GenerationIndex \<Rightarrow> GraphTraversalPlan \<Rightarrow> uuid \<Rightarrow> lookups \<Rightarrow> bool \<times> lookups" where
  "resource_visible access index plan i st = (case lk_cache st i of
     Some answer \<Rightarrow> (answer, st)
   | None \<Rightarrow> (case map_of (gi_resources index) i of
       None \<Rightarrow> remember i False st
     | Some temporal \<Rightarrow>
         if \<not> temporally_valid temporal (plan_target plan) then remember i False st
         else remember i (access (lk_calls st) i (gp_access_context plan) = Some AccessAllowed) (st\<lparr>lk_calls := lk_calls st + 1\<rparr>)))"

fun all_visible :: "(uuid \<Rightarrow> lookups \<Rightarrow> bool \<times> lookups) \<Rightarrow> RelationParticipant list \<Rightarrow> lookups \<Rightarrow> bool \<times> lookups" where
  "all_visible see [] st = (True, st)"
| "all_visible see (p # ps) st = (case see (rp_resource_ref p) st of
     (True, st') \<Rightarrow> all_visible see ps st' | (False, st') \<Rightarrow> (False, st'))"

subsection \<open>Traversal\<close>

datatype traverse_error = GraphInvalidRequest string | GraphPanic

record PartialPath =
  pa_current :: uuid
  pa_resource_path :: "uuid list"
  pa_steps :: "GraphPathStepEvidence list"

definition seed_path :: "uuid \<Rightarrow> PartialPath" where
  "seed_path seed = \<lparr>pa_current = seed, pa_resource_path = [seed], pa_steps = []\<rparr>"

fun seed_loop ::
  "(uuid \<Rightarrow> lookups \<Rightarrow> bool \<times> lookups) \<Rightarrow> GraphTraversalPlan \<Rightarrow> uuid list \<Rightarrow> PartialPath list \<Rightarrow> lookups
    \<Rightarrow> (traverse_error + PartialPath list) \<times> lookups" where
  "seed_loop see plan [] frontier st = (Inr frontier, st)"
| "seed_loop see plan (seed # seeds) frontier st = (case see seed st of
     (False, st') \<Rightarrow> seed_loop see plan seeds frontier st'
   | (True, st') \<Rightarrow>
       if tb_max_paths (gp_expansion_budget plan) < length frontier + 1
       then (Inl (GraphInvalidRequest ''graph path budget exceeded''), st')
       else seed_loop see plan seeds (frontier @ [seed_path seed]) st')"

definition extend_path ::
  "RelationPathPattern \<Rightarrow> PartialPath \<Rightarrow> uuid \<Rightarrow> TypedRelationInstance \<Rightarrow> RelationParticipant \<Rightarrow> PartialPath" where
  "extend_path pattern path rid relation p =
     \<lparr>pa_current = rp_resource_ref p, pa_resource_path = pa_resource_path path @ [rp_resource_ref p],
      pa_steps = pa_steps path @ [\<lparr>ge_relation_id = rid, ge_namespace = tr_namespace relation,
        ge_relation_type = tr_relation_type relation, ge_from_role = pp_from_role pattern, ge_from_resource = pa_current path,
        ge_to_role = pp_to_role pattern, ge_to_resource = rp_resource_ref p, ge_participants = tr_participants relation,
        ge_evidence_refs = tr_evidence_refs relation, ge_provenance = tr_provenance relation\<rparr>]\<rparr>"

definition targets_of :: "RelationPathPattern \<Rightarrow> TypedRelationInstance \<Rightarrow> RelationParticipant list" where
  "targets_of pattern relation =
     filter (\<lambda>p. rp_role p = pp_to_role pattern \<and> is_none_or (\<lambda>i. i = rp_resource_ref p) (pp_to_resource pattern))
       (tr_participants relation)"

definition follows_pattern :: "GraphTraversalPlan \<Rightarrow> RelationPathPattern \<Rightarrow> PartialPath \<Rightarrow> TypedRelationInstance \<Rightarrow> bool" where
  "follows_pattern plan pattern path relation \<longleftrightarrow>
     plan_allows plan relation \<and> matches_relation pattern relation
     \<and> \<not> is_some_and (\<lambda>i. i \<noteq> pa_current path) (pp_from_resource pattern)
     \<and> has_participant relation (pp_from_role pattern) (Some (pa_current path))"

fun push_branches ::
  "TraversalBudget \<Rightarrow> nat \<Rightarrow> PartialPath list \<Rightarrow> PartialPath list \<Rightarrow> traverse_error + PartialPath list" where
  "push_branches budget next_len [] branches = Inr branches"
| "push_branches budget next_len (path # paths) branches =
     (if tb_max_branching_per_node budget < length branches + 1
      then Inl (GraphInvalidRequest ''graph branching budget exceeded'')
      else if tb_max_paths budget < next_len + (length branches + 1)
      then Inl (GraphInvalidRequest ''graph path budget exceeded'')
      else push_branches budget next_len paths (branches @ [path]))"

text \<open>
  The loop over the relations of one path: \<open>expanded\<close> relations were expanded by earlier paths and \<open>next_len\<close>
  paths found; it returns the branches of the path and the number of relations that gave one.
\<close>

fun relation_loop ::
  "(uuid \<Rightarrow> lookups \<Rightarrow> bool \<times> lookups) \<Rightarrow> GenerationIndex \<Rightarrow> GraphTraversalPlan \<Rightarrow> RelationPathPattern \<Rightarrow> PartialPath
    \<Rightarrow> nat \<Rightarrow> nat \<Rightarrow> uuid list \<Rightarrow> PartialPath list \<times> nat \<Rightarrow> lookups
    \<Rightarrow> (traverse_error + PartialPath list \<times> nat) \<times> lookups" where
  "relation_loop see index plan pattern path next_len expanded [] s st = (Inr s, st)"
| "relation_loop see index plan pattern path next_len expanded (rid # rids) (branches, expansions) st =
     (case map_of (gi_relations index) rid of
        None \<Rightarrow> (Inl GraphPanic, st)
      | Some relation \<Rightarrow>
          if \<not> follows_pattern plan pattern path relation
          then relation_loop see index plan pattern path next_len expanded rids (branches, expansions) st
          else (case all_visible see (tr_participants relation) st of
              (False, st') \<Rightarrow> relation_loop see index plan pattern path next_len expanded rids (branches, expansions) st'
            | (True, st') \<Rightarrow>
                (case push_branches (gp_expansion_budget plan) next_len
                    (map (extend_path pattern path rid relation) (targets_of pattern relation)) branches of
                   Inl e \<Rightarrow> (Inl e, st')
                 | Inr branches' \<Rightarrow>
                     if length branches' \<le> length branches
                     then relation_loop see index plan pattern path next_len expanded rids (branches', expansions) st'
                     else if tb_max_relations (gp_expansion_budget plan) < expanded + (expansions + 1)
                     then (Inl (GraphInvalidRequest ''graph relation budget exceeded''), st')
                     else relation_loop see index plan pattern path next_len expanded rids (branches', expansions + 1) st')))"

definition incident :: "GenerationIndex \<Rightarrow> uuid \<Rightarrow> ustr \<Rightarrow> uuid list" where
  "incident index i role = (case map_of (gi_incidence index) (i, role) of Some rids \<Rightarrow> rids | None \<Rightarrow> [])"

fun path_loop ::
  "(uuid \<Rightarrow> lookups \<Rightarrow> bool \<times> lookups) \<Rightarrow> GenerationIndex \<Rightarrow> GraphTraversalPlan \<Rightarrow> RelationPathPattern
    \<Rightarrow> PartialPath list \<Rightarrow> PartialPath list \<times> nat \<Rightarrow> lookups \<Rightarrow> (traverse_error + PartialPath list \<times> nat) \<times> lookups" where
  "path_loop see index plan pattern [] s st = (Inr s, st)"
| "path_loop see index plan pattern (path # paths) (found, expanded) st =
     (case relation_loop see index plan pattern path (length found) expanded
         (incident index (pa_current path) (pp_from_role pattern)) ([], 0) st of
        (Inl e, st') \<Rightarrow> (Inl e, st')
      | (Inr (branches, expansions), st') \<Rightarrow>
          path_loop see index plan pattern paths (found @ branches, expanded + expansions) st')"

fun pattern_loop ::
  "(uuid \<Rightarrow> lookups \<Rightarrow> bool \<times> lookups) \<Rightarrow> GenerationIndex \<Rightarrow> GraphTraversalPlan \<Rightarrow> RelationPathPattern list
    \<Rightarrow> PartialPath list \<times> nat \<Rightarrow> lookups \<Rightarrow> (traverse_error + PartialPath list \<times> nat) \<times> lookups" where
  "pattern_loop see index plan [] s st = (Inr s, st)"
| "pattern_loop see index plan (pattern # patterns) (frontier, expanded) st =
     (case path_loop see index plan pattern frontier ([], expanded) st of
        (Inl e, st') \<Rightarrow> (Inl e, st')
      | (Inr s, st') \<Rightarrow> pattern_loop see index plan patterns s st')"

subsection \<open>Results\<close>

primrec namespace_rank :: "RelationNamespace \<Rightarrow> nat" where
  "namespace_rank NsDiscovery = 0"
| "namespace_rank NsSemantic = 1"
| "namespace_rank NsEvidence = 2"

definition option_key :: "ustr option \<Rightarrow> bool \<times> ustr" where
  "option_key x = (case x of None \<Rightarrow> (False, []) | Some s \<Rightarrow> (True, s))"

definition step_key ::
  "GraphPathStepEvidence \<Rightarrow> uuid \<times> nat \<times> ustr \<times> ustr \<times> uuid \<times> ustr \<times> uuid \<times> (ustr \<times> uuid) list \<times> ustr list \<times> bool \<times> ustr" where
  "step_key s = (ge_relation_id s, namespace_rank (ge_namespace s), ge_relation_type s, ge_from_role s, ge_from_resource s,
     ge_to_role s, ge_to_resource s, map participant_key (ge_participants s), ge_evidence_refs s, option_key (ge_provenance s))"

definition path_evidence_key :: "GraphPathEvidence \<Rightarrow>
    uuid list \<times> (uuid \<times> nat \<times> ustr \<times> ustr \<times> uuid \<times> ustr \<times> uuid \<times> (ustr \<times> uuid) list \<times> ustr list \<times> bool \<times> ustr) list" where
  "path_evidence_key p = (gv_resource_path p, map step_key (gv_steps p))"

definition path_evidence :: "PartialPath \<Rightarrow> GraphPathEvidence" where
  "path_evidence path = \<lparr>gv_resource_path = pa_resource_path path, gv_steps = pa_steps path\<rparr>"

definition group_paths :: "PartialPath list \<Rightarrow> (uuid \<times> GraphPathEvidence list) list" where
  "group_paths frontier = fold (\<lambda>path. btree_append (pa_current path) (path_evidence path)) frontier []"

record GraphRetrievalHit =
  gh_candidate :: FederatedCandidate
  gh_paths :: "GraphPathEvidence list"

definition graph_candidate :: "(uuid \<Rightarrow> ustr) \<Rightarrow> ProjectionGenerationKey \<Rightarrow> uuid \<Rightarrow> FederatedCandidate" where
  "graph_candidate format_uuid generation i =
     (FederatedCandidate_new (format_uuid (pk_source_id generation) @ lit '':'' @ format_uuid i) DurableResource
        (pk_source_id generation) (lit ''hypergraph''))
     \<lparr>fc_resource_ref := Some i,
      fc_retrieval_trace_ref := Some (format_uuid (pk_source_id generation) @ lit '':'' @ format_uuid (pk_generation_id generation))\<rparr>"

definition graph_hits ::
  "(uuid \<Rightarrow> ustr) \<Rightarrow> ProjectionGenerationKey \<Rightarrow> PartialPath list \<Rightarrow> GraphRetrievalHit list" where
  "graph_hits format_uuid generation frontier =
     map (\<lambda>(i, paths). \<lparr>gh_candidate = graph_candidate format_uuid generation i,
       gh_paths = remdups_adj (sort_key path_evidence_key paths)\<rparr>) (group_paths frontier)"

definition traverse ::
  "(uuid \<Rightarrow> ustr) \<Rightarrow> access_evaluator \<Rightarrow> ProjectionGenerationKey \<Rightarrow> GenerationIndex \<Rightarrow> GraphTraversalPlan \<Rightarrow> nat
    \<Rightarrow> (traverse_error + GraphRetrievalHit list) \<times> lookups" where
  "traverse format_uuid access generation index plan calls =
     (let st = \<lparr>lk_cache = Map.empty, lk_calls = calls\<rparr>; see = resource_visible access index plan in
      case plan_validate plan of
        Inl e \<Rightarrow> (Inl (GraphInvalidRequest e), st)
      | Inr _ \<Rightarrow>
          if tb_max_hops (gp_expansion_budget plan) < length (gp_path_patterns plan)
          then (Inl (GraphInvalidRequest ''graph path exceeds hop budget''), st)
          else (case seed_loop see plan (btree_set (gp_seed_nodes plan)) [] st of
              (Inl e, st') \<Rightarrow> (Inl e, st')
            | (Inr frontier, st') \<Rightarrow>
                (case pattern_loop see index plan (gp_path_patterns plan) (frontier, 0) st' of
                   (Inl e, st'') \<Rightarrow> (Inl e, st'')
                 | (Inr (paths, _), st'') \<Rightarrow> (Inr (graph_hits format_uuid generation paths), st''))))"

definition retrieve_graph ::
  "(uuid \<Rightarrow> ustr) \<Rightarrow> access_evaluator \<Rightarrow> graph_generations \<Rightarrow> ProjectionGenerationKey \<Rightarrow> GraphTraversalPlan \<Rightarrow> nat
    \<Rightarrow> (traverse_error + GraphRetrievalHit list) \<times> lookups" where
  "retrieve_graph format_uuid access generations generation plan calls =
     (case generations generation of
        None \<Rightarrow> (Inl (GraphInvalidRequest ''unknown graph generation''), \<lparr>lk_cache = Map.empty, lk_calls = calls\<rparr>)
      | Some index \<Rightarrow> traverse format_uuid access generation index plan calls)"

end
