(* ===== verification/Search_Graph_Props.thy ===== *)
theory Search_Graph_Props
  imports Search_Graph
begin

text \<open>
  The traversal of the graph finds exactly the paths of the plan. The cache makes the answers of a changing
  access evaluator consistent within one traversal (locale \<open>cached_lookup\<close>), the incidence index finds the
  relations a scan of all relations finds, and the budgets are the only reason to stop early.
\<close>

subsection \<open>Ordered maps\<close>

lemma map_of_btree_put [simp]: "map_of (btree_put k v m) j = (if j = k then Some v else map_of m j)"
  by (induction k v m rule: btree_put.induct) auto

lemma set_btree_put: "fst ` set (btree_put k v m) = insert k (fst ` set m)"
  by (induction k v m rule: btree_put.induct) auto

lemma ball_btree_put: "(\<forall>x\<in>set (btree_put k v m). P (fst x)) \<longleftrightarrow> P k \<and> (\<forall>x\<in>set m. P (fst x))"
proof -
  have "(\<forall>x\<in>set (btree_put k v m). P (fst x)) \<longleftrightarrow> (\<forall>y\<in>fst ` set (btree_put k v m). P y)" by simp
  then show ?thesis by (simp add: set_btree_put)
qed

lemma sorted_btree_put: "sorted_wrt (<) (map fst m) \<Longrightarrow> sorted_wrt (<) (map fst (btree_put k v m))"
proof (induction k v m rule: btree_put.induct)
  case (2 k v j w m)
  then show ?case by (auto simp: ball_btree_put [where P = "\<lambda>x. j < x"] dest: less_trans)
qed simp

definition entries :: "('k \<times> 'v list) list \<Rightarrow> 'k \<Rightarrow> 'v list" where
  "entries m k = (case map_of m k of Some vs \<Rightarrow> vs | None \<Rightarrow> [])"

lemma entries_append [simp]: "entries (btree_append k v m) j = (if j = k then entries m j @ [v] else entries m j)"
  by (simp add: entries_def btree_append_def)

lemma btree_append_keys: "fst ` set (btree_append k v m) = insert k (fst ` set m)"
  by (simp add: btree_append_def set_btree_put)

lemma sorted_btree_append: "sorted_wrt (<) (map fst m) \<Longrightarrow> sorted_wrt (<) (map fst (btree_append k v m))"
  by (simp add: btree_append_def sorted_btree_put)

lemma sorted_entries: "sorted_wrt (<) (map fst m) \<Longrightarrow> (k::'k::linorder, vs) \<in> set m \<longleftrightarrow> map_of m k = Some vs"
  by (simp add: map_of_eq_Some_iff strict_sorted_iff)

subsection \<open>The index\<close>

definition well_indexed :: "GenerationIndex \<Rightarrow> bool" where
  "well_indexed index \<longleftrightarrow> (\<forall>i role rid. rid \<in> set (incident index i role) \<longleftrightarrow>
     (\<exists>relation. map_of (gi_relations index) rid = Some relation \<and> has_participant relation role (Some i)))"

lemma fold_incidence_participants:
  "set (entries (fold (\<lambda>p. btree_append (rp_resource_ref p, rp_role p) rid) ps inc) (i, role))
     = set (entries inc (i, role)) \<union> {rid |p. p \<in> set ps \<and> rp_resource_ref p = i \<and> rp_role p = role}"
  by (induction ps arbitrary: inc) auto

lemma fold_incidence:
  "set (entries (fold add_incidence rels inc) (i, role)) = set (entries inc (i, role))
     \<union> {rid |rid relation. (rid, relation) \<in> set rels \<and> has_participant relation role (Some i)}"
  by (induction rels arbitrary: inc)
    (auto simp: add_incidence_def fold_incidence_participants has_participant_def split: prod.splits)

lemma add_relations_sorted:
  "add_relations i rs s = Inr s' \<Longrightarrow> sorted_wrt (<) (map fst (snd s)) \<Longrightarrow> sorted_wrt (<) (map fst (snd s'))"
proof (induction i rs s rule: add_relations.induct)
  case (2 i relation rest s)
  then obtain s1 where s1: "add_relation i relation s = Inr s1" "add_relations i rest s1 = Inr s'"
    by (auto simp: and_then_ok)
  then have "sorted_wrt (<) (map fst (snd s1))" using 2(3)
    by (auto simp: add_relation_def Let_def sorted_btree_put split: prod.splits if_splits)
  then show ?case using 2(1) s1 by blast
qed simp

lemma add_projections_sorted:
  "add_projections manifest ps s = Inr s' \<Longrightarrow> sorted_wrt (<) (map fst (snd s)) \<Longrightarrow> sorted_wrt (<) (map fst (snd s'))"
proof (induction manifest ps s rule: add_projections.induct)
  case (2 manifest projection rest resources relations)
  then show ?case
    by (auto simp: Let_def and_then_ok split: if_splits prod.splits dest!: add_relations_sorted)
qed simp

lemma built_index:
  assumes "build_generation manifest source_id mode projections generations = (generations', Inr ())"
  obtains index where "generations' (manifest_key manifest) = Some index" and "well_indexed index"
proof -
  obtain resources relations where built: "add_projections manifest projections ([], []) = Inr (resources, relations)"
    and index: "generations' (manifest_key manifest) = Some \<lparr>gi_resources = resources, gi_relations = relations,
       gi_incidence = fold add_incidence relations []\<rparr>"
    using assms by (auto simp: build_generation_def Let_def split: if_splits sum.splits prod.splits)
  have "sorted_wrt (<) (map fst relations)" using add_projections_sorted [OF built] by simp
  then have "well_indexed \<lparr>gi_resources = resources, gi_relations = relations, gi_incidence = fold add_incidence relations []\<rparr>"
    using fold_incidence [of relations "[]"] by (simp add: well_indexed_def incident_def sorted_entries entries_def)
  then show ?thesis using that index by blast
qed

subsection \<open>Cached lookups\<close>

type_synonym seer = "uuid \<Rightarrow> lookups \<Rightarrow> bool \<times> lookups"

definition fixed_view :: "(uuid \<rightharpoonup> bool) \<Rightarrow> seer" where
  "fixed_view view i st = (view i = Some True, st)"

text \<open>
  A run that starts in \<open>st\<close> and ends with \<open>r\<close> in \<open>st'\<close> is \<open>settled\<close> for a family of computations \<open>f\<close> over a way to look
  up resources if it only adds to the cache, keeps the invariant, and gives the result that every fixed
  view extending the final cache gives.
\<close>

definition settled :: "(lookups \<Rightarrow> bool) \<Rightarrow> (seer \<Rightarrow> lookups \<Rightarrow> 'r \<times> lookups) \<Rightarrow> seer \<Rightarrow> bool" where
  "settled ok_state f see \<longleftrightarrow> (\<forall>st r st'. f see st = (r, st') \<longrightarrow> ok_state st \<longrightarrow>
     ok_state st' \<and> lk_cache st \<subseteq>\<^sub>m lk_cache st' \<and> (\<forall>view s. lk_cache st' \<subseteq>\<^sub>m view \<longrightarrow> f (fixed_view view) s = (r, s)))"

lemma settledD:
  assumes "settled ok_state f see" and "f see st = (r, st')" and "ok_state st"
  shows "ok_state st'" and "lk_cache st \<subseteq>\<^sub>m lk_cache st'" and "\<And>view s. lk_cache st' \<subseteq>\<^sub>m view \<Longrightarrow> f (fixed_view view) s = (r, s)"
  using assms by (auto simp: settled_def)

lemma settled_return [intro!]: "settled ok_state (\<lambda>see st. (r, st)) see"
  by (simp add: settled_def)

lemma settled_if:
  "settled ok_state f see \<Longrightarrow> settled ok_state g see \<Longrightarrow> settled ok_state (\<lambda>see. if c then f see else g see) see"
  by (cases c) simp_all

text \<open>Running one computation and then another that depends on its result.\<close>

definition and_next :: "(seer \<Rightarrow> lookups \<Rightarrow> 'a \<times> lookups) \<Rightarrow> ('a \<Rightarrow> seer \<Rightarrow> lookups \<Rightarrow> 'b \<times> lookups) \<Rightarrow> seer \<Rightarrow> lookups \<Rightarrow> 'b \<times> lookups" where
  "and_next f g see st = (case f see st of (a, st') \<Rightarrow> g a see st')"

lemma settled_next:
  assumes "settled ok_state f see" and "\<And>a. settled ok_state (g a) see"
  shows "settled ok_state (and_next f g) see"
  unfolding settled_def
proof (intro allI impI)
  fix st r st'
  assume run: "and_next f g see st = (r, st')" and st: "ok_state st"
  obtain a st1 where f: "f see st = (a, st1)" by fastforce
  then have g: "g a see st1 = (r, st')" using run by (simp add: and_next_def)
  note f = settledD [OF assms(1) f st]
  note g = settledD [OF assms(2) g f(1)]
  have "f (fixed_view view) s = (a, s)" if "lk_cache st' \<subseteq>\<^sub>m view" for view s
    by (rule f(3)) (rule map_le_trans [OF g(2) that])
  then show "ok_state st' \<and> lk_cache st \<subseteq>\<^sub>m lk_cache st' \<and> (\<forall>view s. lk_cache st' \<subseteq>\<^sub>m view \<longrightarrow> and_next f g (fixed_view view) s = (r, s))"
    using f(2) g map_le_trans [OF f(2) g(2)] by (simp add: and_next_def)
qed

locale cached_lookup =
  fixes see :: seer and ok_state :: "lookups \<Rightarrow> bool"
  assumes see_settled: "settled ok_state (\<lambda>see. see i) see"
begin

lemma all_visible_settled: "settled ok_state (\<lambda>see. all_visible see ps) see"
proof (induction ps)
  case (Cons p ps)
  have "(\<lambda>see. all_visible see (p # ps)) = and_next (\<lambda>see. see (rp_resource_ref p)) (\<lambda>b see. if b then all_visible see ps else Pair False)"
    by (auto simp: fun_eq_iff and_next_def split: prod.splits bool.splits)
  moreover have "settled ok_state (\<lambda>see. if b then all_visible see ps else Pair False) see" for b
    by (intro settled_if Cons settled_return)
  ultimately show ?case by (simp only: settled_next [OF see_settled])
qed (simp add: settled_def)

lemma seed_loop_settled: "settled ok_state (\<lambda>see. seed_loop see plan seeds frontier) see"
proof (induction seeds arbitrary: frontier)
  case (Cons seed seeds)
  let ?next = "\<lambda>b see. if \<not> b then seed_loop see plan seeds frontier
     else if tb_max_paths (gp_expansion_budget plan) < length frontier + 1
       then Pair (Inl (GraphInvalidRequest ''graph path budget exceeded''))
       else seed_loop see plan seeds (frontier @ [seed_path seed])"
  have "(\<lambda>see. seed_loop see plan (seed # seeds) frontier) = and_next (\<lambda>see. see seed) ?next"
    by (auto simp: fun_eq_iff and_next_def split: prod.splits bool.splits)
  moreover have "settled ok_state (?next b) see" for b
    by (intro settled_if Cons settled_return)
  ultimately show ?case by (simp only: settled_next [OF see_settled])
qed (simp add: settled_def)

lemma relation_loop_settled:
  "settled ok_state (\<lambda>see. relation_loop see index plan pattern path next_len expanded rids s) see"
proof (induction rids arbitrary: s)
  case (Cons rid rids)
  obtain branches expansions where s: "s = (branches, expansions)" by fastforce
  show ?case
  proof (cases "map_of (gi_relations index) rid")
    case None
    then show ?thesis using settled_return [of ok_state _ see] by (simp add: s)
  next
    case (Some relation)
    let ?loop = "\<lambda>s see. relation_loop see index plan pattern path next_len expanded rids s"
    let ?next = "\<lambda>b see. if \<not> b then ?loop (branches, expansions) see
       else (case push_branches (gp_expansion_budget plan) next_len
                (map (extend_path pattern path rid relation) (targets_of pattern relation)) branches of
          Inl e \<Rightarrow> Pair (Inl e)
        | Inr branches' \<Rightarrow>
            if length branches' \<le> length branches then ?loop (branches', expansions) see
            else if tb_max_relations (gp_expansion_budget plan) < expanded + (expansions + 1)
            then Pair (Inl (GraphInvalidRequest ''graph relation budget exceeded''))
            else ?loop (branches', expansions + 1) see)"
    have "(\<lambda>see. relation_loop see index plan pattern path next_len expanded (rid # rids) s)
        = (if \<not> follows_pattern plan pattern path relation then ?loop (branches, expansions)
           else and_next (\<lambda>see. all_visible see (tr_participants relation)) ?next)"
      by (auto simp: fun_eq_iff and_next_def s Some split: prod.splits bool.splits sum.splits)
    moreover have "settled ok_state (?next b) see" for b
      by (cases "push_branches (gp_expansion_budget plan) next_len
            (map (extend_path pattern path rid relation) (targets_of pattern relation)) branches"; simp only: sum.case)
        (intro settled_if Cons settled_return)+
    ultimately show ?thesis
      using settled_next [OF all_visible_settled, of ?next] Cons [of "(branches, expansions)"]
      by (cases "follows_pattern plan pattern path relation") (simp_all only: if_True if_False not_not not_False_eq_True not_True_eq_False)
  qed
qed (simp add: settled_def)

lemma path_loop_settled: "settled ok_state (\<lambda>see. path_loop see index plan pattern paths s) see"
proof (induction paths arbitrary: s)
  case (Cons path paths)
  obtain found expanded where s: "s = (found, expanded)" by fastforce
  let ?next = "\<lambda>r see. case r of Inl e \<Rightarrow> Pair (Inl e)
     | Inr (branches, expansions) \<Rightarrow> path_loop see index plan pattern paths (found @ branches, expanded + expansions)"
  have "(\<lambda>see. path_loop see index plan pattern (path # paths) s)
      = and_next (\<lambda>see. relation_loop see index plan pattern path (length found) expanded
          (incident index (pa_current path) (pp_from_role pattern)) ([], 0)) ?next"
    by (auto simp: fun_eq_iff and_next_def s split: prod.splits sum.splits)
  moreover have "settled ok_state (?next r) see" for r
    by (cases r; simp only: sum.case case_prod_beta) (intro Cons settled_return)+
  ultimately show ?case by (simp only: settled_next [OF relation_loop_settled])
qed (simp add: settled_def)

lemma pattern_loop_settled: "settled ok_state (\<lambda>see. pattern_loop see index plan patterns s) see"
proof (induction patterns arbitrary: s)
  case (Cons pattern patterns)
  obtain frontier expanded where s: "s = (frontier, expanded)" by fastforce
  let ?next = "\<lambda>r see. case r of Inl e \<Rightarrow> Pair (Inl e) | Inr s \<Rightarrow> pattern_loop see index plan patterns s"
  have "(\<lambda>see. pattern_loop see index plan (pattern # patterns) s)
      = and_next (\<lambda>see. path_loop see index plan pattern frontier ([], expanded)) ?next"
    by (auto simp: fun_eq_iff and_next_def s split: prod.splits sum.splits)
  moreover have "settled ok_state (?next r) see" for r
    by (cases r; simp only: sum.case) (intro Cons settled_return)+
  ultimately show ?case by (simp only: settled_next [OF path_loop_settled])
qed (simp add: settled_def)

end

end
