(* ===== verification/Search_Graph_Exact.thy ===== *)
theory Search_Graph_Exact
  imports Search_Graph_Props
begin

text \<open>
  The traversal finds exactly the paths a search over all relations finds, within its budgets, through resources
  that were visible when they were first looked up.
\<close>

subsection \<open>The access evaluator\<close>

definition was_allowed :: "access_evaluator \<Rightarrow> GenerationIndex \<Rightarrow> GraphTraversalPlan \<Rightarrow> nat \<Rightarrow> nat \<Rightarrow> uuid \<Rightarrow> bool" where
  "was_allowed access index plan first upto_call i \<longleftrightarrow>
     (\<exists>temporal. map_of (gi_resources index) i = Some temporal \<and> temporally_valid temporal (plan_target plan))
     \<and> (\<exists>n. first \<le> n \<and> n < upto_call \<and> access n i (gp_access_context plan) = Some AccessAllowed)"

definition allowed_state :: "access_evaluator \<Rightarrow> GenerationIndex \<Rightarrow> GraphTraversalPlan \<Rightarrow> nat \<Rightarrow> lookups \<Rightarrow> bool" where
  "allowed_state access index plan first st \<longleftrightarrow> first \<le> lk_calls st
     \<and> (\<forall>i. lk_cache st i = Some True \<longrightarrow> was_allowed access index plan first (lk_calls st) i)"

lemma was_allowed_mono: "was_allowed access index plan first m i \<Longrightarrow> m \<le> n \<Longrightarrow> was_allowed access index plan first n i"
  unfolding was_allowed_def by (meson less_le_trans)

lemma resource_visible_settled:
  "settled (allowed_state access index plan first) (\<lambda>see. see i) (resource_visible access index plan)"
  unfolding settled_def
proof (intro allI impI)
  fix st r st'
  assume run: "resource_visible access index plan i st = (r, st')" and st: "allowed_state access index plan first st"
  have mono: "lk_cache st \<subseteq>\<^sub>m lk_cache st'" and answer: "lk_cache st' i = Some r"
    using run by (auto simp: resource_visible_def remember_def map_le_def dom_def split: option.splits if_splits)
  have "allowed_state access index plan first st'"
    using run st was_allowed_mono [of access index plan first "lk_calls st" _ "Suc (lk_calls st)"]
    by (auto simp: resource_visible_def remember_def allowed_state_def was_allowed_def split: option.splits if_splits)
  moreover have "view i = Some True \<longleftrightarrow> r" if "lk_cache st' \<subseteq>\<^sub>m view" for view
    using that answer unfolding map_le_def by (metis domI option.inject)
  ultimately show "allowed_state access index plan first st' \<and> lk_cache st \<subseteq>\<^sub>m lk_cache st'
      \<and> (\<forall>view s. lk_cache st' \<subseteq>\<^sub>m view \<longrightarrow> fixed_view view i s = (r, s))"
    using mono by (simp add: fixed_view_def)
qed

interpretation graph_access: cached_lookup "resource_visible access index plan" "allowed_state access index plan first"
  for access index plan first
  by unfold_locales (rule resource_visible_settled)

subsection \<open>The paths of a plan\<close>

definition in_view :: "(uuid \<rightharpoonup> bool) \<Rightarrow> TypedRelationInstance \<Rightarrow> bool" where
  "in_view view relation \<longleftrightarrow> (\<forall>p\<in>set (tr_participants relation). view (rp_resource_ref p) = Some True)"

definition relation_branches ::
  "(uuid \<rightharpoonup> bool) \<Rightarrow> GenerationIndex \<Rightarrow> GraphTraversalPlan \<Rightarrow> RelationPathPattern \<Rightarrow> PartialPath \<Rightarrow> uuid \<Rightarrow> PartialPath list" where
  "relation_branches view index plan pattern path rid = (case map_of (gi_relations index) rid of
     Some relation \<Rightarrow> if follows_pattern plan pattern path relation \<and> in_view view relation
       then map (extend_path pattern path rid relation) (targets_of pattern relation) else []
   | None \<Rightarrow> [])"

definition path_branches ::
  "(uuid \<rightharpoonup> bool) \<Rightarrow> GenerationIndex \<Rightarrow> GraphTraversalPlan \<Rightarrow> RelationPathPattern \<Rightarrow> PartialPath \<Rightarrow> PartialPath list" where
  "path_branches view index plan pattern path =
     concat (map (relation_branches view index plan pattern path) (incident index (pa_current path) (pp_from_role pattern)))"

definition path_expansions ::
  "(uuid \<rightharpoonup> bool) \<Rightarrow> GenerationIndex \<Rightarrow> GraphTraversalPlan \<Rightarrow> RelationPathPattern \<Rightarrow> PartialPath \<Rightarrow> nat" where
  "path_expansions view index plan pattern path =
     length (filter (\<lambda>rid. relation_branches view index plan pattern path rid \<noteq> []) (incident index (pa_current path) (pp_from_role pattern)))"

fun next_level ::
  "(uuid \<rightharpoonup> bool) \<Rightarrow> GenerationIndex \<Rightarrow> GraphTraversalPlan \<Rightarrow> RelationPathPattern list \<Rightarrow> PartialPath list \<Rightarrow> PartialPath list" where
  "next_level view index plan [] frontier = frontier"
| "next_level view index plan (pattern # patterns) frontier =
     next_level view index plan patterns (concat (map (path_branches view index plan pattern) frontier))"

fun affordable ::
  "(uuid \<rightharpoonup> bool) \<Rightarrow> GenerationIndex \<Rightarrow> GraphTraversalPlan \<Rightarrow> RelationPathPattern list \<Rightarrow> PartialPath list \<Rightarrow> nat \<Rightarrow> bool" where
  "affordable view index plan [] frontier expanded = True"
| "affordable view index plan (pattern # patterns) frontier expanded =
     (let budget = gp_expansion_budget plan;
          found = concat (map (path_branches view index plan pattern) frontier);
          expanded' = expanded + sum_list (map (path_expansions view index plan pattern) frontier) in
      (\<forall>path\<in>set frontier. length (path_branches view index plan pattern path) \<le> tb_max_branching_per_node budget)
      \<and> length found \<le> tb_max_paths budget \<and> expanded' \<le> tb_max_relations budget
      \<and> affordable view index plan patterns found expanded')"

lemma all_visible_fixed: "all_visible (fixed_view view) (tr_participants relation) st = (in_view view relation, st)"
proof -
  have "all_visible (fixed_view view) ps st = ((\<forall>p\<in>set ps. view (rp_resource_ref p) = Some True), st)" for ps
    by (induction ps) (auto simp: fixed_view_def split: bool.splits)
  then show ?thesis by (simp add: in_view_def)
qed

lemma push_branches_ok:
  "push_branches budget n ps branches = Inr r \<longleftrightarrow> r = branches @ ps
     \<and> (ps = [] \<or> length r \<le> tb_max_branching_per_node budget \<and> n + length r \<le> tb_max_paths budget)"
proof (induction ps arbitrary: branches)
  case (Cons p ps)
  show ?case by (cases "ps = []") (auto simp: Cons)
qed auto

lemma relation_loop_fixed:
  fixes view index plan pattern path
  defines "rb \<equiv> relation_branches view index plan pattern path" and "budget \<equiv> gp_expansion_budget plan"
  assumes "\<forall>rid\<in>set rids. map_of (gi_relations index) rid \<noteq> None"
  shows "fst (relation_loop (fixed_view view) index plan pattern path n expanded rids (branches, e) st) = Inr (branches', e') \<longleftrightarrow>
    branches' = branches @ concat (map rb rids) \<and> e' = e + length (filter (\<lambda>rid. rb rid \<noteq> []) rids)
    \<and> (concat (map rb rids) = [] \<or> length branches' \<le> tb_max_branching_per_node budget
       \<and> n + length branches' \<le> tb_max_paths budget \<and> expanded + e' \<le> tb_max_relations budget)"
  using assms(3)
proof (induction rids arbitrary: branches e)
  case (Cons rid rids)
  obtain relation where relation: "map_of (gi_relations index) rid = Some relation" using Cons.prems by auto
  have IH: "fst (relation_loop (fixed_view view) index plan pattern path n expanded rids (bs, x) st) = Inr (branches', e') \<longleftrightarrow>
    branches' = bs @ concat (map rb rids) \<and> e' = x + length (filter (\<lambda>rid. rb rid \<noteq> []) rids)
    \<and> (concat (map rb rids) = [] \<or> length branches' \<le> tb_max_branching_per_node budget
       \<and> n + length branches' \<le> tb_max_paths budget \<and> expanded + e' \<le> tb_max_relations budget)" for bs x
    using Cons by simp
  have rb: "rb rid = (if follows_pattern plan pattern path relation \<and> in_view view relation
      then map (extend_path pattern path rid relation) (targets_of pattern relation) else [])"
    by (simp add: rb_def relation_branches_def relation)
  show ?case
  proof (cases "rb rid = []")
    case True
    then have "relation_loop (fixed_view view) index plan pattern path n expanded (rid # rids) (branches, e) st
        = relation_loop (fixed_view view) index plan pattern path n expanded rids (branches, e) st"
      using rb by (cases "follows_pattern plan pattern path relation"; cases "in_view view relation")
        (simp_all add: relation all_visible_fixed)
    then show ?thesis using True IH by simp
  next
    case False
    then have usable: "follows_pattern plan pattern path relation" "in_view view relation"
      and ext: "map (extend_path pattern path rid relation) (targets_of pattern relation) = rb rid"
      using rb by (auto split: if_splits)
    note loop = relation_loop.simps(2) [of "fixed_view view" index plan pattern path n expanded rid rids branches e st]
    note loop = loop [unfolded relation option.case all_visible_fixed prod.case ext]
    let ?fits = "length (branches @ rb rid) \<le> tb_max_branching_per_node budget \<and> n + length (branches @ rb rid) \<le> tb_max_paths budget"
    show ?thesis
    proof (cases "?fits \<and> expanded + (e + 1) \<le> tb_max_relations budget")
      case True
      then have "push_branches budget n (rb rid) branches = Inr (branches @ rb rid)" by (simp add: push_branches_ok)
      then have step: "relation_loop (fixed_view view) index plan pattern path n expanded (rid # rids) (branches, e) st
          = relation_loop (fixed_view view) index plan pattern path n expanded rids (branches @ rb rid, e + 1) st"
        using usable False True by (simp add: loop budget_def [symmetric] del: relation_loop.simps)
      have "concat (map rb rids) = [] \<Longrightarrow> filter (\<lambda>rid. rb rid \<noteq> []) rids = []" by (auto simp: filter_empty_conv)
      then show ?thesis unfolding step IH using False True
        by (cases "concat (map rb rids)") (auto simp del: concat_eq_Nil_conv)
    next
      case stop: False
      have "\<exists>x. fst (relation_loop (fixed_view view) index plan pattern path n expanded (rid # rids) (branches, e) st) = Inl x"
      proof (cases ?fits)
        case True
        then have "push_branches budget n (rb rid) branches = Inr (branches @ rb rid)" by (simp add: push_branches_ok)
        then show ?thesis using usable False stop True by (simp add: loop budget_def [symmetric] del: relation_loop.simps)
      next
        case unfit: False
        then have "\<not> (\<exists>r. push_branches budget n (rb rid) branches = Inr r)" using False by (auto simp: push_branches_ok)
        then obtain x where "push_branches budget n (rb rid) branches = Inl x" by (cases "push_branches budget n (rb rid) branches") auto
        then show ?thesis using usable by (simp add: loop budget_def [symmetric] del: relation_loop.simps)
      qed
      then show ?thesis using False stop by auto
    qed
  qed
qed auto

lemma no_branches: "path_branches view index plan pattern path = [] \<Longrightarrow> path_expansions view index plan pattern path = 0"
  by (auto simp: path_branches_def path_expansions_def filter_empty_conv)

lemma path_loop_fixed:
  fixes view index plan pattern
  defines "budget \<equiv> gp_expansion_budget plan" and "pb \<equiv> path_branches view index plan pattern"
    and "pe \<equiv> path_expansions view index plan pattern"
  assumes "well_indexed index" and "length found \<le> tb_max_paths budget" and "expanded \<le> tb_max_relations budget"
  shows "fst (path_loop (fixed_view view) index plan pattern paths (found, expanded) st) = Inr (found', e') \<longleftrightarrow>
    found' = found @ concat (map pb paths) \<and> e' = expanded + sum_list (map pe paths)
    \<and> (\<forall>path\<in>set paths. length (pb path) \<le> tb_max_branching_per_node budget)
    \<and> length found' \<le> tb_max_paths budget \<and> e' \<le> tb_max_relations budget"
  using assms(5,6)
proof (induction paths arbitrary: found expanded st)
  case (Cons path paths)
  have known: "\<forall>rid\<in>set (incident index i role). map_of (gi_relations index) rid \<noteq> None" for i role
    using assms(4) by (auto simp: well_indexed_def)
  let ?run = "relation_loop (fixed_view view) index plan pattern path (length found) expanded
      (incident index (pa_current path) (pp_from_role pattern)) ([], 0) st"
  let ?fits = "pb path = [] \<or> length (pb path) \<le> tb_max_branching_per_node budget
      \<and> length found + length (pb path) \<le> tb_max_paths budget \<and> expanded + pe path \<le> tb_max_relations budget"
  have run: "fst ?run = Inr (branches, e) \<longleftrightarrow> branches = pb path \<and> e = pe path \<and> ?fits" for branches e
    using relation_loop_fixed [OF known, of view plan pattern path "length found" expanded "pa_current path" "pp_from_role pattern" "[]" 0 st branches e]
    by (auto simp: pb_def pe_def budget_def path_branches_def path_expansions_def)
  show ?case
  proof (cases ?fits)
    case True
    then have fst: "fst ?run = Inr (pb path, pe path)" using run by simp
    then have step: "path_loop (fixed_view view) index plan pattern (path # paths) (found, expanded) st
        = path_loop (fixed_view view) index plan pattern paths (found @ pb path, expanded + pe path) (snd ?run)"
      by (cases ?run) simp
    have room: "length (found @ pb path) \<le> tb_max_paths budget" "expanded + pe path \<le> tb_max_relations budget"
      using True Cons.prems no_branches [of view index plan pattern path] by (auto simp: pb_def pe_def)
    show ?thesis unfolding step Cons.IH [OF room] using True by auto
  next
    case False
    then have "\<exists>x. fst ?run = Inl x" using run by (cases "fst ?run") auto
    then obtain x where "fst (path_loop (fixed_view view) index plan pattern (path # paths) (found, expanded) st) = Inl x"
      by (cases ?run) auto
    then show ?thesis using False by auto
  qed
qed (auto simp: budget_def)

lemma pattern_loop_fixed:
  assumes "well_indexed index" and "expanded \<le> tb_max_relations (gp_expansion_budget plan)"
  shows "(\<exists>e. fst (pattern_loop (fixed_view view) index plan patterns (frontier, expanded) st) = Inr (paths, e)) \<longleftrightarrow>
    paths = next_level view index plan patterns frontier \<and> affordable view index plan patterns frontier expanded"
  using assms(2)
proof (induction patterns arbitrary: frontier expanded st)
  case (Cons pattern patterns)
  let ?run = "path_loop (fixed_view view) index plan pattern frontier ([], expanded) st"
  let ?found = "concat (map (path_branches view index plan pattern) frontier)"
  let ?e = "expanded + sum_list (map (path_expansions view index plan pattern) frontier)"
  let ?fits = "(\<forall>path\<in>set frontier. length (path_branches view index plan pattern path) \<le> tb_max_branching_per_node (gp_expansion_budget plan))
    \<and> length ?found \<le> tb_max_paths (gp_expansion_budget plan) \<and> ?e \<le> tb_max_relations (gp_expansion_budget plan)"
  have run: "fst ?run = Inr (found, e) \<longleftrightarrow> found = ?found \<and> e = ?e \<and> ?fits" for found e
    using path_loop_fixed [OF assms(1), of "[]" plan expanded view pattern frontier st found e] Cons.prems by auto
  show ?case
  proof (cases ?fits)
    case True
    then have "fst ?run = Inr (?found, ?e)" using run by simp
    then have step: "pattern_loop (fixed_view view) index plan (pattern # patterns) (frontier, expanded) st
        = pattern_loop (fixed_view view) index plan patterns (?found, ?e) (snd ?run)"
      by (cases ?run) simp
    show ?thesis unfolding step using Cons.IH [of ?e] True by (simp add: Let_def)
  next
    case False
    then have "\<exists>x. fst ?run = Inl x" using run by (cases "fst ?run") auto
    then obtain x where "fst (pattern_loop (fixed_view view) index plan (pattern # patterns) (frontier, expanded) st) = Inl x"
      by (cases ?run) auto
    then show ?thesis using False by (auto simp: Let_def)
  qed
qed auto

lemma seed_loop_fixed:
  assumes "length frontier \<le> tb_max_paths (gp_expansion_budget plan)"
  shows "fst (seed_loop (fixed_view view) plan seeds frontier st) = Inr paths \<longleftrightarrow>
    paths = frontier @ map seed_path (filter (\<lambda>i. view i = Some True) seeds)
    \<and> length paths \<le> tb_max_paths (gp_expansion_budget plan)"
  using assms by (induction seeds arbitrary: frontier) (auto simp: fixed_view_def split: bool.splits)

subsection \<open>Paths by relations\<close>

text \<open>
  A path of the plan, found by looking at all relations: each step follows a relation that the plan allows, that matches the
  pattern of the step from the current resource and all of whose participants are in view.
\<close>

fun reaches ::
  "(uuid \<rightharpoonup> bool) \<Rightarrow> GenerationIndex \<Rightarrow> GraphTraversalPlan \<Rightarrow> RelationPathPattern list \<Rightarrow> PartialPath \<Rightarrow> PartialPath \<Rightarrow> bool" where
  "reaches view index plan [] path path' \<longleftrightarrow> path' = path"
| "reaches view index plan (pattern # patterns) path path' \<longleftrightarrow>
     (\<exists>rid relation. map_of (gi_relations index) rid = Some relation \<and> follows_pattern plan pattern path relation
        \<and> in_view view relation \<and> (\<exists>p\<in>set (targets_of pattern relation).
            reaches view index plan patterns (extend_path pattern path rid relation p) path'))"

lemma in_relation_branches:
  "path' \<in> set (relation_branches view index plan pattern path rid) \<longleftrightarrow>
     (\<exists>relation p. map_of (gi_relations index) rid = Some relation \<and> follows_pattern plan pattern path relation
        \<and> in_view view relation \<and> p \<in> set (targets_of pattern relation) \<and> path' = extend_path pattern path rid relation p)"
  by (cases "map_of (gi_relations index) rid") (auto simp: relation_branches_def)

lemma in_path_branches:
  assumes "well_indexed index"
  shows "path' \<in> set (path_branches view index plan pattern path) \<longleftrightarrow>
    (\<exists>rid. path' \<in> set (relation_branches view index plan pattern path rid))"
proof -
  have "rid \<in> set (incident index (pa_current path) (pp_from_role pattern))"
    if "path' \<in> set (relation_branches view index plan pattern path rid)" for rid
    using assms that unfolding in_relation_branches well_indexed_def follows_pattern_def by blast
  then show ?thesis by (auto simp: path_branches_def)
qed

lemma ex_path_branches:
  assumes "well_indexed index"
  shows "(\<exists>path'\<in>set (path_branches view index plan pattern path). P path') \<longleftrightarrow>
    (\<exists>rid relation. map_of (gi_relations index) rid = Some relation \<and> follows_pattern plan pattern path relation
       \<and> in_view view relation \<and> (\<exists>p\<in>set (targets_of pattern relation). P (extend_path pattern path rid relation p)))"
  unfolding Bex_def in_path_branches [OF assms] in_relation_branches by blast

lemma set_next_level:
  assumes "well_indexed index"
  shows "path' \<in> set (next_level view index plan patterns frontier) \<longleftrightarrow> (\<exists>path\<in>set frontier. reaches view index plan patterns path path')"
proof (induction patterns arbitrary: frontier)
  case (Cons pattern patterns)
  show ?case by (simp add: Cons ex_path_branches [OF assms])
qed auto

lemma reaches_current:
  "reaches view index plan patterns path path' \<Longrightarrow> pa_current path = last (pa_resource_path path) \<Longrightarrow> pa_current path' = last (pa_resource_path path')"
proof (induction patterns arbitrary: path)
  case (Cons pattern patterns)
  then obtain rid relation p where "reaches view index plan patterns (extend_path pattern path rid relation p) path'" by auto
  then show ?case by (rule Cons.IH) (simp add: extend_path_def)
qed simp

lemma entries_group:
  "entries (fold (\<lambda>path. btree_append (pa_current path) (path_evidence path)) frontier m) i
     = entries m i @ map path_evidence (filter (\<lambda>path. pa_current path = i) frontier)"
  by (induction frontier arbitrary: m) auto

lemma group_sorted: "sorted_wrt (<) (map fst m) \<Longrightarrow>
    sorted_wrt (<) (map fst (fold (\<lambda>path. btree_append (pa_current path) (path_evidence path)) frontier m))"
  by (induction frontier arbitrary: m) (simp_all add: sorted_btree_append)

lemma set_group_paths: "(i, paths) \<in> set (group_paths frontier) \<Longrightarrow> paths = map path_evidence (filter (\<lambda>path. pa_current path = i) frontier)"
  using entries_group [of frontier "[]" i] group_sorted [of "[]" frontier]
  by (simp add: group_paths_def sorted_entries entries_def)

lemma group_keys: "pa_current path \<in> fst ` set (group_paths frontier)" if "path \<in> set frontier"
proof -
  have "fst ` set (fold (\<lambda>path. btree_append (pa_current path) (path_evidence path)) frontier m) = fst ` set m \<union> pa_current ` set frontier" for m
    by (induction frontier arbitrary: m) (auto simp: btree_append_keys)
  then show ?thesis using that by (simp add: group_paths_def)
qed

lemma set_graph_hits:
  "(\<exists>hit\<in>set (graph_hits fmt generation frontier). fc_resource_ref (gh_candidate hit) = Some i \<and> evidence \<in> set (gh_paths hit))
    \<longleftrightarrow> (\<exists>path\<in>set frontier. pa_current path = i \<and> path_evidence path = evidence)"
proof
  assume "\<exists>path\<in>set frontier. pa_current path = i \<and> path_evidence path = evidence"
  then obtain path where path: "path \<in> set frontier" "pa_current path = i" "path_evidence path = evidence" by blast
  then obtain paths where "(i, paths) \<in> set (group_paths frontier)" using group_keys [of path frontier] by auto
  moreover from this have "evidence \<in> set paths" using path set_group_paths [of i paths frontier] by auto
  ultimately show "\<exists>hit\<in>set (graph_hits fmt generation frontier). fc_resource_ref (gh_candidate hit) = Some i \<and> evidence \<in> set (gh_paths hit)"
    by (force simp: graph_hits_def graph_candidate_def)
next
  assume "\<exists>hit\<in>set (graph_hits fmt generation frontier). fc_resource_ref (gh_candidate hit) = Some i \<and> evidence \<in> set (gh_paths hit)"
  then obtain paths where "(i, paths) \<in> set (group_paths frontier)" "evidence \<in> set paths"
    by (auto simp: graph_hits_def graph_candidate_def)
  then show "\<exists>path\<in>set frontier. pa_current path = i \<and> path_evidence path = evidence"
    using set_group_paths [of i paths frontier] by auto
qed

subsection \<open>The traversal\<close>

definition search_loops ::
  "GenerationIndex \<Rightarrow> GraphTraversalPlan \<Rightarrow> seer \<Rightarrow> lookups \<Rightarrow> (traverse_error + PartialPath list \<times> nat) \<times> lookups" where
  "search_loops index plan = and_next (\<lambda>see. seed_loop see plan (btree_set (gp_seed_nodes plan)) [])
     (\<lambda>r see. case r of Inl e \<Rightarrow> Pair (Inl e) | Inr frontier \<Rightarrow> pattern_loop see index plan (gp_path_patterns plan) (frontier, 0))"

lemma search_loops_settled:
  "settled (allowed_state access index plan calls) (search_loops index plan) (resource_visible access index plan)"
  unfolding search_loops_def
proof (rule settled_next [OF graph_access.seed_loop_settled])
  fix r :: "traverse_error + PartialPath list"
  show "settled (allowed_state access index plan calls)
      (\<lambda>see. case r of Inl e \<Rightarrow> Pair (Inl e) | Inr frontier \<Rightarrow> pattern_loop see index plan (gp_path_patterns plan) (frontier, 0))
      (resource_visible access index plan)"
    by (cases r; simp only: sum.case) (intro graph_access.pattern_loop_settled settled_return)+
qed

definition seeds_in_view :: "(uuid \<rightharpoonup> bool) \<Rightarrow> GraphTraversalPlan \<Rightarrow> PartialPath list" where
  "seeds_in_view view plan = map seed_path (filter (\<lambda>i. view i = Some True) (btree_set (gp_seed_nodes plan)))"

lemma in_seeds_in_view:
  "path \<in> set (seeds_in_view view plan) \<longleftrightarrow> (\<exists>seed\<in>set (gp_seed_nodes plan). view seed = Some True \<and> path = seed_path seed)"
  by (auto simp: seeds_in_view_def btree_set_def)

lemma search_loops_fixed:
  assumes "well_indexed index"
  shows "(\<exists>e. fst (search_loops index plan (fixed_view view) st) = Inr (paths, e)) \<longleftrightarrow>
    length (seeds_in_view view plan) \<le> tb_max_paths (gp_expansion_budget plan)
    \<and> affordable view index plan (gp_path_patterns plan) (seeds_in_view view plan) 0
    \<and> paths = next_level view index plan (gp_path_patterns plan) (seeds_in_view view plan)"
proof -
  obtain s sst where s: "seed_loop (fixed_view view) plan (btree_set (gp_seed_nodes plan)) [] st = (s, sst)" by fastforce
  have seeds: "s = Inr frontier \<longleftrightarrow> frontier = seeds_in_view view plan \<and> length frontier \<le> tb_max_paths (gp_expansion_budget plan)" for frontier
    using seed_loop_fixed [of "[]" plan view "btree_set (gp_seed_nodes plan)" st frontier] s by (simp add: seeds_in_view_def)
  show ?thesis
  proof (cases "length (seeds_in_view view plan) \<le> tb_max_paths (gp_expansion_budget plan)")
    case True
    then have "s = Inr (seeds_in_view view plan)" using seeds by simp
    then show ?thesis
      using s True pattern_loop_fixed [OF assms, of 0 plan view "gp_path_patterns plan" "seeds_in_view view plan" sst paths]
      by (auto simp: search_loops_def and_next_def)
  next
    case False
    then have "\<exists>x. s = Inl x" using seeds by (cases s) auto
    then show ?thesis using s False by (auto simp: search_loops_def and_next_def)
  qed
qed

lemma traverse_ok:
  assumes "traverse fmt access generation index plan calls = (r, st)" and "well_indexed index"
  defines "view \<equiv> lk_cache st" and "budget \<equiv> gp_expansion_budget plan"
  shows "allowed_state access index plan calls st"
    and "r = Inr hits \<longleftrightarrow> is_ok (plan_validate plan) \<and> length (gp_path_patterns plan) \<le> tb_max_hops budget
      \<and> length (seeds_in_view view plan) \<le> tb_max_paths budget
      \<and> affordable view index plan (gp_path_patterns plan) (seeds_in_view view plan) 0
      \<and> hits = graph_hits fmt generation (next_level view index plan (gp_path_patterns plan) (seeds_in_view view plan))"
proof -
  let ?start = "\<lparr>lk_cache = Map.empty, lk_calls = calls\<rparr>"
  let ?valid = "is_ok (plan_validate plan) \<and> length (gp_path_patterns plan) \<le> tb_max_hops budget"
  obtain r' st' where run: "search_loops index plan (resource_visible access index plan) ?start = (r', st')" by fastforce
  have start: "allowed_state access index plan calls ?start" by (simp add: allowed_state_def)
  note fin = settledD [OF search_loops_settled run start]
  have "allowed_state access index plan calls st \<and> (r = Inr hits \<longleftrightarrow> ?valid
      \<and> (\<exists>paths. (\<exists>e. fst (search_loops index plan (fixed_view view) ?start) = Inr (paths, e)) \<and> hits = graph_hits fmt generation paths))"
  proof (cases ?valid)
    case True
    then have "st = st'" and r: "r = (case r' of Inl e \<Rightarrow> Inl e | Inr (paths, _) \<Rightarrow> Inr (graph_hits fmt generation paths))"
      using assms(1) run
      by (auto simp: traverse_def search_loops_def and_next_def Let_def budget_def is_ok_iff split: sum.splits prod.splits)
    then have "search_loops index plan (fixed_view view) ?start = (r', ?start)" using fin(3) [of view ?start] by (simp add: view_def)
    then show ?thesis using True fin(1) r \<open>st = st'\<close> by (auto split: sum.splits prod.splits)
  next
    case False
    then show ?thesis using assms(1) start by (auto simp: traverse_def Let_def budget_def is_ok_iff split: sum.splits if_splits)
  qed
  then show "allowed_state access index plan calls st"
    and "r = Inr hits \<longleftrightarrow> is_ok (plan_validate plan) \<and> length (gp_path_patterns plan) \<le> tb_max_hops budget
      \<and> length (seeds_in_view view plan) \<le> tb_max_paths budget
      \<and> affordable view index plan (gp_path_patterns plan) (seeds_in_view view plan) 0
      \<and> hits = graph_hits fmt generation (next_level view index plan (gp_path_patterns plan) (seeds_in_view view plan))"
    unfolding search_loops_fixed [OF assms(2)] budget_def by auto
qed

lemma push_branches_no_panic: "push_branches budget n ps branches \<noteq> Inl GraphPanic"
  by (induction ps arbitrary: branches) auto

lemma relation_loop_no_panic:
  assumes "\<forall>rid\<in>set rids. map_of (gi_relations index) rid \<noteq> None"
  shows "fst (relation_loop see index plan pattern path n expanded rids s st) \<noteq> Inl GraphPanic"
  using assms
proof (induction rids arbitrary: s st)
  case (Cons rid rids)
  then show ?case using push_branches_no_panic
    by (cases s) (auto split: option.splits prod.splits bool.splits sum.splits)
qed simp

lemma path_loop_no_panic: "well_indexed index \<Longrightarrow> fst (path_loop see index plan pattern paths s st) \<noteq> Inl GraphPanic"
proof (induction paths arbitrary: s st)
  case (Cons path paths)
  obtain found expanded where s: "s = (found, expanded)" by fastforce
  have "fst (relation_loop see index plan pattern path (length found) expanded
      (incident index (pa_current path) (pp_from_role pattern)) ([], 0) st) \<noteq> Inl GraphPanic"
    using Cons.prems by (intro relation_loop_no_panic) (auto simp: well_indexed_def)
  then show ?case using Cons by (auto simp: s split: prod.splits sum.splits)
qed simp

lemma pattern_loop_no_panic: "well_indexed index \<Longrightarrow> fst (pattern_loop see index plan patterns s st) \<noteq> Inl GraphPanic"
proof (induction patterns arbitrary: s st)
  case (Cons pattern patterns)
  obtain frontier expanded where s: "s = (frontier, expanded)" by fastforce
  show ?case using Cons path_loop_no_panic [OF Cons.prems, of see plan pattern frontier "([], expanded)" st]
    by (auto simp: s split: prod.splits sum.splits)
qed simp

lemma seed_loop_no_panic: "fst (seed_loop see plan seeds frontier st) \<noteq> Inl GraphPanic"
  by (induction seeds arbitrary: frontier st) (auto split: prod.splits bool.splits)

lemma traverse_no_panic: "well_indexed index \<Longrightarrow> fst (traverse fmt access generation index plan calls) \<noteq> Inl GraphPanic"
  using seed_loop_no_panic pattern_loop_no_panic [of index]
  by (auto simp: traverse_def Let_def split: sum.splits prod.splits) (metis fst_conv)+

text \<open>
  (C35) The traversal of a built generation is exact. Let a resource be in view if the evaluation recorded it as visible: then it was
  a resource of the generation, valid at the target time, and access was granted to it during this traversal, although the
  evaluator may change its mind. A traversal succeeds exactly if the plan is valid and the paths in view fit the
  budgets for hops, paths, branches and relations. Its hits are exactly the paths from seeds in view, each under the resource it ends at, whose steps
  follow relations of the generation that the plan allows and the pattern of the step matches, with every
  participant in view; the incidence index misses none and names no relation that is not there.
\<close>

theorem graph_search_exact:
  assumes "build_generation manifest source_id mode projections generations = (generations', Inr ())"
    and "retrieve_graph fmt access generations' (manifest_key manifest) plan calls = (r, st)"
  defines "view \<equiv> lk_cache st"
  shows "\<exists>index. generations' (manifest_key manifest) = Some index
    \<and> (\<forall>i. view i = Some True \<longrightarrow> was_allowed access index plan calls (lk_calls st) i)
    \<and> r \<noteq> Inl GraphPanic
    \<and> ((\<exists>hits. r = Inr hits) \<longleftrightarrow> is_ok (plan_validate plan)
        \<and> length (gp_path_patterns plan) \<le> tb_max_hops (gp_expansion_budget plan)
        \<and> length (seeds_in_view view plan) \<le> tb_max_paths (gp_expansion_budget plan)
        \<and> affordable view index plan (gp_path_patterns plan) (seeds_in_view view plan) 0)
    \<and> (\<forall>hits i evidence. r = Inr hits \<longrightarrow>
        (\<exists>hit\<in>set hits. fc_resource_ref (gh_candidate hit) = Some i \<and> evidence \<in> set (gh_paths hit))
        \<longleftrightarrow> (\<exists>seed\<in>set (gp_seed_nodes plan). \<exists>path. view seed = Some True
              \<and> reaches view index plan (gp_path_patterns plan) (seed_path seed) path
              \<and> pa_current path = i \<and> path_evidence path = evidence))"
proof -
  obtain index where index: "generations' (manifest_key manifest) = Some index" and wf: "well_indexed index"
    using built_index [OF assms(1)] .
  then have run: "traverse fmt access (manifest_key manifest) index plan calls = (r, st)"
    using assms(2) by (simp add: retrieve_graph_def)
  note ok = traverse_ok [OF run wf, folded view_def]
  have "\<forall>i. view i = Some True \<longrightarrow> was_allowed access index plan calls (lk_calls st) i"
    using ok(1) by (simp add: allowed_state_def view_def)
  moreover have "(\<exists>hit\<in>set hits. fc_resource_ref (gh_candidate hit) = Some i \<and> evidence \<in> set (gh_paths hit))
      \<longleftrightarrow> (\<exists>seed\<in>set (gp_seed_nodes plan). \<exists>path. view seed = Some True
            \<and> reaches view index plan (gp_path_patterns plan) (seed_path seed) path
            \<and> pa_current path = i \<and> path_evidence path = evidence)" if "r = Inr hits" for hits i evidence
  proof -
    have "hits = graph_hits fmt (manifest_key manifest) (next_level view index plan (gp_path_patterns plan) (seeds_in_view view plan))"
      using that ok(2) by blast
    then show ?thesis
      by (simp only: set_graph_hits) (simp only: Bex_def set_next_level [OF wf] in_seeds_in_view, blast)
  qed
  moreover have "r \<noteq> Inl GraphPanic" using traverse_no_panic [OF wf] run by (metis fst_conv)
  ultimately show ?thesis using index ok(2) by blast
qed

end
