(* ===== verification/Search_Examples.thy ===== *)
theory Search_Examples
  imports Search_Discovery_Props Search_Graph_Exact
begin

text \<open>
  Concrete candidates, assertions and claims on which the properties of the search decisions are applied.
\<close>

subsection \<open>Predicates\<close>

definition no_concepts :: concept_resolver where
  "no_concepts = \<lparr>cr_same_concept = (\<lambda>_ _. TUnknown), cr_is_a = (\<lambda>_ _. TUnknown), cr_descendant_of = (\<lambda>_ _. TUnknown)\<rparr>"

definition region_fact :: FactSet where
  "region_fact = [lit ''region'' \<mapsto> Fact_new (TInteger 1) ExplicitFact]"

definition region_and_phase :: FactSet where
  "region_and_phase = region_fact(lit ''phase'' \<mapsto> Fact_new (TInteger 7) InferredFact)"

definition region_is :: PredicateExpr where
  "region_is = PEq (OperandFact (lit ''region'')) (OperandValue (TInteger 1))"

definition phase_is :: PredicateExpr where
  "phase_is = PEq (OperandFact (lit ''phase'')) (OperandValue (TInteger 7))"

lemmas example_eval = evaluate_def at_depth.simps MAX_PREDICATE_DEPTH_def binary_def resolve_operand_def values_equal_def
  values_equal_at_depth.simps compare_values_def cmp_def truth_from_bool_def combine_or_def combine_and_def or_step_def and_step_def
  region_fact_def region_and_phase_def region_is_def phase_is_def Fact_new_def lit_def

lemma example_verdicts:
  "evaluate (POr [region_is, phase_is]) region_fact no_concepts = TTrue"
  "evaluate region_is region_fact c = TTrue" "evaluate region_is region_and_phase c = TTrue"
  "evaluate phase_is region_fact c = TUnknown" "evaluate phase_is region_and_phase c = TTrue"
  by (simp_all add: example_eval)

theorem verdicts_survive_new_facts_witness:
  "evaluate (POr [region_is, phase_is]) region_fact no_concepts = TTrue
   \<and> evaluate (POr [region_is, phase_is]) region_and_phase no_concepts \<in> {TTrue, TError}"
proof -
  have "facts_extend region_fact region_and_phase"
    by (auto simp: facts_extend_def region_fact_def region_and_phase_def Fact_new_def lit_def)
  moreover have "open_world (POr [region_is, phase_is])" by (simp add: region_is_def phase_is_def)
  ultimately show ?thesis
    using verdicts_survive_new_facts [of region_fact region_and_phase "POr [region_is, phase_is]" no_concepts] example_verdicts(1)
    by simp
qed

subsection \<open>Applicability\<close>

definition known_candidate :: FederatedCandidate where
  "known_candidate = (FederatedCandidate_new (lit ''c'') DurableResource 3 (lit ''directory''))\<lparr>fc_resource_ref := Some 11\<rparr>"

definition region_rule :: Discriminator where
  "region_rule = Discriminator_new (lit ''region'') HardRule region_is"

definition phase_rule :: Discriminator where
  "phase_rule = (Discriminator_new (lit ''stage'') HardRule phase_is)\<lparr>di_minimum_fact_evidence := NotInferred\<rparr>"

lemma mentioned_examples: "mentioned region_is = [lit ''region'']" "mentioned phase_is = [lit ''phase'']"
  by (simp_all add: mentioned.simps region_is_def phase_is_def leaf_keys_def pushed_children_def operand_keys_def)

lemma trusted_examples: "trusted facts region_rule" "\<not> trusted region_and_phase phase_rule"
  by (auto simp: trusted_def region_rule_def phase_rule_def Discriminator_new_def mentioned_examples region_and_phase_def
      region_fact_def Fact_new_def lit_def)

theorem hard_gates_decide_witness:
  "qualify (evaluate_applicability known_candidate region_fact [region_rule] no_concepts) known_candidate \<noteq> None
   \<and> ae_state (evaluate_applicability known_candidate region_and_phase [region_rule, phase_rule] no_concepts) = AppUnresolved
   \<and> ae_gaps (evaluate_applicability known_candidate region_and_phase [region_rule, phase_rule] no_concepts)
       = [rule_gap region_and_phase phase_rule]"
proof -
  have preds: "di_predicate region_rule = region_is" "di_predicate phase_rule = phase_is"
    "di_importance region_rule = HardRule" "di_importance phase_rule = HardRule" "fc_resource_ref known_candidate = Some 11"
    by (simp_all add: region_rule_def phase_rule_def Discriminator_new_def known_candidate_def)
  have "qualify (evaluate_applicability known_candidate region_fact [region_rule] no_concepts) known_candidate \<noteq> None"
    using hard_gates_decide [of known_candidate region_fact "[region_rule]" no_concepts]
    by (simp add: preds trusted_examples example_verdicts)
  moreover have "ae_state (evaluate_applicability known_candidate region_and_phase [region_rule, phase_rule] no_concepts) = AppUnresolved"
    using hard_gates_decide [of known_candidate region_and_phase "[region_rule, phase_rule]" no_concepts]
    by (simp add: preds trusted_examples example_verdicts)
  moreover have "ae_gaps (evaluate_applicability known_candidate region_and_phase [region_rule, phase_rule] no_concepts)
      = [rule_gap region_and_phase phase_rule]"
    using hard_gates_decide [of known_candidate region_and_phase "[region_rule, phase_rule]" no_concepts]
    by (simp add: preds trusted_examples example_verdicts)
  ultimately show ?thesis by blast
qed

subsection \<open>Authority\<close>

definition curated_one :: Assertion where
  "curated_one = Assertion_new (lit ''s'') (lit ''owner'') (TInteger 1) (lit ''a'') AssertedCurated (lit ''hr'') 0"

definition inferred_two :: Assertion where
  "inferred_two = Assertion_new (lit ''s'') (lit ''owner'') (TInteger 2) (lit ''b'') AssertedInferred (lit ''hr'') 0"

definition generous_policy :: AuthorityPolicy where
  "generous_policy = grant_rank (lit ''hr'') (lit ''owner'') AssertedInferred 9
     (grant_rank (lit ''hr'') (lit ''owner'') AssertedCurated 1 \<lparr>ap_ranks = Map.empty\<rparr>)"

theorem authority_respected_witness:
  "resolve_assertions [inferred_two, curated_one] generous_policy (lit ''s'') (lit ''owner'') (lit ''hr'')
     = resolve_assertions [curated_one] generous_policy (lit ''s'') (lit ''owner'') (lit ''hr'')
   \<and> resolve_assertions [curated_one] generous_policy (lit ''s'') (lit ''owner'') (lit ''hr'') = AuthorityResolved (TInteger 1)"
proof -
  have "in_scope_ranked generous_policy (lit ''s'') (lit ''owner'') (lit ''hr'') curated_one 1" "is_protected curated_one"
    by (simp_all add: in_scope_ranked_def curated_one_def Assertion_new_def generous_policy_def grant_rank_def rank_of_def is_protected_def)
  moreover have "filter (\<lambda>a. as_origin a \<noteq> AssertedInferred) [inferred_two, curated_one] = [curated_one]"
    by (simp add: curated_one_def inferred_two_def Assertion_new_def)
  moreover have "resolve_assertions [curated_one] generous_policy (lit ''s'') (lit ''owner'') (lit ''hr'') = AuthorityResolved (TInteger 1)"
    by (simp add: resolve_assertions_def scoped_assertions_def eligible_assertions_def curated_one_def Assertion_new_def rank_of_def
        generous_policy_def grant_rank_def push_value_def map_filter_simps is_protected_def)
  ultimately show ?thesis
    using authority_respected [of "[inferred_two, curated_one]" generous_policy "lit ''s''" "lit ''owner''" "lit ''hr''"] by auto
qed

subsection \<open>Evidence\<close>

definition supported_claim :: EvidenceClaim where
  "supported_claim = (EvidenceClaim_new 5 ClaimSupported)\<lparr>cl_evidence_refs :=
     [EvidenceReference_new 1 (lit ''registry'') RolePrimary, EvidenceReference_new 2 (lit ''ledger '') RoleCorroborating]\<rparr>"

definition two_sources :: EvidenceRequirement where
  "two_sources = (EvidenceRequirement_new [5])\<lparr>rq_minimum_independent_sources := 2\<rparr>"

theorem sufficient_evidence_earned_witness:
  "evaluate_evidence_sufficiency two_sources [supported_claim] = EvidenceSufficient
   \<and> claim_settled 2 (filter (\<lambda>claim. cl_claim_id claim = 5) [supported_claim])"
proof -
  have "evaluate_evidence_sufficiency two_sources [supported_claim] = EvidenceSufficient" by code_simp
  then show ?thesis using sufficient_evidence_earned [of two_sources "[supported_claim]"]
    by (simp add: two_sources_def EvidenceRequirement_new_def)
qed

subsection \<open>The graph\<close>

definition small_manifest :: ProjectionGenerationManifest where
  "small_manifest = \<lparr>pm_source_id = 3, pm_generation_id = 4, pm_projection_schema_version = lit ''1'', pm_lens_version = 1,
     pm_semantic_registry_version = lit ''1'', pm_analyzer_version = None, pm_embedding_model_version = None,
     pm_graph_schema_version = Some (lit ''typed-nary-v1''), pm_source_snapshot = lit ''s'', pm_resource_count = 2,
     pm_relation_count = Some 1, pm_coverage = CompleteEnumeration, pm_digest = lit ''d'', pm_built_at = 0\<rparr>"

definition small_relation :: TypedRelationInstance where
  "small_relation = TypedRelationInstance_new 9 NsSemantic (lit ''applies'')
     [\<lparr>rp_role = lit ''to'', rp_resource_ref = 2\<rparr>, \<lparr>rp_role = lit ''from'', rp_resource_ref = 1\<rparr>]"

definition small_projection :: "uuid \<Rightarrow> CompiledResourceProjection" where
  "small_projection i = \<lparr>cp_manifest = small_manifest, cp_retention_mode = PersistentResource,
     cp_directory = \<lparr>dp_resource_ref = i, dp_resource_version = None, dp_kind = KindKnowledge, dp_canonical_name = lit ''n'',
       dp_title = None, dp_aliases = []\<rparr>,
     cp_structured = \<lparr>sp_resource_ref = i, sp_concept_refs = [], sp_high_signal_facets = [], sp_typed_facets = [],
       sp_assertions = [], sp_authority_resolutions = []\<rparr>,
     cp_temporal = \<lparr>tj_resource_ref = i, tj_valid_from = None, tj_valid_to = None,
       tj_profile = \<lparr>tp_freshness_anchor_at = None, tp_freshness_basis = None, tp_effective_from = None, tp_effective_to = None\<rparr>\<rparr>,
     cp_access = \<lparr>aj_resource_ref = i, aj_access_scope = None, aj_source_access_model = None\<rparr>,
     cp_relations = [small_relation]\<rparr>"

definition traversal_plan :: GraphTraversalPlan where
  "traversal_plan = \<lparr>gp_seed_nodes = [1, 7],
     gp_path_patterns = [RelationPathPattern_new NsSemantic (lit ''applies'') (lit ''from'') (lit ''to'')],
     gp_allowed_relation_types = [lit ''applies''], gp_allowed_namespaces = [NsSemantic], gp_authority_requirement = None,
     gp_temporal_context = Some (TemporalEvaluationContext_new 1 0 0 (lit ''UTC'')), gp_access_context = lit ''u'',
     gp_expansion_budget = \<lparr>tb_max_hops = 1, tb_max_relations = 1, tb_max_branching_per_node = 1, tb_max_seed_nodes = 2, tb_max_paths = 1\<rparr>,
     gp_stop_conditions = []\<rparr>"

definition fickle_access :: access_evaluator where
  "fickle_access n i context = (if n < 2 then Some AccessAllowed else None)"

definition small_generations :: graph_generations where
  "small_generations = fst (build_generation small_manifest 3 PersistentResource [small_projection 1, small_projection 2] Map.empty)"

definition small_search :: "(traverse_error + GraphRetrievalHit list) \<times> lookups" where
  "small_search = retrieve_graph (\<lambda>_. []) fickle_access small_generations (manifest_key small_manifest) traversal_plan 0"

lemma small_built: "snd (build_generation small_manifest 3 PersistentResource [small_projection 1, small_projection 2] Map.empty) = Inr ()"
  by code_simp

lemma small_found:
  "(case fst small_search of Inr [hit] \<Rightarrow> fc_resource_ref (gh_candidate hit) = Some 2 \<and> gh_paths hit \<noteq> [] | _ \<Rightarrow> False)"
  by code_simp

theorem graph_search_exact_witness:
  "\<exists>index path. small_generations (manifest_key small_manifest) = Some index
     \<and> was_allowed fickle_access index traversal_plan 0 (lk_calls (snd small_search)) 1
     \<and> reaches (lk_cache (snd small_search)) index traversal_plan (gp_path_patterns traversal_plan) (seed_path 1) path
     \<and> pa_current path = 2"
proof -
  have built: "build_generation small_manifest 3 PersistentResource [small_projection 1, small_projection 2] Map.empty = (small_generations, Inr ())"
    using small_built by (simp add: small_generations_def prod_eq_iff)
  have run: "retrieve_graph (\<lambda>_. []) fickle_access small_generations (manifest_key small_manifest) traversal_plan 0
      = (fst small_search, snd small_search)"
    by (simp add: small_search_def)
  obtain hit where hit: "fst small_search = Inr [hit]" "fc_resource_ref (gh_candidate hit) = Some 2" "gh_paths hit \<noteq> []"
    using small_found by (auto split: sum.splits list.splits)
  then obtain evidence where evidence: "evidence \<in> set (gh_paths hit)" by (cases "gh_paths hit") auto
  obtain index where index: "small_generations (manifest_key small_manifest) = Some index"
    and allowed: "\<forall>i. lk_cache (snd small_search) i = Some True \<longrightarrow> was_allowed fickle_access index traversal_plan 0 (lk_calls (snd small_search)) i"
    and found: "\<forall>hits i evidence. fst small_search = Inr hits \<longrightarrow>
        (\<exists>hit\<in>set hits. fc_resource_ref (gh_candidate hit) = Some i \<and> evidence \<in> set (gh_paths hit))
        \<longleftrightarrow> (\<exists>seed\<in>set (gp_seed_nodes traversal_plan). \<exists>path. lk_cache (snd small_search) seed = Some True
              \<and> reaches (lk_cache (snd small_search)) index traversal_plan (gp_path_patterns traversal_plan) (seed_path seed) path
              \<and> pa_current path = i \<and> path_evidence path = evidence)"
    using graph_search_exact [OF built run] by blast
  obtain seed path where seed: "seed \<in> set (gp_seed_nodes traversal_plan)" "lk_cache (snd small_search) seed = Some True"
    and path: "reaches (lk_cache (snd small_search)) index traversal_plan (gp_path_patterns traversal_plan) (seed_path seed) path" "pa_current path = 2"
    using found [rule_format, OF hit(1), of 2 evidence] hit(2) evidence by (simp del: reaches.simps) blast
  have "lk_cache (snd small_search) 7 = Some False" by code_simp
  then have "seed = 1" using seed by (auto simp: traversal_plan_def)
  then show ?thesis using index allowed seed path by blast
qed

end
