(* ===== verification/Spec2Isabelle.thy ===== *)
theory Spec2Isabelle
  imports Workflow_Examples Doc_Examples Relay_Table_Examples Search_Examples
begin

text \<open>
  Verification of the domain, audit and search core crates of the Knowledge Platform (a Rust workspace under
  \<open>src/crates\<close>). The platform keeps documents and the work people and agents do on them; what
  happens to documents is staged as events in an outbox and relayed into an append-only, hash
  chained audit store.

  \<^bold>\<open>The parts and how they interact.\<close>
  \<^item> \<open>work-domain\<close>: an organization policy (roles, assignments, delegations) and a workflow aggregate
    of two tasks that is evaluated under it. Commands name the assignment they act under and the
    task revision they were prepared for; agents run on dispatch contexts built from a task and
    return candidates that people decide on.
  \<^item> \<open>document-domain\<close>: documents, their versions and life cycle, version manifests with their identity
    digest, file descriptors, access policies. \<open>document-diff-core\<close> aligns the items of two versions.
  \<^item> \<open>outbox-delivery\<close>: retry policy and the runner that claims outbox rows, keeps their leases and
    settles them. It calls a store of claims, an admission gate and a handler through traits.
  \<^item> \<open>audit-core\<close>: the event catalog, the validation of envelopes, the projection of staging rows, the
    hash chain and the verification of exports, and the port of the audit store.
  \<^item> \<open>audit-relay\<close>: implements the runner's traits. A breaker with a regression gate admits claims, the
    handler projects and sends a row, a ledger carries what the store answered to the settlement,
    and a delivery table in the document database (SQL functions of its migration) keeps the
    state of every delivery. Reconciliation compares the table with the receipts of the store and repairs
    it; a replay releases a quarantined row.
  \<^item> \<open>search-core\<close>: the decisions of discovery, as pure functions over facts, assertions, claims and
    relations that the search services gather: four-valued predicates, applicability of a candidate,
    authority between assertions, sufficiency of evidence, identity, freshness, bindings, traversal plans.
    \<open>search-graph-memory\<close> indexes the typed relations of a generation and traverses them within budgets.

  \<^bold>\<open>Theories and code.\<close> Definitions carry the names of the source; a theory with the suffix
  \<open>Props\<close>, \<open>Safety\<close> or a topic holds lemmas about the theory before it.
  \<^descr>[Prelude] results, checked integers, text, first-match vector operations; the locales
    \<open>guarded_machine\<close>, \<open>growing_machine\<close>, \<open>versioned_machine\<close> and \<open>step_refinement\<close>, which the
    policy, the workflow and the document interpret.
  \<^descr>[Work_Base, Work_Records, Organization, Work_Context] constants, records and the policy of
    \<open>work-domain/src/lib.rs\<close>, \<open>organization.rs\<close>, \<open>context.rs\<close>; \<open>Organization_Props\<close> and
    \<open>Organization_Safety\<close> hold integrity, authority, non-escalation and revocation.
  \<^descr>[Workflow_Read, Work_Evidence, Work_Agent, Work_Files, Workflow_Apply] the read side, the
    records of \<open>evidence.rs\<close>, executions and results of \<open>agent.rs\<close> and \<open>agent_result.rs\<close>, \<open>files.rs\<close>,
    and the seventeen commands with integrity check and authorization. \<open>Workflow_Frame\<close>,
    \<open>Workflow_History\<close>, \<open>Workflow_Steps\<close>, \<open>Workflow_Runs\<close>, \<open>Workflow_Tasks\<close>, \<open>Workflow_States\<close>
    show what each operation changes, that the record only grows, and that the two tasks follow
    an abstract task machine; \<open>Workflow_Safety\<close>, \<open>Workflow_Agents\<close>, \<open>Workflow_Disclosure\<close> state the
    results over whole histories.
  \<^descr>[Doc_Values, Doc_Lifecycle, Doc_Access, Doc_Manifest, Diff_Alignment] the files of
    \<open>document-domain\<close> and \<open>alignment.rs\<close>; \<open>Doc_History\<close> is the state machine of a document with its
    invariant, \<open>Doc_Refinement\<close> shows by the locale \<open>request_refinement\<close> that every request is accepted
    or refused as the abstract life cycle says, \<open>Doc_Identity\<close> the injectivity of the manifest digest over the locale
    \<open>prefix_code\<close>, \<open>Diff_Props\<close> the partition of the items.
  \<^descr>[Outbox_Policy, Outbox_Runner] \<open>policy.rs\<close> and \<open>model.rs\<close>, and \<open>runner.rs\<close> as an automaton over the
    answers it receives; \<open>Outbox_Fencing\<close> shows that settlements are fenced and permits released.
  \<^descr>[Audit_Json, Audit_Kinds, Audit_Catalog, Audit_Envelope, Audit_Legacy, Audit_Export, Audit_Recovery, Audit_Port]
    the files of \<open>audit-core/src\<close> in this order. \<open>Audit_Json_Props\<close>, \<open>Audit_Canonical\<close> and
    \<open>Audit_Admission\<close> treat accepted values, \<open>Audit_Tamper\<close> and \<open>Audit_Expiry\<close> what a verified
    export establishes, \<open>Audit_Port_Props\<close> the errors of the store.
  \<^descr>[Relay_Ledger, Relay_Breaker, Relay_Handler] \<open>ledger.rs\<close> (refining the queue of the locale
    \<open>note_box\<close>), \<open>breaker.rs\<close>, \<open>handler.rs\<close> with the settlement of \<open>source.rs\<close>; \<open>Relay_Admission\<close> and
    \<open>Relay_Delivery\<close> hold their properties.
  \<^descr>[Relay_Source] the tables, constraints, guard trigger and functions of
    \<open>audit-relay/migrations/0001_audit_relay_v1.sql\<close>. \<open>Relay_Rows\<close> gives the moves of one row as a
    relation, \<open>Relay_Table\<close> shows that every call is made of such moves, \<open>Relay_Evidence\<close> what follows for
    sequences of calls, \<open>Relay_Progress\<close> that no row starves, and \<open>Relay_Settlement\<close> that the Rust side calls the SQL side with
    arguments it accepts.
  \<^descr>[Relay_Reconcile] \<open>reconcile.rs\<close> and \<open>replay.rs\<close>; \<open>Relay_Reconcile_Props\<close> shows by the locale
    \<open>cursor\<close> that the loops over pages end and are exact, \<open>Relay_Repair\<close> that repairs and replays are audited.
  \<^descr>[Search_Predicate, Search_Discovery] \<open>fact.rs\<close> and \<open>predicate.rs\<close>, and the decisions of
    \<open>search-core/src\<close> over them, one subsection per file. \<open>Search_Predicate_Props\<close> shows that decimals are ordered as
    the rationals and that more facts never reverse a verdict, \<open>Search_Equality\<close> that the equality
    of values satisfies the laws of the locale \<open>partial_equality\<close>, and \<open>Search_Discovery_Props\<close> what applicability, authority and
    evidence promise.
  \<^descr>[Search_Graph] \<open>index.rs\<close> and \<open>traversal.rs\<close> of \<open>search-graph-memory\<close> with the records of \<open>projection.rs\<close>.
    \<open>Search_Graph_Props\<close> treats the index and, by the locale \<open>cached_lookup\<close>, the cache of access decisions;
    \<open>Search_Graph_Exact\<close> shows that the traversal finds exactly the paths of its plan.
  \<^descr>[\<open>_Examples\<close>] concrete instances of the theorems that have hypotheses.

  \<^bold>\<open>What the properties say.\<close> The first properties concern the policy and the workflow: invariants over every
  history, authority and disclosure, no lost update, the refinement of a task machine, and, in
  this theory, the composition of policy and workflow (revocation, advertised claims). The
  next group concerns documents: the life cycle and its refinement, immutability, the identity
  digest, alignment, paths and access. The audit group covers admission of envelopes,
  canonical forms and the verification of exports. The relay group covers admission,
  delivery and fenced settlement, then the delivery table, reconciliation, repair and replay. The last
  group concerns the traversal of the graph and the decisions of discovery.

  \<^bold>\<open>Modelling decisions.\<close> A result is a sum with the error on the left; state is passed
  explicitly and every early return is a branch. \<open>u32\<close>, \<open>u64\<close> and \<open>i64\<close> are integers with checked bounds
  where the code checks them; the retry delay is computed in 64-bit words and the counters of the
  breaker wrap. Identifiers are integers; text is a list of code points with its UTF-8 length
  written out; instants and durations are integers (nanoseconds, and microseconds in SQL).
  Hash maps are maps or association lists with distinct keys. Code of other packages (clock,
  identifiers, normalization, SHA-256, the JSON tokenizer, PostgreSQL) is a parameter, and
  statements that depend on it name what they assume; digests are assumed nothing of but their
  length, so claims about them are up to collisions that the statement exhibits. Concurrent
  code is a sequence of atomic steps: the breaker's programs are run against arbitrary
  interleavings, the runner is an automaton over events, an SQL function is one
  transaction, and a repair run may stop after any statement; calls of others between the statements of
  one repair run are not modelled, those between the two statements of a replay are. The counters of the
  SQL tables are integers without the overflow error of their columns, the identity column of the history
  is numbered without the gaps a rollback may leave, and a registration of missing rows reads the clock
  once for all of them. Recursion is structural or has a
  measure; the page loops of the reconciliation are partial functions whose result is proved to exist
  for databases that do not change during the pass. No fuel is used.

  \<^bold>\<open>Not modelled.\<close> Serialization derived by macros, Debug output and metrics; asynchronous services,
  repositories, HTTP and server crates around the domain, whose state lives in SQL databases
  and whose logic is the mapping between rows and the modelled types; the SQL of the
  audit store, which appears as the answers of its port; the search services, text and vector
  indexes and stores, and of \<open>search-core\<close> the
  knowledge units and vectors; the inspection and diff workers,
  which are parsers over third-party packages; the claim projection, runtime report, health views
  and privilege checks of the relay's migration; process supervision and command lines.
\<close>

subsection \<open>The organization policy and the workflow\<close>

text \<open>
  (C5) Revocation reaches the work at once. After a manager revoked a role assignment, and after
  whatever further policy commands ran, nobody can act on or read a task held under that assignment
  in a workflow evaluated under the resulting policy, at any instant, and every command issued under
  it fails and leaves the workflow as it was.
\<close>

theorem revocation_stops_work:
  assumes "policy_apply h manager (RevokeRoleAssignment c i reason) now p = (p', Inr res)"
    and "workflow_policy w = run_machine (policy_step h) cs p'"
  shows "(wi_acting_assignment_id item = Some i \<longrightarrow> \<not> can_act h w who item action)
    \<and> (cc_acting_assignment_id (command_context command) = i \<longrightarrow>
         (\<exists>e. workflow_apply h who command at w = (w, Inl e)))"
proof -
  have none: "responsibility h (workflow_policy w) x i t = None" for x t
    using revocation_final [OF assms(1)] assms(2) by simp
  have "\<exists>e. workflow_apply h who command at w = (w, Inl e)"
    if acting: "cc_acting_assignment_id (command_context command) = i"
  proof (cases "apply_copy h who command at w")
    case (Inl e)
    then show ?thesis by (simp add: workflow_apply_def commit_def)
  next
    case (Inr x)
    then have "workflow_apply h who command at w = (fst x, Inr (snd x))"
      by (simp add: workflow_apply_def commit_def split: prod.splits)
    then show ?thesis
    proof (rule apply_effect)
      fix t
      assume "authorize_command h (at_instant t w) who command = Inr ()"
      from authorize_command_ok [OF this] acting none show ?thesis by simp
    qed
  qed
  moreover have "\<not> can_act h w who item action" if "wi_acting_assignment_id item = Some i"
    using that none by (auto simp: can_act_iff step_responsibility_Some)
  ultimately show ?thesis by blast
qed

text \<open>
  What the task list advertises is accepted: under a policy that passes its integrity check, the
  assignment a task summary offers for claiming authorizes exactly that claim.
\<close>

theorem advertised_claim_authorized:
  assumes "policy_validate_integrity h (workflow_policy w) = Inr ()"
    and "item_of w t = Inr item" and "ts_claim_assignment_id (summary h w actor item) = Some a"
    and "authorize_context c = Inr ()" and "cc_acting_assignment_id c = a"
  shows "authorize_command h w actor (Claim t c) = Inr () \<and> wi_state item = Ready \<and> wi_assignee item = None"
proof -
  from assms(3) obtain v where ready: "wi_state item = Ready" "wi_assignee item = None"
    and v: "eligible_in h w actor item WorkClaim None = Some v" "resp_id v = a"
    by (auto simp: summary_def summary_in_def Let_def split: if_splits)
  from v(1) obtain role where role: "step_role item = Some role"
    and f: "find (\<lambda>v. resp_role_id v = role \<and> allows v WorkClaim)
       (responsibilities h (workflow_policy w) actor (evaluated_at h w)) = Some v"
    by (auto simp: eligible_in_def split: option.splits)
  have "responsibility h (workflow_policy w) actor a (evaluated_at h w) = Some v"
    unfolding responsibility_lookup [OF assms(1)] using find_Some_in [OF f] v(2) by blast
  moreover have "step_role item = Some (resp_role_id v)" "allows v WorkClaim"
    using role find_Some_in [OF f] by auto
  ultimately have "authorize_command h w actor (Claim t c) = Inr ()"
    unfolding authorize_command_def Let_def command_context.simps command_task_id.simps assms(2,4,5)
    by (simp only: and_then_simps ok_or_simps Command.case required_action.simps simp_thms if_False)
  with ready show ?thesis by simp
qed

subsection \<open>Witnesses\<close>

theorem revocation_stops_work_witness:
  "\<exists>p'. (\<exists>e. workflow_apply example_host Sales01 example_submit [12] (with_authority example_drafted p' 10)
       = (with_authority example_drafted p' 10, Inl e))"
proof -
  let ?c = "RevokeRoleAssignment (example_context APPROVER_MANAGEMENT_ASSIGNMENT_ID) SALES_ASSIGNMENT_ID (lit ''because'')"
  let ?p = "fst (policy_apply example_host Approver01 ?c [10] synthetic_policy)"
  have "workflow_policy (with_authority example_drafted ?p 10) = run_machine (policy_step example_host) [] ?p"
    by (simp add: workflow_policy_def with_authority_def attach_authority_def)
  moreover have "cc_acting_assignment_id (command_context example_submit) = SALES_ASSIGNMENT_ID"
    by (simp add: example_submit_def sales_context_def)
  ultimately show ?thesis
    using revocation_stops_work [OF ok_pair [OF example_revoke_ok], of _ "[]"] by blast
qed

theorem advertised_claim_authorized_witness:
  "\<exists>w item. ts_claim_assignment_id (summary example_host w Sales01 item) = Some SALES_ASSIGNMENT_ID
     \<and> authorize_command example_host w Sales01 (Claim SALES_TASK_ID (example_context SALES_ASSIGNMENT_ID)) = Inr ()"
proof -
  let ?w = "example_start\<lparr>wf_source := (wf_source example_start)\<lparr>wi_state := Ready, wi_assignee := None\<rparr>\<rparr>"
  have "policy_validate_integrity example_host (workflow_policy ?w) = Inr ()" by code_simp
  moreover have "item_of ?w SALES_TASK_ID = Inr (wf_source ?w)"
    by (simp add: item_of_def example_start_def with_authority_def attach_authority_def synthetic_def)
  moreover have "ts_claim_assignment_id (summary example_host ?w Sales01 (wf_source ?w)) = Some SALES_ASSIGNMENT_ID"
    by code_simp
  moreover have "authorize_context (example_context SALES_ASSIGNMENT_ID) = Inr ()" by code_simp
  moreover have "cc_acting_assignment_id (example_context SALES_ASSIGNMENT_ID) = SALES_ASSIGNMENT_ID"
    by (simp add: example_context_def)
  ultimately show ?thesis using advertised_claim_authorized by blast
qed

end
